(* ===== verification/Prelude.thy ===== *)
theory Prelude
  imports Main "HOL-Library.Word"
begin

text \<open>
  Vocabulary shared by every component of the ShardScript development.

  \<^item> Wide characters. The engine works on \<^verbatim>\<open>wchar_t\<close> and \<^verbatim>\<open>std::wstring\<close>; on the platform
    the project names first (MSVC) a \<^verbatim>\<open>wchar_t\<close> is an unsigned 16-bit code unit and
    \<^verbatim>\<open>WEOF\<close> is \<^verbatim>\<open>0xFFFF\<close>. A code unit is a 16-bit word, a wide string a list of them.
    \<open>wc\<close> and \<open>L\<close> are the literals \<^verbatim>\<open>L'c'\<close> and \<^verbatim>\<open>L"..."\<close>.
  \<^item> Machine integers at their width, as type synonyms of words.
  \<^item> The generic facts on lists and options that the component proofs use, declared
    \<open>simp\<close> or collected in named theorems.
\<close>

section \<open>Named collections\<close>

named_theorems lex_defs \<open>unfolding rules of the lexer's primitive steps\<close>
named_theorems decode_simps \<open>rewriting of decoders applied to encoded bytes\<close>
named_theorems vm_simps \<open>unfolding rules of the virtual machine's primitive steps\<close>

section \<open>Wide characters\<close>

type_synonym wchar = "16 word"
type_synonym wstring = "wchar list"

definition wc :: "char \<Rightarrow> wchar" where
  "wc c = of_char c"

definition L :: "string \<Rightarrow> wstring" where
  "L s = map wc s"

abbreviation nl :: wchar where
  "nl \<equiv> wc CHR 0x0A"

abbreviation nul :: wchar where
  "nul \<equiv> wc CHR 0x00"

definition WEOF :: wchar where
  "WEOF = 0xFFFF"

lemma of_char_nat_less: "(of_char c :: nat) < 256"
  by (metis of_char_mod_256 mod_less_divisor zero_less_numeral)

lemma unat_wc: "unat (wc c) = of_char c"
proof -
  have "wc c = of_nat (of_char c)"
    by (simp add: wc_def of_nat_of_char)
  moreover have "(of_char c :: nat) mod 65536 = of_char c"
    by (rule mod_less) (rule order.strict_trans [OF of_char_nat_less], simp)
  ultimately show ?thesis
    by (simp add: unat_of_nat)
qed

lemma wc_eq_iff [simp]: "wc c = wc d \<longleftrightarrow> c = d"
proof
  assume "wc c = wc d"
  then have "unat (wc c) = unat (wc d)" by simp
  then have "(of_char c :: nat) = of_char d" by (simp only: unat_wc)
  then show "c = d" by simp
qed simp

lemma unat_wc_less: "unat (wc c) < 256"
  unfolding unat_wc by (rule of_char_nat_less)

lemma wc_neq_big: "256 \<le> unat w \<Longrightarrow> wc c \<noteq> w"
  using unat_wc_less [of c] by auto

lemma wc_neq_WEOF [simp]: "wc c \<noteq> WEOF" "WEOF \<noteq> wc c"
  by (auto simp: WEOF_def dest: sym intro!: wc_neq_big)

text \<open>The non-ASCII code units the sources name: byte order marks and the Greek question mark.\<close>

lemma wc_neq_special [simp]:
  "wc c \<noteq> 0x037E" "wc c \<noteq> 0xEFBB" "wc c \<noteq> 0xFEFF" "wc c \<noteq> 0xFFFE"
  by (rule wc_neq_big, simp)+

lemmas special_neq_wc [simp] = wc_neq_special [symmetric]

lemma L_Nil [simp]: "L [] = []"
  by (simp add: L_def)

lemma L_Cons [simp]: "L (c # cs) = wc c # L cs"
  by (simp add: L_def)

lemma L_append [simp]: "L (xs @ ys) = L xs @ L ys"
  by (simp add: L_def)

lemma length_L [simp]: "length (L s) = length s"
  by (simp add: L_def)

lemma L_eq_iff [simp]: "L s = L t \<longleftrightarrow> s = t"
  unfolding L_def by (simp add: inj_def)

lemma L_eq_Nil [simp]: "L s = [] \<longleftrightarrow> s = []"
  by (simp add: L_def)

lemma wc_in_L [simp]: "wc c \<in> set (L s) \<longleftrightarrow> c \<in> set s"
  by (auto simp: L_def)

lemma L_disjoint: "list_all (\<lambda>c. c \<notin> set t) s \<Longrightarrow> w \<in> set (L s) \<Longrightarrow> w \<notin> set (L t)"
  by (auto simp: L_def list_all_iff)

lemma in_L_neq_big: "w \<in> set (L s) \<Longrightarrow> unat w < 256"
  by (auto simp: L_def unat_wc_less)

section \<open>Machine integers\<close>

type_synonym u8 = "8 word"
type_synonym u16 = "16 word"
type_synonym u32 = "32 word"
type_synonym u64 = "64 word"

end
