(* ===== verification/Tokens.thy ===== *)
theory Tokens
  imports Prelude
begin

text \<open>
  The tokens the lexer produces: \<^verbatim>\<open>include/shard/lexical/TokenType.hpp\<close>,
  \<^verbatim>\<open>include/shard/parsing/SyntaxToken.hpp\<close> and \<^verbatim>\<open>include/shard/analysis/TextLocation.hpp\<close>.

  \<^verbatim>\<open>TokenType\<close> is one flat C++ enumeration whose members the header arranges in commented
  groups. The model keeps every member under its source name and gives each group of the header
  its own datatype, wrapped by a constructor of \<open>TokenType\<close> (the one member whose name is also
  that of a function, \<^verbatim>\<open>TokenType::IsOperator\<close>, is \<open>IsOperator_token\<close>).

  The creation counter \<^verbatim>\<open>SyntaxToken::Index\<close>, a process-wide serial number that only the
  diagnostic printer reads, is not part of the model.
\<close>

section \<open>Token kinds\<close>

datatype GenericToken =
    Unknown | EndOfFile | Trivia
  | NewKeyword | Identifier | FakeSemicolon

datatype OperatorToken =
    AssignOperator | DeclareAssignOperator | ArrowOperator
  | LambdaOperator | NullCoalescingOperator | RangeOperator
  | RangeInclusiveOperator | AddOperator | SubOperator
  | MultOperator | DivOperator | ModOperator
  | PowOperator | AddAssignOperator | SubAssignOperator
  | MultAssignOperator | DivAssignOperator | ModAssignOperator
  | PowAssignOperator | IncrementOperator | DecrementOperator
  | OrOperator | AndOperator | RightShiftOperator
  | LeftShiftOperator | OrAssignOperator | AndAssignOperator
  | EqualsOperator | NotEqualsOperator | GreaterOperator
  | GreaterOrEqualsOperator | LessOperator | LessOrEqualsOperator
  | IsOperator_token | AsOperator | NotOperator

datatype LiteralToken =
    NullLiteral | CharLiteral | StringLiteral
  | BooleanLiteral | NumberLiteral | DoubleLiteral
  | NativeLiteral | ByteLiteral

datatype PunctuationToken =
    Colon | Semicolon | OpenBrace
  | CloseBrace | OpenCurl | CloseCurl
  | OpenSquare | CloseSquare | Delimeter
  | Comma | Question

datatype MemberKeyword =
    PublicKeyword | PrivateKeyword | ProtectedKeyword
  | InternalKeyword | StaticKeyword | AsyncKeyword
  | ExternKeyword | ExportKeyword | GetKeyword
  | SetKeyword | FieldKeyword | IndexerKeyword

datatype TypeKeyword =
    VoidKeyword | VarKeyword | IntegerKeyword
  | DoubleKeyword | ShortKeyword | LongKeyword
  | ByteKeyword | NativeIntegerKeyword | CharKeyword
  | StringKeyword | BooleanKeyword | DelegateKeyword
  | LambdaKeyword

datatype DeclarationKeyword =
    UsingKeyword | FromKeyword | ImportKeyword
  | ConstKeyword | ValueKeyword | MethodKeyword
  | ClassKeyword | StructKeyword | InterfaceKeyword
  | NamespaceKeyword | FunctionKeyword | InitKeyword
  | OperatorKeyword | EnumKeyword

datatype StatementKeyword =
    ForKeyword | WhileKeyword | UntilKeyword
  | DoKeyword | ForeachKeyword | InKeyword
  | IfKeyword | UnlessKeyword | ElseKeyword
  | SwitchKeyword | CaseKeyword | DefaultKeyword
  | ReturnKeyword | ThrowKeyword | BreakKeyword
  | ContinueKeyword | TryKeyword | CatchKeyword
  | DeferKeyword | WhereKeyword | AwaitKeyword

datatype TokenType =
    Gen GenericToken
  | Op OperatorToken
  | Lit LiteralToken
  | Pn PunctuationToken
  | Md MemberKeyword
  | Ty TypeKeyword
  | Dc DeclarationKeyword
  | St StatementKeyword

section \<open>Locations and tokens\<close>

record TextLocation =
  loc_FileName :: wstring
  loc_Line :: int
  loc_Offset :: int
  loc_Length :: int

text \<open>The default constructor \<^verbatim>\<open>TextLocation()\<close>.\<close>

definition TextLocation_default :: TextLocation where
  "TextLocation_default = \<lparr>loc_FileName = [], loc_Line = 0, loc_Offset = 0, loc_Length = 0\<rparr>"

record SyntaxToken =
  tok_IsMissing :: bool
  tok_Type :: TokenType
  tok_Word :: wstring
  tok_Location :: TextLocation

text \<open>The constructor \<^verbatim>\<open>SyntaxToken(type, word, location)\<close> with its default \<^verbatim>\<open>isMissing = false\<close>.\<close>

definition SyntaxToken_of :: "TokenType \<Rightarrow> wstring \<Rightarrow> TextLocation \<Rightarrow> SyntaxToken" where
  "SyntaxToken_of type word location =
     \<lparr>tok_IsMissing = False, tok_Type = type, tok_Word = word, tok_Location = location\<rparr>"

text \<open>The token every provider returns at the end of its input.\<close>

definition EndOfFile_token :: SyntaxToken where
  "EndOfFile_token = SyntaxToken_of (Gen EndOfFile) [] TextLocation_default"

lemma SyntaxToken_of_sel [simp]:
  "tok_Type (SyntaxToken_of ty w l) = ty"
  "tok_Word (SyntaxToken_of ty w l) = w"
  "tok_Location (SyntaxToken_of ty w l) = l"
  "tok_IsMissing (SyntaxToken_of ty w l) = False"
  by (simp_all add: SyntaxToken_of_def)

lemma tok_Type_EndOfFile_token [simp]: "tok_Type EndOfFile_token = Gen EndOfFile"
  by (simp add: EndOfFile_token_def)

end
