(* ===== verification/SourceText.thy ===== *)
theory SourceText
  imports Prelude
begin

text \<open>
  Character sources: the interface \<^verbatim>\<open>SourceTextProvider\<close> as a locale and its in-memory
  implementation \<^verbatim>\<open>StringStreamReader\<close> (\<^verbatim>\<open>src/lexical/StringStreamReader.cpp\<close>).

  A \<^verbatim>\<open>std::wstringstream\<close> opened on a string is the list of code units not read yet.
  \<^verbatim>\<open>peek()\<close> yields the next unit, or \<^verbatim>\<open>WEOF\<close> at the end; a unit that equals \<^verbatim>\<open>WEOF\<close> is
  indistinguishable from the end of the stream, so a reader never gets past it.
\<close>

section \<open>StringStreamReader\<close>

record StringStreamReader =
  ssr_name :: wstring
  ssr_stream :: wstring

definition StringStreamReader_of :: "wstring \<Rightarrow> wstring \<Rightarrow> StringStreamReader" where
  "StringStreamReader_of name source = \<lparr>ssr_name = name, ssr_stream = source\<rparr>"

text \<open>\<^verbatim>\<open>stringStream.peek()\<close>.\<close>

definition stream_peek :: "wstring \<Rightarrow> wchar" where
  "stream_peek cs = (case cs of [] \<Rightarrow> WEOF | c # _ \<Rightarrow> c)"

definition ReadNext :: "StringStreamReader \<Rightarrow> (wchar \<times> StringStreamReader) option" where
  "ReadNext r =
     (if stream_peek (ssr_stream r) = WEOF then None
      else case ssr_stream r of
             [] \<Rightarrow> None
           | ch # cs \<Rightarrow> if ch = WEOF then None else Some (ch, r\<lparr>ssr_stream := cs\<rparr>))"

text \<open>\<^verbatim>\<open>PeekNext\<close> writes its argument in either case; the flag is its result.\<close>

definition PeekNext :: "StringStreamReader \<Rightarrow> bool \<times> wchar" where
  "PeekNext r = (let ch = stream_peek (ssr_stream r) in (ch \<noteq> WEOF, ch))"

definition GetName :: "StringStreamReader \<Rightarrow> wstring" where
  "GetName r = ssr_name r"

section \<open>The SourceTextProvider contract\<close>

text \<open>
  What the lexer relies on: a provider stands for a text, \<open>ReadNext\<close> removes its first
  character and \<open>PeekNext\<close> shows it without removing it.
\<close>

locale source_text_provider =
  fixes read :: "'s \<Rightarrow> (wchar \<times> 's) option"
    and peek :: "'s \<Rightarrow> bool \<times> wchar"
    and text_of :: "'s \<Rightarrow> wstring"
  assumes read_end: "text_of r = [] \<Longrightarrow> read r = None"
    and read_more: "text_of r = c # cs \<Longrightarrow> \<exists>r'. read r = Some (c, r') \<and> text_of r' = cs"
    and peek_end: "text_of r = [] \<Longrightarrow> peek r = (False, WEOF)"
    and peek_more: "text_of r = c # cs \<Longrightarrow> peek r = (True, c)"
begin

lemma read_SomeD: "read r = Some (c, r') \<Longrightarrow> text_of r = c # text_of r'"
  using read_end [of r] read_more [of r] by (cases "text_of r") auto

lemma read_None_iff: "read r = None \<longleftrightarrow> text_of r = []"
  using read_end [of r] read_more [of r] by (cases "text_of r") auto

lemma peek_iff: "fst (peek r) \<longleftrightarrow> text_of r \<noteq> []"
  using peek_end [of r] peek_more [of r] by (cases "text_of r") auto

lemma peek_predicts_read: "fst (peek r) \<Longrightarrow> \<exists>r'. read r = Some (snd (peek r), r')"
  using peek_end [of r] peek_more [of r] read_more [of r] by (cases "text_of r") auto

end

definition reader_text :: "StringStreamReader \<Rightarrow> wstring" where
  "reader_text r = takeWhile (\<lambda>c. c \<noteq> WEOF) (ssr_stream r)"

interpretation reader: source_text_provider ReadNext PeekNext reader_text
proof unfold_locales
  fix r c cs
  show "reader_text r = [] \<Longrightarrow> ReadNext r = None"
    by (cases "ssr_stream r") (auto simp: reader_text_def ReadNext_def stream_peek_def split: if_splits)
  show "reader_text r = c # cs \<Longrightarrow> \<exists>r'. ReadNext r = Some (c, r') \<and> reader_text r' = cs"
    by (cases "ssr_stream r") (auto simp: reader_text_def ReadNext_def stream_peek_def split: if_splits)
  show "reader_text r = [] \<Longrightarrow> PeekNext r = (False, WEOF)"
    by (cases "ssr_stream r") (auto simp: reader_text_def PeekNext_def stream_peek_def split: if_splits)
  show "reader_text r = c # cs \<Longrightarrow> PeekNext r = (True, c)"
    by (cases "ssr_stream r") (auto simp: reader_text_def PeekNext_def stream_peek_def split: if_splits)
qed

lemma ReadNext_name: "ReadNext r = Some (c, r') \<Longrightarrow> GetName r' = GetName r"
  by (auto simp: ReadNext_def GetName_def split: if_splits list.splits)

end
