(* ===== verification/Lexer.thy ===== *)
theory Lexer
  imports Tokens SourceText
begin

text \<open>
  The lexer, \<^verbatim>\<open>src/lexical/LexicalAnalyzer.cpp\<close>, on a \<^verbatim>\<open>StringStreamReader\<close>. The object is a
  record of the members the methods read and write; every method takes the object and returns
  it changed. A C++ method that returns \<^verbatim>\<open>bool\<close> and fills \<^verbatim>\<open>word\<close> and \<^verbatim>\<open>type\<close> through
  references returns an option of the two here (\<open>None\<close> is \<^verbatim>\<open>false\<close>), together with the object.
  Methods whose names \<^verbatim>\<open>SyntaxFacts\<close> also uses carry the suffix \<open>_lex\<close>.

  \<^verbatim>\<open>std::iswspace\<close> and \<^verbatim>\<open>std::iswalnum\<close> depend on the C locale of the process (the
  interpreter calls \<^verbatim>\<open>setlocale(LC_ALL, "")\<close>), so they are a parameter \<open>ct\<close> of the
  definitions that use them; \<open>C_locale\<close> is their value in the \<^verbatim>\<open>"C"\<close> locale.
\<close>

section \<open>State\<close>

record ctype =
  iswspace :: "wchar \<Rightarrow> bool"
  iswalnum :: "wchar \<Rightarrow> bool"

definition C_locale :: ctype where
  "C_locale =
     \<lparr>iswspace = (\<lambda>c. c \<in> set (L [CHR 0x20, CHR 0x09, CHR 0x0A, CHR 0x0B, CHR 0x0C, CHR 0x0D])),
      iswalnum = (\<lambda>c. c \<in> set (L ''0123456789ABCDEFGHIJKLMNOPQRSTUVWXYZabcdefghijklmnopqrstuvwxyz''))\<rparr>"

record LexicalAnalyzer =
  lex_Line :: int
  lex_Offset :: int
  lex_Symbol :: wchar
  lex_PeekSymbol :: wchar
  lex_SourceText :: StringStreamReader
  lex_ReadBuffer :: "SyntaxToken list"
  lex_HasPutbackSymbol :: bool
  lex_PutbackSymbol :: wchar

type_synonym lexer = LexicalAnalyzer
type_synonym lexeme = "TokenType \<times> wstring"

definition LexicalAnalyzer_of :: "StringStreamReader \<Rightarrow> lexer" where
  "LexicalAnalyzer_of sourceText =
     \<lparr>lex_Line = 1, lex_Offset = 0, lex_Symbol = -1, lex_PeekSymbol = -1,
      lex_SourceText = sourceText, lex_ReadBuffer = [],
      lex_HasPutbackSymbol = False, lex_PutbackSymbol = 0\<rparr>"

text \<open>The text the lexer has not read yet.\<close>

abbreviation lex_text :: "lexer \<Rightarrow> wstring" where
  "lex_text s \<equiv> reader_text (lex_SourceText s)"

section \<open>Reading characters\<close>

definition Advance :: "lexer \<Rightarrow> (wchar \<times> lexer) option" where
  "Advance s =
     (case ReadNext (lex_SourceText s) of
        None \<Rightarrow> None
      | Some (ch, src) \<Rightarrow>
          let s1 = s\<lparr>lex_SourceText := src\<rparr> in
          Some (ch,
            if ch = nl then s1\<lparr>lex_Line := lex_Line s1 + 1, lex_Offset := 0\<rparr>
            else if ch \<noteq> nul then s1\<lparr>lex_Offset := lex_Offset s1 + 1\<rparr>
            else s1))"

text \<open>\<^verbatim>\<open>Advance(Symbol)\<close> and \<^verbatim>\<open>Advance(PeekSymbol)\<close>: the argument is a member of the object.\<close>

definition AdvanceSymbol :: "lexer \<Rightarrow> lexer option" where
  "AdvanceSymbol s = map_option (\<lambda>(ch, s'). s'\<lparr>lex_Symbol := ch\<rparr>) (Advance s)"

definition AdvancePeekSymbol :: "lexer \<Rightarrow> lexer option" where
  "AdvancePeekSymbol s = map_option (\<lambda>(ch, s'). s'\<lparr>lex_PeekSymbol := ch\<rparr>) (Advance s)"

text \<open>The same call as a statement, its result ignored.\<close>

definition SkipPeekSymbol :: "lexer \<Rightarrow> lexer" where
  "SkipPeekSymbol s = (case AdvancePeekSymbol s of None \<Rightarrow> s | Some s' \<Rightarrow> s')"

text \<open>\<^verbatim>\<open>SourceText->PeekNext(PeekSymbol)\<close>.\<close>

definition PeekNextSymbol :: "lexer \<Rightarrow> bool \<times> lexer" where
  "PeekNextSymbol s =
     (let (ok, ch) = PeekNext (lex_SourceText s) in (ok, s\<lparr>lex_PeekSymbol := ch\<rparr>))"

lemma Advance_SomeD:
  assumes "Advance s = Some (ch, s')"
  shows "lex_text s = ch # lex_text s'"
    and "lex_ReadBuffer s' = lex_ReadBuffer s"
    and "lex_HasPutbackSymbol s' = lex_HasPutbackSymbol s"
  using assms by (auto simp: Advance_def Let_def dest: reader.read_SomeD split: option.splits if_splits)

lemma Advance_None_iff: "Advance s = None \<longleftrightarrow> lex_text s = []"
  by (auto simp: Advance_def Let_def reader.read_None_iff split: option.splits)
     (auto dest: reader.read_SomeD)

lemma AdvanceSymbol_shrinks [termination_simp]:
  "AdvanceSymbol s = Some s' \<Longrightarrow> length (lex_text s') < length (lex_text s)"
  by (auto simp: AdvanceSymbol_def dest: Advance_SomeD(1))

lemma AdvancePeekSymbol_shrinks [termination_simp]:
  "AdvancePeekSymbol s = Some s' \<Longrightarrow> length (lex_text s') < length (lex_text s)"
  by (auto simp: AdvancePeekSymbol_def dest: Advance_SomeD(1))

lemma lex_text_PeekNextSymbol [simp]: "lex_text (snd (PeekNextSymbol s)) = lex_text s"
  by (simp add: PeekNextSymbol_def Let_def split_beta)

lemma PeekNextSymbol_text:
  "PeekNextSymbol s = (b, s') \<Longrightarrow> lex_text s' = lex_text s"
  using lex_text_PeekNextSymbol [of s] by simp

subsection \<open>What a reading step does\<close>

text \<open>
  Every method of the lexer only moves forward through the text: it removes a prefix of what is
  left, moves the line and column counters over exactly that prefix, and leaves the token buffer
  alone. \<open>reads\<close> is that relation between the object before and after; it is reflexive and
  transitive, and one lemma per method states it.
\<close>

fun pos_step :: "wchar \<Rightarrow> int \<times> int \<Rightarrow> int \<times> int" where
  "pos_step ch (line, col) =
     (if ch = nl then (line + 1, 0) else if ch \<noteq> nul then (line, col + 1) else (line, col))"

abbreviation lex_pos :: "lexer \<Rightarrow> int \<times> int" where
  "lex_pos s \<equiv> (lex_Line s, lex_Offset s)"

definition reads_by :: "wstring \<Rightarrow> lexer \<Rightarrow> lexer \<Rightarrow> bool" where
  "reads_by u s t \<longleftrightarrow>
     lex_text s = u @ lex_text t
     \<and> lex_pos t = fold pos_step u (lex_pos s)
     \<and> lex_ReadBuffer t = lex_ReadBuffer s
     \<and> lex_HasPutbackSymbol t = lex_HasPutbackSymbol s
     \<and> GetName (lex_SourceText t) = GetName (lex_SourceText s)"

definition reads :: "lexer \<Rightarrow> lexer \<Rightarrow> bool" where
  "reads s t \<longleftrightarrow> (\<exists>u. reads_by u s t)"

lemma reads_by_refl [simp]: "reads_by [] s s"
  by (simp add: reads_by_def)

lemma reads_by_trans: "reads_by u r s \<Longrightarrow> reads_by v s t \<Longrightarrow> reads_by (u @ v) r t"
  by (auto simp: reads_by_def)

lemma reads_refl [simp]: "reads s s"
  by (auto simp: reads_def intro: exI [of _ "[]"])

lemma reads_trans [trans]: "reads r s \<Longrightarrow> reads s t \<Longrightarrow> reads r t"
  unfolding reads_def by (blast intro: reads_by_trans)

lemma reads_length: "reads s t \<Longrightarrow> length (lex_text t) \<le> length (lex_text s)"
  by (auto simp: reads_def reads_by_def)

lemma reads_Symbol [simp]: "reads s (t\<lparr>lex_Symbol := c\<rparr>) \<longleftrightarrow> reads s t"
  by (simp add: reads_def reads_by_def)

lemma reads_by_Symbol [simp]: "reads_by u s (t\<lparr>lex_Symbol := c\<rparr>) \<longleftrightarrow> reads_by u s t"
  by (simp add: reads_by_def)

lemma reads_by_Advance: "Advance s = Some (ch, s') \<Longrightarrow> reads_by [ch] s s'"
  by (auto simp: reads_by_def Advance_def Let_def dest: reader.read_SomeD ReadNext_name
      split: option.splits if_splits)

lemma reads_by_AdvanceSymbol: "AdvanceSymbol s = Some s' \<Longrightarrow> reads_by [lex_Symbol s'] s s'"
  by (auto simp: AdvanceSymbol_def dest: reads_by_Advance)

lemma reads_by_AdvancePeekSymbol:
  "AdvancePeekSymbol s = Some s' \<Longrightarrow> reads_by [lex_PeekSymbol s'] s s'"
  by (auto simp: AdvancePeekSymbol_def reads_by_def dest!: reads_by_Advance)

lemma reads_AdvanceSymbol: "AdvanceSymbol s = Some s' \<Longrightarrow> reads s s'"
  by (auto simp: reads_def dest: reads_by_AdvanceSymbol)

lemma reads_AdvancePeekSymbol: "AdvancePeekSymbol s = Some s' \<Longrightarrow> reads s s'"
  by (auto simp: reads_def dest: reads_by_AdvancePeekSymbol)

lemma reads_by_PeekNextSymbol: "PeekNextSymbol s = (ok, s') \<Longrightarrow> reads_by [] s s'"
  by (auto simp: PeekNextSymbol_def reads_by_def Let_def split_beta)

lemma reads_PeekNextSymbol: "PeekNextSymbol s = (ok, s') \<Longrightarrow> reads s s'"
  by (auto simp: reads_def dest: reads_by_PeekNextSymbol)

lemma reads_snd_PeekNextSymbol [simp]: "reads s (snd (PeekNextSymbol s))"
  using reads_PeekNextSymbol [of s "fst (PeekNextSymbol s)" "snd (PeekNextSymbol s)"] by simp

lemma reads_SkipPeekSymbol [simp]: "reads s (SkipPeekSymbol s)"
  by (auto simp: SkipPeekSymbol_def split: option.splits dest: reads_AdvancePeekSymbol)

lemma reads_then_Peek: "reads s t \<Longrightarrow> reads s (snd (PeekNextSymbol t))"
  by (erule reads_trans) simp

lemma reads_then_Skip: "reads s t \<Longrightarrow> reads s (SkipPeekSymbol t)"
  by (erule reads_trans) simp

lemmas reads_steps =
  reads_AdvanceSymbol reads_AdvancePeekSymbol reads_PeekNextSymbol

subsection \<open>Skipping white space, reading words\<close>

text \<open>
  \<^verbatim>\<open>ReadNextReal\<close>: the next character that is neither white space nor a byte order mark, or
  the character put back by the number reader. Two NUL characters in a row, or one at the end,
  count as the end of the file.
\<close>

function ReadNextReal_loop :: "ctype \<Rightarrow> lexer \<Rightarrow> bool \<times> lexer" where
  "ReadNextReal_loop ct s =
     (case AdvanceSymbol s of
        None \<Rightarrow> (False, s)
      | Some s1 \<Rightarrow>
          if lex_Symbol s1 \<in> {0xEFBB, 0xFEFF, 0xFFFE} then ReadNextReal_loop ct s1
          else if lex_Symbol s1 = nl then ReadNextReal_loop ct s1
          else if lex_Symbol s1 = nul then
            let (ok, s2) = PeekNextSymbol s1 in
            if \<not> ok then (False, s2)
            else if lex_PeekSymbol s2 = nul then (False, s2)
            else ReadNextReal_loop ct s2
          else if \<not> iswspace ct (lex_Symbol s1) then (True, s1)
          else ReadNextReal_loop ct s1)"
  by pat_completeness auto
termination
  by (relation "measure (\<lambda>(ct, s). length (lex_text s))")
     (auto dest!: AdvanceSymbol_shrinks sym [THEN PeekNextSymbol_text])

definition ReadNextReal :: "ctype \<Rightarrow> lexer \<Rightarrow> bool \<times> lexer" where
  "ReadNextReal ct s =
     (if lex_HasPutbackSymbol s then
        (True, s\<lparr>lex_Symbol := lex_PutbackSymbol s, lex_HasPutbackSymbol := False,
                 lex_Offset := lex_Offset s + 1\<rparr>)
      else ReadNextReal_loop ct s)"

text \<open>
  \<^verbatim>\<open>ReadNextWhileAlpha\<close>: the current symbol and every alphanumeric or underscore after it.
  The \<open>None\<close> branch of \<^verbatim>\<open>Advance\<close> cannot be taken after a successful \<^verbatim>\<open>PeekNext\<close>.
\<close>

function ReadNextWhileAlpha_loop :: "ctype \<Rightarrow> wstring \<Rightarrow> lexer \<Rightarrow> wstring \<times> lexer" where
  "ReadNextWhileAlpha_loop ct word s =
     (let (ok, s1) = PeekNextSymbol s in
      if \<not> ok then (word, s1)
      else if \<not> iswalnum ct (lex_PeekSymbol s1) \<and> lex_PeekSymbol s1 \<noteq> wc CHR ''_'' then (word, s1)
      else case AdvanceSymbol s1 of
             None \<Rightarrow> (word, s1)
           | Some s2 \<Rightarrow> ReadNextWhileAlpha_loop ct (word @ [lex_Symbol s2]) s2)"
  by pat_completeness auto
termination
  by (relation "measure (\<lambda>(ct, word, s). length (lex_text s))")
     (auto dest!: AdvanceSymbol_shrinks sym [THEN PeekNextSymbol_text])

definition ReadNextWhileAlpha :: "ctype \<Rightarrow> wstring \<Rightarrow> lexer \<Rightarrow> wstring \<times> lexer" where
  "ReadNextWhileAlpha ct word s = ReadNextWhileAlpha_loop ct (word @ [lex_Symbol s]) s"

definition GetLocation :: "wstring \<Rightarrow> lexer \<Rightarrow> TextLocation" where
  "GetLocation word s =
     (let length' = int (length word);
          startOffset = lex_Offset s - length' + 1;
          startOffset = (if startOffset < 1 then 1 else startOffset)
      in \<lparr>loc_FileName = GetName (lex_SourceText s), loc_Line = lex_Line s,
          loc_Offset = startOffset, loc_Length = length'\<rparr>)"

declare ReadNextReal_loop.simps [simp del] ReadNextWhileAlpha_loop.simps [simp del]

section \<open>Character and string literals\<close>

function ReadCharLiteral_loop :: "bool \<Rightarrow> wstring \<Rightarrow> lexer \<Rightarrow> bool \<times> wstring \<times> lexer" where
  "ReadCharLiteral_loop ecran word s =
     (case AdvanceSymbol s of
        None \<Rightarrow> (False, word, s)
      | Some s1 \<Rightarrow>
          let c = lex_Symbol s1 in
          if ecran then
            ReadCharLiteral_loop False
              (word @ [if c = wc CHR 0x27 then wc CHR 0x27
                       else if c = wc CHR 0x5C then wc CHR 0x5C
                       else if c = wc CHR ''n'' then nl
                       else if c = wc CHR ''t'' then wc CHR 0x09
                       else if c = wc CHR ''r'' then wc CHR 0x0D
                       else if c = wc CHR ''0'' then nul
                       else c]) s1
          else if c = wc CHR 0x27 then (True, word, snd (PeekNextSymbol s1))
          else if c = wc CHR 0x5C then ReadCharLiteral_loop True word s1
          else ReadCharLiteral_loop False (word @ [c]) s1)"
  by pat_completeness auto
termination
  by (relation "measure (\<lambda>(ecran, word, s). length (lex_text s))") (auto dest: AdvanceSymbol_shrinks)

text \<open>
  The method's \<^verbatim>\<open>notEcran\<close> argument is never read, and its out-parameter \<^verbatim>\<open>wasClosed\<close> is set
  exactly when it returns true.
\<close>

definition ReadCharLiteral :: "wstring \<Rightarrow> bool \<Rightarrow> lexer \<Rightarrow> bool \<times> wstring \<times> lexer" where
  "ReadCharLiteral word notEcran s = ReadCharLiteral_loop False word s"

text \<open>
  \<^verbatim>\<open>ReadStringLiteral\<close>. The \<^verbatim>\<open>default\<close> branch appends the symbol and leaves \<^verbatim>\<open>ecran\<close> as it is.
\<close>

function ReadStringLiteral_loop ::
  "bool \<Rightarrow> bool \<Rightarrow> wstring \<Rightarrow> lexer \<Rightarrow> bool \<times> wstring \<times> lexer" where
  "ReadStringLiteral_loop dontEcran ecran word s =
     (case AdvanceSymbol s of
        None \<Rightarrow> (False, word, s)
      | Some s1 \<Rightarrow>
          let c = lex_Symbol s1 in
          if c = wc CHR 0x5C then
            if dontEcran then ReadStringLiteral_loop dontEcran ecran (word @ [c]) s1
            else if ecran then
              ReadStringLiteral_loop dontEcran False (word @ [wc CHR 0x5C])
                (s1\<lparr>lex_Symbol := wc CHR 0x5C\<rparr>)
            else ReadStringLiteral_loop dontEcran True word s1
          else if c = wc CHR 0x22 then
            if dontEcran then (True, word, snd (PeekNextSymbol s1))
            else if ecran then
              ReadStringLiteral_loop dontEcran False (word @ [wc CHR 0x22])
                (s1\<lparr>lex_Symbol := wc CHR 0x22\<rparr>)
            else (True, word, snd (PeekNextSymbol s1))
          else if c = wc CHR ''n'' then
            if ecran then
              ReadStringLiteral_loop dontEcran False (word @ [nl]) (s1\<lparr>lex_Symbol := nl\<rparr>)
            else ReadStringLiteral_loop dontEcran ecran (word @ [c]) s1
          else ReadStringLiteral_loop dontEcran ecran (word @ [c]) s1)"
  by pat_completeness auto
termination
  by (relation "measure (\<lambda>(dontEcran, ecran, word, s). length (lex_text s))")
     (auto dest: AdvanceSymbol_shrinks)

definition ReadStringLiteral :: "wstring \<Rightarrow> bool \<Rightarrow> lexer \<Rightarrow> bool \<times> wstring \<times> lexer" where
  "ReadStringLiteral word dontEcran s = ReadStringLiteral_loop dontEcran False word s"

declare ReadCharLiteral_loop.simps [simp del] ReadStringLiteral_loop.simps [simp del]

definition IsCharLiteral :: "lexer \<Rightarrow> TokenType option" where
  "IsCharLiteral s = (if lex_Symbol s = wc CHR 0x27 then Some (Lit CharLiteral) else None)"

text \<open>
  \<^verbatim>\<open>IsStringLiteral\<close> with its recursion on \<^verbatim>\<open>@"\<close>; the flag of a \<open>Some\<close> is \<^verbatim>\<open>dontEcran\<close>.
\<close>

lemma SkipPeekSymbol_shrinks:
  "PeekNextSymbol s = (True, s1) \<Longrightarrow> length (lex_text (SkipPeekSymbol s1)) < length (lex_text s)"
  using PeekNextSymbol_text [of s True s1] reader.peek_iff [of "lex_SourceText s"]
    Advance_None_iff [of s1]
  by (auto simp: SkipPeekSymbol_def PeekNextSymbol_def AdvancePeekSymbol_def Let_def split_beta
      split: option.splits dest: Advance_SomeD(1))

function IsStringLiteral :: "bool \<Rightarrow> lexer \<Rightarrow> (TokenType \<times> bool) option \<times> lexer" where
  "IsStringLiteral dontEcran s =
     (if lex_Symbol s = wc CHR ''@'' then
        let (ok, s1) = PeekNextSymbol s in
        if \<not> ok then (None, s1)
        else if lex_PeekSymbol s1 \<noteq> wc CHR 0x22 then (None, s1)
        else IsStringLiteral True (SkipPeekSymbol s1)
      else if lex_Symbol s = wc CHR 0x22 then (Some (Lit StringLiteral, dontEcran), s)
      else (None, s))"
  by pat_completeness auto
termination
  by (relation "measure (\<lambda>(dontEcran, s). length (lex_text s))")
     (auto dest!: sym [where t = "PeekNextSymbol _"] SkipPeekSymbol_shrinks)

declare IsStringLiteral.simps [simp del]

section \<open>Number literals\<close>

definition in_range :: "char \<Rightarrow> char \<Rightarrow> wchar \<Rightarrow> bool" where
  "in_range lo hi c \<longleftrightarrow> wc lo \<le> c \<and> c \<le> wc hi"

definition IsNumberSymbol :: "wchar \<Rightarrow> bool" where
  "IsNumberSymbol c \<longleftrightarrow>
     in_range CHR ''0'' CHR ''9'' c \<or> in_range CHR ''A'' CHR ''F'' c \<or> in_range CHR ''a'' CHR ''f'' c
     \<or> c = wc CHR ''x'' \<or> c = wc CHR ''X'' \<or> c = wc CHR ''d'' \<or> c = wc CHR ''D''
     \<or> c = wc CHR ''b'' \<or> c = wc CHR ''B'' \<or> c = wc CHR ''k'' \<or> c = wc CHR ''K''
     \<or> c = wc CHR ''m'' \<or> c = wc CHR ''M'' \<or> c = wc CHR ''g'' \<or> c = wc CHR ''G''
     \<or> c = wc CHR ''t'' \<or> c = wc CHR ''T'' \<or> c = wc CHR ''p'' \<or> c = wc CHR ''P''"

definition IsBasePrefixLetter :: "wchar \<Rightarrow> bool" where
  "IsBasePrefixLetter c \<longleftrightarrow>
     c = wc CHR ''x'' \<or> c = wc CHR ''X'' \<or> c = wc CHR ''d'' \<or> c = wc CHR ''D''
     \<or> c = wc CHR ''b'' \<or> c = wc CHR ''B''"

definition IsNumberLiteral :: "lexer \<Rightarrow> TokenType option" where
  "IsNumberLiteral s =
     (if in_range CHR ''0'' CHR ''9'' (lex_Symbol s) then Some (Lit NumberLiteral) else None)"

text \<open>
  The loop of \<^verbatim>\<open>ReadNumberLiteral\<close>. \<open>number_tail\<close> is the part of its body after the digit
  separator test: a dot that starts a fraction, a dot that is put back, a number symbol, or the
  end of the literal. It tells whether the loop continues (\<^verbatim>\<open>continue\<close>) or stops
  (\<^verbatim>\<open>break\<close>).
\<close>

definition number_tail ::
  "bool \<Rightarrow> lexeme \<Rightarrow> lexer \<Rightarrow> bool \<times> bool \<times> lexeme \<times> lexer" where
  "number_tail foundDelimeter tw s =
     (let (type, word) = tw in
      if lex_PeekSymbol s = wc CHR ''.'' then
        if foundDelimeter then (False, foundDelimeter, tw, s)
        else case AdvancePeekSymbol s of
               None \<Rightarrow> (False, foundDelimeter, tw, s)
             | Some s1 \<Rightarrow>
                 let (ok, afterDot) = PeekNext (lex_SourceText s1) in
                 if \<not> ok \<or> \<not> IsNumberSymbol afterDot then
                   (False, foundDelimeter, tw,
                    s1\<lparr>lex_HasPutbackSymbol := True, lex_PutbackSymbol := wc CHR ''.'',
                       lex_Offset := lex_Offset s1 - 1\<rparr>)
                 else (True, True, (Lit DoubleLiteral, word @ [wc CHR ''.'', afterDot]),
                       SkipPeekSymbol s1)
      else if IsNumberSymbol (lex_PeekSymbol s) then
        (True, foundDelimeter, (type, word @ [lex_PeekSymbol s]), SkipPeekSymbol s)
      else (False, foundDelimeter, tw, s))"

text \<open>
  One pass of the loop: the separator \<^verbatim>\<open>`\<close> is skipped, and when a number symbol follows it
  the pass ends; otherwise the character after the separator is handled by the rest of the body.
\<close>

definition number_pass ::
  "bool \<Rightarrow> lexeme \<Rightarrow> lexer \<Rightarrow> bool \<times> bool \<times> lexeme \<times> lexer" where
  "number_pass foundDelimeter tw s =
     (let (ok, s1) = PeekNextSymbol s in
      if \<not> ok then (False, foundDelimeter, tw, s1)
      else if lex_PeekSymbol s1 = wc CHR ''`'' then
        case AdvancePeekSymbol s1 of
          None \<Rightarrow> (False, foundDelimeter, tw, s1)
        | Some s2 \<Rightarrow>
            let (ok', s3) = PeekNextSymbol s2 in
            if \<not> ok' then (False, foundDelimeter, tw, s3)
            else if IsNumberSymbol (lex_PeekSymbol s3) then (True, foundDelimeter, tw, s3)
            else number_tail foundDelimeter tw s3
      else number_tail foundDelimeter tw s1)"

lemma SkipPeekSymbol_le: "length (lex_text (SkipPeekSymbol s)) \<le> length (lex_text s)"
  by (auto simp: SkipPeekSymbol_def split: option.splits dest: AdvancePeekSymbol_shrinks)

lemma SkipPeekSymbol_less:
  "lex_text s \<noteq> [] \<Longrightarrow> length (lex_text (SkipPeekSymbol s)) < length (lex_text s)"
  using Advance_None_iff [of s]
  by (auto simp: SkipPeekSymbol_def AdvancePeekSymbol_def split: option.splits
      dest: Advance_SomeD(1))

lemma PeekNextSymbol_True: "PeekNextSymbol s = (True, s') \<Longrightarrow> lex_text s \<noteq> []"
  using reader.peek_iff [of "lex_SourceText s"]
  by (auto simp: PeekNextSymbol_def Let_def split_beta)

lemma number_tail_shrinks:
  "number_tail fd tw s = (True, fd', tw', s') \<Longrightarrow> lex_text s \<noteq> [] \<Longrightarrow>
     length (lex_text s') < length (lex_text s)"
  by (auto simp: number_tail_def Let_def split_beta split: if_splits option.splits
      intro: SkipPeekSymbol_less le_less_trans [OF SkipPeekSymbol_le] dest: AdvancePeekSymbol_shrinks)

lemma number_pass_shrinks:
  assumes "number_pass fd tw s = (True, fd', tw', s')"
  shows "length (lex_text s') < length (lex_text s)"
proof -
  obtain ok s1 where p: "PeekNextSymbol s = (ok, s1)" by fastforce
  with assms have ok: ok by (cases ok) (auto simp: number_pass_def)
  with p have t1: "lex_text s1 = lex_text s" "lex_text s \<noteq> []"
    by (auto dest: PeekNextSymbol_text PeekNextSymbol_True)
  show ?thesis
  proof (cases "lex_PeekSymbol s1 = wc CHR ''`''")
    case False
    with assms p ok t1 show ?thesis
      by (auto simp: number_pass_def dest: number_tail_shrinks)
  next
    case True
    with assms p ok obtain s2 where s2: "AdvancePeekSymbol s1 = Some s2"
      by (auto simp: number_pass_def split: option.splits)
    obtain ok' s3 where q: "PeekNextSymbol s2 = (ok', s3)" by fastforce
    with assms p ok True s2 have "ok'" by (cases ok') (auto simp: number_pass_def)
    with q have "lex_text s3 = lex_text s2" "lex_text s2 \<noteq> []"
      by (auto dest: PeekNextSymbol_text PeekNextSymbol_True)
    with assms p ok True s2 q \<open>ok'\<close> t1 show ?thesis
      by (auto simp: number_pass_def split: if_splits dest!: AdvancePeekSymbol_shrinks number_tail_shrinks)
  qed
qed

function ReadNumberLiteral_loop :: "bool \<Rightarrow> lexeme \<Rightarrow> lexer \<Rightarrow> lexeme \<times> lexer" where
  "ReadNumberLiteral_loop foundDelimeter tw s =
     (case number_pass foundDelimeter tw s of
        (True, fd', tw', s') \<Rightarrow> ReadNumberLiteral_loop fd' tw' s'
      | (False, _, tw', s') \<Rightarrow> (tw', s'))"
  by pat_completeness auto
termination
  by (relation "measure (\<lambda>(fd, tw, s). length (lex_text s))")
     (auto dest!: sym [where t = "number_pass _ _ _"] number_pass_shrinks)

declare ReadNumberLiteral_loop.simps [simp del]

definition ReadNumberLiteral :: "lexeme \<Rightarrow> lexer \<Rightarrow> lexeme option \<times> lexer" where
  "ReadNumberLiteral tw s =
     (let (type, word) = tw;
          word = (if IsNumberSymbol (lex_Symbol s) then word @ [lex_Symbol s] else word);
          (word, s) =
            (if word = L ''0'' then
               let (ok, s1) = PeekNextSymbol s in
               if ok \<and> IsBasePrefixLetter (lex_PeekSymbol s1) then
                 let s2 = SkipPeekSymbol s1 in (word @ [lex_PeekSymbol s2], s2)
               else (word, s1)
             else (word, s));
          ((type, word), s) = ReadNumberLiteral_loop False (type, word) s
      in if length word > 0 then (Some (type, word), s) else (None, s))"

section \<open>Punctuation and operators\<close>

text \<open>
  Every multi-character operator is read the same way: peek, compare with the possible second
  characters in order, consume it and return the long form, or return the short form.
\<close>

fun PeekChoice :: "(char \<times> lexeme) list \<Rightarrow> lexeme \<Rightarrow> lexer \<Rightarrow> lexeme option \<times> lexer" where
  "PeekChoice alts short s =
     (let (ok, s1) = PeekNextSymbol s in
      case (if ok then map_of (map (\<lambda>(c, t). (wc c, t)) alts) (lex_PeekSymbol s1) else None) of
        Some long \<Rightarrow> (Some long, SkipPeekSymbol s1)
      | None \<Rightarrow> (Some short, s1))"

text \<open>The case \<^verbatim>\<open>'.'\<close> of \<^verbatim>\<open>IsPunctuation\<close> looks up to two characters ahead.\<close>

definition IsPunctuation_dot :: "lexer \<Rightarrow> lexeme option \<times> lexer" where
  "IsPunctuation_dot s =
     (let (ok, s1) = PeekNextSymbol s in
      if ok \<and> lex_PeekSymbol s1 = wc CHR ''.'' then
        let (ok', s2) = PeekNextSymbol (SkipPeekSymbol s1) in
        if ok' \<and> lex_PeekSymbol s2 = wc CHR ''&'' then
          (Some (Op RangeInclusiveOperator, L ''..&''), SkipPeekSymbol s2)
        else (Some (Op RangeOperator, L ''..''), s2)
      else (Some (Pn Delimeter, L ''.''), s1))"

definition IsPunctuation_lex :: "lexer \<Rightarrow> lexeme option \<times> lexer" where
  "IsPunctuation_lex s =
     (let c = lex_Symbol s in
      if c = wc CHR ''{'' then (Some (Pn OpenBrace, L ''{''), s)
      else if c = wc CHR ''}'' then (Some (Pn CloseBrace, L ''}''), s)
      else if c = wc CHR ''('' then (Some (Pn OpenCurl, L ''(''), s)
      else if c = wc CHR '')'' then (Some (Pn CloseCurl, L '')''), s)
      else if c = wc CHR ''['' then (Some (Pn OpenSquare, L ''[''), s)
      else if c = wc CHR '']'' then (Some (Pn CloseSquare, L '']''), s)
      else if c = wc CHR ''.'' then IsPunctuation_dot s
      else if c = wc CHR '','' then (Some (Pn Comma, L '',''), s)
      else if c = wc CHR '':'' then
        PeekChoice [(CHR ''='', Op DeclareAssignOperator, L '':='')] (Pn Colon, L '':'') s
      else if c = wc CHR '';'' then (Some (Pn Semicolon, L '';''), s)
      else if c = wc CHR ''?'' then
        PeekChoice [(CHR ''?'', Op NullCoalescingOperator, L ''??'')] (Pn Question, L ''?'') s
      else if c = 0x037E then (Some (Pn Semicolon, L '';''), s)
      else (None, s))"

text \<open>\<^verbatim>\<open>IsOperator\<close>, its \<^verbatim>\<open>switch\<close> in three groups of cases.\<close>

definition IsOperator_relational :: "lexer \<Rightarrow> lexeme option \<times> lexer" where
  "IsOperator_relational s =
     (let c = lex_Symbol s in
      if c = wc CHR ''='' then
        PeekChoice [(CHR ''='', Op EqualsOperator, L ''==''), (CHR ''>'', Op LambdaOperator, L ''=>'')]
          (Op AssignOperator, L ''='') s
      else if c = wc CHR ''!'' then
        PeekChoice [(CHR ''='', Op NotEqualsOperator, L ''!='')] (Op NotOperator, L ''!'') s
      else if c = wc CHR ''>'' then
        PeekChoice [(CHR ''='', Op GreaterOrEqualsOperator, L ''>=''),
                    (CHR ''>'', Op RightShiftOperator, L ''>>'')] (Op GreaterOperator, L ''>'') s
      else if c = wc CHR ''<'' then
        PeekChoice [(CHR ''='', Op LessOrEqualsOperator, L ''<=''),
                    (CHR ''<'', Op LeftShiftOperator, L ''<<'')] (Op LessOperator, L ''<'') s
      else (None, s))"

definition IsOperator_arithmetic :: "lexer \<Rightarrow> lexeme option \<times> lexer" where
  "IsOperator_arithmetic s =
     (let c = lex_Symbol s in
      if c = wc CHR ''+'' then
        PeekChoice [(CHR ''='', Op AddAssignOperator, L ''+=''),
                    (CHR ''+'', Op IncrementOperator, L ''++'')] (Op AddOperator, L ''+'') s
      else if c = wc CHR ''-'' then
        PeekChoice [(CHR ''='', Op SubAssignOperator, L ''-=''),
                    (CHR ''-'', Op DecrementOperator, L ''--''),
                    (CHR ''>'', Op ArrowOperator, L ''->'')] (Op SubOperator, L ''-'') s
      else if c = wc CHR ''*'' then
        PeekChoice [(CHR ''='', Op MultAssignOperator, L ''*='')] (Op MultOperator, L ''*'') s
      else if c = wc CHR ''/'' then
        PeekChoice [(CHR ''='', Op DivAssignOperator, L ''/=''),
                    (CHR ''/'', Gen Trivia, L ''//'')] (Op DivOperator, L ''/'') s
      else if c = wc CHR ''%'' then
        PeekChoice [(CHR ''='', Op ModAssignOperator, L ''%='')] (Op ModOperator, L ''%'') s
      else if c = wc CHR ''^'' then
        PeekChoice [(CHR ''='', Op PowAssignOperator, L ''^='')] (Op PowOperator, L ''^'') s
      else (None, s))"

definition IsOperator_bitwise :: "lexer \<Rightarrow> lexeme option \<times> lexer" where
  "IsOperator_bitwise s =
     (let c = lex_Symbol s in
      if c = wc CHR ''&'' then
        PeekChoice [(CHR ''='', Op AndAssignOperator, L ''&=''),
                    (CHR ''&'', Op AndOperator, L ''&&'')] (Op AndOperator, L ''&'') s
      else if c = wc CHR ''|'' then
        PeekChoice [(CHR ''='', Op OrAssignOperator, L ''|=''),
                    (CHR ''|'', Op OrOperator, L ''||'')] (Op OrOperator, L ''|'') s
      else (None, s))"

definition IsOperator_lex :: "lexer \<Rightarrow> lexeme option \<times> lexer" where
  "IsOperator_lex s =
     (if lex_Symbol s \<in> set (L ''=!><'') then IsOperator_relational s
      else if lex_Symbol s \<in> set (L ''+-*/%^'') then IsOperator_arithmetic s
      else if lex_Symbol s \<in> set (L ''&|'') then IsOperator_bitwise s
      else (None, s))"

declare PeekChoice.simps [simp del]

section \<open>Words\<close>

definition IsWordOperator :: "wstring \<Rightarrow> TokenType option" where
  "IsWordOperator word =
     (if word = L ''and'' then Some (Op AndOperator)
      else if word = L ''or'' then Some (Op OrOperator)
      else if word = L ''not'' then Some (Op NotOperator)
      else None)"

definition IsNullLiteral :: "wstring \<Rightarrow> TokenType option" where
  "IsNullLiteral word =
     (if word = L ''null'' then Some (Lit NullLiteral)
      else if word = L ''nil'' then Some (Lit NullLiteral)
      else None)"

definition IsBooleanLiteral :: "wstring \<Rightarrow> TokenType option" where
  "IsBooleanLiteral word =
     (if word = L ''true'' then Some (Lit BooleanLiteral)
      else if word = L ''false'' then Some (Lit BooleanLiteral)
      else None)"

definition IsModifier_lex :: "wstring \<Rightarrow> TokenType option" where
  "IsModifier_lex word =
     (if word = L ''public'' then Some (Md PublicKeyword)
      else if word = L ''private'' then Some (Md PrivateKeyword)
      else if word = L ''protected'' then Some (Md ProtectedKeyword)
      else if word = L ''internal'' then Some (Md InternalKeyword)
      else if word = L ''static'' then Some (Md StaticKeyword)
      else if word = L ''async'' then Some (Md AsyncKeyword)
      else if word = L ''extern'' then Some (Md ExternKeyword)
      else if word = L ''export'' then Some (Md ExportKeyword)
      else None)"

definition IsDirectiveDecl :: "wstring \<Rightarrow> TokenType option" where
  "IsDirectiveDecl word =
     (if word = L ''using'' then Some (Dc UsingKeyword)
      else None)"

definition IsTypeDecl :: "wstring \<Rightarrow> TokenType option" where
  "IsTypeDecl word =
     (if word = L ''method'' then Some (Dc MethodKeyword)
      else if word = L ''class'' then Some (Dc ClassKeyword)
      else if word = L ''struct'' then Some (Dc StructKeyword)
      else if word = L ''interface'' then Some (Dc InterfaceKeyword)
      else if word = L ''enum'' then Some (Dc EnumKeyword)
      else if word = L ''namespace'' then Some (Dc NamespaceKeyword)
      else None)"

definition IsType_lex :: "wstring \<Rightarrow> TokenType option" where
  "IsType_lex word =
     (if word = L ''void'' then Some (Ty VoidKeyword)
      else if word = L ''var'' then Some (Ty VarKeyword)
      else if word = L ''bool'' then Some (Ty BooleanKeyword)
      else if word = L ''string'' then Some (Ty StringKeyword)
      else if word = L ''double'' then Some (Ty DoubleKeyword)
      else if word = L ''int'' then Some (Ty IntegerKeyword)
      else if word = L ''char'' then Some (Ty CharKeyword)
      else if word = L ''byte'' then Some (Ty ByteKeyword)
      else if word = L ''nint'' then Some (Ty NativeIntegerKeyword)
      else if word = L ''lambda'' then Some (Ty LambdaKeyword)
      else if word = L ''delegate'' then Some (Ty DelegateKeyword)
      else None)"

definition IsConditionalKeyword_lex :: "wstring \<Rightarrow> TokenType option" where
  "IsConditionalKeyword_lex word =
     (if word = L ''if'' then Some (St IfKeyword)
      else if word = L ''unless'' then Some (St UnlessKeyword)
      else if word = L ''else'' then Some (St ElseKeyword)
      else if word = L ''switch'' then Some (St SwitchKeyword)
      else if word = L ''case'' then Some (St CaseKeyword)
      else if word = L ''default'' then Some (St DefaultKeyword)
      else None)"

definition IsLoopKeyword_lex :: "wstring \<Rightarrow> TokenType option" where
  "IsLoopKeyword_lex word =
     (if word = L ''for'' then Some (St ForKeyword)
      else if word = L ''while'' then Some (St WhileKeyword)
      else if word = L ''until'' then Some (St UntilKeyword)
      else if word = L ''do'' then Some (St DoKeyword)
      else if word = L ''foreach'' then Some (St ForeachKeyword)
      else if word = L ''in'' then Some (St InKeyword)
      else None)"

definition IsFunctionalKeyword_lex :: "wstring \<Rightarrow> TokenType option" where
  "IsFunctionalKeyword_lex word =
     (if word = L ''return'' then Some (St ReturnKeyword)
      else if word = L ''continue'' then Some (St ContinueKeyword)
      else if word = L ''break'' then Some (St BreakKeyword)
      else if word = L ''throw'' then Some (St ThrowKeyword)
      else if word = L ''try'' then Some (St TryKeyword)
      else if word = L ''catch'' then Some (St CatchKeyword)
      else if word = L ''await'' then Some (St AwaitKeyword)
      else None)"

definition IsKeyword_lex :: "wstring \<Rightarrow> TokenType option" where
  "IsKeyword_lex word =
     (case IsConditionalKeyword_lex word of
        Some type \<Rightarrow> Some type
      | None \<Rightarrow>
      case IsFunctionalKeyword_lex word of
        Some type \<Rightarrow> Some type
      | None \<Rightarrow>
      case IsLoopKeyword_lex word of
        Some type \<Rightarrow> Some type
      | None \<Rightarrow>
      if word = L ''new'' then Some (Gen NewKeyword)
      else if word = L ''get'' then Some (Md GetKeyword)
      else if word = L ''set'' then Some (Md SetKeyword)
      else if word = L ''field'' then Some (Md FieldKeyword)
      else if word = L ''indexer'' then Some (Md IndexerKeyword)
      else if word = L ''try'' then Some (St TryKeyword)
      else if word = L ''catch'' then Some (St CatchKeyword)
      else if word = L ''defer'' then Some (St DeferKeyword)
      else if word = L ''where'' then Some (St WhereKeyword)
      else if word = L ''const'' then Some (Dc ConstKeyword)
      else if word = L ''func'' then Some (Dc FunctionKeyword)
      else if word = L ''init'' then Some (Dc InitKeyword)
      else if word = L ''operator'' then Some (Dc OperatorKeyword)
      else if word = L ''value'' then Some (Dc ValueKeyword)
      else if word = L ''is'' then Some (Op IsOperator_token)
      else if word = L ''as'' then Some (Op AsOperator)
      else None)"

text \<open>
  The tail of \<^verbatim>\<open>ReadNextWord\<close>: the tables are tried in this order, and a word in none of them is
  an identifier.
\<close>

definition ClassifyWord :: "wstring \<Rightarrow> TokenType" where
  "ClassifyWord word =
     (case IsBooleanLiteral word of Some type \<Rightarrow> type | None \<Rightarrow>
      case IsNullLiteral word of Some type \<Rightarrow> type | None \<Rightarrow>
      case IsDirectiveDecl word of Some type \<Rightarrow> type | None \<Rightarrow>
      case IsTypeDecl word of Some type \<Rightarrow> type | None \<Rightarrow>
      case IsModifier_lex word of Some type \<Rightarrow> type | None \<Rightarrow>
      case IsWordOperator word of Some type \<Rightarrow> type | None \<Rightarrow>
      case IsType_lex word of Some type \<Rightarrow> type | None \<Rightarrow>
      case IsKeyword_lex word of Some type \<Rightarrow> type | None \<Rightarrow>
      Gen Identifier)"

section \<open>Tokens\<close>

text \<open>
  The comment loop of \<^verbatim>\<open>ReadNextWord\<close>: true when it reached the end of the line, after which
  the method calls itself; false is the end of the file.
\<close>

function SkipComment :: "lexer \<Rightarrow> bool \<times> lexer" where
  "SkipComment s =
     (case AdvancePeekSymbol s of
        None \<Rightarrow> (False, s)
      | Some s1 \<Rightarrow>
          if lex_PeekSymbol s1 = nl then (True, s1)
          else if lex_PeekSymbol s1 = nul then
            let (ok, s2) = PeekNextSymbol s1 in
            if \<not> ok then (False, s2)
            else if lex_PeekSymbol s2 = nul then (False, s2)
            else SkipComment s2
          else SkipComment s1)"
  by pat_completeness auto
termination
  by (relation "measure (\<lambda>s. length (lex_text s))")
     (auto dest!: AdvancePeekSymbol_shrinks sym [THEN PeekNextSymbol_text])

declare SkipComment.simps [simp del]

lemma reads_SkipComment: "reads s (snd (SkipComment s))"
proof (induction s rule: measure_induct_rule [where f = "\<lambda>s. length (lex_text s)"])
  case (less s)
  show ?case
  proof (cases "AdvancePeekSymbol s")
    case None
    then show ?thesis by (simp add: SkipComment.simps [of s])
  next
    case (Some s1)
    obtain ok s2 where p: "PeekNextSymbol s1 = (ok, s2)" by fastforce
    have shorter: "length (lex_text s1) < length (lex_text s)" "lex_text s2 = lex_text s1"
      using Some p by (auto dest: AdvancePeekSymbol_shrinks PeekNextSymbol_text)
    have "reads s s1" "reads s s2"
      using Some p by (blast intro: reads_steps reads_trans)+
    moreover from shorter have "reads s1 (snd (SkipComment s1))" "reads s2 (snd (SkipComment s2))"
      by (simp_all add: less.IH)
    ultimately show ?thesis
      by (auto simp: SkipComment.simps [of s] Some p Let_def dest: reads_trans)
  qed
qed

lemma SkipComment_shrinks:
  assumes "SkipComment s = (True, s')"
  shows "length (lex_text s') < length (lex_text s)"
proof (cases "AdvancePeekSymbol s")
  case None
  with assms show ?thesis by (simp add: SkipComment.simps [of s])
next
  case (Some s1)
  obtain ok s2 where p: "PeekNextSymbol s1 = (ok, s2)" by fastforce
  have "length (lex_text s1) < length (lex_text s)" "lex_text s2 = lex_text s1"
    using Some p by (auto dest: AdvancePeekSymbol_shrinks PeekNextSymbol_text)
  moreover have "length (lex_text s') \<le> length (lex_text s1)"
    using assms reads_length [OF reads_SkipComment [of s1]] reads_length [OF reads_SkipComment [of s2]]
      \<open>lex_text s2 = lex_text s1\<close>
    by (auto simp: SkipComment.simps [of s] Some p Let_def split: if_splits)
  ultimately show ?thesis by simp
qed

lemma reads_ReadNextReal_loop: "reads s (snd (ReadNextReal_loop ct s))"
proof (induction s rule: measure_induct_rule [where f = "\<lambda>s. length (lex_text s)"])
  case (less s)
  show ?case
  proof (cases "AdvanceSymbol s")
    case None
    then show ?thesis by (simp add: ReadNextReal_loop.simps [of ct s])
  next
    case (Some s1)
    obtain ok s2 where p: "PeekNextSymbol s1 = (ok, s2)" by fastforce
    have shorter: "length (lex_text s1) < length (lex_text s)" "lex_text s2 = lex_text s1"
      using Some p by (auto dest: AdvanceSymbol_shrinks PeekNextSymbol_text)
    have "reads s s1" "reads s s2"
      using Some p by (blast intro: reads_steps reads_trans)+
    moreover from shorter have
      "reads s1 (snd (ReadNextReal_loop ct s1))" "reads s2 (snd (ReadNextReal_loop ct s2))"
      by (simp_all add: less.IH)
    ultimately show ?thesis
      by (auto simp: ReadNextReal_loop.simps [of ct s] Some p Let_def dest: reads_trans)
  qed
qed

lemma ReadNextReal_le: "length (lex_text (snd (ReadNextReal ct s))) \<le> length (lex_text s)"
  by (simp add: ReadNextReal_def reads_length [OF reads_ReadNextReal_loop])

lemma reads_PeekChoice: "reads s (snd (PeekChoice alts short s))"
  by (auto simp: PeekChoice.simps Let_def split_beta split: option.splits
      intro: reads_trans [OF reads_snd_PeekNextSymbol])

lemma reads_IsOperator_lex: "reads s (snd (IsOperator_lex s))"
  by (simp add: IsOperator_lex_def IsOperator_relational_def IsOperator_arithmetic_def
      IsOperator_bitwise_def Let_def reads_PeekChoice)

lemma IsPunctuation_lex_None: "IsPunctuation_lex s = (None, s') \<Longrightarrow> s' = s"
  by (auto simp: IsPunctuation_lex_def IsPunctuation_dot_def PeekChoice.simps Let_def split_beta
      split: if_splits option.splits)

lemma ReadNextWord_comment_shrinks:
  assumes "ReadNextReal ct s = (True, s1)" "IsPunctuation_lex s1 = (None, s2)"
    and "IsOperator_lex s2 = (tw, s3)" "SkipComment s3 = (True, s4)"
  shows "length (lex_text s4) < length (lex_text s)"
  using assms(3) ReadNextReal_le [of ct s] reads_length [OF reads_IsOperator_lex [of s2]]
    SkipComment_shrinks [OF assms(4)] IsPunctuation_lex_None [OF assms(2)] assms(1)
  by simp

text \<open>
  The second half of \<^verbatim>\<open>ReadNextWord\<close>, reached when the symbol is neither punctuation nor an
  operator: string, character and number literals, then words.
\<close>

definition ReadLiteralOrWord :: "ctype \<Rightarrow> lexer \<Rightarrow> lexeme option \<times> lexer" where
  "ReadLiteralOrWord ct s =
     (case IsStringLiteral False s of
        (Some (type, dontEcran), s1) \<Rightarrow>
          (case ReadStringLiteral [] dontEcran s1 of
             (ok, word, s2) \<Rightarrow> (if ok then Some (type, word) else None, s2))
      | (None, s1) \<Rightarrow>
     (case IsCharLiteral s1 of
        Some type \<Rightarrow>
          (case ReadCharLiteral [] False s1 of
             (ok, word, s2) \<Rightarrow> (if ok then Some (type, word) else None, s2))
      | None \<Rightarrow>
     (case IsNumberLiteral s1 of
        Some type \<Rightarrow> ReadNumberLiteral (type, []) s1
      | None \<Rightarrow>
          (case ReadNextWhileAlpha ct [] s1 of
             (word, s2) \<Rightarrow> (Some (ClassifyWord word, word), s2)))))"

text \<open>\<^verbatim>\<open>ReadNextWord\<close>.\<close>

function ReadNextWord :: "ctype \<Rightarrow> lexer \<Rightarrow> lexeme option \<times> lexer" where
  "ReadNextWord ct s =
     (case ReadNextReal ct s of
        (False, s1) \<Rightarrow> (None, s1)
      | (True, s1) \<Rightarrow>
     (case IsPunctuation_lex s1 of
        (Some tw, s2) \<Rightarrow> (Some tw, s2)
      | (None, s2) \<Rightarrow>
     (case IsOperator_lex s2 of
        (Some (type, word), s3) \<Rightarrow>
          if type = Gen Trivia then
            (case SkipComment s3 of
               (True, s4) \<Rightarrow> ReadNextWord ct s4
             | (False, s4) \<Rightarrow> (None, s4))
          else (Some (type, word), s3)
      | (None, s3) \<Rightarrow> ReadLiteralOrWord ct s3)))"
  by pat_completeness auto
termination
  by (relation "measure (\<lambda>(ct, s). length (lex_text s))")
     (auto, metis ReadNextWord_comment_shrinks)

declare ReadNextWord.simps [simp del]

lemma IsOperator_lex_None: "IsOperator_lex s = (None, s') \<Longrightarrow> s' = s"
  by (auto simp: IsOperator_lex_def IsOperator_relational_def IsOperator_arithmetic_def
      IsOperator_bitwise_def PeekChoice.simps Let_def split_beta split: if_splits option.splits)

definition ReadNextToken :: "ctype \<Rightarrow> lexer \<Rightarrow> SyntaxToken option \<times> lexer" where
  "ReadNextToken ct s =
     (case ReadNextWord ct s of
        (None, s1) \<Rightarrow> (None, s1)
      | (Some (type, word), s1) \<Rightarrow> (Some (SyntaxToken_of type word (GetLocation word s1)), s1))"

section \<open>The SourceProvider methods\<close>

definition Consume :: "ctype \<Rightarrow> lexer \<Rightarrow> SyntaxToken \<times> lexer" where
  "Consume ct s =
     (case lex_ReadBuffer s of
        token # rest \<Rightarrow> (token, s\<lparr>lex_ReadBuffer := rest\<rparr>)
      | [] \<Rightarrow>
          (case ReadNextToken ct s of
             (None, s1) \<Rightarrow>
               (EndOfFile_token, s1\<lparr>lex_ReadBuffer := lex_ReadBuffer s1 @ [EndOfFile_token]\<rparr>)
           | (Some consumeBuffer, s1) \<Rightarrow>
               (consumeBuffer, s1\<lparr>lex_ReadBuffer := lex_ReadBuffer s1 @ [consumeBuffer]\<rparr>)))"

definition Current :: "ctype \<Rightarrow> lexer \<Rightarrow> SyntaxToken \<times> lexer" where
  "Current ct s =
     (case lex_ReadBuffer s of [] \<Rightarrow> Consume ct s | token # _ \<Rightarrow> (token, s))"

text \<open>
  The loop of \<^verbatim>\<open>Peek\<close>, which fills the buffer; \<open>Some\<close> is its early \<^verbatim>\<open>return\<close> of the end token.
\<close>

fun Peek_extend :: "ctype \<Rightarrow> nat \<Rightarrow> lexer \<Rightarrow> SyntaxToken option \<times> lexer" where
  "Peek_extend ct 0 s = (None, s)"
| "Peek_extend ct (Suc extendFor) s =
     (case ReadNextToken ct s of
        (Some peekToken, s1) \<Rightarrow>
          Peek_extend ct extendFor (s1\<lparr>lex_ReadBuffer := lex_ReadBuffer s1 @ [peekToken]\<rparr>)
      | (None, s1) \<Rightarrow>
          (Some EndOfFile_token, s1\<lparr>lex_ReadBuffer := lex_ReadBuffer s1 @ [EndOfFile_token]\<rparr>))"

definition Peek :: "ctype \<Rightarrow> int \<Rightarrow> lexer \<Rightarrow> SyntaxToken \<times> lexer" where
  "Peek ct index s =
     (let index = index + 1;
          bufferSize = int (length (lex_ReadBuffer s));
          (early, s1) =
            (if index + 1 > bufferSize then Peek_extend ct (nat (index - bufferSize + 1)) s
             else (None, s))
      in case early of
           Some token \<Rightarrow> (token, s1)
         | None \<Rightarrow>
             if index < 0 \<or> index \<ge> int (length (lex_ReadBuffer s1)) then (EndOfFile_token, s1)
             else (lex_ReadBuffer s1 ! nat index, s1))"

definition PutBackToken :: "SyntaxToken \<Rightarrow> lexer \<Rightarrow> lexer" where
  "PutBackToken token s = s\<lparr>lex_ReadBuffer := token # lex_ReadBuffer s\<rparr>"

definition CanConsume :: "ctype \<Rightarrow> lexer \<Rightarrow> bool \<times> lexer" where
  "CanConsume ct s = (let (token, s1) = Current ct s in (tok_Type token \<noteq> Gen EndOfFile, s1))"

definition CanPeek :: "ctype \<Rightarrow> lexer \<Rightarrow> bool \<times> lexer" where
  "CanPeek ct s = (let (token, s1) = Peek ct 0 s in (tok_Type token \<noteq> Gen EndOfFile, s1))"

end
