(* ===== verification/LexerPosition.thy ===== *)
theory LexerPosition
  imports Lexer
begin

text \<open>
  Progress and positions of the lexer. The character the number reader puts back counts as
  unread: \<open>unread\<close> is that character, if any, followed by the rest of the text. Every method
  removes a prefix of \<open>unread\<close> and moves the line and column counters over exactly that
  prefix (\<open>scans_by\<close>); a token removes at least one character.
\<close>

section \<open>Unread text\<close>

definition unread :: "lexer \<Rightarrow> wstring" where
  "unread s = (if lex_HasPutbackSymbol s then [lex_PutbackSymbol s] else []) @ lex_text s"

text \<open>The only character ever put back is a dot.\<close>

definition putback_ok :: "lexer \<Rightarrow> bool" where
  "putback_ok s \<longleftrightarrow> lex_HasPutbackSymbol s \<longrightarrow> lex_PutbackSymbol s = wc CHR ''.''"

definition scans_by :: "wstring \<Rightarrow> lexer \<Rightarrow> lexer \<Rightarrow> bool" where
  "scans_by u s t \<longleftrightarrow>
     unread s = u @ unread t
     \<and> lex_pos t = fold pos_step u (lex_pos s)
     \<and> lex_ReadBuffer t = lex_ReadBuffer s
     \<and> GetName (lex_SourceText t) = GetName (lex_SourceText s)"

definition scans :: "lexer \<Rightarrow> lexer \<Rightarrow> bool" where
  "scans s t \<longleftrightarrow> (\<exists>u. scans_by u s t)"

definition scans_some :: "lexer \<Rightarrow> lexer \<Rightarrow> bool" where
  "scans_some s t \<longleftrightarrow> (\<exists>u. u \<noteq> [] \<and> scans_by u s t)"

lemma scans_refl [simp]: "scans s s"
  by (auto simp: scans_def scans_by_def intro: exI [of _ "[]"])

lemma scans_by_trans: "scans_by u r s \<Longrightarrow> scans_by v s t \<Longrightarrow> scans_by (u @ v) r t"
  by (auto simp: scans_by_def)

lemma scans_trans [trans]: "scans r s \<Longrightarrow> scans s t \<Longrightarrow> scans r t"
  unfolding scans_def by (blast intro: scans_by_trans)

lemma scans_some_scans: "scans_some s t \<Longrightarrow> scans s t"
  by (auto simp: scans_some_def scans_def)

lemma scans_some_trans: "scans_some r s \<Longrightarrow> scans s t \<Longrightarrow> scans_some r t"
  unfolding scans_some_def scans_def by (metis append_is_Nil_conv scans_by_trans)

lemma scans_trans_some: "scans r s \<Longrightarrow> scans_some s t \<Longrightarrow> scans_some r t"
  unfolding scans_some_def scans_def by (metis append_is_Nil_conv scans_by_trans)

text \<open>Inside a token nothing is put back, and the two relations agree.\<close>

lemma reads_by_scans_by:
  "reads_by u s t \<Longrightarrow> \<not> lex_HasPutbackSymbol s \<Longrightarrow> scans_by u s t \<and> \<not> lex_HasPutbackSymbol t"
  by (auto simp: reads_by_def scans_by_def unread_def)

lemma reads_scans:
  "reads s t \<Longrightarrow> \<not> lex_HasPutbackSymbol s \<Longrightarrow> scans s t \<and> \<not> lex_HasPutbackSymbol t"
  unfolding reads_def scans_def by (blast dest: reads_by_scans_by)

lemma putback_ok_False [simp]: "\<not> lex_HasPutbackSymbol s \<Longrightarrow> putback_ok s"
  by (simp add: putback_ok_def)

lemma scans_some_length: "scans_some s t \<Longrightarrow> length (unread t) < length (unread s)"
  by (auto simp: scans_some_def scans_by_def)

section \<open>The methods\<close>

lemma ReadNextReal_loop_some:
  assumes "ReadNextReal_loop ct s = (True, t)" and "\<not> lex_HasPutbackSymbol s"
  shows "scans_some s t"
proof (cases "AdvanceSymbol s")
  case None
  with assms show ?thesis by (simp add: ReadNextReal_loop.simps [of ct s])
next
  case (Some s1)
  obtain ok s2 where p: "PeekNextSymbol s1 = (ok, s2)" by fastforce
  have "scans_by [lex_Symbol s1] s s1" and np: "\<not> lex_HasPutbackSymbol s1"
    using reads_by_scans_by [OF reads_by_AdvanceSymbol [OF Some]] assms(2) by auto
  then have some: "scans_some s s1"
    by (auto simp: scans_some_def)
  have "reads s1 t"
    using assms(1) reads_ReadNextReal_loop [of s1 ct] reads_ReadNextReal_loop [of s2 ct]
      reads_PeekNextSymbol [OF p]
    by (auto simp: ReadNextReal_loop.simps [of ct s] Some p Let_def split: if_splits
        dest: reads_trans)
  then have "scans s1 t" using np by (blast dest: reads_scans)
  with some show ?thesis by (rule scans_some_trans)
qed

lemma ReadNextReal_scans:
  assumes "ReadNextReal ct s = (b, t)" and "putback_ok s"
  shows "scans s t" and "\<not> lex_HasPutbackSymbol t" and "b \<Longrightarrow> scans_some s t"
proof -
  show some: "scans_some s t" if b
  proof (cases "lex_HasPutbackSymbol s")
    case True
    with assms have "scans_by [wc CHR ''.''] s t"
      by (auto simp: ReadNextReal_def scans_by_def unread_def putback_ok_def)
    then show ?thesis by (auto simp: scans_some_def)
  next
    case False
    with assms that show ?thesis by (auto simp: ReadNextReal_def intro: ReadNextReal_loop_some)
  qed
  show "scans s t"
    using assms some reads_scans [OF reads_ReadNextReal_loop [of s ct]]
    by (cases "lex_HasPutbackSymbol s") (auto simp: ReadNextReal_def scans_some_scans)
  show "\<not> lex_HasPutbackSymbol t"
    using assms reads_scans [OF reads_ReadNextReal_loop [of s ct]]
    by (auto simp: ReadNextReal_def split: if_splits)
qed

lemma reads_IsPunctuation_lex: "reads s (snd (IsPunctuation_lex s))"
  by (auto simp: IsPunctuation_lex_def IsPunctuation_dot_def Let_def split_beta
      intro!: reads_PeekChoice reads_then_Peek reads_then_Skip)

lemma reads_ReadCharLiteral_loop: "reads s (snd (snd (ReadCharLiteral_loop ecran word s)))"
proof (induction s arbitrary: ecran word rule: measure_induct_rule [where f = "\<lambda>s. length (lex_text s)"])
  case (less s)
  show ?case
  proof (cases "AdvanceSymbol s")
    case None
    then show ?thesis by (simp add: ReadCharLiteral_loop.simps [of _ _ s])
  next
    case (Some s1)
    have "reads s s1" and "reads s1 (snd (snd (ReadCharLiteral_loop e w s1)))" for e w
      using Some by (auto intro: reads_steps less.IH AdvanceSymbol_shrinks)
    then show ?thesis
      by (auto simp: ReadCharLiteral_loop.simps [of _ _ s] Some Let_def
          intro: reads_trans reads_snd_PeekNextSymbol)
  qed
qed

lemma reads_ReadStringLiteral_loop:
  "reads s (snd (snd (ReadStringLiteral_loop dontEcran ecran word s)))"
proof (induction s arbitrary: dontEcran ecran word rule: measure_induct_rule [where f = "\<lambda>s. length (lex_text s)"])
  case (less s)
  show ?case
  proof (cases "AdvanceSymbol s")
    case None
    then show ?thesis by (simp add: ReadStringLiteral_loop.simps [of _ _ _ s])
  next
    case (Some s1)
    have "reads s s1"
      using Some by (rule reads_steps)
    have "reads s (snd (snd (ReadStringLiteral_loop d e w (s1\<lparr>lex_Symbol := c\<rparr>))))" for d e w c
    proof (rule reads_trans)
      show "reads s (s1\<lparr>lex_Symbol := c\<rparr>)"
        using \<open>reads s s1\<close> by simp
      show "reads (s1\<lparr>lex_Symbol := c\<rparr>)
          (snd (snd (ReadStringLiteral_loop d e w (s1\<lparr>lex_Symbol := c\<rparr>))))"
        by (rule less.IH) (simp add: AdvanceSymbol_shrinks [OF Some])
    qed
    from this this [where c = "lex_Symbol s1"] \<open>reads s s1\<close> show ?thesis
      by (simp add: ReadStringLiteral_loop.simps [of _ _ _ s] Some Let_def reads_then_Peek)
  qed
qed

lemma reads_IsStringLiteral: "reads s (snd (IsStringLiteral d s))"
proof (induction s arbitrary: d rule: measure_induct_rule [where f = "\<lambda>s. length (lex_text s)"])
  case (less s)
  obtain ok s1 where p: "PeekNextSymbol s = (ok, s1)" by fastforce
  have "reads (SkipPeekSymbol s1) (snd (IsStringLiteral True (SkipPeekSymbol s1)))" if ok
    using p that by (intro less.IH) (auto intro: SkipPeekSymbol_shrinks)
  moreover have "reads s s1" "reads s (SkipPeekSymbol s1)"
    using p by (blast intro: reads_steps reads_trans reads_SkipPeekSymbol)+
  ultimately show ?case
    by (auto simp: IsStringLiteral.simps [of d s] p intro: reads_trans)
qed

lemma reads_ReadNextWhileAlpha_loop: "reads s (snd (ReadNextWhileAlpha_loop ct word s))"
proof (induction s arbitrary: word rule: measure_induct_rule [where f = "\<lambda>s. length (lex_text s)"])
  case (less s)
  obtain ok s1 where p: "PeekNextSymbol s = (ok, s1)" by fastforce
  have "reads s s1" "lex_text s1 = lex_text s"
    using p by (auto dest: reads_steps PeekNextSymbol_text)
  moreover have "reads s1 s2 \<and> reads s2 (snd (ReadNextWhileAlpha_loop ct w s2))"
    if "AdvanceSymbol s1 = Some s2" for s2 w
    using that AdvanceSymbol_shrinks [OF that] \<open>lex_text s1 = lex_text s\<close>
    by (auto intro: reads_steps less.IH)
  ultimately show ?case
    by (auto simp: ReadNextWhileAlpha_loop.simps [of ct word s] p split: option.splits
        dest: reads_trans)
qed

text \<open>
  The number reader: a pass that continues leaves nothing put back; the pass that ends the
  literal may put a dot back, which gives that dot and its column back to the unread text.
\<close>

definition number_ok :: "bool \<Rightarrow> lexer \<Rightarrow> lexer \<Rightarrow> bool" where
  "number_ok continue s t \<longleftrightarrow>
     scans s t \<and> putback_ok t \<and> (continue \<longrightarrow> \<not> lex_HasPutbackSymbol t)"

lemma number_ok_reads: "reads s t \<Longrightarrow> \<not> lex_HasPutbackSymbol s \<Longrightarrow> number_ok b s t"
  by (auto simp: number_ok_def dest: reads_scans)

lemma number_ok_trans: "scans r s \<Longrightarrow> number_ok b s t \<Longrightarrow> number_ok b r t"
  by (auto simp: number_ok_def intro: scans_trans)

lemma scans_putback:
  assumes "reads_by [wc CHR ''.''] s t" and "\<not> lex_HasPutbackSymbol s"
  shows "scans s (t\<lparr>lex_HasPutbackSymbol := True, lex_PutbackSymbol := wc CHR ''.'',
                   lex_Offset := lex_Offset t - 1\<rparr>)"
proof -
  have "scans_by [] s (t\<lparr>lex_HasPutbackSymbol := True, lex_PutbackSymbol := wc CHR ''.'',
                       lex_Offset := lex_Offset t - 1\<rparr>)"
    using assms by (auto simp: reads_by_def scans_by_def unread_def)
  then show ?thesis by (auto simp: scans_def)
qed

lemma PeekNextSymbol_predicts:
  assumes "PeekNextSymbol s = (ok, s1)" and "AdvancePeekSymbol s1 = Some s2"
  shows "lex_PeekSymbol s2 = lex_PeekSymbol s1"
proof -
  obtain r where r: "lex_text s1 = lex_PeekSymbol s2 # r"
    using assms(2) by (auto simp: AdvancePeekSymbol_def dest: Advance_SomeD(1))
  with assms(1) have "lex_text s = lex_PeekSymbol s2 # r"
    by (simp add: PeekNextSymbol_text)
  then have "PeekNext (lex_SourceText s) = (True, lex_PeekSymbol s2)"
    by (rule reader.peek_more)
  with assms(1) show ?thesis by (auto simp: PeekNextSymbol_def)
qed

lemma number_tail_ok:
  assumes "number_tail fd tw s = (b, fd', tw', t)" and "\<not> lex_HasPutbackSymbol s"
    and peeked: "PeekNextSymbol s0 = (ok, s)"
  shows "number_ok b s t"
proof (cases "lex_PeekSymbol s = wc CHR ''.'' \<and> \<not> fd \<and> AdvancePeekSymbol s \<noteq> None")
  case False
  then have "reads s t"
    using assms(1) by (auto simp: number_tail_def Let_def split_beta split: if_splits)
  from this assms(2) show ?thesis by (rule number_ok_reads)
next
  case True
  then obtain s1 where s1: "AdvancePeekSymbol s = Some s1" by auto
  have "reads_by [wc CHR ''.''] s s1"
    using reads_by_AdvancePeekSymbol [OF s1] PeekNextSymbol_predicts [OF peeked s1] True by simp
  moreover have "\<not> lex_HasPutbackSymbol s1" and "reads s (SkipPeekSymbol s1)"
    using reads_scans [OF reads_AdvancePeekSymbol [OF s1]] assms(2)
      reads_then_Skip [OF reads_AdvancePeekSymbol [OF s1]] by auto
  ultimately show ?thesis
    using assms(1,2) True s1 scans_putback [of s s1]
    by (auto simp: number_tail_def Let_def split_beta number_ok_def putback_ok_def
        split: if_splits dest: reads_scans)
qed

lemma number_pass_ok:
  assumes "number_pass fd tw s = (b, fd', tw', t)" and np: "\<not> lex_HasPutbackSymbol s"
  shows "number_ok b s t"
proof -
  obtain ok s1 where p: "PeekNextSymbol s = (ok, s1)" by fastforce
  have s1: "reads s s1" "\<not> lex_HasPutbackSymbol s1" "scans s s1"
    using reads_PeekNextSymbol [OF p] reads_scans [OF reads_PeekNextSymbol [OF p] np] by auto
  show ?thesis
  proof (cases "ok \<and> lex_PeekSymbol s1 = wc CHR ''`'' \<and> AdvancePeekSymbol s1 \<noteq> None")
    case False
    with assms p s1 show ?thesis
      by (auto simp: number_pass_def split: if_splits option.splits
          intro: number_ok_reads number_ok_trans number_tail_ok)
  next
    case True
    then obtain s2 where s2: "AdvancePeekSymbol s1 = Some s2" by auto
    obtain ok' s3 where q: "PeekNextSymbol s2 = (ok', s3)" by fastforce
    have "reads s s3"
      using s1(1) reads_AdvancePeekSymbol [OF s2] reads_PeekNextSymbol [OF q] by (blast intro: reads_trans)
    moreover from this np have "\<not> lex_HasPutbackSymbol s3" "scans s s3"
      by (auto dest: reads_scans)
    ultimately show ?thesis
      using assms p True s2 q
      by (auto simp: number_pass_def split: if_splits intro: number_ok_reads number_ok_trans number_tail_ok)
  qed
qed

lemma ReadNumberLiteral_loop_ok:
  "\<not> lex_HasPutbackSymbol s \<Longrightarrow> number_ok False s (snd (ReadNumberLiteral_loop fd tw s))"
proof (induction fd tw s rule: ReadNumberLiteral_loop.induct)
  case (1 fd tw s)
  obtain b fd' tw' t where p: "number_pass fd tw s = (b, fd', tw', t)" by (metis prod_cases4)
  have ok: "number_ok b s t" using p "1.prems" by (rule number_pass_ok)
  show ?case
  proof (cases b)
    case True
    with ok have "\<not> lex_HasPutbackSymbol t" "scans s t" by (auto simp: number_ok_def)
    with "1.IH" p True show ?thesis
      by (cases tw') (auto simp: ReadNumberLiteral_loop.simps [of fd tw s] intro: number_ok_trans)
  next
    case False
    with ok p show ?thesis by (simp add: ReadNumberLiteral_loop.simps [of fd tw s])
  qed
qed

lemma ReadNumberLiteral_ok:
  assumes "\<not> lex_HasPutbackSymbol s"
  shows "number_ok False s (snd (ReadNumberLiteral tw s))"
proof -
  obtain ok s1 where p: "PeekNextSymbol s = (ok, s1)" by fastforce
  have "reads s s1" "reads s (SkipPeekSymbol s1)"
    using p by (auto intro: reads_then_Skip dest: reads_PeekNextSymbol)
  then have "number_ok False s (snd (ReadNumberLiteral_loop fd tw' s1))"
    "number_ok False s (snd (ReadNumberLiteral_loop fd tw' (SkipPeekSymbol s1)))" for fd tw'
    using assms by (blast intro: number_ok_trans ReadNumberLiteral_loop_ok dest: reads_scans)+
  with ReadNumberLiteral_loop_ok [OF assms] show ?thesis
    by (auto simp: ReadNumberLiteral_def p Let_def split_beta)
qed

section \<open>Tokens\<close>

lemma ReadLiteralOrWord_ok:
  assumes "\<not> lex_HasPutbackSymbol s"
  shows "number_ok False s (snd (ReadLiteralOrWord ct s))"
proof -
  obtain r s1 where p: "IsStringLiteral False s = (r, s1)" by fastforce
  have s1: "reads s s1" using reads_IsStringLiteral [of s False] p by simp
  with assms have np: "\<not> lex_HasPutbackSymbol s1" "scans s s1" by (auto dest: reads_scans)
  have "reads s (snd (snd (ReadStringLiteral w d s1)))" "reads s (snd (snd (ReadCharLiteral w d s1)))"
    "reads s (snd (ReadNextWhileAlpha ct w s1))" for w d
    using s1 by (auto simp: ReadStringLiteral_def ReadCharLiteral_def ReadNextWhileAlpha_def
        intro: reads_trans reads_ReadStringLiteral_loop reads_ReadCharLiteral_loop
          reads_ReadNextWhileAlpha_loop)
  moreover have "number_ok False s (snd (ReadNumberLiteral tw s1))" for tw
    using np ReadNumberLiteral_ok by (blast intro: number_ok_trans)
  ultimately show ?thesis
    using assms by (auto simp: ReadLiteralOrWord_def p split_beta split: option.splits
        intro: number_ok_reads)
qed

lemma ReadNextWord_scans:
  assumes "ReadNextWord ct s = (r, t)" and "putback_ok s"
  shows "scans s t \<and> putback_ok t \<and> (r \<noteq> None \<longrightarrow> scans_some s t)"
  using assms
proof (induction ct s rule: ReadNextWord.induct)
  case (1 ct s)
  obtain b s1 where r1: "ReadNextReal ct s = (b, s1)" by fastforce
  note real = ReadNextReal_scans [OF r1 "1.prems"(2)]
  obtain tw2 s2 where p: "IsPunctuation_lex s1 = (tw2, s2)" by fastforce
  obtain tw3 s3 where o: "IsOperator_lex s2 = (tw3, s3)" by fastforce
  obtain c s4 where c: "SkipComment s3 = (c, s4)" by fastforce
  show ?case
  proof (cases b)
    case False
    with "1.prems"(1) r1 real show ?thesis by (simp add: ReadNextWord.simps [of ct s])
  next
    case True
    have some: "scans_some s s1" using real(3) True .
    have step: "scans s t' \<and> putback_ok t' \<and> scans_some s t'" if "number_ok False s1 t'" for t'
      using that some real(1) by (auto simp: number_ok_def intro: scans_trans scans_some_trans)
    have step': "scans s t' \<and> putback_ok t' \<and> scans_some s t'" if "reads s1 t'" for t'
      by (rule step) (rule number_ok_reads [OF that real(2)])
    consider (punct) tw where "tw2 = Some tw"
      | (word) "tw2 = None" "tw3 = None" "s3 = s1"
      | (oper) ty w where "tw2 = None" "tw3 = Some (ty, w)" "ty \<noteq> Gen Trivia" "reads s1 s3"
      | (comment) w where "tw2 = None" "tw3 = Some (Gen Trivia, w)" "reads s1 s4"
    proof -
      have "tw2 = None \<Longrightarrow> s2 = s1" "tw3 = None \<Longrightarrow> s3 = s2" "reads s2 s3" "reads s2 s4"
        using p o c reads_IsOperator_lex [of s2] reads_trans [OF _ reads_SkipComment [of s3], of s2]
        by (auto dest: IsOperator_lex_None IsPunctuation_lex_None)
      with that show ?thesis
        by (cases tw2; cases tw3; cases "fst (the tw3) = Gen Trivia") auto
    qed
    then show ?thesis
    proof cases
      case punct
      with "1.prems"(1) r1 True p step' reads_IsPunctuation_lex [of s1] show ?thesis
        by (simp add: ReadNextWord.simps [of ct s])
    next
      case word
      with "1.prems"(1) r1 True p o step ReadLiteralOrWord_ok [OF real(2), of ct] show ?thesis
        by (simp add: ReadNextWord.simps [of ct s])
    next
      case oper
      with "1.prems"(1) r1 True p o step' show ?thesis
        by (simp add: ReadNextWord.simps [of ct s])
    next
      case comment
      then have s4: "scans s s4" "putback_ok s4" "scans_some s s4" using step' by auto
      show ?thesis
      proof (cases c)
        case False
        with "1.prems"(1) r1 True p o c comment s4 show ?thesis
          by (simp add: ReadNextWord.simps [of ct s])
      next
        case c': True
        have "ReadNextWord ct s4 = (r, t)"
          using "1.prems"(1) r1 True p o c c' comment by (simp add: ReadNextWord.simps [of ct s])
        from "1.IH" [OF r1 [symmetric] _ p [symmetric] _ o [symmetric] _ _ _ c [symmetric] _ this s4(2)]
        have "scans s4 t \<and> putback_ok t"
          using True c' comment by auto
        with s4 show ?thesis by (blast intro: scans_trans scans_some_trans)
      qed
    qed
  qed
qed

lemma ReadNextToken_scans:
  assumes "ReadNextToken ct s = (r, t)" and "putback_ok s"
  shows "scans s t" and "putback_ok t" and "r \<noteq> None \<Longrightarrow> scans_some s t"
proof -
  obtain r' t' where w: "ReadNextWord ct s = (r', t')" by fastforce
  then have "t = t' \<and> (r \<noteq> None \<longrightarrow> r' \<noteq> None)"
    using assms(1) by (auto simp: ReadNextToken_def split: option.splits)
  with ReadNextWord_scans [OF w assms(2)]
  show "scans s t" "putback_ok t" "r \<noteq> None \<Longrightarrow> scans_some s t" by auto
qed

lemma ReadNextToken_shrinks:
  "ReadNextToken ct s = (Some tok, t) \<Longrightarrow> putback_ok s \<Longrightarrow> length (unread t) < length (unread s)"
  by (blast dest: ReadNextToken_scans(3) scans_some_length)

lemma ReadNextToken_buffer: "putback_ok s \<Longrightarrow> lex_ReadBuffer (snd (ReadNextToken ct s)) = lex_ReadBuffer s"
  using ReadNextToken_scans(1) [of ct s "fst (ReadNextToken ct s)" "snd (ReadNextToken ct s)"]
  by (auto simp: scans_def scans_by_def)

lemma putback_ok_fresh [simp]: "putback_ok (LexicalAnalyzer_of r)"
  by (simp add: putback_ok_def LexicalAnalyzer_of_def)

end
