(* ===== verification/LexerWords.thy ===== *)
theory LexerWords
  imports Lexer
begin

text \<open>
  How the lexer classifies words. \<open>reserved_words\<close> is the language's word list as one table; the
  chain of eleven comparison functions the lexer runs is shown to be a lookup in it.
\<close>

section \<open>The table of reserved words\<close>

definition reserved_words :: "(string \<times> TokenType) list" where
  "reserved_words =
     [(''true'', Lit BooleanLiteral), (''false'', Lit BooleanLiteral),
      (''null'', Lit NullLiteral), (''nil'', Lit NullLiteral), (''using'', Dc UsingKeyword),
      (''method'', Dc MethodKeyword), (''class'', Dc ClassKeyword),
      (''struct'', Dc StructKeyword), (''interface'', Dc InterfaceKeyword),
      (''enum'', Dc EnumKeyword), (''namespace'', Dc NamespaceKeyword),
      (''public'', Md PublicKeyword), (''private'', Md PrivateKeyword),
      (''protected'', Md ProtectedKeyword), (''internal'', Md InternalKeyword),
      (''static'', Md StaticKeyword), (''async'', Md AsyncKeyword),
      (''extern'', Md ExternKeyword), (''export'', Md ExportKeyword),
      (''and'', Op AndOperator), (''or'', Op OrOperator), (''not'', Op NotOperator),
      (''void'', Ty VoidKeyword), (''var'', Ty VarKeyword), (''bool'', Ty BooleanKeyword),
      (''string'', Ty StringKeyword), (''double'', Ty DoubleKeyword),
      (''int'', Ty IntegerKeyword), (''char'', Ty CharKeyword), (''byte'', Ty ByteKeyword),
      (''nint'', Ty NativeIntegerKeyword), (''lambda'', Ty LambdaKeyword),
      (''delegate'', Ty DelegateKeyword), (''if'', St IfKeyword),
      (''unless'', St UnlessKeyword), (''else'', St ElseKeyword),
      (''switch'', St SwitchKeyword), (''case'', St CaseKeyword),
      (''default'', St DefaultKeyword), (''return'', St ReturnKeyword),
      (''continue'', St ContinueKeyword), (''break'', St BreakKeyword),
      (''throw'', St ThrowKeyword), (''try'', St TryKeyword), (''catch'', St CatchKeyword),
      (''await'', St AwaitKeyword), (''for'', St ForKeyword), (''while'', St WhileKeyword),
      (''until'', St UntilKeyword), (''do'', St DoKeyword), (''foreach'', St ForeachKeyword),
      (''in'', St InKeyword), (''new'', Gen NewKeyword), (''get'', Md GetKeyword),
      (''set'', Md SetKeyword), (''field'', Md FieldKeyword), (''indexer'', Md IndexerKeyword),
      (''defer'', St DeferKeyword), (''where'', St WhereKeyword), (''const'', Dc ConstKeyword),
      (''func'', Dc FunctionKeyword), (''init'', Dc InitKeyword),
      (''operator'', Dc OperatorKeyword), (''value'', Dc ValueKeyword),
      (''is'', Op IsOperator_token), (''as'', Op AsOperator)] "

definition lookup_word :: "(string \<times> TokenType) list \<Rightarrow> wstring \<Rightarrow> TokenType option" where
  "lookup_word table word = map_of (map (\<lambda>(k, t). (L k, t)) table) word"

lemma lookup_word_Nil [simp]: "lookup_word [] w = None"
  by (simp add: lookup_word_def)

lemma lookup_word_Cons [simp]:
  "lookup_word ((k, t) # table) w = (if w = L k then Some t else lookup_word table w)"
  by (auto simp: lookup_word_def)

text \<open>
  The chain is a chain of \<^theory_text>\<open>if\<close>s on the same word: pushing the \<^theory_text>\<open>case\<close> into them turns
  it into one flat chain.
\<close>

lemma case_option_if:
  "(case (if b then Some a else x) of Some t \<Rightarrow> f t | None \<Rightarrow> y) =
     (if b then f a else case x of Some t \<Rightarrow> f t | None \<Rightarrow> y)"
  by simp

lemmas word_chain_defs =
  IsBooleanLiteral_def IsNullLiteral_def IsDirectiveDecl_def IsTypeDecl_def IsModifier_lex_def
  IsWordOperator_def IsType_lex_def IsKeyword_lex_def IsConditionalKeyword_lex_def
  IsFunctionalKeyword_lex_def IsLoopKeyword_lex_def

lemma ClassifyWord_lookup:
  "ClassifyWord w = (case lookup_word reserved_words w of Some t \<Rightarrow> t | None \<Rightarrow> Gen Identifier)"
  unfolding ClassifyWord_def word_chain_defs reserved_words_def
  by (simp only: case_option_if option.case lookup_word_Cons lookup_word_Nil if_False if_True
      cong: if_cong)

lemma distinct_reserved_words: "distinct (map fst reserved_words)"
  by code_simp

lemma ClassifyWord_reserved: "(k, t) \<in> set reserved_words \<Longrightarrow> ClassifyWord (L k) = t"
proof -
  assume kt: "(k, t) \<in> set reserved_words"
  have "distinct (map fst (map (\<lambda>(k, t). (L k, t)) reserved_words))"
    using distinct_reserved_words
    by (simp add: comp_def split_beta distinct_map inj_on_def)
  moreover have "(L k, t) \<in> set (map (\<lambda>(k, t). (L k, t)) reserved_words)"
    using kt by force
  ultimately have "lookup_word reserved_words (L k) = Some t"
    unfolding lookup_word_def by (rule map_of_is_SomeI)
  then show ?thesis by (simp add: ClassifyWord_lookup)
qed

lemma ClassifyWord_range: "ClassifyWord w \<in> insert (Gen Identifier) (snd ` set reserved_words)"
  by (auto simp: ClassifyWord_lookup lookup_word_def split: option.split dest!: map_of_SomeD)
     force

lemma ClassifyWord_in_table: "P (Gen Identifier) \<Longrightarrow> list_all P (map snd reserved_words) \<Longrightarrow> P (ClassifyWord w)"
  using ClassifyWord_range [of w] by (auto simp: list_all_iff)

lemma ClassifyWord_neq_EOF [simp]: "ClassifyWord w \<noteq> Gen EndOfFile"
  by (rule ClassifyWord_in_table) (simp_all add: reserved_words_def)

end
