(* ===== verification/LexicalBuffers.thy ===== *)
theory LexicalBuffers
  imports LexerPosition LexerWords
begin

text \<open>
  Token sources: the interface \<^verbatim>\<open>SourceProvider\<close> as a locale, the replayable buffer
  \<^verbatim>\<open>LexicalBuffer\<close> (\<^verbatim>\<open>src/lexical/LexicalBuffer.cpp\<close>), and the two implementations of the
  interface, the buffer and the lexer.

  The loop of \<^verbatim>\<open>PopulateFrom\<close> calls a provider through the interface, so it is a function of
  the provider's operations; whether it ends depends on the provider, and not returning is
  \<open>None\<close>.
\<close>

section \<open>LexicalBuffer\<close>

text \<open>\<^verbatim>\<open>CurrentIndex\<close> is a \<^verbatim>\<open>size_t\<close> that never exceeds the largest index a vector can have.\<close>

record LexicalBuffer =
  buf_Sequence :: "SyntaxToken list"
  buf_CurrentIndex :: nat

definition LexicalBuffer_new :: LexicalBuffer where
  "LexicalBuffer_new = \<lparr>buf_Sequence = [], buf_CurrentIndex = 0\<rparr>"

definition Push_buf :: "SyntaxToken \<Rightarrow> LexicalBuffer \<Rightarrow> LexicalBuffer" where
  "Push_buf token b = b\<lparr>buf_Sequence := buf_Sequence b @ [token]\<rparr>"

definition Clear_buf :: "LexicalBuffer \<Rightarrow> LexicalBuffer" where
  "Clear_buf b = b\<lparr>buf_CurrentIndex := 0, buf_Sequence := []\<rparr>"

definition SetSequence_buf :: "SyntaxToken list \<Rightarrow> LexicalBuffer \<Rightarrow> LexicalBuffer" where
  "SetSequence_buf setvector b = (Clear_buf b)\<lparr>buf_Sequence := setvector\<rparr>"

definition SetIndex_buf :: "nat \<Rightarrow> LexicalBuffer \<Rightarrow> LexicalBuffer" where
  "SetIndex_buf newIndex b = b\<lparr>buf_CurrentIndex := newIndex\<rparr>"

text \<open>\<^verbatim>\<open>At\<close> throws \<^verbatim>\<open>std::out_of_range\<close>, which is \<open>None\<close>.\<close>

definition At_buf :: "nat \<Rightarrow> LexicalBuffer \<Rightarrow> SyntaxToken option" where
  "At_buf index b =
     (if index < length (buf_Sequence b) then Some (buf_Sequence b ! index) else None)"

definition Size_buf :: "LexicalBuffer \<Rightarrow> nat" where
  "Size_buf b = length (buf_Sequence b)"

definition Current_buf :: "LexicalBuffer \<Rightarrow> SyntaxToken" where
  "Current_buf b =
     (if buf_CurrentIndex b \<ge> length (buf_Sequence b) then EndOfFile_token
      else buf_Sequence b ! buf_CurrentIndex b)"

definition Consume_buf :: "LexicalBuffer \<Rightarrow> SyntaxToken \<times> LexicalBuffer" where
  "Consume_buf b =
     (if buf_CurrentIndex b \<ge> length (buf_Sequence b) then (EndOfFile_token, b)
      else (buf_Sequence b ! buf_CurrentIndex b,
            b\<lparr>buf_CurrentIndex := buf_CurrentIndex b + 1\<rparr>))"

text \<open>\<^verbatim>\<open>Peek\<close> converts its \<^verbatim>\<open>int\<close> to \<^verbatim>\<open>size_t\<close>: the sum is taken modulo \<open>2 ^ 64\<close>.\<close>

definition Peek_buf :: "int \<Rightarrow> LexicalBuffer \<Rightarrow> SyntaxToken" where
  "Peek_buf index b =
     (let target = nat ((int (buf_CurrentIndex b) + 1 + index) mod 2 ^ 64) in
      if target \<ge> length (buf_Sequence b) then EndOfFile_token else buf_Sequence b ! target)"

definition PutBackToken_buf :: "SyntaxToken \<Rightarrow> LexicalBuffer \<Rightarrow> LexicalBuffer" where
  "PutBackToken_buf token b =
     (let b1 = (if buf_CurrentIndex b > length (buf_Sequence b)
                then b\<lparr>buf_CurrentIndex := length (buf_Sequence b)\<rparr> else b)
      in b1\<lparr>buf_Sequence := take (buf_CurrentIndex b1) (buf_Sequence b1) @ [token]
                             @ drop (buf_CurrentIndex b1) (buf_Sequence b1)\<rparr>)"

definition CanConsume_buf :: "LexicalBuffer \<Rightarrow> bool" where
  "CanConsume_buf b \<longleftrightarrow> buf_CurrentIndex b < length (buf_Sequence b)"

definition CanPeek_buf :: "LexicalBuffer \<Rightarrow> bool" where
  "CanPeek_buf b \<longleftrightarrow>
     (if buf_Sequence b = [] then False else buf_CurrentIndex b + 1 < length (buf_Sequence b))"

section \<open>Filling a buffer from a provider\<close>

partial_function (option) PopulateFrom_provider ::
  "('s \<Rightarrow> bool \<times> 's) \<Rightarrow> ('s \<Rightarrow> SyntaxToken \<times> 's) \<Rightarrow> ('s \<Rightarrow> SyntaxToken \<times> 's) \<Rightarrow>
   LexicalBuffer \<Rightarrow> 's \<Rightarrow> (LexicalBuffer \<times> 's) option" where
  "PopulateFrom_provider can_consume current consume b r =
     (case can_consume r of (ok, r1) \<Rightarrow>
        if ok then
          (case current r1 of (token, r2) \<Rightarrow>
             PopulateFrom_provider can_consume current consume (Push_buf token b)
               (snd (consume r2)))
        else Some (b, r1))"

definition From_provider ::
  "('s \<Rightarrow> bool \<times> 's) \<Rightarrow> ('s \<Rightarrow> SyntaxToken \<times> 's) \<Rightarrow> ('s \<Rightarrow> SyntaxToken \<times> 's) \<Rightarrow>
   's \<Rightarrow> (LexicalBuffer \<times> 's) option" where
  "From_provider can_consume current consume r =
     PopulateFrom_provider can_consume current consume LexicalBuffer_new r"

definition PopulateFrom_text ::
  "ctype \<Rightarrow> LexicalBuffer \<Rightarrow> StringStreamReader \<Rightarrow> (LexicalBuffer \<times> lexer) option" where
  "PopulateFrom_text ct b reader =
     PopulateFrom_provider (CanConsume ct) (Current ct) (Consume ct) b (LexicalAnalyzer_of reader)"

definition From_text :: "ctype \<Rightarrow> StringStreamReader \<Rightarrow> (LexicalBuffer \<times> lexer) option" where
  "From_text ct reader =
     From_provider (CanConsume ct) (Current ct) (Consume ct) (LexicalAnalyzer_of reader)"

definition PopulateFrom_vector :: "SyntaxToken list \<Rightarrow> LexicalBuffer \<Rightarrow> LexicalBuffer" where
  "PopulateFrom_vector fromvector b = fold Push_buf fromvector b"

definition From_vector :: "SyntaxToken list \<Rightarrow> LexicalBuffer" where
  "From_vector fromvector = SetSequence_buf fromvector LexicalBuffer_new"

section \<open>The SourceProvider contract\<close>

text \<open>
  A provider stands for a list of pending tokens. \<open>CanConsume\<close> tells whether there is one,
  \<open>Current\<close> shows the first, \<open>Consume\<close> removes it, \<open>PutBackToken\<close> adds one in front. The
  interface does not promise that \<open>Consume\<close> alone removes a token: \<open>ready\<close> are the states
  after a \<open>CanConsume\<close> or a \<open>Current\<close>, where it does.
\<close>

locale source_provider =
  fixes inv :: "'s \<Rightarrow> bool"
    and ready :: "'s \<Rightarrow> bool"
    and pending :: "'s \<Rightarrow> SyntaxToken list"
    and can_consume :: "'s \<Rightarrow> bool \<times> 's"
    and current :: "'s \<Rightarrow> SyntaxToken \<times> 's"
    and consume :: "'s \<Rightarrow> SyntaxToken \<times> 's"
    and put_back :: "SyntaxToken \<Rightarrow> 's \<Rightarrow> 's"
  assumes can_consume_iff: "inv s \<Longrightarrow> fst (can_consume s) \<longleftrightarrow> pending s \<noteq> []"
    and can_consume_keeps: "inv s \<Longrightarrow>
          inv (snd (can_consume s)) \<and> ready (snd (can_consume s))
          \<and> pending (snd (can_consume s)) = pending s"
    and current_hd: "inv s \<Longrightarrow> pending s \<noteq> [] \<Longrightarrow> fst (current s) = hd (pending s)"
    and current_keeps: "inv s \<Longrightarrow>
          inv (snd (current s)) \<and> ready (snd (current s)) \<and> pending (snd (current s)) = pending s"
    and consume_hd: "inv s \<Longrightarrow> ready s \<Longrightarrow> pending s \<noteq> [] \<Longrightarrow> fst (consume s) = hd (pending s)"
    and consume_tl: "inv s \<Longrightarrow> ready s \<Longrightarrow> pending s \<noteq> [] \<Longrightarrow>
          inv (snd (consume s)) \<and> pending (snd (consume s)) = tl (pending s)"
    and put_back_pending: "inv s \<Longrightarrow> tok_Type t \<noteq> Gen EndOfFile \<Longrightarrow>
          inv (put_back t s) \<and> ready (put_back t s) \<and> pending (put_back t s) = t # pending s"
begin

text \<open>Filling a buffer from a provider ends, with exactly the pending tokens in order.\<close>

lemma PopulateFrom_pending:
  assumes "inv s"
  shows "\<exists>s'. PopulateFrom_provider can_consume current consume b s
           = Some (b\<lparr>buf_Sequence := buf_Sequence b @ pending s\<rparr>, s')
         \<and> inv s' \<and> pending s' = []"
  using assms
proof (induction "pending s" arbitrary: s b)
  case Nil
  obtain s1 where c: "can_consume s = (False, s1)"
    using can_consume_iff [OF Nil.prems] Nil.hyps by (metis prod.collapse)
  with can_consume_keeps [OF Nil.prems] Nil.hyps show ?case
    by (subst PopulateFrom_provider.simps) auto
next
  case (Cons t ts)
  obtain s1 where c: "can_consume s = (True, s1)"
    using can_consume_iff [OF Cons.prems] Cons.hyps(2) by (metis list.distinct(1) prod.collapse)
  then have s1: "inv s1" "pending s1 = t # ts"
    using can_consume_keeps [OF Cons.prems] Cons.hyps(2) by auto
  obtain s2 where r: "current s1 = (t, s2)"
    using current_hd [OF s1(1)] s1(2) by (metis list.distinct(1) list.sel(1) prod.collapse)
  with current_keeps [OF s1(1)] s1(2) have s2: "inv s2" "ready s2" "pending s2 = t # ts" by auto
  define s3 where "s3 = snd (consume s2)"
  have s3: "inv s3" "pending s3 = ts"
    using consume_tl [OF s2(1,2)] s2(3) by (auto simp: s3_def)
  from Cons.hyps(1) [OF s3(2) [symmetric] s3(1), of "Push_buf t b"] s3(2)
  show ?case
    unfolding PopulateFrom_provider.simps [of _ _ _ b s] Cons.hyps(2) [symmetric]
    by (simp add: c r Push_buf_def s3_def)
qed

text \<open>Consuming a token and putting it back leaves the same tokens pending.\<close>

lemma put_back_consumed:
  assumes "inv s" "pending s \<noteq> []" "tok_Type (hd (pending s)) \<noteq> Gen EndOfFile"
  shows "pending (put_back (fst (consume (snd (current s)))) (snd (consume (snd (current s))))) = pending s"
  using assms current_keeps [OF assms(1)] consume_hd [of "snd (current s)"]
    consume_tl [of "snd (current s)"] put_back_pending
  by simp

text \<open>A token put back is the next one read.\<close>

lemma put_back_current:
  "inv s \<Longrightarrow> tok_Type t \<noteq> Gen EndOfFile \<Longrightarrow> fst (current (put_back t s)) = t"
  using put_back_pending [of s t] current_hd [of "put_back t s"] by simp

end

subsection \<open>The buffer provides it\<close>

definition pending_buf :: "LexicalBuffer \<Rightarrow> SyntaxToken list" where
  "pending_buf b = drop (buf_CurrentIndex b) (buf_Sequence b)"

interpretation buffer: source_provider
  "\<lambda>b. True" "\<lambda>b. True" pending_buf
  "\<lambda>b. (CanConsume_buf b, b)" "\<lambda>b. (Current_buf b, b)" Consume_buf PutBackToken_buf
  by unfold_locales
     (auto simp: pending_buf_def CanConsume_buf_def Current_buf_def Consume_buf_def
        PutBackToken_buf_def Let_def hd_drop_conv_nth drop_Suc tl_drop)

subsection \<open>The lexer provides it\<close>

text \<open>
  The tokens a lexer reads from its text until it reports the end; the token buffer plays no
  part. A step that did not shorten the text would end the list, and no step is such a step.
\<close>

function lex_tokens :: "ctype \<Rightarrow> lexer \<Rightarrow> SyntaxToken list" where
  "lex_tokens ct s =
     (case ReadNextToken ct (s\<lparr>lex_ReadBuffer := []\<rparr>) of
        (None, s') \<Rightarrow> []
      | (Some token, s') \<Rightarrow>
          if length (unread s') < length (unread s) then token # lex_tokens ct s' else [token])"
  by pat_completeness auto
termination
  by (relation "measure (\<lambda>(ct, s). length (unread s))") auto

declare lex_tokens.simps [simp del]

lemma unread_ReadBuffer [simp]: "unread (s\<lparr>lex_ReadBuffer := b\<rparr>) = unread s"
  by (simp add: unread_def)

lemma putback_ok_ReadBuffer [simp]: "putback_ok (s\<lparr>lex_ReadBuffer := b\<rparr>) = putback_ok s"
  by (simp add: putback_ok_def)

lemma lex_tokens_ReadBuffer [simp]: "lex_tokens ct (s\<lparr>lex_ReadBuffer := b\<rparr>) = lex_tokens ct s"
  by (simp add: lex_tokens.simps [of ct s] lex_tokens.simps [of ct "s\<lparr>lex_ReadBuffer := b\<rparr>"]
      split: option.split prod.split)

lemma ReadBuffer_Nil_update: "lex_ReadBuffer s = [] \<Longrightarrow> s\<lparr>lex_ReadBuffer := []\<rparr> = s"
  by (cases s) simp

lemma lex_tokens_None:
  "ReadNextToken ct s = (None, s') \<Longrightarrow> lex_ReadBuffer s = [] \<Longrightarrow> lex_tokens ct s = []"
  by (simp add: lex_tokens.simps [of ct s] ReadBuffer_Nil_update)

lemma lex_tokens_Some:
  "ReadNextToken ct s = (Some token, s') \<Longrightarrow> putback_ok s \<Longrightarrow> lex_ReadBuffer s = [] \<Longrightarrow>
     lex_tokens ct s = token # lex_tokens ct s'"
  by (simp add: lex_tokens.simps [of ct s] ReadBuffer_Nil_update ReadNextToken_shrinks)

definition pending_lex :: "ctype \<Rightarrow> lexer \<Rightarrow> SyntaxToken list" where
  "pending_lex ct s =
     takeWhile (\<lambda>t. tok_Type t \<noteq> Gen EndOfFile) (lex_ReadBuffer s @ lex_tokens ct s)"

text \<open>What \<^verbatim>\<open>Consume\<close> does to an empty buffer: it reads a token and keeps it.\<close>

lemma Consume_empty:
  assumes "lex_ReadBuffer s = []" and "putback_ok s"
  obtains token s1 where "Consume ct s = (token, s1)" and "lex_ReadBuffer s1 = [token]"
    and "putback_ok s1" and "pending_lex ct s1 = pending_lex ct s"
proof -
  obtain r s1 where r: "ReadNextToken ct s = (r, s1)" by fastforce
  have b: "lex_ReadBuffer s1 = []" and p: "putback_ok s1"
    using ReadNextToken_buffer [OF assms(2), of ct] ReadNextToken_scans(2) [OF r assms(2)] assms(1) r
    by simp_all
  show ?thesis
  proof (cases r)
    case None
    with that [of EndOfFile_token "s1\<lparr>lex_ReadBuffer := [EndOfFile_token]\<rparr>"] show ?thesis
      by (simp add: Consume_def assms(1) r b p pending_lex_def
          lex_tokens_None [OF r [unfolded None] assms(1)])
  next
    case (Some token)
    with that [of token "s1\<lparr>lex_ReadBuffer := [token]\<rparr>"] show ?thesis
      by (simp add: Consume_def assms(1) r b p pending_lex_def
          lex_tokens_Some [OF r [unfolded Some] assms(2,1)])
  qed
qed

lemma Consume_buffered:
  "lex_ReadBuffer s = token # rest \<Longrightarrow> Consume ct s = (token, s\<lparr>lex_ReadBuffer := rest\<rparr>)"
  by (simp add: Consume_def)

lemma Current_lex:
  assumes "putback_ok s"
  obtains token rest s1 where "Current ct s = (token, s1)" and "lex_ReadBuffer s1 = token # rest"
    and "putback_ok s1" and "pending_lex ct s1 = pending_lex ct s"
proof (cases "lex_ReadBuffer s")
  case Nil
  with Consume_empty [OF Nil assms, of ct] that show ?thesis by (metis Current_def list.simps(4))
next
  case (Cons token rest)
  with that assms show ?thesis by (simp add: Current_def)
qed

lemma pending_lex_hd:
  "lex_ReadBuffer s = token # rest \<Longrightarrow>
     pending_lex ct s = (if tok_Type token = Gen EndOfFile then []
                         else token # pending_lex ct (s\<lparr>lex_ReadBuffer := rest\<rparr>))"
  by (simp add: pending_lex_def)

interpretation lexer: source_provider
  putback_ok "\<lambda>s. lex_ReadBuffer s \<noteq> []" "pending_lex ct"
  "CanConsume ct" "Current ct" "Consume ct" PutBackToken
  for ct
proof unfold_locales
  fix s t
  show "putback_ok s \<Longrightarrow> lex_ReadBuffer s \<noteq> [] \<Longrightarrow> pending_lex ct s \<noteq> [] \<Longrightarrow>
      fst (Consume ct s) = hd (pending_lex ct s)"
    by (cases "lex_ReadBuffer s") (auto simp: Consume_buffered pending_lex_hd split: if_splits)
  show "putback_ok s \<Longrightarrow> lex_ReadBuffer s \<noteq> [] \<Longrightarrow> pending_lex ct s \<noteq> [] \<Longrightarrow>
      putback_ok (snd (Consume ct s)) \<and> pending_lex ct (snd (Consume ct s)) = tl (pending_lex ct s)"
    by (cases "lex_ReadBuffer s") (auto simp: Consume_buffered pending_lex_hd split: if_splits)
  show "putback_ok s \<Longrightarrow> tok_Type t \<noteq> Gen EndOfFile \<Longrightarrow>
      putback_ok (PutBackToken t s) \<and> lex_ReadBuffer (PutBackToken t s) \<noteq> []
      \<and> pending_lex ct (PutBackToken t s) = t # pending_lex ct s"
    by (simp add: PutBackToken_def pending_lex_def)
next
  fix s
  assume s: "putback_ok s"
  obtain token rest s1 where c: "Current ct s = (token, s1)" "lex_ReadBuffer s1 = token # rest"
    "putback_ok s1" and p: "pending_lex ct s1 = pending_lex ct s"
    using Current_lex [OF s] by metis
  show "fst (CanConsume ct s) \<longleftrightarrow> pending_lex ct s \<noteq> []"
    using c p pending_lex_hd [OF c(2), of ct] by (auto simp: CanConsume_def split: if_splits)
  show "putback_ok (snd (CanConsume ct s)) \<and> lex_ReadBuffer (snd (CanConsume ct s)) \<noteq> []
      \<and> pending_lex ct (snd (CanConsume ct s)) = pending_lex ct s"
    using c p by (simp add: CanConsume_def)
  show "pending_lex ct s \<noteq> [] \<Longrightarrow> fst (Current ct s) = hd (pending_lex ct s)"
    using c p pending_lex_hd [OF c(2), of ct] by (metis fst_conv list.sel(1))
  show "putback_ok (snd (Current ct s)) \<and> lex_ReadBuffer (snd (Current ct s)) \<noteq> []
      \<and> pending_lex ct (snd (Current ct s)) = pending_lex ct s"
    using c p by simp
qed

end
