(* ===== verification/LexerRoundTrip.thy ===== *)
theory LexerRoundTrip
  imports LexicalBuffers
begin

text \<open>
  What the lexer recognises, as a round trip: \<open>Spell\<close> writes a lexeme down as source text,
  \<open>lexeme_ok\<close> are the lexemes of the language, and reading the spellings of a list of lexemes,
  separated by blanks, gives the list back. The facts on \<^verbatim>\<open>std::iswspace\<close> and \<^verbatim>\<open>std::iswalnum\<close>
  this needs are the laws of the locale \<open>ctype_laws\<close>.
\<close>

section \<open>Character classes\<close>

definition ascii_punctuation :: wstring where
  "ascii_punctuation = L (CHR 0x22 # CHR 0x27 # CHR 0x5C # ''!#$%&()*+,-./:;<=>?@[]^_`{|}~'')"

definition unicode_marks :: wstring where
  "unicode_marks = [0xEFBB, 0xFEFF, 0xFFFE, 0x037E, WEOF, nl, nul, wc CHR 0x20]"

locale ctype_laws =
  fixes ct :: ctype
  assumes blank_space: "iswspace ct (wc CHR 0x20)"
    and alnum_not_space: "iswalnum ct c \<Longrightarrow> \<not> iswspace ct c"
    and digit_alnum: "in_range CHR ''0'' CHR ''9'' c \<Longrightarrow> iswalnum ct c"
    and punctuation_class:
      "c \<in> set ascii_punctuation \<Longrightarrow> \<not> iswspace ct c \<and> \<not> iswalnum ct c"
    and mark_class: "c \<in> set unicode_marks \<Longrightarrow> \<not> iswalnum ct c"

lemma in_range_iff: "in_range lo hi c \<longleftrightarrow> of_char lo \<le> unat c \<and> unat c \<le> of_char hi"
  by (simp add: in_range_def word_le_nat_alt unat_wc)

lemma C_digit: "in_range CHR ''0'' CHR ''9'' c \<Longrightarrow> c \<in> set (L ''0123456789'')"
proof -
  assume "in_range CHR ''0'' CHR ''9'' c"
  then have "unat c \<in> {48..<58}" by (auto simp: in_range_iff)
  then have "unat c \<in> set [48..<58]" by (simp only: set_upt)
  also have "[48..<58] = map (unat \<circ> wc) ''0123456789''"
    by (simp add: unat_wc upt_rec)
  finally have "unat c \<in> set (map (unat \<circ> wc) ''0123456789'')" .
  then show ?thesis by (simp add: word_unat_eq_iff)
qed

interpretation C: ctype_laws C_locale
proof unfold_locales
  fix c
  show "iswspace C_locale (wc CHR 0x20)"
    by (simp add: C_locale_def)
  show "iswalnum C_locale c \<Longrightarrow> \<not> iswspace C_locale c"
    unfolding C_locale_def ctype.simps by (erule L_disjoint [rotated]) code_simp
  show "in_range CHR ''0'' CHR ''9'' c \<Longrightarrow> iswalnum C_locale c"
    by (auto simp: C_locale_def dest!: C_digit)
  show "c \<in> set ascii_punctuation \<Longrightarrow> \<not> iswspace C_locale c \<and> \<not> iswalnum C_locale c"
    unfolding C_locale_def ctype.simps ascii_punctuation_def
    by (intro conjI; erule L_disjoint [rotated]; code_simp)
  show "c \<in> set unicode_marks \<Longrightarrow> \<not> iswalnum C_locale c"
    by (auto simp: unicode_marks_def C_locale_def)
qed

section \<open>Reading known text\<close>

text \<open>
  \<open>at_text w s\<close>: the lexer has exactly \<open>w\<close> left to read; \<open>at_symbol c w s\<close>: and \<open>c\<close> is its
  current symbol. One lemma per primitive says where it goes from there.
\<close>

definition at_text :: "wstring \<Rightarrow> lexer \<Rightarrow> bool" where
  "at_text w s \<longleftrightarrow> lex_text s = w \<and> \<not> lex_HasPutbackSymbol s"

definition at_symbol :: "wchar \<Rightarrow> wstring \<Rightarrow> lexer \<Rightarrow> bool" where
  "at_symbol c w s \<longleftrightarrow> lex_Symbol s = c \<and> at_text w s"

lemma at_text_upd [simp]:
  "at_text w (s\<lparr>lex_PeekSymbol := c\<rparr>) = at_text w s"
  "at_text w (s\<lparr>lex_Symbol := c\<rparr>) = at_text w s"
  "at_symbol d w (s\<lparr>lex_PeekSymbol := c\<rparr>) = at_symbol d w s"
  by (simp_all add: at_text_def at_symbol_def)

lemma at_symbolD [dest]: "at_symbol c w s \<Longrightarrow> lex_Symbol s = c \<and> at_text w s"
  by (simp add: at_symbol_def)

lemma Advance_at:
  assumes "at_text (c # w) s"
  shows "\<exists>s'. Advance s = Some (c, s') \<and> at_text w s' \<and> lex_Symbol s' = lex_Symbol s"
proof -
  obtain r where "ReadNext (lex_SourceText s) = Some (c, r)" and "reader_text r = w"
    using reader.read_more assms unfolding at_text_def by blast
  with assms show ?thesis by (auto simp: Advance_def Let_def at_text_def)
qed

lemma AdvanceSymbol_at: "at_text (c # w) s \<Longrightarrow> \<exists>s'. AdvanceSymbol s = Some s' \<and> at_symbol c w s'"
  by (auto simp: AdvanceSymbol_def at_symbol_def dest!: Advance_at)

lemma AdvanceSymbol_end: "at_text [] s \<Longrightarrow> AdvanceSymbol s = None"
  by (simp add: AdvanceSymbol_def at_text_def Advance_None_iff)

lemma SkipPeekSymbol_at:
  assumes "at_text (c # w) s"
  shows "at_text w (SkipPeekSymbol s)" and "lex_PeekSymbol (SkipPeekSymbol s) = c"
    and "lex_Symbol (SkipPeekSymbol s) = lex_Symbol s"
  using Advance_at [OF assms] by (auto simp: SkipPeekSymbol_def AdvancePeekSymbol_def)

lemma PeekNextSymbol_at: "at_text (c # w) s \<Longrightarrow> PeekNextSymbol s = (True, s\<lparr>lex_PeekSymbol := c\<rparr>)"
  by (simp add: PeekNextSymbol_def at_text_def reader.peek_more)

lemma at_text_snd_PeekNextSymbol [simp]:
  "at_text w (snd (PeekNextSymbol s)) = at_text w s"
  by (simp add: PeekNextSymbol_def split_beta Let_def)

subsection \<open>White space\<close>

text \<open>Characters \<^verbatim>\<open>ReadNextReal\<close> stops at.\<close>

definition visible :: "ctype \<Rightarrow> wchar \<Rightarrow> bool" where
  "visible ct c \<longleftrightarrow> c \<notin> {0xEFBB, 0xFEFF, 0xFFFE, nl, nul} \<and> \<not> iswspace ct c"

lemma ReadNextReal_at:
  assumes "at_text (c # w) s" and "visible ct c"
  shows "\<exists>s'. ReadNextReal ct s = (True, s') \<and> at_symbol c w s'"
proof -
  obtain s1 where "AdvanceSymbol s = Some s1" "at_symbol c w s1"
    using AdvanceSymbol_at [OF assms(1)] by blast
  with assms show ?thesis
    by (auto simp: ReadNextReal_def ReadNextReal_loop.simps [of ct s] at_text_def visible_def)
qed

context ctype_laws
begin

lemma ReadNextReal_blank:
  assumes "at_text (wc CHR 0x20 # w) s"
  shows "\<exists>s'. ReadNextReal ct s = ReadNextReal ct s' \<and> at_text w s'"
proof -
  obtain s1 where "AdvanceSymbol s = Some s1" "at_symbol (wc CHR 0x20) w s1"
    using AdvanceSymbol_at [OF assms] by blast
  with assms blank_space show ?thesis
    by (auto simp: ReadNextReal_def ReadNextReal_loop.simps [of ct s] at_text_def at_symbol_def
        intro!: exI [of _ s1])
qed

lemma ReadNextReal_end: "at_text [] s \<Longrightarrow> fst (ReadNextReal ct s) = False"
  by (simp add: ReadNextReal_def ReadNextReal_loop.simps [of ct s] AdvanceSymbol_end)
     (simp add: at_text_def)

lemma punctuation_visible: "c \<in> set ascii_punctuation \<Longrightarrow> visible ct c"
  using punctuation_class [of c] by (auto simp: visible_def ascii_punctuation_def)

lemma word_visible: "iswalnum ct c \<or> c = wc CHR ''_'' \<Longrightarrow> visible ct c"
proof (elim disjE)
  assume "iswalnum ct c"
  with mark_class [of c] alnum_not_space [of c] show ?thesis
    by (auto simp: visible_def unicode_marks_def)
qed (simp add: punctuation_visible ascii_punctuation_def)

end

section \<open>Spellings\<close>

subsection \<open>Punctuation and operators\<close>

definition symbols :: "(string \<times> TokenType) list" where
  "symbols =
     [(''{'', Pn OpenBrace), (''}'', Pn CloseBrace), (''('', Pn OpenCurl), ('')'', Pn CloseCurl),
      (''['', Pn OpenSquare), ('']'', Pn CloseSquare), (''.'', Pn Delimeter),
      (''..'', Op RangeOperator), (''..&'', Op RangeInclusiveOperator), ('','', Pn Comma),
      ('':'', Pn Colon), ('':='', Op DeclareAssignOperator), ('';'', Pn Semicolon),
      (''?'', Pn Question), (''??'', Op NullCoalescingOperator),
      (''='', Op AssignOperator), (''=='', Op EqualsOperator), (''=>'', Op LambdaOperator),
      (''!'', Op NotOperator), (''!='', Op NotEqualsOperator),
      (''>'', Op GreaterOperator), (''>='', Op GreaterOrEqualsOperator),
      (''>>'', Op RightShiftOperator), (''<'', Op LessOperator),
      (''<='', Op LessOrEqualsOperator), (''<<'', Op LeftShiftOperator),
      (''+'', Op AddOperator), (''+='', Op AddAssignOperator), (''++'', Op IncrementOperator),
      (''-'', Op SubOperator), (''-='', Op SubAssignOperator), (''--'', Op DecrementOperator),
      (''->'', Op ArrowOperator), (''*'', Op MultOperator), (''*='', Op MultAssignOperator),
      (''/'', Op DivOperator), (''/='', Op DivAssignOperator),
      (''%'', Op ModOperator), (''%='', Op ModAssignOperator),
      (''^'', Op PowOperator), (''^='', Op PowAssignOperator),
      (''&'', Op AndOperator), (''&='', Op AndAssignOperator), (''&&'', Op AndOperator),
      (''|'', Op OrOperator), (''|='', Op OrAssignOperator), (''||'', Op OrOperator)]"

text \<open>The characters a symbol starts with, and the Greek question mark that counts as one.\<close>

definition symbol_starts :: wstring where
  "symbol_starts = 0x037E # L ''{}()[].,:;?=!><+-*/%^&|''"

lemma no_symbol:
  "lex_Symbol s \<notin> set symbol_starts \<Longrightarrow> IsPunctuation_lex s = (None, s) \<and> IsOperator_lex s = (None, s)"
  by (simp add: symbol_starts_def IsPunctuation_lex_def IsOperator_lex_def)

lemma PeekChoice_at:
  assumes "at_text (c # w) s"
  shows "fst (PeekChoice alts short s) =
           Some (case map_of (map (\<lambda>(c, t). (wc c, t)) alts) c of Some long \<Rightarrow> long | None \<Rightarrow> short)"
    and "at_text (if map_of (map (\<lambda>(c, t). (wc c, t)) alts) c = None then c # w else w)
           (snd (PeekChoice alts short s))"
proof -
  have "at_text w (SkipPeekSymbol (s\<lparr>lex_PeekSymbol := c\<rparr>))"
    using assms by (intro SkipPeekSymbol_at(1) [of c]) simp
  with PeekNextSymbol_at [OF assms] assms
  show "fst (PeekChoice alts short s) =
           Some (case map_of (map (\<lambda>(c, t). (wc c, t)) alts) c of Some long \<Rightarrow> long | None \<Rightarrow> short)"
    and "at_text (if map_of (map (\<lambda>(c, t). (wc c, t)) alts) c = None then c # w else w)
           (snd (PeekChoice alts short s))"
    by (simp_all add: PeekChoice.simps split: option.split)
qed

lemma IsPunctuation_dot_at:
  assumes "at_text (c # w) s" and "c \<noteq> wc CHR ''.''"
  shows "fst (IsPunctuation_dot s) = Some (Pn Delimeter, L ''.'')"
    and "at_text (c # w) (snd (IsPunctuation_dot s))"
  using assms by (simp_all add: IsPunctuation_dot_def PeekNextSymbol_at)

lemma IsPunctuation_dot_range:
  assumes "at_text (wc CHR ''.'' # c # w) s"
  shows "fst (IsPunctuation_dot s) =
           Some (if c = wc CHR ''&'' then (Op RangeInclusiveOperator, L ''..&'')
                 else (Op RangeOperator, L ''..''))"
    and "at_text (if c = wc CHR ''&'' then w else c # w) (snd (IsPunctuation_dot s))"
proof -
  let ?s1 = "SkipPeekSymbol (s\<lparr>lex_PeekSymbol := wc CHR ''.''\<rparr>)"
  have 1: "at_text (c # w) ?s1"
    using assms by (intro SkipPeekSymbol_at(1) [of "wc CHR ''.''"]) simp
  then have "at_text w (SkipPeekSymbol (?s1\<lparr>lex_PeekSymbol := c\<rparr>))"
    by (intro SkipPeekSymbol_at(1) [of c]) simp
  with 1 assms show "fst (IsPunctuation_dot s) =
           Some (if c = wc CHR ''&'' then (Op RangeInclusiveOperator, L ''..&'')
                 else (Op RangeOperator, L ''..''))"
    and "at_text (if c = wc CHR ''&'' then w else c # w) (snd (IsPunctuation_dot s))"
    by (auto simp: IsPunctuation_dot_def PeekNextSymbol_at Let_def)
qed

lemma at_text_unique: "at_text w s \<Longrightarrow> at_text v s \<longleftrightarrow> v = w"
  by (auto simp: at_text_def)

lemmas symbol_moves =
  PeekChoice_at(1) at_text_unique [OF PeekChoice_at(2)]
  IsPunctuation_dot_at(1) at_text_unique [OF IsPunctuation_dot_at(2)]
  IsPunctuation_dot_range(1) at_text_unique [OF IsPunctuation_dot_range(2)]

definition reads_symbol :: "string \<Rightarrow> TokenType \<Rightarrow> bool" where
  "reads_symbol k t \<longleftrightarrow>
     (\<forall>s w. at_symbol (wc (hd k)) (L (tl k) @ wc CHR 0x20 # w) s \<longrightarrow>
        fst (IsPunctuation_lex s) = Some (t, L k)
          \<and> at_text (wc CHR 0x20 # w) (snd (IsPunctuation_lex s))
        \<or> IsPunctuation_lex s = (None, s) \<and> fst (IsOperator_lex s) = Some (t, L k)
          \<and> at_text (wc CHR 0x20 # w) (snd (IsOperator_lex s)))"

lemma reads_symbolI:
  assumes "\<And>s w. lex_Symbol s = wc (hd k) \<Longrightarrow> at_text (L (tl k) @ wc CHR 0x20 # w) s \<Longrightarrow>
    fst (IsPunctuation_lex s) = Some (t, L k)
          \<and> at_text (wc CHR 0x20 # w) (snd (IsPunctuation_lex s))
        \<or> IsPunctuation_lex s = (None, s) \<and> fst (IsOperator_lex s) = Some (t, L k)
          \<and> at_text (wc CHR 0x20 # w) (snd (IsOperator_lex s))"
  shows "reads_symbol k t"
  using assms by (auto simp: reads_symbol_def at_symbol_def)

lemma reads_symbols: "list_all (\<lambda>(k, t). reads_symbol k t) symbols"
  unfolding symbols_def list.pred_inject prod.case
  by (intro conjI TrueI; (rule reads_symbolI)?)
     (simp_all add: IsPunctuation_lex_def IsOperator_lex_def IsOperator_relational_def
        IsOperator_arithmetic_def IsOperator_bitwise_def symbol_moves Let_def)

lemma symbols_shape:
  "list_all (\<lambda>(k, t). k \<noteq> [] \<and> wc (hd k) \<in> set ascii_punctuation \<and> t \<noteq> Gen Trivia) symbols"
  by (simp add: symbols_def ascii_punctuation_def)

context ctype_laws
begin

lemma ReadNextWord_symbol:
  assumes "(k, t) \<in> set symbols" and "at_text (L k @ wc CHR 0x20 # w) s"
  shows "\<exists>s'. ReadNextWord ct s = (Some (t, L k), s') \<and> at_text (wc CHR 0x20 # w) s'"
proof -
  have k: "k \<noteq> []" "visible ct (wc (hd k))" "t \<noteq> Gen Trivia" "reads_symbol k t"
    using assms(1) symbols_shape reads_symbols punctuation_visible
    by (auto simp: list_all_iff split: prod.splits)
  with assms(2) have "at_text (wc (hd k) # L (tl k) @ wc CHR 0x20 # w) s"
    by (metis L_Cons append_Cons list.collapse)
  from ReadNextReal_at [OF this k(2)] obtain s1
    where r: "ReadNextReal ct s = (True, s1)" and s1: "at_symbol (wc (hd k)) (L (tl k) @ wc CHR 0x20 # w) s1"
    by blast
  with k(3,4) show ?thesis
    unfolding reads_symbol_def
    by (cases "IsPunctuation_lex s1"; cases "IsOperator_lex s1")
       (fastforce simp: ReadNextWord.simps [of ct s])
qed

text \<open>Any other visible character starts a literal or a word.\<close>

lemma ReadNextWord_literal:
  assumes "at_text (c # w) s" and "visible ct c" and "c \<notin> set symbol_starts"
  obtains s1 where "ReadNextWord ct s = ReadLiteralOrWord ct s1" and "at_symbol c w s1"
proof -
  obtain s1 where r: "ReadNextReal ct s = (True, s1)" "at_symbol c w s1"
    using ReadNextReal_at [OF assms(1,2)] by blast
  with assms(3) no_symbol [of s1] that [of s1] show ?thesis
    by (auto simp: ReadNextWord.simps [of ct s])
qed

end

subsection \<open>String and character literals\<close>

text \<open>The escape sequences both literal readers undo.\<close>

fun escape_string :: "wstring \<Rightarrow> wstring" where
  "escape_string [] = []"
| "escape_string (c # w) =
     (if c = wc CHR 0x5C then [wc CHR 0x5C, wc CHR 0x5C]
      else if c = wc CHR 0x22 then [wc CHR 0x5C, wc CHR 0x22]
      else if c = nl then [wc CHR 0x5C, wc CHR ''n'']
      else [c]) @ escape_string w"

fun escape_char :: "wstring \<Rightarrow> wstring" where
  "escape_char [] = []"
| "escape_char (c # w) =
     (if c = wc CHR 0x5C then [wc CHR 0x5C, wc CHR 0x5C]
      else if c = wc CHR 0x27 then [wc CHR 0x5C, wc CHR 0x27]
      else if c = nl then [wc CHR 0x5C, wc CHR ''n'']
      else if c = wc CHR 0x09 then [wc CHR 0x5C, wc CHR ''t'']
      else if c = wc CHR 0x0D then [wc CHR 0x5C, wc CHR ''r'']
      else if c = nul then [wc CHR 0x5C, wc CHR ''0'']
      else [c]) @ escape_char w"

lemma ReadStringLiteral_plain:
  assumes "at_text (c # w) s" and "c \<noteq> wc CHR 0x5C" and "c \<noteq> wc CHR 0x22"
  shows "\<exists>s'. ReadStringLiteral_loop False False word s = ReadStringLiteral_loop False False (word @ [c]) s'
           \<and> at_text w s'"
  using AdvanceSymbol_at [OF assms(1)] assms(2,3)
  by (auto simp: ReadStringLiteral_loop.simps [of _ _ _ s] Let_def at_symbol_def)

lemma ReadStringLiteral_escaped:
  assumes "at_text (wc CHR 0x5C # c # w) s"
    and "(c, d) \<in> {(wc CHR 0x5C, wc CHR 0x5C), (wc CHR 0x22, wc CHR 0x22), (wc CHR ''n'', nl)}"
  shows "\<exists>s'. ReadStringLiteral_loop False False word s = ReadStringLiteral_loop False False (word @ [d]) s'
           \<and> at_text w s'"
proof -
  obtain s1 where s1: "AdvanceSymbol s = Some s1" "at_symbol (wc CHR 0x5C) (c # w) s1"
    using AdvanceSymbol_at [OF assms(1)] by blast
  obtain s2 where "AdvanceSymbol s1 = Some s2" "at_symbol c w s2"
    using AdvanceSymbol_at s1(2) by blast
  with s1 assms(2) show ?thesis
    by (auto simp: ReadStringLiteral_loop.simps [of _ _ _ s] ReadStringLiteral_loop.simps [of _ _ _ s1]
        Let_def at_symbol_def intro!: exI [of _ "s2\<lparr>lex_Symbol := d\<rparr>"])
qed

lemma ReadStringLiteral_escape:
  "at_text (escape_string w @ wc CHR 0x22 # rest) s \<Longrightarrow>
     \<exists>s'. ReadStringLiteral_loop False False word s = (True, word @ w, s') \<and> at_text rest s'"
proof (induction w arbitrary: word s)
  case Nil
  with AdvanceSymbol_at [of "wc CHR 0x22" rest s] show ?case
    by (auto simp: ReadStringLiteral_loop.simps [of _ _ _ s] Let_def at_symbol_def)
next
  case (Cons c w)
  let ?rest = "escape_string w @ wc CHR 0x22 # rest"
  have "\<exists>s'. ReadStringLiteral_loop False False word s
            = ReadStringLiteral_loop False False (word @ [c]) s' \<and> at_text ?rest s'"
    using Cons.prems ReadStringLiteral_plain [of c ?rest s]
      ReadStringLiteral_escaped [of _ ?rest s c]
    by (auto split: if_splits)
  with Cons.IH [where word = "word @ [c]"] show ?case by fastforce
qed

lemma ReadCharLiteral_plain:
  assumes "at_text (c # w) s" and "c \<noteq> wc CHR 0x5C" and "c \<noteq> wc CHR 0x27"
  shows "\<exists>s'. ReadCharLiteral_loop False word s = ReadCharLiteral_loop False (word @ [c]) s'
           \<and> at_text w s'"
  using AdvanceSymbol_at [OF assms(1)] assms(2,3)
  by (auto simp: ReadCharLiteral_loop.simps [of _ _ s] Let_def at_symbol_def)

lemma ReadCharLiteral_escaped:
  assumes "at_text (wc CHR 0x5C # c # w) s"
    and "(c, d) \<in> {(wc CHR 0x5C, wc CHR 0x5C), (wc CHR 0x27, wc CHR 0x27), (wc CHR ''n'', nl),
           (wc CHR ''t'', wc CHR 0x09), (wc CHR ''r'', wc CHR 0x0D), (wc CHR ''0'', nul)}"
  shows "\<exists>s'. ReadCharLiteral_loop False word s = ReadCharLiteral_loop False (word @ [d]) s'
           \<and> at_text w s'"
proof -
  obtain s1 where s1: "AdvanceSymbol s = Some s1" "at_symbol (wc CHR 0x5C) (c # w) s1"
    using AdvanceSymbol_at [OF assms(1)] by blast
  obtain s2 where "AdvanceSymbol s1 = Some s2" "at_symbol c w s2"
    using AdvanceSymbol_at s1(2) by blast
  with s1 assms(2) show ?thesis
    by (auto simp: ReadCharLiteral_loop.simps [of _ _ s] ReadCharLiteral_loop.simps [of _ _ s1]
        Let_def at_symbol_def)
qed

lemma ReadCharLiteral_escape:
  "at_text (escape_char w @ wc CHR 0x27 # rest) s \<Longrightarrow>
     \<exists>s'. ReadCharLiteral_loop False word s = (True, word @ w, s') \<and> at_text rest s'"
proof (induction w arbitrary: word s)
  case Nil
  with AdvanceSymbol_at [of "wc CHR 0x27" rest s] show ?case
    by (auto simp: ReadCharLiteral_loop.simps [of _ _ s] Let_def at_symbol_def)
next
  case (Cons c w)
  let ?rest = "escape_char w @ wc CHR 0x27 # rest"
  have "\<exists>s'. ReadCharLiteral_loop False word s
            = ReadCharLiteral_loop False (word @ [c]) s' \<and> at_text ?rest s'"
    using Cons.prems ReadCharLiteral_plain [of c ?rest s]
      ReadCharLiteral_escaped [of _ ?rest s c]
    by (auto split: if_splits)
  with Cons.IH [where word = "word @ [c]"] show ?case by fastforce
qed

subsection \<open>Numbers\<close>

lemma number_pass_symbol:
  assumes "at_text (c # w) s" and "IsNumberSymbol c"
  shows "\<exists>s'. number_pass fd (ty, word) s = (True, fd, (ty, word @ [c]), s') \<and> at_text w s'"
proof -
  have "c \<noteq> wc CHR ''`''" "c \<noteq> wc CHR ''.''"
    using assms(2) by (auto simp: IsNumberSymbol_def in_range_iff unat_wc)
  with assms show ?thesis
    using SkipPeekSymbol_at(1) [of c w "s\<lparr>lex_PeekSymbol := c\<rparr>"]
    by (simp add: number_pass_def number_tail_def PeekNextSymbol_at)
qed

lemma number_pass_dot:
  assumes "at_text (wc CHR ''.'' # c # w) s" and "IsNumberSymbol c"
  shows "\<exists>s'. number_pass False (ty, word) s = (True, True, (Lit DoubleLiteral, word @ [wc CHR ''.'', c]), s')
           \<and> at_text w s'"
proof -
  let ?s1 = "s\<lparr>lex_PeekSymbol := wc CHR ''.''\<rparr>"
  have "at_text (wc CHR ''.'' # c # w) ?s1" using assms(1) by simp
  from Advance_at [OF this] obtain s2 where
    s2: "AdvancePeekSymbol ?s1 = Some s2" "at_text (c # w) s2"
    by (auto simp: AdvancePeekSymbol_def)
  then have "PeekNext (lex_SourceText s2) = (True, c)"
    by (simp add: at_text_def reader.peek_more)
  with assms s2 SkipPeekSymbol_at(1) [OF s2(2)] show ?thesis
    by (simp add: number_pass_def number_tail_def PeekNextSymbol_at)
qed

lemma number_pass_end:
  assumes "at_text (c # w) s" and "c \<noteq> wc CHR ''`''" and "c \<noteq> wc CHR ''.''" and "\<not> IsNumberSymbol c"
  shows "\<exists>s'. number_pass fd tw s = (False, fd, tw, s') \<and> at_text (c # w) s'"
  using assms by (cases tw) (simp add: number_pass_def number_tail_def PeekNextSymbol_at)

lemma number_loop_symbols:
  "at_text (ds @ w) s \<Longrightarrow> list_all IsNumberSymbol ds \<Longrightarrow>
     \<exists>s'. ReadNumberLiteral_loop fd (ty, word) s = ReadNumberLiteral_loop fd (ty, word @ ds) s'
       \<and> at_text w s'"
proof (induction ds arbitrary: word s)
  case (Cons c ds)
  obtain s1 where "number_pass fd (ty, word) s = (True, fd, (ty, word @ [c]), s1)" "at_text (ds @ w) s1"
    using number_pass_symbol [of c "ds @ w" s fd ty word] Cons.prems by auto
  with Cons.IH [of s1 "word @ [c]"] Cons.prems show ?case
    by (auto simp: ReadNumberLiteral_loop.simps [of _ _ s])
qed auto

lemma number_loop_end:
  "at_text (wc CHR 0x20 # w) s \<Longrightarrow>
     \<exists>s'. ReadNumberLiteral_loop fd tw s = (tw, s') \<and> at_text (wc CHR 0x20 # w) s'"
  using number_pass_end [of "wc CHR 0x20" w s fd tw]
  by (cases tw) (auto simp: ReadNumberLiteral_loop.simps [of _ _ s] IsNumberSymbol_def in_range_iff unat_wc)

lemma digit_facts:
  assumes "in_range CHR ''0'' CHR ''9'' c"
  shows "IsNumberSymbol c" and "c \<notin> set symbol_starts" and "c \<noteq> wc CHR 0x22" and "c \<noteq> wc CHR 0x27"
    and "c \<noteq> wc CHR ''@''"
  using assms
  by (auto simp: IsNumberSymbol_def symbol_starts_def in_range_iff unat_wc)

lemma base_prefix_number: "IsBasePrefixLetter c \<Longrightarrow> IsNumberSymbol c"
  by (auto simp: IsBasePrefixLetter_def IsNumberSymbol_def)

lemma ReadNumberLiteral_digits:
  assumes "at_symbol d (ds @ c # w) s" and "in_range CHR ''0'' CHR ''9'' d"
    and "list_all IsNumberSymbol ds" and "\<not> IsNumberSymbol c"
  shows "\<exists>s'. at_text (c # w) s'
    \<and> (\<forall>tw t. ReadNumberLiteral_loop False (ty, d # ds) s' = (tw, t) \<and> snd tw \<noteq> []
          \<longrightarrow> ReadNumberLiteral (ty, []) s = (Some tw, t))"
proof -
  have d: "IsNumberSymbol (lex_Symbol s)" and s: "lex_Symbol s = d" "at_text (ds @ c # w) s"
    using assms(1) digit_facts(1) [OF assms(2)] by auto
  obtain x xs where x: "ds @ c # w = x # xs" by (cases ds) auto
  have pk: "PeekNextSymbol s = (True, s\<lparr>lex_PeekSymbol := x\<rparr>)"
    using s(2) unfolding x by (rule PeekNextSymbol_at)
  show ?thesis
  proof (cases "[d] = L ''0'' \<and> IsBasePrefixLetter x")
    case True
    then obtain ds' where ds: "ds = x # ds'" "xs = ds' @ c # w"
      using x assms(4) base_prefix_number by (cases ds) auto
    let ?s2 = "SkipPeekSymbol (s\<lparr>lex_PeekSymbol := x\<rparr>)"
    have s2: "at_text (ds' @ c # w) ?s2" "lex_PeekSymbol ?s2 = x"
      using s(2) x ds(2) SkipPeekSymbol_at [of x xs "s\<lparr>lex_PeekSymbol := x\<rparr>"] by simp_all
    obtain s' where "ReadNumberLiteral_loop False (ty, [d, x]) ?s2 = ReadNumberLiteral_loop False (ty, d # ds) s'"
      "at_text (c # w) s'"
      using number_loop_symbols [OF s2(1), of False ty "[d, x]"] assms(3) ds(1) by auto
    then show ?thesis
      using True d s(1) pk s2(2) by (intro exI [of _ s']) (auto simp: ReadNumberLiteral_def)
  next
    case False
    have at: "at_text (ds @ c # w) (s\<lparr>lex_PeekSymbol := x\<rparr>)" using s(2) by simp
    obtain s1 s' where "s1 = (if [d] = L ''0'' then s\<lparr>lex_PeekSymbol := x\<rparr> else s)"
      "ReadNumberLiteral_loop False (ty, [d]) s1 = ReadNumberLiteral_loop False (ty, d # ds) s'"
      "at_text (c # w) s'"
      using number_loop_symbols [OF at assms(3), of False ty "[d]"]
        number_loop_symbols [OF s(2) assms(3), of False ty "[d]"] by (cases "[d] = L ''0''") auto
    then show ?thesis
      using False d s(1) pk by (intro exI [of _ s']) (auto simp: ReadNumberLiteral_def split: if_splits)
  qed
qed

text \<open>Number words: digits and number symbols, with at most one fraction.\<close>

fun number_word :: "TokenType \<Rightarrow> wstring \<Rightarrow> bool" where
  "number_word ty [] = False"
| "number_word ty (d # w) \<longleftrightarrow> in_range CHR ''0'' CHR ''9'' d \<and>
     (let ds = takeWhile IsNumberSymbol w; rest = dropWhile IsNumberSymbol w in
      ty = Lit NumberLiteral \<and> rest = []
      \<or> ty = Lit DoubleLiteral \<and> (case rest of p # e # es \<Rightarrow> p = wc CHR ''.'' \<and> list_all IsNumberSymbol (e # es)
                                    | _ \<Rightarrow> False))"

lemma blank_dot_not_number [simp]:
  "\<not> IsNumberSymbol (wc CHR 0x20)" "\<not> IsNumberSymbol (wc CHR ''.'')"
  by (simp_all add: IsNumberSymbol_def in_range_iff unat_wc)

lemma ReadNumberLiteral_at:
  assumes "number_word ty (d # v)" and "at_symbol d (v @ wc CHR 0x20 # w) s"
  shows "\<exists>s'. ReadNumberLiteral (Lit NumberLiteral, []) s = (Some (ty, d # v), s')
           \<and> at_text (wc CHR 0x20 # w) s'"
proof -
  define ds where "ds = takeWhile IsNumberSymbol v"
  have ds: "list_all IsNumberSymbol ds"
    by (auto simp: ds_def list_all_iff dest: set_takeWhileD)
  have digit: "in_range CHR ''0'' CHR ''9'' d" using assms(1) by simp
  have v: "v = ds @ dropWhile IsNumberSymbol v" by (simp add: ds_def)
  from assms(1) consider (int) "ty = Lit NumberLiteral" "v = ds"
    | (real) e es where "ty = Lit DoubleLiteral" "v = ds @ wc CHR ''.'' # e # es"
        "list_all IsNumberSymbol (e # es)"
    using v by (auto simp: Let_def simp del: dropWhile_eq_Nil_conv split: list.splits)
  then show ?thesis
  proof cases
    case int
    with assms(2) have "at_symbol d (ds @ wc CHR 0x20 # w) s" by simp
    from ReadNumberLiteral_digits [OF this digit ds, where ty = "Lit NumberLiteral"] obtain s1 where
      s1: "at_text (wc CHR 0x20 # w) s1" and enter: "\<And>tw t.
        ReadNumberLiteral_loop False (Lit NumberLiteral, d # ds) s1 = (tw, t) \<Longrightarrow> snd tw \<noteq> []
          \<Longrightarrow> ReadNumberLiteral (Lit NumberLiteral, []) s = (Some tw, t)"
      by auto
    from number_loop_end [OF s1, of False "(Lit NumberLiteral, d # ds)"] enter int show ?thesis
      by auto
  next
    case real
    with assms(2) have "at_symbol d (ds @ wc CHR ''.'' # e # es @ wc CHR 0x20 # w) s" by simp
    from ReadNumberLiteral_digits [OF this digit ds, where ty = "Lit NumberLiteral"] obtain s1 where
      s1: "at_text (wc CHR ''.'' # e # es @ wc CHR 0x20 # w) s1" and enter: "\<And>tw t.
        ReadNumberLiteral_loop False (Lit NumberLiteral, d # ds) s1 = (tw, t) \<Longrightarrow> snd tw \<noteq> []
          \<Longrightarrow> ReadNumberLiteral (Lit NumberLiteral, []) s = (Some tw, t)"
      by auto
    obtain s2 where s2: "number_pass False (Lit NumberLiteral, d # ds) s1
        = (True, True, (Lit DoubleLiteral, d # ds @ [wc CHR ''.'', e]), s2)"
      "at_text (es @ wc CHR 0x20 # w) s2"
      using number_pass_dot [OF s1, of "Lit NumberLiteral" "d # ds"] real(3) by auto
    obtain s3 where s3: "ReadNumberLiteral_loop True (Lit DoubleLiteral, d # ds @ [wc CHR ''.'', e]) s2
        = ReadNumberLiteral_loop True (Lit DoubleLiteral, d # v) s3" "at_text (wc CHR 0x20 # w) s3"
      using number_loop_symbols [OF s2(2), of True "Lit DoubleLiteral" "d # ds @ [wc CHR ''.'', e]"]
        real(2,3) by auto
    have "ReadNumberLiteral_loop False (Lit NumberLiteral, d # ds) s1
        = ReadNumberLiteral_loop True (Lit DoubleLiteral, d # v) s3"
      by (simp add: ReadNumberLiteral_loop.simps [of False "(Lit NumberLiteral, d # ds)" s1] s2(1) s3(1))
    with number_loop_end [OF s3(2), of True "(Lit DoubleLiteral, d # v)"] enter real(1) show ?thesis
      by auto
  qed
qed

subsection \<open>Words\<close>

definition word_char :: "ctype \<Rightarrow> wchar \<Rightarrow> bool" where
  "word_char ct c \<longleftrightarrow> iswalnum ct c \<or> c = wc CHR ''_''"

lemma ReadNextWhileAlpha_at:
  assumes "at_text (v @ c # w) s" and "list_all (word_char ct) v" and "\<not> word_char ct c"
  shows "\<exists>s'. ReadNextWhileAlpha_loop ct word s = (word @ v, s') \<and> at_text (c # w) s'"
  using assms(1,2)
proof (induction v arbitrary: word s)
  case Nil
  with assms(3) show ?case
    by (auto simp: ReadNextWhileAlpha_loop.simps [of ct word s] PeekNextSymbol_at word_char_def)
next
  case (Cons x v)
  let ?s1 = "s\<lparr>lex_PeekSymbol := x\<rparr>"
  obtain s2 where s2: "AdvanceSymbol ?s1 = Some s2" "at_symbol x (v @ c # w) s2"
    using AdvanceSymbol_at [of x "v @ c # w" ?s1] Cons.prems by auto
  with Cons.IH [of s2 "word @ [x]"] Cons.prems show ?case
    by (auto simp: ReadNextWhileAlpha_loop.simps [of ct word s] PeekNextSymbol_at [of x "v @ c # w"]
        word_char_def at_symbol_def)
qed

definition word_lexeme :: "ctype \<Rightarrow> lexeme \<Rightarrow> bool" where
  "word_lexeme ct lx \<longleftrightarrow>
     (case lx of (ty, w) \<Rightarrow>
        w \<noteq> [] \<and> list_all (word_char ct) w \<and> \<not> in_range CHR ''0'' CHR ''9'' (hd w)
        \<and> ty = ClassifyWord w)"

section \<open>The round trip\<close>

text \<open>
  The lexemes of the language and how they are written. A string or character literal is any text
  that does not contain \<^verbatim>\<open>WEOF\<close>.
\<close>

definition lexeme_ok :: "ctype \<Rightarrow> lexeme \<Rightarrow> bool" where
  "lexeme_ok ct lx \<longleftrightarrow>
     (case lx of (ty, w) \<Rightarrow>
        WEOF \<notin> set w \<and>
        (ty = Lit StringLiteral \<or> ty = Lit CharLiteral
         \<or> (w, ty) \<in> set (map (\<lambda>(k, t). (L k, t)) symbols)
         \<or> number_word ty w \<or> word_lexeme ct lx))"

definition Spell :: "lexeme \<Rightarrow> wstring" where
  "Spell lx =
     (case lx of (ty, w) \<Rightarrow>
        if ty = Lit StringLiteral then wc CHR 0x22 # escape_string w @ [wc CHR 0x22]
        else if ty = Lit CharLiteral then wc CHR 0x27 # escape_char w @ [wc CHR 0x27]
        else w)"

context ctype_laws
begin

lemma word_char_start:
  "word_char ct c \<Longrightarrow> visible ct c \<and> c \<notin> set symbol_starts
     \<and> c \<noteq> wc CHR 0x22 \<and> c \<noteq> wc CHR 0x27 \<and> c \<noteq> wc CHR ''@''"
  using punctuation_class [of c] mark_class [of c] word_visible [of c]
  by (auto simp: word_char_def symbol_starts_def ascii_punctuation_def unicode_marks_def)

lemma quote_start:
  "c \<in> {wc CHR 0x22, wc CHR 0x27} \<Longrightarrow> visible ct c \<and> c \<notin> set symbol_starts"
  using punctuation_visible [of c] by (auto simp: symbol_starts_def ascii_punctuation_def)

lemma not_string_at: "at_symbol c w s \<Longrightarrow> c \<noteq> wc CHR 0x22 \<Longrightarrow> c \<noteq> wc CHR ''@'' \<Longrightarrow>
    IsStringLiteral False s = (None, s)"
  by (auto simp: IsStringLiteral.simps [of False s])

lemma ReadNextWord_string:
  assumes "at_text (wc CHR 0x22 # escape_string v @ wc CHR 0x22 # w) s"
  shows "\<exists>s'. ReadNextWord ct s = (Some (Lit StringLiteral, v), s') \<and> at_text w s'"
proof -
  obtain s1 where r: "ReadNextWord ct s = ReadLiteralOrWord ct s1"
    and s1: "at_symbol (wc CHR 0x22) (escape_string v @ wc CHR 0x22 # w) s1"
    using ReadNextWord_literal [OF assms] quote_start by blast
  then have "IsStringLiteral False s1 = (Some (Lit StringLiteral, False), s1)"
    by (auto simp: IsStringLiteral.simps [of False s1])
  with r s1 ReadStringLiteral_escape [of v w s1 "[]"] show ?thesis
    by (auto simp: ReadLiteralOrWord_def ReadStringLiteral_def at_symbol_def)
qed

lemma ReadNextWord_char:
  assumes "at_text (wc CHR 0x27 # escape_char v @ wc CHR 0x27 # w) s"
  shows "\<exists>s'. ReadNextWord ct s = (Some (Lit CharLiteral, v), s') \<and> at_text w s'"
proof -
  obtain s1 where r: "ReadNextWord ct s = ReadLiteralOrWord ct s1"
    and s1: "at_symbol (wc CHR 0x27) (escape_char v @ wc CHR 0x27 # w) s1"
    using ReadNextWord_literal [OF assms] quote_start by blast
  then have "IsStringLiteral False s1 = (None, s1)" "IsCharLiteral s1 = Some (Lit CharLiteral)"
    by (auto simp: not_string_at IsCharLiteral_def)
  with r s1 ReadCharLiteral_escape [of v w s1 "[]"] show ?thesis
    by (auto simp: ReadLiteralOrWord_def ReadCharLiteral_def at_symbol_def)
qed

lemma ReadNextWord_number:
  assumes "number_word ty v" and "at_text (v @ wc CHR 0x20 # w) s"
  shows "\<exists>s'. ReadNextWord ct s = (Some (ty, v), s') \<and> at_text (wc CHR 0x20 # w) s'"
proof -
  obtain d ds where v: "v = d # ds" and digit: "in_range CHR ''0'' CHR ''9'' d"
    using assms(1) by (cases v) auto
  note df = digit_facts [OF digit]
  have "visible ct d" using digit digit_alnum word_visible by blast
  then obtain s1 where r: "ReadNextWord ct s = ReadLiteralOrWord ct s1"
    and s1: "at_symbol d (ds @ wc CHR 0x20 # w) s1"
    using ReadNextWord_literal [of d "ds @ wc CHR 0x20 # w" s] df assms(2) v by auto
  then have "IsStringLiteral False s1 = (None, s1)" "IsCharLiteral s1 = None"
    "IsNumberLiteral s1 = Some (Lit NumberLiteral)"
    using df digit by (auto simp: not_string_at IsCharLiteral_def IsNumberLiteral_def at_symbol_def)
  with r ReadNumberLiteral_at [OF assms(1) [unfolded v] s1] v show ?thesis
    by (auto simp: ReadLiteralOrWord_def)
qed

lemma ReadNextWord_word:
  assumes "word_lexeme ct (ty, v)" and "at_text (v @ wc CHR 0x20 # w) s"
  shows "\<exists>s'. ReadNextWord ct s = (Some (ty, v), s') \<and> at_text (wc CHR 0x20 # w) s'"
proof -
  obtain c cs where v: "v = c # cs" "word_char ct c" "list_all (word_char ct) cs"
    "\<not> in_range CHR ''0'' CHR ''9'' c" "ty = ClassifyWord v"
    using assms(1) by (cases v) (auto simp: word_lexeme_def)
  obtain s1 where r: "ReadNextWord ct s = ReadLiteralOrWord ct s1"
    and s1: "at_symbol c (cs @ wc CHR 0x20 # w) s1"
    using ReadNextWord_literal [of c "cs @ wc CHR 0x20 # w" s] word_char_start [OF v(2)] assms(2) v(1)
    by auto
  then have "IsStringLiteral False s1 = (None, s1)" "IsCharLiteral s1 = None" "IsNumberLiteral s1 = None"
    using word_char_start [OF v(2)] v(4)
    by (auto simp: not_string_at IsCharLiteral_def IsNumberLiteral_def at_symbol_def)
  moreover have "\<not> word_char ct (wc CHR 0x20)"
    using mark_class [of "wc CHR 0x20"] by (simp add: word_char_def unicode_marks_def)
  ultimately show ?thesis
    using r s1 v ReadNextWhileAlpha_at [of cs "wc CHR 0x20" w s1 ct "[c]"]
    by (auto simp: ReadLiteralOrWord_def ReadNextWhileAlpha_def at_symbol_def)
qed

lemma ReadNextWord_Spell:
  assumes "lexeme_ok ct lx" and "at_text (Spell lx @ wc CHR 0x20 # w) s"
  shows "\<exists>s'. ReadNextWord ct s = (Some lx, s') \<and> at_text (wc CHR 0x20 # w) s'"
proof -
  obtain ty v where lx: "lx = (ty, v)" by (cases lx)
  consider "ty = Lit StringLiteral" | "ty = Lit CharLiteral"
    | "ty \<noteq> Lit StringLiteral" "ty \<noteq> Lit CharLiteral" by blast
  then show ?thesis
  proof cases
    case 3
    then have w: "at_text (v @ wc CHR 0x20 # w) s"
      using assms(2) by (simp add: Spell_def lx)
    with 3 assms(1) ReadNextWord_symbol [OF _, of _ ty] ReadNextWord_number [OF _ w] ReadNextWord_word [OF _ w]
    show ?thesis by (auto simp: lexeme_ok_def lx)
  qed (use assms ReadNextWord_string [of v] ReadNextWord_char [of v] in \<open>auto simp: lx Spell_def\<close>)
qed

lemma ReadNextWord_blank:
  assumes "at_text (wc CHR 0x20 # w) s"
  shows "\<exists>s'. ReadNextWord ct s = ReadNextWord ct s' \<and> at_text w s'"
proof -
  obtain s' where "ReadNextReal ct s = ReadNextReal ct s'" "at_text w s'"
    using ReadNextReal_blank [OF assms] by blast
  moreover from this have "ReadNextWord ct s = ReadNextWord ct s'"
    by (simp only: ReadNextWord.simps [of ct s] ReadNextWord.simps [of ct s'])
  ultimately show ?thesis by blast
qed

lemma ReadNextWord_end: "at_text [] s \<Longrightarrow> fst (ReadNextWord ct s) = None"
  using ReadNextReal_end [of s]
  by (cases "ReadNextReal ct s") (simp add: ReadNextWord.simps [of ct s])

lemma ReadNextWord_blank_Spell:
  assumes "lexeme_ok ct lx" and "at_text (wc CHR 0x20 # Spell lx @ wc CHR 0x20 # w) s"
  shows "\<exists>s'. ReadNextWord ct s = (Some lx, s') \<and> at_text (wc CHR 0x20 # w) s'"
  using ReadNextWord_blank [OF assms(2)] ReadNextWord_Spell [OF assms(1)] by fastforce

end

text \<open>A program text: every lexeme after a blank, and a blank at the end.\<close>

definition print_lexemes :: "lexeme list \<Rightarrow> wstring" where
  "print_lexemes ls = concat (map (\<lambda>l. wc CHR 0x20 # Spell l) ls) @ [wc CHR 0x20]"

definition lexeme_of :: "SyntaxToken \<Rightarrow> lexeme" where
  "lexeme_of token = (tok_Type token, tok_Word token)"

lemma print_lexemes_Cons:
  "\<exists>w. print_lexemes (l # ls) = wc CHR 0x20 # Spell l @ wc CHR 0x20 # w
     \<and> print_lexemes ls = wc CHR 0x20 # w"
  by (cases ls) (simp_all add: print_lexemes_def)

lemma at_text_ReadBuffer [simp]: "at_text w (s\<lparr>lex_ReadBuffer := b\<rparr>) = at_text w s"
  by (simp add: at_text_def)

lemma WEOF_escape:
  "WEOF \<notin> set w \<Longrightarrow> WEOF \<notin> set (escape_string w)"
  "WEOF \<notin> set w \<Longrightarrow> WEOF \<notin> set (escape_char w)"
  by (induction w) auto

lemma WEOF_Spell: "lexeme_ok ct l \<Longrightarrow> WEOF \<notin> set (Spell l)"
  by (auto simp: lexeme_ok_def Spell_def WEOF_escape split: if_splits)

lemma WEOF_print: "list_all (lexeme_ok ct) ls \<Longrightarrow> WEOF \<notin> set (print_lexemes ls)"
  by (auto simp: print_lexemes_def list_all_iff dest: WEOF_Spell)

lemma symbols_not_EOF: "list_all (\<lambda>(k, t). t \<noteq> Gen EndOfFile) symbols"
  by (simp add: symbols_def)

lemma lexeme_ok_not_EOF: "lexeme_ok ct (ty, w) \<Longrightarrow> ty \<noteq> Gen EndOfFile"
  using symbols_not_EOF ClassifyWord_neq_EOF [of w]
  by (cases w) (auto simp: lexeme_ok_def word_lexeme_def list_all_iff simp del: ClassifyWord_neq_EOF)

context ctype_laws
begin

lemma lex_tokens_print:
  "at_text (print_lexemes ls) s \<Longrightarrow> list_all (lexeme_ok ct) ls \<Longrightarrow>
     map lexeme_of (lex_tokens ct s) = ls"
proof (induction ls arbitrary: s)
  case Nil
  then have "at_text [wc CHR 0x20] (s\<lparr>lex_ReadBuffer := []\<rparr>)" by (simp add: print_lexemes_def)
  from ReadNextWord_blank [OF this] ReadNextWord_end
  have "fst (ReadNextWord ct (s\<lparr>lex_ReadBuffer := []\<rparr>)) = None" by metis
  then show ?case
    by (cases "ReadNextWord ct (s\<lparr>lex_ReadBuffer := []\<rparr>)")
       (simp add: lex_tokens.simps [of ct s] ReadNextToken_def)
next
  case (Cons l ls)
  let ?s = "s\<lparr>lex_ReadBuffer := []\<rparr>"
  obtain w where w: "at_text (wc CHR 0x20 # Spell l @ wc CHR 0x20 # w) ?s"
    "print_lexemes ls = wc CHR 0x20 # w"
    using print_lexemes_Cons [of l ls] Cons.prems(1) by auto
  obtain s' where r: "ReadNextWord ct ?s = (Some l, s')" and s': "at_text (print_lexemes ls) s'"
    using ReadNextWord_blank_Spell [OF _ w(1)] Cons.prems(2) w(2) by auto
  have pb: "putback_ok ?s" using w(1) by (simp add: at_text_def)
  obtain token where t: "ReadNextToken ct ?s = (Some token, s')" "lexeme_of token = l"
    using r by (cases l) (simp add: ReadNextToken_def lexeme_of_def)
  then have "lex_tokens ct s = token # lex_tokens ct s'"
    using lex_tokens_Some [OF t(1) pb] by simp
  with Cons.IH [OF s'] Cons.prems(2) t(2) show ?case by simp
qed

lemma From_text_pending:
  assumes "list_all (lexeme_ok ct) ls"
  shows "\<exists>b l. From_text ct (StringStreamReader_of name (print_lexemes ls)) = Some (b, l)
           \<and> buf_CurrentIndex b = 0 \<and> map lexeme_of (buf_Sequence b) = ls"
proof -
  let ?s = "LexicalAnalyzer_of (StringStreamReader_of name (print_lexemes ls))"
  have at: "at_text (print_lexemes ls) ?s"
    using WEOF_print [OF assms]
    by (auto simp: at_text_def LexicalAnalyzer_of_def StringStreamReader_of_def reader_text_def
        takeWhile_eq_all_conv)
  then have map: "map lexeme_of (lex_tokens ct ?s) = ls" using assms by (rule lex_tokens_print)
  have "tok_Type t \<noteq> Gen EndOfFile" if "t \<in> set (lex_tokens ct ?s)" for t
  proof -
    have "lexeme_of t \<in> set ls" using that map by (metis image_eqI set_map)
    with assms show ?thesis by (auto simp: list_all_iff lexeme_of_def dest: lexeme_ok_not_EOF)
  qed
  then have "pending_lex ct ?s = lex_tokens ct ?s"
    by (simp add: pending_lex_def LexicalAnalyzer_of_def)
  with lexer.PopulateFrom_pending [of ?s ct LexicalBuffer_new] map show ?thesis
    by (auto simp: From_text_def From_provider_def LexicalBuffer_new_def)
qed

lemma From_text_print:
  assumes "list_all (lexeme_ok ct) ls"
  shows "\<exists>b l. From_text ct (StringStreamReader_of name (print_lexemes ls)) = Some (b, l)
           \<and> map lexeme_of (buf_Sequence b) = ls"
  using From_text_pending [OF assms] by blast

end

end
