(* ===== verification/LexerProperties.thy ===== *)
theory LexerProperties
  imports LexerRoundTrip
begin

text \<open>
  The properties of the lexer and of the token buffer, each stated over the definitions of the
  model with the component theories' lemmas behind it, and a concrete instance of every property
  that has hypotheses.
\<close>

section \<open>Round trip\<close>

text \<open>
  C7: Lexing is the inverse of writing down. For every list of lexemes of the language (words,
  punctuation and operators, numbers, string and character literals with any content), the text
  that writes them one after another, separated by blanks, is read back by
  \<^verbatim>\<open>LexicalBuffer::From\<close> as exactly that list of token types and words, and the loop ends.
\<close>

theorem lexer_round_trip:
  assumes "ctype_laws ct" and "list_all (lexeme_ok ct) ls"
  shows "\<exists>b l. From_text ct (StringStreamReader_of name (print_lexemes ls)) = Some (b, l)
           \<and> map lexeme_of (buf_Sequence b) = ls"
  using assms by (rule ctype_laws.From_text_print)

definition sample_lexemes :: "lexeme list" where
  "sample_lexemes =
     [(Ty IntegerKeyword, L ''int''), (Gen Identifier, L ''x''), (Op AssignOperator, L ''=''),
      (Lit NumberLiteral, L ''0x1F''), (Op RangeInclusiveOperator, L ''..&''),
      (Lit DoubleLiteral, L ''2.5''), (Lit StringLiteral, L [CHR ''a'', CHR 0x22, CHR 0x0A, CHR 0x5C]),
      (Lit CharLiteral, [nl]), (Pn Semicolon, L '';'')]"

lemma sample_lexemes_ok: "list_all (lexeme_ok C_locale) sample_lexemes"
  by code_simp

theorem lexer_round_trip_witness:
  "ctype_laws C_locale \<and> list_all (lexeme_ok C_locale) sample_lexemes
   \<and> (\<exists>b l. From_text C_locale (StringStreamReader_of (L ''m.ss'') (print_lexemes sample_lexemes)) = Some (b, l)
          \<and> map lexeme_of (buf_Sequence b) = sample_lexemes)"
  using C.ctype_laws_axioms sample_lexemes_ok
    lexer_round_trip [OF C.ctype_laws_axioms sample_lexemes_ok, of "L ''m.ss''"]
  by blast

section \<open>Progress and positions\<close>

text \<open>
  C19: Every token the lexer reads removes a non-empty prefix of the text that is left (so lexing
  ends), moves the line and column counters over exactly that prefix, and carries a location in
  the line where it ends, whose column is at least 1 and whose length is that of its word.
\<close>

theorem token_progress_and_location:
  assumes "putback_ok s" and "ReadNextToken ct s = (Some token, t)"
  shows "\<exists>u. u \<noteq> [] \<and> unread s = u @ unread t
           \<and> lex_pos t = fold pos_step u (lex_pos s)
           \<and> putback_ok t
           \<and> loc_Line (tok_Location token) = lex_Line t
           \<and> loc_Length (tok_Location token) = int (length (tok_Word token))
           \<and> loc_Offset (tok_Location token)
               = max 1 (lex_Offset t - int (length (tok_Word token)) + 1)"
proof -
  obtain u where "u \<noteq> []" "scans_by u s t"
    using ReadNextToken_scans(3) [OF assms(2,1)] by (auto simp: scans_some_def)
  moreover have "tok_Location token = GetLocation (tok_Word token) t"
    using assms(2) by (auto simp: ReadNextToken_def split: option.splits prod.splits)
  ultimately show ?thesis
    using ReadNextToken_scans(2) [OF assms(2,1)]
    by (auto simp: scans_by_def GetLocation_def Let_def)
qed

definition sample_lexer :: lexer where
  "sample_lexer = LexicalAnalyzer_of (StringStreamReader_of (L ''m.ss'') (L '' (a''))"

lemma sample_lexer_reads:
  "map_option tok_Word (fst (ReadNextToken C_locale sample_lexer)) = Some (L ''('')"
  by code_simp

theorem token_progress_and_location_witness:
  "\<exists>token t u. putback_ok sample_lexer
     \<and> ReadNextToken C_locale sample_lexer = (Some token, t)
     \<and> u \<noteq> [] \<and> unread sample_lexer = u @ unread t
     \<and> loc_Line (tok_Location token) = lex_Line t"
proof -
  obtain token t where r: "ReadNextToken C_locale sample_lexer = (Some token, t)"
    using sample_lexer_reads by (cases "ReadNextToken C_locale sample_lexer") auto
  have "putback_ok sample_lexer" by (simp add: sample_lexer_def)
  from token_progress_and_location [OF this r] r this show ?thesis by blast
qed

section \<open>Token kinds\<close>

text \<open>
  C25: The chain of table searches the lexer runs on a word (eleven comparison functions, in the
  order \<^verbatim>\<open>ReadNextWord\<close> calls them) is a lookup in one table of 66 distinct reserved words:
  a reserved word has the kind its table row gives, every other word is an identifier.
\<close>

theorem word_classification_table:
  "ClassifyWord w = (case map_of (map (\<lambda>(k, t). (L k, t)) reserved_words) w of
                       Some t \<Rightarrow> t | None \<Rightarrow> Gen Identifier)
   \<and> distinct (map fst reserved_words)"
  using ClassifyWord_lookup [of w] distinct_reserved_words by (simp add: lookup_word_def)

text \<open>The kinds the lexer can produce.\<close>

definition produced_kinds :: "TokenType list" where
  "produced_kinds =
     Gen Identifier # map Lit [StringLiteral, CharLiteral, NumberLiteral, DoubleLiteral]
     @ map snd reserved_words @ map snd symbols"

lemma PeekChoice_in:
  "PeekChoice alts short s = (Some lx, s') \<Longrightarrow> lx = short \<or> lx \<in> snd ` set alts"
  by (auto simp: PeekChoice.simps Let_def split_beta dest!: map_of_SomeD
      split: option.splits if_splits)

lemma IsPunctuation_kind:
  "IsPunctuation_lex s = (Some lx, s') \<Longrightarrow> fst lx \<in> set (map snd symbols)"
  by (auto simp: IsPunctuation_lex_def IsPunctuation_dot_def symbols_def Let_def split_beta
      split: if_splits dest!: PeekChoice_in)

lemma IsOperator_kind:
  "IsOperator_lex s = (Some lx, s') \<Longrightarrow> fst lx \<in> insert (Gen Trivia) (set (map snd symbols))"
  by (auto simp: IsOperator_lex_def IsOperator_relational_def IsOperator_arithmetic_def
      IsOperator_bitwise_def symbols_def Let_def split: if_splits dest!: PeekChoice_in)

lemma number_pass_kind:
  "number_pass fd tw s = (b, fd', tw', t) \<Longrightarrow> fst tw' \<in> {fst tw, Lit DoubleLiteral}"
  by (cases tw) (auto simp: number_pass_def number_tail_def Let_def split_beta
      split: if_splits option.splits)

lemma ReadNumberLiteral_loop_kind:
  "fst (fst (ReadNumberLiteral_loop fd tw s)) \<in> {fst tw, Lit DoubleLiteral}"
proof (induction fd tw s rule: ReadNumberLiteral_loop.induct)
  case (1 fd tw s)
  obtain b fd' tw' t where p: "number_pass fd tw s = (b, fd', tw', t)" by (metis prod_cases4)
  show ?case
  proof (cases b)
    case True
    with "1.IH" p have "fst (fst (ReadNumberLiteral_loop fd' tw' t)) \<in> {fst tw', Lit DoubleLiteral}"
      by (cases tw') auto
    with number_pass_kind [OF p] True p show ?thesis
      by (auto simp: ReadNumberLiteral_loop.simps [of fd tw s])
  qed (use number_pass_kind [OF p] p in \<open>simp add: ReadNumberLiteral_loop.simps [of fd tw s]\<close>)
qed

lemma ReadNumberLiteral_kind:
  "ReadNumberLiteral (Lit NumberLiteral, w) s = (Some lx, s') \<Longrightarrow>
     fst lx \<in> {Lit NumberLiteral, Lit DoubleLiteral}"
  using ReadNumberLiteral_loop_kind
  by (auto simp: ReadNumberLiteral_def Let_def split_beta split: if_splits)
     (metis fst_conv insertE singletonD)+

lemma IsStringLiteral_kind: "fst (IsStringLiteral d s) = Some (ty, e) \<Longrightarrow> ty = Lit StringLiteral"
proof (induction d s rule: IsStringLiteral.induct)
  case (1 d s)
  obtain ok s1 where "PeekNextSymbol s = (ok, s1)" by fastforce
  with 1 show ?case by (auto simp: IsStringLiteral.simps [of d s] split: if_splits)
qed

lemma produced_kindsI:
  "x \<in> set (map snd symbols) \<Longrightarrow> x \<in> set produced_kinds"
  "x \<in> {Lit NumberLiteral, Lit DoubleLiteral} \<Longrightarrow> x \<in> set produced_kinds"
  "ClassifyWord w \<in> set produced_kinds"
  "Lit StringLiteral \<in> set produced_kinds" "Lit CharLiteral \<in> set produced_kinds"
  using ClassifyWord_range [of w] by (auto simp: produced_kinds_def)

lemma ReadLiteralOrWord_kind:
  "ReadLiteralOrWord ct s = (Some lx, s') \<Longrightarrow> fst lx \<in> set produced_kinds"
  by (auto simp: ReadLiteralOrWord_def IsCharLiteral_def IsNumberLiteral_def split_beta
        split: option.splits if_splits
        dest!: ReadNumberLiteral_kind IsStringLiteral_kind intro: produced_kindsI)

lemma ReadNextWord_kind:
  "ReadNextWord ct s = (Some lx, t) \<Longrightarrow> fst lx \<in> set produced_kinds"
proof (induction ct s rule: ReadNextWord.induct)
  case (1 ct s)
  obtain b s1 where r1: "ReadNextReal ct s = (b, s1)" by fastforce
  obtain tw2 s2 where p: "IsPunctuation_lex s1 = (tw2, s2)" by fastforce
  obtain tw3 s3 where o: "IsOperator_lex s2 = (tw3, s3)" by fastforce
  obtain c s4 where c: "SkipComment s3 = (c, s4)" by fastforce
  have IH: "ReadNextWord ct s4 = (Some lx, t) \<Longrightarrow> fst lx \<in> set produced_kinds"
    if "b" "tw2 = None" "tw3 = Some (Gen Trivia, w)" "c" for w
    using "1.IH" [OF r1 [symmetric] _ p [symmetric] _ o [symmetric] _ _ _ c [symmetric]] that by simp
  have sym: "tw2 = Some lx \<Longrightarrow> fst lx \<in> set produced_kinds"
    "tw3 = Some (ty, w) \<Longrightarrow> ty \<noteq> Gen Trivia \<Longrightarrow> ty \<in> set produced_kinds" for ty w
    using IsPunctuation_kind [of s1 lx] IsOperator_kind [of s2 "(ty, w)"] p o
    by (auto intro: produced_kindsI simp del: set_map)
  show ?case
    using "1.prems" r1 p o c IH sym ReadLiteralOrWord_kind [of ct s3 lx]
    by (cases b; cases tw2; cases tw3; cases c)
       (auto simp: ReadNextWord.simps [of ct s] split: if_splits)
qed

text \<open>
  C39: The kinds of token the lexer produces. The members \<^verbatim>\<open>ShortKeyword\<close>, \<^verbatim>\<open>LongKeyword\<close>,
  \<^verbatim>\<open>FromKeyword\<close>, \<^verbatim>\<open>ImportKeyword\<close>, \<^verbatim>\<open>NativeLiteral\<close>, \<^verbatim>\<open>ByteLiteral\<close>, \<^verbatim>\<open>FakeSemicolon\<close>,
  \<^verbatim>\<open>Trivia\<close> and \<^verbatim>\<open>Unknown\<close> of \<^verbatim>\<open>TokenType\<close> are never the kind of a token that was read, and
  neither is \<^verbatim>\<open>EndOfFile\<close>, which only marks the end of the input.
\<close>

theorem lexer_token_kinds:
  assumes "ReadNextToken ct s = (Some token, t)"
  shows "tok_Type token \<in> set produced_kinds
    \<and> tok_Type token \<notin> {Ty ShortKeyword, Ty LongKeyword, Dc FromKeyword, Dc ImportKeyword,
          Lit NativeLiteral, Lit ByteLiteral, Gen FakeSemicolon, Gen Trivia, Gen Unknown, Gen EndOfFile}"
proof -
  have "list_all (\<lambda>k. k \<notin> {Ty ShortKeyword, Ty LongKeyword, Dc FromKeyword, Dc ImportKeyword,
          Lit NativeLiteral, Lit ByteLiteral, Gen FakeSemicolon, Gen Trivia, Gen Unknown, Gen EndOfFile})
          produced_kinds"
    by (simp add: produced_kinds_def reserved_words_def symbols_def)
  moreover obtain lx where "ReadNextWord ct s = (Some lx, t)" "fst lx = tok_Type token"
    using assms by (auto simp: ReadNextToken_def split: option.splits prod.splits)
  ultimately show ?thesis
    using ReadNextWord_kind by (fastforce simp: list_all_iff)
qed

theorem lexer_token_kinds_witness:
  "\<exists>token t. ReadNextToken C_locale sample_lexer = (Some token, t)
     \<and> tok_Type token \<in> set produced_kinds"
proof -
  obtain token t where "ReadNextToken C_locale sample_lexer = (Some token, t)"
    using sample_lexer_reads by (cases "ReadNextToken C_locale sample_lexer") auto
  with lexer_token_kinds show ?thesis by blast
qed

section \<open>Comments\<close>

lemma AdvancePeekSymbol_at:
  "at_text (c # w) s \<Longrightarrow> \<exists>s'. AdvancePeekSymbol s = Some s' \<and> lex_PeekSymbol s' = c \<and> at_text w s'"
  by (auto simp: AdvancePeekSymbol_def dest!: Advance_at)

lemma SkipComment_at:
  "at_text (body @ nl # w) s \<Longrightarrow> nl \<notin> set body \<Longrightarrow> nul \<notin> set body \<Longrightarrow>
     \<exists>s'. SkipComment s = (True, s') \<and> at_text w s'"
proof (induction body arbitrary: s)
  case Nil
  with AdvancePeekSymbol_at [of nl w s] show ?case by (auto simp: SkipComment.simps [of s])
next
  case (Cons c body)
  obtain s1 where "AdvancePeekSymbol s = Some s1" "lex_PeekSymbol s1 = c" "at_text (body @ nl # w) s1"
    using AdvancePeekSymbol_at [of c "body @ nl # w" s] Cons.prems(1) by auto
  with Cons show ?case by (auto simp: SkipComment.simps [of s])
qed

context ctype_laws
begin

lemma ReadNextWord_comment:
  assumes "at_text (L ''//'' @ body @ nl # w) s" and "nl \<notin> set body" and "nul \<notin> set body"
  shows "\<exists>s'. ReadNextWord ct s = ReadNextWord ct s' \<and> at_text w s'"
proof -
  let ?slash = "wc CHR ''/''"
  obtain s1 where r: "ReadNextReal ct s = (True, s1)" and s1: "at_symbol ?slash (?slash # body @ nl # w) s1"
    using ReadNextReal_at [of ?slash "?slash # body @ nl # w" s ct] punctuation_visible [of ?slash] assms(1)
    by (auto simp: ascii_punctuation_def)
  have p: "IsPunctuation_lex s1 = (None, s1)"
    using s1 by (auto simp: IsPunctuation_lex_def)
  have "lex_Symbol s1 = ?slash" "at_text (?slash # body @ nl # w) s1" using s1 by auto
  then have "fst (IsOperator_lex s1) = Some (Gen Trivia, L ''//'')"
    "at_text (body @ nl # w) (snd (IsOperator_lex s1))"
    by (simp_all add: IsOperator_lex_def IsOperator_arithmetic_def Let_def symbol_moves)
  moreover from this(2) obtain s4 where "SkipComment (snd (IsOperator_lex s1)) = (True, s4)" "at_text w s4"
    using SkipComment_at assms(2,3) by blast
  ultimately show ?thesis
    using r p by (cases "IsOperator_lex s1") (auto simp: ReadNextWord.simps [of ct s])
qed

end

text \<open>
  A line comment is invisible: reading a token from \<^verbatim>\<open>//\<close>, any characters but a line end
  (and NUL), the line end and a rest gives the same result as reading it from the rest, from
  a state that has exactly the rest left.
\<close>

theorem line_comment_skipped:
  assumes "ctype_laws ct" and "at_text (L ''//'' @ body @ nl # w) s"
    and "nl \<notin> set body" and "nul \<notin> set body"
  shows "\<exists>s'. ReadNextWord ct s = ReadNextWord ct s' \<and> at_text w s'"
  using assms by (rule ctype_laws.ReadNextWord_comment)

theorem line_comment_skipped_witness:
  "\<exists>s s'. at_text (L ''//'' @ L ''note'' @ nl # L '';'') s
     \<and> ReadNextWord C_locale s = ReadNextWord C_locale s' \<and> at_text (L '';'') s'"
proof -
  let ?w = "L ''//'' @ L ''note'' @ nl # L '';''"
  have s: "at_text ?w (LexicalAnalyzer_of (StringStreamReader_of [] ?w))"
    by (simp add: at_text_def LexicalAnalyzer_of_def StringStreamReader_of_def reader_text_def)
  from line_comment_skipped [OF C.ctype_laws_axioms s] s show ?thesis by (auto simp del: L_Cons)
qed

section \<open>Numbers before a range\<close>

lemma number_pass_putback:
  assumes "at_text (wc CHR ''.'' # c # w) s" and "\<not> IsNumberSymbol c"
  shows "\<exists>t. number_pass False tw s = (False, False, tw, t) \<and> unread t = wc CHR ''.'' # c # w
           \<and> lex_HasPutbackSymbol t \<and> lex_PutbackSymbol t = wc CHR ''.''"
proof -
  let ?s1 = "s\<lparr>lex_PeekSymbol := wc CHR ''.''\<rparr>"
  have "at_text (wc CHR ''.'' # c # w) ?s1" using assms(1) by simp
  then obtain s2 where s2: "AdvancePeekSymbol ?s1 = Some s2" "at_text (c # w) s2"
    using AdvancePeekSymbol_at by blast
  then have "PeekNext (lex_SourceText s2) = (True, c)" "lex_text s2 = c # w"
    by (simp_all add: at_text_def reader.peek_more)
  with assms s2 show ?thesis
    by (cases tw) (auto simp: number_pass_def number_tail_def PeekNextSymbol_at unread_def)
qed

text \<open>
  The bounds of a range may be written without blanks. After digits that are followed by two
  dots the number literal ends before the dots, no character is lost, and the next token read is
  the range operator.
\<close>

theorem number_before_range:
  assumes "in_range CHR ''0'' CHR ''9'' d" and "list_all IsNumberSymbol ds" and "c \<noteq> wc CHR ''&''"
    and "at_symbol d (ds @ L ''..'' @ c # w) s"
  shows "\<exists>t u. ReadNumberLiteral (Lit NumberLiteral, []) s = (Some (Lit NumberLiteral, d # ds), t)
           \<and> unread t = L ''..'' @ c # w
           \<and> ReadNextWord ct t = (Some (Op RangeOperator, L ''..''), u) \<and> unread u = c # w"
proof -
  let ?dot = "wc CHR ''.''"
  obtain s1 where s1: "at_text (?dot # ?dot # c # w) s1" and enter: "\<And>tw t.
      ReadNumberLiteral_loop False (Lit NumberLiteral, d # ds) s1 = (tw, t) \<Longrightarrow> snd tw \<noteq> []
        \<Longrightarrow> ReadNumberLiteral (Lit NumberLiteral, []) s = (Some tw, t)"
    using ReadNumberLiteral_digits [of d ds ?dot "?dot # c # w" s "Lit NumberLiteral"] assms by auto
  obtain t where t: "number_pass False (Lit NumberLiteral, d # ds) s1 = (False, False, (Lit NumberLiteral, d # ds), t)"
    "unread t = ?dot # ?dot # c # w" "lex_HasPutbackSymbol t" "lex_PutbackSymbol t = ?dot"
    using number_pass_putback [OF s1, of "(Lit NumberLiteral, d # ds)"] by auto
  have num: "ReadNumberLiteral (Lit NumberLiteral, []) s = (Some (Lit NumberLiteral, d # ds), t)"
    by (rule enter) (simp_all add: ReadNumberLiteral_loop.simps [of False _ s1] t(1))
  obtain t1 where r: "ReadNextReal ct t = (True, t1)" "lex_Symbol t1 = ?dot" "at_text (?dot # c # w) t1"
    using t by (auto simp: ReadNextReal_def unread_def at_text_def)
  then have "fst (IsPunctuation_lex t1) = Some (Op RangeOperator, L ''..'')"
    "at_text (c # w) (snd (IsPunctuation_lex t1))"
    using assms(3) by (simp_all add: IsPunctuation_lex_def symbol_moves)
  with r have "\<exists>u. ReadNextWord ct t = (Some (Op RangeOperator, L ''..''), u) \<and> unread u = c # w"
    by (cases "IsPunctuation_lex t1") (auto simp: ReadNextWord.simps [of ct t] unread_def at_text_def)
  with num t(2) show ?thesis by auto
qed

definition sample_range :: lexer where
  "sample_range = (LexicalAnalyzer_of (StringStreamReader_of [] (L ''0..5'')))
     \<lparr>lex_Symbol := wc CHR ''1''\<rparr>"

theorem number_before_range_witness:
  "\<exists>t u. ReadNumberLiteral (Lit NumberLiteral, []) sample_range = (Some (Lit NumberLiteral, L ''10''), t)
     \<and> ReadNextWord C_locale t = (Some (Op RangeOperator, L ''..''), u) \<and> unread u = L ''5''"
proof -
  have "in_range CHR ''0'' CHR ''9'' (wc CHR ''1'')" "list_all IsNumberSymbol (L ''0'')"
    by (simp_all add: in_range_iff unat_wc IsNumberSymbol_def)
  moreover have "at_symbol (wc CHR ''1'') (L ''0'' @ L ''..'' @ wc CHR ''5'' # []) sample_range"
    by (simp add: at_symbol_def at_text_def sample_range_def LexicalAnalyzer_of_def
        StringStreamReader_of_def reader_text_def)
  ultimately show ?thesis
    using number_before_range [of "wc CHR ''1''" "L ''0''" "wc CHR ''5''" "[]" sample_range C_locale] by auto
qed

section \<open>Literal readers on unusual input\<close>

text \<open>
  After a backslash that is not followed by one of the three escapes the string reader knows,
  the escape stays pending: the characters after it are kept, and the quote that should close the
  literal is taken as an escaped quote. So \<^verbatim>\<open>"\t"\<close> does not end where it looks like ending.
\<close>

theorem unknown_escape_swallows_quote:
  assumes "list_all (\<lambda>c. c \<notin> {wc CHR 0x5C, wc CHR 0x22, wc CHR ''n''}) cs"
    and "at_text (wc CHR 0x5C # cs @ wc CHR 0x22 # w) s"
  shows "\<exists>s'. ReadStringLiteral word False s
              = ReadStringLiteral_loop False False (word @ cs @ [wc CHR 0x22]) s' \<and> at_text w s'"
proof -
  have loop: "\<exists>s'. ReadStringLiteral_loop False True word s
          = ReadStringLiteral_loop False False (word @ cs @ [wc CHR 0x22]) s' \<and> at_text w s'"
    if "at_text (cs @ wc CHR 0x22 # w) s" for word s
    using assms(1) that
  proof (induction cs arbitrary: word s)
    case Nil
    with AdvanceSymbol_at [of "wc CHR 0x22" w s] obtain s1 where
      "AdvanceSymbol s = Some s1" "at_symbol (wc CHR 0x22) w s1" by auto
    then show ?case
      by (auto simp: ReadStringLiteral_loop.simps [of _ _ _ s] at_symbol_def Let_def
          intro!: exI [of _ "s1\<lparr>lex_Symbol := wc CHR 0x22\<rparr>"])
  next
    case (Cons c cs)
    obtain s1 where "AdvanceSymbol s = Some s1" "at_symbol c (cs @ wc CHR 0x22 # w) s1"
      using AdvanceSymbol_at [of c "cs @ wc CHR 0x22 # w" s] Cons.prems(2) by auto
    with Cons.IH [of s1 "word @ [c]"] Cons.prems(1) show ?case
      by (auto simp: ReadStringLiteral_loop.simps [of _ _ _ s] at_symbol_def Let_def)
  qed
  obtain s1 where "AdvanceSymbol s = Some s1" "at_symbol (wc CHR 0x5C) (cs @ wc CHR 0x22 # w) s1"
    using AdvanceSymbol_at [OF assms(2)] by blast
  with loop [of s1 word] show ?thesis
    by (auto simp: ReadStringLiteral_def ReadStringLiteral_loop.simps [of _ False _ s] at_symbol_def)
qed

theorem unknown_escape_swallows_quote_witness:
  "\<exists>s s'. at_text (L [CHR 0x5C, CHR ''t'', CHR 0x22, CHR '';'']) s
     \<and> ReadStringLiteral [] False s
         = ReadStringLiteral_loop False False (L [CHR ''t'', CHR 0x22]) s' \<and> at_text (L '';'') s'"
proof -
  let ?w = "wc CHR 0x5C # L ''t'' @ wc CHR 0x22 # L '';''"
  have s: "at_text ?w (LexicalAnalyzer_of (StringStreamReader_of [] ?w))"
    by (simp add: at_text_def LexicalAnalyzer_of_def StringStreamReader_of_def reader_text_def)
  have "list_all (\<lambda>c. c \<notin> {wc CHR 0x5C, wc CHR 0x22, wc CHR ''n''}) (L ''t'')" by simp
  from unknown_escape_swallows_quote [OF this s, of "[]"] s show ?thesis by auto
qed

text \<open>
  A verbatim string is never recognised: from the symbol \<^verbatim>\<open>@\<close> the test for a string literal
  fails whatever follows, because the test it repeats after the quote still looks at the \<^verbatim>\<open>@\<close>.
\<close>

theorem verbatim_string_never_recognised:
  "lex_Symbol s = wc CHR ''@'' \<Longrightarrow> fst (IsStringLiteral dontEcran s) = None"
proof (induction dontEcran s rule: IsStringLiteral.induct)
  case (1 d s)
  obtain ok s1 where p: "PeekNextSymbol s = (ok, s1)" by fastforce
  have "lex_Symbol (SkipPeekSymbol s1) = lex_Symbol s"
    using p by (auto simp: PeekNextSymbol_def SkipPeekSymbol_def AdvancePeekSymbol_def Advance_def Let_def
        split_beta split: option.splits)
  with 1 p show ?case by (auto simp: IsStringLiteral.simps [of d s])
qed

theorem verbatim_string_never_recognised_witness:
  "lex_Symbol (sample_range\<lparr>lex_Symbol := wc CHR ''@''\<rparr>) = wc CHR ''@''
   \<and> fst (IsStringLiteral False (sample_range\<lparr>lex_Symbol := wc CHR ''@''\<rparr>)) = None"
  using verbatim_string_never_recognised [of "sample_range\<lparr>lex_Symbol := wc CHR ''@''\<rparr>" False] by simp

section \<open>Token providers\<close>

text \<open>
  C24: Filling a buffer from a lexer ends and appends exactly the tokens the lexer has pending
  (those already in its look-ahead buffer, then those read from the text, up to the first end
  token), in order, and leaves nothing pending.
\<close>

theorem populate_from_lexer:
  assumes "putback_ok s"
  shows "\<exists>s'. PopulateFrom_provider (CanConsume ct) (Current ct) (Consume ct) b s
            = Some (b\<lparr>buf_Sequence := buf_Sequence b @ takeWhile (\<lambda>t. tok_Type t \<noteq> Gen EndOfFile)
                                          (lex_ReadBuffer s @ lex_tokens ct s)\<rparr>, s')
          \<and> pending_lex ct s' = []"
  using lexer.PopulateFrom_pending [OF assms, of ct b] unfolding pending_lex_def by blast

theorem populate_from_lexer_witness:
  "putback_ok sample_lexer
   \<and> (\<exists>s'. PopulateFrom_provider (CanConsume C_locale) (Current C_locale) (Consume C_locale)
          LexicalBuffer_new sample_lexer
        = Some (LexicalBuffer_new\<lparr>buf_Sequence := takeWhile (\<lambda>t. tok_Type t \<noteq> Gen EndOfFile)
                                                (lex_tokens C_locale sample_lexer)\<rparr>, s'))"
proof -
  have "putback_ok sample_lexer" by (simp add: sample_lexer_def)
  from populate_from_lexer [OF this, of C_locale LexicalBuffer_new] this show ?thesis
    by (auto simp: sample_lexer_def LexicalBuffer_new_def LexicalAnalyzer_of_def)
qed

text \<open>
  Both providers keep the parser's backtracking contract. Looking at the current token,
  consuming it and putting it back leaves the same tokens pending, for the lexer and for the
  buffer, and the token put back is the current one again.
\<close>

theorem put_back_restores:
  assumes "putback_ok s" and "pending_lex ct s \<noteq> []"
    and "pending_buf b \<noteq> []" and "tok_Type (hd (pending_buf b)) \<noteq> Gen EndOfFile"
  shows "(let (t, s') = Consume ct (snd (Current ct s)) in
            pending_lex ct (PutBackToken t s') = pending_lex ct s
            \<and> fst (Current ct (PutBackToken t s')) = t)
       \<and> (let (t, b') = Consume_buf b in
            pending_buf (PutBackToken_buf t b') = pending_buf b
            \<and> Current_buf (PutBackToken_buf t b') = t)"
proof (rule conjI)
  have "tok_Type (hd (pending_lex ct s)) \<noteq> Gen EndOfFile"
    using assms(2) hd_in_set set_takeWhileD unfolding pending_lex_def by fast
  with assms(1,2) lexer.put_back_consumed [of s ct] lexer.put_back_current [of _ _ ct]
    lexer.current_keeps [of s ct] lexer.consume_hd [of "snd (Current ct s)" ct]
    lexer.consume_tl [of "snd (Current ct s)" ct]
  show "let (t, s') = Consume ct (snd (Current ct s)) in
           pending_lex ct (PutBackToken t s') = pending_lex ct s
           \<and> fst (Current ct (PutBackToken t s')) = t"
    by (simp add: split_beta Let_def)
  show "let (t, b') = Consume_buf b in
           pending_buf (PutBackToken_buf t b') = pending_buf b
           \<and> Current_buf (PutBackToken_buf t b') = t"
    using assms(3,4) buffer.put_back_consumed [of b] buffer.put_back_current buffer.consume_hd [of b]
    by (simp add: split_beta Let_def)
qed

definition sample_token :: SyntaxToken where
  "sample_token = SyntaxToken_of (Gen Identifier) (L ''x'') TextLocation_default"

theorem put_back_restores_witness:
  "\<exists>s b. pending_lex C_locale s \<noteq> [] \<and> pending_buf b \<noteq> []
     \<and> (let (t, s') = Consume C_locale (snd (Current C_locale s)) in
          pending_lex C_locale (PutBackToken t s') = pending_lex C_locale s)
     \<and> (let (t, b') = Consume_buf b in pending_buf (PutBackToken_buf t b') = pending_buf b)"
proof -
  let ?s = "PutBackToken sample_token sample_lexer" and ?b = "Push_buf sample_token LexicalBuffer_new"
  have "putback_ok sample_lexer" by (simp add: sample_lexer_def)
  then have s: "putback_ok ?s" "pending_lex C_locale ?s \<noteq> []"
    using lexer.put_back_pending [of sample_lexer sample_token C_locale] by (simp_all add: sample_token_def)
  have b: "pending_buf ?b \<noteq> []" "tok_Type (hd (pending_buf ?b)) \<noteq> Gen EndOfFile"
    by (simp_all add: pending_buf_def Push_buf_def LexicalBuffer_new_def sample_token_def)
  from put_back_restores [OF s b] s b show ?thesis
    by (intro exI [of _ ?s] exI [of _ ?b]) (auto simp: Let_def split_beta)
qed

text \<open>
  \<^verbatim>\<open>Consume\<close> of the lexer removes a token only when its look-ahead buffer holds one. On an
  empty buffer it reads a token, keeps it and returns it, so that the next \<^verbatim>\<open>Consume\<close> returns the
  same token again; \<^verbatim>\<open>LexicalBuffer::Consume\<close> always moves on.
\<close>

theorem first_consume_keeps_token:
  assumes "putback_ok s" and "lex_ReadBuffer s = []" and "buf_CurrentIndex b < length (buf_Sequence b)"
  shows "(let (t, s1) = Consume ct s; (t', s2) = Consume ct s1 in
            t' = t \<and> lex_ReadBuffer s1 = [t] \<and> lex_ReadBuffer s2 = [])
       \<and> buf_CurrentIndex (snd (Consume_buf b)) = buf_CurrentIndex b + 1"
proof -
  obtain t s1 where "Consume ct s = (t, s1)" "lex_ReadBuffer s1 = [t]"
    using Consume_empty [OF assms(2,1)] by metis
  with assms(3) show ?thesis by (simp add: Consume_buffered Consume_buf_def)
qed

theorem first_consume_keeps_token_witness:
  "let (t, s1) = Consume C_locale sample_lexer; (t', s2) = Consume C_locale s1 in t' = t"
proof -
  have "putback_ok sample_lexer" "lex_ReadBuffer sample_lexer = []"
    "buf_CurrentIndex (Push_buf sample_token LexicalBuffer_new)
      < length (buf_Sequence (Push_buf sample_token LexicalBuffer_new))"
    by (simp_all add: sample_lexer_def LexicalAnalyzer_of_def putback_ok_def Push_buf_def LexicalBuffer_new_def)
  from first_consume_keeps_token [OF this, of C_locale] show ?thesis by (auto simp: Let_def split_beta)
qed

text \<open>
  \<^verbatim>\<open>LexicalBuffer::Peek\<close> shows the token the given number of places after the current one,
  and the end token beyond the last. A negative argument wraps around in the conversion to
  \<^verbatim>\<open>size_t\<close>: \<^verbatim>\<open>Peek(-1)\<close> is the current token and \<^verbatim>\<open>Peek(-2)\<close> at the start is the end token.
\<close>

theorem buffer_peek:
  assumes "buf_CurrentIndex b + 1 + i < 2 ^ 64" and "length (buf_Sequence b) < 2 ^ 64"
  shows "Peek_buf (int i) b = (if Suc i < length (pending_buf b) then pending_buf b ! Suc i else EndOfFile_token)
    \<and> Peek_buf (-1) b = Current_buf b
    \<and> (buf_CurrentIndex b = 0 \<longrightarrow> length (buf_Sequence b) < 2 ^ 64 - 1 \<longrightarrow> Peek_buf (-2) b = EndOfFile_token)"
proof -
  have "nat ((int (buf_CurrentIndex b) + 1 + int i) mod 2 ^ 64) = buf_CurrentIndex b + Suc i"
    using assms(1) by (simp add: mod_pos_pos_trivial nat_eq_iff)
  then have "Peek_buf (int i) b
      = (if Suc i < length (pending_buf b) then pending_buf b ! Suc i else EndOfFile_token)"
    unfolding Peek_buf_def by (simp only: Let_def) (auto simp: pending_buf_def)
  moreover have "int (buf_CurrentIndex b) mod 2 ^ 64 = int (buf_CurrentIndex b)"
    using assms(1) by (simp add: mod_pos_pos_trivial)
  ultimately show ?thesis
    using assms(2) by (auto simp: Peek_buf_def Current_buf_def)
qed

theorem buffer_peek_witness:
  "Peek_buf 0 (PopulateFrom_vector [sample_token, sample_token] LexicalBuffer_new) = sample_token"
proof -
  let ?b = "PopulateFrom_vector [sample_token, sample_token] LexicalBuffer_new"
  have "buf_CurrentIndex ?b + 1 + 0 < 2 ^ 64" "length (buf_Sequence ?b) < 2 ^ 64"
    by (simp_all add: PopulateFrom_vector_def Push_buf_def LexicalBuffer_new_def)
  from buffer_peek [OF this] show ?thesis
    by (simp add: PopulateFrom_vector_def Push_buf_def LexicalBuffer_new_def pending_buf_def)
qed

end
