(* ===== verification/SyntaxFacts.thy ===== *)
theory SyntaxFacts
  imports LexerWords
begin

text \<open>
  The parser's tables, \<^verbatim>\<open>src/parsing/SyntaxFacts.cpp\<close> and
  \<^verbatim>\<open>include/shard/parsing/SyntaxKind.hpp\<close>: operator precedences, the token classes and the
  names of operator methods. A \<^verbatim>\<open>switch\<close> whose cases all return true is membership in the set of
  its cases.
\<close>

section \<open>Kinds of syntax nodes\<close>

text \<open>One flat enumeration in the source; the groups are those of its comments.\<close>

datatype UnitKind =
    Unknown_kind | CompilationUnit | UsingDirective | DllImportDirective | Attribute

datatype DeclarationKind =
    NamespaceDeclaration | ClassDeclaration | StructDeclaration | InterfaceDeclaration
  | DelegateDeclaration | EnumDeclaration | EnumFieldDeclaration | FieldDeclaration
  | MethodDeclaration | OperatorDeclaration | ConstructorDeclaration | PropertyDeclaration
  | AccessorDeclaration | IndexatorDeclaration

datatype PartKind =
    Parameter | ParametersList | TypeParameter | Argument | ArgumentsList | IndexatorList
  | StatementsBlock | MethodBody | WhereClause

datatype StatementKind =
    ExpressionStatement | VariableStatement | ForStatement | ForEachStatement | ForInStatement
  | WhileStatement | UntilStatement | ThrowStatement | BreakStatement | ContinueStatement
  | ReturnStatement | IfStatement | UnlessStatement | ElseStatement | TryStatement
  | CatchClause | DeferStatement | SwitchStatement | SwitchCaseClause

datatype ExpressionKind =
    ObjectExpression | LiteralExpression | BinaryExpression | UnaryExpression
  | TernaryExpression | CollectionExpression | RangeExpression | IfExpression
  | SwitchExpression | PostfixIfExpression | CastExpression | IsExpression | IsPattern
  | LinkedExpression | MemberAccessExpression | AwaitExpression | InvokationExpression
  | IndexatorExpression | LambdaExpression | TypeExpression

datatype TypeNameKind =
    PredefinedType | IdentifierNameType | QualifiedNameType | ArrayType | NullableType
  | GenericType | DelegateType

datatype SyntaxKind =
    UnitK UnitKind
  | DeclK DeclarationKind
  | PartK PartKind
  | StmtK StatementKind
  | ExprK ExpressionKind
  | TypeK TypeNameKind

section \<open>Operators\<close>

definition GetOperatorPrecendence :: "TokenType \<Rightarrow> nat" where
  "GetOperatorPrecendence type =
     (if type \<in> {Pn OpenCurl} then 12
      else if type \<in> {Op IncrementOperator, Op DecrementOperator, St AwaitKeyword} then 11
      else if type \<in> {Op PowOperator} then 10
      else if type \<in> {Op MultOperator, Op DivOperator, Op ModOperator} then 9
      else if type \<in> {Op AddOperator, Op SubOperator} then 8
      else if type \<in> {Op LeftShiftOperator, Op RightShiftOperator} then 7
      else if type \<in> {Op RangeOperator, Op RangeInclusiveOperator} then 7
      else if type \<in> {Op LessOperator, Op LessOrEqualsOperator, Op GreaterOperator,
            Op GreaterOrEqualsOperator} then 6
      else if type \<in> {Op EqualsOperator, Op NotEqualsOperator, Op IsOperator_token, Op AsOperator} then 5
      else if type \<in> {Op AndOperator} then 4
      else if type \<in> {Op OrOperator} then 3
      else if type \<in> {Op NullCoalescingOperator} then 2
      else if type \<in> {Pn Question} then 2
      else if type \<in> {Op AssignOperator, Op AddAssignOperator, Op SubAssignOperator,
            Op MultAssignOperator, Op DivAssignOperator, Op ModAssignOperator,
            Op PowAssignOperator, Op OrAssignOperator, Op AndAssignOperator} then 1
      else 0)"

definition IsBinaryArithmeticOperator :: "TokenType \<Rightarrow> bool" where
  "IsBinaryArithmeticOperator type \<longleftrightarrow>
     type \<in> {Op AddOperator, Op SubOperator, Op MultOperator, Op DivOperator,
              Op ModOperator, Op PowOperator, Op AddAssignOperator,
              Op SubAssignOperator, Op MultAssignOperator, Op DivAssignOperator,
              Op ModAssignOperator, Op PowAssignOperator}"

definition IsBinaryBooleanOperator :: "TokenType \<Rightarrow> bool" where
  "IsBinaryBooleanOperator type \<longleftrightarrow>
     type \<in> {Op LessOperator, Op LessOrEqualsOperator, Op GreaterOperator,
              Op GreaterOrEqualsOperator, Op EqualsOperator, Op NotEqualsOperator,
              Op AndOperator, Op OrOperator}"

definition IsBinaryBitOperator :: "TokenType \<Rightarrow> bool" where
  "IsBinaryBitOperator type \<longleftrightarrow>
     type \<in> {Op LeftShiftOperator, Op RightShiftOperator}"

definition IsBinaryOperator :: "TokenType \<Rightarrow> bool" where
  "IsBinaryOperator type \<longleftrightarrow>
     IsBinaryArithmeticOperator type
     \<or> IsBinaryBooleanOperator type
     \<or> IsBinaryBitOperator type
     \<or> type = Op NullCoalescingOperator
     \<or> type = Op RangeOperator
     \<or> type = Op RangeInclusiveOperator
     \<or> type = Op IsOperator_token
     \<or> type = Op AsOperator"

definition IsRightUnaryArithmeticOperator :: "TokenType \<Rightarrow> bool" where
  "IsRightUnaryArithmeticOperator type \<longleftrightarrow>
     type \<in> {Op IncrementOperator, Op DecrementOperator}"

definition IsRightUnaryBooleanOperator :: "TokenType \<Rightarrow> bool" where
  "IsRightUnaryBooleanOperator type \<longleftrightarrow>
     type \<in> {Op NotOperator}"

definition IsLeftUnaryArithmeticOperator :: "TokenType \<Rightarrow> bool" where
  "IsLeftUnaryArithmeticOperator type \<longleftrightarrow>
     type \<in> {Op SubOperator, Op AddOperator, Op IncrementOperator, Op DecrementOperator}"

definition IsLeftUnaryBooleanOperator :: "TokenType \<Rightarrow> bool" where
  "IsLeftUnaryBooleanOperator type \<longleftrightarrow> False"

definition IsLeftUnaryOperator :: "TokenType \<Rightarrow> bool" where
  "IsLeftUnaryOperator type \<longleftrightarrow>
     IsLeftUnaryArithmeticOperator type
     \<or> IsLeftUnaryBooleanOperator type"

definition IsRightUnaryOperator :: "TokenType \<Rightarrow> bool" where
  "IsRightUnaryOperator type \<longleftrightarrow>
     IsRightUnaryArithmeticOperator type
     \<or> IsRightUnaryBooleanOperator type"

definition IsUnaryOperator :: "TokenType \<Rightarrow> bool" where
  "IsUnaryOperator type \<longleftrightarrow>
     IsLeftUnaryOperator type
     \<or> IsRightUnaryOperator type"

definition IsOperator :: "TokenType \<Rightarrow> bool" where
  "IsOperator type \<longleftrightarrow>
     type = Op AssignOperator
     \<or> IsUnaryOperator type
     \<or> IsBinaryOperator type"

section \<open>Token classes\<close>

definition IsMemberKeyword :: "TokenType \<Rightarrow> bool" where
  "IsMemberKeyword type \<longleftrightarrow>
     type \<in> {Md IndexerKeyword}"

definition IsPredefinedType :: "TokenType \<Rightarrow> bool" where
  "IsPredefinedType type \<longleftrightarrow>
     type \<in> {Ty VoidKeyword, Ty VarKeyword, Ty IntegerKeyword, Ty DoubleKeyword,
              Ty ByteKeyword, Ty NativeIntegerKeyword, Ty CharKeyword,
              Ty StringKeyword, Ty BooleanKeyword}"

text \<open>\<^verbatim>\<open>IsType\<close>: whether a token starts a type, given the token after it.\<close>

definition IsType :: "TokenType \<Rightarrow> TokenType \<Rightarrow> bool" where
  "IsType type peekType =
     (if IsPredefinedType type then True
      else if type = Gen Identifier then
        peekType \<in> {Op LessOperator, Pn OpenSquare, Gen Identifier, Pn Question, Md IndexerKeyword}
      else type = Ty DelegateKeyword)"

definition IsModifier :: "TokenType \<Rightarrow> bool" where
  "IsModifier type \<longleftrightarrow>
     type \<in> {Md PublicKeyword, Md PrivateKeyword, Md ProtectedKeyword,
              Md InternalKeyword, Md StaticKeyword, Md AsyncKeyword, Md ExternKeyword,
              Md ExportKeyword}"

definition IsTypeKeyword :: "TokenType \<Rightarrow> bool" where
  "IsTypeKeyword type \<longleftrightarrow>
     type \<in> {Dc ClassKeyword, Dc StructKeyword, Dc InterfaceKeyword,
              Ty DelegateKeyword, Dc EnumKeyword}"

definition IsMemberDeclaration :: "TokenType \<Rightarrow> TokenType \<Rightarrow> bool" where
  "IsMemberDeclaration currentType peekType =
     (if IsModifier currentType then True
      else if IsMemberKeyword currentType then True
      else if IsTypeKeyword currentType then True
      else if currentType = Dc FunctionKeyword then True
      else if currentType = Dc InitKeyword then True
      else if currentType = Gen Identifier then peekType = Pn Colon
      else currentType = Pn OpenSquare)"

definition IsLoopKeyword :: "TokenType \<Rightarrow> bool" where
  "IsLoopKeyword type \<longleftrightarrow>
     type \<in> {St ForKeyword, St WhileKeyword, St UntilKeyword, St DoKeyword,
              St ForeachKeyword}"

definition IsConditionalKeyword :: "TokenType \<Rightarrow> bool" where
  "IsConditionalKeyword type \<longleftrightarrow>
     type \<in> {St IfKeyword, St UnlessKeyword, St ElseKeyword, St SwitchKeyword}"

definition IsFunctionalKeyword :: "TokenType \<Rightarrow> bool" where
  "IsFunctionalKeyword type \<longleftrightarrow>
     type \<in> {St BreakKeyword, St ContinueKeyword, St ReturnKeyword, St ThrowKeyword,
              St TryKeyword, St CatchKeyword, St DeferKeyword}"

definition IsPunctuation :: "TokenType \<Rightarrow> bool" where
  "IsPunctuation type \<longleftrightarrow>
     type \<in> {Pn OpenBrace, Pn CloseBrace, Pn OpenCurl, Pn CloseCurl, Pn OpenSquare,
              Pn CloseSquare, Pn Question, Pn Delimeter, Pn Comma, Pn Colon,
              Pn Semicolon}"

definition IsReservedIdentifier :: "TokenType \<Rightarrow> bool" where
  "IsReservedIdentifier type \<longleftrightarrow>
     type \<in> {Dc ValueKeyword, Md FieldKeyword, St WhileKeyword}"

definition IsKeyword :: "TokenType \<Rightarrow> bool" where
  "IsKeyword type \<longleftrightarrow>
     IsFunctionalKeyword type
     \<or> IsConditionalKeyword type
     \<or> IsLoopKeyword type"

definition IsLinkedExpressionNode :: "SyntaxKind \<Rightarrow> bool" where
  "IsLinkedExpressionNode kind \<longleftrightarrow>
     kind \<in> {ExprK MemberAccessExpression, ExprK InvokationExpression, ExprK IndexatorExpression}"

section \<open>Names of operator methods\<close>

definition GetOperatorMethodName :: "TokenType \<Rightarrow> wstring" where
  "GetOperatorMethodName type =
     (case map_of
        [(Op AddOperator, ''op_AddOperator''), (Op SubOperator, ''op_SubOperator''),
         (Op MultOperator, ''op_MultOperator''), (Op DivOperator, ''op_DivOperator''),
         (Op ModOperator, ''op_ModOperator''), (Op PowOperator, ''op_PowOperator''),
         (Op AddAssignOperator, ''op_AddAssignOperator''),
         (Op SubAssignOperator, ''op_SubAssignOperator''),
         (Op MultAssignOperator, ''op_MultAssignOperator''),
         (Op DivAssignOperator, ''op_DivAssignOperator''),
         (Op ModAssignOperator, ''op_ModAssignOperator''),
         (Op PowAssignOperator, ''op_PowAssignOperator''),
         (Op OrOperator, ''op_OrOperator''), (Op AndOperator, ''op_AndOperator''),
         (Op OrAssignOperator, ''op_OrAssignOperator''),
         (Op AndAssignOperator, ''op_AndAssignOperator''),
         (Op RightShiftOperator, ''op_RightShiftOperator''),
         (Op LeftShiftOperator, ''op_LeftShiftOperator''),
         (Op EqualsOperator, ''op_EqualsOperator''),
         (Op NotEqualsOperator, ''op_NotEqualsOperator''),
         (Op GreaterOperator, ''op_GreaterOperator''),
         (Op GreaterOrEqualsOperator, ''op_GreaterOrEqualsOperator''),
         (Op LessOperator, ''op_LessOperator''),
         (Op LessOrEqualsOperator, ''op_LessOrEqualsOperator''),
         (Op IncrementOperator, ''op_IncrementOperator''),
         (Op DecrementOperator, ''op_DecrementOperator''),
         (Op NotOperator, ''op_NotOperator''), (Pn Delimeter, ''op_DotOperator''),
         (Op AsOperator, ''op_AsOperator'')] type of
        Some name \<Rightarrow> L name
      | None \<Rightarrow> [])"

definition IsOverloadableOperator :: "TokenType \<Rightarrow> bool" where
  "IsOverloadableOperator type \<longleftrightarrow> GetOperatorMethodName type \<noteq> []"

definition GetTokenTypeFromOperatorName :: "wstring \<Rightarrow> TokenType" where
  "GetTokenTypeFromOperatorName name =
     (if name = L ''AddOperator'' then Op AddOperator
      else if name = L ''SubOperator'' then Op SubOperator
      else if name = L ''MultOperator'' then Op MultOperator
      else if name = L ''DivOperator'' then Op DivOperator
      else if name = L ''ModOperator'' then Op ModOperator
      else if name = L ''PowOperator'' then Op PowOperator
      else if name = L ''AddAssignOperator'' then Op AddAssignOperator
      else if name = L ''SubAssignOperator'' then Op SubAssignOperator
      else if name = L ''MultAssignOperator'' then Op MultAssignOperator
      else if name = L ''DivAssignOperator'' then Op DivAssignOperator
      else if name = L ''ModAssignOperator'' then Op ModAssignOperator
      else if name = L ''PowAssignOperator'' then Op PowAssignOperator
      else if name = L ''OrOperator'' then Op OrOperator
      else if name = L ''AndOperator'' then Op AndOperator
      else if name = L ''OrAssignOperator'' then Op OrAssignOperator
      else if name = L ''AndAssignOperator'' then Op AndAssignOperator
      else if name = L ''RightShiftOperator'' then Op RightShiftOperator
      else if name = L ''LeftShiftOperator'' then Op LeftShiftOperator
      else if name = L ''EqualsOperator'' then Op EqualsOperator
      else if name = L ''NotEqualsOperator'' then Op NotEqualsOperator
      else if name = L ''GreaterOperator'' then Op GreaterOperator
      else if name = L ''GreaterOrEqualsOperator'' then Op GreaterOrEqualsOperator
      else if name = L ''LessOperator'' then Op LessOperator
      else if name = L ''LessOrEqualsOperator'' then Op LessOrEqualsOperator
      else if name = L ''IncrementOperator'' then Op IncrementOperator
      else if name = L ''DecrementOperator'' then Op DecrementOperator
      else if name = L ''NotOperator'' then Op NotOperator
      else if name = L ''AsOperator'' then Op AsOperator
      else Gen Unknown)"

section \<open>Properties\<close>

text \<open>The tokens the tables name, for case analyses over the tables.\<close>

lemma binary_operator_cases:
  "IsBinaryOperator t \<longleftrightarrow> t \<in> Op ` {AddOperator, SubOperator, MultOperator, DivOperator, ModOperator,
     PowOperator, AddAssignOperator, SubAssignOperator, MultAssignOperator, DivAssignOperator,
     ModAssignOperator, PowAssignOperator, LessOperator, LessOrEqualsOperator, GreaterOperator,
     GreaterOrEqualsOperator, EqualsOperator, NotEqualsOperator, AndOperator, OrOperator,
     LeftShiftOperator, RightShiftOperator, NullCoalescingOperator, RangeOperator,
     RangeInclusiveOperator, IsOperator_token, AsOperator}"
  by (auto simp: IsBinaryOperator_def IsBinaryArithmeticOperator_def IsBinaryBooleanOperator_def
      IsBinaryBitOperator_def)

text \<open>
  C35: The precedence table and the operator classes the expression parser combines. A token
  binds (has a non-zero precedence) exactly when it is a binary operator, an assignment, a postfix
  \<^verbatim>\<open>++\<close> or \<^verbatim>\<open>--\<close>, a call, a ternary question mark, \<^verbatim>\<open>await\<close>, or one of \<^verbatim>\<open>|=\<close> and
  \<^verbatim>\<open>&=\<close>; the last two bind although no operator class contains them, so the expression parser
  enters its operator loop on them and finds no rule.
\<close>

theorem precedence_and_classes:
  "(GetOperatorPrecendence t > 0 \<longleftrightarrow>
      IsBinaryOperator t \<or> t = Op AssignOperator \<or> IsRightUnaryArithmeticOperator t
      \<or> t \<in> {Pn OpenCurl, Pn Question, St AwaitKeyword, Op OrAssignOperator, Op AndAssignOperator})
   \<and> \<not> IsOperator (Op OrAssignOperator) \<and> \<not> IsOperator (Op AndAssignOperator)"
proof (intro conjI)
  show "GetOperatorPrecendence t > 0 \<longleftrightarrow>
      IsBinaryOperator t \<or> t = Op AssignOperator \<or> IsRightUnaryArithmeticOperator t
      \<or> t \<in> {Pn OpenCurl, Pn Question, St AwaitKeyword, Op OrAssignOperator, Op AndAssignOperator}"
    by (cases t; simp add: GetOperatorPrecendence_def binary_operator_cases
         IsRightUnaryArithmeticOperator_def)
qed (simp_all add: IsOperator_def IsUnaryOperator_def IsLeftUnaryOperator_def IsRightUnaryOperator_def
       IsLeftUnaryArithmeticOperator_def IsLeftUnaryBooleanOperator_def
       IsRightUnaryArithmeticOperator_def IsRightUnaryBooleanOperator_def binary_operator_cases)

definition named_operators :: "TokenType list" where
  "named_operators = map Op
     [AddOperator, SubOperator, MultOperator, DivOperator, ModOperator, PowOperator,
      AddAssignOperator, SubAssignOperator, MultAssignOperator, DivAssignOperator,
      ModAssignOperator, PowAssignOperator, OrOperator, AndOperator, OrAssignOperator,
      AndAssignOperator, RightShiftOperator, LeftShiftOperator, EqualsOperator, NotEqualsOperator,
      GreaterOperator, GreaterOrEqualsOperator, LessOperator, LessOrEqualsOperator,
      IncrementOperator, DecrementOperator, NotOperator, AsOperator]"

definition overloadable_operators :: "TokenType list" where
  "overloadable_operators = Pn Delimeter # named_operators"

lemma IsOverloadableOperator_list: "IsOverloadableOperator t \<longleftrightarrow> t \<in> set overloadable_operators"
proof -
  have "IsOverloadableOperator t \<Longrightarrow> t \<in> set overloadable_operators"
    by (rule ccontr)
       (simp add: IsOverloadableOperator_def GetOperatorMethodName_def overloadable_operators_def named_operators_def)
  moreover have "list_all IsOverloadableOperator overloadable_operators"
    by code_simp
  ultimately show ?thesis by (auto simp: list_all_iff)
qed

lemma take_L: "take n (L s) = L (take n s)"
  by (simp add: L_def take_map)

lemma drop_L: "drop n (L s) = L (drop n s)"
  by (simp add: L_def drop_map)

lemma operator_names_distinct: "distinct (map GetOperatorMethodName overloadable_operators)"
  by code_simp

text \<open>
  Reading a name back is a search in the list of names the table writes; the names being
  distinct, it finds the operator it was written for.
\<close>

definition operator_words :: "(wstring \<times> TokenType) list" where
  "operator_words = map (\<lambda>t. (drop 3 (GetOperatorMethodName t), t)) named_operators"

lemma GetTokenTypeFromOperatorName_search:
  "GetTokenTypeFromOperatorName name =
     (case map_of operator_words name of Some t \<Rightarrow> t | None \<Rightarrow> Gen Unknown)"
  unfolding GetTokenTypeFromOperatorName_def operator_words_def
  by (simp add: named_operators_def GetOperatorMethodName_def drop_L del: L_Cons cong: if_cong)

lemma operator_names_prefix:
  "list_all (\<lambda>t. take 3 (GetOperatorMethodName t) = L ''op_'') overloadable_operators"
  by (simp add: overloadable_operators_def named_operators_def GetOperatorMethodName_def take_L del: L_Cons)

lemma distinct_operator_words: "distinct (map fst operator_words)"
proof -
  have "m = n" if "take 3 m = p" "take 3 n = p" "drop 3 m = drop 3 n" for m n p :: wstring
    using append_take_drop_id [of 3 m] append_take_drop_id [of 3 n] that by simp
  then have "inj_on (drop 3) {n. take 3 n = L ''op_''}"
    unfolding inj_on_def by blast
  moreover have "set (map GetOperatorMethodName named_operators) \<subseteq> {n. take 3 n = L ''op_''}"
    using operator_names_prefix unfolding list_all_iff overloadable_operators_def set_map list.set by blast
  moreover have "distinct (map GetOperatorMethodName named_operators)"
    using operator_names_distinct by (simp only: overloadable_operators_def list.map distinct.simps)
  ultimately have "distinct (map (drop 3) (map GetOperatorMethodName named_operators))"
    by (simp only: distinct_map) (blast intro: inj_on_subset)
  then show ?thesis by (simp only: operator_words_def map_map comp_def fst_conv)
qed

lemma operator_names_read_back:
  assumes "t \<in> set overloadable_operators"
  shows "GetTokenTypeFromOperatorName (drop 3 (GetOperatorMethodName t))
      = (if t = Pn Delimeter then Gen Unknown else t)"
proof (cases "t = Pn Delimeter")
  case True
  have "GetTokenTypeFromOperatorName (drop 3 (L ''op_DotOperator'')) = Gen Unknown"
    by (simp add: drop_L GetTokenTypeFromOperatorName_def del: L_Cons)
  with True show ?thesis by (simp add: GetOperatorMethodName_def)
next
  case False
  with assms have "(drop 3 (GetOperatorMethodName t), t) \<in> set operator_words"
    by (auto simp: operator_words_def overloadable_operators_def)
  with distinct_operator_words False show ?thesis
    by (simp add: GetTokenTypeFromOperatorName_search)
qed

text \<open>
  C34: The names of operator methods. Different overloadable operators have different method
  names, each starts with \<^verbatim>\<open>op_\<close>, and reading the rest of the name back gives the operator, with
  one exception: \<^verbatim>\<open>op_DotOperator\<close>, the name of the member access operator, reads back as
  \<^verbatim>\<open>Unknown\<close>.
\<close>

theorem operator_method_names:
  assumes "IsOverloadableOperator t"
  shows "take 3 (GetOperatorMethodName t) = L ''op_''
    \<and> GetTokenTypeFromOperatorName (drop 3 (GetOperatorMethodName t))
        = (if t = Pn Delimeter then Gen Unknown else t)
    \<and> (IsOverloadableOperator u \<longrightarrow> GetOperatorMethodName u = GetOperatorMethodName t \<longrightarrow> u = t)"
  using assms operator_names_read_back [of t] operator_names_prefix operator_names_distinct
  unfolding IsOverloadableOperator_list
  by (auto simp: list_all_iff distinct_map inj_on_def simp del: L_Cons)

theorem operator_method_names_witness:
  "IsOverloadableOperator (Op PowOperator)
   \<and> GetTokenTypeFromOperatorName (drop 3 (GetOperatorMethodName (Op PowOperator))) = Op PowOperator"
proof -
  have "IsOverloadableOperator (Op PowOperator)"
    by (simp add: IsOverloadableOperator_list overloadable_operators_def named_operators_def)
  from operator_method_names [OF this] this show ?thesis by simp
qed

text \<open>
  C36: The parser's punctuation class agrees with the lexer's words. No reserved word is
  punctuation, a modifier of the parser is the kind of exactly the eight modifier words, and
  every type keyword the parser accepts as predefined is the kind of some reserved word.
\<close>

theorem parser_classes_match_lexer:
  "\<not> IsPunctuation (ClassifyWord w)
   \<and> (IsModifier (ClassifyWord w) \<longleftrightarrow>
        w \<in> L ` {''public'', ''private'', ''protected'', ''internal'', ''static'', ''async'', ''extern'', ''export''})
   \<and> (IsPredefinedType t \<longrightarrow> (\<exists>k. (k, t) \<in> set reserved_words \<and> ClassifyWord (L k) = t))"
proof (intro conjI impI)
  show "\<not> IsPunctuation (ClassifyWord w)"
    by (rule ClassifyWord_in_table) (simp_all add: IsPunctuation_def reserved_words_def)
next
  show "IsModifier (ClassifyWord w) \<longleftrightarrow>
      w \<in> L ` {''public'', ''private'', ''protected'', ''internal'', ''static'', ''async'', ''extern'', ''export''}"
    unfolding ClassifyWord_lookup reserved_words_def lookup_word_Cons lookup_word_Nil
    by (simp add: IsModifier_def)
next
  assume "IsPredefinedType t"
  moreover have "list_all (\<lambda>t. t \<in> set (map snd reserved_words))
      (map Ty [VoidKeyword, VarKeyword, IntegerKeyword, DoubleKeyword, ByteKeyword,
         NativeIntegerKeyword, CharKeyword, StringKeyword, BooleanKeyword])"
    by code_simp
  ultimately have "t \<in> set (map snd reserved_words)"
    by (auto simp: IsPredefinedType_def simp del: set_map)
  then show "\<exists>k. (k, t) \<in> set reserved_words \<and> ClassifyWord (L k) = t"
    using ClassifyWord_reserved by force
qed

theorem parser_classes_match_lexer_witness:
  "IsPredefinedType (Ty IntegerKeyword) \<and> (\<exists>k. ClassifyWord (L k) = Ty IntegerKeyword)"
  using parser_classes_match_lexer [of "L ''int''" "Ty IntegerKeyword"] by (auto simp: IsPredefinedType_def)

end
