(* ===== verification/ParsedTrees.thy ===== *)
theory ParsedTrees
  imports SyntaxFacts LexicalBuffers
begin

text \<open>
  The syntax tree as the parser builds it: the node classes of \<^verbatim>\<open>include/shard/parsing/nodes\<close> with the
  members that \<^verbatim>\<open>src/parsing/SourceParser.cpp\<close> sets. Types, code (expressions and statements) and
  declarations are a datatype each; \<^verbatim>\<open>nullptr\<close> is \<open>NullType\<close>, \<open>NullNode\<close> or \<open>None\<close>. Tokens of punctuation that a node keeps for its position only
  (parentheses, commas, semicolons) are left out, except those of a statements block, which the
  parser reads back. The parent of a node is not kept: the parser reads only whether a member is
  declared in an interface, which is an argument of the function that reads it.
\<close>

section \<open>Nodes\<close>

text \<open>The token that stands for a missing one, and \<^verbatim>\<open>SyntaxToken()\<close>.\<close>

definition missing_token :: "TokenType \<Rightarrow> wstring \<Rightarrow> TextLocation \<Rightarrow> SyntaxToken" where
  "missing_token type word location =
     \<lparr>tok_IsMissing = True, tok_Type = type, tok_Word = word, tok_Location = location\<rparr>"

definition SyntaxToken_default :: SyntaxToken where
  "SyntaxToken_default = missing_token (Gen Unknown) [] TextLocation_default"

datatype (plugins only: size code) type_node =
    NullType
  | PredefinedTypeSyntax SyntaxToken
  | IdentifierNameTypeSyntax SyntaxToken
  | QualifiedNameTypeSyntax type_node SyntaxToken
  | NullableTypeSyntax type_node
  | ArrayTypeSyntax type_node
  | GenericTypeSyntax type_node "type_node list"
  | DelegateTypeSyntax type_node "type_node list"

text \<open>
  \<^verbatim>\<open>ParametersListSyntax\<close> is the list of its \<^verbatim>\<open>ParameterSyntax\<close>, a type and a name;
  \<^verbatim>\<open>TypeArgumentsListSyntax\<close> and \<^verbatim>\<open>TypeParametersListSyntax\<close> are the lists of types and of names. A
  delegate type has unnamed parameters.
\<close>

type_synonym ParameterSyntax = "type_node \<times> SyntaxToken"

datatype (plugins only: size code) node =
    NullNode
  | LiteralExpressionSyntax SyntaxToken
  | BinaryExpressionSyntax SyntaxToken node node
  | UnaryExpressionSyntax SyntaxToken node bool
  | AwaitExpressionSyntax SyntaxToken node
  | RangeExpressionSyntax SyntaxToken node node bool
  | CastExpressionSyntax SyntaxToken node type_node
  | IsExpressionSyntax SyntaxToken node type_node
  | MemberAccessExpressionSyntax SyntaxToken node
  | InvokationExpressionSyntax SyntaxToken node "type_node list option" "node list option"
  | IndexatorExpressionSyntax SyntaxToken node "node list"
  | ObjectExpressionSyntax type_node bool node "node list option"
  | CollectionExpressionSyntax "node list"
  | LambdaExpressionSyntax SyntaxToken "ParameterSyntax list" type_node node
  | TypeExpressionSyntax type_node
  | TernaryExpressionSyntax node node node
  | IfExpressionSyntax node node node
  | SwitchExpressionSyntax node "node list"
  | SwitchArmSyntax node node
  | IsPatternSyntax type_node SyntaxToken
  | ExpressionStatementSyntax node
  | VariableStatementSyntax type_node SyntaxToken SyntaxToken node
  | ReturnStatementSyntax SyntaxToken node
  | ThrowStatementSyntax SyntaxToken node
  | BreakStatementSyntax SyntaxToken
  | ContinueStatementSyntax SyntaxToken
  | DeferStatementSyntax SyntaxToken node
  | IfStatementSyntax SyntaxToken node node node
  | UnlessStatementSyntax SyntaxToken node node node
  | ElseStatementSyntax SyntaxToken node
  | WhileStatementSyntax SyntaxToken node node
  | UntilStatementSyntax SyntaxToken node node
  | ForStatementSyntax SyntaxToken node node node node
  | ForEachStatementSyntax SyntaxToken SyntaxToken node node
  | ForInStatementSyntax SyntaxToken SyntaxToken node node
  | TryStatementSyntax SyntaxToken node "node list"
  | CatchClauseSyntax SyntaxToken SyntaxToken type_node node
  | SwitchStatementSyntax SyntaxToken node "node list"
  | SwitchCaseClauseSyntax SyntaxToken node node
  | StatementsBlockSyntax SyntaxToken SyntaxToken SyntaxToken bool "node list"

text \<open>
  The last arguments of the nodes: \<^verbatim>\<open>IsRightDetermined\<close> of a unary expression; \<^verbatim>\<open>IsInclusive\<close> of a
  range; type arguments and arguments of an invocation; \<^verbatim>\<open>IsArrayCreation\<close>, size and arguments of an
  object expression; async modifier, parameters, return type and body of a lambda; type, name,
  assignment token and initializer of a variable; semicolon, opening and closing brace and
  \<^verbatim>\<open>IsExpressionBody\<close> of a block. A statement starts with its keyword.
\<close>

text \<open>
  \<^verbatim>\<open>MemberDeclarationInfo\<close>: what is read before it is clear what is declared.
\<close>

record AttributeSyntax =
  att_NameToken :: SyntaxToken
  att_Arguments :: "SyntaxToken list"

record WhereClauseSyntax =
  whr_TypeParameterToken :: SyntaxToken
  whr_ConstraintTypes :: "type_node list"

record MemberDeclarationInfo =
  inf_Attributes :: "AttributeSyntax list"
  inf_Modifiers :: "SyntaxToken list"
  inf_DeclareType :: SyntaxToken
  inf_Identifier :: SyntaxToken
  inf_ReturnType :: type_node
  inf_Generics :: "SyntaxToken list option"

text \<open>
  The members of \<^verbatim>\<open>MemberDeclarationSyntax\<close>; the constructor of every declaration takes them from a
  \<^verbatim>\<open>MemberDeclarationInfo\<close>.
\<close>

record MemberHead =
  hd_Attributes :: "AttributeSyntax list"
  hd_Modifiers :: "SyntaxToken list"
  hd_IdentifierToken :: SyntaxToken
  hd_TypeParameters :: "SyntaxToken list option"
  hd_WhereClauses :: "WhereClauseSyntax list"

definition member_head :: "MemberDeclarationInfo \<Rightarrow> MemberHead" where
  "member_head info =
     \<lparr>hd_Attributes = inf_Attributes info, hd_Modifiers = inf_Modifiers info,
      hd_IdentifierToken = inf_Identifier info, hd_TypeParameters = inf_Generics info, hd_WhereClauses = []\<rparr>"

record AccessorDeclarationSyntax =
  acc_Attributes :: "AttributeSyntax list"
  acc_Modifiers :: "SyntaxToken list"
  acc_KeywordToken :: SyntaxToken
  acc_Body :: node

datatype (plugins only: size code) member_node =
    ClassDeclarationSyntax MemberHead "type_node list" "member_node list"
  | StructDeclarationSyntax MemberHead "type_node list" "member_node list"
  | InterfaceDeclarationSyntax MemberHead "member_node list"
  | DelegateDeclarationSyntax MemberHead "ParameterSyntax list" type_node
  | EnumDeclarationSyntax MemberHead bool SyntaxToken "(SyntaxToken \<times> node) list"
  | ConstructorDeclarationSyntax MemberHead "ParameterSyntax list" node
  | MethodDeclarationSyntax MemberHead SyntaxToken "ParameterSyntax list" type_node node
  | OperatorDeclarationSyntax MemberHead SyntaxToken "ParameterSyntax list" type_node node
  | FieldDeclarationSyntax MemberHead type_node node
  | PropertyDeclarationSyntax MemberHead type_node "AccessorDeclarationSyntax option"
      "AccessorDeclarationSyntax option" node
  | IndexatorDeclarationSyntax MemberHead "ParameterSyntax list" type_node "AccessorDeclarationSyntax option"
      "AccessorDeclarationSyntax option"

text \<open>
  After the head: base interfaces and members of a type; parameters and return type of a delegate;
  \<^verbatim>\<open>IsFlags\<close>, underlying type and fields of an enumeration; parameters and body of a constructor;
  async modifier or operator token, parameters, return type and body of a method or operator; type
  and initializer of a field; type, getter, setter and initializer of a property.
\<close>

record CompilationUnitSyntax =
  unit_Usings :: "SyntaxToken list list"
  unit_Namespace :: "SyntaxToken list option"
  unit_Members :: "member_node list"

section \<open>Token providers\<close>

text \<open>
  The parser reads tokens through \<^verbatim>\<open>SourceProvider\<close>. Its reader is the list of the tokens pending
  there, with the operations of the interface; \<open>pending_buf\<close> relates the buffer to it.
\<close>

type_synonym reader = "SyntaxToken list"

definition CanConsume_r :: "reader \<Rightarrow> bool" where
  "CanConsume_r r \<longleftrightarrow> r \<noteq> []"

definition Current_r :: "reader \<Rightarrow> SyntaxToken" where
  "Current_r r = (case r of [] \<Rightarrow> EndOfFile_token | t # ts \<Rightarrow> t)"

definition Consume_r :: "reader \<Rightarrow> reader" where
  "Consume_r r = tl r"

definition Peek_r :: "nat \<Rightarrow> reader \<Rightarrow> SyntaxToken" where
  "Peek_r index r = (if index + 1 < length r then r ! (index + 1) else EndOfFile_token)"

definition CanPeek_r :: "reader \<Rightarrow> bool" where
  "CanPeek_r r \<longleftrightarrow> 1 < length r"

definition PutBackToken_r :: "SyntaxToken \<Rightarrow> reader \<Rightarrow> reader" where
  "PutBackToken_r token r = token # r"

lemma reader_of_buffer:
  assumes "buf_CurrentIndex b \<le> length (buf_Sequence b)"
  shows "CanConsume_buf b = CanConsume_r (pending_buf b)"
    and "Current_buf b = Current_r (pending_buf b)"
    and "pending_buf (snd (Consume_buf b)) = Consume_r (pending_buf b)"
    and "CanPeek_buf b = CanPeek_r (pending_buf b)"
    and "pending_buf (PutBackToken_buf t b) = PutBackToken_r t (pending_buf b)"
    and "length (buf_Sequence b) < 2 ^ 31 \<Longrightarrow> i < 2 ^ 31 \<Longrightarrow> Peek_buf (int i) b = Peek_r i (pending_buf b)"
proof -
  show "CanConsume_buf b = CanConsume_r (pending_buf b)"
    by (simp add: CanConsume_buf_def CanConsume_r_def pending_buf_def not_le)
  show "Current_buf b = Current_r (pending_buf b)"
  proof (cases "buf_CurrentIndex b < length (buf_Sequence b)")
    case True
    then show ?thesis
      by (simp add: Current_buf_def Current_r_def pending_buf_def Cons_nth_drop_Suc [symmetric])
  qed (simp add: Current_buf_def Current_r_def pending_buf_def)
  show "pending_buf (snd (Consume_buf b)) = Consume_r (pending_buf b)"
    by (simp add: Consume_buf_def Consume_r_def pending_buf_def drop_Suc tl_drop)
  show "CanPeek_buf b = CanPeek_r (pending_buf b)"
    by (auto simp: CanPeek_buf_def CanPeek_r_def pending_buf_def)
  show "pending_buf (PutBackToken_buf t b) = PutBackToken_r t (pending_buf b)"
    using assms by (simp add: PutBackToken_buf_def PutBackToken_r_def pending_buf_def Let_def)
  assume small: "length (buf_Sequence b) < 2 ^ 31" "i < 2 ^ 31"
  then have "nat ((int (buf_CurrentIndex b) + 1 + int i) mod 2 ^ 64) = nat (int (buf_CurrentIndex b + 1 + i))"
    using assms by (subst mod_pos_pos_trivial) simp_all
  then have "Peek_buf (int i) b
      = (if buf_CurrentIndex b + 1 + i \<ge> length (buf_Sequence b) then EndOfFile_token
         else buf_Sequence b ! (buf_CurrentIndex b + 1 + i))"
    by (simp only: Peek_buf_def Let_def nat_int)
  with assms show "Peek_buf (int i) b = Peek_r i (pending_buf b)"
    by (auto simp: Peek_r_def pending_buf_def)
qed

end
