(* ===== verification/TokenReading.thy ===== *)
theory TokenReading
  imports ParsedTrees
begin

text \<open>
  The state of \<^verbatim>\<open>SourceParser\<close> (\<^verbatim>\<open>include/shard/parsing/SourceParser.hpp\<close>) and its helpers: expecting
  a token, matching one of several, and skipping to a token where parsing can go on.

  A read is a function on the parser. The parser is recursive through its reader, so the recursion
  has fuel, and a read that has too little of it is \<open>None\<close>, as is the one read that would follow a null
  pointer (\<open>collection_of\<close>). Messages are written without
  quotation marks. The creation number of a token is not kept.
\<close>

section \<open>The parser\<close>

record SourceParser =
  ps_Reader :: reader
  ps_Diagnostics :: "(SyntaxToken \<times> string) list"
  ps_ExpressionDepth :: nat
  ps_OperatorsInExpression :: nat
  ps_BlockDepth :: nat
  ps_LinkedExpressionDepth :: nat

definition MaxExpressionDepth :: nat where "MaxExpressionDepth = 64"
definition MaxExpressionOperators :: nat where "MaxExpressionOperators = 64"
definition MaxBlockDepth :: nat where "MaxBlockDepth = 64"
definition MaxLinkedExpressionDepth :: nat where "MaxLinkedExpressionDepth = 64"

definition SourceParser_new :: "reader \<Rightarrow> SourceParser" where
  "SourceParser_new reader = \<lparr>ps_Reader = reader, ps_Diagnostics = [], ps_ExpressionDepth = 0,
     ps_OperatorsInExpression = 0, ps_BlockDepth = 0, ps_LinkedExpressionDepth = 0\<rparr>"

type_synonym 'a parse_op = "SourceParser \<Rightarrow> ('a \<times> SourceParser) option"

definition return_p :: "'a \<Rightarrow> 'a parse_op" where
  "return_p x p = Some (x, p)"

definition bind_p :: "'a parse_op \<Rightarrow> ('a \<Rightarrow> 'b parse_op) \<Rightarrow> 'b parse_op" where
  "bind_p r g p = (case r p of None \<Rightarrow> None | Some (x, p') \<Rightarrow> g x p')"

definition modify_p :: "(SourceParser \<Rightarrow> SourceParser) \<Rightarrow> unit parse_op" where
  "modify_p g p = Some ((), g p)"

definition get_p :: "(SourceParser \<Rightarrow> 'a) \<Rightarrow> 'a parse_op" where
  "get_p g p = Some (g p, p)"

lemma return_p_apply [simp]: "return_p x p = Some (x, p)" by (simp add: return_p_def)
lemma modify_p_apply [simp]: "modify_p g p = Some ((), g p)" by (simp add: modify_p_def)
lemma get_p_apply [simp]: "get_p g p = Some (g p, p)" by (simp add: get_p_def)

lemma bind_p_Some [simp]: "r p = Some (x, p') \<Longrightarrow> bind_p r g p = g x p'"
  by (simp add: bind_p_def)

lemma bind_p_simps [simp]:
  "bind_p (return_p x) g p = g x p" "bind_p (modify_p f) h p = h () (f p)" "bind_p (get_p e) g p = g (e p) p"
  by (simp_all add: bind_p_def)

definition then_p :: "unit parse_op \<Rightarrow> 'b parse_op \<Rightarrow> 'b parse_op" where
  "then_p r g = bind_p r (\<lambda>_. g)"

lemma then_p_modify [simp]: "then_p (modify_p g) h p = h (g p)"
  by (simp add: then_p_def)

lemma then_p_Some [simp]: "r p = Some ((), p') \<Longrightarrow> then_p r g p = g p'"
  by (simp add: then_p_def)

text \<open>
  A \<^verbatim>\<open>while\<close> loop whose body reads: \<open>Inl\<close> goes on with a new accumulator, \<open>Inr\<close> leaves the loop. The
  first argument bounds the number of rounds.
\<close>

primrec loop_p :: "nat \<Rightarrow> ('a \<Rightarrow> ('a + 'b) parse_op) \<Rightarrow> 'a \<Rightarrow> 'b parse_op" where
  "loop_p 0 body a = (\<lambda>p. None)"
| "loop_p (Suc k) body a =
     bind_p (body a) (\<lambda>r. case r of Inl a' \<Rightarrow> loop_p k body a' | Inr b \<Rightarrow> return_p b)"

abbreviation continue_p :: "'a \<Rightarrow> ('a + 'b) parse_op" where
  "continue_p a \<equiv> return_p (Inl a)"

abbreviation stop_p :: "'b \<Rightarrow> ('a + 'b) parse_op" where
  "stop_p b \<equiv> return_p (Inr b)"

section \<open>Reading tokens\<close>

abbreviation current_p :: "SyntaxToken parse_op" where
  "current_p \<equiv> get_p (\<lambda>p. Current_r (ps_Reader p))"

abbreviation can_consume_p :: "bool parse_op" where
  "can_consume_p \<equiv> get_p (\<lambda>p. CanConsume_r (ps_Reader p))"

abbreviation update_reader :: "(reader \<Rightarrow> reader) \<Rightarrow> SourceParser \<Rightarrow> SourceParser" where
  "update_reader g p \<equiv> p\<lparr>ps_Reader := g (ps_Reader p)\<rparr>"

definition consume_p :: "unit parse_op" where
  "consume_p = modify_p (update_reader Consume_r)"

definition take_p :: "SyntaxToken parse_op" where
  "take_p = bind_p current_p (\<lambda>current. then_p consume_p (return_p current))"

definition ReportError_p :: "SyntaxToken \<Rightarrow> string \<Rightarrow> unit parse_op" where
  "ReportError_p token message = modify_p (\<lambda>p. p\<lparr>ps_Diagnostics := ps_Diagnostics p @ [(token, message)]\<rparr>)"

definition when_p :: "bool \<Rightarrow> unit parse_op \<Rightarrow> unit parse_op" where
  "when_p b r = (if b then r else return_p ())"

text \<open>The \<^verbatim>\<open>while\<close> loops that only consume.\<close>

definition skip_until :: "(TokenType \<Rightarrow> bool) \<Rightarrow> unit parse_op" where
  "skip_until stop = modify_p (update_reader (dropWhile (\<lambda>t. \<not> stop (tok_Type t))))"

text \<open>A depth guard: the counter is raised while the rest is read.\<close>

definition with_depth :: "((nat \<Rightarrow> nat) \<Rightarrow> SourceParser \<Rightarrow> SourceParser) \<Rightarrow> 'a parse_op \<Rightarrow> 'a parse_op" where
  "with_depth update body =
     then_p (modify_p (update Suc)) (bind_p body (\<lambda>x. then_p (modify_p (update (\<lambda>d. d - 1))) (return_p x)))"

section \<open>Expecting and matching\<close>

definition SynchronizationTokens :: "TokenType list" where
  "SynchronizationTokens = [Pn Semicolon, Pn OpenBrace, Pn CloseBrace, Pn OpenCurl, Pn CloseCurl,
     Dc NamespaceKeyword, Dc ClassKeyword, Dc StructKeyword, Gen EndOfFile]"

definition IsSynchronizationToken :: "TokenType \<Rightarrow> bool" where
  "IsSynchronizationToken type \<longleftrightarrow> type \<in> set SynchronizationTokens"

fun TrySynchronize_r :: "TokenType list \<Rightarrow> nat \<Rightarrow> reader \<Rightarrow> bool \<times> reader" where
  "TrySynchronize_r expectedTokens 0 r = (False, r)"
| "TrySynchronize_r expectedTokens (Suc skips) [] = (False, [])"
| "TrySynchronize_r expectedTokens (Suc skips) (current # r) =
     (if tok_Type current \<in> set expectedTokens then (True, current # r)
      else if IsSynchronizationToken (tok_Type current) then (False, current # r)
      else TrySynchronize_r expectedTokens skips r)"

definition TrySynchronize :: "TokenType list \<Rightarrow> nat \<Rightarrow> bool parse_op" where
  "TrySynchronize expectedTokens maxSkips p =
     (case TrySynchronize_r expectedTokens maxSkips (ps_Reader p) of
        (found, r) \<Rightarrow> Some (found, p\<lparr>ps_Reader := r\<rparr>))"

definition Expect :: "TokenType \<Rightarrow> string \<Rightarrow> SyntaxToken parse_op" where
  "Expect kind message =
     bind_p can_consume_p (\<lambda>can.
       if \<not> can then
         then_p (ReportError_p EndOfFile_token message) (return_p (missing_token kind [] TextLocation_default))
       else bind_p current_p (\<lambda>current.
         if tok_Type current = kind then then_p consume_p (return_p current)
         else then_p (ReportError_p current message)
           (bind_p (TrySynchronize [kind] 5) (\<lambda>found.
              if found then take_p else return_p (missing_token kind [] (tok_Location current))))))"

definition Matches :: "TokenType list \<Rightarrow> bool parse_op" where
  "Matches types =
     get_p (\<lambda>p. CanConsume_r (ps_Reader p) \<and> tok_Type (Current_r (ps_Reader p)) \<in> set types)"

definition TryMatch :: "TokenType list \<Rightarrow> string option \<Rightarrow> nat \<Rightarrow> bool parse_op" where
  "TryMatch types errorMessage maxSkips =
     bind_p can_consume_p (\<lambda>can.
       if \<not> can then return_p False
       else bind_p (Matches types) (\<lambda>matches.
         if matches then return_p True
         else bind_p current_p (\<lambda>current.
           then_p (case errorMessage of None \<Rightarrow> return_p () | Some message \<Rightarrow> ReportError_p current message)
             (TrySynchronize types maxSkips))))"

definition TryMatchIdentifier :: "nat \<Rightarrow> bool parse_op" where
  "TryMatchIdentifier maxSkips =
     bind_p can_consume_p (\<lambda>can.
       if \<not> can then return_p False
       else bind_p current_p (\<lambda>current.
         if tok_Type current = Gen Identifier then return_p True
         else if IsReservedIdentifier (tok_Type current) then
           then_p (ReportError_p current ''Identifier cannot be a reserved keyword.'') (return_p False)
         else TrySynchronize [Gen Identifier] maxSkips))"

section \<open>Types\<close>

text \<open>
  The functions that read types call each other through \<open>rec\<close>, the parser with the fuel that is left;
  \<open>k\<close> bounds the loops. \<open>parse_type\<close> at the end ties the knot.
\<close>

datatype type_call = CallType bool | CallModifiedType type_node bool

type_synonym type_rec = "type_call \<Rightarrow> type_node parse_op"

text \<open>A list up to a closing token: elements separated by commas, with error recovery.\<close>

definition separated_step ::
  "'a parse_op \<Rightarrow> TokenType \<Rightarrow> string \<Rightarrow> 'a list \<Rightarrow> ('a list + 'a list) parse_op" where
  "separated_step element closer message elements =
     bind_p can_consume_p (\<lambda>can.
       if \<not> can then stop_p elements
       else bind_p element (\<lambda>x.
         let elements = elements @ [x] in
         bind_p (TryMatch [Pn Comma, closer] (Some message) 3) (\<lambda>found.
           if \<not> found then stop_p elements
           else bind_p take_p (\<lambda>separatorToken.
             if tok_Type separatorToken = closer then stop_p elements else continue_p elements))))"

definition separated ::
  "nat \<Rightarrow> 'a parse_op \<Rightarrow> TokenType \<Rightarrow> string \<Rightarrow> 'a list \<Rightarrow> 'a list parse_op" where
  "separated k element closer message = loop_p k (separated_step element closer message)"

text \<open>The opening token, and an empty list when the closing token follows at once.\<close>

definition enclosed ::
  "nat \<Rightarrow> TokenType \<Rightarrow> string \<Rightarrow> TokenType \<Rightarrow> string \<Rightarrow> 'a parse_op \<Rightarrow> 'a list parse_op" where
  "enclosed k opener open_message closer close_message element =
     bind_p (Expect opener open_message) (\<lambda>_.
     bind_p current_p (\<lambda>checkCloser.
       if tok_Type checkCloser = closer then then_p consume_p (return_p [])
       else separated k element closer close_message []))"

definition ReadDelegateParametersList :: "nat \<Rightarrow> type_rec \<Rightarrow> type_node list parse_op" where
  "ReadDelegateParametersList k rec =
     enclosed k (Pn OpenCurl) ''Expected ( token'' (Pn CloseCurl) ''Expected , or )'' (rec (CallType True))"

text \<open>A \<^verbatim>\<open>>>\<close> is split into two closing tokens; the second one is put back.\<close>

definition split_shift :: "unit parse_op" where
  "split_shift = bind_p take_p (\<lambda>separatorToken.
     modify_p (update_reader
       (PutBackToken_r (SyntaxToken_of (Op GreaterOperator) (L ''>'') (tok_Location separatorToken)))))"

definition ReadTypeArgumentsList :: "nat \<Rightarrow> type_rec \<Rightarrow> type_node list parse_op" where
  "ReadTypeArgumentsList k rec =
     bind_p (Expect (Op LessOperator) ''Expected < token'') (\<lambda>_.
     bind_p current_p (\<lambda>checkCloser.
       if tok_Type checkCloser = Op GreaterOperator then
         then_p (ReportError_p checkCloser ''Generic list cannot be empty'') (then_p consume_p (return_p []))
       else if tok_Type checkCloser = Op RightShiftOperator then then_p split_shift (return_p [])
       else loop_p k (\<lambda>types. bind_p can_consume_p (\<lambda>can.
         if \<not> can then stop_p types
         else bind_p (rec (CallType True)) (\<lambda>type.
           let types = types @ [type] in
           bind_p current_p (\<lambda>separatorToken.
             if tok_Type separatorToken = Op RightShiftOperator then then_p split_shift (stop_p types)
             else bind_p (TryMatch [Pn Comma, Op GreaterOperator] (Some ''Expected , or >'') 3) (\<lambda>found.
               if \<not> found then stop_p types
               else bind_p take_p (\<lambda>separatorToken.
                 if tok_Type separatorToken = Op GreaterOperator then stop_p types else continue_p types)))))) []))"

definition ReadArrayType :: "type_rec \<Rightarrow> type_node \<Rightarrow> bool \<Rightarrow> type_node parse_op" where
  "ReadArrayType rec previous allowArraySyntax =
     bind_p (Expect (Pn OpenSquare) ''Expected ['') (\<lambda>_.
     bind_p (Expect (Pn CloseSquare) ''Expected ]'') (\<lambda>_.
       rec (CallModifiedType (ArrayTypeSyntax previous) allowArraySyntax)))"

definition ReadGenericType :: "nat \<Rightarrow> type_rec \<Rightarrow> type_node \<Rightarrow> bool \<Rightarrow> type_node parse_op" where
  "ReadGenericType k rec previous allowArraySyntax =
     bind_p (ReadTypeArgumentsList k rec) (\<lambda>arguments.
       rec (CallModifiedType (GenericTypeSyntax previous arguments) allowArraySyntax))"

definition ReadModifiedType :: "nat \<Rightarrow> type_rec \<Rightarrow> type_node \<Rightarrow> bool \<Rightarrow> type_node parse_op" where
  "ReadModifiedType k rec type allowArraySyntax =
     bind_p can_consume_p (\<lambda>can.
       if \<not> can then return_p type
       else bind_p current_p (\<lambda>current.
         if tok_Type current = Pn Question then then_p consume_p (return_p (NullableTypeSyntax type))
         else if tok_Type current = Pn OpenSquare then
           (if allowArraySyntax then ReadArrayType rec type allowArraySyntax else return_p type)
         else if tok_Type current = Op LessOperator then ReadGenericType k rec type allowArraySyntax
         else if tok_Type current = Pn Delimeter then
           then_p consume_p
             (bind_p (Expect (Gen Identifier) ''Expected identifier'') (\<lambda>identifier.
                rec (CallModifiedType (QualifiedNameTypeSyntax type identifier) allowArraySyntax)))
         else return_p type))"

definition ReadIdentifierNameType :: "type_rec \<Rightarrow> bool \<Rightarrow> type_node parse_op" where
  "ReadIdentifierNameType rec allowArraySyntax =
     bind_p (Expect (Gen Identifier) ''Expected identifier'') (\<lambda>identifier.
       rec (CallModifiedType (IdentifierNameTypeSyntax identifier) allowArraySyntax))"

definition ReadDelegateType :: "nat \<Rightarrow> type_rec \<Rightarrow> bool \<Rightarrow> type_node parse_op" where
  "ReadDelegateType k rec allowArraySyntax =
     bind_p (Expect (Ty DelegateKeyword) ''Expected delegate keyword'') (\<lambda>_.
     bind_p (rec (CallType allowArraySyntax)) (\<lambda>returnType.
     bind_p (ReadDelegateParametersList k rec) (\<lambda>params.
       rec (CallModifiedType (DelegateTypeSyntax returnType params) allowArraySyntax))))"

definition ReadType_step :: "nat \<Rightarrow> type_rec \<Rightarrow> bool \<Rightarrow> type_node parse_op" where
  "ReadType_step k rec allowArraySyntax =
     bind_p current_p (\<lambda>current.
       if IsPredefinedType (tok_Type current) then
         then_p consume_p (rec (CallModifiedType (PredefinedTypeSyntax current) allowArraySyntax))
       else if tok_Type current = Ty DelegateKeyword then ReadDelegateType k rec allowArraySyntax
       else if tok_Type current = Gen Identifier then ReadIdentifierNameType rec allowArraySyntax
       else then_p (ReportError_p current ''Unexpected token in type syntax'') (return_p NullType))"

fun type_round :: "nat \<Rightarrow> type_rec \<Rightarrow> type_call \<Rightarrow> type_node parse_op" where
  "type_round k rec (CallType allow) = ReadType_step k rec allow"
| "type_round k rec (CallModifiedType type allow) = ReadModifiedType k rec type allow"

primrec parse_type :: "nat \<Rightarrow> type_call \<Rightarrow> type_node parse_op" where
  "parse_type 0 call = (\<lambda>p. None)"
| "parse_type (Suc k) call = type_round k (parse_type k) call"

abbreviation ReadType :: "nat \<Rightarrow> bool \<Rightarrow> type_node parse_op" where
  "ReadType k allowArraySyntax \<equiv> parse_type k (CallType allowArraySyntax)"

section \<open>Lists of parameters and type parameters\<close>

text \<open>
  A parameter of a list closed by \<open>closer\<close>; \<open>None\<close> when the closing token came instead of a name. Only
  the list of a method allows the contextual keyword \<^verbatim>\<open>value\<close> as a name.
\<close>

definition read_parameter :: "nat \<Rightarrow> bool \<Rightarrow> TokenType \<Rightarrow> string \<Rightarrow> ParameterSyntax option parse_op" where
  "read_parameter k allowValue closer message =
     bind_p current_p (\<lambda>currentToken.
     let rest = (\<lambda>identifierToken.
       bind_p (Expect (Pn Colon) ''Expected : after parameter name'') (\<lambda>_.
       bind_p (ReadType k True) (\<lambda>type. return_p (Some (type, identifierToken))))) in
     if allowValue \<and> tok_Type currentToken = Dc ValueKeyword then
       then_p consume_p (rest (currentToken\<lparr>tok_Type := Gen Identifier\<rparr>))
     else bind_p (TryMatchIdentifier 3) (\<lambda>found.
       if found then bind_p take_p rest
       else bind_p can_consume_p (\<lambda>can. bind_p current_p (\<lambda>current.
         if can \<and> tok_Type current = closer then
           then_p (ReportError_p current message) (then_p consume_p (return_p None))
         else rest (missing_token (Gen Identifier) [] TextLocation_default)))))"

definition read_parameters ::
  "nat \<Rightarrow> bool \<Rightarrow> TokenType \<Rightarrow> string \<Rightarrow> TokenType \<Rightarrow> string \<Rightarrow> string \<Rightarrow> ParameterSyntax list parse_op" where
  "read_parameters k allowValue opener open_message closer close_message unexpected =
     bind_p (Expect opener open_message) (\<lambda>_.
     bind_p current_p (\<lambda>checkCloser.
       if tok_Type checkCloser = closer then then_p consume_p (return_p [])
       else loop_p k (\<lambda>parameters. bind_p can_consume_p (\<lambda>can.
         if \<not> can then stop_p parameters
         else bind_p (read_parameter k allowValue closer unexpected) (\<lambda>r.
           case r of
             None \<Rightarrow> stop_p parameters
           | Some param \<Rightarrow>
               let parameters = parameters @ [param] in
               bind_p (TryMatch [Pn Comma, closer] (Some close_message) 3) (\<lambda>found.
                 if \<not> found then stop_p parameters
                 else bind_p take_p (\<lambda>separatorToken.
                   if tok_Type separatorToken = closer then stop_p parameters else continue_p parameters))))) []))"

definition ReadIndexerParametersList :: "nat \<Rightarrow> ParameterSyntax list parse_op" where
  "ReadIndexerParametersList k =
     read_parameters k False (Pn OpenSquare) ''Expected [ token'' (Pn CloseSquare) ''Expected , or ]''
       ''Unexpected ] - expected parameter name''"

definition ReadParametersList :: "nat \<Rightarrow> ParameterSyntax list parse_op" where
  "ReadParametersList k =
     read_parameters k True (Pn OpenCurl) ''Expected ( token'' (Pn CloseCurl) ''Expected , or )''
       ''Unexpected ) - expected parameter name''"

definition ReadTypeParametersList :: "nat \<Rightarrow> SyntaxToken list parse_op" where
  "ReadTypeParametersList k =
     bind_p (Expect (Op LessOperator) ''Expected < token'') (\<lambda>_.
     bind_p current_p (\<lambda>checkCloser.
       if tok_Type checkCloser = Op GreaterOperator then
         then_p (ReportError_p checkCloser ''Generic list cannot be empty'') (then_p consume_p (return_p []))
       else separated k (Expect (Gen Identifier) ''Expected type parameter identifier'') (Op GreaterOperator)
         ''Expected , or >'' []))"

definition ReadWhereClause :: "nat \<Rightarrow> WhereClauseSyntax parse_op" where
  "ReadWhereClause k =
     bind_p (Expect (St WhereKeyword) ''Expected where keyword'') (\<lambda>_.
     bind_p (Expect (Gen Identifier) ''Expected type parameter identifier'') (\<lambda>typeParameter.
     bind_p (Expect (Pn Colon) ''Expected : after type parameter'') (\<lambda>_.
     bind_p (loop_p k (\<lambda>constraints. bind_p can_consume_p (\<lambda>can. bind_p current_p (\<lambda>current.
         if \<not> can then stop_p constraints
         else if tok_Type current \<noteq> Gen Identifier \<and> \<not> IsPredefinedType (tok_Type current)
             \<and> tok_Type current \<noteq> Ty DelegateKeyword then stop_p constraints
         else bind_p (ReadType k True) (\<lambda>constraint.
           let constraints = (if constraint = NullType then constraints else constraints @ [constraint]) in
           bind_p current_p (\<lambda>current.
             if tok_Type current = Pn Comma then then_p consume_p (continue_p constraints)
             else stop_p constraints))))) []) (\<lambda>constraints.
     bind_p can_consume_p (\<lambda>can. bind_p current_p (\<lambda>current.
       then_p (when_p (constraints = [])
          (ReportError_p (if can then current else EndOfFile_token)
             ''Expected at least one constraint type after :''))
         (return_p \<lparr>whr_TypeParameterToken = typeParameter, whr_ConstraintTypes = constraints\<rparr>)))))))"

end
