(* ===== verification/ExpressionParsing.thy ===== *)
theory ExpressionParsing
  imports TokenReading
begin

text \<open>
  Expressions of \<^verbatim>\<open>src/parsing/SourceParser.cpp\<close>: operator precedence parsing with null and left
  denotations, and chains of member accesses. As for types, the functions call each other through
  \<open>rec\<close>; statements and expressions are mutually recursive because a lambda has a body, so the calls of
  both are listed here and \<open>StatementParsing\<close> ties the knot.
\<close>

section \<open>Calls\<close>

datatype code_call =
    CallExpression nat bool
  | CallNullDenotation
  | CallLinkedExpressionNode node bool
  | CallIndexatorExpressionNode node
  | CallStatementsBlock
  | CallStatement
  | CallKeywordStatement
  | CallConditionalClause

type_synonym code_rec = "code_call \<Rightarrow> node parse_op"

text \<open>\<^verbatim>\<open>ReadExpression(reader, parent, 0, true)\<close>.\<close>

abbreviation read_expression :: "code_rec \<Rightarrow> node parse_op" where
  "read_expression rec \<equiv> rec (CallExpression 0 True)"

definition null_literal :: "TokenType \<Rightarrow> TextLocation \<Rightarrow> node" where
  "null_literal type location = LiteralExpressionSyntax (missing_token type (L ''null'') location)"

section \<open>Lists of arguments\<close>

definition ReadArgumentsList :: "nat \<Rightarrow> code_rec \<Rightarrow> node list parse_op" where
  "ReadArgumentsList k rec =
     enclosed k (Pn OpenCurl) ''Expected ( token'' (Pn CloseCurl) ''Expected , or )'' (read_expression rec)"

definition ReadIndexatorList :: "nat \<Rightarrow> code_rec \<Rightarrow> node list parse_op" where
  "ReadIndexatorList k rec =
     enclosed k (Pn OpenSquare) ''Exprected [ token'' (Pn CloseSquare) ''Expected , or ]'' (read_expression rec)"

section \<open>Chains\<close>

text \<open>
  \<^verbatim>\<open>IsGenericInvocation\<close> peeks at the tokens after a \<^verbatim>\<open><\<close> for the matching \<^verbatim>\<open>>\<close>; the second scan of
  \<^verbatim>\<open>ReadLinkedExpressionNode\<close> does the same without regard to \<^verbatim>\<open>>>\<close>.
\<close>

fun IsGenericInvocation_r :: "int \<Rightarrow> reader \<Rightarrow> bool" where
  "IsGenericInvocation_r depth [] \<longleftrightarrow> False"
| "IsGenericInvocation_r depth (token # r) \<longleftrightarrow>
     (let closed = (\<lambda>depth. if depth = 0 then tok_Type (Current_r r) = Pn OpenCurl else IsGenericInvocation_r depth r) in
      if tok_Type token = Gen EndOfFile \<or> tok_Type token = Gen Unknown then False
      else if tok_Type token = Op LessOperator then IsGenericInvocation_r (depth + 1) r
      else if tok_Type token = Op GreaterOperator then closed (depth - 1)
      else if tok_Type token = Op RightShiftOperator then closed (depth - 2)
      else IsGenericInvocation_r depth r)"

definition IsGenericInvocation :: "reader \<Rightarrow> bool" where
  "IsGenericInvocation r = IsGenericInvocation_r 1 (tl r)"

fun IsGenericTypeReceiver_r :: "int \<Rightarrow> reader \<Rightarrow> bool" where
  "IsGenericTypeReceiver_r depth [] \<longleftrightarrow> False"
| "IsGenericTypeReceiver_r depth (token # r) \<longleftrightarrow>
     (if tok_Type token = Gen EndOfFile \<or> tok_Type token = Gen Unknown then False
      else if tok_Type token = Op LessOperator then IsGenericTypeReceiver_r (depth + 1) r
      else if tok_Type token = Op GreaterOperator then
        (if depth - 1 = 0 then tok_Type (Current_r r) = Pn Delimeter else IsGenericTypeReceiver_r (depth - 1) r)
      else IsGenericTypeReceiver_r depth r)"

definition IsGenericTypeReceiver :: "reader \<Rightarrow> bool" where
  "IsGenericTypeReceiver r = IsGenericTypeReceiver_r 1 (tl r)"

fun IsLinkedNode :: "node \<Rightarrow> bool" where
  "IsLinkedNode (MemberAccessExpressionSyntax identifier previous) = True"
| "IsLinkedNode (InvokationExpressionSyntax identifier previous types arguments) = True"
| "IsLinkedNode (IndexatorExpressionSyntax identifier previous arguments) = True"
| "IsLinkedNode _ = False"

definition indexerKeyword :: SyntaxToken where
  "indexerKeyword = SyntaxToken_of (Md IndexerKeyword) (L ''indexer'') TextLocation_default"

definition ReadIndexatorExpressionNode :: "nat \<Rightarrow> code_rec \<Rightarrow> node \<Rightarrow> node parse_op" where
  "ReadIndexatorExpressionNode k rec lastNode =
     bind_p (ReadIndexatorList k rec) (\<lambda>indices.
       let currentNode = IndexatorExpressionSyntax indexerKeyword lastNode indices in
       bind_p can_consume_p (\<lambda>can. bind_p current_p (\<lambda>current.
         if can \<and> tok_Type current = Pn OpenSquare then rec (CallIndexatorExpressionNode currentNode)
         else return_p currentNode)))"

definition first_names :: "TokenType list" where
  "first_names = [Md FieldKeyword, Gen Identifier, Dc ValueKeyword, Ty StringKeyword, Ty CharKeyword,
     Ty NativeIntegerKeyword, Ty IntegerKeyword, Ty BooleanKeyword, Ty ByteKeyword, Ty DoubleKeyword]"

text \<open>What may follow a link: an index, and the next link.\<close>

definition after_link :: "code_rec \<Rightarrow> node \<Rightarrow> node parse_op" where
  "after_link rec currentNode =
     bind_p can_consume_p (\<lambda>can.
       if \<not> can then return_p currentNode
       else bind_p current_p (\<lambda>current.
         bind_p (if tok_Type current = Pn OpenSquare then rec (CallIndexatorExpressionNode currentNode)
                 else return_p currentNode) (\<lambda>currentNode.
         bind_p current_p (\<lambda>current.
           if tok_Type current = Pn Delimeter then rec (CallLinkedExpressionNode currentNode False)
           else return_p currentNode))))"

text \<open>\<^verbatim>\<open>case LessOperator\<close>: a comparison, a static member of a generic type, or a generic call.\<close>

definition after_less :: "nat \<Rightarrow> code_rec \<Rightarrow> SyntaxToken \<Rightarrow> node \<Rightarrow> node parse_op" where
  "after_less k rec identifier previous =
     bind_p (get_p (\<lambda>p. IsGenericInvocation (ps_Reader p))) (\<lambda>genericInvocation.
     bind_p (get_p (\<lambda>p. \<not> genericInvocation \<and> IsGenericTypeReceiver (ps_Reader p))) (\<lambda>genericTypeReceiver.
       if \<not> genericInvocation \<and> \<not> genericTypeReceiver then
         return_p (MemberAccessExpressionSyntax identifier previous)
       else if genericTypeReceiver then
         bind_p (ReadTypeArgumentsList k (parse_type k)) (\<lambda>arguments.
           rec (CallLinkedExpressionNode
             (TypeExpressionSyntax (GenericTypeSyntax (IdentifierNameTypeSyntax identifier) arguments)) False))
       else
         bind_p (ReadTypeArgumentsList k (parse_type k)) (\<lambda>typeArguments.
         bind_p current_p (\<lambda>current.
         bind_p (if tok_Type current = Pn OpenCurl then bind_p (ReadArgumentsList k rec) (\<lambda>xs. return_p (Some xs))
                 else return_p None) (\<lambda>arguments.
           after_link rec (InvokationExpressionSyntax identifier previous (Some typeArguments) arguments))))))"

definition link_after_name :: "nat \<Rightarrow> code_rec \<Rightarrow> SyntaxToken \<Rightarrow> node \<Rightarrow> node parse_op" where
  "link_after_name k rec identifier previous =
     bind_p current_p (\<lambda>current.
       let member = MemberAccessExpressionSyntax identifier previous in
       if tok_Type current = Pn OpenCurl then
         bind_p (ReadArgumentsList k rec) (\<lambda>arguments.
           after_link rec (InvokationExpressionSyntax identifier previous None (Some arguments)))
       else if tok_Type current = Op LessOperator then after_less k rec identifier previous
       else if tok_Type current = Pn Delimeter then rec (CallLinkedExpressionNode member False)
       else if tok_Type current = Pn OpenSquare then
         bind_p (rec (CallIndexatorExpressionNode member)) (after_link rec)
       else if IsOperator (tok_Type current) \<or> IsPunctuation (tok_Type current) then return_p member
       else after_link rec NullNode)"

definition ReadLinkedExpressionNode :: "nat \<Rightarrow> code_rec \<Rightarrow> node \<Rightarrow> bool \<Rightarrow> node parse_op" where
  "ReadLinkedExpressionNode k rec previous isFirst =
     with_depth ps_LinkedExpressionDepth_update
       (bind_p (get_p ps_LinkedExpressionDepth) (\<lambda>depth. bind_p current_p (\<lambda>current.
          if depth > MaxLinkedExpressionDepth then
            then_p (ReportError_p current ''Member access chain is too long'')
              (return_p (if IsLinkedNode previous then previous else NullNode))
          else bind_p can_consume_p (\<lambda>can.
            if \<not> can then return_p NullNode
            else
              bind_p (if isFirst then
                  bind_p (Matches first_names) (\<lambda>matches.
                    then_p (when_p (\<not> matches)
                       (ReportError_p current ''Expected identifier, primitive name or field keyword'')) take_p)
                else bind_p (Expect (Pn Delimeter) ''Expected . token'') (\<lambda>_.
                  Expect (Gen Identifier) ''Expected identifier'')) (\<lambda>identifier.
              bind_p can_consume_p (\<lambda>can.
                if \<not> can then return_p (MemberAccessExpressionSyntax identifier previous)
                else link_after_name k rec identifier previous))))))"

section \<open>Compound expressions\<close>

definition ReadObjectExpression :: "nat \<Rightarrow> code_rec \<Rightarrow> node parse_op" where
  "ReadObjectExpression k rec =
     bind_p (Expect (Gen NewKeyword) ''Expected new keyword'') (\<lambda>_.
     bind_p (ReadType k False) (\<lambda>type.
     bind_p can_consume_p (\<lambda>can. bind_p current_p (\<lambda>current.
       if can \<and> tok_Type current = Pn OpenSquare then
         bind_p (Expect (Pn OpenSquare) ''Expected ['') (\<lambda>_.
         bind_p (read_expression rec) (\<lambda>arraySize.
         bind_p (Expect (Pn CloseSquare) ''Expected ]'') (\<lambda>_.
           return_p (ObjectExpressionSyntax type True arraySize None))))
       else bind_p (ReadArgumentsList k rec) (\<lambda>arguments.
         return_p (ObjectExpressionSyntax type False NullNode (Some arguments)))))))"

text \<open>No other function of the parser calls \<^verbatim>\<open>ReadTernaryExpression\<close>.\<close>

definition ReadTernaryExpression :: "code_rec \<Rightarrow> node \<Rightarrow> node parse_op" where
  "ReadTernaryExpression rec condition =
     bind_p (Expect (Pn Question) ''Expected ? token'') (\<lambda>_.
     bind_p (read_expression rec) (\<lambda>left.
     bind_p (Expect (Pn Colon) ''Expected : token'') (\<lambda>_.
     bind_p (read_expression rec) (\<lambda>right. return_p (TernaryExpressionSyntax condition left right)))))"

text \<open>
  A collection that is one range is the range. The kind of the only element is read without a check,
  and the element of \<^verbatim>\<open>[a if]\<close> is \<^verbatim>\<open>nullptr\<close>: then there is no result.
\<close>

fun collection_of :: "node list \<Rightarrow> node option" where
  "collection_of [NullNode] = None"
| "collection_of [RangeExpressionSyntax token left right inclusive] =
     Some (RangeExpressionSyntax token left right inclusive)"
| "collection_of values = Some (CollectionExpressionSyntax values)"

definition ReadCollectionExpression :: "nat \<Rightarrow> code_rec \<Rightarrow> node parse_op" where
  "ReadCollectionExpression k rec =
     bind_p (enclosed k (Pn OpenSquare) ''Expected [ token'' (Pn CloseSquare) ''Expected , or ]'' (read_expression rec))
       (\<lambda>values p. map_option (\<lambda>syntax. (syntax, p)) (collection_of values))"

text \<open>
  \<^verbatim>\<open>ReadExpressionBodyOrBlock\<close>: an expression body is a block with one return statement, whose keyword
  and semicolon are made up.
\<close>

definition ReadExpressionBodyOrBlock :: "code_rec \<Rightarrow> string \<Rightarrow> node parse_op" where
  "ReadExpressionBodyOrBlock rec bodyKind =
     (let block = StatementsBlockSyntax SyntaxToken_default SyntaxToken_default SyntaxToken_default in
      bind_p can_consume_p (\<lambda>can.
        if \<not> can then
          then_p (ReportError_p EndOfFile_token (''Unexpected end of file - expected '' @ bodyKind @ '' body''))
            (return_p (block False []))
        else bind_p current_p (\<lambda>current.
          if tok_Type current = Op LambdaOperator then
            then_p consume_p (bind_p (read_expression rec) (\<lambda>expression.
              return_p (block True [ReturnStatementSyntax
                (SyntaxToken_of (St ReturnKeyword) (L ''return'') (tok_Location current)) expression])))
          else if tok_Type current \<noteq> Pn OpenBrace \<and> tok_Type current \<noteq> Pn Semicolon then
            then_p (ReportError_p current (''Expected { or ; to begin '' @ bodyKind @ '' body''))
              (return_p (block False []))
          else rec CallStatementsBlock)))"

abbreviation ReadMethodBody :: "code_rec \<Rightarrow> node parse_op" where
  "ReadMethodBody rec \<equiv> ReadExpressionBodyOrBlock rec ''method''"

abbreviation ReadLambdaBody :: "code_rec \<Rightarrow> node parse_op" where
  "ReadLambdaBody rec \<equiv> ReadExpressionBodyOrBlock rec ''lambda''"

text \<open>The \<^verbatim>\<open>=>\<close> of a lambda is consumed by its body, and expected before a block.\<close>

definition ReadLambdaExpression :: "nat \<Rightarrow> code_rec \<Rightarrow> SyntaxToken \<Rightarrow> node parse_op" where
  "ReadLambdaExpression k rec asyncModifier =
     bind_p (Expect (Ty LambdaKeyword) ''Expected lambda keyword'') (\<lambda>_.
     bind_p (ReadParametersList k) (\<lambda>parameters.
     bind_p current_p (\<lambda>current.
     let hasReturnType = (tok_Type current = Op ArrowOperator) in
     bind_p (if hasReturnType then then_p consume_p (ReadType k True) else return_p NullType) (\<lambda>returnType.
     bind_p current_p (\<lambda>bodyStart.
     then_p
       (if tok_Type bodyStart = Op LambdaOperator then return_p ()
        else if hasReturnType \<and> tok_Type bodyStart = Pn OpenBrace then return_p ()
        else bind_p (Expect (Op LambdaOperator) ''Expected => or -> operator'') (\<lambda>_. return_p ()))
       (bind_p (ReadLambdaBody rec) (\<lambda>body.
          return_p (LambdaExpressionSyntax asyncModifier parameters returnType body))))))))"

definition ReadIfExpression :: "code_rec \<Rightarrow> node parse_op" where
  "ReadIfExpression rec =
     bind_p (Expect (St IfKeyword) ''Expected if keyword'') (\<lambda>_.
     bind_p (read_expression rec) (\<lambda>condition.
     bind_p (read_expression rec) (\<lambda>thenExpression.
     bind_p current_p (\<lambda>current.
     bind_p (if tok_Type current = St ElseKeyword then then_p consume_p (read_expression rec) else return_p NullNode)
       (\<lambda>elseExpression. return_p (IfExpressionSyntax condition thenExpression elseExpression))))))"

text \<open>\<^verbatim>\<open>is Type name\<close>, in a switch expression and in a switch statement.\<close>

definition read_is_pattern :: "nat \<Rightarrow> node parse_op" where
  "read_is_pattern k =
     then_p consume_p (bind_p (ReadType k True) (\<lambda>targetType.
     bind_p current_p (\<lambda>current.
       if tok_Type current = Gen Identifier then
         then_p consume_p (return_p (IsPatternSyntax targetType current))
       else return_p (IsPatternSyntax targetType SyntaxToken_default))))"

definition ReadSwitchExpression :: "nat \<Rightarrow> code_rec \<Rightarrow> node parse_op" where
  "ReadSwitchExpression k rec =
     bind_p (Expect (St SwitchKeyword) ''Expected switch keyword'') (\<lambda>_.
     bind_p (read_expression rec) (\<lambda>expression.
     bind_p (Expect (Pn OpenBrace) ''Expected {'') (\<lambda>_.
     bind_p (loop_p k (\<lambda>arms. bind_p can_consume_p (\<lambda>can. bind_p current_p (\<lambda>current.
         if \<not> can \<or> tok_Type current = Pn CloseBrace then stop_p arms
         else bind_p
           (if tok_Type current = Gen Identifier \<and> tok_Word current = L ''_'' then
              then_p consume_p (return_p
                (LiteralExpressionSyntax (SyntaxToken_of (Gen Identifier) (L ''_'') (tok_Location current))))
            else if tok_Type current = Op IsOperator_token then read_is_pattern k
            else read_expression rec) (\<lambda>pattern.
         bind_p (Expect (Op LambdaOperator) ''Expected =>'') (\<lambda>_.
         bind_p (read_expression rec) (\<lambda>armExpression.
         bind_p current_p (\<lambda>current.
           then_p (when_p (tok_Type current = Pn Comma) consume_p)
             (continue_p (arms @ [SwitchArmSyntax pattern armExpression]))))))))) []) (\<lambda>arms.
     bind_p (Expect (Pn CloseBrace) ''Expected }'') (\<lambda>_. return_p (SwitchExpressionSyntax expression arms))))))"

section \<open>Operators\<close>

text \<open>An operator consumed, with an operand read as a null denotation.\<close>

definition read_prefix :: "code_rec \<Rightarrow> (SyntaxToken \<Rightarrow> node \<Rightarrow> node) \<Rightarrow> node parse_op" where
  "read_prefix rec syntax =
     bind_p take_p (\<lambda>current. bind_p (rec CallNullDenotation) (\<lambda>operand. return_p (syntax current operand)))"

definition prefix_operators :: "TokenType list" where
  "prefix_operators = [Op SubOperator, Op AddOperator, Op NotOperator, Op IncrementOperator, Op DecrementOperator]"

definition literal_tokens :: "TokenType list" where
  "literal_tokens = [Lit NullLiteral, Lit BooleanLiteral, Lit NumberLiteral, Lit DoubleLiteral,
     Lit StringLiteral, Lit CharLiteral]"

definition ReadNullDenotation :: "nat \<Rightarrow> code_rec \<Rightarrow> node parse_op" where
  "ReadNullDenotation k rec =
     bind_p current_p (\<lambda>current.
       let type = tok_Type current in
       if type \<in> set prefix_operators \<or> type = St ThrowKeyword then
         read_prefix rec (\<lambda>operator operand. UnaryExpressionSyntax operator operand False)
       else if type \<in> set literal_tokens then then_p consume_p (return_p (LiteralExpressionSyntax current))
       else if type = Pn OpenCurl then
         then_p consume_p (bind_p (rec (CallExpression 0 False)) (\<lambda>expression.
         bind_p (Expect (Pn CloseCurl) ''Expected ) token'') (\<lambda>_.
         bind_p current_p (\<lambda>current.
           if tok_Type current = Pn Delimeter then rec (CallLinkedExpressionNode expression False)
           else return_p expression))))
       else if type = Pn OpenSquare then ReadCollectionExpression k rec
       else if type \<in> set first_names then rec (CallLinkedExpressionNode NullNode True)
       else if type = Md AsyncKeyword then
         bind_p (get_p (\<lambda>p. Peek_r 0 (ps_Reader p))) (\<lambda>peek.
           if tok_Type peek = Ty LambdaKeyword then then_p consume_p (ReadLambdaExpression k rec current)
           else then_p (ReportError_p current ''Unexpected async keyword'')
             (then_p consume_p (return_p (null_literal (Lit NullLiteral) (tok_Location current)))))
       else if type = Ty LambdaKeyword then ReadLambdaExpression k rec SyntaxToken_default
       else if type = Gen NewKeyword then ReadObjectExpression k rec
       else if type = St AwaitKeyword then read_prefix rec AwaitExpressionSyntax
       else if type = St IfKeyword then ReadIfExpression rec
       else if type = St SwitchKeyword then ReadSwitchExpression k rec
       else if type = Gen EndOfFile then
         then_p (ReportError_p current ''Unexpected file end in expression'')
           (return_p (null_literal (Lit NullLiteral) (tok_Location current)))
       else then_p (ReportError_p current ''Unknown expression token'')
         (then_p consume_p (return_p (null_literal (Gen Unknown) (tok_Location current)))))"

definition ReadLeftDenotation :: "nat \<Rightarrow> code_rec \<Rightarrow> node \<Rightarrow> node parse_op" where
  "ReadLeftDenotation k rec leftExpr =
     bind_p can_consume_p (\<lambda>can. bind_p current_p (\<lambda>current.
       let type = tok_Type current; precedence = GetOperatorPrecendence type in
       if \<not> can then return_p leftExpr
       else if type = Pn OpenCurl then
         bind_p (ReadArgumentsList k rec) (\<lambda>arguments.
           return_p (InvokationExpressionSyntax (missing_token (Gen Unknown) [] TextLocation_default)
             leftExpr None (Some arguments)))
       else if type = Pn Delimeter then rec (CallLinkedExpressionNode leftExpr False)
       else if type = Op NullCoalescingOperator then
         then_p consume_p (bind_p (rec (CallExpression precedence False)) (\<lambda>right.
           return_p (BinaryExpressionSyntax current leftExpr right)))
       else if type = Op RangeOperator \<or> type = Op RangeInclusiveOperator then
         then_p consume_p (bind_p (rec (CallExpression precedence False)) (\<lambda>right.
           return_p (RangeExpressionSyntax current leftExpr right (type = Op RangeInclusiveOperator))))
       else if type = Op AsOperator then
         then_p consume_p (bind_p (ReadType k True) (\<lambda>targetType.
           return_p (CastExpressionSyntax current leftExpr targetType)))
       else if type = Op IsOperator_token then
         then_p consume_p (bind_p (ReadType k True) (\<lambda>targetType.
           return_p (IsExpressionSyntax current leftExpr targetType)))
       else if IsRightUnaryOperator type then
         (if precedence = 0 then return_p leftExpr
          else then_p consume_p (return_p (UnaryExpressionSyntax current leftExpr True)))
       else if IsBinaryOperator type \<or> type = Op AssignOperator then
         (if precedence = 0 then return_p leftExpr
          else then_p consume_p (bind_p (rec (CallExpression precedence False)) (\<lambda>right.
            return_p (BinaryExpressionSyntax current leftExpr right))))
       else then_p (ReportError_p current ''Unknown token in expressions left denotation'')
         (then_p consume_p (return_p leftExpr))))"

definition too_many_operators_end :: "TokenType \<Rightarrow> bool" where
  "too_many_operators_end type \<longleftrightarrow>
     type \<in> {Pn Semicolon, Pn CloseBrace, Pn CloseCurl, Pn CloseSquare, Pn Comma}"

text \<open>A round of the loop of \<^verbatim>\<open>ReadExpression\<close>.\<close>

definition read_operator :: "nat \<Rightarrow> code_rec \<Rightarrow> nat \<Rightarrow> node \<Rightarrow> (node + node) parse_op" where
  "read_operator k rec bindingPower leftExpr =
     bind_p can_consume_p (\<lambda>can. bind_p current_p (\<lambda>current.
       let precedence = GetOperatorPrecendence (tok_Type current) in
       if \<not> (can \<and> precedence \<noteq> 0 \<and> bindingPower < precedence) then stop_p leftExpr
       else then_p (modify_p (ps_OperatorsInExpression_update Suc))
         (bind_p (get_p ps_OperatorsInExpression) (\<lambda>operators.
           if operators > MaxExpressionOperators then
             then_p (ReportError_p current ''Expression contains too many operators; reduce the number of operators or split it into multiple statements'')
               (then_p (skip_until too_many_operators_end) (stop_p leftExpr))
           else bind_p (ReadLeftDenotation k rec leftExpr) (\<lambda>leftExpr. continue_p leftExpr)))))"

definition ReadExpression :: "nat \<Rightarrow> code_rec \<Rightarrow> nat \<Rightarrow> bool \<Rightarrow> node parse_op" where
  "ReadExpression k rec bindingPower resetOperatorCount =
     then_p (modify_p (\<lambda>p. if resetOperatorCount then p\<lparr>ps_OperatorsInExpression := 0\<rparr> else p))
       (with_depth ps_ExpressionDepth_update
         (bind_p (get_p ps_ExpressionDepth) (\<lambda>depth. bind_p current_p (\<lambda>current.
           if depth > MaxExpressionDepth then
             then_p (ReportError_p current ''Expression is too deeply nested'')
               (then_p consume_p (return_p (null_literal (Lit NullLiteral) (tok_Location current))))
           else bind_p (rec CallNullDenotation) (\<lambda>leftExpr.
             loop_p k (read_operator k rec bindingPower) leftExpr)))))"

end
