(* ===== verification/StatementParsing.thy ===== *)
theory StatementParsing
  imports ExpressionParsing
begin

text \<open>
  Statements and blocks of \<^verbatim>\<open>src/parsing/SourceParser.cpp\<close>, and \<open>parse_code\<close>, which closes the recursion
  of statements and expressions: its fuel bounds the nesting of calls and the rounds of every loop.
\<close>

section \<open>Statements\<close>

definition variable_after_colon :: "nat \<Rightarrow> code_rec \<Rightarrow> SyntaxToken \<Rightarrow> node parse_op" where
  "variable_after_colon k rec name =
     then_p consume_p (then_p consume_p
       (bind_p (ReadType k True) (\<lambda>type. bind_p current_p (\<lambda>current.
         if type = NullType then
           then_p (ReportError_p current ''Expected type after :'') (return_p NullNode)
         else if tok_Type current = Op AssignOperator then
           then_p consume_p (bind_p (read_expression rec) (\<lambda>expr.
             return_p (VariableStatementSyntax type name current expr)))
         else
           then_p (ReportError_p current ''Variable declaration is missing an initializer'')
             (return_p (VariableStatementSyntax type name SyntaxToken_default NullNode))))))"

definition variable_after_walrus :: "code_rec \<Rightarrow> SyntaxToken \<Rightarrow> node parse_op" where
  "variable_after_walrus rec name =
     then_p consume_p (bind_p take_p (\<lambda>walrus.
       bind_p (read_expression rec) (\<lambda>expr.
         return_p (VariableStatementSyntax
           (PredefinedTypeSyntax (SyntaxToken_of (Ty VarKeyword) (L ''var'') (tok_Location name))) name walrus expr))))"

definition misplaced_type :: "code_rec \<Rightarrow> SyntaxToken \<Rightarrow> node parse_op" where
  "misplaced_type rec type =
     then_p (ReportError_p type
        (if tok_Type type = Ty VarKeyword then
           ''Invalid use of var. For type inference use name := value; for an explicit type use name: type = value.''
         else ''Invalid variable declaration syntax. Use name: type = value or name := value.''))
       (then_p consume_p (bind_p take_p (\<lambda>name.
         bind_p current_p (\<lambda>current.
         bind_p (if tok_Type current = Op AssignOperator then then_p consume_p (read_expression rec)
                 else then_p (skip_until (\<lambda>t. t = Pn Semicolon)) (return_p NullNode)) (\<lambda>expr.
           return_p (VariableStatementSyntax (PredefinedTypeSyntax type) name SyntaxToken_default expr))))))"

definition ReadStatement :: "nat \<Rightarrow> code_rec \<Rightarrow> node parse_op" where
  "ReadStatement k rec =
     bind_p current_p (\<lambda>current.
     bind_p (get_p (\<lambda>p. CanPeek_r (ps_Reader p))) (\<lambda>canPeek.
     bind_p (get_p (\<lambda>p. Peek_r 0 (ps_Reader p))) (\<lambda>peek.
       if tok_Type current = Pn Semicolon then return_p (ExpressionStatementSyntax NullNode)
       else if canPeek \<and> tok_Type current = Gen Identifier \<and> tok_Type peek = Pn Colon then
         variable_after_colon k rec current
       else if canPeek \<and> tok_Type current = Gen Identifier \<and> tok_Type peek = Op DeclareAssignOperator then
         variable_after_walrus rec current
       else if canPeek \<and> IsPredefinedType (tok_Type current) \<and> tok_Type peek = Gen Identifier then
         misplaced_type rec current
       else bind_p (read_expression rec) (\<lambda>expression. return_p (ExpressionStatementSyntax expression)))))"

definition missing_semicolon :: string where
  "missing_semicolon = ''Missing ; token''"

text \<open>\<^verbatim>\<open>return\<close> and \<^verbatim>\<open>throw\<close>.\<close>

definition read_with_value :: "code_rec \<Rightarrow> StatementKeyword \<Rightarrow> string \<Rightarrow> (SyntaxToken \<Rightarrow> node \<Rightarrow> node) \<Rightarrow> node parse_op" where
  "read_with_value rec keyword message syntax =
     bind_p (Expect (St keyword) message) (\<lambda>keywordToken.
     bind_p current_p (\<lambda>current.
     bind_p (if tok_Type current \<noteq> Pn Semicolon then read_expression rec else return_p NullNode) (\<lambda>expression.
     bind_p (Expect (Pn Semicolon) missing_semicolon) (\<lambda>_. return_p (syntax keywordToken expression)))))"

definition ReadReturnStatement :: "code_rec \<Rightarrow> node parse_op" where
  "ReadReturnStatement rec = read_with_value rec ReturnKeyword ''Expected return keyword'' ReturnStatementSyntax"

definition ReadThrowStatement :: "code_rec \<Rightarrow> node parse_op" where
  "ReadThrowStatement rec = read_with_value rec ThrowKeyword ''Expected throw keyword'' ThrowStatementSyntax"

definition read_jump :: "StatementKeyword \<Rightarrow> (SyntaxToken \<Rightarrow> node) \<Rightarrow> node parse_op" where
  "read_jump keyword syntax =
     bind_p (Expect (St keyword) ''Expected return keyword'') (\<lambda>keywordToken.
     bind_p (Expect (Pn Semicolon) missing_semicolon) (\<lambda>_. return_p (syntax keywordToken)))"

definition ReadBreakStatement :: "node parse_op" where
  "ReadBreakStatement = read_jump BreakKeyword BreakStatementSyntax"

definition ReadContinueStatement :: "node parse_op" where
  "ReadContinueStatement = read_jump ContinueKeyword ContinueStatementSyntax"

definition ReadDeferStatement :: "code_rec \<Rightarrow> node parse_op" where
  "ReadDeferStatement rec =
     bind_p (Expect (St DeferKeyword) ''Expected defer keyword'') (\<lambda>deferToken.
     bind_p current_p (\<lambda>current.
       if tok_Type current = Pn Semicolon then
         then_p (ReportError_p current ''defer statement cannot be empty'')
           (return_p (DeferStatementSyntax deferToken NullNode))
       else bind_p (rec CallStatement) (\<lambda>statement.
         bind_p (Expect (Pn Semicolon) missing_semicolon) (\<lambda>_.
           return_p (DeferStatementSyntax deferToken statement)))))"

section \<open>Conditionals and loops\<close>

text \<open>The semicolon of a block that is empty; \<^verbatim>\<open>if\<close> and \<^verbatim>\<open>unless\<close> report it.\<close>

fun block_semicolon :: "node \<Rightarrow> SyntaxToken" where
  "block_semicolon (StatementsBlockSyntax semicolon openBrace closeBrace isExpressionBody statements) = semicolon"
| "block_semicolon _ = SyntaxToken_default"

definition read_condition ::
  "code_rec \<Rightarrow> (SyntaxToken \<Rightarrow> node \<Rightarrow> node \<Rightarrow> node \<Rightarrow> node) \<Rightarrow> SyntaxToken \<Rightarrow> node parse_op" where
  "read_condition rec syntax keyword =
     then_p consume_p
       (bind_p (Expect (Pn OpenCurl) ''Expected ( token'') (\<lambda>_.
        bind_p (rec CallStatement) (\<lambda>condition.
        bind_p (Expect (Pn CloseCurl) ''Expected ) token'') (\<lambda>_.
        bind_p (rec CallStatementsBlock) (\<lambda>block.
        then_p (when_p (tok_Type (block_semicolon block) = Pn Semicolon)
            (ReportError_p (block_semicolon block)
               ''If/unless statement cannot have an empty body; use an empty block {{}} if you meant no-op''))
          (bind_p current_p (\<lambda>current.
           bind_p (if tok_Type current = St ElseKeyword then rec CallConditionalClause else return_p NullNode)
             (\<lambda>nextStatement. return_p (syntax keyword condition block nextStatement)))))))))"

text \<open>On any other token the loop reports it and goes round again without having consumed it.\<close>

definition ReadConditionalClause :: "nat \<Rightarrow> code_rec \<Rightarrow> node parse_op" where
  "ReadConditionalClause k rec =
     loop_p k (\<lambda>_. bind_p can_consume_p (\<lambda>can. bind_p current_p (\<lambda>current.
       if \<not> can then stop_p NullNode
       else if tok_Type current = St IfKeyword then
         bind_p (read_condition rec IfStatementSyntax current) stop_p
       else if tok_Type current = St UnlessKeyword then
         bind_p (read_condition rec UnlessStatementSyntax current) stop_p
       else if tok_Type current = St ElseKeyword then
         then_p consume_p (bind_p current_p (\<lambda>next.
           if tok_Type next = St IfKeyword \<or> tok_Type next = St UnlessKeyword then
             bind_p (rec CallConditionalClause) stop_p
           else bind_p (rec CallStatementsBlock) (\<lambda>block. stop_p (ElseStatementSyntax current block))))
       else then_p (ReportError_p current ''Unknown token in deside statement'') (continue_p ())))) ()"

definition read_while :: "code_rec \<Rightarrow> StatementKeyword \<Rightarrow> string \<Rightarrow> (SyntaxToken \<Rightarrow> node \<Rightarrow> node \<Rightarrow> node) \<Rightarrow> node parse_op" where
  "read_while rec keyword message syntax =
     bind_p (Expect (St keyword) message) (\<lambda>keywordToken.
     bind_p (Expect (Pn OpenCurl) ''expected ( token'') (\<lambda>_.
     bind_p (read_expression rec) (\<lambda>condition.
     bind_p (Expect (Pn CloseCurl) ''expected ) token'') (\<lambda>_.
     bind_p (rec CallStatementsBlock) (\<lambda>block. return_p (syntax keywordToken condition block))))))"

definition ReadWhileStatement :: "code_rec \<Rightarrow> node parse_op" where
  "ReadWhileStatement rec = read_while rec WhileKeyword ''Expected while keyword'' WhileStatementSyntax"

definition ReadUntilStatement :: "code_rec \<Rightarrow> node parse_op" where
  "ReadUntilStatement rec = read_while rec UntilKeyword ''Expected until keyword'' UntilStatementSyntax"

text \<open>
  \<^verbatim>\<open>ReadStatement\<close> returns expression and variable statements, no keyword statements, so the
  \<^verbatim>\<open>dynamic_cast\<close>s of the initializer and the repeat statement never succeed.
\<close>

definition ReadForStatement :: "code_rec \<Rightarrow> node parse_op" where
  "ReadForStatement rec =
     bind_p (Expect (St ForKeyword) ''Expected for keyword'') (\<lambda>keywordToken.
     bind_p (Expect (Pn OpenCurl) ''expected ( token'') (\<lambda>_.
     bind_p (rec CallStatement) (\<lambda>initializer.
     bind_p (Expect (Pn Semicolon) ''expected ; token'') (\<lambda>_.
     bind_p (read_expression rec) (\<lambda>condition.
     bind_p (Expect (Pn Semicolon) ''expected ; token'') (\<lambda>_.
     bind_p (rec CallStatement) (\<lambda>afterRepeat.
     bind_p (Expect (Pn CloseCurl) ''expected ) token'') (\<lambda>_.
     bind_p (rec CallStatementsBlock) (\<lambda>block.
       return_p (ForStatementSyntax keywordToken initializer condition afterRepeat block))))))))))"

definition read_for_range ::
  "code_rec \<Rightarrow> StatementKeyword \<Rightarrow> string \<Rightarrow> string \<Rightarrow> (SyntaxToken \<Rightarrow> SyntaxToken \<Rightarrow> node \<Rightarrow> node \<Rightarrow> node) \<Rightarrow> node parse_op" where
  "read_for_range rec keyword message after syntax =
     bind_p (Expect (St keyword) message) (\<lambda>keywordToken.
     bind_p current_p (\<lambda>current.
     let hasParens = (tok_Type current = Pn OpenCurl) in
     bind_p (if hasParens then bind_p (Expect (Pn OpenCurl) ''expected ( token'') (\<lambda>_. return_p ()) else return_p ()) (\<lambda>_.
     bind_p current_p (\<lambda>identifier.
     bind_p (if tok_Type identifier \<noteq> Gen Identifier then
               then_p (ReportError_p identifier after)
                 (return_p (SyntaxToken_of (Gen Identifier) (L ''<missing>'') (tok_Location identifier)))
             else take_p) (\<lambda>identifier.
     bind_p (Expect (St InKeyword) ''Expected in keyword'') (\<lambda>_.
     bind_p (read_expression rec) (\<lambda>range.
     bind_p (if hasParens then bind_p (Expect (Pn CloseCurl) ''expected ) token'') (\<lambda>_. return_p ()) else return_p ()) (\<lambda>_.
     bind_p (rec CallStatementsBlock) (\<lambda>block. return_p (syntax keywordToken identifier range block))))))))))"

definition ReadForEachStatement :: "code_rec \<Rightarrow> node parse_op" where
  "ReadForEachStatement rec = read_for_range rec ForeachKeyword ''Expected foreach keyword''
     ''Expected identifier after foreach'' ForEachStatementSyntax"

definition ReadForInStatement :: "code_rec \<Rightarrow> node parse_op" where
  "ReadForInStatement rec = read_for_range rec ForKeyword ''Expected for keyword''
     ''Expected identifier after for'' ForInStatementSyntax"

section \<open>try and switch\<close>

text \<open>A catch clause; one without a parameter is reported, its block read and the clause dropped.\<close>

definition read_catch_clause :: "nat \<Rightarrow> code_rec \<Rightarrow> node option parse_op" where
  "read_catch_clause k rec =
     bind_p (Expect (St CatchKeyword) ''Expected catch keyword'') (\<lambda>catchToken.
     bind_p current_p (\<lambda>current.
       if tok_Type current = Pn OpenBrace then
         then_p (ReportError_p catchToken ''Catch clause must declare an exception variable or type. Use parentheses for parameters, e.g., catch (ex: Type)'')
           (bind_p (rec CallStatementsBlock) (\<lambda>_. return_p None))
       else
         let hasParens = (tok_Type current = Pn OpenCurl) in
         then_p (when_p hasParens consume_p)
           (bind_p (TryMatchIdentifier 3) (\<lambda>found.
            bind_p (if found then take_p else return_p SyntaxToken_default) (\<lambda>identifier.
            bind_p current_p (\<lambda>current.
            bind_p (if tok_Type current = Pn Colon then then_p consume_p (ReadType k True) else return_p NullType) (\<lambda>type.
            bind_p (if hasParens then bind_p (Expect (Pn CloseCurl) ''Expected ) after catch clause'') (\<lambda>_. return_p ())
                    else return_p ()) (\<lambda>_.
            bind_p (rec CallStatementsBlock) (\<lambda>body.
            then_p (when_p (tok_Type identifier = Gen Unknown \<and> type = NullType)
                (ReportError_p catchToken ''Catch clause must declare an exception variable or type''))
              (return_p (Some (CatchClauseSyntax catchToken identifier type body))))))))))))"

definition ReadTryStatement :: "nat \<Rightarrow> code_rec \<Rightarrow> node parse_op" where
  "ReadTryStatement k rec =
     bind_p (Expect (St TryKeyword) ''Expected try keyword'') (\<lambda>tryToken.
     bind_p (rec CallStatementsBlock) (\<lambda>tryBlock.
     bind_p (loop_p k (\<lambda>clauses. bind_p can_consume_p (\<lambda>can. bind_p current_p (\<lambda>current.
         if \<not> (can \<and> tok_Type current = St CatchKeyword) then stop_p clauses
         else bind_p (read_catch_clause k rec) (\<lambda>clause.
           continue_p (case clause of None \<Rightarrow> clauses | Some c \<Rightarrow> clauses @ [c]))))) []) (\<lambda>clauses.
     then_p (when_p (clauses = [])
        (ReportError_p tryToken ''try statement must have at least one catch clause''))
       (return_p (TryStatementSyntax tryToken tryBlock clauses)))))"

definition read_case_pattern :: "nat \<Rightarrow> code_rec \<Rightarrow> node parse_op" where
  "read_case_pattern k rec =
     bind_p current_p (\<lambda>current.
       if tok_Type current = Op IsOperator_token then read_is_pattern k else read_expression rec)"

definition ReadSwitchStatement :: "nat \<Rightarrow> code_rec \<Rightarrow> node parse_op" where
  "ReadSwitchStatement k rec =
     bind_p (Expect (St SwitchKeyword) ''Expected switch keyword'') (\<lambda>switchToken.
     bind_p (Expect (Pn OpenCurl) ''Expected ( after switch'') (\<lambda>_.
     bind_p current_p (\<lambda>current.
     bind_p (if tok_Type current \<noteq> Pn CloseCurl then read_expression rec else return_p NullNode) (\<lambda>expression.
     bind_p (Expect (Pn CloseCurl) ''Expected ) after switch expression'') (\<lambda>_.
     bind_p (Expect (Pn OpenBrace) ''Expected { after switch expression'') (\<lambda>_.
     bind_p (loop_p k (\<lambda>clauses. bind_p can_consume_p (\<lambda>can. bind_p current_p (\<lambda>current.
         if \<not> (can \<and> tok_Type current \<noteq> Pn CloseBrace) then stop_p clauses
         else if tok_Type current = St DefaultKeyword \<or> tok_Type current = St CaseKeyword then
           then_p consume_p
             (bind_p (if tok_Type current = St CaseKeyword then read_case_pattern k rec else return_p NullNode) (\<lambda>pattern.
              bind_p (Expect (Pn Colon) ''Expected : after case pattern'') (\<lambda>_.
              bind_p (rec CallStatementsBlock) (\<lambda>body.
                continue_p (clauses @ [SwitchCaseClauseSyntax current pattern body])))))
         else then_p (ReportError_p current ''Expected case or default in switch statement'')
           (then_p consume_p (continue_p clauses))))) []) (\<lambda>clauses.
     bind_p (Expect (Pn CloseBrace) ''Expected } after switch cases'') (\<lambda>_.
       return_p (SwitchStatementSyntax switchToken expression clauses)))))))))"

definition ReadKeywordStatement :: "nat \<Rightarrow> code_rec \<Rightarrow> node parse_op" where
  "ReadKeywordStatement k rec =
     bind_p can_consume_p (\<lambda>can. bind_p current_p (\<lambda>current.
     bind_p (get_p (\<lambda>p. CanPeek_r (ps_Reader p))) (\<lambda>canPeek.
     bind_p (get_p (\<lambda>p. map (\<lambda>i. tok_Type (Peek_r i (ps_Reader p))) [0, 1, 2])) (\<lambda>peeked.
       let type = tok_Type current in
       if \<not> can then return_p NullNode
       else if type = St ForKeyword then
         (if canPeek \<and> (take 2 peeked = [Gen Identifier, St InKeyword]
              \<or> peeked = [Pn OpenCurl, Gen Identifier, St InKeyword])
          then ReadForInStatement rec else ReadForStatement rec)
       else if type = St ForeachKeyword then ReadForEachStatement rec
       else if type = St WhileKeyword then ReadWhileStatement rec
       else if type = St UntilKeyword then ReadUntilStatement rec
       else if type = St ReturnKeyword then ReadReturnStatement rec
       else if type = St BreakKeyword then ReadBreakStatement
       else if type = St ContinueKeyword then ReadContinueStatement
       else if type = St IfKeyword \<or> type = St UnlessKeyword then rec CallConditionalClause
       else if type = St TryKeyword then ReadTryStatement k rec
       else if type = St SwitchKeyword then ReadSwitchStatement k rec
       else if type = St DeferKeyword then ReadDeferStatement rec
       else if type = St ThrowKeyword then ReadThrowStatement rec
       else then_p (ReportError_p current ''unknown/unsupported keyword'') (return_p NullNode)))))"

section \<open>Blocks\<close>

text \<open>A statement of a block: keyword statements end themselves, others with a semicolon.\<close>

definition read_block_statement :: "code_rec \<Rightarrow> SyntaxToken \<Rightarrow> node parse_op" where
  "read_block_statement rec current =
     (if IsKeyword (tok_Type current) then rec CallKeywordStatement
      else bind_p (rec CallStatement) (\<lambda>statement.
        if statement = NullNode then return_p NullNode
        else bind_p (Expect (Pn Semicolon) missing_semicolon) (\<lambda>_. return_p statement)))"

text \<open>The loop over the statements between braces; the result is their list and the closing brace.\<close>

definition block_statements :: "nat \<Rightarrow> code_rec \<Rightarrow> (node list \<times> SyntaxToken) parse_op" where
  "block_statements k rec =
     loop_p k (\<lambda>(loopGuard, statements). bind_p can_consume_p (\<lambda>can. bind_p current_p (\<lambda>current.
       if \<not> can then stop_p (statements, SyntaxToken_default)
       else if loopGuard + 1 > (10000 :: nat) then
         then_p (ReportError_p current ''Statement block parser loop detected'') (stop_p (statements, SyntaxToken_default))
       else if tok_Type current = Pn CloseBrace then then_p consume_p (stop_p (statements, current))
       else if tok_Type current = Gen EndOfFile then
         then_p (ReportError_p current ''Unexpected end of file in statement block - expected }'')
           (stop_p (statements, missing_token (Pn CloseBrace) [] (tok_Location current)))
       else bind_p (read_block_statement rec current) (\<lambda>statement.
         if statement \<noteq> NullNode then continue_p (loopGuard + 1, statements @ [statement])
         else bind_p (TryMatch [Pn CloseBrace] None 5) (\<lambda>found.
           if found then continue_p (loopGuard + 1, statements)
           else stop_p (statements, SyntaxToken_default)))))) (0, [])"

definition ReadStatementsBlock :: "nat \<Rightarrow> code_rec \<Rightarrow> node parse_op" where
  "ReadStatementsBlock k rec =
     with_depth ps_BlockDepth_update
       (bind_p (get_p ps_BlockDepth) (\<lambda>depth. bind_p can_consume_p (\<lambda>can. bind_p current_p (\<lambda>current.
          let none = SyntaxToken_default in
          if depth > MaxBlockDepth then
            then_p (ReportError_p current ''Statement nesting is too deep'')
              (then_p (skip_until (\<lambda>t. t = Pn CloseBrace))
                (then_p consume_p (return_p (StatementsBlockSyntax none none none False []))))
          else if \<not> can then
            then_p (ReportError_p EndOfFile_token ''Unexpected end of file - expected statement block'')
              (return_p (StatementsBlockSyntax none none none False []))
          else if tok_Type current = Pn Semicolon then
            then_p consume_p (return_p (StatementsBlockSyntax current none none False []))
          else if tok_Type current = Pn OpenBrace then
            then_p consume_p (bind_p (block_statements k rec) (\<lambda>(statements, closeBrace).
              bind_p can_consume_p (\<lambda>can. bind_p current_p (\<lambda>next.
              then_p (when_p (tok_Type closeBrace \<noteq> Pn CloseBrace)
                 (ReportError_p (SyntaxToken_of (Gen EndOfFile) [] (tok_Location (if can then next else current)))
                    ''Statement block opened here was not closed - expected }''))
                (return_p (StatementsBlockSyntax none current closeBrace False statements))))))
          else bind_p (read_block_statement rec current) (\<lambda>statement.
            return_p (StatementsBlockSyntax none none none False (if statement = NullNode then [] else [statement])))))))"

section \<open>The parser of code\<close>

fun code_round :: "nat \<Rightarrow> code_rec \<Rightarrow> code_call \<Rightarrow> node parse_op" where
  "code_round k rec (CallExpression bindingPower reset) = ReadExpression k rec bindingPower reset"
| "code_round k rec CallNullDenotation = ReadNullDenotation k rec"
| "code_round k rec (CallLinkedExpressionNode previous isFirst) = ReadLinkedExpressionNode k rec previous isFirst"
| "code_round k rec (CallIndexatorExpressionNode previous) = ReadIndexatorExpressionNode k rec previous"
| "code_round k rec CallStatementsBlock = ReadStatementsBlock k rec"
| "code_round k rec CallStatement = ReadStatement k rec"
| "code_round k rec CallKeywordStatement = ReadKeywordStatement k rec"
| "code_round k rec CallConditionalClause = ReadConditionalClause k rec"

primrec parse_code :: "nat \<Rightarrow> code_call \<Rightarrow> node parse_op" where
  "parse_code 0 call = (\<lambda>p. None)"
| "parse_code (Suc k) call = code_round k (parse_code k) call"

end
