(* ===== verification/DeclarationParsing.thy ===== *)
theory DeclarationParsing
  imports StatementParsing
begin

text \<open>
  Declarations of \<^verbatim>\<open>src/parsing/SourceParser.cpp\<close>: attributes and modifiers, members, types and their
  bodies, directives and the compilation unit. Types contain members, so \<open>parse_member\<close> has fuel as
  \<open>parse_code\<close> has; a member that cannot be read is \<open>None\<close> inside the result.
\<close>

section \<open>Attributes and modifiers\<close>

definition attribute_arguments :: "nat \<Rightarrow> SyntaxToken list parse_op" where
  "attribute_arguments k =
     loop_p k (\<lambda>arguments. bind_p can_consume_p (\<lambda>can. bind_p current_p (\<lambda>arg.
       if \<not> (can \<and> tok_Type arg \<noteq> Pn CloseCurl) then stop_p arguments
       else
         let arguments = (if tok_Type arg = Lit StringLiteral then arguments @ [arg] else arguments) in
         then_p (when_p (tok_Type arg \<noteq> Lit StringLiteral)
             (ReportError_p arg ''Expected string literal in attribute arguments''))
           (then_p consume_p (bind_p current_p (\<lambda>current.
              if tok_Type current = Pn Comma then then_p consume_p (continue_p arguments)
              else if tok_Type current \<noteq> Pn CloseCurl then
                then_p (ReportError_p current ''Expected , or ) in attribute arguments'') (stop_p arguments)
              else continue_p arguments)))))) []"

definition ReadAttribute :: "nat \<Rightarrow> AttributeSyntax parse_op" where
  "ReadAttribute k =
     bind_p (Expect (Pn OpenSquare) ''Expected ['') (\<lambda>_.
     bind_p (Expect (Gen Identifier) ''Expected attribute name'') (\<lambda>name.
     bind_p current_p (\<lambda>current.
     bind_p (if tok_Type current = Pn OpenCurl then
               then_p consume_p (bind_p (attribute_arguments k) (\<lambda>arguments.
                 bind_p (Expect (Pn CloseCurl) ''Expected )'') (\<lambda>_. return_p arguments)))
             else return_p []) (\<lambda>arguments.
     bind_p (Expect (Pn CloseSquare) ''Expected ]'') (\<lambda>_.
       return_p \<lparr>att_NameToken = name, att_Arguments = arguments\<rparr>)))))"

definition ReadAttributeList :: "nat \<Rightarrow> AttributeSyntax list parse_op" where
  "ReadAttributeList k =
     loop_p k (\<lambda>attributes. bind_p can_consume_p (\<lambda>can. bind_p current_p (\<lambda>current.
       if can \<and> tok_Type current = Pn OpenSquare then
         bind_p (ReadAttribute k) (\<lambda>attr. continue_p (attributes @ [attr]))
       else stop_p attributes))) []"

definition expectedOrder :: "TokenType list" where
  "expectedOrder = [Md PublicKeyword, Md PrivateKeyword, Md ProtectedKeyword, Md InternalKeyword,
     Md ExportKeyword, Md StaticKeyword, Md AsyncKeyword, Md ExternKeyword]"

fun index_of :: "'a \<Rightarrow> 'a list \<Rightarrow> nat" where
  "index_of x [] = 0"
| "index_of x (y # ys) = (if x = y then 0 else Suc (index_of x ys))"

definition ReadMemberModifiers :: "nat \<Rightarrow> SyntaxToken list parse_op" where
  "ReadMemberModifiers k =
     loop_p k (\<lambda>(currentOrderIndex, modifiers). bind_p can_consume_p (\<lambda>can. bind_p current_p (\<lambda>current.
       let modifierIndex = index_of (tok_Type current) expectedOrder in
       if \<not> (can \<and> tok_Type current \<in> set expectedOrder) then stop_p modifiers
       else if tok_Type current \<in> tok_Type ` set modifiers then
         then_p (ReportError_p current ''Duplicate modifier'')
           (then_p consume_p (continue_p (currentOrderIndex, modifiers)))
       else then_p consume_p
         (if modifierIndex < currentOrderIndex then
            then_p (ReportError_p current ''Modifier out of order'')
              (continue_p (currentOrderIndex, modifiers @ [current]))
          else continue_p (modifierIndex + 1, modifiers @ [current]))))) (0, [])"

section \<open>Names, constraints and bodies\<close>

definition read_name :: "nat \<Rightarrow> SyntaxToken parse_op" where
  "read_name maxSkips =
     bind_p (TryMatchIdentifier maxSkips) (\<lambda>found.
       if found then take_p else return_p (missing_token (Gen Identifier) [] TextLocation_default))"

definition read_generics :: "nat \<Rightarrow> SyntaxToken list option \<Rightarrow> SyntaxToken list option parse_op" where
  "read_generics k generics =
     bind_p current_p (\<lambda>current.
       if tok_Type current = Op LessOperator then bind_p (ReadTypeParametersList k) (\<lambda>types. return_p (Some types))
       else return_p generics)"

definition read_where_clauses :: "nat \<Rightarrow> WhereClauseSyntax list parse_op" where
  "read_where_clauses k =
     loop_p k (\<lambda>clauses. bind_p can_consume_p (\<lambda>can. bind_p current_p (\<lambda>current.
       if can \<and> tok_Type current = St WhereKeyword then
         bind_p (ReadWhereClause k) (\<lambda>clause. continue_p (clauses @ [clause]))
       else stop_p clauses))) []"

text \<open>The common start of type declarations, added to the head of \<open>info\<close>.\<close>

definition read_type_head :: "nat \<Rightarrow> MemberDeclarationInfo \<Rightarrow> MemberHead parse_op" where
  "read_type_head k info =
     bind_p (read_name 5) (\<lambda>identifier.
     bind_p (read_generics k (inf_Generics info)) (\<lambda>generics.
     bind_p (read_where_clauses k) (\<lambda>clauses.
       return_p ((member_head info)\<lparr>hd_IdentifierToken := identifier, hd_TypeParameters := generics,
         hd_WhereClauses := clauses\<rparr>))))"

definition ReadBaseInterfacesList :: "nat \<Rightarrow> type_node list parse_op" where
  "ReadBaseInterfacesList k =
     loop_p k (\<lambda>interfaces. bind_p can_consume_p (\<lambda>can. bind_p current_p (\<lambda>current.
       if \<not> can then stop_p interfaces
       else if tok_Type current \<noteq> Gen Identifier then
         then_p (ReportError_p current ''Expected interface name'') (stop_p interfaces)
       else bind_p (ReadType k True) (\<lambda>type.
         let interfaces = (if type = NullType then interfaces else interfaces @ [type]) in
         bind_p current_p (\<lambda>current.
           if tok_Type current = Pn Comma then then_p consume_p (continue_p interfaces)
           else stop_p interfaces))))) []"

definition read_bases :: "nat \<Rightarrow> type_node list parse_op" where
  "read_bases k =
     bind_p current_p (\<lambda>current.
       if tok_Type current = Pn Colon then then_p consume_p (ReadBaseInterfacesList k) else return_p [])"

text \<open>A body in braces, or a semicolon, which is left for the caller.\<close>

definition read_body_if_open :: "string \<Rightarrow> 'a \<Rightarrow> 'a parse_op \<Rightarrow> 'a parse_op" where
  "read_body_if_open message none body =
     bind_p (TryMatch [Pn OpenBrace, Pn Semicolon] (Some message) 5) (\<lambda>found. bind_p current_p (\<lambda>current.
       if found \<and> tok_Type current = Pn OpenBrace then body else return_p none))"

fun block_openBrace :: "node \<Rightarrow> SyntaxToken" where
  "block_openBrace (StatementsBlockSyntax semicolon openBrace closeBrace isExpressionBody statements) = openBrace"
| "block_openBrace _ = SyntaxToken_default"

text \<open>
  The end of a method: a semicolon instead of a body, or a body, with a semicolon after it unless it
  is a block in braces.
\<close>

definition read_member_body :: "nat \<Rightarrow> node parse_op" where
  "read_member_body k =
     bind_p current_p (\<lambda>current.
       if tok_Type current = Pn Semicolon then then_p consume_p (return_p NullNode)
       else bind_p (ReadMethodBody (parse_code k)) (\<lambda>body.
         if body \<noteq> NullNode \<and> tok_Type (block_openBrace body) \<noteq> Pn OpenBrace then
           bind_p (Expect (Pn Semicolon) missing_semicolon) (\<lambda>_. return_p body)
         else return_p body))"

definition read_return_type :: "nat \<Rightarrow> string \<Rightarrow> type_node \<Rightarrow> type_node parse_op" where
  "read_return_type k message returnType =
     bind_p current_p (\<lambda>current.
       if tok_Type current = Op ArrowOperator then then_p consume_p (ReadType k True)
       else then_p (ReportError_p current
           (if tok_Type current = Gen Identifier then ''Expected -> before return type.''
            else if tok_Type current = Pn OpenBrace then ''Expected arrow and defined return type before block.''
            else message))
         (return_p returnType))"

section \<open>Methods and constructors\<close>

definition ReadConstructorDeclaration :: "nat \<Rightarrow> MemberDeclarationInfo \<Rightarrow> member_node parse_op" where
  "ReadConstructorDeclaration k info =
     bind_p (ReadParametersList k) (\<lambda>parameters.
     bind_p current_p (\<lambda>current.
     then_p
       (when_p (tok_Type current = Op ArrowOperator)
          (then_p (ReportError_p current ''Constructors cannot declare a return type'')
            (then_p consume_p (bind_p current_p (\<lambda>current.
               if tok_Type current \<noteq> Pn OpenBrace \<and> tok_Type current \<noteq> Pn Semicolon then
                 bind_p (ReadType k True) (\<lambda>_. return_p ())
               else return_p ())))))
       (bind_p (read_member_body k) (\<lambda>body.
          return_p (ConstructorDeclarationSyntax (member_head info) parameters body)))))"

definition async_modifier :: "SyntaxToken list \<Rightarrow> SyntaxToken" where
  "async_modifier modifiers =
     (case find (\<lambda>t. tok_Type t = Md AsyncKeyword) modifiers of None \<Rightarrow> SyntaxToken_default | Some t \<Rightarrow> t)"

definition ReadMethodDeclaration :: "nat \<Rightarrow> MemberDeclarationInfo \<Rightarrow> member_node parse_op" where
  "ReadMethodDeclaration k info =
     bind_p (ReadParametersList k) (\<lambda>parameters.
     bind_p (read_return_type k ''Function must have a return type.'' (inf_ReturnType info)) (\<lambda>returnType.
     bind_p (read_where_clauses k) (\<lambda>clauses.
     bind_p (read_member_body k) (\<lambda>body.
       return_p (MethodDeclarationSyntax ((member_head info)\<lparr>hd_WhereClauses := clauses\<rparr>)
         (async_modifier (inf_Modifiers info)) parameters returnType body)))))"

definition operator_token :: "SyntaxToken \<Rightarrow> SyntaxToken" where
  "operator_token token =
     (if tok_Type token = Gen Identifier then
        (let mapped = GetTokenTypeFromOperatorName (tok_Word token) in
         if mapped \<noteq> Gen Unknown then token\<lparr>tok_Type := mapped\<rparr> else token)
      else token)"

definition ReadOperatorDeclaration :: "nat \<Rightarrow> MemberDeclarationInfo \<Rightarrow> member_node parse_op" where
  "ReadOperatorDeclaration k info =
     bind_p current_p (\<lambda>current.
     let operatorToken = operator_token current; overloadable = IsOverloadableOperator (tok_Type operatorToken) in
     then_p (when_p (\<not> overloadable) (ReportError_p operatorToken ''Expected overloadable operator token''))
       (let operatorToken = (if overloadable then operatorToken else missing_token (Gen Unknown) [] TextLocation_default) in
        then_p consume_p
         (bind_p (ReadParametersList k) (\<lambda>parameters.
          bind_p (read_return_type k ''Operator must have a return type.'' (inf_ReturnType info)) (\<lambda>returnType.
          bind_p (read_where_clauses k) (\<lambda>clauses.
          bind_p (read_member_body k) (\<lambda>body.
            return_p (OperatorDeclarationSyntax
              ((member_head info)\<lparr>hd_IdentifierToken := operatorToken, hd_WhereClauses := clauses\<rparr>)
              operatorToken parameters returnType body))))))))"

section \<open>Fields, properties and indexers\<close>

definition ReadFieldDeclaration :: "nat \<Rightarrow> MemberDeclarationInfo \<Rightarrow> member_node parse_op" where
  "ReadFieldDeclaration k info =
     bind_p current_p (\<lambda>current.
       let field = FieldDeclarationSyntax (member_head info) (inf_ReturnType info) in
       if tok_Type current = Op AssignOperator then
         then_p consume_p (bind_p (read_expression (parse_code k)) (\<lambda>initializer.
         bind_p (Expect (Pn Semicolon) ''Expected ; token'') (\<lambda>_. return_p (field initializer))))
       else if tok_Type current = Pn Semicolon then then_p consume_p (return_p (field NullNode))
       else bind_p (Expect (Pn Semicolon) ''Expected ; token'') (\<lambda>_. return_p (field NullNode)))"

definition ReadComputedPropertyDeclaration :: "nat \<Rightarrow> MemberDeclarationInfo \<Rightarrow> member_node parse_op" where
  "ReadComputedPropertyDeclaration k info =
     bind_p (Expect (Op ArrowOperator) ''Expected =>'') (\<lambda>_.
     bind_p (read_expression (parse_code k)) (\<lambda>initializer.
     bind_p (Expect (Pn Semicolon) ''Expected ; token'') (\<lambda>_.
       return_p (PropertyDeclarationSyntax (member_head info) (inf_ReturnType info) None None initializer))))"

text \<open>
  The \<^verbatim>\<open>switch\<close> after the keyword of an accessor looks at the token that was current before \<^verbatim>\<open>TryMatch\<close>
  skipped to one it expected.
\<close>

definition ReadAccessorDeclaration :: "nat \<Rightarrow> AccessorDeclarationSyntax parse_op" where
  "ReadAccessorDeclaration k =
     bind_p (ReadAttributeList k) (\<lambda>attributes.
     let accessor = (\<lambda>modifiers keyword body. \<lparr>acc_Attributes = attributes, acc_Modifiers = modifiers,
           acc_KeywordToken = keyword, acc_Body = body\<rparr>) in
     bind_p can_consume_p (\<lambda>can.
       if \<not> can then
         then_p (ReportError_p EndOfFile_token ''Unexpected end of file after accessor attributes'')
           (return_p (accessor [] SyntaxToken_default NullNode))
       else bind_p current_p (\<lambda>current.
         bind_p (if IsModifier (tok_Type current) then ReadMemberModifiers k else return_p []) (\<lambda>modifiers.
         bind_p (TryMatch [Md SetKeyword, Md GetKeyword] (Some ''Expected get or set keywprd'') 5) (\<lambda>found.
           if \<not> found then return_p (accessor modifiers SyntaxToken_default NullNode)
           else bind_p take_p (\<lambda>keyword. bind_p current_p (\<lambda>current.
             bind_p (TryMatch [Pn Semicolon, Pn OpenBrace, Op LambdaOperator]
                 (Some ''Expected ;, { or => after accessor keyword'') 5) (\<lambda>found.
               if \<not> found then return_p (accessor modifiers keyword NullNode)
               else if tok_Type current = Pn Semicolon then
                 then_p consume_p (return_p (accessor modifiers keyword NullNode))
               else if tok_Type current = Pn OpenBrace then
                 bind_p (ReadMethodBody (parse_code k)) (\<lambda>body. return_p (accessor modifiers keyword body))
               else if tok_Type current = Op LambdaOperator then
                 bind_p (ReadMethodBody (parse_code k)) (\<lambda>body.
                 bind_p (Expect (Pn Semicolon) missing_semicolon) (\<lambda>_. return_p (accessor modifiers keyword body)))
               else then_p (ReportError_p current ''Expected ;, { or => after accessor keyword'')
                 (then_p consume_p (return_p (accessor modifiers keyword NullNode)))))))))))"

type_synonym accessors = "AccessorDeclarationSyntax option \<times> AccessorDeclarationSyntax option"

definition add_accessor :: "SyntaxToken \<Rightarrow> AccessorDeclarationSyntax \<Rightarrow> accessors \<Rightarrow> accessors parse_op" where
  "add_accessor current accessor = (\<lambda>(getter, setter).
     if tok_Type (acc_KeywordToken accessor) = Md GetKeyword then
       (if getter \<noteq> None then then_p (ReportError_p current ''Duplicate get accessor'') (return_p (getter, setter))
        else return_p (Some accessor, setter))
     else if tok_Type (acc_KeywordToken accessor) = Md SetKeyword then
       (if setter \<noteq> None then then_p (ReportError_p current ''Duplicate set accessor'') (return_p (getter, setter))
        else return_p (getter, Some accessor))
     else then_p (ReportError_p current ''Expected get or set keyword for property accessor'') (return_p (getter, setter)))"

text \<open>The accessors between braces, of a property or of an indexer.\<close>

definition read_accessors :: "nat \<Rightarrow> string \<Rightarrow> accessors parse_op" where
  "read_accessors k what =
     loop_p k (\<lambda>found. bind_p can_consume_p (\<lambda>can. bind_p current_p (\<lambda>current.
       if \<not> can then stop_p found
       else if tok_Type current = Pn CloseBrace then then_p consume_p (stop_p found)
       else if tok_Type current = Gen EndOfFile then
         then_p (ReportError_p current (''Unexpected end of file in '' @ what @ '' - expected }'')) (stop_p found)
       else if IsModifier (tok_Type current) \<or> tok_Type current \<in> {Md GetKeyword, Md SetKeyword, Pn OpenSquare} then
         bind_p (ReadAccessorDeclaration k) (\<lambda>accessor.
         bind_p (add_accessor current accessor found) (\<lambda>found. continue_p found))
       else then_p (ReportError_p current ''Expected accessor declaration or }'')
         (bind_p (TryMatch [Md GetKeyword, Md SetKeyword, Pn CloseBrace] None 5) (\<lambda>matches.
            then_p (when_p (\<not> matches) consume_p) (continue_p found)))))) (None, None)"

definition ReadPropertyDeclaration :: "nat \<Rightarrow> MemberDeclarationInfo \<Rightarrow> member_node parse_op" where
  "ReadPropertyDeclaration k info =
     bind_p (Expect (Pn OpenBrace) ''Expected { for property accessors'') (\<lambda>_.
     bind_p (read_accessors k ''property'') (\<lambda>(getter, setter).
       then_p (when_p (getter = None \<and> setter = None)
           (ReportError_p (inf_Identifier info) ''Property must have at least one accessor (get or set)''))
         (return_p (PropertyDeclarationSyntax (member_head info) (inf_ReturnType info) getter setter NullNode))))"

definition ReadIndexatorDeclaration :: "nat \<Rightarrow> MemberDeclarationInfo \<Rightarrow> member_node parse_op" where
  "ReadIndexatorDeclaration k info =
     bind_p (ReadIndexerParametersList k) (\<lambda>parameters.
     bind_p current_p (\<lambda>current.
     bind_p (if tok_Type current = Pn Colon then then_p consume_p (ReadType k True)
             else then_p (ReportError_p current
                 (if tok_Type current = Gen Identifier then ''Expected : before return type.''
                  else ''Indexer must have a return type.''))
               (return_p (inf_ReturnType info))) (\<lambda>returnType.
     bind_p (Expect (Pn OpenBrace) ''Expected { for indexer accessors'') (\<lambda>_.
     bind_p (read_accessors k ''indexer'') (\<lambda>(getter, setter).
       then_p (when_p (getter = None \<and> setter = None)
           (ReportError_p (inf_Identifier info) ''Indexer must have at least one accessor (get or set)''))
         (return_p (IndexatorDeclarationSyntax (member_head info) parameters returnType getter setter)))))))"

section \<open>Delegates and enumerations\<close>

definition ReadDelegateDeclaration :: "nat \<Rightarrow> MemberDeclarationInfo \<Rightarrow> member_node parse_op" where
  "ReadDelegateDeclaration k info =
     bind_p (read_type_head k info) (\<lambda>head.
     bind_p (ReadParametersList k) (\<lambda>parameters.
     bind_p current_p (\<lambda>current.
     bind_p (if tok_Type current = Op ArrowOperator then then_p consume_p (ReadType k True)
             else return_p (inf_ReturnType info)) (\<lambda>returnType.
     bind_p (Expect (Pn Semicolon) ''Expected ; token'') (\<lambda>_.
       return_p (DelegateDeclarationSyntax head parameters returnType))))))"

definition ReadEnumFieldDeclaration :: "nat \<Rightarrow> (SyntaxToken \<times> node) parse_op" where
  "ReadEnumFieldDeclaration k =
     bind_p current_p (\<lambda>current.
     bind_p (if tok_Type current = Gen Identifier then take_p
             else return_p (missing_token (Gen Identifier) [] TextLocation_default)) (\<lambda>identifier.
     bind_p current_p (\<lambda>current.
       if tok_Type current = Op AssignOperator then
         then_p consume_p (bind_p (read_expression (parse_code k)) (\<lambda>initializer. return_p (identifier, initializer)))
       else return_p (identifier, NullNode))))"

definition ReadEnumBody :: "nat \<Rightarrow> (SyntaxToken \<times> node) list parse_op" where
  "ReadEnumBody k =
     bind_p (Expect (Pn OpenBrace) ''Expected {'') (\<lambda>_.
     loop_p k (\<lambda>fields. bind_p can_consume_p (\<lambda>can. bind_p current_p (\<lambda>current.
       if \<not> can then stop_p fields
       else if tok_Type current = Gen EndOfFile then
         then_p (ReportError_p current ''Unexpected end of file in enum body - expected }'') (stop_p fields)
       else if tok_Type current = Pn CloseBrace then then_p consume_p (stop_p fields)
       else
         bind_p (if tok_Type current = Gen Identifier then
             bind_p (ReadEnumFieldDeclaration k) (\<lambda>field. return_p (fields @ [field]))
           else then_p (ReportError_p current ''Expected enum field identifier'') (then_p consume_p (return_p fields)))
           (\<lambda>fields. bind_p current_p (\<lambda>current.
             if tok_Type current = Pn Comma then then_p consume_p (continue_p fields)
             else if tok_Type current = Pn CloseBrace then then_p consume_p (stop_p fields)
             else if tok_Type current = Gen EndOfFile then
               then_p (ReportError_p current ''Unexpected end of file in enum body - expected }'') (stop_p fields)
             else then_p (ReportError_p current ''Expected , or } after enum field'') (stop_p fields)))))) [])"

definition ReadEnumDeclaration :: "nat \<Rightarrow> MemberDeclarationInfo \<Rightarrow> member_node parse_op" where
  "ReadEnumDeclaration k info =
     bind_p (read_name 5) (\<lambda>identifier.
     bind_p current_p (\<lambda>current.
     bind_p (if tok_Type current = Pn Colon then
               then_p consume_p (bind_p current_p (\<lambda>next.
                 if tok_Type next = Gen Identifier \<and> tok_Word next = L ''flags'' then
                   then_p consume_p (return_p (True, next))
                 else if tok_Type next \<in> {Ty IntegerKeyword, Ty LongKeyword} then
                   then_p consume_p (return_p (False, next))
                 else then_p (ReportError_p next ''Expected flags, int or long after : in enum declaration'')
                   (return_p (False, SyntaxToken_default))))
             else return_p (False, SyntaxToken_default)) (\<lambda>(isFlags, underlying).
     bind_p (read_body_if_open ''Expected enum body { or semicolon ;'' [] (ReadEnumBody k)) (\<lambda>fields.
       return_p (EnumDeclarationSyntax ((member_head info)\<lparr>hd_IdentifierToken := identifier\<rparr>) isFlags underlying fields)))))"

section \<open>Types and members\<close>

text \<open>The argument of \<open>rec\<close> says whether the member is declared in an interface.\<close>

type_synonym member_rec = "bool \<Rightarrow> member_node option parse_op"

definition ReadTypeBody :: "nat \<Rightarrow> member_rec \<Rightarrow> bool \<Rightarrow> member_node list parse_op" where
  "ReadTypeBody k rec inInterface =
     bind_p (Expect (Pn OpenBrace) ''Expected {'') (\<lambda>_.
     loop_p k (\<lambda>(loopGuard, members). bind_p can_consume_p (\<lambda>can. bind_p current_p (\<lambda>current.
     bind_p (get_p (\<lambda>p. Peek_r 0 (ps_Reader p))) (\<lambda>peek.
       if \<not> can then stop_p members
       else if loopGuard + 1 > (10000 :: nat) then
         then_p (ReportError_p current ''Type body parser loop detected'') (stop_p members)
       else if tok_Type current = Gen EndOfFile then
         then_p (ReportError_p current ''Unexpected end of file in type body - expected }'') (stop_p members)
       else if tok_Type current = Pn CloseBrace then then_p consume_p (stop_p members)
       else if IsMemberDeclaration (tok_Type current) (tok_Type peek) then
         bind_p (rec inInterface) (\<lambda>r.
           case r of
             Some pMember \<Rightarrow> continue_p (loopGuard + 1, members @ [pMember])
           | None \<Rightarrow> bind_p (TryMatch [Pn CloseBrace] None 10) (\<lambda>found.
               if found then continue_p (loopGuard + 1, members) else stop_p members))
       else then_p (ReportError_p current ''Unexpected token in type declaration'')
         (bind_p (TryMatch [Pn CloseBrace] None 5) (\<lambda>found.
            then_p (when_p (\<not> found) consume_p) (continue_p (loopGuard + 1, members)))))))) (0, []))"

definition read_type_declaration ::
  "nat \<Rightarrow> member_rec \<Rightarrow> string \<Rightarrow> (MemberHead \<Rightarrow> type_node list \<Rightarrow> member_node list \<Rightarrow> member_node)
     \<Rightarrow> MemberDeclarationInfo \<Rightarrow> member_node parse_op" where
  "read_type_declaration k rec message syntax info =
     bind_p (read_type_head k info) (\<lambda>head.
     bind_p (read_bases k) (\<lambda>bases.
     bind_p (read_body_if_open message [] (ReadTypeBody k rec False)) (\<lambda>members.
       return_p (syntax head bases members))))"

definition ReadClassDeclaration :: "nat \<Rightarrow> member_rec \<Rightarrow> MemberDeclarationInfo \<Rightarrow> member_node parse_op" where
  "ReadClassDeclaration k rec =
     read_type_declaration k rec ''Expected class body { or semicolon ;'' ClassDeclarationSyntax"

definition ReadStructDeclaration :: "nat \<Rightarrow> member_rec \<Rightarrow> MemberDeclarationInfo \<Rightarrow> member_node parse_op" where
  "ReadStructDeclaration k rec =
     read_type_declaration k rec ''Expected struct body { or semicolon ;'' StructDeclarationSyntax"

definition ReadInterfaceDeclaration :: "nat \<Rightarrow> member_rec \<Rightarrow> MemberDeclarationInfo \<Rightarrow> member_node parse_op" where
  "ReadInterfaceDeclaration k rec info =
     bind_p (read_type_head k info) (\<lambda>head.
     bind_p (read_body_if_open ''Expected interface body { or semicolon ;'' [] (ReadTypeBody k rec True)) (\<lambda>members.
       return_p (InterfaceDeclarationSyntax head members)))"

abbreviation some_member :: "member_node parse_op \<Rightarrow> member_node option parse_op" where
  "some_member r \<equiv> bind_p r (\<lambda>syntax. return_p (Some syntax))"

text \<open>A member that starts with its name: a field or a property, or a method without \<^verbatim>\<open>func\<close>.\<close>

definition read_named_member :: "nat \<Rightarrow> bool \<Rightarrow> MemberDeclarationInfo \<Rightarrow> member_node option parse_op" where
  "read_named_member k inInterface info =
     bind_p take_p (\<lambda>identifier. bind_p current_p (\<lambda>next.
     let info = info\<lparr>inf_Identifier := identifier\<rparr> in
     if tok_Type next = Pn OpenCurl then
       then_p (ReportError_p identifier ''Missed fn keyword'') (some_member (ReadMethodDeclaration k info))
     else bind_p (TryMatch [Pn Colon] (Some ''Expected : after identifier'') 3) (\<lambda>found.
       if \<not> found then return_p None
       else then_p consume_p (bind_p (ReadType k True) (\<lambda>type. bind_p current_p (\<lambda>next.
         let info = info\<lparr>inf_ReturnType := type\<rparr> in
         if type = NullType then then_p (ReportError_p next ''Expected type after :'') (return_p None)
         else if tok_Type next = Pn OpenBrace then some_member (ReadPropertyDeclaration k info)
         else if tok_Type next = Op ArrowOperator then some_member (ReadComputedPropertyDeclaration k info)
         else if tok_Type next = Op AssignOperator \<or> tok_Type next = Pn Semicolon then
           (if inInterface then
              if tok_Type next = Op AssignOperator then
                then_p (ReportError_p next ''Interfaces cannot contain fields'') (return_p None)
              else then_p consume_p (return_p (Some (PropertyDeclarationSyntax (member_head info) type
                (Some \<lparr>acc_Attributes = [], acc_Modifiers = [],
                   acc_KeywordToken = SyntaxToken_of (Md GetKeyword) (L ''get'') (tok_Location identifier),
                   acc_Body = NullNode\<rparr>) None NullNode)))
            else some_member (ReadFieldDeclaration k info))
         else then_p (ReportError_p next ''Expected {, =>, = or ; after type'') (return_p None)))))))"

definition ReadMemberDeclaration :: "nat \<Rightarrow> member_rec \<Rightarrow> bool \<Rightarrow> member_node option parse_op" where
  "ReadMemberDeclaration k rec inInterface =
     bind_p (ReadAttributeList k) (\<lambda>attributes.
     bind_p (ReadMemberModifiers k) (\<lambda>modifiers.
     bind_p can_consume_p (\<lambda>can. bind_p current_p (\<lambda>current.
     let type = tok_Type current;
         info = \<lparr>inf_Attributes = attributes, inf_Modifiers = modifiers, inf_DeclareType = SyntaxToken_default,
                 inf_Identifier = SyntaxToken_default, inf_ReturnType = NullType, inf_Generics = None\<rparr> in
     if \<not> can then return_p None
     else if IsTypeKeyword type then
       (let info = info\<lparr>inf_DeclareType := current\<rparr> in
        then_p consume_p
          (if type = Dc ClassKeyword then some_member (ReadClassDeclaration k rec info)
           else if type = Dc StructKeyword then some_member (ReadStructDeclaration k rec info)
           else if type = Dc InterfaceKeyword then some_member (ReadInterfaceDeclaration k rec info)
           else if type = Ty DelegateKeyword then some_member (ReadDelegateDeclaration k info)
           else if type = Dc EnumKeyword then some_member (ReadEnumDeclaration k info)
           else then_p (ReportError_p current ''Unsupported member keyword'') (return_p None)))
     else if type = Dc FunctionKeyword then
       then_p consume_p (bind_p (read_name 3) (\<lambda>identifier.
       bind_p (read_generics k None) (\<lambda>generics.
         some_member (ReadMethodDeclaration k (info\<lparr>inf_Identifier := identifier, inf_Generics := generics\<rparr>)))))
     else if type = Dc OperatorKeyword then then_p consume_p (some_member (ReadOperatorDeclaration k info))
     else if type = Dc InitKeyword then
       then_p consume_p (some_member (ReadConstructorDeclaration k
         (info\<lparr>inf_Identifier := SyntaxToken_of (Dc InitKeyword) (L ''init'') TextLocation_default\<rparr>)))
     else if type = Md IndexerKeyword then
       then_p consume_p (some_member (ReadIndexatorDeclaration k (info\<lparr>inf_Identifier := current\<rparr>)))
     else if type = Gen Identifier then read_named_member k inInterface info
     else if IsPredefinedType type then
       then_p (ReportError_p current ''Expected func keyword. In ShardScript methods are declared as func Name() -> Type'')
         (return_p None)
     else then_p (ReportError_p current ''Expected member declaration'') (then_p consume_p (return_p None))))))"

primrec parse_member :: "nat \<Rightarrow> bool \<Rightarrow> member_node option parse_op" where
  "parse_member 0 inInterface = (\<lambda>p. None)"
| "parse_member (Suc k) inInterface = ReadMemberDeclaration k (parse_member k) inInterface"

section \<open>Directives and compilation units\<close>

definition ReadUsingDirective :: "nat \<Rightarrow> SyntaxToken list parse_op" where
  "ReadUsingDirective k =
     bind_p (Expect (Dc UsingKeyword) ''Exprected using keyword'') (\<lambda>_.
     loop_p k (\<lambda>tokens. bind_p can_consume_p (\<lambda>can.
       if \<not> can then stop_p tokens
       else bind_p (TryMatchIdentifier 3) (\<lambda>found.
         if \<not> found then
           bind_p (TryMatch [Pn Semicolon] None 10) (\<lambda>found. then_p (when_p found consume_p) (stop_p tokens))
         else bind_p take_p (\<lambda>identifier.
           let tokens = tokens @ [identifier] in
           bind_p (TryMatch [Pn Delimeter, Pn Semicolon]
               (Some ''Expected separator token . or closing token ;'') 3) (\<lambda>found.
             if \<not> found then stop_p tokens
             else bind_p take_p (\<lambda>separatorToken.
               if tok_Type separatorToken = Pn Semicolon then stop_p tokens else continue_p tokens)))))) [])"

definition ReadNamespaceDeclaration :: "nat \<Rightarrow> SyntaxToken list parse_op" where
  "ReadNamespaceDeclaration k =
     bind_p (Expect (Dc NamespaceKeyword) ''Expected namespace keyword'') (\<lambda>_.
     bind_p (read_name 5) (\<lambda>identifier.
     bind_p (loop_p k (\<lambda>tokens. bind_p current_p (\<lambda>current.
         if tok_Type current \<noteq> Pn Delimeter then stop_p tokens
         else then_p consume_p (bind_p (TryMatchIdentifier 5) (\<lambda>found.
           if \<not> found then stop_p tokens
           else bind_p take_p (\<lambda>identifier. continue_p (tokens @ [identifier])))))) [identifier]) (\<lambda>tokens.
     bind_p (Expect (Pn Semicolon) ''Expected ; after namespace declaration'') (\<lambda>_. return_p tokens))))"

definition CanStartCompilationUnit :: "SyntaxToken \<Rightarrow> bool" where
  "CanStartCompilationUnit token \<longleftrightarrow>
     tok_Type token \<in> {Dc UsingKeyword, Dc NamespaceKeyword, Dc FunctionKeyword, Dc InitKeyword, Pn OpenSquare}
     \<or> IsModifier (tok_Type token) \<or> IsMemberKeyword (tok_Type token) \<or> IsTypeKeyword (tok_Type token)"

fun SynchronizeToNextTopLevel_r :: "nat \<Rightarrow> nat \<Rightarrow> reader \<Rightarrow> reader" where
  "SynchronizeToNextTopLevel_r braceDepth parenDepth [] = []"
| "SynchronizeToNextTopLevel_r braceDepth parenDepth (token # r) =
     (if braceDepth = 0 \<and> parenDepth = 0 \<and> CanStartCompilationUnit token then token # r
      else if tok_Type token = Pn OpenBrace then SynchronizeToNextTopLevel_r (braceDepth + 1) parenDepth r
      else if tok_Type token = Pn CloseBrace then SynchronizeToNextTopLevel_r (braceDepth - 1) parenDepth r
      else if tok_Type token = Pn OpenCurl then SynchronizeToNextTopLevel_r braceDepth (parenDepth + 1) r
      else if tok_Type token = Pn CloseCurl then SynchronizeToNextTopLevel_r braceDepth (parenDepth - 1) r
      else SynchronizeToNextTopLevel_r braceDepth parenDepth r)"

text \<open>One round of the loop of \<^verbatim>\<open>ReadCompilationUnit\<close>, on a token that is there.\<close>

definition read_unit_part :: "nat \<Rightarrow> CompilationUnitSyntax \<Rightarrow> CompilationUnitSyntax parse_op" where
  "read_unit_part k unit =
     bind_p current_p (\<lambda>token. bind_p (get_p (\<lambda>p. Peek_r 0 (ps_Reader p))) (\<lambda>peek.
       if tok_Type token = Dc UsingKeyword then
         then_p (when_p (unit_Namespace unit \<noteq> None \<or> unit_Members unit \<noteq> [])
             (ReportError_p token ''Using directive must be declared at the top of the compilation unit''))
           (bind_p (ReadUsingDirective k) (\<lambda>directive.
              return_p (unit\<lparr>unit_Usings := unit_Usings unit @ [directive]\<rparr>)))
       else if tok_Type token = Dc NamespaceKeyword then
         then_p (when_p (unit_Members unit \<noteq> [])
             (ReportError_p token ''Namespace directive must be declared before any member declarations''))
           (if unit_Namespace unit \<noteq> None then
              then_p (ReportError_p token ''Only one namespace declaration is allowed per compilation unit'')
                (then_p consume_p (then_p (skip_until (\<lambda>t. t = Pn Semicolon)) (then_p consume_p (return_p unit))))
            else bind_p (ReadNamespaceDeclaration k) (\<lambda>tokens. return_p (unit\<lparr>unit_Namespace := Some tokens\<rparr>)))
       else if IsMemberDeclaration (tok_Type token) (tok_Type peek) then
         bind_p (parse_member k False) (\<lambda>r.
           case r of
             None \<Rightarrow> then_p (modify_p (update_reader (SynchronizeToNextTopLevel_r 0 0))) (return_p unit)
           | Some pMember \<Rightarrow> return_p (unit\<lparr>unit_Members := unit_Members unit @ [pMember]\<rparr>))
       else then_p (ReportError_p token ''Unknown token in compilation unit declaration'')
         (then_p consume_p (return_p unit))))"

definition ReadCompilationUnit :: "nat \<Rightarrow> CompilationUnitSyntax parse_op" where
  "ReadCompilationUnit k =
     then_p (modify_p (\<lambda>p. p\<lparr>ps_ExpressionDepth := 0, ps_OperatorsInExpression := 0, ps_BlockDepth := 0,
         ps_LinkedExpressionDepth := 0\<rparr>))
       (loop_p k (\<lambda>(loopGuard, unit). bind_p can_consume_p (\<lambda>can. bind_p current_p (\<lambda>current.
          if \<not> can then stop_p unit
          else if loopGuard + 1 > (10000 :: nat) then
            then_p (ReportError_p current ''Parser loop detected - aborting compilation unit'') (stop_p unit)
          else bind_p (read_unit_part k unit) (\<lambda>unit. continue_p (loopGuard + 1, unit)))))
        (0, \<lparr>unit_Usings = [], unit_Namespace = None, unit_Members = []\<rparr>))"

definition FromSourceProvider :: "nat \<Rightarrow> CompilationUnitSyntax list \<Rightarrow> CompilationUnitSyntax list parse_op" where
  "FromSourceProvider k units = bind_p (ReadCompilationUnit k) (\<lambda>unit. return_p (units @ [unit]))"

end
