(* ===== verification/ExpressionGrammar.thy ===== *)
theory ExpressionGrammar
  imports DeclarationParsing
begin

text \<open>
  The grammar of expressions, as a relation between expressions and lists of tokens, and what it means
  that the parser reads something: for all large enough fuel, with the same result. The lemmas follow
  the functions of the parser through tokens that are what they expect.
\<close>

section \<open>Reads\<close>

text \<open>\<open>F\<close> is an operation with its fuel; \<open>leads F p x q\<close>: from some fuel on it reads \<open>x\<close> and leaves \<open>q\<close>.\<close>

definition leads_p :: "(nat \<Rightarrow> 'a parse_op) \<Rightarrow> SourceParser \<Rightarrow> 'a \<Rightarrow> SourceParser \<Rightarrow> bool" where
  "leads_p F p x q \<longleftrightarrow> (\<exists>N. \<forall>n\<ge>N. F n p = Some (x, q))"

lemma leads_pI: "(\<And>n. F n p = Some (x, q)) \<Longrightarrow> leads_p F p x q"
  by (auto simp: leads_p_def)

lemma leads_p_cong: "leads_p F p x q \<Longrightarrow> (\<And>n. G n p = F n p) \<Longrightarrow> leads_p G p x q"
  by (simp add: leads_p_def)

lemma leads_return [intro]: "leads_p (\<lambda>n. return_p x) p x p"
  by (rule leads_pI) simp

lemma leads_bind:
  assumes "leads_p F p x q" and "leads_p (\<lambda>n. G n x) q y r"
  shows "leads_p (\<lambda>n. bind_p (F n) (G n)) p y r"
proof -
  obtain N M where "\<forall>n\<ge>N. F n p = Some (x, q)" "\<forall>n\<ge>M. G n x q = Some (y, r)"
    using assms by (auto simp: leads_p_def)
  then have "\<forall>n\<ge>max N M. bind_p (F n) (G n) p = Some (y, r)" by (simp add: bind_p_def)
  then show ?thesis unfolding leads_p_def by blast
qed

lemma leads_get: "leads_p (\<lambda>n. G n (e p)) p y r \<Longrightarrow> leads_p (\<lambda>n. bind_p (get_p e) (G n)) p y r"
  by (simp add: leads_p_def)

lemma leads_modify: "leads_p G (g p) y r \<Longrightarrow> leads_p (\<lambda>n. then_p (modify_p g) (G n)) p y r"
  by (simp add: leads_p_def)

lemma leads_then:
  "leads_p F p () q \<Longrightarrow> leads_p G q y r \<Longrightarrow> leads_p (\<lambda>n. then_p (F n) (G n)) p y r"
  unfolding then_p_def by (rule leads_bind)

text \<open>The rounds of a loop, whose number is bounded by the same fuel.\<close>

inductive loops_p ::
  "(nat \<Rightarrow> 'a \<Rightarrow> ('a + 'b) parse_op) \<Rightarrow> 'a \<Rightarrow> SourceParser \<Rightarrow> 'b \<Rightarrow> SourceParser \<Rightarrow> bool"
  for body where
  loops_stop: "leads_p (\<lambda>n. body n a) p (Inr b) q \<Longrightarrow> loops_p body a p b q"
| loops_round: "leads_p (\<lambda>n. body n a) p (Inl a') p' \<Longrightarrow> loops_p body a' p' b q \<Longrightarrow> loops_p body a p b q"

lemma loops_bounded:
  "loops_p body a p b q \<Longrightarrow> \<exists>N m. \<forall>n\<ge>N. \<forall>k\<ge>m. loop_p k (body n) a p = Some (b, q)"
proof (induction rule: loops_p.induct)
  case (loops_stop a p b q)
  then obtain N where N: "\<forall>n\<ge>N. body n a p = Some (Inr b, q)" by (auto simp: leads_p_def)
  have "loop_p k (body n) a p = Some (b, q)" if "n \<ge> N" "k \<ge> 1" for n k
    using that N by (cases k) (simp_all add: bind_p_def)
  then show ?case by blast
next
  case (loops_round a p a' p' b q)
  then obtain N M m where N: "\<forall>n\<ge>N. body n a p = Some (Inl a', p')"
    and M: "\<forall>n\<ge>M. \<forall>k\<ge>m. loop_p k (body n) a' p' = Some (b, q)"
    by (auto simp: leads_p_def)
  have "loop_p k (body n) a p = Some (b, q)" if "n \<ge> max N M" "k \<ge> Suc m" for n k
    using that N M by (cases k) (simp_all add: bind_p_def)
  then show ?case by blast
qed

lemma leads_loop:
  assumes "loops_p body a p b q" shows "leads_p (\<lambda>n. loop_p n (body n) a) p b q"
proof -
  obtain N m where "\<forall>n\<ge>N. \<forall>k\<ge>m. loop_p k (body n) a p = Some (b, q)"
    using loops_bounded [OF assms] by blast
  then have "\<forall>n\<ge>max N m. loop_p n (body n) a p = Some (b, q)" by simp
  then show ?thesis unfolding leads_p_def by blast
qed

abbreviation reads :: "code_call \<Rightarrow> SourceParser \<Rightarrow> node \<Rightarrow> SourceParser \<Rightarrow> bool" where
  "reads call \<equiv> leads_p (\<lambda>n. parse_code n call)"

lemma readsI:
  assumes "leads_p (\<lambda>n. code_round n (parse_code n) call) p x q" shows "reads call p x q"
proof -
  obtain N where N: "\<forall>n\<ge>N. code_round n (parse_code n) call p = Some (x, q)"
    using assms by (auto simp: leads_p_def)
  have "parse_code n call p = Some (x, q)" if "n \<ge> Suc N" for n
    using that N by (cases n) simp_all
  then show ?thesis by (auto simp: leads_p_def)
qed

section \<open>Tokens\<close>

text \<open>\<open>at p ts c\<close>: the parser in front of the tokens \<open>ts\<close>, with \<open>c\<close> operators counted.\<close>

definition at_p :: "SourceParser \<Rightarrow> reader \<Rightarrow> nat \<Rightarrow> SourceParser" where
  "at_p p ts c = p\<lparr>ps_Reader := ts, ps_OperatorsInExpression := c\<rparr>"

lemma at_p_simps [simp]:
  "ps_Reader (at_p p ts c) = ts" "ps_OperatorsInExpression (at_p p ts c) = c"
  "ps_ExpressionDepth (at_p p ts c) = ps_ExpressionDepth p" "ps_BlockDepth (at_p p ts c) = ps_BlockDepth p"
  "ps_LinkedExpressionDepth (at_p p ts c) = ps_LinkedExpressionDepth p"
  "ps_Diagnostics (at_p p ts c) = ps_Diagnostics p"
  "at_p (at_p p ts c) us d = at_p p us d"
  "(at_p p ts c)\<lparr>ps_Reader := us\<rparr> = at_p p us c"
  "(at_p p ts c)\<lparr>ps_OperatorsInExpression := d\<rparr> = at_p p ts d"
  by (simp_all add: at_p_def)

lemma at_p_self: "at_p p (ps_Reader p) (ps_OperatorsInExpression p) = p"
  by (simp add: at_p_def)

lemma reader_simps [simp]:
  "CanConsume_r (t # ts)" "Current_r (t # ts) = t" "Consume_r (t # ts) = ts" "\<not> CanConsume_r []"
  by (simp_all add: CanConsume_r_def Current_r_def Consume_r_def)

lemma leads_consume: "leads_p G (at_p p ts c) y r \<Longrightarrow> leads_p (\<lambda>n. then_p consume_p (G n)) (at_p p (t # ts) c) y r"
  unfolding consume_p_def by (rule leads_modify) simp

lemma leads_take: "leads_p (\<lambda>n. G n t) (at_p p ts c) y r \<Longrightarrow> leads_p (\<lambda>n. bind_p take_p (G n)) (at_p p (t # ts) c) y r"
  by (rule leads_bind [where x = t and q = "at_p p ts c"]) (simp_all add: leads_p_def take_p_def consume_p_def)

lemma leads_Expect:
  "tok_Type t = kind \<Longrightarrow> leads_p (\<lambda>n. G n t) (at_p p ts c) y r
     \<Longrightarrow> leads_p (\<lambda>n. bind_p (Expect kind message) (G n)) (at_p p (t # ts) c) y r"
  by (rule leads_bind [where x = t and q = "at_p p ts c"]) (simp_all add: leads_p_def Expect_def consume_p_def)

lemma leads_TryMatch:
  "tok_Type t \<in> set types \<Longrightarrow> leads_p (\<lambda>n. G n True) (at_p p (t # ts) c) y r
     \<Longrightarrow> leads_p (\<lambda>n. bind_p (TryMatch types message skips) (G n)) (at_p p (t # ts) c) y r"
  by (rule leads_bind [where x = True and q = "at_p p (t # ts) c"]) (simp_all add: leads_p_def TryMatch_def Matches_def)

text \<open>A depth guard: reading inside it, one deeper.\<close>

definition deeper_e :: "SourceParser \<Rightarrow> SourceParser" where
  "deeper_e p = p\<lparr>ps_ExpressionDepth := Suc (ps_ExpressionDepth p)\<rparr>"

definition deeper_l :: "SourceParser \<Rightarrow> SourceParser" where
  "deeper_l p = p\<lparr>ps_LinkedExpressionDepth := Suc (ps_LinkedExpressionDepth p)\<rparr>"

lemma depth_simps [simp]:
  "ps_ExpressionDepth (deeper_e p) = Suc (ps_ExpressionDepth p)"
  "ps_LinkedExpressionDepth (deeper_e p) = ps_LinkedExpressionDepth p"
  "ps_ExpressionDepth (deeper_l p) = ps_ExpressionDepth p"
  "ps_LinkedExpressionDepth (deeper_l p) = Suc (ps_LinkedExpressionDepth p)"
  by (simp_all add: deeper_e_def deeper_l_def)

lemma deeper_at:
  "deeper_e (at_p p ts c) = at_p (deeper_e p) ts c" "deeper_l (at_p p ts c) = at_p (deeper_l p) ts c"
  by (simp_all add: deeper_e_def deeper_l_def at_p_def)

lemma depth_updates [simp]:
  "ps_ExpressionDepth_update Suc (at_p p ts c) = at_p (deeper_e p) ts c"
  "ps_LinkedExpressionDepth_update Suc (at_p p ts c) = at_p (deeper_l p) ts c"
  "ps_ExpressionDepth_update (\<lambda>d. d - Suc 0) (at_p (deeper_e p) ts c) = at_p p ts c"
  "ps_LinkedExpressionDepth_update (\<lambda>d. d - Suc 0) (at_p (deeper_l p) ts c) = at_p p ts c"
  by (cases p, simp add: at_p_def deeper_e_def deeper_l_def)+

lemma leads_expression_depth:
  assumes "leads_p F (at_p (deeper_e p) ts c) x (at_p (deeper_e p) us d)"
  shows "leads_p (\<lambda>n. with_depth ps_ExpressionDepth_update (F n)) (at_p p ts c) x (at_p p us d)"
  unfolding with_depth_def
  by (rule leads_modify, rule leads_bind [where x = x and q = "at_p (deeper_e p) us d"])
    (use assms in \<open>simp_all add: leads_p_def\<close>)

lemma leads_linked_depth:
  assumes "leads_p F (at_p (deeper_l p) ts c) x (at_p (deeper_l p) us d)"
  shows "leads_p (\<lambda>n. with_depth ps_LinkedExpressionDepth_update (F n)) (at_p p ts c) x (at_p p us d)"
  unfolding with_depth_def
  by (rule leads_modify, rule leads_bind [where x = x and q = "at_p (deeper_l p) us d"])
    (use assms in \<open>simp_all add: leads_p_def\<close>)

section \<open>The grammar\<close>

text \<open>
  A chain is a list of links: a name with its arguments, if it is called, and lists of indices.
\<close>

datatype expr =
    Literal SyntaxToken
  | Chain "link list"
  | Prefix SyntaxToken expr
  | Postfix expr SyntaxToken
  | Infix expr SyntaxToken expr
and link = Link SyntaxToken "expr list option" "expr list list"

definition infix_operators :: "TokenType list" where
  "infix_operators = map Op [AddOperator, SubOperator, MultOperator, DivOperator, ModOperator, PowOperator,
     AddAssignOperator, SubAssignOperator, MultAssignOperator, DivAssignOperator, ModAssignOperator,
     PowAssignOperator, LessOperator, LessOrEqualsOperator, GreaterOperator, GreaterOrEqualsOperator,
     EqualsOperator, NotEqualsOperator, AndOperator, OrOperator, LeftShiftOperator, RightShiftOperator,
     NullCoalescingOperator, RangeOperator, RangeInclusiveOperator, AssignOperator]"

definition postfix_operators :: "TokenType list" where
  "postfix_operators = [Op IncrementOperator, Op DecrementOperator]"

abbreviation precedence_of :: "SyntaxToken \<Rightarrow> nat" where
  "precedence_of t \<equiv> GetOperatorPrecendence (tok_Type t)"

text \<open>
  \<open>derives b d e ts\<close>: the tokens \<open>ts\<close> are the expression \<open>e\<close>, whose operators outside parentheses bind
  stronger than \<open>b\<close>, with parentheses, right operands, arguments and links nested at most \<open>d\<close> deep. All
  operators associate to the left. A name directly in front of \<^verbatim>\<open><\<close> has to be put in parentheses: the
  parser would look for type arguments there.
\<close>

inductive
  derives :: "nat \<Rightarrow> nat \<Rightarrow> expr \<Rightarrow> SyntaxToken list \<Rightarrow> bool" and
  derives_links :: "nat \<Rightarrow> link list \<Rightarrow> SyntaxToken list \<Rightarrow> bool" and
  derives_list :: "TokenType \<Rightarrow> nat \<Rightarrow> expr list \<Rightarrow> SyntaxToken list \<Rightarrow> bool" and
  derives_call :: "nat \<Rightarrow> expr list option \<Rightarrow> SyntaxToken list \<Rightarrow> bool" and
  derives_indices :: "nat \<Rightarrow> expr list list \<Rightarrow> SyntaxToken list \<Rightarrow> bool"
where
  derives_literal: "tok_Type t \<in> set literal_tokens \<Longrightarrow> derives b d (Literal t) [t]"
| derives_chain:
    "tok_Type t \<in> set first_names \<Longrightarrow> derives_links d (Link t args idx # ls) (t # ts)
       \<Longrightarrow> derives b d (Chain (Link t args idx # ls)) (t # ts)"
| derives_prefix: "tok_Type t \<in> set prefix_operators \<Longrightarrow> derives 12 d e ts \<Longrightarrow> derives b d (Prefix t e) (t # ts)"
| derives_postfix:
    "tok_Type t \<in> set postfix_operators \<Longrightarrow> b < 11 \<Longrightarrow> derives 10 d e ts \<Longrightarrow> derives b d (Postfix e t) (ts @ [t])"
| derives_infix:
    "tok_Type t \<in> set infix_operators \<Longrightarrow> b < precedence_of t \<Longrightarrow>
     derives (precedence_of t - 1) (Suc d) l ts \<Longrightarrow> derives (precedence_of t) d r us \<Longrightarrow>
     (tok_Type t = Op LessOperator \<Longrightarrow> tok_Type (last ts) \<notin> set first_names) \<Longrightarrow>
     derives b (Suc d) (Infix l t r) (ts @ t # us)"
| derives_paren:
    "tok_Type opener = Pn OpenCurl \<Longrightarrow> tok_Type closer = Pn CloseCurl \<Longrightarrow> derives 0 d e ts \<Longrightarrow>
     derives b (Suc d) e (opener # ts @ [closer])"
| derives_last:
    "derives_call d args us \<Longrightarrow> derives_indices d idx vs \<Longrightarrow>
     derives_links (Suc d) [Link t args idx] (t # us @ vs)"
| derives_next:
    "derives_call d args us \<Longrightarrow> derives_indices d idx vs \<Longrightarrow> tok_Type dot = Pn Delimeter \<Longrightarrow>
     tok_Type name = Gen Identifier \<Longrightarrow> derives_links d (Link name args' idx' # ls) (name # ts) \<Longrightarrow>
     derives_links (Suc d) (Link t args idx # Link name args' idx' # ls) (t # us @ vs @ dot # name # ts)"
| derives_no_call: "derives_call d None []"
| derives_empty_call:
    "tok_Type opener = Pn OpenCurl \<Longrightarrow> tok_Type closer = Pn CloseCurl \<Longrightarrow> derives_call d (Some []) [opener, closer]"
| derives_some_call:
    "tok_Type opener = Pn OpenCurl \<Longrightarrow> derives_list (Pn CloseCurl) d es ts \<Longrightarrow> derives_call d (Some es) (opener # ts)"
| derives_one: "derives 0 d e ts \<Longrightarrow> tok_Type t = closer \<Longrightarrow> derives_list closer (Suc d) [e] (ts @ [t])"
| derives_more:
    "derives 0 d e ts \<Longrightarrow> tok_Type comma = Pn Comma \<Longrightarrow> derives_list closer (Suc d) es us \<Longrightarrow>
     derives_list closer (Suc d) (e # es) (ts @ comma # us)"
| derives_no_indices: "derives_indices d [] []"
| derives_empty_index:
    "tok_Type opener = Pn OpenSquare \<Longrightarrow> tok_Type closer = Pn CloseSquare \<Longrightarrow> derives_indices d idx us \<Longrightarrow>
     derives_indices d ([] # idx) (opener # closer # us)"
| derives_index:
    "tok_Type opener = Pn OpenSquare \<Longrightarrow> derives_list (Pn CloseSquare) d es ts \<Longrightarrow> derives_indices d idx us \<Longrightarrow>
     derives_indices d (es # idx) (opener # ts @ us)"

text \<open>The tree of an expression.\<close>

definition infix_node :: "SyntaxToken \<Rightarrow> node \<Rightarrow> node \<Rightarrow> node" where
  "infix_node t l r =
     (if tok_Type t = Op RangeOperator \<or> tok_Type t = Op RangeInclusiveOperator
      then RangeExpressionSyntax t l r (tok_Type t = Op RangeInclusiveOperator)
      else BinaryExpressionSyntax t l r)"

fun index_nodes :: "node list list \<Rightarrow> node \<Rightarrow> node" where
  "index_nodes [] previous = previous"
| "index_nodes (is # iss) previous = index_nodes iss (IndexatorExpressionSyntax indexerKeyword previous is)"

primrec node_of :: "expr \<Rightarrow> node" and link_node :: "link \<Rightarrow> node \<Rightarrow> node" where
  "node_of (Literal t) = LiteralExpressionSyntax t"
| "node_of (Chain ls) = fold id (map link_node ls) NullNode"
| "node_of (Prefix t e) = UnaryExpressionSyntax t (node_of e) False"
| "node_of (Postfix e t) = UnaryExpressionSyntax t (node_of e) True"
| "node_of (Infix l t r) = infix_node t (node_of l) (node_of r)"
| "link_node (Link t args idx) = (\<lambda>previous.
     index_nodes (map (map node_of) idx)
       (case map_option (map node_of) args of
          None \<Rightarrow> MemberAccessExpressionSyntax t previous
        | Some as \<Rightarrow> InvokationExpressionSyntax t previous None (Some as)))"

end
