(* ===== verification/ParserRoundTrip.thy ===== *)
theory ParserRoundTrip
  imports ExpressionGrammar
begin

text \<open>
  The expression parser reads every expression of the grammar of \<open>ExpressionGrammar\<close> as its tree, without
  a diagnostic: by rule induction on the derivation, with the loop over the operators that follow
  as the continuation of each subexpression.
\<close>

section \<open>What may follow an expression\<close>

definition follows :: "SyntaxToken list \<Rightarrow> SyntaxToken \<Rightarrow> bool" where
  "follows ts t \<longleftrightarrow>
     (IsOperator (tok_Type t) \<or> IsPunctuation (tok_Type t))
     \<and> tok_Type t \<notin> {Pn OpenCurl, Pn Delimeter, Pn OpenSquare}
     \<and> (tok_Type t = Op LessOperator \<longrightarrow> tok_Type (last ts) \<notin> set first_names)"

definition room :: "nat \<Rightarrow> SourceParser \<Rightarrow> bool" where
  "room d p \<longleftrightarrow> ps_ExpressionDepth p + d \<le> 64 \<and> ps_LinkedExpressionDepth p + d \<le> 64"

text \<open>The number of operators among tokens.\<close>

definition ops :: "SyntaxToken list \<Rightarrow> nat" where
  "ops ts = length (filter (\<lambda>t. IsOperator (tok_Type t)) ts)"

lemma ops_simps [simp]:
  "ops [] = 0" "ops (t # ts) = (if IsOperator (tok_Type t) then Suc (ops ts) else ops ts)"
  "ops (ts @ us) = ops ts + ops us"
  by (simp_all add: ops_def)

lemma room_at [simp]: "room d (at_p p ts c) = room d p"
  by (simp add: room_def)

lemma room_Suc: "room (Suc d) p \<Longrightarrow> room d p \<and> room d (deeper_e p) \<and> room d (deeper_l p)
     \<and> ps_ExpressionDepth p < 64 \<and> ps_LinkedExpressionDepth p < 64"
  by (simp add: room_def)

lemma operator_simps [simp]:
  "\<not> IsOperator (Pn x)" "\<not> IsOperator (Lit l)" "\<not> IsOperator (Gen g)" "\<not> IsOperator (St s)"
  by (simp_all add: IsOperator_def IsUnaryOperator_def IsLeftUnaryOperator_def IsRightUnaryOperator_def
    IsLeftUnaryArithmeticOperator_def IsLeftUnaryBooleanOperator_def
    IsRightUnaryArithmeticOperator_def IsRightUnaryBooleanOperator_def binary_operator_cases)

lemma first_name_cases:
  "t \<in> set first_names \<Longrightarrow> \<not> IsOperator t \<and> \<not> IsPunctuation t \<and> t \<notin> set prefix_operators
     \<and> t \<notin> set literal_tokens \<and> t \<noteq> St ThrowKeyword"
  by (auto simp: first_names_def prefix_operators_def literal_tokens_def IsPunctuation_def
    IsOperator_def IsUnaryOperator_def IsLeftUnaryOperator_def IsRightUnaryOperator_def
    IsLeftUnaryArithmeticOperator_def IsLeftUnaryBooleanOperator_def
    IsRightUnaryArithmeticOperator_def IsRightUnaryBooleanOperator_def binary_operator_cases)

lemma infix_cases:
  assumes "t \<in> set infix_operators"
  shows "IsOperator t \<and> (IsBinaryOperator t \<or> t = Op AssignOperator) \<and> \<not> IsRightUnaryOperator t
     \<and> 0 < GetOperatorPrecendence t \<and> GetOperatorPrecendence t \<le> 10
     \<and> t \<notin> {Pn OpenCurl, Pn Delimeter, Pn OpenSquare, Op AsOperator, Op IsOperator_token}"
proof -
  have "list_all (\<lambda>t. IsOperator t \<and> (IsBinaryOperator t \<or> t = Op AssignOperator) \<and> \<not> IsRightUnaryOperator t
     \<and> 0 < GetOperatorPrecendence t \<and> GetOperatorPrecendence t \<le> 10
     \<and> t \<notin> {Pn OpenCurl, Pn Delimeter, Pn OpenSquare, Op AsOperator, Op IsOperator_token}) infix_operators"
    by code_simp
  then show ?thesis using assms by (simp add: list_all_iff)
qed

lemma postfix_cases:
  assumes "t \<in> set postfix_operators"
  shows "IsOperator t \<and> IsRightUnaryOperator t \<and> GetOperatorPrecendence t = 11
     \<and> t \<notin> {Pn OpenCurl, Pn Delimeter, Pn OpenSquare, Op AsOperator, Op IsOperator_token, Op LessOperator,
          Op NullCoalescingOperator, Op RangeOperator, Op RangeInclusiveOperator}"
proof -
  have "list_all (\<lambda>t. IsOperator t \<and> IsRightUnaryOperator t \<and> GetOperatorPrecendence t = 11
     \<and> t \<notin> {Pn OpenCurl, Pn Delimeter, Pn OpenSquare, Op AsOperator, Op IsOperator_token, Op LessOperator,
          Op NullCoalescingOperator, Op RangeOperator, Op RangeInclusiveOperator}) postfix_operators"
    by code_simp
  then show ?thesis using assms by (simp add: list_all_iff)
qed

lemma prefix_cases: "t \<in> set prefix_operators \<Longrightarrow> IsOperator t \<and> t \<notin> set first_names"
  by (auto simp: prefix_operators_def first_names_def IsOperator_def IsUnaryOperator_def IsLeftUnaryOperator_def
    IsLeftUnaryArithmeticOperator_def IsLeftUnaryBooleanOperator_def IsRightUnaryOperator_def
    IsRightUnaryArithmeticOperator_def IsRightUnaryBooleanOperator_def binary_operator_cases)

section \<open>Steps of the parser\<close>

lemma leads_current:
  "leads_p (\<lambda>n. G n t) (at_p p (t # ts) c) y r
     \<Longrightarrow> leads_p (\<lambda>n. bind_p current_p (G n)) (at_p p (t # ts) c) y r"
  by (rule leads_get) simp

lemma leads_can:
  "leads_p (\<lambda>n. G n True) (at_p p (t # ts) c) y r
     \<Longrightarrow> leads_p (\<lambda>n. bind_p can_consume_p (G n)) (at_p p (t # ts) c) y r"
  by (rule leads_get) simp

lemma bind_return [simp]: "bind_p (return_p x) g = g x"
  by (rule ext) simp

lemma leads_done: "x = y \<Longrightarrow> p = q \<Longrightarrow> leads_p (\<lambda>n. return_p x) p y q"
  by (simp add: leads_return)

lemma reads_here: "reads call p x q \<Longrightarrow> leads_p (\<lambda>n. G n x) q y r \<Longrightarrow>
    leads_p (\<lambda>n. bind_p (parse_code n call) (G n)) p y r"
  by (rule leads_bind)

lemma operator_counted [simp]: "ps_OperatorsInExpression_update Suc (at_p p ts c) = at_p p ts (Suc c)"
  by (cases p) (simp add: at_p_def)

abbreviation operators_loop :: "nat \<Rightarrow> node \<Rightarrow> SourceParser \<Rightarrow> node \<Rightarrow> SourceParser \<Rightarrow> bool" where
  "operators_loop b \<equiv> loops_p (\<lambda>n. read_operator n (parse_code n) b)"

lemma operators_stop:
  assumes "precedence_of t = 0 \<or> precedence_of t \<le> b"
  shows "operators_loop b x (at_p p (t # rest) c) x (at_p p (t # rest) c)"
proof (rule loops_stop)
  have "leads_p (\<lambda>n. stop_p x) (at_p p (t # rest) c) (Inr x) (at_p p (t # rest) c)" by (rule leads_return)
  then show "leads_p (\<lambda>n. read_operator n (parse_code n) b x) (at_p p (t # rest) c) (Inr x) (at_p p (t # rest) c)"
    unfolding read_operator_def
    by (intro leads_can leads_current) (use assms in auto)
qed

text \<open>A round of the loop whose left denotation is known.\<close>

lemma operators_round:
  assumes "precedence_of t \<noteq> 0" "b < precedence_of t" "c < 64"
    and "leads_p (\<lambda>n. ReadLeftDenotation n (parse_code n) x) (at_p p (t # rest) (Suc c)) y q"
    and "operators_loop b y q z r"
  shows "operators_loop b x (at_p p (t # rest) c) z r"
proof (rule loops_round)
  have "leads_p (\<lambda>n. bind_p (ReadLeftDenotation n (parse_code n) x) continue_p)
          (at_p p (t # rest) (Suc c)) (Inl y) q"
    using assms(4) by (rule leads_bind) (rule leads_return)
  then show "leads_p (\<lambda>n. read_operator n (parse_code n) b x) (at_p p (t # rest) c) (Inl y) q"
    unfolding read_operator_def
    by (intro leads_can leads_current)
      (use assms(1-3) in \<open>simp add: Let_def leads_p_def MaxExpressionOperators_def\<close>)
qed (rule assms(5))

lemma infix_denotation:
  assumes "tok_Type t \<in> set infix_operators"
    and "reads (CallExpression (precedence_of t) False) (at_p p rest c) y q"
  shows "leads_p (\<lambda>n. ReadLeftDenotation n (parse_code n) x) (at_p p (t # rest) c) (infix_node t x y) q"
proof -
  have "leads_p (\<lambda>n. bind_p (parse_code n (CallExpression (precedence_of t) False)) (\<lambda>right. return_p (infix_node t x right)))
     (at_p p rest c) (infix_node t x y) q"
    using assms(2) by (rule reads_here) (rule leads_return)
  then have "leads_p (\<lambda>n. then_p consume_p (bind_p (parse_code n (CallExpression (precedence_of t) False))
     (\<lambda>right. return_p (infix_node t x right)))) (at_p p (t # rest) c) (infix_node t x y) q"
    by (rule leads_consume)
  then show ?thesis
    unfolding ReadLeftDenotation_def
    by (intro leads_can leads_current, cases "tok_Type t = Op NullCoalescingOperator")
      (use infix_cases [OF assms(1)] in \<open>auto simp: Let_def infix_node_def\<close>)
qed

lemma postfix_denotation:
  assumes "tok_Type t \<in> set postfix_operators"
  shows "leads_p (\<lambda>n. ReadLeftDenotation n (parse_code n) x) (at_p p (t # rest) c)
     (UnaryExpressionSyntax t x True) (at_p p rest c)"
proof -
  have "leads_p (\<lambda>n. then_p consume_p (return_p (UnaryExpressionSyntax t x True))) (at_p p (t # rest) c)
     (UnaryExpressionSyntax t x True) (at_p p rest c)"
    by (rule leads_consume) (rule leads_return)
  then show ?thesis
    unfolding ReadLeftDenotation_def
    by (intro leads_can leads_current) (use postfix_cases [OF assms] in \<open>simp add: Let_def\<close>)
qed

text \<open>An expression is its null denotation and the loop over the operators.\<close>

lemma reads_expression:
  assumes "ps_ExpressionDepth p < 64"
    and "reads CallNullDenotation (at_p (deeper_e p) (t # ts) (if reset then 0 else c)) y q"
    and "operators_loop b y q x (at_p (deeper_e p) us c')"
  shows "reads (CallExpression b reset) (at_p p (t # ts) c) x (at_p p us c')"
proof (rule readsI)
  let ?c = "if reset then 0 else c"
  have "leads_p (\<lambda>n. bind_p (parse_code n CallNullDenotation) (\<lambda>leftExpr.
      loop_p n (read_operator n (parse_code n) b) leftExpr)) (at_p (deeper_e p) (t # ts) ?c) x (at_p (deeper_e p) us c')"
    using assms(2) by (rule reads_here) (rule leads_loop [OF assms(3)])
  then have "leads_p (\<lambda>n. bind_p (get_p ps_ExpressionDepth) (\<lambda>depth. bind_p current_p (\<lambda>current.
           if depth > MaxExpressionDepth then
             then_p (ReportError_p current ''Expression is too deeply nested'')
               (then_p consume_p (return_p (null_literal (Lit NullLiteral) (tok_Location current))))
           else bind_p (parse_code n CallNullDenotation) (\<lambda>leftExpr.
             loop_p n (read_operator n (parse_code n) b) leftExpr))))
       (at_p (deeper_e p) (t # ts) ?c) x (at_p (deeper_e p) us c')"
    by (intro leads_get leads_current) (use assms(1) in \<open>simp add: MaxExpressionDepth_def\<close>)
  then have "leads_p (\<lambda>n. with_depth ps_ExpressionDepth_update (bind_p (get_p ps_ExpressionDepth) (\<lambda>depth. bind_p current_p (\<lambda>current.
           if depth > MaxExpressionDepth then
             then_p (ReportError_p current ''Expression is too deeply nested'')
               (then_p consume_p (return_p (null_literal (Lit NullLiteral) (tok_Location current))))
           else bind_p (parse_code n CallNullDenotation) (\<lambda>leftExpr.
             loop_p n (read_operator n (parse_code n) b) leftExpr)))))
       (at_p p (t # ts) ?c) x (at_p p us c')"
    by (rule leads_expression_depth)
  then show "leads_p (\<lambda>n. code_round n (parse_code n) (CallExpression b reset)) (at_p p (t # ts) c) x (at_p p us c')"
    unfolding code_round.simps ReadExpression_def
    by (intro leads_modify) (simp split: if_splits)
qed

section \<open>Null denotations\<close>

lemma null_denotation:
  assumes "leads_p (\<lambda>n. ReadNullDenotation n (parse_code n)) p x q"
  shows "reads CallNullDenotation p x q"
  by (rule readsI) (simp add: assms)

lemma literal_denotation:
  assumes "tok_Type t \<in> set literal_tokens"
  shows "reads CallNullDenotation (at_p p (t # rest) c) (LiteralExpressionSyntax t) (at_p p rest c)"
proof (rule null_denotation)
  have "leads_p (\<lambda>n. then_p consume_p (return_p (LiteralExpressionSyntax t))) (at_p p (t # rest) c)
     (LiteralExpressionSyntax t) (at_p p rest c)"
    by (rule leads_consume) (rule leads_return)
  then show "leads_p (\<lambda>n. ReadNullDenotation n (parse_code n)) (at_p p (t # rest) c)
     (LiteralExpressionSyntax t) (at_p p rest c)"
    unfolding ReadNullDenotation_def
    by (intro leads_current)
      (use assms in \<open>auto simp: Let_def prefix_operators_def literal_tokens_def\<close>)
qed

lemma prefix_denotation:
  assumes "tok_Type t \<in> set prefix_operators" and "reads CallNullDenotation (at_p p rest c) x q"
  shows "reads CallNullDenotation (at_p p (t # rest) c) (UnaryExpressionSyntax t x False) q"
proof (rule null_denotation)
  have "leads_p (\<lambda>n. bind_p (parse_code n CallNullDenotation) (\<lambda>operand. return_p (UnaryExpressionSyntax t operand False)))
     (at_p p rest c) (UnaryExpressionSyntax t x False) q"
    using assms(2) by (rule reads_here) (rule leads_return)
  then have "leads_p (\<lambda>n. read_prefix (parse_code n) (\<lambda>operator operand. UnaryExpressionSyntax operator operand False))
     (at_p p (t # rest) c) (UnaryExpressionSyntax t x False) q"
    unfolding read_prefix_def by (rule leads_take)
  then show "leads_p (\<lambda>n. ReadNullDenotation n (parse_code n)) (at_p p (t # rest) c) (UnaryExpressionSyntax t x False) q"
    unfolding ReadNullDenotation_def by (intro leads_current) (use assms(1) in \<open>simp add: Let_def\<close>)
qed

lemma paren_denotation:
  assumes "tok_Type opener = Pn OpenCurl" "tok_Type closer = Pn CloseCurl" "tok_Type t \<noteq> Pn Delimeter"
    and "reads (CallExpression 0 False) (at_p p ts c) x (at_p p (closer # t # rest) c')"
  shows "reads CallNullDenotation (at_p p (opener # ts) c) x (at_p p (t # rest) c')"
proof (rule null_denotation)
  let ?after = "\<lambda>n expression. bind_p current_p (\<lambda>current.
      if tok_Type current = Pn Delimeter then parse_code n (CallLinkedExpressionNode expression False) else return_p expression)"
  have "leads_p (\<lambda>n. ?after n x) (at_p p (t # rest) c') x (at_p p (t # rest) c')"
    by (rule leads_current) (use assms(3) in \<open>simp add: leads_return\<close>)
  then have "leads_p (\<lambda>n. bind_p (Expect (Pn CloseCurl) ''Expected ) token'') (\<lambda>_. ?after n x))
      (at_p p (closer # t # rest) c') x (at_p p (t # rest) c')"
    by (rule leads_Expect [OF assms(2)])
  then have "leads_p (\<lambda>n. bind_p (parse_code n (CallExpression 0 False)) (\<lambda>expression.
      bind_p (Expect (Pn CloseCurl) ''Expected ) token'') (\<lambda>_. ?after n expression))) (at_p p ts c) x (at_p p (t # rest) c')"
    by (rule reads_here [OF assms(4)])
  then have "leads_p (\<lambda>n. then_p consume_p (bind_p (parse_code n (CallExpression 0 False)) (\<lambda>expression.
      bind_p (Expect (Pn CloseCurl) ''Expected ) token'') (\<lambda>_. ?after n expression))))
      (at_p p (opener # ts) c) x (at_p p (t # rest) c')"
    by (rule leads_consume)
  then show "leads_p (\<lambda>n. ReadNullDenotation n (parse_code n)) (at_p p (opener # ts) c) x (at_p p (t # rest) c')"
    unfolding ReadNullDenotation_def
    by (intro leads_current) (use assms(1) in \<open>simp add: Let_def prefix_operators_def literal_tokens_def\<close>)
qed

lemma chain_denotation:
  assumes "tok_Type t \<in> set first_names" and "reads (CallLinkedExpressionNode NullNode True) (at_p p (t # ts) c) x q"
  shows "reads CallNullDenotation (at_p p (t # ts) c) x q"
proof (rule null_denotation)
  have "tok_Type t \<noteq> Pn OpenCurl" "tok_Type t \<noteq> Pn OpenSquare"
    using assms(1) by (auto simp: first_names_def)
  then show "leads_p (\<lambda>n. ReadNullDenotation n (parse_code n)) (at_p p (t # ts) c) x q"
    unfolding ReadNullDenotation_def
    by (intro leads_current) (use assms first_name_cases [OF assms(1)] in \<open>simp add: Let_def\<close>)
qed

section \<open>Links\<close>

text \<open>
  What follows a link: the end of the chain, or the next link, read by \<open>CallLinkedExpressionNode\<close>.
\<close>

definition link_ends :: "node \<Rightarrow> SourceParser \<Rightarrow> SyntaxToken \<Rightarrow> node \<Rightarrow> SourceParser \<Rightarrow> bool" where
  "link_ends x p s y q \<longleftrightarrow>
     (if tok_Type s = Pn Delimeter then reads (CallLinkedExpressionNode x False) p y q else y = x \<and> q = p)"

lemma leads_after_link:
  assumes "link_ends x (at_p p (s # rest) c) s y q" and "tok_Type s \<noteq> Pn OpenSquare"
  shows "leads_p (\<lambda>n. after_link (parse_code n) x) (at_p p (s # rest) c) y q"
proof -
  have "leads_p (\<lambda>n. bind_p current_p (\<lambda>current.
      if tok_Type current = Pn Delimeter then parse_code n (CallLinkedExpressionNode x False) else return_p x))
      (at_p p (s # rest) c) y q"
    by (rule leads_current) (use assms(1) in \<open>auto simp: link_ends_def leads_return split: if_splits\<close>)
  then show ?thesis
    unfolding after_link_def
    by (intro leads_can, simp only: simp_thms if_False, intro leads_current) (simp only: assms(2) if_False bind_return)
qed

lemma leads_after_index:
  assumes "reads (CallIndexatorExpressionNode x) (at_p p (opener # ts) c) x' (at_p p (s # rest) c')"
    and "tok_Type opener = Pn OpenSquare" "link_ends x' (at_p p (s # rest) c') s y q" 
  shows "leads_p (\<lambda>n. after_link (parse_code n) x) (at_p p (opener # ts) c) y q"
proof -
  have "leads_p (\<lambda>n. bind_p current_p (\<lambda>current.
      if tok_Type current = Pn Delimeter then parse_code n (CallLinkedExpressionNode x' False) else return_p x'))
      (at_p p (s # rest) c') y q"
    by (rule leads_current) (use assms(3) in \<open>auto simp: link_ends_def leads_return split: if_splits\<close>)
  from leads_bind [OF assms(1), of "\<lambda>n x'. bind_p current_p (\<lambda>current.
      if tok_Type current = Pn Delimeter then parse_code n (CallLinkedExpressionNode x' False) else return_p x')", OF this]
  show ?thesis
    unfolding after_link_def by (intro leads_can) (simp, intro leads_current, use assms(2) in \<open>simp del: bind_p_simps\<close>)
qed

lemma reads_link:
  assumes "ps_LinkedExpressionDepth p < 64"
    and "if isFirst then pre = [] \<and> tok_Type t \<in> set first_names
         else \<exists>dot. pre = [dot] \<and> tok_Type dot = Pn Delimeter \<and> tok_Type t = Gen Identifier"
    and "leads_p (\<lambda>n. link_after_name n (parse_code n) t previous) (at_p (deeper_l p) (s # ts) c) x (at_p (deeper_l p) us c')"
  shows "reads (CallLinkedExpressionNode previous isFirst) (at_p p (pre @ t # s # ts) c) x (at_p p us c')"
proof (rule readsI)
  let ?finish = "\<lambda>n identifier. bind_p can_consume_p (\<lambda>can.
      if \<not> can then return_p (MemberAccessExpressionSyntax identifier previous)
      else link_after_name n (parse_code n) identifier previous)"
  have last: "leads_p (\<lambda>n. ?finish n t) (at_p (deeper_l p) (s # ts) c) x (at_p (deeper_l p) us c')"
    by (rule leads_can) (simp add: assms(3))
  have name: "leads_p (\<lambda>n. bind_p (if isFirst then
                  bind_p (Matches first_names) (\<lambda>matches.
                    then_p (when_p (\<not> matches)
                       (ReportError_p (Current_r (pre @ t # s # ts)) ''Expected identifier, primitive name or field keyword'')) take_p)
                else bind_p (Expect (Pn Delimeter) ''Expected . token'') (\<lambda>_.
                  Expect (Gen Identifier) ''Expected identifier'')) (?finish n))
      (at_p (deeper_l p) (pre @ t # s # ts) c) x (at_p (deeper_l p) us c')"
  proof (rule leads_bind [where x = t and q = "at_p (deeper_l p) (s # ts) c"])
    show "leads_p (\<lambda>n. if isFirst then
                  bind_p (Matches first_names) (\<lambda>matches.
                    then_p (when_p (\<not> matches)
                       (ReportError_p (Current_r (pre @ t # s # ts)) ''Expected identifier, primitive name or field keyword'')) take_p)
                else bind_p (Expect (Pn Delimeter) ''Expected . token'') (\<lambda>_.
                  Expect (Gen Identifier) ''Expected identifier''))
       (at_p (deeper_l p) (pre @ t # s # ts) c) t (at_p (deeper_l p) (s # ts) c)"
      by (rule leads_pI) (use assms(2) in \<open>auto simp: Matches_def when_p_def then_p_def take_p_def consume_p_def
          Expect_def split: if_splits\<close>)
  qed (rule last)
  have can: "CanConsume_r (pre @ t # s # ts)" by (simp add: CanConsume_r_def)
  have "\<not> MaxLinkedExpressionDepth < ps_LinkedExpressionDepth (at_p (deeper_l p) (pre @ t # s # ts) c)"
    using assms(1) by (simp add: MaxLinkedExpressionDepth_def)
  then show "leads_p (\<lambda>n. code_round n (parse_code n) (CallLinkedExpressionNode previous isFirst))
     (at_p p (pre @ t # s # ts) c) x (at_p p us c')"
    unfolding code_round.simps ReadLinkedExpressionNode_def
    by (intro leads_linked_depth leads_get) (simp only: if_False, rule leads_get, simp only: at_p_simps can not_True_eq_False if_False, rule name)
qed

text \<open>
  The name of a link, its arguments if it is called, and its indices: \<open>us\<close> and \<open>vs\<close> are their tokens.
\<close>

definition call_reads :: "SourceParser \<Rightarrow> node list option \<Rightarrow> SyntaxToken list \<Rightarrow> reader \<Rightarrow> nat \<Rightarrow> nat \<Rightarrow> bool" where
  "call_reads p args us tail c c' \<longleftrightarrow>
     (case args of
        None \<Rightarrow> us = [] \<and> c' = c
      | Some as \<Rightarrow> us \<noteq> [] \<and> tok_Type (hd us) = Pn OpenCurl \<and>
          leads_p (\<lambda>n. ReadArgumentsList n (parse_code n)) (at_p p (us @ tail) c) as (at_p p tail c'))"

definition indices_read :: "SourceParser \<Rightarrow> node list list \<Rightarrow> SyntaxToken list \<Rightarrow> reader \<Rightarrow> nat \<Rightarrow> nat \<Rightarrow> bool" where
  "indices_read p idx vs tail c c' \<longleftrightarrow>
     (if idx = [] then vs = [] \<and> c' = c
      else vs \<noteq> [] \<and> tok_Type (hd vs) = Pn OpenSquare \<and>
        (\<forall>x. reads (CallIndexatorExpressionNode x) (at_p p (vs @ tail) c) (index_nodes idx x) (at_p p tail c')))"

lemma leads_call_indices:
  assumes "indices_read p idx vs (s # rest) c c'" "tok_Type s \<noteq> Pn OpenSquare"
    and "link_ends (index_nodes idx x) (at_p p (s # rest) c') s y q"
  shows "leads_p (\<lambda>n. after_link (parse_code n) x) (at_p p (vs @ s # rest) c) y q"
proof (cases idx)
  case Nil
  then show ?thesis using assms by (auto simp: indices_read_def intro: leads_after_link)
next
  case (Cons ix ixs)
  then obtain opener vs' where "vs = opener # vs'" "tok_Type opener = Pn OpenSquare"
    using assms(1) by (cases vs) (auto simp: indices_read_def)
  moreover have "reads (CallIndexatorExpressionNode x) (at_p p (vs @ s # rest) c) (index_nodes idx x) (at_p p (s # rest) c')"
    using assms(1) Cons by (simp add: indices_read_def)
  ultimately show ?thesis using assms(3) by (auto intro: leads_after_index)
qed

definition linked_node :: "SyntaxToken \<Rightarrow> node list option \<Rightarrow> node \<Rightarrow> node" where
  "linked_node t args previous =
     (case args of None \<Rightarrow> MemberAccessExpressionSyntax t previous
      | Some as \<Rightarrow> InvokationExpressionSyntax t previous None (Some as))"

lemma leads_link_after_name:
  assumes call: "call_reads p args us (vs @ s # rest) c c1" and idx: "indices_read p idx vs (s # rest) c1 c2"
    and s: "IsOperator (tok_Type s) \<or> IsPunctuation (tok_Type s)" "tok_Type s \<notin> {Pn OpenCurl, Pn OpenSquare}"
      "tok_Type s = Op LessOperator \<Longrightarrow> us @ vs \<noteq> []"
    and ends: "link_ends (index_nodes idx (linked_node t args previous)) (at_p p (s # rest) c2) s y q"
  shows "leads_p (\<lambda>n. link_after_name n (parse_code n) t previous) (at_p p (us @ vs @ s # rest) c) y q"
proof (cases args)
  case None
  then have us: "us = []" "c1 = c" using call by (simp_all add: call_reads_def)
  show ?thesis
  proof (cases idx)
    case Nil
    then have vs: "vs = []" "c2 = c" using idx us by (simp_all add: indices_read_def)
    have "tok_Type s \<noteq> Op LessOperator" using s(3) us vs by auto
    then show ?thesis
      unfolding link_after_name_def us vs append_Nil
      by (intro leads_current) (use s(1,2) ends us vs(2) None Nil in
        \<open>auto simp: Let_def linked_node_def link_ends_def leads_return split: if_splits\<close>)
  next
    case (Cons ix ixs)
    then obtain opener vs' where vs: "vs = opener # vs'" "tok_Type opener = Pn OpenSquare"
      using idx by (cases vs) (auto simp: indices_read_def)
    let ?member = "MemberAccessExpressionSyntax t previous"
    have "reads (CallIndexatorExpressionNode ?member) (at_p p (vs @ s # rest) c) (index_nodes idx ?member) (at_p p (s # rest) c2)"
      using idx Cons us by (simp add: indices_read_def)
    moreover have "leads_p (\<lambda>n. after_link (parse_code n) (index_nodes idx ?member)) (at_p p (s # rest) c2) y q"
      using ends None s by (intro leads_after_link) (simp_all add: linked_node_def)
    ultimately have "leads_p (\<lambda>n. bind_p (parse_code n (CallIndexatorExpressionNode ?member)) (after_link (parse_code n)))
        (at_p p (vs @ s # rest) c) y q" by (rule reads_here)
    then show ?thesis
      unfolding link_after_name_def us vs(1) append_Nil append_Cons
      by (intro leads_current) (simp add: vs(2) Let_def)
  qed
next
  case (Some as)
  then obtain opener us' where us: "us = opener # us'" "tok_Type opener = Pn OpenCurl"
    using call by (cases us) (auto simp: call_reads_def)
  let ?call = "InvokationExpressionSyntax t previous None (Some as)"
  have "leads_p (\<lambda>n. ReadArgumentsList n (parse_code n)) (at_p p (us @ vs @ s # rest) c) as (at_p p (vs @ s # rest) c1)"
    using call Some by (simp add: call_reads_def)
  moreover have "leads_p (\<lambda>n. after_link (parse_code n) ?call) (at_p p (vs @ s # rest) c1) y q"
    using idx s ends Some by (intro leads_call_indices) (simp_all add: linked_node_def)
  ultimately have "leads_p (\<lambda>n. bind_p (ReadArgumentsList n (parse_code n)) (\<lambda>arguments.
      after_link (parse_code n) (InvokationExpressionSyntax t previous None (Some arguments)))) (at_p p (us @ vs @ s # rest) c) y q"
    by (rule leads_bind)
  then show ?thesis
    unfolding link_after_name_def us(1) append_Cons
    by (intro leads_current) (simp add: us(2) Let_def)
qed

section \<open>Lists\<close>

abbreviation elements_loop ::
  "TokenType \<Rightarrow> string \<Rightarrow> node list \<Rightarrow> SourceParser \<Rightarrow> node list \<Rightarrow> SourceParser \<Rightarrow> bool" where
  "elements_loop closer message \<equiv>
     loops_p (\<lambda>n. separated_step (read_expression (parse_code n)) closer message)"

lemma separated_element:
  assumes "reads (CallExpression 0 True) (at_p p (u # ts) c) x (at_p p (t # rest) c')"
    and "tok_Type t \<in> {Pn Comma, closer}"
  shows "leads_p (\<lambda>n. separated_step (read_expression (parse_code n)) closer message xs) (at_p p (u # ts) c)
     (if tok_Type t = closer then Inr (xs @ [x]) else Inl (xs @ [x])) (at_p p rest c')"
proof -
  have "leads_p (\<lambda>n. if tok_Type t = closer then stop_p (xs @ [x]) else continue_p (xs @ [x])) (at_p p rest c')
     (if tok_Type t = closer then Inr (xs @ [x]) else Inl (xs @ [x])) (at_p p rest c')"
    by (simp add: leads_return)
  then have "leads_p (\<lambda>n. bind_p take_p (\<lambda>separatorToken.
      if tok_Type separatorToken = closer then stop_p (xs @ [x]) else continue_p (xs @ [x]))) (at_p p (t # rest) c')
     (if tok_Type t = closer then Inr (xs @ [x]) else Inl (xs @ [x])) (at_p p rest c')"
    by (rule leads_take)
  then have "leads_p (\<lambda>n. bind_p (TryMatch [Pn Comma, closer] (Some message) 3) (\<lambda>found.
           if \<not> found then stop_p (xs @ [x])
           else bind_p take_p (\<lambda>separatorToken.
             if tok_Type separatorToken = closer then stop_p (xs @ [x]) else continue_p (xs @ [x])))) (at_p p (t # rest) c')
     (if tok_Type t = closer then Inr (xs @ [x]) else Inl (xs @ [x])) (at_p p rest c')"
    by (intro leads_TryMatch) (use assms(2) in simp_all)
  from leads_bind [OF assms(1), of "\<lambda>n x. bind_p (TryMatch [Pn Comma, closer] (Some message) 3) (\<lambda>found.
           if \<not> found then stop_p (xs @ [x])
           else bind_p take_p (\<lambda>separatorToken.
             if tok_Type separatorToken = closer then stop_p (xs @ [x]) else continue_p (xs @ [x])))", OF this]
  show ?thesis
    unfolding separated_step_def Let_def by (intro leads_can) (simp only: simp_thms if_False)
qed

text \<open>A list in its tokens: \<open>enclosed\<close> as \<open>ReadArgumentsList\<close> and \<open>ReadIndexatorList\<close> use it.\<close>

lemma leads_enclosed_empty:
  assumes "tok_Type t = opener" "tok_Type u = closer"
  shows "leads_p (\<lambda>n. enclosed n opener m closer m' (read_expression (parse_code n))) (at_p p (t # u # rest) c) [] (at_p p rest c)"
  unfolding enclosed_def
  by (intro leads_Expect leads_current)
    (use assms in \<open>auto simp: consume_p_def intro!: leads_pI\<close>)

lemma leads_enclosed:
  assumes "tok_Type t = opener" "tok_Type u \<noteq> closer"
    and "elements_loop closer m' [] (at_p p (u # ts) c) xs q"
  shows "leads_p (\<lambda>n. enclosed n opener m closer m' (read_expression (parse_code n))) (at_p p (t # u # ts) c) xs q"
  unfolding enclosed_def separated_def
  by (intro leads_Expect leads_current)
    (use assms leads_loop [OF assms(3)] in simp_all)

text \<open>An index, and the indices behind it.\<close>

lemma reads_index:
  assumes "leads_p (\<lambda>n. ReadIndexatorList n (parse_code n)) (at_p p ts c) ix (at_p p (s # rest) c')"
    and "if tok_Type s = Pn OpenSquare
         then reads (CallIndexatorExpressionNode (IndexatorExpressionSyntax indexerKeyword x ix)) (at_p p (s # rest) c') y q
         else y = IndexatorExpressionSyntax indexerKeyword x ix \<and> q = at_p p (s # rest) c'"
  shows "reads (CallIndexatorExpressionNode x) (at_p p ts c) y q"
proof (rule readsI)
  let ?finish = "\<lambda>n ix. bind_p can_consume_p (\<lambda>can. bind_p current_p (\<lambda>current.
         if can \<and> tok_Type current = Pn OpenSquare
         then parse_code n (CallIndexatorExpressionNode (IndexatorExpressionSyntax indexerKeyword x ix))
         else return_p (IndexatorExpressionSyntax indexerKeyword x ix)))"
  have "leads_p (\<lambda>n. ?finish n ix) (at_p p (s # rest) c') y q"
    by (intro leads_can leads_current) (use assms(2) in \<open>auto simp: leads_return split: if_splits\<close>)
  from leads_bind [OF assms(1), of ?finish, OF this]
  show "leads_p (\<lambda>n. code_round n (parse_code n) (CallIndexatorExpressionNode x)) (at_p p ts c) y q"
    by (simp only: code_round.simps ReadIndexatorExpressionNode_def Let_def)
qed

section \<open>The derivations\<close>

lemma derives_starts:
  "derives b d e ts \<Longrightarrow> ts \<noteq> [] \<and> tok_Type (hd ts) \<notin> {Pn CloseCurl, Pn CloseSquare}"
  "derives_links d ls us \<Longrightarrow> us \<noteq> [] \<and> ls \<noteq> []"
  "derives_list closer d es vs \<Longrightarrow> vs \<noteq> [] \<and> tok_Type (hd vs) \<notin> {Pn CloseCurl, Pn CloseSquare}"
  "derives_call d args ws \<Longrightarrow> True"
  "derives_indices d idx xs \<Longrightarrow> True"
  by (induction rule: derives_derives_links_derives_list_derives_call_derives_indices.inducts)
    (auto simp: literal_tokens_def first_names_def prefix_operators_def hd_append)

text \<open>
  \<open>parses b d e ts\<close>: whatever the loop over the operators does after \<open>e\<close>, it does after the null
  denotation that starts \<open>ts\<close>. The next operator must not bind stronger than those of \<open>e\<close>.
\<close>

definition parses :: "nat \<Rightarrow> nat \<Rightarrow> expr \<Rightarrow> SyntaxToken list \<Rightarrow> bool" where
  "parses b d e ts \<longleftrightarrow>
     (\<forall>p t rest c. follows ts t \<and> precedence_of t \<le> Suc b \<and> room d p \<and> c + ops ts \<le> 64 \<longrightarrow>
        (\<exists>c' \<le> c + ops ts.
           (\<forall>bp x q. bp \<le> b \<longrightarrow> operators_loop bp (node_of e) (at_p p (t # rest) c') x q \<longrightarrow>
              (\<exists>y r. reads CallNullDenotation (at_p p (ts @ t # rest) c) y r \<and> operators_loop bp y r x q))
           \<and> (12 \<le> b \<longrightarrow> reads CallNullDenotation (at_p p (ts @ t # rest) c) (node_of e) (at_p p (t # rest) c'))))"

lemma parsesI_atomic:
  assumes "\<And>p t rest c. follows ts t \<Longrightarrow> room d p \<Longrightarrow> c + ops ts \<le> 64 \<Longrightarrow>
    \<exists>c' \<le> c + ops ts. reads CallNullDenotation (at_p p (ts @ t # rest) c) (node_of e) (at_p p (t # rest) c')"
  shows "parses b d e ts"
  unfolding parses_def using assms by meson

lemma parsesI_loop:
  assumes "b < 12" and "\<And>p t rest c. follows ts t \<Longrightarrow> precedence_of t \<le> Suc b \<Longrightarrow> room d p \<Longrightarrow> c + ops ts \<le> 64 \<Longrightarrow>
    \<exists>c' \<le> c + ops ts. \<forall>bp x q. bp \<le> b \<longrightarrow> operators_loop bp (node_of e) (at_p p (t # rest) c') x q \<longrightarrow>
       (\<exists>y r. reads CallNullDenotation (at_p p (ts @ t # rest) c) y r \<and> operators_loop bp y r x q)"
  shows "parses b d e ts"
  unfolding parses_def using assms by (meson leD)

lemma precedence_bound: "GetOperatorPrecendence t \<le> 12"
  by (simp add: GetOperatorPrecendence_def)

lemma parses_null:
  assumes "parses 12 d e ts" "follows ts t" "room d p" "c + ops ts \<le> 64"
  shows "\<exists>c' \<le> c + ops ts. reads CallNullDenotation (at_p p (ts @ t # rest) c) (node_of e) (at_p p (t # rest) c')"
  using assms le_SucI [OF precedence_bound [of "tok_Type t"]] unfolding parses_def by blast

lemma parses_loop:
  assumes "parses b d e ts" "follows ts t" "precedence_of t \<le> Suc b" "room d p" "c + ops ts \<le> 64"
  shows "\<exists>c' \<le> c + ops ts. \<forall>bp x q. bp \<le> b \<longrightarrow> operators_loop bp (node_of e) (at_p p (t # rest) c') x q \<longrightarrow>
       (\<exists>y r. reads CallNullDenotation (at_p p (ts @ t # rest) c) y r \<and> operators_loop bp y r x q)"
  using assms(1) [unfolded parses_def, rule_format, OF conjI [OF assms(2) conjI [OF assms(3) conjI [OF assms(4,5)]]], where rest = rest]
  by (elim exE conjE) (intro exI conjI; assumption)

text \<open>Then an expression is read whole, up to an operator that binds weaker.\<close>

lemma parses_expression:
  assumes "parses b d e ts" "ts \<noteq> []" "follows ts t" "room (Suc d) p" "(if reset then 0 else c) + ops ts \<le> 64"
    and "precedence_of t \<le> b"
  shows "\<exists>c' \<le> (if reset then 0 else c) + ops ts.
    reads (CallExpression b reset) (at_p p (ts @ t # rest) c) (node_of e) (at_p p (t # rest) c')"
proof -
  let ?c = "if reset then 0 else c"
  have room: "room d (deeper_e p)" "ps_ExpressionDepth p < 64" using room_Suc [OF assms(4)] by auto
  have b: "precedence_of t \<le> Suc b" using assms(6) by simp
  obtain c' where c': "c' \<le> ?c + ops ts"
    and loop: "\<forall>bp x q. bp \<le> b \<longrightarrow> operators_loop bp (node_of e) (at_p (deeper_e p) (t # rest) c') x q \<longrightarrow>
       (\<exists>y r. reads CallNullDenotation (at_p (deeper_e p) (ts @ t # rest) ?c) y r \<and> operators_loop bp y r x q)"
    using parses_loop [OF assms(1,3) b room(1) assms(5)] by blast
  have "operators_loop b (node_of e) (at_p (deeper_e p) (t # rest) c') (node_of e) (at_p (deeper_e p) (t # rest) c')"
    by (rule operators_stop) (simp add: assms(6))
  then obtain y r where y: "reads CallNullDenotation (at_p (deeper_e p) (ts @ t # rest) ?c) y r"
    "operators_loop b y r (node_of e) (at_p (deeper_e p) (t # rest) c')"
    using loop by blast
  have ts: "hd ts # tl ts @ t # rest = ts @ t # rest" using assms(2) by (cases ts) auto
  have "reads CallNullDenotation (at_p (deeper_e p) (hd ts # tl ts @ t # rest) ?c) y r"
    using y(1) by (simp only: ts)
  from reads_expression [OF room(2) this y(2)]
  have "reads (CallExpression b reset) (at_p p (ts @ t # rest) c) (node_of e) (at_p p (t # rest) c')"
    by (simp only: ts)
  with c' show ?thesis by blast
qed

text \<open>The operators: the loop is entered with the left operand, and the right operand ends it.\<close>

lemma parses_infix:
  assumes t: "tok_Type t \<in> set infix_operators" "b < precedence_of t"
    and l: "parses (precedence_of t - 1) (Suc d) l ts" and r: "parses (precedence_of t) d r us"
    and ne: "us \<noteq> []" and less: "tok_Type t = Op LessOperator \<Longrightarrow> tok_Type (last ts) \<notin> set first_names"
  shows "parses b (Suc d) (Infix l t r) (ts @ t # us)"
proof (rule parsesI_loop)
  note cases = infix_cases [OF t(1)]
  then show "b < 12" using t(2) by linarith
  fix p s rest c
  assume s: "follows (ts @ t # us) s" "precedence_of s \<le> Suc b" and room: "room (Suc d) p"
    and c: "c + ops (ts @ t # us) \<le> 64"
  have t': "follows ts t" "precedence_of t \<le> Suc (precedence_of t - 1)" using cases less by (auto simp: follows_def)
  have c0: "c + ops ts \<le> 64" using c by simp
  obtain c1 where c1: "c1 \<le> c + ops ts"
    and left: "\<forall>bp x q. bp \<le> precedence_of t - 1 \<longrightarrow> operators_loop bp (node_of l) (at_p p (t # us @ s # rest) c1) x q \<longrightarrow>
       (\<exists>y r. reads CallNullDenotation (at_p p (ts @ t # us @ s # rest) c) y r \<and> operators_loop bp y r x q)"
    using parses_loop [OF l t' room c0] by blast
  have s': "follows us s" "precedence_of s \<le> precedence_of t" using s t(2) ne by (simp_all add: follows_def)
  have ops: "(if False then 0 else Suc c1) + ops us \<le> 64" "Suc c1 + ops us \<le> c + ops (ts @ t # us)" "c1 < 64"
    using c c1 cases by auto
  obtain c2 where c2: "c2 \<le> Suc c1 + ops us"
    and right: "reads (CallExpression (precedence_of t) False) (at_p p (us @ s # rest) (Suc c1)) (node_of r) (at_p p (s # rest) c2)"
    using parses_expression [OF r ne s'(1) room ops(1) s'(2)] by auto
  have "\<exists>y q0. reads CallNullDenotation (at_p p ((ts @ t # us) @ s # rest) c) y q0 \<and> operators_loop bp y q0 x q"
    if "bp \<le> b" "operators_loop bp (node_of (Infix l t r)) (at_p p (s # rest) c2) x q" for bp x q
  proof -
    have "operators_loop bp (node_of l) (at_p p (t # us @ s # rest) c1) x q"
      by (rule operators_round [OF _ _ ops(3) infix_denotation [OF t(1) right]])
        (use that t(2) in simp_all)
    moreover have "bp \<le> precedence_of t - 1" using that(1) t(2) by simp
    ultimately show ?thesis using left by simp
  qed
  moreover have "c2 \<le> c + ops (ts @ t # us)" using c2 ops(2) by simp
  ultimately show "\<exists>c' \<le> c + ops (ts @ t # us). \<forall>bp x q. bp \<le> b \<longrightarrow>
      operators_loop bp (node_of (Infix l t r)) (at_p p (s # rest) c') x q \<longrightarrow>
      (\<exists>y r. reads CallNullDenotation (at_p p ((ts @ t # us) @ s # rest) c) y r \<and> operators_loop bp y r x q)"
    by blast
qed

lemma parses_postfix:
  assumes t: "tok_Type t \<in> set postfix_operators" "b < 11" and e: "parses 10 d e ts"
  shows "parses b d (Postfix e t) (ts @ [t])"
proof (rule parsesI_loop)
  note cases = postfix_cases [OF t(1)]
  show "b < 12" using t(2) by linarith
  fix p s rest c
  assume room: "room d p" and c: "c + ops (ts @ [t]) \<le> 64"
  have t': "follows ts t" "precedence_of t \<le> Suc 10" using cases by (auto simp: follows_def)
  have c0: "c + ops ts \<le> 64" using c by simp
  obtain c1 where c1: "c1 \<le> c + ops ts"
    and left: "\<forall>bp x q. bp \<le> 10 \<longrightarrow> operators_loop bp (node_of e) (at_p p (t # s # rest) c1) x q \<longrightarrow>
       (\<exists>y r. reads CallNullDenotation (at_p p (ts @ t # s # rest) c) y r \<and> operators_loop bp y r x q)"
    using parses_loop [OF e t' room c0] by blast
  have "\<exists>y q0. reads CallNullDenotation (at_p p ((ts @ [t]) @ s # rest) c) y q0 \<and> operators_loop bp y q0 x q"
    if "bp \<le> b" "operators_loop bp (node_of (Postfix e t)) (at_p p (s # rest) (Suc c1)) x q" for bp x q
  proof -
    have "operators_loop bp (node_of e) (at_p p (t # s # rest) c1) x q"
      by (rule operators_round [OF _ _ _ postfix_denotation [OF t(1)]])
        (use that t(2) cases c c1 in simp_all)
    then show ?thesis using left that(1) t(2) by simp
  qed
  moreover have "Suc c1 \<le> c + ops (ts @ [t])" using c1 cases by simp
  ultimately show "\<exists>c' \<le> c + ops (ts @ [t]). \<forall>bp x q. bp \<le> b \<longrightarrow>
      operators_loop bp (node_of (Postfix e t)) (at_p p (s # rest) c') x q \<longrightarrow>
      (\<exists>y r. reads CallNullDenotation (at_p p ((ts @ [t]) @ s # rest) c) y r \<and> operators_loop bp y r x q)"
    by blast
qed

lemma parses_literal: "tok_Type t \<in> set literal_tokens \<Longrightarrow> parses b d (Literal t) [t]"
  by (rule parsesI_atomic) (use literal_denotation [of t] le_add1 in \<open>simp del: ops_simps, blast\<close>)

lemma parses_prefix:
  assumes "tok_Type t \<in> set prefix_operators" "parses 12 d e ts" "ts \<noteq> []"
  shows "parses b d (Prefix t e) (t # ts)"
proof (rule parsesI_atomic)
  fix p s rest c
  assume "follows (t # ts) s" "room d p" "c + ops (t # ts) \<le> 64"
  moreover have "follows ts s" using calculation(1) assms(3) by (simp add: follows_def)
  ultimately obtain c' where "c' \<le> c + ops ts"
    "reads CallNullDenotation (at_p p (ts @ s # rest) c) (node_of e) (at_p p (s # rest) c')"
    using parses_null [OF assms(2)] by (metis add_leE nle_le not_less_eq_eq ops_simps(2) add_Suc_right)
  then show "\<exists>c' \<le> c + ops (t # ts). reads CallNullDenotation (at_p p ((t # ts) @ s # rest) c)
      (node_of (Prefix t e)) (at_p p (s # rest) c')"
    using prefix_denotation [OF assms(1)] prefix_cases [OF assms(1)] by (auto intro!: exI [of _ c'])
qed

lemma follows_closer: "tok_Type t \<in> {Pn CloseCurl, Pn CloseSquare, Pn Comma} \<Longrightarrow> follows ts t \<and> precedence_of t = 0"
  by (auto simp: follows_def IsPunctuation_def GetOperatorPrecendence_def)

lemma parses_paren:
  assumes "tok_Type opener = Pn OpenCurl" "tok_Type closer = Pn CloseCurl" "parses 0 d e ts" "ts \<noteq> []"
  shows "parses b (Suc d) e (opener # ts @ [closer])"
proof (rule parsesI_atomic)
  fix p s rest c
  assume s: "follows (opener # ts @ [closer]) s" and room: "room (Suc d) p" and c: "c + ops (opener # ts @ [closer]) \<le> 64"
  then have c': "(if False then 0 else c) + ops ts \<le> 64" by (simp add: assms(1,2))
  obtain c' where c': "c' \<le> c + ops ts"
    "reads (CallExpression 0 False) (at_p p (ts @ closer # s # rest) c) (node_of e) (at_p p (closer # s # rest) c')"
    using parses_expression [OF assms(3,4) _ room c', of closer "s # rest"] follows_closer [of closer] assms(2) by auto
  have "tok_Type s \<noteq> Pn Delimeter" using s by (simp add: follows_def)
  from paren_denotation [OF assms(1,2) this c'(2)] c'(1)
  show "\<exists>c' \<le> c + ops (opener # ts @ [closer]). reads CallNullDenotation (at_p p ((opener # ts @ [closer]) @ s # rest) c)
      (node_of e) (at_p p (s # rest) c')"
    by (auto simp: assms(1,2))
qed

text \<open>Lists of expressions, the arguments of a call, and indices. Each element counts its operators afresh.\<close>

definition parses_list :: "TokenType \<Rightarrow> nat \<Rightarrow> expr list \<Rightarrow> SyntaxToken list \<Rightarrow> bool" where
  "parses_list closer d es ts \<longleftrightarrow>
     (\<forall>p rest c xs message. closer \<in> {Pn CloseCurl, Pn CloseSquare} \<longrightarrow> room d p \<longrightarrow> ops ts \<le> 64 \<longrightarrow>
        (\<exists>c' \<le> c + ops ts. elements_loop closer message xs (at_p p (ts @ rest) c) (xs @ map node_of es) (at_p p rest c')))"

definition parses_call :: "nat \<Rightarrow> expr list option \<Rightarrow> SyntaxToken list \<Rightarrow> bool" where
  "parses_call d args us \<longleftrightarrow>
     (\<forall>p tail c. room d p \<longrightarrow> ops us \<le> 64 \<longrightarrow>
        (\<exists>c' \<le> c + ops us. call_reads p (map_option (map node_of) args) us tail c c'))"

definition parses_indices :: "nat \<Rightarrow> expr list list \<Rightarrow> SyntaxToken list \<Rightarrow> bool" where
  "parses_indices d idx vs \<longleftrightarrow>
     (\<forall>p s rest c. room d p \<longrightarrow> ops vs \<le> 64 \<longrightarrow> tok_Type s \<noteq> Pn OpenSquare \<longrightarrow>
        (\<exists>c' \<le> c + ops vs. indices_read p (map (map node_of) idx) vs (s # rest) c c'))"

definition link_start :: "bool \<Rightarrow> SyntaxToken list \<Rightarrow> SyntaxToken \<Rightarrow> bool" where
  "link_start isFirst pre t \<longleftrightarrow>
     (if isFirst then pre = [] \<and> tok_Type t \<in> set first_names
      else \<exists>dot. pre = [dot] \<and> tok_Type dot = Pn Delimeter \<and> tok_Type t = Gen Identifier)"

definition parses_links :: "nat \<Rightarrow> link list \<Rightarrow> SyntaxToken list \<Rightarrow> bool" where
  "parses_links d ls ts \<longleftrightarrow>
     (\<forall>p s rest c previous isFirst pre. follows ts s \<longrightarrow> room d p \<longrightarrow> ops ts \<le> 64 \<longrightarrow> link_start isFirst pre (hd ts) \<longrightarrow>
        (\<exists>c' \<le> c + ops ts. reads (CallLinkedExpressionNode previous isFirst) (at_p p (pre @ ts @ s # rest) c)
           (fold id (map link_node ls) previous) (at_p p (s # rest) c')))"

lemma parses_element:
  assumes "parses 0 d e ts" "ts \<noteq> []" "room (Suc d) p" "ops ts \<le> 64"
    and "closer \<in> {Pn CloseCurl, Pn CloseSquare}" "tok_Type t \<in> {Pn Comma, closer}"
  shows "\<exists>c' \<le> ops ts. leads_p (\<lambda>n. separated_step (read_expression (parse_code n)) closer message xs)
     (at_p p (ts @ t # rest) c)
     (if tok_Type t = closer then Inr (xs @ [node_of e]) else Inl (xs @ [node_of e])) (at_p p rest c')"
proof -
  have t: "follows ts t" "precedence_of t \<le> 0" using follows_closer [of t ts] assms(5,6) by auto
  obtain c' where c': "c' \<le> ops ts"
    and r: "reads (CallExpression 0 True) (at_p p (ts @ t # rest) c) (node_of e) (at_p p (t # rest) c')"
    using parses_expression [OF assms(1,2) t(1) assms(3) _ t(2), of True c rest] assms(4) by auto
  have ts: "hd ts # tl ts @ t # rest = ts @ t # rest" using assms(2) by (cases ts) auto
  from separated_element [where u = "hd ts" and ts = "tl ts @ t # rest", unfolded ts, OF r assms(6)] c'
  show ?thesis by blast
qed

lemma parses_one:
  assumes "parses 0 d e ts" "ts \<noteq> []" "tok_Type t = closer"
  shows "parses_list closer (Suc d) [e] (ts @ [t])"
  unfolding parses_list_def
proof (intro allI impI)
  fix p rest c xs message
  assume a: "closer \<in> {Pn CloseCurl, Pn CloseSquare}" "room (Suc d) p" "ops (ts @ [t]) \<le> 64"
  then have "ops ts \<le> 64" by simp
  from parses_element [OF assms(1,2) a(2) this a(1), of t message xs rest c] assms(3)
  obtain c' where "c' \<le> ops ts" "leads_p (\<lambda>n. separated_step (read_expression (parse_code n)) closer message xs)
     (at_p p (ts @ t # rest) c) (Inr (xs @ [node_of e])) (at_p p rest c')" by auto
  then show "\<exists>c' \<le> c + ops (ts @ [t]). elements_loop closer message xs (at_p p ((ts @ [t]) @ rest) c)
      (xs @ map node_of [e]) (at_p p rest c')"
    using loops_stop by (intro exI [of _ c']) auto
qed

lemma parses_more:
  assumes "parses 0 d e ts" "ts \<noteq> []" "tok_Type t = Pn Comma" "parses_list closer (Suc d) es us"
  shows "parses_list closer (Suc d) (e # es) (ts @ t # us)"
  unfolding parses_list_def
proof (intro allI impI)
  fix p rest c xs message
  assume a: "closer \<in> {Pn CloseCurl, Pn CloseSquare}" "room (Suc d) p" "ops (ts @ t # us) \<le> 64"
  then have o: "ops ts \<le> 64" "ops us \<le> 64" by (auto simp: assms(3))
  from parses_element [OF assms(1,2) a(2) o(1) a(1), of t message xs "us @ rest" c] assms(3) a(1)
  obtain c1 where c1: "c1 \<le> ops ts" "leads_p (\<lambda>n. separated_step (read_expression (parse_code n)) closer message xs)
     (at_p p (ts @ t # us @ rest) c) (Inl (xs @ [node_of e])) (at_p p (us @ rest) c1)" by auto
  obtain c2 where c2: "c2 \<le> c1 + ops us" "elements_loop closer message (xs @ [node_of e]) (at_p p (us @ rest) c1)
     ((xs @ [node_of e]) @ map node_of es) (at_p p rest c2)"
    using assms(4) a o(2) unfolding parses_list_def by blast
  show "\<exists>c' \<le> c + ops (ts @ t # us). elements_loop closer message xs (at_p p ((ts @ t # us) @ rest) c)
      (xs @ map node_of (e # es)) (at_p p rest c')"
    using loops_round [OF c1(2) c2(2)] c1(1) c2(1) by (intro exI [of _ c2]) auto
qed

lemma parses_empty_call:
  assumes "tok_Type opener = Pn OpenCurl" "tok_Type closer = Pn CloseCurl"
  shows "parses_call d (Some []) [opener, closer]"
  unfolding parses_call_def call_reads_def ReadArgumentsList_def
  by (auto simp: assms leads_enclosed_empty)

lemma parses_some_call:
  assumes "tok_Type opener = Pn OpenCurl" "parses_list (Pn CloseCurl) d es ts" "ts \<noteq> []" "tok_Type (hd ts) \<noteq> Pn CloseCurl"
  shows "parses_call d (Some es) (opener # ts)"
  unfolding parses_call_def
proof (intro allI impI)
  fix p tail c
  assume a: "room d p" "ops (opener # ts) \<le> 64"
  then have "ops ts \<le> 64" by (simp add: assms(1))
  then obtain c' where c': "c' \<le> c + ops ts" and l: "elements_loop (Pn CloseCurl) ''Expected , or )'' []
      (at_p p (ts @ tail) c) ([] @ map node_of es) (at_p p tail c')"
    using assms(2) a(1) unfolding parses_list_def by blast
  obtain u us where "ts = u # us" using assms(3) by (cases ts) auto
  then have "call_reads p (map_option (map node_of) (Some es)) (opener # ts) tail c c'"
    using leads_enclosed [OF assms(1)] l assms(4) by (simp add: call_reads_def ReadArgumentsList_def assms(1))
  with c' show "\<exists>c' \<le> c + ops (opener # ts). call_reads p (map_option (map node_of) (Some es)) (opener # ts) tail c c'"
    by (intro exI [of _ c']) auto
qed

text \<open>An index in front of indices.\<close>

lemma indices_read_Cons:
  assumes "tok_Type opener = Pn OpenSquare" "tok_Type s \<noteq> Pn OpenSquare"
    and "leads_p (\<lambda>n. ReadIndexatorList n (parse_code n)) (at_p p (opener # ts @ us @ s # rest) c) xs
           (at_p p (us @ s # rest) c1)"
    and "indices_read p idx us (s # rest) c1 c2"
  shows "indices_read p (xs # idx) (opener # ts @ us) (s # rest) c c2"
proof -
  have "reads (CallIndexatorExpressionNode x) (at_p p (opener # ts @ us @ s # rest) c)
     (index_nodes (xs # idx) x) (at_p p (s # rest) c2)" for x
  proof (cases us)
    case Nil
    then have "idx = []" "c2 = c1" using assms(4) by (auto simp: indices_read_def split: if_splits)
    then show ?thesis using reads_index [of p "opener # ts @ us @ s # rest" c xs s rest c1] assms(2,3) Nil by simp
  next
    case (Cons u us')
    then have "idx \<noteq> []" "tok_Type u = Pn OpenSquare" using assms(4) by (auto simp: indices_read_def split: if_splits)
    moreover have "reads (CallIndexatorExpressionNode (IndexatorExpressionSyntax indexerKeyword x xs))
      (at_p p (us @ s # rest) c1) (index_nodes (xs # idx) x) (at_p p (s # rest) c2)"
      using assms(4) calculation(1) by (simp add: indices_read_def)
    ultimately show ?thesis
      using reads_index [of p "opener # ts @ us @ s # rest" c xs u "us' @ s # rest" c1] assms(3) Cons by simp
  qed
  then show ?thesis by (simp add: indices_read_def assms(1))
qed

lemma parses_empty_index:
  assumes "tok_Type opener = Pn OpenSquare" "tok_Type closer = Pn CloseSquare" "parses_indices d idx us"
  shows "parses_indices d ([] # idx) (opener # closer # us)"
  unfolding parses_indices_def
proof (intro allI impI)
  fix p rest c and s :: SyntaxToken
  assume a: "room d p" "ops (opener # closer # us) \<le> 64" "tok_Type s \<noteq> Pn OpenSquare"
  then obtain c' where "c' \<le> c + ops us" "indices_read p (map (map node_of) idx) us (s # rest) c c'"
    using assms(3) [unfolded parses_indices_def, rule_format, of p s c rest] by (auto simp: assms(1,2))
  then show "\<exists>c' \<le> c + ops (opener # closer # us). indices_read p (map (map node_of) ([] # idx)) (opener # closer # us) (s # rest) c c'"
    using indices_read_Cons [OF assms(1) a(3), of p "[closer]" us rest c "[]" c]
      leads_enclosed_empty [of opener "Pn OpenSquare" closer "Pn CloseSquare"] assms
    by (intro exI [of _ c']) (simp add: ReadIndexatorList_def)
qed

lemma parses_index:
  assumes "tok_Type opener = Pn OpenSquare" "parses_list (Pn CloseSquare) d es ts" "ts \<noteq> []"
    "tok_Type (hd ts) \<noteq> Pn CloseSquare" "parses_indices d idx us"
  shows "parses_indices d (es # idx) (opener # ts @ us)"
  unfolding parses_indices_def
proof (intro allI impI)
  fix p rest c and s :: SyntaxToken
  assume a: "room d p" "ops (opener # ts @ us) \<le> 64" "tok_Type s \<noteq> Pn OpenSquare"
  then have o: "ops ts \<le> 64" "ops us \<le> 64" by (auto simp: assms(1))
  obtain c1 where c1: "c1 \<le> c + ops ts" and l: "elements_loop (Pn CloseSquare) ''Expected , or ]'' []
      (at_p p (ts @ us @ s # rest) c) ([] @ map node_of es) (at_p p (us @ s # rest) c1)"
    using assms(2) a(1) o(1) unfolding parses_list_def by blast
  obtain c2 where c2: "c2 \<le> c1 + ops us" "indices_read p (map (map node_of) idx) us (s # rest) c1 c2"
    using assms(5) a(1,3) o(2) unfolding parses_indices_def by blast
  obtain v vs where "ts = v # vs" using assms(3) by (cases ts) auto
  then have "leads_p (\<lambda>n. ReadIndexatorList n (parse_code n)) (at_p p (opener # ts @ us @ s # rest) c) (map node_of es)
     (at_p p (us @ s # rest) c1)"
    using leads_enclosed [OF assms(1), of v "Pn CloseSquare" "''Expected , or ]''" p "vs @ us @ s # rest" c "map node_of es"
        "at_p p (us @ s # rest) c1"] l assms(4)
    by (simp add: ReadIndexatorList_def)
  from indices_read_Cons [OF assms(1) a(3) this c2(2)]
  show "\<exists>c' \<le> c + ops (opener # ts @ us). indices_read p (map (map node_of) (es # idx)) (opener # ts @ us) (s # rest) c c'"
    using c1 c2(1) by (intro exI [of _ c2]) auto
qed

text \<open>Chains.\<close>

lemma link_node_linked:
  "link_node (Link t args idx) previous =
     index_nodes (map (map node_of) idx) (linked_node t (map_option (map node_of) args) previous)"
  by (simp add: linked_node_def)

lemma link_start_first: "link_start isFirst pre t \<Longrightarrow> tok_Type t \<in> set first_names"
  by (auto simp: link_start_def first_names_def split: if_splits)

lemma reads_link_start:
  assumes "ps_LinkedExpressionDepth p < 64" "link_start isFirst pre t" "ts \<noteq> []"
    and "leads_p (\<lambda>n. link_after_name n (parse_code n) t previous) (at_p (deeper_l p) ts c) x (at_p (deeper_l p) us c')"
  shows "reads (CallLinkedExpressionNode previous isFirst) (at_p p (pre @ t # ts) c) x (at_p p us c')"
  using reads_link [OF assms(1) assms(2) [unfolded link_start_def]] assms(3,4) by (cases ts) auto

lemma parses_last:
  assumes "parses_call d args us" "parses_indices d idx vs"
  shows "parses_links (Suc d) [Link t args idx] (t # us @ vs)"
  unfolding parses_links_def
proof (intro allI impI)
  fix p rest c previous isFirst pre and s :: SyntaxToken
  assume a: "follows (t # us @ vs) s" "room (Suc d) p" "ops (t # us @ vs) \<le> 64"
    "link_start isFirst pre (hd (t # us @ vs))"
  note room = room_Suc [OF a(2)]
  have start: "link_start isFirst pre t" using a(4) by simp
  have t: "\<not> IsOperator (tok_Type t)" using first_name_cases [OF link_start_first [OF start]] by simp
  have o: "ops us \<le> 64" "ops vs \<le> 64" using a(3) t by auto
  obtain c1 where c1: "c1 \<le> c + ops us"
    "call_reads (deeper_l p) (map_option (map node_of) args) us (vs @ s # rest) c c1"
    using assms(1) room o(1) unfolding parses_call_def by blast
  have s: "IsOperator (tok_Type s) \<or> IsPunctuation (tok_Type s)" "tok_Type s \<notin> {Pn OpenCurl, Pn OpenSquare}"
    "tok_Type s \<noteq> Pn OpenSquare" "tok_Type s \<noteq> Pn Delimeter" using a(1) by (auto simp: follows_def)
  have less: "us @ vs \<noteq> []" if "tok_Type s = Op LessOperator"
    using that a(1) link_start_first [OF start] by (auto simp: follows_def)
  obtain c2 where c2: "c2 \<le> c1 + ops vs" "indices_read (deeper_l p) (map (map node_of) idx) vs (s # rest) c1 c2"
    using assms(2) room o(2) s(3) unfolding parses_indices_def by blast
  let ?x = "link_node (Link t args idx) previous"
  have "link_ends ?x (at_p (deeper_l p) (s # rest) c2) s ?x (at_p (deeper_l p) (s # rest) c2)"
    by (simp add: link_ends_def s(4))
  from leads_link_after_name [OF c1(2) c2(2) s(1,2) less this [unfolded link_node_linked]]
  have "leads_p (\<lambda>n. link_after_name n (parse_code n) t previous) (at_p (deeper_l p) (us @ vs @ s # rest) c)
     ?x (at_p (deeper_l p) (s # rest) c2)"
    by (simp only: link_node_linked)
  from reads_link_start [OF _ start _ this] room
  show "\<exists>c' \<le> c + ops (t # us @ vs). reads (CallLinkedExpressionNode previous isFirst)
     (at_p p (pre @ (t # us @ vs) @ s # rest) c) (fold id (map link_node [Link t args idx]) previous) (at_p p (s # rest) c')"
    using c1(1) c2(1) t by (intro exI [of _ c2]) (simp del: link_node.simps)
qed

lemma parses_next:
  assumes "parses_call d args us" "parses_indices d idx vs" "tok_Type dot = Pn Delimeter"
    "tok_Type name = Gen Identifier" "parses_links d (Link name args' idx' # ls) (name # ts)"
  shows "parses_links (Suc d) (Link t args idx # Link name args' idx' # ls) (t # us @ vs @ dot # name # ts)"
  unfolding parses_links_def
proof (intro allI impI)
  fix p rest c previous isFirst pre and s :: SyntaxToken
  assume a: "follows (t # us @ vs @ dot # name # ts) s" "room (Suc d) p" "ops (t # us @ vs @ dot # name # ts) \<le> 64"
    "link_start isFirst pre (hd (t # us @ vs @ dot # name # ts))"
  note room = room_Suc [OF a(2)]
  have start: "link_start isFirst pre t" using a(4) by simp
  have t: "\<not> IsOperator (tok_Type t)" using first_name_cases [OF link_start_first [OF start]] by simp
  have o: "ops us \<le> 64" "ops vs \<le> 64" "ops (name # ts) \<le> 64" using a(3) t by (auto simp: assms(3,4))
  let ?tail = "name # ts @ s # rest"
  obtain c1 where c1: "c1 \<le> c + ops us"
    "call_reads (deeper_l p) (map_option (map node_of) args) us (vs @ dot # ?tail) c c1"
    using assms(1) room o(1) unfolding parses_call_def by blast
  have dot: "IsOperator (tok_Type dot) \<or> IsPunctuation (tok_Type dot)" "tok_Type dot \<notin> {Pn OpenCurl, Pn OpenSquare}"
    "tok_Type dot \<noteq> Pn OpenSquare" by (simp_all add: assms(3) IsPunctuation_def)
  obtain c2 where c2: "c2 \<le> c1 + ops vs" "indices_read (deeper_l p) (map (map node_of) idx) vs (dot # ?tail) c1 c2"
    using assms(2) room o(2) dot(3) unfolding parses_indices_def by blast
  let ?x = "link_node (Link t args idx) previous"
  let ?y = "fold id (map link_node (Link t args idx # Link name args' idx' # ls)) previous"
  have "follows (name # ts) s" using a(1) by (simp add: follows_def)
  moreover have "link_start False [dot] (hd (name # ts))" by (simp add: link_start_def assms(3,4))
  ultimately obtain c3 where c3: "c3 \<le> c2 + ops (name # ts)"
    "reads (CallLinkedExpressionNode ?x False) (at_p (deeper_l p) ([dot] @ (name # ts) @ s # rest) c2) ?y
       (at_p (deeper_l p) (s # rest) c3)"
    using assms(5) room o(3) unfolding parses_links_def by (simp only: list.map fold_simps id_apply) blast
  then have "link_ends ?x (at_p (deeper_l p) (dot # ?tail) c2) dot ?y (at_p (deeper_l p) (s # rest) c3)"
    by (simp add: link_ends_def assms(3))
  from leads_link_after_name [OF c1(2) c2(2) dot(1,2) _ this [unfolded link_node_linked]]
  have "leads_p (\<lambda>n. link_after_name n (parse_code n) t previous) (at_p (deeper_l p) (us @ vs @ dot # ?tail) c)
     ?y (at_p (deeper_l p) (s # rest) c3)"
    by (simp add: assms(3) link_node_linked del: link_node.simps)
  from reads_link_start [OF _ start _ this] room
  show "\<exists>c' \<le> c + ops (t # us @ vs @ dot # name # ts). reads (CallLinkedExpressionNode previous isFirst)
     (at_p p (pre @ (t # us @ vs @ dot # name # ts) @ s # rest) c) ?y (at_p p (s # rest) c')"
    using c1(1) c2(1) c3(1) t by (intro exI [of _ c3]) (simp add: assms(3,4) del: link_node.simps)
qed

lemma parses_chain:
  assumes "tok_Type t \<in> set first_names" "parses_links d (Link t args idx # ls) (t # ts)"
  shows "parses b d (Chain (Link t args idx # ls)) (t # ts)"
proof (rule parsesI_atomic)
  fix p rest c and s :: SyntaxToken
  assume a: "follows (t # ts) s" "room d p" "c + ops (t # ts) \<le> 64"
  then have "ops (t # ts) \<le> 64" "link_start True [] (hd (t # ts))" using assms(1) by (simp_all add: link_start_def)
  then obtain c' where "c' \<le> c + ops (t # ts)" "reads (CallLinkedExpressionNode NullNode True) (at_p p ([] @ (t # ts) @ s # rest) c)
      (fold id (map link_node (Link t args idx # ls)) NullNode) (at_p p (s # rest) c')"
    using assms(2) a(1,2) unfolding parses_links_def by blast
  then show "\<exists>c' \<le> c + ops (t # ts). reads CallNullDenotation (at_p p ((t # ts) @ s # rest) c)
     (node_of (Chain (Link t args idx # ls))) (at_p p (s # rest) c')"
    using chain_denotation [OF assms(1)] by (intro exI [of _ c']) (simp only: append_Nil append_Cons node_of.simps simp_thms)
qed

section \<open>All derivations\<close>

lemma derives_parses:
  "derives b d e ts \<Longrightarrow> parses b d e ts"
  "derives_links d ls us \<Longrightarrow> parses_links d ls us"
  "derives_list closer d es vs \<Longrightarrow> parses_list closer d es vs"
  "derives_call d args ws \<Longrightarrow> parses_call d args ws"
  "derives_indices d idx xs \<Longrightarrow> parses_indices d idx xs"
proof (induction rule: derives_derives_links_derives_list_derives_call_derives_indices.inducts)
  case (derives_literal t b d)
  then show ?case by (rule parses_literal)
next
  case (derives_chain t d args idx ls ts b)
  show ?case by (rule parses_chain [OF derives_chain.hyps(1) derives_chain.IH])
next
  case (derives_prefix t d e ts b)
  show ?case using parses_prefix derives_prefix derives_starts(1) by blast
next
  case (derives_postfix t b d e ts)
  show ?case using parses_postfix derives_postfix by blast
next
  case (derives_infix t b d l ts r us)
  have "us \<noteq> []" using derives_starts(1) derives_infix.hyps(4) by blast
  then show ?case
    by (rule parses_infix [OF derives_infix.hyps(1,2) derives_infix.IH(1,2) _ derives_infix(5)])
next
  case (derives_paren opener closer d e ts b)
  show ?case using parses_paren derives_paren derives_starts(1) by blast
next
  case (derives_last d args us idx vs t)
  show ?case by (rule parses_last [OF derives_last.IH])
next
  case (derives_next d args us idx vs dot name args' idx' ls ts t)
  show ?case by (rule parses_next [OF derives_next.IH(1,2) derives_next.hyps(3,4) derives_next.IH(3)])
next
  case (derives_no_call d)
  show ?case by (simp add: parses_call_def call_reads_def)
next
  case (derives_empty_call opener closer d)
  then show ?case by (rule parses_empty_call)
next
  case (derives_some_call opener d es ts)
  then show ?case using parses_some_call derives_starts(3) by blast
next
  case (derives_one d e ts t closer)
  then show ?case using parses_one derives_starts(1) by blast
next
  case (derives_more d e ts comma closer es us)
  then show ?case using parses_more derives_starts(1) by blast
next
  case (derives_no_indices d)
  show ?case by (simp add: parses_indices_def indices_read_def)
next
  case (derives_empty_index opener closer d idx us)
  then show ?case using parses_empty_index by blast
next
  case (derives_index opener d es ts idx us)
  then show ?case using parses_index derives_starts(3) by blast
qed

text \<open>An expression in front of a token that ends it, from a parser with room for it.\<close>

lemma expression_reads:
  assumes "derives 0 d e ts" "tok_Type t \<notin> {Pn OpenCurl, Pn Delimeter, Pn OpenSquare, Pn Question}" "IsPunctuation (tok_Type t)"
    and "room (Suc d) p" "ops ts \<le> 64"
  obtains c' where "c' \<le> ops ts" "reads (CallExpression 0 True) (at_p p (ts @ t # rest) c) (node_of e) (at_p p (t # rest) c')"
proof -
  have "follows ts t" using assms(2,3) by (auto simp: follows_def IsPunctuation_def)
  moreover have "precedence_of t \<le> 0" using assms(2,3) by (auto simp: IsPunctuation_def GetOperatorPrecendence_def)
  ultimately show ?thesis
    using parses_expression [OF derives_parses(1) [OF assms(1)], of t p True c rest] derives_starts(1) [OF assms(1)]
      assms(4,5) that by auto
qed

end
