(* ===== verification/ParsingText.thy ===== *)
theory ParsingText
  imports ParserRoundTrip LexerRoundTrip
begin

text \<open>
  From the text of an expression to its tree: the lexer gives the tokens their locations, and the grammar does not
  look at them.
\<close>

definition unlocated :: "SyntaxToken \<Rightarrow> SyntaxToken" where
  "unlocated t = SyntaxToken_of (tok_Type t) (tok_Word t) TextLocation_default"

primrec unlocated_expr :: "expr \<Rightarrow> expr" and unlocated_link :: "link \<Rightarrow> link" where
  "unlocated_expr (Literal t) = Literal (unlocated t)"
| "unlocated_expr (Chain ls) = Chain (map unlocated_link ls)"
| "unlocated_expr (Prefix t e) = Prefix (unlocated t) (unlocated_expr e)"
| "unlocated_expr (Postfix e t) = Postfix (unlocated_expr e) (unlocated t)"
| "unlocated_expr (Infix l t r) = Infix (unlocated_expr l) (unlocated t) (unlocated_expr r)"
| "unlocated_link (Link t args idx) =
     Link (unlocated t) (map_option (map unlocated_expr) args) (map (map unlocated_expr) idx)"

lemma lexeme_eq: "lexeme_of u = lexeme_of t \<longleftrightarrow> tok_Type u = tok_Type t \<and> unlocated u = unlocated t"
  by (auto simp: lexeme_of_def unlocated_def SyntaxToken_of_def)

abbreviation spelled_as :: "SyntaxToken list \<Rightarrow> SyntaxToken list \<Rightarrow> bool" where
  "spelled_as us ts \<equiv> map lexeme_of us = map lexeme_of ts"

lemma spelled_as_Cons: "spelled_as us (t # ts) \<longleftrightarrow> (\<exists>u us'. us = u # us' \<and> lexeme_of u = lexeme_of t \<and> spelled_as us' ts)"
  by (cases us) auto

lemma spelled_as_append: "spelled_as us (ts @ ts') \<longleftrightarrow> (\<exists>vs vs'. us = vs @ vs' \<and> spelled_as vs ts \<and> spelled_as vs' ts')"
  by (simp only: map_append map_eq_append_conv) metis

lemma spelled_as_last: "spelled_as us ts \<Longrightarrow> ts \<noteq> [] \<Longrightarrow> tok_Type (last us) = tok_Type (last ts)"
  by (metis last_map lexeme_eq map_is_Nil_conv)

lemma ops_spelled_as: "spelled_as us ts \<Longrightarrow> ops us = ops ts"
  proof (induction ts arbitrary: us)
  case (Cons t ts)
  then obtain u us' where u: "us = u # us'" "lexeme_of u = lexeme_of t" "spelled_as us' ts"
    by (auto simp: spelled_as_Cons)
  show ?case using Cons.IH [OF u(3)] u(1,2) by (simp add: lexeme_eq)
qed simp

lemmas grammar_intros = derives_derives_links_derives_list_derives_call_derives_indices.intros

lemma unlocated_link_eq:
  "unlocated_link l = unlocated_link (Link t args idx) \<longleftrightarrow>
     (\<exists>t' args' idx'. l = Link t' args' idx' \<and> unlocated t' = unlocated t
        \<and> map_option (map unlocated_expr) args' = map_option (map unlocated_expr) args
        \<and> map (map unlocated_expr) idx' = map (map unlocated_expr) idx)"
  by (cases l) auto

lemma map_unlocated_link_eq:
  "map unlocated_link ls' = unlocated_link (Link t args idx) # map unlocated_link ls \<longleftrightarrow>
     (\<exists>t' args' idx' ls''. ls' = Link t' args' idx' # ls'' \<and> unlocated t' = unlocated t
        \<and> map_option (map unlocated_expr) args' = map_option (map unlocated_expr) args
        \<and> map (map unlocated_expr) idx' = map (map unlocated_expr) idx
        \<and> map unlocated_link ls'' = map unlocated_link ls)"
  by (cases ls') (auto simp: unlocated_link_eq simp del: unlocated_link.simps)

lemma derives_spelled_as:
  "derives b d e ts \<Longrightarrow> spelled_as us ts \<Longrightarrow> \<exists>e'. derives b d e' us \<and> unlocated_expr e' = unlocated_expr e"
  "derives_links d ls ts \<Longrightarrow> spelled_as us ts \<Longrightarrow>
     \<exists>ls'. derives_links d ls' us \<and> map unlocated_link ls' = map unlocated_link ls"
  "derives_list closer d es ts \<Longrightarrow> spelled_as us ts \<Longrightarrow>
     \<exists>es'. derives_list closer d es' us \<and> map unlocated_expr es' = map unlocated_expr es"
  "derives_call d args ts \<Longrightarrow> spelled_as us ts \<Longrightarrow>
     \<exists>args'. derives_call d args' us \<and> map_option (map unlocated_expr) args' = map_option (map unlocated_expr) args"
  "derives_indices d idx ts \<Longrightarrow> spelled_as us ts \<Longrightarrow>
     \<exists>idx'. derives_indices d idx' us \<and> map (map unlocated_expr) idx' = map (map unlocated_expr) idx"
proof (induction arbitrary: us and us and us and us and us
    rule: derives_derives_links_derives_list_derives_call_derives_indices.inducts)
  case (derives_literal t b d)
  then obtain u where "us = [u]" "lexeme_of u = lexeme_of t" by (auto simp: spelled_as_Cons)
  then show ?case
    using derives_literal.hyps by (intro exI [of _ "Literal u"]) (simp add: lexeme_eq grammar_intros)
next
  case (derives_chain t d args idx ls ts b)
  obtain u us' where u: "us = u # us'" "lexeme_of u = lexeme_of t"
    using derives_chain.prems by (auto simp: spelled_as_Cons)
  obtain t' args' idx' ls' where ls: "derives_links d (Link t' args' idx' # ls') us" 
    "map unlocated_link (Link t' args' idx' # ls') = map unlocated_link (Link t args idx # ls)"
    using derives_chain.IH [OF derives_chain.prems] 
    by (simp only: list.map map_unlocated_link_eq) (metis list.map unlocated_link.simps)
  then have "t' = u" using u(1) by (auto elim: derives_links.cases)
  then show ?case
    using ls u derives_chain.hyps(1)
    by (intro exI [of _ "Chain (Link u args' idx' # ls')"]) (simp add: lexeme_eq grammar_intros)
next
  case (derives_prefix t d e ts b)
  then obtain u us' where u: "us = u # us'" "lexeme_of u = lexeme_of t" "spelled_as us' ts"
    by (auto simp: spelled_as_Cons)
  then obtain e' where "derives 12 d e' us'" "unlocated_expr e' = unlocated_expr e"
    using derives_prefix.IH by blast
  then show ?case
    using u derives_prefix.hyps(1) by (intro exI [of _ "Prefix u e'"]) (simp add: lexeme_eq grammar_intros)
next
  case (derives_postfix t b d e ts)
  then obtain us' u where u: "us = us' @ [u]" "lexeme_of u = lexeme_of t" "spelled_as us' ts"
    by (auto simp: spelled_as_append spelled_as_Cons simp del: map_append)
  then obtain e' where "derives 10 d e' us'" "unlocated_expr e' = unlocated_expr e"
    using derives_postfix.IH by blast
  then show ?case
    using u derives_postfix.hyps by (intro exI [of _ "Postfix e' u"]) (simp add: lexeme_eq grammar_intros)
next
  case (derives_infix t b d l ts r vs)
  then obtain ts' u vs' where u: "us = ts' @ u # vs'" "lexeme_of u = lexeme_of t" "spelled_as ts' ts" "spelled_as vs' vs"
    by (auto simp: spelled_as_append spelled_as_Cons simp del: map_append)
  obtain l' r' where "derives (precedence_of t - 1) (Suc d) l' ts'" "unlocated_expr l' = unlocated_expr l"
     "derives (precedence_of t) d r' vs'" "unlocated_expr r' = unlocated_expr r"
    using derives_infix.IH u by blast
  moreover have "tok_Type (last ts') \<notin> set first_names" if "tok_Type u = Op LessOperator"
    using that derives_infix(5) u spelled_as_last [OF u(3)] derives_starts(1) [OF derives_infix.hyps(3)]
    by (simp add: lexeme_eq)
  ultimately have "derives b (Suc d) (Infix l' u r') us"
    unfolding u(1)
    by (intro grammar_intros(5)) (use u(2) derives_infix.hyps(1,2) in \<open>simp_all add: lexeme_eq\<close>)
  then show ?case
    using u \<open>unlocated_expr l' = unlocated_expr l\<close> \<open>unlocated_expr r' = unlocated_expr r\<close>
    by (intro exI [of _ "Infix l' u r'"]) (simp add: lexeme_eq)
next
  case (derives_paren opener closer d e ts b)
  then obtain o' ts' c' where u: "us = o' # ts' @ [c']" "lexeme_of o' = lexeme_of opener" "spelled_as ts' ts"
      "lexeme_of c' = lexeme_of closer"
    by (auto simp: spelled_as_append spelled_as_Cons simp del: map_append)
  obtain e' where "derives 0 d e' ts'" "unlocated_expr e' = unlocated_expr e"
    using derives_paren.IH [OF u(3)] by blast
  then show ?case
    using u derives_paren.hyps(1,2) by (intro exI [of _ e']) (simp add: lexeme_eq grammar_intros)
next
  case (derives_last d args vs idx ws t)
  then obtain u vs' ws' where u: "us = u # vs' @ ws'" "lexeme_of u = lexeme_of t" "spelled_as vs' vs" "spelled_as ws' ws"
    by (auto simp: spelled_as_append spelled_as_Cons simp del: map_append)
  obtain args' idx' where "derives_call d args' vs'" "map_option (map unlocated_expr) args' = map_option (map unlocated_expr) args"
    "derives_indices d idx' ws'" "map (map unlocated_expr) idx' = map (map unlocated_expr) idx"
    using derives_last.IH u by blast
  then show ?case using u by (intro exI [of _ "[Link u args' idx']"]) (simp add: lexeme_eq grammar_intros)
next
  case (derives_next d args vs idx ws dot name args2 idx2 ls ts t)
  then obtain u vs' ws' dot' name' ts' where u: "us = u # vs' @ ws' @ dot' # name' # ts'" "lexeme_of u = lexeme_of t"
      "spelled_as vs' vs" "spelled_as ws' ws" "lexeme_of dot' = lexeme_of dot" "lexeme_of name' = lexeme_of name"
      "spelled_as ts' ts"
    by (auto simp: spelled_as_append spelled_as_Cons simp del: map_append)
  obtain args' idx' where a: "derives_call d args' vs'" "map_option (map unlocated_expr) args' = map_option (map unlocated_expr) args"
    "derives_indices d idx' ws'" "map (map unlocated_expr) idx' = map (map unlocated_expr) idx"
    using derives_next.IH(1,2) u by blast
  obtain n' args3 idx3 ls' where ls: "derives_links d (Link n' args3 idx3 # ls') (name' # ts')" 
    "map unlocated_link (Link n' args3 idx3 # ls') = map unlocated_link (Link name args2 idx2 # ls)"
    using derives_next.IH(3) [of "name' # ts'"] u
    by (simp only: list.map map_unlocated_link_eq) (metis list.map unlocated_link.simps)
  then have "n' = name'" by (auto elim: derives_links.cases)
  then show ?case
    using a ls u derives_next.hyps(3,4)
    by (intro exI [of _ "Link u args' idx' # Link name' args3 idx3 # ls'"]) (simp add: lexeme_eq grammar_intros)
next
  case (derives_no_call d)
  then show ?case by (intro exI [of _ None]) (simp add: grammar_intros)
next
  case (derives_empty_call opener closer d)
  then obtain o' c' where "us = [o', c']" "lexeme_of o' = lexeme_of opener" "lexeme_of c' = lexeme_of closer"
    by (auto simp: spelled_as_Cons)
  then show ?case
    using derives_empty_call.hyps by (intro exI [of _ "Some []"]) (simp add: lexeme_eq grammar_intros)
next
  case (derives_some_call opener d es ts)
  then obtain o' ts' where u: "us = o' # ts'" "lexeme_of o' = lexeme_of opener" "spelled_as ts' ts"
    by (auto simp: spelled_as_Cons)
  then obtain es' where "derives_list (Pn CloseCurl) d es' ts'" "map unlocated_expr es' = map unlocated_expr es"
    using derives_some_call.IH by blast
  then show ?case
    using u derives_some_call.hyps(1) by (intro exI [of _ "Some es'"]) (simp add: lexeme_eq grammar_intros)
next
  case (derives_one d e ts t closer)
  then obtain us' u where u: "us = us' @ [u]" "lexeme_of u = lexeme_of t" "spelled_as us' ts"
    by (auto simp: spelled_as_append spelled_as_Cons simp del: map_append)
  then obtain e' where "derives 0 d e' us'" "unlocated_expr e' = unlocated_expr e"
    using derives_one.IH by blast
  then show ?case
    using u derives_one.hyps(2) by (intro exI [of _ "[e']"]) (simp add: lexeme_eq grammar_intros)
next
  case (derives_more d e ts comma closer es vs)
  then obtain ts' u vs' where u: "us = ts' @ u # vs'" "lexeme_of u = lexeme_of comma" "spelled_as ts' ts" "spelled_as vs' vs"
    by (auto simp: spelled_as_append spelled_as_Cons simp del: map_append)
  obtain e' es' where "derives 0 d e' ts'" "unlocated_expr e' = unlocated_expr e"
     "derives_list closer (Suc d) es' vs'" "map unlocated_expr es' = map unlocated_expr es"
    using derives_more.IH u by blast
  then show ?case
    using u derives_more.hyps(2) by (intro exI [of _ "e' # es'"]) (simp add: lexeme_eq grammar_intros)
next
  case (derives_no_indices d)
  then show ?case by (intro exI [of _ "[]"]) (simp add: grammar_intros)
next
  case (derives_empty_index opener closer d idx vs)
  then obtain o' c' vs' where u: "us = o' # c' # vs'" "lexeme_of o' = lexeme_of opener" "lexeme_of c' = lexeme_of closer"
     "spelled_as vs' vs"
    by (auto simp: spelled_as_Cons)
  then obtain idx' where "derives_indices d idx' vs'" "map (map unlocated_expr) idx' = map (map unlocated_expr) idx"
    using derives_empty_index.IH by blast
  then show ?case
    using u derives_empty_index.hyps(1,2) by (intro exI [of _ "[] # idx'"]) (simp add: lexeme_eq grammar_intros)
next
  case (derives_index opener d es ts idx vs)
  then obtain o' ts' vs' where u: "us = o' # ts' @ vs'" "lexeme_of o' = lexeme_of opener" "spelled_as ts' ts" "spelled_as vs' vs"
    by (auto simp: spelled_as_append spelled_as_Cons simp del: map_append)
  obtain es' idx' where "derives_list (Pn CloseSquare) d es' ts'" "map unlocated_expr es' = map unlocated_expr es"
    "derives_indices d idx' vs'" "map (map unlocated_expr) idx' = map (map unlocated_expr) idx"
    using derives_index.IH u by blast
  then show ?case
    using u derives_index.hyps(1) by (intro exI [of _ "es' # idx'"]) (simp add: lexeme_eq grammar_intros)
qed

section \<open>Reading text\<close>

lemma at_p_new: "at_p (SourceParser_new us) ts 0 = SourceParser_new ts"
  by (simp add: at_p_def SourceParser_new_def)

lemma room_new: "d \<le> 64 \<Longrightarrow> room d (SourceParser_new us)"
  by (simp add: room_def SourceParser_new_def)

lemma new_simps [simp]:
  "ps_Reader (SourceParser_new us) = us" "ps_Diagnostics (SourceParser_new us) = []"
  by (simp_all add: SourceParser_new_def)

text \<open>The tokens that end an expression.\<close>

definition expression_end :: "TokenType \<Rightarrow> bool" where
  "expression_end type \<longleftrightarrow>
     type \<in> {Pn Semicolon, Pn Comma, Pn CloseCurl, Pn CloseSquare, Pn OpenBrace, Pn CloseBrace, Pn Colon}"

lemma reads_from_start:
  assumes "derives 0 d e ts" "d \<le> 63" "ops ts \<le> 64" "expression_end (tok_Type t)"
  shows "\<exists>p. reads (CallExpression 0 True) (SourceParser_new (ts @ t # rest)) (node_of e) p
     \<and> ps_Reader p = t # rest \<and> ps_Diagnostics p = []"
proof -
  have "tok_Type t \<notin> {Pn OpenCurl, Pn Delimeter, Pn OpenSquare, Pn Question}" "IsPunctuation (tok_Type t)"
    using assms(4) by (auto simp: expression_end_def IsPunctuation_def)
  from expression_reads [OF assms(1) this room_new [where us = "[]"] assms(3), where c = 0 and rest = rest] assms(2)
  obtain c where "reads (CallExpression 0 True) (at_p (SourceParser_new []) (ts @ t # rest) 0) (node_of e)
      (at_p (SourceParser_new []) (t # rest) c)" by auto
  then show ?thesis by (intro exI [of _ "at_p (SourceParser_new []) (t # rest) c"]) (simp add: at_p_new)
qed

text \<open>A name in front of a token that is no operator and no punctuation is dropped.\<close>

lemma reads_dropped_name:
  assumes "tok_Type name \<in> set first_names" "\<not> IsOperator (tok_Type t)" "\<not> IsPunctuation (tok_Type t)"
    and "precedence_of t = 0" "ps_ExpressionDepth p < 64" "ps_LinkedExpressionDepth p < 64"
  shows "reads (CallExpression 0 True) (at_p p (name # t # rest) c) NullNode (at_p p (t # rest) 0)"
proof -
  let ?p = "deeper_e p"
  have t: "tok_Type t \<notin> {Pn OpenCurl, Pn Delimeter, Pn OpenSquare, Op LessOperator}"
    using assms(2,3) by (auto simp: IsPunctuation_def IsOperator_def binary_operator_cases)
  then have "link_ends NullNode (at_p (deeper_l ?p) (t # rest) 0) t NullNode (at_p (deeper_l ?p) (t # rest) 0)"
    by (simp add: link_ends_def)
  from leads_after_link [OF this] t
  have "leads_p (\<lambda>n. after_link (parse_code n) NullNode) (at_p (deeper_l ?p) (t # rest) 0) NullNode
      (at_p (deeper_l ?p) (t # rest) 0)" by simp
  then have "leads_p (\<lambda>n. link_after_name n (parse_code n) name NullNode) (at_p (deeper_l ?p) (t # rest) 0) NullNode
      (at_p (deeper_l ?p) (t # rest) 0)"
    unfolding link_after_name_def by (intro leads_current) (use t assms(2,3) in \<open>simp add: Let_def\<close>)
  then have "reads (CallLinkedExpressionNode NullNode True) (at_p ?p (name # t # rest) 0) NullNode (at_p ?p (t # rest) 0)"
    using reads_link_start [where isFirst = True and pre = "[]" and p = ?p and t = name and ts = "t # rest"]
      assms(1,6) by (simp add: link_start_def)
  then have "reads CallNullDenotation (at_p ?p (name # t # rest) 0) NullNode (at_p ?p (t # rest) 0)"
    by (rule chain_denotation [OF assms(1)])
  then show ?thesis
    using reads_expression [OF assms(5), where reset = True and t = name and ts = "t # rest" and b = 0]
      operators_stop [where t = t and p = ?p and c = 0 and b = 0] assms(4) by simp
qed

end
