(* ===== verification/TypeParsing.thy ===== *)
theory TypeParsing
  imports TokenReading
begin

text \<open>
  The part of the parser that reads types returns for every list of tokens, with fuel linear in its
  length: each recursive call and each round of a loop comes after a token is gone. \<open>ends r p Q\<close>: the
  read \<open>r\<close> returns from \<open>p\<close>, and \<open>Q\<close> holds of its result.
\<close>

definition ends :: "'a parse_op \<Rightarrow> SourceParser \<Rightarrow> ('a \<Rightarrow> SourceParser \<Rightarrow> bool) \<Rightarrow> bool" where
  "ends r p Q \<longleftrightarrow> (\<exists>x q. r p = Some (x, q) \<and> Q x q)"

abbreviation pending :: "SourceParser \<Rightarrow> nat" where
  "pending p \<equiv> length (ps_Reader p)"

lemma ends_simps [simp]:
  "ends (return_p x) p Q = Q x p"
  "ends (modify_p f) p R = R () (f p)"
  "ends (get_p e) p S = S (e p) p"
  "ends (bind_p r g) p Q = ends r p (\<lambda>x q. ends (g x) q Q)"
  "ends (then_p r' h) p Q = ends r' p (\<lambda>x q. ends h q Q)"
  by (auto simp: ends_def bind_p_def then_p_def split: option.splits)

lemma ends_mono: "ends r p Q \<Longrightarrow> (\<And>x q. Q x q \<Longrightarrow> R x q) \<Longrightarrow> ends r p R"
  by (auto simp: ends_def)

lemma pending_simps [simp]:
  "CanConsume_r r \<longleftrightarrow> r \<noteq> []" "length (Consume_r r) = length r - 1" "length (PutBackToken_r t r) = Suc (length r)"
  by (simp_all add: CanConsume_r_def Consume_r_def PutBackToken_r_def)

lemma consumed_less [simp]: "r \<noteq> [] \<Longrightarrow> length r - Suc 0 < n \<longleftrightarrow> length r \<le> n"
  by (cases r) auto

lemma Current_pending: "tok_Type (Current_r r) = ty \<Longrightarrow> ty \<noteq> Gen EndOfFile \<Longrightarrow> 0 < length r"
  by (cases r) (auto simp: Current_r_def)

lemma ends_report [simp]: "ends (ReportError_p t m) p Q = Q () (p\<lparr>ps_Diagnostics := ps_Diagnostics p @ [(t, m)]\<rparr>)"
  by (simp add: ReportError_p_def)

lemma ends_consume [simp]: "ends consume_p p Q = Q () (p\<lparr>ps_Reader := Consume_r (ps_Reader p)\<rparr>)"
  by (simp add: consume_p_def)

lemma ends_take [simp]: "ends take_p p Q = Q (Current_r (ps_Reader p)) (p\<lparr>ps_Reader := Consume_r (ps_Reader p)\<rparr>)"
  by (simp add: take_p_def)

lemma length_TrySynchronize: "length (snd (TrySynchronize_r types k r)) \<le> length r"
  by (induction types k r rule: TrySynchronize_r.induct) auto

lemma found_TrySynchronize:
  "fst (TrySynchronize_r types k r) \<Longrightarrow> snd (TrySynchronize_r types k r) \<noteq> []
     \<and> tok_Type (Current_r (snd (TrySynchronize_r types k r))) \<in> set types"
  by (induction types k r rule: TrySynchronize_r.induct) (auto simp: Current_r_def split: if_splits)

lemma ends_TrySynchronize:
  assumes "\<And>found q. pending q \<le> pending p \<Longrightarrow> (found \<Longrightarrow> 0 < pending q \<and> tok_Type (Current_r (ps_Reader q)) \<in> set types)
      \<Longrightarrow> Q found q"
  shows "ends (TrySynchronize types k) p Q"
  using assms length_TrySynchronize [of types k "ps_Reader p"] found_TrySynchronize [of types k "ps_Reader p"]
  by (auto simp: ends_def TrySynchronize_def split: prod.splits)

text \<open>What is expected and present is consumed; else nothing is put back.\<close>

lemma ends_Expect:
  assumes "\<And>t q. pending q \<le> pending p \<Longrightarrow>
      (0 < pending p \<Longrightarrow> tok_Type (Current_r (ps_Reader p)) = kind \<Longrightarrow> pending q < pending p) \<Longrightarrow> Q t q"
  shows "ends (Expect kind message) p Q"
proof -
  have "ends (TrySynchronize [kind] 5) p' (\<lambda>found q. ends (if found then take_p else return_p x) q Q)"
    if "ps_Reader p' = ps_Reader p" "tok_Type (Current_r (ps_Reader p)) \<noteq> kind" for p' x
    by (rule ends_TrySynchronize) (use that in \<open>auto intro!: assms\<close>)
  then show ?thesis using assms by (auto simp: Expect_def)
qed

lemma ends_TryMatch:
  assumes "\<And>found q. pending q \<le> pending p \<Longrightarrow> (found \<Longrightarrow> 0 < pending q \<and> tok_Type (Current_r (ps_Reader q)) \<in> set types)
      \<Longrightarrow> Q found q"
  shows "ends (TryMatch types message k) p Q"
proof -
  have "ends (TrySynchronize types k) p' Q" if "ps_Reader p' = ps_Reader p" for p'
    by (rule ends_TrySynchronize) (use that in \<open>auto intro!: assms\<close>)
  then show ?thesis
    using assms by (auto simp: TryMatch_def Matches_def split: option.splits)
qed

text \<open>A loop whose rounds consume.\<close>

lemma ends_loop:
  fixes body :: "'a \<Rightarrow> ('a + 'b) parse_op"
  assumes body: "\<And>a p. pending p \<le> l \<Longrightarrow> ends (body a) p (\<lambda>r q. case r of Inl a' \<Rightarrow> pending q < pending p | Inr b \<Rightarrow> pending q \<le> pending p)"
    and "pending p \<le> l" "pending p < k"
  shows "ends (loop_p k body a) p (\<lambda>b q. pending q \<le> pending p)"
  using assms(2,3)
proof (induction k arbitrary: a p)
  case (Suc k)
  show ?case
  proof (simp, rule ends_mono [OF body [OF Suc.prems(1)]])
    fix r :: "'a + 'b" and q
    assume "case r of Inl a' \<Rightarrow> pending q < pending p | Inr b \<Rightarrow> pending q \<le> pending p"
    then show "ends (case r of Inl a' \<Rightarrow> loop_p k body a' | Inr b \<Rightarrow> return_p b) q (\<lambda>b q. pending q \<le> pending p)"
      using Suc ends_mono [OF Suc.IH [of q]] by (cases r) auto
  qed
qed simp

section \<open>Types\<close>

text \<open>The fuel a call needs in front of \<open>l\<close> tokens.\<close>

fun type_fuel :: "type_call \<Rightarrow> nat \<Rightarrow> nat" where
  "type_fuel (CallType allow) l = 2 * l + 2"
| "type_fuel (CallModifiedType type allow) l = 2 * l + 1"

definition type_ends :: "type_rec \<Rightarrow> nat \<Rightarrow> bool" where
  "type_ends rec k \<longleftrightarrow> (\<forall>call p. type_fuel call (pending p) \<le> k \<longrightarrow> ends (rec call) p (\<lambda>x q. pending q \<le> pending p))"

lemma type_call_ends:
  assumes "type_ends rec k" "type_fuel call (pending p) \<le> k" "\<And>x q. pending q \<le> pending p \<Longrightarrow> Q x q"
  shows "ends (rec call) p Q"
  using assms ends_mono unfolding type_ends_def by blast

lemma ends_separated:
  assumes "type_ends rec k" "2 * pending p + 2 \<le> k"
  shows "ends (separated k (rec (CallType True)) closer message xs) p (\<lambda>xs q. pending q \<le> pending p)"
  unfolding separated_def
proof (rule ends_loop)
  fix xs :: "type_node list" and p'
  assume "pending p' \<le> pending p"
  then show "ends (separated_step (rec (CallType True)) closer message xs) p'
      (\<lambda>r q. case r of Inl a' \<Rightarrow> pending q < pending p' | Inr b \<Rightarrow> pending q \<le> pending p')"
    unfolding separated_step_def Let_def
    by (auto intro!: type_call_ends [OF assms(1)] ends_TryMatch simp: assms(2)) (use assms(2) in auto)
qed (use assms(2) in auto)

lemma split_shift_ends:
  assumes "tok_Type (Current_r (ps_Reader p)) = Op RightShiftOperator" "\<And>q. pending q \<le> pending p \<Longrightarrow> Q () q"
  shows "ends split_shift p Q"
  using Current_pending [OF assms(1)] assms(2) by (simp add: split_shift_def)

lemma ends_ReadTypeArgumentsList:
  assumes rec: "type_ends rec k" "2 * pending p \<le> k" and less: "tok_Type (Current_r (ps_Reader p)) = Op LessOperator"
    and Q: "\<And>xs q. pending q < pending p \<Longrightarrow> Q xs q"
  shows "ends (ReadTypeArgumentsList k rec) p Q"
proof -
  have p: "0 < pending p" using Current_pending [OF less] by simp
  let ?round = "\<lambda>types. bind_p can_consume_p (\<lambda>can.
         if \<not> can then stop_p types
         else bind_p (rec (CallType True)) (\<lambda>type.
           let types = types @ [type] in
           bind_p current_p (\<lambda>separatorToken.
             if tok_Type separatorToken = Op RightShiftOperator then then_p split_shift (stop_p types)
             else bind_p (TryMatch [Pn Comma, Op GreaterOperator] (Some ''Expected , or >'') 3) (\<lambda>found.
               if \<not> found then stop_p types
               else bind_p take_p (\<lambda>separatorToken.
                 if tok_Type separatorToken = Op GreaterOperator then stop_p types else continue_p types)))))"
  have round: "ends (?round types) p' (\<lambda>r q. case r of Inl a' \<Rightarrow> pending q < pending p' | Inr b \<Rightarrow> pending q \<le> pending p')"
    if "2 * pending p' + 2 \<le> k" for types p'
    using that by (auto simp: Let_def intro!: type_call_ends [OF rec(1)] ends_TryMatch split_shift_ends)
  have loop: "ends (loop_p k ?round []) q Q" if "pending q < pending p" for q
    by (rule ends_mono [OF ends_loop [OF round, where l = "pending q"]]) (use that rec(2) Q in auto)
  have shift: "ends (then_p split_shift (return_p [])) q Q"
    if "pending q < pending p" "tok_Type (Current_r (ps_Reader q)) = Op RightShiftOperator" for q
    using that by (auto intro!: split_shift_ends Q)
  show ?thesis
    unfolding ReadTypeArgumentsList_def
    by (simp, rule ends_Expect) (use p less loop shift Q in auto)
qed

lemma ends_ReadDelegateParametersList:
  assumes "type_ends rec k" "2 * pending p + 2 \<le> k" and Q: "\<And>xs q. pending q \<le> pending p \<Longrightarrow> Q xs q"
  shows "ends (ReadDelegateParametersList k rec) p Q"
proof -
  have "ends (separated k (rec (CallType True)) closer message []) q Q" if "pending q \<le> pending p" for q closer message
    by (rule ends_mono [OF ends_separated [OF assms(1)]]) (use that assms(2) Q in auto)
  then show ?thesis
    unfolding ReadDelegateParametersList_def enclosed_def by (auto intro!: ends_Expect Q)
qed

lemma ends_ReadModifiedType:
  assumes rec: "type_ends rec k" "2 * pending p \<le> k" and Q: "\<And>xs q. pending q \<le> pending p \<Longrightarrow> Q xs q"
  shows "ends (ReadModifiedType k rec type allow) p Q"
proof -
  have step: "ends (rec (CallModifiedType type' allow)) q Q" if "pending q < pending p" for type' q
    by (rule type_call_ends [OF rec(1)]) (use that rec(2) Q in auto)
  have "ends (ReadArrayType rec type allow) p Q" if "tok_Type (Current_r (ps_Reader p)) = Pn OpenSquare" "ps_Reader p \<noteq> []"
    unfolding ReadArrayType_def using that by (auto intro!: ends_Expect step)
  moreover have "ends (ReadGenericType k rec type allow) p Q" if "tok_Type (Current_r (ps_Reader p)) = Op LessOperator"
    unfolding ReadGenericType_def using that by (auto intro!: ends_ReadTypeArgumentsList [OF rec] step)
  moreover have "ends (Expect (Gen Identifier) ''Expected identifier'') (p\<lparr>ps_Reader := Consume_r (ps_Reader p)\<rparr>)
      (\<lambda>identifier q. ends (rec (CallModifiedType (QualifiedNameTypeSyntax type identifier) allow)) q Q)"
    if "ps_Reader p \<noteq> []"
    by (rule ends_Expect, rule step) (use that in \<open>cases "ps_Reader p"; simp\<close>)
  ultimately show ?thesis
    unfolding ReadModifiedType_def using Q by auto
qed

lemma ends_ReadType_step:
  assumes rec: "type_ends rec k" "2 * pending p + 1 \<le> k" and Q: "\<And>xs q. pending q \<le> pending p \<Longrightarrow> Q xs q"
  shows "ends (ReadType_step k rec allow) p Q"
proof -
  have modified: "ends (rec (CallModifiedType type allow)) q Q" if "pending q < pending p" for type q
    by (rule type_call_ends [OF rec(1)]) (use that rec(2) Q in auto)
  have "ends (ReadDelegateType k rec allow) p Q"
    if t: "tok_Type (Current_r (ps_Reader p)) = Ty DelegateKeyword"
  proof -
    have params: "ends (ReadDelegateParametersList k rec) q (\<lambda>xs r. ends (rec (CallModifiedType (DelegateTypeSyntax type xs) allow)) r Q)"
      if "pending q < pending p" for q type
      by (rule ends_ReadDelegateParametersList [OF rec(1)]) (use that rec(2) modified in auto)
    show ?thesis
      unfolding ReadDelegateType_def
      by (simp, rule ends_Expect, rule type_call_ends [OF rec(1)])
        (use rec(2) t Current_pending [OF t] params in auto)
  qed
  moreover have "ends (ReadIdentifierNameType rec allow) p Q" if "tok_Type (Current_r (ps_Reader p)) = Gen Identifier"
    unfolding ReadIdentifierNameType_def
    by (simp, rule ends_Expect) (use that Current_pending [OF that] modified in auto)
  moreover have "0 < pending p" if "IsPredefinedType (tok_Type (Current_r (ps_Reader p)))"
    using that by (intro Current_pending [OF refl]) (auto simp: IsPredefinedType_def)
  ultimately show ?thesis
    unfolding ReadType_step_def using Q modified by auto
qed

lemma type_fuel_positive [simp]: "type_fuel call l = 0 \<longleftrightarrow> False"
  by (cases call) auto

lemma parse_type_ends: "type_ends (parse_type k) k"
proof (induction k)
  case 0
  show ?case by (simp add: type_ends_def)
next
  case (Suc k)
  have "ends (type_round k (parse_type k) call) p (\<lambda>x q. pending q \<le> pending p)"
    if "type_fuel call (pending p) \<le> Suc k" for call p
    using that by (cases call) (auto intro!: ends_ReadType_step [OF Suc.IH] ends_ReadModifiedType [OF Suc.IH])
  then show ?case by (simp add: type_ends_def)
qed

end
