(* ===== verification/ParserProperties.thy ===== *)
theory ParserProperties
  imports ParsingText TypeParsing
begin

text \<open>
  The properties of the parser: it reads the expressions of the grammar as their trees, from tokens and from
  text; a name it cannot place is lost without a diagnostic; and it reads a type from every list of tokens.
\<close>

definition token :: "TokenType \<Rightarrow> string \<Rightarrow> SyntaxToken" where
  "token type word = SyntaxToken_of type (L word) TextLocation_default"

section \<open>Expressions\<close>

text \<open>
  C6: The expression parser reads every expression of the grammar: if the tokens \<open>ts\<close> derive \<open>e\<close>,
  with at most 63 levels of nesting and 64 operators, and a token that ends an expression follows, then
  for all large enough fuel \<open>ReadExpression\<close> gives the tree of \<open>e\<close> (precedence, left association,
  prefix and postfix operators, parentheses, chains of names, calls and indices), stops in front of that
  token and reports nothing.
\<close>

theorem expression_parsed:
  assumes "derives 0 d e ts" "d \<le> 63" "ops ts \<le> 64" "expression_end (tok_Type t)"
  shows "\<exists>N q. (\<forall>n\<ge>N. parse_code n (CallExpression 0 True) (SourceParser_new (ts @ t # rest)) = Some (node_of e, q))
           \<and> ps_Reader q = t # rest \<and> ps_Diagnostics q = []"
  using reads_from_start [OF assms] unfolding leads_p_def by blast

text \<open>\<^verbatim>\<open>a + - b * ( c + 1 ) ++\<close>\<close>

definition name_token :: "string \<Rightarrow> SyntaxToken" where
  "name_token word = token (Gen Identifier) word"

definition name_chain :: "string \<Rightarrow> expr" where
  "name_chain word = Chain [Link (name_token word) None []]"

lemma derives_name: "derives b (Suc d) (name_chain word) [name_token word]"
  unfolding name_chain_def
  by (intro grammar_intros(2) grammar_intros(7) [where us = "[]" and vs = "[]", simplified])
    (simp_all add: name_token_def token_def first_names_def grammar_intros)

definition sum_expr :: expr where
  "sum_expr =
     Infix (name_chain ''a'') (token (Op AddOperator) ''+'')
       (Infix (Prefix (token (Op SubOperator) ''-'') (name_chain ''b'')) (token (Op MultOperator) ''*'')
         (Postfix (Infix (name_chain ''c'') (token (Op AddOperator) ''+'') (Literal (token (Lit NumberLiteral) ''1'')))
            (token (Op IncrementOperator) ''++'')))"

definition sum_tokens :: "SyntaxToken list" where
  "sum_tokens = [name_token ''a''] @ token (Op AddOperator) ''+''
     # ((token (Op SubOperator) ''-'' # [name_token ''b'']) @ token (Op MultOperator) ''*''
     # ((token (Pn OpenCurl) ''('' # ([name_token ''c''] @ token (Op AddOperator) ''+'' # [token (Lit NumberLiteral) ''1''])
          @ [token (Pn CloseCurl) '')'']) @ [token (Op IncrementOperator) ''++'']))"

lemma given_token_simps [simp]: "tok_Type (token type word) = type" "tok_Type (name_token word) = Gen Identifier"
  by (simp_all add: name_token_def token_def)

lemma derives_one_token: "derives b d (Literal (token (Lit NumberLiteral) ''1'')) [token (Lit NumberLiteral) ''1'']"
  by (rule grammar_intros(1)) (simp add: literal_tokens_def)

lemma sum_derived: "derives 0 (Suc (Suc (Suc (Suc (Suc 0))))) sum_expr sum_tokens"
proof -
  note operators = infix_operators_def postfix_operators_def prefix_operators_def GetOperatorPrecendence_def
  let ?inner = "Infix (name_chain ''c'') (token (Op AddOperator) ''+'') (Literal (token (Lit NumberLiteral) ''1''))"
  let ?inner_tokens = "[name_token ''c''] @ token (Op AddOperator) ''+'' # [token (Lit NumberLiteral) ''1'']"
  have inner: "derives 0 (Suc (Suc 0)) ?inner ?inner_tokens"
    by (rule grammar_intros(5), simp add: operators, simp add: operators, rule derives_name, rule derives_one_token, simp)
  have "derives 10 (Suc (Suc (Suc 0))) ?inner (token (Pn OpenCurl) ''('' # ?inner_tokens @ [token (Pn CloseCurl) '')''])"
    by (rule grammar_intros(6), simp, simp, rule inner)
  then have right: "derives 9 (Suc (Suc (Suc 0))) (Postfix ?inner (token (Op IncrementOperator) ''++''))
      ((token (Pn OpenCurl) ''('' # ?inner_tokens @ [token (Pn CloseCurl) '')'']) @ [token (Op IncrementOperator) ''++''])"
    by (rule grammar_intros(4) [rotated 2]) (simp_all add: operators)
  have left: "derives b (Suc d) (Prefix (token (Op SubOperator) ''-'') (name_chain ''b'')) (token (Op SubOperator) ''-'' # [name_token ''b''])" for b d
    by (rule grammar_intros(3), simp add: operators, rule derives_name)
  have mult: "precedence_of (token (Op MultOperator) ''*'') = 9" by (simp add: operators)
  have product: "derives 8 (Suc (Suc (Suc (Suc 0))))
      (Infix (Prefix (token (Op SubOperator) ''-'') (name_chain ''b'')) (token (Op MultOperator) ''*'')
         (Postfix ?inner (token (Op IncrementOperator) ''++'')))
      ((token (Op SubOperator) ''-'' # [name_token ''b'']) @ token (Op MultOperator) ''*'' #
         ((token (Pn OpenCurl) ''('' # ?inner_tokens @ [token (Pn CloseCurl) '')'']) @ [token (Op IncrementOperator) ''++'']))"
    by (rule grammar_intros(5)) (use mult left right in \<open>simp_all add: infix_operators_def\<close>)
  have add: "precedence_of (token (Op AddOperator) ''+'') = 8" by (simp add: operators)
  show ?thesis
    unfolding sum_expr_def sum_tokens_def
    by (rule grammar_intros(5)) (use add derives_name product in \<open>simp_all add: infix_operators_def\<close>)
qed

definition semicolon :: SyntaxToken where
  "semicolon = token (Pn Semicolon) '';''"

theorem expression_parsed_witness:
  "derives 0 5 sum_expr sum_tokens \<and> ops sum_tokens \<le> 64 \<and> expression_end (tok_Type semicolon)
   \<and> (\<exists>N q. (\<forall>n\<ge>N. parse_code n (CallExpression 0 True) (SourceParser_new (sum_tokens @ semicolon # [])) = Some (node_of sum_expr, q))
           \<and> ps_Reader q = [semicolon] \<and> ps_Diagnostics q = [])"
proof -
  have d: "derives 0 5 sum_expr sum_tokens" using sum_derived by (simp add: eval_nat_numeral)
  have o: "ops sum_tokens \<le> 64" "expression_end (tok_Type semicolon)"
    by (simp_all add: sum_tokens_def name_token_def semicolon_def expression_end_def ops_def)
  show ?thesis using d o expression_parsed [OF d _ o, of "[]"] by simp
qed

text \<open>
  C8: From text to tree: the text that spells the tokens of an expression of the grammar and a token
  that ends it is lexed and parsed, for all large enough fuel, into the tree of that expression, whose
  tokens have the types and words they were spelled from, and the parser reports nothing.
\<close>

theorem source_text_to_tree:
  assumes "ctype_laws ct" "derives 0 d e ts" "d \<le> 63" "ops ts \<le> 64" "expression_end (tok_Type t)"
    and "list_all (lexeme_ok ct) (map lexeme_of (ts @ [t]))"
  shows "\<exists>b l e' N q. From_text ct (StringStreamReader_of name (print_lexemes (map lexeme_of (ts @ [t])))) = Some (b, l)
      \<and> (\<forall>n\<ge>N. parse_code n (CallExpression 0 True) (SourceParser_new (pending_buf b)) = Some (node_of e', q))
      \<and> unlocated_expr e' = unlocated_expr e \<and> map lexeme_of (ps_Reader q) = [lexeme_of t] \<and> ps_Diagnostics q = []"
proof -
  obtain b l where b: "From_text ct (StringStreamReader_of name (print_lexemes (map lexeme_of (ts @ [t])))) = Some (b, l)"
    "buf_CurrentIndex b = 0" "map lexeme_of (buf_Sequence b) = map lexeme_of (ts @ [t])"
    using ctype_laws.From_text_pending [OF assms(1,6)] by blast
  then obtain us u where u: "buf_Sequence b = us @ [u]" "spelled_as us ts" "lexeme_of u = lexeme_of t"
    by (auto simp: spelled_as_append spelled_as_Cons simp del: map_append)
  obtain e' where e': "derives 0 d e' us" "unlocated_expr e' = unlocated_expr e"
    using derives_spelled_as(1) [OF assms(2) u(2)] by blast
  have "ops us \<le> 64" "expression_end (tok_Type u)" using assms(4,5) ops_spelled_as [OF u(2)] u(3) by (simp_all add: lexeme_eq)
  from reads_from_start [OF e'(1) assms(3) this, of "[]"]
  obtain q where q: "reads (CallExpression 0 True) (SourceParser_new (pending_buf b)) (node_of e') q"
    "ps_Reader q = [u]" "ps_Diagnostics q = []"
    using b(2) u(1) by (auto simp: pending_buf_def)
  then obtain N where N: "\<forall>n\<ge>N. parse_code n (CallExpression 0 True) (SourceParser_new (pending_buf b)) = Some (node_of e', q)"
    by (auto simp: leads_p_def)
  show ?thesis
    by (intro exI [of _ b] exI [of _ l] exI [of _ e'] exI [of _ N] exI [of _ q] conjI)
      (use b(1) N e'(2) q(2,3) u(3) in simp_all)
qed

text \<open>\<^verbatim>\<open>a + 1 ;\<close>\<close>

definition short_expr :: expr where
  "short_expr = Infix (name_chain ''a'') (token (Op AddOperator) ''+'') (Literal (token (Lit NumberLiteral) ''1''))"

definition short_tokens :: "SyntaxToken list" where
  "short_tokens = [name_token ''a''] @ token (Op AddOperator) ''+'' # [token (Lit NumberLiteral) ''1'']"

lemma short_derived: "derives 0 (Suc (Suc 0)) short_expr short_tokens"
  unfolding short_expr_def short_tokens_def
  by (rule grammar_intros(5), simp add: infix_operators_def, simp add: GetOperatorPrecendence_def,
      rule derives_name, rule derives_one_token, simp)

lemma short_lexemes_ok: "list_all (lexeme_ok C_locale) (map lexeme_of (short_tokens @ [semicolon]))"
  by code_simp

theorem source_text_to_tree_witness:
  "\<exists>b l e' N q. From_text C_locale (StringStreamReader_of (L ''m.ss'')
        (print_lexemes (map lexeme_of (short_tokens @ [semicolon])))) = Some (b, l)
      \<and> (\<forall>n\<ge>N. parse_code n (CallExpression 0 True) (SourceParser_new (pending_buf b)) = Some (node_of e', q))
      \<and> unlocated_expr e' = unlocated_expr short_expr \<and> map lexeme_of (ps_Reader q) = [lexeme_of semicolon] \<and> ps_Diagnostics q = []"
proof (rule source_text_to_tree [OF C.ctype_laws_axioms])
  show "derives 0 2 short_expr short_tokens" using short_derived by (simp add: eval_nat_numeral)
  show "list_all (lexeme_ok C_locale) (map lexeme_of (short_tokens @ [semicolon]))" by (rule short_lexemes_ok)
qed (simp_all add: short_tokens_def name_token_def semicolon_def expression_end_def ops_def)

section \<open>Errors\<close>

text \<open>
  C26: A name (an identifier, a primitive type or \<^verbatim>\<open>field\<close>) in front of a token that is neither an
  operator nor punctuation is dropped: \<open>ReadExpression\<close> consumes it, gives no node and reports nothing. So
  \<^verbatim>\<open>if c < 1 a else b\<close> has no value for \<^verbatim>\<open>a\<close>, and \<^verbatim>\<open>x y\<close> is not an error.
\<close>

theorem unfinished_name_dropped:
  assumes "tok_Type name \<in> set first_names" "\<not> IsOperator (tok_Type t)" "\<not> IsPunctuation (tok_Type t)"
    and "precedence_of t = 0"
  shows "\<exists>N q. (\<forall>n\<ge>N. parse_code n (CallExpression 0 True) (SourceParser_new (name # t # rest)) = Some (NullNode, q))
           \<and> ps_Reader q = t # rest \<and> ps_Diagnostics q = []"
proof -
  have "reads (CallExpression 0 True) (SourceParser_new (name # t # rest)) NullNode (SourceParser_new (t # rest))"
    using reads_dropped_name [OF assms, of "SourceParser_new []" rest 0]
    by (simp add: at_p_new) (simp add: SourceParser_new_def)
  then show ?thesis unfolding leads_p_def by (metis new_simps)
qed

theorem unfinished_name_dropped_witness:
  "\<exists>N q. (\<forall>n\<ge>N. parse_code n (CallExpression 0 True)
        (SourceParser_new (name_token ''a'' # token (St ElseKeyword) ''else'' # [name_token ''b''])) = Some (NullNode, q))
      \<and> ps_Reader q = token (St ElseKeyword) ''else'' # [name_token ''b''] \<and> ps_Diagnostics q = []"
  by (rule unfinished_name_dropped)
    (simp_all add: first_names_def IsPunctuation_def GetOperatorPrecendence_def)

section \<open>Types\<close>

text \<open>
  C23: Reading a type returns for every list of tokens, well formed or not: fuel of twice the number of
  tokens plus two is enough, and no token is put in front of those that were there.
\<close>

theorem type_reading_returns:
  assumes "2 * length (ps_Reader p) + 2 \<le> k"
  shows "\<exists>x q. ReadType k allowArraySyntax p = Some (x, q) \<and> length (ps_Reader q) \<le> length (ps_Reader p)"
  using parse_type_ends [of k] assms unfolding type_ends_def ends_def by (metis type_fuel.simps(1))

text \<open>\<^verbatim>\<open>delegate < ( [ > >\<close>\<close>

definition malformed_type :: "SyntaxToken list" where
  "malformed_type = [token (Ty DelegateKeyword) ''delegate'', token (Op LessOperator) ''<'', token (Pn OpenCurl) ''('',
     token (Pn OpenSquare) ''['', token (Op GreaterOperator) ''>'', token (Op GreaterOperator) ''>'']"

theorem type_reading_returns_witness:
  "\<exists>x q. ReadType 14 True (SourceParser_new malformed_type) = Some (x, q)
     \<and> length (ps_Reader q) \<le> length (ps_Reader (SourceParser_new malformed_type))"
  by (rule type_reading_returns) (simp add: malformed_type_def SourceParser_new_def)

end
