(* ===== verification/OpCodes.thy ===== *)
theory OpCodes
  imports Prelude
begin

text \<open>
  The instruction set, \<^verbatim>\<open>include/shard/compilation/OperationCode.hpp\<close>: a scoped enumeration over
  \<^verbatim>\<open>uint16_t\<close> whose members are numbered from 1 in the order of the header. The model splits it
  into five datatypes at the header's section comments; \<open>OpCode_value\<close> is the number of a member
  and \<open>OpCode_of\<close> reads a number back (\<open>None\<close> for a number that is no member, which the C++
  enumeration can hold too).
\<close>

section \<open>Members\<close>

datatype ConstantOp =
    NOP | HALT | POP | LOADCONST_NULL | LOADCONST_BOOLEAN | LOADCONST_INTEGER8
  | LOADCONST_INTEGER64 | LOADCONST_NATIVE_INTEGER | LOADCONST_RATIONAL64 | LOADCONST_CHAR
  | LOADCONST_STRING | DUP | STORE_LOCAL | STORE_ARG | LOAD_LOCAL | LOAD_ARG

datatype ControlOp =
    JUMP | JUMP_TRUE | JUMP_FALSE | BR_NULL | JUMP_TABLE | RETURN | THROW

datatype MathOp =
    MATH_ADDITION | MATH_SUBTRACT | MATH_MULTIPLY | MATH_DIVISION | MATH_MODULO | MATH_POWER
  | MATH_NEGATIVE | MATH_SHL | MATH_SHR | COMPARE_EQUAL | COMPARE_NOTEQUAL | COMPARE_GREATER
  | COMPARE_GREATER_OR_EQUAL | COMPARE_LESS | COMPARE_LESS_OR_EQUAL | LOGICAL_NOT
  | LOGICAL_OR | LOGICAL_AND

datatype ObjectOp =
    NEWOBJECT | NEWDELEGATE | LOADFIELD | STOREFIELD | NEWARRAY | LOADARRAYELEMENT
  | STOREARRAYELEMENT | ARRAYLENGTH | NEWARRAY_DYNAMIC | LOADSTATICFIELD | LOADENUMFIELD
  | STORESTATICFIELD | CALLMETHODSYMBOL | CALLDELEGATE | LOAD_TYPEARGUMENT | CALLINTERFACE
  | ISINSTANCE | CAST_AS | CAST | CASTPRIMITIVE

datatype HandlerOp =
    ENTER_TRY | LEAVE_TRY | RETHROW | END_CATCH | LOAD_CURRENT_EXCEPTION
  | STORE_CURRENT_EXCEPTION | DEFER | DEFER_BREAK | DEFER_DRAIN | CREATERANGE

datatype OpCode =
    Ko ConstantOp
  | Co ControlOp
  | Mo MathOp
  | Oo ObjectOp
  | Ho HandlerOp

fun ConstantOp_value :: "ConstantOp \<Rightarrow> u16" where
   "ConstantOp_value NOP = 1"
| "ConstantOp_value HALT = 2"
| "ConstantOp_value POP = 3"
| "ConstantOp_value LOADCONST_NULL = 4"
| "ConstantOp_value LOADCONST_BOOLEAN = 5"
| "ConstantOp_value LOADCONST_INTEGER8 = 6"
| "ConstantOp_value LOADCONST_INTEGER64 = 7"
| "ConstantOp_value LOADCONST_NATIVE_INTEGER = 8"
| "ConstantOp_value LOADCONST_RATIONAL64 = 9"
| "ConstantOp_value LOADCONST_CHAR = 10"
| "ConstantOp_value LOADCONST_STRING = 11"
| "ConstantOp_value DUP = 12"
| "ConstantOp_value STORE_LOCAL = 13"
| "ConstantOp_value STORE_ARG = 14"
| "ConstantOp_value LOAD_LOCAL = 15"
| "ConstantOp_value LOAD_ARG = 16"

fun ControlOp_value :: "ControlOp \<Rightarrow> u16" where
   "ControlOp_value JUMP = 17"
| "ControlOp_value JUMP_TRUE = 18"
| "ControlOp_value JUMP_FALSE = 19"
| "ControlOp_value BR_NULL = 20"
| "ControlOp_value JUMP_TABLE = 21"
| "ControlOp_value RETURN = 22"
| "ControlOp_value THROW = 23"

fun MathOp_value :: "MathOp \<Rightarrow> u16" where
   "MathOp_value MATH_ADDITION = 24"
| "MathOp_value MATH_SUBTRACT = 25"
| "MathOp_value MATH_MULTIPLY = 26"
| "MathOp_value MATH_DIVISION = 27"
| "MathOp_value MATH_MODULO = 28"
| "MathOp_value MATH_POWER = 29"
| "MathOp_value MATH_NEGATIVE = 30"
| "MathOp_value MATH_SHL = 31"
| "MathOp_value MATH_SHR = 32"
| "MathOp_value COMPARE_EQUAL = 33"
| "MathOp_value COMPARE_NOTEQUAL = 34"
| "MathOp_value COMPARE_GREATER = 35"
| "MathOp_value COMPARE_GREATER_OR_EQUAL = 36"
| "MathOp_value COMPARE_LESS = 37"
| "MathOp_value COMPARE_LESS_OR_EQUAL = 38"
| "MathOp_value LOGICAL_NOT = 39"
| "MathOp_value LOGICAL_OR = 40"
| "MathOp_value LOGICAL_AND = 41"

fun ObjectOp_value :: "ObjectOp \<Rightarrow> u16" where
   "ObjectOp_value NEWOBJECT = 42"
| "ObjectOp_value NEWDELEGATE = 43"
| "ObjectOp_value LOADFIELD = 44"
| "ObjectOp_value STOREFIELD = 45"
| "ObjectOp_value NEWARRAY = 46"
| "ObjectOp_value LOADARRAYELEMENT = 47"
| "ObjectOp_value STOREARRAYELEMENT = 48"
| "ObjectOp_value ARRAYLENGTH = 49"
| "ObjectOp_value NEWARRAY_DYNAMIC = 50"
| "ObjectOp_value LOADSTATICFIELD = 51"
| "ObjectOp_value LOADENUMFIELD = 52"
| "ObjectOp_value STORESTATICFIELD = 53"
| "ObjectOp_value CALLMETHODSYMBOL = 54"
| "ObjectOp_value CALLDELEGATE = 55"
| "ObjectOp_value LOAD_TYPEARGUMENT = 56"
| "ObjectOp_value CALLINTERFACE = 57"
| "ObjectOp_value ISINSTANCE = 58"
| "ObjectOp_value CAST_AS = 59"
| "ObjectOp_value CAST = 60"
| "ObjectOp_value CASTPRIMITIVE = 61"

fun HandlerOp_value :: "HandlerOp \<Rightarrow> u16" where
   "HandlerOp_value ENTER_TRY = 62"
| "HandlerOp_value LEAVE_TRY = 63"
| "HandlerOp_value RETHROW = 64"
| "HandlerOp_value END_CATCH = 65"
| "HandlerOp_value LOAD_CURRENT_EXCEPTION = 66"
| "HandlerOp_value STORE_CURRENT_EXCEPTION = 67"
| "HandlerOp_value DEFER = 68"
| "HandlerOp_value DEFER_BREAK = 69"
| "HandlerOp_value DEFER_DRAIN = 70"
| "HandlerOp_value CREATERANGE = 71"

fun OpCode_value :: "OpCode \<Rightarrow> u16" where
   "OpCode_value (Ko op) = ConstantOp_value op"
| "OpCode_value (Co op) = ControlOp_value op"
| "OpCode_value (Mo op) = MathOp_value op"
| "OpCode_value (Oo op) = ObjectOp_value op"
| "OpCode_value (Ho op) = HandlerOp_value op"

definition OpCodes :: "OpCode list" where
  "OpCodes =
     [Ko NOP, Ko HALT, Ko POP, Ko LOADCONST_NULL, Ko LOADCONST_BOOLEAN,
      Ko LOADCONST_INTEGER8, Ko LOADCONST_INTEGER64, Ko LOADCONST_NATIVE_INTEGER,
      Ko LOADCONST_RATIONAL64, Ko LOADCONST_CHAR, Ko LOADCONST_STRING, Ko DUP,
      Ko STORE_LOCAL, Ko STORE_ARG, Ko LOAD_LOCAL, Ko LOAD_ARG, Co JUMP, Co JUMP_TRUE,
      Co JUMP_FALSE, Co BR_NULL, Co JUMP_TABLE, Co RETURN, Co THROW, Mo MATH_ADDITION,
      Mo MATH_SUBTRACT, Mo MATH_MULTIPLY, Mo MATH_DIVISION, Mo MATH_MODULO, Mo MATH_POWER,
      Mo MATH_NEGATIVE, Mo MATH_SHL, Mo MATH_SHR, Mo COMPARE_EQUAL, Mo COMPARE_NOTEQUAL,
      Mo COMPARE_GREATER, Mo COMPARE_GREATER_OR_EQUAL, Mo COMPARE_LESS,
      Mo COMPARE_LESS_OR_EQUAL, Mo LOGICAL_NOT, Mo LOGICAL_OR, Mo LOGICAL_AND, Oo NEWOBJECT,
      Oo NEWDELEGATE, Oo LOADFIELD, Oo STOREFIELD, Oo NEWARRAY, Oo LOADARRAYELEMENT,
      Oo STOREARRAYELEMENT, Oo ARRAYLENGTH, Oo NEWARRAY_DYNAMIC, Oo LOADSTATICFIELD,
      Oo LOADENUMFIELD, Oo STORESTATICFIELD, Oo CALLMETHODSYMBOL, Oo CALLDELEGATE,
      Oo LOAD_TYPEARGUMENT, Oo CALLINTERFACE, Oo ISINSTANCE, Oo CAST_AS, Oo CAST,
      Oo CASTPRIMITIVE, Ho ENTER_TRY, Ho LEAVE_TRY, Ho RETHROW, Ho END_CATCH,
      Ho LOAD_CURRENT_EXCEPTION, Ho STORE_CURRENT_EXCEPTION, Ho DEFER, Ho DEFER_BREAK,
      Ho DEFER_DRAIN, Ho CREATERANGE]"

definition OpCode_of :: "u16 \<Rightarrow> OpCode option" where
  "OpCode_of v =
     (if 1 \<le> unat v \<and> unat v \<le> length OpCodes then Some (OpCodes ! (unat v - 1)) else None)"

section \<open>Numbering\<close>

lemma OpCode_value_nth:
  "list_all (\<lambda>(n, op). OpCode_value op = of_nat (Suc n)) (enumerate 0 OpCodes)"
  by (simp add: OpCodes_def)

lemma length_OpCodes [simp]: "length OpCodes = 71"
  by (simp add: OpCodes_def)

lemma OpCode_in_list: "op \<in> set OpCodes"
proof (cases op)
  case (Ko x) then show ?thesis by (cases x) (simp_all add: OpCodes_def)
next
  case (Co x) then show ?thesis by (cases x) (simp_all add: OpCodes_def)
next
  case (Mo x) then show ?thesis by (cases x) (simp_all add: OpCodes_def)
next
  case (Oo x) then show ?thesis by (cases x) (simp_all add: OpCodes_def)
next
  case (Ho x) then show ?thesis by (cases x) (simp_all add: OpCodes_def)
qed

lemma OpCode_of_value [simp]: "OpCode_of (OpCode_value op) = Some op"
proof -
  obtain n where n: "n < length OpCodes" "OpCodes ! n = op"
    using OpCode_in_list [of op] by (metis in_set_conv_nth)
  then have "OpCode_value op = of_nat (Suc n)"
    using OpCode_value_nth by (auto simp: list_all_iff in_set_enumerate_eq)
  moreover have "unat (of_nat (Suc n) :: u16) = Suc n"
    using n(1) by (simp add: unat_of_nat del: of_nat_Suc)
  ultimately show ?thesis using n by (simp add: OpCode_of_def)
qed

lemma OpCode_value_inject [simp]: "OpCode_value a = OpCode_value b \<longleftrightarrow> a = b"
  by (metis OpCode_of_value option.inject)

lemma OpCode_of_0 [simp]: "OpCode_of 0 = None"
  by (simp add: OpCode_of_def)

lemma OpCode_of_SomeD: "OpCode_of v = Some op \<Longrightarrow> OpCode_value op = v"
proof -
  assume "OpCode_of v = Some op"
  then have v: "1 \<le> unat v" "unat v \<le> length OpCodes" "op = OpCodes ! (unat v - 1)"
    by (auto simp: OpCode_of_def split: if_splits)
  then have "(unat v - 1, op) \<in> set (enumerate 0 OpCodes)"
    by (simp add: in_set_enumerate_eq)
  then have "OpCode_value op = of_nat (Suc (unat v - 1))"
    using OpCode_value_nth by (auto simp: list_all_iff)
  with v(1) show ?thesis by (simp del: of_nat_Suc)
qed

end
