(* ===== verification/ByteCode.thy ===== *)
theory ByteCode
  imports OpCodes
begin

text \<open>
  Writing and reading bytecode: \<^verbatim>\<open>src/compilation/ByteCodeEncoder.cpp\<close> and
  \<^verbatim>\<open>src/compilation/ByteCodeDecoder.cpp\<close>.

  Code and data sections are lists of bytes. Values are copied by \<^verbatim>\<open>memcpy\<close>, so a value of a
  \<open>w\<close>-bit type is its \<open>w / 8\<close> bytes in little-endian order, the order of the platforms the engine
  runs on. Pointers, \<^verbatim>\<open>size_t\<close> and \<^verbatim>\<open>intptr_t\<close> have 64 bits, \<^verbatim>\<open>wchar_t\<close> has 16, a \<^verbatim>\<open>double\<close>
  is its 64-bit pattern, and a \<^verbatim>\<open>bool\<close> is one byte. Signed integers are their two's complement
  words.
\<close>

type_synonym bytes = "u8 list"

section \<open>Values as bytes\<close>

fun nat_bytes :: "nat \<Rightarrow> nat \<Rightarrow> bytes" where
  "nat_bytes 0 x = []"
| "nat_bytes (Suc n) x = of_nat (x mod 256) # nat_bytes n (x div 256)"

fun bytes_nat :: "bytes \<Rightarrow> nat" where
  "bytes_nat [] = 0"
| "bytes_nat (b # bs) = unat b + 256 * bytes_nat bs"

definition sizeof :: "'a::len itself \<Rightarrow> nat" where
  "sizeof t = LENGTH('a) div 8"

lemma length_nat_bytes [simp]: "length (nat_bytes n x) = n"
  by (induction n arbitrary: x) simp_all

lemma bytes_nat_bytes: "bytes_nat (nat_bytes n x) = x mod 256 ^ n"
  by (induction n arbitrary: x) (simp_all add: unat_of_nat mod_mult2_eq)

section \<open>ByteCodeEncoder\<close>

text \<open>
  An access at an offset is tested by an addition in \<^verbatim>\<open>size_t\<close>, which wraps: it is within the code, is
  refused with an exception, or passes the test and runs over the end.
\<close>

datatype 'a checked = Within 'a | OutOfBounds | Overrun

definition checked_access :: "nat \<Rightarrow> nat \<Rightarrow> bytes \<Rightarrow> 'a \<Rightarrow> 'a checked" where
  "checked_access at n code result =
     (if (at + n) mod 2 ^ 64 > length code then OutOfBounds
      else if at + n > length code then Overrun
      else Within result)"

lemma checked_access_within: "(checked_access at n code r = Within r') = (at + n \<le> length code \<and> r' = r)"
  using mod_less_eq_dividend [of "at + n" "2 ^ 64"] by (auto simp: checked_access_def)

lemma checked_access_refused:
  "at + n < 2 ^ 64 \<Longrightarrow> (checked_access at n code r = OutOfBounds) = (length code < at + n)"
  by (simp add: checked_access_def)

lemma checked_access_wraps:
  assumes "2 ^ 64 \<le> at + n" and "at < 2 ^ 64" and "n \<le> length code" and "length code < 2 ^ 64"
  shows "checked_access at n code r = Overrun"
proof -
  have "(at + n) mod 2 ^ 64 = at + n - 2 ^ 64"
    using assms by (simp add: mod_if le_mod_geq)
  then show ?thesis using assms by (simp add: checked_access_def)
qed

definition PasteData :: "bytes \<Rightarrow> nat \<Rightarrow> bytes \<Rightarrow> bytes checked" where
  "PasteData code at data =
     checked_access at (length data) code (take at code @ data @ drop (at + length data) code)"

text \<open>\<^verbatim>\<open>AppendData\<close> grows the vector and copies; its capacity policy is not observable.\<close>

definition AppendData :: "bytes \<Rightarrow> bytes \<Rightarrow> bytes" where
  "AppendData code data = code @ data"

definition word_bytes :: "'a::len word \<Rightarrow> bytes" where
  "word_bytes w = nat_bytes (sizeof TYPE('a)) (unat w)"

definition AppendDataT :: "bytes \<Rightarrow> 'a::len word \<Rightarrow> bytes" where
  "AppendDataT code w = AppendData code (word_bytes w)"

definition PasteDataT :: "bytes \<Rightarrow> nat \<Rightarrow> 'a::len word \<Rightarrow> bytes checked" where
  "PasteDataT code at w = PasteData code at (word_bytes w)"

definition EmitNop :: "bytes \<Rightarrow> bytes" where
  "EmitNop code =
     AppendDataT code (OpCode_value (Ko NOP))"

definition EmitHalt :: "bytes \<Rightarrow> bytes" where
  "EmitHalt code =
     AppendDataT code (OpCode_value (Ko HALT))"

definition EmitPop :: "bytes \<Rightarrow> bytes" where
  "EmitPop code =
     AppendDataT code (OpCode_value (Ko POP))"

definition EmitLoadConstNull :: "bytes \<Rightarrow> bytes" where
  "EmitLoadConstNull code =
     AppendDataT code (OpCode_value (Ko LOADCONST_NULL))"

definition EmitLoadConstBool :: "bytes \<Rightarrow> bool \<Rightarrow> bytes" where
  "EmitLoadConstBool code value =
     AppendDataT (AppendDataT code (OpCode_value (Ko LOADCONST_BOOLEAN))) (of_bool value :: u8)"

definition EmitLoadConstInt8 :: "bytes \<Rightarrow> u8 \<Rightarrow> bytes" where
  "EmitLoadConstInt8 code value =
     AppendDataT (AppendDataT code (OpCode_value (Ko LOADCONST_INTEGER8))) value"

definition EmitLoadConstInt64 :: "bytes \<Rightarrow> u64 \<Rightarrow> bytes" where
  "EmitLoadConstInt64 code value =
     AppendDataT (AppendDataT code (OpCode_value (Ko LOADCONST_INTEGER64))) value"

definition EmitLoadConstNativeInt :: "bytes \<Rightarrow> u64 \<Rightarrow> bytes" where
  "EmitLoadConstNativeInt code value =
     AppendDataT (AppendDataT code (OpCode_value (Ko LOADCONST_NATIVE_INTEGER))) value"

definition EmitLoadConstDouble64 :: "bytes \<Rightarrow> u64 \<Rightarrow> bytes" where
  "EmitLoadConstDouble64 code value =
     AppendDataT (AppendDataT code (OpCode_value (Ko LOADCONST_RATIONAL64))) value"

definition EmitLoadConstChar16 :: "bytes \<Rightarrow> wchar \<Rightarrow> bytes" where
  "EmitLoadConstChar16 code value =
     AppendDataT (AppendDataT code (OpCode_value (Ko LOADCONST_CHAR))) value"

text \<open>
  \<^verbatim>\<open>AppendDataS(data, const wchar_t*)\<close> appends the characters up to the terminating NUL and the
  NUL itself. A string that holds a NUL is cut at the first one.
\<close>

definition wcs :: "wstring \<Rightarrow> wstring" where
  "wcs string = takeWhile (\<lambda>c. c \<noteq> nul) string @ [nul]"

definition AppendDataS :: "bytes \<Rightarrow> wstring \<Rightarrow> bytes" where
  "AppendDataS code string = fold (\<lambda>c code. AppendDataT code c) (wcs string) code"

text \<open>\<^verbatim>\<open>EmitLoadConstString\<close> changes the code and the data section; both are returned.\<close>

definition EmitLoadConstString :: "bytes \<Rightarrow> bytes \<Rightarrow> wstring \<Rightarrow> bytes \<times> bytes" where
  "EmitLoadConstString code data value =
     (let dataOrigin = (of_nat (length data) :: u64) in
      (AppendDataT (AppendDataT code (OpCode_value (Ko LOADCONST_STRING))) dataOrigin,
       AppendDataS data value))"

text \<open>
  The primitive types \<^verbatim>\<open>EmitDefaultValue\<close> compares the element type with; every other type is
  \<open>OtherType\<close>.
\<close>

datatype PrimitiveType =
    PInteger | PByte | PNativeInteger | PChar | PBoolean | PDouble | OtherType

definition EmitDefaultValue :: "bytes \<Rightarrow> PrimitiveType \<Rightarrow> bytes" where
  "EmitDefaultValue code elementType =
     (case elementType of
        PInteger \<Rightarrow> EmitLoadConstInt8 code 0
      | PByte \<Rightarrow> EmitLoadConstInt64 code 0
      | PNativeInteger \<Rightarrow> EmitLoadConstNativeInt code 0
      | PChar \<Rightarrow> EmitLoadConstChar16 code nul
      | PBoolean \<Rightarrow> EmitLoadConstBool code False
      | PDouble \<Rightarrow> EmitLoadConstDouble64 code 0
      | OtherType \<Rightarrow> EmitLoadConstNull code)"

definition EmitDuplicate :: "bytes \<Rightarrow> bytes" where
  "EmitDuplicate code =
     AppendDataT code (OpCode_value (Ko DUP))"

definition EmitLoadLocal :: "bytes \<Rightarrow> u16 \<Rightarrow> bytes" where
  "EmitLoadLocal code index =
     AppendDataT (AppendDataT code (OpCode_value (Ko LOAD_LOCAL))) index"

definition EmitStoreLocal :: "bytes \<Rightarrow> u16 \<Rightarrow> bytes" where
  "EmitStoreLocal code index =
     AppendDataT (AppendDataT code (OpCode_value (Ko STORE_LOCAL))) index"

definition EmitLoadArg :: "bytes \<Rightarrow> u16 \<Rightarrow> bytes" where
  "EmitLoadArg code index =
     AppendDataT (AppendDataT code (OpCode_value (Ko LOAD_ARG))) index"

definition EmitStoreArg :: "bytes \<Rightarrow> u16 \<Rightarrow> bytes" where
  "EmitStoreArg code index =
     AppendDataT (AppendDataT code (OpCode_value (Ko STORE_ARG))) index"

definition EmitJump :: "bytes \<Rightarrow> u64 \<Rightarrow> bytes" where
  "EmitJump code jump =
     AppendDataT (AppendDataT code (OpCode_value (Co JUMP))) jump"

definition EmitJumpTrue :: "bytes \<Rightarrow> u64 \<Rightarrow> bytes" where
  "EmitJumpTrue code jump =
     AppendDataT (AppendDataT code (OpCode_value (Co JUMP_TRUE))) jump"

definition EmitJumpFalse :: "bytes \<Rightarrow> u64 \<Rightarrow> bytes" where
  "EmitJumpFalse code jump =
     AppendDataT (AppendDataT code (OpCode_value (Co JUMP_FALSE))) jump"

definition EmitBranchNull :: "bytes \<Rightarrow> u64 \<Rightarrow> bytes" where
  "EmitBranchNull code jump =
     AppendDataT (AppendDataT code (OpCode_value (Co BR_NULL))) jump"

definition EmitJumpTable :: "bytes \<Rightarrow> u64 list \<Rightarrow> bytes" where
  "EmitJumpTable code targets =
     fold (\<lambda>target code. AppendDataT code target) targets
       (AppendDataT (AppendDataT code (OpCode_value (Co JUMP_TABLE))) (of_nat (length targets) :: u32))"

definition EmitReturn :: "bytes \<Rightarrow> bytes" where
  "EmitReturn code =
     AppendDataT code (OpCode_value (Co RETURN))"

definition EmitThrow :: "bytes \<Rightarrow> bytes" where
  "EmitThrow code =
     AppendDataT code (OpCode_value (Co THROW))"

definition EmitEnterTry :: "bytes \<Rightarrow> u64 \<Rightarrow> bytes" where
  "EmitEnterTry code handlerOffset =
     AppendDataT (AppendDataT code (OpCode_value (Ho ENTER_TRY))) handlerOffset"

definition EmitLeaveTry :: "bytes \<Rightarrow> bytes" where
  "EmitLeaveTry code =
     AppendDataT code (OpCode_value (Ho LEAVE_TRY))"

definition EmitRethrow :: "bytes \<Rightarrow> bytes" where
  "EmitRethrow code =
     AppendDataT code (OpCode_value (Ho RETHROW))"

definition EmitEndCatch :: "bytes \<Rightarrow> bytes" where
  "EmitEndCatch code =
     AppendDataT code (OpCode_value (Ho END_CATCH))"

definition EmitLoadCurrentException :: "bytes \<Rightarrow> bytes" where
  "EmitLoadCurrentException code =
     AppendDataT code (OpCode_value (Ho LOAD_CURRENT_EXCEPTION))"

definition EmitStoreCurrentException :: "bytes \<Rightarrow> bytes" where
  "EmitStoreCurrentException code =
     AppendDataT code (OpCode_value (Ho STORE_CURRENT_EXCEPTION))"

definition EmitDefer :: "bytes \<Rightarrow> u64 \<Rightarrow> bytes" where
  "EmitDefer code target =
     AppendDataT (AppendDataT code (OpCode_value (Ho DEFER))) target"

definition EmitDeferBreak :: "bytes \<Rightarrow> bytes" where
  "EmitDeferBreak code =
     AppendDataT code (OpCode_value (Ho DEFER_BREAK))"

definition EmitDeferDrain :: "bytes \<Rightarrow> u64 \<Rightarrow> bytes" where
  "EmitDeferDrain code count =
     AppendDataT (AppendDataT code (OpCode_value (Ho DEFER_DRAIN))) count"

definition EmitMathAdd :: "bytes \<Rightarrow> bytes" where
  "EmitMathAdd code =
     AppendDataT code (OpCode_value (Mo MATH_ADDITION))"

definition EmitMathSub :: "bytes \<Rightarrow> bytes" where
  "EmitMathSub code =
     AppendDataT code (OpCode_value (Mo MATH_SUBTRACT))"

definition EmitMathMult :: "bytes \<Rightarrow> bytes" where
  "EmitMathMult code =
     AppendDataT code (OpCode_value (Mo MATH_MULTIPLY))"

definition EmitMathDiv :: "bytes \<Rightarrow> bytes" where
  "EmitMathDiv code =
     AppendDataT code (OpCode_value (Mo MATH_DIVISION))"

definition EmitMathMod :: "bytes \<Rightarrow> bytes" where
  "EmitMathMod code =
     AppendDataT code (OpCode_value (Mo MATH_MODULO))"

definition EmitMathPow :: "bytes \<Rightarrow> bytes" where
  "EmitMathPow code =
     AppendDataT code (OpCode_value (Mo MATH_POWER))"

definition EmitMathNegative :: "bytes \<Rightarrow> bytes" where
  "EmitMathNegative code =
     AppendDataT code (OpCode_value (Mo MATH_NEGATIVE))"

definition EmitMathShl :: "bytes \<Rightarrow> bytes" where
  "EmitMathShl code =
     AppendDataT code (OpCode_value (Mo MATH_SHL))"

definition EmitMathShr :: "bytes \<Rightarrow> bytes" where
  "EmitMathShr code =
     AppendDataT code (OpCode_value (Mo MATH_SHR))"

definition EmitCompareEqual :: "bytes \<Rightarrow> bytes" where
  "EmitCompareEqual code =
     AppendDataT code (OpCode_value (Mo COMPARE_EQUAL))"

definition EmitCompareNotEqual :: "bytes \<Rightarrow> bytes" where
  "EmitCompareNotEqual code =
     AppendDataT code (OpCode_value (Mo COMPARE_NOTEQUAL))"

definition EmitCompareGreater :: "bytes \<Rightarrow> bytes" where
  "EmitCompareGreater code =
     AppendDataT code (OpCode_value (Mo COMPARE_GREATER))"

definition EmitCompareGreaterOrEqual :: "bytes \<Rightarrow> bytes" where
  "EmitCompareGreaterOrEqual code =
     AppendDataT code (OpCode_value (Mo COMPARE_GREATER_OR_EQUAL))"

definition EmitCompareLess :: "bytes \<Rightarrow> bytes" where
  "EmitCompareLess code =
     AppendDataT code (OpCode_value (Mo COMPARE_LESS))"

definition EmitCompareLessOrEqual :: "bytes \<Rightarrow> bytes" where
  "EmitCompareLessOrEqual code =
     AppendDataT code (OpCode_value (Mo COMPARE_LESS_OR_EQUAL))"

definition EmitLogicalNot :: "bytes \<Rightarrow> bytes" where
  "EmitLogicalNot code =
     AppendDataT code (OpCode_value (Mo LOGICAL_NOT))"

definition EmitLogicalOr :: "bytes \<Rightarrow> bytes" where
  "EmitLogicalOr code =
     AppendDataT code (OpCode_value (Mo LOGICAL_OR))"

definition EmitLogicalAnd :: "bytes \<Rightarrow> bytes" where
  "EmitLogicalAnd code =
     AppendDataT code (OpCode_value (Mo LOGICAL_AND))"

definition EmitLoadTypeArgument :: "bytes \<Rightarrow> u16 \<Rightarrow> u64 \<Rightarrow> bytes" where
  "EmitLoadTypeArgument code index type =
     AppendDataT (AppendDataT (AppendDataT code (OpCode_value (Oo LOAD_TYPEARGUMENT))) index) type"

definition EmitNewObject :: "bytes \<Rightarrow> u64 \<Rightarrow> u64 \<Rightarrow> bytes" where
  "EmitNewObject code type ctor =
     AppendDataT (AppendDataT (AppendDataT code (OpCode_value (Oo NEWOBJECT))) type) ctor"

definition EmitNewDelegate :: "bytes \<Rightarrow> u64 \<Rightarrow> bytes" where
  "EmitNewDelegate code type =
     AppendDataT (AppendDataT code (OpCode_value (Oo NEWDELEGATE))) type"

definition EmitLoadField :: "bytes \<Rightarrow> u32 \<Rightarrow> bytes" where
  "EmitLoadField code slot =
     AppendDataT (AppendDataT code (OpCode_value (Oo LOADFIELD))) slot"

definition EmitStoreField :: "bytes \<Rightarrow> u32 \<Rightarrow> bytes" where
  "EmitStoreField code slot =
     AppendDataT (AppendDataT code (OpCode_value (Oo STOREFIELD))) slot"

definition EmitNewArray :: "bytes \<Rightarrow> u64 \<Rightarrow> bytes" where
  "EmitNewArray code type =
     AppendDataT (AppendDataT code (OpCode_value (Oo NEWARRAY))) type"

definition EmitNewArrayDynamic :: "bytes \<Rightarrow> u64 \<Rightarrow> bytes" where
  "EmitNewArrayDynamic code type =
     AppendDataT (AppendDataT code (OpCode_value (Oo NEWARRAY_DYNAMIC))) type"

definition EmitCreateRange :: "bytes \<Rightarrow> u64 \<Rightarrow> bytes" where
  "EmitCreateRange code type =
     AppendDataT (AppendDataT code (OpCode_value (Ho CREATERANGE))) type"

definition EmitLoadArrayElement :: "bytes \<Rightarrow> bytes" where
  "EmitLoadArrayElement code =
     AppendDataT code (OpCode_value (Oo LOADARRAYELEMENT))"

definition EmitStoreArrayElement :: "bytes \<Rightarrow> bytes" where
  "EmitStoreArrayElement code =
     AppendDataT code (OpCode_value (Oo STOREARRAYELEMENT))"

definition EmitArrayLength :: "bytes \<Rightarrow> bytes" where
  "EmitArrayLength code =
     AppendDataT code (OpCode_value (Oo ARRAYLENGTH))"

definition EmitLoadStaticField :: "bytes \<Rightarrow> u64 \<Rightarrow> bytes" where
  "EmitLoadStaticField code type =
     AppendDataT (AppendDataT code (OpCode_value (Oo LOADSTATICFIELD))) type"

definition EmitStoreStaticField :: "bytes \<Rightarrow> u64 \<Rightarrow> bytes" where
  "EmitStoreStaticField code type =
     AppendDataT (AppendDataT code (OpCode_value (Oo STORESTATICFIELD))) type"

definition EmitLoadEnumField :: "bytes \<Rightarrow> u64 \<Rightarrow> bytes" where
  "EmitLoadEnumField code type =
     AppendDataT (AppendDataT code (OpCode_value (Oo LOADENUMFIELD))) type"

definition EmitCallMethodSymbol :: "bytes \<Rightarrow> u64 \<Rightarrow> bytes" where
  "EmitCallMethodSymbol code method =
     AppendDataT (AppendDataT code (OpCode_value (Oo CALLMETHODSYMBOL))) method"

definition EmitCallDelegate :: "bytes \<Rightarrow> u64 \<Rightarrow> bytes" where
  "EmitCallDelegate code type =
     AppendDataT (AppendDataT code (OpCode_value (Oo CALLDELEGATE))) type"

definition EmitCallInterface :: "bytes \<Rightarrow> u64 \<Rightarrow> bytes" where
  "EmitCallInterface code interfaceMethod =
     AppendDataT (AppendDataT code (OpCode_value (Oo CALLINTERFACE))) interfaceMethod"

definition EmitIsInstance :: "bytes \<Rightarrow> u64 \<Rightarrow> bytes" where
  "EmitIsInstance code type =
     AppendDataT (AppendDataT code (OpCode_value (Oo ISINSTANCE))) type"

definition EmitCastAs :: "bytes \<Rightarrow> u64 \<Rightarrow> bytes" where
  "EmitCastAs code type =
     AppendDataT (AppendDataT code (OpCode_value (Oo CAST_AS))) type"

definition EmitCast :: "bytes \<Rightarrow> u64 \<Rightarrow> bytes" where
  "EmitCast code type =
     AppendDataT (AppendDataT code (OpCode_value (Oo CAST))) type"

definition EmitCastPrimitive :: "bytes \<Rightarrow> u64 \<Rightarrow> bytes" where
  "EmitCastPrimitive code type =
     AppendDataT (AppendDataT code (OpCode_value (Oo CASTPRIMITIVE))) type"

section \<open>ByteCodeDecoder\<close>

text \<open>The decoder holds a reference to the code and a cursor.\<close>

record ByteCodeDecoder =
  dec_code :: bytes
  dec_ip :: nat

definition ByteCodeDecoder_of :: "bytes \<Rightarrow> ByteCodeDecoder" where
  "ByteCodeDecoder_of code = \<lparr>dec_code = code, dec_ip = 0\<rparr>"

text \<open>
  \<^verbatim>\<open>ReadUnaligned\<close> fails, without moving, when the value does not fit; the callers ignore the
  failure and return the value-initialised result, zero.
\<close>

definition ReadUnaligned :: "bytes \<Rightarrow> nat \<Rightarrow> ('a::len word \<times> nat) option" where
  "ReadUnaligned code ip =
     (let size = sizeof TYPE('a) in
      if ip + size > length code then None
      else Some (of_nat (bytes_nat (take size (drop ip code))), ip + size))"

definition Absorb :: "ByteCodeDecoder \<Rightarrow> 'a::len word \<times> ByteCodeDecoder" where
  "Absorb d =
     (case ReadUnaligned (dec_code d) (dec_ip d) of
        None \<Rightarrow> (0, d)
      | Some (value, ip) \<Rightarrow> (value, d\<lparr>dec_ip := ip\<rparr>))"

definition IsEOF :: "ByteCodeDecoder \<Rightarrow> bool" where
  "IsEOF d \<longleftrightarrow> dec_ip d \<ge> length (dec_code d)"

definition Index :: "ByteCodeDecoder \<Rightarrow> nat" where
  "Index d = dec_ip d"

text \<open>\<^verbatim>\<open>SetCursor\<close> throws \<^verbatim>\<open>std::out_of_range\<close> outside the code: \<open>None\<close>.\<close>

definition SetCursor :: "int \<Rightarrow> ByteCodeDecoder \<Rightarrow> ByteCodeDecoder option" where
  "SetCursor amount d =
     (if amount < 0 then None
      else if amount > int (length (dec_code d)) then None
      else Some (d\<lparr>dec_ip := nat amount\<rparr>))"

definition Return_dec :: "ByteCodeDecoder \<Rightarrow> ByteCodeDecoder" where
  "Return_dec d = d\<lparr>dec_ip := length (dec_code d)\<rparr>"

definition GetCursor :: "ByteCodeDecoder \<Rightarrow> nat" where
  "GetCursor d = dec_ip d"

definition PeekJumpAt :: "nat \<Rightarrow> ByteCodeDecoder \<Rightarrow> u64 checked" where
  "PeekJumpAt offset d =
     checked_access offset (sizeof TYPE(64)) (dec_code d)
       (of_nat (bytes_nat (take (sizeof TYPE(64)) (drop offset (dec_code d)))))"

definition AbsorbOpCode :: "ByteCodeDecoder \<Rightarrow> u16 \<times> ByteCodeDecoder" where
  "AbsorbOpCode d = Absorb d"

definition AbsorbInt64 :: "ByteCodeDecoder \<Rightarrow> u64 \<times> ByteCodeDecoder" where
  "AbsorbInt64 d = Absorb d"

definition AbsorbIntPtr :: "ByteCodeDecoder \<Rightarrow> u64 \<times> ByteCodeDecoder" where
  "AbsorbIntPtr d = Absorb d"

definition AbsorbDouble64 :: "ByteCodeDecoder \<Rightarrow> u64 \<times> ByteCodeDecoder" where
  "AbsorbDouble64 d = Absorb d"

definition AbsorbChar16 :: "ByteCodeDecoder \<Rightarrow> wchar \<times> ByteCodeDecoder" where
  "AbsorbChar16 d = Absorb d"

definition AbsorbString :: "ByteCodeDecoder \<Rightarrow> u64 \<times> ByteCodeDecoder" where
  "AbsorbString d = Absorb d"

definition AbsorbUInt8 :: "ByteCodeDecoder \<Rightarrow> u8 \<times> ByteCodeDecoder" where
  "AbsorbUInt8 d = Absorb d"

definition AbsorbVariableSlot :: "ByteCodeDecoder \<Rightarrow> u16 \<times> ByteCodeDecoder" where
  "AbsorbVariableSlot d = Absorb d"

definition AbsorbUInt16 :: "ByteCodeDecoder \<Rightarrow> u16 \<times> ByteCodeDecoder" where
  "AbsorbUInt16 d = Absorb d"

definition AbsorbUInt32 :: "ByteCodeDecoder \<Rightarrow> u32 \<times> ByteCodeDecoder" where
  "AbsorbUInt32 d = Absorb d"

definition AbsorbJump :: "ByteCodeDecoder \<Rightarrow> u64 \<times> ByteCodeDecoder" where
  "AbsorbJump d = Absorb d"

definition AbsorbTypeSymbol :: "ByteCodeDecoder \<Rightarrow> u64 \<times> ByteCodeDecoder" where
  "AbsorbTypeSymbol d = Absorb d"

definition AbsordDelegateTypeSymbol :: "ByteCodeDecoder \<Rightarrow> u64 \<times> ByteCodeDecoder" where
  "AbsordDelegateTypeSymbol d = Absorb d"

definition AbsorbFieldSlot :: "ByteCodeDecoder \<Rightarrow> u32 \<times> ByteCodeDecoder" where
  "AbsorbFieldSlot d = Absorb d"

definition AbsorbFieldSymbol :: "ByteCodeDecoder \<Rightarrow> u64 \<times> ByteCodeDecoder" where
  "AbsorbFieldSymbol d = Absorb d"

definition AbsorbArraySymbol :: "ByteCodeDecoder \<Rightarrow> u64 \<times> ByteCodeDecoder" where
  "AbsorbArraySymbol d = Absorb d"

definition AbsorbMethodSymbol :: "ByteCodeDecoder \<Rightarrow> u64 \<times> ByteCodeDecoder" where
  "AbsorbMethodSymbol d = Absorb d"

definition AbsorbConstructorSymbol :: "ByteCodeDecoder \<Rightarrow> u64 \<times> ByteCodeDecoder" where
  "AbsorbConstructorSymbol d = Absorb d"

definition AbsorbBoolean :: "ByteCodeDecoder \<Rightarrow> bool \<times> ByteCodeDecoder" where
  "AbsorbBoolean d = (let (value :: u8, d') = Absorb d in (value \<noteq> 0, d'))"

lemmas absorb_defs =
  AbsorbOpCode_def AbsorbInt64_def AbsorbIntPtr_def AbsorbDouble64_def
  AbsorbChar16_def AbsorbString_def AbsorbUInt8_def AbsorbVariableSlot_def
  AbsorbUInt16_def AbsorbUInt32_def AbsorbJump_def AbsorbTypeSymbol_def
  AbsordDelegateTypeSymbol_def AbsorbFieldSlot_def AbsorbFieldSymbol_def AbsorbArraySymbol_def
  AbsorbMethodSymbol_def AbsorbConstructorSymbol_def

section \<open>Reading what was written\<close>

text \<open>
  \<open>reads_at d bs\<close>: the code continues with the bytes \<open>bs\<close> at the cursor. Reading a value whose
  bytes come next returns it and moves past it.
\<close>

definition reads_at :: "ByteCodeDecoder \<Rightarrow> bytes \<Rightarrow> bool" where
  "reads_at d bs \<longleftrightarrow> (\<exists>rest. drop (dec_ip d) (dec_code d) = bs @ rest) \<and> dec_ip d \<le> length (dec_code d)"

definition skip :: "nat \<Rightarrow> ByteCodeDecoder \<Rightarrow> ByteCodeDecoder" where
  "skip n d = d\<lparr>dec_ip := dec_ip d + n\<rparr>"

lemma skip_0 [simp]: "skip 0 d = d"
  by (simp add: skip_def)

lemma skip_skip [simp]: "skip m (skip n d) = skip (n + m) d"
  by (simp add: skip_def)

lemma sizeof_simps [simp]:
  "sizeof TYPE(8) = 1" "sizeof TYPE(16) = 2" "sizeof TYPE(32) = 4" "sizeof TYPE(64) = 8"
  by (simp_all add: sizeof_def)

lemma length_word_bytes [simp]: "length (word_bytes (w :: 'a::len word)) = sizeof TYPE('a)"
  by (simp add: word_bytes_def)

lemma bytes_nat_word:
  assumes "8 dvd LENGTH('a::len)"
  shows "of_nat (bytes_nat (word_bytes w)) = (w :: 'a word)"
proof -
  have "256 ^ sizeof TYPE('a) = (2 :: nat) ^ LENGTH('a)"
    using assms power_mult [of "2 :: nat" 8 "LENGTH('a) div 8"] by (simp add: sizeof_def)
  then show ?thesis
    by (simp add: word_bytes_def bytes_nat_bytes unsigned_less)
qed

lemma reads_at_append:
  "reads_at d (as @ bs) \<longleftrightarrow> reads_at d as \<and> reads_at (skip (length as) d) bs"
proof
  assume "reads_at d (as @ bs)"
  then obtain r where r: "drop (dec_ip d) (dec_code d) = as @ bs @ r" "dec_ip d \<le> length (dec_code d)"
    by (auto simp: reads_at_def)
  then have "drop (dec_ip d + length as) (dec_code d) = bs @ r"
    by (metis append_eq_conv_conj drop_drop add.commute)
  moreover have "length (as @ bs @ r) = length (dec_code d) - dec_ip d"
    using r(1) by (metis length_drop)
  ultimately show "reads_at d as \<and> reads_at (skip (length as) d) bs"
    using r by (auto simp: reads_at_def skip_def)
next
  assume *: "reads_at d as \<and> reads_at (skip (length as) d) bs"
  then obtain r r' where "drop (dec_ip d) (dec_code d) = as @ r"
    "drop (dec_ip d + length as) (dec_code d) = bs @ r'"
    by (auto simp: reads_at_def skip_def)
  then have "drop (dec_ip d) (dec_code d) = as @ bs @ r'"
    by (metis append_eq_conv_conj drop_drop add.commute)
  with * show "reads_at d (as @ bs)" by (auto simp: reads_at_def)
qed

lemma Absorb_reads [decode_simps]:
  assumes "reads_at d (word_bytes (w :: 'a::len word))" and "8 dvd LENGTH('a)"
  shows "Absorb d = (w, skip (sizeof TYPE('a)) d)"
proof -
  obtain r where r: "drop (dec_ip d) (dec_code d) = word_bytes w @ r" "dec_ip d \<le> length (dec_code d)"
    using assms(1) by (auto simp: reads_at_def)
  moreover have "length (word_bytes w @ r) = length (dec_code d) - dec_ip d"
    using r(1) by (metis length_drop)
  ultimately have "ReadUnaligned (dec_code d) (dec_ip d) = Some (w, dec_ip d + sizeof TYPE('a))"
    using bytes_nat_word [OF assms(2), of w] by (simp add: ReadUnaligned_def Let_def)
  then show ?thesis by (simp add: Absorb_def skip_def)
qed

lemma Absorb_past_end:
  "dec_ip d + sizeof TYPE('a::len) > length (dec_code d) \<Longrightarrow> Absorb d = (0 :: 'a word, d)"
  by (simp add: Absorb_def ReadUnaligned_def)

end
