(* ===== verification/InstructionEncoding.thy ===== *)
theory InstructionEncoding
  imports ByteCode
begin

text \<open>
  Instructions as the encoder writes them: an operation code and its operands. Every function of
  \<^verbatim>\<open>src/compilation/ByteCodeEncoder.cpp\<close> appends the bytes of one instruction, so a program is a list
  of instructions. The disassembler and the virtual machine are related to such lists.
\<close>

section \<open>Instructions\<close>

datatype Operand = U8 u8 | U16 u16 | U32 u32 | U64 u64

fun operand_bytes :: "Operand \<Rightarrow> bytes" where
  "operand_bytes (U8 w) = word_bytes w"
| "operand_bytes (U16 w) = word_bytes w"
| "operand_bytes (U32 w) = word_bytes w"
| "operand_bytes (U64 w) = word_bytes w"

fun operand_size :: "Operand \<Rightarrow> nat" where
  "operand_size (U8 w) = 1"
| "operand_size (U16 w) = 2"
| "operand_size (U32 w) = 4"
| "operand_size (U64 w) = 8"

datatype Instruction = Instruction OpCode "Operand list"

fun instruction_bytes :: "Instruction \<Rightarrow> bytes" where
  "instruction_bytes (Instruction op args) =
     word_bytes (OpCode_value op) @ concat (map operand_bytes args)"

text \<open>The sizes of the operands of every instruction but \<^verbatim>\<open>JUMP_TABLE\<close>.\<close>

definition operand_sizes :: "OpCode \<Rightarrow> nat list" where
  "operand_sizes op =
     (if op \<in> {Ko LOADCONST_BOOLEAN, Ko LOADCONST_INTEGER8} then [1]
      else if op \<in> {Ko LOADCONST_CHAR, Ko LOAD_LOCAL, Ko STORE_LOCAL, Ko LOAD_ARG, Ko STORE_ARG} then [2]
      else if op \<in> {Oo LOADFIELD, Oo STOREFIELD} then [4]
      else if op \<in> {Ko LOADCONST_INTEGER64, Ko LOADCONST_NATIVE_INTEGER, Ko LOADCONST_RATIONAL64,
                    Ko LOADCONST_STRING, Co JUMP, Co JUMP_TRUE, Co JUMP_FALSE, Co BR_NULL,
                    Ho ENTER_TRY, Ho DEFER, Ho DEFER_DRAIN, Oo NEWDELEGATE, Oo NEWARRAY,
                    Oo NEWARRAY_DYNAMIC, Ho CREATERANGE, Oo LOADSTATICFIELD, Oo STORESTATICFIELD,
                    Oo LOADENUMFIELD, Oo CALLMETHODSYMBOL, Oo CALLDELEGATE, Oo CALLINTERFACE,
                    Oo ISINSTANCE, Oo CAST_AS, Oo CAST, Oo CASTPRIMITIVE} then [8]
      else if op = Oo LOAD_TYPEARGUMENT then [2, 8]
      else if op = Oo NEWOBJECT then [8, 8]
      else [])"

text \<open>
  An instruction is well formed when its operands have these sizes, a boolean is 0 or 1, and a
  jump table starts with the number of its targets.
\<close>

definition instruction_ok :: "Instruction \<Rightarrow> bool" where
  "instruction_ok i =
     (case i of Instruction op args \<Rightarrow>
        if op = Co JUMP_TABLE then
          (case args of U32 n # targets \<Rightarrow>
             length targets = unat n \<and> list_all (\<lambda>a. operand_size a = 8) targets
           | _ \<Rightarrow> False)
        else map operand_size args = operand_sizes op
          \<and> (op = Ko LOADCONST_BOOLEAN \<longrightarrow> args \<in> {[U8 0], [U8 1]}))"

section \<open>Sizes\<close>

lemma operand_size_iff [simp]:
  "operand_size a = Suc 0 \<longleftrightarrow> (\<exists>w. a = U8 w)" "operand_size a = 2 \<longleftrightarrow> (\<exists>w. a = U16 w)"
  "operand_size a = 4 \<longleftrightarrow> (\<exists>w. a = U32 w)" "operand_size a = 8 \<longleftrightarrow> (\<exists>w. a = U64 w)"
  by (cases a; simp)+

lemma length_operand_bytes [simp]: "length (operand_bytes a) = operand_size a"
  by (cases a) simp_all

lemma instruction_bytes_nonempty: "length (instruction_bytes i) \<ge> 2"
  by (cases i) simp

section \<open>What the encoder appends\<close>

lemmas emit_defs =
  EmitNop_def EmitHalt_def EmitPop_def EmitLoadConstNull_def
  EmitDuplicate_def EmitReturn_def EmitThrow_def EmitLeaveTry_def
  EmitRethrow_def EmitEndCatch_def EmitLoadCurrentException_def EmitStoreCurrentException_def
  EmitDeferBreak_def EmitMathAdd_def EmitMathSub_def EmitMathMult_def
  EmitMathDiv_def EmitMathMod_def EmitMathPow_def EmitMathNegative_def
  EmitMathShl_def EmitMathShr_def EmitCompareEqual_def EmitCompareNotEqual_def
  EmitCompareGreater_def EmitCompareGreaterOrEqual_def EmitCompareLess_def EmitCompareLessOrEqual_def
  EmitLogicalNot_def EmitLogicalOr_def EmitLogicalAnd_def EmitLoadArrayElement_def
  EmitStoreArrayElement_def EmitArrayLength_def EmitLoadConstBool_def EmitLoadConstInt8_def
  EmitLoadConstInt64_def EmitLoadConstNativeInt_def EmitLoadConstDouble64_def EmitJump_def
  EmitJumpTrue_def EmitJumpFalse_def EmitBranchNull_def EmitEnterTry_def
  EmitDefer_def EmitDeferDrain_def EmitNewDelegate_def EmitNewArray_def
  EmitNewArrayDynamic_def EmitCreateRange_def EmitLoadStaticField_def EmitStoreStaticField_def
  EmitLoadEnumField_def EmitCallMethodSymbol_def EmitCallDelegate_def EmitCallInterface_def
  EmitIsInstance_def EmitCastAs_def EmitCast_def EmitCastPrimitive_def
  EmitLoadConstChar16_def EmitLoadLocal_def EmitStoreLocal_def EmitLoadArg_def
  EmitStoreArg_def EmitLoadTypeArgument_def EmitNewObject_def EmitLoadField_def
  EmitStoreField_def
  EmitLoadConstString_def EmitJumpTable_def

lemma fold_AppendDataT:
  "fold (\<lambda>w code. AppendDataT code w) ws code = code @ concat (map word_bytes ws)"
  by (induction ws arbitrary: code) (simp_all add: AppendDataT_def AppendData_def)

text \<open>
  Every function of the encoder appends to the code the bytes of one instruction: the number of
  its operation code in two bytes, then its operands at their sizes, little end first. A jump
  table carries the number of its targets.
\<close>

lemma encoder_appends_instruction:
  "EmitNop code = code @ instruction_bytes (Instruction (Ko NOP) [])
   \<and> EmitHalt code = code @ instruction_bytes (Instruction (Ko HALT) [])
   \<and> EmitPop code = code @ instruction_bytes (Instruction (Ko POP) [])
   \<and> EmitLoadConstNull code = code @ instruction_bytes (Instruction (Ko LOADCONST_NULL) [])
   \<and> EmitDuplicate code = code @ instruction_bytes (Instruction (Ko DUP) [])
   \<and> EmitReturn code = code @ instruction_bytes (Instruction (Co RETURN) [])
   \<and> EmitThrow code = code @ instruction_bytes (Instruction (Co THROW) [])
   \<and> EmitLeaveTry code = code @ instruction_bytes (Instruction (Ho LEAVE_TRY) [])
   \<and> EmitRethrow code = code @ instruction_bytes (Instruction (Ho RETHROW) [])
   \<and> EmitEndCatch code = code @ instruction_bytes (Instruction (Ho END_CATCH) [])
   \<and> EmitLoadCurrentException code = code @ instruction_bytes (Instruction (Ho LOAD_CURRENT_EXCEPTION) [])
   \<and> EmitStoreCurrentException code = code @ instruction_bytes (Instruction (Ho STORE_CURRENT_EXCEPTION) [])
   \<and> EmitDeferBreak code = code @ instruction_bytes (Instruction (Ho DEFER_BREAK) [])
   \<and> EmitMathAdd code = code @ instruction_bytes (Instruction (Mo MATH_ADDITION) [])
   \<and> EmitMathSub code = code @ instruction_bytes (Instruction (Mo MATH_SUBTRACT) [])
   \<and> EmitMathMult code = code @ instruction_bytes (Instruction (Mo MATH_MULTIPLY) [])
   \<and> EmitMathDiv code = code @ instruction_bytes (Instruction (Mo MATH_DIVISION) [])
   \<and> EmitMathMod code = code @ instruction_bytes (Instruction (Mo MATH_MODULO) [])
   \<and> EmitMathPow code = code @ instruction_bytes (Instruction (Mo MATH_POWER) [])
   \<and> EmitMathNegative code = code @ instruction_bytes (Instruction (Mo MATH_NEGATIVE) [])
   \<and> EmitMathShl code = code @ instruction_bytes (Instruction (Mo MATH_SHL) [])
   \<and> EmitMathShr code = code @ instruction_bytes (Instruction (Mo MATH_SHR) [])
   \<and> EmitCompareEqual code = code @ instruction_bytes (Instruction (Mo COMPARE_EQUAL) [])
   \<and> EmitCompareNotEqual code = code @ instruction_bytes (Instruction (Mo COMPARE_NOTEQUAL) [])
   \<and> EmitCompareGreater code = code @ instruction_bytes (Instruction (Mo COMPARE_GREATER) [])
   \<and> EmitCompareGreaterOrEqual code = code @ instruction_bytes (Instruction (Mo COMPARE_GREATER_OR_EQUAL) [])
   \<and> EmitCompareLess code = code @ instruction_bytes (Instruction (Mo COMPARE_LESS) [])
   \<and> EmitCompareLessOrEqual code = code @ instruction_bytes (Instruction (Mo COMPARE_LESS_OR_EQUAL) [])
   \<and> EmitLogicalNot code = code @ instruction_bytes (Instruction (Mo LOGICAL_NOT) [])
   \<and> EmitLogicalOr code = code @ instruction_bytes (Instruction (Mo LOGICAL_OR) [])
   \<and> EmitLogicalAnd code = code @ instruction_bytes (Instruction (Mo LOGICAL_AND) [])
   \<and> EmitLoadArrayElement code = code @ instruction_bytes (Instruction (Oo LOADARRAYELEMENT) [])
   \<and> EmitStoreArrayElement code = code @ instruction_bytes (Instruction (Oo STOREARRAYELEMENT) [])
   \<and> EmitArrayLength code = code @ instruction_bytes (Instruction (Oo ARRAYLENGTH) [])
   \<and> EmitLoadConstBool code b = code @ instruction_bytes (Instruction (Ko LOADCONST_BOOLEAN) [U8 (of_bool b)])
   \<and> EmitLoadConstInt8 code x8 = code @ instruction_bytes (Instruction (Ko LOADCONST_INTEGER8) [U8 x8])
   \<and> EmitLoadConstInt64 code x = code @ instruction_bytes (Instruction (Ko LOADCONST_INTEGER64) [U64 x])
   \<and> EmitLoadConstNativeInt code x = code @ instruction_bytes (Instruction (Ko LOADCONST_NATIVE_INTEGER) [U64 x])
   \<and> EmitLoadConstDouble64 code x = code @ instruction_bytes (Instruction (Ko LOADCONST_RATIONAL64) [U64 x])
   \<and> EmitJump code x = code @ instruction_bytes (Instruction (Co JUMP) [U64 x])
   \<and> EmitJumpTrue code x = code @ instruction_bytes (Instruction (Co JUMP_TRUE) [U64 x])
   \<and> EmitJumpFalse code x = code @ instruction_bytes (Instruction (Co JUMP_FALSE) [U64 x])
   \<and> EmitBranchNull code x = code @ instruction_bytes (Instruction (Co BR_NULL) [U64 x])
   \<and> EmitEnterTry code x = code @ instruction_bytes (Instruction (Ho ENTER_TRY) [U64 x])
   \<and> EmitDefer code x = code @ instruction_bytes (Instruction (Ho DEFER) [U64 x])
   \<and> EmitDeferDrain code x = code @ instruction_bytes (Instruction (Ho DEFER_DRAIN) [U64 x])
   \<and> EmitNewDelegate code x = code @ instruction_bytes (Instruction (Oo NEWDELEGATE) [U64 x])
   \<and> EmitNewArray code x = code @ instruction_bytes (Instruction (Oo NEWARRAY) [U64 x])
   \<and> EmitNewArrayDynamic code x = code @ instruction_bytes (Instruction (Oo NEWARRAY_DYNAMIC) [U64 x])
   \<and> EmitCreateRange code x = code @ instruction_bytes (Instruction (Ho CREATERANGE) [U64 x])
   \<and> EmitLoadStaticField code x = code @ instruction_bytes (Instruction (Oo LOADSTATICFIELD) [U64 x])
   \<and> EmitStoreStaticField code x = code @ instruction_bytes (Instruction (Oo STORESTATICFIELD) [U64 x])
   \<and> EmitLoadEnumField code x = code @ instruction_bytes (Instruction (Oo LOADENUMFIELD) [U64 x])
   \<and> EmitCallMethodSymbol code x = code @ instruction_bytes (Instruction (Oo CALLMETHODSYMBOL) [U64 x])
   \<and> EmitCallDelegate code x = code @ instruction_bytes (Instruction (Oo CALLDELEGATE) [U64 x])
   \<and> EmitCallInterface code x = code @ instruction_bytes (Instruction (Oo CALLINTERFACE) [U64 x])
   \<and> EmitIsInstance code x = code @ instruction_bytes (Instruction (Oo ISINSTANCE) [U64 x])
   \<and> EmitCastAs code x = code @ instruction_bytes (Instruction (Oo CAST_AS) [U64 x])
   \<and> EmitCast code x = code @ instruction_bytes (Instruction (Oo CAST) [U64 x])
   \<and> EmitCastPrimitive code x = code @ instruction_bytes (Instruction (Oo CASTPRIMITIVE) [U64 x])
   \<and> EmitLoadConstChar16 code c = code @ instruction_bytes (Instruction (Ko LOADCONST_CHAR) [U16 c])
   \<and> EmitLoadLocal code x16 = code @ instruction_bytes (Instruction (Ko LOAD_LOCAL) [U16 x16])
   \<and> EmitStoreLocal code x16 = code @ instruction_bytes (Instruction (Ko STORE_LOCAL) [U16 x16])
   \<and> EmitLoadArg code x16 = code @ instruction_bytes (Instruction (Ko LOAD_ARG) [U16 x16])
   \<and> EmitStoreArg code x16 = code @ instruction_bytes (Instruction (Ko STORE_ARG) [U16 x16])
   \<and> EmitLoadTypeArgument code x16 x = code @ instruction_bytes (Instruction (Oo LOAD_TYPEARGUMENT) [U16 x16, U64 x])
   \<and> EmitNewObject code x y = code @ instruction_bytes (Instruction (Oo NEWOBJECT) [U64 x, U64 y])
   \<and> EmitLoadField code x32 = code @ instruction_bytes (Instruction (Oo LOADFIELD) [U32 x32])
   \<and> EmitStoreField code x32 = code @ instruction_bytes (Instruction (Oo STOREFIELD) [U32 x32])
   \<and> fst (EmitLoadConstString code data str)
        = code @ instruction_bytes (Instruction (Ko LOADCONST_STRING) [U64 (of_nat (length data))])
   \<and> EmitJumpTable code xs = code @ instruction_bytes (Instruction (Co JUMP_TABLE)
        (U32 (of_nat (length xs)) # map U64 xs))"
  unfolding emit_defs fold_AppendDataT
  by (simp add: AppendDataT_def AppendData_def comp_def)

section \<open>Encoding a program\<close>

text \<open>Which function of the encoder writes which instruction (string constants apart).\<close>

definition plain_emitters :: "(OpCode \<times> (bytes \<Rightarrow> bytes)) list" where
  "plain_emitters =
     [(Ko NOP, EmitNop), (Ko HALT, EmitHalt), (Ko POP, EmitPop),
      (Ko LOADCONST_NULL, EmitLoadConstNull), (Ko DUP, EmitDuplicate),
      (Co RETURN, EmitReturn), (Co THROW, EmitThrow), (Ho LEAVE_TRY, EmitLeaveTry),
      (Ho RETHROW, EmitRethrow), (Ho END_CATCH, EmitEndCatch),
      (Ho LOAD_CURRENT_EXCEPTION, EmitLoadCurrentException),
      (Ho STORE_CURRENT_EXCEPTION, EmitStoreCurrentException),
      (Ho DEFER_BREAK, EmitDeferBreak), (Mo MATH_ADDITION, EmitMathAdd),
      (Mo MATH_SUBTRACT, EmitMathSub), (Mo MATH_MULTIPLY, EmitMathMult),
      (Mo MATH_DIVISION, EmitMathDiv), (Mo MATH_MODULO, EmitMathMod),
      (Mo MATH_POWER, EmitMathPow), (Mo MATH_NEGATIVE, EmitMathNegative),
      (Mo MATH_SHL, EmitMathShl), (Mo MATH_SHR, EmitMathShr),
      (Mo COMPARE_EQUAL, EmitCompareEqual), (Mo COMPARE_NOTEQUAL, EmitCompareNotEqual),
      (Mo COMPARE_GREATER, EmitCompareGreater),
      (Mo COMPARE_GREATER_OR_EQUAL, EmitCompareGreaterOrEqual),
      (Mo COMPARE_LESS, EmitCompareLess), (Mo COMPARE_LESS_OR_EQUAL, EmitCompareLessOrEqual),
      (Mo LOGICAL_NOT, EmitLogicalNot), (Mo LOGICAL_OR, EmitLogicalOr),
      (Mo LOGICAL_AND, EmitLogicalAnd), (Oo LOADARRAYELEMENT, EmitLoadArrayElement),
      (Oo STOREARRAYELEMENT, EmitStoreArrayElement), (Oo ARRAYLENGTH, EmitArrayLength)]"

definition u16_emitters :: "(OpCode \<times> (bytes \<Rightarrow> u16 \<Rightarrow> bytes)) list" where
  "u16_emitters =
     [(Ko LOAD_LOCAL, EmitLoadLocal), (Ko STORE_LOCAL, EmitStoreLocal),
      (Ko LOAD_ARG, EmitLoadArg), (Ko STORE_ARG, EmitStoreArg),
      (Ko LOADCONST_CHAR, EmitLoadConstChar16)]"

definition u32_emitters :: "(OpCode \<times> (bytes \<Rightarrow> u32 \<Rightarrow> bytes)) list" where
  "u32_emitters =
     [(Oo LOADFIELD, EmitLoadField), (Oo STOREFIELD, EmitStoreField)]"

definition u64_emitters :: "(OpCode \<times> (bytes \<Rightarrow> u64 \<Rightarrow> bytes)) list" where
  "u64_emitters =
     [(Ko LOADCONST_INTEGER64, EmitLoadConstInt64),
      (Ko LOADCONST_NATIVE_INTEGER, EmitLoadConstNativeInt),
      (Ko LOADCONST_RATIONAL64, EmitLoadConstDouble64), (Co JUMP, EmitJump),
      (Co JUMP_TRUE, EmitJumpTrue), (Co JUMP_FALSE, EmitJumpFalse),
      (Co BR_NULL, EmitBranchNull), (Ho ENTER_TRY, EmitEnterTry), (Ho DEFER, EmitDefer),
      (Ho DEFER_DRAIN, EmitDeferDrain), (Oo NEWDELEGATE, EmitNewDelegate),
      (Oo NEWARRAY, EmitNewArray), (Oo NEWARRAY_DYNAMIC, EmitNewArrayDynamic),
      (Ho CREATERANGE, EmitCreateRange), (Oo LOADSTATICFIELD, EmitLoadStaticField),
      (Oo STORESTATICFIELD, EmitStoreStaticField), (Oo LOADENUMFIELD, EmitLoadEnumField),
      (Oo CALLMETHODSYMBOL, EmitCallMethodSymbol), (Oo CALLDELEGATE, EmitCallDelegate),
      (Oo CALLINTERFACE, EmitCallInterface), (Oo ISINSTANCE, EmitIsInstance),
      (Oo CAST_AS, EmitCastAs), (Oo CAST, EmitCast), (Oo CASTPRIMITIVE, EmitCastPrimitive)]"

definition EmitInstruction :: "Instruction \<Rightarrow> bytes \<Rightarrow> bytes" where
  "EmitInstruction i code =
     (case i of
        Instruction op [] \<Rightarrow> (case map_of plain_emitters op of Some f \<Rightarrow> f code | None \<Rightarrow> code)
      | Instruction op (U8 x # _) \<Rightarrow>
          if op = Ko LOADCONST_BOOLEAN then EmitLoadConstBool code (x \<noteq> 0) else EmitLoadConstInt8 code x
      | Instruction op [U16 x] \<Rightarrow> (case map_of u16_emitters op of Some f \<Rightarrow> f code x | None \<Rightarrow> code)
      | Instruction op (U16 x # U64 y # _) \<Rightarrow> EmitLoadTypeArgument code x y
      | Instruction op (U32 x # xs) \<Rightarrow>
          if op = Co JUMP_TABLE then EmitJumpTable code (map (\<lambda>a. case a of U64 w \<Rightarrow> w | _ \<Rightarrow> 0) xs)
          else (case map_of u32_emitters op of Some f \<Rightarrow> f code x | None \<Rightarrow> code)
      | Instruction op [U64 x] \<Rightarrow> (case map_of u64_emitters op of Some f \<Rightarrow> f code x | None \<Rightarrow> code)
      | Instruction op (U64 x # U64 y # _) \<Rightarrow> EmitNewObject code x y
      | _ \<Rightarrow> code)"

definition no_string :: "Instruction \<Rightarrow> bool" where
  "no_string i = (case i of Instruction op args \<Rightarrow> op \<noteq> Ko LOADCONST_STRING)"

lemma plain_emitter_ok:
  "operand_sizes op = [] \<Longrightarrow> op \<noteq> Co JUMP_TABLE \<Longrightarrow>
     \<exists>f. map_of plain_emitters op = Some f \<and> f code = code @ instruction_bytes (Instruction op [])"
proof -
  have "list_all (\<lambda>op. operand_sizes op = [] \<longrightarrow> op \<noteq> Co JUMP_TABLE \<longrightarrow>
     (\<exists>f. map_of plain_emitters op = Some f \<and> f code = code @ instruction_bytes (Instruction op []))) OpCodes"
    unfolding OpCodes_def list.pred_inject
    by (simp add: plain_emitters_def operand_sizes_def encoder_appends_instruction)
  then show "operand_sizes op = [] \<Longrightarrow> op \<noteq> Co JUMP_TABLE \<Longrightarrow> ?thesis"
    using OpCode_in_list [of op] by (auto simp: list_all_iff)
qed

lemma long_emitter_ok:
  "operand_sizes op = [8] \<Longrightarrow> op \<noteq> Ko LOADCONST_STRING \<Longrightarrow>
     \<exists>f. map_of u64_emitters op = Some f \<and> f code x = code @ instruction_bytes (Instruction op [U64 x])"
proof -
  have "list_all (\<lambda>op. operand_sizes op = [8] \<longrightarrow> op \<noteq> Ko LOADCONST_STRING \<longrightarrow>
     (\<exists>f. map_of u64_emitters op = Some f \<and> f code x = code @ instruction_bytes (Instruction op [U64 x]))) OpCodes"
    unfolding OpCodes_def list.pred_inject
    by (simp add: u64_emitters_def operand_sizes_def encoder_appends_instruction)
  then show "operand_sizes op = [8] \<Longrightarrow> op \<noteq> Ko LOADCONST_STRING \<Longrightarrow> ?thesis"
    using OpCode_in_list [of op] by (auto simp: list_all_iff)
qed

lemma operand_sizes_cases:
  "operand_sizes op = [] \<or> operand_sizes op = [8]
   \<or> op \<in> {Ko LOADCONST_BOOLEAN, Ko LOADCONST_INTEGER8, Ko LOADCONST_CHAR, Ko LOAD_LOCAL, Ko STORE_LOCAL,
             Ko LOAD_ARG, Ko STORE_ARG, Oo LOADFIELD, Oo STOREFIELD, Oo LOAD_TYPEARGUMENT, Oo NEWOBJECT}"
  by (simp add: operand_sizes_def)

lemma EmitInstruction_ok:
  assumes "instruction_ok i" and "no_string i"
  shows "EmitInstruction i code = code @ instruction_bytes i"
proof (cases i)
  case i: (Instruction op args)
  show ?thesis
  proof (cases "op = Co JUMP_TABLE")
    case True
    with assms(1) i obtain n ts where a: "args = U32 n # ts" "length ts = unat n" "list_all (\<lambda>a. operand_size a = 8) ts"
      by (auto simp: instruction_ok_def split: list.splits Operand.splits)
    then have "map U64 (map (\<lambda>a. case a of U64 w \<Rightarrow> w | _ \<Rightarrow> 0) ts) = ts"
      by (induction ts) (auto simp: list_all_iff intro!: map_idI)
    moreover have "(of_nat (length ts) :: u32) = n" using a(2) by simp
    ultimately show ?thesis
      using True a(1) i
      by (simp add: EmitInstruction_def encoder_appends_instruction del: instruction_bytes.simps)
  next
    case False
    with assms i have sizes: "map operand_size args = operand_sizes op" "op \<noteq> Ko LOADCONST_STRING"
      and bool: "op = Ko LOADCONST_BOOLEAN \<Longrightarrow> args \<in> {[U8 0], [U8 1]}"
      by (auto simp: instruction_ok_def no_string_def)
    consider "operand_sizes op = []" | "operand_sizes op = [8]"
      | "op \<in> {Ko LOADCONST_BOOLEAN, Ko LOADCONST_INTEGER8, Ko LOADCONST_CHAR, Ko LOAD_LOCAL, Ko STORE_LOCAL,
             Ko LOAD_ARG, Ko STORE_ARG, Oo LOADFIELD, Oo STOREFIELD, Oo LOAD_TYPEARGUMENT, Oo NEWOBJECT}"
      using operand_sizes_cases [of op] by blast
    then show ?thesis
    proof cases
      case 1
      with plain_emitter_ok [OF 1 False, of code] sizes i show ?thesis by (auto simp: EmitInstruction_def)
    next
      case 2
      then obtain x where "args = [U64 x]" using sizes by auto
      with long_emitter_ok [OF 2 sizes(2), of code x] i show ?thesis by (auto simp: EmitInstruction_def)
    next
      case 3
      with sizes bool i show ?thesis
        by (elim insertE)
           (auto simp: operand_sizes_def EmitInstruction_def encoder_appends_instruction
              u16_emitters_def u32_emitters_def)
    qed
  qed
qed

lemma emit_program:
  "list_all instruction_ok is \<Longrightarrow> list_all no_string is \<Longrightarrow>
     fold EmitInstruction is code = code @ concat (map instruction_bytes is)"
  by (induction "is" arbitrary: code) (simp_all add: EmitInstruction_ok)

end
