(* ===== verification/Disassembler.thy ===== *)
theory Disassembler
  imports InstructionEncoding
begin

text \<open>
  The loop of \<^verbatim>\<open>ProgramDisassembler::Disassemble\<close>
  (\<^verbatim>\<open>src/compilation/ProgramDisassembler.cpp\<close>) that reads a method's code back. A line of the
  listing is its offset, its mnemonic and the operands the \<^verbatim>\<open>switch\<close> reads; the text it prints for
  an operand (a symbol's name, a hexadecimal target) is not modelled. On malformed code the loop
  may run forever, so it is a partial function.
\<close>

section \<open>The listing\<close>

type_synonym line = "nat \<times> string \<times> Operand list"

definition Mnemonics :: "(OpCode \<times> string) list" where
  "Mnemonics =
     [(Ko NOP, ''nop''), (Ko HALT, ''halt''), (Ko POP, ''pop''),
      (Ko LOADCONST_NULL, ''ldnull''), (Co RETURN, ''ret''), (Mo MATH_ADDITION, ''add''),
      (Mo MATH_SUBTRACT, ''sub''), (Mo MATH_MULTIPLY, ''mul''), (Mo MATH_DIVISION, ''div''),
      (Mo MATH_MODULO, ''mod''), (Mo MATH_POWER, ''pow''), (Mo MATH_NEGATIVE, ''neg''),
      (Mo MATH_SHL, ''shl''), (Mo MATH_SHR, ''shr''), (Mo COMPARE_EQUAL, ''cmp_eq''),
      (Mo COMPARE_NOTEQUAL, ''cmp_neq''), (Mo COMPARE_LESS, ''cmp_l''),
      (Mo COMPARE_LESS_OR_EQUAL, ''cmp_le''), (Mo COMPARE_GREATER, ''cmp_gt''),
      (Mo COMPARE_GREATER_OR_EQUAL, ''cmp_ge''), (Mo LOGICAL_NOT, ''not''),
      (Mo LOGICAL_AND, ''and''), (Mo LOGICAL_OR, ''or''), (Oo LOADARRAYELEMENT, ''ldelem''),
      (Oo STOREARRAYELEMENT, ''stelem''), (Ko DUP, ''dup''),
      (Ko LOADCONST_BOOLEAN, ''ldc.bool''), (Ko LOADCONST_INTEGER64, ''ldc.i8''),
      (Ko LOADCONST_RATIONAL64, ''ldc.r8''), (Ko LOADCONST_CHAR, ''ldc.char''),
      (Ko LOADCONST_STRING, ''ldstr''), (Ko LOAD_LOCAL, ''ldloc''),
      (Ko STORE_LOCAL, ''stloc''), (Ko LOAD_ARG, ''ldarg''), (Ko STORE_ARG, ''starg''),
      (Co JUMP, ''jmp''), (Co JUMP_FALSE, ''jmpf''), (Co JUMP_TRUE, ''jmpt''),
      (Co BR_NULL, ''brnull''), (Co JUMP_TABLE, ''jmptable''),
      (Oo CALLMETHODSYMBOL, ''call''), (Oo CALLDELEGATE, ''calldelegate''),
      (Oo NEWDELEGATE, ''newdelegate''), (Oo NEWOBJECT, ''newobj''),
      (Oo LOADFIELD, ''ldfld''), (Oo STOREFIELD, ''stfld''),
      (Oo LOADSTATICFIELD, ''ldsfld''), (Oo LOADENUMFIELD, ''ldenum''),
      (Oo STORESTATICFIELD, ''stsfld''), (Oo NEWARRAY, ''newarr''),
      (Oo NEWARRAY_DYNAMIC, ''newdynarr''), (Oo ARRAYLENGTH, ''ldlen''),
      (Ho CREATERANGE, ''newrange''), (Oo LOAD_TYPEARGUMENT, ''ldtypearg''),
      (Oo CALLINTERFACE, ''callinterface''), (Oo ISINSTANCE, ''isinst''),
      (Oo CAST_AS, ''castinterface''), (Co THROW, ''throw''), (Ho ENTER_TRY, ''enter_try''),
      (Ho LEAVE_TRY, ''leave_try''), (Ho RETHROW, ''rethrow''),
      (Ho END_CATCH, ''end_catch''), (Ho LOAD_CURRENT_EXCEPTION, ''load_current_exception''),
      (Ho STORE_CURRENT_EXCEPTION, ''store_current_exception''), (Ho DEFER, ''defer''),
      (Ho DEFER_BREAK, ''defer_break''), (Ho DEFER_DRAIN, ''defer_drain'')]"

fun Absorb_targets :: "nat \<Rightarrow> ByteCodeDecoder \<Rightarrow> Operand list \<times> ByteCodeDecoder" where
  "Absorb_targets 0 d = ([], d)"
| "Absorb_targets (Suc n) d =
     (let (x, d1) = AbsorbJump d; (xs, d2) = Absorb_targets n d1 in (U64 x # xs, d2))"

text \<open>The operands the \<^verbatim>\<open>switch\<close> reads for an operation code.\<close>

definition Disassemble_args :: "OpCode \<Rightarrow> ByteCodeDecoder \<Rightarrow> Operand list \<times> ByteCodeDecoder" where
  "Disassemble_args op d =
     (if op = Ko LOADCONST_BOOLEAN then
        (let (x, d1) = AbsorbBoolean d in ([U8 (of_bool x)], d1))
      else if op = Co JUMP_TABLE then
        (let (count, d1) = AbsorbUInt32 d; (xs, d2) = Absorb_targets (unat count) d1
         in (U32 count # xs, d2))
      else if op = Oo NEWOBJECT then
        (let (x, d1) = AbsorbTypeSymbol d; (y, d2) = AbsorbConstructorSymbol d1 in ([U64 x, U64 y], d2))
      else if op = Oo LOAD_TYPEARGUMENT then
        (let (x, d1) = AbsorbUInt16 d; (y, d2) = AbsorbTypeSymbol d1 in ([U16 x, U64 y], d2))
      else if op \<in> {Ko LOADCONST_INTEGER64} then
        (let (x, d1) = AbsorbInt64 d in ([U64 x], d1))
      else if op \<in> {Ko LOADCONST_RATIONAL64} then
        (let (x, d1) = AbsorbDouble64 d in ([U64 x], d1))
      else if op \<in> {Ko LOADCONST_CHAR} then
        (let (x, d1) = AbsorbChar16 d in ([U16 x], d1))
      else if op \<in> {Ko LOADCONST_STRING} then
        (let (x, d1) = AbsorbString d in ([U64 x], d1))
      else if op \<in> {Ko LOAD_LOCAL, Ko STORE_LOCAL, Ko LOAD_ARG, Ko STORE_ARG} then
        (let (x, d1) = AbsorbVariableSlot d in ([U16 x], d1))
      else if op \<in> {Co JUMP, Co JUMP_FALSE, Co JUMP_TRUE, Co BR_NULL, Ho ENTER_TRY,
                  Ho DEFER, Ho DEFER_DRAIN} then
        (let (x, d1) = AbsorbJump d in ([U64 x], d1))
      else if op \<in> {Oo CALLMETHODSYMBOL, Oo CALLINTERFACE} then
        (let (x, d1) = AbsorbMethodSymbol d in ([U64 x], d1))
      else if op \<in> {Oo CALLDELEGATE, Oo NEWDELEGATE} then
        (let (x, d1) = AbsordDelegateTypeSymbol d in ([U64 x], d1))
      else if op \<in> {Oo LOADFIELD, Oo STOREFIELD} then
        (let (x, d1) = AbsorbFieldSlot d in ([U32 x], d1))
      else if op \<in> {Oo LOADSTATICFIELD, Oo LOADENUMFIELD, Oo STORESTATICFIELD} then
        (let (x, d1) = AbsorbFieldSymbol d in ([U64 x], d1))
      else if op \<in> {Oo NEWARRAY} then
        (let (x, d1) = AbsorbArraySymbol d in ([U64 x], d1))
      else if op \<in> {Oo NEWARRAY_DYNAMIC, Ho CREATERANGE, Oo ISINSTANCE, Oo CAST_AS} then
        (let (x, d1) = AbsorbTypeSymbol d in ([U64 x], d1))
      else ([], d))"

text \<open>One pass of the loop. An operation code with no case is listed as \<^verbatim>\<open>unknown\<close>, with its number.\<close>

definition Disassemble_line :: "ByteCodeDecoder \<Rightarrow> line \<times> ByteCodeDecoder" where
  "Disassemble_line d =
     (let currentOffset = Index d; (value, d1) = AbsorbOpCode d in
      case OpCode_of value of
        None \<Rightarrow> ((currentOffset, ''unknown'', [U16 value]), d1)
      | Some op \<Rightarrow>
          (case map_of Mnemonics op of
             None \<Rightarrow> ((currentOffset, ''unknown'', [U16 value]), d1)
           | Some opcode \<Rightarrow>
               let (args, d2) = Disassemble_args op d1 in ((currentOffset, opcode, args), d2)))"

partial_function (option) Disassemble_loop ::
  "ByteCodeDecoder \<Rightarrow> line list \<Rightarrow> line list option" where
  "Disassemble_loop decoder out =
     (if IsEOF decoder then Some out
      else let (line, decoder') = Disassemble_line decoder in
           Disassemble_loop decoder' (out @ [line]))"

definition Disassemble :: "bytes \<Rightarrow> line list option" where
  "Disassemble code = Disassemble_loop (ByteCodeDecoder_of code) []"

section \<open>Reading instructions back\<close>

text \<open>The operation codes the disassembler has no case for.\<close>

definition unlisted :: "OpCode list" where
  "unlisted = [Ko LOADCONST_INTEGER8, Ko LOADCONST_NATIVE_INTEGER, Oo CAST, Oo CASTPRIMITIVE]"

definition listed :: "Instruction \<Rightarrow> bool" where
  "listed i = (case i of Instruction op args \<Rightarrow> op \<notin> set unlisted)"

lemma listed_mnemonic: "op \<notin> set unlisted \<longleftrightarrow> op \<in> set (map fst Mnemonics)"
proof -
  have "list_all (\<lambda>op. op \<notin> set unlisted \<longleftrightarrow> op \<in> set (map fst Mnemonics)) OpCodes"
    by code_simp
  then show ?thesis using OpCode_in_list [of op] by (simp add: list_all_iff)
qed

lemma Absorb_targets_ok:
  "reads_at d (concat (map operand_bytes ts)) \<Longrightarrow> list_all (\<lambda>a. operand_size a = 8) ts \<Longrightarrow>
     Absorb_targets (length ts) d = (ts, skip (length (concat (map operand_bytes ts))) d)"
proof (induction ts arbitrary: d)
  case (Cons t ts)
  then obtain w where t: "t = U64 w" by auto
  with Cons.prems have "reads_at d (word_bytes w)" "reads_at (skip 8 d) (concat (map operand_bytes ts))"
    by (simp_all add: reads_at_append)
  with Cons t show ?case by (simp add: absorb_defs Absorb_reads)
qed simp

lemma Disassemble_args_ok:
  assumes ok: "instruction_ok (Instruction op args)" and listed: "op \<notin> set unlisted"
    and reads: "reads_at d (concat (map operand_bytes args))"
  shows "Disassemble_args op d = (args, skip (length (concat (map operand_bytes args))) d)"
proof (cases "op = Co JUMP_TABLE")
  case True
  with ok obtain n ts where a: "args = U32 n # ts" "length ts = unat n" "list_all (\<lambda>a. operand_size a = 8) ts"
    by (auto simp: instruction_ok_def split: list.splits Operand.splits)
  with reads have "reads_at d (word_bytes n)" "reads_at (skip 4 d) (concat (map operand_bytes ts))"
    by (simp_all add: reads_at_append)
  with True a Absorb_targets_ok [of "skip 4 d" ts] show ?thesis
    by (simp add: Disassemble_args_def absorb_defs Absorb_reads)
next
  case False
  with ok have sizes: "map operand_size args = operand_sizes op"
    and bool: "op = Ko LOADCONST_BOOLEAN \<Longrightarrow> args \<in> {[U8 0], [U8 1]}"
    by (auto simp: instruction_ok_def)
  consider (none) "operand_sizes op = []" | (one) a where "args = [a]" "operand_sizes op = [operand_size a]"
    | (two) a b where "args = [a, b]" "operand_sizes op = [operand_size a, operand_size b]"
    using sizes by (auto simp: operand_sizes_def split: if_splits)
  then show ?thesis
  proof cases
    case none
    with sizes False listed show ?thesis
      by (auto simp: Disassemble_args_def operand_sizes_def unlisted_def split: if_splits)
  next
    case one
    with reads have "reads_at d (operand_bytes a)" by simp
    with one False listed bool show ?thesis
      by (cases a) (auto simp: Disassemble_args_def operand_sizes_def unlisted_def absorb_defs
        AbsorbBoolean_def Absorb_reads split: if_splits)
  next
    case two
    with reads have "reads_at d (operand_bytes a)" "reads_at (skip (operand_size a) d) (operand_bytes b)"
      by (simp_all add: reads_at_append)
    with two False listed show ?thesis
      by (cases a; cases b) (auto simp: Disassemble_args_def operand_sizes_def unlisted_def absorb_defs
        Absorb_reads split: if_splits)
  qed
qed

text \<open>What the listing of a list of instructions should be.\<close>

fun listing :: "nat \<Rightarrow> Instruction list \<Rightarrow> line list" where
  "listing offset [] = []"
| "listing offset (Instruction op args # is) =
     (offset, the (map_of Mnemonics op), args)
       # listing (offset + length (instruction_bytes (Instruction op args))) is"

lemma Disassemble_line_ok:
  assumes "instruction_ok (Instruction op args)" and "listed (Instruction op args)"
    and "reads_at d (instruction_bytes (Instruction op args))"
  shows "Disassemble_line d = ((dec_ip d, the (map_of Mnemonics op), args),
           skip (length (instruction_bytes (Instruction op args))) d)"
proof -
  have listed: "op \<notin> set unlisted" using assms(2) by (simp add: listed_def)
  then obtain mn where mn: "map_of Mnemonics op = Some mn"
    using listed_mnemonic [of op] by (metis map_of_eq_None_iff not_Some_eq set_map)
  have r: "reads_at d (word_bytes (OpCode_value op))"
    "reads_at (skip 2 d) (concat (map operand_bytes args))"
    using assms(3) by (simp_all add: reads_at_append)
  then have "AbsorbOpCode d = (OpCode_value op, skip 2 d)"
    by (simp add: absorb_defs Absorb_reads)
  with Disassemble_args_ok [OF assms(1) listed r(2)] mn show ?thesis
    by (simp add: Disassemble_line_def Index_def)
qed

lemma Disassemble_loop_ok:
  assumes "list_all instruction_ok is" and "list_all listed is"
    and "drop (dec_ip d) (dec_code d) = concat (map instruction_bytes is) @ rest"
    and "dec_ip d \<le> length (dec_code d)"
  shows "Disassemble_loop d out =
     Disassemble_loop (skip (length (concat (map instruction_bytes is))) d) (out @ listing (dec_ip d) is)"
  using assms
proof (induction "is" arbitrary: d out)
  case (Cons i "is")
  obtain op args where i: "i = Instruction op args" by (cases i)
  have r: "reads_at d (instruction_bytes i)" using Cons.prems by (auto simp: reads_at_def)
  have len: "length (instruction_bytes i @ concat (map instruction_bytes is) @ rest)
      = length (dec_code d) - dec_ip d"
    using Cons.prems(3) by (metis append.assoc concat.simps(2) length_drop list.simps(9))
  then have "\<not> IsEOF d"
    using instruction_bytes_nonempty [of i] by (auto simp: IsEOF_def)
  moreover have "Disassemble_line d = ((dec_ip d, the (map_of Mnemonics op), args), skip (length (instruction_bytes i)) d)"
    using Disassemble_line_ok [of op args d] Cons.prems(1,2) r i by simp
  ultimately have step: "Disassemble_loop d out = Disassemble_loop (skip (length (instruction_bytes i)) d)
      (out @ [(dec_ip d, the (map_of Mnemonics op), args)])"
    by (simp add: Disassemble_loop.simps [of d])
  have "drop (dec_ip (skip (length (instruction_bytes i)) d)) (dec_code (skip (length (instruction_bytes i)) d))
      = concat (map instruction_bytes is) @ rest"
    using Cons.prems(3)
    by (simp add: skip_def) (metis append_eq_conv_conj drop_drop add.commute)
  moreover have "dec_ip (skip (length (instruction_bytes i)) d)
      \<le> length (dec_code (skip (length (instruction_bytes i)) d))"
    using len Cons.prems(4) by (simp add: skip_def)
  ultimately show ?case
    using Cons.IH [of "skip (length (instruction_bytes i)) d"] Cons.prems(1,2)
    by (simp add: step i skip_def add.assoc)
qed simp

lemma Disassemble_prefix:
  assumes "list_all instruction_ok is" and "list_all listed is"
    and "code = concat (map instruction_bytes is) @ rest"
  shows "Disassemble code = Disassemble_loop
     \<lparr>dec_code = code, dec_ip = length (concat (map instruction_bytes is))\<rparr> (listing 0 is)"
  using Disassemble_loop_ok [OF assms(1,2), of "ByteCodeDecoder_of code" rest "[]"] assms(3)
  by (simp add: Disassemble_def ByteCodeDecoder_of_def skip_def)

text \<open>A cursor before a single last byte never moves: the operation code does not fit.\<close>

lemma Disassemble_stuck:
  assumes "dec_ip d + 1 = length (dec_code d)"
  shows "Disassemble_loop d out = None"
proof -
  have "\<not> (dec_ip d + 1 = length (dec_code d))" if "Disassemble_loop d out = Some r" for d out r
  proof (rule Disassemble_loop.raw_induct [OF _ that])
    fix loop d out r
    assume IH: "\<And>d out r. loop d out = Some r \<Longrightarrow> \<not> (dec_ip d + 1 = length (dec_code d))"
      and run: "(if IsEOF d then Some out
        else let (line, d') = Disassemble_line d in loop d' (out @ [line])) = Some r"
    show "\<not> (dec_ip d + 1 = length (dec_code d))"
    proof
      assume stuck: "dec_ip d + 1 = length (dec_code d)"
      then have "AbsorbOpCode d = (0, d)"
        by (simp add: absorb_defs Absorb_past_end)
      then have "Disassemble_line d = ((dec_ip d, ''unknown'', [U16 0]), d)"
        by (simp add: Disassemble_line_def Index_def)
      moreover have "\<not> IsEOF d" using stuck by (simp add: IsEOF_def)
      ultimately obtain out' where "loop d out' = Some r" using run by auto
      from IH [OF this] stuck show False by simp
    qed
  qed
  then show ?thesis using assms by (metis not_Some_eq)
qed

section \<open>Properties\<close>

text \<open>
  What a compiler writes with the encoder: instructions, and loads of string constants, which append
  the string to the data section and carry its offset there.
\<close>

datatype emission = Plain Instruction | LoadString wstring

fun emit_step :: "emission \<Rightarrow> bytes \<times> bytes \<Rightarrow> bytes \<times> bytes" where
  "emit_step (Plain i) (code, data) = (EmitInstruction i code, data)"
| "emit_step (LoadString str) (code, data) = EmitLoadConstString code data str"

fun instructions_of :: "bytes \<Rightarrow> emission list \<Rightarrow> Instruction list" where
  "instructions_of data [] = []"
| "instructions_of data (Plain i # es) = i # instructions_of data es"
| "instructions_of data (LoadString str # es) =
     Instruction (Ko LOADCONST_STRING) [U64 (of_nat (length data))]
       # instructions_of (snd (EmitLoadConstString [] data str)) es"

fun emission_ok :: "emission \<Rightarrow> bool" where
  "emission_ok (Plain i) \<longleftrightarrow> instruction_ok i \<and> no_string i \<and> listed i"
| "emission_ok (LoadString str) \<longleftrightarrow> True"

lemma emitted_instructions:
  "list_all emission_ok es \<Longrightarrow>
     list_all instruction_ok (instructions_of data es) \<and> list_all listed (instructions_of data es)"
  by (induction data es rule: instructions_of.induct)
     (simp_all add: instruction_ok_def operand_sizes_def listed_def unlisted_def)

lemma emit_string:
  "EmitLoadConstString code data str =
     (code @ instruction_bytes (Instruction (Ko LOADCONST_STRING) [U64 (of_nat (length data))]),
      snd (EmitLoadConstString [] data str))"
proof (rule prod_eqI)
  show "fst (EmitLoadConstString code data str) =
      fst (code @ instruction_bytes (Instruction (Ko LOADCONST_STRING) [U64 (of_nat (length data))]),
           snd (EmitLoadConstString [] data str))"
    using encoder_appends_instruction [of code] by (simp del: instruction_bytes.simps)
  show "snd (EmitLoadConstString code data str) =
      snd (code @ instruction_bytes (Instruction (Ko LOADCONST_STRING) [U64 (of_nat (length data))]),
           snd (EmitLoadConstString [] data str))"
    by (simp add: EmitLoadConstString_def Let_def)
qed

lemma emitted_code:
  "list_all emission_ok es \<Longrightarrow>
     fst (fold emit_step es (code, data)) = code @ concat (map instruction_bytes (instructions_of data es))"
proof (induction es arbitrary: code data)
  case (Cons e es)
  show ?case
  proof (cases e)
    case (Plain i)
    with Cons show ?thesis by (simp add: EmitInstruction_ok)
  next
    case (LoadString str)
    with Cons show ?thesis by (simp add: emit_string [of code])
  qed
qed simp

text \<open>
  C9: Disassembling inverts encoding. Code written instruction by instruction with the functions of
  the encoder, loads of string constants among them, is listed by the disassembler, which ends, as
  exactly those instructions in order, each at the offset where it was written, with its operands;
  for instructions other than the four kinds the disassembler has no case for. The operand of a
  string load is the place the string got in the data section.
\<close>

theorem disassemble_encoded_program:
  assumes "list_all emission_ok es"
  shows "Disassemble (fst (fold emit_step es ([], data))) = Some (listing 0 (instructions_of data es))"
proof -
  have "Disassemble (concat (map instruction_bytes (instructions_of data es))) = Some (listing 0 (instructions_of data es))"
    using Disassemble_prefix [of "instructions_of data es" _ "[]"] emitted_instructions [OF assms, of data]
    by (simp add: Disassemble_loop.simps [of "\<lparr>dec_code = _, dec_ip = _\<rparr>"] IsEOF_def)
  then show ?thesis using emitted_code [OF assms, of "[]" data] by simp
qed

definition sample_program :: "emission list" where
  "sample_program =
     [Plain (Instruction (Ko LOADCONST_INTEGER64) [U64 7]), Plain (Instruction (Ko STORE_LOCAL) [U16 0]),
      LoadString (L ''hi''), Plain (Instruction (Co JUMP_TABLE) [U32 2, U64 0, U64 14]), LoadString (L ''x''),
      Plain (Instruction (Oo NEWOBJECT) [U64 0x1000, U64 0x2000]), Plain (Instruction (Co RETURN) [])]"

lemma sample_program_ok: "list_all emission_ok sample_program"
  by (simp add: sample_program_def instruction_ok_def operand_sizes_def no_string_def listed_def unlisted_def)

theorem disassemble_encoded_program_witness:
  "\<exists>lines. Disassemble (fst (fold emit_step sample_program ([], []))) = Some lines
     \<and> lines ! 2 = (14, ''ldstr'', [U64 0]) \<and> lines ! 4 = (46, ''ldstr'', [U64 6])"
  unfolding disassemble_encoded_program [OF sample_program_ok, of "[]"]
  by (simp add: sample_program_def Mnemonics_def EmitLoadConstString_def AppendDataS_def wcs_def AppendDataT_def AppendData_def)

text \<open>
  C40: The disassembler does not end on code of well-formed instructions it knows that is followed
  by one load of an 8-bit constant. It has no case for \<^verbatim>\<open>LOADCONST_INTEGER8\<close> and does not skip the
  operand; the single byte that is left is too short for an operation code, so the cursor stays
  before the end forever. Such a load is what the encoder writes for the default value of an
  integer.
\<close>

theorem disassembler_hangs_on_int8:
  assumes "list_all instruction_ok is" and "list_all listed is"
  shows "Disassemble (EmitLoadConstInt8 (concat (map instruction_bytes is)) v) = None
       \<and> Disassemble (EmitDefaultValue (concat (map instruction_bytes is)) PInteger) = None"
proof -
  let ?pre = "concat (map instruction_bytes is)"
  have hang: "Disassemble (EmitLoadConstInt8 ?pre v) = None" for v
  proof -
    let ?code = "?pre @ word_bytes (OpCode_value (Ko LOADCONST_INTEGER8)) @ word_bytes v"
    define d where "d = \<lparr>dec_code = ?code, dec_ip = length ?pre\<rparr>"
    have "reads_at d (word_bytes (OpCode_value (Ko LOADCONST_INTEGER8)))"
      by (simp add: reads_at_def d_def)
    then have "AbsorbOpCode d = (OpCode_value (Ko LOADCONST_INTEGER8), skip 2 d)"
      unfolding absorb_defs by (subst Absorb_reads) simp_all
    moreover have "map_of Mnemonics (Ko LOADCONST_INTEGER8) = None"
      using listed_mnemonic [of "Ko LOADCONST_INTEGER8"] by (simp add: unlisted_def map_of_eq_None_iff)
    ultimately have line: "Disassemble_line d
        = ((dec_ip d, ''unknown'', [U16 (OpCode_value (Ko LOADCONST_INTEGER8))]), skip 2 d)"
      unfolding Disassemble_line_def Index_def by (simp only: Let_def prod.case OpCode_of_value option.case)
    have "\<not> IsEOF d" by (simp add: IsEOF_def d_def)
    moreover have "dec_ip (skip 2 d) + 1 = length (dec_code (skip 2 d))" by (simp add: skip_def d_def)
    ultimately have "Disassemble_loop d out = None" for out
      using Disassemble_stuck [of "skip 2 d"] line by (simp add: Disassemble_loop.simps [of d])
    then show ?thesis
      using Disassemble_prefix [OF assms, of ?code]
      by (simp add: d_def EmitLoadConstInt8_def AppendDataT_def AppendData_def del: OpCode_value.simps)
  qed
  then show ?thesis by (simp add: EmitDefaultValue_def)
qed

theorem disassembler_hangs_on_int8_witness:
  "Disassemble (EmitDefaultValue (concat (map instruction_bytes (instructions_of [] sample_program))) PInteger) = None"
  using disassembler_hangs_on_int8 [of "instructions_of [] sample_program"]
    emitted_instructions [OF sample_program_ok, of "[]"] by simp

end
