(* ===== verification/CodeSections.thy ===== *)
theory CodeSections
  imports ByteCode
begin

text \<open>
  Back-patching of jump targets and the string pool: what the compiler writes into the code and
  data sections after the fact, and what the decoder and the virtual machine read there.
\<close>

section \<open>Back-patching\<close>

text \<open>
  C32: Patching a jump target. Writing a 64-bit target over eight bytes of the code succeeds
  exactly when they lie inside it; it is refused exactly when they do not, unless the end of the
  access wraps around \<^verbatim>\<open>size_t\<close>, where the test of the source lets it run over the end. A write that
  succeeds keeps the length, makes \<^verbatim>\<open>PeekJumpAt\<close> at that place return the target, and leaves what
  \<^verbatim>\<open>PeekJumpAt\<close> returns at any place that does not overlap unchanged.
\<close>

theorem patch_jump_target:
  "((\<exists>code'. PasteDataT code at (target :: u64) = Within code') \<longleftrightarrow> at + 8 \<le> length code)
   \<and> (at + 8 < 2 ^ 64 \<longrightarrow> (PasteDataT code at target = OutOfBounds \<longleftrightarrow> length code < at + 8))
   \<and> (2 ^ 64 \<le> at + 8 \<and> at < 2 ^ 64 \<and> 8 \<le> length code \<and> length code < 2 ^ 64 \<longrightarrow>
        PasteDataT code at target = Overrun)
   \<and> (\<forall>code'. PasteDataT code at target = Within code' \<longrightarrow>
        length code' = length code
        \<and> PeekJumpAt at \<lparr>dec_code = code', dec_ip = ip\<rparr> = Within target
        \<and> (\<forall>other. other + 8 \<le> at \<or> at + 8 \<le> other \<longrightarrow>
             PeekJumpAt other \<lparr>dec_code = code', dec_ip = ip\<rparr>
               = PeekJumpAt other \<lparr>dec_code = code, dec_ip = ip\<rparr>))"
proof (intro conjI allI impI)
  show "(\<exists>code'. PasteDataT code at target = Within code') \<longleftrightarrow> at + 8 \<le> length code"
    by (auto simp: PasteDataT_def PasteData_def checked_access_within)
next
  assume "at + 8 < 2 ^ 64"
  then show "PasteDataT code at target = OutOfBounds \<longleftrightarrow> length code < at + 8"
    by (simp add: PasteDataT_def PasteData_def checked_access_refused)
next
  assume "2 ^ 64 \<le> at + 8 \<and> at < 2 ^ 64 \<and> 8 \<le> length code \<and> length code < 2 ^ 64"
  then show "PasteDataT code at target = Overrun"
    by (simp add: PasteDataT_def PasteData_def checked_access_wraps)
next
  fix code' other
  assume "PasteDataT code at target = Within code'"
  then have len: "at + 8 \<le> length code"
    and code': "code' = take at code @ word_bytes target @ drop (at + 8) code"
    by (auto simp: PasteDataT_def PasteData_def checked_access_within)
  then show same_length: "length code' = length code" by simp
  have "take 8 (drop at code') = word_bytes target" using len by (simp add: code')
  then show "PeekJumpAt at \<lparr>dec_code = code', dec_ip = ip\<rparr> = Within target"
    using len same_length bytes_nat_word [of target] by (simp add: PeekJumpAt_def checked_access_within)
  assume "other + 8 \<le> at \<or> at + 8 \<le> other"
  then have "take 8 (drop other code') = take 8 (drop other code)"
    using len by (auto simp: code' min_def drop_take intro!: nth_equalityI)
  then show "PeekJumpAt other \<lparr>dec_code = code', dec_ip = ip\<rparr>
      = PeekJumpAt other \<lparr>dec_code = code, dec_ip = ip\<rparr>"
    using same_length by (simp add: PeekJumpAt_def checked_access_def)
qed

theorem patch_jump_target_witness:
  "\<exists>code'. PasteDataT (EmitReturn (EmitJump [] 0)) 2 (12 :: u64) = Within code'"
  using patch_jump_target [of "EmitReturn (EmitJump [] 0)" 2 12]
  by (simp add: EmitReturn_def EmitJump_def AppendDataT_def AppendData_def)

section \<open>The string pool\<close>

text \<open>
  What the virtual machine's \<^verbatim>\<open>LOADCONST_STRING\<close> finds at an offset of the data section: the
  characters up to the first NUL. \<open>None\<close> is a read past the end of the section.
\<close>

function ReadDataString :: "bytes \<Rightarrow> nat \<Rightarrow> wstring option" where
  "ReadDataString data at =
     (if at + 2 > length data then None
      else let c = (of_nat (bytes_nat (take 2 (drop at data))) :: wchar) in
           if c = nul then Some []
           else map_option (Cons c) (ReadDataString data (at + 2)))"
  by pat_completeness auto
termination
  by (relation "measure (\<lambda>(data, at). length data - at)") auto

declare ReadDataString.simps [simp del]

lemma AppendDataS_bytes: "AppendDataS data s = data @ concat (map word_bytes (wcs s))"
proof -
  have "fold (\<lambda>w code. AppendDataT code w) ws code = code @ concat (map word_bytes ws)" for ws :: wstring and code
    by (induction ws arbitrary: code) (simp_all add: AppendDataT_def AppendData_def)
  then show ?thesis by (simp add: AppendDataS_def)
qed

lemma ReadDataString_written:
  "nul \<notin> set w \<Longrightarrow>
     ReadDataString (data @ concat (map word_bytes (w @ [nul])) @ rest) (length data) = Some w"
proof (induction w arbitrary: data)
  case Nil
  then show ?case
    using bytes_nat_word [of nul] by (subst ReadDataString.simps) simp
next
  case (Cons c w)
  have "ReadDataString ((data @ word_bytes c) @ concat (map word_bytes (w @ [nul])) @ rest)
      (length (data @ word_bytes c)) = Some w"
    by (rule Cons.IH) (use Cons.prems in simp)
  moreover have "c \<noteq> nul" using Cons.prems by auto
  ultimately show ?case
    using bytes_nat_word [of c] by (subst ReadDataString.simps) simp
qed

lemma ReadDataString_append:
  "ReadDataString data at = Some w \<Longrightarrow> ReadDataString (data @ later) at = Some w"
proof (induction data at arbitrary: w rule: ReadDataString.induct)
  case (1 data at)
  then have len: "at + 2 \<le> length data"
    by (subst (asm) (2) ReadDataString.simps) (simp split: if_splits)
  then have same: "take 2 (drop at (data @ later)) = take 2 (drop at data)" by simp
  from 1 len same show ?case
    by (subst ReadDataString.simps, subst (asm) (2) ReadDataString.simps)
       (auto simp: Let_def split: if_splits)
qed

text \<open>
  C33: String constants. The data offset the emitted instruction carries is where the virtual
  machine finds the string again, whatever is appended to the data section later, and emitting a
  constant does not disturb the strings already in the pool. A string that contains a NUL comes
  back cut at the first NUL.
\<close>

theorem string_constant_round_trip:
  assumes "EmitLoadConstString code data str = (code', data')" and "length data < 2 ^ 64"
  shows "\<exists>origin :: u64.
      code' = code @ word_bytes (OpCode_value (Ko LOADCONST_STRING)) @ word_bytes origin
      \<and> ReadDataString (data' @ later) (unat origin) = Some (takeWhile (\<lambda>c. c \<noteq> nul) str)
      \<and> (\<forall>at w. ReadDataString data at = Some w \<longrightarrow> ReadDataString data' at = Some w)"
proof -
  let ?w = "takeWhile (\<lambda>c. c \<noteq> nul) str"
  have c: "code' = code @ word_bytes (OpCode_value (Ko LOADCONST_STRING))
      @ word_bytes (of_nat (length data) :: u64)"
    and d: "data' = data @ concat (map word_bytes (?w @ [nul]))"
    using assms(1)
    by (auto simp: EmitLoadConstString_def Let_def AppendDataT_def AppendData_def AppendDataS_bytes wcs_def
        simp del: OpCode_value.simps)
  have u: "unat (of_nat (length data) :: u64) = length data"
    using assms(2) by (simp add: unat_of_nat)
  have "nul \<notin> set ?w" by (auto dest: set_takeWhileD)
  then have "ReadDataString (data' @ later) (length data) = Some ?w"
    using ReadDataString_written [of ?w data later] by (simp add: d)
  with c u ReadDataString_append [of data _ _ "concat (map word_bytes (?w @ [nul]))"] show ?thesis
    unfolding d by (intro exI [of _ "of_nat (length data)"]) simp
qed

theorem string_constant_round_trip_witness:
  "\<exists>origin :: u64. ReadDataString (snd (EmitLoadConstString [] [1, 0, 0, 0] (L ''hi''))) (unat origin) = Some (L ''hi'')"
proof -
  obtain code' data' where e: "EmitLoadConstString [] [1, 0, 0, 0] (L ''hi'') = (code', data')" by fastforce
  have "length [1, 0, 0, 0 :: u8] < 2 ^ 64" by simp
  from string_constant_round_trip [OF e this, of "[]"] e show ?thesis by auto
qed

section \<open>Reading past the end\<close>

text \<open>
  Truncated code. When fewer bytes are left than an operand needs, the decoder returns zero
  and does not move, so an operation code read there is no instruction at all, and a jump target
  read there is the start of the code.
\<close>

theorem decoder_past_end:
  assumes "length (dec_code d) < dec_ip d + 2"
  shows "OpCode_of (fst (AbsorbOpCode d)) = None \<and> snd (AbsorbOpCode d) = d
       \<and> AbsorbJump d = (0, d) \<and> AbsorbVariableSlot d = (0, d)"
  using assms by (simp add: absorb_defs Absorb_past_end)

theorem decoder_past_end_witness:
  "OpCode_of (fst (AbsorbOpCode (ByteCodeDecoder_of [0x16]))) = None"
  using decoder_past_end [of "ByteCodeDecoder_of [0x16]"] by (simp add: ByteCodeDecoder_of_def)

end
