(* ===== verification/SemanticVersions.thy ===== *)
theory SemanticVersions
  imports LexerRoundTrip "HOL-Library.Product_Lexorder"
begin

text \<open>
  Package versions and version ranges, \<^verbatim>\<open>src/utilities/SemanticVersion.cpp\<close>. A position in a text
  that only moves forward is the rest of the text; \<^verbatim>\<open>std::optional\<close> is \<open>option\<close>.

  The components of a version are C++ \<^verbatim>\<open>int\<close>s. The parser computes them without a range check, and
  a component above \<open>2 ^ 31 - 1\<close> overflows a signed integer, which C++ leaves undefined; the model
  computes in unbounded integers, and the statements about parsing bound the components.
\<close>

section \<open>Versions\<close>

record SemanticVersion =
  ver_Major :: int
  ver_Minor :: int
  ver_Patch :: int
  ver_Prerelease :: wstring

definition Trim :: "ctype \<Rightarrow> wstring \<Rightarrow> wstring" where
  "Trim ct text = rev (dropWhile (iswspace ct) (rev (dropWhile (iswspace ct) text)))"

definition iswdigit :: "wchar \<Rightarrow> bool" where
  "iswdigit c \<longleftrightarrow> in_range CHR ''0'' CHR ''9'' c"

text \<open>The loop of \<^verbatim>\<open>ParseInt\<close>, and the test before it.\<close>

fun ParseInt_loop :: "int \<Rightarrow> wstring \<Rightarrow> int \<times> wstring" where
  "ParseInt_loop value [] = (value, [])"
| "ParseInt_loop value (c # cs) =
     (if iswdigit c then ParseInt_loop (value * 10 + (uint c - uint (wc CHR ''0''))) cs
      else (value, c # cs))"

definition ParseInt :: "wstring \<Rightarrow> (int \<times> wstring) option" where
  "ParseInt text =
     (case text of
        [] \<Rightarrow> None
      | c # _ \<Rightarrow> if \<not> iswdigit c then None else Some (ParseInt_loop 0 text))"

definition version_eq :: "SemanticVersion \<Rightarrow> SemanticVersion \<Rightarrow> bool" where
  "version_eq a b \<longleftrightarrow>
     ver_Major a = ver_Major b \<and> ver_Minor a = ver_Minor b \<and> ver_Patch a = ver_Patch b"

definition version_ne :: "SemanticVersion \<Rightarrow> SemanticVersion \<Rightarrow> bool" where
  "version_ne a b \<longleftrightarrow> \<not> version_eq a b"

definition version_less :: "SemanticVersion \<Rightarrow> SemanticVersion \<Rightarrow> bool" where
  "version_less a b =
     (if ver_Major a \<noteq> ver_Major b then ver_Major a < ver_Major b
      else if ver_Minor a \<noteq> ver_Minor b then ver_Minor a < ver_Minor b
      else ver_Patch a < ver_Patch b)"

definition version_greater :: "SemanticVersion \<Rightarrow> SemanticVersion \<Rightarrow> bool" where
  "version_greater a b \<longleftrightarrow> version_less b a"

definition version_le :: "SemanticVersion \<Rightarrow> SemanticVersion \<Rightarrow> bool" where
  "version_le a b \<longleftrightarrow> \<not> version_less b a"

definition version_ge :: "SemanticVersion \<Rightarrow> SemanticVersion \<Rightarrow> bool" where
  "version_ge a b \<longleftrightarrow> \<not> version_less a b"

text \<open>A component followed by a dot.\<close>

definition ParseDotted :: "wstring \<Rightarrow> (int \<times> wstring) option" where
  "ParseDotted text =
     (case ParseInt text of
        None \<Rightarrow> None
      | Some (value, rest) \<Rightarrow>
          (case rest of
             [] \<Rightarrow> None
           | c # cs \<Rightarrow> if c \<noteq> wc CHR ''.'' then None else Some (value, cs)))"

definition ParseVersion :: "ctype \<Rightarrow> wstring \<Rightarrow> SemanticVersion option" where
  "ParseVersion ct text =
     (let input = Trim ct text in
      if input = [] then None
      else case ParseDotted input of
        None \<Rightarrow> None
      | Some (major, rest1) \<Rightarrow>
     (case ParseDotted rest1 of
        None \<Rightarrow> None
      | Some (minor, rest2) \<Rightarrow>
     (case ParseInt rest2 of
        None \<Rightarrow> None
      | Some (patch, rest3) \<Rightarrow>
          let version = \<lparr>ver_Major = major, ver_Minor = minor, ver_Patch = patch, ver_Prerelease = []\<rparr> in
          (case rest3 of
             [] \<Rightarrow> Some version
           | c # cs \<Rightarrow>
               if c \<noteq> wc CHR ''-'' then None
               else if cs = [] then None
               else Some (version\<lparr>ver_Prerelease := cs\<rparr>)))))"

section \<open>Version expressions\<close>

datatype ConstraintOperator =
    Equal | Greater | GreaterOrEqual | Less | LessOrEqual | Compatible | Approximately

record Constraint =
  con_Op :: ConstraintOperator
  con_Version :: SemanticVersion

type_synonym VersionExpression = "Constraint list"

text \<open>The operator a constraint starts with, and the text after it.\<close>

definition ParseOperator :: "wstring \<Rightarrow> ConstraintOperator \<times> wstring" where
  "ParseOperator text =
     (case text of
        [] \<Rightarrow> (Equal, [])
      | c # cs \<Rightarrow>
          if c = wc CHR ''^'' then (Compatible, cs)
          else if c = wc CHR ''~'' then (Approximately, cs)
          else if c = wc CHR ''>'' then
            (case cs of
               [] \<Rightarrow> (Greater, cs)
             | d # ds \<Rightarrow> if d = wc CHR ''='' then (GreaterOrEqual, ds) else (Greater, cs))
          else if c = wc CHR ''<'' then
            (case cs of
               [] \<Rightarrow> (Less, cs)
             | d # ds \<Rightarrow> if d = wc CHR ''='' then (LessOrEqual, ds) else (Less, cs))
          else if c = wc CHR ''='' then (Equal, cs)
          else (Equal, text))"

definition ParseConstraint :: "ctype \<Rightarrow> wstring \<Rightarrow> Constraint option" where
  "ParseConstraint ct text =
     (let text = Trim ct text in
      if text = [] then None
      else let (op, rest) = ParseOperator text in
           case ParseVersion ct rest of
             None \<Rightarrow> None
           | Some version \<Rightarrow> Some \<lparr>con_Op = op, con_Version = version\<rparr>)"

definition separator :: "ctype \<Rightarrow> wchar \<Rightarrow> bool" where
  "separator ct c \<longleftrightarrow> iswspace ct c \<or> c = wc CHR '',''"

lemma dropWhile_Cons_length: "dropWhile P xs = c # cs \<Longrightarrow> length cs < length xs \<and> \<not> P c"
  by (induction xs) (auto split: if_splits)

text \<open>The outer loop of \<^verbatim>\<open>VersionExpression::Parse\<close>: \<open>None\<close> is its early return.\<close>

function ParseExpression_loop :: "ctype \<Rightarrow> wstring \<Rightarrow> Constraint list option" where
  "ParseExpression_loop ct text =
     (case dropWhile (separator ct) text of
        [] \<Rightarrow> Some []
      | c # cs \<Rightarrow>
          (case ParseConstraint ct (takeWhile (\<lambda>c. \<not> separator ct c) (c # cs)) of
             None \<Rightarrow> None
           | Some constraint \<Rightarrow>
               map_option (Cons constraint)
                 (ParseExpression_loop ct (dropWhile (\<lambda>c. \<not> separator ct c) (c # cs)))))"
  by pat_completeness auto

termination
proof (relation "measure (\<lambda>(ct, text). length text)")
  fix ct :: ctype and input :: wstring and c cs x
  assume "dropWhile (separator ct) input = c # cs"
  then have "length cs < length input" "\<not> separator ct c"
    by (auto dest: dropWhile_Cons_length)
  moreover have "length (dropWhile (\<lambda>c. \<not> separator ct c) cs) \<le> length cs"
    by (rule length_dropWhile_le)
  ultimately show "((ct, dropWhile (\<lambda>c. \<not> separator ct c) (c # cs)), ct, input) \<in> measure (\<lambda>(ct, text). length text)"
    by simp
qed simp

declare ParseExpression_loop.simps [simp del]

definition ParseExpression :: "ctype \<Rightarrow> wstring \<Rightarrow> VersionExpression option" where
  "ParseExpression ct text =
     (case ParseExpression_loop ct text of
        None \<Rightarrow> None
      | Some cs \<Rightarrow> if cs = [] then None else Some cs)"

text \<open>
  The bound \<^verbatim>\<open>upper\<close> of the \<^verbatim>\<open>Compatible\<close> and \<^verbatim>\<open>Approximately\<close> cases. A component is an \<^verbatim>\<open>int\<close>, whose
  increment overflows at its largest value: \<open>None\<close> is that undefined behaviour.
\<close>

definition increment :: "int \<Rightarrow> int option" where
  "increment component = (if component < 2 ^ 31 - 1 then Some (component + 1) else None)"

definition CompatibleUpper :: "SemanticVersion \<Rightarrow> SemanticVersion option" where
  "CompatibleUpper v =
     (if ver_Major v > 0 then
        map_option (\<lambda>major. v\<lparr>ver_Minor := 0, ver_Patch := 0, ver_Major := major\<rparr>) (increment (ver_Major v))
      else if ver_Minor v > 0 then
        map_option (\<lambda>minor. v\<lparr>ver_Patch := 0, ver_Minor := minor\<rparr>) (increment (ver_Minor v))
      else map_option (\<lambda>patch. v\<lparr>ver_Patch := patch\<rparr>) (increment (ver_Patch v)))"

definition ApproximatelyUpper :: "SemanticVersion \<Rightarrow> SemanticVersion option" where
  "ApproximatelyUpper v =
     map_option (\<lambda>minor. v\<lparr>ver_Patch := 0, ver_Minor := minor\<rparr>) (increment (ver_Minor v))"

text \<open>A case that returns before it computes \<^verbatim>\<open>upper\<close> does not increment anything.\<close>

definition SatisfiesConstraint :: "Constraint \<Rightarrow> SemanticVersion \<Rightarrow> bool option" where
  "SatisfiesConstraint c version =
     (case con_Op c of
        Equal \<Rightarrow> Some (\<not> version_ne version (con_Version c))
      | Greater \<Rightarrow> Some (version_greater version (con_Version c))
      | GreaterOrEqual \<Rightarrow> Some (version_ge version (con_Version c))
      | Less \<Rightarrow> Some (version_less version (con_Version c))
      | LessOrEqual \<Rightarrow> Some (version_le version (con_Version c))
      | Compatible \<Rightarrow>
          if version_less version (con_Version c) then Some False
          else map_option (version_less version) (CompatibleUpper (con_Version c))
      | Approximately \<Rightarrow>
          if version_less version (con_Version c) then Some False
          else map_option (version_less version) (ApproximatelyUpper (con_Version c)))"

fun Satisfies :: "VersionExpression \<Rightarrow> SemanticVersion \<Rightarrow> bool option" where
  "Satisfies [] version = Some True"
| "Satisfies (c # cs) version =
     (case SatisfiesConstraint c version of
        None \<Rightarrow> None
      | Some satisfied \<Rightarrow> if \<not> satisfied then Some False else Satisfies cs version)"

text \<open>The versions whose components can all be incremented.\<close>

definition below_INT_MAX :: "SemanticVersion \<Rightarrow> bool" where
  "below_INT_MAX v \<longleftrightarrow> ver_Major v < 2 ^ 31 - 1 \<and> ver_Minor v < 2 ^ 31 - 1 \<and> ver_Patch v < 2 ^ 31 - 1"

lemma SatisfiesConstraint_defined:
  "below_INT_MAX (con_Version c) \<Longrightarrow> SatisfiesConstraint c v \<noteq> None"
  by (auto simp: SatisfiesConstraint_def below_INT_MAX_def increment_def CompatibleUpper_def ApproximatelyUpper_def
      split: ConstraintOperator.splits)

lemma Satisfies_all:
  "(Satisfies cs v = Some True) = (\<forall>c \<in> set cs. SatisfiesConstraint c v = Some True)"
  by (induction cs) (auto split: option.splits)

lemma Satisfies_defined:
  "\<forall>c \<in> set cs. SatisfiesConstraint c v \<noteq> None \<Longrightarrow> Satisfies cs v \<noteq> None"
  by (induction cs) (auto split: option.splits)

section \<open>The order of versions\<close>

definition ver_key :: "SemanticVersion \<Rightarrow> int \<times> int \<times> int" where
  "ver_key v = (ver_Major v, ver_Minor v, ver_Patch v)"

lemma version_less_key: "version_less a b \<longleftrightarrow> ver_key a < ver_key b"
  by (auto simp: version_less_def ver_key_def less_prod_def)

lemma version_eq_key: "version_eq a b \<longleftrightarrow> ver_key a = ver_key b"
  by (simp add: version_eq_def ver_key_def)

lemma version_le_key: "version_le a b \<longleftrightarrow> ver_key a \<le> ver_key b"
  by (simp add: version_le_def version_less_key not_less)

lemma version_ge_key: "version_ge a b \<longleftrightarrow> ver_key b \<le> ver_key a"
  by (simp add: version_ge_def version_less_key not_less)

lemmas version_keys =
  version_less_key version_eq_key version_le_key version_ge_key version_ne_def version_greater_def

text \<open>
  C28: The six comparison operators of versions are those of one linear order: the lexicographic
  order of major, minor and patch number, the prerelease text left out. In particular exactly one
  of less, equal and greater holds of two versions, and all three relations are transitive.
\<close>

theorem version_order:
  "(version_less a b \<longleftrightarrow> ver_key a < ver_key b)
   \<and> (version_le a b \<longleftrightarrow> version_less a b \<or> version_eq a b)
   \<and> (version_ge a b \<longleftrightarrow> version_greater a b \<or> version_eq a b)
   \<and> (version_ne a b \<longleftrightarrow> version_less a b \<or> version_greater a b)
   \<and> \<not> (version_less a b \<and> version_greater a b) \<and> \<not> (version_less a b \<and> version_eq a b)
   \<and> (version_less a b \<longrightarrow> version_less b c \<longrightarrow> version_less a c)
   \<and> (version_le a b \<longrightarrow> version_le b c \<longrightarrow> version_le a c)
   \<and> (version_eq a b \<longrightarrow> version_eq b c \<longrightarrow> version_eq a c)"
  unfolding version_keys by (intro conjI impI) (auto simp: less_le)

definition version :: "int \<Rightarrow> int \<Rightarrow> int \<Rightarrow> SemanticVersion" where
  "version major minor patch =
     \<lparr>ver_Major = major, ver_Minor = minor, ver_Patch = patch, ver_Prerelease = []\<rparr>"

theorem version_order_witness:
  "version_less (version 1 2 3) (version 1 10 0) \<and> version_less (version 1 10 0) (version 2 0 0)
   \<and> version_less (version 1 2 3) (version 2 0 0)"
  using version_order [of "version 1 2 3" "version 1 10 0" "version 2 0 0"]
  by (simp add: version_def version_less_def)

text \<open>
  C29: The ranges \<^verbatim>\<open>^\<close> and \<^verbatim>\<open>~\<close> are the half-open intervals their comments give, for versions whose
  components are not negative and, in the constraint, smaller than the largest \<^verbatim>\<open>int\<close>. \<^verbatim>\<open>^1.2.3\<close> keeps
  the major number, \<^verbatim>\<open>^0.2.3\<close> keeps major and minor, \<^verbatim>\<open>^0.0.3\<close> is the one version, and \<^verbatim>\<open>~1.2.3\<close> keeps
  major and minor; every version at least the lower bound that keeps them is in the range, and
  every version in the range keeps them.
\<close>

theorem caret_and_tilde_ranges:
  assumes "0 \<le> ver_Major c" and "0 \<le> ver_Minor c" and "0 \<le> ver_Patch c" and "below_INT_MAX c"
    and "0 \<le> ver_Minor v" and "0 \<le> ver_Patch v"
  shows "SatisfiesConstraint \<lparr>con_Op = Compatible, con_Version = c\<rparr> v =
            Some (ver_key c \<le> ver_key v \<and> ver_Major v = ver_Major c
              \<and> (ver_Major c = 0 \<longrightarrow> ver_Minor v = ver_Minor c)
              \<and> (ver_Major c = 0 \<longrightarrow> ver_Minor c = 0 \<longrightarrow> ver_Patch v = ver_Patch c))
       \<and> SatisfiesConstraint \<lparr>con_Op = Approximately, con_Version = c\<rparr> v =
            Some (ver_key c \<le> ver_key v \<and> ver_Major v = ver_Major c \<and> ver_Minor v = ver_Minor c)"
  using assms
  by (auto simp: SatisfiesConstraint_def version_less_key not_less CompatibleUpper_def ApproximatelyUpper_def
      below_INT_MAX_def increment_def ver_key_def less_prod_def less_eq_prod_def)

theorem caret_and_tilde_ranges_witness:
  "SatisfiesConstraint \<lparr>con_Op = Compatible, con_Version = version 0 2 3\<rparr> (version 0 2 9) = Some True
   \<and> SatisfiesConstraint \<lparr>con_Op = Compatible, con_Version = version 0 2 3\<rparr> (version 0 3 0) = Some False"
  using caret_and_tilde_ranges [of "version 0 2 3" "version 0 2 9"]
    caret_and_tilde_ranges [of "version 0 2 3" "version 0 3 0"]
  by (simp add: version_def ver_key_def below_INT_MAX_def)

text \<open>
  A range at the largest \<^verbatim>\<open>int\<close> increments it: \<^verbatim>\<open>^2147483647.0.0\<close>, which the parser accepts, has no
  defined meaning for the versions at least its lower bound.
\<close>

lemma caret_range_overflows:
  "SatisfiesConstraint \<lparr>con_Op = Compatible, con_Version = version (2 ^ 31 - 1) 0 0\<rparr> (version (2 ^ 31 - 1) 0 0) = None"
  by (simp add: SatisfiesConstraint_def version_def version_less_def CompatibleUpper_def increment_def)

section \<open>Writing versions\<close>

definition digit :: "nat \<Rightarrow> wchar" where
  "digit d = L ''0123456789'' ! d"

fun decimal :: "nat \<Rightarrow> wstring" where
  "decimal n = (if n < 10 then [digit n] else decimal (n div 10) @ [digit (n mod 10)])"

declare decimal.simps [simp del]

lemma less_10_cases:
  "(d :: nat) < 10 \<Longrightarrow> d \<in> {0, 1, 2, 3, 4, 5, 6, 7, 8, 9}"
  by auto

lemma digit_value:
  assumes "d < 10"
  shows "iswdigit (digit d)" and "uint (digit d) - uint (wc CHR ''0'') = int d"
proof -
  have uint_wc: "uint (wc c) = of_char c" for c
    by (metis uint_nat unat_wc of_nat_of_char)
  from less_10_cases [OF assms] show "uint (digit d) - uint (wc CHR ''0'') = int d"
    by (auto simp: digit_def uint_wc)
  from less_10_cases [OF assms] show "iswdigit (digit d)"
    by (auto simp: digit_def iswdigit_def in_range_iff unat_wc)
qed

lemma ParseInt_loop_decimal:
  "ParseInt_loop v (decimal n @ rest) = ParseInt_loop (v * 10 ^ length (decimal n) + int n) rest"
proof (induction n arbitrary: v rest rule: decimal.induct)
  case (1 n)
  show ?case
  proof (cases "n < 10")
    case True
    with digit_value [OF True] show ?thesis by (simp add: decimal.simps [of n])
  next
    case False
    have "int n = 10 * int (n div 10) + int (n mod 10)"
      using mult_div_mod_eq [of 10 n] by linarith
    moreover have "length (decimal n) = Suc (length (decimal (n div 10)))"
      using False by (simp add: decimal.simps [of n])
    moreover have "v * 10 ^ Suc k + (10 * q + r) = (v * 10 ^ k + q) * 10 + r" for k and q r :: int
      by (simp add: algebra_simps)
    ultimately have n: "v * 10 ^ length (decimal n) + int n
        = (v * 10 ^ length (decimal (n div 10)) + int (n div 10)) * 10 + int (n mod 10)"
      by metis
    have "ParseInt_loop v (decimal n @ rest) = ParseInt_loop v (decimal (n div 10) @ digit (n mod 10) # rest)"
      using False by (simp add: decimal.simps [of n])
    also have "\<dots> = ParseInt_loop (v * 10 ^ length (decimal (n div 10)) + int (n div 10)) (digit (n mod 10) # rest)"
      using False by (rule "1.IH")
    also have "\<dots> = ParseInt_loop (v * 10 ^ length (decimal n) + int n) rest"
      unfolding n using digit_value [of "n mod 10"] by (simp only: ParseInt_loop.simps) simp
    finally show ?thesis .
  qed
qed

lemma decimal_nonempty: "\<exists>d ds. decimal n = digit d # ds \<and> d < 10"
proof (induction n rule: decimal.induct)
  case (1 n)
  then show ?case by (cases "n < 10") (auto simp: decimal.simps [of n])
qed

lemma last_decimal: "\<exists>d. last (decimal n) = digit d \<and> d < 10"
  by (cases "n < 10") (auto simp: decimal.simps [of n])

lemma ParseInt_decimal:
  assumes "rest = [] \<or> \<not> iswdigit (hd rest)"
  shows "ParseInt (decimal n @ rest) = Some (int n, rest)"
proof -
  obtain d ds where d: "decimal n = digit d # ds" "d < 10" using decimal_nonempty by blast
  have "ParseInt_loop (int n) rest = (int n, rest)" using assms by (cases rest) auto
  with ParseInt_loop_decimal [of 0 n rest] d digit_value(1) [OF d(2)] show ?thesis
    by (simp add: ParseInt_def)
qed

definition print_version :: "SemanticVersion \<Rightarrow> wstring" where
  "print_version v =
     decimal (nat (ver_Major v)) @ [wc CHR ''.''] @ decimal (nat (ver_Minor v)) @ [wc CHR ''.'']
     @ decimal (nat (ver_Patch v))
     @ (if ver_Prerelease v = [] then [] else wc CHR ''-'' # ver_Prerelease v)"

definition version_ok :: "ctype \<Rightarrow> SemanticVersion \<Rightarrow> bool" where
  "version_ok ct v \<longleftrightarrow>
     ver_Major v \<in> {0..<2 ^ 31} \<and> ver_Minor v \<in> {0..<2 ^ 31} \<and> ver_Patch v \<in> {0..<2 ^ 31}
     \<and> (ver_Prerelease v \<noteq> [] \<longrightarrow> \<not> iswspace ct (last (ver_Prerelease v)))"

lemma Trim_spaces:
  assumes "list_all (iswspace ct) pre" and "list_all (iswspace ct) post"
    and "w \<noteq> []" and "\<not> iswspace ct (hd w)" and "\<not> iswspace ct (last w)"
  shows "Trim ct (pre @ w @ post) = w"
proof -
  have "dropWhile (iswspace ct) (pre @ w @ post) = w @ post"
    using assms by (cases w) (auto simp: list_all_iff dropWhile_append2)
  moreover have "dropWhile (iswspace ct) (rev post @ rev w) = dropWhile (iswspace ct) (rev w)"
    using assms(2) by (intro dropWhile_append2) (simp add: list_all_iff)
  moreover have "dropWhile (iswspace ct) (rev w) = rev w"
    using assms(3,5) by (cases w rule: rev_cases) simp_all
  ultimately show ?thesis by (simp add: Trim_def)
qed

lemma not_digit [simp]: "\<not> iswdigit (wc CHR ''.'')" "\<not> iswdigit (wc CHR ''-'')"
  by (simp_all add: iswdigit_def in_range_iff unat_wc)

lemma ParseDotted_decimal: "ParseDotted (decimal n @ wc CHR ''.'' # rest) = Some (int n, rest)"
  by (simp add: ParseDotted_def ParseInt_decimal)

context ctype_laws
begin

lemma digit_not_space: "d < 10 \<Longrightarrow> \<not> iswspace ct (digit d)"
  using digit_value(1) [of d] digit_alnum [of "digit d"] alnum_not_space [of "digit d"]
  by (simp add: iswdigit_def)

lemma print_version_ends:
  assumes "version_ok ct v"
  shows "print_version v \<noteq> []" and "\<not> iswspace ct (hd (print_version v))"
    and "\<not> iswspace ct (last (print_version v))"
proof -
  obtain d ds where d: "decimal (nat (ver_Major v)) = digit d # ds" "d < 10"
    using decimal_nonempty by blast
  obtain e where e: "last (decimal (nat (ver_Patch v))) = digit e" "e < 10" using last_decimal by blast
  have "decimal (nat (ver_Patch v)) \<noteq> []" by (metis decimal_nonempty list.distinct(1))
  with assms d e digit_not_space show "print_version v \<noteq> []" "\<not> iswspace ct (hd (print_version v))"
    "\<not> iswspace ct (last (print_version v))"
    by (auto simp: print_version_def version_ok_def)
qed

lemma ParseVersion_print:
  assumes "version_ok ct v" and "list_all (iswspace ct) pre" and "list_all (iswspace ct) post"
  shows "ParseVersion ct (pre @ print_version v @ post) = Some v"
proof -
  note ends = print_version_ends [OF assms(1)]
  have trim: "Trim ct (pre @ print_version v @ post) = print_version v"
    using Trim_spaces [OF assms(2,3) ends] .
  obtain M m p pr where v: "v = \<lparr>ver_Major = M, ver_Minor = m, ver_Patch = p, ver_Prerelease = pr\<rparr>"
    by (cases v)
  have "ParseInt (decimal (nat p)) = Some (int (nat p), [])"
    using ParseInt_decimal [of "[]" "nat p"] by simp
  moreover have "ParseInt (decimal (nat p) @ wc CHR ''-'' # pr) = Some (int (nat p), wc CHR ''-'' # pr)"
    by (rule ParseInt_decimal) simp
  ultimately show ?thesis
    using trim ends(1) assms(1)
    unfolding ParseVersion_def trim
    by (auto simp: print_version_def ParseDotted_decimal version_ok_def v)
qed

end

text \<open>
  C30: Parsing a version is the inverse of writing it, with any white space around it, for every
  version whose components fit a C++ \<^verbatim>\<open>int\<close> and whose prerelease text does not end in white space.
\<close>

theorem version_round_trip:
  assumes "ctype_laws ct" and "version_ok ct v"
    and "list_all (iswspace ct) pre" and "list_all (iswspace ct) post"
  shows "ParseVersion ct (pre @ print_version v @ post) = Some v"
  using assms by (rule ctype_laws.ParseVersion_print)

lemma version_ok_version: "0 \<le> a \<Longrightarrow> 0 \<le> b \<Longrightarrow> 0 \<le> c \<Longrightarrow> a < 2 ^ 31 \<Longrightarrow> b < 2 ^ 31 \<Longrightarrow> c < 2 ^ 31 \<Longrightarrow>
    version_ok ct (version a b c)"
  by (simp add: version_ok_def version_def)

theorem version_round_trip_witness:
  "ParseVersion C_locale (L '' '' @ print_version (version 1 20 300) @ []) = Some (version 1 20 300)"
proof -
  have "version_ok C_locale (version 1 20 300)" by (rule version_ok_version) simp_all
  moreover have "list_all (iswspace C_locale) (L '' '')" by (simp add: C_locale_def)
  ultimately show ?thesis
    by (intro version_round_trip [OF C.ctype_laws_axioms]) simp_all
qed

section \<open>Writing version expressions\<close>

fun print_operator :: "ConstraintOperator \<Rightarrow> wstring" where
  "print_operator Equal = L ''=''"
| "print_operator Greater = L ''>''"
| "print_operator GreaterOrEqual = L ''>=''"
| "print_operator Less = L ''<''"
| "print_operator LessOrEqual = L ''<=''"
| "print_operator Compatible = L ''^''"
| "print_operator Approximately = L ''~''"

definition print_constraint :: "Constraint \<Rightarrow> wstring" where
  "print_constraint c = print_operator (con_Op c) @ print_version (con_Version c)"

definition constraint_ok :: "ctype \<Rightarrow> Constraint \<Rightarrow> bool" where
  "constraint_ok ct c \<longleftrightarrow>
     version_ok ct (con_Version c) \<and> list_all (\<lambda>x. \<not> separator ct x) (ver_Prerelease (con_Version c))"

lemma digit_neq_equals: "d < 10 \<Longrightarrow> digit d \<noteq> wc CHR ''=''"
  using digit_value(1) [of d] by (auto simp: iswdigit_def in_range_iff unat_wc)

lemma ParseOperator_print:
  "ParseOperator (print_operator op @ print_version v) = (op, print_version v)"
proof -
  obtain d ds where "decimal (nat (ver_Major v)) = digit d # ds" "d < 10"
    using decimal_nonempty by blast
  then obtain ds' where "print_version v = digit d # ds'" "digit d \<noteq> wc CHR ''=''"
    by (simp add: print_version_def digit_neq_equals)
  then show ?thesis by (cases op) (simp_all add: ParseOperator_def)
qed

lemma decimal_digits: "list_all iswdigit (decimal n)"
proof (induction n rule: decimal.induct)
  case (1 n)
  then show ?case
    using digit_value(1) [of n] digit_value(1) [of "n mod 10"]
    by (cases "n < 10") (auto simp: decimal.simps [of n])
qed

context ctype_laws
begin

lemma not_separator:
  "iswdigit c \<Longrightarrow> \<not> separator ct c"
  "c \<in> set (L ''.-=<>^~'') \<Longrightarrow> \<not> separator ct c"
proof -
  show "iswdigit c \<Longrightarrow> \<not> separator ct c"
    using digit_alnum [of c] alnum_not_space [of c]
    by (auto simp: separator_def iswdigit_def in_range_iff unat_wc)
  have "c \<in> set (L ''.-=<>^~'') \<Longrightarrow> c \<in> set ascii_punctuation"
    by (auto simp: ascii_punctuation_def)
  then show "c \<in> set (L ''.-=<>^~'') \<Longrightarrow> \<not> separator ct c"
    using punctuation_class [of c] by (auto simp: separator_def)
qed

lemma print_constraint_no_separator:
  assumes "constraint_ok ct c"
  shows "list_all (\<lambda>x. \<not> separator ct x) (print_constraint c)"
proof -
  have "list_all (\<lambda>x. \<not> separator ct x) (decimal n)" for n
    using decimal_digits [of n] not_separator(1) by (auto simp: list_all_iff)
  moreover have "list_all (\<lambda>x. \<not> separator ct x) (print_operator (con_Op c))"
    by (cases "con_Op c") (simp_all add: not_separator(2))
  ultimately show ?thesis
    using assms
    by (simp add: print_constraint_def print_version_def constraint_ok_def not_separator(2))
qed

lemma ParseConstraint_print:
  assumes "constraint_ok ct c"
  shows "ParseConstraint ct (print_constraint c) = Some c"
proof -
  have ok: "version_ok ct (con_Version c)" using assms by (simp add: constraint_ok_def)
  note ends = print_version_ends [OF ok]
  have "\<not> iswspace ct x" if "x \<in> set (print_constraint c)" for x
    using print_constraint_no_separator [OF assms] that by (auto simp: list_all_iff separator_def)
  moreover have ne: "print_constraint c \<noteq> []" using ends(1) by (simp add: print_constraint_def)
  ultimately have "Trim ct (print_constraint c) = print_constraint c"
    using Trim_spaces [of ct "[]" "[]" "print_constraint c"] by simp
  with ne ParseOperator_print [of "con_Op c" "con_Version c"] ParseVersion_print [OF ok, of "[]" "[]"]
  show ?thesis by (simp add: ParseConstraint_def print_constraint_def)
qed

lemma ParseExpression_loop_print:
  assumes "list_all (\<lambda>(c, sep). constraint_ok ct c \<and> sep \<noteq> [] \<and> list_all (separator ct) sep) ps"
    and "list_all (separator ct) pre"
  shows "ParseExpression_loop ct (pre @ concat (map (\<lambda>(c, sep). print_constraint c @ sep) ps))
           = Some (map fst ps)"
  using assms
proof (induction ps arbitrary: pre)
  case Nil
  then show ?case by (subst ParseExpression_loop.simps) (simp add: list_all_iff dropWhile_eq_Nil_conv [THEN iffD2])
next
  case (Cons p ps)
  obtain c sep where p: "p = (c, sep)" by (cases p)
  with Cons.prems have c: "constraint_ok ct c" "sep \<noteq> []" "list_all (separator ct) sep" by auto
  let ?rest = "concat (map (\<lambda>(c, sep). print_constraint c @ sep) ps)"
  obtain x xs where x: "print_constraint c = x # xs"
    using print_version_ends(1) c(1) by (cases "print_constraint c") (auto simp: print_constraint_def constraint_ok_def)
  have ns: "\<forall>y \<in> set (x # xs). \<not> separator ct y"
    using print_constraint_no_separator [OF c(1)] x by (simp add: list_all_iff)
  have drop: "dropWhile (separator ct) (pre @ (x # xs) @ sep @ ?rest) = x # xs @ sep @ ?rest"
    using Cons.prems(2) ns by (simp add: list_all_iff dropWhile_append2)
  obtain s ss where s: "sep = s # ss" "separator ct s" using c(2,3) by (cases sep) auto
  have "takeWhile (\<lambda>c. \<not> separator ct c) ((x # xs) @ sep @ ?rest) = x # xs"
    and "dropWhile (\<lambda>c. \<not> separator ct c) ((x # xs) @ sep @ ?rest) = sep @ ?rest"
    using ns s takeWhile_append2 [of "x # xs" "\<lambda>c. \<not> separator ct c"]
      dropWhile_append2 [of "x # xs" "\<lambda>c. \<not> separator ct c"] by auto
  with drop Cons.IH [of sep] Cons.prems(1) c p ParseConstraint_print [OF c(1)] x show ?case
    by (subst ParseExpression_loop.simps) simp
qed

end

text \<open>
  C31: Parsing a version expression is the inverse of writing it: a non-empty list of constraints,
  each followed by any mix of white space and commas, parses to that list, provided no prerelease
  text contains a separator; and the resulting expression is satisfied exactly by the versions
  that satisfy every constraint. The test of a version is defined whenever the components of the
  constraints can be incremented.
\<close>

theorem expression_round_trip:
  assumes "ctype_laws ct" and "ps \<noteq> []"
    and "list_all (\<lambda>(c, sep). constraint_ok ct c \<and> sep \<noteq> [] \<and> list_all (separator ct) sep) ps"
  shows "\<exists>e. ParseExpression ct (concat (map (\<lambda>(c, sep). print_constraint c @ sep) ps)) = Some e
           \<and> e = map fst ps
           \<and> (Satisfies e v = Some True \<longleftrightarrow> (\<forall>c \<in> fst ` set ps. SatisfiesConstraint c v = Some True))
           \<and> ((\<forall>c \<in> fst ` set ps. below_INT_MAX (con_Version c)) \<longrightarrow>
                Satisfies e v = Some (\<forall>c \<in> fst ` set ps. SatisfiesConstraint c v = Some True))"
proof -
  have "Satisfies (map fst ps) v = Some (\<forall>c \<in> fst ` set ps. SatisfiesConstraint c v = Some True)"
    if "\<forall>c \<in> fst ` set ps. below_INT_MAX (con_Version c)"
  proof -
    have "Satisfies (map fst ps) v \<noteq> None"
      using that by (intro Satisfies_defined) (auto dest: SatisfiesConstraint_defined)
    with Satisfies_all [of "map fst ps" v] show ?thesis
      by (cases "Satisfies (map fst ps) v") (auto simp: image_iff)
  qed
  with ctype_laws.ParseExpression_loop_print [OF assms(1,3), of "[]"] assms(2) show ?thesis
    by (simp add: ParseExpression_def Satisfies_all)
qed

theorem expression_round_trip_witness:
  "\<exists>e. ParseExpression C_locale
         (concat (map (\<lambda>(c, sep). print_constraint c @ sep)
            [(\<lparr>con_Op = GreaterOrEqual, con_Version = version 1 0 0\<rparr>, L '' ''),
             (\<lparr>con_Op = Less, con_Version = version 2 0 0\<rparr>, L '', '')])) = Some e
     \<and> Satisfies e (version 1 5 0) = Some True"
proof -
  let ?ps = "[(\<lparr>con_Op = GreaterOrEqual, con_Version = version 1 0 0\<rparr>, L '' ''),
             (\<lparr>con_Op = Less, con_Version = version 2 0 0\<rparr>, L '', '')]"
  have "list_all (\<lambda>(c, sep). constraint_ok C_locale c \<and> sep \<noteq> [] \<and> list_all (separator C_locale) sep) ?ps"
    by (simp add: constraint_ok_def version_ok_def version_def separator_def C_locale_def)
  from expression_round_trip [OF C.ctype_laws_axioms _ this, of "version 1 5 0"] show ?thesis
    by (auto simp: SatisfiesConstraint_def version_ge_def version_less_def version_def)
qed

end
