(* ===== verification/Symbols.thy ===== *)
theory Symbols
  imports SyntaxFacts ByteCode
begin

text \<open>
  The part of the symbol graph that layout and execution read:
  \<^verbatim>\<open>include/shard/semantic/SyntaxSymbol.hpp\<close>, \<^verbatim>\<open>include/shard/semantic/symbols/TypeSymbol.hpp\<close>
  (with \<^verbatim>\<open>ArrayTypeSymbol\<close>, \<^verbatim>\<open>GenericTypeSymbol\<close> and \<^verbatim>\<open>TypeParameterSymbol\<close>),
  \<^verbatim>\<open>FieldSymbol.hpp\<close>, \<^verbatim>\<open>MethodSymbol.hpp\<close>, \<^verbatim>\<open>MethodSymbol.cpp\<close> and \<^verbatim>\<open>runtime/TypeShape.hpp\<close>.

  A symbol pointer is a 64-bit word, \<^verbatim>\<open>nullptr\<close> is zero, and a table of symbols is a function from
  pointers to the objects they point to. The derived classes of \<^verbatim>\<open>TypeSymbol\<close> are one record: the
  members of \<^verbatim>\<open>ArrayTypeSymbol\<close>, \<^verbatim>\<open>GenericTypeSymbol\<close> and \<^verbatim>\<open>TypeParameterSymbol\<close> are read only
  under the \<^verbatim>\<open>Kind\<close> that the source tests before its \<^verbatim>\<open>static_cast\<close>.
\<close>

type_synonym ptr = u64

abbreviation nullptr :: ptr where
  "nullptr \<equiv> 0"

datatype SymbolLinking = LINK_STATIC | LINK_INSTANCE

datatype TypeLayoutingState = Unvisited | Visiting | Visited

datatype TypeInlining = ByReference | ByValue

record FieldSymbol =
  fld_Linking :: SymbolLinking
  fld_MemoryBytesOffset :: nat
  fld_SlotIndex :: u32
  fld_ReturnType :: ptr
  fld_HasDefaultValue :: bool
  fld_EnumValue :: u64
  fld_Parent :: ptr

text \<open>The slot index of a field that has none yet: \<^verbatim>\<open>std::numeric_limits<std::uint32_t>::max()\<close>.\<close>

abbreviation no_slot :: u32 where
  "no_slot \<equiv> -1"

record TypeSymbol =
  ty_Kind :: SyntaxKind
  ty_TypeParameters :: "ptr list"
  ty_Fields :: "ptr list"
  ty_LayoutingState :: TypeLayoutingState
  ty_Inlining :: TypeInlining
  ty_MemoryBytesSize :: nat
  ty_NextSlotIndex :: u32
  ty_UnderlayingType :: ptr
  ty_Length :: nat
  ty_typeParametersMap :: "(ptr \<times> ptr) list"
  ty_FieldOffsets :: "(ptr \<times> nat) list"
  ty_TypeArgumentIndex :: u16
  ty_IsReadyForRuntime :: bool

definition IsReferenceType :: "TypeSymbol \<Rightarrow> bool" where
  "IsReferenceType t \<longleftrightarrow> ty_Inlining t = ByReference"

definition GetInlineSize :: "TypeSymbol \<Rightarrow> nat" where
  "GetInlineSize t = (if ty_Inlining t = ByReference then 8 else ty_MemoryBytesSize t)"

text \<open>\<^verbatim>\<open>GenericTypeSymbol::SubstituteTypeParameters\<close>: a parameter without an argument gives \<^verbatim>\<open>nullptr\<close>.\<close>

definition SubstituteTypeParameters :: "TypeSymbol \<Rightarrow> ptr \<Rightarrow> ptr" where
  "SubstituteTypeParameters t p =
     (case map_of (ty_typeParametersMap t) p of None \<Rightarrow> nullptr | Some q \<Rightarrow> q)"

section \<open>Methods\<close>

datatype MethodHandleType = NoHandle | Body | External | Lambda

record FrameSlotRecipe =
  rec_ConcreteType :: ptr
  rec_TypeParameterIndex :: int

record MethodSymbol =
  me_Linking :: SymbolLinking
  me_ReturnType :: ptr
  me_TypeParameters :: "ptr list"
  me_Parameters :: "ptr list"
  me_HandleType :: MethodHandleType
  me_ExecutableByteCode :: bytes
  me_FunctionPointer :: ptr
  me_EvalStackVariablesCount :: u16
  me_VariableSlots :: "FrameSlotRecipe list"
  me_MaxEvalDepth :: nat
  me_EvalSlotPayload :: nat
  me_IsComplete :: bool

text \<open>
  \<open>me_Parameters\<close> lists the \<^verbatim>\<open>Type\<close> of each \<^verbatim>\<open>ParameterSymbol\<close>. The counts are 16-bit, as the
  source returns them.
\<close>

definition GetEvalStackArgumentsCount :: "MethodSymbol \<Rightarrow> u16" where
  "GetEvalStackArgumentsCount m =
     (let count = of_nat (length (me_Parameters m)) in
      if me_Linking m = LINK_INSTANCE then count + 1 else count)"

definition GetEvalStackLocalsCount :: "MethodSymbol \<Rightarrow> u16" where
  "GetEvalStackLocalsCount m = GetEvalStackArgumentsCount m + me_EvalStackVariablesCount m"

definition MakeSlotRecipe :: "(ptr \<Rightarrow> TypeSymbol) \<Rightarrow> ptr \<Rightarrow> ptr list \<Rightarrow> FrameSlotRecipe" where
  "MakeSlotRecipe types type typeParameters =
     (let concrete = \<lparr>rec_ConcreteType = type, rec_TypeParameterIndex = -1\<rparr> in
      if type \<noteq> nullptr \<and> ty_Kind (types type) = PartK TypeParameter then
        (case List.find (\<lambda>i. typeParameters ! i = type) [0..<length typeParameters] of
           Some i \<Rightarrow> \<lparr>rec_ConcreteType = nullptr,
                      rec_TypeParameterIndex = sint (of_nat i :: u16)\<rparr>
         | None \<Rightarrow> concrete)
      else concrete)"

definition AddVariableCount ::
  "(ptr \<Rightarrow> TypeSymbol) \<Rightarrow> ptr \<Rightarrow> MethodSymbol \<Rightarrow> u16 \<times> MethodSymbol" where
  "AddVariableCount types type m =
     (let m1 = m\<lparr>me_VariableSlots := me_VariableSlots m @ [MakeSlotRecipe types type (me_TypeParameters m)]\<rparr>
      in (me_EvalStackVariablesCount m,
          m1\<lparr>me_EvalStackVariablesCount := me_EvalStackVariablesCount m + 1\<rparr>))"

definition SealVariableSlot ::
  "(ptr \<Rightarrow> TypeSymbol) \<Rightarrow> u16 \<Rightarrow> ptr \<Rightarrow> MethodSymbol \<Rightarrow> MethodSymbol" where
  "SealVariableSlot types slotIndex type m =
     (let argsCount = GetEvalStackArgumentsCount m;
          i = unat slotIndex - unat argsCount
      in if slotIndex < argsCount \<or> i \<ge> length (me_VariableSlots m) then m
         else let recipe = me_VariableSlots m ! i in
           if rec_ConcreteType recipe \<noteq> nullptr \<or> rec_TypeParameterIndex recipe \<ge> 0 then m
           else m\<lparr>me_VariableSlots := (me_VariableSlots m)[i := MakeSlotRecipe types type (me_TypeParameters m)]\<rparr>)"

section \<open>Shapes\<close>

record TypeShape =
  shp_BaseType :: ptr
  shp_GenericArguments :: "ptr list"
  shp_Size :: nat
  shp_Alignment :: nat
  shp_Slots :: "(nat \<times> ptr) list"

text \<open>\<^verbatim>\<open>GetOffset\<close> and \<^verbatim>\<open>GetFieldShape\<close> throw \<^verbatim>\<open>std::out_of_range\<close>: \<open>None\<close>.\<close>

definition GetOffset :: "TypeShape \<Rightarrow> nat \<Rightarrow> nat option" where
  "GetOffset shape i = (if i \<ge> length (shp_Slots shape) then None else Some (fst (shp_Slots shape ! i)))"

definition GetFieldShape :: "TypeShape \<Rightarrow> nat \<Rightarrow> ptr option" where
  "GetFieldShape shape i = (if i \<ge> length (shp_Slots shape) then None else Some (snd (shp_Slots shape ! i)))"

end
