(* ===== verification/SyntaxTrees.thy ===== *)
theory SyntaxTrees
  imports Symbols Tokens
begin

text \<open>
  The bound syntax tree that code generation works on: the node classes of
  \<^verbatim>\<open>include/shard/parsing/nodes\<close> with the members that semantic binding has filled in and the
  emitter reads. One datatype holds the classes
  derived from \<^verbatim>\<open>SyntaxNode\<close>; a child that is \<^verbatim>\<open>nullptr\<close> is \<open>NullNode\<close>, and a list behind a pointer is an
  option. A symbol that the semantic model keeps for a
  node (\<^verbatim>\<open>LookupSymbol(node)\<close>) is a member of the node, zero when it has none; the type symbol of a
  \<^verbatim>\<open>TypeSyntax\<close> child is a pointer too, zero when child or symbol is missing. The parent of a node, of
  which the emitter reads only the kind, is an argument of the functions that visit it.
\<close>

section \<open>Members of the nodes\<close>

text \<open>
  \<^verbatim>\<open>LiteralSymbol\<close>: the union of the values is its eight bytes.
\<close>

record LiteralSymbol =
  lit_LiteralType :: TokenType
  lit_Value :: u64
  lit_BoundType :: ptr

definition AsIntegerValue :: "LiteralSymbol \<Rightarrow> u64" where
  "AsIntegerValue symbol = lit_Value symbol"

definition AsDoubleValue :: "LiteralSymbol \<Rightarrow> u64" where
  "AsDoubleValue symbol = lit_Value symbol"

definition AsBooleanValue :: "LiteralSymbol \<Rightarrow> bool" where
  "AsBooleanValue symbol \<longleftrightarrow> (ucast (lit_Value symbol) :: u8) \<noteq> 0"

text \<open>What the members of \<^verbatim>\<open>MemberAccessExpressionSyntax\<close> and \<^verbatim>\<open>IndexatorExpressionSyntax\<close> point to.\<close>

record MemberTargets =
  ma_ToParameter :: ptr
  ma_ToVariable :: ptr
  ma_ToField :: ptr
  ma_ToProperty :: ptr
  ma_ToOperator :: ptr
  ma_ToDelegate :: ptr

record InvokationTargets =
  inv_Symbol :: ptr
  inv_ReceiverType :: ptr
  inv_IsDelegateInvocation :: bool
  inv_IsExtensionMethodInvocation :: bool
  inv_BoundTypeArguments :: "ptr list"

record ObjectTargets =
  obj_CtorSymbol :: ptr
  obj_Symbol :: ptr
  obj_IsArrayCreation :: bool

text \<open>
  \<^verbatim>\<open>CaptureFields\<close> is an unordered map; its entries are listed in the order of its iteration, a
  captured symbol with its field.
\<close>

record LambdaTargets =
  lam_Symbol :: ptr
  lam_ClosureClass :: ptr
  lam_ClosureMethod :: ptr
  lam_ClosureConstructor :: ptr
  lam_CaptureFields :: "(ptr \<times> ptr) list"

section \<open>Nodes\<close>

datatype (plugins only: size) SyntaxNode =
    NullNode
  | LiteralExpressionSyntax SyntaxToken "LiteralSymbol option"
  | BinaryExpressionSyntax SyntaxToken SyntaxNode SyntaxNode ptr
  | UnaryExpressionSyntax SyntaxToken SyntaxNode bool ptr
  | AwaitExpressionSyntax SyntaxNode
  | MemberAccessExpressionSyntax MemberTargets SyntaxToken SyntaxNode
  | IndexatorExpressionSyntax MemberTargets SyntaxToken SyntaxNode "SyntaxNode list option"
  | InvokationExpressionSyntax InvokationTargets SyntaxNode "SyntaxNode list option"
  | ObjectExpressionSyntax ObjectTargets "SyntaxNode list option" SyntaxNode
  | CollectionExpressionSyntax "SyntaxNode list" ptr
  | RangeExpressionSyntax SyntaxNode SyntaxNode bool
  | LambdaExpressionSyntax LambdaTargets SyntaxNode
  | TypeExpressionSyntax
  | TernaryExpressionSyntax SyntaxNode SyntaxNode SyntaxNode
  | IfExpressionSyntax SyntaxNode SyntaxNode SyntaxNode
  | SwitchExpressionSyntax SyntaxNode "SyntaxNode list"
  | SwitchArmSyntax SyntaxToken SyntaxNode SyntaxNode
  | CastExpressionSyntax SyntaxNode ptr ptr bool
  | IsExpressionSyntax SyntaxNode ptr
  | IsPatternSyntax ptr ptr
  | ExpressionStatementSyntax SyntaxNode
  | VariableStatementSyntax ptr SyntaxNode
  | ReturnStatementSyntax SyntaxNode
  | ThrowStatementSyntax SyntaxNode
  | BreakStatementSyntax SyntaxToken
  | ContinueStatementSyntax SyntaxToken
  | WhileStatementSyntax SyntaxNode SyntaxNode
  | UntilStatementSyntax SyntaxNode SyntaxNode
  | ForStatementSyntax SyntaxNode SyntaxNode SyntaxNode SyntaxNode
  | ForEachStatementSyntax ptr SyntaxNode SyntaxNode
  | ForInStatementSyntax ptr SyntaxNode SyntaxNode
  | IfStatementSyntax SyntaxNode SyntaxNode SyntaxNode
  | UnlessStatementSyntax SyntaxNode SyntaxNode SyntaxNode
  | ElseStatementSyntax SyntaxNode SyntaxNode
  | TryStatementSyntax SyntaxNode "SyntaxNode list"
  | CatchClauseSyntax ptr ptr SyntaxNode
  | SwitchStatementSyntax SyntaxNode "SyntaxNode list"
  | SwitchCaseClauseSyntax SyntaxNode SyntaxNode ptr
  | DeferStatementSyntax SyntaxToken SyntaxNode ptr ptr bool
  | StatementsBlockSyntax "SyntaxNode list"

text \<open>
  The last arguments of the nodes: \<^verbatim>\<open>ToOperator\<close> of a unary or binary expression; \<^verbatim>\<open>IsRightDetermined\<close>
  before it; target type, \<^verbatim>\<open>ToOperator\<close> and \<^verbatim>\<open>IsPrimitiveCast\<close> of a cast; target type and variable of
  a pattern; exception type and variable of a catch clause; \<^verbatim>\<open>EqualityOperator\<close> of a case; variable,
  \<^verbatim>\<open>DisposeMethod\<close> and \<^verbatim>\<open>IsResourceDefer\<close> of a defer statement.
\<close>

definition IsConditionalClause :: "SyntaxKind \<Rightarrow> bool" where
  "IsConditionalClause kind \<longleftrightarrow>
     kind = StmtK IfStatement \<or> kind = StmtK UnlessStatement \<or> kind = StmtK ElseStatement"

section \<open>Symbols the nodes point to\<close>

record PropertySymbol =
  prp_BackingField :: ptr
  prp_Getter :: ptr
  prp_Setter :: ptr

text \<open>One step of the chain of \<^verbatim>\<open>Parent\<close> pointers above a member.\<close>

record Owner =
  own_Symbol :: ptr
  own_Kind :: SyntaxKind
  own_IsType :: bool

record MemberInfo =
  mem_Name :: wstring
  mem_IsPublic :: bool
  mem_IsAsync :: bool
  mem_AsyncStateMachineClass :: ptr
  mem_Parents :: "Owner list"

text \<open>
  What the semantic model knows and code generation only reads. \<open>sem_Kind\<close> is the kind of a captured
  symbol, \<open>sem_IntegerArray\<close> the array type that \<^verbatim>\<open>GetOrCreateArrayType(Integer)\<close> returns; the last three
  are the members of the enumeration traits that the loops over ranges call.
\<close>

record bound_symbols =
  sem_types :: "ptr \<Rightarrow> TypeSymbol"
  sem_fields :: "ptr \<Rightarrow> FieldSymbol"
  sem_IsEnumValue :: "ptr \<Rightarrow> bool"
  sem_properties :: "ptr \<Rightarrow> PropertySymbol"
  sem_members :: "ptr \<Rightarrow> MemberInfo"
  sem_AnonymousSymbol :: "ptr \<Rightarrow> ptr"
  sem_ParameterSlot :: "ptr \<Rightarrow> u16"
  sem_VariableType :: "ptr \<Rightarrow> ptr"
  sem_Kind :: "ptr \<Rightarrow> SyntaxKind"
  sem_Void :: ptr
  sem_Any :: ptr
  sem_Integer :: ptr
  sem_Boolean :: ptr
  sem_Char :: ptr
  sem_Double :: ptr
  sem_IntegerArray :: ptr
  sem_GetEnumerator :: ptr
  sem_MoveNext :: ptr
  sem_CurrentGet :: ptr

fun interface_above :: "Owner list \<Rightarrow> bool" where
  "interface_above [] \<longleftrightarrow> False"
| "interface_above (owner # owners) \<longleftrightarrow>
     own_Kind owner = DeclK InterfaceDeclaration \<or> (\<not> own_IsType owner \<and> interface_above owners)"

definition IsInterfaceMember :: "bound_symbols \<Rightarrow> ptr \<Rightarrow> bool" where
  "IsInterfaceMember sem method \<longleftrightarrow> interface_above (mem_Parents (sem_members sem method))"

section \<open>Payloads\<close>

definition ResolveTypePayload :: "(ptr \<Rightarrow> TypeSymbol) \<Rightarrow> ptr \<Rightarrow> nat" where
  "ResolveTypePayload types type =
     (if type = nullptr then 8
      else if IsReferenceType (types type) then 8
      else if ty_Kind (types type) = PartK TypeParameter then 8
      else GetInlineSize (types type))"

definition SlotPayload :: "(ptr \<Rightarrow> TypeSymbol) \<Rightarrow> MethodSymbol \<Rightarrow> u16 \<Rightarrow> nat" where
  "SlotPayload types m slot =
     (let argsCount = GetEvalStackArgumentsCount m in
      if slot < argsCount then
        (if me_Linking m = LINK_INSTANCE \<and> slot = 0 then 8
         else
           let paramIndex = (if me_Linking m = LINK_INSTANCE then unat slot - 1 else unat slot) in
           if paramIndex < length (me_Parameters m) then ResolveTypePayload types (me_Parameters m ! paramIndex) else 8)
      else
        let variableIndex = unat slot - unat argsCount in
        if variableIndex < length (me_VariableSlots m) then
          (let recipe = me_VariableSlots m ! variableIndex in
           if rec_TypeParameterIndex recipe \<ge> 0 then 8 else ResolveTypePayload types (rec_ConcreteType recipe))
        else 8)"

definition EntryBytes :: "nat \<Rightarrow> nat" where
  "EntryBytes payload = 8 + 8 * ((payload + 7) div 8)"

definition ComputeLocalsBytes :: "(ptr \<Rightarrow> TypeSymbol) \<Rightarrow> MethodSymbol \<Rightarrow> nat" where
  "ComputeLocalsBytes types m =
     (if me_Linking m = LINK_INSTANCE then EntryBytes 8 else 0)
     + sum_list (map (\<lambda>p. EntryBytes (ResolveTypePayload types p)) (me_Parameters m))
     + sum_list (map (\<lambda>recipe. if rec_TypeParameterIndex recipe \<ge> 0 then EntryBytes 8
                               else EntryBytes (ResolveTypePayload types (rec_ConcreteType recipe))) (me_VariableSlots m))"

end
