(* ===== verification/MethodEffects.thy ===== *)
theory MethodEffects
  imports SyntaxTrees "HOL-Library.While_Combinator"
begin

text \<open>
  Effects of methods and their propagation along calls:
  \<^verbatim>\<open>include/shard/semantic/MethodEffectSummary.hpp\<close> and the second half of
  \<^verbatim>\<open>src/semantic/FlowAnalyzer.cpp\<close>. The summaries of all methods are a function from the pointers of
  the methods; an unordered set lists its elements in the order in which it is iterated, and an
  insertion puts a new element at the end. A call site is known by its edge, its token is not kept.
\<close>

section \<open>Summaries\<close>

definition insert_element :: "'a \<Rightarrow> 'a list \<Rightarrow> 'a list" where
  "insert_element x xs = (if x \<in> set xs then xs else xs @ [x])"

record MethodEffectSummary =
  sum_MayThrow :: bool
  sum_MutatesInstance :: bool
  sum_MutatesStatic :: bool
  sum_MutatesArguments :: bool
  sum_HasUnknownSideEffects :: bool
  sum_ThrownTypes :: "ptr list"
  sum_AsyncThrownTypes :: "ptr list"
  sum_MayAssignInstanceFields :: "ptr list"
  sum_MayAssignStaticFields :: "ptr list"
  sum_DefinitelyAssignsInstanceFields :: "ptr list"
  sum_DefinitelyAssignsStaticFields :: "ptr list"

definition no_effects :: MethodEffectSummary where
  "no_effects =
     \<lparr>sum_MayThrow = False, sum_MutatesInstance = False, sum_MutatesStatic = False, sum_MutatesArguments = False,
      sum_HasUnknownSideEffects = False, sum_ThrownTypes = [], sum_AsyncThrownTypes = [],
      sum_MayAssignInstanceFields = [], sum_MayAssignStaticFields = [], sum_DefinitelyAssignsInstanceFields = [],
      sum_DefinitelyAssignsStaticFields = []\<rparr>"

text \<open>\<^verbatim>\<open>operator!=\<close>: the sets are compared as sets.\<close>

definition summaries_differ :: "MethodEffectSummary \<Rightarrow> MethodEffectSummary \<Rightarrow> bool" where
  "summaries_differ a b \<longleftrightarrow> \<not>
     (sum_MayThrow a = sum_MayThrow b \<and> sum_MutatesInstance a = sum_MutatesInstance b
      \<and> sum_MutatesStatic a = sum_MutatesStatic b \<and> sum_MutatesArguments a = sum_MutatesArguments b
      \<and> sum_HasUnknownSideEffects a = sum_HasUnknownSideEffects b
      \<and> set (sum_ThrownTypes a) = set (sum_ThrownTypes b)
      \<and> set (sum_AsyncThrownTypes a) = set (sum_AsyncThrownTypes b)
      \<and> set (sum_MayAssignInstanceFields a) = set (sum_MayAssignInstanceFields b)
      \<and> set (sum_MayAssignStaticFields a) = set (sum_MayAssignStaticFields b)
      \<and> set (sum_DefinitelyAssignsInstanceFields a) = set (sum_DefinitelyAssignsInstanceFields b)
      \<and> set (sum_DefinitelyAssignsStaticFields a) = set (sum_DefinitelyAssignsStaticFields b))"

section \<open>Calls\<close>

record CallEdge =
  edge_Callee :: ptr
  edge_CaughtTypes :: "ptr list"
  edge_CatchesAll :: bool
  edge_IsAwaited :: bool

text \<open>
  What the analysis asks of the semantic model: \<^verbatim>\<open>SemanticModel::IsAssignableTo\<close>, and whether a method
  is asynchronous.
\<close>

record effect_model =
  em_assignable :: "ptr \<Rightarrow> ptr \<Rightarrow> bool"
  em_async :: "ptr \<Rightarrow> bool"

definition Catches :: "effect_model \<Rightarrow> CallEdge \<Rightarrow> ptr \<Rightarrow> bool" where
  "Catches em edge thrownType \<longleftrightarrow>
     thrownType \<noteq> nullptr \<and> (edge_CatchesAll edge \<or> list_ex (\<lambda>c. em_assignable em c thrownType) (edge_CaughtTypes edge))"

type_synonym call_graph = "(ptr \<times> CallEdge list) list"
type_synonym summaries = "ptr \<Rightarrow> MethodEffectSummary"

section \<open>Propagation\<close>

text \<open>The set of an asynchronous method holds what its task will raise.\<close>

definition types_of :: "bool \<Rightarrow> MethodEffectSummary \<Rightarrow> ptr list" where
  "types_of asynchronous s = (if asynchronous then sum_AsyncThrownTypes s else sum_ThrownTypes s)"

definition add_thrown :: "bool \<Rightarrow> ptr \<Rightarrow> MethodEffectSummary \<Rightarrow> MethodEffectSummary" where
  "add_thrown asynchronous t s =
     (if asynchronous then s\<lparr>sum_AsyncThrownTypes := insert_element t (sum_AsyncThrownTypes s), sum_MayThrow := True\<rparr>
      else s\<lparr>sum_ThrownTypes := insert_element t (sum_ThrownTypes s), sum_MayThrow := True\<rparr>)"

definition add_mutations :: "MethodEffectSummary \<Rightarrow> MethodEffectSummary \<Rightarrow> MethodEffectSummary" where
  "add_mutations callee caller = caller\<lparr>
     sum_MutatesInstance := sum_MutatesInstance caller \<or> sum_MutatesInstance callee,
     sum_MutatesStatic := sum_MutatesStatic caller \<or> sum_MutatesStatic callee,
     sum_MutatesArguments := sum_MutatesArguments caller \<or> sum_MutatesArguments callee,
     sum_HasUnknownSideEffects := sum_HasUnknownSideEffects caller \<or> sum_HasUnknownSideEffects callee\<rparr>"

text \<open>The types that leave a call: those of its task when the call is awaited, none when it is not.\<close>

definition thrown_at :: "effect_model \<Rightarrow> CallEdge \<Rightarrow> summaries \<Rightarrow> ptr list" where
  "thrown_at em edge S =
     (let callee = edge_Callee edge in
      if em_async em callee \<and> \<not> edge_IsAwaited edge then []
      else filter (\<lambda>t. \<not> Catches em edge t) (types_of (em_async em callee) (S callee)))"

definition propagate_edge :: "effect_model \<Rightarrow> ptr \<Rightarrow> CallEdge \<Rightarrow> summaries \<Rightarrow> summaries" where
  "propagate_edge em caller edge S =
     (let callee = edge_Callee edge in
      if callee = nullptr then S
      else
        let S = S(caller := add_mutations (S callee) (S caller)) in
        S(caller := fold (add_thrown (em_async em caller)) (thrown_at em edge S) (S caller)))"

definition propagate_caller :: "effect_model \<Rightarrow> ptr \<times> CallEdge list \<Rightarrow> bool \<times> summaries \<Rightarrow> bool \<times> summaries" where
  "propagate_caller em = (\<lambda>(caller, edges) (changed, S).
     if caller = nullptr then (changed, S)
     else let S' = fold (propagate_edge em caller) edges S
          in (changed \<or> summaries_differ (S caller) (S' caller), S'))"

definition propagate_round :: "effect_model \<Rightarrow> call_graph \<Rightarrow> summaries \<Rightarrow> bool \<times> summaries" where
  "propagate_round em graph S = fold (propagate_caller em) graph (False, S)"

definition PropagateEffects :: "effect_model \<Rightarrow> call_graph \<Rightarrow> summaries \<Rightarrow> summaries option" where
  "PropagateEffects em graph S =
     map_option snd (while_option fst (\<lambda>(changed, S). propagate_round em graph S) (True, S))"

section \<open>Reports\<close>

datatype effect_warning =
    AwaitMayThrow ptr ptr
  | CallMayThrow ptr ptr
  | AwaitMayThrowException ptr
  | CallMayThrowException ptr

definition edge_warnings :: "effect_model \<Rightarrow> summaries \<Rightarrow> CallEdge \<Rightarrow> effect_warning list" where
  "edge_warnings em S edge =
     (let callee = edge_Callee edge; asynchronous = em_async em callee in
      if callee = nullptr then []
      else
        map (\<lambda>t. if asynchronous then AwaitMayThrow callee t else CallMayThrow callee t) (remdups (thrown_at em edge S))
        @ (if sum_MayThrow (S callee) \<and> types_of asynchronous (S callee) = []
           then [if asynchronous \<and> edge_IsAwaited edge then AwaitMayThrowException callee else CallMayThrowException callee]
           else []))"

definition ReportEffectDiagnostics :: "effect_model \<Rightarrow> call_graph \<Rightarrow> summaries \<Rightarrow> effect_warning list" where
  "ReportEffectDiagnostics em graph S =
     concat (map (\<lambda>(caller, edges). if caller = nullptr then [] else concat (map (edge_warnings em S) edges)) graph)"

section \<open>Growth\<close>

text \<open>Propagation only adds; a step that changes nothing as sets changes nothing at all.\<close>

definition extends :: "'a list \<Rightarrow> 'a list \<Rightarrow> bool" where
  "extends xs ys \<longleftrightarrow> (\<exists>zs. ys = xs @ zs \<and> distinct zs \<and> set zs \<inter> set xs = {})"

lemma extends_refl [simp]: "extends xs xs"
  by (auto simp: extends_def)

lemma extends_trans: "extends xs ys \<Longrightarrow> extends ys zs \<Longrightarrow> extends xs zs"
  by (auto simp: extends_def)

lemma extends_insert [simp]: "extends xs (insert_element x xs)"
  by (auto simp: extends_def insert_element_def)

lemma extends_subset: "extends xs ys \<Longrightarrow> set xs \<subseteq> set ys"
  by (auto simp: extends_def)

lemma extends_same: "extends xs ys \<Longrightarrow> set xs = set ys \<Longrightarrow> xs = ys"
  by (auto simp: extends_def)

lemma set_insert_element [simp]: "set (insert_element x xs) = insert x (set xs)"
  by (auto simp: insert_element_def)

definition grows :: "MethodEffectSummary \<Rightarrow> MethodEffectSummary \<Rightarrow> bool" where
  "grows a b \<longleftrightarrow>
     (sum_MayThrow a \<longrightarrow> sum_MayThrow b) \<and> (sum_MutatesInstance a \<longrightarrow> sum_MutatesInstance b)
     \<and> (sum_MutatesStatic a \<longrightarrow> sum_MutatesStatic b) \<and> (sum_MutatesArguments a \<longrightarrow> sum_MutatesArguments b)
     \<and> (sum_HasUnknownSideEffects a \<longrightarrow> sum_HasUnknownSideEffects b)
     \<and> extends (sum_ThrownTypes a) (sum_ThrownTypes b) \<and> extends (sum_AsyncThrownTypes a) (sum_AsyncThrownTypes b)
     \<and> sum_MayAssignInstanceFields a = sum_MayAssignInstanceFields b
     \<and> sum_MayAssignStaticFields a = sum_MayAssignStaticFields b
     \<and> sum_DefinitelyAssignsInstanceFields a = sum_DefinitelyAssignsInstanceFields b
     \<and> sum_DefinitelyAssignsStaticFields a = sum_DefinitelyAssignsStaticFields b"

lemma grows_refl [simp]: "grows s s"
  by (simp add: grows_def)

lemma grows_trans: "grows a b \<Longrightarrow> grows b c \<Longrightarrow> grows a c"
  unfolding grows_def using extends_trans by (metis (no_types))

lemma grows_same: "grows a b \<Longrightarrow> \<not> summaries_differ a b \<Longrightarrow> a = b"
  by (cases a, cases b) (auto simp: grows_def summaries_differ_def dest: extends_same)

lemma not_differ_refl [simp]: "\<not> summaries_differ s s"
  by (simp add: summaries_differ_def)

lemma add_grows: "grows s (add_thrown a t s)" "grows s (add_mutations c s)"
  by (simp_all add: grows_def add_thrown_def add_mutations_def)

lemma fold_add_thrown_grows: "grows s (fold (add_thrown a) ts s)"
  by (induction ts arbitrary: s) (auto intro: grows_trans add_grows)

lemma types_of_add_mutations [simp]: "types_of b (add_mutations c s) = types_of b s"
  by (simp add: types_of_def add_mutations_def)

lemma types_of_add_thrown: "set (types_of b (add_thrown a t s)) = (if a = b then insert t (set (types_of b s)) else set (types_of b s))"
  by (simp add: types_of_def add_thrown_def)

lemma types_of_fold:
  "set (types_of b (fold (add_thrown a) ts s)) = (if a = b then set ts \<union> set (types_of b s) else set (types_of b s))"
  by (induction ts arbitrary: s) (auto simp: types_of_add_thrown)

definition all_grow :: "summaries \<Rightarrow> summaries \<Rightarrow> bool" where
  "all_grow S S' \<longleftrightarrow> (\<forall>m. grows (S m) (S' m))"

lemma all_grow_refl [simp]: "all_grow S S"
  by (simp add: all_grow_def)

lemma all_grow_trans: "all_grow S T \<Longrightarrow> all_grow T U \<Longrightarrow> all_grow S U"
  unfolding all_grow_def using grows_trans by blast

lemma propagate_edge_other: "m \<noteq> caller \<Longrightarrow> propagate_edge em caller edge S m = S m"
  by (simp add: propagate_edge_def Let_def)

lemma propagate_edge_grows: "all_grow S (propagate_edge em caller edge S)"
  by (auto simp: all_grow_def propagate_edge_def Let_def intro: grows_trans add_grows fold_add_thrown_grows)

lemma fold_edges_other: "m \<noteq> caller \<Longrightarrow> fold (propagate_edge em caller) edges S m = S m"
  by (induction edges arbitrary: S) (auto simp: propagate_edge_other)

lemma fold_edges_grows: "all_grow S (fold (propagate_edge em caller) edges S)"
  by (induction edges arbitrary: S) (auto intro: all_grow_trans propagate_edge_grows)

end
