(* ===== verification/FlowAnalysis.thy ===== *)
theory FlowAnalysis
  imports MethodEffects
begin

text \<open>
  Control and data flow of member bodies: \<^verbatim>\<open>src/semantic/FlowAnalyzer.cpp\<close> on the bound syntax tree,
  with the traversal of \<^verbatim>\<open>src/parsing/SyntaxVisitor.cpp\<close> that it inherits. Every handler takes the
  analyses of the node's children; \<open>flow_node\<close> is the dispatch. A flow state is the set of the bits
  of the enumeration. Diagnostics are kept without their location. Types in the tree are visited
  without an effect and left out. A catch clause without a type and one whose type did not resolve
  are not distinguished: the analysis runs only when binding reported nothing.
\<close>

section \<open>State\<close>

datatype FlowFlag = FlowReturns | FlowBreaks | FlowContinues | FlowThrows | FlowNormal

type_synonym FlowState = "FlowFlag set"

datatype flow_diagnostic =
    BreakOutside
  | ContinueOutside
  | UnreachableCode
  | MissingReturn ptr
  | UnassignedVariable ptr
  | EffectWarning effect_warning

record TryCatchFrame =
  frm_CaughtTypes :: "ptr list"
  frm_CatchesAll :: bool

text \<open>A scope maps names to symbols; the parameter \<^verbatim>\<open>this\<close> of a member is made for its scope.\<close>

datatype scope_entry = Declared ptr | ThisParameter ptr

type_synonym scope = "(wstring \<times> scope_entry) list"

record flow_analyzer =
  fa_assignedVariables :: "ptr set"
  fa_loopDepth :: int
  fa_switchDepth :: int
  fa_currentMethodIsAsync :: bool
  fa_currentMethod :: ptr
  fa_tryCatchStack :: "TryCatchFrame list"
  fa_catchExceptionStack :: "ptr list"
  fa_effectiveCaughtTypes :: "ptr list"
  fa_catchAllDepth :: int
  fa_callGraph :: call_graph
  fa_summaries :: summaries
  fa_EffectsComputed :: "ptr \<Rightarrow> bool"
  fa_scopes :: "scope list"
  fa_Diagnostics :: "flow_diagnostic list"

text \<open>
  What the analysis reads of the semantic model. \<open>fm_OwnerType\<close> is the type a member belongs to, zero when it
  has none; \<open>fm_IsVariable\<close> is \<^verbatim>\<open>dynamic_cast<VariableSymbol*>\<close>; \<open>fm_outer\<close> looks a name up below the scopes
  that the analysis opens; \<open>fm_lambda_method\<close> is the symbol the table has for a lambda node.
\<close>

record flow_model =
  fm_effects :: effect_model
  fm_sem :: bound_symbols
  fm_methods :: "ptr \<Rightarrow> MethodSymbol"
  fm_OwnerType :: "ptr \<Rightarrow> ptr"
  fm_Parameters :: "ptr \<Rightarrow> ptr list"
  fm_Name :: "ptr \<Rightarrow> wstring"
  fm_FullName :: "ptr \<Rightarrow> wstring"
  fm_IsVariable :: "ptr \<Rightarrow> bool"
  fm_outer :: "wstring \<Rightarrow> ptr"
  fm_lambda_method :: "SyntaxNode \<Rightarrow> ptr"
  fm_expression_type :: "SyntaxNode \<Rightarrow> ptr"
  fm_IsStaticContext :: "SyntaxNode \<Rightarrow> bool"

type_synonym flow_op = "flow_analyzer \<Rightarrow> flow_analyzer"
type_synonym flow_analysis = "flow_analyzer \<Rightarrow> FlowState \<times> flow_analyzer"

definition report_flow :: "flow_diagnostic \<Rightarrow> flow_op" where
  "report_flow d st = st\<lparr>fa_Diagnostics := fa_Diagnostics st @ [d]\<rparr>"

definition do_ops :: "flow_op list \<Rightarrow> flow_op" where
  "do_ops ops st = fold (\<lambda>op st. op st) ops st"

definition IsAsync :: "flow_model \<Rightarrow> ptr \<Rightarrow> bool" where
  "IsAsync fm m \<longleftrightarrow> em_async (fm_effects fm) m"

section \<open>Flow states\<close>

definition IsTerminal :: "FlowState \<Rightarrow> bool" where
  "IsTerminal state \<longleftrightarrow> FlowNormal \<notin> state"

definition MergeBranches :: "FlowState \<Rightarrow> FlowState \<Rightarrow> FlowState" where
  "MergeBranches a b = a \<union> b"

definition WithoutBreaksAndContinues :: "FlowState \<Rightarrow> FlowState" where
  "WithoutBreaksAndContinues state =
     (let result = state - {FlowBreaks, FlowContinues} in
      if FlowNormal \<notin> result \<and> FlowReturns \<notin> result \<and> FlowThrows \<notin> result then {FlowNormal} else result)"

definition WithoutThrows :: "FlowState \<Rightarrow> FlowState" where
  "WithoutThrows state =
     (let result = state - {FlowThrows} in
      if FlowNormal \<notin> result \<and> FlowReturns \<notin> result \<and> FlowBreaks \<notin> result \<and> FlowContinues \<notin> result
      then {FlowNormal} else result)"

section \<open>Scopes and assignments\<close>

fun Lookup :: "flow_model \<Rightarrow> scope list \<Rightarrow> wstring \<Rightarrow> scope_entry" where
  "Lookup fm [] name = Declared (fm_outer fm name)"
| "Lookup fm (scope # scopes) name = (case map_of scope name of Some entry \<Rightarrow> entry | None \<Rightarrow> Lookup fm scopes name)"

definition variable_of :: "flow_model \<Rightarrow> scope_entry \<Rightarrow> ptr" where
  "variable_of fm entry =
     (case entry of Declared symbol \<Rightarrow> if fm_IsVariable fm symbol then symbol else nullptr | ThisParameter _ \<Rightarrow> nullptr)"

definition PushScope :: flow_op where
  "PushScope st = st\<lparr>fa_scopes := [] # fa_scopes st\<rparr>"

definition PopScope :: flow_op where
  "PopScope st = st\<lparr>fa_scopes := tl (fa_scopes st)\<rparr>"

definition DeclareSymbol :: "wstring \<Rightarrow> scope_entry \<Rightarrow> flow_op" where
  "DeclareSymbol name entry st =
     st\<lparr>fa_scopes := (case fa_scopes st of [] \<Rightarrow> [] | scope # scopes \<Rightarrow> ((name, entry) # scope) # scopes)\<rparr>"

definition MarkAssigned :: "ptr \<Rightarrow> flow_op" where
  "MarkAssigned variable st =
     (if variable \<noteq> nullptr then st\<lparr>fa_assignedVariables := insert variable (fa_assignedVariables st)\<rparr> else st)"

definition IsAssigned :: "ptr \<Rightarrow> flow_analyzer \<Rightarrow> bool" where
  "IsAssigned variable st \<longleftrightarrow> variable \<noteq> nullptr \<and> variable \<in> fa_assignedVariables st"

definition AnalyzeExpressionForAssignment :: "flow_model \<Rightarrow> SyntaxNode \<Rightarrow> flow_op" where
  "AnalyzeExpressionForAssignment fm expression st =
     (case expression of
        BinaryExpressionSyntax operator left right _ \<Rightarrow>
          if tok_Type operator \<noteq> Op AssignOperator then st
          else (case left of
            MemberAccessExpressionSyntax _ identifier NullNode \<Rightarrow>
              MarkAssigned (variable_of fm (Lookup fm (fa_scopes st) (tok_Word identifier))) st
          | _ \<Rightarrow> st)
      | _ \<Rightarrow> st)"

definition use_name :: "flow_model \<Rightarrow> SyntaxToken \<Rightarrow> flow_op" where
  "use_name fm identifier st =
     (let variable = variable_of fm (Lookup fm (fa_scopes st) (tok_Word identifier)) in
      if variable \<noteq> nullptr \<and> \<not> IsAssigned variable st then report_flow (UnassignedVariable variable) st else st)"

section \<open>Effects of a body\<close>

definition update_summary :: "(MethodEffectSummary \<Rightarrow> MethodEffectSummary) \<Rightarrow> flow_op" where
  "update_summary f st =
     st\<lparr>fa_summaries := (fa_summaries st)(fa_currentMethod st := f (fa_summaries st (fa_currentMethod st)))\<rparr>"

definition EnterMemberBody :: "ptr \<Rightarrow> flow_op" where
  "EnterMemberBody m st = st\<lparr>fa_currentMethod := m, fa_EffectsComputed := (fa_EffectsComputed st)(m := False)\<rparr>"

definition LeaveMemberBody :: "ptr \<Rightarrow> flow_op" where
  "LeaveMemberBody m st = st\<lparr>fa_currentMethod := nullptr, fa_EffectsComputed := (fa_EffectsComputed st)(m := True)\<rparr>"

fun add_edge :: "ptr \<Rightarrow> CallEdge \<Rightarrow> call_graph \<Rightarrow> call_graph" where
  "add_edge m edge [] = [(m, [edge])]"
| "add_edge m edge ((m', edges) # graph) =
     (if m' = m then (m, edges @ [edge]) # graph else (m', edges) # add_edge m edge graph)"

definition RecordCalleeEffects :: "ptr \<Rightarrow> bool \<Rightarrow> flow_op" where
  "RecordCalleeEffects callee isAwaited st =
     (if callee = nullptr \<or> fa_currentMethod st = nullptr then st
      else st\<lparr>fa_callGraph := add_edge (fa_currentMethod st)
        \<lparr>edge_Callee = callee, edge_CaughtTypes = fa_effectiveCaughtTypes st,
         edge_CatchesAll = (fa_catchAllDepth st > 0), edge_IsAwaited = isAwaited\<rparr> (fa_callGraph st)\<rparr>)"

definition IsThisExpression :: "flow_model \<Rightarrow> SyntaxNode \<Rightarrow> bool" where
  "IsThisExpression fm expression =
     (case expression of
        MemberAccessExpressionSyntax targets identifier previous \<Rightarrow>
          previous = NullNode \<and> ma_ToParameter targets \<noteq> nullptr \<and> fm_Name fm (ma_ToParameter targets) = L ''this''
      | _ \<Rightarrow> False)"

definition record_mutation :: "bool \<Rightarrow> bool \<Rightarrow> flow_op" where
  "record_mutation isStaticContext isThisReceiver =
     (if isStaticContext then update_summary (sum_MutatesStatic_update (\<lambda>_. True))
      else if isThisReceiver then update_summary (sum_MutatesInstance_update (\<lambda>_. True)) else id)"

definition record_setter :: "flow_model \<Rightarrow> ptr \<Rightarrow> flow_op" where
  "record_setter fm property =
     (let setter = prp_Setter (sem_properties (fm_sem fm) property) in
      if setter \<noteq> nullptr then RecordCalleeEffects setter False else id)"

definition RecordFieldOrPropertyWrite :: "flow_model \<Rightarrow> SyntaxNode \<Rightarrow> MemberTargets \<Rightarrow> SyntaxNode \<Rightarrow> flow_op" where
  "RecordFieldOrPropertyWrite fm node targets previous =
     (let isStaticContext = fm_IsStaticContext fm node;
          isThisReceiver = (\<not> isStaticContext \<and> (previous = NullNode \<or> IsThisExpression fm previous));
          field = ma_ToField targets; property = ma_ToProperty targets
      in if field \<noteq> nullptr then
           do_ops [record_mutation isStaticContext isThisReceiver,
             if isStaticContext then
               update_summary (\<lambda>s. s\<lparr>sum_MayAssignStaticFields := insert_element field (sum_MayAssignStaticFields s)\<rparr>)
             else if isThisReceiver then
               update_summary (\<lambda>s. s\<lparr>sum_MayAssignInstanceFields := insert_element field (sum_MayAssignInstanceFields s)\<rparr>)
             else id]
         else if property \<noteq> nullptr then
           do_ops [record_mutation isStaticContext isThisReceiver, record_setter fm property]
         else id)"

definition RecordIndexatorWrite :: "flow_model \<Rightarrow> SyntaxNode \<Rightarrow> MemberTargets \<Rightarrow> SyntaxNode \<Rightarrow> flow_op" where
  "RecordIndexatorWrite fm node targets previous =
     (let isStaticContext = fm_IsStaticContext fm node;
          isThisReceiver = (\<not> isStaticContext \<and> (previous = NullNode \<or> IsThisExpression fm previous))
      in do_ops [record_mutation isStaticContext isThisReceiver,
           if ma_ToProperty targets \<noteq> nullptr then record_setter fm (ma_ToProperty targets) else id])"

text \<open>A write to the operand of an assignment, \<^verbatim>\<open>++\<close> or \<^verbatim>\<open>--\<close>; nothing is recorded outside of members.\<close>

definition record_write :: "flow_model \<Rightarrow> SyntaxNode \<Rightarrow> flow_op" where
  "record_write fm operand st =
     (if fa_currentMethod st = nullptr then st
      else case operand of
        MemberAccessExpressionSyntax targets _ previous \<Rightarrow> RecordFieldOrPropertyWrite fm operand targets previous st
      | IndexatorExpressionSyntax targets _ previous _ \<Rightarrow> RecordIndexatorWrite fm operand targets previous st
      | _ \<Rightarrow> st)"

definition IsAssignmentOperator :: "TokenType \<Rightarrow> bool" where
  "IsAssignmentOperator type \<longleftrightarrow> type \<in> Op ` {AssignOperator, AddAssignOperator, SubAssignOperator, MultAssignOperator,
     DivAssignOperator, ModAssignOperator, PowAssignOperator, OrAssignOperator, AndAssignOperator}"

definition IsIncrementDecrementOperator :: "TokenType \<Rightarrow> bool" where
  "IsIncrementDecrementOperator type \<longleftrightarrow> type = Op IncrementOperator \<or> type = Op DecrementOperator"

definition IsTaskOrTaskLike :: "flow_model \<Rightarrow> ptr \<Rightarrow> bool" where
  "IsTaskOrTaskLike fm type \<longleftrightarrow> type \<noteq> nullptr \<and>
     (fm_FullName fm type = L ''async.Task''
      \<or> (let t = sem_types (fm_sem fm) type in
         ty_Kind t = TypeK GenericType \<and> ty_UnderlayingType t \<noteq> nullptr
         \<and> fm_FullName fm (ty_UnderlayingType t) = L ''async.ValueTask''))"

section \<open>Exceptions that are caught\<close>

definition RebuildEffectiveCaughtTypes :: flow_op where
  "RebuildEffectiveCaughtTypes st =
     st\<lparr>fa_catchAllDepth := int (length (filter frm_CatchesAll (fa_tryCatchStack st))),
        fa_effectiveCaughtTypes := fold (\<lambda>frame types. if frm_CatchesAll frame then types
          else fold insert_element (frm_CaughtTypes frame) types) (fa_tryCatchStack st) []\<rparr>"

text \<open>The types of the clauses up to the first that catches everything.\<close>

definition PushTryCatch :: "ptr list \<Rightarrow> flow_op" where
  "PushTryCatch types st = RebuildEffectiveCaughtTypes (st\<lparr>fa_tryCatchStack := fa_tryCatchStack st @
     [\<lparr>frm_CaughtTypes = fold insert_element (takeWhile (\<lambda>t. t \<noteq> nullptr) types) [],
       frm_CatchesAll = (nullptr \<in> set types)\<rparr>]\<rparr>)"

definition PopTryCatch :: flow_op where
  "PopTryCatch st =
     (if fa_tryCatchStack st = [] then st
      else RebuildEffectiveCaughtTypes (st\<lparr>fa_tryCatchStack := butlast (fa_tryCatchStack st)\<rparr>))"

definition IsCaughtByActiveTry :: "flow_model \<Rightarrow> ptr \<Rightarrow> flow_analyzer \<Rightarrow> bool" where
  "IsCaughtByActiveTry fm thrownType st \<longleftrightarrow> thrownType \<noteq> nullptr \<and>
     (fa_catchAllDepth st > 0
      \<or> list_ex (\<lambda>catchType. em_assignable (fm_effects fm) catchType thrownType) (fa_effectiveCaughtTypes st))"

definition PushCatchException :: "flow_model \<Rightarrow> ptr \<Rightarrow> flow_op" where
  "PushCatchException fm type st = st\<lparr>fa_catchExceptionStack :=
     fa_catchExceptionStack st @ [if type \<noteq> nullptr then type else sem_Any (fm_sem fm)]\<rparr>"

definition PopCatchException :: flow_op where
  "PopCatchException st = st\<lparr>fa_catchExceptionStack := butlast (fa_catchExceptionStack st)\<rparr>"

definition CurrentCatchExceptionType :: "flow_analyzer \<Rightarrow> ptr" where
  "CurrentCatchExceptionType st = (case fa_catchExceptionStack st of [] \<Rightarrow> nullptr | types \<Rightarrow> last types)"

definition record_throw :: "flow_model \<Rightarrow> SyntaxNode \<Rightarrow> flow_op" where
  "record_throw fm expression st =
     (if fa_currentMethod st = nullptr then st
      else
        let type = (if expression \<noteq> NullNode then fm_expression_type fm expression else CurrentCatchExceptionType st);
            thrownType = (if type = nullptr then sem_Any (fm_sem fm) else type);
            st = update_summary (sum_MayThrow_update (\<lambda>_. True)) st
        in if IsCaughtByActiveTry fm thrownType st then st
           else update_summary (add_thrown (fa_currentMethodIsAsync st) thrownType) st)"

section \<open>Expressions\<close>

definition VisitBinaryExpression_flow :: "flow_model \<Rightarrow> SyntaxToken \<Rightarrow> SyntaxNode \<Rightarrow> flow_op \<Rightarrow> flow_op \<Rightarrow> flow_op" where
  "VisitBinaryExpression_flow fm operator left visitLeft visitRight = do_ops
     [if IsAssignmentOperator (tok_Type operator) then record_write fm left else id, visitLeft, visitRight]"

definition VisitUnaryExpression_flow :: "flow_model \<Rightarrow> SyntaxToken \<Rightarrow> SyntaxNode \<Rightarrow> flow_op \<Rightarrow> flow_op" where
  "VisitUnaryExpression_flow fm operator operand visitOperand = do_ops
     [if IsIncrementDecrementOperator (tok_Type operator) then record_write fm operand else id, visitOperand]"

definition VisitInvocationExpression_flow :: "flow_model \<Rightarrow> InvokationTargets \<Rightarrow> flow_op list \<Rightarrow> flow_op" where
  "VisitInvocationExpression_flow fm targets visitArguments =
     (let callee = inv_Symbol targets in
      do_ops ((\<lambda>st. if fa_currentMethod st = nullptr then st
                    else if callee \<noteq> nullptr \<and> \<not> inv_IsDelegateInvocation targets then
                      (if IsAsync fm callee then st else RecordCalleeEffects callee False st)
                    else update_summary (sum_HasUnknownSideEffects_update (\<lambda>_. True)) st) # visitArguments))"

definition VisitAwaitExpression_flow :: "flow_model \<Rightarrow> SyntaxNode \<Rightarrow> flow_op \<Rightarrow> flow_op" where
  "VisitAwaitExpression_flow fm awaited visitAwaited = do_ops
     [\<lambda>st. if fa_currentMethod st = nullptr \<or> awaited = NullNode then st
           else case awaited of
             InvokationExpressionSyntax targets _ _ \<Rightarrow>
               if inv_Symbol targets \<noteq> nullptr \<and> IsAsync fm (inv_Symbol targets)
               then RecordCalleeEffects (inv_Symbol targets) True st else st
           | _ \<Rightarrow>
               if IsTaskOrTaskLike fm (fm_expression_type fm awaited)
               then update_summary (sum_MayThrow_update (\<lambda>_. True)) st else st,
      visitAwaited]"

definition VisitObjectCreationExpression_flow :: "ObjectTargets \<Rightarrow> flow_op \<Rightarrow> flow_op list \<Rightarrow> flow_op" where
  "VisitObjectCreationExpression_flow targets visitSize visitArguments = do_ops
     (RecordCalleeEffects (obj_CtorSymbol targets) False # visitSize # visitArguments)"

section \<open>Bodies\<close>

definition declare_parameters :: "flow_model \<Rightarrow> ptr \<Rightarrow> flow_op" where
  "declare_parameters fm symbol = do_ops (map (\<lambda>parameter. do_ops
     [DeclareSymbol (fm_Name fm parameter) (Declared parameter), MarkAssigned (variable_of fm (Declared parameter))])
     (fm_Parameters fm symbol))"

definition declare_this :: "flow_model \<Rightarrow> ptr \<Rightarrow> flow_op" where
  "declare_this fm symbol =
     (if fm_OwnerType fm symbol \<noteq> nullptr
      then DeclareSymbol (L ''this'') (ThisParameter (fm_OwnerType fm symbol)) else id)"

definition AnalyzeMemberBody :: "flow_model \<Rightarrow> ptr \<Rightarrow> flow_analysis \<Rightarrow> flow_op" where
  "AnalyzeMemberBody fm symbol analyzeBody st =
     (let wasAsync = fa_currentMethodIsAsync st;
          (bodyState, st) = analyzeBody (st\<lparr>fa_currentMethodIsAsync := IsAsync fm symbol\<rparr>);
          st = st\<lparr>fa_currentMethodIsAsync := wasAsync\<rparr>;
          returnType = me_ReturnType (fm_methods fm symbol)
      in if IsAsync fm symbol \<or> returnType = nullptr \<or> returnType = sem_Void (fm_sem fm) then st
         else if FlowNormal \<in> bodyState \<or> FlowBreaks \<in> bodyState \<or> FlowContinues \<in> bodyState
           then report_flow (MissingReturn returnType) st else st)"

definition in_member :: "ptr \<Rightarrow> flow_op list \<Rightarrow> flow_op" where
  "in_member symbol ops = do_ops ([EnterMemberBody symbol, PushScope] @ ops @ [PopScope, LeaveMemberBody symbol])"

definition VisitLambdaExpression_flow :: "flow_model \<Rightarrow> SyntaxNode \<Rightarrow> SyntaxNode \<Rightarrow> flow_analysis \<Rightarrow> flow_op" where
  "VisitLambdaExpression_flow fm node body analyzeBody =
     (let symbol = fm_lambda_method fm node in
      if body = NullNode \<or> symbol = nullptr then id
      else in_member symbol [declare_parameters fm symbol, AnalyzeMemberBody fm symbol analyzeBody])"

section \<open>Statements\<close>

fun AnalyzeStatements :: "flow_analysis list \<Rightarrow> FlowState \<Rightarrow> flow_analysis" where
  "AnalyzeStatements [] combined st = (combined, st)"
| "AnalyzeStatements (analyze # rest) combined st =
     (if IsTerminal combined
      then (combined, if fa_currentMethodIsAsync st then st else report_flow UnreachableCode st)
      else let (combined, st) = analyze st in AnalyzeStatements rest combined st)"

definition AnalyzeStatementsBlock :: "flow_analysis list \<Rightarrow> flow_analysis" where
  "AnalyzeStatementsBlock statements st = AnalyzeStatements statements {FlowNormal} st"

definition and_normal :: "flow_op \<Rightarrow> flow_analysis" where
  "and_normal op st = ({FlowNormal}, op st)"

definition AnalyzeLoopBody :: "flow_analysis \<Rightarrow> flow_op" where
  "AnalyzeLoopBody analyzeBody st =
     (let st' = snd (analyzeBody (st\<lparr>fa_loopDepth := fa_loopDepth st + 1\<rparr>))
      in st'\<lparr>fa_assignedVariables := fa_assignedVariables st, fa_loopDepth := fa_loopDepth st' - 1\<rparr>)"

definition VisitLoop :: "SyntaxNode \<Rightarrow> flow_op \<Rightarrow> flow_analysis \<Rightarrow> flow_op" where
  "VisitLoop block visitCondition analyzeBody =
     (if block = NullNode then id else do_ops [visitCondition, AnalyzeLoopBody analyzeBody])"

definition VisitForStatement_flow ::
  "SyntaxNode \<Rightarrow> flow_analysis \<Rightarrow> flow_op \<Rightarrow> flow_analysis \<Rightarrow> flow_analysis \<Rightarrow> flow_op" where
  "VisitForStatement_flow block analyzeInitializer visitCondition analyzeAfterRepeat analyzeBody =
     (if block = NullNode then id
      else do_ops [\<lambda>st. snd (analyzeInitializer st), visitCondition, AnalyzeLoopBody analyzeBody,
                   \<lambda>st. snd (analyzeAfterRepeat st)])"

definition VisitVariableStatement_flow :: "ptr \<Rightarrow> SyntaxNode \<Rightarrow> flow_op \<Rightarrow> flow_op" where
  "VisitVariableStatement_flow variable expression useExpression =
     (if variable = nullptr \<or> expression = NullNode then id else do_ops [useExpression, MarkAssigned variable])"

definition merge_analyses :: "flow_analysis \<Rightarrow> flow_analysis \<Rightarrow> flow_analysis" where
  "merge_analyses first second st =
     (let (a, st) = first st; (b, st) = second st in (MergeBranches a b, st))"

text \<open>A clause with a condition; a missing next clause is one that ends normally.\<close>

definition AnalyzeConditionalClause :: "flow_op \<Rightarrow> flow_analysis \<Rightarrow> flow_analysis \<Rightarrow> flow_analysis" where
  "AnalyzeConditionalClause scanCondition analyzeBlock analyzeNext st =
     merge_analyses analyzeBlock analyzeNext (scanCondition st)"

definition AnalyzeElseClause :: "flow_analysis \<Rightarrow> SyntaxNode \<Rightarrow> flow_analysis \<Rightarrow> flow_analysis" where
  "AnalyzeElseClause analyzeBlock nextStatement analyzeNext =
     (if nextStatement = NullNode then analyzeBlock else merge_analyses analyzeBlock analyzeNext)"

text \<open>A clause without a body is passed over.\<close>

fun switch_cases :: "(flow_op \<times> flow_analysis option) list \<Rightarrow> FlowState option \<Rightarrow> flow_analyzer \<Rightarrow> FlowState option \<times> flow_analyzer" where
  "switch_cases [] combined st = (combined, st)"
| "switch_cases ((scanPattern, None) # clauses) combined st = switch_cases clauses combined st"
| "switch_cases ((scanPattern, Some analyzeBody) # clauses) combined st =
     (let (bodyState, st) = analyzeBody (scanPattern st); caseState = WithoutBreaksAndContinues bodyState
      in switch_cases clauses
           (Some (case combined of None \<Rightarrow> caseState | Some state \<Rightarrow> MergeBranches state caseState)) st)"

definition AnalyzeSwitchStatement :: "flow_op \<Rightarrow> (flow_op \<times> flow_analysis option) list \<Rightarrow> flow_analysis" where
  "AnalyzeSwitchStatement scanExpression clauses st =
     (let st1 = scanExpression st;
          (combined, st2) = switch_cases clauses None (st1\<lparr>fa_switchDepth := fa_switchDepth st1 + 1\<rparr>)
      in (case combined of None \<Rightarrow> {FlowNormal} | Some state \<Rightarrow> state,
          st2\<lparr>fa_assignedVariables := fa_assignedVariables st1, fa_switchDepth := fa_switchDepth st2 - 1\<rparr>))"

record catch_clause =
  ctc_ExceptionType :: ptr
  ctc_Symbol :: ptr
  ctc_Body :: "flow_analysis option"

fun catch_states :: "flow_model \<Rightarrow> catch_clause list \<Rightarrow> FlowState option \<Rightarrow> flow_analyzer \<Rightarrow> FlowState option \<times> flow_analyzer" where
  "catch_states fm [] combined st = (combined, st)"
| "catch_states fm (clause # clauses) combined st =
     (case ctc_Body clause of
        None \<Rightarrow> catch_states fm clauses combined st
      | Some analyzeBody \<Rightarrow>
          let (clauseState, st) = analyzeBody (PushCatchException fm (ctc_ExceptionType clause) (MarkAssigned (ctc_Symbol clause) st))
          in catch_states fm clauses
               (Some (case combined of None \<Rightarrow> clauseState | Some state \<Rightarrow> MergeBranches state clauseState))
               (PopCatchException st))"

definition AnalyzeTryStatement :: "flow_model \<Rightarrow> SyntaxNode \<Rightarrow> flow_analysis \<Rightarrow> catch_clause list \<Rightarrow> flow_analysis" where
  "AnalyzeTryStatement fm tryBlock analyzeTry clauses st =
     (let guarded = (clauses \<noteq> [] \<and> tryBlock \<noteq> NullNode);
          (tryState, st) = analyzeTry (if guarded then PushTryCatch (map ctc_ExceptionType clauses) st else st);
          st = (if guarded then PopTryCatch st else st)
      in if clauses = [] then (tryState, st)
         else let (catchState, st) = catch_states fm clauses None st
              in (MergeBranches (WithoutThrows tryState) (case catchState of None \<Rightarrow> {FlowNormal} | Some state \<Rightarrow> state), st))"

definition AnalyzeBreak :: flow_analysis where
  "AnalyzeBreak st =
     ({FlowBreaks}, if fa_loopDepth st = 0 \<and> fa_switchDepth st = 0 then report_flow BreakOutside st else st)"

definition AnalyzeContinue :: flow_analysis where
  "AnalyzeContinue st = ({FlowContinues}, if fa_loopDepth st = 0 then report_flow ContinueOutside st else st)"

definition AnalyzeThrow :: "flow_model \<Rightarrow> SyntaxNode \<Rightarrow> flow_op \<Rightarrow> flow_analysis" where
  "AnalyzeThrow fm expression visitExpression st = ({FlowThrows}, record_throw fm expression (visitExpression st))"

end
