(* ===== verification/FlowTraversal.thy ===== *)
theory FlowTraversal
  imports FlowAnalysis
begin

text \<open>
  The dispatch of the flow analysis over the node classes, the members of a compilation unit, and the
  whole pass: \<^verbatim>\<open>FlowAnalyzer::Analyze\<close>. What a \<^verbatim>\<open>switch\<close> of the visitor does not list cannot stand at that
  place of a tree; the model passes over it.
\<close>

section \<open>Nodes\<close>

text \<open>
  What the analysis does with a node: visit it as an expression, visit it as a statement (the
  conditions of \<^verbatim>\<open>if\<close>), analyze it as a statement, a block or a clause, look for names it uses; and
  the parts of a node that the handler of its parent takes apart.
\<close>

record flow_node =
  fn_expression :: flow_op
  fn_visit :: flow_op
  fn_statement :: flow_analysis
  fn_block :: flow_analysis
  fn_chain :: flow_analysis
  fn_use :: flow_op
  fn_pattern :: flow_op
  fn_body :: "flow_analysis option"

definition passed_over :: flow_node where
  "passed_over =
     \<lparr>fn_expression = id, fn_visit = id, fn_statement = and_normal id, fn_block = and_normal id, fn_chain = and_normal id,
      fn_use = id, fn_pattern = id, fn_body = None\<rparr>"

abbreviation flow_expression :: "flow_op \<Rightarrow> flow_node" where
  "flow_expression visit \<equiv> passed_over\<lparr>fn_expression := visit\<rparr>"

abbreviation flow_statement :: "flow_op \<Rightarrow> flow_analysis \<Rightarrow> flow_node" where
  "flow_statement visit analyze \<equiv> passed_over\<lparr>fn_visit := visit, fn_statement := analyze\<rparr>"

abbreviation flow_loop :: "flow_op \<Rightarrow> flow_node" where
  "flow_loop visit \<equiv> flow_statement visit (and_normal visit)"

definition list_behind :: "'a list option \<Rightarrow> 'a list" where
  "list_behind xs = (case xs of None \<Rightarrow> [] | Some xs \<Rightarrow> xs)"

text \<open>The body of a clause, none when it is missing.\<close>

definition some_body :: "SyntaxNode \<Rightarrow> flow_analysis \<Rightarrow> flow_analysis option" where
  "some_body body analyze = (if body = NullNode then None else Some analyze)"

definition catch_clause_of :: "SyntaxNode \<times> flow_node \<Rightarrow> catch_clause list" where
  "catch_clause_of clause =
     (case fst clause of
        CatchClauseSyntax exceptionType variable body \<Rightarrow>
          [\<lparr>ctc_ExceptionType = exceptionType, ctc_Symbol = variable, ctc_Body = fn_body (snd clause)\<rparr>]
      | _ \<Rightarrow> [])"

primrec flow_of :: "flow_model \<Rightarrow> SyntaxNode \<Rightarrow> flow_node" where
  "flow_of fm NullNode = passed_over"
| "flow_of fm (LiteralExpressionSyntax token symbol) = passed_over"
| "flow_of fm (BinaryExpressionSyntax operator left right toOperator) =
     (flow_expression (VisitBinaryExpression_flow fm operator left (fn_expression (flow_of fm left)) (fn_expression (flow_of fm right))))
       \<lparr>fn_use := do_ops [fn_use (flow_of fm left), fn_use (flow_of fm right)]\<rparr>"
| "flow_of fm (UnaryExpressionSyntax operator operand isRightDetermined toOperator) = flow_expression
     (VisitUnaryExpression_flow fm operator operand (fn_expression (flow_of fm operand)))"
| "flow_of fm (AwaitExpressionSyntax expression) = flow_expression
     (VisitAwaitExpression_flow fm expression (fn_expression (flow_of fm expression)))"
| "flow_of fm (MemberAccessExpressionSyntax targets identifier previous) =
     passed_over\<lparr>fn_use := if previous = NullNode then use_name fm identifier else id\<rparr>"
| "flow_of fm (IndexatorExpressionSyntax targets identifier previous indices) = flow_expression
     (do_ops (list_behind (map_option (map (\<lambda>node. fn_expression (flow_of fm node))) indices)))"
| "flow_of fm (InvokationExpressionSyntax targets previous arguments) = flow_expression
     (VisitInvocationExpression_flow fm targets
       (list_behind (map_option (map (\<lambda>node. fn_expression (flow_of fm node))) arguments)))"
| "flow_of fm (ObjectExpressionSyntax targets arguments arraySize) = flow_expression
     (VisitObjectCreationExpression_flow targets (fn_expression (flow_of fm arraySize))
       (list_behind (map_option (map (\<lambda>node. fn_expression (flow_of fm node))) arguments)))"
| "flow_of fm (CollectionExpressionSyntax nodes symbol) = flow_expression
     (do_ops (map (\<lambda>node. fn_expression (flow_of fm node)) nodes))"
| "flow_of fm (RangeExpressionSyntax left right isInclusive) = flow_expression
     (do_ops [fn_expression (flow_of fm left), fn_expression (flow_of fm right)])"
| "flow_of fm (LambdaExpressionSyntax targets body) = flow_expression
     (VisitLambdaExpression_flow fm (LambdaExpressionSyntax targets body) body (fn_block (flow_of fm body)))"
| "flow_of fm TypeExpressionSyntax = passed_over"
| "flow_of fm (TernaryExpressionSyntax condition left right) = flow_expression
     (do_ops [fn_expression (flow_of fm condition), fn_expression (flow_of fm left), fn_expression (flow_of fm right)])"
| "flow_of fm (IfExpressionSyntax condition thenExpression elseExpression) = flow_expression
     (do_ops [fn_expression (flow_of fm condition), fn_expression (flow_of fm thenExpression),
              fn_expression (flow_of fm elseExpression)])"
| "flow_of fm (SwitchExpressionSyntax expression arms) = flow_expression
     (do_ops (fn_expression (flow_of fm expression) # map (\<lambda>arm. fn_pattern (flow_of fm arm)) arms))"
| "flow_of fm (SwitchArmSyntax token pattern expression) =
     passed_over\<lparr>fn_pattern := do_ops [fn_expression (flow_of fm pattern), fn_expression (flow_of fm expression)]\<rparr>"
| "flow_of fm (CastExpressionSyntax expression targetType toOperator isPrimitiveCast) = flow_expression
     (fn_expression (flow_of fm expression))"
| "flow_of fm (IsExpressionSyntax expression targetType) = flow_expression (fn_expression (flow_of fm expression))"
| "flow_of fm (IsPatternSyntax targetType variable) = passed_over"
| "flow_of fm (ExpressionStatementSyntax expression) = flow_statement (fn_expression (flow_of fm expression))
     (and_normal (do_ops [AnalyzeExpressionForAssignment fm expression, fn_use (flow_of fm expression),
        fn_expression (flow_of fm expression)]))"
| "flow_of fm (VariableStatementSyntax variable expression) =
     (let visit = VisitVariableStatement_flow variable expression (fn_use (flow_of fm expression))
      in flow_statement visit (and_normal (do_ops [fn_expression (flow_of fm expression), visit])))"
| "flow_of fm (ReturnStatementSyntax expression) = flow_statement (fn_expression (flow_of fm expression))
     (\<lambda>st. ({FlowReturns}, fn_expression (flow_of fm expression) st))"
| "flow_of fm (ThrowStatementSyntax expression) = flow_statement (fn_expression (flow_of fm expression))
     (AnalyzeThrow fm expression (fn_expression (flow_of fm expression)))"
| "flow_of fm (BreakStatementSyntax token) = flow_statement id AnalyzeBreak"
| "flow_of fm (ContinueStatementSyntax token) = flow_statement id AnalyzeContinue"
| "flow_of fm (WhileStatementSyntax condition block) = flow_loop
     (VisitLoop block (fn_expression (flow_of fm condition)) (fn_block (flow_of fm block)))"
| "flow_of fm (UntilStatementSyntax condition block) = flow_loop
     (VisitLoop block (fn_expression (flow_of fm condition)) (fn_block (flow_of fm block)))"
| "flow_of fm (ForStatementSyntax initializer condition afterRepeat block) = flow_loop
     (VisitForStatement_flow block (fn_statement (flow_of fm initializer)) (fn_expression (flow_of fm condition))
       (fn_statement (flow_of fm afterRepeat)) (fn_block (flow_of fm block)))"
| "flow_of fm (ForEachStatementSyntax variable rangeExpression block) = flow_loop
     (VisitLoop block (fn_expression (flow_of fm rangeExpression)) (fn_block (flow_of fm block)))"
| "flow_of fm (ForInStatementSyntax variable rangeExpression block) = flow_loop
     (VisitLoop block (fn_expression (flow_of fm rangeExpression)) (fn_block (flow_of fm block)))"
| "flow_of fm (IfStatementSyntax condition block next_clause) =
     (let chain = AnalyzeConditionalClause (fn_visit (flow_of fm condition)) (fn_block (flow_of fm block))
        (fn_chain (flow_of fm next_clause)) in passed_over\<lparr>fn_statement := chain, fn_chain := chain\<rparr>)"
| "flow_of fm (UnlessStatementSyntax condition block next_clause) =
     (let chain = AnalyzeConditionalClause (fn_visit (flow_of fm condition)) (fn_block (flow_of fm block))
        (fn_chain (flow_of fm next_clause)) in passed_over\<lparr>fn_statement := chain, fn_chain := chain\<rparr>)"
| "flow_of fm (ElseStatementSyntax block next_clause) =
     (let chain = AnalyzeElseClause (fn_block (flow_of fm block)) next_clause (fn_chain (flow_of fm next_clause))
      in passed_over\<lparr>fn_statement := chain, fn_chain := chain\<rparr>)"
| "flow_of fm (TryStatementSyntax tryBlock clauses) =
     passed_over\<lparr>fn_statement := AnalyzeTryStatement fm tryBlock (fn_block (flow_of fm tryBlock))
       (concat (map (\<lambda>clause. catch_clause_of (clause, flow_of fm clause)) clauses))\<rparr>"
| "flow_of fm (CatchClauseSyntax exceptionType variable body) =
     passed_over\<lparr>fn_body := some_body body (fn_block (flow_of fm body))\<rparr>"
| "flow_of fm (SwitchStatementSyntax expression clauses) =
     passed_over\<lparr>fn_statement := AnalyzeSwitchStatement (fn_expression (flow_of fm expression))
       (map (\<lambda>clause. (fn_pattern (flow_of fm clause), fn_body (flow_of fm clause))) clauses)\<rparr>"
| "flow_of fm (SwitchCaseClauseSyntax pattern body equalityOperator) =
     passed_over\<lparr>fn_pattern := fn_expression (flow_of fm pattern), fn_body := some_body body (fn_block (flow_of fm body))\<rparr>"
| "flow_of fm (DeferStatementSyntax token statement variable disposeMethod isResourceDefer) = flow_statement id
     (and_normal (\<lambda>st. snd (fn_statement (flow_of fm statement) st)))"
| "flow_of fm (StatementsBlockSyntax statements) =
     passed_over\<lparr>fn_block := AnalyzeStatementsBlock (map (\<lambda>statement. fn_statement (flow_of fm statement)) statements)\<rparr>"

definition AnalyzeStatement :: "flow_model \<Rightarrow> SyntaxNode \<Rightarrow> flow_analysis" where
  "AnalyzeStatement fm node = fn_statement (flow_of fm node)"

definition AnalyzeBlock :: "flow_model \<Rightarrow> SyntaxNode \<Rightarrow> flow_analysis" where
  "AnalyzeBlock fm node = fn_block (flow_of fm node)"

definition AnalyzeConditionalChain :: "flow_model \<Rightarrow> SyntaxNode \<Rightarrow> flow_analysis" where
  "AnalyzeConditionalChain fm node = fn_chain (flow_of fm node)"

definition ScanExpression :: "flow_model \<Rightarrow> SyntaxNode \<Rightarrow> flow_op" where
  "ScanExpression fm node = fn_expression (flow_of fm node)"

section \<open>Members\<close>

definition VisitMethodDeclaration_flow :: "flow_model \<Rightarrow> ptr \<Rightarrow> SyntaxNode \<Rightarrow> flow_op" where
  "VisitMethodDeclaration_flow fm symbol body =
     (if body = NullNode \<or> symbol = nullptr then id
      else in_member symbol
        [do_ops (map (\<lambda>p. DeclareSymbol (fm_Name fm p) (Declared p)) (me_TypeParameters (fm_methods fm symbol))),
         if me_Linking (fm_methods fm symbol) = LINK_INSTANCE then declare_this fm symbol else id,
         declare_parameters fm symbol, AnalyzeMemberBody fm symbol (AnalyzeBlock fm body)])"

definition VisitOperatorDeclaration_flow :: "flow_model \<Rightarrow> ptr \<Rightarrow> SyntaxNode \<Rightarrow> flow_op" where
  "VisitOperatorDeclaration_flow fm symbol body =
     (if body = NullNode \<or> symbol = nullptr then id
      else in_member symbol
        [if me_Linking (fm_methods fm symbol) = LINK_INSTANCE then declare_this fm symbol else id,
         declare_parameters fm symbol, AnalyzeMemberBody fm symbol (AnalyzeBlock fm body)])"

text \<open>Only a getter must return a value. \<open>fm_OwnerType\<close> of an accessor is the owner of its property.\<close>

definition VisitAccessorDeclaration_flow :: "flow_model \<Rightarrow> bool \<Rightarrow> ptr \<Rightarrow> SyntaxNode \<Rightarrow> flow_op" where
  "VisitAccessorDeclaration_flow fm isGetter symbol body =
     (if body = NullNode \<or> symbol = nullptr then id
      else in_member symbol
        [if me_Linking (fm_methods fm symbol) = LINK_INSTANCE then declare_this fm symbol else id,
         declare_parameters fm symbol,
         if isGetter then AnalyzeMemberBody fm symbol (AnalyzeBlock fm body) else (\<lambda>st. snd (AnalyzeBlock fm body st))])"

definition VisitConstructorDeclaration_flow :: "flow_model \<Rightarrow> ptr \<Rightarrow> SyntaxNode \<Rightarrow> flow_op" where
  "VisitConstructorDeclaration_flow fm symbol body =
     (if body = NullNode \<or> symbol = nullptr then id
      else in_member symbol
        [declare_this fm symbol, declare_parameters fm symbol, \<lambda>st. snd (AnalyzeBlock fm body st)])"

text \<open>
  The members that \<^verbatim>\<open>VisitMemberDeclaration\<close> tells apart, each with its symbol and what is visited in it.
  \<open>PlainDeclaration\<close> is a namespace or a delegate.
\<close>

datatype unit_member =
    PlainDeclaration
  | TypeWithMembers "unit_member list"
  | EnumWithFields "SyntaxNode list"
  | FieldWithInitializer SyntaxNode
  | MethodWithBody ptr SyntaxNode
  | OperatorWithBody ptr SyntaxNode
  | ConstructorWithBody ptr SyntaxNode
  | AccessorWithBody bool ptr SyntaxNode
  | PropertyWithAccessors unit_member unit_member SyntaxNode
  | IndexatorWithAccessors unit_member unit_member

primrec VisitMemberDeclaration :: "flow_model \<Rightarrow> unit_member \<Rightarrow> flow_op" where
  "VisitMemberDeclaration fm PlainDeclaration = id"
| "VisitMemberDeclaration fm (TypeWithMembers members) = do_ops (map (VisitMemberDeclaration fm) members)"
| "VisitMemberDeclaration fm (EnumWithFields initializers) = do_ops (map (ScanExpression fm) initializers)"
| "VisitMemberDeclaration fm (FieldWithInitializer initializer) = ScanExpression fm initializer"
| "VisitMemberDeclaration fm (MethodWithBody symbol body) = VisitMethodDeclaration_flow fm symbol body"
| "VisitMemberDeclaration fm (OperatorWithBody symbol body) = VisitOperatorDeclaration_flow fm symbol body"
| "VisitMemberDeclaration fm (ConstructorWithBody symbol body) = VisitConstructorDeclaration_flow fm symbol body"
| "VisitMemberDeclaration fm (AccessorWithBody isGetter symbol body) = VisitAccessorDeclaration_flow fm isGetter symbol body"
| "VisitMemberDeclaration fm (PropertyWithAccessors getter setter initializer) =
     do_ops [VisitMemberDeclaration fm getter, VisitMemberDeclaration fm setter, ScanExpression fm initializer]"
| "VisitMemberDeclaration fm (IndexatorWithAccessors getter setter) =
     do_ops [VisitMemberDeclaration fm getter, VisitMemberDeclaration fm setter]"

text \<open>\<^verbatim>\<open>FlowAnalyzer::FlowAnalyzer\<close>, on the summaries the symbols have.\<close>

definition FlowAnalyzer :: "summaries \<Rightarrow> flow_analyzer" where
  "FlowAnalyzer S =
     \<lparr>fa_assignedVariables = {}, fa_loopDepth = 0, fa_switchDepth = 0, fa_currentMethodIsAsync = False,
      fa_currentMethod = nullptr, fa_tryCatchStack = [], fa_catchExceptionStack = [], fa_effectiveCaughtTypes = [],
      fa_catchAllDepth = 0, fa_callGraph = [], fa_summaries = S, fa_EffectsComputed = (\<lambda>_. False), fa_scopes = [],
      fa_Diagnostics = []\<rparr>"

text \<open>The compilation units are lists of members. \<open>None\<close> would be a propagation that does not end.\<close>

definition Analyze :: "flow_model \<Rightarrow> unit_member list list \<Rightarrow> flow_analyzer \<Rightarrow> flow_analyzer option" where
  "Analyze fm units st =
     (let st = do_ops (map (VisitMemberDeclaration fm) (concat units)) st; graph = fa_callGraph st in
      map_option (\<lambda>S. st\<lparr>fa_summaries := S,
          fa_EffectsComputed := (\<lambda>m. (m \<noteq> nullptr \<and> m \<in> fst ` set graph) \<or> fa_EffectsComputed st m),
          fa_Diagnostics := fa_Diagnostics st @ map EffectWarning (ReportEffectDiagnostics (fm_effects fm) graph S)\<rparr>)
        (PropagateEffects (fm_effects fm) graph (fa_summaries st)))"

end
