(* ===== verification/Runtime.thy ===== *)
theory Runtime
  imports Symbols
begin

text \<open>
  The state every part of the runtime works on, and the operations on raw memory.

  Memory is a function from addresses to bytes; a pointer to data is a natural number below
  \<open>2 ^ 64\<close>, \<^verbatim>\<open>nullptr\<close> is zero. The engine obtains memory from an allocator that is not part of it
  (\<^verbatim>\<open>mimalloc\<close>, or \<^verbatim>\<open>malloc\<close>): it is the parameter \<open>img_alloc\<close>, a function of the live blocks and
  the requested size, with the law \<open>allocator_ok\<close> below.

  What a run cannot change is the record \<open>image\<close>: the symbols, the resolved type shapes, the data
  section, and the functions of the platform (allocator, floating point, native methods). What it
  changes is the record \<open>vm\<close>: memory, the collector's tables, the frames and the call stack.

  An operation may return, throw a C++ exception (the state it leaves behind is kept: the engine
  catches some of them), run into undefined behaviour of C++, such as a dereferenced null pointer,
  or exceed the recursion depth it was given.
\<close>

section \<open>Outcomes\<close>

datatype cpp_exception =
    runtime_error string
  | runtime_exception string
  | typed_exception ptr string
  | undefined_behaviour string
  | out_of_range string
  | invalid_argument string

text \<open>
  Messages are the literals of the source; the parts computed from names or numbers are left out.
  A \<^verbatim>\<open>runtime_exception\<close> that names the script class to raise is a \<open>typed_exception\<close>; only native
  methods throw it.
\<close>

datatype ('a, 's) outcome = Ret 'a 's | Throw cpp_exception 's | Undefined | OutOfFuel

definition return_vm :: "'a \<Rightarrow> 's \<Rightarrow> ('a, 's) outcome" where
  "return_vm x s = Ret x s"

definition throw_vm :: "cpp_exception \<Rightarrow> 's \<Rightarrow> ('a, 's) outcome" where
  "throw_vm e s = Throw e s"

definition crash_vm :: "'s \<Rightarrow> ('a, 's) outcome" where
  "crash_vm s = Undefined"

definition andThen ::
  "('s \<Rightarrow> ('a, 's) outcome) \<Rightarrow> ('a \<Rightarrow> 's \<Rightarrow> ('b, 's) outcome) \<Rightarrow> 's \<Rightarrow> ('b, 's) outcome" where
  "andThen m f s =
     (case m s of Ret x t \<Rightarrow> f x t | Throw e t \<Rightarrow> Throw e t | Undefined \<Rightarrow> Undefined | OutOfFuel \<Rightarrow> OutOfFuel)"

definition get_vm :: "('s \<Rightarrow> 'a) \<Rightarrow> 's \<Rightarrow> ('a, 's) outcome" where
  "get_vm f s = Ret (f s) s"

definition modify_vm :: "('s \<Rightarrow> 's) \<Rightarrow> 's \<Rightarrow> (unit, 's) outcome" where
  "modify_vm f s = Ret () (f s)"

fun forEach :: "('a \<Rightarrow> 's \<Rightarrow> (unit, 's) outcome) \<Rightarrow> 'a list \<Rightarrow> 's \<Rightarrow> (unit, 's) outcome" where
  "forEach f [] s = Ret () s"
| "forEach f (x # xs) s = andThen (f x) (\<lambda>_. forEach f xs) s"

lemma return_vm_apply [simp]: "return_vm x s = Ret x s"
  by (simp add: return_vm_def)

lemma throw_vm_apply [simp]: "throw_vm e s = Throw e s"
  by (simp add: throw_vm_def)

lemma crash_vm_apply [simp]: "crash_vm s = Undefined"
  by (simp add: crash_vm_def)

lemma get_vm_apply [simp]: "get_vm f s = Ret (f s) s"
  by (simp add: get_vm_def)

lemma modify_vm_apply [simp]: "modify_vm g s = Ret () (g s)"
  by (simp add: modify_vm_def)

lemma andThen_Ret: "m s = Ret x t \<Longrightarrow> andThen m f s = f x t"
  by (simp add: andThen_def)

lemma andThen_return [simp]: "andThen (return_vm x) f = f x"
  by (simp add: andThen_def fun_eq_iff)

lemma andThen_get [simp]: "andThen (get_vm g) f s = f (g s) s"
  by (simp add: andThen_def)

lemma andThen_modify [simp]: "andThen (modify_vm h) f s = f () (h s)"
  by (simp add: andThen_def)

lemma andThen_throw [simp]: "andThen (throw_vm e) f s = Throw e s"
  by (simp add: andThen_def)

lemma andThen_crash [simp]: "andThen crash_vm f s = Undefined"
  by (simp add: andThen_def)

lemma andThen_if [simp]: "andThen (if b then m else n) f = (if b then andThen m f else andThen n f)"
  by simp

lemma andThen_assoc: "andThen (andThen m f) g = andThen m (\<lambda>x. andThen (f x) g)"
  by (rule ext) (simp add: andThen_def split: outcome.split)

lemma forEach_append:
  "forEach f (xs @ ys) s = andThen (forEach f xs) (\<lambda>_. forEach f ys) s"
  by (induction xs arbitrary: s) (auto simp: andThen_def split: outcome.split)

section \<open>Memory\<close>

type_synonym memory = "nat \<Rightarrow> u8"

definition read_bytes :: "memory \<Rightarrow> nat \<Rightarrow> nat \<Rightarrow> bytes" where
  "read_bytes m a n = map m [a..<a + n]"

definition write_bytes :: "memory \<Rightarrow> nat \<Rightarrow> bytes \<Rightarrow> memory" where
  "write_bytes m a bs = (\<lambda>x. if a \<le> x \<and> x < a + length bs then bs ! (x - a) else m x)"

definition read_word :: "memory \<Rightarrow> nat \<Rightarrow> 'a::len word" where
  "read_word m a = of_nat (bytes_nat (read_bytes m a (sizeof TYPE('a))))"

definition write_word :: "memory \<Rightarrow> nat \<Rightarrow> 'a::len word \<Rightarrow> memory" where
  "write_word m a w = write_bytes m a (word_bytes w)"

definition read_ptr :: "memory \<Rightarrow> nat \<Rightarrow> nat" where
  "read_ptr m a = unat (read_word m a :: u64)"

definition write_ptr :: "memory \<Rightarrow> nat \<Rightarrow> nat \<Rightarrow> memory" where
  "write_ptr m a p = write_word m a (of_nat p :: u64)"

text \<open>\<open>apart a n b k\<close>: the ranges of \<open>n\<close> bytes at \<open>a\<close> and of \<open>k\<close> bytes at \<open>b\<close> do not meet.\<close>

definition apart :: "nat \<Rightarrow> nat \<Rightarrow> nat \<Rightarrow> nat \<Rightarrow> bool" where
  "apart a n b k \<longleftrightarrow> a + n \<le> b \<or> b + k \<le> a"

lemma length_read_bytes [simp]: "length (read_bytes m a n) = n"
  by (simp add: read_bytes_def)

lemma read_bytes_0 [simp]: "read_bytes m a 0 = []"
  by (simp add: read_bytes_def)

lemma read_bytes_add: "read_bytes m a (n + k) = read_bytes m a n @ read_bytes m (a + n) k"
proof -
  have "[a..<a + (n + k)] = [a..<a + n] @ [a + n..<a + n + k]"
    by (metis add.assoc upt_add_eq_append le_add1)
  then show ?thesis by (simp add: read_bytes_def)
qed

lemma write_bytes_Nil [simp]: "write_bytes m a [] = m"
  by (rule ext) (auto simp: write_bytes_def)

lemma read_write_same: "length bs = n \<Longrightarrow> read_bytes (write_bytes m a bs) a n = bs"
  by (rule nth_equalityI) (auto simp: read_bytes_def write_bytes_def)

lemma read_write_inside:
  "a \<le> b \<Longrightarrow> b + n \<le> a + length bs \<Longrightarrow>
     read_bytes (write_bytes m a bs) b n = take n (drop (b - a) bs)"
  by (rule nth_equalityI) (auto simp: read_bytes_def write_bytes_def)

lemma read_write_apart:
  "apart a (length bs) b n \<Longrightarrow> read_bytes (write_bytes m a bs) b n = read_bytes m b n"
  by (auto simp: read_bytes_def write_bytes_def apart_def)

lemma write_bytes_at:
  "write_bytes m a bs x = (if a \<le> x \<and> x < a + length bs then bs ! (x - a) else m x)"
  by (simp add: write_bytes_def)

lemma read_bytes_cong:
  "(\<And>x. a \<le> x \<Longrightarrow> x < a + n \<Longrightarrow> m x = m' x) \<Longrightarrow> read_bytes m a n = read_bytes m' a n"
  by (auto simp: read_bytes_def)

lemma read_bytes_eqD:
  "read_bytes m a n = read_bytes m' a n \<Longrightarrow> a \<le> x \<Longrightarrow> x < a + n \<Longrightarrow> m x = m' x"
  by (auto simp: read_bytes_def)

lemma read_word_same:
  "8 dvd LENGTH('a::len) \<Longrightarrow> read_word (write_word m a w) a = (w :: 'a word)"
  by (simp add: read_word_def write_word_def read_write_same bytes_nat_word)

lemma read_word_apart:
  "apart a (length bs) b (sizeof TYPE('a::len)) \<Longrightarrow>
     read_word (write_bytes m a bs) b = (read_word m b :: 'a word)"
  by (simp add: read_word_def read_write_apart)

lemma read_word_bytes:
  "read_bytes m a (sizeof TYPE('a)) = word_bytes w \<Longrightarrow> 8 dvd LENGTH('a::len) \<Longrightarrow>
     read_word m a = (w :: 'a word)"
  by (simp add: read_word_def bytes_nat_word)

lemma read_ptr_same [simp]: "p < 2 ^ 64 \<Longrightarrow> read_ptr (write_ptr m a p) a = p"
  by (simp add: read_ptr_def write_ptr_def read_word_same unat_of_nat)

text \<open>Every write of the runtime is a \<open>write_bytes\<close>; these unfold the others to it.\<close>

lemmas write_defs = write_word_def write_ptr_def

section \<open>Primitive types and floating point\<close>

record Primitives =
  pr_Void :: ptr
  pr_Null :: ptr
  pr_Any :: ptr
  pr_Boolean :: ptr
  pr_Integer :: ptr
  pr_Double :: ptr
  pr_Char :: ptr
  pr_String :: ptr
  pr_Array :: ptr
  pr_NativeInteger :: ptr
  pr_Byte :: ptr

text \<open>
  Floating point is the platform's: a \<^verbatim>\<open>double\<close> is its bit pattern and the operations the engine
  uses are functions on patterns. The conversion to an integer has no value when the result does
  not fit, which C++ leaves undefined.
\<close>

record double_ops =
  dbl_add :: "u64 \<Rightarrow> u64 \<Rightarrow> u64"
  dbl_sub :: "u64 \<Rightarrow> u64 \<Rightarrow> u64"
  dbl_mul :: "u64 \<Rightarrow> u64 \<Rightarrow> u64"
  dbl_div :: "u64 \<Rightarrow> u64 \<Rightarrow> u64"
  dbl_fmod :: "u64 \<Rightarrow> u64 \<Rightarrow> u64"
  dbl_pow :: "u64 \<Rightarrow> u64 \<Rightarrow> u64"
  dbl_neg :: "u64 \<Rightarrow> u64"
  dbl_eq :: "u64 \<Rightarrow> u64 \<Rightarrow> bool"
  dbl_less :: "u64 \<Rightarrow> u64 \<Rightarrow> bool"
  dbl_of_int :: "u64 \<Rightarrow> u64"
  dbl_to_int :: "u64 \<Rightarrow> u64 option"
  dbl_format :: "u64 \<Rightarrow> wstring"

section \<open>Machine state\<close>

record ObjectInstance =
  m_shape :: ptr
  m_rawMemoryPtr :: nat

abbreviation null_instance :: ObjectInstance where
  "null_instance \<equiv> \<lparr>m_shape = nullptr, m_rawMemoryPtr = 0\<rparr>"

datatype FrameInterruptionReason = NoReason | EndOfInstructions | ValueReturned | ExceptionRaised

text \<open>
  Frames are held by \<^verbatim>\<open>std::shared_ptr\<close>, on the call stack and in the records of tasks; \<open>fr_UseCount\<close>
  is its count of owners.
\<close>

record CallStackFrame =
  fr_ReturnSlot :: nat
  fr_ReturnSlotShape :: ptr
  fr_LocalSlots :: "(ptr \<times> nat) list"
  fr_LocalRegionEnd :: nat
  fr_EvalEntries :: nat
  fr_EvalCapacityBytes :: nat
  fr_EvalCursorBytes :: nat
  fr_EvalOffsets :: "nat list"
  fr_PreviousFrame :: nat
  fr_Method :: ptr
  fr_Arena :: nat
  fr_ArenaBytes :: nat
  fr_TypeArguments :: "ptr list"
  fr_ExceptionHandlers :: "(nat \<times> nat) list"
  fr_PendingTaskCount :: nat
  fr_DeferStack :: "nat list"
  fr_DeferDrainDepth :: nat
  fr_InterruptionReason :: FrameInterruptionReason
  fr_CurrentException :: ObjectInstance
  fr_UseCount :: nat

record AsyncRecord =
  ar_IsTaskLike :: bool
  ar_IsFireAndForget :: bool
  ar_FrameOwner :: nat
  ar_NativeState :: nat

text \<open>
  The vectors of a frame grow and shrink at their end, and are lists with the same end last.
  \<open>vm_frames\<close> holds the frames by the address of their block, and \<open>vm_CallStack\<close> the addresses of
  the frames on the stack, the current one last.
\<close>

record vm =
  vm_memory :: memory
  vm_blocks :: "(nat \<times> nat) list"
  vm_Heap :: "nat set"
  vm_staticFields :: "ptr \<Rightarrow> nat option"
  vm_internedStrings :: "nat \<Rightarrow> nat option"
  vm_asyncTable :: "nat \<Rightarrow> AsyncRecord option"
  vm_frames :: "nat \<Rightarrow> CallStackFrame"
  vm_CallStack :: "nat list"
  vm_AbortFlag :: bool
  vm_PendingTypeArguments :: "ptr list"
  vm_UnhandledException :: ObjectInstance
  vm_rootedTasks :: "ObjectInstance list"

type_synonym 'a vm_op = "vm \<Rightarrow> ('a, vm) outcome"

definition set_memory :: "(memory \<Rightarrow> memory) \<Rightarrow> vm \<Rightarrow> vm" where
  "set_memory g s = s\<lparr>vm_memory := g (vm_memory s)\<rparr>"

definition set_frame :: "nat \<Rightarrow> (CallStackFrame \<Rightarrow> CallStackFrame) \<Rightarrow> vm \<Rightarrow> vm" where
  "set_frame f g s = s\<lparr>vm_frames := (vm_frames s)(f := g (vm_frames s f))\<rparr>"

lemma set_memory_simps [simp]:
  "vm_memory (set_memory g s) = g (vm_memory s)" "vm_blocks (set_memory g s) = vm_blocks s"
  "vm_Heap (set_memory g s) = vm_Heap s" "vm_frames (set_memory g s) = vm_frames s"
  "vm_CallStack (set_memory g s) = vm_CallStack s" "vm_AbortFlag (set_memory g s) = vm_AbortFlag s"
  by (simp_all add: set_memory_def)

lemma set_frame_simps [simp]:
  "vm_memory (set_frame f h s) = vm_memory s" "vm_blocks (set_frame f h s) = vm_blocks s"
  "vm_Heap (set_frame f h s) = vm_Heap s"
  "vm_CallStack (set_frame f h s) = vm_CallStack s" "vm_AbortFlag (set_frame f h s) = vm_AbortFlag s"
  "vm_frames (set_frame f h s) f = h (vm_frames s f)"
  "f \<noteq> f' \<Longrightarrow> vm_frames (set_frame f h s) f' = vm_frames s f'"
  by (simp_all add: set_frame_def)

section \<open>Program image\<close>

text \<open>
  Questions about symbols that the machine asks the semantic model and the symbol classes
  (\<^verbatim>\<open>SemanticModel::IsAssignableTo\<close>, \<^verbatim>\<open>FindInterfaceImplementation\<close>, \<^verbatim>\<open>FindOperator\<close> and the like):
  pure functions of the symbol graph, and parameters of this model. A null pointer is "not found".
\<close>

record symbol_queries =
  q_IsAssignableTo :: "ptr \<Rightarrow> ptr \<Rightarrow> bool"
  q_FindInterfaceImplementation :: "ptr \<Rightarrow> ptr \<Rightarrow> ptr"
  q_FindOperator :: "ptr \<Rightarrow> TokenType \<Rightarrow> ptr list \<Rightarrow> ptr"
  q_DelegateMethod :: "ptr \<Rightarrow> ptr"
  q_AnonymousSymbol :: "ptr \<Rightarrow> ptr"
  q_ResolveRuntimeTypeArgument :: "ptr list \<Rightarrow> ptr \<Rightarrow> ptr"
  q_TryResolveGenericArguments :: "ptr list \<Rightarrow> ptr \<Rightarrow> (ptr \<times> ptr list) option"
  q_ThrowableSlot :: "ptr \<Rightarrow> bool \<Rightarrow> nat option"
  q_TaskStateSlot :: "ptr \<Rightarrow> nat option"
  q_TaskExceptionSlot :: "ptr \<Rightarrow> nat option"
  q_RuntimeExceptionSlots :: "nat \<times> nat"
  q_Constructors :: "ptr \<Rightarrow> ptr list"
  q_RuntimeException :: ptr
  q_UndefinedBehaviour :: ptr
  q_FullName :: "ptr \<Rightarrow> wstring"

record image =
  img_types :: "ptr \<Rightarrow> TypeSymbol"
  img_methods :: "ptr \<Rightarrow> MethodSymbol"
  img_fields :: "ptr \<Rightarrow> FieldSymbol"
  img_shapes :: "ptr \<Rightarrow> TypeShape"
  img_GetOrCreateShape :: "ptr \<Rightarrow> ptr list \<Rightarrow> ptr"
  img_Primitives :: Primitives
  img_alloc :: "(nat \<times> nat) list \<Rightarrow> nat \<Rightarrow> nat"
  img_double :: double_ops
  img_sizeof_CallStackFrame :: nat
  img_DataAddress :: nat
  img_query :: symbol_queries
  img_native :: "ptr \<Rightarrow> nat \<Rightarrow> vm \<Rightarrow> (unit, vm) outcome"
  img_halt_scope :: "nat \<Rightarrow> vm \<Rightarrow> (unit, vm) outcome"
  img_frame_object :: "CallStackFrame \<Rightarrow> nat \<Rightarrow> u8"

abbreviation Primitive_Integer :: "image \<Rightarrow> ptr" where
  "Primitive_Integer img \<equiv> pr_Integer (img_Primitives img)"

section \<open>The allocator\<close>

text \<open>
  \<^verbatim>\<open>AllocateZeroedBytes\<close>, \<^verbatim>\<open>AllocateBytes\<close> and \<^verbatim>\<open>FreeBytes\<close> of \<^verbatim>\<open>runtime/Allocator.hpp\<close>. A failed allocation gives
  the null address.
\<close>

definition AllocateZeroedBytes :: "image \<Rightarrow> nat \<Rightarrow> nat vm_op" where
  "AllocateZeroedBytes img bytes_size s =
     (let a = img_alloc img (vm_blocks s) bytes_size in
      if a = 0 then Ret 0 s
      else Ret a (s\<lparr>vm_memory := write_bytes (vm_memory s) a (replicate bytes_size 0),
                    vm_blocks := (a, bytes_size) # vm_blocks s\<rparr>))"

definition AllocateBytes :: "image \<Rightarrow> nat \<Rightarrow> nat vm_op" where
  "AllocateBytes img bytes_size s =
     (let a = img_alloc img (vm_blocks s) bytes_size in
      if a = 0 then Ret 0 s else Ret a (s\<lparr>vm_blocks := (a, bytes_size) # vm_blocks s\<rparr>))"

definition FreeBytes :: "nat \<Rightarrow> unit vm_op" where
  "FreeBytes a s = Ret () (s\<lparr>vm_blocks := filter (\<lambda>b. fst b \<noteq> a) (vm_blocks s)\<rparr>)"

text \<open>
  What is relied on: a block that is handed out lies in the address space, is apart from every
  live block and has an address of its own.
\<close>

definition allocator_ok :: "image \<Rightarrow> bool" where
  "allocator_ok img \<longleftrightarrow>
     (\<forall>blocks bytes_size. let a = img_alloc img blocks bytes_size in
        a \<noteq> 0 \<longrightarrow> a + bytes_size < 2 ^ 64 \<and> list_all (\<lambda>(b, k). b \<noteq> a \<and> apart a bytes_size b k) blocks)"

text \<open>An allocator that always takes the space after the highest live block, for the witnesses.\<close>

definition bump_alloc :: "(nat \<times> nat) list \<Rightarrow> nat \<Rightarrow> nat" where
  "bump_alloc blocks bytes_size =
     (let a = fold (\<lambda>(b, k) top. max (b + k + 1) top) blocks 4096 in
      if a + bytes_size < 2 ^ 64 then a else 0)"

lemma bump_alloc_above:
  fixes b k t :: nat
  shows "(b, k) \<in> set blocks \<Longrightarrow> b + k < fold (\<lambda>(b, k) top. max (b + k + 1) top) blocks t"
proof (induction blocks arbitrary: t)
  case (Cons x blocks)
  have mono: "t' \<le> fold (\<lambda>(b, k) top. max (b + k + 1) top) blocks t'" for t' :: nat
    by (induction blocks arbitrary: t') (auto intro: order.trans [OF max.cobounded2])
  show ?case
  proof (cases "x = (b, k)")
    case True
    then show ?thesis using mono [of "max (b + k + 1) t"] by simp
  next
    case False
    with Cons show ?thesis by auto
  qed
qed simp

lemma bump_alloc_apart:
  assumes "(b, k) \<in> set blocks" "bump_alloc blocks n \<noteq> 0"
  shows "b \<noteq> bump_alloc blocks n \<and> apart (bump_alloc blocks n) n b k"
  using bump_alloc_above [OF assms(1), of 4096] assms(2)
  by (auto simp: bump_alloc_def Let_def apart_def split: if_splits)

lemma bump_allocator_ok: "img_alloc img = bump_alloc \<Longrightarrow> allocator_ok img"
  using bump_alloc_apart
  by (fastforce simp: allocator_ok_def list_all_iff Let_def bump_alloc_def split: if_splits)

end
