(* ===== verification/ObjectInstances.thy ===== *)
theory ObjectInstances
  imports Runtime
begin

text \<open>
  Views of values: \<^verbatim>\<open>include/shard/runtime/ObjectInstance.hpp\<close> and
  \<^verbatim>\<open>src/runtime/ObjectInstance.cpp\<close>. An \<^verbatim>\<open>ObjectInstance\<close> is a shape and an address; the address
  is the payload of a block of the collector, behind a header, or bytes inside a frame or another
  object. The lemmas show what a write through one view does to the others.
\<close>

section \<open>The collector's header\<close>

text \<open>\<^verbatim>\<open>GcHeader\<close>: magic, shape and counter of 8 bytes each, the flag, and padding to 32 bytes.\<close>

definition sizeof_GcHeader :: nat where
  "sizeof_GcHeader = 32"

definition GcMagic :: u64 where
  "GcMagic = 0x5348415244474348"

definition getGcHeader :: "memory \<Rightarrow> ObjectInstance \<Rightarrow> nat option" where
  "getGcHeader m v =
     (if m_rawMemoryPtr v = 0 then None
      else let header = m_rawMemoryPtr v - sizeof_GcHeader in
        if read_word m header = GcMagic then Some header else None)"

definition hdr_Shape :: "memory \<Rightarrow> nat \<Rightarrow> ptr" where
  "hdr_Shape m header = read_word m (header + 8)"

definition hdr_ReferencesCounter :: "memory \<Rightarrow> nat \<Rightarrow> u64" where
  "hdr_ReferencesCounter m header = read_word m (header + 16)"

definition hdr_Terminated :: "memory \<Rightarrow> nat \<Rightarrow> bool" where
  "hdr_Terminated m header \<longleftrightarrow> m (header + 24) \<noteq> 0"

definition IsHeapBacked :: "memory \<Rightarrow> ObjectInstance \<Rightarrow> bool" where
  "IsHeapBacked m v \<longleftrightarrow> getGcHeader m v \<noteq> None"

definition IsNullInstance :: "ObjectInstance \<Rightarrow> bool" where
  "IsNullInstance v \<longleftrightarrow> m_rawMemoryPtr v = 0"

definition getReferencesCounter :: "memory \<Rightarrow> ObjectInstance \<Rightarrow> u64" where
  "getReferencesCounter m v =
     (case getGcHeader m v of None \<Rightarrow> 0 | Some header \<Rightarrow> hdr_ReferencesCounter m header)"

definition IncrementReference :: "ObjectInstance \<Rightarrow> unit vm_op" where
  "IncrementReference v s =
     (case getGcHeader (vm_memory s) v of
        None \<Rightarrow> Ret () s
      | Some header \<Rightarrow>
          Ret () (set_memory (\<lambda>m. write_word m (header + 16) (hdr_ReferencesCounter m header + 1)) s))"

definition DecrementReference :: "ObjectInstance \<Rightarrow> unit vm_op" where
  "DecrementReference v s =
     (case getGcHeader (vm_memory s) v of
        None \<Rightarrow> Ret () s
      | Some header \<Rightarrow>
          if 0 <s hdr_ReferencesCounter (vm_memory s) header
          then Ret () (set_memory (\<lambda>m. write_word m (header + 16) (hdr_ReferencesCounter m header - 1)) s)
          else Ret () s)"

section \<open>Shape and type of a view\<close>

text \<open>\<^verbatim>\<open>getInfo\<close> dereferences the shape without a check.\<close>

definition getInfo :: "image \<Rightarrow> ObjectInstance \<Rightarrow> ptr vm_op" where
  "getInfo img v s =
     (if m_shape v = nullptr then Undefined else Ret (shp_BaseType (img_shapes img (m_shape v))) s)"

definition shape_IsReferenceType :: "image \<Rightarrow> ptr \<Rightarrow> bool" where
  "shape_IsReferenceType img shape \<longleftrightarrow>
     IsReferenceType (img_types img (shp_BaseType (img_shapes img shape)))"

definition shape_Kind :: "image \<Rightarrow> ptr \<Rightarrow> SyntaxKind" where
  "shape_Kind img shape = ty_Kind (img_types img (shp_BaseType (img_shapes img shape)))"

section \<open>Bounded access\<close>

definition GetArrayLength :: "image \<Rightarrow> ObjectInstance \<Rightarrow> nat vm_op" where
  "GetArrayLength img v =
     andThen (getInfo img v) (\<lambda>info.
       if ty_Kind (img_types img info) \<noteq> TypeK ArrayType
       then throw_vm (runtime_exception ''Tried to get element from non array instance'')
       else get_vm (\<lambda>s. unat (read_word (vm_memory s) (m_rawMemoryPtr v) :: u64)))"

definition ArrayHeaderSize :: "image \<Rightarrow> nat" where
  "ArrayHeaderSize img = ty_MemoryBytesSize (img_types img (pr_Array (img_Primitives img)))"

text \<open>The size that \<^verbatim>\<open>OffsetMemory\<close>, \<^verbatim>\<open>ReadMemory\<close> and \<^verbatim>\<open>WriteMemory\<close> check against.\<close>

definition instanceSize :: "image \<Rightarrow> ObjectInstance \<Rightarrow> nat vm_op" where
  "instanceSize img v =
     andThen (getInfo img v) (\<lambda>info.
       if ty_Kind (img_types img info) = TypeK ArrayType
       then andThen (GetArrayLength img v) (\<lambda>len.
              return_vm (ArrayHeaderSize img
                + GetInlineSize (img_types img (ty_UnderlayingType (img_types img info))) * len))
       else return_vm (shp_Size (img_shapes img (m_shape v))))"

definition OffsetMemory :: "image \<Rightarrow> ObjectInstance \<Rightarrow> nat \<Rightarrow> nat \<Rightarrow> nat vm_op" where
  "OffsetMemory img v offset n =
     (if n = 0 then throw_vm (out_of_range ''Cannot read 0 bytes'')
      else andThen (instanceSize img v) (\<lambda>limit.
        if offset + n > limit then throw_vm (out_of_range ''out of instance's memory range'')
        else return_vm (m_rawMemoryPtr v + offset)))"

definition ReadMemory :: "image \<Rightarrow> ObjectInstance \<Rightarrow> nat \<Rightarrow> nat \<Rightarrow> bytes vm_op" where
  "ReadMemory img v offset n =
     (if n = 0 then throw_vm (out_of_range ''Cannot read 0 bytes'')
      else andThen (instanceSize img v) (\<lambda>limit.
        if offset + n > limit then throw_vm (out_of_range ''out of instance's memory range'')
        else get_vm (\<lambda>s. read_bytes (vm_memory s) (m_rawMemoryPtr v + offset) n)))"

text \<open>
  \<^verbatim>\<open>WriteMemory\<close> copies from a source address, null when the source is. The bytes to write are
  passed instead, \<open>None\<close> for a null source.
\<close>

definition WriteMemory :: "image \<Rightarrow> ObjectInstance \<Rightarrow> nat \<Rightarrow> bytes option \<Rightarrow> unit vm_op" where
  "WriteMemory img v offset src =
     (case src of
        None \<Rightarrow> throw_vm (invalid_argument ''Source is nullptr'')
      | Some bs \<Rightarrow>
          if bs = [] then throw_vm (out_of_range ''Cannot read 0 bytes'')
          else andThen (instanceSize img v) (\<lambda>limit.
            if offset + length bs > limit then throw_vm (out_of_range ''out of instance's memory range'')
            else modify_vm (set_memory (\<lambda>m. write_bytes m (m_rawMemoryPtr v + offset) bs))))"

text \<open>The \<open>n\<close> bytes a view shows, for use as a source.\<close>

definition source_bytes :: "ObjectInstance \<Rightarrow> nat \<Rightarrow> vm \<Rightarrow> bytes option" where
  "source_bytes v n s =
     (if m_rawMemoryPtr v = 0 then None else Some (read_bytes (vm_memory s) (m_rawMemoryPtr v) n))"

section \<open>Fields\<close>

definition GetField :: "image \<Rightarrow> ObjectInstance \<Rightarrow> nat \<Rightarrow> ObjectInstance vm_op" where
  "GetField img v slot =
     (let shape = img_shapes img (m_shape v) in
      if m_shape v = nullptr then throw_vm (runtime_exception ''Cannot read field from an instance without a type shape'')
      else if IsNullInstance v then throw_vm (runtime_exception ''Cannot read field on null instance of type'')
      else if slot \<ge> length (shp_Slots shape) then throw_vm (runtime_exception ''Field slot index is out of range'')
      else let (fieldOffset, fieldShape) = shp_Slots shape ! slot in
        if fieldShape = nullptr then throw_vm (runtime_exception ''Cannot read instance from a field without a type shape'')
        else if shape_IsReferenceType img fieldShape then
          andThen (ReadMemory img v fieldOffset 8) (\<lambda>stored.
            return_vm \<lparr>m_shape = fieldShape, m_rawMemoryPtr = bytes_nat stored\<rparr>)
        else
          andThen (OffsetMemory img v fieldOffset (shp_Size (img_shapes img fieldShape))) (\<lambda>a.
            return_vm \<lparr>m_shape = fieldShape, m_rawMemoryPtr = a\<rparr>))"

definition SetField :: "image \<Rightarrow> ObjectInstance \<Rightarrow> nat \<Rightarrow> ObjectInstance \<Rightarrow> unit vm_op" where
  "SetField img v slot inst =
     (let shape = img_shapes img (m_shape v) in
      if m_shape v = nullptr then throw_vm (runtime_exception ''Cannot write field on an instance without a type shape'')
      else if IsNullInstance v then throw_vm (runtime_exception ''Cannot write field on null instance of type'')
      else if slot \<ge> length (shp_Slots shape) then throw_vm (runtime_exception ''Field slot index is out of range on'')
      else let (fieldOffset, fieldShape) = shp_Slots shape ! slot in
        if fieldShape = nullptr then throw_vm (runtime_exception ''Cannot write instance to a field without a type shape'')
        else if shape_IsReferenceType img fieldShape then
          andThen (GetField img v slot) (\<lambda>oldValue.
          andThen (if IsNullInstance oldValue then return_vm () else DecrementReference oldValue) (\<lambda>_.
          andThen (if IsNullInstance inst then return_vm () else IncrementReference inst) (\<lambda>_.
            WriteMemory img v fieldOffset (Some (word_bytes (of_nat (m_rawMemoryPtr inst) :: u64))))))
        else if IsNullInstance inst then throw_vm (runtime_exception ''cannot write null value to ValueType field'')
        else andThen (getInfo img inst) (\<lambda>_.
             andThen (get_vm (source_bytes inst (shp_Size (img_shapes img fieldShape)))) (\<lambda>src.
               WriteMemory img v fieldOffset src)))"

section \<open>Array elements\<close>

text \<open>
  \<^verbatim>\<open>CallStackFrame::ResolveType\<close>, which the element access uses when it is given a frame: a type
  parameter stands for the frame's argument of its index.
\<close>

definition ResolveType :: "image \<Rightarrow> ptr list \<Rightarrow> ptr \<Rightarrow> ptr" where
  "ResolveType img typeArguments type =
     (if type = nullptr \<or> ty_Kind (img_types img type) \<noteq> PartK TypeParameter then type
      else let index = unat (ty_TypeArgumentIndex (img_types img type)) in
        if index < length typeArguments then typeArguments ! index else type)"

text \<open>
  The frame argument is the list of its type arguments, \<open>None\<close> for the default \<^verbatim>\<open>nullptr\<close>. Without a
  frame the element view has no shape.
\<close>

definition GetElement :: "image \<Rightarrow> ObjectInstance \<Rightarrow> nat \<Rightarrow> ptr list option \<Rightarrow> ObjectInstance vm_op" where
  "GetElement img v index frame =
     (if IsNullInstance v then throw_vm (runtime_exception ''Cannot access array element on null instance'')
      else andThen (getInfo img v) (\<lambda>info.
        if ty_Kind (img_types img info) \<noteq> TypeK ArrayType
        then throw_vm (runtime_exception ''Tried to get element from non array instance'')
        else andThen (GetArrayLength img v) (\<lambda>len.
          if index \<ge> len then throw_vm (runtime_exception ''Array index is out of range'')
          else
            let elem = ty_UnderlayingType (img_types img info);
                type = (case frame of None \<Rightarrow> elem | Some args \<Rightarrow> ResolveType img args elem);
                shape = (case frame of None \<Rightarrow> nullptr | Some args \<Rightarrow> img_GetOrCreateShape img type []);
                inlineSize = GetInlineSize (img_types img type);
                memoryOffset = ArrayHeaderSize img + inlineSize * index
            in if IsReferenceType (img_types img type) then
                 andThen (ReadMemory img v memoryOffset 8) (\<lambda>stored.
                   return_vm \<lparr>m_shape = shape, m_rawMemoryPtr = bytes_nat stored\<rparr>)
               else
                 andThen (OffsetMemory img v memoryOffset inlineSize) (\<lambda>a.
                   return_vm \<lparr>m_shape = shape, m_rawMemoryPtr = a\<rparr>))))"

definition SetElement ::
  "image \<Rightarrow> ObjectInstance \<Rightarrow> nat \<Rightarrow> ObjectInstance \<Rightarrow> ptr list option \<Rightarrow> unit vm_op" where
  "SetElement img v index inst frame =
     (if IsNullInstance v then throw_vm (runtime_exception ''Cannot access array element on null instance'')
      else andThen (getInfo img v) (\<lambda>info.
        if ty_Kind (img_types img info) \<noteq> TypeK ArrayType
        then throw_vm (runtime_exception ''Tried to set element in non array instance'')
        else andThen (GetArrayLength img v) (\<lambda>len.
          if index \<ge> len then throw_vm (runtime_exception ''Array index is out of range'')
          else
            let elem = ty_UnderlayingType (img_types img info);
                type = (case frame of None \<Rightarrow> elem | Some args \<Rightarrow> ResolveType img args elem);
                memoryOffset = ArrayHeaderSize img + GetInlineSize (img_types img type) * index
            in if IsReferenceType (img_types img type) then
                 andThen (GetElement img v index frame) (\<lambda>oldValue.
                 andThen (if IsNullInstance oldValue then return_vm () else DecrementReference oldValue) (\<lambda>_.
                 andThen (if IsNullInstance inst then return_vm () else IncrementReference inst) (\<lambda>_.
                   WriteMemory img v memoryOffset (Some (word_bytes (of_nat (m_rawMemoryPtr inst) :: u64))))))
               else if IsNullInstance inst then throw_vm (runtime_exception ''cannot write null value to by-value type field'')
               else andThen (get_vm (source_bytes inst (ty_MemoryBytesSize (img_types img type)))) (\<lambda>src.
                      WriteMemory img v memoryOffset src))))"

definition IsInBounds :: "image \<Rightarrow> ObjectInstance \<Rightarrow> nat \<Rightarrow> bool vm_op" where
  "IsInBounds img v index =
     andThen (getInfo img v) (\<lambda>info.
       if ty_Kind (img_types img info) \<noteq> TypeK ArrayType
       then throw_vm (runtime_exception ''Tried to get size of non array instance'')
       else andThen (GetArrayLength img v) (\<lambda>len. return_vm (index < len)))"

section \<open>Primitive values\<close>

text \<open>
  The typed readers and writers check the type of the view; integers also accept enumerations.
  Writers copy \<^verbatim>\<open>Size\<close> bytes of the shape from the value.
\<close>

definition is_primitive :: "image \<Rightarrow> (Primitives \<Rightarrow> ptr) \<Rightarrow> ptr \<Rightarrow> bool" where
  "is_primitive img p info \<longleftrightarrow> info = p (img_Primitives img)"

definition is_integer_type :: "image \<Rightarrow> ptr \<Rightarrow> bool" where
  "is_integer_type img info \<longleftrightarrow>
     is_primitive img pr_Integer info \<or> ty_Kind (img_types img info) = DeclK EnumDeclaration"

definition write_value ::
  "image \<Rightarrow> (ptr \<Rightarrow> bool) \<Rightarrow> string \<Rightarrow> ObjectInstance \<Rightarrow> bytes \<Rightarrow> unit vm_op" where
  "write_value img accepts msg v bs =
     andThen (getInfo img v) (\<lambda>info.
       if \<not> accepts info then throw_vm (runtime_exception msg)
       else WriteMemory img v 0 (Some (take (shp_Size (img_shapes img (m_shape v))) bs)))"

definition WriteBoolean :: "image \<Rightarrow> ObjectInstance \<Rightarrow> bool \<Rightarrow> unit vm_op" where
  "WriteBoolean img v b =
     write_value img (is_primitive img pr_Boolean) ''Cannot interpret instance as Boolean'' v [if b then 1 else 0]"

definition WriteInteger :: "image \<Rightarrow> ObjectInstance \<Rightarrow> u64 \<Rightarrow> unit vm_op" where
  "WriteInteger img v i =
     write_value img (is_integer_type img) ''Cannot interpret instance as Integer'' v (word_bytes i)"

definition WriteDouble :: "image \<Rightarrow> ObjectInstance \<Rightarrow> u64 \<Rightarrow> unit vm_op" where
  "WriteDouble img v d =
     write_value img (is_primitive img pr_Double) ''Cannot interpret instance as Double'' v (word_bytes d)"

definition WriteCharacter :: "image \<Rightarrow> ObjectInstance \<Rightarrow> wchar \<Rightarrow> unit vm_op" where
  "WriteCharacter img v c =
     write_value img (is_primitive img pr_Char) ''Cannot interpret instance as Character'' v (word_bytes c)"

definition WriteByte :: "image \<Rightarrow> ObjectInstance \<Rightarrow> u8 \<Rightarrow> unit vm_op" where
  "WriteByte img v b =
     write_value img (is_primitive img pr_Byte) ''Cannot interpret instance as Byte'' v (word_bytes b)"

definition read_value ::
  "image \<Rightarrow> (ptr \<Rightarrow> bool) \<Rightarrow> string \<Rightarrow> ObjectInstance \<Rightarrow> (memory \<Rightarrow> nat \<Rightarrow> 'a) \<Rightarrow> 'a vm_op" where
  "read_value img accepts msg v get =
     andThen (getInfo img v) (\<lambda>info.
       if \<not> accepts info then throw_vm (runtime_exception msg)
       else if IsNullInstance v then crash_vm
       else get_vm (\<lambda>s. get (vm_memory s) (m_rawMemoryPtr v)))"

definition AsBoolean :: "image \<Rightarrow> ObjectInstance \<Rightarrow> bool vm_op" where
  "AsBoolean img v =
     read_value img (is_primitive img pr_Boolean) ''Cannot interpret instance as Boolean'' v (\<lambda>m a. m a \<noteq> 0)"

definition AsInteger :: "image \<Rightarrow> ObjectInstance \<Rightarrow> u64 vm_op" where
  "AsInteger img v =
     read_value img (is_integer_type img) ''Cannot interpret instance as Integer'' v read_word"

definition AsDouble :: "image \<Rightarrow> ObjectInstance \<Rightarrow> u64 vm_op" where
  "AsDouble img v =
     read_value img (is_primitive img pr_Double) ''Cannot interpret instance as Double'' v read_word"

definition AsCharacter :: "image \<Rightarrow> ObjectInstance \<Rightarrow> wchar vm_op" where
  "AsCharacter img v =
     read_value img (is_primitive img pr_Char) ''Cannot interpret instance as Character'' v read_word"

definition AsByte :: "image \<Rightarrow> ObjectInstance \<Rightarrow> u8 vm_op" where
  "AsByte img v =
     read_value img (is_primitive img pr_Byte) ''Cannot interpret instance as Byte'' v read_word"

definition AsStringLength :: "image \<Rightarrow> ObjectInstance \<Rightarrow> u64 vm_op" where
  "AsStringLength img v =
     read_value img (is_primitive img pr_String) ''Cannot interpret instance as String'' v read_word"

text \<open>\<^verbatim>\<open>StringLayout\<close>: the length, then the address of the characters.\<close>

definition AsString :: "image \<Rightarrow> ObjectInstance \<Rightarrow> nat vm_op" where
  "AsString img v =
     read_value img (is_primitive img pr_String) ''Cannot interpret instance as String'' v
       (\<lambda>m a. read_ptr m (a + 8))"

definition AsNint :: "image \<Rightarrow> ObjectInstance \<Rightarrow> u64 vm_op" where
  "AsNint img v =
     read_value img (is_primitive img pr_NativeInteger) ''Cannot interpret instance as Nint'' v read_word"

end
