(* ===== verification/GarbageCollection.thy ===== *)
theory GarbageCollection
  imports ObjectInstances
begin

text \<open>
  Allocation and reference counting: \<^verbatim>\<open>include/shard/runtime/GarbageCollector.hpp\<close> and
  \<^verbatim>\<open>src/runtime/GarbageCollector.cpp\<close>. \<open>vm_Heap\<close> is the set of payloads the collector knows,
  \<open>vm_staticFields\<close>, \<open>vm_internedStrings\<close> and \<open>vm_asyncTable\<close> are its maps.

  Releasing an object releases what it refers to, so \<open>TerminateInstance\<close> is recursive; the depth of
  that recursion is a parameter, and running out of it is the outcome \<open>OutOfFuel\<close>.
\<close>

section \<open>Allocation\<close>

definition HeaderBytes :: "ptr \<Rightarrow> bytes" where
  "HeaderBytes shape = word_bytes GcMagic @ word_bytes shape @ word_bytes (0 :: u64) @ replicate 8 0"

text \<open>
  A block of zeroed memory with a fresh header: counter zero, not terminated. The same code is in
  \<^verbatim>\<open>AllocateInstance\<close> and in \<^verbatim>\<open>AllocateArray\<close>.
\<close>

definition AllocateBlock :: "image \<Rightarrow> ptr \<Rightarrow> nat \<Rightarrow> string \<Rightarrow> nat vm_op" where
  "AllocateBlock img shape payloadSize msg =
     andThen (AllocateZeroedBytes img (sizeof_GcHeader + payloadSize)) (\<lambda>header.
       if header = 0 then throw_vm (runtime_error msg)
       else andThen (modify_vm (set_memory (\<lambda>m. write_bytes m header (HeaderBytes shape)))) (\<lambda>_.
            return_vm (header + sizeof_GcHeader)))"

definition AllocateInstance :: "image \<Rightarrow> ptr \<Rightarrow> ObjectInstance vm_op" where
  "AllocateInstance img shape =
     (if shape = nullptr then throw_vm (runtime_error ''shape is nullptr'')
      else andThen (AllocateBlock img shape (shp_Size (img_shapes img shape))
             ''cannot allocate memory for new instance'') (\<lambda>payload.
           andThen (modify_vm (\<lambda>s. s\<lparr>vm_Heap := insert payload (vm_Heap s)\<rparr>)) (\<lambda>_.
             return_vm \<lparr>m_shape = shape, m_rawMemoryPtr = payload\<rparr>)))"

fun IsTypeReadyForAllocation :: "image \<Rightarrow> nat \<Rightarrow> ptr \<Rightarrow> bool" where
  "IsTypeReadyForAllocation img 0 type = False"
| "IsTypeReadyForAllocation img (Suc n) type =
     (if type = nullptr then False
      else if ty_IsReadyForRuntime (img_types img type) then True
      else if ty_Kind (img_types img type) = TypeK ArrayType then True
      else if ty_Kind (img_types img type) = TypeK GenericType
      then IsTypeReadyForAllocation img n (ty_UnderlayingType (img_types img type))
      else False)"

definition AllocateGeneric :: "image \<Rightarrow> ptr \<Rightarrow> ptr list \<Rightarrow> ObjectInstance vm_op" where
  "AllocateGeneric img baseType genericArgs =
     (if baseType = nullptr then throw_vm (runtime_error ''baseType is nullptr'')
      else AllocateInstance img (img_GetOrCreateShape img baseType genericArgs))"

definition AllocateInstance_type :: "image \<Rightarrow> nat \<Rightarrow> ptr \<Rightarrow> ObjectInstance vm_op" where
  "AllocateInstance_type img n objectInfo =
     (if objectInfo = nullptr then throw_vm (runtime_error ''objectInfo is nullptr'')
      else if \<not> IsTypeReadyForAllocation img n objectInfo
      then throw_vm (runtime_error ''Cannot allocate instance of type: symbol is not ready for runtime'')
      else if ty_Kind (img_types img objectInfo) = TypeK GenericType then
        (let generic = img_types img objectInfo;
             base = ty_UnderlayingType generic
         in AllocateGeneric img base
              (map (SubstituteTypeParameters generic) (ty_TypeParameters (img_types img base))))
      else AllocateInstance img (img_GetOrCreateShape img objectInfo []))"

definition AllocateArray :: "image \<Rightarrow> nat \<Rightarrow> ptr \<Rightarrow> ptr \<Rightarrow> nat \<Rightarrow> ObjectInstance vm_op" where
  "AllocateArray img n arrayType elementType len =
     (if arrayType = nullptr then throw_vm (runtime_error ''arrayType is nullptr'')
      else if elementType = nullptr then throw_vm (runtime_error ''elementType is nullptr'')
      else if \<not> IsTypeReadyForAllocation img n elementType
      then throw_vm (runtime_error ''Cannot allocate array of element type: symbol is not ready for runtime'')
      else
        let arrayShape = img_GetOrCreateShape img arrayType [];
            totalSize = ArrayHeaderSize img + GetInlineSize (img_types img elementType) * len
        in andThen (AllocateBlock img arrayShape totalSize ''cannot allocate memory for dynamic array'') (\<lambda>payload.
           andThen (modify_vm (set_memory (\<lambda>m. write_word m payload (of_nat len :: u64)))) (\<lambda>_.
           andThen (modify_vm (\<lambda>s. s\<lparr>vm_Heap := insert payload (vm_Heap s)\<rparr>)) (\<lambda>_.
             return_vm \<lparr>m_shape = arrayShape, m_rawMemoryPtr = payload\<rparr>))))"

section \<open>Values of primitive types\<close>

definition primitive_shape :: "image \<Rightarrow> (Primitives \<Rightarrow> ptr) \<Rightarrow> ptr" where
  "primitive_shape img p = img_GetOrCreateShape img (p (img_Primitives img)) []"

definition FromBoolean :: "image \<Rightarrow> bool \<Rightarrow> ObjectInstance vm_op" where
  "FromBoolean img b =
     andThen (AllocateInstance img (primitive_shape img pr_Boolean)) (\<lambda>v.
     andThen (WriteBoolean img v b) (\<lambda>_. return_vm v))"

definition FromInteger :: "image \<Rightarrow> u64 \<Rightarrow> ObjectInstance vm_op" where
  "FromInteger img i =
     andThen (AllocateInstance img (primitive_shape img pr_Integer)) (\<lambda>v.
     andThen (WriteInteger img v i) (\<lambda>_. return_vm v))"

definition FromByte :: "image \<Rightarrow> u8 \<Rightarrow> ObjectInstance vm_op" where
  "FromByte img b =
     andThen (AllocateInstance img (primitive_shape img pr_Byte)) (\<lambda>v.
     andThen (WriteByte img v b) (\<lambda>_. return_vm v))"

definition FromDouble :: "image \<Rightarrow> u64 \<Rightarrow> ObjectInstance vm_op" where
  "FromDouble img d =
     andThen (AllocateInstance img (primitive_shape img pr_Double)) (\<lambda>v.
     andThen (WriteDouble img v d) (\<lambda>_. return_vm v))"

definition FromChar :: "image \<Rightarrow> wchar \<Rightarrow> ObjectInstance vm_op" where
  "FromChar img c =
     andThen (AllocateInstance img (primitive_shape img pr_Char)) (\<lambda>v.
     andThen (WriteCharacter img v c) (\<lambda>_. return_vm v))"

definition FromNint :: "image \<Rightarrow> u64 \<Rightarrow> ObjectInstance vm_op" where
  "FromNint img rawMemory =
     (let objectInfo = pr_NativeInteger (img_Primitives img) in
      if objectInfo = nullptr then throw_vm (runtime_error ''objectInfo is nullptr'')
      else if ty_LayoutingState (img_types img objectInfo) \<noteq> Visited
      then throw_vm (runtime_error ''objectInfo is uninitialized'')
      else
        let shape = img_GetOrCreateShape img objectInfo [] in
        andThen (AllocateInstance img shape) (\<lambda>v.
        andThen (if shp_Size (img_shapes img shape) > 0
                 then WriteMemory img v 0 (Some (take (shp_Size (img_shapes img shape)) (word_bytes rawMemory)))
                 else return_vm ()) (\<lambda>_.
          return_vm v)))"

text \<open>
  A string object holds its length and the address of its characters. The characters are copied
  with their terminating zero; \<open>characters\<close> is the content as bytes.
\<close>

definition characters :: "wstring \<Rightarrow> bytes" where
  "characters text = concat (map word_bytes (text @ [0]))"

definition FromString :: "image \<Rightarrow> wstring \<Rightarrow> ObjectInstance vm_op" where
  "FromString img value =
     andThen (AllocateInstance img (primitive_shape img pr_String)) (\<lambda>v.
     andThen (AllocateBytes img ((length value + 1) * 2)) (\<lambda>copy.
       if copy = 0 then throw_vm (runtime_error ''Failed to allocate string'')
       else
         andThen (modify_vm (set_memory (\<lambda>m. write_bytes m copy (characters value)))) (\<lambda>_.
         andThen (WriteMemory img v 0 (Some (word_bytes (of_nat (length value) :: u64)))) (\<lambda>_.
         andThen (WriteMemory img v 8 (Some (word_bytes (of_nat copy :: u64)))) (\<lambda>_.
           return_vm v)))))"

text \<open>\<^verbatim>\<open>wcslen\<close>, which does not return on memory without a zero character.\<close>

partial_function (option) wcslen :: "memory \<Rightarrow> nat \<Rightarrow> nat option" where
  "wcslen m a =
     (if read_word m a = (0 :: wchar) then Some 0 else Option.bind (wcslen m (a + 2)) (\<lambda>k. Some (Suc k)))"

definition InternString :: "image \<Rightarrow> nat \<Rightarrow> ObjectInstance vm_op" where
  "InternString img value =
     andThen (get_vm (\<lambda>s. vm_internedStrings s value)) (\<lambda>found.
       case found of
         Some payload \<Rightarrow> return_vm \<lparr>m_shape = primitive_shape img pr_String, m_rawMemoryPtr = payload\<rparr>
       | None \<Rightarrow>
           andThen (AllocateInstance img (primitive_shape img pr_String)) (\<lambda>view.
           andThen (get_vm (\<lambda>s. wcslen (vm_memory s) value)) (\<lambda>len.
             case len of
               None \<Rightarrow> crash_vm
             | Some k \<Rightarrow>
                 andThen (WriteMemory img view 0
                            (Some (word_bytes (of_nat k :: u64) @ word_bytes (of_nat value :: u64)))) (\<lambda>_.
                 andThen (modify_vm (\<lambda>s. s\<lparr>vm_internedStrings :=
                            (vm_internedStrings s)(value := Some (m_rawMemoryPtr view))\<rparr>)) (\<lambda>_.
                   return_vm view)))))"

section \<open>Owners of frames\<close>

text \<open>
  An owner lets go of a frame: the last one destroys it and frees its block.
\<close>

definition drop_frame :: "nat \<Rightarrow> vm \<Rightarrow> vm" where
  "drop_frame f s =
     (if f = 0 then s
      else
        let s1 = set_frame f (\<lambda>fr. fr\<lparr>fr_UseCount := fr_UseCount fr - 1\<rparr>) s in
        if fr_UseCount (vm_frames s1 f) = 0
        then s1\<lparr>vm_blocks := filter (\<lambda>b. fst b \<noteq> f) (vm_blocks s1)\<rparr> else s1)"

text \<open>\<^verbatim>\<open>asyncTable.erase(key)\<close>: the record goes, and with it its hold on a frame.\<close>

definition erase_record :: "nat \<Rightarrow> vm \<Rightarrow> vm" where
  "erase_record key s =
     (case vm_asyncTable s key of
        None \<Rightarrow> s
      | Some r \<Rightarrow> drop_frame (ar_FrameOwner r) (s\<lparr>vm_asyncTable := (vm_asyncTable s)(key := None)\<rparr>))"

section \<open>Releasing\<close>

definition DeleteInstanceMemory :: "image \<Rightarrow> ObjectInstance \<Rightarrow> unit vm_op" where
  "DeleteInstanceMemory img v s =
     (if IsNullInstance v then Ret () s
      else case getGcHeader (vm_memory s) v of
        None \<Rightarrow> Ret () s
      | Some header \<Rightarrow>
          andThen (getInfo img v) (\<lambda>info.
          andThen (if info = pr_String (img_Primitives img) then andThen (OffsetMemory img v 8 8) (\<lambda>_. return_vm ())
                   else return_vm ()) (\<lambda>_.
            FreeBytes header)) s)"

text \<open>
  \<^verbatim>\<open>DestroyInstance\<close> over the release function \<open>terminate\<close>: drop one reference, release at zero.
\<close>

definition DestroyInstance_with :: "(ObjectInstance \<Rightarrow> unit vm_op) \<Rightarrow> ObjectInstance \<Rightarrow> unit vm_op" where
  "DestroyInstance_with terminate v s =
     (if IsNullInstance v then Ret () s
      else case getGcHeader (vm_memory s) v of
        None \<Rightarrow> Ret () s
      | Some header \<Rightarrow>
          if hdr_Terminated (vm_memory s) header then Ret () s
          else andThen (DecrementReference v) (\<lambda>_ t.
                 if 0 <s getReferencesCounter (vm_memory t) v then Ret () t
                 else andThen (modify_vm (\<lambda>s. s\<lparr>vm_Heap := vm_Heap s - {m_rawMemoryPtr v}\<rparr>)) (\<lambda>_. terminate v) t) s)"

text \<open>
  The two loops of \<^verbatim>\<open>TerminateInstance\<close>: the reference fields of the shape, then the elements of an
  array. An element is read through \<^verbatim>\<open>GetElement\<close> without a frame.
\<close>

definition release_fields :: "image \<Rightarrow> (ObjectInstance \<Rightarrow> unit vm_op) \<Rightarrow> ObjectInstance \<Rightarrow> unit vm_op" where
  "release_fields img destroy v =
     forEach (\<lambda>slot.
       let fieldShape = snd (shp_Slots (img_shapes img (m_shape v)) ! slot) in
       if fieldShape \<noteq> nullptr \<and> shape_IsReferenceType img fieldShape
       then andThen (GetField img v slot) (\<lambda>fieldValue.
              if IsNullInstance fieldValue then return_vm () else destroy fieldValue)
       else return_vm ()) [0..<length (shp_Slots (img_shapes img (m_shape v)))]"

definition release_elements :: "image \<Rightarrow> (ObjectInstance \<Rightarrow> unit vm_op) \<Rightarrow> ObjectInstance \<Rightarrow> unit vm_op" where
  "release_elements img destroy v =
     andThen (getInfo img v) (\<lambda>info.
       if ty_Kind (img_types img info) = TypeK ArrayType then
         andThen (GetArrayLength img v) (\<lambda>len.
           forEach (\<lambda>i.
             andThen (GetElement img v i None) (\<lambda>element.
               if IsReferenceType (img_types img (ty_UnderlayingType (img_types img info)))
                  \<and> \<not> IsNullInstance element
               then destroy element else return_vm ())) [0..<len])
       else return_vm ())"

primrec TerminateInstance :: "image \<Rightarrow> nat \<Rightarrow> ObjectInstance \<Rightarrow> bool \<Rightarrow> unit vm_op" where
  "TerminateInstance img 0 v deleteInstance = (\<lambda>s. OutOfFuel)"
| "TerminateInstance img (Suc n) v deleteInstance = (\<lambda>s.
     if IsNullInstance v then Ret () s
     else case getGcHeader (vm_memory s) v of
       None \<Rightarrow> Ret () s
     | Some header \<Rightarrow>
         if hdr_Terminated (vm_memory s) header then Ret () s
         else
           let destroy = DestroyInstance_with (\<lambda>v. TerminateInstance img n v True) in
           andThen (modify_vm (set_memory (\<lambda>m. write_bytes m (header + 24) [1]))) (\<lambda>_.
           andThen (modify_vm (erase_record (m_rawMemoryPtr v))) (\<lambda>_.
           andThen (if m_shape v \<noteq> nullptr then release_fields img destroy v else return_vm ()) (\<lambda>_.
           andThen (release_elements img destroy v) (\<lambda>_.
             if deleteInstance then DeleteInstanceMemory img v else return_vm ())))) s)"

definition DestroyInstance :: "image \<Rightarrow> nat \<Rightarrow> ObjectInstance \<Rightarrow> unit vm_op" where
  "DestroyInstance img n v = DestroyInstance_with (\<lambda>v. TerminateInstance img n v True) v"

definition CollectInstance :: "image \<Rightarrow> nat \<Rightarrow> ObjectInstance \<Rightarrow> unit vm_op" where
  "CollectInstance img n v s =
     (if IsNullInstance v then Ret () s
      else if \<not> IsHeapBacked (vm_memory s) v then Ret () s
      else if 0 <s getReferencesCounter (vm_memory s) v then Ret () s
      else andThen (modify_vm (\<lambda>s. s\<lparr>vm_Heap := vm_Heap s - {m_rawMemoryPtr v}\<rparr>))
             (\<lambda>_. TerminateInstance img n v True) s)"

section \<open>Copies and static fields\<close>

definition CopyInstance :: "image \<Rightarrow> ObjectInstance \<Rightarrow> ObjectInstance vm_op" where
  "CopyInstance img v =
     (if IsNullInstance v then return_vm v
      else andThen (getInfo img v) (\<lambda>info.
        if IsReferenceType (img_types img info)
        then andThen (IncrementReference v) (\<lambda>_. return_vm v)
        else
          andThen (AllocateInstance img (m_shape v)) (\<lambda>copy.
          andThen (get_vm (source_bytes v (shp_Size (img_shapes img (m_shape v))))) (\<lambda>src.
          andThen (WriteMemory img copy 0 src) (\<lambda>_.
          andThen (forEach (\<lambda>slot.
              let fieldShape = snd (shp_Slots (img_shapes img (m_shape copy)) ! slot) in
              if fieldShape \<noteq> nullptr \<and> shape_IsReferenceType img fieldShape
              then andThen (GetField img copy slot) (\<lambda>fieldValue.
                     if IsNullInstance fieldValue then return_vm () else IncrementReference fieldValue)
              else return_vm ()) [0..<length (shp_Slots (img_shapes img (m_shape copy)))]) (\<lambda>_.
            return_vm copy))))))"

definition RecoverStaticField :: "image \<Rightarrow> ptr \<Rightarrow> nat \<Rightarrow> ObjectInstance" where
  "RecoverStaticField img field payload =
     \<lparr>m_shape = img_GetOrCreateShape img (fld_ReturnType (img_fields img field)) [], m_rawMemoryPtr = payload\<rparr>"

definition GetStaticField :: "image \<Rightarrow> ptr \<Rightarrow> ObjectInstance vm_op" where
  "GetStaticField img field =
     andThen (get_vm (\<lambda>s. vm_staticFields s field)) (\<lambda>found.
       case found of
         Some payload \<Rightarrow> return_vm (RecoverStaticField img field payload)
       | None \<Rightarrow>
           if fld_HasDefaultValue (img_fields img field) then return_vm null_instance
           else
             let fieldType = fld_ReturnType (img_fields img field);
                 shape = img_GetOrCreateShape img fieldType []
             in if ty_Inlining (img_types img fieldType) = ByValue then
                  andThen (AllocateInstance img shape) (\<lambda>v.
                  andThen (IncrementReference v) (\<lambda>_.
                  andThen (modify_vm (\<lambda>s. s\<lparr>vm_staticFields :=
                             (vm_staticFields s)(field := Some (m_rawMemoryPtr v))\<rparr>)) (\<lambda>_.
                    return_vm v)))
                else
                  andThen (modify_vm (\<lambda>s. s\<lparr>vm_staticFields := (vm_staticFields s)(field := Some 0)\<rparr>)) (\<lambda>_.
                    return_vm \<lparr>m_shape = shape, m_rawMemoryPtr = 0\<rparr>))"

definition SetStaticField :: "image \<Rightarrow> nat \<Rightarrow> ptr \<Rightarrow> ObjectInstance \<Rightarrow> unit vm_op" where
  "SetStaticField img n field v =
     (if IsNullInstance v then throw_vm (runtime_error ''requested setting static field to nullptr'')
      else
        andThen (get_vm (\<lambda>s. vm_staticFields s field)) (\<lambda>found.
        andThen (case found of
                   Some payload \<Rightarrow> DestroyInstance img n (RecoverStaticField img field payload)
                 | None \<Rightarrow> return_vm ()) (\<lambda>_.
        andThen (CopyInstance img v) (\<lambda>stored.
        andThen (IncrementReference stored) (\<lambda>_.
          modify_vm (\<lambda>s. s\<lparr>vm_staticFields := (vm_staticFields s)(field := Some (m_rawMemoryPtr stored))\<rparr>))))))"

section \<open>Tasks\<close>

definition AsyncRecord_new :: AsyncRecord where
  "AsyncRecord_new = \<lparr>ar_IsTaskLike = False, ar_IsFireAndForget = False, ar_FrameOwner = 0, ar_NativeState = 0\<rparr>"

text \<open>\<^verbatim>\<open>asyncTable[key]\<close>: the record of the key, made when there is none.\<close>

definition async_update :: "(AsyncRecord \<Rightarrow> AsyncRecord) \<Rightarrow> ObjectInstance \<Rightarrow> vm \<Rightarrow> vm" where
  "async_update g v s =
     (let old = (case vm_asyncTable s (m_rawMemoryPtr v) of None \<Rightarrow> AsyncRecord_new | Some r \<Rightarrow> r)
      in s\<lparr>vm_asyncTable := (vm_asyncTable s)(m_rawMemoryPtr v := Some (g old))\<rparr>)"

definition async_lookup :: "(AsyncRecord \<Rightarrow> 'a) \<Rightarrow> 'a \<Rightarrow> ObjectInstance \<Rightarrow> vm \<Rightarrow> 'a" where
  "async_lookup g none v s =
     (case vm_asyncTable s (m_rawMemoryPtr v) of None \<Rightarrow> none | Some r \<Rightarrow> g r)"

definition IsTaskLike :: "ObjectInstance \<Rightarrow> vm \<Rightarrow> bool" where
  "IsTaskLike v s = async_lookup ar_IsTaskLike False v s"

definition MarkTaskLike :: "ObjectInstance \<Rightarrow> vm \<Rightarrow> vm" where
  "MarkTaskLike v = async_update (\<lambda>r. r\<lparr>ar_IsTaskLike := True\<rparr>) v"

definition IsFireAndForget :: "ObjectInstance \<Rightarrow> vm \<Rightarrow> bool" where
  "IsFireAndForget v s = async_lookup ar_IsFireAndForget False v s"

definition MarkFireAndForget :: "ObjectInstance \<Rightarrow> vm \<Rightarrow> vm" where
  "MarkFireAndForget v = async_update (\<lambda>r. r\<lparr>ar_IsFireAndForget := True\<rparr>) v"

definition GetAsyncNativeState :: "ObjectInstance \<Rightarrow> vm \<Rightarrow> nat" where
  "GetAsyncNativeState v s = async_lookup ar_NativeState 0 v s"

definition SetAsyncNativeState :: "ObjectInstance \<Rightarrow> nat \<Rightarrow> vm \<Rightarrow> vm" where
  "SetAsyncNativeState v st = async_update (\<lambda>r. r\<lparr>ar_NativeState := st\<rparr>) v"

definition GetFrameOwner :: "ObjectInstance \<Rightarrow> vm \<Rightarrow> nat" where
  "GetFrameOwner v s = async_lookup ar_FrameOwner 0 v s"

definition ReleaseFrameOwner :: "ObjectInstance \<Rightarrow> vm \<Rightarrow> vm" where
  "ReleaseFrameOwner v s =
     (case vm_asyncTable s (m_rawMemoryPtr v) of
        None \<Rightarrow> s
      | Some r \<Rightarrow>
          let f = ar_FrameOwner r;
              s1 = (if f \<noteq> 0 \<and> fr_PendingTaskCount (vm_frames s f) > 0
                    then set_frame f (\<lambda>fr. fr\<lparr>fr_PendingTaskCount := fr_PendingTaskCount fr - 1\<rparr>) s else s)
          in drop_frame f (s1\<lparr>vm_asyncTable := (vm_asyncTable s1)(m_rawMemoryPtr v := Some (r\<lparr>ar_FrameOwner := 0\<rparr>))\<rparr>))"

definition BindToFrame :: "ObjectInstance \<Rightarrow> nat \<Rightarrow> vm \<Rightarrow> vm" where
  "BindToFrame v f s =
     (if IsNullInstance v \<or> f = 0 then s
      else
        let s1 = async_update (\<lambda>r. r) v s in
        if GetFrameOwner v s1 = f then s1
        else
          let s2 = ReleaseFrameOwner v s1;
              s3 = async_update (\<lambda>r. r\<lparr>ar_FrameOwner := f\<rparr>) v s2
          in set_frame f (\<lambda>fr. fr\<lparr>fr_UseCount := fr_UseCount fr + 1, fr_PendingTaskCount := fr_PendingTaskCount fr + 1\<rparr>) s3)"

end
