(* ===== verification/CallStackFrames.thy ===== *)
theory CallStackFrames
  imports GarbageCollection
begin

text \<open>
  Frames of the virtual machine: \<^verbatim>\<open>include/shard/runtime/CallStackFrame.hpp\<close> and
  \<^verbatim>\<open>src/runtime/CallStackFrame.cpp\<close>. A frame is one block of memory: the return slot, a slot for
  each argument and local variable, and the region of the evaluation stack. Every slot starts with
  the address of a shape; its payload is the value itself or the address of an object.

  A frame is named by its address \<open>f\<close>; \<open>vm_frames s f\<close> are its members.
\<close>

section \<open>Helpers\<close>

definition Align :: "nat \<Rightarrow> nat" where
  "Align n = (n + 7) div 8 * 8"

definition EntryShape :: "memory \<Rightarrow> nat \<Rightarrow> ptr" where
  "EntryShape m entry = read_word m entry"

definition frame_of :: "nat \<Rightarrow> vm \<Rightarrow> CallStackFrame" where
  "frame_of f s = vm_frames s f"

definition AdoptInlinePayload :: "image \<Rightarrow> ptr \<Rightarrow> nat \<Rightarrow> unit vm_op" where
  "AdoptInlinePayload img shape payload =
     (if shape = nullptr then return_vm ()
      else forEach (\<lambda>(offset, fieldShape).
        if fieldShape = nullptr \<or> \<not> shape_IsReferenceType img fieldShape then return_vm ()
        else andThen (get_vm (\<lambda>s. read_ptr (vm_memory s) (payload + offset))) (\<lambda>fieldValue.
               if fieldValue = 0 then return_vm ()
               else IncrementReference \<lparr>m_shape = fieldShape, m_rawMemoryPtr = fieldValue\<rparr>))
        (shp_Slots (img_shapes img shape)))"

definition ReleaseInlinePayload :: "image \<Rightarrow> nat \<Rightarrow> ptr \<Rightarrow> nat \<Rightarrow> unit vm_op" where
  "ReleaseInlinePayload img n shape payload =
     (if shape = nullptr then return_vm ()
      else forEach (\<lambda>(offset, fieldShape).
        if fieldShape = nullptr \<or> \<not> shape_IsReferenceType img fieldShape then return_vm ()
        else andThen (get_vm (\<lambda>s. read_ptr (vm_memory s) (payload + offset))) (\<lambda>fieldValue.
               if fieldValue = 0 then return_vm ()
               else DestroyInstance img n \<lparr>m_shape = fieldShape, m_rawMemoryPtr = fieldValue\<rparr>))
        (shp_Slots (img_shapes img shape)))"

definition ResolveSlotType :: "MethodSymbol \<Rightarrow> nat \<Rightarrow> ptr list \<Rightarrow> ptr" where
  "ResolveSlotType method slot typeArguments =
     (let argsCount = unat (GetEvalStackArgumentsCount method) in
      if slot < argsCount then
        (if me_Linking method = LINK_INSTANCE \<and> slot = 0 then nullptr
         else
           let paramIndex = (if me_Linking method = LINK_INSTANCE then slot - 1 else slot) in
           if paramIndex < length (me_Parameters method) then me_Parameters method ! paramIndex else nullptr)
      else
        let variableIndex = slot - argsCount in
        if variableIndex \<ge> length (me_VariableSlots method) then nullptr
        else
          let recipe = me_VariableSlots method ! variableIndex in
          if rec_TypeParameterIndex recipe \<ge> 0 then
            (if nat (rec_TypeParameterIndex recipe) < length typeArguments
             then typeArguments ! nat (rec_TypeParameterIndex recipe) else nullptr)
          else rec_ConcreteType recipe)"

definition ResolveObjectShape :: "image \<Rightarrow> ptr \<Rightarrow> ptr" where
  "ResolveObjectShape img type =
     (if type = nullptr then nullptr
      else
        let t = img_types img type;
            generic = (ty_Kind t = TypeK GenericType);
            baseType = (if generic then ty_UnderlayingType t else type);
            genericArgs = (if generic
                           then map (SubstituteTypeParameters t) (ty_TypeParameters (img_types img baseType))
                           else [])
        in if baseType = nullptr then nullptr else img_GetOrCreateShape img baseType genericArgs)"

section \<open>Creation\<close>

text \<open>
  The slot loop of \<^verbatim>\<open>Create\<close>: shape and offset of every argument and local, and the offset after
  them. Offsets are 32-bit.
\<close>

fun slot_descs ::
  "image \<Rightarrow> MethodSymbol \<Rightarrow> ptr list \<Rightarrow> nat list \<Rightarrow> nat \<Rightarrow> (ptr \<times> nat) list \<times> nat" where
  "slot_descs img method typeArguments [] offset = ([], offset)"
| "slot_descs img method typeArguments (slot # slots) offset =
     (let type = ResolveSlotType method slot typeArguments;
          shape = ResolveObjectShape img type;
          isInline = (shape \<noteq> nullptr \<and> type \<noteq> nullptr \<and> \<not> IsReferenceType (img_types img type));
          stride = 8 + (if isInline then Align (shp_Size (img_shapes img shape)) else 8);
          (descs, end_offset) = slot_descs img method typeArguments slots ((offset + stride) mod 2 ^ 32)
      in ((shape, offset) # descs, end_offset))"

definition eval_capacity :: "MethodSymbol \<Rightarrow> nat" where
  "eval_capacity method =
     (let evalMaxPayload = max 8 (me_EvalSlotPayload method);
          evalEntryStride = 8 + Align evalMaxPayload;
          evalEntries = (if me_IsComplete method then max (me_MaxEvalDepth method) 8 else 64)
      in evalEntries * evalEntryStride)"

text \<open>
  The frame object is constructed at the head of its block. Its members are the record that
  \<open>vm_frames\<close> holds; the bytes the construction leaves in the block are those of the object's
  representation, a parameter of the model.
\<close>

definition frame_object :: "image \<Rightarrow> CallStackFrame \<Rightarrow> bytes" where
  "frame_object img frame = map (img_frame_object img frame) [0..<img_sizeof_CallStackFrame img]"

definition construct_frame :: "image \<Rightarrow> nat \<Rightarrow> CallStackFrame \<Rightarrow> vm \<Rightarrow> vm" where
  "construct_frame img block frame s =
     set_frame block (\<lambda>_. frame) (set_memory (\<lambda>m. write_bytes m block (frame_object img frame)) s)"

lemma set_memory_block:
  "set_memory g (s\<lparr>vm_memory := m, vm_blocks := bs\<rparr>) = s\<lparr>vm_memory := g m, vm_blocks := bs\<rparr>"
  by (cases s) (simp add: set_memory_def)

definition Create :: "image \<Rightarrow> nat \<Rightarrow> ptr \<Rightarrow> ptr list \<Rightarrow> nat vm_op" where
  "Create img previousFrame method typeArguments =
     (let m = img_methods img method;
          returnShape = ResolveObjectShape img (me_ReturnType m);
          returnStride = 8 + (if shape_IsReferenceType img returnShape then 8
                              else Align (shp_Size (img_shapes img returnShape)));
          (slotDescs, offset) = slot_descs img m typeArguments
             [0..<unat (GetEvalStackLocalsCount m)] (returnStride mod 2 ^ 32);
          localsBytes = offset - returnStride;
          evalCapacityBytes = eval_capacity m;
          arenaBytes = returnStride + localsBytes + evalCapacityBytes
      in if returnShape = nullptr then crash_vm
         else andThen (AllocateZeroedBytes img (img_sizeof_CallStackFrame img + arenaBytes)) (\<lambda>block.
           if block = 0 then throw_vm (runtime_error ''Failed to allocate call stack frame'')
           else
             let arena = block + img_sizeof_CallStackFrame img;
                 frame = \<lparr>fr_ReturnSlot = arena, fr_ReturnSlotShape = returnShape,
                          fr_LocalSlots = slotDescs,
                          fr_LocalRegionEnd = arena + returnStride + localsBytes,
                          fr_EvalEntries = arena + returnStride + localsBytes,
                          fr_EvalCapacityBytes = evalCapacityBytes, fr_EvalCursorBytes = 0,
                          fr_EvalOffsets = [], fr_PreviousFrame = previousFrame, fr_Method = method,
                          fr_Arena = arena, fr_ArenaBytes = arenaBytes, fr_TypeArguments = [],
                          fr_ExceptionHandlers = [], fr_PendingTaskCount = 0, fr_DeferStack = [],
                          fr_DeferDrainDepth = 0, fr_InterruptionReason = NoReason,
                          fr_CurrentException = null_instance, fr_UseCount = 1\<rparr>
             in andThen (modify_vm (construct_frame img block frame)) (\<lambda>_. return_vm block)))"

section \<open>The evaluation stack\<close>

definition PushInlineUninitialized :: "image \<Rightarrow> nat \<Rightarrow> ptr \<Rightarrow> ObjectInstance vm_op" where
  "PushInlineUninitialized img f shape =
     (if shape = nullptr then throw_vm (runtime_error ''Cannot push an inline value without a type shape'')
      else andThen (get_vm (frame_of f)) (\<lambda>frame.
        let entry = fr_EvalEntries frame + fr_EvalCursorBytes frame in
        andThen (modify_vm (set_frame f (\<lambda>fr. fr\<lparr>
            fr_EvalOffsets := fr_EvalOffsets fr @ [fr_EvalCursorBytes fr mod 2 ^ 32],
            fr_EvalCursorBytes := fr_EvalCursorBytes fr + 8 + Align (shp_Size (img_shapes img shape))\<rparr>))) (\<lambda>_.
        andThen (modify_vm (set_memory (\<lambda>m. write_word m entry shape))) (\<lambda>_.
          return_vm \<lparr>m_shape = shape, m_rawMemoryPtr = entry + 8\<rparr>))))"

text \<open>
  The source of \<^verbatim>\<open>PushInline\<close> is an address, possibly into the evaluation region itself; it is read
  after the entry's header is written. The source is a function of memory, \<open>None\<close> for \<^verbatim>\<open>nullptr\<close>.
\<close>

definition PushInline :: "image \<Rightarrow> nat \<Rightarrow> ptr \<Rightarrow> (memory \<Rightarrow> bytes option) \<Rightarrow> ObjectInstance vm_op" where
  "PushInline img f shape src =
     andThen (PushInlineUninitialized img f shape) (\<lambda>payload.
     andThen (modify_vm (set_memory (\<lambda>m.
         case src m of None \<Rightarrow> m | Some bs \<Rightarrow> write_bytes m (m_rawMemoryPtr payload) bs))) (\<lambda>_.
     andThen (AdoptInlinePayload img shape (m_rawMemoryPtr payload)) (\<lambda>_.
       return_vm payload)))"

definition PushReference :: "nat \<Rightarrow> ObjectInstance \<Rightarrow> ObjectInstance vm_op" where
  "PushReference f value =
     andThen (get_vm (frame_of f)) (\<lambda>frame.
       let entry = fr_EvalEntries frame + fr_EvalCursorBytes frame in
       andThen (modify_vm (set_frame f (\<lambda>fr. fr\<lparr>
           fr_EvalOffsets := fr_EvalOffsets fr @ [fr_EvalCursorBytes fr mod 2 ^ 32],
           fr_EvalCursorBytes := fr_EvalCursorBytes fr + 16\<rparr>))) (\<lambda>_.
       andThen (modify_vm (set_memory (\<lambda>m.
           write_ptr (write_word m entry (m_shape value)) (entry + 8) (m_rawMemoryPtr value)))) (\<lambda>_.
         return_vm value)))"

definition view_source :: "image \<Rightarrow> ObjectInstance \<Rightarrow> memory \<Rightarrow> bytes option" where
  "view_source img v m =
     (if m_rawMemoryPtr v = 0 then None
      else Some (read_bytes m (m_rawMemoryPtr v) (shp_Size (img_shapes img (m_shape v)))))"

definition PushStack :: "image \<Rightarrow> nat \<Rightarrow> ObjectInstance \<Rightarrow> ObjectInstance vm_op" where
  "PushStack img f value =
     (if m_shape value \<noteq> nullptr \<and> \<not> shape_IsReferenceType img (m_shape value)
      then PushInline img f (m_shape value) (view_source img value)
      else PushReference f value)"

text \<open>The view of the slot at an address: through the pointer it holds, or of its payload.\<close>

definition slot_view :: "image \<Rightarrow> memory \<Rightarrow> nat \<Rightarrow> ObjectInstance" where
  "slot_view img m entry =
     (let shape = EntryShape m entry in
      if shape = nullptr then null_instance
      else if shape_IsReferenceType img shape
      then \<lparr>m_shape = shape, m_rawMemoryPtr = read_ptr m (entry + 8)\<rparr>
      else \<lparr>m_shape = shape, m_rawMemoryPtr = entry + 8\<rparr>)"

definition PeekStack :: "image \<Rightarrow> nat \<Rightarrow> ObjectInstance vm_op" where
  "PeekStack img f s =
     (let frame = frame_of f s in
      if fr_EvalOffsets frame = [] then Undefined
      else Ret (slot_view img (vm_memory s) (fr_EvalEntries frame + last (fr_EvalOffsets frame))) s)"

definition PopStack :: "image \<Rightarrow> nat \<Rightarrow> ObjectInstance vm_op" where
  "PopStack img f =
     andThen (PeekStack img f) (\<lambda>result.
     andThen (modify_vm (set_frame f (\<lambda>fr. fr\<lparr>
         fr_EvalCursorBytes := last (fr_EvalOffsets fr),
         fr_EvalOffsets := butlast (fr_EvalOffsets fr)\<rparr>))) (\<lambda>_.
       return_vm result))"

section \<open>Arguments and locals\<close>

definition GetLocal :: "image \<Rightarrow> nat \<Rightarrow> nat \<Rightarrow> ObjectInstance vm_op" where
  "GetLocal img f slot =
     andThen (get_vm (frame_of f)) (\<lambda>frame.
       if slot \<ge> length (fr_LocalSlots frame) then throw_vm (out_of_range ''vector'')
       else
         let entry = fr_Arena frame + snd (fr_LocalSlots frame ! slot) in
         andThen (get_vm (\<lambda>s. vm_memory s)) (\<lambda>m.
           if EntryShape m entry = nullptr then throw_vm (undefined_behaviour ''EvalStack: TypeShape was null'')
           else return_vm (slot_view img m entry)))"

definition SetLocal :: "image \<Rightarrow> nat \<Rightarrow> nat \<Rightarrow> nat \<Rightarrow> ObjectInstance \<Rightarrow> unit vm_op" where
  "SetLocal img n f slot value =
     andThen (get_vm (frame_of f)) (\<lambda>frame.
       if slot \<ge> length (fr_LocalSlots frame) then throw_vm (out_of_range ''vector'')
       else
         let (oldShape, offset) = fr_LocalSlots frame ! slot;
             entry = fr_Arena frame + offset;
             payload = entry + 8;
             newShape = (if m_shape value \<noteq> nullptr then m_shape value else oldShape)
         in andThen (modify_vm (set_frame f (\<lambda>fr. fr\<lparr>fr_LocalSlots := (fr_LocalSlots fr)[slot := (newShape, offset)]\<rparr>))) (\<lambda>_.
            andThen (modify_vm (set_memory (\<lambda>m. write_word m entry newShape))) (\<lambda>_.
              if IsNullInstance value then
                andThen (if oldShape \<noteq> nullptr \<and> shape_IsReferenceType img oldShape then
                           andThen (get_vm (\<lambda>s. read_ptr (vm_memory s) payload)) (\<lambda>old.
                             if old = 0 then return_vm ()
                             else DestroyInstance img n \<lparr>m_shape = oldShape, m_rawMemoryPtr = old\<rparr>)
                         else if oldShape \<noteq> nullptr then ReleaseInlinePayload img n oldShape payload
                         else return_vm ()) (\<lambda>_.
                  modify_vm (set_memory (\<lambda>m. write_ptr m payload 0)))
              else if newShape = nullptr then crash_vm
              else if shape_IsReferenceType img newShape then
                andThen (get_vm (\<lambda>s. read_ptr (vm_memory s) payload)) (\<lambda>old.
                andThen (if old = 0 then return_vm ()
                         else DestroyInstance img n
                           \<lparr>m_shape = (if oldShape \<noteq> nullptr then oldShape else newShape), m_rawMemoryPtr = old\<rparr>) (\<lambda>_.
                andThen (IncrementReference value) (\<lambda>_.
                  modify_vm (set_memory (\<lambda>m. write_ptr m payload (m_rawMemoryPtr value))))))
              else
                andThen (if oldShape \<noteq> nullptr then ReleaseInlinePayload img n oldShape payload else return_vm ()) (\<lambda>_.
                andThen (modify_vm (set_memory (\<lambda>m. write_bytes m payload
                    (read_bytes m (m_rawMemoryPtr value) (Align (shp_Size (img_shapes img newShape))))))) (\<lambda>_.
                  AdoptInlinePayload img newShape payload)))))"

text \<open>
  \<^verbatim>\<open>CopyArgumentPayloads\<close> pops the arguments off the calling frame into the first slots. A null
  argument keeps the shape of the slot; when that shape is by value the source of the copy is a
  null address.
\<close>

definition CopyArgument :: "image \<Rightarrow> nat \<Rightarrow> nat \<Rightarrow> unit vm_op" where
  "CopyArgument img f i =
     andThen (get_vm (\<lambda>s. fr_PreviousFrame (frame_of f s))) (\<lambda>callingFrame.
     andThen (PopStack img callingFrame) (\<lambda>argument.
     andThen (get_vm (frame_of f)) (\<lambda>frame.
       if i \<ge> length (fr_LocalSlots frame) then throw_vm (out_of_range ''vector'')
       else
         let (descShape, offset) = fr_LocalSlots frame ! i;
             entry = fr_Arena frame + offset;
             shape = (if m_shape argument = nullptr then descShape else m_shape argument)
         in andThen (modify_vm (set_frame f (\<lambda>fr. fr\<lparr>fr_LocalSlots := (fr_LocalSlots fr)[i := (shape, offset)]\<rparr>))) (\<lambda>_.
            andThen (modify_vm (set_memory (\<lambda>m. write_word m entry shape))) (\<lambda>_.
              if shape = nullptr then return_vm ()
              else if shape_IsReferenceType img shape
              then modify_vm (set_memory (\<lambda>m. write_ptr m (entry + 8) (m_rawMemoryPtr argument)))
              else if IsNullInstance argument then crash_vm
              else
                andThen (modify_vm (set_memory (\<lambda>m. write_bytes m (entry + 8)
                    (read_bytes m (m_rawMemoryPtr argument) (Align (shp_Size (img_shapes img shape))))))) (\<lambda>_.
                  AdoptInlinePayload img shape (entry + 8)))))))"

definition CopyArgumentPayloads :: "image \<Rightarrow> nat \<Rightarrow> unit vm_op" where
  "CopyArgumentPayloads img f =
     andThen (get_vm (\<lambda>s. unat (GetEvalStackArgumentsCount (img_methods img (fr_Method (frame_of f s)))))) (\<lambda>argsCount.
       forEach (CopyArgument img f) [0..<argsCount])"

section \<open>The return slot\<close>

definition returns_void :: "image \<Rightarrow> CallStackFrame \<Rightarrow> bool" where
  "returns_void img frame \<longleftrightarrow>
     me_ReturnType (img_methods img (fr_Method frame)) = pr_Void (img_Primitives img)"

definition ReturnView :: "image \<Rightarrow> nat \<Rightarrow> ObjectInstance vm_op" where
  "ReturnView img f =
     andThen (get_vm (frame_of f)) (\<lambda>frame.
       if returns_void img frame then throw_vm (undefined_behaviour ''PlaceReturned: method returns void'')
       else
         let payload = fr_ReturnSlot frame + 8;
             shape = fr_ReturnSlotShape frame
         in if shape = nullptr then crash_vm
            else if shape_IsReferenceType img shape
            then get_vm (\<lambda>s. \<lparr>m_shape = shape, m_rawMemoryPtr = read_ptr (vm_memory s) payload\<rparr>)
            else return_vm \<lparr>m_shape = shape, m_rawMemoryPtr = payload\<rparr>)"

definition PlaceReturned :: "image \<Rightarrow> nat \<Rightarrow> ObjectInstance \<Rightarrow> unit vm_op" where
  "PlaceReturned img f value =
     andThen (get_vm (frame_of f)) (\<lambda>frame.
       if returns_void img frame then throw_vm (undefined_behaviour ''PlaceReturned: method returns void'')
       else if fr_InterruptionReason frame = ValueReturned
       then throw_vm (undefined_behaviour ''PlaceReturned: return value already placed'')
       else if fr_ReturnSlotShape frame \<noteq> m_shape value
       then throw_vm (undefined_behaviour ''PlaceReturned: shapes mismatched'')
       else if fr_ReturnSlotShape frame = nullptr then crash_vm
       else
         let entry = fr_ReturnSlot frame;
             shape = fr_ReturnSlotShape frame
         in andThen (if shape_IsReferenceType img shape then
                       andThen (IncrementReference value) (\<lambda>_.
                         modify_vm (set_memory (\<lambda>m.
                           write_ptr (write_word m entry shape) (entry + 8) (m_rawMemoryPtr value))))
                     else if IsNullInstance value then crash_vm
                     else
                       modify_vm (set_memory (\<lambda>m.
                         let m1 = write_word m entry shape in
                         write_bytes m1 (entry + 8)
                           (read_bytes m1 (m_rawMemoryPtr value) (shp_Size (img_shapes img shape)))))) (\<lambda>_.
              modify_vm (set_frame f (\<lambda>fr. fr\<lparr>fr_InterruptionReason := ValueReturned\<rparr>))))"

section \<open>Releasing values\<close>

definition ReleaseValue :: "image \<Rightarrow> nat \<Rightarrow> ObjectInstance \<Rightarrow> unit vm_op" where
  "ReleaseValue img n value =
     andThen (getInfo img value) (\<lambda>info.
       if info \<noteq> nullptr \<and> \<not> IsReferenceType (img_types img info)
       then ReleaseInlinePayload img n (m_shape value) (m_rawMemoryPtr value)
       else DestroyInstance img n value)"

definition DiscardValue :: "image \<Rightarrow> nat \<Rightarrow> ObjectInstance \<Rightarrow> unit vm_op" where
  "DiscardValue img n value =
     andThen (getInfo img value) (\<lambda>info.
       if info \<noteq> nullptr \<and> \<not> IsReferenceType (img_types img info)
       then ReleaseInlinePayload img n (m_shape value) (m_rawMemoryPtr value)
       else CollectInstance img n value)"

definition DrainEvalReferences :: "image \<Rightarrow> nat \<Rightarrow> nat \<Rightarrow> unit vm_op" where
  "DrainEvalReferences img n f s =
     forEach (\<lambda>_. andThen (PopStack img f) (ReleaseValue img n)) (fr_EvalOffsets (frame_of f s)) s"

definition DrainLocalReferences :: "image \<Rightarrow> nat \<Rightarrow> nat \<Rightarrow> unit vm_op" where
  "DrainLocalReferences img n f s =
     forEach (\<lambda>(shape, offset).
       let entry = fr_Arena (frame_of f s) + offset in
       if shape = nullptr then return_vm ()
       else if \<not> shape_IsReferenceType img shape then ReleaseInlinePayload img n shape (entry + 8)
       else andThen (get_vm (\<lambda>s. read_ptr (vm_memory s) (entry + 8))) (\<lambda>stored.
              if stored = 0 then return_vm ()
              else DestroyInstance img n \<lparr>m_shape = shape, m_rawMemoryPtr = stored\<rparr>))
       (fr_LocalSlots (frame_of f s)) s"

definition DrainReferences :: "image \<Rightarrow> nat \<Rightarrow> nat \<Rightarrow> unit vm_op" where
  "DrainReferences img n f =
     andThen (DrainEvalReferences img n f) (\<lambda>_. DrainLocalReferences img n f)"

end
