(* ===== verification/EvalStacks.thy ===== *)
theory EvalStacks
  imports CallStackFrames
begin

text \<open>
  The evaluation stack of a frame is specified as a list of entries, bottom to top: a value held
  inline, or a reference to an object. \<open>stack_rep\<close> relates a machine state to that list through the
  bytes of the evaluation region; the operations of \<^verbatim>\<open>CallStackFrame\<close> implement push, pop and peek
  of lists.
\<close>

section \<open>Entries in memory\<close>

datatype entry = Inline ptr bytes | Reference ptr nat

fun entry_stride :: "entry \<Rightarrow> nat" where
  "entry_stride (Inline shape bs) = 8 + Align (length bs)"
| "entry_stride (Reference shape p) = 16"

fun entry_ok :: "image \<Rightarrow> entry \<Rightarrow> bool" where
  "entry_ok img (Inline shape bs) \<longleftrightarrow>
     shape \<noteq> nullptr \<and> \<not> shape_IsReferenceType img shape \<and> length bs = shp_Size (img_shapes img shape)"
| "entry_ok img (Reference shape p) \<longleftrightarrow>
     p < 2 ^ 64 \<and> (if shape = nullptr then p = 0 else shape_IsReferenceType img shape)"

fun entry_at :: "memory \<Rightarrow> nat \<Rightarrow> entry \<Rightarrow> bool" where
  "entry_at m a (Inline shape bs) \<longleftrightarrow> EntryShape m a = shape \<and> read_bytes m (a + 8) (length bs) = bs"
| "entry_at m a (Reference shape p) \<longleftrightarrow> EntryShape m a = shape \<and> read_ptr m (a + 8) = p"

fun entries_at :: "memory \<Rightarrow> nat \<Rightarrow> entry list \<Rightarrow> bool" where
  "entries_at m a [] \<longleftrightarrow> True"
| "entries_at m a (e # es) \<longleftrightarrow> entry_at m a e \<and> entries_at m (a + entry_stride e) es"

definition stack_bytes :: "entry list \<Rightarrow> nat" where
  "stack_bytes es = sum_list (map entry_stride es)"

fun entry_offsets :: "nat \<Rightarrow> entry list \<Rightarrow> nat list" where
  "entry_offsets a [] = []"
| "entry_offsets a (e # es) = a # entry_offsets (a + entry_stride e) es"

text \<open>The view that \<^verbatim>\<open>PeekStack\<close> gives of an entry at an address.\<close>

fun entry_view :: "nat \<Rightarrow> entry \<Rightarrow> ObjectInstance" where
  "entry_view a (Inline shape bs) = \<lparr>m_shape = shape, m_rawMemoryPtr = a + 8\<rparr>"
| "entry_view a (Reference shape p) = \<lparr>m_shape = shape, m_rawMemoryPtr = p\<rparr>"

text \<open>\<open>shows_entry m v e\<close>: the view \<open>v\<close> stands for the entry \<open>e\<close>.\<close>

fun shows_entry :: "memory \<Rightarrow> ObjectInstance \<Rightarrow> entry \<Rightarrow> bool" where
  "shows_entry m v (Inline shape bs) \<longleftrightarrow>
     m_shape v = shape \<and> m_rawMemoryPtr v \<noteq> 0 \<and> read_bytes m (m_rawMemoryPtr v) (length bs) = bs"
| "shows_entry m v (Reference shape p) \<longleftrightarrow> v = \<lparr>m_shape = shape, m_rawMemoryPtr = p\<rparr>"

lemma Align_bounds: "n \<le> Align n" "Align n < n + 8" "8 dvd Align n"
  by (simp_all add: Align_def)

lemma Align_mono: "n \<le> k \<Longrightarrow> Align n \<le> Align k"
  by (simp add: Align_def div_le_mono)

lemma stack_bytes_simps [simp]:
  "stack_bytes [] = 0" "stack_bytes (e # es) = entry_stride e + stack_bytes es"
  "stack_bytes (es @ es') = stack_bytes es + stack_bytes es'"
  by (simp_all add: stack_bytes_def)

lemma entry_offsets_append [simp]:
  "entry_offsets a (es @ [e]) = entry_offsets a es @ [a + stack_bytes es]"
  by (induction es arbitrary: a) (simp_all add: add.assoc)

lemma length_entry_offsets [simp]: "length (entry_offsets a es) = length es"
  by (induction es arbitrary: a) simp_all

lemma entries_at_append [simp]:
  "entries_at m a (es @ es') \<longleftrightarrow> entries_at m a es \<and> entries_at m (a + stack_bytes es) es'"
  by (induction es arbitrary: a) (simp_all add: add.assoc)

lemma entry_stride_payload: "length bs + 8 \<le> entry_stride (Inline shape bs)"
  using Align_bounds(1) [of "length bs"] by simp

lemma EntryShape_cong:
  "(\<And>x. a \<le> x \<Longrightarrow> x < a + 8 \<Longrightarrow> m x = m' x) \<Longrightarrow> EntryShape m a = EntryShape m' a"
  by (simp add: EntryShape_def read_word_def) (metis read_bytes_cong)

lemma read_ptr_cong:
  "(\<And>x. a \<le> x \<Longrightarrow> x < a + 8 \<Longrightarrow> m x = m' x) \<Longrightarrow> read_ptr m a = read_ptr m' a"
  by (simp add: read_ptr_def read_word_def) (metis read_bytes_cong)

lemma entry_at_cong:
  assumes "\<And>x. a \<le> x \<Longrightarrow> x < a + entry_stride e \<Longrightarrow> m x = m' x"
  shows "entry_at m a e \<longleftrightarrow> entry_at m' a e"
proof (cases e)
  case (Inline shape bs)
  with assms entry_stride_payload [of bs shape] show ?thesis
    by (auto intro: EntryShape_cong read_bytes_cong cong: conj_cong
          simp: EntryShape_cong [of a m m'] read_bytes_cong [of "a + 8" "length bs" m m'])
next
  case (Reference shape p)
  with assms show ?thesis
    by (simp add: EntryShape_cong [of a m m'] read_ptr_cong [of "a + 8" m m'])
qed

lemma entries_at_cong:
  "(\<And>x. a \<le> x \<Longrightarrow> x < a + stack_bytes es \<Longrightarrow> m x = m' x) \<Longrightarrow> entries_at m a es \<longleftrightarrow> entries_at m' a es"
proof (induction es arbitrary: a)
  case (Cons e es)
  have "entry_at m a e = entry_at m' a e"
    using Cons.prems by (intro entry_at_cong) simp
  moreover have "entries_at m (a + entry_stride e) es = entries_at m' (a + entry_stride e) es"
    using Cons.prems by (intro Cons.IH) simp
  ultimately show ?case by simp
qed simp

lemma slot_view_entry: "entry_at m a e \<Longrightarrow> entry_ok img e \<Longrightarrow> slot_view img m a = entry_view a e"
  by (cases e) (auto simp: slot_view_def Let_def split: if_splits)

lemma entry_view_shows: "entry_at m a e \<Longrightarrow> shows_entry m (entry_view a e) e"
  by (cases e) auto

section \<open>The representation\<close>

definition stack_rep :: "image \<Rightarrow> nat \<Rightarrow> entry list \<Rightarrow> vm \<Rightarrow> bool" where
  "stack_rep img f es s \<longleftrightarrow>
     (let fr = frame_of f s in
      fr_EvalOffsets fr = entry_offsets 0 es \<and> fr_EvalCursorBytes fr = stack_bytes es \<and>
      entries_at (vm_memory s) (fr_EvalEntries fr) es \<and> list_all (entry_ok img) es \<and>
      stack_bytes es \<le> fr_EvalCapacityBytes fr \<and> fr_EvalCapacityBytes fr < 2 ^ 32)"

definition push_cursor :: "nat \<Rightarrow> CallStackFrame \<Rightarrow> CallStackFrame" where
  "push_cursor stride fr =
     fr\<lparr>fr_EvalOffsets := fr_EvalOffsets fr @ [fr_EvalCursorBytes fr mod 2 ^ 32],
        fr_EvalCursorBytes := fr_EvalCursorBytes fr + stride\<rparr>"

definition pop_cursor :: "CallStackFrame \<Rightarrow> CallStackFrame" where
  "pop_cursor fr =
     fr\<lparr>fr_EvalCursorBytes := last (fr_EvalOffsets fr), fr_EvalOffsets := butlast (fr_EvalOffsets fr)\<rparr>"

abbreviation entry_top :: "nat \<Rightarrow> vm \<Rightarrow> nat" where
  "entry_top f s \<equiv> fr_EvalEntries (frame_of f s) + fr_EvalCursorBytes (frame_of f s)"

text \<open>A shape without reference fields: copying its values touches no counter.\<close>

definition flat_shape :: "image \<Rightarrow> ptr \<Rightarrow> bool" where
  "flat_shape img shape \<longleftrightarrow>
     list_all (\<lambda>(offset, fieldShape). fieldShape = nullptr \<or> \<not> shape_IsReferenceType img fieldShape)
       (shp_Slots (img_shapes img shape))"

lemma forEach_skip: "(\<And>x t. x \<in> set xs \<Longrightarrow> g x t = Ret () t) \<Longrightarrow> forEach g xs s = Ret () s"
  by (induction xs arbitrary: s) (simp_all add: andThen_def)

lemma Adopt_flat [simp]: "flat_shape img shape \<Longrightarrow> AdoptInlinePayload img shape payload s = Ret () s"
  by (auto simp: AdoptInlinePayload_def flat_shape_def list_all_iff intro!: forEach_skip split: prod.splits)

lemma Release_flat [simp]: "flat_shape img shape \<Longrightarrow> ReleaseInlinePayload img n shape payload s = Ret () s"
  by (auto simp: ReleaseInlinePayload_def flat_shape_def list_all_iff intro!: forEach_skip split: prod.splits)

lemma frame_of_set [simp]:
  "frame_of f (set_memory g s) = frame_of f s" "frame_of f (set_frame f h s) = h (frame_of f s)"
  "f \<noteq> f' \<Longrightarrow> frame_of f' (set_frame f h s) = frame_of f' s"
  by (simp_all add: frame_of_def)

lemma push_cursor_simps [simp]:
  "fr_EvalOffsets (push_cursor k fr) = fr_EvalOffsets fr @ [fr_EvalCursorBytes fr mod 2 ^ 32]"
  "fr_EvalCursorBytes (push_cursor k fr) = fr_EvalCursorBytes fr + k"
  "fr_EvalEntries (push_cursor k fr) = fr_EvalEntries fr"
  "fr_EvalCapacityBytes (push_cursor k fr) = fr_EvalCapacityBytes fr"
  by (simp_all add: push_cursor_def)

lemma pop_cursor_simps [simp]:
  "fr_EvalOffsets (pop_cursor fr) = butlast (fr_EvalOffsets fr)"
  "fr_EvalCursorBytes (pop_cursor fr) = last (fr_EvalOffsets fr)"
  "fr_EvalEntries (pop_cursor fr) = fr_EvalEntries fr"
  "fr_EvalCapacityBytes (pop_cursor fr) = fr_EvalCapacityBytes fr"
  by (simp_all add: pop_cursor_def)

section \<open>What the operations do\<close>

lemma PushInline_flat:
  assumes "shape \<noteq> nullptr" "flat_shape img shape"
    and "src (write_word (vm_memory s) (entry_top f s) shape) = Some bs"
  shows "PushInline img f shape src s =
    Ret \<lparr>m_shape = shape, m_rawMemoryPtr = entry_top f s + 8\<rparr>
      (set_memory (\<lambda>m. write_bytes (write_word m (entry_top f s) shape) (entry_top f s + 8) bs)
        (set_frame f (push_cursor (8 + Align (shp_Size (img_shapes img shape)))) s))"
  using assms
  by (simp add: PushInline_def PushInlineUninitialized_def andThen_def Let_def set_memory_def
      push_cursor_def [abs_def] add.assoc)

lemma PushReference_eq:
  "PushReference f v s =
    Ret v (set_memory (\<lambda>m. write_ptr (write_word m (entry_top f s) (m_shape v)) (entry_top f s + 8) (m_rawMemoryPtr v))
        (set_frame f (push_cursor 16) s))"
  by (simp add: PushReference_def Let_def push_cursor_def [abs_def] set_memory_def)

lemma PopStack_eq:
  assumes "stack_rep img f (es @ [e]) s"
  shows "PopStack img f s =
    Ret (entry_view (fr_EvalEntries (frame_of f s) + stack_bytes es) e) (set_frame f pop_cursor s)"
proof -
  have "slot_view img (vm_memory s) (fr_EvalEntries (frame_of f s) + stack_bytes es)
      = entry_view (fr_EvalEntries (frame_of f s) + stack_bytes es) e"
    using assms by (intro slot_view_entry) (simp_all add: stack_rep_def Let_def)
  with assms show ?thesis
    by (simp add: PopStack_def PeekStack_def stack_rep_def Let_def andThen_def pop_cursor_def [abs_def])
qed

lemma PeekStack_eq:
  assumes "stack_rep img f (es @ [e]) s"
  shows "PeekStack img f s = Ret (entry_view (fr_EvalEntries (frame_of f s) + stack_bytes es) e) s"
proof -
  have "slot_view img (vm_memory s) (fr_EvalEntries (frame_of f s) + stack_bytes es)
      = entry_view (fr_EvalEntries (frame_of f s) + stack_bytes es) e"
    using assms by (intro slot_view_entry) (simp_all add: stack_rep_def Let_def)
  with assms show ?thesis
    by (simp add: PeekStack_def stack_rep_def Let_def)
qed

section \<open>Refinement\<close>

lemma stack_rep_pop: "stack_rep img f (es @ [e]) s \<Longrightarrow> stack_rep img f es (set_frame f pop_cursor s)"
  by (simp add: stack_rep_def Let_def)

text \<open>The bytes of an entry that a push writes.\<close>

fun entry_write :: "nat \<Rightarrow> entry \<Rightarrow> memory \<Rightarrow> memory" where
  "entry_write a (Inline shape bs) m = write_bytes (write_word m a shape) (a + 8) bs"
| "entry_write a (Reference shape p) m = write_ptr (write_word m a shape) (a + 8) p"

lemma entry_write_below: "x < a \<Longrightarrow> entry_write a e m x = m x"
  by (cases e) (simp_all add: write_defs write_bytes_at)

lemma entry_write_above: "a + entry_stride e \<le> x \<Longrightarrow> entry_write a e m x = m x"
proof (cases e)
  case (Inline shape bs)
  assume "a + entry_stride e \<le> x"
  with Inline entry_stride_payload [of bs shape] have "a + 8 + length bs \<le> x" by simp
  with Inline show ?thesis by (simp add: write_defs write_bytes_at)
next
  case (Reference shape p)
  assume "a + entry_stride e \<le> x"
  with Reference show ?thesis by (simp add: write_defs write_bytes_at)
qed

lemma entry_write_at: "entry_ok img e \<Longrightarrow> entry_at (entry_write a e m) a e"
  by (cases e)
     (simp_all add: write_defs EntryShape_def read_word_apart apart_def read_write_same
        read_word_same [unfolded write_word_def] read_ptr_same [unfolded write_defs])

lemma stack_rep_push:
  assumes "stack_rep img f es s" "entry_ok img e"
    and "stack_bytes es + entry_stride e \<le> fr_EvalCapacityBytes (frame_of f s)"
  shows "stack_rep img f (es @ [e])
    (set_memory (entry_write (entry_top f s) e) (set_frame f (push_cursor (entry_stride e)) s))"
proof -
  let ?a = "fr_EvalEntries (frame_of f s)"
  have cur: "fr_EvalCursorBytes (frame_of f s) = stack_bytes es"
    using assms(1) by (simp add: stack_rep_def Let_def)
  have small: "stack_bytes es < 2 ^ 32"
    using assms by (simp add: stack_rep_def Let_def)
  have "entries_at (entry_write (?a + stack_bytes es) e (vm_memory s)) ?a es"
    using assms(1) entries_at_cong [of ?a es "entry_write (?a + stack_bytes es) e (vm_memory s)" "vm_memory s"]
    by (simp add: stack_rep_def Let_def entry_write_below)
  with assms cur small entry_write_at [OF assms(2)] show ?thesis
    by (simp add: stack_rep_def Let_def)
qed

lemma PushStack_shows:
  assumes v: "shows_entry (vm_memory s) v e" and ok: "entry_ok img e"
    and flat: "flat_shape img (m_shape v)"
    and far: "\<And>shape bs. e = Inline shape bs \<Longrightarrow> apart (entry_top f s) 8 (m_rawMemoryPtr v) (length bs)"
  shows "PushStack img f v s =
    Ret (entry_view (entry_top f s) e)
      (set_memory (entry_write (entry_top f s) e) (set_frame f (push_cursor (entry_stride e)) s))"
proof (cases e)
  case (Inline shape bs)
  have src: "view_source img v (write_word (vm_memory s) (entry_top f s) shape) = Some bs"
    using Inline v ok far by (simp add: view_source_def write_defs read_write_apart)
  have "PushInline img f shape (view_source img v) s =
      Ret \<lparr>m_shape = shape, m_rawMemoryPtr = entry_top f s + 8\<rparr>
        (set_memory (\<lambda>m. write_bytes (write_word m (entry_top f s) shape) (entry_top f s + 8) bs)
          (set_frame f (push_cursor (8 + Align (shp_Size (img_shapes img shape)))) s))"
    using Inline v ok flat by (intro PushInline_flat src) simp_all
  with Inline v ok show ?thesis by (simp add: PushStack_def set_memory_def)
next
  case (Reference shape p)
  with v ok show ?thesis
    by (simp add: PushStack_def PushReference_eq set_memory_def split: if_splits)
qed

end
