(* ===== verification/PrimitiveTypes.thy ===== *)
theory PrimitiveTypes
  imports EvalStacks
begin

text \<open>
  The primitive types as \<^verbatim>\<open>src/semantic/components/Primitives.cpp\<close> registers them, and what the
  runtime relies on: \<open>primitives_ok\<close>. The image \<open>small_image\<close> is a program whose symbols are only
  the primitive types, with the bump allocator; the witnesses run on it.
\<close>

section \<open>Registration\<close>

definition make_primitive :: "TypeInlining \<Rightarrow> DeclarationKind \<Rightarrow> nat \<Rightarrow> TypeSymbol" where
  "make_primitive inlining kind memoryBytesSize =
     \<lparr>ty_Kind = DeclK kind, ty_TypeParameters = [], ty_Fields = [], ty_LayoutingState = Visited,
      ty_Inlining = inlining, ty_MemoryBytesSize = memoryBytesSize, ty_NextSlotIndex = 0,
      ty_UnderlayingType = nullptr, ty_Length = 0, ty_typeParametersMap = [], ty_FieldOffsets = [],
      ty_TypeArgumentIndex = 0, ty_IsReadyForRuntime = True\<rparr>"

text \<open>A \<^verbatim>\<open>StructSymbol\<close> is by value, a \<^verbatim>\<open>ClassSymbol\<close> by reference.\<close>

definition struct_primitive :: "nat \<Rightarrow> TypeSymbol" where
  "struct_primitive = make_primitive ByValue StructDeclaration"

definition class_primitive :: "nat \<Rightarrow> TypeSymbol" where
  "class_primitive = make_primitive ByReference ClassDeclaration"

definition ResolvePrimitives :: "Primitives \<Rightarrow> (ptr \<Rightarrow> TypeSymbol) \<Rightarrow> ptr \<Rightarrow> TypeSymbol" where
  "ResolvePrimitives p types = types
     (pr_Void p := struct_primitive 0, pr_Any p := struct_primitive 0, pr_Null p := struct_primitive 0,
      pr_NativeInteger p := struct_primitive 8, pr_Boolean p := struct_primitive 1,
      pr_Integer p := struct_primitive 8, pr_Double p := struct_primitive 8,
      pr_Char p := struct_primitive 2, pr_Byte p := struct_primitive 1,
      pr_String p := class_primitive 16, pr_Array p := class_primitive 8)"

section \<open>What the runtime relies on\<close>

definition primitive_list :: "Primitives \<Rightarrow> ptr list" where
  "primitive_list p =
     [pr_Void p, pr_Null p, pr_Any p, pr_Boolean p, pr_Integer p, pr_Double p, pr_Char p, pr_String p,
      pr_Array p, pr_NativeInteger p, pr_Byte p]"

text \<open>
  The primitive symbols are distinct and registered, and the shape of one is not null, has it as
  its base type, no fields and its size.
\<close>

definition shape_of_primitive :: "image \<Rightarrow> ptr \<Rightarrow> bool" where
  "shape_of_primitive img t \<longleftrightarrow>
     (let shape = img_GetOrCreateShape img t [] in
      shape \<noteq> nullptr \<and> shp_BaseType (img_shapes img shape) = t \<and> shp_Slots (img_shapes img shape) = [] \<and>
      shp_Size (img_shapes img shape) = ty_MemoryBytesSize (img_types img t))"

definition primitives_ok :: "image \<Rightarrow> bool" where
  "primitives_ok img \<longleftrightarrow>
     (let p = img_Primitives img in
      distinct (nullptr # primitive_list p) \<and>
      (\<forall>t\<in>set (primitive_list p).
         img_types img t = ResolvePrimitives p (img_types img) t \<and> shape_of_primitive img t))"

lemma primitives_shape:
  assumes "primitives_ok img" "t \<in> set (primitive_list (img_Primitives img))"
  shows "img_GetOrCreateShape img t [] \<noteq> nullptr"
    and "shp_BaseType (img_shapes img (img_GetOrCreateShape img t [])) = t"
    and "shp_Slots (img_shapes img (img_GetOrCreateShape img t [])) = []"
    and "shp_Size (img_shapes img (img_GetOrCreateShape img t [])) = ty_MemoryBytesSize (img_types img t)"
  using assms by (auto simp: primitives_ok_def shape_of_primitive_def Let_def)

lemma flat_primitive:
  "primitives_ok img \<Longrightarrow> t \<in> set (primitive_list (img_Primitives img)) \<Longrightarrow>
     flat_shape img (img_GetOrCreateShape img t [])"
  by (simp add: flat_shape_def primitives_shape)

text \<open>The facts of the value types, one bundle each for the integer and the boolean.\<close>

lemma primitives_distinct:
  assumes "primitives_ok img"
  shows "distinct (nullptr # primitive_list (img_Primitives img))"
  using assms by (simp add: primitives_ok_def Let_def)

lemma ResolvePrimitives_at:
  assumes "distinct (nullptr # primitive_list p)"
  shows "ResolvePrimitives p types (pr_Integer p) = struct_primitive 8"
    and "ResolvePrimitives p types (pr_Boolean p) = struct_primitive 1"
    and "ResolvePrimitives p types (pr_Byte p) = struct_primitive 1"
    and "ResolvePrimitives p types (pr_Char p) = struct_primitive 2"
    and "ResolvePrimitives p types (pr_Double p) = struct_primitive 8"
    and "ResolvePrimitives p types (pr_NativeInteger p) = struct_primitive 8"
    and "ResolvePrimitives p types (pr_Any p) = struct_primitive 0"
    and "ResolvePrimitives p types (pr_String p) = class_primitive 16"
    and "ResolvePrimitives p types (pr_Array p) = class_primitive 8"
  using assms by (auto simp: primitive_list_def ResolvePrimitives_def)

lemma primitive_type:
  "primitives_ok img \<Longrightarrow> t \<in> set (primitive_list (img_Primitives img)) \<Longrightarrow>
     img_types img t = ResolvePrimitives (img_Primitives img) (img_types img) t"
  by (simp add: primitives_ok_def Let_def)

lemma primitive_kinds [simp]:
  "ty_Inlining (struct_primitive k) = ByValue" "ty_Kind (struct_primitive k) = DeclK StructDeclaration"
  "ty_MemoryBytesSize (struct_primitive k) = k"
  "ty_Inlining (class_primitive k) = ByReference" "ty_Kind (class_primitive k) = DeclK ClassDeclaration"
  "ty_MemoryBytesSize (class_primitive k) = k"
  by (simp_all add: struct_primitive_def class_primitive_def make_primitive_def)

lemma primitive_members [simp]:
  "pr_Void p \<in> set (primitive_list p)" "pr_Null p \<in> set (primitive_list p)" "pr_Any p \<in> set (primitive_list p)"
  "pr_Boolean p \<in> set (primitive_list p)" "pr_Integer p \<in> set (primitive_list p)"
  "pr_Double p \<in> set (primitive_list p)" "pr_Char p \<in> set (primitive_list p)"
  "pr_String p \<in> set (primitive_list p)" "pr_Array p \<in> set (primitive_list p)"
  "pr_NativeInteger p \<in> set (primitive_list p)" "pr_Byte p \<in> set (primitive_list p)"
  by (simp_all add: primitive_list_def)

lemma primitive_types:
  assumes "primitives_ok img"
  shows "img_types img (pr_Integer (img_Primitives img)) = struct_primitive 8"
    and "img_types img (pr_Boolean (img_Primitives img)) = struct_primitive 1"
    and "img_types img (pr_Byte (img_Primitives img)) = struct_primitive 1"
    and "img_types img (pr_Char (img_Primitives img)) = struct_primitive 2"
    and "img_types img (pr_Double (img_Primitives img)) = struct_primitive 8"
    and "img_types img (pr_NativeInteger (img_Primitives img)) = struct_primitive 8"
    and "img_types img (pr_Any (img_Primitives img)) = struct_primitive 0"
    and "img_types img (pr_String (img_Primitives img)) = class_primitive 16"
    and "img_types img (pr_Array (img_Primitives img)) = class_primitive 8"
  by (subst primitive_type [OF assms], simp, rule ResolvePrimitives_at [OF primitives_distinct [OF assms]])+

section \<open>A small program image\<close>

definition small_Primitives :: Primitives where
  "small_Primitives =
     \<lparr>pr_Void = 1, pr_Null = 2, pr_Any = 3, pr_Boolean = 4, pr_Integer = 5, pr_Double = 6, pr_Char = 7,
      pr_String = 8, pr_Array = 9, pr_NativeInteger = 10, pr_Byte = 11\<rparr>"

definition small_types :: "ptr \<Rightarrow> TypeSymbol" where
  "small_types = ResolvePrimitives small_Primitives (\<lambda>_. class_primitive 0)"

definition small_method :: MethodSymbol where
  "small_method =
     \<lparr>me_Linking = LINK_STATIC, me_ReturnType = 1, me_TypeParameters = [], me_Parameters = [],
      me_HandleType = Body, me_ExecutableByteCode = [], me_FunctionPointer = 0,
      me_EvalStackVariablesCount = 0, me_VariableSlots = [], me_MaxEvalDepth = 0,
      me_EvalSlotPayload = 8, me_IsComplete = True\<rparr>"

text \<open>Integer arithmetic stands in for floating point: the witnesses only use integers.\<close>

definition small_double :: double_ops where
  "small_double =
     \<lparr>dbl_add = (+), dbl_sub = (-), dbl_mul = (*), dbl_div = (div), dbl_fmod = (mod), dbl_pow = (\<lambda>x y. x),
      dbl_neg = uminus, dbl_eq = (=), dbl_less = (<), dbl_of_int = (\<lambda>x. x), dbl_to_int = Some,
      dbl_format = (\<lambda>x. [])\<rparr>"

definition small_query :: symbol_queries where
  "small_query =
     \<lparr>q_IsAssignableTo = (=), q_FindInterfaceImplementation = (\<lambda>_ _. nullptr), q_FindOperator = (\<lambda>_ _ _. nullptr),
      q_DelegateMethod = (\<lambda>_. nullptr), q_AnonymousSymbol = (\<lambda>_. nullptr),
      q_ResolveRuntimeTypeArgument = (\<lambda>_ t. t), q_TryResolveGenericArguments = (\<lambda>_ _. None),
      q_ThrowableSlot = (\<lambda>_ _. None), q_TaskStateSlot = (\<lambda>_. None), q_TaskExceptionSlot = (\<lambda>_. None),
      q_RuntimeExceptionSlots = (0, 1),
      q_Constructors = (\<lambda>_. []), q_RuntimeException = nullptr,
      q_UndefinedBehaviour = nullptr, q_FullName = (\<lambda>_. [])\<rparr>"

definition small_image :: image where
  "small_image =
     \<lparr>img_types = small_types, img_methods = (\<lambda>_. small_method),
      img_fields = (\<lambda>_. \<lparr>fld_Linking = LINK_STATIC, fld_MemoryBytesOffset = 0, fld_SlotIndex = no_slot,
                         fld_ReturnType = 5, fld_HasDefaultValue = False, fld_EnumValue = 0, fld_Parent = 0\<rparr>),
      img_shapes = (\<lambda>t. \<lparr>shp_BaseType = t, shp_GenericArguments = [],
                         shp_Size = ty_MemoryBytesSize (small_types t), shp_Alignment = 1, shp_Slots = []\<rparr>),
      img_GetOrCreateShape = (\<lambda>t args. t), img_Primitives = small_Primitives,
      img_alloc = bump_alloc, img_double = small_double, img_sizeof_CallStackFrame = 512,
      img_DataAddress = 0, img_query = small_query, img_native = (\<lambda>_ _ s. Ret () s),
      img_halt_scope = (\<lambda>_ s. Ret () s), img_frame_object = (\<lambda>_ k. of_nat k)\<rparr>"

lemma ResolvePrimitives_twice: "ResolvePrimitives p (ResolvePrimitives p types) t = ResolvePrimitives p types t"
  by (simp add: ResolvePrimitives_def)

lemma small_image_select [simp]:
  "img_types small_image = small_types" "img_Primitives small_image = small_Primitives"
  "img_GetOrCreateShape small_image t args = t" "img_alloc small_image = bump_alloc"
  "img_shapes small_image t = \<lparr>shp_BaseType = t, shp_GenericArguments = [],
     shp_Size = ty_MemoryBytesSize (small_types t), shp_Alignment = 1, shp_Slots = []\<rparr>"
  "img_methods small_image t = small_method" "img_sizeof_CallStackFrame small_image = 512"
  by (simp_all add: small_image_def)

lemma small_primitives_distinct: "distinct (nullptr # primitive_list small_Primitives)"
  by (simp add: primitive_list_def small_Primitives_def)

lemma small_primitives_nonnull: "t \<in> set (primitive_list small_Primitives) \<Longrightarrow> t \<noteq> nullptr"
  using small_primitives_distinct by auto

lemma small_image_primitives: "primitives_ok small_image"
  using small_primitives_distinct
  by (simp add: primitives_ok_def shape_of_primitive_def Let_def small_primitives_nonnull
      small_types_def ResolvePrimitives_twice)

lemma small_image_allocator: "allocator_ok small_image"
  by (rule bump_allocator_ok) (simp add: small_image_def)

text \<open>A machine that has not started: no memory in use, no frames.\<close>

definition small_vm :: vm where
  "small_vm =
     \<lparr>vm_memory = (\<lambda>_. 0), vm_blocks = [], vm_Heap = {}, vm_staticFields = Map.empty,
      vm_internedStrings = Map.empty, vm_asyncTable = Map.empty,
      vm_frames = (\<lambda>_. \<lparr>fr_ReturnSlot = 0, fr_ReturnSlotShape = 0, fr_LocalSlots = [], fr_LocalRegionEnd = 0,
        fr_EvalEntries = 0, fr_EvalCapacityBytes = 0, fr_EvalCursorBytes = 0, fr_EvalOffsets = [],
        fr_PreviousFrame = 0, fr_Method = 0, fr_Arena = 0, fr_ArenaBytes = 0, fr_TypeArguments = [],
        fr_ExceptionHandlers = [], fr_PendingTaskCount = 0, fr_DeferStack = [], fr_DeferDrainDepth = 0,
        fr_InterruptionReason = NoReason, fr_CurrentException = null_instance, fr_UseCount = 0\<rparr>),
      vm_CallStack = [], vm_AbortFlag = False, vm_PendingTypeArguments = [],
      vm_UnhandledException = null_instance, vm_rootedTasks = []\<rparr>"

end
