(* ===== verification/PrimitiveMath.thy ===== *)
theory PrimitiveMath
  imports PrimitiveTypes "HOL-Library.Signed_Division"
begin

text \<open>
  Operators on values of the primitive types: \<^verbatim>\<open>src/runtime/PrimitiveMathModule.cpp\<close>. A null
  instance as result means that the module does not handle the operands.

  Integers are 64-bit words in two's complement. Addition, subtraction, multiplication and negation
  wrap around, which C++ leaves undefined and the compilers of the project do; the quotient of the
  smallest integer by \<open>-1\<close> and a shift by an amount outside \<open>0..63\<close> are undefined behaviour.
  \<^verbatim>\<open>swprintf\<close> into no buffer returns the number of characters, as in the Microsoft library.
\<close>

section \<open>Operands\<close>

definition TypeOf :: "image \<Rightarrow> ObjectInstance \<Rightarrow> ptr vm_op" where
  "TypeOf img v = (if IsNullInstance v then return_vm nullptr else getInfo img v)"

definition IsNull_math :: "image \<Rightarrow> ObjectInstance \<Rightarrow> bool vm_op" where
  "IsNull_math img v =
     (if IsNullInstance v then return_vm True
      else andThen (TypeOf img v) (\<lambda>type. return_vm (is_primitive img pr_Null type)))"

definition IsNumericType :: "image \<Rightarrow> ptr \<Rightarrow> bool" where
  "IsNumericType img type \<longleftrightarrow>
     is_primitive img pr_Integer type \<or> is_primitive img pr_Double type \<or> is_primitive img pr_Char type
     \<or> is_primitive img pr_Boolean type \<or> is_primitive img pr_Byte type \<or> is_primitive img pr_NativeInteger type"

definition IsIntegralType :: "image \<Rightarrow> ptr \<Rightarrow> bool" where
  "IsIntegralType img type \<longleftrightarrow>
     is_primitive img pr_Integer type \<or> is_primitive img pr_Char type
     \<or> is_primitive img pr_Byte type \<or> is_primitive img pr_NativeInteger type"

text \<open>\<^verbatim>\<open>static_cast<std::int64_t>\<close> of a double.\<close>

definition double_to_integer :: "image \<Rightarrow> u64 \<Rightarrow> u64 vm_op" where
  "double_to_integer img d =
     (case dbl_to_int (img_double img) d of None \<Rightarrow> crash_vm | Some i \<Rightarrow> return_vm i)"

definition AsInteger_math :: "image \<Rightarrow> ObjectInstance \<Rightarrow> u64 vm_op" where
  "AsInteger_math img v =
     andThen (TypeOf img v) (\<lambda>type.
       if type = nullptr then crash_vm
       else if is_integer_type img type then AsInteger img v
       else if is_primitive img pr_Double type then andThen (AsDouble img v) (double_to_integer img)
       else if is_primitive img pr_Boolean type then
         andThen (AsBoolean img v) (\<lambda>b. return_vm (if b then 1 else 0))
       else if is_primitive img pr_Char type then andThen (AsCharacter img v) (\<lambda>c. return_vm (ucast c))
       else if is_primitive img pr_Byte type then andThen (AsByte img v) (\<lambda>b. return_vm (ucast b))
       else if is_primitive img pr_NativeInteger type then AsNint img v
       else return_vm 0)"

definition AsDouble_math :: "image \<Rightarrow> ObjectInstance \<Rightarrow> u64 vm_op" where
  "AsDouble_math img v =
     (let of_int = dbl_of_int (img_double img) in
      andThen (TypeOf img v) (\<lambda>type.
       if type = nullptr then crash_vm
       else if is_primitive img pr_Double type then AsDouble img v
       else if is_integer_type img type then andThen (AsInteger img v) (\<lambda>i. return_vm (of_int i))
       else if is_primitive img pr_Boolean type then
         andThen (AsBoolean img v) (\<lambda>b. return_vm (of_int (if b then 1 else 0)))
       else if is_primitive img pr_Char type then andThen (AsCharacter img v) (\<lambda>c. return_vm (of_int (ucast c)))
       else if is_primitive img pr_Byte type then andThen (AsByte img v) (\<lambda>b. return_vm (of_int (ucast b)))
       else if is_primitive img pr_NativeInteger type then andThen (AsNint img v) (\<lambda>i. return_vm (of_int i))
       else return_vm (of_int 0)))"

definition AsBoolean_math :: "image \<Rightarrow> ObjectInstance \<Rightarrow> bool vm_op" where
  "AsBoolean_math img v =
     andThen (TypeOf img v) (\<lambda>type.
       if type = nullptr then crash_vm
       else if is_primitive img pr_Boolean type then AsBoolean img v
       else if is_integer_type img type then andThen (AsInteger img v) (\<lambda>i. return_vm (i \<noteq> 0))
       else if is_primitive img pr_Double type then
         andThen (AsDouble img v) (\<lambda>d. return_vm (\<not> dbl_eq (img_double img) d (dbl_of_int (img_double img) 0)))
       else if is_primitive img pr_Char type then andThen (AsCharacter img v) (\<lambda>c. return_vm (c \<noteq> 0))
       else if is_primitive img pr_Byte type then andThen (AsByte img v) (\<lambda>b. return_vm (b \<noteq> 0))
       else if is_primitive img pr_NativeInteger type then andThen (AsNint img v) (\<lambda>i. return_vm (i \<noteq> 0))
       else return_vm False)"

definition AsCharacter_math :: "image \<Rightarrow> ObjectInstance \<Rightarrow> wchar vm_op" where
  "AsCharacter_math img v =
     andThen (TypeOf img v) (\<lambda>type.
       if type = nullptr then crash_vm
       else if is_primitive img pr_Char type then AsCharacter img v
       else if is_integer_type img type then andThen (AsInteger img v) (\<lambda>i. return_vm (ucast i))
       else if is_primitive img pr_Double type then
         andThen (andThen (AsDouble img v) (double_to_integer img)) (\<lambda>i. return_vm (ucast i))
       else if is_primitive img pr_Boolean type then
         andThen (AsBoolean img v) (\<lambda>b. return_vm (if b then wc CHR ''1'' else 0))
       else return_vm 0)"

section \<open>Text of a value\<close>

fun digits :: "nat \<Rightarrow> nat \<Rightarrow> string" where
  "digits 0 n = []"
| "digits (Suc k) n = (if n < 10 then [] else digits k (n div 10)) @ [char_of (48 + n mod 10)]"

text \<open>The format \<^verbatim>\<open>%lld\<close>: at most 20 digits for a 64-bit number.\<close>

definition format_integer :: "u64 \<Rightarrow> wstring" where
  "format_integer i =
     (let k = sint i in L ((if k < 0 then ''-'' else []) @ digits 20 (nat (abs k))))"

text \<open>The characters at an address.\<close>

definition read_text :: "memory \<Rightarrow> nat \<Rightarrow> nat \<Rightarrow> wstring" where
  "read_text m a n = map (\<lambda>i. read_word m (a + 2 * i)) [0..<n]"

text \<open>
  \<^verbatim>\<open>FormatString\<close> measures in one call and writes in another; the text it writes is the result.
\<close>

definition FormatString :: "image \<Rightarrow> ObjectInstance \<Rightarrow> wstring vm_op" where
  "FormatString img v =
     andThen (TypeOf img v) (\<lambda>type.
       if is_primitive img pr_String type then
         andThen (AsStringLength img v) (\<lambda>len.
         andThen (AsString img v) (\<lambda>text_address.
           get_vm (\<lambda>s. read_text (vm_memory s) text_address (unat len))))
       else if type = nullptr then crash_vm
       else if is_integer_type img type then andThen (AsInteger img v) (\<lambda>i. return_vm (format_integer i))
       else if is_primitive img pr_Double type then
         andThen (AsDouble img v) (\<lambda>d. return_vm (dbl_format (img_double img) d))
       else if is_primitive img pr_Boolean type then
         andThen (AsBoolean img v) (\<lambda>b. return_vm (L (if b then ''true'' else ''false'')))
       else if is_primitive img pr_Char type then andThen (AsCharacter img v) (\<lambda>c. return_vm [c])
       else if is_primitive img pr_Byte type then
         andThen (AsByte img v) (\<lambda>b. return_vm (format_integer (ucast b)))
       else if is_primitive img pr_NativeInteger type then
         andThen (AsNint img v) (\<lambda>i. return_vm (format_integer i))
       else return_vm [])"

section \<open>Arithmetic\<close>

text \<open>
  The shape of the arithmetic operations: both operands numeric, in doubles when one of them is a
  double and in integers otherwise.
\<close>

definition numeric_operands ::
  "image \<Rightarrow> ObjectInstance \<Rightarrow> ObjectInstance \<Rightarrow> (u64 \<Rightarrow> u64 \<Rightarrow> ObjectInstance vm_op)
     \<Rightarrow> (u64 \<Rightarrow> u64 \<Rightarrow> ObjectInstance vm_op) \<Rightarrow> ObjectInstance vm_op" where
  "numeric_operands img left right in_double in_integer =
     andThen (TypeOf img left) (\<lambda>lt.
     andThen (TypeOf img right) (\<lambda>rt.
       if \<not> IsNumericType img lt \<or> \<not> IsNumericType img rt then return_vm null_instance
       else if is_primitive img pr_Double lt \<or> is_primitive img pr_Double rt then
         andThen (AsDouble_math img left) (\<lambda>x. andThen (AsDouble_math img right) (\<lambda>y. in_double x y))
       else
         andThen (AsInteger_math img left) (\<lambda>i. andThen (AsInteger_math img right) (\<lambda>j. in_integer i j))))"

definition ExecuteMathAddition :: "image \<Rightarrow> ObjectInstance \<Rightarrow> ObjectInstance \<Rightarrow> ObjectInstance vm_op" where
  "ExecuteMathAddition img left right =
     andThen (TypeOf img left) (\<lambda>lt.
     andThen (TypeOf img right) (\<lambda>rt.
       if is_primitive img pr_String lt \<or> is_primitive img pr_String rt then
         andThen (FormatString img left) (\<lambda>l.
         andThen (FormatString img right) (\<lambda>r.
           FromString img (takeWhile (\<lambda>c. c \<noteq> 0) (l @ r))))
       else numeric_operands img left right
         (\<lambda>x y. FromDouble img (dbl_add (img_double img) x y)) (\<lambda>i j. FromInteger img (i + j))))"

definition ExecuteMathSubtraction :: "image \<Rightarrow> ObjectInstance \<Rightarrow> ObjectInstance \<Rightarrow> ObjectInstance vm_op" where
  "ExecuteMathSubtraction img left right =
     numeric_operands img left right
       (\<lambda>x y. FromDouble img (dbl_sub (img_double img) x y)) (\<lambda>i j. FromInteger img (i - j))"

definition ExecuteMathMultiplication :: "image \<Rightarrow> ObjectInstance \<Rightarrow> ObjectInstance \<Rightarrow> ObjectInstance vm_op" where
  "ExecuteMathMultiplication img left right =
     numeric_operands img left right
       (\<lambda>x y. FromDouble img (dbl_mul (img_double img) x y)) (\<lambda>i j. FromInteger img (i * j))"

definition is_zero_double :: "image \<Rightarrow> u64 \<Rightarrow> bool" where
  "is_zero_double img d \<longleftrightarrow> dbl_eq (img_double img) d (dbl_of_int (img_double img) 0)"

text \<open>The quotient that does not fit: the processor traps.\<close>

definition quotient_overflows :: "u64 \<Rightarrow> u64 \<Rightarrow> bool" where
  "quotient_overflows i j \<longleftrightarrow> sint i = - (2 ^ 63) \<and> sint j = -1"

definition ExecuteMathDivision :: "image \<Rightarrow> ObjectInstance \<Rightarrow> ObjectInstance \<Rightarrow> ObjectInstance vm_op" where
  "ExecuteMathDivision img left right =
     numeric_operands img left right
       (\<lambda>x y. if is_zero_double img y then throw_vm (runtime_error ''Division by zero'')
              else FromDouble img (dbl_div (img_double img) x y))
       (\<lambda>i j. if j = 0 then throw_vm (runtime_error ''DivideByZeroException'')
              else if quotient_overflows i j then crash_vm
              else FromInteger img (of_int (sint i sdiv sint j)))"

definition ExecuteMathModulo :: "image \<Rightarrow> ObjectInstance \<Rightarrow> ObjectInstance \<Rightarrow> ObjectInstance vm_op" where
  "ExecuteMathModulo img left right =
     numeric_operands img left right
       (\<lambda>x y. if is_zero_double img y then throw_vm (runtime_error ''Modulo by zero'')
              else FromDouble img (dbl_fmod (img_double img) x y))
       (\<lambda>i j. if j = 0 then throw_vm (runtime_error ''DivideByZeroException'')
              else if quotient_overflows i j then crash_vm
              else FromInteger img (of_int (sint i smod sint j)))"

definition ExecuteMathPower :: "image \<Rightarrow> ObjectInstance \<Rightarrow> ObjectInstance \<Rightarrow> ObjectInstance vm_op" where
  "ExecuteMathPower img left right =
     andThen (TypeOf img left) (\<lambda>lt.
     andThen (TypeOf img right) (\<lambda>rt.
       if \<not> IsNumericType img lt \<or> \<not> IsNumericType img rt then return_vm null_instance
       else
         andThen (AsDouble_math img left) (\<lambda>x. andThen (AsDouble_math img right) (\<lambda>y.
           let result = dbl_pow (img_double img) x y in
           if is_primitive img pr_Double lt \<or> is_primitive img pr_Double rt then FromDouble img result
           else andThen (double_to_integer img result) (FromInteger img)))))"

section \<open>Bits\<close>

definition integral_operands ::
  "image \<Rightarrow> ObjectInstance \<Rightarrow> ObjectInstance \<Rightarrow> (u64 \<Rightarrow> u64 \<Rightarrow> ObjectInstance vm_op) \<Rightarrow> ObjectInstance vm_op" where
  "integral_operands img left right g =
     andThen (TypeOf img left) (\<lambda>lt.
     andThen (TypeOf img right) (\<lambda>rt.
       if \<not> IsIntegralType img lt \<or> \<not> IsIntegralType img rt then return_vm null_instance
       else andThen (AsInteger_math img left) (\<lambda>i. andThen (AsInteger_math img right) (\<lambda>j. g i j))))"

definition both_boolean :: "image \<Rightarrow> ObjectInstance \<Rightarrow> ObjectInstance \<Rightarrow> bool vm_op" where
  "both_boolean img left right =
     andThen (TypeOf img left) (\<lambda>lt. andThen (TypeOf img right) (\<lambda>rt.
       return_vm (is_primitive img pr_Boolean lt \<and> is_primitive img pr_Boolean rt)))"

definition ExecuteBitwiseOr :: "image \<Rightarrow> ObjectInstance \<Rightarrow> ObjectInstance \<Rightarrow> ObjectInstance vm_op" where
  "ExecuteBitwiseOr img left right =
     andThen (both_boolean img left right) (\<lambda>booleans.
       if booleans then
         andThen (AsBoolean_math img left) (\<lambda>a. andThen (AsBoolean_math img right) (\<lambda>b. FromBoolean img (a \<or> b)))
       else integral_operands img left right (\<lambda>i j. FromInteger img (or i j)))"

definition ExecuteBitwiseAnd :: "image \<Rightarrow> ObjectInstance \<Rightarrow> ObjectInstance \<Rightarrow> ObjectInstance vm_op" where
  "ExecuteBitwiseAnd img left right =
     andThen (both_boolean img left right) (\<lambda>booleans.
       if booleans then
         andThen (AsBoolean_math img left) (\<lambda>a. andThen (AsBoolean_math img right) (\<lambda>b. FromBoolean img (a \<and> b)))
       else integral_operands img left right (\<lambda>i j. FromInteger img (and i j)))"

definition ExecuteShiftLeft :: "image \<Rightarrow> ObjectInstance \<Rightarrow> ObjectInstance \<Rightarrow> ObjectInstance vm_op" where
  "ExecuteShiftLeft img left right =
     integral_operands img left right (\<lambda>i j.
       if j \<ge> 64 then crash_vm else FromInteger img (push_bit (unat j) i))"

definition ExecuteShiftRight :: "image \<Rightarrow> ObjectInstance \<Rightarrow> ObjectInstance \<Rightarrow> ObjectInstance vm_op" where
  "ExecuteShiftRight img left right =
     integral_operands img left right (\<lambda>i j.
       if j \<ge> 64 then crash_vm else FromInteger img (signed_drop_bit (unat j) i))"

section \<open>Comparison\<close>

text \<open>\<^verbatim>\<open>ObjectInstance::operator==\<close> compares addresses.\<close>

definition same_instance :: "ObjectInstance \<Rightarrow> ObjectInstance \<Rightarrow> bool" where
  "same_instance v w \<longleftrightarrow> m_rawMemoryPtr v = m_rawMemoryPtr w"

definition ExecuteCompareEqual :: "image \<Rightarrow> ObjectInstance \<Rightarrow> ObjectInstance \<Rightarrow> ObjectInstance vm_op" where
  "ExecuteCompareEqual img left right =
     andThen (TypeOf img left) (\<lambda>lt.
     andThen (TypeOf img right) (\<lambda>rt.
     andThen (IsNull_math img left) (\<lambda>ln.
     andThen (IsNull_math img right) (\<lambda>rn.
       if ln \<or> rn then FromBoolean img (same_instance left right)
       else if is_primitive img pr_String lt \<and> is_primitive img pr_String rt then
         andThen (AsStringLength img left) (\<lambda>leftLength.
         andThen (AsStringLength img right) (\<lambda>rightLength.
           if leftLength \<noteq> rightLength then FromBoolean img False
           else
             andThen (AsString img left) (\<lambda>la.
             andThen (AsString img right) (\<lambda>ra.
             andThen (get_vm (\<lambda>s. read_text (vm_memory s) la (unat leftLength)
                                  = read_text (vm_memory s) ra (unat leftLength))) (FromBoolean img)))))
       else if IsReferenceType (img_types img lt) \<and> IsReferenceType (img_types img rt)
       then FromBoolean img (same_instance left right)
       else if ty_Kind (img_types img lt) = DeclK EnumDeclaration
               \<and> ty_Kind (img_types img rt) = DeclK EnumDeclaration \<and> lt = rt then
         andThen (AsInteger_math img left) (\<lambda>i. andThen (AsInteger_math img right) (\<lambda>j. FromBoolean img (i = j)))
       else numeric_operands img left right
         (\<lambda>x y. FromBoolean img (dbl_eq (img_double img) x y)) (\<lambda>i j. FromBoolean img (i = j))))))"

definition ExecuteCompareNotEqual :: "image \<Rightarrow> ObjectInstance \<Rightarrow> ObjectInstance \<Rightarrow> ObjectInstance vm_op" where
  "ExecuteCompareNotEqual img left right =
     andThen (ExecuteCompareEqual img left right) (\<lambda>result.
       if IsNullInstance result then return_vm result
       else andThen (AsBoolean img result) (\<lambda>b. FromBoolean img (\<not> b)))"

text \<open>\<^verbatim>\<open>wcscmp\<close> compares the texts up to their terminating zeros; it reads past an unterminated one.\<close>

fun text_less :: "wstring \<Rightarrow> wstring \<Rightarrow> bool" where
  "text_less [] ys \<longleftrightarrow> ys \<noteq> []"
| "text_less (x # xs) [] \<longleftrightarrow> False"
| "text_less (x # xs) (y # ys) \<longleftrightarrow> x < y \<or> x = y \<and> text_less xs ys"

definition compare_texts ::
  "image \<Rightarrow> ObjectInstance \<Rightarrow> ObjectInstance \<Rightarrow> (wstring \<Rightarrow> wstring \<Rightarrow> bool) \<Rightarrow> ObjectInstance vm_op" where
  "compare_texts img left right cmp =
     andThen (AsString img left) (\<lambda>la.
     andThen (AsString img right) (\<lambda>ra.
     andThen (get_vm (\<lambda>s. (wcslen (vm_memory s) la, wcslen (vm_memory s) ra))) (\<lambda>lens.
       case lens of
         (Some j, Some k) \<Rightarrow>
           andThen (get_vm (\<lambda>s. cmp (read_text (vm_memory s) la j) (read_text (vm_memory s) ra k)))
             (FromBoolean img)
       | _ \<Rightarrow> crash_vm)))"

definition ordered_operands ::
  "image \<Rightarrow> ObjectInstance \<Rightarrow> ObjectInstance \<Rightarrow> (wstring \<Rightarrow> wstring \<Rightarrow> bool) \<Rightarrow> (u64 \<Rightarrow> u64 \<Rightarrow> bool)
     \<Rightarrow> (u64 \<Rightarrow> u64 \<Rightarrow> bool) \<Rightarrow> ObjectInstance vm_op" where
  "ordered_operands img left right on_text on_double on_integer =
     andThen (TypeOf img left) (\<lambda>lt.
     andThen (TypeOf img right) (\<lambda>rt.
     andThen (IsNull_math img left) (\<lambda>ln.
     andThen (IsNull_math img right) (\<lambda>rn.
       if ln \<or> rn then return_vm null_instance
       else if is_primitive img pr_String lt \<and> is_primitive img pr_String rt
       then compare_texts img left right on_text
       else numeric_operands img left right
         (\<lambda>x y. FromBoolean img (on_double x y)) (\<lambda>i j. FromBoolean img (on_integer i j))))))"

definition ExecuteCompareLess :: "image \<Rightarrow> ObjectInstance \<Rightarrow> ObjectInstance \<Rightarrow> ObjectInstance vm_op" where
  "ExecuteCompareLess img left right =
     ordered_operands img left right text_less (dbl_less (img_double img)) (\<lambda>i j. i <s j)"

definition ExecuteCompareGreater :: "image \<Rightarrow> ObjectInstance \<Rightarrow> ObjectInstance \<Rightarrow> ObjectInstance vm_op" where
  "ExecuteCompareGreater img left right =
     ordered_operands img left right (\<lambda>x y. text_less y x) (\<lambda>x y. dbl_less (img_double img) y x) (\<lambda>i j. j <s i)"

definition or_equal ::
  "image \<Rightarrow> ObjectInstance vm_op \<Rightarrow> ObjectInstance \<Rightarrow> ObjectInstance \<Rightarrow> ObjectInstance vm_op" where
  "or_equal img strict left right =
     andThen strict (\<lambda>result.
     andThen (if IsNullInstance result then return_vm False else AsBoolean img result) (\<lambda>holds.
       if holds then return_vm result else ExecuteCompareEqual img left right))"

definition ExecuteCompareLessOrEqual :: "image \<Rightarrow> ObjectInstance \<Rightarrow> ObjectInstance \<Rightarrow> ObjectInstance vm_op" where
  "ExecuteCompareLessOrEqual img left right = or_equal img (ExecuteCompareLess img left right) left right"

definition ExecuteCompareGreaterOrEqual :: "image \<Rightarrow> ObjectInstance \<Rightarrow> ObjectInstance \<Rightarrow> ObjectInstance vm_op" where
  "ExecuteCompareGreaterOrEqual img left right = or_equal img (ExecuteCompareGreater img left right) left right"

section \<open>Dispatch\<close>

definition ExecuteLogicalNot :: "image \<Rightarrow> ObjectInstance \<Rightarrow> ObjectInstance vm_op" where
  "ExecuteLogicalNot img v =
     andThen (TypeOf img v) (\<lambda>type.
       if \<not> is_primitive img pr_Boolean type then return_vm null_instance
       else andThen (AsBoolean_math img v) (\<lambda>b. FromBoolean img (\<not> b)))"

fun ExecuteBinary :: "image \<Rightarrow> TokenType \<Rightarrow> ObjectInstance \<Rightarrow> ObjectInstance \<Rightarrow> ObjectInstance vm_op" where
  "ExecuteBinary img (Op AddOperator) left right = ExecuteMathAddition img left right"
| "ExecuteBinary img (Op SubOperator) left right = ExecuteMathSubtraction img left right"
| "ExecuteBinary img (Op MultOperator) left right = ExecuteMathMultiplication img left right"
| "ExecuteBinary img (Op DivOperator) left right = ExecuteMathDivision img left right"
| "ExecuteBinary img (Op ModOperator) left right = ExecuteMathModulo img left right"
| "ExecuteBinary img (Op PowOperator) left right = ExecuteMathPower img left right"
| "ExecuteBinary img (Op OrOperator) left right = ExecuteBitwiseOr img left right"
| "ExecuteBinary img (Op AndOperator) left right = ExecuteBitwiseAnd img left right"
| "ExecuteBinary img (Op LeftShiftOperator) left right = ExecuteShiftLeft img left right"
| "ExecuteBinary img (Op RightShiftOperator) left right = ExecuteShiftRight img left right"
| "ExecuteBinary img (Op EqualsOperator) left right = ExecuteCompareEqual img left right"
| "ExecuteBinary img (Op NotEqualsOperator) left right = ExecuteCompareNotEqual img left right"
| "ExecuteBinary img (Op LessOperator) left right = ExecuteCompareLess img left right"
| "ExecuteBinary img (Op LessOrEqualsOperator) left right = ExecuteCompareLessOrEqual img left right"
| "ExecuteBinary img (Op GreaterOperator) left right = ExecuteCompareGreater img left right"
| "ExecuteBinary img (Op GreaterOrEqualsOperator) left right = ExecuteCompareGreaterOrEqual img left right"
| "ExecuteBinary img token left right = return_vm null_instance"

definition ExecuteUnary :: "image \<Rightarrow> TokenType \<Rightarrow> ObjectInstance \<Rightarrow> ObjectInstance vm_op" where
  "ExecuteUnary img token v =
     andThen (TypeOf img v) (\<lambda>type.
       if token = Op NotOperator then ExecuteLogicalNot img v
       else if \<not> IsNumericType img type then return_vm null_instance
       else if token = Op SubOperator then
         (if is_primitive img pr_Double type
          then andThen (AsDouble_math img v) (\<lambda>d. FromDouble img (dbl_neg (img_double img) d))
          else andThen (AsInteger_math img v) (\<lambda>i. FromInteger img (- i)))
       else if token = Op AddOperator then
         (if is_primitive img pr_Double type then andThen (AsDouble_math img v) (FromDouble img)
          else andThen (AsInteger_math img v) (FromInteger img))
       else return_vm null_instance)"

definition ExecuteCast :: "image \<Rightarrow> nat \<Rightarrow> ptr \<Rightarrow> ObjectInstance \<Rightarrow> ObjectInstance vm_op" where
  "ExecuteCast img n targetType source =
     (if targetType = nullptr \<or> IsNullInstance source then return_vm null_instance
      else if is_primitive img pr_Any targetType then return_vm source
      else andThen (TypeOf img source) (\<lambda>sourceType.
        if ty_Inlining (img_types img targetType) = ByReference
           \<or> ty_Inlining (img_types img sourceType) = ByReference then return_vm null_instance
        else if is_primitive img pr_Integer targetType then andThen (AsInteger_math img source) (FromInteger img)
        else if is_primitive img pr_Double targetType then andThen (AsDouble_math img source) (FromDouble img)
        else if is_primitive img pr_Boolean targetType then andThen (AsBoolean_math img source) (FromBoolean img)
        else if is_primitive img pr_Char targetType then andThen (AsCharacter_math img source) (FromChar img)
        else if is_primitive img pr_Byte targetType then
          andThen (AsInteger_math img source) (\<lambda>i. FromByte img (ucast i))
        else if is_primitive img pr_NativeInteger targetType then
          andThen (AsInteger_math img source) (FromNint img)
        else if ty_Kind (img_types img targetType) = DeclK EnumDeclaration then
          andThen (AllocateInstance_type img n targetType) (\<lambda>result.
          andThen (AsInteger_math img source) (\<lambda>i.
          andThen (WriteInteger img result i) (\<lambda>_. return_vm result)))
        else return_vm null_instance))"

end
