(* ===== verification/PrimitiveValues.thy ===== *)
theory PrimitiveValues
  imports PrimitiveMath
begin

text \<open>
  Values of the primitive types as an abstract datatype, and the meaning of the operators on them.
  The lemmas show that the operations of \<^verbatim>\<open>PrimitiveMathModule\<close>, which work on views of memory,
  compute these functions, and what boxing a value does to the machine.
\<close>

section \<open>Values\<close>

datatype prim = VInt u64 | VBool bool | VChar wchar | VByte u8 | VNint u64 | VDouble u64

fun prim_type :: "prim \<Rightarrow> Primitives \<Rightarrow> ptr" where
  "prim_type (VInt i) = pr_Integer"
| "prim_type (VBool b) = pr_Boolean"
| "prim_type (VChar c) = pr_Char"
| "prim_type (VByte b) = pr_Byte"
| "prim_type (VNint i) = pr_NativeInteger"
| "prim_type (VDouble d) = pr_Double"

fun prim_bytes :: "prim \<Rightarrow> bytes" where
  "prim_bytes (VInt i) = word_bytes i"
| "prim_bytes (VBool b) = [if b then 1 else 0]"
| "prim_bytes (VChar c) = word_bytes c"
| "prim_bytes (VByte b) = word_bytes b"
| "prim_bytes (VNint i) = word_bytes i"
| "prim_bytes (VDouble d) = word_bytes d"

definition prim_shape :: "image \<Rightarrow> prim \<Rightarrow> ptr" where
  "prim_shape img p = primitive_shape img (prim_type p)"

fun is_Dbl :: "prim \<Rightarrow> bool" where
  "is_Dbl (VDouble d) = True"
| "is_Dbl p = False"

fun is_Bool :: "prim \<Rightarrow> bool" where
  "is_Bool (VBool b) = True"
| "is_Bool p = False"

section \<open>Conversions and operators\<close>

fun to_int :: "double_ops \<Rightarrow> prim \<Rightarrow> u64 option" where
  "to_int D (VInt i) = Some i"
| "to_int D (VBool b) = Some (if b then 1 else 0)"
| "to_int D (VChar c) = Some (ucast c)"
| "to_int D (VByte b) = Some (ucast b)"
| "to_int D (VNint i) = Some i"
| "to_int D (VDouble d) = dbl_to_int D d"

text \<open>The conversion of a value that is not a double.\<close>

definition the_int :: "prim \<Rightarrow> u64" where
  "the_int p = (case p of VInt i \<Rightarrow> i | VBool b \<Rightarrow> (if b then 1 else 0) | VChar c \<Rightarrow> ucast c
     | VByte b \<Rightarrow> ucast b | VNint i \<Rightarrow> i | VDouble d \<Rightarrow> d)"

fun to_double :: "double_ops \<Rightarrow> prim \<Rightarrow> u64" where
  "to_double D (VDouble d) = d"
| "to_double D p = dbl_of_int D (the_int p)"

fun to_bool :: "double_ops \<Rightarrow> prim \<Rightarrow> bool" where
  "to_bool D (VDouble d) = (\<not> dbl_eq D d (dbl_of_int D 0))"
| "to_bool D p = (the_int p \<noteq> 0)"

text \<open>
  What an operation on values comes to: a value, a C++ exception, undefined behaviour, or no
  meaning for these operands, in which case the machine looks for an operator method.
\<close>

datatype verdict = Value prim | Fails cpp_exception | Crashes | Unhandled

text \<open>Arithmetic is done in doubles as soon as one operand is a double.\<close>

definition arith :: "double_ops \<Rightarrow> (u64 \<Rightarrow> u64 \<Rightarrow> verdict) \<Rightarrow> (u64 \<Rightarrow> u64 \<Rightarrow> verdict) \<Rightarrow> prim \<Rightarrow> prim \<Rightarrow> verdict" where
  "arith D on_double on_int a b =
     (if is_Dbl a \<or> is_Dbl b then on_double (to_double D a) (to_double D b)
      else on_int (the_int a) (the_int b))"

definition bits :: "(u64 \<Rightarrow> u64 \<Rightarrow> verdict) \<Rightarrow> prim \<Rightarrow> prim \<Rightarrow> verdict" where
  "bits g a b =
     (if is_Dbl a \<or> is_Dbl b \<or> is_Bool a \<or> is_Bool b then Unhandled else g (the_int a) (the_int b))"

definition logical :: "(bool \<Rightarrow> bool \<Rightarrow> bool) \<Rightarrow> (u64 \<Rightarrow> u64 \<Rightarrow> u64) \<Rightarrow> prim \<Rightarrow> prim \<Rightarrow> verdict" where
  "logical g h a b =
     (case (a, b) of (VBool x, VBool y) \<Rightarrow> Value (VBool (g x y)) | _ \<Rightarrow> bits (\<lambda>i j. Value (VInt (h i j))) a b)"

definition divides :: "(int \<Rightarrow> int \<Rightarrow> int) \<Rightarrow> u64 \<Rightarrow> u64 \<Rightarrow> verdict" where
  "divides g i j =
     (if j = 0 then Fails (runtime_error ''DivideByZeroException'')
      else if quotient_overflows i j then Crashes
      else Value (VInt (of_int (g (sint i) (sint j)))))"

definition divides_double :: "double_ops \<Rightarrow> string \<Rightarrow> (u64 \<Rightarrow> u64 \<Rightarrow> u64) \<Rightarrow> u64 \<Rightarrow> u64 \<Rightarrow> verdict" where
  "divides_double D msg g x y =
     (if dbl_eq D y (dbl_of_int D 0) then Fails (runtime_error msg) else Value (VDouble (g x y)))"

definition shifts :: "(nat \<Rightarrow> u64 \<Rightarrow> u64) \<Rightarrow> u64 \<Rightarrow> u64 \<Rightarrow> verdict" where
  "shifts g i j = (if j \<ge> 64 then Crashes else Value (VInt (g (unat j) i)))"

definition power :: "double_ops \<Rightarrow> prim \<Rightarrow> prim \<Rightarrow> verdict" where
  "power D a b =
     (let r = dbl_pow D (to_double D a) (to_double D b) in
      if is_Dbl a \<or> is_Dbl b then Value (VDouble r)
      else case dbl_to_int D r of None \<Rightarrow> Crashes | Some i \<Rightarrow> Value (VInt i))"

text \<open>
  The operators. \<open>!=\<close>, \<open><=\<close> and \<open>>=\<close> are left out: the machine computes them from two boxed results
  and leaves the first one behind.
\<close>

fun prim_binary :: "double_ops \<Rightarrow> OperatorToken \<Rightarrow> prim \<Rightarrow> prim \<Rightarrow> verdict" where
  "prim_binary D AddOperator = arith D (\<lambda>x y. Value (VDouble (dbl_add D x y))) (\<lambda>i j. Value (VInt (i + j)))"
| "prim_binary D SubOperator = arith D (\<lambda>x y. Value (VDouble (dbl_sub D x y))) (\<lambda>i j. Value (VInt (i - j)))"
| "prim_binary D MultOperator = arith D (\<lambda>x y. Value (VDouble (dbl_mul D x y))) (\<lambda>i j. Value (VInt (i * j)))"
| "prim_binary D DivOperator = arith D (divides_double D ''Division by zero'' (dbl_div D)) (divides (sdiv))"
| "prim_binary D ModOperator = arith D (divides_double D ''Modulo by zero'' (dbl_fmod D)) (divides (smod))"
| "prim_binary D PowOperator = power D"
| "prim_binary D OrOperator = logical (\<or>) (\<lambda>i j. or i j)"
| "prim_binary D AndOperator = logical (\<and>) (\<lambda>i j. and i j)"
| "prim_binary D LeftShiftOperator = bits (shifts push_bit)"
| "prim_binary D RightShiftOperator = bits (shifts signed_drop_bit)"
| "prim_binary D EqualsOperator = arith D (\<lambda>x y. Value (VBool (dbl_eq D x y))) (\<lambda>i j. Value (VBool (i = j)))"
| "prim_binary D LessOperator = arith D (\<lambda>x y. Value (VBool (dbl_less D x y))) (\<lambda>i j. Value (VBool (i <s j)))"
| "prim_binary D GreaterOperator = arith D (\<lambda>x y. Value (VBool (dbl_less D y x))) (\<lambda>i j. Value (VBool (j <s i)))"
| "prim_binary D _ = (\<lambda>a b. Unhandled)"

definition boxless_operators :: "OperatorToken list" where
  "boxless_operators = [AddOperator, SubOperator, MultOperator, DivOperator, ModOperator, PowOperator,
     OrOperator, AndOperator, LeftShiftOperator, RightShiftOperator, EqualsOperator, LessOperator,
     GreaterOperator]"

definition prim_unary :: "double_ops \<Rightarrow> OperatorToken \<Rightarrow> prim \<Rightarrow> verdict" where
  "prim_unary D op p =
     (if op = NotOperator then (case p of VBool b \<Rightarrow> Value (VBool (\<not> b)) | _ \<Rightarrow> Unhandled)
      else if op = SubOperator then
        (case p of VDouble d \<Rightarrow> Value (VDouble (dbl_neg D d)) | _ \<Rightarrow> Value (VInt (- the_int p)))
      else if op = AddOperator then
        (case p of VDouble d \<Rightarrow> Value (VDouble d) | _ \<Rightarrow> Value (VInt (the_int p)))
      else Unhandled)"

section \<open>Views that show a value\<close>

definition shows_prim :: "image \<Rightarrow> memory \<Rightarrow> ObjectInstance \<Rightarrow> prim \<Rightarrow> bool" where
  "shows_prim img m v p \<longleftrightarrow>
     m_shape v = prim_shape img p \<and> m_rawMemoryPtr v \<noteq> 0 \<and>
     read_bytes m (m_rawMemoryPtr v) (length (prim_bytes p)) = prim_bytes p"

lemma prim_type_member [simp]: "prim_type p P \<in> set (primitive_list P)"
  by (cases p) simp_all

lemma length_prim_bytes:
  assumes "primitives_ok img"
  shows "shp_Size (img_shapes img (prim_shape img p)) = length (prim_bytes p)"
  using primitives_shape(4) [OF assms, of "prim_type p (img_Primitives img)"] primitive_types [OF assms]
  by (cases p) (simp_all add: prim_shape_def primitive_shape_def)

lemma prim_shape_facts:
  assumes "primitives_ok img"
  shows "prim_shape img p \<noteq> nullptr"
    and "shp_BaseType (img_shapes img (prim_shape img p)) = prim_type p (img_Primitives img)"
    and "shp_Slots (img_shapes img (prim_shape img p)) = []"
    and "flat_shape img (prim_shape img p)"
  using primitives_shape [OF assms, of "prim_type p (img_Primitives img)"]
    flat_primitive [OF assms, of "prim_type p (img_Primitives img)"]
  by (simp_all add: prim_shape_def primitive_shape_def)

lemma prim_type_facts:
  assumes "primitives_ok img"
  shows "ty_Inlining (img_types img (prim_type p (img_Primitives img))) = ByValue"
    and "ty_Kind (img_types img (prim_type p (img_Primitives img))) = DeclK StructDeclaration"
    and "prim_type p (img_Primitives img) \<noteq> nullptr"
  using primitive_types [OF assms] primitives_distinct [OF assms]
  by (cases p; simp add: primitive_list_def)+

text \<open>Which of the primitive types the type of a value is.\<close>

lemma prim_type_iff:
  assumes "primitives_ok img"
  shows "is_primitive img pr_Integer (prim_type p (img_Primitives img)) \<longleftrightarrow> (\<exists>i. p = VInt i)"
    and "is_primitive img pr_Boolean (prim_type p (img_Primitives img)) \<longleftrightarrow> is_Bool p"
    and "is_primitive img pr_Char (prim_type p (img_Primitives img)) \<longleftrightarrow> (\<exists>c. p = VChar c)"
    and "is_primitive img pr_Byte (prim_type p (img_Primitives img)) \<longleftrightarrow> (\<exists>b. p = VByte b)"
    and "is_primitive img pr_NativeInteger (prim_type p (img_Primitives img)) \<longleftrightarrow> (\<exists>i. p = VNint i)"
    and "is_primitive img pr_Double (prim_type p (img_Primitives img)) \<longleftrightarrow> is_Dbl p"
    and "\<not> is_primitive img pr_String (prim_type p (img_Primitives img))"
    and "\<not> is_primitive img pr_Null (prim_type p (img_Primitives img))"
    and "\<not> is_primitive img pr_Any (prim_type p (img_Primitives img))"
  using primitives_distinct [OF assms]
  by (cases p; auto simp: primitive_list_def is_primitive_def)+

lemma prim_numeric:
  assumes "primitives_ok img"
  shows "IsNumericType img (prim_type p (img_Primitives img))"
    and "IsIntegralType img (prim_type p (img_Primitives img)) \<longleftrightarrow> \<not> is_Bool p \<and> \<not> is_Dbl p"
  unfolding IsNumericType_def IsIntegralType_def prim_type_iff [OF assms] by (cases p; simp)+

lemma integer_type_iff:
  "primitives_ok img \<Longrightarrow> is_integer_type img (prim_type p (img_Primitives img)) \<longleftrightarrow> (\<exists>i. p = VInt i)"
  by (simp add: is_integer_type_def prim_type_iff prim_type_facts)

section \<open>Reading a value\<close>

lemma shows_primD:
  assumes "shows_prim img m v p" "primitives_ok img"
  shows "m_shape v \<noteq> nullptr" "\<not> IsNullInstance v"
    "shp_BaseType (img_shapes img (m_shape v)) = prim_type p (img_Primitives img)"
    "\<not> shape_IsReferenceType img (m_shape v)"
  using assms by (simp_all add: shows_prim_def IsNullInstance_def prim_shape_facts shape_IsReferenceType_def
      IsReferenceType_def prim_type_facts)

lemma getInfo_prim:
  "shows_prim img m v p \<Longrightarrow> primitives_ok img \<Longrightarrow> getInfo img v s = Ret (prim_type p (img_Primitives img)) s"
  by (simp add: getInfo_def shows_primD)

lemma TypeOf_prim:
  "shows_prim img m v p \<Longrightarrow> primitives_ok img \<Longrightarrow> TypeOf img v s = Ret (prim_type p (img_Primitives img)) s"
  by (simp add: TypeOf_def shows_primD getInfo_prim)

lemma read_value_prim:
  assumes "shows_prim img m v p" "primitives_ok img" "accepts (prim_type p (img_Primitives img))"
  shows "read_value img accepts msg v get s = Ret (get (vm_memory s) (m_rawMemoryPtr v)) s"
  using assms by (simp add: read_value_def andThen_def getInfo_prim shows_primD)

lemma shows_word:
  assumes "read_bytes m a (length (word_bytes w)) = word_bytes (w :: 'a::len word)" "8 dvd LENGTH('a)"
  shows "read_word m a = w"
  using assms by (intro read_word_bytes) simp_all

lemma is_primitive_self:
  "is_integer_type img (pr_Integer (img_Primitives img))"
  "is_primitive img pr_Boolean (pr_Boolean (img_Primitives img))"
  "is_primitive img pr_Char (pr_Char (img_Primitives img))"
  "is_primitive img pr_Byte (pr_Byte (img_Primitives img))"
  "is_primitive img pr_NativeInteger (pr_NativeInteger (img_Primitives img))"
  "is_primitive img pr_Double (pr_Double (img_Primitives img))"
  by (simp_all add: is_primitive_def is_integer_type_def)

lemma read_value_word:
  assumes "shows_prim img (vm_memory s) v p" "primitives_ok img" "accepts (prim_type p (img_Primitives img))"
    and "prim_bytes p = word_bytes (w :: 'a::len word)" "8 dvd LENGTH('a)"
  shows "read_value img accepts msg v read_word s = Ret w s"
proof -
  have "read_word (vm_memory s) (m_rawMemoryPtr v) = w"
    using assms by (intro shows_word) (simp_all add: shows_prim_def)
  then show ?thesis by (simp add: read_value_prim [OF assms(1,2)] assms(3))
qed

lemma AsBoolean_prim:
  assumes "shows_prim img (vm_memory s) v (VBool b)" "primitives_ok img"
  shows "AsBoolean img v s = Ret b s"
  using assms unfolding AsBoolean_def
  by (subst read_value_prim [OF assms]) (auto simp: is_primitive_self shows_prim_def read_bytes_def)

lemma As_prim:
  assumes ok: "primitives_ok img"
  shows "shows_prim img (vm_memory s) v (VInt i) \<Longrightarrow> AsInteger img v s = Ret i s"
    and "shows_prim img (vm_memory s) v (VBool b) \<Longrightarrow> AsBoolean img v s = Ret b s"
    and "shows_prim img (vm_memory s) v (VChar c) \<Longrightarrow> AsCharacter img v s = Ret c s"
    and "shows_prim img (vm_memory s) v (VByte y) \<Longrightarrow> AsByte img v s = Ret y s"
    and "shows_prim img (vm_memory s) v (VNint j) \<Longrightarrow> AsNint img v s = Ret j s"
    and "shows_prim img (vm_memory s) v (VDouble d) \<Longrightarrow> AsDouble img v s = Ret d s"
  unfolding AsInteger_def AsCharacter_def AsByte_def AsNint_def AsDouble_def
  by (erule read_value_word [OF _ ok]; simp add: is_primitive_self)
     (rule AsBoolean_prim [OF _ ok], assumption,
      (erule read_value_word [OF _ ok]; simp add: is_primitive_self)+)

lemma AsInteger_math_prim:
  assumes v: "shows_prim img (vm_memory s) v p" and ok: "primitives_ok img"
  shows "AsInteger_math img v s =
    (case to_int (img_double img) p of None \<Rightarrow> Undefined | Some i \<Rightarrow> Ret i s)"
  unfolding AsInteger_math_def andThen_Ret [of "TypeOf img v" s, OF TypeOf_prim [OF v ok]]
    prim_type_iff [OF ok] integer_type_iff [OF ok]
  using v As_prim [OF ok] prim_type_facts(3) [OF ok, of p]
  by (cases p) (simp_all add: andThen_def double_to_integer_def split: option.split)

lemma AsDouble_math_prim:
  assumes v: "shows_prim img (vm_memory s) v p" and ok: "primitives_ok img"
  shows "AsDouble_math img v s = Ret (to_double (img_double img) p) s"
  unfolding AsDouble_math_def Let_def andThen_Ret [of "TypeOf img v" s, OF TypeOf_prim [OF v ok]]
    prim_type_iff [OF ok] integer_type_iff [OF ok]
  using v As_prim [OF ok] prim_type_facts(3) [OF ok, of p]
  by (cases p) (simp_all add: andThen_def the_int_def)

lemma ucast_eq_0:
  "(ucast (c :: wchar) :: u64) = 0 \<longleftrightarrow> c = 0" "(ucast (y :: u8) :: u64) = 0 \<longleftrightarrow> y = 0"
  by (transfer, simp)+

lemma AsBoolean_math_prim:
  assumes v: "shows_prim img (vm_memory s) v p" and ok: "primitives_ok img"
  shows "AsBoolean_math img v s = Ret (to_bool (img_double img) p) s"
  unfolding AsBoolean_math_def andThen_Ret [of "TypeOf img v" s, OF TypeOf_prim [OF v ok]]
    prim_type_iff [OF ok] integer_type_iff [OF ok]
  using v As_prim [OF ok] prim_type_facts(3) [OF ok, of p]
  by (cases p) (simp_all add: andThen_def the_int_def ucast_eq_0)

section \<open>The operators of the module\<close>

fun box :: "image \<Rightarrow> prim \<Rightarrow> ObjectInstance vm_op" where
  "box img (VInt i) = FromInteger img i"
| "box img (VBool b) = FromBoolean img b"
| "box img (VChar c) = FromChar img c"
| "box img (VByte b) = FromByte img b"
| "box img (VNint i) = FromNint img i"
| "box img (VDouble d) = FromDouble img d"

fun give :: "image \<Rightarrow> verdict \<Rightarrow> ObjectInstance vm_op" where
  "give img (Value p) = box img p"
| "give img (Fails e) = throw_vm e"
| "give img Crashes = crash_vm"
| "give img Unhandled = return_vm null_instance"

lemma to_int_the: "\<not> is_Dbl p \<Longrightarrow> to_int D p = Some (the_int p)"
  by (cases p) (simp_all add: the_int_def)

lemma numeric_operands_prim:
  assumes l: "shows_prim img (vm_memory s) l a" and r: "shows_prim img (vm_memory s) r b" and ok: "primitives_ok img"
  shows "numeric_operands img l r g h s =
    (if is_Dbl a \<or> is_Dbl b then g (to_double (img_double img) a) (to_double (img_double img) b) s
     else h (the_int a) (the_int b) s)"
  by (simp add: numeric_operands_def andThen_def TypeOf_prim [OF l ok] TypeOf_prim [OF r ok]
      prim_numeric [OF ok] prim_type_iff [OF ok] AsDouble_math_prim [OF l ok] AsDouble_math_prim [OF r ok]
      AsInteger_math_prim [OF l ok] AsInteger_math_prim [OF r ok] to_int_the)

lemma integral_operands_prim:
  assumes l: "shows_prim img (vm_memory s) l a" and r: "shows_prim img (vm_memory s) r b" and ok: "primitives_ok img"
  shows "integral_operands img l r g s =
    (if is_Dbl a \<or> is_Dbl b \<or> is_Bool a \<or> is_Bool b then Ret null_instance s
     else g (the_int a) (the_int b) s)"
  by (simp add: integral_operands_def andThen_def TypeOf_prim [OF l ok] TypeOf_prim [OF r ok]
      prim_numeric [OF ok] AsInteger_math_prim [OF l ok] AsInteger_math_prim [OF r ok] to_int_the)

lemma logical_prim:
  assumes l: "shows_prim img (vm_memory s) l a" and r: "shows_prim img (vm_memory s) r b" and ok: "primitives_ok img"
  shows "andThen (both_boolean img l r) (\<lambda>booleans.
       if booleans then
         andThen (AsBoolean_math img l) (\<lambda>x. andThen (AsBoolean_math img r) (\<lambda>y. FromBoolean img (g x y)))
       else integral_operands img l r (\<lambda>i j. FromInteger img (h i j))) s
    = give img (logical g h a b) s"
proof -
  have "both_boolean img l r s = Ret (is_Bool a \<and> is_Bool b) s"
    by (simp add: both_boolean_def andThen_def TypeOf_prim [OF l ok] TypeOf_prim [OF r ok] prim_type_iff [OF ok])
  then show ?thesis
    by (cases a; cases b)
       (simp_all add: andThen_def AsBoolean_math_prim [OF l ok] AsBoolean_math_prim [OF r ok]
          integral_operands_prim [OF l r ok] logical_def bits_def the_int_def)
qed

lemma IsNull_math_prim:
  assumes v: "shows_prim img (vm_memory s) v p" and ok: "primitives_ok img"
  shows "IsNull_math img v t = Ret False t"
  by (simp add: IsNull_math_def andThen_def shows_primD [OF v ok] TypeOf_prim [OF v ok] prim_type_iff [OF ok])

lemma ordered_operands_prim:
  assumes l: "shows_prim img (vm_memory s) l a" and r: "shows_prim img (vm_memory s) r b" and ok: "primitives_ok img"
  shows "ordered_operands img l r on_text on_double on_integer s =
    (if is_Dbl a \<or> is_Dbl b then FromBoolean img (on_double (to_double (img_double img) a) (to_double (img_double img) b)) s
     else FromBoolean img (on_integer (the_int a) (the_int b)) s)"
  by (simp add: ordered_operands_def andThen_def TypeOf_prim [OF l ok] TypeOf_prim [OF r ok]
      IsNull_math_prim [OF l ok] IsNull_math_prim [OF r ok] prim_type_iff [OF ok] numeric_operands_prim [OF l r ok])

lemma CompareEqual_prim:
  assumes l: "shows_prim img (vm_memory s) l a" and r: "shows_prim img (vm_memory s) r b" and ok: "primitives_ok img"
  shows "ExecuteCompareEqual img l r s = give img (prim_binary (img_double img) EqualsOperator a b) s"
  by (simp add: ExecuteCompareEqual_def andThen_def TypeOf_prim [OF l ok] TypeOf_prim [OF r ok]
      IsNull_math_prim [OF l ok] IsNull_math_prim [OF r ok] prim_type_iff [OF ok] numeric_operands_prim [OF l r ok]
      IsReferenceType_def prim_type_facts [OF ok] arith_def)

lemma MathAddition_prim:
  assumes l: "shows_prim img (vm_memory s) l a" and r: "shows_prim img (vm_memory s) r b" and ok: "primitives_ok img"
  shows "ExecuteMathAddition img l r s = give img (prim_binary (img_double img) AddOperator a b) s"
  by (simp add: ExecuteMathAddition_def andThen_def TypeOf_prim [OF l ok] TypeOf_prim [OF r ok]
      prim_type_iff [OF ok] numeric_operands_prim [OF l r ok] arith_def)

lemma MathPower_prim:
  assumes l: "shows_prim img (vm_memory s) l a" and r: "shows_prim img (vm_memory s) r b" and ok: "primitives_ok img"
  shows "ExecuteMathPower img l r s = give img (prim_binary (img_double img) PowOperator a b) s"
  by (simp add: ExecuteMathPower_def andThen_def TypeOf_prim [OF l ok] TypeOf_prim [OF r ok]
      prim_type_iff [OF ok] prim_numeric [OF ok] AsDouble_math_prim [OF l ok] AsDouble_math_prim [OF r ok]
      power_def Let_def double_to_integer_def split: option.split)

lemma ExecuteBinary_prim:
  assumes l: "shows_prim img (vm_memory s) l a" and r: "shows_prim img (vm_memory s) r b" and ok: "primitives_ok img"
    and op: "op \<in> set boxless_operators"
  shows "ExecuteBinary img (Op op) l r s = give img (prim_binary (img_double img) op a b) s"
  using op unfolding boxless_operators_def
  by (simp only: list.set, elim insertE emptyE)
     (simp_all add: MathAddition_prim [OF l r ok] MathPower_prim [OF l r ok] CompareEqual_prim [OF l r ok]
        ExecuteMathSubtraction_def ExecuteMathMultiplication_def ExecuteMathDivision_def ExecuteMathModulo_def
        ExecuteBitwiseOr_def ExecuteBitwiseAnd_def ExecuteShiftLeft_def ExecuteShiftRight_def
        ExecuteCompareLess_def ExecuteCompareGreater_def numeric_operands_prim [OF l r ok]
        integral_operands_prim [OF l r ok] ordered_operands_prim [OF l r ok] logical_prim [OF l r ok]
        arith_def bits_def shifts_def divides_def divides_double_def is_zero_double_def)

lemma ExecuteUnary_prim:
  assumes v: "shows_prim img (vm_memory s) v p" and ok: "primitives_ok img"
  shows "ExecuteUnary img (Op op) v s = give img (prim_unary (img_double img) op p) s"
proof -
  have "ExecuteUnary img (Op op) v s =
    (if op = NotOperator then
       (if is_Bool p then FromBoolean img (\<not> to_bool (img_double img) p) s else Ret null_instance s)
     else if op = SubOperator then
       (if is_Dbl p then FromDouble img (dbl_neg (img_double img) (to_double (img_double img) p)) s
        else FromInteger img (- the_int p) s)
     else if op = AddOperator then
       (if is_Dbl p then FromDouble img (to_double (img_double img) p) s else FromInteger img (the_int p) s)
     else Ret null_instance s)"
    by (simp add: ExecuteUnary_def ExecuteLogicalNot_def andThen_def TypeOf_prim [OF v ok] prim_type_iff [OF ok]
        prim_numeric [OF ok] AsBoolean_math_prim [OF v ok] AsDouble_math_prim [OF v ok] AsInteger_math_prim [OF v ok]
        to_int_the)
  then show ?thesis by (cases p) (simp_all add: prim_unary_def the_int_def)
qed

end
