(* ===== verification/VirtualMachines.thy ===== *)
theory VirtualMachines
  imports PrimitiveMath
begin

text \<open>
  The interpreter: \<^verbatim>\<open>src/runtime/VirtualMachine.cpp\<close>. \<open>ProcessCode\<close> executes one instruction for a
  frame and a decoder and returns the decoder after it; the instructions are grouped as the
  enumeration of operation codes is.

  Methods call methods and deferred expressions execute instructions, so the interpreter is
  recursive through two loops: the loop of a method body and the loop of a deferred expression.
  They are the tasks of \<open>run_code\<close>, whose fuel counts loop iterations and nesting. Every other
  function takes \<open>run\<close>, the loops with the fuel that is left, and \<open>n\<close>, the depth for releasing
  objects.
\<close>

datatype code_task = BodyLoop nat ByteCodeDecoder | DeferLoop nat ByteCodeDecoder

type_synonym runner = "code_task \<Rightarrow> ByteCodeDecoder vm_op"

definition catch_vm :: "'a vm_op \<Rightarrow> (cpp_exception \<Rightarrow> 'a vm_op) \<Rightarrow> 'a vm_op" where
  "catch_vm m handler s = (case m s of Throw e t \<Rightarrow> handler e t | r \<Rightarrow> r)"

text \<open>\<^verbatim>\<open>decoder.SetCursor\<close> in the machine: the target is read as a signed number.\<close>

definition jump_to :: "u64 \<Rightarrow> ByteCodeDecoder \<Rightarrow> ByteCodeDecoder vm_op" where
  "jump_to target d =
     (case SetCursor (sint target) d of
        None \<Rightarrow> throw_vm (out_of_range ''Tried to read out of code boundaries'')
      | Some d' \<Rightarrow> return_vm d')"

section \<open>Frames of the machine\<close>

definition CurrentFrame :: "vm \<Rightarrow> nat" where
  "CurrentFrame s = (if vm_CallStack s = [] then 0 else last (vm_CallStack s))"

definition PushFrame :: "image \<Rightarrow> ptr \<Rightarrow> nat vm_op" where
  "PushFrame img method =
     andThen (get_vm (\<lambda>s. (CurrentFrame s, vm_PendingTypeArguments s))) (\<lambda>(current, pending).
     andThen (Create img current method pending) (\<lambda>f.
     andThen (modify_vm (set_frame f (\<lambda>fr. fr\<lparr>fr_TypeArguments := pending\<rparr>))) (\<lambda>_.
     andThen (modify_vm (\<lambda>s. s\<lparr>vm_PendingTypeArguments := [], vm_CallStack := vm_CallStack s @ [f]\<rparr>)) (\<lambda>_.
       return_vm f))))"

text \<open>
  The call stack lets go of its last frame, which outlives the call when a task's record holds it. A
  frame with pending tasks loses the link to its caller.
\<close>

definition PopFrame :: "unit vm_op" where
  "PopFrame s =
     (if vm_CallStack s = [] then Ret () s
      else
        let f = last (vm_CallStack s);
            s1 = s\<lparr>vm_CallStack := butlast (vm_CallStack s)\<rparr>
        in Ret () (drop_frame f
             (if fr_PendingTaskCount (frame_of f s) > 0 then set_frame f (\<lambda>fr. fr\<lparr>fr_PreviousFrame := 0\<rparr>) s1 else s1)))"

definition interrupted :: "nat \<Rightarrow> vm \<Rightarrow> bool" where
  "interrupted f s \<longleftrightarrow> fr_InterruptionReason (frame_of f s) \<noteq> NoReason"

definition raise_in :: "nat \<Rightarrow> ObjectInstance \<Rightarrow> vm \<Rightarrow> vm" where
  "raise_in f exception =
     set_frame f (\<lambda>fr. fr\<lparr>fr_InterruptionReason := ExceptionRaised, fr_CurrentException := exception\<rparr>)"

definition RaiseException :: "ObjectInstance \<Rightarrow> unit vm_op" where
  "RaiseException exception =
     andThen (get_vm CurrentFrame) (\<lambda>f.
       if f = 0 \<or> IsNullInstance exception then return_vm ()
       else andThen (IncrementReference exception) (\<lambda>_. modify_vm (raise_in f exception)))"

definition Abort :: "vm \<Rightarrow> vm" where
  "Abort s = s\<lparr>vm_AbortFlag := True\<rparr>"

definition GetStackTrace :: "image \<Rightarrow> vm \<Rightarrow> wstring" where
  "GetStackTrace img s =
     fold (\<lambda>f result. if fr_Method (frame_of f s) = nullptr then result
             else (if result = [] then [] else result @ [nl]) @ q_FullName (img_query img) (fr_Method (frame_of f s)))
       (vm_CallStack s) []"

section \<open>Tasks\<close>

definition GetTaskState :: "image \<Rightarrow> ObjectInstance \<Rightarrow> nat \<Rightarrow> u64 vm_op" where
  "GetTaskState img task stateSlot =
     andThen (GetField img task stateSlot) (\<lambda>stateValue.
       if IsNullInstance stateValue then return_vm 0 else AsInteger img stateValue)"

definition SetTaskState :: "image \<Rightarrow> ObjectInstance \<Rightarrow> nat \<Rightarrow> u64 \<Rightarrow> unit vm_op" where
  "SetTaskState img task stateSlot state =
     andThen (FromInteger img state) (SetField img task stateSlot)"

text \<open>The state \<^verbatim>\<open>PENDING\<close> is zero.\<close>

definition IsPendingTask :: "image \<Rightarrow> ObjectInstance \<Rightarrow> bool vm_op" where
  "IsPendingTask img task =
     andThen (get_vm (IsTaskLike task)) (\<lambda>like.
       if IsNullInstance task \<or> \<not> like then return_vm False
       else andThen (getInfo img task) (\<lambda>info.
         case q_TaskStateSlot (img_query img) info of
           None \<Rightarrow> return_vm False
         | Some slot \<Rightarrow> andThen (GetTaskState img task slot) (\<lambda>state. return_vm (state = 0))))"

definition BindTaskToFrame :: "image \<Rightarrow> ObjectInstance \<Rightarrow> nat \<Rightarrow> unit vm_op" where
  "BindTaskToFrame img task f =
     andThen (get_vm (\<lambda>s. (IsTaskLike task s, GetFrameOwner task s))) (\<lambda>(like, owner).
       if IsNullInstance task \<or> f = 0 \<or> \<not> like then return_vm ()
       else if owner = f then return_vm ()
       else
         andThen (modify_vm (ReleaseFrameOwner task)) (\<lambda>_.
         andThen (IsPendingTask img task) (\<lambda>pending.
           if \<not> pending then return_vm () else modify_vm (BindToFrame task f))))"

definition RootTask :: "ObjectInstance \<Rightarrow> unit vm_op" where
  "RootTask task =
     (if IsNullInstance task then return_vm ()
      else andThen (IncrementReference task) (\<lambda>_.
        modify_vm (\<lambda>s. s\<lparr>vm_rootedTasks := vm_rootedTasks s @ [task]\<rparr>)))"

definition UnrootTask :: "ObjectInstance \<Rightarrow> unit vm_op" where
  "UnrootTask task =
     (if IsNullInstance task then return_vm ()
      else andThen (get_vm vm_rootedTasks) (\<lambda>tasks.
        if \<not> list_ex (same_instance task) tasks then return_vm ()
        else
          andThen (modify_vm (\<lambda>s. s\<lparr>vm_rootedTasks :=
              takeWhile (\<lambda>t. \<not> same_instance task t) tasks
              @ tl (dropWhile (\<lambda>t. \<not> same_instance task t) tasks)\<rparr>)) (\<lambda>_.
            DecrementReference task)))"

text \<open>
  \<^verbatim>\<open>CreateRuntimeException\<close> of \<^verbatim>\<open>NativeAsync.cpp\<close>: an instance of the exception class without running a
  constructor; its message and its stack trace, which is empty.
\<close>

definition CreateRuntimeException_gc :: "image \<Rightarrow> nat \<Rightarrow> wstring \<Rightarrow> ObjectInstance vm_op" where
  "CreateRuntimeException_gc img n message =
     andThen (AllocateInstance_type img n (q_RuntimeException (img_query img))) (\<lambda>ex.
     andThen (andThen (FromString img message) (SetField img ex (fst (q_RuntimeExceptionSlots (img_query img))))) (\<lambda>_.
     andThen (andThen (FromString img []) (SetField img ex (snd (q_RuntimeExceptionSlots (img_query img))))) (\<lambda>_.
       return_vm ex)))"

text \<open>The state \<^verbatim>\<open>FAULTED\<close> is two. A task of neither class only lets go of its frame.\<close>

definition HaltTaskObject :: "image \<Rightarrow> nat \<Rightarrow> ObjectInstance \<Rightarrow> unit vm_op" where
  "HaltTaskObject img n task =
     andThen (get_vm (IsTaskLike task)) (\<lambda>like.
       if IsNullInstance task \<or> \<not> like then return_vm ()
       else
         andThen (getInfo img task) (\<lambda>info.
         andThen (CreateRuntimeException_gc img n (L ''Task halted because the virtual machine has stopped'')) (\<lambda>exception.
         andThen (case (q_TaskStateSlot (img_query img) info, q_TaskExceptionSlot (img_query img) info) of
                    (Some stateSlot, Some exceptionSlot) \<Rightarrow>
                      andThen (SetTaskState img task stateSlot 2) (\<lambda>_. SetField img task exceptionSlot exception)
                  | _ \<Rightarrow> return_vm ()) (\<lambda>_.
           modify_vm (ReleaseFrameOwner task)))))"

text \<open>
  The tasks that nobody waits for end with the machine. Those of a native scope are halted by it;
  the scopes hold handles of the event loop's library and are a parameter of the image.
\<close>

definition HaltFireAndForgetTasks :: "image \<Rightarrow> nat \<Rightarrow> unit vm_op" where
  "HaltFireAndForgetTasks img n s =
     forEach (\<lambda>task.
       andThen (get_vm (\<lambda>s. (IsFireAndForget task s, GetAsyncNativeState task s))) (\<lambda>(forget, nativeState).
         if IsNullInstance task \<or> \<not> forget then return_vm ()
         else if nativeState \<noteq> 0 then img_halt_scope img nativeState
         else andThen (HaltTaskObject img n task) (\<lambda>_. UnrootTask task)))
       (vm_rootedTasks s) s"

section \<open>Deferred expressions and handlers\<close>

definition set_drain_depth :: "nat \<Rightarrow> (nat \<Rightarrow> nat) \<Rightarrow> vm \<Rightarrow> vm" where
  "set_drain_depth f g = set_frame f (\<lambda>fr. fr\<lparr>fr_DeferDrainDepth := g (fr_DeferDrainDepth fr)\<rparr>)"

definition ExecuteDeferExpression :: "runner \<Rightarrow> nat \<Rightarrow> ByteCodeDecoder \<Rightarrow> nat \<Rightarrow> ByteCodeDecoder vm_op" where
  "ExecuteDeferExpression run f d target =
     andThen (jump_to (of_nat target) d) (\<lambda>d1.
     andThen (run (DeferLoop f d1)) (\<lambda>d2.
     andThen (get_vm (interrupted f)) (\<lambda>stop.
       if stop then return_vm d2 else jump_to (of_nat (Index d)) d2)))"

text \<open>
  One round of \<^verbatim>\<open>DrainDefersTo\<close>: the last registered expression is taken off and executed, the depth
  is restored also when an exception leaves.
\<close>

definition drain_one :: "runner \<Rightarrow> nat \<Rightarrow> ByteCodeDecoder \<Rightarrow> ByteCodeDecoder vm_op" where
  "drain_one run f d =
     andThen (get_vm (\<lambda>s. last (fr_DeferStack (frame_of f s)))) (\<lambda>target.
     andThen (modify_vm (set_frame f (\<lambda>fr. fr\<lparr>fr_DeferStack := butlast (fr_DeferStack fr)\<rparr>))) (\<lambda>_.
     andThen (modify_vm (set_drain_depth f Suc)) (\<lambda>_.
     andThen (catch_vm (ExecuteDeferExpression run f d target) (\<lambda>e.
                andThen (modify_vm (set_drain_depth f (\<lambda>k. k - 1))) (\<lambda>_. throw_vm e))) (\<lambda>d1.
     andThen (modify_vm (set_drain_depth f (\<lambda>k. k - 1))) (\<lambda>_.
       return_vm d1)))))"

text \<open>
  Each round removes one expression, and a deferred expression may register others; the rounds are
  bounded by \<open>k\<close>.
\<close>

fun DrainDefersTo ::
  "runner \<Rightarrow> nat \<Rightarrow> nat \<Rightarrow> ByteCodeDecoder \<Rightarrow> nat \<Rightarrow> (bool \<times> ByteCodeDecoder) vm_op" where
  "DrainDefersTo run 0 f d targetSize s = OutOfFuel"
| "DrainDefersTo run (Suc k) f d targetSize s =
     (if length (fr_DeferStack (frame_of f s)) > targetSize then
        andThen (drain_one run f d) (\<lambda>d1 t.
          if interrupted f t then Ret (False, d1) t
          else DrainDefersTo run k f d1 targetSize t) s
      else Ret (True, d) s)"

text \<open>
  \<^verbatim>\<open>HandleExceptionInFrame\<close>; the \<^verbatim>\<open>while\<close> loop of the source returns in its first round, so it is
  a conditional. The result is whether execution goes on in this frame.
\<close>

definition HandleExceptionInFrame ::
  "image \<Rightarrow> nat \<Rightarrow> runner \<Rightarrow> nat \<Rightarrow> ByteCodeDecoder \<Rightarrow> (bool \<times> ByteCodeDecoder) vm_op" where
  "HandleExceptionInFrame img n run f d =
     andThen (get_vm (\<lambda>s. fr_CurrentException (frame_of f s))) (\<lambda>exception.
       if IsNullInstance exception
       then throw_vm (runtime_error ''Exception was raised without an exception object'')
       else
         andThen (DrainEvalReferences img n f) (\<lambda>_.
         andThen (modify_vm (set_frame f (\<lambda>fr. fr\<lparr>fr_InterruptionReason := NoReason,
                                               fr_CurrentException := null_instance\<rparr>))) (\<lambda>_.
         andThen (get_vm (\<lambda>s. fr_ExceptionHandlers (frame_of f s))) (\<lambda>handlers.
           if handlers \<noteq> [] then
             (let (handlerOffset, deferStackBase) = last handlers in
              andThen (modify_vm (set_frame f (\<lambda>fr. fr\<lparr>fr_ExceptionHandlers := butlast (fr_ExceptionHandlers fr)\<rparr>))) (\<lambda>_.
              andThen (DrainDefersTo run n f d deferStackBase) (\<lambda>(drained, d1).
                if \<not> drained then return_vm (True, d1)
                else
                  andThen (jump_to (of_nat handlerOffset) d1) (\<lambda>d2.
                  andThen (PushReference f exception) (\<lambda>_.
                  andThen (IncrementReference exception) (\<lambda>_.
                  andThen (modify_vm (set_frame f (\<lambda>fr. fr\<lparr>fr_InterruptionReason := NoReason,
                                                        fr_CurrentException := exception\<rparr>))) (\<lambda>_.
                    return_vm (True, d2))))))))
           else
             andThen (DrainDefersTo run n f d 0) (\<lambda>(drained, d1).
               if \<not> drained then return_vm (True, d1)
               else
                 andThen (modify_vm (raise_in f exception)) (\<lambda>_.
                 andThen (IncrementReference exception) (\<lambda>_.
                   return_vm (False, d1))))))))"

section \<open>Objects and calls\<close>

text \<open>
  \<^verbatim>\<open>memset\<close> of every field: a reference or a value of unknown shape takes eight bytes.
\<close>

definition zero_fields :: "image \<Rightarrow> ptr \<Rightarrow> nat \<Rightarrow> memory \<Rightarrow> memory" where
  "zero_fields img shape payload m =
     fold (\<lambda>(offset, fieldShape) m. write_bytes m (payload + offset)
             (replicate (if fieldShape = nullptr \<or> shape_IsReferenceType img fieldShape then 8
                         else shp_Size (img_shapes img fieldShape)) 0))
       (shp_Slots (img_shapes img shape)) m"

definition InvokeMethodBody :: "image \<Rightarrow> nat \<Rightarrow> runner \<Rightarrow> ptr \<Rightarrow> nat \<Rightarrow> unit vm_op" where
  "InvokeMethodBody img n run method f =
     andThen (run (BodyLoop f (ByteCodeDecoder_of (me_ExecutableByteCode (img_methods img method))))) (\<lambda>_.
       modify_vm (set_frame f (\<lambda>fr. fr\<lparr>fr_InterruptionReason := EndOfInstructions\<rparr>)))"

text \<open>
  The native case of \<^verbatim>\<open>InvokeMethodInternal\<close>. The arguments are read out of the frame before the
  call, which fails for an argument slot without a shape. \<open>create\<close> is \<^verbatim>\<open>CreateRuntimeException\<close>.
\<close>

definition InvokeMethodExternal ::
  "image \<Rightarrow> (cpp_exception \<Rightarrow> ObjectInstance vm_op) \<Rightarrow> ptr \<Rightarrow> nat \<Rightarrow> unit vm_op" where
  "InvokeMethodExternal img create method f =
     (let m = img_methods img method in
      catch_vm
        (if me_FunctionPointer m = nullptr then throw_vm (runtime_exception ''extern method body not resolved'')
         else
           andThen (forEach (\<lambda>i. andThen (GetLocal img f i) (\<lambda>_. return_vm ()))
                      [0..<unat (GetEvalStackArgumentsCount m)]) (\<lambda>_.
           andThen (img_native img (me_FunctionPointer m) f) (\<lambda>_.
             modify_vm (set_frame f (\<lambda>fr.
               if fr_InterruptionReason fr \<noteq> ValueReturned
               then fr\<lparr>fr_InterruptionReason := EndOfInstructions\<rparr> else fr)))))
        (\<lambda>e. andThen (create e) (\<lambda>exception.
             andThen (modify_vm (raise_in f exception)) (\<lambda>_.
               IncrementReference exception))))"

definition InvokeMethodInternal ::
  "image \<Rightarrow> nat \<Rightarrow> runner \<Rightarrow> (cpp_exception \<Rightarrow> ObjectInstance vm_op) \<Rightarrow> ptr \<Rightarrow> nat \<Rightarrow> unit vm_op" where
  "InvokeMethodInternal img n run create method f =
     (let m = img_methods img method in
      andThen (get_vm (\<lambda>s. (vm_AbortFlag s, fr_PreviousFrame (frame_of f s)))) (\<lambda>(abort, callingFrame).
        if abort then throw_vm (runtime_error ''Execution aborted by host.'')
        else
          andThen (get_vm (\<lambda>s. length (fr_LocalSlots (frame_of f s)))) (\<lambda>locals.
          andThen (if me_Linking m = LINK_INSTANCE \<and> locals > 0 then
                     andThen (GetLocal img f 0) (\<lambda>this.
                       modify_vm (set_frame f (\<lambda>fr.
                         if fr_TypeArguments fr = [] \<and> m_shape this \<noteq> nullptr
                            \<and> shp_GenericArguments (img_shapes img (m_shape this)) \<noteq> []
                         then fr\<lparr>fr_TypeArguments := shp_GenericArguments (img_shapes img (m_shape this))\<rparr>
                         else fr)))
                   else return_vm ()) (\<lambda>_.
          andThen (case me_HandleType m of
                     NoHandle \<Rightarrow> throw_vm (runtime_error ''Method handle type was not resolved'')
                   | External \<Rightarrow> InvokeMethodExternal img create method f
                   | _ \<Rightarrow> InvokeMethodBody img n run method f) (\<lambda>_.
          andThen (get_vm (frame_of f)) (\<lambda>frame.
          andThen (case fr_InterruptionReason frame of
                     NoReason \<Rightarrow> throw_vm (undefined_behaviour ''Frame halted without reason'')
                   | EndOfInstructions \<Rightarrow> return_vm ()
                   | ExceptionRaised \<Rightarrow>
                       (let exception = fr_CurrentException frame in
                        if callingFrame \<noteq> 0 \<and> \<not> IsNullInstance exception then
                          andThen (modify_vm (raise_in callingFrame exception)) (\<lambda>_. IncrementReference exception)
                        else return_vm ())
                   | ValueReturned \<Rightarrow>
                       (if returns_void img frame
                        then throw_vm (undefined_behaviour ''Void method returned value'')
                        else if shape_IsReferenceType img (fr_ReturnSlotShape frame) then
                          andThen (ReturnView img f) (\<lambda>retReg. BindTaskToFrame img retReg callingFrame)
                        else return_vm ())) (\<lambda>_.
            DrainReferences img n f)))))))"

definition InstantiateObject ::
  "image \<Rightarrow> nat \<Rightarrow> runner \<Rightarrow> (cpp_exception \<Rightarrow> ObjectInstance vm_op) \<Rightarrow> ptr \<Rightarrow> ptr \<Rightarrow> bool \<Rightarrow> ObjectInstance vm_op" where
  "InstantiateObject img n run create type ctor inPlace =
     andThen (get_vm CurrentFrame) (\<lambda>callingFrame.
     andThen (get_vm (\<lambda>s. fr_TypeArguments (frame_of callingFrame s))) (\<lambda>args.
       let resolved = q_TryResolveGenericArguments (img_query img) args type;
           (isGeneric, baseType, genericArgs) =
             (case resolved of None \<Rightarrow> (False, type, []) | Some (b, gs) \<Rightarrow> (True, b, gs));
           plainType = q_ResolveRuntimeTypeArgument (img_query img) args type;
           constructInPlace = (inPlace \<and> baseType \<noteq> nullptr \<and> \<not> IsReferenceType (img_types img baseType))
       in
       andThen (if constructInPlace then
                  PushInlineUninitialized img callingFrame
                    (if isGeneric then img_GetOrCreateShape img baseType genericArgs
                     else img_GetOrCreateShape img plainType [])
                else
                  andThen (if isGeneric then AllocateGeneric img baseType genericArgs
                           else AllocateInstance_type img n plainType) (\<lambda>newInstance.
                  andThen (PushStack img callingFrame newInstance) (\<lambda>_. return_vm newInstance))) (\<lambda>instance.
       andThen (modify_vm (set_memory (zero_fields img (m_shape instance) (m_rawMemoryPtr instance)))) (\<lambda>_.
       andThen (modify_vm (\<lambda>s. s\<lparr>vm_PendingTypeArguments :=
                  map (q_ResolveRuntimeTypeArgument (img_query img) args) (vm_PendingTypeArguments s)\<rparr>)) (\<lambda>_.
       andThen (PushFrame img ctor) (\<lambda>f.
       andThen (modify_vm (set_frame f (\<lambda>fr.
                  if isGeneric \<and> fr_TypeArguments fr = [] then fr\<lparr>fr_TypeArguments := genericArgs\<rparr> else fr))) (\<lambda>_.
       andThen (if constructInPlace then return_vm () else IncrementReference instance) (\<lambda>_.
       andThen (CopyArgumentPayloads img f) (\<lambda>_.
       andThen (if constructInPlace then return_vm () else IncrementReference instance) (\<lambda>_.
       andThen (InvokeMethodInternal img n run create ctor f) (\<lambda>_.
       andThen PopFrame (\<lambda>_.
         if constructInPlace then
           andThen (PushInlineUninitialized img callingFrame (m_shape instance)) (\<lambda>resultPayload.
           andThen (modify_vm (set_memory (\<lambda>m. write_bytes m (m_rawMemoryPtr resultPayload)
                      (read_bytes m (m_rawMemoryPtr instance) (shp_Size (img_shapes img (m_shape instance))))))) (\<lambda>_.
             return_vm null_instance))
         else andThen (DecrementReference instance) (\<lambda>_. return_vm instance)))))))))))))"

text \<open>
  \<^verbatim>\<open>CreateRuntimeException\<close>. The script class of a C++ exception, an instance of it made by its
  parameterless constructor, and message and stack trace in the backing fields, when it has them.
  A constructor that is itself native and throws is handled the same way, \<open>k\<close> levels deep.
\<close>

fun exception_class :: "image \<Rightarrow> cpp_exception \<Rightarrow> ptr" where
  "exception_class img (undefined_behaviour msg) = q_UndefinedBehaviour (img_query img)"
| "exception_class img (typed_exception type msg) =
     (if type = nullptr then q_RuntimeException (img_query img) else type)"
| "exception_class img e = q_RuntimeException (img_query img)"

fun exception_message :: "cpp_exception \<Rightarrow> string" where
  "exception_message (runtime_error msg) = msg"
| "exception_message (runtime_exception msg) = msg"
| "exception_message (typed_exception type msg) = msg"
| "exception_message (undefined_behaviour msg) = msg"
| "exception_message (out_of_range msg) = msg"
| "exception_message (invalid_argument msg) = msg"

definition GetExceptionClassDefinition :: "image \<Rightarrow> ptr \<Rightarrow> ptr" where
  "GetExceptionClassDefinition img type =
     (if type = nullptr then nullptr
      else if ty_Kind (img_types img type) = TypeK GenericType then ty_UnderlayingType (img_types img type)
      else if ty_Kind (img_types img type) = DeclK ClassDeclaration then type
      else nullptr)"

definition set_throwable_text :: "image \<Rightarrow> ObjectInstance \<Rightarrow> ptr \<Rightarrow> bool \<Rightarrow> wstring \<Rightarrow> unit vm_op" where
  "set_throwable_text img v type trace value =
     (case q_ThrowableSlot (img_query img) type trace of
        None \<Rightarrow> return_vm ()
      | Some slot \<Rightarrow> andThen (FromString img value) (SetField img v slot))"

primrec CreateRuntimeException :: "image \<Rightarrow> nat \<Rightarrow> runner \<Rightarrow> nat \<Rightarrow> cpp_exception \<Rightarrow> ObjectInstance vm_op" where
  "CreateRuntimeException img n run 0 e = (\<lambda>s. OutOfFuel)"
| "CreateRuntimeException img n run (Suc k) e =
     (let type = exception_class img e;
          classDef = GetExceptionClassDefinition img type
      in if type = nullptr then throw_vm (runtime_error ''CreateRuntimeException: type is null'')
         else if classDef = nullptr then throw_vm (runtime_error ''CreateRuntimeException: type is not a class'')
         else case List.find (\<lambda>c. me_Parameters (img_methods img c) = []) (q_Constructors (img_query img) classDef) of
           None \<Rightarrow> throw_vm (runtime_error ''CreateRuntimeException: exception type has no parameterless constructor'')
         | Some ctor \<Rightarrow>
             andThen (get_vm (GetStackTrace img)) (\<lambda>trace.
             andThen (InstantiateObject img n run (CreateRuntimeException img n run k) type ctor False) (\<lambda>instance.
             andThen (set_throwable_text img instance type False (L (exception_message e))) (\<lambda>_.
             andThen (set_throwable_text img instance type True trace) (\<lambda>_.
               return_vm instance)))))"

definition InvokeMethod :: "image \<Rightarrow> nat \<Rightarrow> runner \<Rightarrow> ptr \<Rightarrow> ObjectInstance list \<Rightarrow> ObjectInstance vm_op" where
  "InvokeMethod img n run method args =
     andThen (get_vm CurrentFrame) (\<lambda>callingFrame.
       if unat (GetEvalStackArgumentsCount (img_methods img method)) \<noteq> length args
       then throw_vm (undefined_behaviour ''Arguments count mismatch'')
       else
         andThen (PushFrame img method) (\<lambda>f.
         andThen (forEach (\<lambda>i. SetLocal img n f i (args ! i)) [0..<length args]) (\<lambda>_.
         andThen (InvokeMethodInternal img n run (CreateRuntimeException img n run n) method f) (\<lambda>_.
         andThen (if me_ReturnType (img_methods img method) \<noteq> pr_Void (img_Primitives img) then
                    andThen (ReturnView img f) (\<lambda>returned.
                      if callingFrame \<noteq> 0 then PushStack img callingFrame returned else return_vm returned)
                  else return_vm null_instance) (\<lambda>result.
         andThen PopFrame (\<lambda>_. return_vm result))))))"

definition invoke_operator ::
  "image \<Rightarrow> nat \<Rightarrow> runner \<Rightarrow> TokenType \<Rightarrow> ptr \<Rightarrow> ptr list \<Rightarrow> ObjectInstance list \<Rightarrow> ObjectInstance vm_op" where
  "invoke_operator img n run token ownerType paramTypes args =
     (if GetOperatorMethodName token = [] then throw_vm (runtime_error ''operator is not overloadable'')
      else
        let method = q_FindOperator (img_query img) ownerType token paramTypes in
        if method = nullptr then throw_vm (runtime_error ''operator overload not found'')
        else andThen (InvokeMethod img n run method args) (\<lambda>_.
             andThen (get_vm CurrentFrame) (PopStack img)))"

definition InvokeOperatorMethod ::
  "image \<Rightarrow> nat \<Rightarrow> runner \<Rightarrow> ObjectInstance \<Rightarrow> TokenType \<Rightarrow> ObjectInstance \<Rightarrow> ObjectInstance vm_op" where
  "InvokeOperatorMethod img n run left token right =
     andThen (getInfo img left) (\<lambda>ownerType.
     andThen (getInfo img right) (\<lambda>rightType.
       invoke_operator img n run token ownerType [ownerType, rightType] [right, left]))"

definition InvokeOperatorMethod_unary ::
  "image \<Rightarrow> nat \<Rightarrow> runner \<Rightarrow> ObjectInstance \<Rightarrow> TokenType \<Rightarrow> ObjectInstance vm_op" where
  "InvokeOperatorMethod_unary img n run v token =
     andThen (getInfo img v) (\<lambda>ownerType. invoke_operator img n run token ownerType [ownerType] [v])"

end
