(* ===== verification/Instructions.thy ===== *)
theory Instructions
  imports VirtualMachines
begin

text \<open>
  \<^verbatim>\<open>VirtualMachine::ProcessCode\<close>, one function per group of operation codes, and the loops that call
  it: the body of a method and a deferred expression.
\<close>

section \<open>Shared steps\<close>

text \<open>\<^verbatim>\<open>pushPrimitiveResult\<close>: a boxed value is copied onto the stack and its box released.\<close>

definition pushPrimitiveResult :: "image \<Rightarrow> nat \<Rightarrow> nat \<Rightarrow> ObjectInstance \<Rightarrow> unit vm_op" where
  "pushPrimitiveResult img n f result =
     (if \<not> IsNullInstance result \<and> m_shape result \<noteq> nullptr \<and> \<not> shape_IsReferenceType img (m_shape result)
      then andThen (PushInline img f (m_shape result) (view_source img result)) (\<lambda>_. DestroyInstance img n result)
      else andThen (PushReference f result) (\<lambda>_. return_vm ()))"

definition push_boolean :: "image \<Rightarrow> nat \<Rightarrow> bool \<Rightarrow> unit vm_op" where
  "push_boolean img f b =
     andThen (PushInline img f (primitive_shape img pr_Boolean) (\<lambda>_. Some [if b then 1 else 0])) (\<lambda>_. return_vm ())"

definition push_constant :: "image \<Rightarrow> nat \<Rightarrow> (Primitives \<Rightarrow> ptr) \<Rightarrow> bytes \<Rightarrow> unit vm_op" where
  "push_constant img f p bs =
     andThen (PushInline img f (primitive_shape img p) (\<lambda>_. Some bs)) (\<lambda>_. return_vm ())"

text \<open>The divisor check of \<^verbatim>\<open>executeBinary\<close>.\<close>

definition check_divisor :: "image \<Rightarrow> TokenType \<Rightarrow> ObjectInstance \<Rightarrow> unit vm_op" where
  "check_divisor img token right =
     (if token = Op DivOperator \<or> token = Op ModOperator then
        andThen (getInfo img right) (\<lambda>rightType.
          if rightType \<noteq> nullptr \<and>
             (IsIntegralType img rightType \<or> ty_Kind (img_types img rightType) = DeclK EnumDeclaration)
          then andThen (AsInteger img right) (\<lambda>i.
                 if i = 0 then throw_vm (runtime_error ''DivideByZeroException'') else return_vm ())
          else return_vm ())
      else return_vm ())"

definition executeBinary :: "image \<Rightarrow> nat \<Rightarrow> runner \<Rightarrow> nat \<Rightarrow> TokenType \<Rightarrow> unit vm_op" where
  "executeBinary img n run f token =
     andThen (PopStack img f) (\<lambda>right.
     andThen (PopStack img f) (\<lambda>left.
       if IsNullInstance right \<or> IsNullInstance left then push_boolean img f False
       else
         andThen (check_divisor img token right) (\<lambda>_.
         andThen (ExecuteBinary img token left right) (\<lambda>handled.
         andThen (if IsNullInstance handled then InvokeOperatorMethod img n run left token right
                  else return_vm handled) (\<lambda>result.
         andThen (pushPrimitiveResult img n f result) (\<lambda>_.
         andThen (DiscardValue img n right) (\<lambda>_.
           DiscardValue img n left)))))))"

definition executeUnary :: "image \<Rightarrow> nat \<Rightarrow> runner \<Rightarrow> nat \<Rightarrow> TokenType \<Rightarrow> unit vm_op" where
  "executeUnary img n run f token =
     andThen (PopStack img f) (\<lambda>operand.
       if IsNullInstance operand then throw_vm (runtime_error ''Cannot perform operation on null instance'')
       else
         andThen (ExecuteUnary img token operand) (\<lambda>handled.
         andThen (if IsNullInstance handled then InvokeOperatorMethod_unary img n run operand token
                  else return_vm handled) (\<lambda>result.
         andThen (pushPrimitiveResult img n f result) (\<lambda>_.
           DiscardValue img n operand))))"

text \<open>An operand of the instruction, then the rest of the handler.\<close>

definition operand_vm :: "(ByteCodeDecoder \<Rightarrow> 'a \<times> ByteCodeDecoder) \<Rightarrow> ByteCodeDecoder
    \<Rightarrow> ('a \<Rightarrow> ByteCodeDecoder \<Rightarrow> 'b vm_op) \<Rightarrow> 'b vm_op" where
  "operand_vm absorb d g = (case absorb d of (x, d') \<Rightarrow> g x d')"

definition resume :: "unit vm_op \<Rightarrow> ByteCodeDecoder \<Rightarrow> ByteCodeDecoder vm_op" where
  "resume m d = andThen m (\<lambda>_. return_vm d)"

section \<open>Constants and variables\<close>

fun ProcessConstant :: "image \<Rightarrow> nat \<Rightarrow> nat \<Rightarrow> ByteCodeDecoder \<Rightarrow> ConstantOp \<Rightarrow> ByteCodeDecoder vm_op" where
  "ProcessConstant img n f d NOP = return_vm d"
| "ProcessConstant img n f d HALT = resume (modify_vm Abort) d"
| "ProcessConstant img n f d POP = resume (andThen (PopStack img f) (DiscardValue img n)) d"
| "ProcessConstant img n f d LOADCONST_NULL =
     resume (andThen (PushReference f null_instance) (\<lambda>_. return_vm ())) d"
| "ProcessConstant img n f d LOADCONST_BOOLEAN = operand_vm AbsorbBoolean d (\<lambda>b. resume (push_boolean img f b))"
| "ProcessConstant img n f d LOADCONST_INTEGER8 =
     operand_vm AbsorbUInt8 d (\<lambda>i. resume (push_constant img f pr_Byte (word_bytes i)))"
| "ProcessConstant img n f d LOADCONST_INTEGER64 =
     operand_vm AbsorbInt64 d (\<lambda>i. resume (push_constant img f pr_Integer (word_bytes i)))"
| "ProcessConstant img n f d LOADCONST_NATIVE_INTEGER =
     operand_vm AbsorbIntPtr d (\<lambda>i. resume (push_constant img f pr_NativeInteger (word_bytes i)))"
| "ProcessConstant img n f d LOADCONST_RATIONAL64 =
     operand_vm AbsorbDouble64 d (\<lambda>x. resume (push_constant img f pr_Double (word_bytes x)))"
| "ProcessConstant img n f d LOADCONST_CHAR =
     operand_vm AbsorbChar16 d (\<lambda>c. resume (push_constant img f pr_Char (word_bytes c)))"
| "ProcessConstant img n f d LOADCONST_STRING =
     operand_vm AbsorbString d (\<lambda>data. resume
       (andThen (InternString img (img_DataAddress img + unat data)) (\<lambda>v.
        andThen (PushStack img f v) (\<lambda>_. return_vm ()))))"
| "ProcessConstant img n f d DUP =
     resume (andThen (PeekStack img f) (\<lambda>v. andThen (PushStack img f v) (\<lambda>_. return_vm ()))) d"
| "ProcessConstant img n f d STORE_LOCAL =
     operand_vm AbsorbVariableSlot d (\<lambda>slot. resume
       (andThen (PopStack img f) (SetLocal img n f (unat slot))))"
| "ProcessConstant img n f d STORE_ARG =
     operand_vm AbsorbVariableSlot d (\<lambda>slot. resume
       (andThen (PopStack img f) (SetLocal img n f (unat slot))))"
| "ProcessConstant img n f d LOAD_LOCAL =
     operand_vm AbsorbVariableSlot d (\<lambda>slot. resume
       (andThen (GetLocal img f (unat slot)) (\<lambda>v. andThen (PushStack img f v) (\<lambda>_. return_vm ()))))"
| "ProcessConstant img n f d LOAD_ARG =
     operand_vm AbsorbVariableSlot d (\<lambda>slot. resume
       (andThen (GetLocal img f (unat slot)) (\<lambda>v. andThen (PushStack img f v) (\<lambda>_. return_vm ()))))"

section \<open>Operators\<close>

fun ProcessMath :: "image \<Rightarrow> nat \<Rightarrow> runner \<Rightarrow> nat \<Rightarrow> MathOp \<Rightarrow> unit vm_op" where
  "ProcessMath img n run f MATH_ADDITION = executeBinary img n run f (Op AddOperator)"
| "ProcessMath img n run f MATH_SUBTRACT = executeBinary img n run f (Op SubOperator)"
| "ProcessMath img n run f MATH_MULTIPLY = executeBinary img n run f (Op MultOperator)"
| "ProcessMath img n run f MATH_DIVISION = executeBinary img n run f (Op DivOperator)"
| "ProcessMath img n run f MATH_MODULO = executeBinary img n run f (Op ModOperator)"
| "ProcessMath img n run f MATH_POWER = executeBinary img n run f (Op PowOperator)"
| "ProcessMath img n run f MATH_NEGATIVE = executeUnary img n run f (Op SubOperator)"
| "ProcessMath img n run f MATH_SHL = executeBinary img n run f (Op LeftShiftOperator)"
| "ProcessMath img n run f MATH_SHR = executeBinary img n run f (Op RightShiftOperator)"
| "ProcessMath img n run f COMPARE_EQUAL = executeBinary img n run f (Op EqualsOperator)"
| "ProcessMath img n run f COMPARE_NOTEQUAL = executeBinary img n run f (Op NotEqualsOperator)"
| "ProcessMath img n run f COMPARE_GREATER = executeBinary img n run f (Op GreaterOperator)"
| "ProcessMath img n run f COMPARE_GREATER_OR_EQUAL = executeBinary img n run f (Op GreaterOrEqualsOperator)"
| "ProcessMath img n run f COMPARE_LESS = executeBinary img n run f (Op LessOperator)"
| "ProcessMath img n run f COMPARE_LESS_OR_EQUAL = executeBinary img n run f (Op LessOrEqualsOperator)"
| "ProcessMath img n run f LOGICAL_NOT = executeUnary img n run f (Op NotOperator)"
| "ProcessMath img n run f LOGICAL_OR = executeBinary img n run f (Op OrOperator)"
| "ProcessMath img n run f LOGICAL_AND = executeBinary img n run f (Op AndOperator)"

section \<open>Control\<close>

definition branch_on :: "image \<Rightarrow> nat \<Rightarrow> nat \<Rightarrow> bool \<Rightarrow> u64 \<Rightarrow> ByteCodeDecoder \<Rightarrow> ByteCodeDecoder vm_op" where
  "branch_on img n f taken target d =
     andThen (PopStack img f) (\<lambda>value.
     andThen (AsBoolean img value) (\<lambda>asBool.
     andThen (DiscardValue img n value) (\<lambda>_.
       if asBool = taken then jump_to target d else return_vm d)))"

text \<open>
  \<^verbatim>\<open>THROW\<close> moves a value type into a new object of the heap and keeps its references counted.
\<close>

definition box_thrown :: "image \<Rightarrow> ObjectInstance \<Rightarrow> ObjectInstance vm_op" where
  "box_thrown img thrown =
     andThen (AllocateInstance img (m_shape thrown)) (\<lambda>exception.
     andThen (get_vm (source_bytes thrown (shp_Size (img_shapes img (m_shape thrown))))) (\<lambda>src.
     andThen (WriteMemory img exception 0 src) (\<lambda>_.
     andThen (forEach (\<lambda>slot.
         let fieldShape = snd (shp_Slots (img_shapes img (m_shape thrown)) ! slot) in
         if fieldShape = nullptr \<or> \<not> shape_IsReferenceType img fieldShape then return_vm ()
         else andThen (GetField img exception slot) (\<lambda>fieldValue.
                if IsNullInstance fieldValue then return_vm () else IncrementReference fieldValue))
         [0..<length (shp_Slots (img_shapes img (m_shape thrown)))]) (\<lambda>_.
       return_vm exception))))"

definition fill_stack_trace :: "image \<Rightarrow> ObjectInstance \<Rightarrow> unit vm_op" where
  "fill_stack_trace img exception =
     andThen (getInfo img exception) (\<lambda>exceptionType.
       case q_ThrowableSlot (img_query img) exceptionType True of
         None \<Rightarrow> return_vm ()
       | Some slot \<Rightarrow>
           andThen (GetField img exception slot) (\<lambda>currentTrace.
           andThen (if IsNullInstance currentTrace then return_vm True
                    else andThen (AsStringLength img currentTrace) (\<lambda>len. return_vm (len = 0))) (\<lambda>needsTrace.
             if needsTrace then
               andThen (get_vm (GetStackTrace img)) (\<lambda>trace.
               andThen (FromString img trace) (SetField img exception slot))
             else return_vm ())))"

definition throw_top :: "image \<Rightarrow> nat \<Rightarrow> unit vm_op" where
  "throw_top img f =
     andThen (PopStack img f) (\<lambda>thrown.
     andThen (getInfo img thrown) (\<lambda>info.
     andThen (if info \<noteq> nullptr \<and> \<not> IsReferenceType (img_types img info) then box_thrown img thrown
              else return_vm thrown) (\<lambda>exception.
       if IsNullInstance exception then throw_vm (runtime_error ''Cannot throw null exception'')
       else
         andThen (fill_stack_trace img exception) (\<lambda>_.
         andThen (IncrementReference exception) (\<lambda>_.
           modify_vm (raise_in f exception))))))"

fun ProcessControl :: "image \<Rightarrow> nat \<Rightarrow> nat \<Rightarrow> ByteCodeDecoder \<Rightarrow> ControlOp \<Rightarrow> ByteCodeDecoder vm_op" where
  "ProcessControl img n f d JUMP = operand_vm AbsorbJump d jump_to"
| "ProcessControl img n f d JUMP_FALSE = operand_vm AbsorbJump d (branch_on img n f False)"
| "ProcessControl img n f d JUMP_TRUE = operand_vm AbsorbJump d (branch_on img n f True)"
| "ProcessControl img n f d BR_NULL =
     operand_vm AbsorbJump d (\<lambda>target d1.
       andThen (PopStack img f) (\<lambda>value.
       andThen (getInfo img value) (\<lambda>info.
         if info \<noteq> nullptr \<and> \<not> IsReferenceType (img_types img info) then resume (DiscardValue img n value) d1
         else if IsNullInstance value then jump_to target d1
         else resume (CollectInstance img n value) d1)))"
| "ProcessControl img n f d JUMP_TABLE =
     operand_vm AbsorbUInt32 d (\<lambda>count d1.
       let base = GetCursor d1 in
       andThen (PopStack img f) (\<lambda>value.
       andThen (AsInteger img value) (\<lambda>index.
       andThen (DiscardValue img n value) (\<lambda>_.
         if sint index < 0 \<or> unat index \<ge> unat count
         then jump_to (of_nat (base + unat count * 8)) d1
         else case PeekJumpAt (base + unat index * 8) d1 of
           OutOfBounds \<Rightarrow> throw_vm (out_of_range ''Tried to read jump target out of code boundaries'')
         | Overrun \<Rightarrow> crash_vm
         | Within target \<Rightarrow> jump_to target d1))))"
| "ProcessControl img n f d RETURN =
     andThen (get_vm (frame_of f)) (\<lambda>frame.
     andThen (if returns_void img frame then return_vm ()
              else andThen (ReturnView img f) (\<lambda>retReg.
                if m_shape retReg \<noteq> fr_ReturnSlotShape frame
                then throw_vm (undefined_behaviour ''Returning TypeShape mismatch'')
                else PlaceReturned img f retReg)) (\<lambda>_.
       return_vm (Return_dec d)))"
| "ProcessControl img n f d THROW = resume (throw_top img f) d"

section \<open>Objects, arrays and calls\<close>

definition verify_not_null :: "ObjectInstance \<Rightarrow> unit vm_op" where
  "verify_not_null v =
     (if IsNullInstance v then throw_vm (runtime_error ''Cannot perform operation on null instance.'') else return_vm ())"

definition pop_arguments :: "image \<Rightarrow> nat \<Rightarrow> nat \<Rightarrow> ObjectInstance list vm_op" where
  "pop_arguments img f count =
     fold (\<lambda>_ m. andThen m (\<lambda>args. andThen (PopStack img f) (\<lambda>v. return_vm (args @ [v])))) [0..<count] (return_vm [])"

definition call_method :: "image \<Rightarrow> nat \<Rightarrow> runner \<Rightarrow> nat \<Rightarrow> ptr \<Rightarrow> unit vm_op" where
  "call_method img n run f method =
     andThen (pop_arguments img f (unat (GetEvalStackArgumentsCount (img_methods img method)))) (\<lambda>args.
     andThen (InvokeMethod img n run method args) (\<lambda>_. return_vm ()))"

text \<open>The test that \<^verbatim>\<open>ISINSTANCE\<close> and \<^verbatim>\<open>CAST_AS\<close> share.\<close>

definition is_compatible :: "image \<Rightarrow> ptr \<Rightarrow> ObjectInstance \<Rightarrow> bool vm_op" where
  "is_compatible img targetType value =
     andThen (getInfo img value) (\<lambda>info.
       if info \<noteq> nullptr \<and> \<not> IsReferenceType (img_types img info)
       then return_vm (q_IsAssignableTo (img_query img) targetType info)
       else if \<not> IsNullInstance value then return_vm (q_IsAssignableTo (img_query img) targetType info)
       else return_vm False)"

definition cast_top :: "image \<Rightarrow> nat \<Rightarrow> ptr \<Rightarrow> unit vm_op" where
  "cast_top img f targetType =
     andThen (PopStack img f) (\<lambda>value.
     andThen (getInfo img value) (\<lambda>info.
       let by_value = (info \<noteq> nullptr \<and> \<not> IsReferenceType (img_types img info)) in
       if is_primitive img pr_Any targetType then
         (if by_value then andThen (PushStack img f value) (\<lambda>_. return_vm ())
          else andThen (PushReference f (if IsNullInstance value then null_instance else value)) (\<lambda>_. return_vm ()))
       else if by_value then
         (if \<not> q_IsAssignableTo (img_query img) targetType info then throw_vm (runtime_error ''Invalid cast'')
          else andThen (PushStack img f value) (\<lambda>_. return_vm ()))
       else if IsNullInstance value then
         (if ty_Inlining (img_types img targetType) = ByValue
          then throw_vm (runtime_error ''Cannot cast null to a value type'')
          else andThen (PushReference f null_instance) (\<lambda>_. return_vm ()))
       else if q_IsAssignableTo (img_query img) targetType info
       then andThen (PushReference f value) (\<lambda>_. return_vm ())
       else throw_vm (runtime_error ''Invalid cast'')))"

definition array_operand :: "image \<Rightarrow> nat \<Rightarrow> ptr \<Rightarrow> string \<Rightarrow> (ptr \<Rightarrow> ptr \<Rightarrow> unit vm_op) \<Rightarrow> unit vm_op" where
  "array_operand img f operand msg g =
     andThen (get_vm (\<lambda>s. fr_TypeArguments (frame_of f s))) (\<lambda>args.
       let resolved = ResolveType img args operand in
       if resolved = nullptr \<or> ty_Kind (img_types img resolved) \<noteq> TypeK ArrayType then throw_vm (runtime_error msg)
       else g resolved (ResolveType img args (ty_UnderlayingType (img_types img resolved))))"

definition new_array :: "image \<Rightarrow> nat \<Rightarrow> nat \<Rightarrow> ptr \<Rightarrow> unit vm_op" where
  "new_array img n f type =
     (let len = ty_Length (img_types img type) in
      andThen (pop_arguments img f len) (\<lambda>elements.
      andThen (AllocateInstance_type img n type) (\<lambda>v.
      andThen (WriteMemory img v 0 (Some (word_bytes (of_nat len :: u64)))) (\<lambda>_.
      andThen (forEach (\<lambda>i. andThen (SetElement img v i (elements ! i) None) (\<lambda>_.
                 DiscardValue img n (elements ! i))) [0..<len]) (\<lambda>_.
      andThen (PushReference f v) (\<lambda>_. return_vm ()))))))"

definition new_array_dynamic :: "image \<Rightarrow> nat \<Rightarrow> nat \<Rightarrow> ptr \<Rightarrow> ptr \<Rightarrow> unit vm_op" where
  "new_array_dynamic img n f arrayType elementType =
     andThen (PopStack img f) (\<lambda>sizeValue.
     andThen (AsInteger img sizeValue) (\<lambda>len.
     andThen (DiscardValue img n sizeValue) (\<lambda>_.
     andThen (AllocateArray img n arrayType elementType (unat len)) (\<lambda>v.
     andThen (PushReference f v) (\<lambda>_. return_vm ())))))"

text \<open>The length and step of \<^verbatim>\<open>CREATERANGE\<close>, on 64-bit integers.\<close>

definition range_length :: "u64 \<Rightarrow> u64 \<Rightarrow> bool \<Rightarrow> u64" where
  "range_length lower upper inclusive =
     (let diff = upper - lower;
          one = (if inclusive then 1 else 0);
          len = (if diff <s 0 then - diff + one else diff + one)
      in if len <s 0 then 0 else len)"

definition range_element :: "u64 \<Rightarrow> u64 \<Rightarrow> nat \<Rightarrow> u64" where
  "range_element lower upper i =
     (let step = (if upper - lower <s 0 then -1 else 1) in lower + step * of_nat i)"

definition create_range :: "image \<Rightarrow> nat \<Rightarrow> nat \<Rightarrow> ptr \<Rightarrow> ptr \<Rightarrow> unit vm_op" where
  "create_range img n f arrayType elementType =
     andThen (PopStack img f) (\<lambda>inclusiveValue.
     andThen (AsBoolean img inclusiveValue) (\<lambda>inclusive.
     andThen (DiscardValue img n inclusiveValue) (\<lambda>_.
     andThen (PopStack img f) (\<lambda>upperValue.
     andThen (AsInteger img upperValue) (\<lambda>upper.
     andThen (DiscardValue img n upperValue) (\<lambda>_.
     andThen (PopStack img f) (\<lambda>lowerValue.
     andThen (AsInteger img lowerValue) (\<lambda>lower.
     andThen (DiscardValue img n lowerValue) (\<lambda>_.
       let len = unat (range_length lower upper inclusive) in
       andThen (AllocateArray img n arrayType elementType len) (\<lambda>v.
       andThen (forEach (\<lambda>i.
           andThen (FromInteger img (range_element lower upper i)) (\<lambda>element.
           andThen (SetElement img v i element None) (\<lambda>_.
             DecrementReference element))) [0..<len]) (\<lambda>_.
       andThen (PushStack img f v) (\<lambda>_. return_vm ()))))))))))))"

definition index_in_range :: "u64 \<Rightarrow> nat \<Rightarrow> bool" where
  "index_in_range index len \<longleftrightarrow> \<not> sint index < 0 \<and> unat index < len"

definition load_element :: "image \<Rightarrow> nat \<Rightarrow> nat \<Rightarrow> unit vm_op" where
  "load_element img n f =
     andThen (PopStack img f) (\<lambda>indexValue.
     andThen (PopStack img f) (\<lambda>array.
     andThen (verify_not_null array) (\<lambda>_.
     andThen (AsInteger img indexValue) (\<lambda>index.
     andThen (GetArrayLength img array) (\<lambda>len.
       if \<not> index_in_range index len then throw_vm (runtime_error ''Array index out of range'')
       else
         andThen (GetElement img array (unat index) None) (\<lambda>element.
         andThen (getInfo img element) (\<lambda>info.
         andThen (if info \<noteq> nullptr \<and> \<not> IsReferenceType (img_types img info) then
                    andThen (getInfo img array) (\<lambda>arrayInfo.
                    andThen (get_vm (\<lambda>s. fr_TypeArguments (frame_of f s))) (\<lambda>args.
                      let elementShape = img_GetOrCreateShape img
                            (ResolveType img args (ty_UnderlayingType (img_types img arrayInfo))) [] in
                      PushInline img f elementShape (\<lambda>m. Some (read_bytes m (m_rawMemoryPtr element)
                        (shp_Size (img_shapes img elementShape))))))
                  else andThen (IncrementReference element) (\<lambda>_. PushReference f element)) (\<lambda>_.
         andThen (DiscardValue img n indexValue) (\<lambda>_.
           CollectInstance img n array)))))))))"

definition store_element :: "image \<Rightarrow> nat \<Rightarrow> nat \<Rightarrow> unit vm_op" where
  "store_element img n f =
     andThen (PopStack img f) (\<lambda>value.
     andThen (PopStack img f) (\<lambda>indexValue.
     andThen (PopStack img f) (\<lambda>array.
     andThen (verify_not_null array) (\<lambda>_.
     andThen (AsInteger img indexValue) (\<lambda>index.
     andThen (GetArrayLength img array) (\<lambda>len.
       if \<not> index_in_range index len then throw_vm (runtime_error ''Array index out of range'')
       else
         andThen (SetElement img array (unat index) value None) (\<lambda>_.
         andThen (DiscardValue img n value) (\<lambda>_.
           DiscardValue img n indexValue))))))))"

definition load_field :: "image \<Rightarrow> nat \<Rightarrow> nat \<Rightarrow> nat \<Rightarrow> unit vm_op" where
  "load_field img n f slot =
     andThen (PopStack img f) (\<lambda>target.
     andThen (verify_not_null target) (\<lambda>_.
     andThen (GetField img target slot) (\<lambda>fieldValue.
     andThen (getInfo img fieldValue) (\<lambda>info.
     andThen (if info \<noteq> nullptr \<and> \<not> IsReferenceType (img_types img info)
              then PushInline img f (m_shape fieldValue) (view_source img fieldValue)
              else PushReference f fieldValue) (\<lambda>_.
       DiscardValue img n target)))))"

definition store_field :: "image \<Rightarrow> nat \<Rightarrow> nat \<Rightarrow> nat \<Rightarrow> unit vm_op" where
  "store_field img n f slot =
     andThen (PopStack img f) (\<lambda>fieldValue.
     andThen (PopStack img f) (\<lambda>target.
     andThen (verify_not_null target) (\<lambda>_.
     andThen (SetField img target slot fieldValue) (\<lambda>_.
     andThen (DiscardValue img n fieldValue) (\<lambda>_.
       DiscardValue img n target)))))"

definition set_pending_argument :: "nat \<Rightarrow> ptr \<Rightarrow> vm \<Rightarrow> vm" where
  "set_pending_argument index type s =
     (let pending = vm_PendingTypeArguments s;
          padded = pending @ replicate (Suc index - length pending) nullptr
      in s\<lparr>vm_PendingTypeArguments := padded[index := type]\<rparr>)"

fun ProcessObject ::
  "image \<Rightarrow> nat \<Rightarrow> runner \<Rightarrow> nat \<Rightarrow> ByteCodeDecoder \<Rightarrow> ObjectOp \<Rightarrow> ByteCodeDecoder vm_op" where
  "ProcessObject img n run f d CALLMETHODSYMBOL =
     operand_vm AbsorbMethodSymbol d (\<lambda>method. resume (call_method img n run f method))"
| "ProcessObject img n run f d CALLDELEGATE =
     operand_vm AbsordDelegateTypeSymbol d (\<lambda>_. resume
       (andThen (PopStack img f) (\<lambda>delegate.
          if IsNullInstance delegate then throw_vm (runtime_error ''Cannot invoke a null delegate'')
          else andThen (getInfo img delegate) (\<lambda>info.
            let target = q_DelegateMethod (img_query img) info in
            if target = nullptr then throw_vm (runtime_error ''Delegate has no target method'')
            else andThen (InvokeMethod img n run target [delegate]) (\<lambda>_. return_vm ())))))"
| "ProcessObject img n run f d CALLINTERFACE =
     operand_vm AbsorbMethodSymbol d (\<lambda>interfaceMethod. resume
       (andThen (PeekStack img f) (\<lambda>this.
          if IsNullInstance this
          then throw_vm (runtime_error ''Cannot invoke interface method on a null reference'')
          else andThen (getInfo img this) (\<lambda>info.
            let implementation = q_FindInterfaceImplementation (img_query img) info interfaceMethod in
            if implementation = nullptr then throw_vm (runtime_error ''Interface method implementation not found'')
            else call_method img n run f implementation))))"
| "ProcessObject img n run f d ISINSTANCE =
     operand_vm AbsorbTypeSymbol d (\<lambda>targetType. resume
       (andThen (PopStack img f) (\<lambda>value.
        andThen (is_compatible img targetType value) (\<lambda>result.
        andThen (DiscardValue img n value) (\<lambda>_. push_boolean img f result)))))"
| "ProcessObject img n run f d CAST_AS =
     operand_vm AbsorbTypeSymbol d (\<lambda>operand. resume
       (andThen (get_vm (\<lambda>s. ResolveType img (fr_TypeArguments (frame_of f s)) operand)) (\<lambda>targetType.
        andThen (PopStack img f) (\<lambda>value.
        andThen (is_compatible img targetType value) (\<lambda>compatible.
          if compatible then andThen (PushStack img f value) (\<lambda>_. return_vm ())
          else andThen (PushReference f null_instance) (\<lambda>_. DiscardValue img n value))))))"
| "ProcessObject img n run f d CAST =
     operand_vm AbsorbTypeSymbol d (\<lambda>operand. resume
       (andThen (get_vm (\<lambda>s. ResolveType img (fr_TypeArguments (frame_of f s)) operand)) (cast_top img f)))"
| "ProcessObject img n run f d CASTPRIMITIVE =
     operand_vm AbsorbTypeSymbol d (\<lambda>operand. resume
       (andThen (get_vm (\<lambda>s. ResolveType img (fr_TypeArguments (frame_of f s)) operand)) (\<lambda>targetType.
        andThen (PopStack img f) (\<lambda>value.
          if IsNullInstance value then throw_vm (runtime_error ''Cannot cast null to a primitive type'')
          else andThen (ExecuteCast img n targetType value) (\<lambda>result.
            if IsNullInstance result then throw_vm (runtime_error ''Unsupported primitive cast'')
            else andThen (pushPrimitiveResult img n f result) (\<lambda>_. DiscardValue img n value))))))"
| "ProcessObject img n run f d NEWOBJECT =
     operand_vm AbsorbTypeSymbol d (\<lambda>operand d1.
     operand_vm AbsorbConstructorSymbol d1 (\<lambda>ctor. resume
       (andThen (get_vm (\<lambda>s. ResolveType img (fr_TypeArguments (frame_of f s)) operand)) (\<lambda>type.
        andThen (InstantiateObject img n run (CreateRuntimeException img n run n) type ctor True) (\<lambda>v.
          if IsNullInstance v then return_vm () else andThen (PushStack img f v) (\<lambda>_. return_vm ()))))))"
| "ProcessObject img n run f d NEWDELEGATE =
     operand_vm AbsordDelegateTypeSymbol d (\<lambda>type. resume
       (let target = q_AnonymousSymbol (img_query img) type in
        andThen (if target \<noteq> nullptr \<and> me_Linking (img_methods img target) = LINK_INSTANCE then
                   andThen (PopStack img f) (\<lambda>v.
                     if IsNullInstance v then throw_vm (runtime_error ''Cannot create delegate with null receiver'')
                     else return_vm v)
                 else AllocateInstance_type img n type) (\<lambda>v.
        andThen (PushStack img f v) (\<lambda>_. return_vm ()))))"
| "ProcessObject img n run f d LOAD_TYPEARGUMENT =
     operand_vm AbsorbUInt16 d (\<lambda>index d1.
     operand_vm AbsorbTypeSymbol d1 (\<lambda>type. resume (modify_vm (set_pending_argument (unat index) type))))"
| "ProcessObject img n run f d LOADFIELD =
     operand_vm AbsorbFieldSlot d (\<lambda>slot. resume (load_field img n f (unat slot)))"
| "ProcessObject img n run f d STOREFIELD =
     operand_vm AbsorbFieldSlot d (\<lambda>slot. resume (store_field img n f (unat slot)))"
| "ProcessObject img n run f d LOADSTATICFIELD =
     operand_vm AbsorbFieldSymbol d (\<lambda>field. resume
       (andThen (GetStaticField img field) (\<lambda>v. andThen (PushStack img f v) (\<lambda>_. return_vm ()))))"
| "ProcessObject img n run f d LOADENUMFIELD =
     operand_vm AbsorbFieldSymbol d (\<lambda>field. resume
       (andThen (PushInline img f (img_GetOrCreateShape img (fld_Parent (img_fields img field)) [])
          (\<lambda>_. Some (word_bytes (fld_EnumValue (img_fields img field))))) (\<lambda>_. return_vm ())))"
| "ProcessObject img n run f d STORESTATICFIELD =
     operand_vm AbsorbFieldSymbol d (\<lambda>field. resume
       (andThen (PopStack img f) (\<lambda>v.
        andThen (SetStaticField img n field v) (\<lambda>_. CollectInstance img n v))))"
| "ProcessObject img n run f d NEWARRAY =
     operand_vm AbsorbTypeSymbol d (\<lambda>operand. resume
       (array_operand img f operand ''NEWARRAY expects an array type'' (\<lambda>type _. new_array img n f type)))"
| "ProcessObject img n run f d NEWARRAY_DYNAMIC =
     operand_vm AbsorbTypeSymbol d (\<lambda>operand. resume
       (array_operand img f operand ''NEWARRAY_DYNAMIC expects an array type'' (new_array_dynamic img n f)))"
| "ProcessObject img n run f d LOADARRAYELEMENT = resume (load_element img n f) d"
| "ProcessObject img n run f d STOREARRAYELEMENT = resume (store_element img n f) d"
| "ProcessObject img n run f d ARRAYLENGTH =
     resume (andThen (PopStack img f) (\<lambda>array.
             andThen (verify_not_null array) (\<lambda>_.
             andThen (GetArrayLength img array) (\<lambda>len.
             andThen (push_constant img f pr_Integer (word_bytes (of_nat len :: u64))) (\<lambda>_.
               CollectInstance img n array))))) d"

section \<open>Handlers and deferred expressions\<close>

text \<open>
  \<^verbatim>\<open>DEFER_DRAIN\<close>. When an expression is interrupted the handler returns at once, with the depth still
  raised.
\<close>

fun drain_count :: "runner \<Rightarrow> nat \<Rightarrow> ByteCodeDecoder \<Rightarrow> nat \<Rightarrow> (bool \<times> ByteCodeDecoder) vm_op" where
  "drain_count run f d 0 s = Ret (True, d) s"
| "drain_count run f d (Suc k) s =
     (if fr_DeferStack (frame_of f s) = []
      then Throw (runtime_error ''DEFER_DRAIN: not enough registered defers'') s
      else
        andThen (modify_vm (set_frame f (\<lambda>fr. fr\<lparr>fr_DeferStack := butlast (fr_DeferStack fr)\<rparr>))) (\<lambda>_.
        andThen (ExecuteDeferExpression run f d (last (fr_DeferStack (frame_of f s)))) (\<lambda>d1 t.
          if interrupted f t then Ret (False, d1) t else drain_count run f d1 k t)) s)"

definition drain_defers :: "runner \<Rightarrow> nat \<Rightarrow> u64 \<Rightarrow> ByteCodeDecoder \<Rightarrow> ByteCodeDecoder vm_op" where
  "drain_defers run f count d =
     andThen (modify_vm (set_drain_depth f Suc)) (\<lambda>_.
     andThen (catch_vm (drain_count run f d (unat count)) (\<lambda>e.
                andThen (modify_vm (set_drain_depth f (\<lambda>k. k - 1))) (\<lambda>_. throw_vm e))) (\<lambda>(drained, d1).
       if \<not> drained then return_vm d1
       else andThen (modify_vm (set_drain_depth f (\<lambda>k. k - 1))) (\<lambda>_.
              jump_to (of_nat (Index d)) d1)))"

fun ProcessHandler ::
  "image \<Rightarrow> nat \<Rightarrow> runner \<Rightarrow> nat \<Rightarrow> ByteCodeDecoder \<Rightarrow> HandlerOp \<Rightarrow> ByteCodeDecoder vm_op" where
  "ProcessHandler img n run f d ENTER_TRY =
     operand_vm AbsorbJump d (\<lambda>handlerOffset. resume (modify_vm (set_frame f (\<lambda>fr. fr\<lparr>
       fr_ExceptionHandlers := fr_ExceptionHandlers fr @ [(unat handlerOffset, length (fr_DeferStack fr))]\<rparr>))))"
| "ProcessHandler img n run f d LEAVE_TRY =
     resume (modify_vm (set_frame f (\<lambda>fr. fr\<lparr>fr_ExceptionHandlers := butlast (fr_ExceptionHandlers fr)\<rparr>))) d"
| "ProcessHandler img n run f d RETHROW =
     resume (andThen (get_vm (\<lambda>s. fr_CurrentException (frame_of f s))) (\<lambda>exception.
       if IsNullInstance exception then throw_vm (runtime_error ''Cannot rethrow outside of catch block'')
       else andThen (IncrementReference exception) (\<lambda>_. modify_vm (raise_in f exception)))) d"
| "ProcessHandler img n run f d END_CATCH =
     resume (andThen (get_vm (\<lambda>s. fr_CurrentException (frame_of f s))) (\<lambda>exception.
       if IsNullInstance exception then return_vm ()
       else andThen (CollectInstance img n exception) (\<lambda>_.
              modify_vm (set_frame f (\<lambda>fr. fr\<lparr>fr_CurrentException := null_instance\<rparr>))))) d"
| "ProcessHandler img n run f d LOAD_CURRENT_EXCEPTION =
     resume (andThen (get_vm (\<lambda>s. fr_CurrentException (frame_of f s))) (\<lambda>exception.
             andThen (PushStack img f exception) (\<lambda>_. return_vm ()))) d"
| "ProcessHandler img n run f d STORE_CURRENT_EXCEPTION =
     resume (andThen (PopStack img f) (\<lambda>exception.
             andThen (get_vm (\<lambda>s. fr_CurrentException (frame_of f s))) (\<lambda>old.
             andThen (if \<not> IsNullInstance old \<and> \<not> IsNullInstance exception \<and> \<not> same_instance old exception
                      then andThen (DecrementReference old) (\<lambda>_. CollectInstance img n old)
                      else return_vm ()) (\<lambda>_.
             andThen (modify_vm (set_frame f (\<lambda>fr. fr\<lparr>fr_CurrentException := exception\<rparr>))) (\<lambda>_.
               if IsNullInstance exception then return_vm () else IncrementReference exception))))) d"
| "ProcessHandler img n run f d DEFER =
     operand_vm AbsorbJump d (\<lambda>target. resume (modify_vm (set_frame f (\<lambda>fr. fr\<lparr>
       fr_DeferStack := fr_DeferStack fr @ [unat target]\<rparr>))))"
| "ProcessHandler img n run f d DEFER_BREAK =
     resume (andThen (get_vm (\<lambda>s. fr_DeferDrainDepth (frame_of f s))) (\<lambda>depth.
       if depth = 0 then throw_vm (runtime_error ''DEFER_BREAK reached outside of a deferred expression drain'')
       else return_vm ())) d"
| "ProcessHandler img n run f d DEFER_DRAIN = operand_vm AbsorbJump d (drain_defers run f)"
| "ProcessHandler img n run f d CREATERANGE =
     operand_vm AbsorbTypeSymbol d (\<lambda>operand. resume
       (array_operand img f operand ''CREATERANGE expects an array type'' (create_range img n f)))"

section \<open>The interpreter\<close>

fun ProcessOpCode :: "image \<Rightarrow> nat \<Rightarrow> runner \<Rightarrow> nat \<Rightarrow> ByteCodeDecoder \<Rightarrow> OpCode \<Rightarrow> ByteCodeDecoder vm_op" where
  "ProcessOpCode img n run f d (Ko c) = ProcessConstant img n f d c"
| "ProcessOpCode img n run f d (Co c) = ProcessControl img n f d c"
| "ProcessOpCode img n run f d (Mo c) = resume (ProcessMath img n run f c) d"
| "ProcessOpCode img n run f d (Oo c) = ProcessObject img n run f d c"
| "ProcessOpCode img n run f d (Ho c) = ProcessHandler img n run f d c"

definition ProcessCode :: "image \<Rightarrow> nat \<Rightarrow> runner \<Rightarrow> nat \<Rightarrow> ByteCodeDecoder \<Rightarrow> u16 \<Rightarrow> ByteCodeDecoder vm_op" where
  "ProcessCode img n run f d opCode =
     (case OpCode_of opCode of
        None \<Rightarrow> throw_vm (runtime_error ''CRITICAL SHIT! UNKNOWN OPCODE'')
      | Some op \<Rightarrow> ProcessOpCode img n run f d op)"

text \<open>
  One iteration of the loop of a method body, and of a deferred expression. Both end by calling the
  loop again through \<open>run\<close>.
\<close>

definition body_iteration :: "image \<Rightarrow> nat \<Rightarrow> runner \<Rightarrow> nat \<Rightarrow> ByteCodeDecoder \<Rightarrow> ByteCodeDecoder vm_op" where
  "body_iteration img n run f d s =
     (if vm_AbortFlag s then Throw (runtime_error ''Execution aborted by host.'') s
      else if fr_InterruptionReason (frame_of f s) = ExceptionRaised then
        andThen (HandleExceptionInFrame img n run f d) (\<lambda>(handled, d1).
          if handled then run (BodyLoop f d1) else return_vm d1) s
      else if IsEOF d then
        Ret d (set_frame f (\<lambda>fr. if fr_InterruptionReason fr \<noteq> ValueReturned
                                then fr\<lparr>fr_InterruptionReason := EndOfInstructions\<rparr> else fr) s)
      else
        let (opCode, d1) = AbsorbOpCode d in
        andThen (ProcessCode img n run f d1 opCode) (\<lambda>d2. run (BodyLoop f d2)) s)"

definition defer_iteration :: "image \<Rightarrow> nat \<Rightarrow> runner \<Rightarrow> nat \<Rightarrow> ByteCodeDecoder \<Rightarrow> ByteCodeDecoder vm_op" where
  "defer_iteration img n run f d s =
     (if IsEOF d then Throw (runtime_error ''Deferred expression ran past end of bytecode'') s
      else
        let (opCode, d1) = AbsorbOpCode d in
        andThen (ProcessCode img n run f d1 opCode) (\<lambda>d2 t.
          if interrupted f t then Ret d2 t
          else if opCode = OpCode_value (Ho DEFER_BREAK) then Ret d2 t
          else run (DeferLoop f d2) t) s)"

primrec run_code :: "image \<Rightarrow> nat \<Rightarrow> code_task \<Rightarrow> ByteCodeDecoder vm_op" where
  "run_code img 0 = (\<lambda>t s. OutOfFuel)"
| "run_code img (Suc n) = (\<lambda>t.
     case t of
       BodyLoop f d \<Rightarrow> body_iteration img n (run_code img n) f d
     | DeferLoop f d \<Rightarrow> defer_iteration img n (run_code img n) f d)"

text \<open>
  \<^verbatim>\<open>Run\<close> from the entry point to the end of its frame. The texts of an unhandled exception that the
  source keeps beside it are not part of the machine's state here.
\<close>

definition Run :: "image \<Rightarrow> nat \<Rightarrow> ptr \<Rightarrow> unit vm_op" where
  "Run img n entryPoint =
     (if entryPoint = nullptr then throw_vm (runtime_error ''entry point was null'')
      else
        andThen (get_vm vm_UnhandledException) (\<lambda>old.
        andThen (if IsNullInstance old then return_vm () else CollectInstance img n old) (\<lambda>_.
        andThen (modify_vm (\<lambda>s. s\<lparr>vm_UnhandledException := null_instance, vm_AbortFlag := False\<rparr>)) (\<lambda>_.
        andThen (PushFrame img entryPoint) (\<lambda>f.
        andThen (CopyArgumentPayloads img f) (\<lambda>_.
        andThen (InvokeMethodInternal img n (run_code img n)
                   (CreateRuntimeException img n (run_code img n) n) entryPoint f) (\<lambda>_.
        andThen (HaltFireAndForgetTasks img n) (\<lambda>_.
        andThen (get_vm (frame_of f)) (\<lambda>frame.
        andThen (if fr_InterruptionReason frame = ExceptionRaised \<and> \<not> IsNullInstance (fr_CurrentException frame)
                 then andThen (IncrementReference (fr_CurrentException frame)) (\<lambda>_.
                        modify_vm (\<lambda>s. s\<lparr>vm_UnhandledException := fr_CurrentException frame\<rparr>))
                 else return_vm ()) (\<lambda>_.
          PopFrame))))))))))"

text \<open>
  \<^verbatim>\<open>RunInteractive\<close>: the rest of the current frame's code from \<open>pointer\<close>. A \<^verbatim>\<open>POP\<close> at the very end is left
  out, so that the value of the last expression can be taken from the stack. The rounds are bounded
  by \<open>k\<close>.
\<close>

fun interactive_loop :: "image \<Rightarrow> nat \<Rightarrow> nat \<Rightarrow> nat \<Rightarrow> ByteCodeDecoder \<Rightarrow> ByteCodeDecoder vm_op" where
  "interactive_loop img n 0 f d s = OutOfFuel"
| "interactive_loop img n (Suc k) f d s =
     (if IsEOF d then Ret d s
      else if vm_AbortFlag s then Throw (runtime_error ''Execution aborted by host.'') s
      else
        let (opCode, d1) = AbsorbOpCode d in
        if opCode = OpCode_value (Ko POP) \<and> IsEOF d1 then interactive_loop img n k f d1 s
        else andThen (ProcessCode img n (run_code img n) f d1 opCode) (interactive_loop img n k f) s)"

definition RunInteractive :: "image \<Rightarrow> nat \<Rightarrow> nat \<Rightarrow> (nat \<times> ObjectInstance) vm_op" where
  "RunInteractive img n pointer =
     andThen (get_vm CurrentFrame) (\<lambda>f.
     andThen (get_vm (\<lambda>s. me_ExecutableByteCode (img_methods img (fr_Method (frame_of f s))))) (\<lambda>code.
     andThen (jump_to (of_nat pointer) (ByteCodeDecoder_of code)) (\<lambda>d.
     andThen (interactive_loop img n n f d) (\<lambda>d1.
     andThen (get_vm (\<lambda>s. length (fr_EvalOffsets (frame_of f s)))) (\<lambda>count.
       if count > 0 then andThen (PopStack img f) (\<lambda>retReg. return_vm (Index d1, retReg))
       else return_vm (Index d1, null_instance))))))"

definition TerminateCallStack :: "unit vm_op" where
  "TerminateCallStack s = forEach (\<lambda>_. PopFrame) (vm_CallStack s) s"

end
