(* ===== verification/Boxes.thy ===== *)
theory Boxes
  imports PrimitiveValues Instructions
begin

text \<open>
  The life of a boxed value. The operators put their result into a new object of the collector; the
  machine copies it onto the evaluation stack and releases the object. Nothing of it is left: the
  live blocks are the same as before, and memory differs only where no block is live.
\<close>

section \<open>Memory in use\<close>

definition live :: "vm \<Rightarrow> nat \<Rightarrow> bool" where
  "live s x \<longleftrightarrow> (\<exists>(b, k) \<in> set (vm_blocks s). b \<le> x \<and> x < b + k)"

text \<open>
  \<open>same_live s t\<close>: the machine \<open>t\<close> is \<open>s\<close> but for bytes in no live block and the collector's set of
  known payloads.
\<close>

definition same_live :: "vm \<Rightarrow> vm \<Rightarrow> bool" where
  "same_live s t \<longleftrightarrow>
     (\<exists>m H. t = s\<lparr>vm_memory := m, vm_Heap := H\<rparr> \<and> (\<forall>x. live s x \<longrightarrow> m x = vm_memory s x))"

lemma same_live_refl [simp]: "same_live s s"
  by (auto simp: same_live_def intro!: exI [of _ "vm_memory s"] exI [of _ "vm_Heap s"])

lemma same_live_trans: "same_live s t \<Longrightarrow> same_live t u \<Longrightarrow> same_live s u"
  by (auto simp: same_live_def live_def) blast

lemma same_liveD:
  assumes "same_live s t"
  shows "vm_blocks t = vm_blocks s" "vm_frames t = vm_frames s" "vm_CallStack t = vm_CallStack s"
    "vm_AbortFlag t = vm_AbortFlag s" "frame_of f t = frame_of f s" "live t = live s"
    "live s x \<Longrightarrow> vm_memory t x = vm_memory s x"
    "vm_staticFields t = vm_staticFields s" "vm_internedStrings t = vm_internedStrings s"
    "vm_PendingTypeArguments t = vm_PendingTypeArguments s" "vm_UnhandledException t = vm_UnhandledException s"
    "vm_rootedTasks t = vm_rootedTasks s" "vm_asyncTable t = vm_asyncTable s"
proof -
  obtain m H where t: "t = s\<lparr>vm_memory := m, vm_Heap := H\<rparr>"
    and m: "\<And>x. live s x \<Longrightarrow> m x = vm_memory s x"
    using assms by (auto simp: same_live_def)
  show "live s x \<Longrightarrow> vm_memory t x = vm_memory s x" by (simp add: t m)
qed (use assms in \<open>auto simp: same_live_def frame_of_def live_def fun_eq_iff\<close>)

text \<open>A block that the allocator hands out holds no live byte.\<close>

lemma allocator_okD:
  assumes "allocator_ok img" "img_alloc img blocks n \<noteq> 0"
  shows "img_alloc img blocks n + n < 2 ^ 64"
    and "(b, k) \<in> set blocks \<Longrightarrow> b \<noteq> img_alloc img blocks n"
    and "(b, k) \<in> set blocks \<Longrightarrow> apart (img_alloc img blocks n) n b k"
proof -
  from assms have ok: "img_alloc img blocks n + n < 2 ^ 64"
    "list_all (\<lambda>(b, k). b \<noteq> img_alloc img blocks n \<and> apart (img_alloc img blocks n) n b k) blocks"
    unfolding allocator_ok_def Let_def by blast+
  show "img_alloc img blocks n + n < 2 ^ 64" by (rule ok(1))
  show "(b, k) \<in> set blocks \<Longrightarrow> b \<noteq> img_alloc img blocks n"
    and "(b, k) \<in> set blocks \<Longrightarrow> apart (img_alloc img blocks n) n b k"
    using ok(2) unfolding list_all_iff by blast+
qed

lemma fresh_not_live:
  assumes "allocator_ok img" "a = img_alloc img (vm_blocks s) n" "a \<noteq> 0" "live s x"
  shows "\<not> (a \<le> x \<and> x < a + n)"
proof -
  obtain b k where b: "(b, k) \<in> set (vm_blocks s)" "b \<le> x" "x < b + k"
    using assms(4) by (auto simp: live_def)
  have "apart a n b k"
    using allocator_okD(3) [OF assms(1) _ b(1)] assms(2,3) by simp
  with b show ?thesis by (auto simp: apart_def)
qed

lemma fresh_address:
  assumes "allocator_ok img" "a = img_alloc img (vm_blocks s) n" "a \<noteq> 0"
  shows "filter (\<lambda>b. fst b \<noteq> a) (vm_blocks s) = vm_blocks s"
  using allocator_okD(2) [OF assms(1), of "vm_blocks s" n] assms(2,3) by (fastforce intro: filter_True)

section \<open>Allocation\<close>

definition box_memory :: "nat \<Rightarrow> ptr \<Rightarrow> nat \<Rightarrow> memory \<Rightarrow> memory" where
  "box_memory a shape k m = write_bytes (write_bytes m a (replicate (32 + k) 0)) a (HeaderBytes shape)"

lemma length_HeaderBytes [simp]: "length (HeaderBytes shape) = 32"
  by (simp add: HeaderBytes_def)

lemma AllocateInstance_eq:
  assumes "shape \<noteq> nullptr" "k = shp_Size (img_shapes img shape)"
    and "a = img_alloc img (vm_blocks s) (32 + k)" "a \<noteq> 0"
  shows "AllocateInstance img shape s =
    Ret \<lparr>m_shape = shape, m_rawMemoryPtr = a + 32\<rparr>
      (s\<lparr>vm_memory := box_memory a shape k (vm_memory s), vm_blocks := (a, 32 + k) # vm_blocks s,
         vm_Heap := insert (a + 32) (vm_Heap s)\<rparr>)"
  using assms
  by (simp add: AllocateInstance_def AllocateBlock_def AllocateZeroedBytes_def andThen_def sizeof_GcHeader_def
      Let_def set_memory_def box_memory_def)

lemma box_memory_at:
  "box_memory a shape k m x =
     (if a \<le> x \<and> x < a + 32 then HeaderBytes shape ! (x - a)
      else if a \<le> x \<and> x < a + 32 + k then 0 else m x)"
  by (auto simp: box_memory_def write_bytes_at)

text \<open>A header at \<open>a\<close>: counter \<open>c\<close>, not terminated.\<close>

definition header_at :: "memory \<Rightarrow> nat \<Rightarrow> ptr \<Rightarrow> u64 \<Rightarrow> bool" where
  "header_at m a shape c \<longleftrightarrow>
     read_word m a = GcMagic \<and> hdr_Shape m a = shape \<and> hdr_ReferencesCounter m a = c \<and> \<not> hdr_Terminated m a"

lemma header_at_cong:
  assumes "\<And>x. a \<le> x \<Longrightarrow> x < a + 32 \<Longrightarrow> m x = m' x" "header_at m a shape c"
  shows "header_at m' a shape c"
proof -
  have "read_bytes m b 8 = read_bytes m' b 8" if "a \<le> b" "b + 8 \<le> a + 32" for b
    using assms(1) that by (intro read_bytes_cong) simp
  with assms show ?thesis
    by (simp add: header_at_def hdr_Shape_def hdr_ReferencesCounter_def hdr_Terminated_def read_word_def)
qed

lemma read_header_word:
  assumes "\<And>x. a \<le> x \<Longrightarrow> x < a + 32 \<Longrightarrow> m x = HeaderBytes shape ! (x - a)" "i + 8 \<le> 32"
  shows "read_bytes m (a + i) 8 = take 8 (drop i (HeaderBytes shape))"
  using assms by (intro nth_equalityI) (auto simp: read_bytes_def)

lemma box_header: "header_at (box_memory a shape k m) a shape 0"
proof -
  let ?m = "box_memory a shape k m"
  have at: "?m x = HeaderBytes shape ! (x - a)" if "a \<le> x" "x < a + 32" for x
    using that by (simp add: box_memory_at)
  have "read_bytes ?m a 8 = word_bytes GcMagic" "read_bytes ?m (a + 8) 8 = word_bytes shape"
    "read_bytes ?m (a + 16) 8 = word_bytes (0 :: u64)"
    using read_header_word [of a ?m shape 0] read_header_word [of a ?m shape 8] read_header_word [of a ?m shape 16] at
    by (simp_all add: HeaderBytes_def)
  moreover have "?m (a + 24) = 0"
    using at [of "a + 24"] by (simp add: HeaderBytes_def nth_append)
  ultimately show ?thesis
    by (simp add: header_at_def hdr_Shape_def hdr_ReferencesCounter_def hdr_Terminated_def read_word_bytes)
qed

section \<open>Boxing a value\<close>

lemma prim_bytes_nonempty [simp]: "prim_bytes p \<noteq> []" "0 < length (prim_bytes p)"
  by (cases p; auto simp flip: length_0_conv)+

lemma WriteMemory_prim:
  assumes "m_shape v = prim_shape img p" "primitives_ok img"
  shows "WriteMemory img v 0 (Some (prim_bytes p)) s =
    Ret () (set_memory (\<lambda>m. write_bytes m (m_rawMemoryPtr v) (prim_bytes p)) s)"
  using assms
  by (simp add: WriteMemory_def instanceSize_def getInfo_def andThen_def prim_shape_facts prim_type_facts
      length_prim_bytes)

lemma write_value_prim:
  assumes "m_shape v = prim_shape img p" "primitives_ok img" "accepts (prim_type p (img_Primitives img))"
  shows "write_value img accepts msg v (prim_bytes p) s =
    Ret () (set_memory (\<lambda>m. write_bytes m (m_rawMemoryPtr v) (prim_bytes p)) s)"
  using assms
  by (simp add: write_value_def getInfo_def andThen_def prim_shape_facts length_prim_bytes WriteMemory_prim)

definition box_state :: "image \<Rightarrow> prim \<Rightarrow> nat \<Rightarrow> vm \<Rightarrow> vm" where
  "box_state img p a s =
     s\<lparr>vm_memory := write_bytes (box_memory a (prim_shape img p) (length (prim_bytes p)) (vm_memory s)) (a + 32) (prim_bytes p),
       vm_blocks := (a, 32 + length (prim_bytes p)) # vm_blocks s, vm_Heap := insert (a + 32) (vm_Heap s)\<rparr>"

lemma box_write:
  assumes ok: "primitives_ok img" and a: "a = img_alloc img (vm_blocks s) (32 + length (prim_bytes p))" "a \<noteq> 0"
    and w: "\<And>v t. m_shape v = prim_shape img p \<Longrightarrow>
      w v t = Ret () (set_memory (\<lambda>m. write_bytes m (m_rawMemoryPtr v) (prim_bytes p)) t)"
  shows "andThen (AllocateInstance img (prim_shape img p)) (\<lambda>v. andThen (w v) (\<lambda>_. return_vm v)) s =
    Ret \<lparr>m_shape = prim_shape img p, m_rawMemoryPtr = a + 32\<rparr> (box_state img p a s)"
  using AllocateInstance_eq [OF prim_shape_facts(1) [OF ok] length_prim_bytes [OF ok, symmetric] a]
  by (simp add: andThen_def w box_state_def set_memory_def)

lemma box_eq:
  assumes ok: "primitives_ok img" and a: "a = img_alloc img (vm_blocks s) (32 + length (prim_bytes p))" "a \<noteq> 0"
  shows "box img p s = Ret \<lparr>m_shape = prim_shape img p, m_rawMemoryPtr = a + 32\<rparr> (box_state img p a s)"
proof -
  note bw = box_write [OF ok a]
  note wv = write_value_prim [OF _ ok]
  show ?thesis
  proof (cases p)
    case (VInt i)
    with bw [of "\<lambda>v. WriteInteger img v i"] wv [of _ p] show ?thesis
      by (simp add: FromInteger_def WriteInteger_def prim_shape_def is_primitive_self)
  next
    case (VBool b)
    with bw [of "\<lambda>v. WriteBoolean img v b"] wv [of _ p] show ?thesis
      by (simp add: FromBoolean_def WriteBoolean_def prim_shape_def is_primitive_self)
  next
    case (VChar c)
    with bw [of "\<lambda>v. WriteCharacter img v c"] wv [of _ p] show ?thesis
      by (simp add: FromChar_def WriteCharacter_def prim_shape_def is_primitive_self)
  next
    case (VByte b)
    with bw [of "\<lambda>v. WriteByte img v b"] wv [of _ p] show ?thesis
      by (simp add: FromByte_def WriteByte_def prim_shape_def is_primitive_self)
  next
    case (VNint i)
    have "ty_LayoutingState (img_types img (pr_NativeInteger (img_Primitives img))) = Visited"
      by (simp add: primitive_types [OF ok] struct_primitive_def make_primitive_def)
    with VNint bw [of "\<lambda>v. WriteMemory img v 0 (Some (prim_bytes p))"] WriteMemory_prim [OF _ ok, of _ p]
      length_prim_bytes [OF ok, of p] prim_type_facts(3) [OF ok, of p]
    show ?thesis
      by (simp add: FromNint_def prim_shape_def primitive_shape_def Let_def)
  next
    case (VDouble d)
    with bw [of "\<lambda>v. WriteDouble img v d"] wv [of _ p] show ?thesis
      by (simp add: FromDouble_def WriteDouble_def prim_shape_def is_primitive_self)
  qed
qed

lemma box_no_memory:
  assumes ok: "primitives_ok img" and a: "img_alloc img (vm_blocks s) (32 + length (prim_bytes p)) = 0"
  shows "box img p s = Throw (runtime_error ''cannot allocate memory for new instance'') s"
proof -
  have "AllocateInstance img (prim_shape img p) s = Throw (runtime_error ''cannot allocate memory for new instance'') s"
    using a by (simp add: AllocateInstance_def AllocateBlock_def AllocateZeroedBytes_def prim_shape_facts [OF ok]
        andThen_def sizeof_GcHeader_def length_prim_bytes [OF ok])
  moreover have "ty_LayoutingState (img_types img (pr_NativeInteger (img_Primitives img))) = Visited"
    by (simp add: primitive_types [OF ok] struct_primitive_def make_primitive_def)
  ultimately show ?thesis
    using prim_type_facts(3) [OF ok, of p]
    by (cases p) (simp_all add: FromInteger_def FromBoolean_def FromChar_def FromByte_def FromNint_def FromDouble_def
        prim_shape_def primitive_shape_def andThen_def Let_def)
qed

section \<open>Releasing a box\<close>

lemma getGcHeader_at: "header_at m a shape c \<Longrightarrow> getGcHeader m \<lparr>m_shape = sh, m_rawMemoryPtr = a + 32\<rparr> = Some a"
  by (simp add: getGcHeader_def header_at_def sizeof_GcHeader_def)

lemma magic_after_flag:
  "read_word m a = GcMagic \<Longrightarrow> read_word (write_bytes m (a + 24) [1]) a = GcMagic"
  by (simp add: read_word_apart apart_def)

lemma DestroyInstance_box:
  assumes ok: "primitives_ok img" and hd: "header_at (vm_memory t) a (prim_shape img p) 0"
    and rec: "vm_asyncTable t (a + 32) = None"
  shows "DestroyInstance img (Suc n) \<lparr>m_shape = prim_shape img p, m_rawMemoryPtr = a + 32\<rparr> t =
    Ret () (t\<lparr>vm_memory := write_bytes (vm_memory t) (a + 24) [1], vm_Heap := vm_Heap t - {a + 32},
              vm_blocks := filter (\<lambda>b. fst b \<noteq> a) (vm_blocks t)\<rparr>)"
    (is "DestroyInstance img (Suc n) ?v t = _")
proof -
  have h: "getGcHeader (vm_memory t) ?v = Some a" by (rule getGcHeader_at [OF hd])
  have nn: "\<not> IsNullInstance ?v" by (simp add: IsNullInstance_def)
  have dec: "DecrementReference ?v t = Ret () t" "getReferencesCounter (vm_memory t) ?v = 0"
    "\<not> hdr_Terminated (vm_memory t) a"
    using hd h by (simp_all add: DecrementReference_def getReferencesCounter_def header_at_def)
  have h2: "getGcHeader (write_bytes (vm_memory t) (a + 24) [1]) ?v = Some a"
    using hd by (simp add: getGcHeader_def header_at_def sizeof_GcHeader_def magic_after_flag)
  have fields: "release_fields img destroy ?v u = Ret () u" for destroy u
    by (simp add: release_fields_def prim_shape_facts [OF ok])
  have elements: "release_elements img destroy ?v u = Ret () u" for destroy u
    by (simp add: release_elements_def andThen_def getInfo_def prim_shape_facts [OF ok] prim_type_facts [OF ok])
  have delete: "DeleteInstanceMemory img ?v u = FreeBytes a u" if "getGcHeader (vm_memory u) ?v = Some a" for u
    using that nn prim_type_iff(7) [OF ok, of p]
    by (simp add: DeleteInstanceMemory_def andThen_def getInfo_def prim_shape_facts [OF ok] is_primitive_def)
  show ?thesis
    using nn h dec h2 rec
    by (simp add: DestroyInstance_def erase_record_def DestroyInstance_with_def andThen_def set_memory_def fields elements delete
        prim_shape_facts [OF ok] FreeBytes_def)
qed

section \<open>A result on the stack\<close>

definition prim_entry :: "image \<Rightarrow> prim \<Rightarrow> entry" where
  "prim_entry img p = Inline (prim_shape img p) (prim_bytes p)"

lemma prim_entry_stride [simp]: "entry_stride (prim_entry img p) = 16"
  by (cases p) (simp_all add: prim_entry_def Align_def)

lemma prim_entry_ok: "primitives_ok img \<Longrightarrow> entry_ok img (prim_entry img p)"
  by (simp add: prim_entry_def prim_shape_facts length_prim_bytes shape_IsReferenceType_def IsReferenceType_def
      prim_type_facts)

lemma length_prim_le: "length (prim_bytes p) \<le> 8"
  by (cases p) simp_all

text \<open>The state after a push of a value.\<close>

definition push_prim :: "image \<Rightarrow> nat \<Rightarrow> prim \<Rightarrow> vm \<Rightarrow> vm" where
  "push_prim img f p s =
     set_memory (entry_write (entry_top f s) (prim_entry img p)) (set_frame f (push_cursor 16) s)"

definition room_above :: "nat \<Rightarrow> vm \<Rightarrow> bool" where
  "room_above f s \<longleftrightarrow> (\<forall>x. entry_top f s \<le> x \<and> x < entry_top f s + 16 \<longrightarrow> live s x)"

lemma entry_write_prim:
  "entry_write b (prim_entry img p) m =
     write_bytes (write_word m b (prim_shape img p)) (b + 8) (prim_bytes p)"
  by (simp add: prim_entry_def)

lemma entry_write_outside:
  "\<not> (b \<le> x \<and> x < b + 16) \<Longrightarrow> entry_write b (prim_entry img p) m x = m x"
  using entry_write_below [of x b] entry_write_above [of b "prim_entry img p" x] by (cases "x < b") auto

lemma PushInline_prim:
  assumes ok: "primitives_ok img"
    and src: "src (write_word (vm_memory s) (entry_top f s) (prim_shape img p)) = Some (prim_bytes p)"
  shows "PushInline img f (prim_shape img p) src s =
    Ret \<lparr>m_shape = prim_shape img p, m_rawMemoryPtr = entry_top f s + 8\<rparr> (push_prim img f p s)"
proof -
  have "8 + Align (shp_Size (img_shapes img (prim_shape img p))) = 16"
    using prim_entry_stride [of img p] by (simp add: prim_entry_def length_prim_bytes [OF ok])
  then show ?thesis
    using PushInline_flat [where s = s and f = f and src = src, OF prim_shape_facts(1,4) [OF ok] src]
    by (simp add: push_prim_def entry_write_prim set_memory_def)
qed

lemma push_box:
  assumes ok: "primitives_ok img" and al: "allocator_ok img"
    and a: "img_alloc img (vm_blocks s) (32 + length (prim_bytes p)) \<noteq> 0" and room: "room_above f s"
    and rec: "vm_asyncTable s (img_alloc img (vm_blocks s) (32 + length (prim_bytes p)) + 32) = None"
  shows "\<exists>t. andThen (box img p) (pushPrimitiveResult img (Suc n) f) s = Ret () t \<and> same_live (push_prim img f p s) t"
proof -
  let ?a = "img_alloc img (vm_blocks s) (32 + length (prim_bytes p))"
  let ?v = "\<lparr>m_shape = prim_shape img p, m_rawMemoryPtr = ?a + 32\<rparr>"
  let ?s1 = "box_state img p ?a s" and ?top = "entry_top f s"
  have fresh: "\<not> (?a \<le> x \<and> x < ?a + (32 + length (prim_bytes p)))" if "live s x" for x
    by (rule fresh_not_live [OF al refl a that])
  have top: "entry_top f ?s1 = ?top" by (simp add: box_state_def frame_of_def)
  have away: "entry_write ?top (prim_entry img p) m x = m x" "write_word m ?top (prim_shape img p) x = m x"
    if "?a \<le> x" "x < ?a + (32 + length (prim_bytes p))" for x m
  proof -
    have out: "\<not> (?top \<le> x \<and> x < ?top + 16)" using that fresh room by (auto simp: room_above_def)
    show "entry_write ?top (prim_entry img p) m x = m x" by (rule entry_write_outside [OF out])
    show "write_word m ?top (prim_shape img p) x = m x" using out by (auto simp: write_word_def write_bytes_at)
  qed
  have "read_bytes (write_word (vm_memory ?s1) ?top (prim_shape img p)) (?a + 32) (length (prim_bytes p))
      = read_bytes (vm_memory ?s1) (?a + 32) (length (prim_bytes p))"
    by (intro read_bytes_cong away(2)) auto
  then have src: "view_source img ?v (write_word (vm_memory ?s1) (entry_top f ?s1) (prim_shape img p)) = Some (prim_bytes p)"
    by (simp add: top view_source_def length_prim_bytes [OF ok]) (simp add: box_state_def read_write_same)
  have push: "PushInline img f (prim_shape img p) (view_source img ?v) ?s1
      = Ret \<lparr>m_shape = prim_shape img p, m_rawMemoryPtr = entry_top f ?s1 + 8\<rparr> (push_prim img f p ?s1)"
    using ok src by (rule PushInline_prim)
  have "vm_memory (push_prim img f p ?s1) x = box_memory ?a (prim_shape img p) (length (prim_bytes p)) (vm_memory s) x"
    if "?a \<le> x" "x < ?a + 32" for x
    using that top by (simp add: push_prim_def away) (simp add: box_state_def write_bytes_at)
  then have hd: "header_at (vm_memory (push_prim img f p ?s1)) ?a (prim_shape img p) 0"
    by (intro header_at_cong [OF _ box_header]) simp
  let ?t = "(push_prim img f p ?s1)\<lparr>vm_memory := write_bytes (vm_memory (push_prim img f p ?s1)) (?a + 24) [1],
      vm_Heap := vm_Heap (push_prim img f p ?s1) - {?a + 32},
      vm_blocks := filter (\<lambda>b. fst b \<noteq> ?a) (vm_blocks (push_prim img f p ?s1))\<rparr>"
  have "vm_asyncTable (push_prim img f p ?s1) (?a + 32) = None"
    using rec by (simp add: push_prim_def box_state_def set_memory_def set_frame_def)
  from push DestroyInstance_box [OF ok hd this, of n]
  have run: "andThen (box img p) (pushPrimitiveResult img (Suc n) f) s = Ret () ?t"
    using shows_primD
    by (simp add: andThen_def box_eq [OF ok refl a] pushPrimitiveResult_def IsNullInstance_def
        prim_shape_facts [OF ok] shape_IsReferenceType_def IsReferenceType_def prim_type_facts [OF ok])
  have mem: "vm_memory ?t x = vm_memory (push_prim img f p s) x" if "live s x" for x
  proof -
    have "vm_memory ?s1 x = vm_memory s x"
      using fresh [OF that] by (auto simp: box_state_def write_bytes_at box_memory_at)
    then have "vm_memory (push_prim img f p ?s1) x = vm_memory (push_prim img f p s) x"
      using top by (simp add: push_prim_def entry_write_prim write_bytes_at write_word_def)
    then show ?thesis using fresh [OF that] by (auto simp: write_bytes_at)
  qed
  have "same_live (push_prim img f p s) ?t"
    unfolding same_live_def
    by (rule exI [of _ "vm_memory ?t"], rule exI [of _ "vm_Heap ?t"])
       (use mem top fresh_address [OF al refl a] in
         \<open>auto simp: push_prim_def box_state_def set_memory_def set_frame_def live_def frame_of_def\<close>)
  with run show ?thesis by blast
qed

end
