(* ===== verification/PrimitiveFrames.thy ===== *)
theory PrimitiveFrames
  imports Boxes
begin

text \<open>
  A frame that holds values of primitive types: its evaluation stack is a list of values and every
  local slot holds a value or is still unset. \<open>prim_rep\<close> relates a machine to these lists through the
  bytes of the frame; the lemmas show what pushes, pops, loads and stores of \<^verbatim>\<open>CallStackFrame\<close> do
  to them.
\<close>

section \<open>The representation\<close>

definition slot_at :: "CallStackFrame \<Rightarrow> nat \<Rightarrow> nat" where
  "slot_at fr i = fr_Arena fr + snd (fr_LocalSlots fr ! i)"

text \<open>
  The regions of the frame: an evaluation region for \<open>depth\<close> values, local slots below it that do not
  overlap, all in live memory.
\<close>

definition live_range :: "vm \<Rightarrow> nat \<Rightarrow> nat \<Rightarrow> bool" where
  "live_range s a n \<longleftrightarrow> (\<forall>x. a \<le> x \<and> x < a + n \<longrightarrow> live s x)"

definition frame_geometry :: "nat \<Rightarrow> nat \<Rightarrow> vm \<Rightarrow> bool" where
  "frame_geometry depth f s \<longleftrightarrow>
     (let fr = frame_of f s; n = length (fr_LocalSlots fr) in
      fr_Arena fr \<le> fr_EvalEntries fr \<and> 16 * depth \<le> fr_EvalCapacityBytes fr \<and> live_range s (fr_EvalEntries fr) (fr_EvalCapacityBytes fr) \<and>
      (\<forall>i < n. slot_at fr i + 16 \<le> fr_EvalEntries fr \<and> live_range s (slot_at fr i) 16 \<and>
         (\<forall>j < n. i \<noteq> j \<longrightarrow> apart (slot_at fr i) 16 (slot_at fr j) 16)))"

definition value_shape :: "image \<Rightarrow> ptr \<Rightarrow> bool" where
  "value_shape img shape \<longleftrightarrow> shape = nullptr \<or> \<not> shape_IsReferenceType img shape \<and> flat_shape img shape"

definition slot_holds :: "image \<Rightarrow> memory \<Rightarrow> nat \<Rightarrow> prim option \<Rightarrow> bool" where
  "slot_holds img m a content =
     (case content of None \<Rightarrow> EntryShape m a = nullptr | Some p \<Rightarrow> entry_at m a (prim_entry img p))"

definition locals_rep :: "image \<Rightarrow> nat \<Rightarrow> prim option list \<Rightarrow> vm \<Rightarrow> bool" where
  "locals_rep img f locs s \<longleftrightarrow>
     (let fr = frame_of f s in
      length locs = length (fr_LocalSlots fr) \<and>
      (\<forall>i<length locs. value_shape img (fst (fr_LocalSlots fr ! i)) \<and>
         slot_holds img (vm_memory s) (slot_at fr i) (locs ! i)))"

text \<open>The allocator can serve a box for a value of any primitive type.\<close>

definition serves_boxes :: "image \<Rightarrow> vm \<Rightarrow> bool" where
  "serves_boxes img s \<longleftrightarrow> (\<forall>n\<in>set [33, 34, 40]. img_alloc img (vm_blocks s) n \<noteq> 0)"

text \<open>
  Task records exist for live objects only.
\<close>

definition records_live :: "vm \<Rightarrow> bool" where
  "records_live s \<longleftrightarrow> (\<forall>x. vm_asyncTable s x \<noteq> None \<longrightarrow> live s x)"

text \<open>
  Only the frame \<open>f\<close> differs between the machines \<open>s0\<close> and \<open>s\<close>, in its evaluation stack, the shapes of
  its slots and the bytes of its arena; other live bytes are the same.
\<close>

definition fixed_members :: "CallStackFrame \<Rightarrow> CallStackFrame" where
  "fixed_members fr = fr\<lparr>fr_LocalSlots := [], fr_EvalCursorBytes := 0, fr_EvalOffsets := []\<rparr>"

definition in_arena :: "CallStackFrame \<Rightarrow> nat \<Rightarrow> bool" where
  "in_arena fr x \<longleftrightarrow> fr_Arena fr \<le> x \<and> x < fr_EvalEntries fr + fr_EvalCapacityBytes fr"

definition only_frame :: "nat \<Rightarrow> vm \<Rightarrow> vm \<Rightarrow> bool" where
  "only_frame f s0 s \<longleftrightarrow>
     (\<exists>m H fr. s = s0\<lparr>vm_memory := m, vm_Heap := H, vm_frames := (vm_frames s0)(f := fr)\<rparr> \<and>
        fixed_members fr = fixed_members (frame_of f s0) \<and>
        (\<forall>x. live s0 x \<and> \<not> in_arena (frame_of f s0) x \<longrightarrow> m x = vm_memory s0 x))"

definition prim_rep :: "image \<Rightarrow> nat \<Rightarrow> vm \<Rightarrow> nat \<Rightarrow> prim list \<Rightarrow> prim option list \<Rightarrow> vm \<Rightarrow> bool" where
  "prim_rep img depth s0 f stk locs s \<longleftrightarrow>
     frame_geometry depth f s \<and> stack_rep img f (map (prim_entry img) stk) s \<and> locals_rep img f locs s \<and>
     serves_boxes img s \<and> \<not> vm_AbortFlag s \<and> fr_InterruptionReason (frame_of f s) = NoReason \<and>
     length stk \<le> depth \<and> records_live s0 \<and> only_frame f s0 s"

lemma serves_prim: "serves_boxes img s \<Longrightarrow> img_alloc img (vm_blocks s) (32 + length (prim_bytes p)) \<noteq> 0"
  by (cases p) (simp_all add: serves_boxes_def)

lemma stack_bytes_prims [simp]: "stack_bytes (map (prim_entry img) stk) = 16 * length stk"
  by (induction stk) simp_all

lemma slot_holds_cong:
  assumes "\<And>x. a \<le> x \<Longrightarrow> x < a + 16 \<Longrightarrow> m x = m' x"
  shows "slot_holds img m a content \<longleftrightarrow> slot_holds img m' a content"
proof (cases content)
  case None
  then show ?thesis using assms EntryShape_cong [of a m m'] by (simp add: slot_holds_def)
next
  case (Some p)
  then show ?thesis using assms entry_at_cong [of a "prim_entry img p" m m'] by (simp add: slot_holds_def)
qed

section \<open>Bytes out of use do not matter\<close>

lemma fixed_members_simps:
  assumes "fixed_members fr = fixed_members fr'"
  shows "fr_Arena fr = fr_Arena fr'" "fr_EvalEntries fr = fr_EvalEntries fr'"
    "fr_EvalCapacityBytes fr = fr_EvalCapacityBytes fr'" "fr_PendingTaskCount fr = fr_PendingTaskCount fr'"
    "fr_PreviousFrame fr = fr_PreviousFrame fr'" "fr_ReturnSlotShape fr = fr_ReturnSlotShape fr'"
    "fr_Method fr = fr_Method fr'" "fr_TypeArguments fr = fr_TypeArguments fr'" "fr_ReturnSlot fr = fr_ReturnSlot fr'"
    "fr_CurrentException fr = fr_CurrentException fr'" "fr_UseCount fr = fr_UseCount fr'"
  using assms [THEN arg_cong, of fr_Arena] assms [THEN arg_cong, of fr_EvalEntries]
    assms [THEN arg_cong, of fr_EvalCapacityBytes] assms [THEN arg_cong, of fr_PendingTaskCount]
    assms [THEN arg_cong, of fr_PreviousFrame] assms [THEN arg_cong, of fr_ReturnSlotShape]
    assms [THEN arg_cong, of fr_Method] assms [THEN arg_cong, of fr_TypeArguments]
    assms [THEN arg_cong, of fr_ReturnSlot] assms [THEN arg_cong, of fr_CurrentException]
    assms [THEN arg_cong, of fr_UseCount]
  by (simp_all add: fixed_members_def)

lemma only_frameI:
  assumes "s = s0\<lparr>vm_memory := vm_memory s, vm_Heap := vm_Heap s,
      vm_frames := (vm_frames s0)(f := vm_frames s f)\<rparr>"
    "fixed_members (vm_frames s f) = fixed_members (vm_frames s0 f)"
    "\<And>x. live s0 x \<Longrightarrow> \<not> in_arena (vm_frames s0 f) x \<Longrightarrow> vm_memory s x = vm_memory s0 x"
  shows "only_frame f s0 s"
  unfolding only_frame_def frame_of_def using assms by blast

lemma only_frameE:
  assumes "only_frame f s0 s"
  obtains m H fr where "s = s0\<lparr>vm_memory := m, vm_Heap := H, vm_frames := (vm_frames s0)(f := fr)\<rparr>"
    "fixed_members fr = fixed_members (frame_of f s0)"
    "\<And>x. live s0 x \<Longrightarrow> \<not> in_arena (frame_of f s0) x \<Longrightarrow> m x = vm_memory s0 x"
  using assms unfolding only_frame_def by blast

lemma only_frameD:
  assumes "only_frame f s0 s"
  shows "vm_blocks s = vm_blocks s0" "vm_CallStack s = vm_CallStack s0" "live s = live s0"
    "fixed_members (frame_of f s) = fixed_members (frame_of f s0)" "g \<noteq> f \<Longrightarrow> frame_of g s = frame_of g s0"
    "live s0 x \<Longrightarrow> \<not> in_arena (frame_of f s0) x \<Longrightarrow> vm_memory s x = vm_memory s0 x"
    "vm_UnhandledException s = vm_UnhandledException s0" "vm_rootedTasks s = vm_rootedTasks s0"
    "vm_asyncTable s = vm_asyncTable s0"
  by (rule only_frameE [OF assms], simp add: frame_of_def live_def fun_eq_iff)+

lemma only_frame_refl [simp]: "only_frame f s s"
  by (auto simp: only_frame_def frame_of_def intro!: exI [of _ "vm_memory s"] exI [of _ "vm_Heap s"]
      exI [of _ "vm_frames s f"])

lemma only_frame_same_live:
  assumes "only_frame f s0 s" "same_live s t"
  shows "only_frame f s0 t"
proof -
  obtain m H where t: "t = s\<lparr>vm_memory := m, vm_Heap := H\<rparr>"
    and m: "\<And>x. live s x \<Longrightarrow> m x = vm_memory s x"
    using assms(2) by (auto simp: same_live_def)
  have s: "live s = live s0" by (rule only_frameD [OF assms(1)])
  from assms(1) show ?thesis
    by (rule only_frameE) (rule only_frameI, use t m s in \<open>auto simp: frame_of_def\<close>)
qed

lemma only_frame_set_frame:
  assumes "only_frame f s0 s" "fixed_members (h (frame_of f s)) = fixed_members (frame_of f s)"
  shows "only_frame f s0 (set_frame f h s)"
  using assms(1) by (rule only_frameE) (rule only_frameI, use assms(2) in \<open>auto simp: set_frame_def frame_of_def\<close>)

lemma only_frame_set_memory:
  assumes "only_frame f s0 s" "\<And>x. \<not> in_arena (frame_of f s) x \<Longrightarrow> g (vm_memory s) x = vm_memory s x"
  shows "only_frame f s0 (set_memory g s)"
proof -
  have "in_arena (frame_of f s) = in_arena (frame_of f s0)"
    using fixed_members_simps(1-3) [OF only_frameD(4) [OF assms(1)]] by (simp add: in_arena_def fun_eq_iff)
  with assms show ?thesis
    by (elim only_frameE) (rule only_frameI, auto simp: set_memory_def frame_of_def)
qed

lemma stack_rep_same_live:
  assumes "stack_rep img f es s" "same_live s t" "live_range s (fr_EvalEntries (frame_of f s)) (fr_EvalCapacityBytes (frame_of f s))"
  shows "stack_rep img f es t"
proof -
  have "entries_at (vm_memory t) (fr_EvalEntries (frame_of f s)) es"
    using assms(1,3) same_liveD(7) [OF assms(2)]
      entries_at_cong [of "fr_EvalEntries (frame_of f s)" es "vm_memory t" "vm_memory s"]
    by (auto simp: stack_rep_def Let_def live_range_def)
  with assms(1) show ?thesis by (simp add: stack_rep_def Let_def same_liveD(5) [OF assms(2)])
qed

lemma prim_rep_same_live:
  assumes rep: "prim_rep img depth s0 f stk locs s" and st: "same_live s t"
  shows "prim_rep img depth s0 f stk locs t"
proof -
  have fr: "frame_of f t = frame_of f s" "live t = live s" by (rule same_liveD [OF st])+
  then have geo: "frame_geometry depth f t"
    using rep by (simp add: prim_rep_def frame_geometry_def live_range_def)
  have "slot_holds img (vm_memory t) (slot_at (frame_of f s) i) (locs ! i)" if "i < length locs" for i
  proof -
    have "live_range s (slot_at (frame_of f s) i) 16"
      using rep that by (simp add: prim_rep_def frame_geometry_def locals_rep_def Let_def)
    then have "slot_holds img (vm_memory t) (slot_at (frame_of f s) i) (locs ! i)
        \<longleftrightarrow> slot_holds img (vm_memory s) (slot_at (frame_of f s) i) (locs ! i)"
      using same_liveD(7) [OF st] by (intro slot_holds_cong) (simp add: live_range_def)
    with rep that show ?thesis by (simp add: prim_rep_def locals_rep_def Let_def)
  qed
  then have "locals_rep img f locs t"
    using rep fr(1) by (simp add: prim_rep_def locals_rep_def Let_def)
  moreover have "stack_rep img f (map (prim_entry img) stk) t"
    using rep by (intro stack_rep_same_live [OF _ st]) (simp_all add: prim_rep_def frame_geometry_def Let_def)
  moreover have "serves_boxes img t" "\<not> vm_AbortFlag t"
    using rep same_liveD(1,4) [OF st] by (simp_all add: prim_rep_def serves_boxes_def)
  ultimately show ?thesis
    using rep geo fr(1) only_frame_same_live [OF _ st] by (simp add: prim_rep_def)
qed

section \<open>Pushes and pops\<close>

lemma prim_rep_top:
  assumes "prim_rep img depth s0 f stk locs s"
  shows "entry_top f s = fr_EvalEntries (frame_of f s) + 16 * length stk"
  using assms by (simp add: prim_rep_def stack_rep_def Let_def)

lemma prim_rep_room:
  assumes "prim_rep img depth s0 f stk locs s" "length stk < depth"
  shows "room_above f s"
  using assms prim_rep_top [OF assms(1)]
  by (auto simp: room_above_def prim_rep_def frame_geometry_def live_range_def Let_def)

lemma prim_rep_no_record:
  assumes "prim_rep img depth s0 f stk locs s" "allocator_ok img"
    and "img_alloc img (vm_blocks s) (32 + length (prim_bytes p)) \<noteq> 0"
  shows "vm_asyncTable s (img_alloc img (vm_blocks s) (32 + length (prim_bytes p)) + 32) = None"
proof -
  have only: "records_live s0" "only_frame f s0 s" using assms(1) by (simp_all add: prim_rep_def)
  have "0 < length (prim_bytes p)" by (cases p) simp_all
  with fresh_not_live [OF assms(2) refl assms(3)]
  have "\<not> live s (img_alloc img (vm_blocks s) (32 + length (prim_bytes p)) + 32)" by fastforce
  with only(1) show ?thesis
    unfolding records_live_def only_frameD(3,9) [OF only(2), symmetric] by blast
qed

lemma prim_rep_push:
  assumes rep: "prim_rep img depth s0 f stk locs s" and d: "length stk < depth" and ok: "primitives_ok img"
  shows "prim_rep img depth s0 f (stk @ [p]) locs (push_prim img f p s)"
proof -
  have top: "entry_top f s = fr_EvalEntries (frame_of f s) + 16 * length stk" by (rule prim_rep_top [OF rep])
  have fr: "frame_of f (push_prim img f p s) = push_cursor 16 (frame_of f s)"
    "vm_blocks (push_prim img f p s) = vm_blocks s" "vm_AbortFlag (push_prim img f p s) = vm_AbortFlag s"
    by (simp_all add: push_prim_def)
  have geo: "frame_geometry depth f (push_prim img f p s)"
    using rep by (simp add: prim_rep_def frame_geometry_def fr live_range_def live_def slot_at_def push_cursor_def Let_def)
  have "stack_rep img f (map (prim_entry img) stk @ [prim_entry img p]) (push_prim img f p s)"
    unfolding push_prim_def prim_entry_stride [of img p, symmetric]
    using rep d by (intro stack_rep_push prim_entry_ok [OF ok])
       (simp_all add: prim_rep_def frame_geometry_def Let_def)
  moreover have "slot_holds img (vm_memory (push_prim img f p s)) (slot_at (frame_of f s) i) (locs ! i)"
    if "i < length locs" for i
  proof -
    have "slot_at (frame_of f s) i + 16 \<le> fr_EvalEntries (frame_of f s)"
      using rep that by (simp add: prim_rep_def frame_geometry_def locals_rep_def Let_def)
    then have "slot_holds img (vm_memory (push_prim img f p s)) (slot_at (frame_of f s) i) (locs ! i)
        \<longleftrightarrow> slot_holds img (vm_memory s) (slot_at (frame_of f s) i) (locs ! i)"
      using top by (intro slot_holds_cong) (simp add: push_prim_def entry_write_below)
    with rep that show ?thesis by (simp add: prim_rep_def locals_rep_def Let_def)
  qed
  then have "locals_rep img f locs (push_prim img f p s)"
    using rep by (simp add: prim_rep_def locals_rep_def fr slot_at_def push_cursor_def Let_def)
  moreover have "only_frame f s0 (push_prim img f p s)"
    unfolding push_prim_def
    using rep d top by (intro only_frame_set_memory only_frame_set_frame)
       (auto simp: prim_rep_def fixed_members_def push_cursor_def in_arena_def frame_geometry_def Let_def
         entry_write_below entry_write_above not_le not_less)
  ultimately show ?thesis
    using rep geo d by (simp add: prim_rep_def fr serves_boxes_def push_cursor_def)
qed

text \<open>The view of the entry at position \<open>i\<close> of the stack.\<close>

definition stack_view :: "image \<Rightarrow> nat \<Rightarrow> vm \<Rightarrow> nat \<Rightarrow> prim \<Rightarrow> ObjectInstance" where
  "stack_view img f s i p =
     \<lparr>m_shape = prim_shape img p, m_rawMemoryPtr = fr_EvalEntries (frame_of f s) + 16 * i + 8\<rparr>"

lemma stack_view_shows:
  assumes "prim_rep img depth s0 f (stk @ p # rest) locs s"
  shows "shows_prim img (vm_memory s) (stack_view img f s (length stk) p) p"
proof -
  have "entry_at (vm_memory s) (fr_EvalEntries (frame_of f s) + 16 * length stk) (prim_entry img p)"
    using assms by (simp add: prim_rep_def stack_rep_def Let_def)
  then show ?thesis by (simp add: stack_view_def shows_prim_def prim_entry_def)
qed

lemma PopStack_prim:
  assumes "prim_rep img depth s0 f (stk @ [p]) locs s"
  shows "PopStack img f s = Ret (stack_view img f s (length stk) p) (set_frame f pop_cursor s)"
proof -
  have "stack_rep img f (map (prim_entry img) stk @ [prim_entry img p]) s"
    using assms by (simp add: prim_rep_def)
  from PopStack_eq [OF this] show ?thesis by (simp add: stack_view_def prim_entry_def)
qed

lemma PeekStack_prim:
  assumes "prim_rep img depth s0 f (stk @ [p]) locs s"
  shows "PeekStack img f s = Ret (stack_view img f s (length stk) p) s"
proof -
  have "stack_rep img f (map (prim_entry img) stk @ [prim_entry img p]) s"
    using assms by (simp add: prim_rep_def)
  from PeekStack_eq [OF this] show ?thesis by (simp add: stack_view_def prim_entry_def)
qed

lemma prim_rep_pop:
  assumes "prim_rep img depth s0 f (stk @ [p]) locs s"
  shows "prim_rep img depth s0 f stk locs (set_frame f pop_cursor s)"
proof -
  have "stack_rep img f (map (prim_entry img) stk @ [prim_entry img p]) s"
    using assms by (simp add: prim_rep_def)
  then have "stack_rep img f (map (prim_entry img) stk) (set_frame f pop_cursor s)"
    by (rule stack_rep_pop)
  moreover have "only_frame f s0 (set_frame f pop_cursor s)"
    using assms by (intro only_frame_set_frame) (simp_all add: prim_rep_def fixed_members_def pop_cursor_def)
  ultimately show ?thesis
    using assms
    by (simp add: prim_rep_def frame_geometry_def locals_rep_def serves_boxes_def Let_def live_range_def live_def
        slot_at_def pop_cursor_def)
qed

lemma stack_view_pop [simp]: "stack_view img f (set_frame f pop_cursor s) i p = stack_view img f s i p"
  by (simp add: stack_view_def)

lemma PushStack_prim:
  assumes ok: "primitives_ok img" and v: "shows_prim img (vm_memory s) v p"
    and far: "apart (entry_top f s) 8 (m_rawMemoryPtr v) (length (prim_bytes p))"
  shows "\<exists>w. PushStack img f v s = Ret w (push_prim img f p s)"
proof -
  have src: "view_source img v (write_word (vm_memory s) (entry_top f s) (prim_shape img p)) = Some (prim_bytes p)"
    using v far by (simp add: view_source_def shows_prim_def length_prim_bytes [OF ok] write_word_def read_write_apart)
  have "PushInline img f (prim_shape img p) (view_source img v) s =
      Ret \<lparr>m_shape = prim_shape img p, m_rawMemoryPtr = entry_top f s + 8\<rparr> (push_prim img f p s)"
    using ok src by (rule PushInline_prim)
  moreover have "m_shape v = prim_shape img p" using v by (simp add: shows_prim_def)
  ultimately show ?thesis
    using shows_primD [OF v ok] by (simp add: PushStack_def)
qed

lemma DiscardValue_prim:
  assumes "m_shape v = prim_shape img p" "primitives_ok img"
  shows "DiscardValue img n v s = Ret () s" "ReleaseValue img n v s = Ret () s"
  using assms
  by (simp_all add: DiscardValue_def ReleaseValue_def andThen_def getInfo_def prim_shape_facts prim_type_facts
      IsReferenceType_def)

section \<open>Locals\<close>

lemma GetLocal_prim:
  assumes rep: "prim_rep img depth s0 f stk locs s" and ok: "primitives_ok img"
    and i: "i < length locs" "locs ! i = Some p"
  shows "\<exists>v. GetLocal img f i s = Ret v s \<and> shows_prim img (vm_memory s) v p \<and>
    m_rawMemoryPtr v + 8 \<le> fr_EvalEntries (frame_of f s)"
proof -
  let ?a = "slot_at (frame_of f s) i"
  have slot: "entry_at (vm_memory s) ?a (prim_entry img p)" "i < length (fr_LocalSlots (frame_of f s))"
    "?a + 16 \<le> fr_EvalEntries (frame_of f s)"
    using rep i by (auto simp: prim_rep_def locals_rep_def frame_geometry_def Let_def slot_holds_def)
  then have view: "slot_view img (vm_memory s) ?a = entry_view ?a (prim_entry img p)"
    by (intro slot_view_entry prim_entry_ok [OF ok])
  have "GetLocal img f i s = Ret \<lparr>m_shape = prim_shape img p, m_rawMemoryPtr = ?a + 8\<rparr> s"
    using slot view prim_shape_facts(1) [OF ok, of p]
    by (simp add: GetLocal_def andThen_def slot_at_def prim_entry_def Let_def)
  moreover have "shows_prim img (vm_memory s) \<lparr>m_shape = prim_shape img p, m_rawMemoryPtr = ?a + 8\<rparr> p"
    using slot(1) by (simp add: shows_prim_def prim_entry_def)
  ultimately show ?thesis using slot(3) by auto
qed

lemma GetLocal_unset:
  assumes rep: "prim_rep img depth s0 f stk locs s" and i: "i < length locs" "locs ! i = None"
  shows "GetLocal img f i s = Throw (undefined_behaviour ''EvalStack: TypeShape was null'') s"
  using rep i by (auto simp: GetLocal_def andThen_def prim_rep_def locals_rep_def Let_def slot_holds_def slot_at_def)

text \<open>What a store writes into the slot at \<open>a\<close>: the shape and eight bytes from the source.\<close>

definition slot_write :: "image \<Rightarrow> nat \<Rightarrow> prim \<Rightarrow> nat \<Rightarrow> memory \<Rightarrow> memory" where
  "slot_write img a p src m =
     (let m1 = write_word m a (prim_shape img p) in write_bytes m1 (a + 8) (read_bytes m1 src 8))"

definition set_slot_shape :: "nat \<Rightarrow> ptr \<Rightarrow> CallStackFrame \<Rightarrow> CallStackFrame" where
  "set_slot_shape i shape fr =
     fr\<lparr>fr_LocalSlots := (fr_LocalSlots fr)[i := (shape, snd (fr_LocalSlots fr ! i))]\<rparr>"

lemma set_slot_shape_simps [simp]:
  "length (fr_LocalSlots (set_slot_shape i shape fr)) = length (fr_LocalSlots fr)"
  "fr_Arena (set_slot_shape i shape fr) = fr_Arena fr"
  "fr_EvalEntries (set_slot_shape i shape fr) = fr_EvalEntries fr"
  "fr_EvalCapacityBytes (set_slot_shape i shape fr) = fr_EvalCapacityBytes fr"
  "fr_EvalOffsets (set_slot_shape i shape fr) = fr_EvalOffsets fr"
  "fr_EvalCursorBytes (set_slot_shape i shape fr) = fr_EvalCursorBytes fr"
  "fr_InterruptionReason (set_slot_shape i shape fr) = fr_InterruptionReason fr"
  by (simp_all add: set_slot_shape_def)

lemma slot_at_set_shape [simp]: "slot_at (set_slot_shape i shape fr) j = slot_at fr j"
  by (cases "i < length (fr_LocalSlots fr)"; cases "i = j") (simp_all add: slot_at_def set_slot_shape_def list_update_beyond)

lemma slot_write_outside: "\<not> (a \<le> x \<and> x < a + 16) \<Longrightarrow> slot_write img a p src m x = m x"
  by (auto simp: slot_write_def Let_def write_bytes_at write_word_def)

lemma slot_write_holds:
  assumes "read_bytes m src (length (prim_bytes p)) = prim_bytes p" "a + 8 \<le> src"
  shows "slot_holds img (slot_write img a p src m) a (Some p)"
proof -
  let ?m = "write_word m a (prim_shape img p)"
  have "read_bytes ?m src 8 = read_bytes m src 8"
    using assms(2) by (intro read_bytes_cong) (simp add: write_word_def write_bytes_at)
  moreover have "take (length (prim_bytes p)) (read_bytes m src 8) = prim_bytes p"
    using assms(1) read_bytes_add [of m src "length (prim_bytes p)" "8 - length (prim_bytes p)"] length_prim_le [of p]
    by simp
  ultimately show ?thesis
    using length_prim_le [of p]
    by (simp add: slot_holds_def prim_entry_def slot_write_def Let_def read_write_inside EntryShape_def
        read_word_apart apart_def) (simp add: read_word_same)
qed

lemma SetLocal_eq:
  assumes ok: "primitives_ok img" and i: "i < length (fr_LocalSlots (frame_of f s))"
    and sh: "value_shape img (fst (fr_LocalSlots (frame_of f s) ! i))"
    and v: "m_shape v = prim_shape img p" "m_rawMemoryPtr v \<noteq> 0"
  shows "SetLocal img n f i v s = Ret () (set_memory (slot_write img (slot_at (frame_of f s) i) p (m_rawMemoryPtr v))
    (set_frame f (set_slot_shape i (prim_shape img p)) s))"
proof -
  obtain old off where slot: "fr_LocalSlots (frame_of f s) ! i = (old, off)" by fastforce
  have rel: "old \<noteq> nullptr \<Longrightarrow> ReleaseInlinePayload img n old a t = Ret () t" for a t
    using sh slot by (auto simp: value_shape_def)
  have size: "Align (shp_Size (img_shapes img (prim_shape img p))) = 8"
    using prim_entry_stride [of img p] by (simp add: prim_entry_def length_prim_bytes [OF ok])
  have byval: "\<not> shape_IsReferenceType img (prim_shape img p)"
    by (simp add: shape_IsReferenceType_def IsReferenceType_def prim_shape_facts [OF ok] prim_type_facts [OF ok])
  show ?thesis
    using i v slot prim_shape_facts(1,4) [OF ok, of p] byval
    by (simp add: SetLocal_def andThen_def Let_def IsNullInstance_def rel size slot_write_def slot_at_def
        set_slot_shape_def set_memory_def set_frame_def frame_of_def)
qed

lemma SetLocal_prim:
  assumes rep: "prim_rep img depth s0 f stk locs s" and ok: "primitives_ok img" and i: "i < length locs"
    and v: "shows_prim img (vm_memory s) v p" "fr_EvalEntries (frame_of f s) \<le> m_rawMemoryPtr v"
  shows "\<exists>t. SetLocal img n f i v s = Ret () t \<and> prim_rep img depth s0 f stk (locs[i := Some p]) t"
proof -
  let ?fr = "frame_of f s"
  let ?a = "slot_at ?fr i"
  let ?t = "set_memory (slot_write img ?a p (m_rawMemoryPtr v)) (set_frame f (set_slot_shape i (prim_shape img p)) s)"
  have slots: "length (fr_LocalSlots ?fr) = length locs" and sh: "value_shape img (fst (fr_LocalSlots ?fr ! i))"
    and below: "?a + 16 \<le> fr_EvalEntries ?fr"
    and others: "\<And>j. j < length locs \<Longrightarrow> j \<noteq> i \<Longrightarrow> apart (slot_at ?fr j) 16 ?a 16"
    using rep i by (auto simp: prim_rep_def frame_geometry_def locals_rep_def Let_def)
  have run: "SetLocal img n f i v s = Ret () ?t"
    using SetLocal_eq [OF ok _ sh] i slots v(1) by (simp add: shows_prim_def)
  have "entries_at (vm_memory ?t) (fr_EvalEntries ?fr) (map (prim_entry img) stk)"
    using rep below entries_at_cong [of "fr_EvalEntries ?fr" "map (prim_entry img) stk" "vm_memory ?t" "vm_memory s"]
    by (simp add: prim_rep_def stack_rep_def Let_def slot_write_outside)
  then have stack: "stack_rep img f (map (prim_entry img) stk) ?t"
    using rep by (simp add: prim_rep_def stack_rep_def Let_def)
  have geo: "frame_geometry depth f ?t"
    using rep by (simp add: prim_rep_def frame_geometry_def Let_def live_range_def live_def)
  have "slot_holds img (vm_memory ?t) (slot_at ?fr j) (locs[i := Some p] ! j)" if j: "j < length locs" for j
  proof (cases "j = i")
    case True
    with i v below show ?thesis by (simp add: slot_write_holds shows_prim_def)
  next
    case False
    then have "slot_holds img (vm_memory ?t) (slot_at ?fr j) (locs ! j) \<longleftrightarrow> slot_holds img (vm_memory s) (slot_at ?fr j) (locs ! j)"
      using others [OF j] by (intro slot_holds_cong) (auto simp: slot_write_outside apart_def)
    with rep False j show ?thesis by (simp add: prim_rep_def locals_rep_def Let_def)
  qed
  moreover have "value_shape img (fst (fr_LocalSlots (set_slot_shape i (prim_shape img p) ?fr) ! j))" if "j < length locs" for j
    using rep that i slots prim_shape_facts(4) [OF ok, of p] prim_entry_ok [OF ok, of p]
    by (cases "j = i") (simp_all add: set_slot_shape_def prim_rep_def locals_rep_def Let_def value_shape_def prim_entry_def)
  ultimately have "locals_rep img f (locs[i := Some p]) ?t"
    using slots by (simp add: locals_rep_def Let_def)
  moreover have "only_frame f s0 ?t"
    using rep below
    by (intro only_frame_set_memory only_frame_set_frame slot_write_outside)
       (auto simp: prim_rep_def fixed_members_def set_slot_shape_def in_arena_def slot_at_def)
  ultimately show ?thesis
    using run stack geo rep by (auto simp: prim_rep_def serves_boxes_def)
qed

section \<open>Operators\<close>

text \<open>
  What \<^verbatim>\<open>executeBinary\<close> comes to on values. Before a division it reads the divisor as an integer, which
  it refuses for a character, a byte and a native integer.
\<close>

definition machine_binary :: "double_ops \<Rightarrow> OperatorToken \<Rightarrow> prim \<Rightarrow> prim \<Rightarrow> verdict" where
  "machine_binary D op a b =
     (if op = DivOperator \<or> op = ModOperator then
        (case b of
           VInt i \<Rightarrow> if i = 0 then Fails (runtime_error ''DivideByZeroException'') else prim_binary D op a b
         | VBool _ \<Rightarrow> prim_binary D op a b
         | VDouble _ \<Rightarrow> prim_binary D op a b
         | _ \<Rightarrow> Fails (runtime_exception ''Cannot interpret instance as Integer''))
      else prim_binary D op a b)"

text \<open>The result of an operator step: a value on top of \<open>stk\<close>, an exception, or undefined behaviour.\<close>

definition gives_verdict ::
  "image \<Rightarrow> nat \<Rightarrow> vm \<Rightarrow> nat \<Rightarrow> prim list \<Rightarrow> prim option list \<Rightarrow> verdict \<Rightarrow> (unit, vm) outcome \<Rightarrow> bool" where
  "gives_verdict img depth s0 f stk locs v r =
     (case v of
        Value p \<Rightarrow> (\<exists>t. r = Ret () t \<and> prim_rep img depth s0 f (stk @ [p]) locs t)
      | Fails e \<Rightarrow> (\<exists>t. r = Throw e t \<and> prim_rep img depth s0 f stk locs t)
      | Crashes \<Rightarrow> r = Undefined
      | Unhandled \<Rightarrow> True)"

lemma AsInteger_refused:
  assumes "shows_prim img m v p" "primitives_ok img" "\<And>i. p \<noteq> VInt i"
  shows "AsInteger img v s = Throw (runtime_exception ''Cannot interpret instance as Integer'') s"
  using assms by (simp add: AsInteger_def read_value_def andThen_def getInfo_prim integer_type_iff)

lemma AsBoolean_refused:
  assumes "shows_prim img m v p" "primitives_ok img" "\<not> is_Bool p"
  shows "AsBoolean img v s = Throw (runtime_exception ''Cannot interpret instance as Boolean'') s"
  using assms by (simp add: AsBoolean_def read_value_def andThen_def getInfo_prim prim_type_iff)

lemma check_divisor_prim:
  assumes v: "shows_prim img (vm_memory s) v b" and ok: "primitives_ok img"
  shows "check_divisor img (Op op) v s =
    (if op = DivOperator \<or> op = ModOperator then
       (case b of
          VInt i \<Rightarrow> if i = 0 then Throw (runtime_error ''DivideByZeroException'') s else Ret () s
        | VBool _ \<Rightarrow> Ret () s
        | VDouble _ \<Rightarrow> Ret () s
        | _ \<Rightarrow> Throw (runtime_exception ''Cannot interpret instance as Integer'') s)
     else Ret () s)"
proof -
  have "check_divisor img (Op op) v s =
    (if op = DivOperator \<or> op = ModOperator then
       (if \<not> is_Bool b \<and> \<not> is_Dbl b
        then andThen (AsInteger img v) (\<lambda>i. if i = 0 then throw_vm (runtime_error ''DivideByZeroException'') else return_vm ()) s
        else Ret () s)
     else Ret () s)"
    by (simp add: check_divisor_def andThen_def getInfo_prim [OF v ok] prim_numeric [OF ok] prim_type_facts [OF ok])
  then show ?thesis
    using v As_prim(1) [OF ok, of s v] AsInteger_refused [OF v ok, of s]
    by (cases b) (simp_all add: andThen_def)
qed

lemma operator_result:
  assumes rep: "prim_rep img depth s0 f stk locs s" and d: "length stk < depth"
    and ok: "primitives_ok img" and al: "allocator_ok img"
    and after: "\<And>r t. after r t = Ret () t"
    and handled: "m s = give img v s" and v: "v \<noteq> Unhandled"
  shows "gives_verdict img depth s0 f stk locs v
    (andThen m (\<lambda>handled. andThen (if IsNullInstance handled then other handled else return_vm handled) (\<lambda>result.
       andThen (pushPrimitiveResult img (Suc n) f result) (\<lambda>_. after result))) s)"
proof (cases v)
  case (Value p)
  have served: "img_alloc img (vm_blocks s) (32 + length (prim_bytes p)) \<noteq> 0"
    using rep by (intro serves_prim) (simp add: prim_rep_def)
  obtain t where t: "andThen (box img p) (pushPrimitiveResult img (Suc n) f) s = Ret () t"
    and live: "same_live (push_prim img f p s) t"
    using push_box [OF ok al served prim_rep_room [OF rep d] prim_rep_no_record [OF rep al served]] by blast
  have "prim_rep img depth s0 f (stk @ [p]) locs t"
    by (rule prim_rep_same_live [OF prim_rep_push [OF rep d ok] live])
  with t handled Value show ?thesis
    by (simp add: gives_verdict_def andThen_def box_eq [OF ok refl served] IsNullInstance_def after)
qed (use rep handled v in \<open>auto simp: gives_verdict_def andThen_def\<close>)

lemma executeBinary_prim:
  assumes rep: "prim_rep img depth s0 f (stk @ [a, b]) locs s" and ok: "primitives_ok img" and al: "allocator_ok img"
    and op: "op \<in> set boxless_operators"
  shows "gives_verdict img depth s0 f stk locs (machine_binary (img_double img) op a b)
    (executeBinary img (Suc n) run f (Op op) s)"
proof (cases "machine_binary (img_double img) op a b = Unhandled")
  case False
  let ?l = "stack_view img f s (length stk) a" and ?r = "stack_view img f s (Suc (length stk)) b"
  let ?s1 = "set_frame f pop_cursor s"
  let ?s2 = "set_frame f pop_cursor ?s1"
  have rep1: "prim_rep img depth s0 f (stk @ [a]) locs ?s1"
    using prim_rep_pop [of img depth s0 f "stk @ [a]" b locs s] rep by simp
  have rep2: "prim_rep img depth s0 f stk locs ?s2" by (rule prim_rep_pop [OF rep1])
  have pops: "PopStack img f s = Ret ?r ?s1" "PopStack img f ?s1 = Ret ?l ?s2"
    using PopStack_prim [of img depth s0 f "stk @ [a]" b locs s] rep PopStack_prim [OF rep1] by simp_all
  have l: "shows_prim img (vm_memory ?s2) ?l a" and r: "shows_prim img (vm_memory ?s2) ?r b"
    using stack_view_shows [of img depth s0 f stk a "[b]" locs s] stack_view_shows [of img depth s0 f "stk @ [a]" b "[]" locs s] rep
    by simp_all
  have d: "length stk < depth" using rep by (simp add: prim_rep_def)
  have disc: "andThen (DiscardValue img (Suc n) ?r) (\<lambda>_. DiscardValue img (Suc n) ?l) t = Ret () t" for t
    using DiscardValue_prim(1) [OF _ ok] by (simp add: andThen_def stack_view_def)
  have div: "check_divisor img (Op op) ?r ?s2 = Ret () ?s2
      \<and> machine_binary (img_double img) op a b = prim_binary (img_double img) op a b
    \<or> (\<exists>e. check_divisor img (Op op) ?r ?s2 = Throw e ?s2 \<and> machine_binary (img_double img) op a b = Fails e)"
    unfolding check_divisor_prim [OF r ok] machine_binary_def by (cases b) auto
  have eq: "executeBinary img (Suc n) run f (Op op) s =
      andThen (check_divisor img (Op op) ?r) (\<lambda>_.
      andThen (ExecuteBinary img (Op op) ?l ?r) (\<lambda>handled.
      andThen (if IsNullInstance handled then InvokeOperatorMethod img (Suc n) run ?l (Op op) ?r else return_vm handled) (\<lambda>result.
      andThen (pushPrimitiveResult img (Suc n) f result) (\<lambda>_.
      andThen (DiscardValue img (Suc n) ?r) (\<lambda>_. DiscardValue img (Suc n) ?l))))) ?s2"
    using shows_primD(2) [OF l ok] shows_primD(2) [OF r ok] pops
    by (simp add: executeBinary_def andThen_def)
  from div show ?thesis
  proof (elim disjE exE conjE)
    assume c: "check_divisor img (Op op) ?r ?s2 = Ret () ?s2"
      and m: "machine_binary (img_double img) op a b = prim_binary (img_double img) op a b"
    show ?thesis
      unfolding eq andThen_Ret [of "check_divisor img (Op op) ?r", OF c] m
      using disc ExecuteBinary_prim [OF l r ok op] False m
      by (intro operator_result [OF rep2 d ok al]) simp_all
  next
    fix e assume "check_divisor img (Op op) ?r ?s2 = Throw e ?s2" "machine_binary (img_double img) op a b = Fails e"
    with rep2 show ?thesis by (simp add: eq gives_verdict_def andThen_def)
  qed
qed (simp add: gives_verdict_def)

lemma executeUnary_prim:
  assumes rep: "prim_rep img depth s0 f (stk @ [a]) locs s" and ok: "primitives_ok img" and al: "allocator_ok img"
  shows "gives_verdict img depth s0 f stk locs (prim_unary (img_double img) op a)
    (executeUnary img (Suc n) run f (Op op) s)"
proof (cases "prim_unary (img_double img) op a = Unhandled")
  case False
  let ?v = "stack_view img f s (length stk) a"
  let ?s1 = "set_frame f pop_cursor s"
  have rep1: "prim_rep img depth s0 f stk locs ?s1" by (rule prim_rep_pop [OF rep])
  have v: "shows_prim img (vm_memory ?s1) ?v a"
    using stack_view_shows [of img depth s0 f stk a "[]" locs s] rep by simp
  have d: "length stk < depth" using rep by (simp add: prim_rep_def)
  have eq: "executeUnary img (Suc n) run f (Op op) s =
      andThen (ExecuteUnary img (Op op) ?v) (\<lambda>handled.
      andThen (if IsNullInstance handled then InvokeOperatorMethod_unary img (Suc n) run ?v (Op op) else return_vm handled) (\<lambda>result.
      andThen (pushPrimitiveResult img (Suc n) f result) (\<lambda>_. DiscardValue img (Suc n) ?v))) ?s1"
    using shows_primD(2) [OF v ok] PopStack_prim [OF rep] by (simp add: executeUnary_def andThen_def)
  show ?thesis
    unfolding eq using ExecuteUnary_prim [OF v ok] False DiscardValue_prim(1) [OF _ ok]
    by (intro operator_result [OF rep1 d ok al]) (simp_all add: stack_view_def)
qed (simp add: gives_verdict_def)

end
