(* ===== verification/PrimitivePrograms.thy ===== *)
theory PrimitivePrograms
  imports PrimitiveFrames InstructionEncoding
begin

text \<open>
  Programs over values of primitive types: constants, locals, operators, jumps. They have a small
  semantics of their own, over a list of values and an array of locals; the interpreter, running the
  bytes the encoder writes for such a program on a frame, does exactly what this semantics says. The
  interpreter's fuel is the number of steps.
\<close>

section \<open>The semantics of programs\<close>

definition program_bytes :: "Instruction list \<Rightarrow> bytes" where
  "program_bytes is = concat (map instruction_bytes is)"

text \<open>The instruction that starts at an offset of the code.\<close>

fun instruction_at :: "Instruction list \<Rightarrow> nat \<Rightarrow> Instruction option" where
  "instruction_at [] pc = None"
| "instruction_at (i # is) pc =
     (if pc = 0 then Some i
      else if pc < length (instruction_bytes i) then None
      else instruction_at is (pc - length (instruction_bytes i)))"

record prim_cfg =
  cf_pc :: nat
  cf_stack :: "prim list"
  cf_locals :: "prim option list"

datatype prim_step = Next prim_cfg | Raises cpp_exception | Traps | Stuck

definition push_cfg :: "nat \<Rightarrow> prim \<Rightarrow> prim_cfg \<Rightarrow> prim_step" where
  "push_cfg depth p c =
     (if length (cf_stack c) < depth then Next (c\<lparr>cf_stack := cf_stack c @ [p]\<rparr>) else Stuck)"

definition pop_cfg :: "prim_cfg \<Rightarrow> prim_cfg" where
  "pop_cfg c = c\<lparr>cf_stack := butlast (cf_stack c)\<rparr>"

definition verdict_cfg :: "nat \<Rightarrow> verdict \<Rightarrow> prim_cfg \<Rightarrow> prim_step" where
  "verdict_cfg depth v c =
     (case v of Value p \<Rightarrow> push_cfg depth p c | Fails e \<Rightarrow> Raises e | Crashes \<Rightarrow> Traps | Unhandled \<Rightarrow> Stuck)"

definition jump_cfg :: "nat \<Rightarrow> u64 \<Rightarrow> prim_cfg \<Rightarrow> prim_step" where
  "jump_cfg code_size target c =
     (if 0 \<le> sint target \<and> sint target \<le> int code_size then Next (c\<lparr>cf_pc := unat target\<rparr>)
      else Raises (out_of_range ''Tried to read out of code boundaries''))"

definition constant_value :: "ConstantOp \<Rightarrow> Operand list \<Rightarrow> prim option" where
  "constant_value k args =
     (case (k, args) of
        (LOADCONST_BOOLEAN, [U8 b]) \<Rightarrow> Some (VBool (b \<noteq> 0))
      | (LOADCONST_INTEGER8, [U8 b]) \<Rightarrow> Some (VByte b)
      | (LOADCONST_INTEGER64, [U64 i]) \<Rightarrow> Some (VInt i)
      | (LOADCONST_NATIVE_INTEGER, [U64 i]) \<Rightarrow> Some (VNint i)
      | (LOADCONST_RATIONAL64, [U64 d]) \<Rightarrow> Some (VDouble d)
      | (LOADCONST_CHAR, [U16 c]) \<Rightarrow> Some (VChar c)
      | _ \<Rightarrow> None)"

definition load_cfg :: "nat \<Rightarrow> u16 \<Rightarrow> prim_cfg \<Rightarrow> prim_step" where
  "load_cfg depth slot c =
     (if unat slot \<ge> length (cf_locals c) then Raises (out_of_range ''vector'')
      else case cf_locals c ! unat slot of
        None \<Rightarrow> Raises (undefined_behaviour ''EvalStack: TypeShape was null'')
      | Some p \<Rightarrow> push_cfg depth p c)"

definition store_cfg :: "u16 \<Rightarrow> prim_cfg \<Rightarrow> prim_step" where
  "store_cfg slot c =
     (if cf_stack c = [] then Stuck
      else if unat slot \<ge> length (cf_locals c) then Raises (out_of_range ''vector'')
      else Next ((pop_cfg c)\<lparr>cf_locals := (cf_locals c)[unat slot := Some (last (cf_stack c))]\<rparr>))"

definition step_constant :: "nat \<Rightarrow> ConstantOp \<Rightarrow> Operand list \<Rightarrow> prim_cfg \<Rightarrow> prim_step" where
  "step_constant depth k args c =
     (case constant_value k args of
        Some p \<Rightarrow> push_cfg depth p c
      | None \<Rightarrow>
          if k = NOP then Next c
          else if k = POP then (if cf_stack c = [] then Stuck else Next (pop_cfg c))
          else if k = DUP then (if cf_stack c = [] then Stuck else push_cfg depth (last (cf_stack c)) c)
          else if k = LOAD_LOCAL \<or> k = LOAD_ARG then
            (case args of [U16 slot] \<Rightarrow> load_cfg depth slot c | _ \<Rightarrow> Stuck)
          else if k = STORE_LOCAL \<or> k = STORE_ARG then
            (case args of [U16 slot] \<Rightarrow> store_cfg slot c | _ \<Rightarrow> Stuck)
          else Stuck)"

fun binary_operator :: "MathOp \<Rightarrow> OperatorToken option" where
  "binary_operator MATH_ADDITION = Some AddOperator"
| "binary_operator MATH_SUBTRACT = Some SubOperator"
| "binary_operator MATH_MULTIPLY = Some MultOperator"
| "binary_operator MATH_DIVISION = Some DivOperator"
| "binary_operator MATH_MODULO = Some ModOperator"
| "binary_operator MATH_POWER = Some PowOperator"
| "binary_operator MATH_SHL = Some LeftShiftOperator"
| "binary_operator MATH_SHR = Some RightShiftOperator"
| "binary_operator COMPARE_EQUAL = Some EqualsOperator"
| "binary_operator COMPARE_LESS = Some LessOperator"
| "binary_operator COMPARE_GREATER = Some GreaterOperator"
| "binary_operator LOGICAL_OR = Some OrOperator"
| "binary_operator LOGICAL_AND = Some AndOperator"
| "binary_operator _ = None"

fun unary_operator :: "MathOp \<Rightarrow> OperatorToken option" where
  "unary_operator MATH_NEGATIVE = Some SubOperator"
| "unary_operator LOGICAL_NOT = Some NotOperator"
| "unary_operator _ = None"

definition step_math :: "double_ops \<Rightarrow> nat \<Rightarrow> MathOp \<Rightarrow> prim_cfg \<Rightarrow> prim_step" where
  "step_math D depth k c =
     (case binary_operator k of
        Some op \<Rightarrow>
          if length (cf_stack c) < 2 then Stuck
          else verdict_cfg depth
                 (machine_binary D op (last (butlast (cf_stack c))) (last (cf_stack c))) (pop_cfg (pop_cfg c))
      | None \<Rightarrow>
          (case unary_operator k of
             Some op \<Rightarrow>
               if cf_stack c = [] then Stuck
               else verdict_cfg depth (prim_unary D op (last (cf_stack c))) (pop_cfg c)
           | None \<Rightarrow> Stuck))"

definition step_control :: "nat \<Rightarrow> ControlOp \<Rightarrow> Operand list \<Rightarrow> prim_cfg \<Rightarrow> prim_step" where
  "step_control code_size k args c =
     (case args of
        [U64 target] \<Rightarrow>
          if k = JUMP then jump_cfg code_size target c
          else if k = JUMP_FALSE \<or> k = JUMP_TRUE then
            (if cf_stack c = [] then Stuck
             else case last (cf_stack c) of
               VBool b \<Rightarrow> if b = (k = JUMP_TRUE) then jump_cfg code_size target (pop_cfg c) else Next (pop_cfg c)
             | _ \<Rightarrow> Raises (runtime_exception ''Cannot interpret instance as Boolean''))
          else Stuck
      | [] \<Rightarrow> if k = RETURN then Next (c\<lparr>cf_pc := code_size\<rparr>) else Stuck
      | _ \<Rightarrow> Stuck)"

definition step_cfg :: "double_ops \<Rightarrow> nat \<Rightarrow> Instruction list \<Rightarrow> prim_cfg \<Rightarrow> prim_step" where
  "step_cfg D depth is c =
     (case instruction_at is (cf_pc c) of
        None \<Rightarrow> Stuck
      | Some i \<Rightarrow>
          let c1 = c\<lparr>cf_pc := cf_pc c + length (instruction_bytes i)\<rparr> in
          (case i of Instruction op args \<Rightarrow>
             (case op of
                Ko k \<Rightarrow> step_constant depth k args c1
              | Co k \<Rightarrow> step_control (length (program_bytes is)) k args c1
              | Mo k \<Rightarrow> step_math D depth k c1
              | _ \<Rightarrow> Stuck)))"

text \<open>
  A run of at most \<open>k\<close> rounds; the last round finds the end of the code. \<open>None\<close>: it needs more, or it
  is outside this semantics.
\<close>

datatype prim_result = Halted prim_cfg | Failed cpp_exception | Trapped

fun run_cfg :: "double_ops \<Rightarrow> nat \<Rightarrow> Instruction list \<Rightarrow> nat \<Rightarrow> prim_cfg \<Rightarrow> prim_result option" where
  "run_cfg D depth is 0 c = None"
| "run_cfg D depth is (Suc k) c =
     (if cf_pc c \<ge> length (program_bytes is) then Some (Halted c)
      else case step_cfg D depth is c of
        Next c' \<Rightarrow> run_cfg D depth is k c'
      | Raises e \<Rightarrow> Some (Failed e)
      | Traps \<Rightarrow> Some Trapped
      | Stuck \<Rightarrow> None)"

section \<open>Fetching\<close>

lemma instruction_at_split:
  "instruction_at is pc = Some i \<Longrightarrow>
     \<exists>pre post. is = pre @ i # post \<and> pc = length (program_bytes pre)"
proof (induction "is" arbitrary: pc)
  case (Cons j "is")
  show ?case
  proof (cases "pc = 0")
    case True
    with Cons.prems show ?thesis by (intro exI [of _ "[]"] exI [of _ "is"]) (simp add: program_bytes_def)
  next
    case False
    with Cons.prems have pc: "length (instruction_bytes j) \<le> pc" "instruction_at is (pc - length (instruction_bytes j)) = Some i"
      by (auto split: if_splits)
    from Cons.IH [OF pc(2)] obtain pre post where "is = pre @ i # post"
      "pc - length (instruction_bytes j) = length (program_bytes pre)" by blast
    with pc(1) show ?thesis by (intro exI [of _ "j # pre"] exI [of _ post]) (simp add: program_bytes_def)
  qed
qed simp

lemma instruction_at_reads:
  assumes "instruction_at is pc = Some i"
  shows "reads_at \<lparr>dec_code = program_bytes is, dec_ip = pc\<rparr> (instruction_bytes i)"
    and "pc + length (instruction_bytes i) \<le> length (program_bytes is)" and "i \<in> set is"
  using instruction_at_split [OF assms] by (auto simp: reads_at_def program_bytes_def)

lemma instruction_at_EOF: "instruction_at is pc = Some i \<Longrightarrow> pc < length (program_bytes is)"
  using instruction_at_reads(2) [of "is" pc i] instruction_bytes_nonempty [of i] by linarith

section \<open>One step of the interpreter\<close>

definition decoder_at :: "Instruction list \<Rightarrow> nat \<Rightarrow> ByteCodeDecoder" where
  "decoder_at is pc = \<lparr>dec_code = program_bytes is, dec_ip = pc\<rparr>"

abbreviation cfg_rep :: "image \<Rightarrow> nat \<Rightarrow> vm \<Rightarrow> nat \<Rightarrow> prim_cfg \<Rightarrow> vm \<Rightarrow> bool" where
  "cfg_rep img depth s0 f c \<equiv> prim_rep img depth s0 f (cf_stack c) (cf_locals c)"

lemma prim_rep_only_frame: "prim_rep img depth s0 f stk locs s \<Longrightarrow> only_frame f s0 s"
  by (simp add: prim_rep_def)

definition step_matches ::
  "image \<Rightarrow> nat \<Rightarrow> vm \<Rightarrow> nat \<Rightarrow> Instruction list \<Rightarrow> prim_step \<Rightarrow> (ByteCodeDecoder, vm) outcome \<Rightarrow> bool" where
  "step_matches img depth s0 f is st r =
     (case st of
        Next c \<Rightarrow> (\<exists>t. r = Ret (decoder_at is (cf_pc c)) t \<and> cfg_rep img depth s0 f c t)
      | Raises e \<Rightarrow> (\<exists>t. r = Throw e t \<and> only_frame f s0 t)
      | Traps \<Rightarrow> r = Undefined
      | Stuck \<Rightarrow> True)"

lemma skip_decoder_at [simp]: "skip n (decoder_at is pc) = decoder_at is (pc + n)"
  by (simp add: skip_def decoder_at_def)

lemma push_constant_prim:
  assumes "primitives_ok img" "bs = prim_bytes p" "t = prim_type p"
  shows "push_constant img f t bs s = Ret () (push_prim img f p s)"
  using PushInline_prim [OF assms(1), of "\<lambda>_. Some bs" s f p] assms(2,3)
  by (simp add: push_constant_def andThen_def prim_shape_def)

lemma push_boolean_prim: "primitives_ok img \<Longrightarrow> push_boolean img f b s = Ret () (push_prim img f (VBool b) s)"
  using push_constant_prim [of img _ "VBool b" pr_Boolean f s]
  by (simp add: push_constant_def push_boolean_def)

lemma push_step:
  assumes "cfg_rep img depth s0 f c s" "primitives_ok img" "m s = Ret () (push_prim img f p s)"
  shows "step_matches img depth s0 f is (push_cfg depth p c) (resume m (decoder_at is (cf_pc c)) s)"
  using assms prim_rep_push [of img depth s0 f "cf_stack c" "cf_locals c" s p]
  by (simp add: push_cfg_def step_matches_def resume_def andThen_def)

lemma stack_cases: "stk \<noteq> [] \<Longrightarrow> \<exists>rest p. stk = rest @ [p]"
  by (metis rev_exhaust)

lemma load_step:
  assumes rep: "cfg_rep img depth s0 f c s" and ok: "primitives_ok img"
  shows "step_matches img depth s0 f is (load_cfg depth slot c)
    (resume (andThen (GetLocal img f (unat slot)) (\<lambda>v. andThen (PushStack img f v) (\<lambda>_. return_vm ())))
       (decoder_at is (cf_pc c)) s)"
proof (cases "unat slot < length (cf_locals c)")
  case False
  moreover have "length (fr_LocalSlots (frame_of f s)) = length (cf_locals c)"
    using rep by (simp add: prim_rep_def locals_rep_def Let_def)
  ultimately show ?thesis using prim_rep_only_frame [OF rep] by (simp add: load_cfg_def step_matches_def resume_def andThen_def GetLocal_def)
next
  case True
  show ?thesis
  proof (cases "cf_locals c ! unat slot")
    case None
    with True GetLocal_unset [OF rep True None] prim_rep_only_frame [OF rep] show ?thesis
      by (simp add: load_cfg_def step_matches_def resume_def andThen_def)
  next
    case (Some p)
    obtain v where v: "GetLocal img f (unat slot) s = Ret v s" "shows_prim img (vm_memory s) v p"
      "m_rawMemoryPtr v + 8 \<le> fr_EvalEntries (frame_of f s)"
      using GetLocal_prim [OF rep ok True Some] by blast
    have "apart (entry_top f s) 8 (m_rawMemoryPtr v) (length (prim_bytes p))"
      using v(3) length_prim_le [of p] by (simp add: apart_def)
    from PushStack_prim [OF ok v(2) this] obtain w where "PushStack img f v s = Ret w (push_prim img f p s)" by blast
    with v(1) have m: "andThen (GetLocal img f (unat slot)) (\<lambda>v. andThen (PushStack img f v) (\<lambda>_. return_vm ())) s
        = Ret () (push_prim img f p s)"
      by (simp add: andThen_def)
    have eq: "load_cfg depth slot c = push_cfg depth p c" using True Some by (simp add: load_cfg_def)
    show ?thesis unfolding eq using rep ok m by (rule push_step)
  qed
qed

lemma store_step:
  assumes rep: "cfg_rep img depth s0 f c s" and ok: "primitives_ok img"
  shows "step_matches img depth s0 f is (store_cfg slot c)
    (resume (andThen (PopStack img f) (SetLocal img n f (unat slot))) (decoder_at is (cf_pc c)) s)"
proof (cases "cf_stack c = []")
  case False
  then obtain stk p where stk: "cf_stack c = stk @ [p]" using stack_cases by blast
  let ?v = "stack_view img f s (length stk) p" and ?s1 = "set_frame f pop_cursor s"
  have pop: "PopStack img f s = Ret ?v ?s1" and rep1: "prim_rep img depth s0 f stk (cf_locals c) ?s1"
    and v: "shows_prim img (vm_memory ?s1) ?v p"
    using PopStack_prim [of img depth s0 f stk p] prim_rep_pop [of img depth s0 f stk p]
      stack_view_shows [of img depth s0 f stk p "[]"] rep stk by simp_all
  show ?thesis
  proof (cases "unat slot < length (cf_locals c)")
    case True
    have "fr_EvalEntries (frame_of f ?s1) \<le> m_rawMemoryPtr ?v" by (simp add: stack_view_def)
    from SetLocal_prim [OF rep1 ok True v this, of n] obtain t where "SetLocal img n f (unat slot) ?v ?s1 = Ret () t"
      "prim_rep img depth s0 f stk ((cf_locals c)[unat slot := Some p]) t" by blast
    with True stk pop show ?thesis
      by (simp add: store_cfg_def step_matches_def resume_def andThen_def pop_cfg_def)
  next
    case False
    moreover have "length (fr_LocalSlots (frame_of f ?s1)) = length (cf_locals c)"
      using rep1 by (simp add: prim_rep_def locals_rep_def Let_def)
    ultimately show ?thesis
      using stk pop prim_rep_only_frame [OF rep1] by (simp add: store_cfg_def step_matches_def resume_def andThen_def SetLocal_def)
  qed
qed (simp add: store_cfg_def step_matches_def)

lemma pop_step:
  assumes rep: "cfg_rep img depth s0 f c s" and ok: "primitives_ok img" and ne: "cf_stack c \<noteq> []"
  shows "step_matches img depth s0 f is (Next (pop_cfg c))
    (resume (andThen (PopStack img f) (DiscardValue img n)) (decoder_at is (cf_pc c)) s)"
proof -
  obtain stk p where stk: "cf_stack c = stk @ [p]" using stack_cases ne by blast
  with rep PopStack_prim [of img depth s0 f stk p] prim_rep_pop [of img depth s0 f stk p] DiscardValue_prim(1) [OF _ ok]
  show ?thesis
    by (simp add: step_matches_def resume_def andThen_def pop_cfg_def stack_view_def)
qed

lemma dup_step:
  assumes rep: "cfg_rep img depth s0 f c s" and ok: "primitives_ok img" and ne: "cf_stack c \<noteq> []"
  shows "step_matches img depth s0 f is (push_cfg depth (last (cf_stack c)) c)
    (resume (andThen (PeekStack img f) (\<lambda>v. andThen (PushStack img f v) (\<lambda>_. return_vm ()))) (decoder_at is (cf_pc c)) s)"
proof -
  obtain stk p where stk: "cf_stack c = stk @ [p]" using stack_cases ne by blast
  let ?v = "stack_view img f s (length stk) p"
  have peek: "PeekStack img f s = Ret ?v s" and v: "shows_prim img (vm_memory s) ?v p"
    using PeekStack_prim [of img depth s0 f stk p] stack_view_shows [of img depth s0 f stk p "[]"] rep stk by simp_all
  have "entry_top f s = fr_EvalEntries (frame_of f s) + 16 * length stk + 16"
    using prim_rep_top [OF rep] stk by simp
  then have "apart (entry_top f s) 8 (m_rawMemoryPtr ?v) (length (prim_bytes p))"
    using length_prim_le [of p] by (simp add: apart_def stack_view_def)
  from PushStack_prim [OF ok v this] obtain w where "PushStack img f ?v s = Ret w (push_prim img f p s)" by blast
  with peek have m: "andThen (PeekStack img f) (\<lambda>v. andThen (PushStack img f v) (\<lambda>_. return_vm ())) s
      = Ret () (push_prim img f (last (cf_stack c)) s)" by (simp add: andThen_def stk)
  show ?thesis using rep ok m by (rule push_step)
qed

text \<open>An operand that comes next in the code is what the handler gets.\<close>

lemma operand_reads:
  assumes "reads_at d (word_bytes (w :: 'a::len word))" "8 dvd LENGTH('a)" "absorb d = Absorb d"
  shows "operand_vm absorb d g = g w (skip (sizeof TYPE('a)) d)"
  by (simp add: operand_vm_def assms(3) Absorb_reads [OF assms(1,2)])

lemma operand_reads_bool:
  assumes "reads_at d (word_bytes (w :: u8))"
  shows "operand_vm AbsorbBoolean d g = g (w \<noteq> 0) (skip 1 d)"
  using Absorb_reads [OF assms] by (simp add: operand_vm_def AbsorbBoolean_def)

lemma push_operand:
  fixes absorb :: "ByteCodeDecoder \<Rightarrow> 'a::len word \<times> ByteCodeDecoder"
  assumes rep: "cfg_rep img depth s0 f c s" and ok: "primitives_ok img"
    and reads: "reads_at (decoder_at is pc) (word_bytes (w :: 'a word))" "8 dvd LENGTH('a)"
    and absorb: "absorb (decoder_at is pc) = Absorb (decoder_at is pc)"
    and pc: "cf_pc c = pc + sizeof TYPE('a)" and p: "prim_bytes p = word_bytes w" "prim_type p = t"
  shows "step_matches img depth s0 f is (push_cfg depth p c)
    (operand_vm absorb (decoder_at is pc) (\<lambda>i. resume (push_constant img f t (word_bytes i))) s)"
proof -
  have m: "push_constant img f t (word_bytes w) s = Ret () (push_prim img f p s)"
    using p by (intro push_constant_prim [OF ok]) simp_all
  have "step_matches img depth s0 f is (push_cfg depth p c) (resume (push_constant img f t (word_bytes w)) (decoder_at is (cf_pc c)) s)"
    using rep ok m by (rule push_step)
  then show ?thesis
    by (simp add: operand_reads [OF reads, of absorb, OF absorb] pc)
qed

lemma constant_step:
  assumes rep: "cfg_rep img depth s0 f c s" and ok: "primitives_ok img"
    and iok: "instruction_ok (Instruction (Ko k) args)"
    and reads: "reads_at (decoder_at is pc) (concat (map operand_bytes args))"
    and pc: "cf_pc c = pc + length (concat (map operand_bytes args))"
  shows "step_matches img depth s0 f is (step_constant depth k args c) (ProcessConstant img n f (decoder_at is pc) k s)"
proof -
  note loads = load_step [OF rep ok] and stores = store_step [OF rep ok] and pushes = push_operand [OF rep ok]
  note sizes = instruction_ok_def operand_sizes_def
  note steps = step_constant_def constant_value_def
  have one: "\<exists>w. args = [U16 w]" if "k \<in> {LOAD_LOCAL, LOAD_ARG, STORE_LOCAL, STORE_ARG, LOADCONST_CHAR}"
    using iok that by (auto simp: sizes)
  have eight: "\<exists>w. args = [U64 w]" if "k \<in> {LOADCONST_INTEGER64, LOADCONST_NATIVE_INTEGER, LOADCONST_RATIONAL64}"
    using iok that by (auto simp: sizes)
  show ?thesis
  proof (cases k)
    case NOP
    with iok pc rep show ?thesis by (simp add: sizes steps step_matches_def)
  next
    case POP
    with iok pc pop_step [OF rep ok, of "is" n] show ?thesis by (simp add: sizes steps) (simp add: step_matches_def)
  next
    case DUP
    with iok pc dup_step [OF rep ok] show ?thesis by (simp add: sizes steps) (simp add: step_matches_def)
  next
    case LOADCONST_BOOLEAN
    then obtain b where args: "args = [U8 b]" using iok by (auto simp: sizes)
    have "step_matches img depth s0 f is (push_cfg depth (VBool (b \<noteq> 0)) c)
        (resume (push_boolean img f (b \<noteq> 0)) (decoder_at is (cf_pc c)) s)"
      using rep ok push_boolean_prim [OF ok] by (rule push_step)
    with args LOADCONST_BOOLEAN reads pc show ?thesis by (simp add: steps operand_reads_bool)
  next
    case LOADCONST_INTEGER8
    then obtain b where "args = [U8 b]" using iok by (auto simp: sizes)
    with LOADCONST_INTEGER8 reads pc show ?thesis by (simp add: steps) (rule pushes, simp_all add: absorb_defs)
  next
    case LOADCONST_INTEGER64
    with eight reads pc show ?thesis by (auto simp: steps) (rule pushes, simp_all add: absorb_defs)
  next
    case LOADCONST_NATIVE_INTEGER
    with eight reads pc show ?thesis by (auto simp: steps) (rule pushes, simp_all add: absorb_defs)
  next
    case LOADCONST_RATIONAL64
    with eight reads pc show ?thesis by (auto simp: steps) (rule pushes, simp_all add: absorb_defs)
  next
    case LOADCONST_CHAR
    with one reads pc show ?thesis by (auto simp: steps) (rule pushes, simp_all add: absorb_defs)
  next
    case LOAD_LOCAL
    with one reads pc loads show ?thesis by (auto simp: steps operand_reads absorb_defs)
  next
    case LOAD_ARG
    with one reads pc loads show ?thesis by (auto simp: steps operand_reads absorb_defs)
  next
    case STORE_LOCAL
    with one reads pc stores show ?thesis by (auto simp: steps operand_reads absorb_defs)
  next
    case STORE_ARG
    with one reads pc stores show ?thesis by (auto simp: steps operand_reads absorb_defs)
  qed (simp_all add: steps step_matches_def)
qed

lemma ProcessMath_operator:
  "binary_operator k = Some op \<Longrightarrow> ProcessMath img n run f k = executeBinary img n run f (Op op) \<and> op \<in> set boxless_operators"
  "unary_operator k = Some op \<Longrightarrow> ProcessMath img n run f k = executeUnary img n run f (Op op)"
  by (cases k; auto simp: boxless_operators_def)+

lemma math_step:
  assumes rep: "cfg_rep img depth s0 f c s" and ok: "primitives_ok img" and al: "allocator_ok img"
  shows "step_matches img depth s0 f is (step_math (img_double img) depth k c)
    (resume (ProcessMath img (Suc n) run f k) (decoder_at is (cf_pc c)) s)"
proof -
  have matches: "step_matches img depth s0 f is (verdict_cfg depth v (c\<lparr>cf_stack := stk\<rparr>)) (resume m (decoder_at is (cf_pc c)) s)"
    if "gives_verdict img depth s0 f stk (cf_locals c) v (m s)" "length stk < depth" for stk v m
    using that by (cases v) (auto dest: prim_rep_only_frame simp: gives_verdict_def verdict_cfg_def push_cfg_def step_matches_def resume_def andThen_def)
  have bin: "step_matches img depth s0 f is (verdict_cfg depth
        (machine_binary (img_double img) op (last (butlast (cf_stack c))) (last (cf_stack c))) (pop_cfg (pop_cfg c)))
      (resume (executeBinary img (Suc n) run f (Op op)) (decoder_at is (cf_pc c)) s)"
    if two: "\<not> length (cf_stack c) < 2" and op: "op \<in> set boxless_operators" for op
  proof -
    obtain stk1 b where "cf_stack c = stk1 @ [b]" using two stack_cases [of "cf_stack c"] by fastforce
    moreover then obtain stk a where "stk1 = stk @ [a]" using two stack_cases [of stk1] by fastforce
    ultimately have stk: "cf_stack c = stk @ [a, b]" by simp
    then have d: "length stk < depth" using rep by (simp add: prim_rep_def)
    from rep stk have rep': "prim_rep img depth s0 f (stk @ [a, b]) (cf_locals c) s" by simp
    have eqs: "pop_cfg (pop_cfg c) = c\<lparr>cf_stack := stk\<rparr>" "last (butlast (cf_stack c)) = a" "last (cf_stack c) = b"
      using stk by (simp_all add: pop_cfg_def butlast_append)
    show ?thesis unfolding eqs using executeBinary_prim [OF rep' ok al op] d by (rule matches)
  qed
  have un: "step_matches img depth s0 f is (verdict_cfg depth (prim_unary (img_double img) op (last (cf_stack c))) (pop_cfg c))
      (resume (executeUnary img (Suc n) run f (Op op)) (decoder_at is (cf_pc c)) s)"
    if ne: "cf_stack c \<noteq> []" for op
  proof -
    obtain stk a where stk: "cf_stack c = stk @ [a]" using ne stack_cases by blast
    then have d: "length stk < depth" using rep by (simp add: prim_rep_def)
    from rep stk have rep': "prim_rep img depth s0 f (stk @ [a]) (cf_locals c) s" by simp
    have eqs: "pop_cfg c = c\<lparr>cf_stack := stk\<rparr>" "last (cf_stack c) = a" using stk by (simp_all add: pop_cfg_def)
    show ?thesis unfolding eqs using executeUnary_prim [OF rep' ok al] d by (rule matches)
  qed
  have stuck: "step_matches img depth s0 f is Stuck r" for r by (simp add: step_matches_def)
  show ?thesis
  proof (cases "binary_operator k")
    case (Some op)
    with ProcessMath_operator(1) [OF Some] bin [of op] stuck show ?thesis by (simp add: step_math_def)
  next
    case None
    show ?thesis
    proof (cases "unary_operator k")
      case (Some op)
      with None ProcessMath_operator(2) [OF Some] un [of op] stuck show ?thesis by (simp add: step_math_def)
    qed (simp add: None step_math_def stuck)
  qed
qed

lemma nat_sint: "0 \<le> sint (w :: u64) \<Longrightarrow> nat (sint w) = unat w"
proof -
  assume "0 \<le> sint w"
  moreover have "sint w < 2 ^ 64" using sint_less [of w] by simp
  ultimately have "uint w = sint w" by (simp add: uint_sint take_bit_int_eq_self)
  then show ?thesis by (metis unat_eq_nat_uint)
qed

lemma jump_step:
  assumes "cfg_rep img depth s0 f c s"
  shows "step_matches img depth s0 f is (jump_cfg (length (program_bytes is)) target c)
    (jump_to target (decoder_at is pc) s)"
proof (cases "0 \<le> sint target \<and> sint target \<le> int (length (program_bytes is))")
  case True
  then have "nat (sint target) = unat target" by (simp add: nat_sint)
  with True assms show ?thesis
    by (simp add: jump_cfg_def jump_to_def SetCursor_def decoder_at_def step_matches_def)
next
  case False
  then show ?thesis
    using prim_rep_only_frame [OF assms] by (auto simp: jump_cfg_def jump_to_def SetCursor_def decoder_at_def step_matches_def)
qed

lemma branch_step:
  assumes rep: "cfg_rep img depth s0 f c s" and ok: "primitives_ok img" and ne: "cf_stack c \<noteq> []"
    and pc: "cf_pc c = pc"
  shows "step_matches img depth s0 f is
    (case last (cf_stack c) of
       VBool b \<Rightarrow> if b = taken then jump_cfg (length (program_bytes is)) target (pop_cfg c) else Next (pop_cfg c)
     | _ \<Rightarrow> Raises (runtime_exception ''Cannot interpret instance as Boolean''))
    (branch_on img n f taken target (decoder_at is pc) s)"
proof -
  obtain stk p where stk: "cf_stack c = stk @ [p]" using ne stack_cases by blast
  let ?v = "stack_view img f s (length stk) p" and ?s1 = "set_frame f pop_cursor s"
  have pop: "PopStack img f s = Ret ?v ?s1" and rep1: "cfg_rep img depth s0 f (pop_cfg c) ?s1"
    and v: "shows_prim img (vm_memory ?s1) ?v p"
    using PopStack_prim [of img depth s0 f stk p] prim_rep_pop [of img depth s0 f stk p]
      stack_view_shows [of img depth s0 f stk p "[]"] rep stk by (simp_all add: pop_cfg_def)
  have disc: "DiscardValue img n ?v t = Ret () t" for t
    by (rule DiscardValue_prim(1) [OF _ ok]) (simp add: stack_view_def)
  show ?thesis
  proof (cases p)
    case (VBool b)
    with As_prim(2) [OF ok, of ?s1 ?v b] v pop disc rep1 stk pc jump_step [OF rep1, of "is" target pc]
    show ?thesis by (simp add: branch_on_def andThen_def) (simp add: step_matches_def pop_cfg_def)
  qed (use prim_rep_only_frame [OF rep1] pop stk AsBoolean_refused [OF v ok] in \<open>simp_all add: branch_on_def andThen_def step_matches_def\<close>)
qed

text \<open>\<^verbatim>\<open>RETURN\<close> is part of these programs in methods without a result.\<close>

definition returns_nothing :: "image \<Rightarrow> CallStackFrame \<Rightarrow> Instruction list \<Rightarrow> bool" where
  "returns_nothing img fr is \<longleftrightarrow> (Instruction (Co RETURN) [] \<in> set is \<longrightarrow> returns_void img fr)"

lemma return_step:
  assumes rep: "cfg_rep img depth s0 f c s" and void: "returns_void img (frame_of f s0)"
  shows "step_matches img depth s0 f is (Next (c\<lparr>cf_pc := length (program_bytes is)\<rparr>))
    (ProcessControl img n f (decoder_at is pc) RETURN s)"
proof -
  have "returns_void img (frame_of f s)"
    using void fixed_members_simps(7) [OF only_frameD(4) [OF prim_rep_only_frame [OF rep]]] by (simp add: returns_void_def)
  with rep show ?thesis by (simp add: step_matches_def andThen_def Return_dec_def decoder_at_def)
qed

lemma control_step:
  assumes rep: "cfg_rep img depth s0 f c s" and ok: "primitives_ok img"
    and void: "Instruction (Co k) args \<in> set is" "returns_nothing img (frame_of f s0) is"
    and reads: "reads_at (decoder_at is pc) (concat (map operand_bytes args))"
    and pc: "cf_pc c = pc + length (concat (map operand_bytes args))"
  shows "step_matches img depth s0 f is (step_control (length (program_bytes is)) k args c)
    (ProcessControl img n f (decoder_at is pc) k s)"
proof (cases "\<exists>target. args = [U64 target]")
  case True
  then obtain target where args: "args = [U64 target]" by blast
  then have op: "operand_vm AbsorbJump (decoder_at is pc) g = g target (decoder_at is (pc + 8))"
    for g :: "u64 \<Rightarrow> ByteCodeDecoder \<Rightarrow> ByteCodeDecoder vm_op"
    using reads by (simp add: operand_reads absorb_defs)
  have pc8: "cf_pc c = pc + 8" using pc args by simp
  have stuck: "step_matches img depth s0 f is Stuck r" for r by (simp add: step_matches_def)
  show ?thesis
  proof (cases k)
    case JUMP
    with args op jump_step [OF rep] show ?thesis by (simp add: step_control_def)
  next
    case JUMP_FALSE
    with args op branch_step [OF rep ok _ pc8, of "is" False target n] stuck show ?thesis
      by (cases "cf_stack c = []"; cases "last (cf_stack c)") (simp_all add: step_control_def)
  next
    case JUMP_TRUE
    with args op branch_step [OF rep ok _ pc8, of "is" True target n] stuck show ?thesis
      by (cases "cf_stack c = []"; cases "last (cf_stack c)") (simp_all add: step_control_def)
  qed (simp_all add: args step_control_def stuck)
next
  case False
  show ?thesis
  proof (cases "k = RETURN \<and> args = []")
    case True
    with void return_step [OF rep, of "is" n pc] show ?thesis by (simp add: step_control_def returns_nothing_def)
  next
    case other: False
    with False have "step_control (length (program_bytes is)) k args c = Stuck"
      by (auto simp: step_control_def split: list.split Operand.split)
    then show ?thesis by (simp add: step_matches_def)
  qed
qed

lemma interpreter_step:
  assumes rep: "cfg_rep img depth s0 f c s" and ok: "primitives_ok img" and al: "allocator_ok img"
    and iok: "list_all instruction_ok is" and void: "returns_nothing img (frame_of f s0) is"
    and at: "instruction_at is (cf_pc c) = Some (Instruction op args)"
  shows "AbsorbOpCode (decoder_at is (cf_pc c)) = (OpCode_value op, decoder_at is (cf_pc c + 2))"
    and "step_matches img depth s0 f is (step_cfg (img_double img) depth is c)
      (ProcessCode img (Suc n) run f (decoder_at is (cf_pc c + 2)) (OpCode_value op) s)"
proof -
  let ?c1 = "c\<lparr>cf_pc := cf_pc c + length (instruction_bytes (Instruction op args))\<rparr>"
  have "reads_at (decoder_at is (cf_pc c)) (instruction_bytes (Instruction op args))"
    using instruction_at_reads(1) [OF at] by (simp add: decoder_at_def)
  then have r: "reads_at (decoder_at is (cf_pc c)) (word_bytes (OpCode_value op))"
    "reads_at (decoder_at is (cf_pc c + 2)) (concat (map operand_bytes args))"
    by (simp_all add: reads_at_append)
  then show "AbsorbOpCode (decoder_at is (cf_pc c)) = (OpCode_value op, decoder_at is (cf_pc c + 2))"
    by (simp add: absorb_defs Absorb_reads)
  have iok1: "instruction_ok (Instruction op args)"
    using iok instruction_at_reads(3) [OF at] by (simp add: list_all_iff)
  have rep1: "cfg_rep img depth s0 f ?c1 s" using rep by simp
  have pc1: "cf_pc ?c1 = cf_pc c + 2 + length (concat (map operand_bytes args))" by simp
  have math: "args = []" if "op = Mo k" for k
    using iok1 that by (cases k) (simp_all add: instruction_ok_def operand_sizes_def)
  have code: "ProcessCode img (Suc n) run f d (OpCode_value op) = ProcessOpCode img (Suc n) run f d op" for d
    by (simp add: ProcessCode_def)
  show "step_matches img depth s0 f is (step_cfg (img_double img) depth is c)
      (ProcessCode img (Suc n) run f (decoder_at is (cf_pc c + 2)) (OpCode_value op) s)"
  unfolding code
  proof (cases op)
    case (Ko k)
    with at constant_step [OF rep1 ok _ r(2) pc1] iok1
    show "step_matches img depth s0 f is (step_cfg (img_double img) depth is c)
      (ProcessOpCode img (Suc n) run f (decoder_at is (cf_pc c + 2)) op s)" by (simp add: step_cfg_def)
  next
    case (Co k)
    with at control_step [OF rep1 ok _ void r(2) pc1] instruction_at_reads(3) [OF at]
    show "step_matches img depth s0 f is (step_cfg (img_double img) depth is c)
      (ProcessOpCode img (Suc n) run f (decoder_at is (cf_pc c + 2)) op s)" by (simp add: step_cfg_def)
  next
    case (Mo k)
    with at math_step [OF rep1 ok al, of "is" k n run] math
    show "step_matches img depth s0 f is (step_cfg (img_double img) depth is c)
      (ProcessOpCode img (Suc n) run f (decoder_at is (cf_pc c + 2)) op s)" by (simp add: step_cfg_def)
  qed (use at in \<open>simp_all add: step_cfg_def step_matches_def\<close>)
qed

section \<open>Runs\<close>

definition ends_with :: "FrameInterruptionReason \<Rightarrow> CallStackFrame \<Rightarrow> CallStackFrame" where
  "ends_with reason fr = fr\<lparr>fr_InterruptionReason := reason\<rparr>"

definition result_matches ::
  "image \<Rightarrow> nat \<Rightarrow> vm \<Rightarrow> nat \<Rightarrow> Instruction list \<Rightarrow> prim_result \<Rightarrow> (ByteCodeDecoder, vm) outcome \<Rightarrow> bool" where
  "result_matches img depth s0 f is res r =
     (case res of
        Halted c \<Rightarrow> (\<exists>t. r = Ret (decoder_at is (cf_pc c)) (set_frame f (ends_with EndOfInstructions) t)
                      \<and> cfg_rep img depth s0 f c t)
      | Failed e \<Rightarrow> (\<exists>t. r = Throw e t \<and> only_frame f s0 t)
      | Trapped \<Rightarrow> r = Undefined)"

lemma run_code_simulates:
  assumes ok: "primitives_ok img" and al: "allocator_ok img" and iok: "list_all instruction_ok is"
    and void: "returns_nothing img (frame_of f s0) is"
  shows "run_cfg (img_double img) depth is k c = Some res \<Longrightarrow> cfg_rep img depth s0 f c s \<Longrightarrow> k < n \<Longrightarrow>
    result_matches img depth s0 f is res (run_code img n (BodyLoop f (decoder_at is (cf_pc c))) s)"
proof (induction k arbitrary: c s n)
  case (Suc k)
  from Suc.prems(3) obtain n' where n: "n = Suc (Suc n')" "k < Suc n'" by (metis less_imp_Suc_add add_Suc_right less_Suc_eq_le le_add1 Suc_lessD Suc_less_eq)
  have quiet: "\<not> vm_AbortFlag s" "fr_InterruptionReason (frame_of f s) = NoReason"
    using Suc.prems(2) by (simp_all add: prim_rep_def)
  show ?case
  proof (cases "cf_pc c \<ge> length (program_bytes is)")
    case True
    have "set_frame f (\<lambda>fr. if fr_InterruptionReason fr \<noteq> ValueReturned
        then fr\<lparr>fr_InterruptionReason := EndOfInstructions\<rparr> else fr) s = set_frame f (ends_with EndOfInstructions) s"
      using quiet(2) by (simp add: set_frame_def ends_with_def frame_of_def)
    with True Suc.prems(1,2) quiet show ?thesis
      by (auto simp: n body_iteration_def IsEOF_def decoder_at_def result_matches_def)
  next
    case False
    then obtain op args where at: "instruction_at is (cf_pc c) = Some (Instruction op args)"
      using Suc.prems(1) by (cases "instruction_at is (cf_pc c)"; cases "the (instruction_at is (cf_pc c))")
        (auto simp: step_cfg_def)
    let ?r = "ProcessCode img (Suc n') (run_code img (Suc n')) f (decoder_at is (cf_pc c + 2)) (OpCode_value op) s"
    have loop: "run_code img n (BodyLoop f (decoder_at is (cf_pc c))) s =
        andThen (ProcessCode img (Suc n') (run_code img (Suc n')) f (decoder_at is (cf_pc c + 2)) (OpCode_value op))
          (\<lambda>d. run_code img (Suc n') (BodyLoop f d)) s"
      using False quiet interpreter_step(1) [OF Suc.prems(2) ok al iok void at]
      unfolding n run_code.simps(2) [of img "Suc n'"] by (simp add: body_iteration_def IsEOF_def decoder_at_def)
    have step: "step_matches img depth s0 f is (step_cfg (img_double img) depth is c) ?r"
      by (rule interpreter_step(2) [OF Suc.prems(2) ok al iok void at])
    show ?thesis
    proof (cases "step_cfg (img_double img) depth is c")
      case (Next c')
      with step obtain t where t: "?r = Ret (decoder_at is (cf_pc c')) t" "cfg_rep img depth s0 f c' t"
        by (auto simp: step_matches_def)
      have "run_cfg (img_double img) depth is k c' = Some res" using Suc.prems(1) False Next by simp
      from Suc.IH [OF this t(2) n(2)] show ?thesis unfolding loop andThen_def t(1) outcome.case .
    qed (use step Suc.prems(1) False in \<open>auto simp: loop andThen_def step_matches_def result_matches_def\<close>)
  qed
qed simp

end
