(* ===== verification/CodeEmitter.thy ===== *)
theory CodeEmitter
  imports SyntaxTrees
begin

text \<open>
  Code generation: \<^verbatim>\<open>include/shard/compilation/AbstractEmiter.hpp\<close> and
  \<^verbatim>\<open>src/compilation/AbstractEmiter.cpp\<close>, its state and the parts that do not visit the syntax tree.

  The emitter's members are one record; it also holds what code generation changes elsewhere: the
  method symbols (code, variable slots, layout), the slot of a variable, the data section and the
  entry point of the program, and the diagnostics. A visit is a function on the emitter that may throw
  or be undefined. Code and data sizes and the counters of the tracker are far below \<open>2 ^ 64\<close> and are natural numbers.
\<close>

section \<open>The state\<close>

record EvalLayoutTracker =
  trk_CurrentDepth :: nat
  trk_MaxDepth :: nat
  trk_MaxPayload :: nat
  trk_DeferBodyMax :: nat
  trk_Poisoned :: bool

definition EvalLayoutTracker_new :: EvalLayoutTracker where
  "EvalLayoutTracker_new =
     \<lparr>trk_CurrentDepth = 0, trk_MaxDepth = 0, trk_MaxPayload = 0, trk_DeferBodyMax = 0, trk_Poisoned = False\<rparr>"

text \<open>The members \<^verbatim>\<open>BlockEnd\<close>, \<^verbatim>\<open>LoopEnd\<close> and \<^verbatim>\<open>ClauseEnd\<close> of the scopes are read only where they are set.\<close>

record LoopScope =
  ls_LoopStart :: nat
  ls_BlockEndBacktracks :: "nat list"
  ls_LoopEndBacktracks :: "nat list"

record DeferScope =
  ds_Count :: nat
  ds_IsLoop :: bool

record AbstractEmiter =
  em_methods :: "ptr \<Rightarrow> MethodSymbol"
  em_SlotIndex :: "ptr \<Rightarrow> u16"
  em_DataSection :: bytes
  em_EntryPoint :: ptr
  em_Diagnostics :: "string list"
  em_EvalTracker :: EvalLayoutTracker
  em_GeneratingFor :: ptr
  em_EntryPointCandidates :: "ptr list"
  em_PopExpressionStatement :: bool
  em_Loops :: "LoopScope list"
  em_Clauses :: "nat list list"
  em_DeferScopes :: "DeferScope list"

text \<open>The stacks have their top first; \<open>em_DeferScopes\<close> has its \<^verbatim>\<open>back()\<close> first.\<close>

datatype emitted = Emitted AbstractEmiter | EmitThrows string | EmitUndefined

type_synonym em_op = "AbstractEmiter \<Rightarrow> emitted"

fun do_all :: "em_op list \<Rightarrow> em_op" where
  "do_all [] = Emitted"
| "do_all (x # xs) = (\<lambda>e. case x e of Emitted e' \<Rightarrow> do_all xs e' | r \<Rightarrow> r)"

abbreviation modify_em :: "(AbstractEmiter \<Rightarrow> AbstractEmiter) \<Rightarrow> em_op" where
  "modify_em h \<equiv> \<lambda>e. Emitted (h e)"

definition target_method :: "AbstractEmiter \<Rightarrow> MethodSymbol" where
  "target_method e = em_methods e (em_GeneratingFor e)"

definition code_of :: "AbstractEmiter \<Rightarrow> bytes" where
  "code_of e = me_ExecutableByteCode (target_method e)"

abbreviation code_size :: "AbstractEmiter \<Rightarrow> nat" where
  "code_size e \<equiv> length (code_of e)"

definition update_target :: "(MethodSymbol \<Rightarrow> MethodSymbol) \<Rightarrow> AbstractEmiter \<Rightarrow> AbstractEmiter" where
  "update_target h e = e\<lparr>em_methods := (em_methods e)(em_GeneratingFor e := h (target_method e))\<rparr>"

definition set_code :: "bytes \<Rightarrow> AbstractEmiter \<Rightarrow> AbstractEmiter" where
  "set_code code = update_target (\<lambda>m. m\<lparr>me_ExecutableByteCode := code\<rparr>)"

text \<open>A call of the encoder on the code of \<^verbatim>\<open>GeneratingFor\<close>, and a patched jump target.\<close>

definition emit :: "(bytes \<Rightarrow> bytes) \<Rightarrow> em_op" where
  "emit g e = (if em_GeneratingFor e = nullptr then EmitUndefined else Emitted (set_code (g (code_of e)) e))"

definition patch :: "nat \<Rightarrow> nat \<Rightarrow> em_op" where
  "patch backtrack target e =
     (case PasteData (code_of e) (backtrack + 2) (word_bytes (of_nat target :: u64)) of
        OutOfBounds \<Rightarrow> EmitThrows ''ByteCodeEncoder::PasteData: Out of bounds write!''
      | Overrun \<Rightarrow> EmitUndefined
      | Within code \<Rightarrow> Emitted (set_code code e))"

definition patch_all :: "nat list \<Rightarrow> nat \<Rightarrow> em_op" where
  "patch_all backtracks target = do_all (map (\<lambda>b. patch b target) backtracks)"

abbreviation report :: "string \<Rightarrow> em_op" where
  "report message \<equiv> modify_em (\<lambda>e. e\<lparr>em_Diagnostics := em_Diagnostics e @ [message]\<rparr>)"

section \<open>The layout tracker\<close>

definition EvalPush_tracker :: "nat \<Rightarrow> EvalLayoutTracker \<Rightarrow> EvalLayoutTracker" where
  "EvalPush_tracker payload t =
     (let depth = trk_CurrentDepth t + 1 in
      t\<lparr>trk_CurrentDepth := depth, trk_MaxDepth := max (trk_MaxDepth t) depth,
        trk_MaxPayload := max (trk_MaxPayload t) payload\<rparr>)"

definition EvalPop_tracker :: "nat \<Rightarrow> EvalLayoutTracker \<Rightarrow> EvalLayoutTracker" where
  "EvalPop_tracker count t =
     (if trk_CurrentDepth t < count then t\<lparr>trk_Poisoned := True, trk_CurrentDepth := 0\<rparr>
      else t\<lparr>trk_CurrentDepth := trk_CurrentDepth t - count\<rparr>)"

definition EvalDrainDefers_tracker :: "EvalLayoutTracker \<Rightarrow> EvalLayoutTracker" where
  "EvalDrainDefers_tracker t =
     t\<lparr>trk_MaxDepth := max (trk_MaxDepth t) (trk_CurrentDepth t + trk_DeferBodyMax t)\<rparr>"

text \<open>\<^verbatim>\<open>MaxEvalDepth\<close> has 32 bits.\<close>

definition PublishLayout :: "ptr \<Rightarrow> EvalLayoutTracker \<Rightarrow> AbstractEmiter \<Rightarrow> AbstractEmiter" where
  "PublishLayout method t e =
     (if method = nullptr \<or> trk_Poisoned t then e
      else e\<lparr>em_methods := (em_methods e)(method := (em_methods e method)\<lparr>
               me_MaxEvalDepth := trk_MaxDepth t mod 2 ^ 32,
               me_EvalSlotPayload := (if trk_MaxDepth t > 0 then max (trk_MaxPayload t) 1 else 0),
               me_IsComplete := True\<rparr>)\<rparr>)"

definition track :: "(EvalLayoutTracker \<Rightarrow> EvalLayoutTracker) \<Rightarrow> AbstractEmiter \<Rightarrow> AbstractEmiter" where
  "track h e = e\<lparr>em_EvalTracker := h (em_EvalTracker e)\<rparr>"

abbreviation EvalPush :: "nat \<Rightarrow> em_op" where
  "EvalPush payload \<equiv> modify_em (track (EvalPush_tracker payload))"

abbreviation EvalPop :: "nat \<Rightarrow> em_op" where
  "EvalPop count \<equiv> modify_em (track (EvalPop_tracker count))"

abbreviation EvalDrainDefers :: em_op where
  "EvalDrainDefers \<equiv> modify_em (track EvalDrainDefers_tracker)"

abbreviation set_depth :: "nat \<Rightarrow> em_op" where
  "set_depth depth \<equiv> modify_em (track (\<lambda>t. t\<lparr>trk_CurrentDepth := depth\<rparr>))"

abbreviation depth_of :: "AbstractEmiter \<Rightarrow> nat" where
  "depth_of e \<equiv> trk_CurrentDepth (em_EvalTracker e)"

definition EvalFinalizeTarget :: em_op where
  "EvalFinalizeTarget e =
     Emitted ((PublishLayout (em_GeneratingFor e) (em_EvalTracker e) e)\<lparr>em_EvalTracker := EvalLayoutTracker_new\<rparr>)"

definition SetGeneratingTarget :: "ptr \<Rightarrow> AbstractEmiter \<Rightarrow> AbstractEmiter" where
  "SetGeneratingTarget method e = e\<lparr>em_GeneratingFor := method, em_EvalTracker := EvalLayoutTracker_new\<rparr>"

abbreviation PrimitivePayload :: "bound_symbols \<Rightarrow> (bound_symbols \<Rightarrow> ptr) \<Rightarrow> nat" where
  "PrimitivePayload sem primitive \<equiv> ResolveTypePayload (sem_types sem) (primitive sem)"

definition push_slot :: "bound_symbols \<Rightarrow> u16 \<Rightarrow> em_op" where
  "push_slot sem slot e = EvalPush (SlotPayload (sem_types sem) (target_method e) slot) e"

text \<open>A local is loaded, or stored, and the tracker told so.\<close>

definition load_slot :: "bound_symbols \<Rightarrow> u16 \<Rightarrow> em_op" where
  "load_slot sem slot = do_all [emit (\<lambda>code. EmitLoadLocal code slot), push_slot sem slot]"

definition store_slot :: "u16 \<Rightarrow> em_op" where
  "store_slot slot = do_all [emit (\<lambda>code. EmitStoreLocal code slot), EvalPop 1]"

section \<open>Operators\<close>

definition IsAssignExpression :: "TokenType \<Rightarrow> bool" where
  "IsAssignExpression type \<longleftrightarrow> type \<in> set (map Op
     [AddAssignOperator, SubAssignOperator, MultAssignOperator, DivAssignOperator, ModAssignOperator,
      PowAssignOperator, AndAssignOperator, OrAssignOperator, AssignOperator, IncrementOperator, DecrementOperator])"

definition push_one :: "bound_symbols \<Rightarrow> em_op" where
  "push_one sem = do_all [emit (\<lambda>code. EmitLoadConstInt64 code 1), EvalPush (PrimitivePayload sem sem_Integer)]"

definition duplicate_integer :: "bound_symbols \<Rightarrow> em_op" where
  "duplicate_integer sem = do_all [emit EmitDuplicate, EvalPush (PrimitivePayload sem sem_Integer)]"

definition step_by_one :: "bound_symbols \<Rightarrow> (bytes \<Rightarrow> bytes) \<Rightarrow> bool \<Rightarrow> em_op" where
  "step_by_one sem math isRightDetermined =
     (let apply_one = do_all [push_one sem, emit math, EvalPop 2, EvalPush (PrimitivePayload sem sem_Integer)] in
      if isRightDetermined then do_all [apply_one, duplicate_integer sem]
      else do_all [duplicate_integer sem, apply_one])"

definition EmitUnaryOperation :: "bound_symbols \<Rightarrow> TokenType \<Rightarrow> bool \<Rightarrow> em_op" where
  "EmitUnaryOperation sem type isRightDetermined =
     (if type = Op SubOperator then
        do_all [emit EmitMathNegative, EvalPop 1, EvalPush (PrimitivePayload sem sem_Integer)]
      else if type = Op AddOperator then Emitted
      else if type = Op NotOperator then
        do_all [emit EmitLogicalNot, EvalPop 1, EvalPush (PrimitivePayload sem sem_Boolean)]
      else if type = Op IncrementOperator then step_by_one sem EmitMathAdd isRightDetermined
      else if type = Op DecrementOperator then step_by_one sem EmitMathSub isRightDetermined
      else (\<lambda>_. EmitThrows ''unknown operator''))"

definition IsLogicalComparisonToken :: "TokenType \<Rightarrow> bool" where
  "IsLogicalComparisonToken type \<longleftrightarrow> type \<in> set (map Op
     [EqualsOperator, NotEqualsOperator, GreaterOperator, GreaterOrEqualsOperator, LessOperator,
      LessOrEqualsOperator, OrOperator, AndOperator])"

text \<open>The instruction of a binary operator, one entry per \<^verbatim>\<open>case\<close> of the \<^verbatim>\<open>switch\<close>.\<close>

definition binary_instruction :: "OperatorToken \<Rightarrow> (bytes \<Rightarrow> bytes) option" where
  "binary_instruction op =
     (if op = AssignOperator then Some (\<lambda>code. code)
      else if op = AddOperator \<or> op = AddAssignOperator then Some EmitMathAdd
      else if op = SubOperator \<or> op = SubAssignOperator then Some EmitMathSub
      else if op = MultOperator \<or> op = MultAssignOperator then Some EmitMathMult
      else if op = DivOperator \<or> op = DivAssignOperator then Some EmitMathDiv
      else if op = ModOperator \<or> op = ModAssignOperator then Some EmitMathMod
      else if op = PowOperator \<or> op = PowAssignOperator then Some EmitMathPow
      else if op = EqualsOperator then Some EmitCompareEqual
      else if op = NotEqualsOperator then Some EmitCompareNotEqual
      else if op = GreaterOperator then Some EmitCompareGreater
      else if op = GreaterOrEqualsOperator then Some EmitCompareGreaterOrEqual
      else if op = LessOperator then Some EmitCompareLess
      else if op = LessOrEqualsOperator then Some EmitCompareLessOrEqual
      else if op = OrOperator \<or> op = OrAssignOperator then Some EmitLogicalOr
      else if op = AndOperator \<or> op = AndAssignOperator then Some EmitLogicalAnd
      else if op = NotOperator then Some EmitLogicalNot
      else if op = LeftShiftOperator then Some EmitMathShl
      else if op = RightShiftOperator then Some EmitMathShr
      else None)"

definition EmitBinaryOperation :: "bound_symbols \<Rightarrow> TokenType \<Rightarrow> em_op" where
  "EmitBinaryOperation sem type =
     (case type of
        Op op \<Rightarrow>
          (case binary_instruction op of
             None \<Rightarrow> (\<lambda>_. EmitThrows ''unknown operator'')
           | Some instruction \<Rightarrow>
               do_all [if op = AssignOperator then Emitted else emit instruction,
                 if op = AssignOperator then Emitted
                 else if op = NotOperator then do_all [EvalPop 1, EvalPush (PrimitivePayload sem sem_Boolean)]
                 else do_all [EvalPop 2, EvalPush (if IsLogicalComparisonToken type
                        then PrimitivePayload sem sem_Boolean else PrimitivePayload sem sem_Integer)]])
      | _ \<Rightarrow> (\<lambda>_. EmitThrows ''unknown operator''))"

section \<open>Calls\<close>

definition returns_value :: "bound_symbols \<Rightarrow> MethodSymbol \<Rightarrow> bool" where
  "returns_value sem m \<longleftrightarrow> me_ReturnType m \<noteq> nullptr \<and> me_ReturnType m \<noteq> sem_Void sem"

text \<open>The tracker's view of a call: the arguments go, a result comes.\<close>

definition track_call :: "bound_symbols \<Rightarrow> ptr \<Rightarrow> em_op" where
  "track_call sem method e =
     do_all [EvalPop (unat (GetEvalStackArgumentsCount (em_methods e method))),
       if returns_value sem (em_methods e method)
       then EvalPush (ResolveTypePayload (sem_types sem) (me_ReturnType (em_methods e method))) else Emitted] e"

definition EmitMethodCall :: "bound_symbols \<Rightarrow> ptr \<Rightarrow> em_op" where
  "EmitMethodCall sem method =
     (if method = nullptr then Emitted
      else do_all [emit (\<lambda>code. if IsInterfaceMember sem method then EmitCallInterface code method
                                else EmitCallMethodSymbol code method),
                   track_call sem method])"

text \<open>Arguments are visited from the last to the first.\<close>

definition VisitArgumentsList :: "em_op list option \<Rightarrow> em_op" where
  "VisitArgumentsList arguments = (case arguments of None \<Rightarrow> Emitted | Some visits \<Rightarrow> do_all (rev visits))"

definition EmitIndexatorArguments :: "em_op list option \<Rightarrow> em_op" where
  "EmitIndexatorArguments arguments = (case arguments of None \<Rightarrow> Emitted | Some visits \<Rightarrow> do_all (rev visits))"

text \<open>\<^verbatim>\<open>base + GeneratingFor->AddVariableCount(type)\<close>: a new local slot.\<close>

definition new_slot :: "bound_symbols \<Rightarrow> ptr \<Rightarrow> (u16 \<Rightarrow> em_op) \<Rightarrow> em_op" where
  "new_slot sem type use e =
     (let base = GetEvalStackArgumentsCount (target_method e);
          (index, m) = AddVariableCount (sem_types sem) type (target_method e)
      in use (base + index) (update_target (\<lambda>_. m) e))"

section \<open>Defers\<close>

definition EmitCurrentScopeDefers :: em_op where
  "EmitCurrentScopeDefers e =
     (case em_DeferScopes e of
        [] \<Rightarrow> Emitted e
      | scope # scopes \<Rightarrow>
          do_all [if ds_Count scope > 0
                  then do_all [emit (\<lambda>code. EmitDeferDrain code (of_nat (ds_Count scope))), EvalDrainDefers]
                  else Emitted,
                  modify_em (\<lambda>e. e\<lparr>em_DeferScopes := scope\<lparr>ds_Count := 0\<rparr> # scopes\<rparr>)] e)"

fun drain_until_loop :: "DeferScope list \<Rightarrow> nat \<times> DeferScope list" where
  "drain_until_loop [] = (0, [])"
| "drain_until_loop (scope # scopes) =
     (if ds_IsLoop scope then (ds_Count scope, scope\<lparr>ds_Count := 0\<rparr> # scopes)
      else let (count, rest) = drain_until_loop scopes in (ds_Count scope + count, scope\<lparr>ds_Count := 0\<rparr> # rest))"

definition drain :: "nat \<Rightarrow> em_op" where
  "drain count =
     (if count > 0 then do_all [emit (\<lambda>code. EmitDeferDrain code (of_nat count)), EvalDrainDefers] else Emitted)"

definition EmitDefersUntilLoop :: em_op where
  "EmitDefersUntilLoop e =
     (let (count, scopes) = drain_until_loop (em_DeferScopes e) in drain count (e\<lparr>em_DeferScopes := scopes\<rparr>))"

definition EmitAllDefers :: em_op where
  "EmitAllDefers e =
     drain (sum_list (map ds_Count (em_DeferScopes e)))
       (e\<lparr>em_DeferScopes := map (ds_Count_update (\<lambda>_. 0)) (em_DeferScopes e)\<rparr>)"

definition EmitDefer_statement :: "bound_symbols \<Rightarrow> ptr \<Rightarrow> ptr \<Rightarrow> bool \<Rightarrow> em_op \<Rightarrow> em_op" where
  "EmitDefer_statement sem variable disposeMethod isResourceDefer visitStatement e =
     (let outerTracker = em_EvalTracker e; deferOffset = code_size e in
      do_all [emit (\<lambda>code. EmitDefer code 0), (\<lambda>e.
        let jumpOverBacktrack = code_size e in
        do_all [emit (\<lambda>code. EmitJump code 0), modify_em (track (\<lambda>_. EvalLayoutTracker_new)), (\<lambda>e.
          let expressionStart = code_size e in
          do_all [if isResourceDefer then
                    do_all [if variable \<noteq> nullptr then (\<lambda>e. load_slot sem (em_SlotIndex e variable) e) else Emitted,
                            EmitMethodCall sem disposeMethod]
                  else visitStatement,
                  emit EmitDeferBreak, (\<lambda>e.
            let afterExpression = code_size e; inner = em_EvalTracker e;
                ok = (\<not> trk_Poisoned inner \<and> trk_CurrentDepth inner = 0) in
            do_all [modify_em (track (\<lambda>_. outerTracker\<lparr>
                      trk_DeferBodyMax := (if ok then max (trk_DeferBodyMax outerTracker) (trk_MaxDepth inner)
                                           else trk_DeferBodyMax outerTracker),
                      trk_Poisoned := (trk_Poisoned outerTracker \<or> \<not> ok),
                      trk_MaxPayload := max (trk_MaxPayload outerTracker) (trk_MaxPayload inner)\<rparr>)),
                    patch deferOffset expressionStart, patch jumpOverBacktrack afterExpression] e)] e)] e)] e)"

end
