(* ===== verification/CodeGeneration.thy ===== *)
theory CodeGeneration
  imports CodeEmitter
begin

text \<open>
  The visits of \<^verbatim>\<open>src/compilation/AbstractEmiter.cpp\<close>, with the dispatch of
  \<^verbatim>\<open>src/parsing/SyntaxVisitor.cpp\<close>. Every \<^verbatim>\<open>Visit\<close> function of the class is one definition here; it takes
  the visits of the node's children as arguments, and \<open>VisitExpression\<close>, \<open>VisitStatement\<close>,
  \<open>VisitStatementsBlock\<close> and \<open>VisitConditionalClause\<close> at the end choose it by the kind of the node, as
  \<^verbatim>\<open>SyntaxVisitor\<close> does.
\<close>

section \<open>Statements\<close>

definition VisitExpressionStatement :: "bound_symbols \<Rightarrow> SyntaxNode \<Rightarrow> em_op \<Rightarrow> em_op" where
  "VisitExpressionStatement sem expression visitExpression =
     do_all [visitExpression, (\<lambda>e.
       case expression of
         NullNode \<Rightarrow> EmitUndefined
       | InvokationExpressionSyntax targets previous arguments \<Rightarrow>
           if inv_Symbol targets = nullptr then EmitUndefined
           else if me_ReturnType (em_methods e (inv_Symbol targets)) \<noteq> sem_Void sem \<and> em_PopExpressionStatement e
           then do_all [emit EmitPop, EvalPop 1] e
           else Emitted e
       | _ \<Rightarrow> Emitted e)]"

definition VisitVariableStatement :: "ptr \<Rightarrow> em_op \<Rightarrow> em_op" where
  "VisitVariableStatement var visitExpression =
     do_all [visitExpression, (\<lambda>e. if var = nullptr then EmitUndefined else store_slot (em_SlotIndex e var) e)]"

definition VisitReturnStatement :: "SyntaxNode \<Rightarrow> em_op \<Rightarrow> em_op" where
  "VisitReturnStatement expression visitExpression =
     do_all [visitExpression, EmitAllDefers,
       modify_em (track (\<lambda>t. if trk_CurrentDepth t \<noteq> (if expression \<noteq> NullNode then 1 else 0)
                             then t\<lparr>trk_Poisoned := True\<rparr> else t)),
       emit EmitReturn, set_depth 0]"

definition VisitThrowStatement :: "SyntaxNode \<Rightarrow> em_op \<Rightarrow> em_op" where
  "VisitThrowStatement expression visitExpression =
     do_all [visitExpression,
       if expression \<noteq> NullNode then do_all [emit EmitThrow, EvalPop 1] else emit EmitRethrow,
       set_depth 0]"

definition VisitBreakStatement :: em_op where
  "VisitBreakStatement e =
     (if em_Loops e = [] then report ''break must be inside a loop or switch'' e
      else do_all [EmitDefersUntilLoop, (\<lambda>e.
        do_all [modify_em (\<lambda>e. e\<lparr>em_Loops := (hd (em_Loops e))\<lparr>
                  ls_LoopEndBacktracks := ls_LoopEndBacktracks (hd (em_Loops e)) @ [code_size e]\<rparr> # tl (em_Loops e)\<rparr>),
                emit (\<lambda>code. EmitJump code 0)] e)] e)"

definition VisitContinueStatement :: em_op where
  "VisitContinueStatement e =
     (if em_Loops e = [] then report ''continue must be inside a loop'' e
      else do_all [modify_em (\<lambda>e. e\<lparr>em_Loops := (hd (em_Loops e))\<lparr>
             ls_BlockEndBacktracks := ls_BlockEndBacktracks (hd (em_Loops e)) @ [code_size e]\<rparr> # tl (em_Loops e)\<rparr>),
           emit (\<lambda>code. EmitJump code 0)] e)"

definition VisitDeferStatement ::
  "bound_symbols \<Rightarrow> ptr \<Rightarrow> ptr \<Rightarrow> bool \<Rightarrow> em_op \<Rightarrow> em_op" where
  "VisitDeferStatement sem variable disposeMethod isResourceDefer visitStatement e =
     (if em_DeferScopes e = [] then report ''defer statement must be inside a block'' e
      else do_all [if isResourceDefer then visitStatement else Emitted,
        modify_em (\<lambda>e. e\<lparr>em_DeferScopes := (case em_DeferScopes e of
             [] \<Rightarrow> [] | scope # scopes \<Rightarrow> scope\<lparr>ds_Count := ds_Count scope + 1\<rparr> # scopes)\<rparr>),
        EmitDefer_statement sem variable disposeMethod isResourceDefer visitStatement] e)"

definition is_loop_parent :: "SyntaxKind \<Rightarrow> bool" where
  "is_loop_parent kind \<longleftrightarrow> kind \<in> set (map StmtK
     [WhileStatement, UntilStatement, ForStatement, ForEachStatement, SwitchStatement])"

definition VisitStatements :: "SyntaxKind \<Rightarrow> em_op list \<Rightarrow> em_op" where
  "VisitStatements parent visits =
     do_all [modify_em (\<lambda>e. e\<lparr>em_DeferScopes := \<lparr>ds_Count = 0, ds_IsLoop = is_loop_parent parent\<rparr> # em_DeferScopes e\<rparr>),
       do_all visits, EmitCurrentScopeDefers,
       modify_em (\<lambda>e. e\<lparr>em_DeferScopes := tl (em_DeferScopes e)\<rparr>)]"

section \<open>Loops\<close>

definition enter_loop :: em_op where
  "enter_loop = modify_em (\<lambda>e. e\<lparr>em_Loops :=
     \<lparr>ls_LoopStart = 0, ls_BlockEndBacktracks = [], ls_LoopEndBacktracks = []\<rparr> # em_Loops e\<rparr>)"

text \<open>A change of \<^verbatim>\<open>Loops.top()\<close>.\<close>

definition change_loop :: "(LoopScope \<Rightarrow> LoopScope) \<Rightarrow> AbstractEmiter \<Rightarrow> AbstractEmiter" where
  "change_loop h e = e\<lparr>em_Loops := h (hd (em_Loops e)) # tl (em_Loops e)\<rparr>"

definition mark_loop_start :: em_op where
  "mark_loop_start e = Emitted (change_loop (\<lambda>scope. scope\<lparr>ls_LoopStart := code_size e\<rparr>) e)"

definition note_loop_exit :: em_op where
  "note_loop_exit e = Emitted (change_loop (\<lambda>scope. scope\<lparr>
     ls_LoopEndBacktracks := ls_LoopEndBacktracks scope @ [code_size e]\<rparr>) e)"

text \<open>
  The end that all loops share: the jump back, the targets of \<^verbatim>\<open>continue\<close> and of the exits, and the
  scope is left.
\<close>

definition finish_loop :: em_op where
  "finish_loop e =
     (let blockEnd = code_size e; scope = hd (em_Loops e) in
      do_all [emit (\<lambda>code. EmitJump code (of_nat (ls_LoopStart scope))), (\<lambda>e.
        let loopEnd = code_size e in
        do_all [patch_all (ls_BlockEndBacktracks scope) blockEnd,
                patch_all (ls_LoopEndBacktracks scope) loopEnd,
                modify_em (\<lambda>e. e\<lparr>em_Loops := tl (em_Loops e)\<rparr>)] e)] e)"

definition VisitWhileStatement :: "em_op \<Rightarrow> em_op \<Rightarrow> em_op" where
  "VisitWhileStatement visitCondition visitBlock =
     do_all [enter_loop, mark_loop_start, visitCondition,
       note_loop_exit, emit (\<lambda>code. EmitJumpFalse code 0), EvalPop 1,
       visitBlock, finish_loop]"

definition VisitUntilStatement :: "em_op \<Rightarrow> em_op \<Rightarrow> em_op" where
  "VisitUntilStatement visitCondition visitBlock =
     do_all [enter_loop, mark_loop_start, visitCondition,
       note_loop_exit, emit (\<lambda>code. EmitJumpTrue code 0), EvalPop 1,
       visitBlock, finish_loop]"

definition VisitForStatement :: "em_op \<Rightarrow> em_op \<Rightarrow> em_op \<Rightarrow> em_op \<Rightarrow> em_op" where
  "VisitForStatement visitInitializer visitCondition visitAfterRepeat visitBlock =
     do_all [enter_loop, visitInitializer, mark_loop_start, visitCondition,
       note_loop_exit, emit (\<lambda>code. EmitJumpFalse code 0), EvalPop 1,
       visitBlock, visitAfterRepeat, finish_loop]"

definition EmitEnumerationLoop :: "bound_symbols \<Rightarrow> ptr \<Rightarrow> em_op \<Rightarrow> em_op \<Rightarrow> em_op" where
  "EmitEnumerationLoop sem loopVariable visitRange visitBlock e =
     do_all [enter_loop,
       new_slot sem (me_ReturnType (em_methods e (sem_GetEnumerator sem))) (\<lambda>enumeratorSlot.
         do_all [visitRange, EmitMethodCall sem (sem_GetEnumerator sem), store_slot enumeratorSlot,
           mark_loop_start, load_slot sem enumeratorSlot, EmitMethodCall sem (sem_MoveNext sem),
           note_loop_exit, emit (\<lambda>code. EmitJumpFalse code 0), EvalPop 1,
           load_slot sem enumeratorSlot, EmitMethodCall sem (sem_CurrentGet sem),
           if loopVariable \<noteq> nullptr then (\<lambda>e. store_slot (em_SlotIndex e loopVariable) e)
           else do_all [emit EmitPop, EvalPop 1],
           visitBlock, finish_loop])] e"

section \<open>Conditional clauses\<close>

definition VisitConditional ::
  "(bytes \<Rightarrow> u64 \<Rightarrow> bytes) \<Rightarrow> SyntaxKind \<Rightarrow> em_op \<Rightarrow> em_op \<Rightarrow> SyntaxNode \<Rightarrow> em_op \<Rightarrow> em_op" where
  "VisitConditional jump parent visitCondition visitBlock next_clause visitNext e =
     (let isFirst = \<not> IsConditionalClause parent;
          tmpPopExpressionStatement = em_PopExpressionStatement e in
      if \<not> isFirst \<and> em_Clauses e = [] then EmitUndefined
      else do_all [if isFirst then modify_em (\<lambda>e. e\<lparr>em_Clauses := [] # em_Clauses e\<rparr>) else Emitted,
        modify_em (\<lambda>e. e\<lparr>em_PopExpressionStatement := False\<rparr>),
        visitCondition,
        modify_em (\<lambda>e. e\<lparr>em_PopExpressionStatement := tmpPopExpressionStatement\<rparr>), (\<lambda>e.
          let conditionalJumpAddress = code_size e in
          do_all [emit (\<lambda>code. jump code 0), EvalPop 1, visitBlock, (\<lambda>e.
            if next_clause \<noteq> NullNode then
              (let endJumpAddress = code_size e in
               do_all [emit (\<lambda>code. EmitJump code 0),
                 modify_em (\<lambda>e. e\<lparr>em_Clauses := (hd (em_Clauses e) @ [endJumpAddress]) # tl (em_Clauses e)\<rparr>), (\<lambda>e.
                 patch conditionalJumpAddress (code_size e) e), visitNext] e)
            else patch conditionalJumpAddress (code_size e) e)] e),
        if isFirst then do_all [\<lambda>e. patch_all (hd (em_Clauses e)) (code_size e) e,
                                modify_em (\<lambda>e. e\<lparr>em_Clauses := tl (em_Clauses e)\<rparr>)]
        else Emitted] e)"

definition VisitIfStatement :: "SyntaxKind \<Rightarrow> em_op \<Rightarrow> em_op \<Rightarrow> SyntaxNode \<Rightarrow> em_op \<Rightarrow> em_op" where
  "VisitIfStatement = VisitConditional EmitJumpFalse"

definition VisitUnlessStatement :: "SyntaxKind \<Rightarrow> em_op \<Rightarrow> em_op \<Rightarrow> SyntaxNode \<Rightarrow> em_op \<Rightarrow> em_op" where
  "VisitUnlessStatement = VisitConditional EmitJumpTrue"

section \<open>Try\<close>

text \<open>
  The clauses one after another, with the positions the source keeps in its three vectors: the starts
  of the clauses, the jump at the end of each body, and the jump of each filter. The clause's type is
  \<^verbatim>\<open>Any\<close> when it has none.
\<close>

fun catch_clauses ::
  "bound_symbols \<Rightarrow> (SyntaxNode \<times> em_op) list \<Rightarrow> nat list \<Rightarrow> nat list \<Rightarrow> nat option list
     \<Rightarrow> (nat list \<Rightarrow> nat list \<Rightarrow> nat option list \<Rightarrow> em_op) \<Rightarrow> em_op" where
  "catch_clauses sem [] clauseStarts bodyEnds filterFails finish = finish clauseStarts bodyEnds filterFails"
| "catch_clauses sem ((clause, visitBody) # clauses) clauseStarts bodyEnds filterFails finish =
     (case clause of
        CatchClauseSyntax exceptionType catchVariable body \<Rightarrow> (\<lambda>e.
          let catchType = (if exceptionType \<noteq> nullptr then exceptionType else sem_Any sem);
              starts = clauseStarts @ [code_size e];
              rest = (\<lambda>filterFail.
                do_all [if catchVariable \<noteq> nullptr then (\<lambda>e. store_slot (em_SlotIndex e catchVariable) e)
                        else do_all [emit EmitPop, EvalPop 1],
                        visitBody, (\<lambda>e.
                  let bodyEnd = code_size e in
                  do_all [emit (\<lambda>code. EmitJump code 0),
                    catch_clauses sem clauses starts (bodyEnds @ [bodyEnd]) (filterFails @ [filterFail]) finish] e)])
          in if catchType \<noteq> sem_Any sem then
               do_all [emit EmitDuplicate, EvalPush 8, emit (\<lambda>code. EmitIsInstance code catchType), EvalPop 1,
                 EvalPush (PrimitivePayload sem sem_Boolean), (\<lambda>e.
                   let filterFail = code_size e in
                   do_all [emit (\<lambda>code. EmitJumpFalse code 0), EvalPop 1, rest (Some filterFail)] e)] e
             else rest None e)
      | _ \<Rightarrow> (\<lambda>_. EmitUndefined))"

text \<open>A filter that fails goes on at the next clause, the last one at the rethrow.\<close>

fun patch_filters :: "nat list \<Rightarrow> nat option list \<Rightarrow> nat \<Rightarrow> em_op" where
  "patch_filters (start # starts) (filterFail # filterFails) fallbackStart =
     do_all [case filterFail of None \<Rightarrow> Emitted
             | Some backtrack \<Rightarrow> patch backtrack (case starts of [] \<Rightarrow> fallbackStart | next_start # _ \<Rightarrow> next_start),
             patch_filters starts filterFails fallbackStart]"
| "patch_filters starts filterFails fallbackStart = Emitted"

definition VisitTryStatement ::
  "bound_symbols \<Rightarrow> em_op \<Rightarrow> (SyntaxNode \<times> em_op) list \<Rightarrow> em_op" where
  "VisitTryStatement sem visitTryBlock clauses e =
     (if clauses = [] then visitTryBlock e
      else
        let tryBaseDepth = depth_of e; enterTryBacktrack = code_size e in
        do_all [emit (\<lambda>code. EmitEnterTry code 0), visitTryBlock, emit EmitLeaveTry, (\<lambda>e.
          let tryEndJumpBacktrack = code_size e in
          do_all [emit (\<lambda>code. EmitJump code 0), (\<lambda>e. patch enterTryBacktrack (code_size e) e), set_depth 1,
            catch_clauses sem clauses [] [] [] (\<lambda>clauseStarts bodyEnds filterFails e.
              let fallbackStart = code_size e in
              do_all [emit EmitThrow, EvalPop 1, (\<lambda>e.
                let endLabel = code_size e in
                do_all [emit EmitEndCatch, set_depth tryBaseDepth,
                  patch_filters clauseStarts filterFails fallbackStart,
                  patch_all bodyEnds endLabel, patch tryEndJumpBacktrack endLabel] e)] e)] e)] e)"

section \<open>Switch\<close>

text \<open>
  A test of a case that fails goes on at the next arm: its jump is pending until that arm starts.
  \<open>pattern_test\<close> loads the switched value and tests its type, \<open>bind_pattern\<close> keeps it for the arm.
\<close>

definition patch_pending :: "nat option \<Rightarrow> em_op" where
  "patch_pending pending e = (case pending of None \<Rightarrow> Emitted e | Some backtrack \<Rightarrow> patch backtrack (code_size e) e)"

definition pattern_test :: "bound_symbols \<Rightarrow> u16 \<Rightarrow> ptr \<Rightarrow> em_op" where
  "pattern_test sem switchSlot targetType =
     do_all [load_slot sem switchSlot, emit (\<lambda>code. EmitIsInstance code targetType), EvalPop 1,
       EvalPush (PrimitivePayload sem sem_Boolean)]"

definition bind_pattern :: "bound_symbols \<Rightarrow> u16 \<Rightarrow> ptr \<Rightarrow> em_op" where
  "bind_pattern sem switchSlot variable =
     do_all [load_slot sem switchSlot,
       if variable \<noteq> nullptr then
         new_slot sem (sem_VariableType sem variable) (\<lambda>patternSlot.
           do_all [modify_em (\<lambda>e. e\<lparr>em_SlotIndex := (em_SlotIndex e)(variable := patternSlot)\<rparr>), store_slot patternSlot])
       else do_all [emit EmitPop, EvalPop 1]]"

definition isDefaultPattern :: "SyntaxNode \<Rightarrow> bool" where
  "isDefaultPattern pattern \<longleftrightarrow>
     (case pattern of
        LiteralExpressionSyntax token symbol \<Rightarrow> tok_Type token = Gen Identifier \<and> tok_Word token = L ''_''
      | _ \<Rightarrow> False)"

text \<open>The jump over the rest after an arm; \<open>next_arms\<close> gets its position.\<close>

definition arm_done :: "(nat \<Rightarrow> em_op) \<Rightarrow> em_op" where
  "arm_done next_arms e = (let jumpEnd = code_size e in do_all [emit (\<lambda>code. EmitJump code 0), next_arms jumpEnd] e)"

text \<open>The conditional jump after a test; \<open>rest\<close> gets its position.\<close>

definition unless_jump :: "(nat \<Rightarrow> em_op) \<Rightarrow> em_op" where
  "unless_jump rest e =
     (let jumpFalse = code_size e in do_all [emit (\<lambda>code. EmitJumpFalse code 0), EvalPop 1, rest jumpFalse] e)"

fun switch_arms ::
  "bound_symbols \<Rightarrow> u16 \<Rightarrow> nat \<Rightarrow> (SyntaxNode \<times> em_op \<times> em_op) list \<Rightarrow> nat option \<Rightarrow> nat list
     \<Rightarrow> (nat option \<Rightarrow> nat list \<Rightarrow> em_op) \<Rightarrow> em_op" where
  "switch_arms sem switchSlot armBaseDepth [] pending ends finish = finish pending ends"
| "switch_arms sem switchSlot armBaseDepth ((arm, visitPattern, visitExpression) # arms) pending ends finish =
     do_all [patch_pending pending, set_depth armBaseDepth,
       let next_arms = switch_arms sem switchSlot armBaseDepth arms in
       (case arm of
          SwitchArmSyntax arrowToken pattern expression \<Rightarrow>
            if pattern = NullNode \<or> expression = NullNode then next_arms None ends finish
            else if isDefaultPattern pattern then
              do_all [visitExpression, arm_done (\<lambda>jumpEnd. next_arms None (ends @ [jumpEnd]) finish)]
            else (case pattern of
              IsPatternSyntax targetType variable \<Rightarrow>
                if targetType = nullptr then next_arms None ends finish
                else do_all [pattern_test sem switchSlot targetType, unless_jump (\<lambda>jumpFalse.
                       do_all [bind_pattern sem switchSlot variable, visitExpression,
                         arm_done (\<lambda>jumpEnd. next_arms (Some jumpFalse) (ends @ [jumpEnd]) finish)])]
            | _ \<Rightarrow>
                do_all [report ''Only is Type name and _ patterns are supported in switch expressions'',
                        next_arms None ends finish])
        | _ \<Rightarrow> next_arms None ends finish)]"

definition VisitSwitchExpression ::
  "bound_symbols \<Rightarrow> SyntaxNode \<Rightarrow> em_op \<Rightarrow> (SyntaxNode \<times> em_op \<times> em_op) list \<Rightarrow> em_op" where
  "VisitSwitchExpression sem expression visitExpression arms =
     (if expression = NullNode \<or> arms = [] then do_all [emit EmitLoadConstNull, EvalPush 8]
      else do_all [visitExpression, new_slot sem nullptr (\<lambda>switchSlot.
        do_all [store_slot switchSlot, (\<lambda>e.
          let armBaseDepth = depth_of e in
          switch_arms sem switchSlot armBaseDepth arms None [] (\<lambda>pending ends.
            do_all [set_depth armBaseDepth, (\<lambda>e.
              let nullLoadOffset = code_size e in
              do_all [emit EmitLoadConstNull, EvalPush 8, (\<lambda>e.
                let endOffset = code_size e in
                do_all [case pending of None \<Rightarrow> Emitted | Some backtrack \<Rightarrow> patch backtrack nullLoadOffset,
                        patch_all ends endOffset] e)] e)]) e)])])"

fun switch_clauses ::
  "bound_symbols \<Rightarrow> u16 \<Rightarrow> nat \<Rightarrow> (SyntaxNode \<times> em_op \<times> em_op) list \<Rightarrow> nat option \<Rightarrow> nat list
     \<Rightarrow> (nat option \<Rightarrow> nat list \<Rightarrow> em_op) \<Rightarrow> em_op" where
  "switch_clauses sem switchSlot clauseBaseDepth [] pending ends finish = finish pending ends"
| "switch_clauses sem switchSlot clauseBaseDepth ((clause, visitPattern, visitBody) # clauses) pending ends finish =
     do_all [patch_pending pending, set_depth clauseBaseDepth,
       let next_clauses = switch_clauses sem switchSlot clauseBaseDepth clauses in
       (case clause of
          SwitchCaseClauseSyntax pattern body equalityOperator \<Rightarrow>
            if body = NullNode then next_clauses None ends finish
            else (case pattern of
              NullNode \<Rightarrow> do_all [visitBody, arm_done (\<lambda>jumpEnd. next_clauses None (ends @ [jumpEnd]) finish)]
            | IsPatternSyntax targetType variable \<Rightarrow>
                if targetType = nullptr then next_clauses None ends finish
                else do_all [pattern_test sem switchSlot targetType, unless_jump (\<lambda>jumpFalse.
                       do_all [bind_pattern sem switchSlot variable, visitBody,
                         arm_done (\<lambda>jumpEnd. next_clauses (Some jumpFalse) (ends @ [jumpEnd]) finish)])]
            | _ \<Rightarrow>
                do_all [if equalityOperator \<noteq> nullptr then
                          do_all [visitPattern, emit (\<lambda>code. EmitLoadLocal code switchSlot),
                                  EmitMethodCall sem equalityOperator]
                        else do_all [load_slot sem switchSlot, visitPattern, emit EmitCompareEqual, EvalPop 2,
                                     EvalPush (PrimitivePayload sem sem_Boolean)],
                        unless_jump (\<lambda>jumpFalse. do_all [visitBody,
                          arm_done (\<lambda>jumpEnd. next_clauses (Some jumpFalse) (ends @ [jumpEnd]) finish)])])
        | _ \<Rightarrow> next_clauses None ends finish)]"

definition VisitSwitchStatement ::
  "bound_symbols \<Rightarrow> SyntaxNode \<Rightarrow> em_op \<Rightarrow> (SyntaxNode \<times> em_op \<times> em_op) list \<Rightarrow> em_op" where
  "VisitSwitchStatement sem expression visitExpression clauses =
     (if expression = NullNode \<or> clauses = [] then Emitted
      else do_all [visitExpression, new_slot sem nullptr (\<lambda>switchSlot.
        do_all [store_slot switchSlot, (\<lambda>e.
          let clauseBaseDepth = depth_of e in
          do_all [enter_loop, switch_clauses sem switchSlot clauseBaseDepth clauses None [] (\<lambda>pending ends.
            do_all [set_depth clauseBaseDepth, (\<lambda>e.
              let endOffset = code_size e in
              do_all [case pending of None \<Rightarrow> Emitted | Some backtrack \<Rightarrow> patch backtrack endOffset,
                      patch_all ends endOffset,
                      patch_all (ls_LoopEndBacktracks (hd (em_Loops e))) endOffset,
                      modify_em (\<lambda>e. e\<lparr>em_Loops := tl (em_Loops e)\<rparr>)] e)])] e)])])"

section \<open>Expressions\<close>

definition VisitLiteralExpression :: "bound_symbols \<Rightarrow> SyntaxToken \<Rightarrow> LiteralSymbol option \<Rightarrow> em_op" where
  "VisitLiteralExpression sem token looked_up =
     (case looked_up of
        None \<Rightarrow> (\<lambda>_. EmitUndefined)
      | Some symbol \<Rightarrow>
          if lit_LiteralType symbol = Lit NullLiteral then do_all [emit EmitLoadConstNull, EvalPush 8]
          else if lit_LiteralType symbol = Lit CharLiteral then
            do_all [emit (\<lambda>code. EmitLoadConstChar16 code (case tok_Word token of [] \<Rightarrow> 0 | c # _ \<Rightarrow> c)),
                    EvalPush (PrimitivePayload sem sem_Char)]
          else if lit_LiteralType symbol = Lit StringLiteral then
            do_all [(\<lambda>e. let (code, data) = EmitLoadConstString (code_of e) (em_DataSection e) (tok_Word token) in
                      do_all [emit (\<lambda>_. code), modify_em (\<lambda>e. e\<lparr>em_DataSection := data\<rparr>)] e), EvalPush 8]
          else if lit_LiteralType symbol = Lit NumberLiteral then
            do_all [emit (\<lambda>code. EmitLoadConstInt64 code (AsIntegerValue symbol)),
                    EvalPush (PrimitivePayload sem sem_Integer),
                    if lit_BoundType symbol \<noteq> nullptr \<and> lit_BoundType symbol \<noteq> sem_Integer sem then
                      do_all [emit (\<lambda>code. EmitCastPrimitive code (lit_BoundType symbol)), EvalPop 1,
                              EvalPush (ResolveTypePayload (sem_types sem) (lit_BoundType symbol))]
                    else Emitted]
          else if lit_LiteralType symbol = Lit DoubleLiteral then
            do_all [emit (\<lambda>code. EmitLoadConstDouble64 code (AsDoubleValue symbol)),
                    EvalPush (PrimitivePayload sem sem_Double)]
          else if lit_LiteralType symbol = Lit BooleanLiteral then
            do_all [emit (\<lambda>code. EmitLoadConstBool code (AsBooleanValue symbol)),
                    EvalPush (PrimitivePayload sem sem_Boolean)]
          else (\<lambda>_. EmitThrows ''unsupported literal type''))"

text \<open>
  The concrete types of a generic type's parameters, as arguments of the next creation or call. A
  parameter without one is left out.
\<close>

definition load_type_arguments :: "nat \<Rightarrow> ptr list \<Rightarrow> em_op" where
  "load_type_arguments base concretes =
     do_all (map (\<lambda>(i, concreteType).
       if concreteType \<noteq> nullptr then emit (\<lambda>code. EmitLoadTypeArgument code (of_nat (base + i)) concreteType)
       else Emitted) (enumerate 0 concretes))"

definition generic_arguments :: "bound_symbols \<Rightarrow> ptr \<Rightarrow> ptr list" where
  "generic_arguments sem genericType =
     (let generic = sem_types sem genericType in
      map (SubstituteTypeParameters generic) (ty_TypeParameters (sem_types sem (ty_UnderlayingType generic))))"

definition VisitObjectCreationExpression ::
  "bound_symbols \<Rightarrow> ObjectTargets \<Rightarrow> em_op \<Rightarrow> em_op \<Rightarrow> em_op" where
  "VisitObjectCreationExpression sem targets visitArguments visitArraySize =
     (let symbol = obj_Symbol targets; ctor = obj_CtorSymbol targets in
      if obj_IsArrayCreation targets then
        do_all [visitArraySize,
          emit (\<lambda>code. EmitNewArrayDynamic code
            (if symbol \<noteq> nullptr \<and> ty_Kind (sem_types sem symbol) = TypeK ArrayType then symbol else nullptr)),
          EvalPop 1, EvalPush 8]
      else
        do_all [if symbol \<noteq> nullptr \<and> ty_Kind (sem_types sem symbol) = TypeK GenericType
                then load_type_arguments 0 (generic_arguments sem symbol) else Emitted,
          visitArguments, emit (\<lambda>code. EmitNewObject code symbol ctor), EvalPush 8,
          if ctor \<noteq> nullptr then (\<lambda>e. EvalPop (unat (GetEvalStackArgumentsCount (em_methods e ctor))) e) else EvalPop 1,
          EvalPush (ResolveTypePayload (sem_types sem) symbol)])"

definition VisitCollectionExpression :: "bound_symbols \<Rightarrow> ptr \<Rightarrow> em_op list \<Rightarrow> em_op" where
  "VisitCollectionExpression sem symbol visitValues =
     do_all [do_all (rev visitValues), emit (\<lambda>code. EmitNewArray code symbol),
       if symbol \<noteq> nullptr then EvalPop (ty_Length (sem_types sem symbol)) else EvalPop 1, EvalPush 8]"

definition VisitRangeExpression :: "bound_symbols \<Rightarrow> bool \<Rightarrow> em_op \<Rightarrow> em_op \<Rightarrow> em_op" where
  "VisitRangeExpression sem isInclusive visitLeft visitRight =
     do_all [visitLeft, visitRight, emit (\<lambda>code. EmitLoadConstBool code isInclusive),
       EvalPush (PrimitivePayload sem sem_Boolean), emit (\<lambda>code. EmitCreateRange code (sem_IntegerArray sem)),
       EvalPop 3, EvalPush 8]"

definition VisitTernaryExpression :: "em_op \<Rightarrow> em_op \<Rightarrow> em_op \<Rightarrow> em_op" where
  "VisitTernaryExpression visitCondition visitLeft visitRight =
     do_all [visitCondition, (\<lambda>e.
       let jumpFalseAddress = code_size e in
       do_all [emit (\<lambda>code. EmitJumpFalse code 0), EvalPop 1, (\<lambda>e.
         let armBaseDepth = depth_of e in
         do_all [visitLeft, (\<lambda>e.
           let jumpEndAddress = code_size e in
           do_all [emit (\<lambda>code. EmitJump code 0), set_depth armBaseDepth, (\<lambda>e.
             let rightAddress = code_size e in
             do_all [visitRight, (\<lambda>e.
               let ternaryEndAddress = code_size e in
               do_all [patch jumpFalseAddress rightAddress, patch jumpEndAddress ternaryEndAddress] e)] e)] e)] e)] e)]"

definition VisitCastExpression :: "bound_symbols \<Rightarrow> ptr \<Rightarrow> ptr \<Rightarrow> bool \<Rightarrow> em_op \<Rightarrow> em_op" where
  "VisitCastExpression sem targetType toOperator isPrimitiveCast visitExpression =
     do_all [visitExpression,
       if targetType = nullptr then Emitted
       else if toOperator \<noteq> nullptr then EmitMethodCall sem toOperator
       else if isPrimitiveCast then
         do_all [emit (\<lambda>code. EmitCastPrimitive code targetType), EvalPop 1,
                 EvalPush (ResolveTypePayload (sem_types sem) targetType)]
       else do_all [emit (\<lambda>code. EmitCast code targetType), EvalPop 1, EvalPush 8]]"

definition VisitIsExpression :: "bound_symbols \<Rightarrow> ptr \<Rightarrow> em_op \<Rightarrow> em_op" where
  "VisitIsExpression sem targetType visitExpression =
     do_all [visitExpression,
       if targetType \<noteq> nullptr then
         do_all [emit (\<lambda>code. EmitIsInstance code targetType), EvalPop 1, EvalPush (PrimitivePayload sem sem_Boolean)]
       else Emitted]"

text \<open>
  \<^verbatim>\<open>VisitLambdaExpression\<close>. The body is generated for the closure's method, with tracker and defer scopes
  of its own; the stack of loops is the surrounding one.
\<close>

definition capture_field :: "bound_symbols \<Rightarrow> ptr \<times> ptr \<Rightarrow> em_op" where
  "capture_field sem capture =
     (let (captured, field) = capture in
      do_all [emit EmitDuplicate, EvalPush 8,
        if sem_Kind sem captured = PartK Parameter then load_slot sem (sem_ParameterSlot sem captured)
        else if sem_Kind sem captured = StmtK VariableStatement then (\<lambda>e. load_slot sem (em_SlotIndex e captured) e)
        else Emitted,
        emit (\<lambda>code. EmitStoreField code (fld_SlotIndex (sem_fields sem field))), EvalPop 2])"

definition finish_target :: em_op where
  "finish_target =
     do_all [modify_em (track (\<lambda>t. if trk_CurrentDepth t \<noteq> 0 then t\<lparr>trk_Poisoned := True\<rparr> else t)),
       emit EmitReturn, EvalFinalizeTarget]"

definition VisitLambdaExpression :: "bound_symbols \<Rightarrow> LambdaTargets \<Rightarrow> SyntaxNode \<Rightarrow> em_op \<Rightarrow> em_op" where
  "VisitLambdaExpression sem targets body visitBody e =
     (let previous = em_GeneratingFor e; previousDefers = em_DeferScopes e; outerTracker = em_EvalTracker e;
          symbol = lam_Symbol targets; ctor = lam_ClosureConstructor targets;
          anonymous = sem_AnonymousSymbol sem symbol in
      if (lam_ClosureMethod targets = nullptr \<and> symbol = nullptr) \<or> body = NullNode then EmitUndefined
      else do_all [
        modify_em (\<lambda>e. e\<lparr>em_GeneratingFor :=
              (if lam_ClosureMethod targets \<noteq> nullptr then lam_ClosureMethod targets else anonymous),
            em_DeferScopes := [], em_EvalTracker := EvalLayoutTracker_new\<rparr>),
        visitBody, finish_target,
        modify_em (\<lambda>e. e\<lparr>em_EvalTracker := outerTracker, em_DeferScopes := previousDefers, em_GeneratingFor := previous\<rparr>),
        if lam_ClosureClass targets \<noteq> nullptr then
          do_all [emit (\<lambda>code. EmitNewObject code (lam_ClosureClass targets) ctor), EvalPush 8,
            if ctor \<noteq> nullptr then (\<lambda>e. EvalPop (unat (GetEvalStackArgumentsCount (em_methods e ctor))) e) else EvalPop 1,
            do_all (map (capture_field sem) (lam_CaptureFields targets)),
            emit (\<lambda>code. EmitNewDelegate code symbol),
            (\<lambda>e. if symbol \<noteq> nullptr \<and> anonymous \<noteq> nullptr \<and> me_Linking (em_methods e anonymous) = LINK_INSTANCE
                 then EvalPop 1 e else Emitted e),
            EvalPush 8]
        else do_all [emit (\<lambda>code. EmitNewDelegate code symbol), EvalPush 8]] e)"

section \<open>Members and assignments\<close>

definition VisitMemberAccessExpression :: "bound_symbols \<Rightarrow> MemberTargets \<Rightarrow> SyntaxToken \<Rightarrow> em_op \<Rightarrow> em_op" where
  "VisitMemberAccessExpression sem targets identifier visitPrevious =
     (if ma_ToParameter targets \<noteq> nullptr then load_slot sem (sem_ParameterSlot sem (ma_ToParameter targets))
      else if ma_ToVariable targets \<noteq> nullptr then (\<lambda>e. load_slot sem (em_SlotIndex e (ma_ToVariable targets)) e)
      else if ma_ToField targets \<noteq> nullptr then
        (let field = sem_fields sem (ma_ToField targets) in
         if sem_IsEnumValue sem (ma_ToField targets) then
           do_all [emit (\<lambda>code. EmitLoadEnumField code (ma_ToField targets)),
                   EvalPush (ResolveTypePayload (sem_types sem) (fld_ReturnType field))]
         else if fld_Linking field = LINK_STATIC then
           do_all [emit (\<lambda>code. EmitLoadStaticField code (ma_ToField targets)), EvalPush 8]
         else do_all [visitPrevious, emit (\<lambda>code. EmitLoadField code (fld_SlotIndex field)), EvalPop 1,
                      EvalPush (ResolveTypePayload (sem_types sem) (fld_ReturnType field))])
      else if ma_ToProperty targets \<noteq> nullptr then
        (let getter = prp_Getter (sem_properties sem (ma_ToProperty targets)) in
         if getter = nullptr then Emitted else do_all [visitPrevious, EmitMethodCall sem getter])
      else if ma_ToDelegate targets \<noteq> nullptr then
        (let anonymous = sem_AnonymousSymbol sem (ma_ToDelegate targets) in
         do_all [emit (\<lambda>code. EmitNewDelegate code (ma_ToDelegate targets)),
           (\<lambda>e. if anonymous \<noteq> nullptr \<and> me_Linking (em_methods e anonymous) = LINK_INSTANCE then EvalPop 1 e else Emitted e),
           EvalPush 8])
      else if ma_ToOperator targets \<noteq> nullptr then
        do_all [(\<lambda>e. let (code, data) = EmitLoadConstString (code_of e) (em_DataSection e) (tok_Word identifier) in
                   do_all [emit (\<lambda>_. code), modify_em (\<lambda>e. e\<lparr>em_DataSection := data\<rparr>)] e),
                EvalPush 8, visitPrevious, EmitMethodCall sem (ma_ToOperator targets)]
      else Emitted)"

definition VisitIndexatorExpression :: "bound_symbols \<Rightarrow> MemberTargets \<Rightarrow> em_op \<Rightarrow> em_op \<Rightarrow> em_op" where
  "VisitIndexatorExpression sem targets visitPrevious visitIndices =
     (if ma_ToProperty targets = nullptr then Emitted
      else do_all [visitIndices, visitPrevious,
                   EmitMethodCall sem (prp_Getter (sem_properties sem (ma_ToProperty targets)))])"

text \<open>
  The operand of \<^verbatim>\<open>++\<close> and \<^verbatim>\<open>--\<close> and the left side of an assignment is cast to a member access without a
  test; anything else is undefined.
\<close>

fun member_targets :: "SyntaxNode \<Rightarrow> MemberTargets option" where
  "member_targets (MemberAccessExpressionSyntax targets identifier previous) = Some targets"
| "member_targets (IndexatorExpressionSyntax targets identifier previous indices) = Some targets"
| "member_targets _ = None"

definition VisitUnaryAssignExpression ::
  "bound_symbols \<Rightarrow> TokenType \<Rightarrow> bool \<Rightarrow> SyntaxNode \<Rightarrow> em_op \<Rightarrow> em_op \<Rightarrow> em_op" where
  "VisitUnaryAssignExpression sem type isRightDetermined operand visitPrevious visitIndices =
     (let operation = EmitUnaryOperation sem type isRightDetermined in
      case member_targets operand of
        None \<Rightarrow> (\<lambda>_. EmitUndefined)
      | Some targets \<Rightarrow>
          if ma_ToParameter targets \<noteq> nullptr then
            (let slot = sem_ParameterSlot sem (ma_ToParameter targets) in
             do_all [load_slot sem slot, operation, store_slot slot])
          else if ma_ToVariable targets \<noteq> nullptr then (\<lambda>e.
            let slot = em_SlotIndex e (ma_ToVariable targets) in
            do_all [load_slot sem slot, operation, store_slot slot] e)
          else if ma_ToField targets \<noteq> nullptr then
            (let field = sem_fields sem (ma_ToField targets) in
             if fld_Linking field = LINK_STATIC then
               do_all [emit (\<lambda>code. EmitLoadStaticField code (ma_ToField targets)), EvalPush 8, operation,
                       emit (\<lambda>code. EmitStoreStaticField code (ma_ToField targets)), EvalPop 1]
             else
               do_all [visitPrevious, emit EmitDuplicate, EvalPush 8,
                       emit (\<lambda>code. EmitLoadField code (fld_SlotIndex field)), EvalPop 1,
                       EvalPush (ResolveTypePayload (sem_types sem) (fld_ReturnType field)), operation,
                       emit (\<lambda>code. EmitStoreField code (fld_SlotIndex field)), EvalPop 2])
          else if ma_ToProperty targets \<noteq> nullptr then
            (let getter = prp_Getter (sem_properties sem (ma_ToProperty targets));
                 setter = prp_Setter (sem_properties sem (ma_ToProperty targets)) in (\<lambda>e.
             if (getter \<noteq> nullptr \<and> me_Linking (em_methods e getter) = LINK_STATIC) \<or>
                (setter \<noteq> nullptr \<and> me_Linking (em_methods e setter) = LINK_STATIC) then
               do_all [EmitMethodCall sem getter, operation, EmitMethodCall sem setter] e
             else new_slot sem nullptr (\<lambda>tempThisSlot. new_slot sem nullptr (\<lambda>tempValueSlot.
               do_all [visitPrevious, emit EmitDuplicate, EvalPush 8, visitIndices, EmitMethodCall sem getter, operation,
                 store_slot tempValueSlot, store_slot tempThisSlot, visitIndices,
                 load_slot sem tempValueSlot, load_slot sem tempThisSlot, EmitMethodCall sem setter])) e))
          else Emitted)"

definition VisitUnaryExpression ::
  "bound_symbols \<Rightarrow> TokenType \<Rightarrow> bool \<Rightarrow> ptr \<Rightarrow> SyntaxNode \<Rightarrow> em_op \<Rightarrow> em_op \<Rightarrow> em_op \<Rightarrow> em_op" where
  "VisitUnaryExpression sem type isRightDetermined toOperator operand visitOperand visitPrevious visitIndices =
     (if IsAssignExpression type
      then VisitUnaryAssignExpression sem type isRightDetermined operand visitPrevious visitIndices
      else if toOperator \<noteq> nullptr then do_all [visitOperand, EmitMethodCall sem toOperator]
      else do_all [visitOperand, EmitUnaryOperation sem type isRightDetermined])"

definition VisitBinaryAssignExpression ::
  "bound_symbols \<Rightarrow> SyntaxNode \<Rightarrow> em_op \<Rightarrow> em_op \<Rightarrow> em_op \<Rightarrow> em_op" where
  "VisitBinaryAssignExpression sem left visitRight visitPrevious visitIndices =
     (case member_targets left of
        None \<Rightarrow> (\<lambda>_. EmitUndefined)
      | Some targets \<Rightarrow>
          if ma_ToParameter targets \<noteq> nullptr then
            do_all [visitRight, store_slot (sem_ParameterSlot sem (ma_ToParameter targets))]
          else if ma_ToVariable targets \<noteq> nullptr then
            do_all [visitRight, \<lambda>e. store_slot (em_SlotIndex e (ma_ToVariable targets)) e]
          else if ma_ToProperty targets \<noteq> nullptr then
            (let setter = prp_Setter (sem_properties sem (ma_ToProperty targets)) in
             do_all [visitRight, visitIndices,
               (\<lambda>e. if setter = nullptr \<or> me_Linking (em_methods e setter) = LINK_INSTANCE then visitPrevious e else Emitted e),
               EmitMethodCall sem setter])
          else if ma_ToField targets \<noteq> nullptr then
            (let field = sem_fields sem (ma_ToField targets) in
             if fld_Linking field = LINK_STATIC then
               do_all [emit (\<lambda>code. EmitStoreStaticField code (ma_ToField targets)), EvalPop 1]
             else do_all [visitPrevious, visitRight,
                          emit (\<lambda>code. EmitStoreField code (fld_SlotIndex field)), EvalPop 2])
          else Emitted)"

definition VisitBinaryExpression ::
  "bound_symbols \<Rightarrow> TokenType \<Rightarrow> ptr \<Rightarrow> SyntaxNode \<Rightarrow> em_op \<Rightarrow> em_op \<Rightarrow> em_op \<Rightarrow> em_op \<Rightarrow> em_op" where
  "VisitBinaryExpression sem type toOperator left visitLeft visitRight visitPrevious visitIndices =
     (if IsAssignExpression type then VisitBinaryAssignExpression sem left visitRight visitPrevious visitIndices
      else if toOperator \<noteq> nullptr then do_all [visitRight, visitLeft, EmitMethodCall sem toOperator]
      else do_all [visitLeft, visitRight, EmitBinaryOperation sem type])"

text \<open>
  \<^verbatim>\<open>VisitInvocationExpression\<close>. Both branches visit the arguments, then the receiver; a member of an
  interface takes no type arguments.
\<close>

definition call_delegate :: "bound_symbols \<Rightarrow> ptr \<Rightarrow> em_op" where
  "call_delegate sem method =
     (let delegateType = (if method \<noteq> nullptr then
            (case mem_Parents (sem_members sem method) of
               [] \<Rightarrow> nullptr
             | owner # _ \<Rightarrow> if own_Kind owner = DeclK DelegateDeclaration then own_Symbol owner else nullptr)
          else nullptr);
          anonymous = (if delegateType \<noteq> nullptr then sem_AnonymousSymbol sem delegateType else nullptr)
      in do_all [emit (\<lambda>code. EmitCallDelegate code delegateType), EvalPop 1,
           if anonymous \<noteq> nullptr then
             do_all [\<lambda>e. if me_Linking (em_methods e anonymous) = LINK_INSTANCE then EvalPush 8 e else Emitted e,
                     track_call sem anonymous]
           else do_all [EvalPop 1, EvalPush 8]])"

definition VisitInvocationExpression ::
  "bound_symbols \<Rightarrow> InvokationTargets \<Rightarrow> em_op \<Rightarrow> em_op \<Rightarrow> em_op" where
  "VisitInvocationExpression sem targets visitArguments visitPrevious =
     (let method = inv_Symbol targets; receiver = inv_ReceiverType targets;
          generic = (\<not> inv_IsExtensionMethodInvocation targets \<and> receiver \<noteq> nullptr \<and>
                     ty_Kind (sem_types sem receiver) = TypeK GenericType);
          owner_arguments = (if generic then generic_arguments sem receiver else []);
          ownerParamCount = (if generic then length owner_arguments
             else if method \<noteq> nullptr then
               (case mem_Parents (sem_members sem method) of
                  [] \<Rightarrow> 0
                | owner # _ \<Rightarrow> if own_IsType owner then length (ty_TypeParameters (sem_types sem (own_Symbol owner))) else 0)
             else 0);
          hasTypeArguments = list_ex (\<lambda>t. t \<noteq> nullptr) (owner_arguments @ inv_BoundTypeArguments targets)
      in if method \<noteq> nullptr \<and> IsInterfaceMember sem method
         then do_all [visitArguments, visitPrevious, EmitMethodCall sem method]
         else do_all [visitArguments, visitPrevious,
           load_type_arguments 0 owner_arguments,
           load_type_arguments ownerParamCount (inv_BoundTypeArguments targets),
           if inv_IsDelegateInvocation targets then call_delegate sem method
           else if hasTypeArguments then
             do_all [emit (\<lambda>code. EmitCallMethodSymbol code method),
                     if method \<noteq> nullptr then track_call sem method else do_all [EvalPop 1, EvalPush 8]]
           else EmitMethodCall sem method])"

section \<open>The dispatch\<close>

text \<open>
  What each way of visiting a node does: as an expression, as a statement with the kind of its parent,
  as a block, as a conditional clause; and the visits of the children of a node that the handler of its
  parent takes apart. A kind that a \<^verbatim>\<open>switch\<close> of the visitor does not list throws.
\<close>

record node_visits =
  nv_expression :: em_op
  nv_statement :: "SyntaxKind \<Rightarrow> em_op"
  nv_block :: "SyntaxKind \<Rightarrow> em_op"
  nv_clause :: "SyntaxKind \<Rightarrow> em_op"
  nv_parts :: "em_op \<times> em_op"

definition other_node :: node_visits where
  "other_node =
     \<lparr>nv_expression = (\<lambda>_. EmitThrows ''unknown expression kind''),
      nv_statement = (\<lambda>parent _. EmitThrows ''unknown statement kind''),
      nv_block = (\<lambda>parent _. EmitUndefined),
      nv_clause = (\<lambda>parent _. EmitThrows ''unknown conditional clause kind''),
      nv_parts = (Emitted, Emitted)\<rparr>"

abbreviation expression_node :: "em_op \<Rightarrow> node_visits" where
  "expression_node visit \<equiv> other_node\<lparr>nv_expression := visit\<rparr>"

abbreviation statement_node :: "em_op \<Rightarrow> node_visits" where
  "statement_node visit \<equiv> other_node\<lparr>nv_statement := \<lambda>parent. visit\<rparr>"

abbreviation conditional_node :: "(SyntaxKind \<Rightarrow> em_op) \<Rightarrow> node_visits" where
  "conditional_node visit \<equiv> other_node\<lparr>nv_statement := visit, nv_clause := visit\<rparr>"

primrec visits :: "bound_symbols \<Rightarrow> SyntaxNode \<Rightarrow> node_visits" where
  "visits sem NullNode =
     \<lparr>nv_expression = Emitted, nv_statement = (\<lambda>parent. Emitted), nv_block = (\<lambda>parent. Emitted),
      nv_clause = (\<lambda>parent. Emitted), nv_parts = (Emitted, Emitted)\<rparr>"
| "visits sem (LiteralExpressionSyntax token symbol) = expression_node (VisitLiteralExpression sem token symbol)"
| "visits sem (BinaryExpressionSyntax token left right toOperator) = expression_node
     (VisitBinaryExpression sem (tok_Type token) toOperator left (nv_expression (visits sem left)) (nv_expression (visits sem right))
       (fst (nv_parts (visits sem left))) (snd (nv_parts (visits sem left))))"
| "visits sem (UnaryExpressionSyntax token operand isRightDetermined toOperator) = expression_node
     (VisitUnaryExpression sem (tok_Type token) isRightDetermined toOperator operand (nv_expression (visits sem operand))
       (fst (nv_parts (visits sem operand))) (snd (nv_parts (visits sem operand))))"
| "visits sem (AwaitExpressionSyntax expression) = expression_node (nv_expression (visits sem expression))"
| "visits sem (MemberAccessExpressionSyntax targets identifier previous) =
     (expression_node (VisitMemberAccessExpression sem targets identifier (nv_expression (visits sem previous))))
       \<lparr>nv_parts := (nv_expression (visits sem previous), Emitted)\<rparr>"
| "visits sem (IndexatorExpressionSyntax targets identifier previous indices) =
     (let visitPrevious = nv_expression (visits sem previous);
          visitIndices = EmitIndexatorArguments (map_option (map (\<lambda>node. nv_expression (visits sem node))) indices)
      in (expression_node (VisitIndexatorExpression sem targets visitPrevious visitIndices))
           \<lparr>nv_parts := (visitPrevious, visitIndices)\<rparr>)"
| "visits sem (InvokationExpressionSyntax targets previous arguments) = expression_node
     (VisitInvocationExpression sem targets
       (VisitArgumentsList (map_option (map (\<lambda>node. nv_expression (visits sem node))) arguments))
       (nv_expression (visits sem previous)))"
| "visits sem (ObjectExpressionSyntax targets arguments arraySize) = expression_node
     (VisitObjectCreationExpression sem targets
       (VisitArgumentsList (map_option (map (\<lambda>node. nv_expression (visits sem node))) arguments))
       (nv_expression (visits sem arraySize)))"
| "visits sem (CollectionExpressionSyntax nodes symbol) = expression_node
     (VisitCollectionExpression sem symbol (map (\<lambda>node. nv_expression (visits sem node)) nodes))"
| "visits sem (RangeExpressionSyntax left right isInclusive) = expression_node
     (VisitRangeExpression sem isInclusive (nv_expression (visits sem left)) (nv_expression (visits sem right)))"
| "visits sem (LambdaExpressionSyntax targets body) = expression_node
     (VisitLambdaExpression sem targets body (nv_block (visits sem body) (ExprK LambdaExpression)))"
| "visits sem TypeExpressionSyntax = expression_node Emitted"
| "visits sem (TernaryExpressionSyntax condition left right) = expression_node
     (VisitTernaryExpression (nv_expression (visits sem condition)) (nv_expression (visits sem left))
       (nv_expression (visits sem right)))"
| "visits sem (IfExpressionSyntax condition thenExpression elseExpression) = expression_node
     (do_all [nv_expression (visits sem condition), nv_expression (visits sem thenExpression),
              nv_expression (visits sem elseExpression)])"
| "visits sem (SwitchExpressionSyntax expression arms) = expression_node
     (VisitSwitchExpression sem expression (nv_expression (visits sem expression))
       (map (\<lambda>arm. (arm, nv_parts (visits sem arm))) arms))"
| "visits sem (SwitchArmSyntax token pattern expression) =
     other_node\<lparr>nv_parts := (nv_expression (visits sem pattern), nv_expression (visits sem expression))\<rparr>"
| "visits sem (CastExpressionSyntax expression targetType toOperator isPrimitiveCast) = expression_node
     (VisitCastExpression sem targetType toOperator isPrimitiveCast (nv_expression (visits sem expression)))"
| "visits sem (IsExpressionSyntax expression targetType) = expression_node
     (VisitIsExpression sem targetType (nv_expression (visits sem expression)))"
| "visits sem (IsPatternSyntax targetType variable) = expression_node Emitted"
| "visits sem (ExpressionStatementSyntax expression) = statement_node
     (VisitExpressionStatement sem expression (nv_expression (visits sem expression)))"
| "visits sem (VariableStatementSyntax variable expression) = statement_node
     (VisitVariableStatement variable (nv_expression (visits sem expression)))"
| "visits sem (ReturnStatementSyntax expression) = statement_node
     (VisitReturnStatement expression (nv_expression (visits sem expression)))"
| "visits sem (ThrowStatementSyntax expression) = statement_node
     (VisitThrowStatement expression (nv_expression (visits sem expression)))"
| "visits sem (BreakStatementSyntax token) = statement_node VisitBreakStatement"
| "visits sem (ContinueStatementSyntax token) = statement_node VisitContinueStatement"
| "visits sem (WhileStatementSyntax condition block) = statement_node
     (VisitWhileStatement (nv_expression (visits sem condition)) (nv_block (visits sem block) (StmtK WhileStatement)))"
| "visits sem (UntilStatementSyntax condition block) = statement_node
     (VisitUntilStatement (nv_expression (visits sem condition)) (nv_block (visits sem block) (StmtK UntilStatement)))"
| "visits sem (ForStatementSyntax initializer condition afterRepeat block) = statement_node
     (VisitForStatement (nv_statement (visits sem initializer) (StmtK ForStatement)) (nv_expression (visits sem condition))
       (nv_statement (visits sem afterRepeat) (StmtK ForStatement)) (nv_block (visits sem block) (StmtK ForStatement)))"
| "visits sem (ForEachStatementSyntax variable rangeExpression block) = statement_node
     (EmitEnumerationLoop sem variable (nv_expression (visits sem rangeExpression))
       (nv_block (visits sem block) (StmtK ForEachStatement)))"
| "visits sem (ForInStatementSyntax variable rangeExpression block) = statement_node
     (EmitEnumerationLoop sem variable (nv_expression (visits sem rangeExpression))
       (nv_block (visits sem block) (StmtK ForInStatement)))"
| "visits sem (IfStatementSyntax condition block next_clause) = conditional_node (\<lambda>parent.
     VisitIfStatement parent (nv_statement (visits sem condition) (StmtK IfStatement))
       (nv_block (visits sem block) (StmtK IfStatement)) next_clause
       (nv_clause (visits sem next_clause) (StmtK IfStatement)))"
| "visits sem (UnlessStatementSyntax condition block next_clause) = conditional_node (\<lambda>parent.
     VisitUnlessStatement parent (nv_statement (visits sem condition) (StmtK UnlessStatement))
       (nv_block (visits sem block) (StmtK UnlessStatement)) next_clause
       (nv_clause (visits sem next_clause) (StmtK UnlessStatement)))"
| "visits sem (ElseStatementSyntax block next_clause) =
     other_node\<lparr>nv_clause := \<lambda>parent. nv_block (visits sem block) (StmtK ElseStatement)\<rparr>"
| "visits sem (TryStatementSyntax tryBlock clauses) = statement_node
     (VisitTryStatement sem (nv_block (visits sem tryBlock) (StmtK TryStatement))
       (map (\<lambda>clause. (clause, fst (nv_parts (visits sem clause)))) clauses))"
| "visits sem (CatchClauseSyntax exceptionType variable body) =
     other_node\<lparr>nv_parts := (nv_block (visits sem body) (StmtK CatchClause), Emitted)\<rparr>"
| "visits sem (SwitchStatementSyntax expression clauses) = statement_node
     (VisitSwitchStatement sem expression (nv_expression (visits sem expression))
       (map (\<lambda>clause. (clause, nv_parts (visits sem clause))) clauses))"
| "visits sem (SwitchCaseClauseSyntax pattern body equalityOperator) =
     other_node\<lparr>nv_parts := (nv_expression (visits sem pattern), nv_block (visits sem body) (StmtK SwitchCaseClause))\<rparr>"
| "visits sem (DeferStatementSyntax token statement variable disposeMethod isResourceDefer) = statement_node
     (VisitDeferStatement sem variable disposeMethod isResourceDefer
       (nv_statement (visits sem statement) (StmtK DeferStatement)))"
| "visits sem (StatementsBlockSyntax statements) =
     other_node\<lparr>nv_block := \<lambda>parent. VisitStatements parent
       (map (\<lambda>statement. nv_statement (visits sem statement) (PartK StatementsBlock)) statements)\<rparr>"

definition VisitExpression :: "bound_symbols \<Rightarrow> SyntaxNode \<Rightarrow> em_op" where
  "VisitExpression sem node = nv_expression (visits sem node)"

definition VisitStatement :: "bound_symbols \<Rightarrow> SyntaxKind \<Rightarrow> SyntaxNode \<Rightarrow> em_op" where
  "VisitStatement sem parent node = nv_statement (visits sem node) parent"

definition VisitStatementsBlock :: "bound_symbols \<Rightarrow> SyntaxKind \<Rightarrow> SyntaxNode \<Rightarrow> em_op" where
  "VisitStatementsBlock sem parent node = nv_block (visits sem node) parent"

definition VisitConditionalClause :: "bound_symbols \<Rightarrow> SyntaxKind \<Rightarrow> SyntaxNode \<Rightarrow> em_op" where
  "VisitConditionalClause sem parent node = nv_clause (visits sem node) parent"

section \<open>Declarations\<close>

text \<open>
  The handlers of declarations. \<^verbatim>\<open>reserve\<close> and \<^verbatim>\<open>shrink_to_fit\<close> do not change the code. A body that is
  \<^verbatim>\<open>nullptr\<close> is not visited.
\<close>

definition leave_target :: em_op where
  "leave_target = modify_em (\<lambda>e. e\<lparr>em_GeneratingFor := nullptr\<rparr>)"

definition check_entry_point :: "bound_symbols \<Rightarrow> ptr \<Rightarrow> em_op" where
  "check_entry_point sem method e =
     (let m = em_methods e method; info = sem_members sem method in
      do_all [modify_em (\<lambda>e. e\<lparr>em_EntryPointCandidates := em_EntryPointCandidates e @ [method]\<rparr>),
        if \<not> mem_IsPublic info then report ''Main entry point should be public'' else Emitted,
        if me_Linking m = LINK_INSTANCE then report ''Main entry point should be static'' else Emitted,
        if me_Parameters m \<noteq> [] then report ''Main entry point should have empty parameters list'' else Emitted,
        if me_ReturnType m \<noteq> sem_Void sem then report ''Main entry point should have void return type'' else Emitted,
        (case mem_Parents info of
           [] \<Rightarrow> Emitted
         | owner # _ \<Rightarrow>
             if own_IsType owner \<and> ty_TypeParameters (sem_types sem (own_Symbol owner)) \<noteq> []
             then report ''Type containing entry point should not have any type parameters'' else Emitted)] e)"

definition VisitMethodDeclaration :: "bound_symbols \<Rightarrow> ptr \<Rightarrow> SyntaxNode \<Rightarrow> em_op" where
  "VisitMethodDeclaration sem method body =
     do_all [modify_em (\<lambda>e. e\<lparr>em_GeneratingFor := method\<rparr>),
       if method = nullptr then report ''Emiting target not found''
       else if mem_IsAsync (sem_members sem method) \<and> mem_AsyncStateMachineClass (sem_members sem method) \<noteq> nullptr
       then leave_target
       else do_all [VisitStatementsBlock sem (DeclK MethodDeclaration) body, finish_target,
         if mem_Name (sem_members sem method) = L ''Main'' then check_entry_point sem method else Emitted,
         leave_target]]"

definition VisitOperatorDeclaration :: "bound_symbols \<Rightarrow> ptr \<Rightarrow> SyntaxNode \<Rightarrow> em_op" where
  "VisitOperatorDeclaration sem method body =
     do_all [modify_em (\<lambda>e. e\<lparr>em_GeneratingFor := method\<rparr>),
       if method = nullptr then report ''Emiting target not found''
       else do_all [VisitStatementsBlock sem (DeclK OperatorDeclaration) body, finish_target, leave_target]]"

definition VisitConstructorDeclaration :: "bound_symbols \<Rightarrow> ptr \<Rightarrow> SyntaxNode \<Rightarrow> em_op" where
  "VisitConstructorDeclaration sem method body =
     do_all [modify_em (\<lambda>e. e\<lparr>em_GeneratingFor := method\<rparr>),
       if method = nullptr then report ''Emiting target not found''
       else do_all [VisitStatementsBlock sem (DeclK ConstructorDeclaration) body, finish_target, leave_target]]"

text \<open>
  An accessor without a body reads or writes the backing field of its property; \<open>property\<close> is
  \<open>None\<close> when its parent is not a property.
\<close>

definition VisitAccessorDeclaration ::
  "bound_symbols \<Rightarrow> ptr \<Rightarrow> TokenType \<Rightarrow> ptr option \<Rightarrow> SyntaxNode \<Rightarrow> em_op" where
  "VisitAccessorDeclaration sem method keyword property body =
     do_all [modify_em (\<lambda>e. e\<lparr>em_GeneratingFor := method\<rparr>),
       if method = nullptr then report ''Emiting target not found''
       else do_all [
         if body \<noteq> NullNode then VisitStatementsBlock sem (DeclK AccessorDeclaration) body
         else (case property of
           None \<Rightarrow> Emitted
         | Some symbol \<Rightarrow>
             let backingField = prp_BackingField (sem_properties sem symbol);
                 field = sem_fields sem backingField in
             if backingField = nullptr then (\<lambda>_. EmitThrows ''property backing field not found'')
             else if keyword = Md GetKeyword then
               do_all [load_slot sem 0, emit (\<lambda>code. EmitLoadField code (fld_SlotIndex field)), EvalPop 1,
                       EvalPush (ResolveTypePayload (sem_types sem) (fld_ReturnType field))]
             else if keyword = Md SetKeyword then
               do_all [load_slot sem 0, load_slot sem 1,
                       emit (\<lambda>code. EmitStoreField code (fld_SlotIndex field)), EvalPop 2]
             else Emitted),
         finish_target, leave_target]]"

text \<open>\<^verbatim>\<open>SetEntryPoint\<close>: one error for every candidate when there are several.\<close>

definition SetEntryPoint :: em_op where
  "SetEntryPoint e =
     (case em_EntryPointCandidates e of
        [] \<Rightarrow> report ''Entry point for script not found'' e
      | [entry] \<Rightarrow> Emitted (e\<lparr>em_EntryPoint := entry, em_EntryPointCandidates := []\<rparr>)
      | candidates \<Rightarrow> do_all (map (\<lambda>_. report ''Script cannot have multiple entry points'') candidates) e)"

end
