(* ===== verification/EmittedItems.thy ===== *)
theory EmittedItems
  imports PrimitivePrograms CodeGeneration
begin

text \<open>
  What a visit of the emitter leaves behind. Generated code is a list of items: instructions, and
  jumps whose target is not known yet and is patched when the loop or the chain of conditional clauses
  around them ends. \<open>advance\<close> is the effect of a visit on the emitter: the items are appended to the
  code, the positions of the open jumps are noted in the innermost loop and clause scope, and the
  tracker has followed the evaluation stack.
\<close>

section \<open>Items\<close>

datatype item = Fixed Instruction | ToBreak ControlOp | ToContinue | ToEnd

definition jump_instruction :: "ControlOp \<Rightarrow> nat \<Rightarrow> Instruction" where
  "jump_instruction k target = Instruction (Co k) [U64 (of_nat target)]"

fun item_instruction :: "nat \<Rightarrow> item \<Rightarrow> Instruction" where
  "item_instruction target (Fixed i) = i"
| "item_instruction target (ToBreak k) = jump_instruction k target"
| "item_instruction target ToContinue = jump_instruction JUMP target"
| "item_instruction target ToEnd = jump_instruction JUMP target"

fun is_break :: "item \<Rightarrow> bool" where
  "is_break (ToBreak k) \<longleftrightarrow> True"
| "is_break _ \<longleftrightarrow> False"

fun is_continue :: "item \<Rightarrow> bool" where
  "is_continue ToContinue \<longleftrightarrow> True"
| "is_continue _ \<longleftrightarrow> False"

fun is_end :: "item \<Rightarrow> bool" where
  "is_end ToEnd \<longleftrightarrow> True"
| "is_end _ \<longleftrightarrow> False"

definition settle :: "(item \<Rightarrow> bool) \<Rightarrow> nat \<Rightarrow> item \<Rightarrow> item" where
  "settle P target i = (if P i then Fixed (item_instruction target i) else i)"

definition item_size :: "item \<Rightarrow> nat" where
  "item_size i = length (instruction_bytes (item_instruction 0 i))"

definition items_size :: "item list \<Rightarrow> nat" where
  "items_size items = sum_list (map item_size items)"

definition items_bytes :: "item list \<Rightarrow> bytes" where
  "items_bytes items = program_bytes (map (item_instruction 0) items)"

fun places :: "(item \<Rightarrow> bool) \<Rightarrow> nat \<Rightarrow> item list \<Rightarrow> nat list" where
  "places P a [] = []"
| "places P a (i # items) = (if P i then [a] else []) @ places P (a + item_size i) items"

lemma settle_Fixed [simp]: "settle is_break t (Fixed i) = Fixed i" "settle is_continue t (Fixed i) = Fixed i"
  "settle is_end t (Fixed i) = Fixed i" "settle is_break t ToContinue = ToContinue" "settle is_break t ToEnd = ToEnd"
  "settle is_continue t (ToBreak k) = ToBreak k" "settle is_continue t ToEnd = ToEnd"
  "settle is_end t (ToBreak k) = ToBreak k" "settle is_end t ToContinue = ToContinue"
  "settle is_break t (ToBreak k) = Fixed (jump_instruction k t)" "settle is_end t ToEnd = Fixed (jump_instruction JUMP t)"
  "settle is_continue t ToContinue = Fixed (jump_instruction JUMP t)"
  by (simp_all add: settle_def)

lemma length_jump [simp]: "length (instruction_bytes (jump_instruction k t)) = 10"
  by (simp add: jump_instruction_def)

lemma item_size_simps [simp]:
  "item_size (ToBreak k) = 10" "item_size ToContinue = 10" "item_size ToEnd = 10"
  "item_size (Fixed (jump_instruction k t)) = 10"
  by (simp_all add: item_size_def)

lemma item_size_settle [simp]: "item_size (settle P t i) = item_size i"
  by (cases i) (simp_all add: settle_def item_size_def)

lemma items_size_simps [simp]:
  "items_size [] = 0" "items_size (i # is) = item_size i + items_size is"
  "items_size (is @ js) = items_size is + items_size js" "items_size (map (settle P t) is) = items_size is"
  by (simp_all add: items_size_def comp_def)

lemma items_bytes_simps [simp]:
  "items_bytes [] = []" "items_bytes (i # is) = instruction_bytes (item_instruction 0 i) @ items_bytes is"
  "items_bytes (is @ js) = items_bytes is @ items_bytes js"
  by (simp_all add: items_bytes_def program_bytes_def)

lemma length_items_bytes [simp]: "length (items_bytes is) = items_size is"
  by (induction "is") (simp_all add: item_size_def)

lemma places_append [simp]: "places P a (is @ js) = places P a is @ places P (a + items_size is) js"
  by (induction "is" arbitrary: a) (simp_all add: add.assoc)

lemma places_none: "(\<And>i. i \<in> set is \<Longrightarrow> \<not> P i) \<Longrightarrow> places P a is = []"
  by (induction "is" arbitrary: a) simp_all

lemma places_Fixed [simp]:
  "places is_break a (map Fixed is) = []" "places is_continue a (map Fixed is) = []" "places is_end a (map Fixed is) = []"
  by (rule places_none, auto)+

lemma settle_places [simp]:
  "places is_break a (map (settle is_break t) is) = []"
  "places is_continue a (map (settle is_continue t) is) = []"
  "places is_end a (map (settle is_end t) is) = []"
  "places is_break a (map (settle is_continue t) is) = places is_break a is"
  "places is_break a (map (settle is_end t) is) = places is_break a is"
  "places is_continue a (map (settle is_break t) is) = places is_continue a is"
  "places is_continue a (map (settle is_end t) is) = places is_continue a is"
  "places is_end a (map (settle is_break t) is) = places is_end a is"
  "places is_end a (map (settle is_continue t) is) = places is_end a is"
proof -
  have other: "places P a (map (settle Q t) is) = places P a is" if "\<And>i. P (settle Q t i) = P i" for P Q
    by (induction "is" arbitrary: a) (simp_all add: that)
  show "places is_break a (map (settle is_break t) is) = []"
    "places is_continue a (map (settle is_continue t) is) = []"
    "places is_end a (map (settle is_end t) is) = []"
    by (rule places_none, auto simp: settle_def)+
  show "places is_break a (map (settle is_continue t) is) = places is_break a is"
    "places is_break a (map (settle is_end t) is) = places is_break a is"
    "places is_continue a (map (settle is_break t) is) = places is_continue a is"
    "places is_continue a (map (settle is_end t) is) = places is_continue a is"
    "places is_end a (map (settle is_break t) is) = places is_end a is"
    "places is_end a (map (settle is_continue t) is) = places is_end a is"
    by (rule other, (case_tac i; simp))+
qed

section \<open>The effect of a visit\<close>

definition deeper :: "nat \<Rightarrow> nat \<Rightarrow> nat \<Rightarrow> nat" where
  "deeper n d n' = (if n' = 0 then n else max n (d + n'))"

definition advance_tracker :: "nat \<Rightarrow> nat \<Rightarrow> nat \<Rightarrow> EvalLayoutTracker \<Rightarrow> EvalLayoutTracker" where
  "advance_tracker d n p t = t\<lparr>trk_CurrentDepth := trk_CurrentDepth t + d,
     trk_MaxDepth := deeper (trk_MaxDepth t) (trk_CurrentDepth t) n, trk_MaxPayload := max (trk_MaxPayload t) p\<rparr>"

lemma deeper_simps [simp]:
  "deeper n d 0 = n" "deeper n 0 n' = max n n'" "0 < n' \<Longrightarrow> deeper n d n' = max n (d + n')"
  by (simp_all add: deeper_def)

definition note_jumps :: "nat list \<Rightarrow> nat list \<Rightarrow> nat list \<Rightarrow> AbstractEmiter \<Rightarrow> AbstractEmiter" where
  "note_jumps breaks continues ends e = e\<lparr>
     em_Loops := (case em_Loops e of [] \<Rightarrow> [] | scope # loops \<Rightarrow> scope\<lparr>
       ls_BlockEndBacktracks := ls_BlockEndBacktracks scope @ continues,
       ls_LoopEndBacktracks := ls_LoopEndBacktracks scope @ breaks\<rparr> # loops),
     em_Clauses := (case em_Clauses e of [] \<Rightarrow> [] | scope # scopes \<Rightarrow> (scope @ ends) # scopes)\<rparr>"

text \<open>\<open>d\<close> values stay on the stack, at most \<open>n\<close> were there at a time, none larger than \<open>p\<close> bytes.\<close>

definition advance :: "item list \<Rightarrow> nat \<Rightarrow> nat \<Rightarrow> nat \<Rightarrow> AbstractEmiter \<Rightarrow> AbstractEmiter" where
  "advance items d n p e =
     note_jumps (places is_break (code_size e) items) (places is_continue (code_size e) items)
       (places is_end (code_size e) items)
       (track (advance_tracker d n p) (set_code (code_of e @ items_bytes items) e))"

lemma set_code_simps [simp]:
  "code_of (set_code code e) = code" "em_GeneratingFor (set_code code e) = em_GeneratingFor e"
  "em_SlotIndex (set_code code e) = em_SlotIndex e" "em_EvalTracker (set_code code e) = em_EvalTracker e"
  "em_Loops (set_code code e) = em_Loops e" "em_Clauses (set_code code e) = em_Clauses e"
  "em_DeferScopes (set_code code e) = em_DeferScopes e" "em_DataSection (set_code code e) = em_DataSection e"
  "em_PopExpressionStatement (set_code code e) = em_PopExpressionStatement e"
  "em_EntryPoint (set_code code e) = em_EntryPoint e" "em_Diagnostics (set_code code e) = em_Diagnostics e"
  "em_EntryPointCandidates (set_code code e) = em_EntryPointCandidates e"
  "target_method (set_code code e) = (target_method e)\<lparr>me_ExecutableByteCode := code\<rparr>"
  "set_code code (set_code code' e) = set_code code e" "set_code (code_of e) e = e"
  by (simp_all add: set_code_def update_target_def code_of_def target_method_def)

lemma code_of_update [simp]:
  "code_of (track h e) = code_of e" "code_of (note_jumps bs cs es e) = code_of e"
  "code_of (e\<lparr>em_Loops := ls\<rparr>) = code_of e" "code_of (e\<lparr>em_Clauses := cls\<rparr>) = code_of e"
  "code_of (e\<lparr>em_DeferScopes := ds\<rparr>) = code_of e" "code_of (e\<lparr>em_PopExpressionStatement := pop\<rparr>) = code_of e"
  "code_of (e\<lparr>em_EvalTracker := tr\<rparr>) = code_of e"
  by (simp_all add: code_of_def target_method_def track_def note_jumps_def)

lemma target_method_update [simp]:
  "target_method (track h e) = target_method e" "target_method (note_jumps bs cs es e) = target_method e"
  "target_method (e\<lparr>em_Loops := ls\<rparr>) = target_method e" "target_method (e\<lparr>em_Clauses := cls\<rparr>) = target_method e"
  "target_method (e\<lparr>em_DeferScopes := ds\<rparr>) = target_method e"
  "target_method (e\<lparr>em_PopExpressionStatement := pop\<rparr>) = target_method e"
  by (simp_all add: target_method_def track_def note_jumps_def)

lemma advance_simps [simp]:
  "code_of (advance items d n p e) = code_of e @ items_bytes items"
  "em_GeneratingFor (advance items d n p e) = em_GeneratingFor e" "em_SlotIndex (advance items d n p e) = em_SlotIndex e"
  "em_DeferScopes (advance items d n p e) = em_DeferScopes e"
  "em_PopExpressionStatement (advance items d n p e) = em_PopExpressionStatement e"
  "em_EvalTracker (advance items d n p e) = advance_tracker d n p (em_EvalTracker e)"
  "target_method (advance items d n p e) = (target_method e)\<lparr>me_ExecutableByteCode := code_of e @ items_bytes items\<rparr>"
  "(em_Loops (advance items d n p e) = []) = (em_Loops e = [])"
  "(em_Clauses (advance items d n p e) = []) = (em_Clauses e = [])"
  by (simp_all add: advance_def) (simp_all add: note_jumps_def track_def split: list.split)

lemma depth_advance [simp]: "trk_CurrentDepth (advance_tracker d n p t) = trk_CurrentDepth t + d"
  by (simp add: advance_tracker_def)

lemma advance_advance [simp]:
  "advance js d' n' p' (advance is d n p e) = advance (is @ js) (d + d') (deeper n d n') (max p p') e"
proof (rule AbstractEmiter.equality)
  show "em_methods (advance js d' n' p' (advance is d n p e))
      = em_methods (advance (is @ js) (d + d') (deeper n d n') (max p p') e)"
    by (simp add: advance_def note_jumps_def track_def set_code_def update_target_def target_method_def code_of_def)
qed (simp_all add: advance_def note_jumps_def track_def advance_tracker_def deeper_def add.assoc max.assoc nat_add_max_right split: list.split)

lemma advance_nothing [simp]: "advance [] 0 0 0 e = e"
  by (rule AbstractEmiter.equality)
    (simp_all add: advance_def note_jumps_def track_def advance_tracker_def split: list.split)

section \<open>The steps of the emitter\<close>

lemma advance_code: "advance items 0 0 0 e = note_jumps (places is_break (code_size e) items)
    (places is_continue (code_size e) items) (places is_end (code_size e) items) (set_code (code_of e @ items_bytes items) e)"
  by (simp add: advance_def advance_tracker_def track_def set_code_def update_target_def)

lemma note_nothing [simp]: "note_jumps [] [] [] e = e"
  by (simp add: note_jumps_def split: list.split)

lemma emit_advance:
  assumes "g (code_of e) = code_of e @ instruction_bytes i" "em_GeneratingFor e \<noteq> nullptr"
  shows "emit g e = Emitted (advance [Fixed i] 0 0 0 e)"
  using assms by (simp add: emit_def advance_code)

lemma push_advance [simp]: "track (EvalPush_tracker p) e = advance [] 1 1 p e"
  by (simp add: advance_def track_def advance_tracker_def EvalPush_tracker_def Let_def deeper_def)

lemma pop_advance [simp]: "k \<le> d \<Longrightarrow> track (EvalPop_tracker k) (advance items d n p e) = advance items (d - k) n p e"
  by (simp add: advance_def track_def advance_tracker_def EvalPop_tracker_def note_jumps_def Let_def)

lemma set_depth_advance [simp]:
  "track (\<lambda>t. t\<lparr>trk_CurrentDepth := depth_of e\<rparr>) (advance items d n p e) = advance items 0 n p e"
  by (simp add: advance_def track_def advance_tracker_def note_jumps_def)

text \<open>Patching: a jump that was written with the target zero gets its target.\<close>

lemma patch_code:
  assumes "code_of e = pre @ instruction_bytes (jump_instruction k 0) @ post"
  shows "patch (length pre) t e = Emitted (set_code (pre @ instruction_bytes (jump_instruction k t) @ post) e)"
  proof -
  have "PasteData (code_of e) (length pre + 2) (word_bytes (of_nat t :: u64))
      = Within (pre @ instruction_bytes (jump_instruction k t) @ post)"
    using assms by (simp add: PasteData_def checked_access_within jump_instruction_def)
  then show ?thesis by (simp add: patch_def)
qed

lemma patch_all_simps [simp]:
  "patch_all [] t = Emitted"
  "patch_all (b # bs) t e = (case patch b t e of Emitted e' \<Rightarrow> patch_all bs t e' | r \<Rightarrow> r)"
  by (simp_all add: patch_all_def split: emitted.split)

lemma open_jump: "P i \<Longrightarrow> P \<in> {is_break, is_continue, is_end} \<Longrightarrow>
    \<exists>k. item_instruction t i = jump_instruction k t \<and> item_instruction 0 i = jump_instruction k 0"
  by (cases i) auto

lemma patch_all_places:
  assumes P: "P \<in> {is_break, is_continue, is_end}"
  shows "code_of e = pre @ items_bytes items @ post \<Longrightarrow>
    patch_all (places P (length pre) items) t e = Emitted (set_code (pre @ items_bytes (map (settle P t) items) @ post) e)"
proof (induction items arbitrary: pre e)
  case (Cons i items)
  let ?e = "set_code (pre @ instruction_bytes (item_instruction 0 (settle P t i)) @ items_bytes items @ post) e"
  have step: "patch_all ((if P i then [length pre] else []) @ bs) t e = patch_all bs t ?e" for bs
  proof (cases "P i")
    case True
    obtain k where "item_instruction t i = jump_instruction k t" "item_instruction 0 i = jump_instruction k 0"
      using open_jump [OF True P] by blast
    with True Cons.prems patch_code [of e pre k "items_bytes items @ post" t] show ?thesis by (simp add: settle_def)
  next
    case False
    with Cons.prems have "?e = set_code (code_of e) e" by (simp add: settle_def)
    with False show ?thesis by simp
  qed
  have "patch_all (places P (length (pre @ instruction_bytes (item_instruction 0 (settle P t i)))) items) t ?e
      = Emitted (set_code ((pre @ instruction_bytes (item_instruction 0 (settle P t i))) @ items_bytes (map (settle P t) items) @ post) ?e)"
    by (rule Cons.IH) simp
  moreover have "length (instruction_bytes (item_instruction 0 (settle P t i))) = item_size i"
    using item_size_settle [of P t i] by (simp only: item_size_def)
  ultimately show ?case by (simp add: step)
next
  case Nil
  then show ?case using set_code_simps(15) [of e] by simp
qed

text \<open>A conditional jump inside a construct that has ended.\<close>

lemma set_code_advance:
  assumes "items_size js = items_size is" "\<And>a. places is_break a js = places is_break a is"
    "\<And>a. places is_continue a js = places is_continue a is" "\<And>a. places is_end a js = places is_end a is"
  shows "set_code (code_of e @ items_bytes js) (advance is d n p e) = advance js d n p e"
  by (rule AbstractEmiter.equality)
    (use assms in \<open>simp_all add: advance_def note_jumps_def track_def set_code_def update_target_def target_method_def\<close>)

lemma patch_advance:
  assumes "b = code_size e + items_size is"
  shows "patch b t (advance (is @ Fixed (jump_instruction k 0) # js) d n p e)
    = Emitted (advance (is @ Fixed (jump_instruction k t) # js) d n p e)"
proof -
  let ?e = "advance (is @ Fixed (jump_instruction k 0) # js) d n p e"
  have "code_of ?e = (code_of e @ items_bytes is) @ instruction_bytes (jump_instruction k 0) @ items_bytes js" by simp
  from patch_code [OF this, of t] assms
  have "patch b t ?e = Emitted (set_code (code_of e @ items_bytes (is @ Fixed (jump_instruction k t) # js)) ?e)" by simp
  then show ?thesis by (subst (asm) set_code_advance) simp_all
qed

lemma patch_advance_second:
  assumes "b = code_size e + items_size is + item_size i + items_size ks"
  shows "patch b t (advance (is @ i # ks @ Fixed (jump_instruction k 0) # js) d n p e)
    = Emitted (advance (is @ i # ks @ Fixed (jump_instruction k t) # js) d n p e)"
  using patch_advance [of b e "is @ i # ks" t k js d n p] assms by simp

text \<open>The open jumps of a chain of clauses are patched when the chain ends, its scope is left.\<close>

lemma settle_ends:
  assumes "em_Clauses e = scope # scopes"
  shows "patch_all (places is_end (code_size e) is) t (advance is d n p e)
    = Emitted (set_code (code_of e @ items_bytes (map (settle is_end t) is)) (advance is d n p e))"
  using patch_all_places [of is_end "advance is d n p e" "code_of e" "is" "[]" t] by simp

lemma leave_clauses:
  "(set_code (code_of e @ items_bytes (map (settle is_end t) is))
      (advance is d n p (e\<lparr>em_Clauses := [] # em_Clauses e\<rparr>)))\<lparr>em_Clauses := em_Clauses e\<rparr>
   = advance (map (settle is_end t) is) d n p e"
  by (rule AbstractEmiter.equality)
    (simp_all add: advance_def note_jumps_def track_def set_code_def update_target_def target_method_def code_of_def split: list.split)

text \<open>The end of a loop.\<close>

definition in_loop :: "nat \<Rightarrow> AbstractEmiter \<Rightarrow> AbstractEmiter" where
  "in_loop start e = e\<lparr>em_Loops := \<lparr>ls_LoopStart = start, ls_BlockEndBacktracks = [], ls_LoopEndBacktracks = []\<rparr> # em_Loops e\<rparr>"

definition close_loop :: "nat \<Rightarrow> nat \<Rightarrow> item list \<Rightarrow> item list" where
  "close_loop a start is =
     (let blockEnd = a + items_size is in
      map (settle is_break (blockEnd + 10)) (map (settle is_continue blockEnd) is) @ [Fixed (jump_instruction JUMP start)])"

lemma in_loop_simps [simp]:
  "code_of (in_loop start e) = code_of e" "em_GeneratingFor (in_loop start e) = em_GeneratingFor e"
  "em_SlotIndex (in_loop start e) = em_SlotIndex e" "em_DeferScopes (in_loop start e) = em_DeferScopes e"
  "em_EvalTracker (in_loop start e) = em_EvalTracker e" "em_Clauses (in_loop start e) = em_Clauses e"
  "target_method (in_loop start e) = target_method e" "em_Loops (in_loop start e) \<noteq> []"
  "em_PopExpressionStatement (in_loop start e) = em_PopExpressionStatement e"
  by (simp_all add: in_loop_def)

lemma loop_scope:
  "hd (em_Loops (advance is d n p (in_loop start e))) =
     \<lparr>ls_LoopStart = start, ls_BlockEndBacktracks = places is_continue (code_size e) is,
      ls_LoopEndBacktracks = places is_break (code_size e) is\<rparr>"
  by (simp add: advance_def note_jumps_def in_loop_def track_def)

lemma leave_loop:
  assumes "js = map (settle is_break t) (map (settle is_continue u) is) @ [Fixed i]"
  shows "(set_code (code_of e @ items_bytes js) (advance (is @ [Fixed i]) d n p (in_loop start e)))\<lparr>em_Loops := em_Loops e\<rparr>
    = advance js d n p e"
  by (rule AbstractEmiter.equality)
    (simp_all add: assms advance_def note_jumps_def track_def set_code_def update_target_def target_method_def code_of_def
      in_loop_def split: list.split del: map_map)

lemma finish_loop_advance:
  assumes G: "em_GeneratingFor e \<noteq> nullptr"
  shows "finish_loop (advance is d n p (in_loop start e)) = Emitted (advance (close_loop (code_size e) start is) d n p e)"
proof -
  let ?e = "advance is d n p (in_loop start e)" and ?be = "code_size e + items_size is"
  let ?is1 = "is @ [Fixed (jump_instruction JUMP start)]"
  let ?e1 = "advance ?is1 d n p (in_loop start e)"
  have "emit (\<lambda>code. EmitJump code (of_nat start)) ?e = Emitted ?e1"
    using G by (subst emit_advance [of _ _ "jump_instruction JUMP start"])
      (simp_all add: encoder_appends_instruction jump_instruction_def)
  moreover have "patch_all (places is_continue (code_size e) is) ?be ?e1
      = Emitted (set_code (code_of e @ items_bytes (map (settle is_continue ?be) ?is1)) ?e1)" (is "_ = Emitted ?e2")
    using patch_all_places [of is_continue ?e1 "code_of e" ?is1 "[]" ?be] by simp
  moreover have "patch_all (places is_break (code_size e) is) (?be + 10) ?e2
      = Emitted (set_code (code_of e @ items_bytes (close_loop (code_size e) start is)) ?e1)"
    using patch_all_places [of is_break ?e2 "code_of e" "map (settle is_continue ?be) ?is1" "[]" "?be + 10"]
    by (simp add: close_loop_def Let_def)
  moreover have "tl (em_Loops (set_code code ?e1)) = em_Loops e" for code
    by (simp add: advance_def note_jumps_def in_loop_def track_def)
  moreover have "(set_code (code_of e @ items_bytes (close_loop (code_size e) start is)) ?e1)\<lparr>em_Loops := em_Loops e\<rparr>
      = advance (close_loop (code_size e) start is) d n p e"
    unfolding close_loop_def Let_def by (rule leave_loop [OF refl])
  ultimately show ?thesis by (simp add: finish_loop_def loop_scope Let_def add.assoc)
qed

end
