(* ===== verification/SourcePrograms.thy ===== *)
theory SourcePrograms
  imports EmittedItems
begin

text \<open>
  Source programs over primitive values: literals, variables, operators and conditional expressions;
  declarations, assignments, conditionals with chains of clauses, loops with \<^verbatim>\<open>break\<close> and \<^verbatim>\<open>continue\<close>, and
  \<^verbatim>\<open>return\<close>. Each is a bound syntax tree; \<open>compile_exp\<close> and \<open>compile_stm\<close> say which code the emitter
  generates for it, with addresses instead of patches, and the lemmas show that it does.
\<close>

section \<open>Programs and their trees\<close>

text \<open>\<open>EStep x increment right\<close> is \<^verbatim>\<open>++\<close> or \<^verbatim>\<open>--\<close> on a variable, with the node's \<^verbatim>\<open>IsRightDetermined\<close>.\<close>

datatype exp =
    EInt u64 | EBool bool | EChar wchar | EDouble u64 | EVar ptr
  | EStep ptr bool bool
  | EUnary OperatorToken exp
  | EBinary OperatorToken exp exp
  | ECond exp exp exp

text \<open>The first argument of \<open>SIf\<close> and \<open>ElseIf\<close> is false for \<^verbatim>\<open>unless\<close>, that of \<open>SWhile\<close> for \<^verbatim>\<open>until\<close>.\<close>

datatype stm =
    SDeclare ptr exp
  | SAssign ptr exp
  | SIf bool exp "stm list" else_part
  | SWhile bool exp "stm list"
  | SFor stm exp stm "stm list"
  | SBreak | SContinue | SReturn
and else_part = NoElse | Else "stm list" | ElseIf bool exp "stm list" else_part

definition token :: "TokenType \<Rightarrow> wstring \<Rightarrow> SyntaxToken" where
  "token type word = SyntaxToken_of type word TextLocation_default"

definition literal :: "LiteralToken \<Rightarrow> u64 \<Rightarrow> wstring \<Rightarrow> SyntaxNode" where
  "literal type v word = LiteralExpressionSyntax (token (Lit type) word)
     (Some \<lparr>lit_LiteralType = Lit type, lit_Value = v, lit_BoundType = nullptr\<rparr>)"

definition variable_access :: "ptr \<Rightarrow> SyntaxNode" where
  "variable_access x = MemberAccessExpressionSyntax
     \<lparr>ma_ToParameter = nullptr, ma_ToVariable = x, ma_ToField = nullptr, ma_ToProperty = nullptr,
      ma_ToOperator = nullptr, ma_ToDelegate = nullptr\<rparr> (token (Gen Identifier) []) NullNode"

primrec expression_of :: "exp \<Rightarrow> SyntaxNode" where
  "expression_of (EInt i) = literal NumberLiteral i []"
| "expression_of (EBool b) = literal BooleanLiteral (of_bool b) []"
| "expression_of (EChar c) = literal CharLiteral 0 [c]"
| "expression_of (EDouble d) = literal DoubleLiteral d []"
| "expression_of (EVar x) = variable_access x"
| "expression_of (EStep x increment right) =
     UnaryExpressionSyntax (token (Op (if increment then IncrementOperator else DecrementOperator)) [])
       (variable_access x) right nullptr"
| "expression_of (EUnary op e) = UnaryExpressionSyntax (token (Op op) []) (expression_of e) False nullptr"
| "expression_of (EBinary op l r) = BinaryExpressionSyntax (token (Op op) []) (expression_of l) (expression_of r) nullptr"
| "expression_of (ECond c l r) = TernaryExpressionSyntax (expression_of c) (expression_of l) (expression_of r)"

primrec statement_of :: "stm \<Rightarrow> SyntaxNode" and clause_of :: "else_part \<Rightarrow> SyntaxNode" where
  "statement_of (SDeclare x e) = VariableStatementSyntax x (expression_of e)"
| "statement_of (SAssign x e) = ExpressionStatementSyntax
     (BinaryExpressionSyntax (token (Op AssignOperator) []) (variable_access x) (expression_of e) nullptr)"
| "statement_of (SIf b c ss n) = (if b then IfStatementSyntax else UnlessStatementSyntax)
     (ExpressionStatementSyntax (expression_of c)) (StatementsBlockSyntax (map statement_of ss)) (clause_of n)"
| "statement_of (SWhile b c ss) = (if b then WhileStatementSyntax else UntilStatementSyntax)
     (expression_of c) (StatementsBlockSyntax (map statement_of ss))"
| "statement_of (SFor i c r ss) =
     ForStatementSyntax (statement_of i) (expression_of c) (statement_of r) (StatementsBlockSyntax (map statement_of ss))"
| "statement_of SBreak = BreakStatementSyntax (token (St BreakKeyword) [])"
| "statement_of SContinue = ContinueStatementSyntax (token (St ContinueKeyword) [])"
| "statement_of SReturn = ReturnStatementSyntax NullNode"
| "clause_of NoElse = NullNode"
| "clause_of (Else ss) = ElseStatementSyntax (StatementsBlockSyntax (map statement_of ss)) NullNode"
| "clause_of (ElseIf b c ss n) = (if b then IfStatementSyntax else UnlessStatementSyntax)
     (ExpressionStatementSyntax (expression_of c)) (StatementsBlockSyntax (map statement_of ss)) (clause_of n)"

definition block_of :: "stm list \<Rightarrow> SyntaxNode" where
  "block_of ss = StatementsBlockSyntax (map statement_of ss)"

section \<open>The code of a program\<close>

definition math_of :: "OperatorToken \<Rightarrow> MathOp option" where
  "math_of op = map_of
     [(AddOperator, MATH_ADDITION), (SubOperator, MATH_SUBTRACT), (MultOperator, MATH_MULTIPLY),
      (DivOperator, MATH_DIVISION), (ModOperator, MATH_MODULO), (PowOperator, MATH_POWER),
      (EqualsOperator, COMPARE_EQUAL), (NotEqualsOperator, COMPARE_NOTEQUAL), (GreaterOperator, COMPARE_GREATER),
      (GreaterOrEqualsOperator, COMPARE_GREATER_OR_EQUAL), (LessOperator, COMPARE_LESS),
      (LessOrEqualsOperator, COMPARE_LESS_OR_EQUAL), (OrOperator, LOGICAL_OR), (AndOperator, LOGICAL_AND),
      (LeftShiftOperator, MATH_SHL), (RightShiftOperator, MATH_SHR)] op"

definition unary_code :: "OperatorToken \<Rightarrow> Instruction list" where
  "unary_code op =
     (if op = SubOperator then [Instruction (Mo MATH_NEGATIVE) []]
      else if op = NotOperator then [Instruction (Mo LOGICAL_NOT) []] else [])"

definition load_local :: "u16 \<Rightarrow> Instruction" where
  "load_local s = Instruction (Ko LOAD_LOCAL) [U16 s]"

definition store_local :: "u16 \<Rightarrow> Instruction" where
  "store_local s = Instruction (Ko STORE_LOCAL) [U16 s]"

definition step_code :: "u16 \<Rightarrow> bool \<Rightarrow> bool \<Rightarrow> Instruction list" where
  "step_code s increment right =
     (let math = [Instruction (Ko LOADCONST_INTEGER64) [U64 1],
                  Instruction (Mo (if increment then MATH_ADDITION else MATH_SUBTRACT)) []];
          dup = [Instruction (Ko DUP) []]
      in load_local s # (if right then math @ dup else dup @ math) @ [store_local s])"

abbreviation code_length :: "Instruction list \<Rightarrow> nat" where
  "code_length is \<equiv> length (program_bytes is)"

primrec compile_exp :: "(ptr \<Rightarrow> u16) \<Rightarrow> exp \<Rightarrow> nat \<Rightarrow> Instruction list" where
  "compile_exp slot (EInt i) a = [Instruction (Ko LOADCONST_INTEGER64) [U64 i]]"
| "compile_exp slot (EBool b) a = [Instruction (Ko LOADCONST_BOOLEAN) [U8 (of_bool b)]]"
| "compile_exp slot (EChar c) a = [Instruction (Ko LOADCONST_CHAR) [U16 c]]"
| "compile_exp slot (EDouble d) a = [Instruction (Ko LOADCONST_RATIONAL64) [U64 d]]"
| "compile_exp slot (EVar x) a = [load_local (slot x)]"
| "compile_exp slot (EStep x increment right) a = step_code (slot x) increment right"
| "compile_exp slot (EUnary op e) a = compile_exp slot e a @ unary_code op"
| "compile_exp slot (EBinary op l r) a =
     (let is = compile_exp slot l a in
      is @ compile_exp slot r (a + code_length is) @ [Instruction (Mo (the (math_of op))) []])"
| "compile_exp slot (ECond c l r) a =
     (let is = compile_exp slot c a; la = a + code_length is + 10;
          ls = compile_exp slot l la; ra = la + code_length ls + 10;
          rs = compile_exp slot r ra
      in is @ jump_instruction JUMP_FALSE ra # ls @ jump_instruction JUMP (ra + code_length rs) # rs)"

text \<open>The conditional jump that leaves the branch: it is taken on the value the condition must not have.\<close>

definition exit_jump :: "bool \<Rightarrow> ControlOp" where
  "exit_jump b = (if b then JUMP_FALSE else JUMP_TRUE)"

text \<open>A branch with the clauses after it; its open jumps \<open>ToEnd\<close> go to the end of the whole chain.\<close>

definition clause_items :: "bool \<Rightarrow> Instruction list \<Rightarrow> nat \<Rightarrow> item list \<Rightarrow> (nat \<Rightarrow> item list) option \<Rightarrow> item list" where
  "clause_items b cond a body rest =
     (let target = a + items_size body + (case rest of None \<Rightarrow> 0 | Some _ \<Rightarrow> 10) in
      map Fixed cond @ Fixed (jump_instruction (exit_jump b) target) # body @
        (case rest of None \<Rightarrow> [] | Some items \<Rightarrow> ToEnd # items target))"

fun
  compile_stm :: "(ptr \<Rightarrow> u16) \<Rightarrow> stm \<Rightarrow> nat \<Rightarrow> item list" and
  compile_stms :: "(ptr \<Rightarrow> u16) \<Rightarrow> stm list \<Rightarrow> nat \<Rightarrow> item list" and
  compile_else :: "(ptr \<Rightarrow> u16) \<Rightarrow> else_part \<Rightarrow> nat \<Rightarrow> item list"
where
  "compile_stm slot (SDeclare x e) a = map Fixed (compile_exp slot e a @ [store_local (slot x)])"
| "compile_stm slot (SAssign x e) a = map Fixed (compile_exp slot e a @ [store_local (slot x)])"
| "compile_stm slot (SIf b c ss n) a =
     (let cond = compile_exp slot c a; ba = a + code_length cond + 10;
          items = clause_items b cond ba (compile_stms slot ss ba)
                    (if n = NoElse then None else Some (compile_else slot n))
      in map (settle is_end (a + items_size items)) items)"
| "compile_stm slot (SWhile b c ss) a =
     (let cond = compile_exp slot c a; ba = a + code_length cond + 10 in
      close_loop a a (map Fixed cond @ ToBreak (exit_jump b) # compile_stms slot ss ba))"
| "compile_stm slot (SFor i c r ss) a =
     (let init = compile_stm slot i a; ca = a + items_size init;
          cond = compile_exp slot c ca; ba = ca + code_length cond + 10;
          body = compile_stms slot ss ba in
      close_loop a ca (init @ map Fixed cond @ ToBreak JUMP_FALSE # body @ compile_stm slot r (ba + items_size body)))"
| "compile_stm slot SBreak a = [ToBreak JUMP]"
| "compile_stm slot SContinue a = [ToContinue]"
| "compile_stm slot SReturn a = [Fixed (Instruction (Co RETURN) [])]"
| "compile_stms slot [] a = []"
| "compile_stms slot (s # ss) a =
     (let items = compile_stm slot s a in items @ compile_stms slot ss (a + items_size items))"
| "compile_else slot NoElse a = []"
| "compile_else slot (Else ss) a = compile_stms slot ss a"
| "compile_else slot (ElseIf b c ss n) a =
     (let cond = compile_exp slot c a; ba = a + code_length cond + 10 in
      clause_items b cond ba (compile_stms slot ss ba) (if n = NoElse then None else Some (compile_else slot n)))"

section \<open>Evaluation depth\<close>

primrec exp_depth :: "exp \<Rightarrow> nat" where
  "exp_depth (EInt i) = 1" | "exp_depth (EBool b) = 1" | "exp_depth (EChar c) = 1" | "exp_depth (EDouble d) = 1"
| "exp_depth (EVar x) = 1"
| "exp_depth (EStep x increment right) = (if right then 2 else 3)"
| "exp_depth (EUnary op e) = exp_depth e"
| "exp_depth (EBinary op l r) = max (exp_depth l) (1 + exp_depth r)"
| "exp_depth (ECond c l r) = max (exp_depth c) (max (exp_depth l) (exp_depth r))"

primrec stm_depth :: "stm \<Rightarrow> nat" and else_depth :: "else_part \<Rightarrow> nat" where
  "stm_depth (SDeclare x e) = exp_depth e"
| "stm_depth (SAssign x e) = exp_depth e"
| "stm_depth (SIf b c ss n) = max (exp_depth c) (max (foldr max (map stm_depth ss) 0) (else_depth n))"
| "stm_depth (SWhile b c ss) = max (exp_depth c) (foldr max (map stm_depth ss) 0)"
| "stm_depth (SFor i c r ss) = max (max (stm_depth i) (exp_depth c)) (max (foldr max (map stm_depth ss) 0) (stm_depth r))"
| "stm_depth SBreak = 0" | "stm_depth SContinue = 0" | "stm_depth SReturn = 0"
| "else_depth NoElse = 0"
| "else_depth (Else ss) = foldr max (map stm_depth ss) 0"
| "else_depth (ElseIf b c ss n) = max (exp_depth c) (max (foldr max (map stm_depth ss) 0) (else_depth n))"

text \<open>The largest value an expression keeps on the stack, as the tracker sees it.\<close>

definition operator_payload :: "bound_symbols \<Rightarrow> OperatorToken \<Rightarrow> nat" where
  "operator_payload sem op =
     (if IsLogicalComparisonToken (Op op) then PrimitivePayload sem sem_Boolean else PrimitivePayload sem sem_Integer)"

primrec exp_payload :: "bound_symbols \<Rightarrow> (ptr \<Rightarrow> nat) \<Rightarrow> exp \<Rightarrow> nat" where
  "exp_payload sem spay (EInt i) = PrimitivePayload sem sem_Integer"
| "exp_payload sem spay (EBool b) = PrimitivePayload sem sem_Boolean"
| "exp_payload sem spay (EChar c) = PrimitivePayload sem sem_Char"
| "exp_payload sem spay (EDouble d) = PrimitivePayload sem sem_Double"
| "exp_payload sem spay (EVar x) = spay x"
| "exp_payload sem spay (EStep x increment right) = max (spay x) (PrimitivePayload sem sem_Integer)"
| "exp_payload sem spay (EUnary op e) = max (exp_payload sem spay e)
     (if op = SubOperator then PrimitivePayload sem sem_Integer
      else if op = NotOperator then PrimitivePayload sem sem_Boolean else 0)"
| "exp_payload sem spay (EBinary op l r) = max (max (exp_payload sem spay l) (exp_payload sem spay r)) (operator_payload sem op)"
| "exp_payload sem spay (ECond c l r) =
     max (max (exp_payload sem spay c) (exp_payload sem spay l)) (exp_payload sem spay r)"

primrec stm_payload :: "bound_symbols \<Rightarrow> (ptr \<Rightarrow> nat) \<Rightarrow> stm \<Rightarrow> nat"
  and else_payload :: "bound_symbols \<Rightarrow> (ptr \<Rightarrow> nat) \<Rightarrow> else_part \<Rightarrow> nat" where
  "stm_payload sem spay (SDeclare x e) = exp_payload sem spay e"
| "stm_payload sem spay (SAssign x e) = exp_payload sem spay e"
| "stm_payload sem spay (SIf b c ss n) =
     max (exp_payload sem spay c) (max (foldr max (map (stm_payload sem spay) ss) 0) (else_payload sem spay n))"
| "stm_payload sem spay (SWhile b c ss) = max (exp_payload sem spay c) (foldr max (map (stm_payload sem spay) ss) 0)"
| "stm_payload sem spay (SFor i c r ss) = max (max (stm_payload sem spay i) (exp_payload sem spay c))
     (max (foldr max (map (stm_payload sem spay) ss) 0) (stm_payload sem spay r))"
| "stm_payload sem spay SBreak = 0" | "stm_payload sem spay SContinue = 0" | "stm_payload sem spay SReturn = 0"
| "else_payload sem spay NoElse = 0"
| "else_payload sem spay (Else ss) = foldr max (map (stm_payload sem spay) ss) 0"
| "else_payload sem spay (ElseIf b c ss n) =
     max (exp_payload sem spay c) (max (foldr max (map (stm_payload sem spay) ss) 0) (else_payload sem spay n))"

section \<open>Well-formed programs\<close>

text \<open>Variables are resolved, operators exist, and \<^verbatim>\<open>break\<close> and \<^verbatim>\<open>continue\<close> are inside loops.\<close>

primrec exp_ok :: "exp \<Rightarrow> bool" where
  "exp_ok (EInt i) \<longleftrightarrow> True" | "exp_ok (EBool b) \<longleftrightarrow> True" | "exp_ok (EChar c) \<longleftrightarrow> True" | "exp_ok (EDouble d) \<longleftrightarrow> True"
| "exp_ok (EVar x) \<longleftrightarrow> x \<noteq> nullptr"
| "exp_ok (EStep x increment right) \<longleftrightarrow> x \<noteq> nullptr"
| "exp_ok (EUnary op e) \<longleftrightarrow> op \<in> {SubOperator, AddOperator, NotOperator} \<and> exp_ok e"
| "exp_ok (EBinary op l r) \<longleftrightarrow> math_of op \<noteq> None \<and> exp_ok l \<and> exp_ok r"
| "exp_ok (ECond c l r) \<longleftrightarrow> exp_ok c \<and> exp_ok l \<and> exp_ok r"

primrec stm_ok :: "bool \<Rightarrow> stm \<Rightarrow> bool" and else_ok :: "bool \<Rightarrow> else_part \<Rightarrow> bool" where
  "stm_ok inside (SDeclare x e) \<longleftrightarrow> x \<noteq> nullptr \<and> exp_ok e"
| "stm_ok inside (SAssign x e) \<longleftrightarrow> x \<noteq> nullptr \<and> exp_ok e"
| "stm_ok inside (SIf b c ss n) \<longleftrightarrow> exp_ok c \<and> list_all (stm_ok inside) ss \<and> else_ok inside n"
| "stm_ok inside (SWhile b c ss) \<longleftrightarrow> exp_ok c \<and> list_all (stm_ok True) ss"
| "stm_ok inside (SFor i c r ss) \<longleftrightarrow> stm_ok False i \<and> exp_ok c \<and> stm_ok False r \<and> list_all (stm_ok True) ss"
| "stm_ok inside SBreak \<longleftrightarrow> inside" | "stm_ok inside SContinue \<longleftrightarrow> inside" | "stm_ok inside SReturn \<longleftrightarrow> True"
| "else_ok inside NoElse \<longleftrightarrow> True"
| "else_ok inside (Else ss) \<longleftrightarrow> list_all (stm_ok inside) ss"
| "else_ok inside (ElseIf b c ss n) \<longleftrightarrow> exp_ok c \<and> list_all (stm_ok inside) ss \<and> else_ok inside n"

section \<open>The emitter generates this code\<close>

lemma exp_depth_pos [simp]: "0 < exp_depth e"
  by (induction e) simp_all

lemma max_exp_depth [simp]: "max (exp_depth e) (Suc 0) = exp_depth e"
  using exp_depth_pos [of e] by linarith

lemma program_bytes_simps [simp]:
  "program_bytes [] = []" "program_bytes (i # is) = instruction_bytes i @ program_bytes is"
  "program_bytes (is @ js) = program_bytes is @ program_bytes js"
  by (simp_all add: program_bytes_def)

lemma fixed_items [simp]: "items_bytes (map Fixed is) = program_bytes is" "items_size (map Fixed is) = code_length is"
proof -
  show "items_bytes (map Fixed is) = program_bytes is" by (induction "is") simp_all
  then show "items_size (map Fixed is) = code_length is" by (metis length_items_bytes)
qed

text \<open>The emitter is about to generate code for a method; the slots of its variables are known.\<close>

definition generating :: "(ptr \<Rightarrow> u16) \<Rightarrow> AbstractEmiter \<Rightarrow> bool" where
  "generating slot e \<longleftrightarrow> em_GeneratingFor e \<noteq> nullptr \<and> em_SlotIndex e = slot"

lemma generating_advance [simp]: "generating slot (advance is d n p e) = generating slot e"
  by (simp add: generating_def)

lemma emit_fixed [simp]:
  assumes "generating slot e"
  shows "emit EmitDuplicate e = Emitted (advance [Fixed (Instruction (Ko DUP) [])] 0 0 0 e)"
    "emit EmitMathNegative e = Emitted (advance [Fixed (Instruction (Mo MATH_NEGATIVE) [])] 0 0 0 e)"
    "emit EmitLogicalNot e = Emitted (advance [Fixed (Instruction (Mo LOGICAL_NOT) [])] 0 0 0 e)"
    "emit EmitReturn e = Emitted (advance [Fixed (Instruction (Co RETURN) [])] 0 0 0 e)"
    "emit (\<lambda>code. EmitLoadConstInt64 code i) e = Emitted (advance [Fixed (Instruction (Ko LOADCONST_INTEGER64) [U64 i])] 0 0 0 e)"
    "emit (\<lambda>code. EmitLoadConstDouble64 code i) e = Emitted (advance [Fixed (Instruction (Ko LOADCONST_RATIONAL64) [U64 i])] 0 0 0 e)"
    "emit (\<lambda>code. EmitLoadConstBool code b) e = Emitted (advance [Fixed (Instruction (Ko LOADCONST_BOOLEAN) [U8 (of_bool b)])] 0 0 0 e)"
    "emit (\<lambda>code. EmitLoadConstChar16 code c) e = Emitted (advance [Fixed (Instruction (Ko LOADCONST_CHAR) [U16 c])] 0 0 0 e)"
    "emit (\<lambda>code. EmitLoadLocal code s) e = Emitted (advance [Fixed (load_local s)] 0 0 0 e)"
    "emit (\<lambda>code. EmitStoreLocal code s) e = Emitted (advance [Fixed (store_local s)] 0 0 0 e)"
    "emit (\<lambda>code. EmitJump code 0) e = Emitted (advance [Fixed (jump_instruction JUMP 0)] 0 0 0 e)"
    "emit (\<lambda>code. EmitJumpFalse code 0) e = Emitted (advance [Fixed (jump_instruction JUMP_FALSE 0)] 0 0 0 e)"
    "emit (\<lambda>code. EmitJumpTrue code 0) e = Emitted (advance [Fixed (jump_instruction JUMP_TRUE 0)] 0 0 0 e)"
  using assms
  by (auto simp: generating_def encoder_appends_instruction load_local_def store_local_def jump_instruction_def
      intro!: emit_advance)

definition slot_payload :: "bound_symbols \<Rightarrow> (ptr \<Rightarrow> u16) \<Rightarrow> AbstractEmiter \<Rightarrow> ptr \<Rightarrow> nat" where
  "slot_payload sem slot e x = SlotPayload (sem_types sem) (target_method e) (slot x)"

lemma slot_payload_update [simp]:
  "slot_payload sem slot (advance is d n p e) = slot_payload sem slot e"
  "SlotPayload types (m\<lparr>me_ExecutableByteCode := code\<rparr>) s = SlotPayload types m s"
  by (simp_all add: fun_eq_iff slot_payload_def SlotPayload_def GetEvalStackArgumentsCount_def Let_def)

lemma load_slot_advance [simp]:
  "generating slot e \<Longrightarrow> load_slot sem s e
     = Emitted (advance [Fixed (load_local s)] 1 1 (SlotPayload (sem_types sem) (target_method e) s) e)"
  by (simp add: load_slot_def push_slot_def)

lemma store_slot_advance [simp]:
  "generating slot e \<Longrightarrow> 0 < d \<Longrightarrow>
     store_slot s (advance is d n p e) = Emitted (advance (is @ [Fixed (store_local s)]) (d - 1) n p e)"
  by (simp add: store_slot_def)

lemma binary_instruction_math:
  assumes "math_of op = Some k"
  obtains g where "binary_instruction op = Some g" "\<And>code. g code = code @ instruction_bytes (Instruction (Mo k) [])"
    "op \<noteq> AssignOperator" "op \<noteq> NotOperator" "\<not> IsAssignExpression (Op op)"
  using assms that
  by (cases op) (auto simp: math_of_def binary_instruction_def IsAssignExpression_def encoder_appends_instruction)

lemma EmitBinaryOperation_advance:
  assumes "math_of op = Some k" "generating slot e" "2 \<le> d" "d \<le> n"
  shows "EmitBinaryOperation sem (Op op) (advance is d n p e)
    = Emitted (advance (is @ [Fixed (Instruction (Mo k) [])]) (d - 1) n (max p (operator_payload sem op)) e)"
proof -
  obtain g where g: "binary_instruction op = Some g" "\<And>code. g code = code @ instruction_bytes (Instruction (Mo k) [])"
    "op \<noteq> AssignOperator" "op \<noteq> NotOperator"
    using binary_instruction_math [OF assms(1)] by blast
  have "emit g (advance is d n p e) = Emitted (advance (is @ [Fixed (Instruction (Mo k) [])]) d n p e)"
    using assms(2) g(2) by (subst emit_advance [of _ _ "Instruction (Mo k) []"]) (simp_all add: generating_def)
  with g assms(3,4) show ?thesis
    by (simp add: EmitBinaryOperation_def operator_payload_def numeral_2_eq_2 Suc_diff_Suc max_absorb1)
qed

lemma token_simps [simp]: "tok_Type (token type word) = type" "tok_Word (token type word) = word"
  by (simp_all add: token_def)

lemma visits_variable:
  "VisitExpression sem (variable_access x) = (\<lambda>e. load_slot sem (em_SlotIndex e x) e)" if "x \<noteq> nullptr"
  using that by (simp add: VisitExpression_def variable_access_def VisitMemberAccessExpression_def)

lemma visits_step:
  assumes "x \<noteq> nullptr" "generating slot e"
  shows "VisitExpression sem (expression_of (EStep x increment right)) e
    = Emitted (advance (map Fixed (step_code (slot x) increment right)) 1 (if right then 2 else 3)
        (max (slot_payload sem slot e x) (PrimitivePayload sem sem_Integer)) e)"
proof -
  have "emit EmitMathAdd (advance is d n p e) = Emitted (advance (is @ [Fixed (Instruction (Mo MATH_ADDITION) [])]) d n p e)"
    "emit EmitMathSub (advance is d n p e) = Emitted (advance (is @ [Fixed (Instruction (Mo MATH_SUBTRACT) [])]) d n p e)"
    for "is" d n p
    using assms(2) by (subst emit_advance, simp_all add: encoder_appends_instruction generating_def)+
  with assms show ?thesis
    by (simp add: VisitExpression_def variable_access_def VisitUnaryExpression_def IsAssignExpression_def
        VisitUnaryAssignExpression_def EmitUnaryOperation_def step_by_one_def push_one_def duplicate_integer_def
        step_code_def slot_payload_def Let_def) (simp add: generating_def numeral_2_eq_2 numeral_3_eq_3)
qed

lemma VisitExpression_emits:
  "exp_ok x \<Longrightarrow> generating slot e \<Longrightarrow> VisitExpression sem (expression_of x) e
     = Emitted (advance (map Fixed (compile_exp slot x (code_size e))) 1 (exp_depth x)
         (exp_payload sem (slot_payload sem slot e) x) e)"
proof (induction x arbitrary: e)
  case (EStep x increment right)
  then show ?case using visits_step [of x slot e sem increment right] by simp
next
  case (EVar x)
  then show ?case by (simp add: visits_variable slot_payload_def) (simp add: generating_def)
next
  case (EUnary op x)
  then have "op = SubOperator \<or> op = AddOperator \<or> op = NotOperator" by simp
  with EUnary show ?case
    by (auto simp: VisitExpression_def VisitUnaryExpression_def IsAssignExpression_def EmitUnaryOperation_def unary_code_def)
next
  case (EBinary op l r)
  then obtain k where k: "math_of op = Some k" by auto
  obtain g where "\<not> IsAssignExpression (Op op)" using binary_instruction_math [OF k] by blast
  with EBinary k show ?case
    by (simp add: VisitExpression_def VisitBinaryExpression_def EmitBinaryOperation_advance le_max_iff_disj Suc_le_eq Let_def)
next
  case (ECond c l r)
  then show ?case
    by (simp add: VisitExpression_def VisitTernaryExpression_def patch_advance patch_advance_second Let_def ac_simps)
qed (simp_all add: VisitExpression_def literal_def VisitLiteralExpression_def AsIntegerValue_def AsDoubleValue_def AsBooleanValue_def)

end
