(* ===== verification/EmittedStatements.thy ===== *)
theory EmittedStatements
  imports SourcePrograms
begin

text \<open>
  The emitter's visits of statements, one lemma per construct over what the visits of its parts emit,
  and the code of whole blocks and methods.
\<close>

section \<open>What a visit emits\<close>

text \<open>
  Between statements the tracker is at depth zero and no defer is pending; \<open>inside\<close> says that there is
  a loop around.
\<close>

definition ready :: "bound_symbols \<Rightarrow> (ptr \<Rightarrow> u16) \<Rightarrow> (ptr \<Rightarrow> nat) \<Rightarrow> bool \<Rightarrow> AbstractEmiter \<Rightarrow> bool" where
  "ready sem slot spay inside e \<longleftrightarrow>
     generating slot e \<and> slot_payload sem slot e = spay \<and> depth_of e = 0 \<and>
     (\<forall>scope\<in>set (em_DeferScopes e). ds_Count scope = 0) \<and> (inside \<longrightarrow> em_Loops e \<noteq> [])"

definition emits :: "(AbstractEmiter \<Rightarrow> bool) \<Rightarrow> em_op \<Rightarrow> (nat \<Rightarrow> item list) \<Rightarrow> nat \<Rightarrow> nat \<Rightarrow> bool" where
  "emits R visit items n p \<longleftrightarrow> (\<forall>e. R e \<longrightarrow> visit e = Emitted (advance (items (code_size e)) 0 n p e))"

lemma emitsD: "emits R visit items n p \<Longrightarrow> R e \<Longrightarrow> visit e = Emitted (advance (items (code_size e)) 0 n p e)"
  by (simp add: emits_def)

lemma ready_generating [simp]: "ready sem slot spay inside e \<Longrightarrow> generating slot e"
  by (simp add: ready_def)

lemma ready_advance [simp]: "ready sem slot spay inside (advance is 0 n p e) = ready sem slot spay inside e"
  by (simp add: ready_def)

lemma generating_update [simp]:
  "generating slot (in_loop start e) = generating slot e" "generating slot (e\<lparr>em_Clauses := cs\<rparr>) = generating slot e"
  "generating slot (e\<lparr>em_PopExpressionStatement := b\<rparr>) = generating slot e"
  "generating slot (e\<lparr>em_DeferScopes := ds\<rparr>) = generating slot e"
  by (simp_all add: generating_def)

lemma slot_payload_other [simp]:
  "slot_payload sem slot (in_loop start e) = slot_payload sem slot e"
  "slot_payload sem slot (e\<lparr>em_Clauses := cs\<rparr>) = slot_payload sem slot e"
  "slot_payload sem slot (e\<lparr>em_PopExpressionStatement := b\<rparr>) = slot_payload sem slot e"
  "slot_payload sem slot (e\<lparr>em_DeferScopes := ds\<rparr>) = slot_payload sem slot e"
  by (simp_all add: fun_eq_iff slot_payload_def)

lemma ready_in_loop [simp]: "ready sem slot spay inside e \<Longrightarrow> ready sem slot spay inside' (in_loop start e)"
  by (simp add: ready_def)

lemma ready_clauses [simp]:
  "ready sem slot spay inside (e\<lparr>em_Clauses := cs\<rparr>) = ready sem slot spay inside e"
  "ready sem slot spay inside (e\<lparr>em_PopExpressionStatement := b\<rparr>) = ready sem slot spay inside e"
  by (simp_all add: ready_def)

lemma ready_scope [simp]: "ready sem slot spay inside e \<Longrightarrow>
    ready sem slot spay inside (e\<lparr>em_DeferScopes := \<lparr>ds_Count = 0, ds_IsLoop = b\<rparr> # em_DeferScopes e\<rparr>)"
  by (simp add: ready_def)

lemma exp_emits:
  assumes "exp_ok x" "ready sem slot spay inside e"
  shows "VisitExpression sem (expression_of x) e
    = Emitted (advance (map Fixed (compile_exp slot x (code_size e))) 1 (exp_depth x) (exp_payload sem spay x) e)"
  using VisitExpression_emits [OF assms(1), of slot e sem] assms(2) by (simp add: ready_def)

section \<open>Updates that pass over generated code\<close>

lemma advance_scope_commute:
  "(advance is d n p (e\<lparr>em_DeferScopes := ds\<rparr>))\<lparr>em_DeferScopes := ds'\<rparr> = advance is d n p (e\<lparr>em_DeferScopes := ds'\<rparr>)"
  "(advance is d n p (e\<lparr>em_PopExpressionStatement := b\<rparr>))\<lparr>em_PopExpressionStatement := b'\<rparr>
     = advance is d n p (e\<lparr>em_PopExpressionStatement := b'\<rparr>)"
  by (rule AbstractEmiter.equality;
      simp add: advance_def note_jumps_def track_def set_code_def update_target_def target_method_def code_of_def split: list.split)+

lemma open_jump_advance:
  assumes "generating slot e"
  shows "em_Loops e = scope # loops \<Longrightarrow>
      emit (\<lambda>code. EmitJump code 0) (e\<lparr>em_Loops := scope\<lparr>ls_LoopEndBacktracks := ls_LoopEndBacktracks scope @ [code_size e]\<rparr> # loops\<rparr>)
        = Emitted (advance [ToBreak JUMP] 0 0 0 e)"
    and "em_Loops e = scope # loops \<Longrightarrow>
      emit (\<lambda>code. EmitJump code 0) (e\<lparr>em_Loops := scope\<lparr>ls_BlockEndBacktracks := ls_BlockEndBacktracks scope @ [code_size e]\<rparr> # loops\<rparr>)
        = Emitted (advance [ToContinue] 0 0 0 e)"
proof -
  have g: "generating slot (e\<lparr>em_Loops := ls\<rparr>)" for ls using assms by (simp add: generating_def)
  show "emit (\<lambda>code. EmitJump code 0) (e\<lparr>em_Loops := scope\<lparr>ls_LoopEndBacktracks := ls_LoopEndBacktracks scope @ [code_size e]\<rparr> # loops\<rparr>)
        = Emitted (advance [ToBreak JUMP] 0 0 0 e)" if "em_Loops e = scope # loops"
    using that by (simp add: emit_fixed(11) [OF g])
      (rule AbstractEmiter.equality; simp add: advance_def note_jumps_def track_def set_code_def update_target_def
        target_method_def code_of_def split: list.split)
  show "emit (\<lambda>code. EmitJump code 0) (e\<lparr>em_Loops := scope\<lparr>ls_BlockEndBacktracks := ls_BlockEndBacktracks scope @ [code_size e]\<rparr> # loops\<rparr>)
        = Emitted (advance [ToContinue] 0 0 0 e)" if "em_Loops e = scope # loops"
    using that by (simp add: emit_fixed(11) [OF g])
      (rule AbstractEmiter.equality; simp add: advance_def note_jumps_def track_def set_code_def update_target_def
        target_method_def code_of_def split: list.split)
qed

section \<open>Jumps out of loops and of the method\<close>

lemma quiet_until_loop: "(\<forall>scope\<in>set ds. ds_Count scope = 0) \<Longrightarrow> drain_until_loop ds = (0, ds)"
proof (induction ds)
  case (Cons d ds)
  then have "d\<lparr>ds_Count := 0\<rparr> = d" by simp
  with Cons show ?case by simp
qed simp

lemma break_emits: "emits (ready sem slot spay True) VisitBreakStatement (\<lambda>a. [ToBreak JUMP]) 0 0"
  unfolding emits_def
proof (intro allI impI)
  fix e assume r: "ready sem slot spay True e"
  then obtain scope loops where l: "em_Loops e = scope # loops" by (cases "em_Loops e") (simp_all add: ready_def)
  have "EmitDefersUntilLoop e = Emitted e"
    using r quiet_until_loop [of "em_DeferScopes e"] by (simp add: EmitDefersUntilLoop_def ready_def drain_def)
  with l show "VisitBreakStatement e = Emitted (advance [ToBreak JUMP] 0 0 0 e)"
    using open_jump_advance(1) [OF ready_generating [OF r] l] by (simp add: VisitBreakStatement_def)
qed

lemma continue_emits: "emits (ready sem slot spay True) VisitContinueStatement (\<lambda>a. [ToContinue]) 0 0"
  unfolding emits_def
proof (intro allI impI)
  fix e assume r: "ready sem slot spay True e"
  then obtain scope loops where l: "em_Loops e = scope # loops" by (cases "em_Loops e") (simp_all add: ready_def)
  then show "VisitContinueStatement e = Emitted (advance [ToContinue] 0 0 0 e)"
    using open_jump_advance(2) [OF ready_generating [OF r] l] by (simp add: VisitContinueStatement_def)
qed

lemma return_emits:
  "emits (ready sem slot spay inside) (VisitReturnStatement NullNode Emitted) (\<lambda>a. [Fixed (Instruction (Co RETURN) [])]) 0 0"
  unfolding emits_def
proof (intro allI impI)
  fix e assume r: "ready sem slot spay inside e"
  have zero: "map (ds_Count_update (\<lambda>_. 0)) (em_DeferScopes e) = em_DeferScopes e"
    using r by (intro map_idI) (auto simp: ready_def)
  have sum: "sum_list (map ds_Count (em_DeferScopes e)) = 0" using r by (simp add: ready_def)
  have "EmitAllDefers e = Emitted e" unfolding EmitAllDefers_def zero sum by (simp add: drain_def)
  moreover have depth: "depth_of e = 0" using r by (simp add: ready_def)
  moreover have "track (\<lambda>t. if trk_CurrentDepth t \<noteq> 0 then t\<lparr>trk_Poisoned := True\<rparr> else t) e = e"
    using depth by (simp add: track_def)
  ultimately show "VisitReturnStatement NullNode Emitted e = Emitted (advance [Fixed (Instruction (Co RETURN) [])] 0 0 0 e)"
    using emit_fixed(4) [OF ready_generating [OF r]] set_depth_advance [of e "[Fixed (Instruction (Co RETURN) [])]" 0 0 0]
    by (simp add: VisitReturnStatement_def)
qed

section \<open>Blocks\<close>

lemma scope_emits:
  assumes "emits (ready sem slot spay inside) (do_all vs) items n p"
  shows "emits (ready sem slot spay inside) (VisitStatements parent vs) items n p"
  unfolding emits_def
proof (intro allI impI)
  fix e assume r: "ready sem slot spay inside e"
  let ?scope = "\<lparr>ds_Count = 0, ds_IsLoop = is_loop_parent parent\<rparr>"
  let ?e = "e\<lparr>em_DeferScopes := ?scope # em_DeferScopes e\<rparr>"
  have "do_all vs ?e = Emitted (advance (items (code_size e)) 0 n p ?e)"
    using emitsD [OF assms ready_scope [OF r]] by simp
  moreover have "EmitCurrentScopeDefers (advance is 0 n p ?e) = Emitted (advance is 0 n p ?e)" for "is"
    using advance_scope_commute(1) [of "?scope # em_DeferScopes e" "is" 0 n p "?scope # em_DeferScopes e" e]
    by (simp add: EmitCurrentScopeDefers_def)
  moreover have "(advance is 0 n p ?e)\<lparr>em_DeferScopes := em_DeferScopes e\<rparr> = advance is 0 n p e" for "is"
    using advance_scope_commute(1) [of "em_DeferScopes e" "is" 0 n p "?scope # em_DeferScopes e" e] by simp
  ultimately show "VisitStatements parent vs e = Emitted (advance (items (code_size e)) 0 n p e)"
    by (simp add: VisitStatements_def)
qed

section \<open>Loops\<close>

lemma loop_start: "mark_loop_start (advance is d n p (in_loop start e))
    = Emitted (advance is d n p (in_loop (code_size e + items_size is) e))"
  by (simp add: mark_loop_start_def change_loop_def)
    (rule AbstractEmiter.equality; simp add: advance_def note_jumps_def track_def set_code_def update_target_def
      target_method_def code_of_def in_loop_def)

lemma enter_loop_eq: "enter_loop e = Emitted (in_loop 0 e)"
  by (simp add: enter_loop_def in_loop_def)

text \<open>The test of a loop: its jump leaves the loop.\<close>

definition exiting :: "AbstractEmiter \<Rightarrow> AbstractEmiter" where
  "exiting e = change_loop (\<lambda>scope. scope\<lparr>ls_LoopEndBacktracks := ls_LoopEndBacktracks scope @ [code_size e]\<rparr>) e"

lemma note_loop_exit_eq: "note_loop_exit e = Emitted (exiting e)"
  by (simp add: note_loop_exit_def exiting_def)

lemma loop_exit:
  assumes "generating slot e"
  shows "emit (\<lambda>code. EmitJumpFalse code 0) (exiting (advance is d n p (in_loop start e)))
      = Emitted (advance (is @ [ToBreak JUMP_FALSE]) d n p (in_loop start e))"
    and "emit (\<lambda>code. EmitJumpTrue code 0) (exiting (advance is d n p (in_loop start e)))
      = Emitted (advance (is @ [ToBreak JUMP_TRUE]) d n p (in_loop start e))"
proof -
  let ?b = "exiting (advance is d n p (in_loop start e))"
  have g: "generating slot ?b" using assms by (simp add: generating_def exiting_def change_loop_def)
  have "advance [Fixed (jump_instruction k 0)] 0 0 0 ?b = advance (is @ [ToBreak k]) d n p (in_loop start e)" for k
    by (rule AbstractEmiter.equality;
        simp add: advance_def note_jumps_def track_def set_code_def update_target_def target_method_def code_of_def
          in_loop_def exiting_def change_loop_def advance_tracker_def split: list.split)
  with emit_fixed(12,13) [OF g]
  show "emit (\<lambda>code. EmitJumpFalse code 0) ?b = Emitted (advance (is @ [ToBreak JUMP_FALSE]) d n p (in_loop start e))"
    "emit (\<lambda>code. EmitJumpTrue code 0) ?b = Emitted (advance (is @ [ToBreak JUMP_TRUE]) d n p (in_loop start e))"
    by simp_all
qed

lemma loop_emits:
  assumes c: "exp_ok c" and body: "emits (ready sem slot spay True) visitBlock body n p"
    and b: "visit = (if b then VisitWhileStatement else VisitUntilStatement)"
  shows "emits (ready sem slot spay inside) (visit (VisitExpression sem (expression_of c)) visitBlock)
    (\<lambda>a. let cond = compile_exp slot c a; ba = a + code_length cond + 10 in
         close_loop a a (map Fixed cond @ ToBreak (exit_jump b) # body ba))
    (max (exp_depth c) n) (max (exp_payload sem spay c) p)"
  unfolding emits_def
proof (intro allI impI)
  fix e assume r: "ready sem slot spay inside e"
  let ?cond = "map Fixed (compile_exp slot c (code_size e))" and ?in = "in_loop (code_size e) e"
  have G: "generating slot e" "em_GeneratingFor e \<noteq> nullptr" using r by (simp_all add: ready_def generating_def)
  have "ready sem slot spay True ?in" using r by simp
  from exp_emits [OF c this]
  have cond: "VisitExpression sem (expression_of c) ?in
      = Emitted (advance ?cond 1 (exp_depth c) (exp_payload sem spay c) ?in)" by simp
  have block: "visitBlock (advance (?cond @ [ToBreak k]) 0 (exp_depth c) (exp_payload sem spay c) ?in)
      = Emitted (advance (?cond @ ToBreak k # body (code_size e + code_length (compile_exp slot c (code_size e)) + 10)) 0
          (max (exp_depth c) n) (max (exp_payload sem spay c) p) ?in)" for k
    using emitsD [OF body, of "advance (?cond @ [ToBreak k]) 0 (exp_depth c) (exp_payload sem spay c) ?in"] r
    by (simp add: add.assoc)
  have start: "mark_loop_start (in_loop 0 e) = Emitted ?in" using loop_start [of "[]" 0 0 0 0 e] by simp
  show "visit (VisitExpression sem (expression_of c)) visitBlock e = Emitted (advance
      (let cond = compile_exp slot c (code_size e); ba = code_size e + code_length cond + 10
       in close_loop (code_size e) (code_size e) (map Fixed cond @ ToBreak (exit_jump b) # body ba))
      0 (max (exp_depth c) n) (max (exp_payload sem spay c) p) e)"
    by (cases b) (simp_all add: b VisitWhileStatement_def VisitUntilStatement_def enter_loop_eq start cond
        note_loop_exit_eq loop_exit [OF G(1)] block finish_loop_advance [OF G(2)] exit_jump_def Let_def)
qed

lemma for_emits:
  assumes c: "exp_ok c" and init: "emits (ready sem slot spay False) visitInit init ni pi"
    and body: "emits (ready sem slot spay True) visitBlock body nb pb"
    and after: "emits (ready sem slot spay False) visitAfter rest nr pr"
  shows "emits (ready sem slot spay inside)
    (VisitForStatement visitInit (VisitExpression sem (expression_of c)) visitAfter visitBlock)
    (\<lambda>a. let items = init a; ca = a + items_size items; cond = compile_exp slot c ca; ba = ca + code_length cond + 10;
             block = body ba in
         close_loop a ca (items @ map Fixed cond @ ToBreak JUMP_FALSE # block @ rest (ba + items_size block)))
    (max (max ni (exp_depth c)) (max nb nr)) (max (max pi (exp_payload sem spay c)) (max pb pr))"
  unfolding emits_def
proof (intro allI impI)
  fix e assume r: "ready sem slot spay inside e"
  define items where "items = init (code_size e)"
  define ca where "ca = code_size e + items_size items"
  define cond where "cond = compile_exp slot c ca"
  define ba where "ba = ca + code_length cond + 10"
  let ?in = "in_loop ca e" and ?n = "max ni (exp_depth c)" and ?p = "max pi (exp_payload sem spay c)"
  have G: "generating slot e" "em_GeneratingFor e \<noteq> nullptr" using r by (simp_all add: ready_def generating_def)
  have r1: "ready sem slot spay inside' ?in" for inside' using r by simp
  have "visitInit (in_loop 0 e) = Emitted (advance items 0 ni pi (in_loop 0 e))"
    using emitsD [OF init ready_in_loop [OF r, of False 0]] by (simp add: items_def)
  moreover have "mark_loop_start (advance items 0 ni pi (in_loop 0 e)) = Emitted (advance items 0 ni pi ?in)"
    by (simp add: loop_start ca_def)
  moreover have "VisitExpression sem (expression_of c) (advance items 0 ni pi ?in)
      = Emitted (advance (items @ map Fixed cond) 1 ?n ?p ?in)"
    using exp_emits [OF c, of sem slot spay False "advance items 0 ni pi ?in"] r1 by (simp add: cond_def ca_def)
  moreover have "visitBlock (advance (items @ map Fixed cond @ [ToBreak JUMP_FALSE]) 0 ?n ?p ?in)
      = Emitted (advance (items @ map Fixed cond @ ToBreak JUMP_FALSE # body ba) 0 (max ?n nb) (max ?p pb) ?in)"
    using emitsD [OF body, of "advance (items @ map Fixed cond @ [ToBreak JUMP_FALSE]) 0 ?n ?p ?in"] r1
    by (simp add: ba_def ca_def add.assoc)
  moreover have "visitAfter (advance (items @ map Fixed cond @ ToBreak JUMP_FALSE # body ba) 0 (max ?n nb) (max ?p pb) ?in)
      = Emitted (advance (items @ map Fixed cond @ ToBreak JUMP_FALSE # body ba @ rest (ba + items_size (body ba))) 0
          (max ?n (max nb nr)) (max ?p (max pb pr)) ?in)"
    using emitsD [OF after, of "advance (items @ map Fixed cond @ ToBreak JUMP_FALSE # body ba) 0 (max ?n nb) (max ?p pb) ?in"] r1
    by (simp add: ba_def ca_def ac_simps)
  ultimately show "VisitForStatement visitInit (VisitExpression sem (expression_of c)) visitAfter visitBlock e = Emitted (advance
      (let items = init (code_size e); ca = code_size e + items_size items; cond = compile_exp slot c ca;
           ba = ca + code_length cond + 10; block = body ba
       in close_loop (code_size e) ca (items @ map Fixed cond @ ToBreak JUMP_FALSE # block @ rest (ba + items_size block)))
      0 (max ?n (max nb nr)) (max ?p (max pb pr)) e)"
    using finish_loop_advance [OF G(2)]
    by (simp add: VisitForStatement_def enter_loop_eq note_loop_exit_eq loop_exit [OF G(1)] Let_def
        items_def [symmetric] ca_def [symmetric] cond_def [symmetric] ba_def [symmetric])
qed

section \<open>Conditional clauses\<close>

lemma visit_condition:
  "VisitExpressionStatement sem (expression_of c) (VisitExpression sem (expression_of c)) = VisitExpression sem (expression_of c)"
  by (cases c) (simp_all add: fun_eq_iff VisitExpressionStatement_def literal_def variable_access_def split: emitted.split)

lemma end_jump:
  assumes "generating slot e" "em_Clauses e \<noteq> []" "b = code_size e + items_size is + item_size i + items_size ks"
  shows "(advance (is @ i # ks @ [Fixed (jump_instruction JUMP 0)]) d n p e)\<lparr>em_Clauses :=
      (hd (em_Clauses (advance (is @ i # ks @ [Fixed (jump_instruction JUMP 0)]) d n p e)) @ [b])
        # tl (em_Clauses (advance (is @ i # ks @ [Fixed (jump_instruction JUMP 0)]) d n p e))\<rparr>
    = advance (is @ i # ks @ [ToEnd]) d n p e"
proof -
  obtain scope scopes where "em_Clauses e = scope # scopes" using assms(2) by (cases "em_Clauses e") auto
  with assms(3) show ?thesis
    by (intro AbstractEmiter.equality; simp add: advance_def note_jumps_def track_def set_code_def update_target_def
        target_method_def code_of_def add.assoc)
qed

text \<open>A clause without the bookkeeping of the chain it belongs to.\<close>

definition visit_clause :: "(bytes \<Rightarrow> u64 \<Rightarrow> bytes) \<Rightarrow> em_op \<Rightarrow> em_op \<Rightarrow> SyntaxNode \<Rightarrow> em_op \<Rightarrow> em_op" where
  "visit_clause jump visitCondition visitBlock next_clause visitNext e =
     do_all [modify_em (\<lambda>e. e\<lparr>em_PopExpressionStatement := False\<rparr>),
        visitCondition,
        modify_em (\<lambda>e'. e'\<lparr>em_PopExpressionStatement := em_PopExpressionStatement e\<rparr>), (\<lambda>e.
          let conditionalJumpAddress = code_size e in
          do_all [emit (\<lambda>code. jump code 0), EvalPop 1, visitBlock, (\<lambda>e.
            if next_clause \<noteq> NullNode then
              (let endJumpAddress = code_size e in
               do_all [emit (\<lambda>code. EmitJump code 0),
                 modify_em (\<lambda>e. e\<lparr>em_Clauses := (hd (em_Clauses e) @ [endJumpAddress]) # tl (em_Clauses e)\<rparr>), (\<lambda>e.
                 patch conditionalJumpAddress (code_size e) e), visitNext] e)
            else patch conditionalJumpAddress (code_size e) e)] e)] e"

lemma VisitConditional_clause:
  "IsConditionalClause parent \<Longrightarrow> em_Clauses e \<noteq> [] \<Longrightarrow>
     VisitConditional jump parent visitCondition visitBlock next_clause visitNext e
       = visit_clause jump visitCondition visitBlock next_clause visitNext e"
  by (simp add: VisitConditional_def visit_clause_def Let_def split: emitted.split)

lemma VisitConditional_first:
  "\<not> IsConditionalClause parent \<Longrightarrow>
     VisitConditional jump parent visitCondition visitBlock next_clause visitNext e =
       (case visit_clause jump visitCondition visitBlock next_clause visitNext (e\<lparr>em_Clauses := [] # em_Clauses e\<rparr>) of
          Emitted e1 \<Rightarrow> (case patch_all (hd (em_Clauses e1)) (code_size e1) e1 of
             Emitted e2 \<Rightarrow> Emitted (e2\<lparr>em_Clauses := tl (em_Clauses e2)\<rparr>) | r \<Rightarrow> r)
        | r \<Rightarrow> r)"
  by (simp add: VisitConditional_def visit_clause_def Let_def split: emitted.split)

abbreviation in_chain :: "bound_symbols \<Rightarrow> (ptr \<Rightarrow> u16) \<Rightarrow> (ptr \<Rightarrow> nat) \<Rightarrow> bool \<Rightarrow> AbstractEmiter \<Rightarrow> bool" where
  "in_chain sem slot spay inside e \<equiv> ready sem slot spay inside e \<and> em_Clauses e \<noteq> []"

lemma visit_clause_emits:
  assumes c: "exp_ok c" and body: "emits (ready sem slot spay inside) visitBlock body n p"
    and rest: "next_clause \<noteq> NullNode \<Longrightarrow> emits (in_chain sem slot spay inside) visitNext rest m q"
    and none: "next_clause = NullNode \<Longrightarrow> m = 0 \<and> q = 0"
    and jump: "jump = (if b then EmitJumpFalse else EmitJumpTrue)"
  shows "emits (in_chain sem slot spay inside) (visit_clause jump (VisitExpression sem (expression_of c)) visitBlock next_clause visitNext)
    (\<lambda>a. let cond = compile_exp slot c a; ba = a + code_length cond + 10 in
         clause_items b cond ba (body ba) (if next_clause = NullNode then None else Some rest))
    (max (exp_depth c) (max n m)) (max (exp_payload sem spay c) (max p q))"
  unfolding emits_def
proof (intro allI impI)
  fix e assume r: "in_chain sem slot spay inside e"
  define cond where "cond = compile_exp slot c (code_size e)"
  define ba where "ba = code_size e + code_length cond + 10"
  let ?n = "exp_depth c" and ?p = "exp_payload sem spay c"
  have G: "generating slot e" using r by (simp add: ready_def)
  have visit: "VisitExpression sem (expression_of c) (e\<lparr>em_PopExpressionStatement := False\<rparr>)
      = Emitted (advance (map Fixed cond) 1 ?n ?p (e\<lparr>em_PopExpressionStatement := False\<rparr>))"
    using exp_emits [OF c, of sem slot spay inside "e\<lparr>em_PopExpressionStatement := False\<rparr>"] r by (simp add: cond_def)
  have same: "e\<lparr>em_PopExpressionStatement := em_PopExpressionStatement e\<rparr> = e" by simp
  have jumped: "emit (\<lambda>code. jump code 0) (advance (map Fixed cond) (Suc 0) ?n ?p e)
      = Emitted (advance (map Fixed cond @ [Fixed (jump_instruction (exit_jump b) 0)]) (Suc 0) ?n ?p e)"
    using G by (simp add: jump exit_jump_def)
  have block: "visitBlock (advance (map Fixed cond @ [Fixed (jump_instruction (exit_jump b) 0)]) 0 ?n ?p e)
      = Emitted (advance (map Fixed cond @ Fixed (jump_instruction (exit_jump b) 0) # body ba) 0 (max ?n n) (max ?p p) e)"
    using emitsD [OF body, of "advance (map Fixed cond @ [Fixed (jump_instruction (exit_jump b) 0)]) 0 ?n ?p e"] r
    by (simp add: ba_def add.assoc)
  have next_part: "visitNext (advance is 0 (max ?n n) (max ?p p) e)
      = Emitted (advance (is @ rest (code_size e + items_size is)) 0 (max ?n (max n m)) (max ?p (max p q)) e)"
    if "next_clause \<noteq> NullNode" for "is"
    using emitsD [OF rest [OF that], of "advance is 0 (max ?n n) (max ?p p) e"] r by (simp add: ac_simps)
  have "visit_clause jump (VisitExpression sem (expression_of c)) visitBlock next_clause visitNext e
      = Emitted (advance (clause_items b cond ba (body ba) (if next_clause = NullNode then None else Some rest))
          0 (max ?n (max n m)) (max ?p (max p q)) e)"
    using G r none
    by (simp add: visit_clause_def visit advance_scope_commute(2) same jumped block patch_advance end_jump next_part
        clause_items_def ba_def Let_def add_ac)
  then show "visit_clause jump (VisitExpression sem (expression_of c)) visitBlock next_clause visitNext e
      = Emitted (advance (let cond = compile_exp slot c (code_size e); ba = code_size e + code_length cond + 10 in
            clause_items b cond ba (body ba) (if next_clause = NullNode then None else Some rest))
          0 (max ?n (max n m)) (max ?p (max p q)) e)"
    by (simp add: cond_def ba_def Let_def)
qed

lemma chain_emits:
  assumes "emits (in_chain sem slot spay inside) (visit_clause jump visitCondition visitBlock next_clause visitNext) items n p"
    and "\<not> IsConditionalClause parent"
  shows "emits (ready sem slot spay inside) (VisitConditional jump parent visitCondition visitBlock next_clause visitNext)
    (\<lambda>a. map (settle is_end (a + items_size (items a))) (items a)) n p"
  unfolding emits_def
proof (intro allI impI)
  fix e assume r: "ready sem slot spay inside e"
  let ?e = "e\<lparr>em_Clauses := [] # em_Clauses e\<rparr>" and ?is = "items (code_size e)"
  have "visit_clause jump visitCondition visitBlock next_clause visitNext ?e = Emitted (advance ?is 0 n p ?e)"
    using emitsD [OF assms(1), of ?e] r by simp
  moreover have "em_Clauses (set_code code (advance ?is 0 n p ?e)) = places is_end (code_size e) ?is # em_Clauses e"
    "em_Clauses (advance ?is 0 n p ?e) = places is_end (code_size e) ?is # em_Clauses e" for code
    by (simp_all add: advance_def note_jumps_def track_def)
  moreover have "patch_all (places is_end (code_size e) ?is) t (advance ?is 0 n p ?e)
      = Emitted (set_code (code_of e @ items_bytes (map (settle is_end t) ?is)) (advance ?is 0 n p ?e))" for t
    using settle_ends [of ?e "[]" "em_Clauses e" ?is t 0 n p] by simp
  ultimately show "VisitConditional jump parent visitCondition visitBlock next_clause visitNext e
      = Emitted (advance (map (settle is_end (code_size e + items_size ?is)) ?is) 0 n p e)"
    by (simp add: VisitConditional_first [OF assms(2)] leave_clauses)
qed

section \<open>Statements\<close>

lemma declare_emits:
  assumes "exp_ok x" "v \<noteq> nullptr"
  shows "emits (ready sem slot spay inside) (VisitVariableStatement v (VisitExpression sem (expression_of x)))
    (\<lambda>a. map Fixed (compile_exp slot x a @ [store_local (slot v)])) (exp_depth x) (exp_payload sem spay x)"
  unfolding emits_def
proof (intro allI impI)
  fix e assume r: "ready sem slot spay inside e"
  then have "generating slot e" "em_SlotIndex e = slot" by (simp_all add: ready_def generating_def)
  with assms exp_emits [OF assms(1) r]
  show "VisitVariableStatement v (VisitExpression sem (expression_of x)) e
      = Emitted (advance (map Fixed (compile_exp slot x (code_size e) @ [store_local (slot v)])) 0 (exp_depth x)
          (exp_payload sem spay x) e)"
    by (simp add: VisitVariableStatement_def)
qed

lemma VisitStatement_assign:
  assumes "v \<noteq> nullptr"
  shows "VisitStatement sem parent (statement_of (SAssign v x)) = VisitVariableStatement v (VisitExpression sem (expression_of x))"
  using assms
  by (simp add: fun_eq_iff VisitStatement_def VisitExpression_def VisitExpressionStatement_def VisitBinaryExpression_def
      IsAssignExpression_def VisitBinaryAssignExpression_def VisitVariableStatement_def variable_access_def split: emitted.split)

lemma sequence_emits:
  assumes "\<And>s. s \<in> set ss \<Longrightarrow> emits (ready sem slot spay inside) (visit s) (items s) (depth s) (payload s)"
    and "all_items [] = (\<lambda>a. [])"
    and "\<And>s ss. all_items (s # ss) = (\<lambda>a. let is = items s a in is @ all_items ss (a + items_size is))"
  shows "emits (ready sem slot spay inside) (do_all (map visit ss)) (all_items ss)
    (foldr max (map depth ss) 0) (foldr max (map payload ss) 0)"
  using assms(1)
proof (induction ss)
  case Nil
  then show ?case by (simp add: emits_def assms(2))
next
  case (Cons s ss)
  then have s: "emits (ready sem slot spay inside) (visit s) (items s) (depth s) (payload s)"
    and ss: "emits (ready sem slot spay inside) (do_all (map visit ss)) (all_items ss)
      (foldr max (map depth ss) 0) (foldr max (map payload ss) 0)" by simp_all
  show ?case
    unfolding emits_def
  proof (intro allI impI)
    fix e assume r: "ready sem slot spay inside e"
    from emitsD [OF s r] emitsD [OF ss, of "advance (items s (code_size e)) 0 (depth s) (payload s) e"] r
    show "do_all (map visit (s # ss)) e = Emitted (advance (all_items (s # ss) (code_size e)) 0
        (foldr max (map depth (s # ss)) 0) (foldr max (map payload (s # ss)) 0) e)"
      by (simp add: assms(3) Let_def)
  qed
qed

lemma block_emits:
  assumes "\<And>s. s \<in> set ss \<Longrightarrow>
      emits (ready sem slot spay inside) (VisitStatement sem (PartK StatementsBlock) (statement_of s))
        (compile_stm slot s) (stm_depth s) (stm_payload sem spay s)"
  shows "emits (ready sem slot spay inside) (VisitStatementsBlock sem parent (StatementsBlockSyntax (map statement_of ss)))
    (compile_stms slot ss) (foldr max (map stm_depth ss) 0) (foldr max (map (stm_payload sem spay) ss) 0)"
proof -
  have "emits (ready sem slot spay inside) (do_all (map (\<lambda>s. VisitStatement sem (PartK StatementsBlock) (statement_of s)) ss))
    (compile_stms slot ss) (foldr max (map stm_depth ss) 0) (foldr max (map (stm_payload sem spay) ss) 0)"
    by (rule sequence_emits [OF assms]) (simp_all add: fun_eq_iff)
  from scope_emits [OF this, of parent] show ?thesis
    by (simp add: VisitStatementsBlock_def VisitStatement_def comp_def)
qed

lemma clause_of_Null [simp]: "clause_of n = NullNode \<longleftrightarrow> n = NoElse"
  by (cases n) simp_all

lemma clause_emits:
  assumes c: "exp_ok c"
    and block: "emits (ready sem slot spay inside)
      (VisitStatementsBlock sem (StmtK (if b then IfStatement else UnlessStatement)) (StatementsBlockSyntax (map statement_of ss)))
      (compile_stms slot ss) n p"
    and rest: "next_part \<noteq> NoElse \<Longrightarrow> emits (in_chain sem slot spay inside)
      (VisitConditionalClause sem (StmtK (if b then IfStatement else UnlessStatement)) (clause_of next_part))
      (compile_else slot next_part) (else_depth next_part) (else_payload sem spay next_part)"
  shows "emits (in_chain sem slot spay inside)
    (visit_clause (if b then EmitJumpFalse else EmitJumpTrue) (VisitExpression sem (expression_of c))
       (VisitStatementsBlock sem (StmtK (if b then IfStatement else UnlessStatement)) (StatementsBlockSyntax (map statement_of ss)))
       (clause_of next_part)
       (VisitConditionalClause sem (StmtK (if b then IfStatement else UnlessStatement)) (clause_of next_part)))
    (compile_else slot (ElseIf b c ss next_part)) (max (exp_depth c) (max n (else_depth next_part)))
    (max (exp_payload sem spay c) (max p (else_payload sem spay next_part)))"
  using visit_clause_emits [OF c block, where b = b and next_clause = "clause_of next_part"
      and visitNext = "VisitConditionalClause sem (StmtK (if b then IfStatement else UnlessStatement)) (clause_of next_part)"
      and rest = "compile_else slot next_part" and m = "else_depth next_part" and q = "else_payload sem spay next_part"] rest
  by (auto simp: Let_def emits_def)

lemma visits_conditional:
  "nv_clause (visits sem ((if b then IfStatementSyntax else UnlessStatementSyntax) x y z)) parent
     = nv_statement (visits sem ((if b then IfStatementSyntax else UnlessStatementSyntax) x y z)) parent"
  "nv_statement (visits sem ((if b then IfStatementSyntax else UnlessStatementSyntax)
       (ExpressionStatementSyntax (expression_of c)) block next_clause)) parent =
     VisitConditional (if b then EmitJumpFalse else EmitJumpTrue) parent (VisitExpression sem (expression_of c))
       (VisitStatementsBlock sem (StmtK (if b then IfStatement else UnlessStatement)) block) next_clause
       (VisitConditionalClause sem (StmtK (if b then IfStatement else UnlessStatement)) next_clause)"
  using visit_condition [of sem c]
  by (simp_all add: VisitIfStatement_def VisitUnlessStatement_def VisitStatementsBlock_def VisitConditionalClause_def VisitExpression_def)

lemma statement_emits:
  "stm_ok inside s \<Longrightarrow> \<not> IsConditionalClause parent \<Longrightarrow>
     emits (ready sem slot spay inside) (VisitStatement sem parent (statement_of s)) (compile_stm slot s) (stm_depth s) (stm_payload sem spay s)"
  "else_ok inside n \<Longrightarrow> IsConditionalClause parent' \<Longrightarrow> n \<noteq> NoElse \<Longrightarrow>
     emits (in_chain sem slot spay inside) (VisitConditionalClause sem parent' (clause_of n)) (compile_else slot n) (else_depth n)
       (else_payload sem spay n)"
proof (induction s and n arbitrary: inside parent and inside parent')
  case (SDeclare x e)
  then show ?case using declare_emits [of e x sem slot spay inside] by (simp add: VisitStatement_def VisitExpression_def)
next
  case (SAssign x e)
  then show ?case using declare_emits [of e x sem slot spay inside] VisitStatement_assign [of x sem parent e] by simp
next
  case (SIf b c ss n)
  let ?kind = "StmtK (if b then IfStatement else UnlessStatement)"
  have "IsConditionalClause ?kind" by (simp add: IsConditionalClause_def)
  with SIf have rest: "n \<noteq> NoElse \<Longrightarrow> emits (in_chain sem slot spay inside) (VisitConditionalClause sem ?kind (clause_of n))
      (compile_else slot n) (else_depth n) (else_payload sem spay n)" by simp
  have block: "emits (ready sem slot spay inside) (VisitStatementsBlock sem ?kind (StatementsBlockSyntax (map statement_of ss)))
      (compile_stms slot ss) (foldr max (map stm_depth ss) 0) (foldr max (map (stm_payload sem spay) ss) 0)"
    using SIf by (intro block_emits) (auto simp: list_all_iff IsConditionalClause_def)
  show ?case
    using chain_emits [OF clause_emits [OF _ block rest] SIf.prems(2)] SIf.prems(1)
    by (auto simp: VisitStatement_def visits_conditional(2) Let_def emits_def)
next
  case (SWhile b c ss)
  have "emits (ready sem slot spay True)
      (VisitStatementsBlock sem (StmtK (if b then WhileStatement else UntilStatement)) (StatementsBlockSyntax (map statement_of ss)))
      (compile_stms slot ss) (foldr max (map stm_depth ss) 0) (foldr max (map (stm_payload sem spay) ss) 0)"
    using SWhile by (intro block_emits) (auto simp: list_all_iff IsConditionalClause_def)
  from loop_emits [OF _ this refl, of c inside b] SWhile.prems(1) show ?case
    by (cases b) (simp_all add: VisitStatement_def VisitExpression_def VisitStatementsBlock_def emits_def)
next
  case (SFor i c r ss)
  have body: "emits (ready sem slot spay True) (VisitStatementsBlock sem (StmtK ForStatement) (StatementsBlockSyntax (map statement_of ss)))
      (compile_stms slot ss) (foldr max (map stm_depth ss) 0) (foldr max (map (stm_payload sem spay) ss) 0)"
    using SFor by (intro block_emits) (auto simp: list_all_iff IsConditionalClause_def)
  have "emits (ready sem slot spay False) (VisitStatement sem (StmtK ForStatement) (statement_of i)) (compile_stm slot i)
      (stm_depth i) (stm_payload sem spay i)"
    "emits (ready sem slot spay False) (VisitStatement sem (StmtK ForStatement) (statement_of r)) (compile_stm slot r)
      (stm_depth r) (stm_payload sem spay r)"
    using SFor by (simp_all add: IsConditionalClause_def)
  from for_emits [OF _ this(1) body this(2), of c inside] SFor.prems(1) show ?case
    by (simp add: VisitStatement_def VisitExpression_def VisitStatementsBlock_def emits_def)
next
  case SBreak
  then show ?case using break_emits [of sem slot spay] by (simp add: VisitStatement_def emits_def)
next
  case SContinue
  then show ?case using continue_emits [of sem slot spay] by (simp add: VisitStatement_def emits_def)
next
  case SReturn
  then show ?case using return_emits [of sem slot spay inside] by (simp add: VisitStatement_def emits_def)
next
  case (Else ss)
  have "emits (ready sem slot spay inside) (VisitStatementsBlock sem (StmtK ElseStatement) (StatementsBlockSyntax (map statement_of ss)))
      (compile_stms slot ss) (foldr max (map stm_depth ss) 0) (foldr max (map (stm_payload sem spay) ss) 0)"
    using Else by (intro block_emits) (auto simp: list_all_iff IsConditionalClause_def)
  then show ?case by (simp add: VisitConditionalClause_def VisitStatementsBlock_def emits_def)
next
  case (ElseIf b c ss n)
  let ?kind = "StmtK (if b then IfStatement else UnlessStatement)"
  have "IsConditionalClause ?kind" by (simp add: IsConditionalClause_def)
  with ElseIf have rest: "n \<noteq> NoElse \<Longrightarrow> emits (in_chain sem slot spay inside) (VisitConditionalClause sem ?kind (clause_of n))
      (compile_else slot n) (else_depth n) (else_payload sem spay n)" by simp
  have block: "emits (ready sem slot spay inside) (VisitStatementsBlock sem ?kind (StatementsBlockSyntax (map statement_of ss)))
      (compile_stms slot ss) (foldr max (map stm_depth ss) 0) (foldr max (map (stm_payload sem spay) ss) 0)"
    using ElseIf by (intro block_emits) (auto simp: list_all_iff IsConditionalClause_def)
  from clause_emits [OF _ block rest, of c] ElseIf.prems show ?case
    by (simp add: VisitConditionalClause_def [of sem parent'] visits_conditional emits_def VisitConditional_clause)
qed simp

section \<open>Methods\<close>

text \<open>The code of a method whose body is \<open>ss\<close>, and the layout its tracker publishes.\<close>

definition method_code :: "(ptr \<Rightarrow> u16) \<Rightarrow> stm list \<Rightarrow> Instruction list" where
  "method_code slot ss = map (item_instruction 0) (compile_stms slot ss 0) @ [Instruction (Co RETURN) []]"

definition block_depth :: "stm list \<Rightarrow> nat" where
  "block_depth ss = foldr max (map stm_depth ss) 0"

definition block_payload :: "bound_symbols \<Rightarrow> (ptr \<Rightarrow> nat) \<Rightarrow> stm list \<Rightarrow> nat" where
  "block_payload sem spay ss = foldr max (map (stm_payload sem spay) ss) 0"

definition compiled_method :: "bound_symbols \<Rightarrow> (ptr \<Rightarrow> u16) \<Rightarrow> stm list \<Rightarrow> MethodSymbol \<Rightarrow> MethodSymbol" where
  "compiled_method sem slot ss m = m\<lparr>
     me_ExecutableByteCode := program_bytes (method_code slot ss),
     me_MaxEvalDepth := block_depth ss mod 2 ^ 32,
     me_EvalSlotPayload := (if 0 < block_depth ss
       then max (block_payload sem (\<lambda>x. SlotPayload (sem_types sem) m (slot x)) ss) 1 else 0),
     me_IsComplete := True\<rparr>"

text \<open>The emitter between two declarations.\<close>

definition at_rest :: "AbstractEmiter \<Rightarrow> bool" where
  "at_rest e \<longleftrightarrow> em_EvalTracker e = EvalLayoutTracker_new \<and> (\<forall>scope\<in>set (em_DeferScopes e). ds_Count scope = 0)"

lemma check_entry_point_methods:
  "\<exists>e'. check_entry_point sem m e = Emitted e' \<and> em_methods e' = em_methods e \<and> em_EvalTracker e' = em_EvalTracker e"
  by (simp add: check_entry_point_def Let_def split: list.split)

lemma finish_target_advance:
  assumes "generating slot e" "em_EvalTracker e = EvalLayoutTracker_new"
  shows "\<exists>e'. finish_target (advance items 0 n p e) = Emitted e' \<and> em_EvalTracker e' = EvalLayoutTracker_new \<and>
    em_methods e' = (em_methods e)(em_GeneratingFor e := (target_method e)\<lparr>
      me_ExecutableByteCode := code_of e @ items_bytes items @ instruction_bytes (Instruction (Co RETURN) []),
      me_MaxEvalDepth := n mod 2 ^ 32, me_EvalSlotPayload := (if 0 < n then max p 1 else 0), me_IsComplete := True\<rparr>)"
proof -
  let ?ret = "Fixed (Instruction (Co RETURN) [])"
  have G: "em_GeneratingFor e \<noteq> nullptr" using assms(1) by (simp add: generating_def)
  have trk: "em_EvalTracker (advance is 0 n p e)
      = \<lparr>trk_CurrentDepth = 0, trk_MaxDepth = n, trk_MaxPayload = p, trk_DeferBodyMax = 0, trk_Poisoned = False\<rparr>" for "is"
    by (simp add: assms(2) EvalLayoutTracker_new_def advance_tracker_def)
  have quiet: "track (\<lambda>t. if trk_CurrentDepth t \<noteq> 0 then t\<lparr>trk_Poisoned := True\<rparr> else t) (advance items 0 n p e)
      = advance items 0 n p e"
    using assms(2) by (simp add: track_def EvalLayoutTracker_new_def)
  have step: "finish_target (advance items 0 n p e) = EvalFinalizeTarget (advance (items @ [?ret]) 0 n p e)"
    unfolding finish_target_def do_all.simps quiet using assms(1) by (simp add: emitted.split split: emitted.split)
  have methods: "em_methods (advance is 0 n p e) = (em_methods e)(em_GeneratingFor e := (target_method e)\<lparr>me_ExecutableByteCode := code_of e @ items_bytes is\<rparr>)" for "is"
    by (simp add: advance_def note_jumps_def track_def set_code_def update_target_def)
  show ?thesis
    unfolding step EvalFinalizeTarget_def PublishLayout_def trk using G
    by (simp add: methods)
qed

lemma VisitMethodDeclaration_compiles:
  assumes ok: "list_all (stm_ok False) ss" and emitted: "method \<noteq> nullptr" "\<not> mem_IsAsync (sem_members sem method)"
    and rest: "at_rest e" and fresh: "me_ExecutableByteCode (em_methods e method) = []" and slot: "em_SlotIndex e = slot"
  shows "\<exists>e'. VisitMethodDeclaration sem method (block_of ss) e = Emitted e' \<and>
    em_methods e' = (em_methods e)(method := compiled_method sem slot ss (em_methods e method)) \<and>
    em_EvalTracker e' = EvalLayoutTracker_new"
proof -
  let ?e = "e\<lparr>em_GeneratingFor := method\<rparr>"
  define spay where "spay = slot_payload sem slot ?e"
  have target: "target_method ?e = em_methods e method" "code_of ?e = []"
    using fresh by (simp_all add: target_method_def code_of_def)
  have "ready sem slot spay False ?e"
    using emitted(1) rest slot by (simp add: ready_def generating_def spay_def at_rest_def EvalLayoutTracker_new_def)
  moreover have "emits (ready sem slot spay False) (VisitStatementsBlock sem (DeclK MethodDeclaration) (block_of ss))
      (compile_stms slot ss) (block_depth ss) (block_payload sem spay ss)"
    unfolding block_of_def block_depth_def block_payload_def
    using ok by (intro block_emits statement_emits(1)) (auto simp: list_all_iff IsConditionalClause_def)
  ultimately have visit: "VisitStatementsBlock sem (DeclK MethodDeclaration) (block_of ss) ?e
      = Emitted (advance (compile_stms slot ss 0) 0 (block_depth ss) (block_payload sem spay ss) ?e)"
    using target(2) by (simp add: emitsD)
  have "generating slot ?e" "em_EvalTracker ?e = EvalLayoutTracker_new"
    using emitted(1) rest slot by (simp_all add: generating_def at_rest_def)
  moreover have spay: "spay = (\<lambda>x. SlotPayload (sem_types sem) (em_methods e method) (slot x))"
    by (simp add: spay_def fun_eq_iff slot_payload_def target)
  moreover have "items_bytes (compile_stms slot ss 0) @ instruction_bytes (Instruction (Co RETURN) [])
      = program_bytes (method_code slot ss)"
    by (simp add: method_code_def items_bytes_def)
  ultimately obtain e1 where e1: "finish_target (advance (compile_stms slot ss 0) 0 (block_depth ss) (block_payload sem spay ss) ?e) = Emitted e1"
    "em_EvalTracker e1 = EvalLayoutTracker_new"
    "em_methods e1 = (em_methods e)(method := compiled_method sem slot ss (em_methods e method))"
    using finish_target_advance [of slot ?e "compile_stms slot ss 0" "block_depth ss" "block_payload sem spay ss"] target
    by (auto simp: compiled_method_def)
  from check_entry_point_methods [of sem "method" e1] obtain e2 where e2:
    "check_entry_point sem method e1 = Emitted e2" "em_methods e2 = em_methods e1" "em_EvalTracker e2 = em_EvalTracker e1" by blast
  with e1 visit emitted show ?thesis
    by (simp add: VisitMethodDeclaration_def leave_target_def)
qed

end
