(* ===== verification/SourceSemantics.thy ===== *)
theory SourceSemantics
  imports EmittedStatements
begin

text \<open>
  What a source program means, without code: expressions are evaluated over a store of variables from
  left to right, both operands of every operator; statements change the store and end normally or
  leave a loop or the method. The operators are those of the runtime. \<open>exec_stm\<close> has fuel for its loops;
  \<open>None\<close> stands for too little of it, and for operators that allocate.
\<close>

section \<open>Endings\<close>

type_synonym store = "ptr \<Rightarrow> prim option"

datatype 'a ending = Gives 'a | Threw cpp_exception | Crashed

definition and_then :: "'a ending option \<Rightarrow> ('a \<Rightarrow> 'b ending option) \<Rightarrow> 'b ending option" where
  "and_then r g =
     (case r of
        None \<Rightarrow> None
      | Some (Gives x) \<Rightarrow> g x
      | Some (Threw e) \<Rightarrow> Some (Threw e)
      | Some Crashed \<Rightarrow> Some Crashed)"

lemma and_then_simps [simp]:
  "and_then None g = None" "and_then (Some (Gives x)) g = g x"
  "and_then (Some (Threw e)) g = Some (Threw e)" "and_then (Some Crashed) g = Some Crashed"
  by (simp_all add: and_then_def)

lemma and_then_Gives:
  "and_then r g = Some (Gives y) \<longleftrightarrow> (\<exists>x. r = Some (Gives x) \<and> g x = Some (Gives y))"
  by (simp add: and_then_def split: option.split ending.split)

fun verdict_ending :: "verdict \<Rightarrow> prim ending option" where
  "verdict_ending (Value p) = Some (Gives p)"
| "verdict_ending (Fails e) = Some (Threw e)"
| "verdict_ending Crashes = Some Crashed"
| "verdict_ending Unhandled = None"

section \<open>Expressions\<close>

definition read_variable :: "ptr \<Rightarrow> store \<Rightarrow> prim ending option" where
  "read_variable x \<sigma> =
     (case \<sigma> x of
        None \<Rightarrow> Some (Threw (undefined_behaviour ''EvalStack: TypeShape was null''))
      | Some p \<Rightarrow> Some (Gives p))"

definition apply_binary :: "double_ops \<Rightarrow> OperatorToken \<Rightarrow> prim \<Rightarrow> prim \<Rightarrow> prim ending option" where
  "apply_binary D op p q = (if op \<in> set boxless_operators then verdict_ending (machine_binary D op p q) else None)"

definition apply_unary :: "double_ops \<Rightarrow> OperatorToken \<Rightarrow> prim \<Rightarrow> prim ending option" where
  "apply_unary D op p = (if op = AddOperator then Some (Gives p) else verdict_ending (prim_unary D op p))"

fun truth :: "prim \<Rightarrow> bool ending option" where
  "truth (VBool b) = Some (Gives b)"
| "truth _ = Some (Threw (runtime_exception ''Cannot interpret instance as Boolean''))"

text \<open>
  A step by one written after the variable (\<^verbatim>\<open>IsRightDetermined\<close>) gives the old value, one in front of it the
  new value.
\<close>

primrec eval :: "double_ops \<Rightarrow> exp \<Rightarrow> store \<Rightarrow> (prim \<times> store) ending option" where
  "eval D (EInt i) \<sigma> = Some (Gives (VInt i, \<sigma>))"
| "eval D (EBool b) \<sigma> = Some (Gives (VBool b, \<sigma>))"
| "eval D (EChar c) \<sigma> = Some (Gives (VChar c, \<sigma>))"
| "eval D (EDouble d) \<sigma> = Some (Gives (VDouble d, \<sigma>))"
| "eval D (EVar x) \<sigma> = and_then (read_variable x \<sigma>) (\<lambda>p. Some (Gives (p, \<sigma>)))"
| "eval D (EStep x increment right) \<sigma> =
     and_then (read_variable x \<sigma>) (\<lambda>p.
     and_then (apply_binary D (if increment then AddOperator else SubOperator) p (VInt 1)) (\<lambda>q.
     Some (Gives (if right then p else q, \<sigma>(x \<mapsto> q)))))"
| "eval D (EUnary op e) \<sigma> =
     and_then (eval D e \<sigma>) (\<lambda>(p, \<sigma>). and_then (apply_unary D op p) (\<lambda>q. Some (Gives (q, \<sigma>))))"
| "eval D (EBinary op l r) \<sigma> =
     and_then (eval D l \<sigma>) (\<lambda>(p, \<sigma>). and_then (eval D r \<sigma>) (\<lambda>(q, \<sigma>).
     and_then (apply_binary D op p q) (\<lambda>v. Some (Gives (v, \<sigma>)))))"
| "eval D (ECond c l r) \<sigma> =
     and_then (eval D c \<sigma>) (\<lambda>(p, \<sigma>). and_then (truth p) (\<lambda>b. if b then eval D l \<sigma> else eval D r \<sigma>))"

section \<open>Statements\<close>

datatype flow = Normal | Broke | Continued | Returned

definition assign :: "double_ops \<Rightarrow> ptr \<Rightarrow> exp \<Rightarrow> store \<Rightarrow> (flow \<times> store) ending option" where
  "assign D x e \<sigma> = and_then (eval D e \<sigma>) (\<lambda>(p, \<sigma>). Some (Gives (Normal, \<sigma>(x \<mapsto> p))))"

definition test :: "double_ops \<Rightarrow> exp \<Rightarrow> store \<Rightarrow> (bool \<times> store) ending option" where
  "test D c \<sigma> = and_then (eval D c \<sigma>) (\<lambda>(p, \<sigma>). and_then (truth p) (\<lambda>b. Some (Gives (b, \<sigma>))))"

text \<open>
  What is executed: a statement, a block, the clauses after a condition, a loop at its test.
  After \<^verbatim>\<open>continue\<close> a \<^verbatim>\<open>for\<close> loop runs its repeat statement; \<^verbatim>\<open>while\<close> and \<^verbatim>\<open>until\<close> have none.
\<close>

datatype (plugins only: size) code = One stm | Many "stm list" | Rest else_part | Loop bool exp "stm list" "stm list"

definition in_sequence ::
  "(flow \<times> store) ending option \<Rightarrow> (store \<Rightarrow> (flow \<times> store) ending option) \<Rightarrow> (flow \<times> store) ending option" where
  "in_sequence r g = and_then r (\<lambda>(f, \<sigma>). if f = Normal then g \<sigma> else Some (Gives (f, \<sigma>)))"

definition branch ::
  "double_ops \<Rightarrow> bool \<Rightarrow> exp \<Rightarrow> (store \<Rightarrow> (flow \<times> store) ending option) \<Rightarrow> (store \<Rightarrow> (flow \<times> store) ending option)
     \<Rightarrow> store \<Rightarrow> (flow \<times> store) ending option" where
  "branch D b c taken other \<sigma> = and_then (test D c \<sigma>) (\<lambda>(v, \<sigma>). if v = b then taken \<sigma> else other \<sigma>)"

definition iteration ::
  "(flow \<times> store) ending option \<Rightarrow> (store \<Rightarrow> (flow \<times> store) ending option) \<Rightarrow> (flow \<times> store) ending option" where
  "iteration body again = and_then body (\<lambda>(f, \<sigma>).
     if f = Broke then Some (Gives (Normal, \<sigma>)) else if f = Returned then Some (Gives (Returned, \<sigma>)) else again \<sigma>)"

fun exec_round :: "double_ops \<Rightarrow> (code \<Rightarrow> store \<Rightarrow> (flow \<times> store) ending option) \<Rightarrow> code \<Rightarrow> store \<Rightarrow> (flow \<times> store) ending option" where
  "exec_round D rec (One (SDeclare x e)) \<sigma> = assign D x e \<sigma>"
| "exec_round D rec (One (SAssign x e)) \<sigma> = assign D x e \<sigma>"
| "exec_round D rec (One (SIf b c ss rest)) \<sigma> = branch D b c (rec (Many ss)) (rec (Rest rest)) \<sigma>"
| "exec_round D rec (One (SWhile b c ss)) \<sigma> = rec (Loop b c ss []) \<sigma>"
| "exec_round D rec (One (SFor i c r ss)) \<sigma> = in_sequence (rec (One i) \<sigma>) (rec (Loop True c ss [r]))"
| "exec_round D rec (One SBreak) \<sigma> = Some (Gives (Broke, \<sigma>))"
| "exec_round D rec (One SContinue) \<sigma> = Some (Gives (Continued, \<sigma>))"
| "exec_round D rec (One SReturn) \<sigma> = Some (Gives (Returned, \<sigma>))"
| "exec_round D rec (Many []) \<sigma> = Some (Gives (Normal, \<sigma>))"
| "exec_round D rec (Many (s # ss)) \<sigma> = in_sequence (rec (One s) \<sigma>) (rec (Many ss))"
| "exec_round D rec (Rest NoElse) \<sigma> = Some (Gives (Normal, \<sigma>))"
| "exec_round D rec (Rest (Else ss)) \<sigma> = rec (Many ss) \<sigma>"
| "exec_round D rec (Rest (ElseIf b c ss rest)) \<sigma> = branch D b c (rec (Many ss)) (rec (Rest rest)) \<sigma>"
| "exec_round D rec (Loop b c ss after) \<sigma> =
     branch D b c
       (\<lambda>\<sigma>. iteration (rec (Many ss) \<sigma>) (\<lambda>\<sigma>. in_sequence (rec (Many after) \<sigma>) (rec (Loop b c ss after))))
       (\<lambda>\<sigma>. Some (Gives (Normal, \<sigma>))) \<sigma>"

primrec exec :: "double_ops \<Rightarrow> nat \<Rightarrow> code \<Rightarrow> store \<Rightarrow> (flow \<times> store) ending option" where
  "exec D 0 code \<sigma> = None"
| "exec D (Suc n) code \<sigma> = exec_round D (exec D n) code \<sigma>"

section \<open>Fuel\<close>

text \<open>More fuel does not change a result.\<close>

lemma and_then_mono:
  assumes "and_then r g = Some y" "\<And>y. r = Some y \<Longrightarrow> r' = Some y" "\<And>x y. g x = Some y \<Longrightarrow> g' x = Some y"
  shows "and_then r' g' = Some y"
proof (cases r)
  case None
  with assms(1) show ?thesis by simp
next
  case (Some z)
  with assms show ?thesis by (cases z) auto
qed

lemma exec_round_mono:
  assumes "\<And>code \<sigma> r. rec code \<sigma> = Some r \<Longrightarrow> rec' code \<sigma> = Some r"
  shows "exec_round D rec code \<sigma> = Some r \<Longrightarrow> exec_round D rec' code \<sigma> = Some r"
  by (cases "(D, rec, code, \<sigma>)" rule: exec_round.cases)
    (auto simp: in_sequence_def branch_def iteration_def assms elim!: and_then_mono split: if_splits)

lemma exec_mono: "exec D n code \<sigma> = Some r \<Longrightarrow> n \<le> m \<Longrightarrow> exec D m code \<sigma> = Some r"
proof (induction n arbitrary: m code \<sigma> r)
  case (Suc n)
  from Suc.prems(2) obtain k where k: "m = Suc k" "n \<le> k" by (cases m) auto
  from Suc.prems(1) have "exec_round D (exec D n) code \<sigma> = Some r" by simp
  then have "exec_round D (exec D k) code \<sigma> = Some r"
    by (rule exec_round_mono [rotated]) (rule Suc.IH [OF _ k(2)])
  then show ?case by (simp add: k)
qed simp

section \<open>Flows\<close>

text \<open>The ways a statement may end, read off its text.\<close>

primrec flows :: "stm \<Rightarrow> flow set" and else_flows :: "else_part \<Rightarrow> flow set" where
  "flows (SDeclare x e) = {Normal}"
| "flows (SAssign x e) = {Normal}"
| "flows (SIf b c ss rest) = insert Normal (\<Union> (set (map flows ss))) \<union> else_flows rest"
| "flows (SWhile b c ss) = {Normal, Returned}"
| "flows (SFor i c r ss) = {Normal, Returned}"
| "flows SBreak = {Broke}" | "flows SContinue = {Continued}" | "flows SReturn = {Returned}"
| "else_flows NoElse = {Normal}"
| "else_flows (Else ss) = insert Normal (\<Union> (set (map flows ss)))"
| "else_flows (ElseIf b c ss rest) = insert Normal (\<Union> (set (map flows ss))) \<union> else_flows rest"

abbreviation block_flows :: "stm list \<Rightarrow> flow set" where
  "block_flows ss \<equiv> insert Normal (\<Union> (set (map flows ss)))"

lemma outside_flows:
  "stm_ok False s \<Longrightarrow> flows s \<subseteq> {Normal, Returned}" "else_ok False e \<Longrightarrow> else_flows e \<subseteq> {Normal, Returned}"
  by (induction s and e) (auto simp: list_all_iff subset_iff)

lemma outside_block: "list_all (stm_ok False) ss \<Longrightarrow> block_flows ss \<subseteq> {Normal, Returned}"
  using outside_flows(1) by (fastforce simp: list_all_iff)

fun code_flows :: "code \<Rightarrow> flow set" where
  "code_flows (One s) = flows s"
| "code_flows (Many ss) = block_flows ss"
| "code_flows (Rest e) = else_flows e"
| "code_flows (Loop b c ss after) = {Normal, Returned}"

fun code_ok :: "bool \<Rightarrow> code \<Rightarrow> bool" where
  "code_ok inside (One s) \<longleftrightarrow> stm_ok inside s"
| "code_ok inside (Many ss) \<longleftrightarrow> list_all (stm_ok inside) ss"
| "code_ok inside (Rest e) \<longleftrightarrow> else_ok inside e"
| "code_ok inside (Loop b c ss after) \<longleftrightarrow> exp_ok c \<and> list_all (stm_ok True) ss \<and> list_all (stm_ok False) after"

lemma exec_flows: "exec D n code \<sigma> = Some (Gives (f, \<sigma>')) \<Longrightarrow> code_ok inside code \<Longrightarrow> f \<in> code_flows code"
proof (induction n arbitrary: code \<sigma> f \<sigma>' inside)
  case (Suc n)
  then have round: "exec_round D (exec D n) code \<sigma> = Some (Gives (f, \<sigma>'))" by simp
  have outside: "f \<in> {Normal, Returned}" if "exec D n code \<sigma> = Some (Gives (f, \<sigma>'))" "code_ok False code" for code \<sigma> f \<sigma>'
    using Suc.IH [OF that] that(2) outside_flows by (cases code) (auto simp: list_all_iff)
  show ?case
    using round Suc.prems(2)
    by (cases "(D, exec D n, code, \<sigma>)" rule: exec_round.cases)
      (auto simp: assign_def in_sequence_def branch_def iteration_def and_then_Gives split: if_splits
        dest: Suc.IH [where inside = inside, simplified] outside)
qed simp

section \<open>Variables and constructs whose code agrees\<close>

primrec exp_vars :: "exp \<Rightarrow> ptr set" where
  "exp_vars (EInt i) = {}" | "exp_vars (EBool b) = {}" | "exp_vars (EChar c) = {}" | "exp_vars (EDouble d) = {}"
| "exp_vars (EVar x) = {x}"
| "exp_vars (EStep x increment right) = {x}"
| "exp_vars (EUnary op e) = exp_vars e"
| "exp_vars (EBinary op l r) = exp_vars l \<union> exp_vars r"
| "exp_vars (ECond c l r) = exp_vars c \<union> exp_vars l \<union> exp_vars r"

primrec stm_vars :: "stm \<Rightarrow> ptr set" and else_vars :: "else_part \<Rightarrow> ptr set" where
  "stm_vars (SDeclare x e) = insert x (exp_vars e)"
| "stm_vars (SAssign x e) = insert x (exp_vars e)"
| "stm_vars (SIf b c ss rest) = exp_vars c \<union> \<Union> (set (map stm_vars ss)) \<union> else_vars rest"
| "stm_vars (SWhile b c ss) = exp_vars c \<union> \<Union> (set (map stm_vars ss))"
| "stm_vars (SFor i c r ss) = stm_vars i \<union> exp_vars c \<union> stm_vars r \<union> \<Union> (set (map stm_vars ss))"
| "stm_vars SBreak = {}" | "stm_vars SContinue = {}" | "stm_vars SReturn = {}"
| "else_vars NoElse = {}"
| "else_vars (Else ss) = \<Union> (set (map stm_vars ss))"
| "else_vars (ElseIf b c ss rest) = exp_vars c \<union> \<Union> (set (map stm_vars ss)) \<union> else_vars rest"

text \<open>
  Where the generated code does something else than the source says, the construct is left out here: steps
  by one inside an expression, whose two forms the emitter exchanges, and loops that use \<^verbatim>\<open>continue\<close> in a
  \<^verbatim>\<open>for\<close> loop, where the code goes past the repeat statement.
\<close>

primrec no_steps :: "exp \<Rightarrow> bool" where
  "no_steps (EInt i) \<longleftrightarrow> True" | "no_steps (EBool b) \<longleftrightarrow> True" | "no_steps (EChar c) \<longleftrightarrow> True" | "no_steps (EDouble d) \<longleftrightarrow> True"
| "no_steps (EVar x) \<longleftrightarrow> True"
| "no_steps (EStep x increment right) \<longleftrightarrow> False"
| "no_steps (EUnary op e) \<longleftrightarrow> no_steps e"
| "no_steps (EBinary op l r) \<longleftrightarrow> no_steps l \<and> no_steps r"
| "no_steps (ECond c l r) \<longleftrightarrow> no_steps c \<and> no_steps l \<and> no_steps r"

primrec agrees :: "stm \<Rightarrow> bool" and else_agrees :: "else_part \<Rightarrow> bool" where
  "agrees (SDeclare x e) \<longleftrightarrow> no_steps e"
| "agrees (SAssign x e) \<longleftrightarrow> no_steps e"
| "agrees (SIf b c ss rest) \<longleftrightarrow> no_steps c \<and> list_all agrees ss \<and> else_agrees rest"
| "agrees (SWhile b c ss) \<longleftrightarrow> no_steps c \<and> list_all agrees ss"
| "agrees (SFor i c r ss) \<longleftrightarrow> agrees i \<and> no_steps c \<and> agrees r \<and> list_all agrees ss \<and> Continued \<notin> block_flows ss"
| "agrees SBreak \<longleftrightarrow> True" | "agrees SContinue \<longleftrightarrow> True" | "agrees SReturn \<longleftrightarrow> True"
| "else_agrees NoElse \<longleftrightarrow> True"
| "else_agrees (Else ss) \<longleftrightarrow> list_all agrees ss"
| "else_agrees (ElseIf b c ss rest) \<longleftrightarrow> no_steps c \<and> list_all agrees ss \<and> else_agrees rest"

end
