(* ===== verification/FlowSoundness.thy ===== *)
theory FlowSoundness
  imports FlowTraversal SourceSemantics
begin

text \<open>
  What the flow analysis establishes about executions. Analyzing a node leaves the depths of loops and
  switches as they were and only adds diagnostics; a statement that ends normally has the bit for it in
  its flow state, and one that the analysis accepts outside of loops does not end by \<^verbatim>\<open>break\<close> or \<^verbatim>\<open>continue\<close>.
\<close>

section \<open>Balance\<close>

definition balanced :: "flow_analyzer \<Rightarrow> flow_analyzer \<Rightarrow> bool" where
  "balanced st st' \<longleftrightarrow> fa_loopDepth st' = fa_loopDepth st \<and> fa_switchDepth st' = fa_switchDepth st
     \<and> fa_currentMethodIsAsync st' = fa_currentMethodIsAsync st
     \<and> (\<exists>ds. fa_Diagnostics st' = fa_Diagnostics st @ ds)"

definition op_balanced :: "flow_op \<Rightarrow> bool" where
  "op_balanced f \<longleftrightarrow> (\<forall>st. balanced st (f st))"

definition balanced_analysis :: "flow_analysis \<Rightarrow> bool" where
  "balanced_analysis a \<longleftrightarrow> (\<forall>st. balanced st (snd (a st)))"

named_theorems balance

lemma balanced_refl [simp]: "balanced st st"
  by (simp add: balanced_def)

lemma balanced_trans: "balanced st st' \<Longrightarrow> balanced st' st'' \<Longrightarrow> balanced st st''"
  by (auto simp: balanced_def)

lemma op_balancedD: "op_balanced f \<Longrightarrow> balanced st (f st)"
  by (simp add: op_balanced_def)

lemma balanced_analysisD: "balanced_analysis a \<Longrightarrow> balanced st (snd (a st))"
  by (simp add: balanced_analysis_def)

lemma balanced_id [balance]: "op_balanced id"
  by (simp add: op_balanced_def)

lemma balanced_do_ops [balance]: "(\<And>f. f \<in> set fs \<Longrightarrow> op_balanced f) \<Longrightarrow> op_balanced (do_ops fs)"
proof (induction fs)
  case (Cons f fs)
  then have "op_balanced f" "op_balanced (do_ops fs)" by simp_all
  then have "balanced st (f st)" "balanced (f st) (do_ops fs (f st))" for st by (simp_all add: op_balanced_def)
  then have "balanced st (do_ops fs (f st))" for st using balanced_trans by blast
  then show ?case by (simp add: op_balanced_def do_ops_def)
qed (simp add: op_balanced_def do_ops_def)

lemma balanced_if [balance]: "op_balanced f \<Longrightarrow> op_balanced g \<Longrightarrow> op_balanced (if P then f else g)"
  by simp

lemma balanced_if_state [balance]:
  "op_balanced (\<lambda>st. f st) \<Longrightarrow> op_balanced (\<lambda>st. g st) \<Longrightarrow> op_balanced (\<lambda>st. if P st then f st else g st)"
  by (simp add: op_balanced_def)

lemma balanced_same [balance]: "op_balanced (\<lambda>st. st)"
  by (simp add: op_balanced_def)

lemma balanced_snd [balance]: "balanced_analysis a \<Longrightarrow> op_balanced (\<lambda>st. snd (a st))"
  by (simp add: op_balanced_def balanced_analysis_def)

lemma balanced_and_normal [balance]: "op_balanced f \<Longrightarrow> balanced_analysis (and_normal f)"
  by (simp add: op_balanced_def balanced_analysis_def and_normal_def)

lemma balanced_steps [balance]:
  "op_balanced (report_flow d)" "op_balanced (update_summary f)" "op_balanced (MarkAssigned v)"
  "op_balanced (EnterMemberBody m)" "op_balanced (LeaveMemberBody m)" "op_balanced PushScope" "op_balanced PopScope"
  "op_balanced (DeclareSymbol x e)" "op_balanced (RecordCalleeEffects m awaited)" "op_balanced RebuildEffectiveCaughtTypes"
  "op_balanced (PushTryCatch ts)" "op_balanced PopTryCatch" "op_balanced (PushCatchException fm t)"
  "op_balanced PopCatchException" "op_balanced (use_name fm w)"
  by (auto simp: op_balanced_def balanced_def report_flow_def update_summary_def MarkAssigned_def EnterMemberBody_def
      LeaveMemberBody_def PushScope_def PopScope_def DeclareSymbol_def RecordCalleeEffects_def
      RebuildEffectiveCaughtTypes_def PushTryCatch_def PopTryCatch_def PushCatchException_def PopCatchException_def
      use_name_def Let_def)

lemma balanced_records [balance]:
  "op_balanced (record_mutation a b)" "op_balanced (record_setter fm p)"
  by (auto simp: record_mutation_def record_setter_def Let_def intro: balance)

lemma balanced_writes [balance]:
  "op_balanced (RecordFieldOrPropertyWrite fm n t p)" "op_balanced (RecordIndexatorWrite fm n t p)"
  by (auto simp: RecordFieldOrPropertyWrite_def RecordIndexatorWrite_def Let_def intro!: balance)

lemma balanced_record_write [balance]: "op_balanced (record_write fm n)"
proof -
  have "balanced st (record_write fm n st)" for st
    using balanced_writes by (cases n) (auto simp: record_write_def op_balanced_def)
  then show ?thesis by (simp add: op_balanced_def)
qed

lemma balanced_assignment [balance]: "op_balanced (AnalyzeExpressionForAssignment fm n)"
  using balanced_steps(3) by (auto simp: op_balanced_def AnalyzeExpressionForAssignment_def split: SyntaxNode.split)

lemma balanced_record_throw [balance]: "op_balanced (record_throw fm n)"
  using balanced_steps(2) by (auto simp: op_balanced_def record_throw_def Let_def intro: balanced_trans)

lemma balanced_member_body [balance]: "balanced_analysis a \<Longrightarrow> op_balanced (AnalyzeMemberBody fm m a)"
  unfolding op_balanced_def
proof
  fix st :: flow_analyzer assume a: "balanced_analysis a"
  let ?st = "st\<lparr>fa_currentMethodIsAsync := IsAsync fm m\<rparr>"
  obtain F st' where a': "a ?st = (F, st')" by fastforce
  have "balanced ?st st'" using balanced_analysisD [OF a, of ?st] a' by simp
  then show "balanced st (AnalyzeMemberBody fm m a st)"
    by (auto simp: AnalyzeMemberBody_def Let_def balanced_def report_flow_def a')
qed

lemma balanced_in_member [balance]: "(\<And>f. f \<in> set fs \<Longrightarrow> op_balanced f) \<Longrightarrow> op_balanced (in_member m fs)"
  unfolding in_member_def by (rule balanced_do_ops) (auto intro: balance)

lemma balanced_declare [balance]: "op_balanced (declare_parameters fm m)" "op_balanced (declare_this fm m)"
  by (auto simp: declare_parameters_def declare_this_def intro!: balance)

lemma balanced_expressions [balance]:
  "op_balanced f \<Longrightarrow> op_balanced g \<Longrightarrow> op_balanced (VisitBinaryExpression_flow fm t n f g)"
  "op_balanced f \<Longrightarrow> op_balanced (VisitUnaryExpression_flow fm t n f)"
  "(\<And>f. f \<in> set fs \<Longrightarrow> op_balanced f) \<Longrightarrow> op_balanced (VisitInvocationExpression_flow fm i fs)"
  "op_balanced f \<Longrightarrow> (\<And>f. f \<in> set fs \<Longrightarrow> op_balanced f) \<Longrightarrow> op_balanced (VisitObjectCreationExpression_flow ot f fs)"
  "balanced_analysis a \<Longrightarrow> op_balanced (VisitLambdaExpression_flow fm n b a)"
  by (auto simp: VisitBinaryExpression_flow_def VisitUnaryExpression_flow_def VisitInvocationExpression_flow_def
      VisitObjectCreationExpression_flow_def VisitLambdaExpression_flow_def Let_def intro!: balance)

lemma balanced_await [balance]: "op_balanced f \<Longrightarrow> op_balanced (VisitAwaitExpression_flow fm n f)"
proof -
  assume "op_balanced f"
  moreover have "op_balanced (\<lambda>st. case n of
      InvokationExpressionSyntax targets _ _ \<Rightarrow>
        if inv_Symbol targets \<noteq> nullptr \<and> IsAsync fm (inv_Symbol targets)
        then RecordCalleeEffects (inv_Symbol targets) True st else st
    | _ \<Rightarrow> if IsTaskOrTaskLike fm (fm_expression_type fm n)
           then update_summary (sum_MayThrow_update (\<lambda>_. True)) st else st)"
    using balanced_steps(2,9) by (cases n) (simp_all add: op_balanced_def)
  ultimately show ?thesis
    by (auto simp: VisitAwaitExpression_flow_def intro!: balance)
qed

lemma balanced_statements [balance]:
  "(\<And>a. a \<in> set as \<Longrightarrow> balanced_analysis a) \<Longrightarrow> balanced_analysis (AnalyzeStatements as c)"
  unfolding balanced_analysis_def
proof (induction as arbitrary: c)
  case (Cons a as)
  show ?case
  proof
    fix st
    obtain c' st' where a: "a st = (c', st')" by fastforce
    have "balanced st st'" using Cons.prems a by (metis list.set_intros(1) snd_conv)
    moreover have "balanced st' (snd (AnalyzeStatements as c' st'))" using Cons by simp
    ultimately show "balanced st (snd (AnalyzeStatements (a # as) c st))"
      using balanced_steps(1) [of UnreachableCode] by (auto simp: a op_balanced_def intro: balanced_trans)
  qed
qed simp

lemma balanced_block [balance]:
  "(\<And>a. a \<in> set as \<Longrightarrow> balanced_analysis a) \<Longrightarrow> balanced_analysis (AnalyzeStatementsBlock as)"
  using balanced_statements by (simp add: balanced_analysis_def AnalyzeStatementsBlock_def)

lemma balanced_merge [balance]: "balanced_analysis a \<Longrightarrow> balanced_analysis b \<Longrightarrow> balanced_analysis (merge_analyses a b)"
  by (auto simp: balanced_analysis_def merge_analyses_def split: prod.split) (metis balanced_trans snd_conv)

lemma balanced_clauses [balance]:
  "op_balanced f \<Longrightarrow> balanced_analysis a \<Longrightarrow> balanced_analysis b \<Longrightarrow> balanced_analysis (AnalyzeConditionalClause f a b)"
  "balanced_analysis a \<Longrightarrow> balanced_analysis b \<Longrightarrow> balanced_analysis (AnalyzeElseClause a n b)"
  using balanced_merge
  by (auto simp: AnalyzeElseClause_def AnalyzeConditionalClause_def balanced_analysis_def op_balanced_def intro: balanced_trans)

lemma balanced_loop_body [balance]: "balanced_analysis a \<Longrightarrow> op_balanced (AnalyzeLoopBody a)"
  unfolding op_balanced_def
proof
  fix st assume "balanced_analysis a"
  then have "balanced (st\<lparr>fa_loopDepth := fa_loopDepth st + 1\<rparr>) (snd (a (st\<lparr>fa_loopDepth := fa_loopDepth st + 1\<rparr>)))"
    by (rule balanced_analysisD)
  then show "balanced st (AnalyzeLoopBody a st)" by (simp add: AnalyzeLoopBody_def Let_def balanced_def)
qed

lemma balanced_loops [balance]:
  "op_balanced f \<Longrightarrow> balanced_analysis a \<Longrightarrow> op_balanced (VisitLoop n f a)"
  "balanced_analysis i \<Longrightarrow> op_balanced f \<Longrightarrow> balanced_analysis r \<Longrightarrow> balanced_analysis a
     \<Longrightarrow> op_balanced (VisitForStatement_flow n i f r a)"
  "op_balanced f \<Longrightarrow> op_balanced (VisitVariableStatement_flow v n f)"
  by (auto simp: VisitLoop_def VisitForStatement_flow_def VisitVariableStatement_flow_def intro!: balance)

lemma balanced_switch_cases:
  "(\<forall>k \<in> set cs. op_balanced (fst k) \<and> (\<forall>a. snd k = Some a \<longrightarrow> balanced_analysis a))
     \<Longrightarrow> balanced st (snd (switch_cases cs c st))"
proof (induction cs c st rule: switch_cases.induct)
  case (3 f a cs c st)
  have fa: "op_balanced f" "balanced_analysis a" using "3.prems" by simp_all
  obtain F st' where a: "a (f st) = (F, st')" by fastforce
  have "balanced st st'"
    using balanced_trans [OF op_balancedD [OF fa(1), of st] balanced_analysisD [OF fa(2)]] a by simp
  moreover have "balanced st' (snd (switch_cases cs
      (Some (case c of None \<Rightarrow> WithoutBreaksAndContinues F | Some s \<Rightarrow> MergeBranches s (WithoutBreaksAndContinues F))) st'))"
    using "3.IH" [OF a [symmetric] refl refl] "3.prems" by simp
  ultimately show ?case using balanced_trans by (auto simp: a Let_def)
next
  case (2 f cs c st)
  have "balanced st (snd (switch_cases cs c st))" by (rule "2.IH") (use "2.prems" in simp)
  then show ?case by simp
qed simp

lemma balanced_switch [balance]:
  assumes "op_balanced f" "\<And>f b. (f, b) \<in> set cs \<Longrightarrow> op_balanced f \<and> (\<forall>a. b = Some a \<longrightarrow> balanced_analysis a)"
  shows "balanced_analysis (AnalyzeSwitchStatement f cs)"
  unfolding balanced_analysis_def
proof
  fix st
  let ?st = "(f st)\<lparr>fa_switchDepth := fa_switchDepth (f st) + 1\<rparr>"
  have "balanced ?st (snd (switch_cases cs None ?st))" by (rule balanced_switch_cases) (use assms(2) in force)
  with op_balancedD [OF assms(1), of st] show "balanced st (snd (AnalyzeSwitchStatement f cs st))"
    by (auto simp: AnalyzeSwitchStatement_def Let_def balanced_def split: prod.split)
qed

lemma balanced_catch_states:
  "(\<forall>k \<in> set cs. \<forall>a. ctc_Body k = Some a \<longrightarrow> balanced_analysis a) \<Longrightarrow> balanced st (snd (catch_states fm cs c st))"
proof (induction fm cs c st rule: catch_states.induct)
  case (2 fm k cs c st)
  show ?case
  proof (cases "ctc_Body k")
    case None
    have "balanced st (snd (catch_states fm cs c st))" by (rule "2.IH"(1) [OF None]) (use "2.prems" in simp)
    then show ?thesis by (simp add: None)
  next
    case (Some a)
    let ?st = "PushCatchException fm (ctc_ExceptionType k) (MarkAssigned (ctc_Symbol k) st)"
    obtain F st' where a: "a ?st = (F, st')" by fastforce
    have "balanced ?st st'" using balanced_analysisD [of a ?st] "2.prems" Some a by simp
    then have "balanced st (PopCatchException st')"
      using balanced_steps(3,13,14) by (meson balanced_trans op_balanced_def)
    moreover have "balanced (PopCatchException st') (snd (catch_states fm cs (Some (case c of None \<Rightarrow> F | Some s \<Rightarrow> MergeBranches s F)) (PopCatchException st')))"
      by (rule "2.IH"(2) [OF Some a [symmetric] refl]) (use "2.prems" in simp)
    ultimately show ?thesis using balanced_trans by (auto simp: Some a Let_def)
  qed
qed simp

lemma balanced_try [balance]:
  assumes a: "balanced_analysis a" and cs: "\<And>k a. k \<in> set cs \<Longrightarrow> ctc_Body k = Some a \<Longrightarrow> balanced_analysis a"
  shows "balanced_analysis (AnalyzeTryStatement fm n a cs)"
  unfolding balanced_analysis_def
proof
  fix st
  define guarded where "guarded = (cs \<noteq> [] \<and> n \<noteq> NullNode)"
  define st1 where "st1 = (if guarded then PushTryCatch (map ctc_ExceptionType cs) st else st)"
  obtain F st2 where 2: "a st1 = (F, st2)" by fastforce
  define st3 where "st3 = (if guarded then PopTryCatch st2 else st2)"
  have "balanced st st1" "balanced st2 st3"
    using balanced_steps(11,12) by (simp_all add: st1_def st3_def op_balanced_def)
  moreover have "balanced st1 st2" using balanced_analysisD [OF a, of st1] 2 by simp
  ultimately have "balanced st st3" using balanced_trans by blast
  moreover have "balanced st3 (snd (catch_states fm cs None st3))" by (rule balanced_catch_states) (use cs in blast)
  ultimately show "balanced st (snd (AnalyzeTryStatement fm n a cs st))"
    using balanced_trans by (auto simp: AnalyzeTryStatement_def Let_def guarded_def [symmetric] st1_def [symmetric] 2
        st3_def [symmetric] split: prod.split)
qed

lemma balanced_jumps [balance]:
  "balanced_analysis AnalyzeBreak" "balanced_analysis AnalyzeContinue"
  "op_balanced f \<Longrightarrow> balanced_analysis (AnalyzeThrow fm n f)" "op_balanced f \<Longrightarrow> balanced_analysis (\<lambda>st. (F, f st))"
  using balanced_steps(1) balanced_record_throw
  by (auto simp: AnalyzeBreak_def AnalyzeContinue_def AnalyzeThrow_def balanced_analysis_def op_balanced_def intro: balanced_trans)

definition balanced_node :: "flow_node \<Rightarrow> bool" where
  "balanced_node n \<longleftrightarrow> op_balanced (fn_expression n) \<and> op_balanced (fn_visit n) \<and> balanced_analysis (fn_statement n)
     \<and> balanced_analysis (fn_block n) \<and> balanced_analysis (fn_chain n) \<and> op_balanced (fn_use n) \<and> op_balanced (fn_pattern n)
     \<and> (\<forall>a. fn_body n = Some a \<longrightarrow> balanced_analysis a)"

lemma balanced_passed_over [balance]: "balanced_node passed_over"
  by (auto simp: balanced_node_def passed_over_def intro!: balance)

lemma set_list_behind: "x \<in> set (list_behind (map_option (map f) xs)) \<longleftrightarrow> (\<exists>ys y. xs = Some ys \<and> y \<in> set ys \<and> x = f y)"
  by (cases xs) (auto simp: list_behind_def)

lemma balanced_flow_of: "balanced_node (flow_of fm node)"
proof (induction node)
  case (TryStatementSyntax n cs)
  have "balanced_analysis a" if "k \<in> set (concat (map (\<lambda>c. catch_clause_of (c, flow_of fm c)) cs))" "ctc_Body k = Some a" for k a
  proof -
    from that obtain c where "c \<in> set cs" "k \<in> set (catch_clause_of (c, flow_of fm c))" by auto
    with that(2) TryStatementSyntax(2) [of c] show ?thesis
      by (auto simp: catch_clause_of_def balanced_node_def split: SyntaxNode.splits)
  qed
  with TryStatementSyntax(1) balanced_passed_over show ?case
    by (auto simp: balanced_node_def intro!: balance)
qed (insert balanced_passed_over, (fastforce simp: balanced_node_def set_list_behind some_body_def Let_def intro!: balance split: if_splits)+)

lemmas balanced_parts = balanced_flow_of [unfolded balanced_node_def]

section \<open>Executions\<close>

text \<open>The analysis of a piece of code; a loop ends normally, what it repeats after a round is analyzed outside of it.\<close>

fun analysis_of :: "flow_model \<Rightarrow> code \<Rightarrow> flow_analysis" where
  "analysis_of fm (One s) = AnalyzeStatement fm (statement_of s)"
| "analysis_of fm (Many ss) = AnalyzeStatements (map (\<lambda>s. AnalyzeStatement fm (statement_of s)) ss) {FlowNormal}"
| "analysis_of fm (Rest e) = AnalyzeConditionalChain fm (clause_of e)"
| "analysis_of fm (Loop b c ss after) =
     and_normal (\<lambda>st. snd (AnalyzeStatements (map (\<lambda>s. AnalyzeStatement fm (statement_of s)) after) {FlowNormal} st))"

definition no_misplaced_jump :: "flow_analyzer \<Rightarrow> bool" where
  "no_misplaced_jump st \<longleftrightarrow> BreakOutside \<notin> set (fa_Diagnostics st) \<and> ContinueOutside \<notin> set (fa_Diagnostics st)"

definition outside :: "flow_analyzer \<Rightarrow> bool" where
  "outside st \<longleftrightarrow> fa_loopDepth st = 0 \<and> fa_switchDepth st = 0"

lemma balanced_outside: "balanced st st' \<Longrightarrow> outside st' \<longleftrightarrow> outside st"
  by (simp add: balanced_def outside_def)

lemma balanced_no_misplaced: "balanced st st' \<Longrightarrow> no_misplaced_jump st' \<Longrightarrow> no_misplaced_jump st"
  by (auto simp: balanced_def no_misplaced_jump_def)

text \<open>What the analysis \<open>a\<close> says of an ending \<open>f\<close>.\<close>

definition foretold :: "flow_analysis \<Rightarrow> flow \<Rightarrow> bool" where
  "foretold a f \<longleftrightarrow> (\<forall>st.
     (f = Normal \<longrightarrow> FlowNormal \<in> fst (a st))
     \<and> (outside st \<and> no_misplaced_jump (snd (a st)) \<longrightarrow> f \<noteq> Broke \<and> f \<noteq> Continued))"

lemma foretold_returned [simp]: "foretold a Returned"
  by (simp add: foretold_def)

lemma foretold_normal: "(\<And>st. FlowNormal \<in> fst (a st)) \<Longrightarrow> foretold a Normal"
  by (simp add: foretold_def)

lemma foretold_and_normal [simp]: "foretold (and_normal g) Normal"
  by (simp add: foretold_def and_normal_def)

lemma foretold_jumps: "foretold AnalyzeBreak Broke" "foretold AnalyzeContinue Continued"
  by (auto simp: foretold_def AnalyzeBreak_def AnalyzeContinue_def outside_def no_misplaced_jump_def report_flow_def)

text \<open>Flows that leave a node from a part of it.\<close>

lemma foretold_part:
  assumes "foretold a f" "f \<noteq> Normal" "\<And>st. \<exists>st1. balanced st st1 \<and> balanced (snd (a st1)) (snd (b st))"
  shows "foretold b f"
  unfolding foretold_def
proof (intro allI conjI impI)
  fix st assume st: "outside st \<and> no_misplaced_jump (snd (b st))"
  obtain st1 where "balanced st st1" "balanced (snd (a st1)) (snd (b st))" using assms(3) by blast
  with st have "outside st1" "no_misplaced_jump (snd (a st1))"
    using balanced_outside balanced_no_misplaced by blast+
  with assms(1) show "f \<noteq> Broke" "f \<noteq> Continued" by (auto simp: foretold_def)
qed (use assms(2) in simp)

lemma statements_cons:
  "AnalyzeStatements (a # as) {FlowNormal} st = AnalyzeStatements as (fst (a st)) (snd (a st))"
  by (simp add: IsTerminal_def split: prod.split)

lemma merge_parts:
  "merge_analyses a b st = (MergeBranches (fst (a st)) (fst (b (snd (a st)))), snd (b (snd (a st))))"
  by (simp add: merge_analyses_def split: prod.split)

lemma foretold_first:
  assumes "foretold a f" "f \<noteq> Normal" "\<And>x. x \<in> set as \<Longrightarrow> balanced_analysis x"
  shows "foretold (AnalyzeStatements (a # as) {FlowNormal}) f"
  by (rule foretold_part [OF assms(1,2)], rule exI, rule conjI [OF balanced_refl])
    (simp only: statements_cons balanced_analysisD [OF balanced_statements [OF assms(3)]])

lemma continue_normal:
  "FlowNormal \<in> c \<Longrightarrow> as \<noteq> [] \<Longrightarrow> AnalyzeStatements as c st = AnalyzeStatements as {FlowNormal} st"
  by (cases as) (auto simp: IsTerminal_def)

lemma foretold_rest:
  assumes a: "foretold a Normal" "balanced_analysis a" and as: "foretold (AnalyzeStatements as {FlowNormal}) f"
  shows "foretold (AnalyzeStatements (a # as) {FlowNormal}) f"
proof -
  have normal: "FlowNormal \<in> fst (a st)" for st using a(1) by (simp add: foretold_def)
  have out: "outside (snd (a st)) \<longleftrightarrow> outside st" for st
    by (rule balanced_outside) (rule balanced_analysisD [OF a(2)])
  show ?thesis
  proof (cases "as = []")
    case True
    have "(f = Normal \<longrightarrow> FlowNormal \<in> fst (AnalyzeStatements [] {FlowNormal} (snd (a st))))
        \<and> (outside st \<and> no_misplaced_jump (snd (AnalyzeStatements [] {FlowNormal} (snd (a st)))) \<longrightarrow> f \<noteq> Broke \<and> f \<noteq> Continued)" for st
      using spec [OF as [unfolded foretold_def True], of "snd (a st)"] by (simp only: out)
    with normal show ?thesis by (simp only: True foretold_def statements_cons AnalyzeStatements.simps(1) fst_conv snd_conv) simp
  next
    case False
    have "(f = Normal \<longrightarrow> FlowNormal \<in> fst (AnalyzeStatements as {FlowNormal} (snd (a st))))
        \<and> (outside st \<and> no_misplaced_jump (snd (AnalyzeStatements as {FlowNormal} (snd (a st)))) \<longrightarrow> f \<noteq> Broke \<and> f \<noteq> Continued)" for st
      using spec [OF as [unfolded foretold_def], of "snd (a st)"] by (simp only: out)
    then show ?thesis
      by (simp only: foretold_def statements_cons continue_normal [OF normal False]) simp
  qed
qed

lemma foretold_merge_left: "foretold a f \<Longrightarrow> balanced_analysis b \<Longrightarrow> foretold (merge_analyses a b) f"
proof (cases "f = Normal")
  case False
  assume a: "foretold a f" and b: "balanced_analysis b"
  show ?thesis
    by (rule foretold_part [OF a False], rule exI, rule conjI [OF balanced_refl])
      (simp only: merge_parts snd_conv balanced_analysisD [OF b])
qed (simp add: foretold_def merge_parts MergeBranches_def)

lemma foretold_merge_right: "foretold b f \<Longrightarrow> balanced_analysis a \<Longrightarrow> foretold (merge_analyses a b) f"
proof (cases "f = Normal")
  case False
  assume b: "foretold b f" and a: "balanced_analysis a"
  show ?thesis
    by (rule foretold_part [OF b False], rule exI, rule conjI [OF balanced_analysisD [OF a]])
      (simp only: merge_parts snd_conv balanced_refl)
qed (simp add: foretold_def merge_parts MergeBranches_def)

lemma foretold_clause: "op_balanced g \<Longrightarrow> foretold (merge_analyses a b) f \<Longrightarrow> foretold (AnalyzeConditionalClause g a b) f"
proof (cases "f = Normal")
  case False
  assume g: "op_balanced g" and m: "foretold (merge_analyses a b) f"
  show ?thesis
    by (rule foretold_part [OF m False], rule exI, rule conjI [OF op_balancedD [OF g]])
      (simp only: AnalyzeConditionalClause_def balanced_refl)
qed (simp add: foretold_def AnalyzeConditionalClause_def)

text \<open>A loop statement always ends normally for the analysis.\<close>

lemma foretold_loop:
  assumes "foretold (and_normal g) f" "\<And>st. \<exists>st1. balanced st st1 \<and> balanced (g st1) (h st)"
  shows "foretold (and_normal h) f"
proof (cases "f = Normal")
  case False
  then show ?thesis by (rule foretold_part [OF assms(1)]) (use assms(2) in \<open>simp add: and_normal_def\<close>)
qed simp

lemma for_parts:
  "block \<noteq> NullNode \<Longrightarrow>
     VisitForStatement_flow block i c r a st = snd (r (AnalyzeLoopBody a (c (snd (i st)))))"
  by (simp add: VisitForStatement_flow_def do_ops_def)

lemma balanced_nodes:
  "balanced_analysis (AnalyzeStatement fm n)" "balanced_analysis (AnalyzeBlock fm n)"
  "balanced_analysis (AnalyzeConditionalChain fm n)" "op_balanced (ScanExpression fm n)" "op_balanced (fn_visit (flow_of fm n))"
  using balanced_parts [of fm n]
  by (simp_all add: AnalyzeStatement_def AnalyzeBlock_def AnalyzeConditionalChain_def ScanExpression_def)

section \<open>Statements of programs\<close>

lemma block_analysis: "AnalyzeBlock fm (StatementsBlockSyntax (map statement_of ss)) = analysis_of fm (Many ss)"
  by (simp add: AnalyzeBlock_def AnalyzeStatement_def fun_eq_iff AnalyzeStatementsBlock_def comp_def)

lemma if_analysis:
  "AnalyzeStatement fm (statement_of (SIf b c ss e)) = AnalyzeConditionalClause
     (ScanExpression fm (expression_of c)) (analysis_of fm (Many ss)) (analysis_of fm (Rest e))"
  unfolding block_analysis [symmetric]
  by (cases b) (simp_all add: AnalyzeStatement_def AnalyzeBlock_def AnalyzeConditionalChain_def ScanExpression_def Let_def)

lemma clause_analysis:
  "AnalyzeConditionalChain fm (clause_of NoElse) = and_normal id"
  "AnalyzeConditionalChain fm (clause_of (Else ss)) = analysis_of fm (Many ss)"
  "AnalyzeConditionalChain fm (clause_of (ElseIf b c ss e)) = AnalyzeConditionalClause
     (ScanExpression fm (expression_of c)) (analysis_of fm (Many ss)) (analysis_of fm (Rest e))"
  unfolding block_analysis [symmetric]
  by (cases b, simp_all add: AnalyzeBlock_def AnalyzeConditionalChain_def ScanExpression_def Let_def
      AnalyzeElseClause_def passed_over_def)

lemma loop_analysis:
  "\<exists>g. op_balanced g \<and> AnalyzeStatement fm (statement_of (SWhile b c ss)) = and_normal g"
  "AnalyzeStatement fm (statement_of (SFor i c r ss)) = and_normal (\<lambda>st. snd (AnalyzeStatement fm (statement_of r)
     (AnalyzeLoopBody (analysis_of fm (Many ss)) (ScanExpression fm (expression_of c) (snd (AnalyzeStatement fm (statement_of i) st))))))"
proof -
  have "op_balanced (VisitLoop (StatementsBlockSyntax (map statement_of ss)) (ScanExpression fm (expression_of c))
      (AnalyzeBlock fm (StatementsBlockSyntax (map statement_of ss))))"
    by (intro balance balanced_nodes)
  then show "\<exists>g. op_balanced g \<and> AnalyzeStatement fm (statement_of (SWhile b c ss)) = and_normal g"
    by (cases b) (auto simp: AnalyzeStatement_def ScanExpression_def AnalyzeBlock_def)
  show "AnalyzeStatement fm (statement_of (SFor i c r ss)) = and_normal (\<lambda>st. snd (AnalyzeStatement fm (statement_of r)
     (AnalyzeLoopBody (analysis_of fm (Many ss)) (ScanExpression fm (expression_of c) (snd (AnalyzeStatement fm (statement_of i) st))))))"
    unfolding block_analysis [symmetric]
    by (simp add: AnalyzeStatement_def ScanExpression_def AnalyzeBlock_def for_parts fun_eq_iff and_normal_def)
qed

lemma balanced_code: "balanced_analysis (analysis_of fm c)"
proof (cases c)
  case (Loop b c ss after)
  have "balanced_analysis (AnalyzeStatements (map (\<lambda>s. AnalyzeStatement fm (statement_of s)) after) {FlowNormal})"
    by (rule balanced_statements) (use balanced_nodes in auto)
  then show ?thesis using Loop by (auto intro: balance)
qed (auto intro!: balance balanced_nodes)

lemma foretold_branch:
  assumes "branch D b c taken other \<sigma> = Some (Gives (f, \<sigma>'))"
    "\<And>\<sigma>. taken \<sigma> = Some (Gives (f, \<sigma>')) \<Longrightarrow> P f" "\<And>\<sigma>. other \<sigma> = Some (Gives (f, \<sigma>')) \<Longrightarrow> P f"
  shows "P f"
  using assms by (auto simp: branch_def and_then_Gives split: if_splits)

lemma foretold_sequence:
  assumes "in_sequence r g = Some (Gives (f, \<sigma>'))"
    "r = Some (Gives (f, \<sigma>')) \<Longrightarrow> f \<noteq> Normal \<Longrightarrow> P f"
    "\<And>\<sigma>. r = Some (Gives (Normal, \<sigma>)) \<Longrightarrow> g \<sigma> = Some (Gives (f, \<sigma>')) \<Longrightarrow> P f"
  shows "P f"
  using assms by (auto simp: in_sequence_def and_then_Gives split: if_splits)

lemma foretold_many:
  assumes seq: "in_sequence (exec D n (One s) \<sigma>) (exec D n (Many ss)) = Some (Gives (f, \<sigma>'))"
    and IH: "\<And>c \<sigma> f \<sigma>'. exec D n c \<sigma> = Some (Gives (f, \<sigma>')) \<Longrightarrow> foretold (analysis_of fm c) f"
  shows "foretold (analysis_of fm (Many (s # ss))) f"
proof (rule foretold_sequence [OF seq])
  assume first: "exec D n (One s) \<sigma> = Some (Gives (f, \<sigma>'))" and f: "f \<noteq> Normal"
  have "foretold (AnalyzeStatement fm (statement_of s)) f" using IH [OF first] by simp
  then show ?thesis
    unfolding analysis_of.simps list.map by (rule foretold_first [OF _ f]) (use balanced_nodes(1) in auto)
next
  fix \<sigma>1 assume first: "exec D n (One s) \<sigma> = Some (Gives (Normal, \<sigma>1))" and rest: "exec D n (Many ss) \<sigma>1 = Some (Gives (f, \<sigma>'))"
  have "foretold (AnalyzeStatement fm (statement_of s)) Normal" using IH [OF first] by simp
  then show ?thesis using foretold_rest [OF _ balanced_nodes(1)] IH [OF rest] by (simp del: AnalyzeStatements.simps)
qed

lemma foretold_chain:
  assumes run: "branch D b c (exec D n (Many ss)) (exec D n (Rest e)) \<sigma> = Some (Gives (f, \<sigma>'))"
    and IH: "\<And>c \<sigma> f \<sigma>'. exec D n c \<sigma> = Some (Gives (f, \<sigma>')) \<Longrightarrow> foretold (analysis_of fm c) f"
    and g: "op_balanced g"
  shows "foretold (AnalyzeConditionalClause g (analysis_of fm (Many ss)) (analysis_of fm (Rest e))) f"
proof (rule foretold_clause [OF g], rule foretold_branch [OF run])
  fix \<sigma> assume "exec D n (Many ss) \<sigma> = Some (Gives (f, \<sigma>'))"
  from IH [OF this] show "foretold (merge_analyses (analysis_of fm (Many ss)) (analysis_of fm (Rest e))) f"
    using foretold_merge_left balanced_code by blast
next
  fix \<sigma> assume "exec D n (Rest e) \<sigma> = Some (Gives (f, \<sigma>'))"
  from IH [OF this] show "foretold (merge_analyses (analysis_of fm (Many ss)) (analysis_of fm (Rest e))) f"
    using foretold_merge_right balanced_code by blast
qed

lemma foretold_round:
  assumes run: "branch D b c
      (\<lambda>\<sigma>. iteration (exec D n (Many ss) \<sigma>) (\<lambda>\<sigma>. in_sequence (exec D n (Many after) \<sigma>) (exec D n (Loop b c ss after))))
      (\<lambda>\<sigma>. Some (Gives (Normal, \<sigma>))) \<sigma> = Some (Gives (f, \<sigma>'))"
    and IH: "\<And>c \<sigma> f \<sigma>'. exec D n c \<sigma> = Some (Gives (f, \<sigma>')) \<Longrightarrow> foretold (analysis_of fm c) f"
  shows "foretold (analysis_of fm (Loop b c ss after)) f"
proof (rule foretold_branch [OF run])
  fix \<sigma> assume "iteration (exec D n (Many ss) \<sigma>) (\<lambda>\<sigma>. in_sequence (exec D n (Many after) \<sigma>) (exec D n (Loop b c ss after)))
      = Some (Gives (f, \<sigma>'))"
  then consider "f = Normal" | "f = Returned"
    | \<sigma>1 where "in_sequence (exec D n (Many after) \<sigma>1) (exec D n (Loop b c ss after)) = Some (Gives (f, \<sigma>'))"
    by (auto simp: iteration_def and_then_Gives split: if_splits)
  then show "foretold (analysis_of fm (Loop b c ss after)) f"
  proof cases
    case 3
    show ?thesis
    proof (rule foretold_sequence [OF 3])
      assume "exec D n (Many after) \<sigma>1 = Some (Gives (f, \<sigma>'))" "f \<noteq> Normal"
      from IH [OF this(1)] this(2) show "foretold (analysis_of fm (Loop b c ss after)) f"
        by (rule foretold_part) (rule exI, rule conjI [OF balanced_refl], simp add: and_normal_def)
    qed (rule IH)
  qed simp_all
qed simp

lemma exec_foretold: "exec D n c \<sigma> = Some (Gives (f, \<sigma>')) \<Longrightarrow> foretold (analysis_of fm c) f"
proof (induction n arbitrary: c \<sigma> f \<sigma>')
  case (Suc n)
  then have run: "exec_round D (exec D n) c \<sigma> = Some (Gives (f, \<sigma>'))" by simp
  note chain = foretold_chain [OF _ Suc.IH balanced_nodes(4)] clause_analysis
  show ?case
  proof (cases "(D, exec D n, c, \<sigma>)" rule: exec_round.cases)
    case (3 _ _ b e ss rest)
    then show ?thesis using run foretold_chain [OF _ Suc.IH balanced_nodes(4)]
      by (simp del: analysis_of.simps(2,3) statement_of.simps add: if_analysis)
  next
    case (4 _ _ b e ss)
    then have "foretold (and_normal (\<lambda>st. st)) f" using run Suc.IH [of "Loop b e ss []"] by simp
    moreover obtain g where "op_balanced g" "AnalyzeStatement fm (statement_of (SWhile b e ss)) = and_normal g"
      using loop_analysis(1) by blast
    moreover have "foretold (and_normal g) f" if "foretold (and_normal (\<lambda>st. st)) f" "op_balanced g"
      by (rule foretold_loop [OF that(1)]) (use op_balancedD [OF that(2)] balanced_refl in blast)
    ultimately show ?thesis using 4 by (simp del: statement_of.simps)
  next
    case (5 _ _ i e r ss)
    let ?g = "\<lambda>st. AnalyzeLoopBody (analysis_of fm (Many ss)) (ScanExpression fm (expression_of e) (snd (AnalyzeStatement fm (statement_of i) st)))"
    have middle: "balanced (snd (AnalyzeStatement fm (statement_of i) st)) (?g st)" for st
      using op_balancedD [OF balanced_nodes(4)] op_balancedD [OF balanced_loop_body [OF balanced_code]] balanced_trans by blast
    have start: "balanced st (?g st)" for st
      using balanced_trans [OF balanced_analysisD [OF balanced_nodes(1)] middle] .
    have seq: "in_sequence (exec D n (One i) \<sigma>) (exec D n (Loop True e ss [r])) = Some (Gives (f, \<sigma>'))"
      using run 5 by simp
    have "foretold (and_normal (\<lambda>st. snd (AnalyzeStatement fm (statement_of r) (?g st)))) f"
    proof (rule foretold_sequence [OF seq])
      assume first: "exec D n (One i) \<sigma> = Some (Gives (f, \<sigma>'))" and f: "f \<noteq> Normal"
      have rest: "balanced (snd (AnalyzeStatement fm (statement_of i) st)) (snd (AnalyzeStatement fm (statement_of r) (?g st)))" for st
        using balanced_trans [OF middle balanced_analysisD [OF balanced_nodes(1)]] .
      show ?thesis
        by (rule foretold_part [OF Suc.IH [OF first] f], rule exI, rule conjI [OF balanced_refl])
          (simp only: and_normal_def snd_conv analysis_of.simps(1) rest)
    next
      fix \<sigma>1 assume "exec D n (Loop True e ss [r]) \<sigma>1 = Some (Gives (f, \<sigma>'))"
      from Suc.IH [OF this] have "foretold (and_normal (\<lambda>st. snd (AnalyzeStatement fm (statement_of r) st))) f"
        by (simp only: analysis_of.simps(4) list.map statements_cons AnalyzeStatements.simps(1) snd_conv)
      then show ?thesis by (rule foretold_loop) (intro exI conjI, rule start, rule balanced_refl)
    qed
    then show ?thesis using 5 by (simp only: prod.inject analysis_of.simps(1) loop_analysis)
  next
    case (10 _ _ s ss)
    then show ?thesis using run foretold_many [OF _ Suc.IH] by (simp del: analysis_of.simps(2))
  next
    case (13 _ _ b e ss rest)
    then show ?thesis using run foretold_chain [OF _ Suc.IH balanced_nodes(4)]
      by (simp del: analysis_of.simps(2,3) clause_of.simps add: clause_analysis analysis_of.simps(3) [of fm "ElseIf b e ss rest"])
  next
    case (14 _ _ b e ss after)
    then show ?thesis using run foretold_round [OF _ Suc.IH] by (simp del: analysis_of.simps)
  next
    case (1 _ _ x e)
    with run show ?thesis by (auto simp: assign_def and_then_Gives AnalyzeStatement_def Let_def)
  next
    case (2 _ _ x e)
    with run show ?thesis by (auto simp: assign_def and_then_Gives AnalyzeStatement_def)
  next
    case 6
    with run show ?thesis by (auto simp: AnalyzeStatement_def foretold_jumps)
  next
    case 7
    with run show ?thesis by (auto simp: AnalyzeStatement_def foretold_jumps)
  next
    case 8
    with run show ?thesis by simp
  next
    case 9
    with run show ?thesis by (simp add: foretold_def)
  next
    case 11
    with run show ?thesis by (simp add: clause_analysis del: clause_of.simps)
  next
    case (12 _ _ ss)
    with run Suc.IH [of "Many ss"] show ?thesis
      by (simp add: clause_analysis del: clause_of.simps analysis_of.simps(2))
  qed
qed simp

end
