(* ===== verification/EffectPropagation.thy ===== *)
theory EffectPropagation
  imports MethodEffects
begin

text \<open>
  The propagation of effects returns for every call graph, and what it computes: \<open>raises\<close> says which
  exception types leave a method, by a chain of calls none of which catches the type.
\<close>

section \<open>What may leave a method\<close>

text \<open>The first argument distinguishes what the method throws from what its task raises.\<close>

inductive raises :: "effect_model \<Rightarrow> call_graph \<Rightarrow> summaries \<Rightarrow> bool \<Rightarrow> ptr \<Rightarrow> ptr \<Rightarrow> bool"
  for em :: effect_model and graph :: call_graph and S :: summaries where
  own: "t \<in> set (types_of asynchronous (S m)) \<Longrightarrow> raises em graph S asynchronous m t"
| call: "(m, edges) \<in> set graph \<Longrightarrow> m \<noteq> nullptr \<Longrightarrow> edge \<in> set edges \<Longrightarrow> edge_Callee edge \<noteq> nullptr
    \<Longrightarrow> (em_async em (edge_Callee edge) \<longrightarrow> edge_IsAwaited edge) \<Longrightarrow> \<not> Catches em edge t
    \<Longrightarrow> raises em graph S (em_async em (edge_Callee edge)) (edge_Callee edge) t
    \<Longrightarrow> raises em graph S (em_async em m) m t"

text \<open>The edges that propagation follows.\<close>

definition is_call :: "call_graph \<Rightarrow> ptr \<Rightarrow> CallEdge \<Rightarrow> bool" where
  "is_call graph m edge \<longleftrightarrow>
     (\<exists>edges. (m, edges) \<in> set graph \<and> edge \<in> set edges) \<and> m \<noteq> nullptr \<and> edge_Callee edge \<noteq> nullptr"

section \<open>Growth of a round\<close>

lemma grows_antisym: "grows a b \<Longrightarrow> grows b a \<Longrightarrow> a = b"
  by (rule grows_same) (auto simp: grows_def summaries_differ_def dest: extends_subset)

lemma all_grow_antisym: "all_grow S T \<Longrightarrow> all_grow T S \<Longrightarrow> S = T"
  by (auto simp: all_grow_def intro: grows_antisym)

lemma all_grow_between: "all_grow S T \<Longrightarrow> all_grow T U \<Longrightarrow> U = S \<Longrightarrow> T = S"
  by (blast intro: all_grow_antisym)

lemma caller_differs:
  "summaries_differ (S caller) (fold (propagate_edge em caller) edges S caller)
     \<longleftrightarrow> fold (propagate_edge em caller) edges S \<noteq> S"
proof
  assume "fold (propagate_edge em caller) edges S \<noteq> S"
  then obtain m where m: "fold (propagate_edge em caller) edges S m \<noteq> S m" by blast
  then have "m = caller" using fold_edges_other by metis
  with m show "summaries_differ (S caller) (fold (propagate_edge em caller) edges S caller)"
    using grows_same fold_edges_grows unfolding all_grow_def by metis
qed auto

lemma propagate_caller_grows:
  assumes "propagate_caller em entry (changed, T) = (changed', T')" "all_grow S T" "changed \<longleftrightarrow> T \<noteq> S"
  shows "all_grow S T' \<and> (changed' \<longleftrightarrow> T' \<noteq> S)"
proof (cases "fst entry = nullptr")
  case False
  obtain caller edges where entry: "entry = (caller, edges)" by (cases entry)
  with assms(1) False have T': "T' = fold (propagate_edge em caller) edges T"
    and changed': "changed' \<longleftrightarrow> changed \<or> T' \<noteq> T"
    by (auto simp: propagate_caller_def Let_def caller_differs)
  have "all_grow T T'" by (simp add: T' fold_edges_grows)
  with assms(2,3) changed' show ?thesis using all_grow_trans all_grow_between by metis
qed (use assms in \<open>auto simp: propagate_caller_def split: prod.splits\<close>)

lemma fold_callers_grow:
  "fold (propagate_caller em) graph (changed, T) = (changed', T') \<Longrightarrow> all_grow S T \<Longrightarrow> changed \<longleftrightarrow> T \<noteq> S
     \<Longrightarrow> all_grow S T' \<and> (changed' \<longleftrightarrow> T' \<noteq> S)"
proof (induction graph arbitrary: changed T)
  case (Cons entry graph)
  obtain c U where step: "propagate_caller em entry (changed, T) = (c, U)" by fastforce
  from propagate_caller_grows [OF this Cons.prems(2,3)] Cons.IH [of c U] Cons.prems(1) step show ?case by simp
qed simp

lemma round_grows:
  assumes "propagate_round em graph S = (changed, S')"
  shows "all_grow S S'" "changed \<longleftrightarrow> S' \<noteq> S"
  using fold_callers_grow [of em graph False S changed S' S] assms by (auto simp: propagate_round_def)

section \<open>Invariants of a round\<close>

text \<open>What every call of the graph keeps, the propagation keeps.\<close>

lemma fold_keeps: "\<lbrakk>\<And>x s. x \<in> set xs \<Longrightarrow> I s \<Longrightarrow> I (f x s); I s\<rbrakk> \<Longrightarrow> I (fold f xs s)"
  by (induction xs arbitrary: s) auto

lemma caller_keeps:
  assumes step: "\<And>edge S. is_call graph (fst entry) edge \<Longrightarrow> I S \<Longrightarrow> I (propagate_edge em (fst entry) edge S)"
    and entry: "entry \<in> set graph" and I: "I (snd state)"
  shows "I (snd (propagate_caller em entry state))"
proof -
  obtain m edges where e: "entry = (m, edges)" by (cases entry)
  have "I (fold (propagate_edge em m) edges (snd state))" if "m \<noteq> nullptr"
  proof (rule fold_keeps [where I = I])
    fix edge T assume "edge \<in> set edges" "I T"
    then show "I (propagate_edge em m edge T)"
      using that entry step [of edge T] e
      by (cases "edge_Callee edge = nullptr") (auto simp: is_call_def propagate_edge_def)
  qed (rule I)
  then show ?thesis using I by (cases state) (auto simp: propagate_caller_def Let_def e)
qed

lemma round_keeps:
  assumes step: "\<And>m edge S. is_call graph m edge \<Longrightarrow> I S \<Longrightarrow> I (propagate_edge em m edge S)" and I: "I S"
  shows "I (snd (propagate_round em graph S))"
  unfolding propagate_round_def
  by (rule fold_keeps [where I = "\<lambda>state. I (snd state)"]) (auto intro: caller_keeps step I)

section \<open>A round that changes nothing\<close>

lemma fold_fixed:
  assumes grow: "\<And>x s. all_grow s (f x s)" and fixed: "fold f xs S = S" and x: "x \<in> set xs"
  shows "f x S = S"
  using fixed x
proof (induction xs)
  case (Cons y ys)
  have "all_grow (f y S) (fold f ys (f y S))"
    by (rule fold_keeps [where I = "all_grow (f y S)"]) (auto intro: all_grow_trans grow)
  with Cons.prems(1) have "f y S = S" using all_grow_between [OF grow [of S y]] by simp
  with Cons show ?case by auto
qed simp

lemma fixed_round:
  assumes "propagate_round em graph S = (False, S)" "is_call graph m edge"
  shows "propagate_edge em m edge S = S"
proof -
  define f where "f = (\<lambda>entry S. snd (propagate_caller em entry (False, S)))"
  have snd_caller: "snd (propagate_caller em entry (changed, T)) = f entry T" for entry changed T
    by (auto simp: f_def propagate_caller_def Let_def split: prod.splits)
  have "snd (fold (propagate_caller em) entries (changed, T)) = fold f entries T" for entries changed T
  proof (induction entries arbitrary: changed T)
    case (Cons entry entries)
    show ?case using Cons.IH snd_caller [of entry changed T]
      by (cases "propagate_caller em entry (changed, T)") simp
  qed simp
  with assms(1) have fixed: "fold f graph S = S" by (metis propagate_round_def snd_conv)
  from assms(2) obtain edges where e: "(m, edges) \<in> set graph" "edge \<in> set edges" "m \<noteq> nullptr"
    by (auto simp: is_call_def)
  have grow: "all_grow s (f entry s)" for entry s
    by (auto simp: f_def propagate_caller_def Let_def fold_edges_grows split: prod.splits)
  from fold_fixed [OF grow fixed e(1)] e(3) have "fold (propagate_edge em m) edges S = S"
    by (simp add: f_def propagate_caller_def Let_def)
  from fold_fixed [OF propagate_edge_grows this e(2)] show ?thesis .
qed

section \<open>Rounds end\<close>

definition graph_methods :: "call_graph \<Rightarrow> ptr set" where
  "graph_methods graph = fst ` set graph \<union> (\<Union>(m, edges) \<in> set graph. edge_Callee ` set edges)"

definition known_types :: "call_graph \<Rightarrow> summaries \<Rightarrow> ptr set" where
  "known_types graph S =
     (\<Union>m \<in> graph_methods graph. set (sum_ThrownTypes (S m)) \<union> set (sum_AsyncThrownTypes (S m)))"

lemma finite_graph [simp]: "finite (graph_methods graph)" "finite (known_types graph S)"
  by (auto simp: graph_methods_def known_types_def split: prod.splits)

lemma set_types_of: "set (types_of a s) \<subseteq> set (sum_ThrownTypes s) \<union> set (sum_AsyncThrownTypes s)"
  by (auto simp: types_of_def)

lemma types_of_propagate_edge:
  "set (types_of a (propagate_edge em m edge S m'))
     = set (types_of a (S m')) \<union>
       (if edge_Callee edge \<noteq> nullptr \<and> m' = m \<and> a = em_async em m then set (thrown_at em edge S) else {})"
proof (cases "edge_Callee edge = nullptr")
  case False
  have "thrown_at em edge (S(m := add_mutations (S (edge_Callee edge)) (S m))) = thrown_at em edge S"
    by (simp add: thrown_at_def Let_def)
  with False show ?thesis by (auto simp: propagate_edge_def Let_def types_of_fold)
qed (simp add: propagate_edge_def)

lemma types_of_both: "types_of True s = sum_AsyncThrownTypes s" "types_of False s = sum_ThrownTypes s"
  by (simp_all add: types_of_def)

lemma call_in_graph: "is_call graph m edge \<Longrightarrow> m \<in> graph_methods graph" "is_call graph m edge \<Longrightarrow> edge_Callee edge \<in> graph_methods graph"
  by (auto simp: is_call_def graph_methods_def image_iff intro: bexI [rotated])

lemma known_types_edge: "is_call graph m edge \<Longrightarrow> known_types graph (propagate_edge em m edge S) \<subseteq> known_types graph S"
proof
  fix t assume call: "is_call graph m edge" and "t \<in> known_types graph (propagate_edge em m edge S)"
  then obtain m' a where m': "m' \<in> graph_methods graph" and t: "t \<in> set (types_of a (propagate_edge em m edge S m'))"
    by (auto simp: known_types_def types_of_both [symmetric])
  have "edge_Callee edge \<in> graph_methods graph" using call_in_graph(2) [OF call] .
  moreover have "set (thrown_at em edge S) \<subseteq> set (types_of (em_async em (edge_Callee edge)) (S (edge_Callee edge)))"
    by (auto simp: thrown_at_def Let_def)
  ultimately show "t \<in> known_types graph S"
    using t m' set_types_of unfolding types_of_propagate_edge known_types_def by (fastforce split: if_splits)
qed

lemma known_types_round: "known_types graph (snd (propagate_round em graph S)) \<subseteq> known_types graph S"
  by (rule round_keeps [where I = "\<lambda>T. known_types graph T \<subseteq> known_types graph S"])
    (blast dest: known_types_edge [THEN subsetD], simp)

definition rank :: "MethodEffectSummary \<Rightarrow> nat" where
  "rank s = of_bool (sum_MayThrow s) + of_bool (sum_MutatesInstance s) + of_bool (sum_MutatesStatic s)
     + of_bool (sum_MutatesArguments s) + of_bool (sum_HasUnknownSideEffects s)
     + card (set (sum_ThrownTypes s)) + card (set (sum_AsyncThrownTypes s))"

lemma extends_card: "extends xs ys \<Longrightarrow> card (set xs) \<le> card (set ys)"
  by (simp add: card_mono extends_subset)

lemma of_bool_mono: "(P \<longrightarrow> Q) \<Longrightarrow> (of_bool P :: nat) \<le> of_bool Q"
  by (cases P; cases Q) simp_all

lemma grows_rank: "grows a b \<Longrightarrow> rank a \<le> rank b"
  unfolding rank_def grows_def by (intro add_mono of_bool_mono extends_card) simp_all

lemma extends_card_eq: "extends xs ys \<Longrightarrow> card (set xs) = card (set ys) \<Longrightarrow> xs = ys"
  by (metis List.finite_set card_subset_eq extends_same extends_subset)

lemma grows_rank_same: "grows a b \<Longrightarrow> rank a = rank b \<Longrightarrow> a = b"
proof -
  assume g: "grows a b" and r: "rank a = rank b"
  have le: "(of_bool (sum_MayThrow a) :: nat) \<le> of_bool (sum_MayThrow b)"
    "(of_bool (sum_MutatesInstance a) :: nat) \<le> of_bool (sum_MutatesInstance b)"
    "(of_bool (sum_MutatesStatic a) :: nat) \<le> of_bool (sum_MutatesStatic b)"
    "(of_bool (sum_MutatesArguments a) :: nat) \<le> of_bool (sum_MutatesArguments b)"
    "(of_bool (sum_HasUnknownSideEffects a) :: nat) \<le> of_bool (sum_HasUnknownSideEffects b)"
    "card (set (sum_ThrownTypes a)) \<le> card (set (sum_ThrownTypes b))"
    "card (set (sum_AsyncThrownTypes a)) \<le> card (set (sum_AsyncThrownTypes b))"
    using g by (auto simp: grows_def intro: extends_card)
  with r have "(of_bool (sum_MayThrow a) :: nat) = of_bool (sum_MayThrow b)"
    "(of_bool (sum_MutatesInstance a) :: nat) = of_bool (sum_MutatesInstance b)"
    "(of_bool (sum_MutatesStatic a) :: nat) = of_bool (sum_MutatesStatic b)"
    "(of_bool (sum_MutatesArguments a) :: nat) = of_bool (sum_MutatesArguments b)"
    "(of_bool (sum_HasUnknownSideEffects a) :: nat) = of_bool (sum_HasUnknownSideEffects b)"
    "card (set (sum_ThrownTypes a)) = card (set (sum_ThrownTypes b))"
    "card (set (sum_AsyncThrownTypes a)) = card (set (sum_AsyncThrownTypes b))"
    unfolding rank_def by linarith+
  then have flags: "sum_MayThrow a = sum_MayThrow b" "sum_MutatesInstance a = sum_MutatesInstance b"
    "sum_MutatesStatic a = sum_MutatesStatic b" "sum_MutatesArguments a = sum_MutatesArguments b"
    "sum_HasUnknownSideEffects a = sum_HasUnknownSideEffects b"
    and cards: "card (set (sum_ThrownTypes a)) = card (set (sum_ThrownTypes b))"
      "card (set (sum_AsyncThrownTypes a)) = card (set (sum_AsyncThrownTypes b))"
    by (simp_all only: of_bool_eq_iff)
  from g have "extends (sum_ThrownTypes a) (sum_ThrownTypes b)" "extends (sum_AsyncThrownTypes a) (sum_AsyncThrownTypes b)"
    by (simp_all add: grows_def)
  with cards have "sum_ThrownTypes a = sum_ThrownTypes b" "sum_AsyncThrownTypes a = sum_AsyncThrownTypes b"
    by (auto intro: extends_card_eq)
  with flags g show "a = b" by (simp add: grows_def)
qed

definition total_rank :: "call_graph \<Rightarrow> summaries \<Rightarrow> nat" where
  "total_rank graph S = (\<Sum>m \<in> graph_methods graph. rank (S m))"

lemma rank_bound:
  assumes "m \<in> graph_methods graph" "known_types graph S \<subseteq> U" "finite U"
  shows "rank (S m) \<le> 5 + 2 * card U"
proof -
  have "set (sum_ThrownTypes (S m)) \<subseteq> U" "set (sum_AsyncThrownTypes (S m)) \<subseteq> U"
    using assms by (auto simp: known_types_def)
  then have "card (set (sum_ThrownTypes (S m))) \<le> card U" "card (set (sum_AsyncThrownTypes (S m))) \<le> card U"
    using assms(3) by (auto intro: card_mono)
  then show ?thesis by (simp add: rank_def of_bool_def)
qed

lemma total_rank_bound:
  "known_types graph S \<subseteq> U \<Longrightarrow> finite U \<Longrightarrow> total_rank graph S \<le> card (graph_methods graph) * (5 + 2 * card U)"
  unfolding total_rank_def using sum_bounded_above [of "graph_methods graph" "\<lambda>m. rank (S m)" "5 + 2 * card U"]
  by (simp add: rank_bound)

lemma round_outside: "m \<notin> graph_methods graph \<Longrightarrow> snd (propagate_round em graph S) m = S m"
  by (rule round_keeps [where I = "\<lambda>T. T m = S m"])
    (metis call_in_graph propagate_edge_other, simp)

lemma round_total_rank:
  assumes r: "propagate_round em graph S = (changed, S')"
  shows "total_rank graph S \<le> total_rank graph S'" "changed \<Longrightarrow> total_rank graph S < total_rank graph S'"
proof -
  have le: "rank (S m) \<le> rank (S' m)" for m
    using round_grows(1) [OF r] grows_rank by (auto simp: all_grow_def)
  then show "total_rank graph S \<le> total_rank graph S'" by (simp add: total_rank_def sum_mono)
  assume changed
  then obtain m where m: "S' m \<noteq> S m" using round_grows(2) [OF r] by blast
  have "rank (S m) \<noteq> rank (S' m)"
    using round_grows(1) [OF r] grows_rank_same m by (metis all_grow_def)
  moreover have "m \<in> graph_methods graph" using m round_outside [of m graph em S] r by auto
  ultimately show "total_rank graph S < total_rank graph S'"
    unfolding total_rank_def using le by (intro sum_strict_mono_ex1) (auto simp: order.strict_iff_order)
qed

text \<open>An invariant of all rounds holds of the result, and the result is stable.\<close>

lemma PropagateEffects_returns:
  assumes step: "\<And>m edge S. is_call graph m edge \<Longrightarrow> I S \<Longrightarrow> I (propagate_edge em m edge S)" and I: "I S"
  shows "\<exists>S'. PropagateEffects em graph S = Some S' \<and> I S' \<and> propagate_round em graph S' = (False, S')"
proof -
  define U where "U = known_types graph S"
  define bound where "bound = card (graph_methods graph) * (5 + 2 * card U)"
  define P where "P = (\<lambda>(changed, T). known_types graph T \<subseteq> U \<and> I T \<and> (\<not> changed \<longrightarrow> propagate_round em graph T = (False, T)))"
  define body where "body = (\<lambda>(changed :: bool, T). propagate_round em graph T)"
  define f where "f = (\<lambda>(changed, T). 2 * (bound - total_rank graph T) + of_bool changed)"
  have inv: "P (body s) \<and> f (body s) < f s" if inv: "P s" and flag: "fst s" for s
  proof -
    obtain T where s: "s = (True, T)" using flag by (cases s) auto
    obtain c T' where r: "propagate_round em graph T = (c, T')" by fastforce
    have known: "known_types graph T' \<subseteq> U"
      using known_types_round [of graph em T] inv r by (auto simp: P_def s)
    have "I T'" using round_keeps [of graph I em T, OF step] inv r by (simp add: P_def s)
    moreover have "propagate_round em graph T' = (False, T')" if "\<not> c"
      using round_grows(2) [OF r] that r by simp
    ultimately have "P (body s)" using known by (simp add: P_def body_def s r)
    moreover have "total_rank graph T' \<le> bound"
      using known by (simp add: bound_def U_def total_rank_bound)
    then have "f (body s) < f s"
      using round_total_rank [OF r] by (cases c) (auto simp: f_def body_def s r)
    ultimately show ?thesis by blast
  qed
  have start: "P (True, S)" using I by (simp add: P_def U_def)
  obtain t where t: "while_option fst body (True, S) = Some t"
    using measure_while_option_Some [of P fst body f, OF inv start] by blast
  have "P t" using while_option_rule [of P fst body, OF _ t start] inv by blast
  moreover have "\<not> fst t" using while_option_stop [OF t] .
  ultimately have "I (snd t)" "propagate_round em graph (snd t) = (False, snd t)"
    by (auto simp: P_def split: prod.splits)
  moreover have "PropagateEffects em graph S = Some (snd t)"
    using t by (simp add: PropagateEffects_def body_def)
  ultimately show ?thesis by blast
qed

section \<open>What is computed\<close>

lemma raises_edge:
  assumes "is_call graph m edge" "\<forall>a m t. t \<in> set (types_of a (T m)) \<longrightarrow> raises em graph S a m t"
  shows "\<forall>a m' t. t \<in> set (types_of a (propagate_edge em m edge T m')) \<longrightarrow> raises em graph S a m' t"
proof (intro allI impI)
  fix a m' t assume t: "t \<in> set (types_of a (propagate_edge em m edge T m'))"
  show "raises em graph S a m' t"
  proof (cases "t \<in> set (types_of a (T m'))")
    case False
    with t have *: "m' = m" "a = em_async em m" "t \<in> set (thrown_at em edge T)"
      by (auto simp: types_of_propagate_edge split: if_splits)
    from assms(1) obtain edges where e: "(m, edges) \<in> set graph" "edge \<in> set edges" "m \<noteq> nullptr" "edge_Callee edge \<noteq> nullptr"
      by (auto simp: is_call_def)
    from *(3) have "em_async em (edge_Callee edge) \<longrightarrow> edge_IsAwaited edge" "\<not> Catches em edge t"
      "raises em graph S (em_async em (edge_Callee edge)) (edge_Callee edge) t"
      using assms(2) by (auto simp: thrown_at_def Let_def split: if_splits)
    with e show ?thesis unfolding * by (blast intro: raises.call)
  qed (use assms(2) in blast)
qed

lemma raises_stable:
  assumes "raises em graph S a m t" "all_grow S S'" "propagate_round em graph S' = (False, S')"
  shows "t \<in> set (types_of a (S' m))"
  using assms(1)
proof (induction rule: raises.induct)
  case (own t a m)
  have "set (types_of a (S m)) \<subseteq> set (types_of a (S' m))"
    using assms(2) by (auto simp: all_grow_def grows_def types_of_def dest: extends_subset)
  with own show ?case by blast
next
  case (call m edges edge t)
  have "is_call graph m edge" using call.hyps by (auto simp: is_call_def)
  from fixed_round [OF assms(3) this] types_of_propagate_edge [of "em_async em m" em m edge S' m]
  have "set (thrown_at em edge S') \<subseteq> set (types_of (em_async em m) (S' m))" using call.hyps by auto
  moreover have "t \<in> set (thrown_at em edge S')"
    using call by (auto simp: thrown_at_def Let_def)
  ultimately show ?case by blast
qed

lemma PropagateEffects_raises:
  "\<exists>S'. PropagateEffects em graph S = Some S' \<and> all_grow S S' \<and> propagate_round em graph S' = (False, S')
     \<and> (\<forall>a m t. t \<in> set (types_of a (S' m)) \<longleftrightarrow> raises em graph S a m t)"
proof -
  let ?I = "\<lambda>T. all_grow S T \<and> (\<forall>a m t. t \<in> set (types_of a (T m)) \<longrightarrow> raises em graph S a m t)"
  have "\<exists>S'. PropagateEffects em graph S = Some S' \<and> ?I S' \<and> propagate_round em graph S' = (False, S')"
  proof (rule PropagateEffects_returns)
    fix m edge T assume call: "is_call graph m edge" and I: "?I T"
    then show "?I (propagate_edge em m edge T)"
      using raises_edge [OF call] all_grow_trans [OF _ propagate_edge_grows] by blast
  qed (auto intro: raises.own)
  then show ?thesis using raises_stable by blast
qed

text \<open>The flags of a stable state: a caller has those of its callees.\<close>

lemma stable_flags:
  assumes "propagate_round em graph S = (False, S)" "is_call graph m edge"
  shows "sum_MutatesInstance (S (edge_Callee edge)) \<Longrightarrow> sum_MutatesInstance (S m)"
    and "sum_MutatesStatic (S (edge_Callee edge)) \<Longrightarrow> sum_MutatesStatic (S m)"
    and "sum_HasUnknownSideEffects (S (edge_Callee edge)) \<Longrightarrow> sum_HasUnknownSideEffects (S m)"
proof -
  let ?S = "S(m := add_mutations (S (edge_Callee edge)) (S m))"
  let ?c = "edge_Callee edge"
  have "edge_Callee edge \<noteq> nullptr" using assms(2) by (simp add: is_call_def)
  then have "S m = fold (add_thrown (em_async em m)) (thrown_at em edge ?S) (?S m)"
    using fixed_round [OF assms] unfolding propagate_edge_def Let_def by (metis fun_upd_same)
  then have "grows (add_mutations (S ?c) (S m)) (S m)"
    using fold_add_thrown_grows by (metis fun_upd_same)
  then show "sum_MutatesInstance (S ?c) \<Longrightarrow> sum_MutatesInstance (S m)"
    and "sum_MutatesStatic (S ?c) \<Longrightarrow> sum_MutatesStatic (S m)"
    and "sum_HasUnknownSideEffects (S ?c) \<Longrightarrow> sum_HasUnknownSideEffects (S m)"
    by (auto simp: grows_def add_mutations_def)
qed

end
