(* ===== verification/FlowProperties.thy ===== *)
theory FlowProperties
  imports FlowSoundness EffectPropagation
begin

text \<open>
  The properties of the flow analysis: methods it accepts return, the effects it propagates are those that
  may leave a method, and what it takes a \<^verbatim>\<open>switch\<close> for.
\<close>

section \<open>Parts of the pass\<close>

lemma do_ops_part:
  "f \<in> set fs \<Longrightarrow> \<forall>g \<in> set fs. op_balanced g \<Longrightarrow> \<exists>st1. balanced st st1 \<and> balanced (f st1) (do_ops fs st)"
proof (induction fs arbitrary: st)
  case (Cons g fs)
  have rest: "op_balanced (do_ops fs)" by (rule balanced_do_ops) (use Cons.prems(2) in simp)
  have first: "balanced st (g st)" by (rule op_balancedD) (use Cons.prems(2) in simp)
  have unfold: "do_ops (g # fs) st = do_ops fs (g st)" by (simp add: do_ops_def)
  show ?case
  proof (cases "f = g")
    case True
    show ?thesis using op_balancedD [OF rest, of "g st"] balanced_refl unfolding unfold True by blast
  next
    case False
    then obtain st1 where "balanced (g st) st1" "balanced (f st1) (do_ops fs (g st))"
      using Cons.IH [of "g st"] Cons.prems by auto
    with first show ?thesis unfolding unfold using balanced_trans by blast
  qed
qed simp

lemma balanced_methods [balance]:
  "op_balanced (VisitMethodDeclaration_flow fm m n)" "op_balanced (VisitOperatorDeclaration_flow fm m n)"
  "op_balanced (VisitAccessorDeclaration_flow fm g m n)" "op_balanced (VisitConstructorDeclaration_flow fm m n)"
  using balanced_nodes(2) [of fm n]
  by (auto simp: VisitMethodDeclaration_flow_def VisitOperatorDeclaration_flow_def VisitAccessorDeclaration_flow_def
      VisitConstructorDeclaration_flow_def intro!: balance)

lemma balanced_member [balance]: "op_balanced (VisitMemberDeclaration fm member)"
  by (induction member) (auto intro!: balance balanced_nodes)

text \<open>The methods of a member with their bodies.\<close>

primrec method_bodies :: "unit_member \<Rightarrow> (ptr \<times> SyntaxNode) list" where
  "method_bodies PlainDeclaration = []"
| "method_bodies (TypeWithMembers members) = concat (map method_bodies members)"
| "method_bodies (EnumWithFields initializers) = []"
| "method_bodies (FieldWithInitializer initializer) = []"
| "method_bodies (MethodWithBody symbol body) = [(symbol, body)]"
| "method_bodies (OperatorWithBody symbol body) = []"
| "method_bodies (ConstructorWithBody symbol body) = []"
| "method_bodies (AccessorWithBody isGetter symbol body) = []"
| "method_bodies (PropertyWithAccessors getter setter initializer) = []"
| "method_bodies (IndexatorWithAccessors getter setter) = []"

lemma method_visited:
  "(symbol, body) \<in> set (method_bodies member) \<Longrightarrow>
     \<exists>st1. balanced st st1 \<and> balanced (VisitMethodDeclaration_flow fm symbol body st1) (VisitMemberDeclaration fm member st)"
proof (induction member arbitrary: st)
  case (TypeWithMembers members)
  then obtain member where m: "member \<in> set members" "(symbol, body) \<in> set (method_bodies member)" by auto
  have "\<exists>st1. balanced st st1
      \<and> balanced (VisitMemberDeclaration fm member st1) (do_ops (map (VisitMemberDeclaration fm) members) st)"
    by (rule do_ops_part) (use m balanced_member in auto)
  with TypeWithMembers.IH [OF m] show ?case using balanced_trans by simp blast
qed (auto intro: balanced_refl)

lemma pass_visits_method:
  assumes "Analyze fm units st = Some st'" "(symbol, body) \<in> set (concat (map method_bodies (concat units)))"
  shows "\<exists>st1. balanced st st1 \<and>
    set (fa_Diagnostics (VisitMethodDeclaration_flow fm symbol body st1)) \<subseteq> set (fa_Diagnostics st')"
proof -
  let ?st = "do_ops (map (VisitMemberDeclaration fm) (concat units)) st"
  from assms(2) obtain member where m: "member \<in> set (concat units)" "(symbol, body) \<in> set (method_bodies member)" by auto
  have "\<exists>st1. balanced st st1 \<and> balanced (VisitMemberDeclaration fm member st1) ?st"
    by (rule do_ops_part) (use m balanced_member in auto)
  with method_visited [OF m(2)] balanced_trans obtain st1
    where "balanced st st1" "balanced (VisitMethodDeclaration_flow fm symbol body st1) ?st" by blast
  moreover have "set (fa_Diagnostics ?st) \<subseteq> set (fa_Diagnostics st')"
    using assms(1) by (auto simp: Analyze_def Let_def)
  moreover have "set (fa_Diagnostics s) \<subseteq> set (fa_Diagnostics t)" if "balanced s t" for s t
    using that by (auto simp: balanced_def)
  ultimately show ?thesis by blast
qed

section \<open>Accepted bodies\<close>

lemma body_returns:
  assumes kind: "\<not> IsAsync fm symbol" "me_ReturnType (fm_methods fm symbol) \<notin> {nullptr, sem_Void (fm_sem fm)}"
    and st: "outside st" and body: "balanced_analysis a" "foretold a f"
    and accepted: "\<forall>d \<in> set (fa_Diagnostics (AnalyzeMemberBody fm symbol a st)). \<exists>w. d = EffectWarning w"
  shows "f = Returned"
proof -
  define st1 :: flow_analyzer where "st1 = st\<lparr>fa_currentMethodIsAsync := IsAsync fm symbol\<rparr>"
  have ends: "\<not> (FlowNormal \<in> fst (a st1) \<or> FlowBreaks \<in> fst (a st1) \<or> FlowContinues \<in> fst (a st1))"
    and diagnostics: "fa_Diagnostics (AnalyzeMemberBody fm symbol a st) = fa_Diagnostics (snd (a st1))"
    using accepted kind by (auto simp: AnalyzeMemberBody_def Let_def report_flow_def st1_def split: prod.splits if_splits)
  have "no_misplaced_jump (snd (a st1))" using accepted unfolding diagnostics no_misplaced_jump_def by blast
  moreover have "outside st1" using st by (simp add: st1_def outside_def)
  ultimately have "f \<noteq> Normal" "f \<noteq> Broke" "f \<noteq> Continued" using body(2) ends by (auto simp: foretold_def)
  then show ?thesis by (cases f) simp_all
qed

text \<open>
  C5: When the flow analysis of a program reports nothing but warnings about exceptions, a method that must
  return a value, is not asynchronous and whose body is a program of the modelled statements ends every
  execution that does not fail by \<^verbatim>\<open>return\<close>: it does not run off its end and no \<^verbatim>\<open>break\<close> or \<^verbatim>\<open>continue\<close> leaves it.
\<close>

theorem accepted_methods_return:
  assumes "Analyze fm units (FlowAnalyzer S) = Some st"
    and "\<forall>d \<in> set (fa_Diagnostics st). \<exists>w. d = EffectWarning w"
    and "(symbol, block_of ss) \<in> set (concat (map method_bodies (concat units)))"
    and "symbol \<noteq> nullptr" and "\<not> IsAsync fm symbol"
    and "me_ReturnType (fm_methods fm symbol) \<notin> {nullptr, sem_Void (fm_sem fm)}"
    and "exec D n (Many ss) \<sigma> = Some (Gives (f, \<sigma>'))"
  shows "f = Returned"
proof -
  obtain st1 where st1: "balanced (FlowAnalyzer S) st1"
    and seen: "set (fa_Diagnostics (VisitMethodDeclaration_flow fm symbol (block_of ss) st1)) \<subseteq> set (fa_Diagnostics st)"
    using pass_visits_method [OF assms(1,3)] by blast
  let ?body = "AnalyzeMemberBody fm symbol (AnalyzeBlock fm (block_of ss))"
  define prologue where "prologue =
    [do_ops (map (\<lambda>p. DeclareSymbol (fm_Name fm p) (Declared p)) (me_TypeParameters (fm_methods fm symbol))),
     if me_Linking (fm_methods fm symbol) = LINK_INSTANCE then declare_this fm symbol else id, declare_parameters fm symbol]"
  have visit: "VisitMethodDeclaration_flow fm symbol (block_of ss)
      = do_ops ([EnterMemberBody symbol, PushScope] @ (prologue @ [?body]) @ [PopScope, LeaveMemberBody symbol])"
    using assms(4) by (simp add: VisitMethodDeclaration_flow_def block_of_def prologue_def in_member_def)
  have "\<exists>st2. balanced st1 st2 \<and> balanced (?body st2) (VisitMethodDeclaration_flow fm symbol (block_of ss) st1)"
    unfolding visit by (rule do_ops_part) (auto simp: prologue_def intro!: balance balanced_nodes)
  then obtain st2 where st2: "balanced st1 st2"
    and last: "balanced (?body st2) (VisitMethodDeclaration_flow fm symbol (block_of ss) st1)" by blast
  have "outside st2"
    using balanced_outside [OF balanced_trans [OF st1 st2]] by (simp add: outside_def FlowAnalyzer_def)
  moreover have "foretold (AnalyzeBlock fm (block_of ss)) f"
    unfolding block_of_def block_analysis by (rule exec_foretold [OF assms(7)])
  moreover have "\<forall>d \<in> set (fa_Diagnostics (?body st2)). \<exists>w. d = EffectWarning w"
    using assms(2) seen last by (auto simp: balanced_def)
  ultimately show ?thesis using body_returns [OF assms(5,6) _ balanced_nodes(2)] by blast
qed

text \<open>A method \<^verbatim>\<open>if (true) return; else return;\<close> in a class, analyzed and executed.\<close>

definition example_flow_model :: flow_model where
  "example_flow_model =
     \<lparr>fm_effects = \<lparr>em_assignable = (=), em_async = (\<lambda>_. False)\<rparr>, fm_sem = undefined\<lparr>sem_Void := 9\<rparr>,
      fm_methods = (\<lambda>_. undefined\<lparr>me_Linking := LINK_STATIC, me_ReturnType := 5, me_TypeParameters := []\<rparr>),
      fm_OwnerType = (\<lambda>_. 0), fm_Parameters = (\<lambda>_. []), fm_Name = (\<lambda>_. []), fm_FullName = (\<lambda>_. []),
      fm_IsVariable = (\<lambda>_. False), fm_outer = (\<lambda>_. 0), fm_lambda_method = (\<lambda>_. 0), fm_expression_type = (\<lambda>_. 0),
      fm_IsStaticContext = (\<lambda>_. False)\<rparr>"

definition example_body :: "stm list" where
  "example_body = [SIf True (EBool True) [SReturn] (Else [SReturn])]"

lemma no_calls: "PropagateEffects em [] S = Some S"
  by (simp add: PropagateEffects_def while_option_unfold propagate_round_def)

lemma example_analysis:
  "\<exists>st. Analyze example_flow_model [[TypeWithMembers [MethodWithBody 1 (block_of example_body)]]] (FlowAnalyzer (\<lambda>_. no_effects)) = Some st
     \<and> fa_Diagnostics st = []"
  by (simp add: Analyze_def Let_def do_ops_def VisitMethodDeclaration_flow_def block_of_def example_body_def
      in_member_def EnterMemberBody_def LeaveMemberBody_def PushScope_def PopScope_def declare_parameters_def
      AnalyzeMemberBody_def AnalyzeBlock_def AnalyzeStatementsBlock_def IsTerminal_def AnalyzeConditionalClause_def
      AnalyzeElseClause_def merge_analyses_def MergeBranches_def passed_over_def literal_def IsAsync_def
      example_flow_model_def FlowAnalyzer_def no_calls ReportEffectDiagnostics_def)

theorem accepted_methods_return_witness:
  "\<forall>D. \<exists>f \<sigma>. exec D 5 (Many example_body) (\<lambda>_. None) = Some (Gives (f, \<sigma>)) \<and> f = Returned"
proof
  fix D
  obtain f \<sigma> where run: "exec D 5 (Many example_body) (\<lambda>_. None) = Some (Gives (f, \<sigma>))"
    by (simp add: example_body_def eval_nat_numeral branch_def test_def in_sequence_def)
  obtain st where st: "Analyze example_flow_model [[TypeWithMembers [MethodWithBody 1 (block_of example_body)]]]
      (FlowAnalyzer (\<lambda>_. no_effects)) = Some st" "fa_Diagnostics st = []"
    using example_analysis by blast
  show "\<exists>f \<sigma>. exec D 5 (Many example_body) (\<lambda>_. None) = Some (Gives (f, \<sigma>)) \<and> f = Returned"
    using accepted_methods_return [OF st(1) _ _ _ _ _ run, of 1] run
    by (simp add: st(2) IsAsync_def example_flow_model_def)
qed

section \<open>Effects\<close>

text \<open>
  C15: The propagation of effects ends for every call graph, recursive ones included, and the exception types
  it leaves in the summary of a method are exactly those that may leave the method: its own, and by a
  chain of calls those of its callees that no call on the chain catches, an asynchronous callee counting
  only where it is awaited.
\<close>

theorem effects_propagate:
  "\<exists>S'. PropagateEffects em graph S = Some S' \<and> all_grow S S'
     \<and> (\<forall>asynchronous m t. t \<in> set (types_of asynchronous (S' m)) \<longleftrightarrow> raises em graph S asynchronous m t)"
  using PropagateEffects_raises [of em graph S] by blast

section \<open>Balance and switches\<close>

text \<open>
  C21: Analyzing any statement or block leaves the depths of loops and switches as they were, and keeps what
  was reported before.
\<close>

theorem analysis_keeps_depths:
  "balanced st (snd (AnalyzeStatement fm node st)) \<and> balanced st (snd (AnalyzeBlock fm node st))
     \<and> balanced st (VisitMemberDeclaration fm member st)"
  using balanced_analysisD [OF balanced_nodes(1)] balanced_analysisD [OF balanced_nodes(2)] op_balancedD [OF balanced_member]
  by blast

text \<open>A flow state that says: this returns, or throws, and nothing else.\<close>

definition only_returns :: "FlowState \<Rightarrow> bool" where
  "only_returns state \<longleftrightarrow> FlowReturns \<in> state \<and> FlowNormal \<notin> state \<and> FlowBreaks \<notin> state \<and> FlowContinues \<notin> state"

lemma case_state_returns:
  "FlowReturns \<in> state \<Longrightarrow> FlowNormal \<notin> state \<Longrightarrow> only_returns (WithoutBreaksAndContinues state)"
  by (auto simp: only_returns_def WithoutBreaksAndContinues_def Let_def)

lemma only_returns_merge: "only_returns a \<Longrightarrow> only_returns b \<Longrightarrow> only_returns (MergeBranches a b)"
  by (auto simp: only_returns_def MergeBranches_def)

lemma switch_cases_return:
  assumes "\<And>scan body. (scan, body) \<in> set clauses \<Longrightarrow>
      \<exists>a. body = Some a \<and> (\<forall>st. FlowReturns \<in> fst (a st) \<and> FlowNormal \<notin> fst (a st))"
    and "case combined of None \<Rightarrow> clauses \<noteq> [] | Some state \<Rightarrow> only_returns state"
  shows "\<exists>state. fst (switch_cases clauses combined st) = Some state \<and> only_returns state"
  using assms
proof (induction clauses arbitrary: combined st)
  case (Cons clause clauses)
  obtain scan a where clause: "clause = (scan, Some a)"
    and a: "FlowReturns \<in> fst (a st')" "FlowNormal \<notin> fst (a st')" for st'
    using Cons.prems(1) by (metis list.set_intros(1) prod.exhaust)
  obtain bodyState st1 where run: "a (scan st) = (bodyState, st1)" by fastforce
  then have "only_returns (WithoutBreaksAndContinues bodyState)"
    using case_state_returns a [of "scan st"] by simp
  then have "only_returns (case combined of None \<Rightarrow> WithoutBreaksAndContinues bodyState
      | Some state \<Rightarrow> MergeBranches state (WithoutBreaksAndContinues bodyState))"
    using Cons.prems(2) only_returns_merge by (auto split: option.splits)
  moreover have "\<exists>a. body = Some a \<and> (\<forall>st. FlowReturns \<in> fst (a st) \<and> FlowNormal \<notin> fst (a st))"
    if "(scan, body) \<in> set clauses" for scan body
    using Cons.prems(1) that by auto
  ultimately show ?case
    using Cons.IH [where combined = "Some (case combined of None \<Rightarrow> WithoutBreaksAndContinues bodyState
      | Some state \<Rightarrow> MergeBranches state (WithoutBreaksAndContinues bodyState))" and st = st1]
    by (simp add: clause run Let_def)
qed (auto split: option.splits)

text \<open>
  C27: A \<^verbatim>\<open>switch\<close> with at least one case is taken to return when the body of every case is analyzed as
  returning and not ending normally, whether or not a case must match and whether or not a body may also
  leave by \<^verbatim>\<open>break\<close>, which both reach the end of the switch. So a method that must return a value and whose
  body is such a switch gets no diagnostic for the missing return.
\<close>

theorem switch_taken_to_return:
  assumes "clauses \<noteq> []"
    and "\<forall>clause \<in> set clauses. \<exists>pattern statements equality.
      clause = SwitchCaseClauseSyntax pattern (StatementsBlockSyntax statements) equality
      \<and> (\<forall>st. FlowReturns \<in> fst (AnalyzeBlock fm (StatementsBlockSyntax statements) st)
           \<and> FlowNormal \<notin> fst (AnalyzeBlock fm (StatementsBlockSyntax statements) st))"
  shows "FlowReturns \<in> fst (AnalyzeStatement fm (SwitchStatementSyntax scrutinee clauses) st)
    \<and> fst (AnalyzeStatement fm (SwitchStatementSyntax scrutinee clauses) st) \<subseteq> {FlowReturns, FlowThrows}
    \<and> fa_Diagnostics (AnalyzeMemberBody fm symbol
          (AnalyzeBlock fm (StatementsBlockSyntax [SwitchStatementSyntax scrutinee clauses])) st)
        = fa_Diagnostics (snd (AnalyzeBlock fm (StatementsBlockSyntax [SwitchStatementSyntax scrutinee clauses])
            (st\<lparr>fa_currentMethodIsAsync := IsAsync fm symbol\<rparr>)))"
proof -
  let ?cases = "map (\<lambda>clause. (fn_pattern (flow_of fm clause), fn_body (flow_of fm clause))) clauses"
  let ?switch = "SwitchStatementSyntax scrutinee clauses"
  have bodies: "\<exists>a. body = Some a \<and> (\<forall>st. FlowReturns \<in> fst (a st) \<and> FlowNormal \<notin> fst (a st))"
    if "(scan, body) \<in> set ?cases" for scan body
    using that assms(2) by (fastforce simp: AnalyzeBlock_def some_body_def)
  have switch: "only_returns (fst (AnalyzeStatement fm ?switch st))" for st
  proof -
    let ?st = "ScanExpression fm scrutinee st"
    have "\<exists>state. fst (switch_cases ?cases None (?st\<lparr>fa_switchDepth := fa_switchDepth ?st + 1\<rparr>)) = Some state
        \<and> only_returns state"
      by (rule switch_cases_return) (erule bodies, simp add: assms(1))
    then show ?thesis
      by (auto simp: AnalyzeStatement_def AnalyzeSwitchStatement_def ScanExpression_def Let_def split: prod.split)
  qed
  have block: "only_returns (fst (AnalyzeBlock fm (StatementsBlockSyntax [?switch]) st'))" for st'
  proof -
    have "fst (AnalyzeBlock fm (StatementsBlockSyntax [?switch]) st') = fst (AnalyzeStatement fm ?switch st')"
      by (simp add: AnalyzeBlock_def AnalyzeStatement_def AnalyzeStatementsBlock_def IsTerminal_def split: prod.split)
    then show ?thesis using switch by simp
  qed
  have "fst (AnalyzeStatement fm ?switch st) \<subseteq> {FlowReturns, FlowThrows}"
  proof
    fix flow assume "flow \<in> fst (AnalyzeStatement fm ?switch st)"
    with switch [of st] show "flow \<in> {FlowReturns, FlowThrows}" by (cases flow) (auto simp: only_returns_def)
  qed
  then show ?thesis
    using switch [of st] block [of "st\<lparr>fa_currentMethodIsAsync := IsAsync fm symbol\<rparr>"]
    by (auto simp: AnalyzeMemberBody_def only_returns_def Let_def split: prod.split)
qed

text \<open>Two cases without a default, the first of which may break before it returns.\<close>

definition breaking_case :: SyntaxNode where
  "breaking_case = SwitchCaseClauseSyntax NullNode (StatementsBlockSyntax
     [IfStatementSyntax NullNode (StatementsBlockSyntax [BreakStatementSyntax (token (St BreakKeyword) [])]) NullNode,
      ReturnStatementSyntax NullNode]) nullptr"

definition returning_case :: SyntaxNode where
  "returning_case = SwitchCaseClauseSyntax NullNode (StatementsBlockSyntax [ReturnStatementSyntax NullNode]) nullptr"

theorem switch_taken_to_return_witness:
  "\<forall>st. fst (AnalyzeStatement example_flow_model (SwitchStatementSyntax NullNode [breaking_case, returning_case]) st)
     \<subseteq> {FlowReturns, FlowThrows}"
proof -
  have "\<forall>clause \<in> set [breaking_case, returning_case]. \<exists>pattern statements equality.
      clause = SwitchCaseClauseSyntax pattern (StatementsBlockSyntax statements) equality
      \<and> (\<forall>st. FlowReturns \<in> fst (AnalyzeBlock example_flow_model (StatementsBlockSyntax statements) st)
           \<and> FlowNormal \<notin> fst (AnalyzeBlock example_flow_model (StatementsBlockSyntax statements) st))"
    by (auto simp: breaking_case_def returning_case_def AnalyzeBlock_def AnalyzeStatementsBlock_def IsTerminal_def
        AnalyzeConditionalClause_def merge_analyses_def MergeBranches_def AnalyzeBreak_def passed_over_def
        and_normal_def Let_def split: prod.split)
  from switch_taken_to_return [OF _ this] show ?thesis by blast
qed

end
