(* ===== verification/FrameLayouts.thy ===== *)
theory FrameLayouts
  imports PrimitiveFrames
begin

text \<open>
  The memory of a frame as \<^verbatim>\<open>CallStackFrame::Create\<close> lays it out: return slot, argument and local
  slots, evaluation region, one after the other in one block.
\<close>

section \<open>Slots\<close>

definition slot_shape :: "image \<Rightarrow> MethodSymbol \<Rightarrow> ptr list \<Rightarrow> nat \<Rightarrow> ptr" where
  "slot_shape img method typeArguments slot = ResolveObjectShape img (ResolveSlotType method slot typeArguments)"

text \<open>The bytes a slot needs: a header, and the value or a pointer.\<close>

definition slot_stride :: "image \<Rightarrow> MethodSymbol \<Rightarrow> ptr list \<Rightarrow> nat \<Rightarrow> nat" where
  "slot_stride img method typeArguments slot =
     (let type = ResolveSlotType method slot typeArguments; shape = slot_shape img method typeArguments slot in
      8 + (if shape \<noteq> nullptr \<and> type \<noteq> nullptr \<and> \<not> IsReferenceType (img_types img type)
           then Align (shp_Size (img_shapes img shape)) else 8))"

definition slots_size :: "image \<Rightarrow> MethodSymbol \<Rightarrow> ptr list \<Rightarrow> nat list \<Rightarrow> nat" where
  "slots_size img method typeArguments slots = sum_list (map (slot_stride img method typeArguments) slots)"

lemma slot_descs_eq:
  "offset + slots_size img method ta slots < 2 ^ 32 \<Longrightarrow>
   slot_descs img method ta slots offset =
     (map (\<lambda>k. (slot_shape img method ta (slots ! k), offset + slots_size img method ta (take k slots))) [0..<length slots],
      offset + slots_size img method ta slots)"
proof (induction slots arbitrary: offset)
  case (Cons slot slots)
  let ?o = "offset + slot_stride img method ta slot"
  have small: "?o + slots_size img method ta slots < 2 ^ 32" "?o mod 2 ^ 32 = ?o"
    using Cons.prems by (simp_all add: slots_size_def)
  have "map (\<lambda>k. (slot_shape img method ta ((slot # slots) ! k), offset + slots_size img method ta (take k (slot # slots))))
      [0..<length (slot # slots)]
    = (slot_shape img method ta slot, offset)
      # map (\<lambda>k. (slot_shape img method ta (slots ! k), ?o + slots_size img method ta (take k slots))) [0..<length slots]"
    by (simp add: upt_conv_Cons map_Suc_upt [symmetric] slots_size_def o_def del: upt_Suc)
  with Cons.IH [OF small(1)] small(2) show ?case
    by (simp add: slot_stride_def slot_shape_def slots_size_def Let_def add.assoc)
qed (simp add: slots_size_def)

lemma slots_size_take_Suc:
  "k < length slots \<Longrightarrow> slots_size img method ta (take (Suc k) slots)
     = slots_size img method ta (take k slots) + slot_stride img method ta (slots ! k)"
  by (simp add: slots_size_def take_Suc_conv_app_nth)

lemma slots_size_take_mono:
  assumes "j \<le> k"
  shows "slots_size img method ta (take j slots) \<le> slots_size img method ta (take k slots)"
proof -
  have "take k slots = take j slots @ drop j (take k slots)"
    using assms by (metis append_take_drop_id min.absorb1 take_take)
  then have "slots_size img method ta (take k slots)
      = slots_size img method ta (take j slots) + slots_size img method ta (drop j (take k slots))"
    by (metis map_append slots_size_def sum_list_append)
  then show ?thesis by simp
qed

lemma slots_size_take_le: "slots_size img m ta (take k slots) \<le> slots_size img m ta slots"
  using slots_size_take_mono [of k "max k (length slots)" img m ta slots] by simp

section \<open>Create\<close>

definition return_stride :: "image \<Rightarrow> MethodSymbol \<Rightarrow> nat" where
  "return_stride img method =
     (let shape = ResolveObjectShape img (me_ReturnType method) in
      8 + (if shape_IsReferenceType img shape then 8 else Align (shp_Size (img_shapes img shape))))"

definition local_slots :: "MethodSymbol \<Rightarrow> nat list" where
  "local_slots method = [0..<unat (GetEvalStackLocalsCount method)]"

text \<open>The size of everything below the evaluation region.\<close>

definition locals_end :: "image \<Rightarrow> MethodSymbol \<Rightarrow> ptr list \<Rightarrow> nat" where
  "locals_end img method typeArguments =
     return_stride img method + slots_size img method typeArguments (local_slots method)"

definition laid_out_slots :: "image \<Rightarrow> MethodSymbol \<Rightarrow> ptr list \<Rightarrow> (ptr \<times> nat) list" where
  "laid_out_slots img method typeArguments =
     map (\<lambda>k. (slot_shape img method typeArguments k,
               return_stride img method + slots_size img method typeArguments (take k (local_slots method))))
       (local_slots method)"

text \<open>The members of a frame created in a block at \<open>block\<close>, and the bytes of that block.\<close>

definition frame_bytes :: "image \<Rightarrow> MethodSymbol \<Rightarrow> ptr list \<Rightarrow> nat" where
  "frame_bytes img method typeArguments =
     img_sizeof_CallStackFrame img + (locals_end img method typeArguments + eval_capacity method)"

definition created_frame :: "image \<Rightarrow> nat \<Rightarrow> ptr \<Rightarrow> ptr list \<Rightarrow> nat \<Rightarrow> CallStackFrame" where
  "created_frame img prev method typeArguments block =
     (let m = img_methods img method; arena = block + img_sizeof_CallStackFrame img;
          eval = arena + locals_end img m typeArguments in
      \<lparr>fr_ReturnSlot = arena, fr_ReturnSlotShape = ResolveObjectShape img (me_ReturnType m),
       fr_LocalSlots = laid_out_slots img m typeArguments, fr_LocalRegionEnd = eval, fr_EvalEntries = eval,
       fr_EvalCapacityBytes = eval_capacity m, fr_EvalCursorBytes = 0, fr_EvalOffsets = [],
       fr_PreviousFrame = prev, fr_Method = method, fr_Arena = arena,
       fr_ArenaBytes = locals_end img m typeArguments + eval_capacity m, fr_TypeArguments = [],
       fr_ExceptionHandlers = [], fr_PendingTaskCount = 0, fr_DeferStack = [], fr_DeferDrainDepth = 0,
       fr_InterruptionReason = NoReason, fr_CurrentException = null_instance, fr_UseCount = 1\<rparr>)"

text \<open>The bytes of the block: the frame object, and zeroes for the regions.\<close>

definition block_bytes :: "image \<Rightarrow> nat \<Rightarrow> ptr \<Rightarrow> ptr list \<Rightarrow> nat \<Rightarrow> bytes" where
  "block_bytes img prev method typeArguments block =
     frame_object img (created_frame img prev method typeArguments block)
     @ replicate (locals_end img (img_methods img method) typeArguments + eval_capacity (img_methods img method)) 0"

lemma length_frame_object [simp]: "length (frame_object img fr) = img_sizeof_CallStackFrame img"
  by (simp add: frame_object_def)

lemma length_block_bytes [simp]:
  "length (block_bytes img prev method ta block) = frame_bytes img (img_methods img method) ta"
  by (simp add: block_bytes_def frame_bytes_def)

lemma write_bytes_over:
  assumes "length bs = k"
  shows "write_bytes (write_bytes m a (replicate (k + n) 0)) a bs = write_bytes m a (bs @ replicate n 0)"
  using assms by (intro ext) (auto simp: write_bytes_at nth_append)

lemma Create_eq:
  assumes m: "m = img_methods img method" and ret: "ResolveObjectShape img (me_ReturnType m) \<noteq> nullptr"
    and small: "locals_end img m ta < 2 ^ 32"
    and a: "block = img_alloc img (vm_blocks s) (frame_bytes img m ta)" "block \<noteq> 0"
  shows "Create img prev method ta s = Ret block
      (set_frame block (\<lambda>_. created_frame img prev method ta block)
        (s\<lparr>vm_memory := write_bytes (vm_memory s) block (block_bytes img prev method ta block),
           vm_blocks := (block, frame_bytes img m ta) # vm_blocks s\<rparr>))"
proof -
  have rs: "return_stride img m < 2 ^ 32" using small by (simp add: locals_end_def)
  then have "slot_descs img m ta (local_slots m) (return_stride img m mod 2 ^ 32) =
     (map (\<lambda>k. (slot_shape img m ta (local_slots m ! k), return_stride img m + slots_size img m ta (take k (local_slots m))))
        [0..<length (local_slots m)], locals_end img m ta)"
    using slot_descs_eq [of "return_stride img m" img m ta "local_slots m"] small by (simp add: locals_end_def)
  moreover have "map (\<lambda>k. (slot_shape img m ta (local_slots m ! k), g k)) [0..<length (local_slots m)]
      = map (\<lambda>k. (slot_shape img m ta k, g k)) (local_slots m)" for g :: "nat \<Rightarrow> nat"
    by (simp add: local_slots_def)
  ultimately have descs: "slot_descs img m ta (local_slots m) (return_stride img m mod 2 ^ 32) =
     (map (\<lambda>k. (slot_shape img m ta k, return_stride img m + slots_size img m ta (take k (local_slots m)))) (local_slots m),
      locals_end img m ta)"
    by simp
  have le: "return_stride img m + (locals_end img m ta - return_stride img m) = locals_end img m ta"
    by (simp add: locals_end_def)
  have stride: "8 + (if shape_IsReferenceType img (ResolveObjectShape img (me_ReturnType m)) then 8
      else Align (shp_Size (img_shapes img (ResolveObjectShape img (me_ReturnType m))))) = return_stride img m"
    by (simp add: return_stride_def Let_def)
  show ?thesis
    unfolding Create_def Let_def m [symmetric] stride local_slots_def [symmetric] descs prod.case le
    using ret a
    by (simp add: AllocateZeroedBytes_def andThen_def Let_def modify_vm_def return_vm_def frame_bytes_def add.assoc
        construct_frame_def set_memory_block write_bytes_over)
      (simp add: created_frame_def block_bytes_def laid_out_slots_def Let_def m le [unfolded m] add.assoc)
qed

section \<open>The geometry of a created frame\<close>

lemma local_slots_simps [simp]:
  "length (local_slots m) = unat (GetEvalStackLocalsCount m)"
  "i < unat (GetEvalStackLocalsCount m) \<Longrightarrow> local_slots m ! i = i"
  by (simp_all add: local_slots_def)

lemma created_frame_simps [simp]:
  "fr_Arena (created_frame img prev method ta block) = block + img_sizeof_CallStackFrame img"
  "fr_ReturnSlot (created_frame img prev method ta block) = block + img_sizeof_CallStackFrame img"
  "fr_ReturnSlotShape (created_frame img prev method ta block) = ResolveObjectShape img (me_ReturnType (img_methods img method))"
  "fr_LocalSlots (created_frame img prev method ta block) = laid_out_slots img (img_methods img method) ta"
  "fr_EvalEntries (created_frame img prev method ta block)
     = block + img_sizeof_CallStackFrame img + locals_end img (img_methods img method) ta"
  "fr_EvalCapacityBytes (created_frame img prev method ta block) = eval_capacity (img_methods img method)"
  "fr_EvalCursorBytes (created_frame img prev method ta block) = 0"
  "fr_EvalOffsets (created_frame img prev method ta block) = []"
  "fr_Method (created_frame img prev method ta block) = method"
  "fr_PreviousFrame (created_frame img prev method ta block) = prev"
  "fr_PendingTaskCount (created_frame img prev method ta block) = 0"
  "fr_InterruptionReason (created_frame img prev method ta block) = NoReason"
  "fr_CurrentException (created_frame img prev method ta block) = null_instance"
  "fr_UseCount (created_frame img prev method ta block) = 1"
  by (simp_all add: created_frame_def Let_def)

lemma length_laid_out [simp]: "length (laid_out_slots img m ta) = unat (GetEvalStackLocalsCount m)"
  by (simp add: laid_out_slots_def)

lemma laid_out_nth:
  "i < unat (GetEvalStackLocalsCount m) \<Longrightarrow> laid_out_slots img m ta ! i =
     (slot_shape img m ta i, return_stride img m + slots_size img m ta (take i (local_slots m)))"
  by (simp add: laid_out_slots_def)

text \<open>Slots follow each other, after the return slot and before the evaluation region.\<close>

lemma laid_out_order:
  assumes "i < unat (GetEvalStackLocalsCount m)"
  shows "i < j \<Longrightarrow> j < unat (GetEvalStackLocalsCount m) \<Longrightarrow>
      snd (laid_out_slots img m ta ! i) + slot_stride img m ta i \<le> snd (laid_out_slots img m ta ! j)"
    and "return_stride img m \<le> snd (laid_out_slots img m ta ! i)"
    and "snd (laid_out_slots img m ta ! i) + slot_stride img m ta i \<le> locals_end img m ta"
proof -
  have next_slot: "slots_size img m ta (take i (local_slots m)) + slot_stride img m ta i
      = slots_size img m ta (take (Suc i) (local_slots m))"
    using assms slots_size_take_Suc [of i "local_slots m" img m ta] by simp
  show "snd (laid_out_slots img m ta ! i) + slot_stride img m ta i \<le> snd (laid_out_slots img m ta ! j)"
    if "i < j" "j < unat (GetEvalStackLocalsCount m)"
    using that assms next_slot slots_size_take_mono [of "Suc i" j img m ta "local_slots m"] by (simp add: laid_out_nth)
  show "return_stride img m \<le> snd (laid_out_slots img m ta ! i)" using assms by (simp add: laid_out_nth)
  show "snd (laid_out_slots img m ta ! i) + slot_stride img m ta i \<le> locals_end img m ta"
    using assms next_slot slots_size_take_le [of img m ta "Suc i" "local_slots m"]
    by (simp add: laid_out_nth locals_end_def)
qed

lemma eval_capacity_depth:
  "me_IsComplete m \<Longrightarrow> max 8 (me_MaxEvalDepth m) * (8 + Align (max 8 (me_EvalSlotPayload m))) = eval_capacity m"
  by (simp add: eval_capacity_def Let_def max.commute)

text \<open>
  The memory after a block is allocated and filled: its regions are zero, and nothing that was live
  has changed.
\<close>

lemma fresh_block_memory:
  assumes "allocator_ok img" "a = img_alloc img (vm_blocks s) n" "a \<noteq> 0" "length bs = n"
  shows "live s x \<Longrightarrow> write_bytes (vm_memory s) a bs x = vm_memory s x"
  using fresh_not_live [OF assms(1-3), of x] assms(4) by (auto simp: write_bytes_at)

lemma block_regions_zero:
  assumes "block + img_sizeof_CallStackFrame img \<le> x" "x < block + frame_bytes img (img_methods img method) ta"
  shows "write_bytes m block (block_bytes img prev method ta block) x = 0"
proof -
  have "block_bytes img prev method ta block ! (x - block) = 0"
    using assms by (auto simp: block_bytes_def nth_append frame_bytes_def simp del: nth_replicate intro!: nth_replicate)
  then show ?thesis using assms by (simp add: write_bytes_at)
qed

end
