(* ===== verification/PrimitiveRuns.thy ===== *)
theory PrimitiveRuns
  imports PrimitivePrograms FrameLayouts
begin

text \<open>
  From the entry point to the end of its frame: \<^verbatim>\<open>VirtualMachine::Run\<close> on a static method without
  parameters whose variables have primitive types. The frame that \<^verbatim>\<open>PushFrame\<close> makes represents an
  empty stack and unset locals, the body runs as \<open>run_cfg\<close> says, and afterwards the machine has the
  blocks, the call stack and the live memory it had before.
\<close>

section \<open>Entry methods\<close>

definition prim_slot_type :: "image \<Rightarrow> ptr \<Rightarrow> bool" where
  "prim_slot_type img t \<longleftrightarrow>
     (let p = img_Primitives img in
      t = nullptr \<or> t \<in> set [pr_Integer p, pr_Boolean p, pr_Char p, pr_Byte p, pr_NativeInteger p, pr_Double p])"

definition prim_method :: "image \<Rightarrow> MethodSymbol \<Rightarrow> Instruction list \<Rightarrow> bool" where
  "prim_method img m is \<longleftrightarrow>
     me_Linking m \<noteq> LINK_INSTANCE \<and> me_Parameters m = [] \<and> me_HandleType m = Body \<and> me_IsComplete m \<and>
     me_ExecutableByteCode m = program_bytes is \<and> list_all instruction_ok is \<and>
     (Instruction (Co RETURN) [] \<in> set is \<longrightarrow> me_ReturnType m = pr_Void (img_Primitives img)) \<and>
     ResolveObjectShape img (me_ReturnType m) \<noteq> nullptr \<and> eval_capacity m < 2 ^ 32 \<and>
     return_stride img m < 2 ^ 31 \<and>
     list_all (\<lambda>i. prim_slot_type img (ResolveSlotType m i [])) (local_slots m)"

definition entry_depth :: "MethodSymbol \<Rightarrow> nat" where
  "entry_depth m = max 8 (me_MaxEvalDepth m)"

definition entry_cfg :: "MethodSymbol \<Rightarrow> prim_cfg" where
  "entry_cfg m = \<lparr>cf_pc = 0, cf_stack = [], cf_locals = replicate (unat (GetEvalStackLocalsCount m)) None\<rparr>"

lemma prim_slot_type_cases:
  assumes "prim_slot_type img t" "t \<noteq> nullptr"
  obtains p where "t = prim_type p (img_Primitives img)"
  using assms that [of "VInt 0"] that [of "VBool False"] that [of "VChar 0"] that [of "VByte 0"]
    that [of "VNint 0"] that [of "VDouble 0"]
  by (auto simp: prim_slot_type_def Let_def)

lemma prim_slot:
  assumes "primitives_ok img" "prim_slot_type img (ResolveSlotType m i ta)"
  shows "slot_stride img m ta i = 16" "value_shape img (slot_shape img m ta i)"
proof -
  have "slot_stride img m ta i = 16 \<and> value_shape img (slot_shape img m ta i)"
  proof (cases "ResolveSlotType m i ta = nullptr")
    case True
    then show ?thesis by (simp add: slot_stride_def slot_shape_def ResolveObjectShape_def value_shape_def Let_def)
  next
    case False
    then obtain p where p: "ResolveSlotType m i ta = prim_type p (img_Primitives img)"
      using prim_slot_type_cases [OF assms(2)] by blast
    have shape: "slot_shape img m ta i = prim_shape img p"
      by (simp add: slot_shape_def p ResolveObjectShape_def prim_type_facts [OF assms(1)] prim_shape_def
          primitive_shape_def Let_def)
    have "Align (shp_Size (img_shapes img (prim_shape img p))) = 8"
      using prim_entry_stride [of img p] by (simp add: prim_entry_def length_prim_bytes [OF assms(1)])
    then show ?thesis
      using prim_type_facts [OF assms(1), of p] prim_shape_facts [OF assms(1), of p]
      by (simp add: slot_stride_def shape p value_shape_def shape_IsReferenceType_def IsReferenceType_def Let_def)
  qed
  then show "slot_stride img m ta i = 16" "value_shape img (slot_shape img m ta i)" by blast+
qed

lemma prim_method_slots:
  assumes "prim_method img m is" "primitives_ok img"
  shows "i < unat (GetEvalStackLocalsCount m) \<Longrightarrow> slot_stride img m [] i = 16"
    and "i < unat (GetEvalStackLocalsCount m) \<Longrightarrow> value_shape img (slot_shape img m [] i)"
    and "locals_end img m [] < 2 ^ 32"
proof -
  have types: "prim_slot_type img (ResolveSlotType m i [])" if "i < unat (GetEvalStackLocalsCount m)" for i
    using assms(1) that by (simp add: prim_method_def local_slots_def list_all_iff)
  show "i < unat (GetEvalStackLocalsCount m) \<Longrightarrow> slot_stride img m [] i = 16"
    and "i < unat (GetEvalStackLocalsCount m) \<Longrightarrow> value_shape img (slot_shape img m [] i)"
    using prim_slot [OF assms(2) types] by blast+
  have "map (slot_stride img m []) (local_slots m) = map (\<lambda>_. 16) (local_slots m)"
    by (rule map_cong) (use prim_slot(1) [OF assms(2) types] in \<open>auto simp: local_slots_def\<close>)
  then have "slots_size img m [] (local_slots m) = sum_list (map (\<lambda>_. 16) (local_slots m))"
    unfolding slots_size_def by (rule arg_cong)
  then have "slots_size img m [] (local_slots m) = 16 * unat (GetEvalStackLocalsCount m)"
    by (simp add: sum_list_triv)
  moreover have "unat (GetEvalStackLocalsCount m) < 2 ^ 16"
    by (rule less_le_trans [OF unsigned_less]) simp
  ultimately show "locals_end img m [] < 2 ^ 32"
    using assms(1) by (simp add: locals_end_def prim_method_def)
qed

section \<open>The frame of the entry point\<close>

text \<open>The machine after \<^verbatim>\<open>PushFrame\<close> of a method, with the new frame at the address \<open>f\<close>.\<close>

definition entered :: "image \<Rightarrow> ptr \<Rightarrow> nat \<Rightarrow> vm \<Rightarrow> vm" where
  "entered img method f s =
     (let n = frame_bytes img (img_methods img method) [] in
      s\<lparr>vm_memory := write_bytes (vm_memory s) f (block_bytes img (CurrentFrame s) method [] f), vm_blocks := (f, n) # vm_blocks s,
        vm_frames := (vm_frames s)(f := created_frame img (CurrentFrame s) method [] f),
        vm_CallStack := vm_CallStack s @ [f]\<rparr>)"

lemma PushFrame_eq:
  assumes "prim_method img (img_methods img method) is" "primitives_ok img" "vm_PendingTypeArguments s = []"
    and "f = img_alloc img (vm_blocks s) (frame_bytes img (img_methods img method) [])" "f \<noteq> 0"
  shows "PushFrame img method s = Ret f (entered img method f s)"
proof -
  have "Create img (CurrentFrame s) method [] s = Ret f
      (set_frame f (\<lambda>_. created_frame img (CurrentFrame s) method [] f)
        (s\<lparr>vm_memory := write_bytes (vm_memory s) f (block_bytes img (CurrentFrame s) method [] f),
           vm_blocks := (f, frame_bytes img (img_methods img method) []) # vm_blocks s\<rparr>))"
    using assms(1) prim_method_slots(3) [OF assms(1,2)] assms(4,5)
    by (intro Create_eq) (simp_all add: prim_method_def)
  moreover have "(created_frame img (CurrentFrame s) method [] f)\<lparr>fr_TypeArguments := []\<rparr>
      = created_frame img (CurrentFrame s) method [] f"
    by (simp add: created_frame_def Let_def)
  ultimately show ?thesis
    using assms(3) by (simp add: PushFrame_def andThen_def entered_def Let_def set_frame_def)
qed

lemma entered_simps [simp]:
  "frame_of f (entered img method f s) = created_frame img (CurrentFrame s) method [] f"
  "g \<noteq> f \<Longrightarrow> frame_of g (entered img method f s) = frame_of g s"
  "vm_CallStack (entered img method f s) = vm_CallStack s @ [f]"
  "vm_blocks (entered img method f s) = (f, frame_bytes img (img_methods img method) []) # vm_blocks s"
  "vm_AbortFlag (entered img method f s) = vm_AbortFlag s"
  "vm_UnhandledException (entered img method f s) = vm_UnhandledException s"
  by (simp_all add: entered_def frame_of_def Let_def)

lemma entered_zero:
  assumes "f + img_sizeof_CallStackFrame img \<le> x" "x < f + frame_bytes img (img_methods img method) []"
  shows "vm_memory (entered img method f s) x = 0"
  using block_regions_zero [OF assms] by (simp add: entered_def Let_def)

lemma entered_live:
  "f \<le> x \<Longrightarrow> x < f + frame_bytes img (img_methods img method) [] \<Longrightarrow> live (entered img method f s) x"
  by (auto simp: live_def)

lemma read_word_zero:
  assumes "\<And>x. a \<le> x \<Longrightarrow> x < a + 8 \<Longrightarrow> m x = 0"
  shows "read_word m a = (0 :: u64)"
proof -
  have "read_bytes m a 8 = [0, 0, 0, 0, 0, 0, 0, 0]"
    using assms by (simp add: read_bytes_def upt_rec numeral_eq_Suc)
  then show ?thesis by (simp add: read_word_def)
qed

lemma entered_geometry:
  assumes pm: "prim_method img (img_methods img method) is" and ok: "primitives_ok img"
  shows "frame_geometry (entry_depth (img_methods img method)) f (entered img method f s)"
proof -
  let ?m = "img_methods img method" and ?t = "entered img method f s"
  let ?fr = "created_frame img (CurrentFrame s) method [] f"
  have bytes: "frame_bytes img ?m [] = img_sizeof_CallStackFrame img + locals_end img ?m [] + eval_capacity ?m"
    by (simp add: frame_bytes_def)
  have "16 * entry_depth ?m \<le> eval_capacity ?m"
    using eval_capacity_depth [of ?m] pm Align_bounds(1) [of "max 8 (me_EvalSlotPayload ?m)"]
      mult_le_mono2 [of 16 "8 + Align (max 8 (me_EvalSlotPayload ?m))" "entry_depth ?m"]
    by (simp add: prim_method_def entry_depth_def mult.commute)
  moreover have "live_range ?t (fr_EvalEntries ?fr) (fr_EvalCapacityBytes ?fr)"
    unfolding live_range_def by (intro allI impI entered_live) (simp_all add: bytes)
  moreover have "slot_at ?fr i + 16 \<le> fr_EvalEntries ?fr \<and> live_range ?t (slot_at ?fr i) 16
      \<and> (\<forall>j<unat (GetEvalStackLocalsCount ?m). i \<noteq> j \<longrightarrow> apart (slot_at ?fr i) 16 (slot_at ?fr j) 16)"
    if i: "i < unat (GetEvalStackLocalsCount ?m)" for i
  proof (intro conjI allI impI)
    show "slot_at ?fr i + 16 \<le> fr_EvalEntries ?fr"
      using laid_out_order(3) [OF i, of img "[]"] prim_method_slots(1) [OF pm ok i] by (simp add: slot_at_def)
    then show "live_range ?t (slot_at ?fr i) 16"
      unfolding live_range_def by (intro allI impI entered_live) (simp_all add: bytes slot_at_def)
  next
    fix j assume j: "j < unat (GetEvalStackLocalsCount ?m)" "i \<noteq> j"
    then show "apart (slot_at ?fr i) 16 (slot_at ?fr j) 16"
      using laid_out_order(1) [OF i, of j img "[]"] laid_out_order(1) [OF j(1), of i img "[]"] i
        prim_method_slots(1) [OF pm ok i] prim_method_slots(1) [OF pm ok j(1)]
      by (cases "i < j") (simp_all add: apart_def slot_at_def)
  qed
  ultimately show ?thesis by (simp add: frame_geometry_def Let_def)
qed

lemma entered_rep:
  assumes pm: "prim_method img (img_methods img method) is" and ok: "primitives_ok img"
    and abort: "\<not> vm_AbortFlag s" and serves: "serves_boxes img (entered img method f s)"
    and records: "records_live s"
  shows "cfg_rep img (entry_depth (img_methods img method)) (entered img method f s) f
    (entry_cfg (img_methods img method)) (entered img method f s)"
proof -
  let ?m = "img_methods img method" and ?t = "entered img method f s"
  have geo: "frame_geometry (entry_depth ?m) f ?t" by (rule entered_geometry [OF pm ok])
  have "EntryShape (vm_memory ?t) (slot_at (frame_of f ?t) i) = nullptr" if i: "i < unat (GetEvalStackLocalsCount ?m)" for i
  proof -
    have "slot_at (frame_of f ?t) i + 16 \<le> fr_EvalEntries (frame_of f ?t)"
      using geo i by (simp add: frame_geometry_def Let_def)
    then show ?thesis
      unfolding EntryShape_def
      by (intro read_word_zero entered_zero) (simp_all add: slot_at_def frame_bytes_def)
  qed
  then have "locals_rep img f (replicate (unat (GetEvalStackLocalsCount ?m)) None) ?t"
    using prim_method_slots(2) [OF pm ok] by (simp add: locals_rep_def Let_def slot_holds_def laid_out_nth)
  moreover have "stack_rep img f [] ?t" using pm by (simp add: stack_rep_def Let_def prim_method_def)
  moreover have "records_live ?t" using records by (auto simp: records_live_def live_def entered_def Let_def)
  ultimately show ?thesis
    using geo abort serves by (simp add: prim_rep_def entry_cfg_def)
qed

section \<open>Leaving the frame\<close>

text \<open>Releasing the stack and the locals of a frame of primitive values only moves the cursor.\<close>

lemma DrainEvalReferences_prim:
  assumes ok: "primitives_ok img"
  shows "stack_rep img f (map (prim_entry img) stk) s \<Longrightarrow>
    DrainEvalReferences img n f s = Ret () ((set_frame f pop_cursor ^^ length stk) s)"
proof -
  have drain: "stack_rep img f (map (prim_entry img) stk) s \<Longrightarrow> length xs = length stk \<Longrightarrow>
      forEach (\<lambda>_. andThen (PopStack img f) (ReleaseValue img n)) xs s = Ret () ((set_frame f pop_cursor ^^ length stk) s)"
    for xs :: "nat list"
  proof (induction stk arbitrary: s xs rule: rev_induct)
    case (snoc p stk)
    then obtain x ys where xs: "xs = x # ys" "length ys = length stk" by (cases xs) auto
    have rep: "stack_rep img f (map (prim_entry img) stk @ [prim_entry img p]) s" using snoc.prems by simp
    from PopStack_eq [OF this] DiscardValue_prim(2) [OF _ ok]
    have "andThen (PopStack img f) (ReleaseValue img n) s = Ret () (set_frame f pop_cursor s)"
      by (simp add: andThen_def prim_entry_def)
    with snoc.IH [OF stack_rep_pop [OF rep] xs(2)] show ?case
      by (simp add: xs(1) andThen_def funpow_swap1)
  qed simp
  assume rep: "stack_rep img f (map (prim_entry img) stk) s"
  then have "length (fr_EvalOffsets (frame_of f s)) = length stk"
    by (simp add: stack_rep_def Let_def)
  with drain [OF rep] show ?thesis by (simp add: DrainEvalReferences_def)
qed

lemma set_frame_set_frame [simp]: "set_frame f h (set_frame f g s) = set_frame f (h \<circ> g) s"
  by (simp add: set_frame_def)

lemma set_frame_funpow: "(set_frame f h ^^ k) s = set_frame f (h ^^ k) s"
  by (induction k) (simp_all add: set_frame_def comp_def)

lemma pop_cursor_funpow [simp]:
  "fr_LocalSlots ((pop_cursor ^^ k) fr) = fr_LocalSlots fr" "fr_Arena ((pop_cursor ^^ k) fr) = fr_Arena fr"
  "fr_PendingTaskCount ((pop_cursor ^^ k) fr) = fr_PendingTaskCount fr"
  "fr_InterruptionReason ((pop_cursor ^^ k) fr) = fr_InterruptionReason fr"
  "fr_CurrentException ((pop_cursor ^^ k) fr) = fr_CurrentException fr" "fr_UseCount ((pop_cursor ^^ k) fr) = fr_UseCount fr"
  by (induction k) (simp_all add: pop_cursor_def)

lemma DrainReferences_prim:
  assumes ok: "primitives_ok img" and rep: "stack_rep img f (map (prim_entry img) stk) s"
    and slots: "\<And>shape offset. (shape, offset) \<in> set (fr_LocalSlots (frame_of f s)) \<Longrightarrow> value_shape img shape"
  shows "DrainReferences img n f s = Ret () (set_frame f (pop_cursor ^^ length stk) s)"
proof -
  have "DrainLocalReferences img n f t = Ret () t" if "fr_LocalSlots (frame_of f t) = fr_LocalSlots (frame_of f s)" for t
    unfolding DrainLocalReferences_def that
    by (intro forEach_skip) (use slots in \<open>fastforce simp: value_shape_def Let_def\<close>)
  with DrainEvalReferences_prim [OF ok rep, of n] show ?thesis
    by (simp add: DrainReferences_def andThen_def set_frame_funpow)
qed

text \<open>How the frame looks when the body has ended and its values are released.\<close>

definition ended_frame :: "nat \<Rightarrow> CallStackFrame \<Rightarrow> CallStackFrame" where
  "ended_frame k fr = (pop_cursor ^^ k) (ends_with EndOfInstructions fr)"

lemma ended_frame_simps [simp]:
  "fr_PendingTaskCount (ended_frame k fr) = fr_PendingTaskCount fr"
  "fr_InterruptionReason (ended_frame k fr) = EndOfInstructions" "fr_UseCount (ended_frame k fr) = fr_UseCount fr"
  by (simp_all add: ended_frame_def ends_with_def)

lemma InvokeMethodInternal_prim:
  assumes pm: "prim_method img (img_methods img method) is" and ok: "primitives_ok img" and al: "allocator_ok img"
    and rep: "cfg_rep img depth s f (entry_cfg (img_methods img method)) s" and fm: "fr_Method (frame_of f s) = method"
    and run: "run_cfg (img_double img) depth is k (entry_cfg (img_methods img method)) = Some res" and n: "k < n"
  shows "case res of
      Halted c \<Rightarrow> \<exists>t. InvokeMethodInternal img n (run_code img n) create method f s
                     = Ret () (set_frame f (ended_frame (length (cf_stack c))) t) \<and> cfg_rep img depth s f c t
    | Failed e \<Rightarrow> \<exists>t. InvokeMethodInternal img n (run_code img n) create method f s = Throw e t \<and> only_frame f s t
    | Trapped \<Rightarrow> InvokeMethodInternal img n (run_code img n) create method f s = Undefined"
proof -
  let ?m = "img_methods img method"
  have iok: "list_all instruction_ok is" and code: "me_ExecutableByteCode ?m = program_bytes is"
    and linking: "me_Linking ?m \<noteq> LINK_INSTANCE" and handle: "me_HandleType ?m = Body"
    using pm by (simp_all add: prim_method_def)
  have "returns_nothing img (frame_of f s) is"
    using pm fm by (simp add: returns_nothing_def returns_void_def prim_method_def)
  from run_code_simulates [OF ok al iok this run rep n]
  have "result_matches img depth s f is res (run_code img n (BodyLoop f (decoder_at is 0)) s)"
    by (simp add: entry_cfg_def)
  moreover have "ByteCodeDecoder_of (me_ExecutableByteCode ?m) = decoder_at is 0"
    by (simp add: ByteCodeDecoder_of_def code decoder_at_def)
  moreover have "\<not> vm_AbortFlag s" using rep by (simp add: prim_rep_def)
  ultimately have body: "result_matches img depth s f is res
      (run_code img n (BodyLoop f (ByteCodeDecoder_of (me_ExecutableByteCode ?m))) s)" and "\<not> vm_AbortFlag s" by simp_all
  then show ?thesis
  proof (cases res)
    case (Halted c)
    with body obtain t where t: "run_code img n (BodyLoop f (ByteCodeDecoder_of (me_ExecutableByteCode ?m))) s
        = Ret (decoder_at is (cf_pc c)) (set_frame f (ends_with EndOfInstructions) t)" and rep': "cfg_rep img depth s f c t"
      by (auto simp: result_matches_def)
    let ?u = "set_frame f (ends_with EndOfInstructions) t"
    have "stack_rep img f (map (prim_entry img) (cf_stack c)) ?u"
      using rep' by (simp add: prim_rep_def stack_rep_def Let_def ends_with_def)
    moreover have "value_shape img shape" if "(shape, offset) \<in> set (fr_LocalSlots (frame_of f ?u))" for shape offset
      using rep' that by (auto simp: prim_rep_def locals_rep_def Let_def ends_with_def in_set_conv_nth)
    ultimately have "DrainReferences img n f ?u = Ret () (set_frame f (pop_cursor ^^ length (cf_stack c)) ?u)"
      by (rule DrainReferences_prim [OF ok])
    moreover have "set_frame f (\<lambda>fr. fr\<lparr>fr_InterruptionReason := EndOfInstructions\<rparr>) ?u = ?u"
      by (simp add: set_frame_def ends_with_def comp_def)
    ultimately have "InvokeMethodInternal img n (run_code img n) create method f s
        = Ret () (set_frame f (ended_frame (length (cf_stack c))) t)"
      using t linking handle \<open>\<not> vm_AbortFlag s\<close>
      by (simp add: InvokeMethodInternal_def InvokeMethodBody_def andThen_def Let_def ended_frame_def [abs_def] comp_def ends_with_def)
    with rep' Halted show ?thesis by auto
  qed (use linking handle in \<open>auto simp: InvokeMethodInternal_def InvokeMethodBody_def andThen_def Let_def result_matches_def\<close>)
qed

section \<open>Run\<close>

text \<open>The machine as \<^verbatim>\<open>Run\<close> starts it, and the address of the entry point's frame.\<close>

definition started :: "vm \<Rightarrow> vm" where
  "started s = s\<lparr>vm_UnhandledException := null_instance, vm_AbortFlag := False\<rparr>"

definition entry_frame :: "image \<Rightarrow> ptr \<Rightarrow> vm \<Rightarrow> nat" where
  "entry_frame img method s = img_alloc img (vm_blocks s) (frame_bytes img (img_methods img method) [])"

text \<open>
  What the host provides: no exception left from an earlier run, memory for the frame and for boxes,
  task records of live objects only, and no task that is to be halted at the end.
\<close>

definition ready_to_run :: "image \<Rightarrow> ptr \<Rightarrow> vm \<Rightarrow> bool" where
  "ready_to_run img method s \<longleftrightarrow>
     method \<noteq> nullptr \<and> IsNullInstance (vm_UnhandledException s) \<and> vm_PendingTypeArguments s = [] \<and>
     records_live s \<and> list_all (\<lambda>task. \<not> IsFireAndForget task s) (vm_rootedTasks s) \<and>
     entry_frame img method s \<noteq> 0 \<and> serves_boxes img (entered img method (entry_frame img method s) s)"

lemma Run_unfold:
  assumes pm: "prim_method img (img_methods img method) is" and ok: "primitives_ok img"
    and ready: "ready_to_run img method s"
  shows "Run img n method s =
    (let f = entry_frame img method s in
     andThen (InvokeMethodInternal img n (run_code img n) (CreateRuntimeException img n (run_code img n) n) method f) (\<lambda>_.
     andThen (HaltFireAndForgetTasks img n) (\<lambda>_.
     andThen (get_vm (frame_of f)) (\<lambda>frame.
     andThen (if fr_InterruptionReason frame = ExceptionRaised \<and> \<not> IsNullInstance (fr_CurrentException frame)
              then andThen (IncrementReference (fr_CurrentException frame)) (\<lambda>_.
                     modify_vm (\<lambda>s. s\<lparr>vm_UnhandledException := fr_CurrentException frame\<rparr>))
              else return_vm ()) (\<lambda>_. PopFrame)))) (entered img method f (started s)))"
proof -
  let ?f = "entry_frame img method s"
  have "PushFrame img method (started s) = Ret ?f (entered img method ?f (started s))"
    using ready by (intro PushFrame_eq [OF pm ok]) (simp_all add: started_def ready_to_run_def entry_frame_def)
  moreover have "CopyArgumentPayloads img ?f (entered img method ?f (started s)) = Ret () (entered img method ?f (started s))"
    using pm by (simp add: CopyArgumentPayloads_def andThen_def GetEvalStackArgumentsCount_def prim_method_def Let_def)
  ultimately show ?thesis
    using ready by (simp add: Run_def andThen_def ready_to_run_def started_def Let_def)
qed

lemma started_rep:
  assumes pm: "prim_method img (img_methods img method) is" and ok: "primitives_ok img"
    and ready: "ready_to_run img method s" and f: "f = entry_frame img method s"
  shows "cfg_rep img (entry_depth (img_methods img method)) (entered img method f (started s)) f
    (entry_cfg (img_methods img method)) (entered img method f (started s))"
  using ready f by (intro entered_rep [OF pm ok])
    (simp_all add: started_def ready_to_run_def serves_boxes_def records_live_def live_def)

text \<open>What an observer of the machine sees: blocks, call stack, frames but one, live memory.\<close>

definition unchanged_but :: "nat \<Rightarrow> vm \<Rightarrow> vm \<Rightarrow> bool" where
  "unchanged_but f s t \<longleftrightarrow>
     vm_blocks t = vm_blocks s \<and> vm_CallStack t = vm_CallStack s \<and> (\<forall>g. g \<noteq> f \<longrightarrow> frame_of g t = frame_of g s) \<and>
     (\<forall>x. live s x \<longrightarrow> vm_memory t x = vm_memory s x)"

lemma entered_outside:
  assumes al: "allocator_ok img" and f: "f = entry_frame img method s" "f \<noteq> 0" and x: "live s x"
    and only: "only_frame f (entered img method f (started s)) t"
  shows "vm_memory t x = vm_memory s x"
proof -
  let ?t0 = "entered img method f (started s)"
  have out: "\<not> (f \<le> x \<and> x < f + frame_bytes img (img_methods img method) [])"
    using fresh_not_live [OF al _ f(2) x] f(1) by (simp add: entry_frame_def)
  then have "vm_memory ?t0 x = vm_memory s x"
    by (auto simp: entered_def Let_def write_bytes_at started_def)
  moreover have "live ?t0 x" "\<not> in_arena (frame_of f ?t0) x"
    using x out by (auto simp: live_def started_def in_arena_def frame_bytes_def)
  then have "vm_memory t x = vm_memory ?t0 x" by (intro only_frameD(6) [OF only])
  ultimately show ?thesis by simp
qed

lemma forEach_idle: "(\<And>x. x \<in> set xs \<Longrightarrow> g x s = Ret () s) \<Longrightarrow> forEach g xs s = Ret () s"
  by (induction xs) (simp_all add: andThen_def)

lemma no_task_halted:
  assumes "list_all (\<lambda>task. \<not> IsFireAndForget task s) (vm_rootedTasks s)"
    and "vm_rootedTasks t = vm_rootedTasks s" "vm_asyncTable t = vm_asyncTable s"
  shows "HaltFireAndForgetTasks img n (set_frame f h t) = Ret () (set_frame f h t)"
  unfolding HaltFireAndForgetTasks_def
  by (rule forEach_idle)
     (use assms in \<open>auto simp: list_all_iff andThen_def IsFireAndForget_def async_lookup_def set_frame_def\<close>)

lemma Run_halts:
  assumes pm: "prim_method img (img_methods img method) is" and ok: "primitives_ok img" and al: "allocator_ok img"
    and ready: "ready_to_run img method s"
    and run: "run_cfg (img_double img) (entry_depth (img_methods img method)) is k (entry_cfg (img_methods img method))
      = Some (Halted c)" and n: "k < n"
  shows "\<exists>t. Run img n method s = Ret () t \<and> unchanged_but (entry_frame img method s) s t
    \<and> IsNullInstance (vm_UnhandledException t)"
proof -
  let ?f = "entry_frame img method s"
  let ?t0 = "entered img method ?f (started s)"
  have f0: "?f \<noteq> 0" using ready by (simp add: ready_to_run_def)
  obtain t where inv: "InvokeMethodInternal img n (run_code img n) (CreateRuntimeException img n (run_code img n) n) method ?f ?t0
      = Ret () (set_frame ?f (ended_frame (length (cf_stack c))) t)"
    and rep: "cfg_rep img (entry_depth (img_methods img method)) ?t0 ?f c t"
    using InvokeMethodInternal_prim [OF pm ok al started_rep [OF pm ok ready refl] _ run n] by auto
  have only: "only_frame ?f ?t0 t" by (rule prim_rep_only_frame [OF rep])
  let ?u = "set_frame ?f (ended_frame (length (cf_stack c))) t"
  let ?w = "set_frame ?f (\<lambda>fr. (ended_frame (length (cf_stack c)) fr)\<lparr>fr_UseCount := 0\<rparr>) t"
  let ?v = "?w\<lparr>vm_CallStack := vm_CallStack s, vm_blocks := vm_blocks s\<rparr>"
  have "vm_blocks s = filter (\<lambda>b. fst b \<noteq> ?f) (vm_blocks t)"
    using only_frameD(1) [OF only] fresh_address [OF al _ f0, of s] by (simp add: started_def entry_frame_def)
  moreover have "fr_PendingTaskCount (frame_of ?f t) = 0" "fr_UseCount (frame_of ?f t) = 1"
    using fixed_members_simps(4,11) [OF only_frameD(4) [OF only]] by simp_all
  ultimately have "PopFrame ?u = Ret () ?v"
    using only_frameD(2) [OF only] f0
    by (simp add: PopFrame_def drop_frame_def Let_def started_def frame_of_def set_frame_def)
  moreover have "HaltFireAndForgetTasks img n ?u = Ret () ?u"
    using ready only_frameD(8,9) [OF only] by (intro no_task_halted) (simp_all add: ready_to_run_def started_def entered_def Let_def)
  ultimately have run': "Run img n method s = Ret () ?v"
    unfolding Run_unfold [OF pm ok ready] Let_def by (simp add: andThen_def inv)
  have "unchanged_but ?f s ?v"
    using only_frameD(5) [OF only] entered_outside [OF al refl f0 _ only]
    by (auto simp: unchanged_but_def started_def entered_def Let_def frame_of_def set_frame_def)
  moreover have "IsNullInstance (vm_UnhandledException ?v)"
    using only_frameD(7) [OF only] by (simp add: set_frame_def started_def IsNullInstance_def)
  ultimately show ?thesis using run' by blast
qed

lemma Run_fails:
  assumes pm: "prim_method img (img_methods img method) is" and ok: "primitives_ok img" and al: "allocator_ok img"
    and ready: "ready_to_run img method s"
    and run: "run_cfg (img_double img) (entry_depth (img_methods img method)) is k (entry_cfg (img_methods img method))
      = Some (Failed e)" and n: "k < n"
  shows "\<exists>t. Run img n method s = Throw e t \<and> vm_CallStack t = vm_CallStack s @ [entry_frame img method s]
    \<and> unchanged_but (entry_frame img method s) s (t\<lparr>vm_CallStack := vm_CallStack s, vm_blocks := vm_blocks s\<rparr>)
    \<and> IsNullInstance (vm_UnhandledException t)"
proof -
  let ?f = "entry_frame img method s"
  let ?t0 = "entered img method ?f (started s)"
  have f0: "?f \<noteq> 0" using ready by (simp add: ready_to_run_def)
  obtain t where inv: "InvokeMethodInternal img n (run_code img n) (CreateRuntimeException img n (run_code img n) n) method ?f ?t0
      = Throw e t" and only: "only_frame ?f ?t0 t"
    using InvokeMethodInternal_prim [OF pm ok al started_rep [OF pm ok ready refl] _ run n] by auto
  have "Run img n method s = Throw e t"
    unfolding Run_unfold [OF pm ok ready] Let_def by (simp add: andThen_def inv)
  moreover have "vm_CallStack t = vm_CallStack s @ [?f]" "IsNullInstance (vm_UnhandledException t)"
    using only_frameD(2,7) [OF only] by (simp_all add: started_def IsNullInstance_def)
  moreover have "unchanged_but ?f s (t\<lparr>vm_CallStack := vm_CallStack s, vm_blocks := vm_blocks s\<rparr>)"
    using only_frameD(5) [OF only] entered_outside [OF al refl f0 _ only]
    by (auto simp: unchanged_but_def started_def entered_def Let_def frame_of_def)
  ultimately show ?thesis by blast
qed

end
