(* ===== verification/ExamplePrograms.thy ===== *)
theory ExamplePrograms
  imports PrimitiveRuns
begin

text \<open>
  Two entry methods for the witnesses: a loop that adds up the numbers down from two, and a division
  by zero. They run on the image of \<open>PrimitiveTypes\<close>, whose only method they replace.
\<close>

section \<open>The programs\<close>

definition loop_program :: "Instruction list" where
  "loop_program =
     [Instruction (Ko LOADCONST_INTEGER64) [U64 2], Instruction (Ko STORE_LOCAL) [U16 0],
      Instruction (Ko LOADCONST_INTEGER64) [U64 0], Instruction (Ko STORE_LOCAL) [U16 1],
      Instruction (Ko LOAD_LOCAL) [U16 0], Instruction (Ko LOADCONST_INTEGER64) [U64 0],
      Instruction (Mo COMPARE_GREATER) [], Instruction (Co JUMP_FALSE) [U64 98],
      Instruction (Ko LOAD_LOCAL) [U16 1], Instruction (Ko LOAD_LOCAL) [U16 0],
      Instruction (Mo MATH_ADDITION) [], Instruction (Ko STORE_LOCAL) [U16 1],
      Instruction (Ko LOAD_LOCAL) [U16 0], Instruction (Ko LOADCONST_INTEGER64) [U64 1],
      Instruction (Mo MATH_SUBTRACT) [], Instruction (Ko STORE_LOCAL) [U16 0],
      Instruction (Co JUMP) [U64 28]]"

definition fault_program :: "Instruction list" where
  "fault_program =
     [Instruction (Ko LOADCONST_INTEGER64) [U64 1], Instruction (Ko LOADCONST_INTEGER64) [U64 0],
      Instruction (Mo MATH_DIVISION) []]"

definition integer_slot :: FrameSlotRecipe where
  "integer_slot = \<lparr>rec_ConcreteType = pr_Integer small_Primitives, rec_TypeParameterIndex = -1\<rparr>"

definition entry_method :: "Instruction list \<Rightarrow> MethodSymbol" where
  "entry_method is = small_method\<lparr>me_ReturnType := pr_Void small_Primitives, me_MaxEvalDepth := 2,
     me_ExecutableByteCode := program_bytes is, me_EvalStackVariablesCount := 2,
     me_VariableSlots := [integer_slot, integer_slot]\<rparr>"

definition entry_image :: "Instruction list \<Rightarrow> image" where
  "entry_image is = small_image\<lparr>img_methods := (\<lambda>_. entry_method is)\<rparr>"

lemma entry_image_select [simp]:
  "img_methods (entry_image is) x = entry_method is" "img_double (entry_image is) = small_double"
  "img_alloc (entry_image is) = bump_alloc" "img_types (entry_image is) = small_types"
  "img_Primitives (entry_image is) = small_Primitives" "img_GetOrCreateShape (entry_image is) t args = t"
  "img_shapes (entry_image is) = img_shapes small_image" "img_sizeof_CallStackFrame (entry_image is) = 512"
  by (simp_all add: entry_image_def) (simp add: small_image_def)

lemma entry_image_ok: "primitives_ok (entry_image is)" "allocator_ok (entry_image is)"
  using small_image_primitives
  by (simp_all add: primitives_ok_def shape_of_primitive_def Let_def bump_allocator_ok)

lemma entry_method_counts [simp]:
  "GetEvalStackArgumentsCount (entry_method is) = 0" "GetEvalStackLocalsCount (entry_method is) = 2"
  "local_slots (entry_method is) = [0, 1]" "me_Linking (entry_method is) = LINK_STATIC"
  "me_Parameters (entry_method is) = []" "me_ReturnType (entry_method is) = pr_Void small_Primitives"
  "me_HandleType (entry_method is) = Body" "me_ExecutableByteCode (entry_method is) = program_bytes is"
  "me_VariableSlots (entry_method is) = [integer_slot, integer_slot]" "me_IsComplete (entry_method is)"
  "me_MaxEvalDepth (entry_method is) = 2" "me_EvalSlotPayload (entry_method is) = 8"
  by (simp_all add: entry_method_def small_method_def GetEvalStackArgumentsCount_def GetEvalStackLocalsCount_def
      local_slots_def upt_rec)

lemma small_types_at [simp]:
  "small_types (pr_Void small_Primitives) = struct_primitive 0"
  "small_types (pr_Integer small_Primitives) = struct_primitive 8"
  "pr_Void small_Primitives \<noteq> nullptr" "pr_Integer small_Primitives \<noteq> nullptr"
  by (simp_all add: small_types_def small_Primitives_def ResolvePrimitives_def)

lemma entry_slot [simp]:
  "i < 2 \<Longrightarrow> ResolveSlotType (entry_method is) i ta = pr_Integer small_Primitives"
  by (cases i) (auto simp: ResolveSlotType_def Let_def integer_slot_def less_Suc_eq)

lemma entry_shapes [simp]:
  "ResolveObjectShape (entry_image is) (pr_Void small_Primitives) = pr_Void small_Primitives"
  "ResolveObjectShape (entry_image is) (pr_Integer small_Primitives) = pr_Integer small_Primitives"
  by (simp_all add: ResolveObjectShape_def Let_def)

lemma entry_layout:
  "eval_capacity (entry_method is) = 128" "return_stride (entry_image is) (entry_method is) = 8"
  "i < 2 \<Longrightarrow> slot_stride (entry_image is) (entry_method is) [] i = 16"
  "locals_end (entry_image is) (entry_method is) [] = 40"
  "frame_bytes (entry_image is) (entry_method is) [] = 680"
proof -
  show cap: "eval_capacity (entry_method is) = 128" by (simp add: eval_capacity_def Align_def)
  show ret: "return_stride (entry_image is) (entry_method is) = 8"
    by (simp add: return_stride_def shape_IsReferenceType_def IsReferenceType_def Align_def)
  show stride: "slot_stride (entry_image is) (entry_method is) [] i = 16" if "i < 2" for i
    using that by (simp add: slot_stride_def slot_shape_def IsReferenceType_def Align_def)
  show "locals_end (entry_image is) (entry_method is) [] = 40"
    by (simp add: locals_end_def ret slots_size_def stride)
  then show "frame_bytes (entry_image is) (entry_method is) [] = 680" by (simp add: frame_bytes_def cap)
qed

lemma entry_prim_method:
  "list_all instruction_ok is \<Longrightarrow> prim_method (entry_image is) (entry_method is) is"
  by (simp add: prim_method_def entry_layout prim_slot_type_def)

lemma entry_ready: "ready_to_run (entry_image is) 1 small_vm"
proof -
  have "entry_frame (entry_image is) 1 small_vm = 4096"
    by (simp add: entry_frame_def entry_layout bump_alloc_def small_vm_def)
  then show ?thesis
    by (simp add: ready_to_run_def serves_boxes_def entry_layout bump_alloc_def)
       (simp add: small_vm_def IsNullInstance_def records_live_def)
qed

lemma run_cfg_numeral:
  "run_cfg D depth is (numeral k) c =
     (if cf_pc c \<ge> length (program_bytes is) then Some (Halted c)
      else case step_cfg D depth is c of
        Next c' \<Rightarrow> run_cfg D depth is (pred_numeral k) c'
      | Raises e \<Rightarrow> Some (Failed e)
      | Traps \<Rightarrow> Some Trapped
      | Stuck \<Rightarrow> None)"
  by (simp add: numeral_eq_Suc)

lemmas program_run_simps = run_cfg_numeral step_cfg_def step_constant_def step_control_def step_math_def constant_value_def
  push_cfg_def pop_cfg_def load_cfg_def store_cfg_def verdict_cfg_def jump_cfg_def machine_binary_def Let_def

lemma loop_size: "length (program_bytes loop_program) = 98" by (simp add: program_bytes_def loop_program_def)


lemma entry_start: "entry_cfg (entry_method is) = \<lparr>cf_pc = 0, cf_stack = [], cf_locals = [None, None]\<rparr>"
proof -
  have "unat (GetEvalStackLocalsCount (entry_method is)) = Suc (Suc 0)" by simp
  then show ?thesis unfolding entry_cfg_def by (simp del: entry_method_counts)
qed

lemma entry_depth_at: "entry_depth (entry_method is) = 8"
  by (simp add: entry_depth_def)

lemma loop_fetch:
  "instruction_at loop_program 0 = Some (Instruction (Ko LOADCONST_INTEGER64) [U64 2])"
  "instruction_at loop_program 10 = Some (Instruction (Ko STORE_LOCAL) [U16 0])"
  "instruction_at loop_program 14 = Some (Instruction (Ko LOADCONST_INTEGER64) [U64 0])"
  "instruction_at loop_program 24 = Some (Instruction (Ko STORE_LOCAL) [U16 1])"
  "instruction_at loop_program 28 = Some (Instruction (Ko LOAD_LOCAL) [U16 0])"
  "instruction_at loop_program 32 = Some (Instruction (Ko LOADCONST_INTEGER64) [U64 0])"
  "instruction_at loop_program 42 = Some (Instruction (Mo COMPARE_GREATER) [])"
  "instruction_at loop_program 44 = Some (Instruction (Co JUMP_FALSE) [U64 98])"
  "instruction_at loop_program 54 = Some (Instruction (Ko LOAD_LOCAL) [U16 1])"
  "instruction_at loop_program 58 = Some (Instruction (Ko LOAD_LOCAL) [U16 0])"
  "instruction_at loop_program 62 = Some (Instruction (Mo MATH_ADDITION) [])"
  "instruction_at loop_program 64 = Some (Instruction (Ko STORE_LOCAL) [U16 1])"
  "instruction_at loop_program 68 = Some (Instruction (Ko LOAD_LOCAL) [U16 0])"
  "instruction_at loop_program 72 = Some (Instruction (Ko LOADCONST_INTEGER64) [U64 1])"
  "instruction_at loop_program 82 = Some (Instruction (Mo MATH_SUBTRACT) [])"
  "instruction_at loop_program 84 = Some (Instruction (Ko STORE_LOCAL) [U16 0])"
  "instruction_at loop_program 88 = Some (Instruction (Co JUMP) [U64 28])"
  by (simp_all add: loop_program_def)

lemma countdown_runs:
  "run_cfg small_double 8 loop_program 60 (entry_cfg (entry_method is))
     = Some (Halted \<lparr>cf_pc = 98, cf_stack = [], cf_locals = [Some (VInt 0), Some (VInt 3)]\<rparr>)"
  by (simp add: entry_start program_run_simps loop_size loop_fetch)
     (simp add: arith_def the_int_def word_sless_alt program_run_simps loop_size loop_fetch)

lemma fault_runs:
  "run_cfg small_double 8 fault_program 4 (entry_cfg (entry_method is))
     = Some (Failed (runtime_error ''DivideByZeroException''))"
  by (simp add: entry_start program_run_simps fault_program_def program_bytes_def)

lemma example_programs_ok: "list_all instruction_ok loop_program" "list_all instruction_ok fault_program"
  by (simp_all add: loop_program_def fault_program_def instruction_ok_def operand_sizes_def)

end
