(* ===== verification/ValueStacks.thy ===== *)
theory ValueStacks
  imports PrimitiveFrames
begin

text \<open>
  The contract of an evaluation stack, as the instructions rely on it: a machine state stands for a
  list of elements, \<^verbatim>\<open>PeekStack\<close> shows the last one, \<^verbatim>\<open>PopStack\<close> removes it and leaves every view that
  was handed out valid. What several pops in a row give is proved from the contract; the frames of
  the machine fulfil it for entries of any type and for values of primitive types.
\<close>

primrec pop_n :: "('s \<Rightarrow> ('v, 's) outcome) \<Rightarrow> nat \<Rightarrow> 's \<Rightarrow> ('v list, 's) outcome" where
  "pop_n pop 0 = return_vm []"
| "pop_n pop (Suc k) = andThen pop (\<lambda>v. andThen (pop_n pop k) (\<lambda>vs. return_vm (v # vs)))"

locale value_stack =
  fixes rep :: "'e list \<Rightarrow> 's \<Rightarrow> bool" and pop peek :: "'s \<Rightarrow> ('v, 's) outcome"
    and shown :: "'s \<Rightarrow> 'v \<Rightarrow> 'e \<Rightarrow> bool"
  assumes peek_last: "rep (es @ [e]) s \<Longrightarrow> \<exists>v. peek s = Ret v s \<and> shown s v e"
    and pop_last: "rep (es @ [e]) s \<Longrightarrow> \<exists>v t. pop s = Ret v t \<and> rep es t \<and> shown t v e"
    and pop_keeps: "rep (es @ [e]) s \<Longrightarrow> pop s = Ret v t \<Longrightarrow> shown s w x \<Longrightarrow> shown t w x"
begin

lemma pop_n_keeps:
  "rep (es @ xs) s \<Longrightarrow> pop_n pop (length xs) s = Ret vs t \<Longrightarrow> shown s w x \<Longrightarrow> shown t w x"
proof (induction xs arbitrary: s vs rule: rev_induct)
  case (snoc y ys)
  have rep: "rep ((es @ ys) @ [y]) s" using snoc.prems(1) by simp
  obtain v s1 where pop: "pop s = Ret v s1" "rep (es @ ys) s1" using pop_last [OF rep] by blast
  from snoc.prems(2) pop obtain us where us: "pop_n pop (length ys) s1 = Ret us t"
    by (auto simp: andThen_def split: outcome.splits)
  show ?case by (rule snoc.IH [OF pop(2) us pop_keeps [OF rep pop(1) snoc.prems(3)]])
qed simp

theorem pop_n_shows:
  "rep (es @ xs) s \<Longrightarrow> \<exists>vs t. pop_n pop (length xs) s = Ret vs t \<and> rep es t \<and> list_all2 (shown t) vs (rev xs)"
proof (induction xs arbitrary: s rule: rev_induct)
  case (snoc y ys)
  have rep: "rep ((es @ ys) @ [y]) s" using snoc.prems by simp
  obtain v s1 where pop: "pop s = Ret v s1" "rep (es @ ys) s1" "shown s1 v y" using pop_last [OF rep] by blast
  obtain vs t where vs: "pop_n pop (length ys) s1 = Ret vs t" "rep es t" "list_all2 (shown t) vs (rev ys)"
    using snoc.IH [OF pop(2)] by blast
  have "shown t v y" by (rule pop_n_keeps [OF pop(2) vs(1) pop(3)])
  with pop vs show ?case by (simp add: andThen_def)
qed simp

end

interpretation entries: value_stack "stack_rep img f" "PopStack img f" "PeekStack img f"
    "\<lambda>s. shows_entry (vm_memory s)" for img f
proof (unfold_locales, goal_cases)
  case (1 es e s)
  then have "entry_at (vm_memory s) (fr_EvalEntries (frame_of f s) + stack_bytes es) e" by (simp add: stack_rep_def Let_def)
  with PeekStack_eq [OF 1] entry_view_shows show ?case by auto
next
  case (2 es e s)
  then have "entry_at (vm_memory s) (fr_EvalEntries (frame_of f s) + stack_bytes es) e" by (simp add: stack_rep_def Let_def)
  with PopStack_eq [OF 2] entry_view_shows stack_rep_pop [OF 2] show ?case by auto
next
  case (3 es e s v t w x)
  with PopStack_eq [OF 3(1)] show ?case by auto
qed

interpretation prims: value_stack "\<lambda>stk. prim_rep img depth s0 f stk locs" "PopStack img f" "PeekStack img f"
    "\<lambda>s. shows_prim img (vm_memory s)" for img depth s0 f locs
proof (unfold_locales, goal_cases)
  case (1 es e s)
  from PeekStack_prim [OF 1] stack_view_shows [of img depth s0 f es e "[]" locs s] 1 show ?case by auto
next
  case (2 es e s)
  from PopStack_prim [OF 2] stack_view_shows [of img depth s0 f es e "[]" locs s] prim_rep_pop [OF 2] 2 show ?case by auto
next
  case (3 es e s v t w x)
  with PopStack_prim [OF 3(1)] show ?case by auto
qed

end
