(* ===== verification/TaskOwnership.thy ===== *)
theory TaskOwnership
  imports Boxes
begin

text \<open>
  The life of a frame. A frame is held by the call stack and by the record of every task bound to
  it; the last one to let go frees its block. Entering and leaving calls and the operations on task
  records are the steps of a transition system. In every state it reaches, the frames on the call
  stack and the owners of tasks are in live blocks, and a frame off the stack without tasks is not
  held by anyone.
\<close>

section \<open>Steps\<close>

inductive frame_step :: "image \<Rightarrow> vm \<Rightarrow> vm \<Rightarrow> bool" for img where
  enter: "PushFrame img method s = Ret f t \<Longrightarrow> frame_step img s t"
| leave: "PopFrame s = Ret () t \<Longrightarrow> frame_step img s t"
| mark_task: "frame_step img s (MarkTaskLike v s)"
| mark_forget: "frame_step img s (MarkFireAndForget v s)"
| native_state: "frame_step img s (SetAsyncNativeState v st s)"
| bind_frame: "f \<in> set (vm_CallStack s) \<Longrightarrow> frame_step img s (BindToFrame v f s)"
| release_owner: "frame_step img s (ReleaseFrameOwner v s)"
| erase: "frame_step img s (erase_record key s)"

inductive frame_reachable :: "image \<Rightarrow> vm \<Rightarrow> bool" for img where
  fresh: "vm_CallStack s = [] \<Longrightarrow> vm_asyncTable s = Map.empty \<Longrightarrow> (\<And>f. fr_UseCount (frame_of f s) = 0) \<Longrightarrow>
    frame_reachable img s"
| frame_step: "frame_reachable img s \<Longrightarrow> frame_step img s t \<Longrightarrow> frame_reachable img t"

section \<open>Counting owners\<close>

definition owner_at :: "vm \<Rightarrow> nat \<Rightarrow> nat" where
  "owner_at s p = (case vm_asyncTable s p of None \<Rightarrow> 0 | Some r \<Rightarrow> ar_FrameOwner r)"

definition owned_by :: "vm \<Rightarrow> nat \<Rightarrow> nat set" where
  "owned_by s f = {p. owner_at s p = f}"

definition uses :: "vm \<Rightarrow> nat \<Rightarrow> nat" where
  "uses s f = card (owned_by s f) + (if f \<in> set (vm_CallStack s) then 1 else 0)"

text \<open>
  The invariant; \<open>extra\<close> counts owners that are about to let go and are on neither side any more.
\<close>

definition frame_ok :: "nat \<Rightarrow> vm \<Rightarrow> nat \<Rightarrow> bool" where
  "frame_ok extra s f \<longleftrightarrow>
     finite (owned_by s f) \<and> fr_UseCount (frame_of f s) = uses s f + extra \<and>
     card (owned_by s f) \<le> fr_PendingTaskCount (frame_of f s) \<and>
     (0 < fr_UseCount (frame_of f s) \<longrightarrow> f \<in> fst ` set (vm_blocks s))"

definition frames_ok :: "(nat \<Rightarrow> nat) \<Rightarrow> vm \<Rightarrow> bool" where
  "frames_ok extra s \<longleftrightarrow>
     distinct (vm_CallStack s) \<and> 0 \<notin> set (vm_CallStack s) \<and> (\<forall>f. f \<noteq> 0 \<longrightarrow> frame_ok (extra f) s f)"

abbreviation one_extra :: "nat \<Rightarrow> nat \<Rightarrow> nat" where
  "one_extra f \<equiv> (\<lambda>g. if g = f then 1 else 0)"

lemma frame_ok_cong:
  assumes "owner_at t = owner_at s" "vm_CallStack t = vm_CallStack s" "vm_blocks t = vm_blocks s"
    and "fr_UseCount (frame_of f t) = fr_UseCount (frame_of f s)"
    and "fr_PendingTaskCount (frame_of f t) = fr_PendingTaskCount (frame_of f s)"
  shows "frame_ok k t f \<longleftrightarrow> frame_ok k s f"
  using assms by (simp add: frame_ok_def uses_def owned_by_def)

lemma frames_ok_cong:
  assumes "owner_at t = owner_at s" "vm_CallStack t = vm_CallStack s" "vm_blocks t = vm_blocks s"
    and "\<And>f. fr_UseCount (frame_of f t) = fr_UseCount (frame_of f s)"
    and "\<And>f. fr_PendingTaskCount (frame_of f t) = fr_PendingTaskCount (frame_of f s)"
  shows "frames_ok extra t \<longleftrightarrow> frames_ok extra s"
  using assms frame_ok_cong [OF assms(1-3)] by (simp add: frames_ok_def)

lemma async_update_keeps:
  assumes "\<And>r. ar_FrameOwner (g r) = ar_FrameOwner r"
  shows "frames_ok extra (async_update g v s) \<longleftrightarrow> frames_ok extra s"
  using assms
  by (intro frames_ok_cong)
     (auto simp: owner_at_def async_update_def Let_def AsyncRecord_new_def frame_of_def split: option.split)

lemma owned_by_update:
  assumes "owner_at t = (owner_at s)(p := g)"
  shows "owned_by t f = (if f = g then insert p (owned_by s f) else owned_by s f - {p})"
  using assms by (auto simp: owned_by_def)

lemma owned_by_iff: "p \<in> owned_by s f \<longleftrightarrow> owner_at s p = f"
  by (simp add: owned_by_def)

section \<open>Letting go\<close>

lemma drop_frame_simps [simp]:
  "vm_CallStack (drop_frame f s) = vm_CallStack s" "vm_asyncTable (drop_frame f s) = vm_asyncTable s"
  "fr_PendingTaskCount (frame_of g (drop_frame f s)) = fr_PendingTaskCount (frame_of g s)"
  "fr_UseCount (frame_of g (drop_frame f s)) = (if g = f \<and> f \<noteq> 0 then fr_UseCount (frame_of g s) - 1 else fr_UseCount (frame_of g s))"
  by (auto simp: drop_frame_def Let_def set_frame_def frame_of_def)

lemma drop_frame_blocks:
  "vm_blocks (drop_frame f s) =
     (if f \<noteq> 0 \<and> fr_UseCount (frame_of f s) \<le> 1 then filter (\<lambda>b. fst b \<noteq> f) (vm_blocks s) else vm_blocks s)"
  by (auto simp: drop_frame_def Let_def set_frame_def frame_of_def)

lemma drop_frame_ok:
  assumes "frames_ok (one_extra f) s"
  shows "frames_ok (\<lambda>_. 0) (drop_frame f s)"
proof (cases "f = 0")
  case True
  with assms show ?thesis by (auto simp: drop_frame_def frames_ok_def)
next
  case False
  have own: "owned_by (drop_frame f s) = owned_by s" "uses (drop_frame f s) = uses s"
    by (simp_all add: owned_by_def owner_at_def uses_def fun_eq_iff)
  have "frame_ok 0 (drop_frame f s) g" if "g \<noteq> 0" for g
  proof -
    have "frame_ok (one_extra f g) s g" using assms that by (simp add: frames_ok_def)
    then show ?thesis
      by (cases "g = f") (force simp: frame_ok_def own drop_frame_blocks False)+
  qed
  with assms show ?thesis by (simp add: frames_ok_def)
qed

text \<open>A task without an owner gets one on the call stack.\<close>

lemma bind_ok:
  assumes s: "frames_ok (\<lambda>_. 0) s" and p: "owner_at s p = 0" and f: "f \<in> set (vm_CallStack s)"
    and t: "owner_at t = (owner_at s)(p := f)" "vm_CallStack t = vm_CallStack s" "vm_blocks t = vm_blocks s"
    and uc: "\<And>g. fr_UseCount (frame_of g t) = fr_UseCount (frame_of g s) + one_extra f g"
    and pc: "\<And>g. fr_PendingTaskCount (frame_of g t) = fr_PendingTaskCount (frame_of g s) + one_extra f g"
  shows "frames_ok (\<lambda>_. 0) t"
proof -
  have "frame_ok 0 t g" if "g \<noteq> 0" for g
  proof -
    have g: "frame_ok 0 s g" using s that by (simp add: frames_ok_def)
    have "p \<notin> owned_by s g" using p that by (simp add: owned_by_iff)
    with g f show ?thesis
      by (cases "g = f") (auto simp: frame_ok_def uses_def owned_by_update [OF t(1)] t(2,3) uc pc)
  qed
  with s t(2) show ?thesis by (simp add: frames_ok_def)
qed

text \<open>A record lets go of its frame, which has one owner too many until it is told.\<close>

lemma unbind_ok:
  assumes s: "frames_ok (\<lambda>_. 0) s" and t: "owner_at t = (owner_at s)(p := 0)" "vm_CallStack t = vm_CallStack s" "vm_blocks t = vm_blocks s"
    and uc: "\<And>g. fr_UseCount (frame_of g t) = fr_UseCount (frame_of g s)"
    and pc: "\<And>g. g \<noteq> 0 \<Longrightarrow> fr_PendingTaskCount (frame_of g s) - one_extra (owner_at s p) g \<le> fr_PendingTaskCount (frame_of g t)"
  shows "frames_ok (one_extra (owner_at s p)) t"
proof -
  have "frame_ok (one_extra (owner_at s p) g) t g" if "g \<noteq> 0" for g
  proof -
    have g: "frame_ok 0 s g" using s that by (simp add: frames_ok_def)
    have o: "owned_by t g = owned_by s g - {p}" using that by (simp add: owned_by_update [OF t(1)])
    show ?thesis
    proof (cases "g = owner_at s p")
      case True
      then have "p \<in> owned_by s g" by (simp add: owned_by_iff)
      moreover have "finite (owned_by s g)" using g by (simp add: frame_ok_def)
      ultimately have "card (owned_by s g) = Suc (card (owned_by t g))" and "finite (owned_by t g)"
        unfolding o by (simp_all only: card_Suc_Diff1 finite_Diff)
      moreover have one: "one_extra (owner_at s p) g = 1" using True by simp
      moreover have "fr_PendingTaskCount (frame_of g s) - 1 \<le> fr_PendingTaskCount (frame_of g t)"
        using pc [OF that] unfolding one .
      ultimately show ?thesis
        using g unfolding one by (auto simp: frame_ok_def uses_def t(2,3) uc)
    next
      case False
      then have "p \<notin> owned_by s g" by (simp add: owned_by_iff)
      with g pc [OF that] False show ?thesis by (simp add: frame_ok_def uses_def o t(2,3) uc)
    qed
  qed
  with s t(2) show ?thesis by (simp add: frames_ok_def)
qed

section \<open>The steps keep the invariant\<close>

lemma ReleaseFrameOwner_ok:
  assumes "frames_ok (\<lambda>_. 0) s"
  shows "frames_ok (\<lambda>_. 0) (ReleaseFrameOwner v s)" "owner_at (ReleaseFrameOwner v s) (m_rawMemoryPtr v) = 0"
    "vm_CallStack (ReleaseFrameOwner v s) = vm_CallStack s"
proof -
  let ?p = "m_rawMemoryPtr v"
  show "owner_at (ReleaseFrameOwner v s) ?p = 0" "vm_CallStack (ReleaseFrameOwner v s) = vm_CallStack s"
    by (auto simp: owner_at_def ReleaseFrameOwner_def Let_def set_frame_def split: option.split)
  show "frames_ok (\<lambda>_. 0) (ReleaseFrameOwner v s)"
  proof (cases "vm_asyncTable s ?p")
    case (Some r)
    let ?f = "ar_FrameOwner r"
    let ?s1 = "if ?f \<noteq> 0 \<and> fr_PendingTaskCount (vm_frames s ?f) > 0
        then set_frame ?f (\<lambda>fr. fr\<lparr>fr_PendingTaskCount := fr_PendingTaskCount fr - 1\<rparr>) s else s"
    let ?t = "?s1\<lparr>vm_asyncTable := (vm_asyncTable ?s1)(?p := Some (r\<lparr>ar_FrameOwner := 0\<rparr>))\<rparr>"
    have f: "owner_at s ?p = ?f" using Some by (simp add: owner_at_def)
    have "frames_ok (one_extra (owner_at s ?p)) ?t"
      by (rule unbind_ok [OF assms]) (auto simp: f owner_at_def set_frame_def frame_of_def Some)
    with f drop_frame_ok [of ?f ?t] Some show ?thesis by (simp add: ReleaseFrameOwner_def Let_def)
  qed (simp add: assms ReleaseFrameOwner_def)
qed

lemma erase_record_ok:
  assumes "frames_ok (\<lambda>_. 0) s"
  shows "frames_ok (\<lambda>_. 0) (erase_record key s)"
proof (cases "vm_asyncTable s key")
  case (Some r)
  let ?t = "s\<lparr>vm_asyncTable := (vm_asyncTable s)(key := None)\<rparr>"
  have f: "owner_at s key = ar_FrameOwner r" using Some by (simp add: owner_at_def)
  have "frames_ok (one_extra (owner_at s key)) ?t"
    by (rule unbind_ok [OF assms]) (auto simp: owner_at_def frame_of_def)
  with f drop_frame_ok [of "ar_FrameOwner r" ?t] Some show ?thesis by (simp add: erase_record_def)
qed (simp add: assms erase_record_def)

lemma BindToFrame_ok:
  assumes s: "frames_ok (\<lambda>_. 0) s" and f: "f \<in> set (vm_CallStack s)"
  shows "frames_ok (\<lambda>_. 0) (BindToFrame v f s)"
proof (cases "IsNullInstance v \<or> f = 0")
  case False
  let ?s1 = "async_update (\<lambda>r. r) v s"
  let ?s2 = "ReleaseFrameOwner v ?s1"
  have s1: "frames_ok (\<lambda>_. 0) ?s1" using s by (simp add: async_update_keeps)
  have cs: "vm_CallStack ?s1 = vm_CallStack s" by (simp add: async_update_def Let_def)
  let ?t = "set_frame f (\<lambda>fr. fr\<lparr>fr_UseCount := fr_UseCount fr + 1, fr_PendingTaskCount := fr_PendingTaskCount fr + 1\<rparr>)
      (async_update (\<lambda>r. r\<lparr>ar_FrameOwner := f\<rparr>) v ?s2)"
  have "frames_ok (\<lambda>_. 0) ?t"
    using f ReleaseFrameOwner_ok [OF s1, of v]
    by (intro bind_ok [of ?s2 "m_rawMemoryPtr v" f ?t])
       (auto simp: cs owner_at_def async_update_def Let_def set_frame_def frame_of_def split: option.split)
  with False s1 show ?thesis by (simp add: BindToFrame_def Let_def)
qed (use s in \<open>auto simp: BindToFrame_def\<close>)

lemma PopFrame_ok:
  assumes "frames_ok (\<lambda>_. 0) s" "PopFrame s = Ret () t"
  shows "frames_ok (\<lambda>_. 0) t"
proof (cases "vm_CallStack s" rule: rev_cases)
  case (snoc fs f)
  let ?s1 = "s\<lparr>vm_CallStack := fs\<rparr>"
  let ?s2 = "if fr_PendingTaskCount (frame_of f s) > 0 then set_frame f (\<lambda>fr. fr\<lparr>fr_PreviousFrame := 0\<rparr>) ?s1 else ?s1"
  have "frame_ok (one_extra f g) ?s1 g" if "g \<noteq> 0" for g
  proof -
    have "frame_ok 0 s g" "f \<notin> set fs" using assms(1) that snoc by (simp_all add: frames_ok_def)
    then show ?thesis
      by (cases "g = f") (auto simp: frame_ok_def uses_def snoc owned_by_def owner_at_def frame_of_def)
  qed
  with assms(1) snoc have "frames_ok (one_extra f) ?s1" by (auto simp: frames_ok_def)
  moreover have "frames_ok (one_extra f) ?s2 \<longleftrightarrow> frames_ok (one_extra f) ?s1"
    by (rule frames_ok_cong) (auto simp: owner_at_def set_frame_def frame_of_def)
  ultimately have "frames_ok (one_extra f) ?s2" by simp
  then have "frames_ok (\<lambda>_. 0) (drop_frame f ?s2)" by (rule drop_frame_ok)
  with assms(2) snoc show ?thesis by (simp add: PopFrame_def Let_def)
qed (use assms in \<open>simp add: PopFrame_def\<close>)

text \<open>A new frame has a block of its own and one owner, the call stack.\<close>

lemma Create_result:
  assumes "Create img prev method ta s = Ret f t"
  obtains n mem fr where "f = img_alloc img (vm_blocks s) n" "f \<noteq> 0" "fr_UseCount fr = 1" "fr_PendingTaskCount fr = 0"
    "t = set_frame f (\<lambda>_. fr) (s\<lparr>vm_memory := mem, vm_blocks := (f, n) # vm_blocks s\<rparr>)"
proof -
  let ?m = "img_methods img method"
  let ?shape = "ResolveObjectShape img (me_ReturnType ?m)"
  let ?r = "8 + (if shape_IsReferenceType img ?shape then 8 else Align (shp_Size (img_shapes img ?shape)))"
  obtain descs offset where d: "slot_descs img ?m ta [0..<unat (GetEvalStackLocalsCount ?m)] (?r mod 2 ^ 32) = (descs, offset)"
    by fastforce
  let ?n = "img_sizeof_CallStackFrame img + (?r + (offset - ?r) + eval_capacity ?m)"
  let ?b = "img_alloc img (vm_blocks s) ?n"
  have ok: "?shape \<noteq> nullptr" "?b \<noteq> 0"
    using assms unfolding Create_def Let_def d prod.case
    by (auto simp: andThen_def AllocateZeroedBytes_def Let_def split: if_splits)
  let ?a = "?b + img_sizeof_CallStackFrame img"
  let ?fr = "\<lparr>fr_ReturnSlot = ?a, fr_ReturnSlotShape = ?shape, fr_LocalSlots = descs,
      fr_LocalRegionEnd = ?a + ?r + (offset - ?r), fr_EvalEntries = ?a + ?r + (offset - ?r),
      fr_EvalCapacityBytes = eval_capacity ?m, fr_EvalCursorBytes = 0, fr_EvalOffsets = [],
      fr_PreviousFrame = prev, fr_Method = method, fr_Arena = ?a, fr_ArenaBytes = ?r + (offset - ?r) + eval_capacity ?m,
      fr_TypeArguments = [], fr_ExceptionHandlers = [], fr_PendingTaskCount = 0, fr_DeferStack = [],
      fr_DeferDrainDepth = 0, fr_InterruptionReason = NoReason, fr_CurrentException = null_instance, fr_UseCount = 1\<rparr>"
  let ?t = "set_frame ?b (\<lambda>_. ?fr)
      (s\<lparr>vm_memory := write_bytes (write_bytes (vm_memory s) ?b (replicate ?n 0)) ?b (frame_object img ?fr),
         vm_blocks := (?b, ?n) # vm_blocks s\<rparr>)"
  have "Create img prev method ta s = Ret ?b ?t"
    unfolding Create_def Let_def d prod.case using ok by (simp add: andThen_def AllocateZeroedBytes_def Let_def construct_frame_def set_memory_block)
  then have "Ret f t = Ret ?b ?t" unfolding assms .
  then have ft: "f = ?b" "t = ?t" by (simp_all only: outcome.inject)
  show ?thesis by (rule that [of ?n ?fr "write_bytes (write_bytes (vm_memory s) ?b (replicate ?n 0)) ?b (frame_object img ?fr)"]) (use ok(2) in \<open>simp_all only: ft not_False_eq_True CallStackFrame.select_convs\<close>)
qed

lemma PushFrame_ok:
  assumes s: "frames_ok (\<lambda>_. 0) s" and run: "PushFrame img method s = Ret f t" and al: "allocator_ok img"
  shows "frames_ok (\<lambda>_. 0) t"
proof -
  obtain u where u: "Create img (CurrentFrame s) method (vm_PendingTypeArguments s) s = Ret f u"
    and t: "t = (set_frame f (\<lambda>fr. fr\<lparr>fr_TypeArguments := vm_PendingTypeArguments s\<rparr>) u)
        \<lparr>vm_PendingTypeArguments := [], vm_CallStack := vm_CallStack u @ [f]\<rparr>"
    using run by (auto simp: PushFrame_def andThen_def set_frame_def split: outcome.splits)
  from u obtain n mem fr where f: "f = img_alloc img (vm_blocks s) n" "f \<noteq> 0"
    and fr: "fr_UseCount fr = 1" "fr_PendingTaskCount fr = 0"
    and u': "u = set_frame f (\<lambda>_. fr) (s\<lparr>vm_memory := mem, vm_blocks := (f, n) # vm_blocks s\<rparr>)"
    by (rule Create_result)
  have "f \<notin> fst ` set (vm_blocks s)"
  proof
    assume "f \<in> fst ` set (vm_blocks s)"
    then obtain k where "(f, k) \<in> set (vm_blocks s)" by auto
    from allocator_okD(2) [OF al _ this, of n] f show False by simp
  qed
  moreover have "frame_ok 0 s f" using s f(2) by (simp add: frames_ok_def)
  ultimately have free: "uses s f = 0" "finite (owned_by s f)" by (simp_all add: frame_ok_def)
  then have new: "f \<notin> set (vm_CallStack s)" "owned_by s f = {}" by (auto simp: uses_def split: if_splits)
  have own: "owned_by t = owned_by s" by (simp add: t u' owned_by_def owner_at_def set_frame_def fun_eq_iff)
  have "frame_ok 0 t g" if "g \<noteq> 0" for g
  proof (cases "g = f")
    case True
    then show ?thesis using new fr by (simp add: frame_ok_def uses_def own) (simp add: t u' frame_of_def set_frame_def)
  next
    case False
    moreover have "frame_ok 0 s g" using s that by (simp add: frames_ok_def)
    ultimately show ?thesis by (simp add: frame_ok_def uses_def own) (simp add: t u' frame_of_def set_frame_def)
  qed
  then show ?thesis using s f(2) new by (simp add: frames_ok_def) (simp add: t u' set_frame_def)
qed

lemma frames_ok_step: "frame_step img s t \<Longrightarrow> allocator_ok img \<Longrightarrow> frames_ok (\<lambda>_. 0) s \<Longrightarrow> frames_ok (\<lambda>_. 0) t"
proof (induction rule: frame_step.induct)
  case (enter m s f t)
  show ?case by (rule PushFrame_ok [OF enter(3,1,2)])
next
  case (leave s t)
  show ?case by (rule PopFrame_ok [OF leave(3,1)])
next
  case (bind_frame f s v)
  show ?case by (rule BindToFrame_ok [OF bind_frame(3,1)])
qed (simp_all add: MarkTaskLike_def MarkFireAndForget_def SetAsyncNativeState_def async_update_keeps
       ReleaseFrameOwner_ok(1) erase_record_ok)

lemma frames_ok_reachable: "frame_reachable img s \<Longrightarrow> allocator_ok img \<Longrightarrow> frames_ok (\<lambda>_. 0) s"
proof (induction rule: frame_reachable.induct)
  case (fresh s)
  then show ?case by (auto simp: frames_ok_def frame_ok_def uses_def owned_by_def owner_at_def)
qed (simp add: frames_ok_step)

end
