(* ===== verification/ExceptionHandling.thy ===== *)
theory ExceptionHandling
  imports PrimitiveRuns
begin

text \<open>
  Exceptions of scripts. \<^verbatim>\<open>HandleExceptionInFrame\<close> gives the exception to the innermost handler of the
  frame; without a handler it stays raised. A C++ exception of an instruction is not an exception of the
  script: it leaves the loop, whatever handlers the frame has.
\<close>

text \<open>Taking a reference writes the counter in the object's header, the 32 bytes below it.\<close>

lemma read_word_below:
  assumes "\<And>x. x < a + sizeof TYPE('a) \<Longrightarrow> a \<le> x \<Longrightarrow> m x = m' x"
  shows "(read_word m a :: 'a::len word) = read_word m' a"
  unfolding read_word_def by (rule arg_cong [where f = "\<lambda>bs. of_nat (bytes_nat bs)"], rule read_bytes_cong) (use assms in auto)

lemma IncrementReference_memory:
  obtains m where "IncrementReference v s = Ret () (s\<lparr>vm_memory := m\<rparr>)"
    "32 \<le> m_rawMemoryPtr v \<Longrightarrow> \<forall>x. x < m_rawMemoryPtr v - 32 \<or> m_rawMemoryPtr v \<le> x \<longrightarrow> m x = vm_memory s x"
    "32 \<le> m_rawMemoryPtr v \<Longrightarrow> IsHeapBacked (vm_memory s) v \<Longrightarrow>
       getReferencesCounter m v = getReferencesCounter (vm_memory s) v + 1"
proof (cases "getGcHeader (vm_memory s) v")
  case None
  show ?thesis by (rule that [of "vm_memory s"]) (simp_all add: None IncrementReference_def IsHeapBacked_def)
next
  case (Some header)
  then have header: "header = m_rawMemoryPtr v - 32"
    and magic: "m_rawMemoryPtr v \<noteq> 0" "(read_word (vm_memory s) header :: u64) = GcMagic"
    by (auto simp: getGcHeader_def Let_def sizeof_GcHeader_def split: if_splits)
  let ?c = "hdr_ReferencesCounter (vm_memory s) header"
  let ?m = "write_word (vm_memory s) (header + 16) (?c + 1)"
  have away: "(read_word ?m header :: u64) = read_word (vm_memory s) header"
    unfolding write_word_def by (rule read_word_apart) (simp add: apart_def)
  have "getGcHeader ?m v = Some header"
    using magic away unfolding getGcHeader_def Let_def sizeof_GcHeader_def header by simp
  then have "getReferencesCounter ?m v = ?c + 1"
    by (simp add: getReferencesCounter_def hdr_ReferencesCounter_def read_word_same)
  moreover have "IncrementReference v s = Ret () (s\<lparr>vm_memory := ?m\<rparr>)"
    by (simp add: IncrementReference_def Some set_memory_def)
  ultimately show ?thesis
    by (intro that [of ?m]) (auto simp: Some getReferencesCounter_def header write_word_def write_bytes_at)
qed

text \<open>The frame after the dispatch to the handler on top of \<open>handlers\<close>.\<close>

definition in_handler :: "ObjectInstance \<Rightarrow> CallStackFrame \<Rightarrow> bool" where
  "in_handler exception fr \<longleftrightarrow>
     fr_InterruptionReason fr = NoReason \<and> fr_CurrentException fr = exception"

text \<open>
  An exception object: an instance of a reference type whose header lies outside the evaluation
  region of the frame, which has room for a reference.
\<close>

definition exception_object :: "image \<Rightarrow> nat \<Rightarrow> ObjectInstance \<Rightarrow> vm \<Rightarrow> bool" where
  "exception_object img f v s \<longleftrightarrow>
     m_shape v \<noteq> nullptr \<and> shape_IsReferenceType img (m_shape v) \<and>
     32 \<le> m_rawMemoryPtr v \<and> m_rawMemoryPtr v < 2 ^ 64 \<and>
     16 \<le> fr_EvalCapacityBytes (frame_of f s) \<and>
     apart (fr_EvalEntries (frame_of f s)) 16 (m_rawMemoryPtr v - 32) 32"

abbreviation exception_entry :: "ObjectInstance \<Rightarrow> entry" where
  "exception_entry v \<equiv> Reference (m_shape v) (m_rawMemoryPtr v)"

lemma DrainDefersTo_nothing:
  "length (fr_DeferStack (frame_of f s)) \<le> base \<Longrightarrow> DrainDefersTo run (Suc k) f d base s = Ret (True, d) s"
  by simp

lemma pop_cursor_funpow_handlers [simp]:
  "fr_ExceptionHandlers ((pop_cursor ^^ k) fr) = fr_ExceptionHandlers fr"
  "fr_DeferStack ((pop_cursor ^^ k) fr) = fr_DeferStack fr"
  "fr_EvalEntries ((pop_cursor ^^ k) fr) = fr_EvalEntries fr"
  "fr_EvalCapacityBytes ((pop_cursor ^^ k) fr) = fr_EvalCapacityBytes fr"
  by (induction k) (simp_all add: pop_cursor_def)

lemma stack_rep_pops:
  "stack_rep img f es s \<Longrightarrow> stack_rep img f [] (set_frame f (pop_cursor ^^ length es) s)"
proof (induction es arbitrary: s rule: rev_induct)
  case (snoc e es)
  from snoc.IH [OF stack_rep_pop [OF snoc.prems]] show ?case
    by (simp add: funpow_swap1 comp_def del: funpow.simps) (simp add: comp_def funpow_swap1)
qed (simp add: set_frame_def)

lemma stack_rep_interrupted:
  assumes "stack_rep img f es s" "entries_at m (fr_EvalEntries (frame_of f s)) es"
  shows "stack_rep img f es (set_frame f (\<lambda>fr. fr\<lparr>fr_InterruptionReason := reason, fr_CurrentException := v\<rparr>)
    (s\<lparr>vm_memory := m\<rparr>))"
  using assms by (simp add: stack_rep_def Let_def frame_of_def set_frame_def)

lemma HandleException_caught:
  assumes ok: "primitives_ok img" and rep: "stack_rep img f (map (prim_entry img) stk) s"
    and ex: "fr_CurrentException (frame_of f s) = exception" "\<not> IsNullInstance exception"
    and handlers: "fr_ExceptionHandlers (frame_of f s) = outer @ [(target, base)]"
    and defers: "length (fr_DeferStack (frame_of f s)) \<le> base"
    and inside: "target \<le> length (dec_code d)" "length (dec_code d) < 2 ^ 63"
    and object: "exception_object img f exception s"
  shows "\<exists>t. HandleExceptionInFrame img (Suc n) run f d s = Ret (True, d\<lparr>dec_ip := target\<rparr>) t \<and>
    in_handler exception (frame_of f t) \<and> fr_ExceptionHandlers (frame_of f t) = outer \<and>
    stack_rep img f [exception_entry exception] t \<and>
    (IsHeapBacked (vm_memory s) exception \<longrightarrow>
      getReferencesCounter (vm_memory t) exception = getReferencesCounter (vm_memory s) exception + 1)"
proof -
  let ?k = "length stk"
  let ?s1 = "set_frame f (\<lambda>fr. fr\<lparr>fr_InterruptionReason := NoReason, fr_CurrentException := null_instance\<rparr>)
      (set_frame f (pop_cursor ^^ ?k) s)"
  have drain: "DrainEvalReferences img (Suc n) f s = Ret () (set_frame f (pop_cursor ^^ ?k) s)"
    using DrainEvalReferences_prim [OF ok rep] by (simp add: set_frame_funpow)
  have jump: "jump_to (of_nat target) d t = Ret (d\<lparr>dec_ip := target\<rparr>) t" for t
  proof -
    have "target < 2 ^ 63" using inside by simp
    then have "sint (of_nat target :: u64) = int target"
      by (simp add: sint_uint unsigned_of_nat take_bit_nat_eq_self signed_take_bit_eq_if_positive bit_iff_odd)
         (simp add: take_bit_int_eq_self)
    with inside(1) show ?thesis by (simp add: jump_to_def SetCursor_def)
  qed
  let ?s2 = "set_frame f (\<lambda>fr. fr\<lparr>fr_ExceptionHandlers := butlast (fr_ExceptionHandlers fr)\<rparr>) ?s1"
  let ?top = "fr_EvalEntries (frame_of f s)" and ?e = "exception_entry exception"
  let ?s3 = "set_memory (\<lambda>m. write_ptr (write_word m (entry_top f ?s2) (m_shape exception)) (entry_top f ?s2 + 8)
      (m_rawMemoryPtr exception)) (set_frame f (push_cursor 16) ?s2)"
  have rep2: "stack_rep img f [] ?s2"
    using stack_rep_pops [OF rep] by (simp add: stack_rep_def Let_def)
  have top: "entry_top f ?s2 = ?top" using rep2 by (simp add: stack_rep_def Let_def)
  have writes: "entry_write (entry_top f ?s2) ?e = (\<lambda>m. write_ptr (write_word m (entry_top f ?s2) (m_shape exception))
      (entry_top f ?s2 + 8) (m_rawMemoryPtr exception))"
    by (rule ext) simp
  have "stack_rep img f ([] @ [?e]) (set_memory (entry_write (entry_top f ?s2) ?e) (set_frame f (push_cursor (entry_stride ?e)) ?s2))"
    by (rule stack_rep_push [OF rep2]) (use object in \<open>simp_all add: exception_object_def\<close>)
  then have rep3: "stack_rep img f [?e] ?s3" by (simp only: writes append_Nil entry_stride.simps)
  have entries: "fr_EvalEntries (frame_of f ?s3) = ?top" by simp
  have stack_top: "entries_at (vm_memory ?s3) ?top [?e]"
    using rep3 unfolding stack_rep_def Let_def entries by blast
  have big: "32 \<le> m_rawMemoryPtr exception" and away: "apart ?top 16 (m_rawMemoryPtr exception - 32) 32"
    using object by (simp_all add: exception_object_def)
  obtain m where inc: "IncrementReference exception ?s3 = Ret () (?s3\<lparr>vm_memory := m\<rparr>)"
    and same: "\<forall>x. x < m_rawMemoryPtr exception - 32 \<or> m_rawMemoryPtr exception \<le> x \<longrightarrow> m x = vm_memory ?s3 x"
    and count: "IsHeapBacked (vm_memory ?s3) exception \<Longrightarrow>
        getReferencesCounter m exception = getReferencesCounter (vm_memory ?s3) exception + 1"
    by (rule IncrementReference_memory) (use big in blast)
  let ?t = "set_frame f (\<lambda>fr. fr\<lparr>fr_InterruptionReason := NoReason, fr_CurrentException := exception\<rparr>) (?s3\<lparr>vm_memory := m\<rparr>)"
  have "HandleExceptionInFrame img (Suc n) run f d s = Ret (True, d\<lparr>dec_ip := target\<rparr>) ?t"
    using drain ex handlers defers inc
    by (simp add: HandleExceptionInFrame_def andThen_def jump PushReference_eq)
  moreover have "in_handler exception (frame_of f ?t)" "fr_ExceptionHandlers (frame_of f ?t) = outer"
    using handlers by (simp_all add: in_handler_def frame_of_def set_frame_def set_memory_def push_cursor_def)
  moreover have "stack_rep img f [?e] ?t"
  proof (rule stack_rep_interrupted [OF rep3])
    have "m x = vm_memory ?s3 x" if "?top \<le> x" "x < ?top + 16" for x
      using same away that by (auto simp: apart_def)
    then show "entries_at m (fr_EvalEntries (frame_of f ?s3)) [?e]"
      unfolding entries using stack_top entries_at_cong [of ?top "[?e]" m "vm_memory ?s3"] by simp
  qed
  moreover have "getReferencesCounter (vm_memory ?t) exception = getReferencesCounter (vm_memory s) exception + 1"
    if "IsHeapBacked (vm_memory s) exception"
  proof -
    have header: "vm_memory ?s3 x = vm_memory s x" if "m_rawMemoryPtr exception - 32 \<le> x" "x < m_rawMemoryPtr exception" for x
    proof -
      have "x < ?top \<or> ?top + 16 \<le> x" using away big that by (auto simp: apart_def)
      then show ?thesis unfolding top by (auto simp: set_memory_def write_defs write_bytes_at)
    qed
    have words: "(read_word (vm_memory ?s3) (m_rawMemoryPtr exception - 32 + k) :: u64)
        = read_word (vm_memory s) (m_rawMemoryPtr exception - 32 + k)" if "k \<in> {0, 16}" for k
      using that big by (intro read_word_below header) auto
    have "getGcHeader (vm_memory ?s3) exception = getGcHeader (vm_memory s) exception"
      using words [of 0] by (simp add: getGcHeader_def Let_def sizeof_GcHeader_def)
    moreover have "getGcHeader (vm_memory s) exception = Some (m_rawMemoryPtr exception - 32)"
      using that by (simp add: IsHeapBacked_def getGcHeader_def Let_def sizeof_GcHeader_def split: if_splits)
    ultimately show ?thesis
      using count words [of 16] by (simp add: IsHeapBacked_def getReferencesCounter_def hdr_ReferencesCounter_def)
  qed
  ultimately show ?thesis by blast
qed

lemma HandleException_uncaught:
  assumes ok: "primitives_ok img" and rep: "stack_rep img f (map (prim_entry img) stk) s"
    and ex: "fr_CurrentException (frame_of f s) = exception" "\<not> IsNullInstance exception"
    and handlers: "fr_ExceptionHandlers (frame_of f s) = []" and defers: "fr_DeferStack (frame_of f s) = []"
  shows "\<exists>t. HandleExceptionInFrame img (Suc n) run f d s = Ret (False, d) t \<and>
    fr_InterruptionReason (frame_of f t) = ExceptionRaised \<and> fr_CurrentException (frame_of f t) = exception"
proof -
  have drain: "DrainEvalReferences img (Suc n) f s = Ret () (set_frame f (pop_cursor ^^ length stk) s)"
    using DrainEvalReferences_prim [OF ok rep] by (simp add: set_frame_funpow)
  let ?s1 = "raise_in f exception (set_frame f (\<lambda>fr. fr\<lparr>fr_InterruptionReason := NoReason, fr_CurrentException := null_instance\<rparr>)
      (set_frame f (pop_cursor ^^ length stk) s))"
  obtain m where inc: "IncrementReference exception ?s1 = Ret () (?s1\<lparr>vm_memory := m\<rparr>)"
    by (rule IncrementReference_memory)
  have "HandleExceptionInFrame img (Suc n) run f d s = Ret (False, d) (?s1\<lparr>vm_memory := m\<rparr>)"
    using drain ex handlers defers inc by (simp add: HandleExceptionInFrame_def andThen_def)
  then show ?thesis by (auto simp: raise_in_def frame_of_def set_frame_def)
qed

section \<open>C++ exceptions of instructions\<close>

text \<open>
  A method whose code is a try block around instructions over primitive values. Its first
  instruction installs the handler; the rest runs as \<open>run_cfg\<close> says.
\<close>

abbreviation try_program :: "u64 \<Rightarrow> Instruction list \<Rightarrow> Instruction list" where
  "try_program handler body \<equiv> Instruction (Ho ENTER_TRY) [U64 handler] # body"

definition in_try :: "u64 \<Rightarrow> CallStackFrame \<Rightarrow> CallStackFrame" where
  "in_try handler fr =
     fr\<lparr>fr_ExceptionHandlers := fr_ExceptionHandlers fr @ [(unat handler, length (fr_DeferStack fr))]\<rparr>"

lemma prim_rep_in_try:
  assumes "prim_rep img depth s f stk locs s"
  shows "prim_rep img depth (set_frame f (in_try handler) s) f stk locs (set_frame f (in_try handler) s)"
proof -
  let ?s = "set_frame f (in_try handler) s"
  have "frame_geometry depth f ?s = frame_geometry depth f s"
    by (simp add: frame_geometry_def live_range_def live_def in_try_def slot_at_def Let_def)
  moreover have "stack_rep img f es ?s = stack_rep img f es s" for es
    by (simp add: stack_rep_def in_try_def Let_def)
  moreover have "locals_rep img f locs ?s = locals_rep img f locs s"
    by (simp add: locals_rep_def in_try_def slot_at_def Let_def)
  moreover have "serves_boxes img ?s = serves_boxes img s" "records_live ?s = records_live s"
    by (simp_all add: serves_boxes_def records_live_def live_def set_frame_def)
  moreover have "fr_InterruptionReason (in_try handler fr) = fr_InterruptionReason fr" for fr
    by (simp add: in_try_def)
  ultimately show ?thesis using assms by (simp add: prim_rep_def)
qed

lemma enter_try_iteration:
  assumes "\<not> vm_AbortFlag s" "fr_InterruptionReason (frame_of f s) = NoReason"
  shows "run_code img (Suc n) (BodyLoop f (decoder_at (try_program handler body) 0)) s =
    run_code img n (BodyLoop f (decoder_at (try_program handler body) 10)) (set_frame f (in_try handler) s)"
proof -
  let ?is = "try_program handler body"
  have at: "instruction_at ?is 0 = Some (Instruction (Ho ENTER_TRY) [U64 handler])" by simp
  have r: "reads_at (decoder_at ?is 0) (word_bytes (OpCode_value (Ho ENTER_TRY)))"
    "reads_at (decoder_at ?is 2) (word_bytes handler)"
    using instruction_at_reads(1) [OF at] by (simp_all add: decoder_at_def reads_at_append skip_def numeral_2_eq_2)
  then have "AbsorbOpCode (decoder_at ?is 0) = (OpCode_value (Ho ENTER_TRY), decoder_at ?is 2)"
    and "AbsorbJump (decoder_at ?is 2) = (handler, decoder_at ?is 10)"
    by (simp_all add: absorb_defs Absorb_reads decoder_at_def) (simp_all add: skip_def)
  moreover have "ProcessCode img n r f d (OpCode_value op) = ProcessOpCode img n r f d op" for r d op
    by (simp add: ProcessCode_def)
  from this [of _ _ "Ho ENTER_TRY"]
  have "ProcessCode img n r f d 62 = ProcessHandler img n r f d ENTER_TRY" for r d by simp
  moreover have "\<not> IsEOF (decoder_at ?is 0)"
    using instruction_at_EOF [OF at] by (simp add: IsEOF_def decoder_at_def)
  ultimately show ?thesis
    using assms by (simp add: body_iteration_def andThen_def operand_vm_def resume_def in_try_def [abs_def])
qed

lemma Run_try_fails:
  assumes pm: "prim_method img (img_methods img method) (try_program handler body)" and ok: "primitives_ok img"
    and al: "allocator_ok img" and ready: "ready_to_run img method s"
    and run: "run_cfg (img_double img) (entry_depth (img_methods img method)) (try_program handler body) k
      ((entry_cfg (img_methods img method))\<lparr>cf_pc := 10\<rparr>) = Some (Failed e)" and n: "Suc k < n"
  shows "\<exists>t. Run img n method s = Throw e t
    \<and> fr_ExceptionHandlers (frame_of (entry_frame img method s) t) = [(unat handler, 0)]
    \<and> fr_InterruptionReason (frame_of (entry_frame img method s) t) = NoReason
    \<and> vm_CallStack t = vm_CallStack s @ [entry_frame img method s] \<and> IsNullInstance (vm_UnhandledException t)"
proof -
  let ?f = "entry_frame img method s" and ?m = "img_methods img method" and ?is = "try_program handler body"
  let ?t0 = "entered img method ?f (started s)"
  let ?t1 = "set_frame ?f (in_try handler) ?t0"
  obtain n' where n': "n = Suc n'" "k < n'" using n by (cases n) auto
  have rep: "cfg_rep img (entry_depth ?m) ?t0 ?f (entry_cfg ?m) ?t0" by (rule started_rep [OF pm ok ready refl])
  then have quiet: "\<not> vm_AbortFlag ?t0" "fr_InterruptionReason (frame_of ?f ?t0) = NoReason" by (simp_all add: prim_rep_def)
  have void: "returns_nothing img (frame_of ?f ?t1) ?is"
    using pm by (simp add: returns_nothing_def returns_void_def prim_method_def in_try_def)
  have "cfg_rep img (entry_depth ?m) ?t1 ?f ((entry_cfg ?m)\<lparr>cf_pc := 10\<rparr>) ?t1"
    using prim_rep_in_try [OF rep] by simp
  moreover have "list_all instruction_ok ?is" using pm by (simp add: prim_method_def)
  ultimately obtain t where t: "run_code img n' (BodyLoop ?f (decoder_at ?is 10)) ?t1 = Throw e t" and only: "only_frame ?f ?t1 t"
    using run_code_simulates [OF ok al _ void run, of ?t1 n'] n'(2) by (auto simp: result_matches_def)
  have "run_code img n (BodyLoop ?f (ByteCodeDecoder_of (me_ExecutableByteCode ?m))) ?t0 = Throw e t"
    using pm t enter_try_iteration [OF quiet, of img n' handler body]
    unfolding n'(1) by (simp add: prim_method_def ByteCodeDecoder_of_def decoder_at_def)
  then have "InvokeMethodInternal img n (run_code img n) create method ?f ?t0 = Throw e t" for create
    using pm quiet(1) by (simp add: InvokeMethodInternal_def InvokeMethodBody_def prim_method_def andThen_def Let_def)
  then have "Run img n method s = Throw e t"
    unfolding Run_unfold [OF pm ok ready] Let_def by (simp add: andThen_def)
  moreover have "fixed_members (frame_of ?f t) = fixed_members (in_try handler (frame_of ?f ?t0))"
    using only_frameD(4) [OF only] by simp
  then have "fr_ExceptionHandlers (frame_of ?f t) = [(unat handler, 0)]" "fr_InterruptionReason (frame_of ?f t) = NoReason"
    by (auto simp: fixed_members_def in_try_def created_frame_def Let_def dest: arg_cong [where f = fr_ExceptionHandlers]
        arg_cong [where f = fr_InterruptionReason])
  moreover have "vm_CallStack t = vm_CallStack s @ [?f]" "IsNullInstance (vm_UnhandledException t)"
    using only_frameD(2,7) [OF only] by (simp_all add: started_def IsNullInstance_def set_frame_def entered_def Let_def)
  ultimately show ?thesis by blast
qed

end
