(* ===== verification/RuntimeProperties.thy ===== *)
theory RuntimeProperties
  imports ExamplePrograms ValueStacks TaskOwnership ExceptionHandling
begin

text \<open>
  Properties of the virtual machine: what \<^verbatim>\<open>Run\<close> does with a program over primitive values, how its
  frames are laid out, what its stack, locals and operators do to the values, and what becomes of
  exceptions and of tasks.
\<close>

section \<open>Whole runs\<close>

text \<open>
  C10: \<^verbatim>\<open>VirtualMachine::Run\<close> on an entry point whose code uses constants, locals, operators and jumps
  over primitive values. When the program's own semantics \<open>run_cfg\<close> halts within \<open>k\<close> rounds, \<^verbatim>\<open>Run\<close>
  returns; the live blocks, the call stack, the other frames and every live byte are as before, and
  no exception is left for the host.
\<close>

theorem run_returns:
  assumes "prim_method img (img_methods img method) is" "primitives_ok img" "allocator_ok img"
    and "ready_to_run img method s"
    and "run_cfg (img_double img) (entry_depth (img_methods img method)) is k (entry_cfg (img_methods img method))
      = Some (Halted c)" "k < n"
  shows "\<exists>t. Run img n method s = Ret () t \<and> unchanged_but (entry_frame img method s) s t
    \<and> IsNullInstance (vm_UnhandledException t)"
  by (rule Run_halts [OF assms])

theorem run_returns_witness:
  "\<exists>t. Run (entry_image loop_program) 61 1 small_vm = Ret () t \<and> vm_blocks t = [] \<and> vm_CallStack t = []"
proof -
  have "run_cfg (img_double (entry_image loop_program)) (entry_depth (img_methods (entry_image loop_program) 1)) loop_program 60
      (entry_cfg (img_methods (entry_image loop_program) 1))
    = Some (Halted \<lparr>cf_pc = 98, cf_stack = [], cf_locals = [Some (VInt 0), Some (VInt 3)]\<rparr>)"
    by (simp add: countdown_runs entry_depth_at)
  then have "\<exists>t. Run (entry_image loop_program) 61 1 small_vm = Ret () t
      \<and> unchanged_but (entry_frame (entry_image loop_program) 1 small_vm) small_vm t \<and> IsNullInstance (vm_UnhandledException t)"
    by (rule run_returns [rotated 4])
       (simp_all add: entry_prim_method example_programs_ok entry_image_ok entry_ready)
  then show ?thesis by (auto simp: unchanged_but_def small_vm_def)
qed

text \<open>
  C11: when an instruction of a program over primitive values fails, for instance a division by
  zero, the C++ exception leaves \<^verbatim>\<open>Run\<close>. It is not recorded as unhandled; the frame of the entry point
  stays on the call stack, the rest of the machine is as before.
\<close>

theorem run_throws:
  assumes "prim_method img (img_methods img method) is" "primitives_ok img" "allocator_ok img"
    and "ready_to_run img method s"
    and "run_cfg (img_double img) (entry_depth (img_methods img method)) is k (entry_cfg (img_methods img method))
      = Some (Failed e)" "k < n"
  shows "\<exists>t. Run img n method s = Throw e t \<and> vm_CallStack t = vm_CallStack s @ [entry_frame img method s]
    \<and> unchanged_but (entry_frame img method s) s (t\<lparr>vm_CallStack := vm_CallStack s, vm_blocks := vm_blocks s\<rparr>)
    \<and> IsNullInstance (vm_UnhandledException t)"
  by (rule Run_fails [OF assms])

theorem run_throws_witness:
  "\<exists>t. Run (entry_image fault_program) 5 1 small_vm = Throw (runtime_error ''DivideByZeroException'') t
     \<and> length (vm_CallStack t) = 1"
proof -
  have "run_cfg (img_double (entry_image fault_program)) (entry_depth (img_methods (entry_image fault_program) 1)) fault_program 4
      (entry_cfg (img_methods (entry_image fault_program) 1)) = Some (Failed (runtime_error ''DivideByZeroException''))"
    by (simp add: fault_runs entry_depth_at)
  then have "\<exists>t. Run (entry_image fault_program) 5 1 small_vm = Throw (runtime_error ''DivideByZeroException'') t
      \<and> vm_CallStack t = vm_CallStack small_vm @ [entry_frame (entry_image fault_program) 1 small_vm]
      \<and> unchanged_but (entry_frame (entry_image fault_program) 1 small_vm) small_vm
          (t\<lparr>vm_CallStack := vm_CallStack small_vm, vm_blocks := vm_blocks small_vm\<rparr>)
      \<and> IsNullInstance (vm_UnhandledException t)"
    by (rule run_throws [rotated 4])
       (simp_all add: entry_prim_method example_programs_ok entry_image_ok entry_ready)
  then show ?thesis by (auto simp: small_vm_def)
qed

text \<open>
  C12: a try block does not catch the failure of an instruction. The entry point's code starts a try
  block, whose handler the first instruction installs, around instructions over primitive values. When
  one of these fails, the C++ exception leaves \<^verbatim>\<open>Run\<close> although the handler is installed: at that point
  it is still in the frame's list, the frame is not interrupted, and nothing is recorded as unhandled.
\<close>

theorem try_does_not_catch_failure:
  assumes "prim_method img (img_methods img method) (Instruction (Ho ENTER_TRY) [U64 handler] # body)"
    and "primitives_ok img" "allocator_ok img" "ready_to_run img method s"
    and "run_cfg (img_double img) (entry_depth (img_methods img method)) (Instruction (Ho ENTER_TRY) [U64 handler] # body) k
      ((entry_cfg (img_methods img method))\<lparr>cf_pc := 10\<rparr>) = Some (Failed e)" "Suc k < n"
  shows "\<exists>t. Run img n method s = Throw e t
    \<and> fr_ExceptionHandlers (frame_of (entry_frame img method s) t) = [(unat handler, 0)]
    \<and> fr_InterruptionReason (frame_of (entry_frame img method s) t) = NoReason
    \<and> vm_CallStack t = vm_CallStack s @ [entry_frame img method s] \<and> IsNullInstance (vm_UnhandledException t)"
  by (rule Run_try_fails [OF assms])

text \<open>\<^verbatim>\<open>try { 1 / 0 } catch\<close>: the handler at the offset 44 drops the exception.\<close>

abbreviation fault_body :: "Instruction list" where
  "fault_body \<equiv> fault_program @ [Instruction (Ho LEAVE_TRY) [], Instruction (Co JUMP) [U64 46], Instruction (Ko POP) []]"

definition try_fault :: "Instruction list" where
  "try_fault = try_program 44 fault_body"

theorem try_does_not_catch_failure_witness:
  "\<exists>t. Run (entry_image try_fault) 6 1 small_vm = Throw (runtime_error ''DivideByZeroException'') t
     \<and> fr_ExceptionHandlers (frame_of 4096 t) = [(44, 0)]"
proof -
  let ?img = "entry_image try_fault"
  have f: "entry_frame ?img 1 small_vm = 4096"
    by (simp add: entry_frame_def entry_layout bump_alloc_def small_vm_def)
  have ok: "list_all instruction_ok try_fault"
    by (simp add: try_fault_def fault_program_def instruction_ok_def operand_sizes_def)
  have run: "run_cfg small_double 8 try_fault 4 ((entry_cfg (entry_method try_fault))\<lparr>cf_pc := 10\<rparr>)
      = Some (Failed (runtime_error ''DivideByZeroException''))"
    by (simp add: entry_start program_run_simps fault_program_def try_fault_def program_bytes_def)
  have "\<exists>t. Run ?img 6 1 small_vm = Throw (runtime_error ''DivideByZeroException'') t
      \<and> fr_ExceptionHandlers (frame_of (entry_frame ?img 1 small_vm) t) = [(unat (44 :: u64), 0)]
      \<and> fr_InterruptionReason (frame_of (entry_frame ?img 1 small_vm) t) = NoReason
      \<and> vm_CallStack t = vm_CallStack small_vm @ [entry_frame ?img 1 small_vm] \<and> IsNullInstance (vm_UnhandledException t)"
    by (rule try_does_not_catch_failure [of ?img 1 44 fault_body small_vm 4, folded try_fault_def])
       (use run ok in \<open>simp_all add: entry_prim_method entry_image_ok entry_ready entry_depth_at\<close>)
  then show ?thesis by (auto simp: f)
qed

text \<open>
  C4: the interpreter's loop refines the programs' semantics from any configuration: on a frame that
  represents it, the loop ends as \<open>run_cfg\<close> says (end of the code with a frame that represents the
  final configuration, the same exception, or undefined behaviour), and touches nothing outside the
  frame. The rounds of \<open>run_cfg\<close> are enough fuel.
\<close>

theorem interpreter_refines_programs:
  assumes "primitives_ok img" "allocator_ok img" "list_all instruction_ok is"
    and "returns_nothing img (frame_of f s0) is"
    and "run_cfg (img_double img) depth is k c = Some res"
    and "prim_rep img depth s0 f (cf_stack c) (cf_locals c) s" "k < n"
  shows "case res of
      Halted c' \<Rightarrow> \<exists>t. run_code img n (BodyLoop f (decoder_at is (cf_pc c))) s
                      = Ret (decoder_at is (cf_pc c')) (set_frame f (ends_with EndOfInstructions) t)
                    \<and> prim_rep img depth s0 f (cf_stack c') (cf_locals c') t
    | Failed e \<Rightarrow> \<exists>t. run_code img n (BodyLoop f (decoder_at is (cf_pc c))) s = Throw e t \<and> only_frame f s0 t
    | Trapped \<Rightarrow> run_code img n (BodyLoop f (decoder_at is (cf_pc c))) s = Undefined"
  using run_code_simulates [OF assms(1-7)] by (simp add: result_matches_def)

lemma entry_rep:
  "prim_rep (entry_image is) 8 (entered (entry_image is) 1 4096 (started small_vm)) 4096 [] [None, None]
     (entered (entry_image is) 1 4096 (started small_vm))"
  if "list_all instruction_ok is"
proof -
  have "entry_frame (entry_image is) 1 small_vm = 4096"
    by (simp add: entry_frame_def entry_layout bump_alloc_def small_vm_def)
  with started_rep [of "entry_image is" 1 "is" small_vm 4096] that show ?thesis
    by (simp add: entry_prim_method entry_image_ok entry_ready entry_start entry_depth_at)
qed

lemma loop_returns: "returns_nothing img fr loop_program"
  by (simp add: returns_nothing_def loop_program_def)

theorem interpreter_refines_programs_witness:
  "\<exists>t. run_code (entry_image loop_program) 61 (BodyLoop 4096 (decoder_at loop_program 0))
         (entered (entry_image loop_program) 1 4096 (started small_vm))
       = Ret (decoder_at loop_program 98) (set_frame 4096 (ends_with EndOfInstructions) t)
     \<and> prim_rep (entry_image loop_program) 8 (entered (entry_image loop_program) 1 4096 (started small_vm)) 4096
         [] [Some (VInt 0), Some (VInt 3)] t"
  using interpreter_refines_programs [OF entry_image_ok example_programs_ok(1) loop_returns
      countdown_runs [of loop_program, unfolded entry_start, folded entry_image_select(2) [of loop_program]],
      of "entered (entry_image loop_program) 1 4096 (started small_vm)" 4096
         "entered (entry_image loop_program) 1 4096 (started small_vm)" 61]
    entry_rep [OF example_programs_ok(1)]
  by simp

section \<open>Frames\<close>

text \<open>
  C14: the block of a new frame. \<^verbatim>\<open>CallStackFrame::Create\<close> lays out, behind the frame object, the return
  slot, the slots of arguments and locals in order, and the evaluation region up to the end of the
  block; no two of them overlap, and the region has room for the declared depth. The block is live, it
  starts with the frame object, from the return slot on it is zero, and no byte that was live has
  changed.
\<close>

theorem frame_layout:
  assumes m: "m = img_methods img method" and ret: "ResolveObjectShape img (me_ReturnType m) \<noteq> nullptr"
    and small: "locals_end img m ta < 2 ^ 32" and al: "allocator_ok img"
    and block: "block = img_alloc img (vm_blocks s) (frame_bytes img m ta)" "block \<noteq> 0"
  shows "\<exists>t fr. Create img prev method ta s = Ret block t \<and> fr = frame_of block t
    \<and> length (fr_LocalSlots fr) = unat (GetEvalStackLocalsCount m)
    \<and> (\<forall>i<length (fr_LocalSlots fr). fr_ReturnSlot fr + return_stride img m \<le> slot_at fr i
         \<and> slot_at fr i + slot_stride img m ta i \<le> fr_EvalEntries fr
         \<and> (\<forall>j<length (fr_LocalSlots fr). i < j \<longrightarrow> slot_at fr i + slot_stride img m ta i \<le> slot_at fr j))
    \<and> fr_ReturnSlot fr = block + img_sizeof_CallStackFrame img
    \<and> fr_EvalEntries fr + fr_EvalCapacityBytes fr = block + frame_bytes img m ta
    \<and> (me_IsComplete m \<longrightarrow>
         me_MaxEvalDepth m * (8 + Align (max 8 (me_EvalSlotPayload m))) \<le> fr_EvalCapacityBytes fr)
    \<and> (\<forall>x. block \<le> x \<and> x < block + frame_bytes img m ta \<longrightarrow> live t x)
    \<and> read_bytes (vm_memory t) block (img_sizeof_CallStackFrame img) = frame_object img fr
    \<and> (\<forall>x. fr_ReturnSlot fr \<le> x \<and> x < block + frame_bytes img m ta \<longrightarrow> vm_memory t x = 0)
    \<and> (\<forall>x. live s x \<longrightarrow> vm_memory t x = vm_memory s x)"
proof -
  let ?fr = "created_frame img prev method ta block"
  let ?t = "set_frame block (\<lambda>_. ?fr)
        (s\<lparr>vm_memory := write_bytes (vm_memory s) block (block_bytes img prev method ta block),
           vm_blocks := (block, frame_bytes img m ta) # vm_blocks s\<rparr>)"
  have run: "Create img prev method ta s = Ret block ?t" by (rule Create_eq [OF m ret small block])
  have slots: "?fr = frame_of block ?t" "length (fr_LocalSlots ?fr) = unat (GetEvalStackLocalsCount m)" by (simp_all add: m)
  have order: "fr_ReturnSlot ?fr + return_stride img m \<le> slot_at ?fr i \<and> slot_at ?fr i + slot_stride img m ta i \<le> fr_EvalEntries ?fr
      \<and> (\<forall>j<length (fr_LocalSlots ?fr). i < j \<longrightarrow> slot_at ?fr i + slot_stride img m ta i \<le> slot_at ?fr j)"
    if "i < length (fr_LocalSlots ?fr)" for i
    using that laid_out_order [where i = i and m = m and img = img and ta = ta] by (simp add: m slot_at_def add.assoc)
  have capacity: "me_IsComplete m \<longrightarrow>
      me_MaxEvalDepth m * (8 + Align (max 8 (me_EvalSlotPayload m))) \<le> fr_EvalCapacityBytes ?fr"
    unfolding created_frame_simps m [symmetric]
    by (metis eval_capacity_depth max.cobounded2 mult_le_mono1)
  have bounds: "fr_ReturnSlot ?fr = block + img_sizeof_CallStackFrame img"
    "fr_EvalEntries ?fr + fr_EvalCapacityBytes ?fr = block + frame_bytes img m ta"
    by (simp_all add: m frame_bytes_def)
  have live: "\<forall>x. block \<le> x \<and> x < block + frame_bytes img m ta \<longrightarrow> live ?t x" by (auto simp: live_def)
  have obj: "read_bytes (vm_memory ?t) block (img_sizeof_CallStackFrame img) = frame_object img ?fr"
    by (rule nth_equalityI) (simp_all add: read_bytes_def write_bytes_at frame_bytes_def, simp add: block_bytes_def nth_append)
  have zero: "\<forall>x. fr_ReturnSlot ?fr \<le> x \<and> x < block + frame_bytes img m ta \<longrightarrow> vm_memory ?t x = 0"
    by (simp add: m block_regions_zero)
  have kept: "\<forall>x. live s x \<longrightarrow> vm_memory ?t x = vm_memory s x"
    using fresh_block_memory [OF al block] by (simp add: m)
  show ?thesis
    by (intro exI [of _ ?t] exI [of _ ?fr] conjI run slots bounds capacity live obj zero kept allI impI) (use order in blast)+
qed

theorem frame_layout_witness:
  "\<exists>t. Create (entry_image loop_program) 0 1 [] small_vm = Ret 4096 t \<and> length (fr_LocalSlots (frame_of 4096 t)) = 2
     \<and> fr_EvalEntries (frame_of 4096 t) + fr_EvalCapacityBytes (frame_of 4096 t) = 4096 + 680"
proof -
  have "4096 = img_alloc (entry_image loop_program) (vm_blocks small_vm)
      (frame_bytes (entry_image loop_program) (img_methods (entry_image loop_program) 1) [])"
    by (simp add: entry_layout bump_alloc_def small_vm_def)
  from frame_layout [OF refl _ _ entry_image_ok(2) this, of 0] show ?thesis
    by (auto simp: entry_layout)
qed

text \<open>
  C17: the evaluation stack is a last-in first-out list of entries: popping as many values as the
  last entries gives exactly those, the last first, as views of their bytes, and what was below them
  is still represented.
\<close>

theorem eval_stack_pops:
  assumes "stack_rep img f (es @ xs) s"
  shows "\<exists>vs t. pop_n (PopStack img f) (length xs) s = Ret vs t \<and> stack_rep img f es t
    \<and> list_all2 (shows_entry (vm_memory t)) vs (rev xs)"
  by (rule entries.pop_n_shows [OF assms])

text \<open>
  C18: \<^verbatim>\<open>PushStack\<close> appends. A view of a value, by value without reference fields or of an object, is
  copied above the stack when the frame's region has room for it, and popping it back shows the same
  value.
\<close>

theorem eval_stack_push:
  assumes rep: "stack_rep img f es s" and v: "shows_entry (vm_memory s) v e" and ok: "entry_ok img e"
    and flat: "flat_shape img (m_shape v)"
    and far: "\<And>shape bs. e = Inline shape bs \<Longrightarrow> apart (entry_top f s) 8 (m_rawMemoryPtr v) (length bs)"
    and room: "stack_bytes es + entry_stride e \<le> fr_EvalCapacityBytes (frame_of f s)"
  shows "\<exists>w t v' u. PushStack img f v s = Ret w t \<and> stack_rep img f (es @ [e]) t
    \<and> PopStack img f t = Ret v' u \<and> shows_entry (vm_memory u) v' e \<and> stack_rep img f es u"
proof -
  have push: "PushStack img f v s = Ret (entry_view (entry_top f s) e)
      (set_memory (entry_write (entry_top f s) e) (set_frame f (push_cursor (entry_stride e)) s))"
    by (rule PushStack_shows [OF v ok flat far])
  note pushed = stack_rep_push [OF rep ok room]
  from entries.pop_last [OF pushed] push pushed show ?thesis by blast
qed

lemma entry_stack:
  "stack_rep (entry_image loop_program) 4096 (map (prim_entry (entry_image loop_program)) [VInt 7, VInt 9])
     (push_prim (entry_image loop_program) 4096 (VInt 9) (push_prim (entry_image loop_program) 4096 (VInt 7)
        (entered (entry_image loop_program) 1 4096 (started small_vm))))"
proof -
  have "prim_rep (entry_image loop_program) 8 (entered (entry_image loop_program) 1 4096 (started small_vm)) 4096
      (([] @ [VInt 7]) @ [VInt 9]) [None, None]
      (push_prim (entry_image loop_program) 4096 (VInt 9) (push_prim (entry_image loop_program) 4096 (VInt 7)
        (entered (entry_image loop_program) 1 4096 (started small_vm))))"
    by (intro prim_rep_push entry_image_ok entry_rep example_programs_ok) simp_all
  then show ?thesis by (simp add: prim_rep_def)
qed

theorem eval_stack_pops_witness:
  "\<exists>vs t. pop_n (PopStack (entry_image loop_program) 4096) 2
       (push_prim (entry_image loop_program) 4096 (VInt 9) (push_prim (entry_image loop_program) 4096 (VInt 7)
        (entered (entry_image loop_program) 1 4096 (started small_vm)))) = Ret vs t \<and> length vs = 2"
proof -
  have "stack_rep (entry_image loop_program) 4096 ([] @ map (prim_entry (entry_image loop_program)) [VInt 7, VInt 9])
     (push_prim (entry_image loop_program) 4096 (VInt 9) (push_prim (entry_image loop_program) 4096 (VInt 7)
        (entered (entry_image loop_program) 1 4096 (started small_vm))))"
    using entry_stack by simp
  from eval_stack_pops [OF this] show ?thesis by (auto simp: numeral_2_eq_2 dest: list_all2_lengthD)
qed

theorem eval_stack_push_witness:
  "\<exists>v w t. PeekStack (entry_image loop_program) 4096 (push_prim (entry_image loop_program) 4096 (VInt 9)
        (push_prim (entry_image loop_program) 4096 (VInt 7) (entered (entry_image loop_program) 1 4096 (started small_vm))))
      = Ret v (push_prim (entry_image loop_program) 4096 (VInt 9)
        (push_prim (entry_image loop_program) 4096 (VInt 7) (entered (entry_image loop_program) 1 4096 (started small_vm))))
    \<and> PushStack (entry_image loop_program) 4096 v (push_prim (entry_image loop_program) 4096 (VInt 9)
        (push_prim (entry_image loop_program) 4096 (VInt 7) (entered (entry_image loop_program) 1 4096 (started small_vm))))
      = Ret w t
    \<and> stack_rep (entry_image loop_program) 4096
        (map (prim_entry (entry_image loop_program)) [VInt 7, VInt 9, VInt 9]) t"
proof -
  let ?img = "entry_image loop_program"
  let ?s = "push_prim ?img 4096 (VInt 9) (push_prim ?img 4096 (VInt 7) (entered ?img 1 4096 (started small_vm)))"
  have rep: "stack_rep ?img 4096 (map (prim_entry ?img) [VInt 7] @ [prim_entry ?img (VInt 9)]) ?s"
    using entry_stack by simp
  have peek: "PeekStack ?img 4096 ?s = Ret (entry_view (fr_EvalEntries (frame_of 4096 ?s) + 16) (prim_entry ?img (VInt 9))) ?s"
    using PeekStack_eq [OF rep] by simp
  have shows_top: "shows_entry (vm_memory ?s) (entry_view (fr_EvalEntries (frame_of 4096 ?s) + 16) (prim_entry ?img (VInt 9)))
      (prim_entry ?img (VInt 9))"
    using entries.peek_last [OF rep] peek by simp
  have flat: "flat_shape ?img (m_shape (entry_view (fr_EvalEntries (frame_of 4096 ?s) + 16) (prim_entry ?img (VInt 9))))"
    using prim_shape_facts(4) [OF entry_image_ok(1)] by (simp add: prim_entry_def)
  have room: "stack_bytes (map (prim_entry ?img) [VInt 7] @ [prim_entry ?img (VInt 9)]) + entry_stride (prim_entry ?img (VInt 9))
      \<le> fr_EvalCapacityBytes (frame_of 4096 ?s)"
    by (simp add: push_prim_def entry_layout)
  have top: "entry_top 4096 ?s = fr_EvalEntries (frame_of 4096 ?s) + 32" by (simp add: push_prim_def)
  have "\<exists>w t v' u. PushStack ?img 4096 (entry_view (fr_EvalEntries (frame_of 4096 ?s) + 16) (prim_entry ?img (VInt 9))) ?s = Ret w t
    \<and> stack_rep ?img 4096 ((map (prim_entry ?img) [VInt 7] @ [prim_entry ?img (VInt 9)]) @ [prim_entry ?img (VInt 9)]) t
    \<and> PopStack ?img 4096 t = Ret v' u \<and> shows_entry (vm_memory u) v' (prim_entry ?img (VInt 9))
    \<and> stack_rep ?img 4096 (map (prim_entry ?img) [VInt 7] @ [prim_entry ?img (VInt 9)]) u"
    by (rule eval_stack_push [OF rep shows_top prim_entry_ok [OF entry_image_ok(1)] flat _ room])
       (simp add: prim_entry_def top apart_def)
  with peek show ?thesis by auto
qed

section \<open>Values\<close>

text \<open>
  C20: a binary operator instruction on two values of primitive types, for the operators that have an
  instruction of their own in \<open>binary_operator\<close> (all but \<^verbatim>\<open>!=\<close>, \<^verbatim>\<open><=\<close> and \<^verbatim>\<open>>=\<close>, whose boxes stay in the heap) and
  the operands for which the machine does not look for an operator method. The instruction pops both
  and pushes what the operator means for them: wrapping 64-bit integers, doubles as soon as one operand
  is one, the comparisons and the shifts; or it throws (division by zero; a divisor that is a
  character, byte or native integer); or it is undefined (quotient overflow, shift by 64 or more). The
  object made for the result is released again: nothing but the frame changes.
\<close>

theorem binary_operator_instruction:
  assumes "prim_rep img depth s0 f (stk @ [a, b]) locs s" "primitives_ok img" "allocator_ok img"
    and "binary_operator k = Some op" and "machine_binary (img_double img) op a b \<noteq> Unhandled"
  shows "case machine_binary (img_double img) op a b of
      Value p \<Rightarrow> \<exists>t. ProcessMath img (Suc n) run f k s = Ret () t \<and> prim_rep img depth s0 f (stk @ [p]) locs t
    | Fails e \<Rightarrow> \<exists>t. ProcessMath img (Suc n) run f k s = Throw e t \<and> prim_rep img depth s0 f stk locs t
    | Crashes \<Rightarrow> ProcessMath img (Suc n) run f k s = Undefined
    | Unhandled \<Rightarrow> False"
proof -
  have op: "op \<in> set boxless_operators" and math: "ProcessMath img (Suc n) run f k = executeBinary img (Suc n) run f (Op op)"
    using ProcessMath_operator(1) [OF assms(4)] by blast+
  show ?thesis
    unfolding math using executeBinary_prim [OF assms(1-3) op, of n run] assms(5)
    by (cases "machine_binary (img_double img) op a b") (simp_all only: gives_verdict_def verdict.case simp_thms)
qed

text \<open>
  C22: a store into a local slot and a load from it. \<^verbatim>\<open>STORE_LOCAL\<close> followed by \<^verbatim>\<open>LOAD_LOCAL\<close> of the slot
  gives the value back, whatever the slot held before, and no other slot changes.
\<close>

theorem store_then_load:
  assumes rep: "prim_rep img depth s0 f (stk @ [p]) locs s" and ok: "primitives_ok img" and i: "unat slot < length locs"
  shows "\<exists>v s1 t w. PopStack img f s = Ret v s1 \<and> SetLocal img n f (unat slot) v s1 = Ret () t
    \<and> prim_rep img depth s0 f stk (locs[unat slot := Some p]) t
    \<and> GetLocal img f (unat slot) t = Ret w t \<and> shows_prim img (vm_memory t) w p"
proof -
  let ?s1 = "set_frame f pop_cursor s" and ?v = "stack_view img f s (length stk) p"
  have v: "shows_prim img (vm_memory ?s1) ?v p"
    using stack_view_shows [of img depth s0 f stk p "[]" locs s] rep by simp
  obtain t where t: "SetLocal img n f (unat slot) ?v ?s1 = Ret () t" "prim_rep img depth s0 f stk (locs[unat slot := Some p]) t"
    using SetLocal_prim [OF prim_rep_pop [OF rep] ok i v] by (auto simp: stack_view_def)
  moreover have "unat slot < length (locs[unat slot := Some p])" "locs[unat slot := Some p] ! unat slot = Some p"
    using i by simp_all
  then obtain w where "GetLocal img f (unat slot) t = Ret w t" "shows_prim img (vm_memory t) w p"
    using GetLocal_prim [OF t(2) ok] by blast
  ultimately show ?thesis using PopStack_prim [OF rep] by blast
qed

lemma entry_two_values:
  "prim_rep (entry_image loop_program) 8 (entered (entry_image loop_program) 1 4096 (started small_vm)) 4096
      ([] @ [VInt 7, VInt 9]) [None, None]
      (push_prim (entry_image loop_program) 4096 (VInt 9) (push_prim (entry_image loop_program) 4096 (VInt 7)
        (entered (entry_image loop_program) 1 4096 (started small_vm))))"
proof -
  have "prim_rep (entry_image loop_program) 8 (entered (entry_image loop_program) 1 4096 (started small_vm)) 4096
      (([] @ [VInt 7]) @ [VInt 9]) [None, None]
      (push_prim (entry_image loop_program) 4096 (VInt 9) (push_prim (entry_image loop_program) 4096 (VInt 7)
        (entered (entry_image loop_program) 1 4096 (started small_vm))))"
    by (intro prim_rep_push entry_image_ok entry_rep example_programs_ok) simp_all
  then show ?thesis by simp
qed

theorem binary_operator_instruction_witness:
  "\<exists>t. ProcessMath (entry_image loop_program) 1 (run_code (entry_image loop_program) 1) 4096 MATH_SUBTRACT
       (push_prim (entry_image loop_program) 4096 (VInt 9) (push_prim (entry_image loop_program) 4096 (VInt 7)
         (entered (entry_image loop_program) 1 4096 (started small_vm)))) = Ret () t
     \<and> prim_rep (entry_image loop_program) 8 (entered (entry_image loop_program) 1 4096 (started small_vm)) 4096
         [VInt (-2)] [None, None] t"
  using binary_operator_instruction [OF entry_two_values entry_image_ok, of MATH_SUBTRACT SubOperator 0
      "run_code (entry_image loop_program) 1"]
  by (simp add: machine_binary_def arith_def the_int_def del: run_code.simps)

theorem store_then_load_witness:
  "\<exists>v s1 t w. PopStack (entry_image loop_program) 4096
       (push_prim (entry_image loop_program) 4096 (VInt 9) (push_prim (entry_image loop_program) 4096 (VInt 7)
         (entered (entry_image loop_program) 1 4096 (started small_vm)))) = Ret v s1
     \<and> SetLocal (entry_image loop_program) 1 4096 1 v s1 = Ret () t
     \<and> GetLocal (entry_image loop_program) 4096 1 t = Ret w t
     \<and> shows_prim (entry_image loop_program) (vm_memory t) w (VInt 9)"
proof -
  have "prim_rep (entry_image loop_program) 8 (entered (entry_image loop_program) 1 4096 (started small_vm)) 4096
      ([VInt 7] @ [VInt 9]) [None, None]
      (push_prim (entry_image loop_program) 4096 (VInt 9) (push_prim (entry_image loop_program) 4096 (VInt 7)
        (entered (entry_image loop_program) 1 4096 (started small_vm))))"
    using entry_two_values by simp
  from store_then_load [OF this entry_image_ok(1), of 1 1] show ?thesis by auto
qed

section \<open>Exceptions\<close>

text \<open>
  C16: an exception raised in a frame that has handlers goes to the innermost one, when the frame's
  stack holds primitive values and no deferred expression was registered since the handler was:
  execution resumes at that handler's offset, the handler is removed, the evaluation stack holds a
  reference to the exception object and nothing else, that object's reference count is one higher, and
  it is the frame's current exception. Without a handler and without deferred expressions the exception
  stays raised and the loop of the method is told to stop.
\<close>

theorem exception_dispatch:
  assumes "primitives_ok img" "stack_rep img f (map (prim_entry img) stk) s"
    and "fr_CurrentException (frame_of f s) = exception" "\<not> IsNullInstance exception"
    and "length (dec_code d) < 2 ^ 63"
  shows "(\<forall>outer target base. fr_ExceptionHandlers (frame_of f s) = outer @ [(target, base)]
      \<and> length (fr_DeferStack (frame_of f s)) \<le> base \<and> target \<le> length (dec_code d)
      \<and> exception_object img f exception s \<longrightarrow>
      (\<exists>t. HandleExceptionInFrame img (Suc n) run f d s = Ret (True, d\<lparr>dec_ip := target\<rparr>) t
         \<and> fr_InterruptionReason (frame_of f t) = NoReason \<and> fr_CurrentException (frame_of f t) = exception
         \<and> stack_rep img f [Reference (m_shape exception) (m_rawMemoryPtr exception)] t
         \<and> (IsHeapBacked (vm_memory s) exception \<longrightarrow>
              getReferencesCounter (vm_memory t) exception = getReferencesCounter (vm_memory s) exception + 1)
         \<and> fr_ExceptionHandlers (frame_of f t) = outer))
    \<and> (fr_ExceptionHandlers (frame_of f s) = [] \<and> fr_DeferStack (frame_of f s) = [] \<longrightarrow>
      (\<exists>t. HandleExceptionInFrame img (Suc n) run f d s = Ret (False, d) t
         \<and> fr_InterruptionReason (frame_of f t) = ExceptionRaised \<and> fr_CurrentException (frame_of f t) = exception))"
proof (intro conjI allI impI)
  fix outer target base
  assume "fr_ExceptionHandlers (frame_of f s) = outer @ [(target, base)]
      \<and> length (fr_DeferStack (frame_of f s)) \<le> base \<and> target \<le> length (dec_code d) \<and> exception_object img f exception s"
  then show "\<exists>t. HandleExceptionInFrame img (Suc n) run f d s = Ret (True, d\<lparr>dec_ip := target\<rparr>) t
         \<and> fr_InterruptionReason (frame_of f t) = NoReason \<and> fr_CurrentException (frame_of f t) = exception
         \<and> stack_rep img f [Reference (m_shape exception) (m_rawMemoryPtr exception)] t
         \<and> (IsHeapBacked (vm_memory s) exception \<longrightarrow>
              getReferencesCounter (vm_memory t) exception = getReferencesCounter (vm_memory s) exception + 1)
         \<and> fr_ExceptionHandlers (frame_of f t) = outer"
    using HandleException_caught [OF assms(1-4) _ _ _ assms(5)] unfolding in_handler_def by blast
next
  assume "fr_ExceptionHandlers (frame_of f s) = [] \<and> fr_DeferStack (frame_of f s) = []"
  then show "\<exists>t. HandleExceptionInFrame img (Suc n) run f d s = Ret (False, d) t
         \<and> fr_InterruptionReason (frame_of f t) = ExceptionRaised \<and> fr_CurrentException (frame_of f t) = exception"
    using HandleException_uncaught [OF assms(1-4)] by blast
qed

definition raising_vm :: vm where
  "raising_vm = set_frame 4096 (\<lambda>fr. fr\<lparr>fr_CurrentException := \<lparr>m_shape = 9, m_rawMemoryPtr = 64\<rparr>,
       fr_ExceptionHandlers := [(24, 0), (14, 0)]\<rparr>)
     (entered (entry_image loop_program) 1 4096 (started small_vm))"

theorem exception_dispatch_witness:
  "\<exists>t. HandleExceptionInFrame (entry_image loop_program) 1 (run_code (entry_image loop_program) 1) 4096
         (decoder_at loop_program 0) raising_vm = Ret (True, decoder_at loop_program 14) t
     \<and> fr_ExceptionHandlers (frame_of 4096 t) = [(24, 0)]
     \<and> stack_rep (entry_image loop_program) 4096 [Reference 9 64] t"
proof -
  let ?img = "entry_image loop_program" and ?x = "\<lparr>m_shape = 9, m_rawMemoryPtr = 64\<rparr> :: ObjectInstance"
  let ?d = "decoder_at loop_program 0"
  have rep: "stack_rep ?img 4096 (map (prim_entry ?img) []) raising_vm"
    using entry_rep [OF example_programs_ok(1)] by (simp add: prim_rep_def stack_rep_def Let_def raising_vm_def)
  have current: "fr_CurrentException (frame_of 4096 raising_vm) = ?x" and nonnull: "\<not> IsNullInstance ?x"
    by (simp_all add: raising_vm_def IsNullInstance_def)
  have size: "length (dec_code ?d) = 98" by (simp add: decoder_at_def loop_size)
  then have small: "length (dec_code ?d) < 2 ^ 63" by simp
  have "exception_object ?img 4096 ?x raising_vm"
    by (simp add: exception_object_def raising_vm_def shape_IsReferenceType_def IsReferenceType_def apart_def
        entry_layout small_types_def ResolvePrimitives_def small_Primitives_def)
  moreover have "fr_ExceptionHandlers (frame_of 4096 raising_vm) = [(24, 0)] @ [(14, 0)]"
    "length (fr_DeferStack (frame_of 4096 raising_vm)) \<le> 0"
    by (simp_all add: raising_vm_def created_frame_def Let_def)
  ultimately have "\<exists>t. HandleExceptionInFrame ?img (Suc 0) (run_code ?img 1) 4096 ?d raising_vm
        = Ret (True, ?d\<lparr>dec_ip := 14\<rparr>) t \<and> stack_rep ?img 4096 [Reference (m_shape ?x) (m_rawMemoryPtr ?x)] t
      \<and> fr_ExceptionHandlers (frame_of 4096 t) = [(24, 0)]"
    using exception_dispatch [OF entry_image_ok(1) rep current nonnull small, THEN conjunct1,
        of 0 "run_code ?img 1", rule_format, of "[(24, 0)]" 14 0] size by (auto simp del: run_code.simps)
  then show ?thesis by (auto simp: decoder_at_def simp del: run_code.simps)
qed

section \<open>The life of frames\<close>

text \<open>
  C13: from a machine without frames and task records, through any sequence of calls entered and
  left, tasks marked, bound to frames of the call stack and released, and records erased: every
  frame on the call stack and every frame that owns a task is in a live block, its owners are
  counted exactly, and a frame that is neither on the stack nor an owner has been let go by all.
\<close>

theorem frames_never_dangle:
  assumes "frame_reachable img s" "allocator_ok img" "f \<noteq> 0"
  shows "fr_UseCount (frame_of f s) = card (owned_by s f) + (if f \<in> set (vm_CallStack s) then 1 else 0)
    \<and> (f \<in> set (vm_CallStack s) \<or> owned_by s f \<noteq> {} \<longrightarrow> f \<in> fst ` set (vm_blocks s))
    \<and> card (owned_by s f) \<le> fr_PendingTaskCount (frame_of f s)"
proof -
  have ok: "frame_ok 0 s f" using frames_ok_reachable [OF assms(1,2)] assms(3) by (simp add: frames_ok_def)
  then have "0 < uses s f" if "f \<in> set (vm_CallStack s) \<or> owned_by s f \<noteq> {}"
    using that by (auto simp: frame_ok_def uses_def card_gt_0_iff)
  with ok show ?thesis by (auto simp: frame_ok_def uses_def)
qed

definition waiting_vm :: vm where
  "waiting_vm = BindToFrame \<lparr>m_shape = 9, m_rawMemoryPtr = 64\<rparr> 4096 (entered (entry_image loop_program) 1 4096 small_vm)"

lemmas bind_defs = BindToFrame_def ReleaseFrameOwner_def async_update_def GetFrameOwner_def async_lookup_def
  AsyncRecord_new_def IsNullInstance_def drop_frame_def Let_def set_frame_def

theorem frames_never_dangle_witness:
  "owned_by waiting_vm 4096 = {64} \<and> fr_UseCount (frame_of 4096 waiting_vm) = 2 \<and> 4096 \<in> fst ` set (vm_blocks waiting_vm)"
proof -
  let ?img = "entry_image loop_program"
  let ?s = "entered ?img 1 4096 small_vm"
  have "frame_reachable ?img small_vm"
    by (rule frame_reachable.fresh) (simp_all add: small_vm_def frame_of_def)
  moreover have "PushFrame ?img 1 small_vm = Ret 4096 ?s"
    by (rule PushFrame_eq [of _ _ loop_program, OF _ entry_image_ok(1)])
       (simp_all add: entry_prim_method example_programs_ok entry_layout bump_alloc_def, simp_all add: small_vm_def)
  ultimately have "frame_reachable ?img ?s" by (blast intro: frame_reachable.frame_step frame_step.enter)
  moreover have stack: "4096 \<in> set (vm_CallStack ?s)" by simp
  ultimately have reach: "frame_reachable ?img waiting_vm"
    unfolding waiting_vm_def by (blast intro: frame_reachable.frame_step frame_step.bind_frame)
  have own: "owned_by waiting_vm 4096 = {64}"
    by (auto simp: owned_by_def owner_at_def waiting_vm_def bind_defs entered_def small_vm_def)
  have "4096 \<in> set (vm_CallStack waiting_vm)"
    by (simp add: waiting_vm_def bind_defs entered_def small_vm_def)
  with own frames_never_dangle [OF reach entry_image_ok(2), of 4096] show ?thesis by simp
qed

end
