(* ===== verification/CompiledPrograms.thy ===== *)
theory CompiledPrograms
  imports SourceSemantics
begin

text \<open>
  The generated code does what the source program means: a run of the code from its start reaches its
  end with the value on the stack and the store in the locals, or fails in the same way. The stack
  never grows beyond the depth the tracker has published.
\<close>

section \<open>Runs of code inside a program\<close>

definition leads :: "double_ops \<Rightarrow> nat \<Rightarrow> Instruction list \<Rightarrow> prim_cfg \<Rightarrow> prim_cfg \<Rightarrow> bool" where
  "leads D depth is c c' \<longleftrightarrow> (\<exists>k. \<forall>j. run_cfg D depth is (k + j) c = run_cfg D depth is j c')"

definition ends :: "double_ops \<Rightarrow> nat \<Rightarrow> Instruction list \<Rightarrow> prim_cfg \<Rightarrow> prim_result \<Rightarrow> bool" where
  "ends D depth is c r \<longleftrightarrow> (\<exists>k. \<forall>j. run_cfg D depth is (k + j) c = Some r)"

lemma leads_refl [simp]: "leads D depth is c c"
  unfolding leads_def by (rule exI [of _ 0]) simp

lemma leads_trans [trans]: "leads D depth is c c1 \<Longrightarrow> leads D depth is c1 c2 \<Longrightarrow> leads D depth is c c2"
  unfolding leads_def by (metis add.assoc)

lemma leads_ends: "leads D depth is c c1 \<Longrightarrow> ends D depth is c1 r \<Longrightarrow> ends D depth is c r"
  unfolding leads_def ends_def by (metis add.assoc)

lemma step_leads:
  assumes "cf_pc c < code_length is" "step_cfg D depth is c = Next c'"
  shows "leads D depth is c c'"
  unfolding leads_def using assms by (intro exI [of _ 1]) simp

lemma step_ends:
  assumes "cf_pc c < code_length is"
  shows "step_cfg D depth is c = Raises e \<Longrightarrow> ends D depth is c (Failed e)"
    and "step_cfg D depth is c = Traps \<Longrightarrow> ends D depth is c Trapped"
  unfolding ends_def using assms by (intro exI [of _ 1], simp)+

text \<open>\<open>runs\<close>: what happens from a configuration is what an ending says, with a postcondition for values.\<close>

definition runs ::
  "double_ops \<Rightarrow> nat \<Rightarrow> Instruction list \<Rightarrow> prim_cfg \<Rightarrow> 'a ending option \<Rightarrow> ('a \<Rightarrow> prim_cfg \<Rightarrow> bool) \<Rightarrow> bool" where
  "runs D depth is c r Q =
     (case r of
        None \<Rightarrow> True
      | Some (Gives x) \<Rightarrow> \<exists>c'. leads D depth is c c' \<and> Q x c'
      | Some (Threw e) \<Rightarrow> ends D depth is c (Failed e)
      | Some Crashed \<Rightarrow> ends D depth is c Trapped)"

lemma runs_Gives_iff: "runs D depth is c (Some (Gives x)) Q = (\<exists>c'. leads D depth is c c' \<and> Q x c')"
  by (simp add: runs_def)

lemma runs_simps [simp]:
  "runs D depth is c None Q"
  "runs D depth is c (Some (Threw e)) Q = ends D depth is c (Failed e)"
  "runs D depth is c (Some Crashed) Q = ends D depth is c Trapped"
  by (simp_all add: runs_def)

lemma runs_Gives: "Q x c \<Longrightarrow> runs D depth is c (Some (Gives x)) Q"
  by (auto simp: runs_Gives_iff intro: leads_refl)

lemma runs_leads: "leads D depth is c c1 \<Longrightarrow> runs D depth is c1 r Q \<Longrightarrow> runs D depth is c r Q"
  by (auto simp: runs_def intro: leads_trans leads_ends split: option.splits ending.splits)

lemma runs_and_then:
  assumes "runs D depth is c r Q" "\<And>x c'. Q x c' \<Longrightarrow> runs D depth is c' (g x) Q'"
  shows "runs D depth is c (and_then r g) Q'"
proof (cases r)
  case (Some y)
  then show ?thesis
  proof (cases y)
    case (Gives x)
    with Some assms(1) obtain c' where "leads D depth is c c'" "Q x c'" by (auto simp: runs_Gives_iff)
    with Some Gives runs_leads [OF _ assms(2)] show ?thesis by simp
  qed (use Some assms(1) in simp_all)
qed simp

lemma and_then_return [simp]: "and_then r (\<lambda>x. Some (Gives x)) = r"
  by (simp add: and_then_def split: option.split ending.split)

lemma runs_weaken: "runs D depth is c r Q \<Longrightarrow> (\<And>x c'. Q x c' \<Longrightarrow> Q' x c') \<Longrightarrow> runs D depth is c r Q'"
  by (auto simp: runs_def split: option.splits ending.splits)

section \<open>Code at an address\<close>

definition code_at :: "Instruction list \<Rightarrow> nat \<Rightarrow> Instruction list \<Rightarrow> bool" where
  "code_at is a js \<longleftrightarrow> (\<exists>pre post. is = pre @ js @ post \<and> a = code_length pre)"

lemma code_at_append: "code_at is a (js @ ks) \<Longrightarrow> code_at is a js \<and> code_at is (a + code_length js) ks"
  unfolding code_at_def
proof (elim exE conjE)
  fix pre post assume is_def: "is = pre @ (js @ ks) @ post" and a: "a = code_length pre"
  then have "is = pre @ js @ ks @ post \<and> a = code_length pre" "is = (pre @ js) @ ks @ post \<and> a + code_length js = code_length (pre @ js)"
    by simp_all
  then show "(\<exists>pre post. is = pre @ js @ post \<and> a = code_length pre) \<and>
      (\<exists>pre post. is = pre @ ks @ post \<and> a + code_length js = code_length pre)" by blast
qed

lemma code_at_Cons: "code_at is a (i # ks) \<Longrightarrow> code_at is a [i] \<and> code_at is (a + length (instruction_bytes i)) ks"
  using code_at_append [of "is" a "[i]" ks] by simp

lemma code_at_Cons2: "code_at is a (i # j # ks) \<Longrightarrow> code_at is a [i] \<and> code_at is (a + length (instruction_bytes i)) (j # ks)"
  by (rule code_at_Cons)

lemma code_at_after:
  assumes "code_at is a (js @ i # ks @ ls)" "b = a + code_length js + length (instruction_bytes i)"
  shows "code_at is b ks" "code_at is (b + code_length ks) ls"
proof -
  from code_at_append [OF assms(1)] have "code_at is (a + code_length js) (i # ks @ ls)" by simp
  from code_at_Cons [OF this] have "code_at is b (ks @ ls)" by (simp add: assms(2))
  from code_at_append [OF this] show "code_at is b ks" "code_at is (b + code_length ks) ls" by simp_all
qed

lemma code_at_two_branches:
  assumes "code_at is a (js @ i # ks @ j # ls)"
  shows "code_at is a js" "code_at is (a + code_length js) [i]"
    "code_at is (a + code_length js + length (instruction_bytes i)) ks"
    "code_at is (a + code_length js + length (instruction_bytes i) + code_length ks) [j]"
    "code_at is (a + code_length js + length (instruction_bytes i) + code_length ks + length (instruction_bytes j)) ls"
proof -
  from code_at_append [OF assms] have 1: "code_at is a js" "code_at is (a + code_length js) (i # ks @ j # ls)" by simp_all
  from code_at_Cons [OF 1(2)] have 2: "code_at is (a + code_length js) [i]"
    "code_at is (a + code_length js + length (instruction_bytes i)) (ks @ j # ls)" by simp_all
  from code_at_append [OF 2(2)] have 3: "code_at is (a + code_length js + length (instruction_bytes i)) ks"
    "code_at is (a + code_length js + length (instruction_bytes i) + code_length ks) (j # ls)" by simp_all
  from 1(1) 2(1) 3(1) code_at_Cons [OF 3(2)]
  show "code_at is a js" "code_at is (a + code_length js) [i]"
    "code_at is (a + code_length js + length (instruction_bytes i)) ks"
    "code_at is (a + code_length js + length (instruction_bytes i) + code_length ks) [j]"
    "code_at is (a + code_length js + length (instruction_bytes i) + code_length ks + length (instruction_bytes j)) ls"
    by simp_all
qed

lemma code_at_end: "code_at is a js \<Longrightarrow> a + code_length js \<le> code_length is"
  by (auto simp: code_at_def)

lemma instruction_at_skip: "instruction_at (pre @ is) (code_length pre + a) = instruction_at is a"
proof (induction pre)
  case (Cons i pre)
  then show ?case using instruction_bytes_nonempty [of i] by (auto simp: add.assoc)
qed simp

lemma code_at_fetch:
  assumes "code_at is a (i # js)"
  shows "instruction_at is a = Some i" "a < code_length is"
proof -
  obtain pre post where "is = pre @ (i # js) @ post" "a = code_length pre" using assms by (auto simp: code_at_def)
  then show "instruction_at is a = Some i"
    using instruction_at_skip [of pre "(i # js) @ post" 0] by simp
  then show "a < code_length is" by (rule instruction_at_EOF)
qed

section \<open>Steps\<close>

abbreviation cfg :: "nat \<Rightarrow> prim list \<Rightarrow> prim option list \<Rightarrow> prim_cfg" where
  "cfg a stk locs \<equiv> \<lparr>cf_pc = a, cf_stack = stk, cf_locals = locs\<rparr>"

lemma length_local [simp]:
  "length (instruction_bytes (load_local s)) = 4" "length (instruction_bytes (store_local s)) = 4"
  by (simp_all add: load_local_def store_local_def)

lemma constant_runs:
  assumes "code_at is a [Instruction (Ko k) args]" "constant_value k args = Some p" "length stk < depth"
  shows "leads D depth is (cfg a stk locs) (cfg (a + length (instruction_bytes (Instruction (Ko k) args))) (stk @ [p]) locs)"
  using code_at_fetch [OF assms(1)] assms(2,3)
  by (intro step_leads) (simp_all add: step_cfg_def step_constant_def push_cfg_def)

lemma dup_runs:
  assumes "code_at is a [Instruction (Ko DUP) []]" "length stk + 1 < depth"
  shows "leads D depth is (cfg a (stk @ [p]) locs) (cfg (a + 2) (stk @ [p, p]) locs)"
  using code_at_fetch [OF assms(1)] assms(2)
  by (intro step_leads) (simp_all add: step_cfg_def step_constant_def constant_value_def push_cfg_def)

lemma store_runs:
  assumes "code_at is a [store_local s]" "unat s < length locs"
  shows "leads D depth is (cfg a (stk @ [p]) locs) (cfg (a + 4) stk (locs[unat s := Some p]))"
  using code_at_fetch [OF assms(1)] assms(2)
  by (intro step_leads) (simp_all add: step_cfg_def step_constant_def constant_value_def store_local_def store_cfg_def pop_cfg_def)

lemma math_runs:
  assumes "code_at is a [Instruction (Mo k) []]" "binary_operator k = Some op" "length stk < depth"
  shows "runs D depth is (cfg a (stk @ [p, q]) locs) (verdict_ending (machine_binary D op p q))
    (\<lambda>v c'. c' = cfg (a + 2) (stk @ [v]) locs)"
  using code_at_fetch [OF assms(1)] assms(2,3)
  by (cases "machine_binary D op p q")
    (auto intro!: step_leads step_ends simp: runs_Gives_iff step_cfg_def step_math_def verdict_cfg_def push_cfg_def pop_cfg_def butlast_append)

lemma unary_runs:
  assumes "code_at is a [Instruction (Mo k) []]" "binary_operator k = None" "unary_operator k = Some op" "length stk < depth"
  shows "runs D depth is (cfg a (stk @ [p]) locs) (verdict_ending (prim_unary D op p))
    (\<lambda>v c'. c' = cfg (a + 2) (stk @ [v]) locs)"
  using code_at_fetch [OF assms(1)] assms(2-)
  by (cases "prim_unary D op p")
    (auto intro!: step_leads step_ends simp: runs_Gives_iff step_cfg_def step_math_def verdict_cfg_def push_cfg_def pop_cfg_def)

text \<open>Jumps stay inside the code, whose size is a positive 64-bit number.\<close>

lemma jump_cfg_inside:
  assumes "t \<le> n" "n < 2 ^ 63"
  shows "jump_cfg n (of_nat t) c = Next (c\<lparr>cf_pc := t\<rparr>)"
proof -
  have u: "unat (of_nat t :: u64) = t" using assms by (simp add: unat_of_nat take_bit_nat_eq_self)
  moreover have "sint (of_nat t :: u64) = int t"
    using assms by (simp add: signed_of_nat signed_take_bit_int_eq_self)
  ultimately show ?thesis using assms by (simp add: jump_cfg_def)
qed

lemma jump_runs:
  assumes "code_at is a [jump_instruction JUMP t]" "t \<le> code_length is" "code_length is < 2 ^ 63"
  shows "leads D depth is (cfg a stk locs) (cfg t stk locs)"
  using code_at_fetch [OF assms(1)] assms(2,3)
  by (intro step_leads) (simp_all add: step_cfg_def step_control_def jump_instruction_def jump_cfg_inside)

lemma conditional_jump_runs:
  assumes "code_at is a [jump_instruction (exit_jump b) t]" "t \<le> code_length is" "code_length is < 2 ^ 63" "n = a + 10"
  shows "runs D depth is (cfg a (stk @ [p]) locs) (truth p) (\<lambda>v c'. c' = cfg (if v = b then n else t) stk locs)"
  using code_at_fetch [OF assms(1)] assms(2-)
  by (cases p) (auto intro!: step_leads step_ends
      simp: runs_Gives_iff step_cfg_def step_control_def jump_instruction_def jump_cfg_inside pop_cfg_def exit_jump_def)

lemma return_runs:
  assumes "code_at is a [Instruction (Co RETURN) []]"
  shows "leads D depth is (cfg a stk locs) (cfg (code_length is) stk locs)"
  using code_at_fetch [OF assms(1)] by (intro step_leads) (simp_all add: step_cfg_def step_control_def)

section \<open>The store in the locals\<close>

definition placed :: "(ptr \<Rightarrow> u16) \<Rightarrow> ptr set \<Rightarrow> store \<Rightarrow> prim option list \<Rightarrow> bool" where
  "placed slot X \<sigma> locs \<longleftrightarrow>
     inj_on slot X \<and> (\<forall>x\<in>X. unat (slot x) < length locs \<and> locs ! unat (slot x) = \<sigma> x)"

lemma placed_update:
  assumes "placed slot X \<sigma> locs" "x \<in> X"
  shows "placed slot X (\<sigma>(x \<mapsto> p)) (locs[unat (slot x) := Some p])"
  using assms by (auto simp: placed_def nth_list_update word_unat_eq_iff [symmetric] inj_on_def)

lemma load_runs:
  assumes "code_at is a [load_local (slot x)]" "placed slot X \<sigma> locs" "x \<in> X" "length stk < depth"
  shows "runs D depth is (cfg a stk locs) (read_variable x \<sigma>) (\<lambda>p c'. c' = cfg (a + 4) (stk @ [p]) locs)"
  using code_at_fetch [OF assms(1)] assms(2-)
  by (cases "\<sigma> x") (auto intro!: step_leads step_ends
      simp: runs_Gives_iff read_variable_def placed_def step_cfg_def step_constant_def constant_value_def load_local_def load_cfg_def push_cfg_def)

section \<open>Expressions\<close>

definition value_at :: "(ptr \<Rightarrow> u16) \<Rightarrow> ptr set \<Rightarrow> nat \<Rightarrow> prim list \<Rightarrow> prim \<times> store \<Rightarrow> prim_cfg \<Rightarrow> bool" where
  "value_at slot X a stk r c \<longleftrightarrow> (\<exists>locs. placed slot X (snd r) locs \<and> c = cfg a (stk @ [fst r]) locs)"

lemma value_atI: "placed slot X \<sigma> locs \<Longrightarrow> value_at slot X a stk (p, \<sigma>) (cfg a (stk @ [p]) locs)"
  by (auto simp: value_at_def)

lemma runs_value_then:
  assumes "runs D depth is c r (value_at slot X a stk)"
    and "\<And>p \<sigma> locs. placed slot X \<sigma> locs \<Longrightarrow> runs D depth is (cfg a (stk @ [p]) locs) (g (p, \<sigma>)) Q"
  shows "runs D depth is c (and_then r g) Q"
  using assms(1) by (rule runs_and_then) (auto simp: value_at_def intro: assms(2))

lemma math_of_operator:
  assumes "math_of op = Some k" "op \<in> set boxless_operators"
  shows "binary_operator k = Some op"
  using assms by (cases op) (auto simp: math_of_def boxless_operators_def)

lemma apply_binary_runs:
  assumes "code_at is a [Instruction (Mo k) []]" "math_of op = Some k" "length stk < depth"
  shows "runs D depth is (cfg a (stk @ [p, q]) locs) (apply_binary D op p q) (\<lambda>v c'. c' = cfg (a + 2) (stk @ [v]) locs)"
  using math_runs [OF assms(1) math_of_operator [OF assms(2)] assms(3), of D p q locs] by (simp add: apply_binary_def)

text \<open>The two forms of a step by one; \<open>math\<close> is its instruction.\<close>

lemma one_constant: "constant_value LOADCONST_INTEGER64 [U64 1] = Some (VInt 1)"
  by (simp add: constant_value_def)

lemma step_after_runs:
  assumes code: "code_at is (a + 4) [Instruction (Ko LOADCONST_INTEGER64) [U64 1]]" "code_at is (a + 14) [Instruction (Mo math) []]"
      "code_at is (a + 16) [Instruction (Ko DUP) []]" "code_at is (a + 18) [store_local (slot x)]"
    and math: "math_of op = Some math" and at: "placed slot X \<sigma> locs" "x \<in> X" and depth: "length stk + 2 \<le> depth"
  shows "runs D depth is (cfg (a + 4) (stk @ [p]) locs)
    (and_then (apply_binary D op p (VInt 1)) (\<lambda>q. Some (Gives (q, \<sigma>(x \<mapsto> q))))) (value_at slot X (a + 22) stk)"
proof -
  have in_range: "unat (slot x) < length locs" using at by (simp add: placed_def)
  have "leads D depth is (cfg (a + 4) (stk @ [p]) locs) (cfg (a + 14) (stk @ [p, VInt 1]) locs)"
    using constant_runs [OF code(1) one_constant, of "stk @ [p]" depth D locs] depth by (simp add: add.commute)
  then show ?thesis
  proof (rule runs_leads [OF _ runs_and_then [OF apply_binary_runs [OF code(2) math]]])
    show "length stk < depth" using depth by simp
    fix q c' assume c': "c' = cfg (a + 14 + 2) (stk @ [q]) locs"
    then have "leads D depth is c' (cfg (a + 18) ((stk @ [q]) @ [q]) locs)"
      using dup_runs [OF code(3), of stk depth D q locs] depth by (simp add: add.commute)
    also have "leads D depth is (cfg (a + 18) ((stk @ [q]) @ [q]) locs) (cfg (a + 22) (stk @ [q]) (locs[unat (slot x) := Some q]))"
      using store_runs [OF code(4) in_range, of D depth "stk @ [q]" q] by (simp add: add.commute)
    finally show "runs D depth is c' (Some (Gives (q, \<sigma>(x \<mapsto> q)))) (value_at slot X (a + 22) stk)"
      using placed_update [OF at, of q] by (auto simp: runs_Gives_iff intro!: value_atI)
  qed
qed

lemma step_before_runs:
  assumes code: "code_at is (a + 4) [Instruction (Ko DUP) []]" "code_at is (a + 6) [Instruction (Ko LOADCONST_INTEGER64) [U64 1]]"
      "code_at is (a + 16) [Instruction (Mo math) []]" "code_at is (a + 18) [store_local (slot x)]"
    and math: "math_of op = Some math" and at: "placed slot X \<sigma> locs" "x \<in> X" and depth: "length stk + 3 \<le> depth"
  shows "runs D depth is (cfg (a + 4) (stk @ [p]) locs)
    (and_then (apply_binary D op p (VInt 1)) (\<lambda>q. Some (Gives (p, \<sigma>(x \<mapsto> q))))) (value_at slot X (a + 22) stk)"
proof -
  have in_range: "unat (slot x) < length locs" using at by (simp add: placed_def)
  have "leads D depth is (cfg (a + 4) (stk @ [p]) locs) (cfg (a + 6) (stk @ [p, p]) locs)"
    using dup_runs [OF code(1), of stk depth D p locs] depth by (simp add: add.commute)
  also have "leads D depth is (cfg (a + 6) (stk @ [p, p]) locs) (cfg (a + 16) ((stk @ [p]) @ [p, VInt 1]) locs)"
    using constant_runs [OF code(2) one_constant, of "stk @ [p, p]" depth D locs] depth by (simp add: add.commute)
  finally show ?thesis
  proof (rule runs_leads [OF _ runs_and_then [OF apply_binary_runs [OF code(3) math]]])
    show "length (stk @ [p]) < depth" using depth by simp
    fix q c' assume c': "c' = cfg (a + 16 + 2) ((stk @ [p]) @ [q]) locs"
    then have "leads D depth is c' (cfg (a + 22) (stk @ [p]) (locs[unat (slot x) := Some q]))"
      using store_runs [OF code(4) in_range, of D depth "stk @ [p]" q] by (simp add: add.commute)
    then show "runs D depth is c' (Some (Gives (p, \<sigma>(x \<mapsto> q)))) (value_at slot X (a + 22) stk)"
      using placed_update [OF at, of q] by (auto simp: runs_Gives_iff intro!: value_atI)
  qed
qed

lemma step_runs:
  assumes code: "code_at is a (step_code (slot x) increment right)" and at: "placed slot X \<sigma> locs" "x \<in> X"
    and depth: "length stk + (if right then 2 else 3) \<le> depth"
  shows "runs D depth is (cfg a stk locs) (eval D (EStep x increment (\<not> right)) \<sigma>)
    (value_at slot X (a + code_length (step_code (slot x) increment right)) stk)"
proof -
  define op where "op = (if increment then AddOperator else SubOperator)"
  define math where "math = (if increment then MATH_ADDITION else MATH_SUBTRACT)"
  have m: "math_of op = Some math" by (simp add: math_of_def op_def math_def)
  have len: "code_length (step_code (slot x) increment right) = 22" by (simp add: step_code_def Let_def)
  have first: "code_at is a [load_local (slot x)]" using code by (auto simp: step_code_def Let_def dest!: code_at_Cons)
  have "runs D depth is (cfg (a + 4) (stk @ [p]) locs)
      (and_then (apply_binary D op p (VInt 1)) (\<lambda>q. Some (Gives (if \<not> right then p else q, \<sigma>(x \<mapsto> q)))))
      (value_at slot X (a + 22) stk)" for p
  proof (cases right)
    case True
    with code have "code_at is (a + 4) [Instruction (Ko LOADCONST_INTEGER64) [U64 1]]" "code_at is (a + 14) [Instruction (Mo math) []]"
      "code_at is (a + 16) [Instruction (Ko DUP) []]" "code_at is (a + 18) [store_local (slot x)]"
      by (auto simp: step_code_def add.commute math_def dest!: code_at_Cons2)
    from step_after_runs [OF this m at] depth True show ?thesis by simp
  next
    case False
    with code have "code_at is (a + 4) [Instruction (Ko DUP) []]" "code_at is (a + 6) [Instruction (Ko LOADCONST_INTEGER64) [U64 1]]"
      "code_at is (a + 16) [Instruction (Mo math) []]" "code_at is (a + 18) [store_local (slot x)]"
      by (auto simp: step_code_def add.commute math_def dest!: code_at_Cons2)
    from step_before_runs [OF this m at] depth False show ?thesis by simp
  qed
  moreover have "length stk < depth" using depth by (simp split: if_splits)
  ultimately show ?thesis
    unfolding eval.simps len op_def [symmetric] by (intro runs_and_then [OF load_runs [OF first at]]) simp_all
qed

lemma unary_code_runs:
  assumes "code_at is a (unary_code op)" "op \<in> {SubOperator, AddOperator, NotOperator}" "length stk < depth"
  shows "runs D depth is (cfg a (stk @ [p]) locs) (apply_unary D op p)
    (\<lambda>v c'. c' = cfg (a + code_length (unary_code op)) (stk @ [v]) locs)"
  using assms unary_runs [of "is" a MATH_NEGATIVE SubOperator stk depth D p locs]
    unary_runs [of "is" a LOGICAL_NOT NotOperator stk depth D p locs]
  by (auto simp: unary_code_def apply_unary_def intro: runs_Gives)

lemma unary_exp_runs:
  assumes x: "runs D depth is c (eval D x \<sigma>) (value_at slot X b stk)" and code: "code_at is b (unary_code op)"
    and op: "op \<in> {SubOperator, AddOperator, NotOperator}" and depth: "length stk < depth"
  shows "runs D depth is c (eval D (EUnary op x) \<sigma>) (value_at slot X (b + code_length (unary_code op)) stk)"
  unfolding eval.simps
proof (rule runs_value_then [OF x])
  fix p \<sigma>' locs' assume at': "placed slot X \<sigma>' locs'"
  show "runs D depth is (cfg b (stk @ [p]) locs') (case (p, \<sigma>') of (p, \<sigma>) \<Rightarrow> and_then (apply_unary D op p) (\<lambda>q. Some (Gives (q, \<sigma>))))
      (value_at slot X (b + code_length (unary_code op)) stk)"
    unfolding prod.case
    by (rule runs_and_then [OF unary_code_runs [OF code op depth]]) (auto intro!: runs_Gives value_atI at')
qed

lemma binary_exp_runs:
  assumes l: "runs D depth is c (eval D l \<sigma>) (value_at slot X b stk)"
    and r: "\<And>p \<sigma> locs. placed slot X \<sigma> locs \<Longrightarrow>
      runs D depth is (cfg b (stk @ [p]) locs) (eval D r \<sigma>) (value_at slot X d (stk @ [p]))"
    and code: "code_at is d [Instruction (Mo k) []]" and k: "math_of op = Some k" and depth: "length stk < depth"
  shows "runs D depth is c (eval D (EBinary op l r) \<sigma>) (value_at slot X (d + 2) stk)"
  unfolding eval.simps
proof (rule runs_value_then [OF l], unfold prod.case)
  fix p \<sigma>1 locs1 assume at1: "placed slot X \<sigma>1 locs1"
  show "runs D depth is (cfg b (stk @ [p]) locs1)
      (and_then (eval D r \<sigma>1) (\<lambda>(q, \<sigma>). and_then (apply_binary D op p q) (\<lambda>v. Some (Gives (v, \<sigma>))))) (value_at slot X (d + 2) stk)"
  proof (rule runs_value_then [OF r [OF at1]], unfold prod.case)
    fix q \<sigma>2 locs2 assume at2: "placed slot X \<sigma>2 locs2"
    show "runs D depth is (cfg d ((stk @ [p]) @ [q]) locs2) (and_then (apply_binary D op p q) (\<lambda>v. Some (Gives (v, \<sigma>2))))
        (value_at slot X (d + 2) stk)"
      unfolding append.assoc append.simps
      by (rule runs_and_then [OF apply_binary_runs [OF code k depth]]) (auto intro!: runs_Gives value_atI at2)
  qed
qed

text \<open>A condition and the jump that leaves its branch.\<close>

definition tested_at ::
  "(ptr \<Rightarrow> u16) \<Rightarrow> ptr set \<Rightarrow> bool \<Rightarrow> nat \<Rightarrow> nat \<Rightarrow> prim list \<Rightarrow> bool \<times> store \<Rightarrow> prim_cfg \<Rightarrow> bool" where
  "tested_at slot X b yes no stk r c \<longleftrightarrow>
     (\<exists>locs. placed slot X (snd r) locs \<and> c = cfg (if fst r = b then yes else no) stk locs)"

lemma test_runs:
  assumes x: "runs D depth is c (eval D x \<sigma>) (value_at slot X a stk)"
    and code: "code_at is a [jump_instruction (exit_jump b) t]" "t \<le> code_length is" "code_length is < 2 ^ 63" "n = a + 10"
  shows "runs D depth is c (test D x \<sigma>) (tested_at slot X b n t stk)"
  unfolding test_def
proof (rule runs_value_then [OF x], unfold prod.case)
  fix p \<sigma>1 locs1 assume at1: "placed slot X \<sigma>1 locs1"
  show "runs D depth is (cfg a (stk @ [p]) locs1) (and_then (truth p) (\<lambda>b. Some (Gives (b, \<sigma>1)))) (tested_at slot X b n t stk)"
    by (rule runs_and_then [OF conditional_jump_runs [OF code]]) (auto intro!: runs_Gives at1 simp: tested_at_def)
qed

lemma runs_test_then:
  assumes "runs D depth is c (test D x \<sigma>) (tested_at slot X b yes no stk)"
    and "\<And>\<sigma> locs. placed slot X \<sigma> locs \<Longrightarrow> runs D depth is (cfg yes stk locs) (g (b, \<sigma>)) Q"
    and "\<And>\<sigma> locs. placed slot X \<sigma> locs \<Longrightarrow> runs D depth is (cfg no stk locs) (g (\<not> b, \<sigma>)) Q"
  shows "runs D depth is c (and_then (test D x \<sigma>) g) Q"
  using assms(1)
proof (rule runs_and_then)
  fix r c' assume "tested_at slot X b yes no stk r c'"
  then show "runs D depth is c' (g r) Q"
    using assms(2,3) by (cases r; cases "fst r = b") (auto simp: tested_at_def)
qed

lemma eval_ECond: "eval D (ECond c l r) \<sigma> = and_then (test D c \<sigma>) (\<lambda>(b, \<sigma>). if b then eval D l \<sigma> else eval D r \<sigma>)"
proof (cases "eval D c \<sigma>")
  case (Some y)
  then show ?thesis
  proof (cases y)
    case (Gives v)
    with Some show ?thesis by (cases v; cases "fst v") (simp_all add: test_def)
  qed (simp_all add: test_def)
qed (simp add: test_def)

lemma cond_exp_runs:
  assumes c: "runs D depth is conf (eval D c \<sigma>) (value_at slot X b stk)"
    and jump: "code_at is b [jump_instruction JUMP_FALSE ra]" "ra \<le> code_length is" "code_length is < 2 ^ 63" "la = b + 10"
    and l: "\<And>\<sigma> locs. placed slot X \<sigma> locs \<Longrightarrow> runs D depth is (cfg la stk locs) (eval D l \<sigma>) (value_at slot X d stk)"
    and over: "code_at is d [jump_instruction JUMP z]" "z \<le> code_length is"
    and r: "\<And>\<sigma> locs. placed slot X \<sigma> locs \<Longrightarrow> runs D depth is (cfg ra stk locs) (eval D r \<sigma>) (value_at slot X z stk)"
  shows "runs D depth is conf (eval D (ECond c l r) \<sigma>) (value_at slot X z stk)"
proof -
  have test: "runs D depth is conf (test D c \<sigma>) (tested_at slot X True la ra stk)"
    using jump by (intro test_runs [OF c]) (simp_all add: exit_jump_def)
  have taken: "runs D depth is (cfg la stk locs) (eval D l \<sigma>) (value_at slot X z stk)" if "placed slot X \<sigma> locs" for \<sigma> locs
  proof -
    have "runs D depth is (cfg la stk locs) (and_then (eval D l \<sigma>) (\<lambda>r. Some (Gives r))) (value_at slot X z stk)"
    proof (rule runs_value_then [OF l [OF that]])
      fix q \<sigma>2 locs2 assume "placed slot X \<sigma>2 locs2"
      then show "runs D depth is (cfg d (stk @ [q]) locs2) (Some (Gives (q, \<sigma>2))) (value_at slot X z stk)"
        by (intro runs_leads [OF jump_runs [OF over jump(3)]] runs_Gives value_atI)
    qed
    then show ?thesis by simp
  qed
  show ?thesis unfolding eval_ECond by (rule runs_test_then [OF test]) (simp_all add: r taken)
qed

lemma constant_exp_runs:
  assumes "code_at is a [Instruction (Ko k) args]" "constant_value k args = Some p" "length stk < depth" "placed slot X \<sigma> locs"
  shows "runs D depth is (cfg a stk locs) (Some (Gives (p, \<sigma>)))
    (value_at slot X (a + length (instruction_bytes (Instruction (Ko k) args))) stk)"
  by (rule runs_leads [OF constant_runs [OF assms(1-3)]]) (intro runs_Gives value_atI assms(4))

lemma literal_exp_runs:
  assumes "length stk < depth" "placed slot X \<sigma> locs"
  shows "code_at is a [Instruction (Ko LOADCONST_INTEGER64) [U64 i]] \<Longrightarrow>
      runs D depth is (cfg a stk locs) (Some (Gives (VInt i, \<sigma>))) (value_at slot X (a + 10) stk)"
    "code_at is a [Instruction (Ko LOADCONST_BOOLEAN) [U8 (of_bool b)]] \<Longrightarrow>
      runs D depth is (cfg a stk locs) (Some (Gives (VBool b, \<sigma>))) (value_at slot X (a + 3) stk)"
    "code_at is a [Instruction (Ko LOADCONST_CHAR) [U16 c]] \<Longrightarrow>
      runs D depth is (cfg a stk locs) (Some (Gives (VChar c, \<sigma>))) (value_at slot X (a + 4) stk)"
    "code_at is a [Instruction (Ko LOADCONST_RATIONAL64) [U64 d]] \<Longrightarrow>
      runs D depth is (cfg a stk locs) (Some (Gives (VDouble d, \<sigma>))) (value_at slot X (a + 10) stk)"
  using assms by (auto dest!: constant_exp_runs [OF _ _ assms] simp: constant_value_def)

lemma exp_runs:
  assumes small: "code_length is < 2 ^ 63"
  shows "exp_ok x \<Longrightarrow> no_steps x \<Longrightarrow> exp_vars x \<subseteq> X \<Longrightarrow> code_at is a (compile_exp slot x a) \<Longrightarrow> placed slot X \<sigma> locs \<Longrightarrow>
    length stk + exp_depth x \<le> depth \<Longrightarrow>
    runs D depth is (cfg a stk locs) (eval D x \<sigma>) (value_at slot X (a + code_length (compile_exp slot x a)) stk)"
proof (induction x arbitrary: a \<sigma> locs stk)
  case (EVar x)
  then have "runs D depth is (cfg a stk locs) (read_variable x \<sigma>) (\<lambda>p c'. c' = cfg (a + 4) (stk @ [p]) locs)"
    by (intro load_runs) auto
  then show ?case
    unfolding eval.simps by (rule runs_and_then) (auto intro!: runs_Gives value_atI EVar.prems)
next
  case (EStep x increment right)
  then show ?case by simp
next
  case (EUnary op x)
  let ?b = "a + code_length (compile_exp slot x a)"
  have code: "code_at is a (compile_exp slot x a)" "code_at is ?b (unary_code op)"
    using EUnary.prems(4) by (auto dest: code_at_append)
  have "length stk < depth" using EUnary.prems(6) exp_depth_pos [of x] by (simp del: exp_depth_pos)
  from unary_exp_runs [OF EUnary.IH [OF _ _ _ code(1)] code(2) _ this] EUnary.prems show ?case by (simp add: add.assoc)
next
  case (EBinary op l r)
  from EBinary.prems(1) obtain k where k: "math_of op = Some k" by auto
  let ?b = "a + code_length (compile_exp slot l a)"
  let ?d = "?b + code_length (compile_exp slot r ?b)"
  have code: "code_at is a (compile_exp slot l a)" "code_at is ?b (compile_exp slot r ?b)" "code_at is ?d [Instruction (Mo k) []]"
    using EBinary.prems(4) k by (auto simp: Let_def dest!: code_at_append)
  have "runs D depth is (cfg a stk locs) (eval D (EBinary op l r) \<sigma>) (value_at slot X (?d + 2) stk)"
    using EBinary.prems by (intro binary_exp_runs [OF EBinary.IH(1) [OF _ _ _ code(1)] EBinary.IH(2) [OF _ _ _ code(2)] code(3) k]) simp_all
  then show ?case by (simp add: Let_def k add.assoc)
next
  case (ECond c l r)
  define la where "la = a + code_length (compile_exp slot c a) + 10"
  define ra where "ra = la + code_length (compile_exp slot l la) + 10"
  define z where "z = ra + code_length (compile_exp slot r ra)"
  have code: "code_at is a (compile_exp slot c a)"
      "code_at is (a + code_length (compile_exp slot c a)) [jump_instruction JUMP_FALSE ra]"
      "code_at is la (compile_exp slot l la)"
      "code_at is (la + code_length (compile_exp slot l la)) [jump_instruction JUMP z]" "code_at is ra (compile_exp slot r ra)"
    using code_at_two_branches [of "is" a "compile_exp slot c a" "jump_instruction JUMP_FALSE ra" "compile_exp slot l la"
        "jump_instruction JUMP z" "compile_exp slot r ra"] ECond.prems(4)
    by (simp_all add: Let_def la_def ra_def z_def add.assoc)
  have bounds: "ra \<le> code_length is" "z \<le> code_length is" using code_at_end [OF code(5)] by (simp_all add: z_def)
  have z: "a + code_length (compile_exp slot (ECond c l r) a) = z"
    by (simp add: Let_def z_def ra_def la_def)
  show ?case
    unfolding z
    using ECond.prems ECond.IH(3) [OF _ _ _ code(5)]
    by (intro cond_exp_runs [OF ECond.IH(1) [OF _ _ _ code(1)] code(2) bounds(1) small la_def
          ECond.IH(2) [OF _ _ _ code(3)] code(4) bounds(2)]) (simp_all add: z_def)
qed (simp_all add: literal_exp_runs)

end
