(* ===== verification/CompiledStatements.thy ===== *)
theory CompiledStatements
  imports CompiledPrograms
begin

text \<open>
  The code of statements, blocks, clauses and loops, with the targets of its jumps filled in, runs as
  \<open>exec\<close> says.
\<close>

section \<open>Code with its targets\<close>

fun realise :: "nat \<Rightarrow> nat \<Rightarrow> nat \<Rightarrow> item \<Rightarrow> Instruction" where
  "realise tb tc te (Fixed i) = i"
| "realise tb tc te (ToBreak k) = jump_instruction k tb"
| "realise tb tc te ToContinue = jump_instruction JUMP tc"
| "realise tb tc te ToEnd = jump_instruction JUMP te"

lemma realise_settle [simp]:
  "realise tb tc te (settle is_break t i) = realise t tc te i"
  "realise tb tc te (settle is_continue t i) = realise tb t te i"
  "realise tb tc te (settle is_end t i) = realise tb tc t i"
  by (cases i; simp)+

lemma realise_Fixed [simp]: "realise tb tc te \<circ> Fixed = id"
  by (simp add: fun_eq_iff)

lemma realise_zero: "realise 0 0 0 = item_instruction 0"
proof
  show "realise 0 0 0 i = item_instruction 0 i" for i by (cases i) simp_all
qed

lemma realised_size [simp]: "code_length (map (realise tb tc te) items) = items_size items"
proof (induction items)
  case (Cons i items)
  then show ?case by (cases i) (simp_all add: item_size_def)
qed simp

lemma realise_close_loop:
  "map (realise tb tc te) (close_loop a start items) =
     map (realise (a + items_size items + 10) (a + items_size items) te) items @ [jump_instruction JUMP start]"
  by (simp add: close_loop_def Let_def)

lemma close_loop_size [simp]: "items_size (close_loop a start items) = items_size items + 10"
  by (simp add: close_loop_def Let_def del: map_map)

text \<open>The items of what is executed.\<close>

definition loop_items :: "(ptr \<Rightarrow> u16) \<Rightarrow> bool \<Rightarrow> exp \<Rightarrow> stm list \<Rightarrow> stm list \<Rightarrow> nat \<Rightarrow> item list" where
  "loop_items slot b c ss after a =
     (let cond = compile_exp slot c a; ba = a + code_length cond + 10; body = compile_stms slot ss ba in
      map Fixed cond @ ToBreak (exit_jump b) # body @ compile_stms slot after (ba + items_size body))"

fun code_items :: "(ptr \<Rightarrow> u16) \<Rightarrow> code \<Rightarrow> nat \<Rightarrow> item list" where
  "code_items slot (One s) a = compile_stm slot s a"
| "code_items slot (Many ss) a = compile_stms slot ss a"
| "code_items slot (Rest e) a = compile_else slot e a"
| "code_items slot (Loop b c ss after) a = close_loop a a (loop_items slot b c ss after a)"

fun code_vars :: "code \<Rightarrow> ptr set" where
  "code_vars (One s) = stm_vars s"
| "code_vars (Many ss) = \<Union> (set (map stm_vars ss))"
| "code_vars (Rest e) = else_vars e"
| "code_vars (Loop b c ss after) = exp_vars c \<union> \<Union> (set (map stm_vars ss)) \<union> \<Union> (set (map stm_vars after))"

fun code_agrees :: "code \<Rightarrow> bool" where
  "code_agrees (One s) \<longleftrightarrow> agrees s"
| "code_agrees (Many ss) \<longleftrightarrow> list_all agrees ss"
| "code_agrees (Rest e) \<longleftrightarrow> else_agrees e"
| "code_agrees (Loop b c ss after) \<longleftrightarrow>
     no_steps c \<and> list_all agrees ss \<and> list_all agrees after \<and> (after = [] \<or> Continued \<notin> block_flows ss)"

fun code_depth :: "code \<Rightarrow> nat" where
  "code_depth (One s) = stm_depth s"
| "code_depth (Many ss) = block_depth ss"
| "code_depth (Rest e) = else_depth e"
| "code_depth (Loop b c ss after) = max (exp_depth c) (max (block_depth ss) (block_depth after))"

lemma code_items_eq:
  "code_items slot (One (SIf b c ss rest)) a
     = map (settle is_end (a + items_size (code_items slot (Rest (ElseIf b c ss rest)) a))) (code_items slot (Rest (ElseIf b c ss rest)) a)"
  "code_items slot (One (SWhile b c ss)) a = code_items slot (Loop b c ss []) a"
  by (simp_all add: loop_items_def Let_def)

section \<open>Rules for the parts of a statement\<close>

definition flow_at :: "(ptr \<Rightarrow> u16) \<Rightarrow> ptr set \<Rightarrow> (flow \<Rightarrow> nat) \<Rightarrow> flow \<times> store \<Rightarrow> prim_cfg \<Rightarrow> bool" where
  "flow_at slot X exits r c \<longleftrightarrow> (\<exists>locs. placed slot X (snd r) locs \<and> c = cfg (exits (fst r)) [] locs)"

definition exits :: "Instruction list \<Rightarrow> nat \<Rightarrow> nat \<Rightarrow> nat \<Rightarrow> flow \<Rightarrow> nat" where
  "exits is z tb tc f = (case f of Normal \<Rightarrow> z | Broke \<Rightarrow> tb | Continued \<Rightarrow> tc | Returned \<Rightarrow> code_length is)"

lemma exits_simps [simp]:
  "exits is z tb tc Normal = z" "exits is z tb tc Broke = tb" "exits is z tb tc Continued = tc"
  "exits is z tb tc Returned = code_length is"
  by (simp_all add: exits_def)

lemma exits_abrupt: "f \<noteq> Normal \<Longrightarrow> exits is z tb tc f = exits is z' tb tc f"
  by (cases f) simp_all

lemma runs_flow: "placed slot X \<sigma> locs \<Longrightarrow> a = ex f \<Longrightarrow> runs D depth is (cfg a [] locs) (Some (Gives (f, \<sigma>))) (flow_at slot X ex)"
  by (auto intro!: runs_Gives simp: flow_at_def)

lemma runs_flow_then:
  assumes "runs D depth is c r (flow_at slot X ex)"
    and "\<And>f \<sigma> locs. r = Some (Gives (f, \<sigma>)) \<Longrightarrow> placed slot X \<sigma> locs \<Longrightarrow> runs D depth is (cfg (ex f) [] locs) (g (f, \<sigma>)) Q"
  shows "runs D depth is c (and_then r g) Q"
proof (cases "\<exists>x. r = Some (Gives x)")
  case True
  then obtain f \<sigma> where r: "r = Some (Gives (f, \<sigma>))" by auto
  with assms(1) obtain locs where "leads D depth is c (cfg (ex f) [] locs)" "placed slot X \<sigma> locs"
    by (auto simp: runs_Gives_iff flow_at_def)
  with r show ?thesis using runs_leads [OF _ assms(2)] by simp
next
  case False
  with assms(1) show ?thesis by (auto simp: runs_def and_then_def split: option.splits ending.splits)
qed

lemma sequence_runs:
  assumes first: "runs D depth is c r (flow_at slot X ex1)" and same: "\<And>f \<sigma>. r = Some (Gives (f, \<sigma>)) \<Longrightarrow> f \<noteq> Normal \<Longrightarrow> ex1 f = ex f"
    and rest: "\<And>\<sigma> locs. placed slot X \<sigma> locs \<Longrightarrow> runs D depth is (cfg (ex1 Normal) [] locs) (g \<sigma>) (flow_at slot X ex)"
  shows "runs D depth is c (in_sequence r g) (flow_at slot X ex)"
  unfolding in_sequence_def
proof (rule runs_flow_then [OF first])
  fix f \<sigma> locs assume r: "r = Some (Gives (f, \<sigma>))" and at: "placed slot X \<sigma> locs"
  show "runs D depth is (cfg (ex1 f) [] locs) (case (f, \<sigma>) of (f, \<sigma>) \<Rightarrow> if f = Normal then g \<sigma> else Some (Gives (f, \<sigma>)))
      (flow_at slot X ex)"
    using rest [OF at] runs_flow [OF at, of "ex1 f" ex f] same [OF r] by simp
qed

lemma branch_runs:
  assumes test: "runs D depth is c (test D x \<sigma>) (tested_at slot X b yes no [])"
    and taken: "\<And>\<sigma> locs. placed slot X \<sigma> locs \<Longrightarrow> runs D depth is (cfg yes [] locs) (taken \<sigma>) Q"
    and other: "\<And>\<sigma> locs. placed slot X \<sigma> locs \<Longrightarrow> runs D depth is (cfg no [] locs) (other \<sigma>) Q"
  shows "runs D depth is c (branch D b x taken other \<sigma>) Q"
  unfolding branch_def by (rule runs_test_then [OF test]) (simp_all add: taken other)

lemma iteration_runs:
  assumes body: "runs D depth is c r (flow_at slot X ex1)" and out: "ex1 Broke = ex Normal" "ex1 Returned = ex Returned"
    and again: "\<And>f \<sigma> locs. r = Some (Gives (f, \<sigma>)) \<Longrightarrow> placed slot X \<sigma> locs \<Longrightarrow> f = Normal \<or> f = Continued \<Longrightarrow>
      runs D depth is (cfg (ex1 f) [] locs) (g \<sigma>) (flow_at slot X ex)"
  shows "runs D depth is c (iteration r g) (flow_at slot X ex)"
  unfolding iteration_def
proof (rule runs_flow_then [OF body])
  fix f \<sigma> locs assume r: "r = Some (Gives (f, \<sigma>))" and at: "placed slot X \<sigma> locs"
  show "runs D depth is (cfg (ex1 f) [] locs) (case (f, \<sigma>) of (f, \<sigma>) \<Rightarrow>
      if f = Broke then Some (Gives (Normal, \<sigma>)) else if f = Returned then Some (Gives (Returned, \<sigma>)) else g \<sigma>) (flow_at slot X ex)"
    using again [OF r at] runs_flow [OF at] out by (cases f) simp_all
qed

lemma assign_runs:
  assumes small: "code_length is < 2 ^ 63" and ok: "exp_ok x" "insert v (exp_vars x) \<subseteq> X" "no_steps x" and at: "placed slot X \<sigma> locs"
    and code: "code_at is a (compile_exp slot x a @ [store_local (slot v)])" and depth: "exp_depth x \<le> depth"
    and z: "ex Normal = a + code_length (compile_exp slot x a @ [store_local (slot v)])"
  shows "runs D depth is (cfg a [] locs) (assign D v x \<sigma>) (flow_at slot X ex)"
  unfolding assign_def
proof (rule runs_value_then)
  show "runs D depth is (cfg a [] locs) (eval D x \<sigma>) (value_at slot X (a + code_length (compile_exp slot x a)) [])"
    using ok depth code_at_append [OF code] by (intro exp_runs [OF small _ _ _ _ at]) auto
  fix p \<sigma>1 locs1 assume at1: "placed slot X \<sigma>1 locs1"
  then have range: "unat (slot v) < length locs1" using ok(2) by (simp add: placed_def)
  show "runs D depth is (cfg (a + code_length (compile_exp slot x a)) ([] @ [p]) locs1)
      (case (p, \<sigma>1) of (p, \<sigma>) \<Rightarrow> Some (Gives (Normal, \<sigma>(v \<mapsto> p)))) (flow_at slot X ex)"
    unfolding prod.case
    by (rule runs_leads [OF store_runs [OF _ range]])
      (use code_at_append [OF code] placed_update [OF at1, of v p] ok(2) z in \<open>auto intro!: runs_flow\<close>)
qed

section \<open>Statements\<close>

text \<open>
  \<open>present\<close>: the program has the code of \<open>code\<close> at \<open>a\<close>, with the targets \<open>tb\<close> of \<^verbatim>\<open>break\<close>, \<open>tc\<close> of \<^verbatim>\<open>continue\<close>
  and \<open>te\<close> of the end of a chain of clauses. \<open>performs\<close>: such code does what \<open>rec\<close> says.
\<close>

definition present ::
  "nat \<Rightarrow> Instruction list \<Rightarrow> (ptr \<Rightarrow> u16) \<Rightarrow> ptr set \<Rightarrow> bool \<Rightarrow> nat \<Rightarrow> nat \<Rightarrow> nat \<Rightarrow> code \<Rightarrow> nat \<Rightarrow> bool" where
  "present depth is slot X inside tb tc te code a \<longleftrightarrow>
     code_ok inside code \<and> code_agrees code \<and> code_vars code \<subseteq> X \<and> code_depth code \<le> depth \<and>
     code_at is a (map (realise tb tc te) (code_items slot code a)) \<and> tb \<le> code_length is \<and> tc \<le> code_length is \<and>
     (\<forall>e. code = Rest e \<longrightarrow> te = a + items_size (code_items slot code a))"

lemma present_code:
  "present depth is slot X inside tb tc te code a \<Longrightarrow> code_at is a (map (realise tb tc te) (code_items slot code a))"
  unfolding present_def by blast

definition performs ::
  "double_ops \<Rightarrow> nat \<Rightarrow> Instruction list \<Rightarrow> (ptr \<Rightarrow> u16) \<Rightarrow> ptr set \<Rightarrow> (code \<Rightarrow> store \<Rightarrow> (flow \<times> store) ending option) \<Rightarrow> bool" where
  "performs D depth is slot X rec \<longleftrightarrow>
     (\<forall>inside tb tc te code a \<sigma> locs. present depth is slot X inside tb tc te code a \<longrightarrow> placed slot X \<sigma> locs \<longrightarrow>
        runs D depth is (cfg a [] locs) (rec code \<sigma>)
          (flow_at slot X (exits is (a + items_size (code_items slot code a)) tb tc)))"

lemma performsD:
  "performs D depth is slot X rec \<Longrightarrow> present depth is slot X inside tb tc te code a \<Longrightarrow> placed slot X \<sigma> locs \<Longrightarrow>
     z = a + items_size (code_items slot code a) \<Longrightarrow>
     runs D depth is (cfg a [] locs) (rec code \<sigma>) (flow_at slot X (exits is z tb tc))"
  unfolding performs_def by blast

lemma condition_runs:
  assumes small: "code_length is < 2 ^ 63" and ok: "exp_ok c" "exp_vars c \<subseteq> X" "exp_depth c \<le> depth" "no_steps c"
    and code: "code_at is a (compile_exp slot c a @ jump_instruction (exit_jump b) t # js)" "t \<le> code_length is"
    and at: "placed slot X \<sigma> locs" and n: "n = a + code_length (compile_exp slot c a) + 10"
  shows "runs D depth is (cfg a [] locs) (test D c \<sigma>) (tested_at slot X b n t [])"
proof -
  have parts: "code_at is a (compile_exp slot c a)" "code_at is (a + code_length (compile_exp slot c a)) [jump_instruction (exit_jump b) t]"
    using code_at_append [OF code(1)] by (auto dest!: code_at_Cons)
  have "runs D depth is (cfg a [] locs) (eval D c \<sigma>) (value_at slot X (a + code_length (compile_exp slot c a)) [])"
    using ok by (intro exp_runs [OF small _ _ _ parts(1) at]) simp_all
  from test_runs [OF this parts(2) code(2) small n] show ?thesis .
qed

lemma clause_runs:
  assumes small: "code_length is < 2 ^ 63" and rec: "performs D depth is slot X rec"
    and here: "present depth is slot X inside tb tc te (Rest (ElseIf b c ss rest)) a" and at: "placed slot X \<sigma> locs"
  shows "runs D depth is (cfg a [] locs) (branch D b c (rec (Many ss)) (rec (Rest rest)) \<sigma>)
    (flow_at slot X (exits is (a + items_size (code_items slot (Rest (ElseIf b c ss rest)) a)) tb tc))"
proof -
  define cond where "cond = compile_exp slot c a"
  define ba where "ba = a + code_length cond + 10"
  define body where "body = compile_stms slot ss ba"
  define t where "t = ba + items_size body + (if rest = NoElse then 0 else 10)"
  define z where "z = a + items_size (code_items slot (Rest (ElseIf b c ss rest)) a)"
  define more where "more = (if rest = NoElse then [] else [jump_instruction JUMP z])"
  let ?R = "map (realise tb tc te)"
  have items: "code_items slot (Rest (ElseIf b c ss rest)) a = map Fixed cond @ Fixed (jump_instruction (exit_jump b) t) # body
      @ (if rest = NoElse then [] else ToEnd # compile_else slot rest t)"
    by (simp add: clause_items_def Let_def cond_def ba_def body_def t_def)
  have te: "te = z" and parts: "exp_ok c" "exp_vars c \<subseteq> X" "exp_depth c \<le> depth" "no_steps c" "tb \<le> code_length is" "tc \<le> code_length is"
    using here by (simp_all add: present_def z_def)
  have z: "z = t + items_size (compile_else slot rest t)"
    unfolding z_def items by (simp add: t_def ba_def)
  have code: "code_at is a (cond @ jump_instruction (exit_jump b) t # ?R body @ more @ ?R (compile_else slot rest t))"
  proof -
    have "code_at is a (?R (code_items slot (Rest (ElseIf b c ss rest)) a))" by (rule present_code [OF here])
    then show ?thesis unfolding items by (cases "rest = NoElse") (simp_all add: more_def te)
  qed
  have at_body: "code_at is ba (?R body)" "code_at is (ba + items_size body) (more @ ?R (compile_else slot rest t))"
    using code_at_after [OF code, of ba] by (simp_all add: ba_def)
  have at_rest: "code_at is t (?R (compile_else slot rest t))"
    using code_at_append [OF at_body(2)] by (auto simp: more_def t_def split: if_splits)
  have bounds: "t \<le> code_length is" "z \<le> code_length is" using code_at_end [OF at_rest] by (simp_all add: z)
  have over: "runs D depth is (cfg (ba + items_size body) [] locs) (Some (Gives (Normal, \<sigma>))) (flow_at slot X (exits is z tb tc))"
    if "placed slot X \<sigma> locs" for \<sigma> locs
  proof (cases "rest = NoElse")
    case True
    with that show ?thesis by (intro runs_flow) (simp_all add: z t_def)
  next
    case False
    with at_body(2) have "code_at is (ba + items_size body) [jump_instruction JUMP z]"
      by (auto simp: more_def dest: code_at_Cons)
    from jump_runs [OF this bounds(2) small] that show ?thesis by (intro runs_leads [OF _ runs_flow]) simp_all
  qed
  have taken: "runs D depth is (cfg ba [] locs) (rec (Many ss) \<sigma>) (flow_at slot X (exits is z tb tc))"
    if "placed slot X \<sigma> locs" for \<sigma> locs
  proof -
    have "present depth is slot X inside tb tc te (Many ss) ba"
      using here at_body(1) by (simp add: present_def body_def block_depth_def)
    from performsD [OF rec this that refl]
    have "runs D depth is (cfg ba [] locs) (in_sequence (rec (Many ss) \<sigma>) (\<lambda>\<sigma>. Some (Gives (Normal, \<sigma>)))) (flow_at slot X (exits is z tb tc))"
      by (rule sequence_runs) (use over in \<open>simp_all add: body_def exits_abrupt\<close>)
    moreover have "in_sequence r (\<lambda>\<sigma>. Some (Gives (Normal, \<sigma>))) = r" for r
      by (auto simp: in_sequence_def and_then_def split: option.split ending.split)
    ultimately show ?thesis by simp
  qed
  have "present depth is slot X inside tb tc te (Rest rest) t"
    using here at_rest te z by (simp add: present_def)
  note other = performsD [OF rec this]
  have test: "runs D depth is (cfg a [] locs) (test D c \<sigma>) (tested_at slot X b ba t [])"
    using code bounds at parts by (intro condition_runs [OF small]) (simp_all add: cond_def ba_def)
  show ?thesis
    unfolding z_def [symmetric] by (rule branch_runs [OF test taken other]) (simp_all add: z)
qed

lemma loop_runs:
  assumes small: "code_length is < 2 ^ 63" and rec: "performs D depth is slot X rec"
    and flows: "\<And>code \<sigma> f \<sigma>' inside. rec code \<sigma> = Some (Gives (f, \<sigma>')) \<Longrightarrow> code_ok inside code \<Longrightarrow> f \<in> code_flows code"
    and here: "present depth is slot X inside tb tc te (Loop b c ss after) a" and at: "placed slot X \<sigma> locs"
  shows "runs D depth is (cfg a [] locs) (exec_round D rec (Loop b c ss after) \<sigma>)
    (flow_at slot X (exits is (a + items_size (code_items slot (Loop b c ss after) a)) tb tc))"
proof -
  define cond where "cond = compile_exp slot c a"
  define ba where "ba = a + code_length cond + 10"
  define body where "body = compile_stms slot ss ba"
  define aa where "aa = ba + items_size body"
  define rest where "rest = compile_stms slot after aa"
  define be where "be = aa + items_size rest"
  let ?z = "be + 10" and ?R = "map (realise (be + 10) be te)"
  have items: "loop_items slot b c ss after a = map Fixed cond @ ToBreak (exit_jump b) # body @ rest"
    by (simp add: loop_items_def Let_def cond_def ba_def body_def aa_def rest_def)
  have end_at: "a + items_size (loop_items slot b c ss after a) = be"
    by (simp add: items be_def aa_def ba_def)
  then have z: "a + items_size (code_items slot (Loop b c ss after) a) = ?z" by simp
  have parts: "exp_ok c" "exp_vars c \<subseteq> X" "exp_depth c \<le> depth" "no_steps c" using here by (simp_all add: present_def)
  have code: "code_at is a (cond @ jump_instruction (exit_jump b) ?z # ?R body @ ?R rest @ [jump_instruction JUMP a])"
    using present_code [OF here, unfolded code_items.simps realise_close_loop end_at] by (simp add: items)
  have at_body: "code_at is ba (?R body)" and "code_at is aa (?R rest @ [jump_instruction JUMP a])"
    using code_at_after [OF code, of ba] by (simp_all add: ba_def aa_def)
  from this(2) have at_rest: "code_at is aa (?R rest)" and at_jump: "code_at is be [jump_instruction JUMP a]"
    using code_at_append [of "is" aa "?R rest" "[jump_instruction JUMP a]"] by (simp_all add: be_def)
  have bounds: "be \<le> code_length is" "?z \<le> code_length is" "a \<le> code_length is"
    using code_at_end [OF at_jump] by (simp_all add: be_def aa_def ba_def)
  have again: "runs D depth is (cfg be [] locs) (rec (Loop b c ss after) \<sigma>) (flow_at slot X (exits is ?z tb tc))"
    if "placed slot X \<sigma> locs" for \<sigma> locs
    by (rule runs_leads [OF jump_runs [OF at_jump bounds(3) small] performsD [OF rec here that z [symmetric]]])
  have "present depth is slot X False ?z be te (Many after) aa"
    using here at_rest bounds by (simp add: present_def rest_def)
  note after = performsD [OF rec this]
  have next_round: "runs D depth is (cfg aa [] locs) (in_sequence (rec (Many after) \<sigma>) (rec (Loop b c ss after)))
      (flow_at slot X (exits is ?z tb tc))" if "placed slot X \<sigma> locs" for \<sigma> locs
  proof (rule sequence_runs [OF after [OF that]])
    show "be = aa + items_size (code_items slot (Many after) aa)" by (simp add: be_def rest_def)
    fix f \<sigma>' assume "rec (Many after) \<sigma> = Some (Gives (f, \<sigma>'))" "f \<noteq> Normal"
    with flows [of "Many after" \<sigma> f \<sigma>' False] outside_block [of after] here have "f = Returned" by (auto simp: present_def)
    then show "exits is be ?z be f = exits is ?z tb tc f" by simp
  qed (simp add: again)
  have "present depth is slot X True ?z be te (Many ss) ba"
    using here at_body bounds by (simp add: present_def body_def)
  note body_runs = performsD [OF rec this]
  have taken: "runs D depth is (cfg ba [] locs)
      (iteration (rec (Many ss) \<sigma>) (\<lambda>\<sigma>. in_sequence (rec (Many after) \<sigma>) (rec (Loop b c ss after))))
      (flow_at slot X (exits is ?z tb tc))" if at: "placed slot X \<sigma> locs" for \<sigma> locs
  proof (rule iteration_runs [OF body_runs [OF at]])
    show "aa = ba + items_size (code_items slot (Many ss) ba)" by (simp add: aa_def body_def)
    fix f \<sigma>1 locs1 assume f: "rec (Many ss) \<sigma> = Some (Gives (f, \<sigma>1))" "f = Normal \<or> f = Continued" and at1: "placed slot X \<sigma>1 locs1"
    have "exits is aa ?z be f = aa"
    proof (cases "f = Continued")
      case True
      with flows [OF f(1), of True] here have "after = []" by (auto simp: present_def)
      with True show ?thesis by (simp add: be_def rest_def)
    qed (use f(2) in simp)
    with next_round [OF at1] show "runs D depth is (cfg (exits is aa ?z be f) [] locs1)
        (in_sequence (rec (Many after) \<sigma>1) (rec (Loop b c ss after))) (flow_at slot X (exits is ?z tb tc))" by simp
  qed simp_all
  have test: "runs D depth is (cfg a [] locs) (test D c \<sigma>) (tested_at slot X b ba ?z [])"
    using code bounds at parts by (intro condition_runs [OF small]) (simp_all add: cond_def ba_def)
  show ?thesis
    unfolding z exec_round.simps by (rule branch_runs [OF test taken]) (auto intro: runs_flow)
qed

lemma for_runs:
  assumes small: "code_length is < 2 ^ 63" and rec: "performs D depth is slot X rec"
    and flows: "\<And>code \<sigma> f \<sigma>' inside. rec code \<sigma> = Some (Gives (f, \<sigma>')) \<Longrightarrow> code_ok inside code \<Longrightarrow> f \<in> code_flows code"
    and here: "present depth is slot X inside tb tc te (One (SFor i c r ss)) a" and at: "placed slot X \<sigma> locs"
  shows "runs D depth is (cfg a [] locs) (in_sequence (rec (One i) \<sigma>) (rec (Loop True c ss [r])))
    (flow_at slot X (exits is (a + items_size (code_items slot (One (SFor i c r ss)) a)) tb tc))"
proof -
  define init where "init = compile_stm slot i a"
  define ca where "ca = a + items_size init"
  define items where "items = loop_items slot True c ss [r] ca"
  define be where "be = ca + items_size items"
  have eq: "code_items slot (One (SFor i c r ss)) a = close_loop a ca (init @ items)"
    by (simp add: loop_items_def Let_def items_def ca_def init_def exit_jump_def add.assoc)
  have end_at: "a + items_size (init @ items) = be" by (simp add: be_def ca_def)
  have z: "a + items_size (code_items slot (One (SFor i c r ss)) a) = be + 10" unfolding eq using end_at by simp
  have code: "code_at is a (map (realise (be + 10) be te) init @ map (realise (be + 10) be te) items @ [jump_instruction JUMP ca])"
    using present_code [OF here] unfolding eq realise_close_loop end_at by simp
  have loop_code: "map (realise tb tc te) (code_items slot (Loop True c ss [r]) ca)
      = map (realise (be + 10) be te) items @ [jump_instruction JUMP ca]"
    unfolding code_items.simps realise_close_loop items_def [symmetric] be_def [symmetric] ..
  have at_init: "code_at is a (map (realise (be + 10) be te) init)"
    and at_loop: "code_at is ca (map (realise tb tc te) (code_items slot (Loop True c ss [r]) ca))"
    using code_at_append [OF code] unfolding loop_code realised_size ca_def [symmetric] by simp_all
  have bound: "be + 10 \<le> code_length is" using code_at_end [OF at_loop] by (simp add: items_def [symmetric] be_def)
  have "present depth is slot X False (be + 10) be te (One i) a"
    using here at_init bound by (simp add: present_def init_def)
  from performsD [OF rec this at, of ca]
  have first: "runs D depth is (cfg a [] locs) (rec (One i) \<sigma>) (flow_at slot X (exits is ca (be + 10) be))"
    by (simp add: ca_def init_def)
  have loop: "present depth is slot X False tb tc te (Loop True c ss [r]) ca"
    using here at_loop by (simp add: present_def block_depth_def)
  show ?thesis
    unfolding z
  proof (rule sequence_runs [OF first])
    fix f \<sigma>' assume "rec (One i) \<sigma> = Some (Gives (f, \<sigma>'))" "f \<noteq> Normal"
    with flows [of "One i" \<sigma> f \<sigma>' False] outside_flows(1) [of i] here have "f = Returned" by (auto simp: present_def)
    then show "exits is ca (be + 10) be f = exits is (be + 10) tb tc f" by simp
  next
    fix \<sigma> locs assume "placed slot X \<sigma> locs"
    from performsD [OF rec loop this, of "be + 10"]
    show "runs D depth is (cfg (exits is ca (be + 10) be Normal) [] locs) (rec (Loop True c ss [r]) \<sigma>)
        (flow_at slot X (exits is (be + 10) tb tc))"
      by (simp add: items_def [symmetric] be_def)
  qed
qed

lemma block_runs:
  assumes rec: "performs D depth is slot X rec"
    and here: "present depth is slot X inside tb tc te (Many (s # ss)) a" and at: "placed slot X \<sigma> locs"
  shows "runs D depth is (cfg a [] locs) (in_sequence (rec (One s) \<sigma>) (rec (Many ss)))
    (flow_at slot X (exits is (a + items_size (code_items slot (Many (s # ss)) a)) tb tc))"
proof -
  define b where "b = a + items_size (compile_stm slot s a)"
  have "code_at is a (map (realise tb tc te) (compile_stm slot s a) @ map (realise tb tc te) (compile_stms slot ss b))"
    using present_code [OF here] by (simp add: b_def Let_def)
  from code_at_append [OF this] here have "present depth is slot X inside tb tc te (One s) a" "present depth is slot X inside tb tc te (Many ss) b"
    by (simp_all add: present_def b_def block_depth_def)
  note parts = performsD [OF rec this(1) at, of b] performsD [OF rec this(2)]
  have z: "a + items_size (code_items slot (Many (s # ss)) a) = b + items_size (code_items slot (Many ss) b)"
    by (simp add: b_def Let_def)
  show ?thesis
    unfolding z by (rule sequence_runs [OF parts(1)]) (simp_all add: b_def exits_abrupt parts(2) [unfolded b_def])
qed

lemma conditional_present:
  assumes "present depth is slot X inside tb tc te (One (SIf b c ss rest)) a"
  shows "present depth is slot X inside tb tc (a + items_size (code_items slot (Rest (ElseIf b c ss rest)) a)) (Rest (ElseIf b c ss rest)) a"
proof -
  let ?z = "a + items_size (code_items slot (Rest (ElseIf b c ss rest)) a)"
  have "realise tb tc te \<circ> settle is_end ?z = realise tb tc ?z" by (simp add: fun_eq_iff)
  with present_code [OF assms] have "code_at is a (map (realise tb tc ?z) (code_items slot (Rest (ElseIf b c ss rest)) a))"
    unfolding code_items_eq(1) list.map_comp by simp
  with assms show ?thesis
    unfolding present_def by (simp del: code_items.simps compile_else.simps compile_stm.simps)
qed

lemma jump_out_runs:
  assumes "code_length is < 2 ^ 63" "code_at is a [jump_instruction JUMP (ex f)]" "ex f \<le> code_length is" "placed slot X \<sigma> locs"
  shows "runs D depth is (cfg a [] locs) (Some (Gives (f, \<sigma>))) (flow_at slot X ex)"
  by (rule runs_leads [OF jump_runs [OF assms(2,3,1)]]) (rule runs_flow [OF assms(4) refl])

lemma assign_items_runs:
  assumes small: "code_length is < 2 ^ 63" and ok: "exp_ok x" "insert v (exp_vars x) \<subseteq> X" "no_steps x" "exp_depth x \<le> depth"
    and code: "code_at is a (map (realise tb tc te) (map Fixed (compile_exp slot x a @ [store_local (slot v)])))"
    and at: "placed slot X \<sigma> locs"
  shows "runs D depth is (cfg a [] locs) (assign D v x \<sigma>)
    (flow_at slot X (exits is (a + items_size (map Fixed (compile_exp slot x a @ [store_local (slot v)]))) tb tc))"
  using code by (intro assign_runs [OF small ok(1-3) at _ ok(4)]) (simp_all add: fixed_items(2) del: map_append)

lemma exec_round_performs:
  assumes small: "code_length is < 2 ^ 63" and rec: "performs D depth is slot X rec"
    and flows: "\<And>code \<sigma> f \<sigma>' inside. rec code \<sigma> = Some (Gives (f, \<sigma>')) \<Longrightarrow> code_ok inside code \<Longrightarrow> f \<in> code_flows code"
  shows "performs D depth is slot X (exec_round D rec)"
  unfolding performs_def
proof (intro allI impI)
  fix inside tb tc te code a \<sigma> locs
  assume here: "present depth is slot X inside tb tc te code a" and at: "placed slot X \<sigma> locs"
  note code = present_code [OF here] and same = performsD [OF rec _ at refl]
  have bounds: "tb \<le> code_length is" "tc \<le> code_length is" using here by (simp_all add: present_def)
  show "runs D depth is (cfg a [] locs) (exec_round D rec code \<sigma>)
      (flow_at slot X (exits is (a + items_size (code_items slot code a)) tb tc))"
  proof (cases "(D, rec, code, \<sigma>)" rule: exec_round.cases)
    case (1 D0 rec0 x e \<sigma>0)
    with here code at assign_items_runs [OF small, of e x X depth a tb tc te slot \<sigma> locs D] show ?thesis by (simp add: present_def)
  next
    case (2 D0 rec0 x e \<sigma>0)
    with here code at assign_items_runs [OF small, of e x X depth a tb tc te slot \<sigma> locs D] show ?thesis by (simp add: present_def)
  next
    case (3 D0 rec0 b c ss rest \<sigma>0)
    with clause_runs [OF small rec conditional_present at, of inside tb tc te b c ss rest a] here
    show ?thesis by (simp add: Let_def)
  next
    case (4 D0 rec0 b c ss \<sigma>0)
    with here have "present depth is slot X inside tb tc te (Loop b c ss []) a"
      using code_items_eq(2) [of slot b c ss a] code by (simp add: present_def block_depth_def del: code_items.simps)
    from same [OF this] 4 code_items_eq(2) [of slot b c ss a] show ?thesis by (simp del: code_items.simps)
  next
    case (5 D0 rec0 i c r ss \<sigma>0)
    with for_runs [OF small rec flows _ at, where inside = inside and tb = tb and tc = tc and te = te] here show ?thesis by simp
  next
    case (6 D0 rec0 \<sigma>0)
    with code bounds at show ?thesis by (auto intro!: jump_out_runs [OF small])
  next
    case (7 D0 rec0 \<sigma>0)
    with code bounds at show ?thesis by (auto intro!: jump_out_runs [OF small])
  next
    case (8 D0 rec0 \<sigma>0)
    with code at runs_leads [OF return_runs runs_flow] show ?thesis by simp
  next
    case (10 D0 rec0 s ss \<sigma>0)
    with block_runs [OF rec _ at, of inside tb tc te s ss a] here show ?thesis by simp
  next
    case (12 D0 rec0 ss \<sigma>0)
    with here have "present depth is slot X inside tb tc te (Many ss) a" by (auto simp: present_def block_depth_def)
    from same [OF this] 12 show ?thesis by simp
  next
    case (13 D0 rec0 b c ss rest \<sigma>0)
    with clause_runs [OF small rec _ at, of inside tb tc te b c ss rest a] here show ?thesis by simp
  next
    case (14 D0 rec0 b c ss after \<sigma>0)
    with loop_runs [OF small rec flows _ at, where inside = inside and tb = tb and tc = tc and te = te] here show ?thesis by simp
  qed (auto intro!: runs_flow at)
qed

lemma exec_performs:
  assumes "code_length is < 2 ^ 63"
  shows "performs D depth is slot X (exec D n)"
proof (induction n)
  case 0
  then show ?case by (simp add: performs_def)
next
  case (Suc n)
  have "exec D (Suc n) = exec_round D (exec D n)" by (simp add: fun_eq_iff)
  then show ?case using exec_round_performs [OF assms Suc exec_flows] by simp
qed

end
