(* ===== verification/CompiledMethods.thy ===== *)
theory CompiledMethods
  imports CompiledStatements PrimitiveRuns
begin

text \<open>
  Whole methods: the code and the layout that the emitter leaves in the symbol of a method, run by the
  virtual machine.
\<close>

section \<open>Well-formed code\<close>

definition item_ok :: "item \<Rightarrow> bool" where
  "item_ok i \<longleftrightarrow> instruction_ok (realise 0 0 0 i)"

lemma jump_ok [simp]:
  "instruction_ok (jump_instruction JUMP t)" "instruction_ok (jump_instruction JUMP_TRUE t)"
  "instruction_ok (jump_instruction JUMP_FALSE t)" "instruction_ok (jump_instruction (exit_jump b) t)"
  by (simp_all add: exit_jump_def) (simp_all add: jump_instruction_def instruction_ok_def operand_sizes_def)

lemma jump_target_ok: "instruction_ok (jump_instruction k t) \<longleftrightarrow> instruction_ok (jump_instruction k 0)"
  by (simp add: jump_instruction_def instruction_ok_def)

lemma fixed_ok:
  "instruction_ok (load_local s)" "instruction_ok (store_local s)" "instruction_ok (Instruction (Mo k) [])"
  "instruction_ok (Instruction (Co RETURN) [])" "instruction_ok (Instruction (Ko DUP) [])"
  "instruction_ok (Instruction (Ko LOADCONST_INTEGER64) [U64 i])" "instruction_ok (Instruction (Ko LOADCONST_RATIONAL64) [U64 i])"
  "instruction_ok (Instruction (Ko LOADCONST_BOOLEAN) [U8 (of_bool b)])" "instruction_ok (Instruction (Ko LOADCONST_CHAR) [U16 c])"
  by (simp_all add: load_local_def store_local_def instruction_ok_def operand_sizes_def)

lemma compile_exp_ok: "list_all instruction_ok (compile_exp slot x a)"
  by (induction x arbitrary: a) (simp_all add: fixed_ok unary_code_def step_code_def Let_def)

lemma item_ok_simps [simp]:
  "item_ok (Fixed i) = instruction_ok i" "item_ok ToContinue" "item_ok ToEnd"
  "item_ok (ToBreak JUMP)" "item_ok (ToBreak JUMP_FALSE)" "item_ok (ToBreak (exit_jump b))"
  by (simp_all add: item_ok_def)

lemma settle_ok: "item_ok i \<Longrightarrow> item_ok (settle P t i)"
proof (cases i)
  case (ToBreak k)
  then show "item_ok i \<Longrightarrow> item_ok (settle P t i)"
    using jump_target_ok [of k t] by (simp add: settle_def item_ok_def)
qed (simp_all add: settle_def)

lemma settled_ok: "list_all item_ok items \<Longrightarrow> list_all item_ok (map (settle P t) items)"
  by (auto simp: list_all_iff intro: settle_ok)

lemma close_loop_ok: "list_all item_ok items \<Longrightarrow> list_all item_ok (close_loop a start items)"
  unfolding close_loop_def Let_def by (simp add: settled_ok del: map_map)

lemma fixed_items_ok: "list_all instruction_ok is \<Longrightarrow> list_all item_ok (map Fixed is)"
  by (simp add: list_all_iff)

lemma clause_items_ok:
  "list_all instruction_ok cond \<Longrightarrow> list_all item_ok body \<Longrightarrow> (\<And>items t. rest = Some items \<Longrightarrow> list_all item_ok (items t)) \<Longrightarrow>
     list_all item_ok (clause_items b cond a body rest)"
  by (cases rest) (simp_all add: clause_items_def Let_def fixed_items_ok)

lemma compile_ok:
  "list_all item_ok (compile_stm slot s a)" "list_all item_ok (compile_stms slot ss a)" "list_all item_ok (compile_else slot e a)"
proof (induction slot s a and slot ss a and slot e a rule: compile_stm_compile_stms_compile_else.induct)
  case (3 slot b c ss n a)
  then show ?case by (auto simp: Let_def compile_exp_ok intro!: settled_ok clause_items_ok)
next
  case (4 slot b c ss a)
  then show ?case by (auto simp: Let_def compile_exp_ok fixed_items_ok intro!: close_loop_ok)
next
  case (5 slot i c r ss a)
  then show ?case by (auto simp: Let_def compile_exp_ok fixed_items_ok intro!: close_loop_ok)
next
  case (13 slot b c ss n a)
  then show ?case by (auto simp: Let_def compile_exp_ok intro!: clause_items_ok)
qed (simp_all add: Let_def compile_exp_ok fixed_ok fixed_items_ok)

lemma method_code_ok: "list_all instruction_ok (method_code slot ss)"
  using compile_ok(2) [of slot ss 0]
  by (simp add: method_code_def fixed_ok list_all_iff item_ok_def realise_zero)

section \<open>Runs of compiled methods\<close>

definition block_vars :: "stm list \<Rightarrow> ptr set" where
  "block_vars ss = \<Union> (set (map stm_vars ss))"

text \<open>Well-formed bodies, and slots for their variables.\<close>

definition program_ok :: "(ptr \<Rightarrow> u16) \<Rightarrow> stm list \<Rightarrow> bool" where
  "program_ok slot ss \<longleftrightarrow>
     list_all (stm_ok False) ss \<and> list_all agrees ss \<and> inj_on slot (block_vars ss) \<and>
     code_length (method_code slot ss) < 2 ^ 63 \<and> block_depth ss < 2 ^ 32"

definition start_cfg :: "nat \<Rightarrow> prim_cfg" where
  "start_cfg n = \<lparr>cf_pc = 0, cf_stack = [], cf_locals = replicate n None\<rparr>"

definition has_slots :: "(ptr \<Rightarrow> u16) \<Rightarrow> stm list \<Rightarrow> nat \<Rightarrow> bool" where
  "has_slots slot ss n \<longleftrightarrow> (\<forall>x\<in>block_vars ss. unat (slot x) < n)"

lemma method_code_at: "code_at (method_code slot ss) 0 (map (realise 0 0 0) (compile_stms slot ss 0))"
  "code_at (method_code slot ss) (items_size (compile_stms slot ss 0)) [Instruction (Co RETURN) []]"
proof -
  let ?items = "map (realise 0 0 0) (compile_stms slot ss 0)"
  have "code_at (method_code slot ss) 0 (?items @ [Instruction (Co RETURN) []])"
    unfolding code_at_def method_code_def realise_zero by (intro exI [of _ "[]"]) simp
  from code_at_append [OF this] show "code_at (method_code slot ss) 0 ?items"
    "code_at (method_code slot ss) (items_size (compile_stms slot ss 0)) [Instruction (Co RETURN) []]" by simp_all
qed

lemma body_runs:
  assumes ok: "program_ok slot ss" "has_slots slot ss n" and depth: "block_depth ss \<le> depth"
  shows "runs D depth (method_code slot ss) (start_cfg n) (exec D fuel (Many ss) (\<lambda>_. None))
    (\<lambda>(f, \<sigma>) c. \<exists>locs. c = cfg (code_length (method_code slot ss)) [] locs \<and> placed slot (block_vars ss) \<sigma> locs)"
proof -
  let ?is = "method_code slot ss" and ?X = "block_vars ss" and ?z = "items_size (compile_stms slot ss 0)"
  have small: "code_length ?is < 2 ^ 63" using ok(1) by (simp add: program_ok_def)
  have here: "present depth ?is slot ?X False 0 0 0 (Many ss) 0"
    using ok(1) depth method_code_at(1) by (simp add: present_def program_ok_def block_vars_def)
  have "placed slot ?X (\<lambda>_. None) (replicate n None)"
    using ok by (simp add: placed_def program_ok_def has_slots_def)
  from performsD [OF exec_performs [OF small] here this, of ?z]
  have "runs D depth ?is (start_cfg n) (exec D fuel (Many ss) (\<lambda>_. None)) (flow_at slot ?X (exits ?is ?z 0 0))"
    by (simp add: start_cfg_def)
  then have "runs D depth ?is (start_cfg n) (and_then (exec D fuel (Many ss) (\<lambda>_. None)) (\<lambda>r. Some (Gives r)))
      (\<lambda>(f, \<sigma>) c. \<exists>locs. c = cfg (code_length ?is) [] locs \<and> placed slot ?X \<sigma> locs)"
  proof (rule runs_flow_then)
    fix f \<sigma> locs assume r: "exec D fuel (Many ss) (\<lambda>_. None) = Some (Gives (f, \<sigma>))" and at: "placed slot ?X \<sigma> locs"
    have "f = Normal \<or> f = Returned"
      using exec_flows [OF r, of False] ok(1) outside_block [of ss] by (auto simp: program_ok_def)
    then have "leads D depth ?is (cfg (exits ?is ?z 0 0 f) [] locs) (cfg (code_length ?is) [] locs)"
      using return_runs [OF method_code_at(2)] by auto
    with at show "runs D depth ?is (cfg (exits ?is ?z 0 0 f) [] locs) (Some (Gives (f, \<sigma>)))
        (\<lambda>(f, \<sigma>) c. \<exists>locs. c = cfg (code_length ?is) [] locs \<and> placed slot ?X \<sigma> locs)"
      by (intro runs_leads [OF _ runs_Gives]) auto
  qed
  then show ?thesis by simp
qed

lemma halts_at_end: "cf_pc c = code_length is \<Longrightarrow> ends D depth is c (Halted c)"
  unfolding ends_def by (rule exI [of _ 1]) simp

definition result_of :: "(ptr \<Rightarrow> u16) \<Rightarrow> stm list \<Rightarrow> (flow \<times> store) ending \<Rightarrow> prim_result \<Rightarrow> bool" where
  "result_of slot ss y r =
     (case y of
        Gives fs \<Rightarrow> \<exists>locs. r = Halted \<lparr>cf_pc = code_length (method_code slot ss), cf_stack = [], cf_locals = locs\<rparr> \<and>
                       placed slot (block_vars ss) (snd fs) locs
      | Threw e \<Rightarrow> r = Failed e
      | Crashed \<Rightarrow> r = Trapped)"

lemma program_ends:
  assumes "program_ok slot ss" "has_slots slot ss n" "block_depth ss \<le> depth" "exec D fuel (Many ss) (\<lambda>_. None) = Some y"
  shows "\<exists>r k. result_of slot ss y r \<and> (\<forall>j\<ge>k. run_cfg D depth (method_code slot ss) j (start_cfg n) = Some r)"
proof -
  have enough: "\<exists>k. \<forall>j\<ge>k. run_cfg D depth is j c = Some r" if "ends D depth is c r" for "is" c r
    using that unfolding ends_def by (metis le_add_diff_inverse)
  note body = body_runs [OF assms(1-3), of D fuel, unfolded assms(4)]
  obtain r where "result_of slot ss y r" "ends D depth (method_code slot ss) (start_cfg n) r"
  proof (cases y)
    case (Gives fs)
    with body obtain locs where "leads D depth (method_code slot ss) (start_cfg n) (cfg (code_length (method_code slot ss)) [] locs)"
      and "placed slot (block_vars ss) (snd fs) locs"
      by (cases fs) (auto simp: runs_Gives_iff)
    then have "ends D depth (method_code slot ss) (start_cfg n) (Halted (cfg (code_length (method_code slot ss)) [] locs))"
      by (intro leads_ends [OF _ halts_at_end]) simp_all
    with Gives \<open>placed slot _ _ _\<close> show ?thesis by (intro that) (auto simp: result_of_def)
  qed (use body that in \<open>simp_all add: result_of_def\<close>)
  with enough show ?thesis by blast
qed

section \<open>On the virtual machine\<close>

text \<open>
  The symbol of a static method without parameters and result whose variables have primitive types,
  as declared, before its code is generated.
\<close>

definition declared_entry :: "image \<Rightarrow> MethodSymbol \<Rightarrow> bool" where
  "declared_entry img m \<longleftrightarrow>
     me_Linking m \<noteq> LINK_INSTANCE \<and> me_Parameters m = [] \<and> me_HandleType m = Body \<and>
     me_ReturnType m = pr_Void (img_Primitives img) \<and> ResolveObjectShape img (me_ReturnType m) \<noteq> nullptr \<and>
     return_stride img m < 2 ^ 31 \<and> list_all (\<lambda>i. prim_slot_type img (ResolveSlotType m i [])) (local_slots m)"

lemma compiled_select [simp]:
  "me_Linking (compiled_method sem slot ss m) = me_Linking m" "me_Parameters (compiled_method sem slot ss m) = me_Parameters m"
  "me_HandleType (compiled_method sem slot ss m) = me_HandleType m" "me_ReturnType (compiled_method sem slot ss m) = me_ReturnType m"
  "me_IsComplete (compiled_method sem slot ss m)" "me_VariableSlots (compiled_method sem slot ss m) = me_VariableSlots m"
  "me_ExecutableByteCode (compiled_method sem slot ss m) = program_bytes (method_code slot ss)"
  "GetEvalStackArgumentsCount (compiled_method sem slot ss m) = GetEvalStackArgumentsCount m"
  "GetEvalStackLocalsCount (compiled_method sem slot ss m) = GetEvalStackLocalsCount m"
  "ResolveSlotType (compiled_method sem slot ss m) i ta = ResolveSlotType m i ta"
  "return_stride img (compiled_method sem slot ss m) = return_stride img m"
  "local_slots (compiled_method sem slot ss m) = local_slots m"
  "me_MaxEvalDepth (compiled_method sem slot ss m) = block_depth ss mod 2 ^ 32"
  by (simp_all add: compiled_method_def GetEvalStackArgumentsCount_def GetEvalStackLocalsCount_def ResolveSlotType_def
      return_stride_def local_slots_def Let_def)

lemma compiled_prim_method:
  assumes "declared_entry img m" "eval_capacity (compiled_method sem slot ss m) < 2 ^ 32"
  shows "prim_method img (compiled_method sem slot ss m) (method_code slot ss)"
  using assms by (auto simp: prim_method_def declared_entry_def method_code_ok)

lemma compiled_entry:
  "entry_cfg (compiled_method sem slot ss m) = start_cfg (unat (GetEvalStackLocalsCount m))"
  "block_depth ss < 2 ^ 32 \<Longrightarrow> block_depth ss \<le> entry_depth (compiled_method sem slot ss m)"
  by (simp_all add: entry_cfg_def start_cfg_def entry_depth_def)

text \<open>The interpreter's loop, on the frame \<^verbatim>\<open>Run\<close> makes for the method.\<close>

lemma compiled_body_runs:
  assumes compiled: "img_methods img method = compiled_method sem slot ss m"
    and ok: "program_ok slot ss" "has_slots slot ss (unat (GetEvalStackLocalsCount m))"
    and decl: "declared_entry img m" "eval_capacity (compiled_method sem slot ss m) < 2 ^ 32"
    and runtime: "primitives_ok img" "allocator_ok img" "ready_to_run img method s"
    and source: "exec (img_double img) fuel (Many ss) (\<lambda>_. None) = Some (Gives (flow, \<sigma>))"
    and f: "f = entry_frame img method s" and s0: "s0 = entered img method f (started s)"
  shows "\<exists>k. \<forall>n>k. \<exists>t locs. run_code img n (BodyLoop f (decoder_at (method_code slot ss) 0)) s0
      = Ret (decoder_at (method_code slot ss) (code_length (method_code slot ss))) (set_frame f (ends_with EndOfInstructions) t)
    \<and> prim_rep img (entry_depth (img_methods img method)) s0 f [] locs t \<and> placed slot (block_vars ss) \<sigma> locs"
proof -
  let ?is = "method_code slot ss" and ?d = "entry_depth (img_methods img method)"
  let ?c = "start_cfg (unat (GetEvalStackLocalsCount m))"
  have depth: "block_depth ss \<le> ?d" using ok(1) compiled_entry(2) [of ss sem slot m] by (simp add: compiled program_ok_def)
  from program_ends [OF ok depth source] obtain k locs where
    run: "run_cfg (img_double img) ?d ?is k ?c = Some (Halted (cfg (code_length ?is) [] locs))"
    and at: "placed slot (block_vars ss) \<sigma> locs" by (auto simp: result_of_def)
  have pm: "prim_method img (img_methods img method) ?is" unfolding compiled by (rule compiled_prim_method [OF decl])
  have rep: "cfg_rep img ?d s0 f ?c s0"
    using started_rep [OF pm runtime(1,3) f] compiled_entry(1) [of sem slot ss m] by (simp add: compiled s0)
  have void: "returns_nothing img (frame_of f s0) ?is"
    using decl(1) by (simp add: returns_nothing_def returns_void_def s0 compiled declared_entry_def)
  have "\<exists>t. run_code img n (BodyLoop f (decoder_at ?is 0)) s0
      = Ret (decoder_at ?is (code_length ?is)) (set_frame f (ends_with EndOfInstructions) t)
    \<and> prim_rep img ?d s0 f [] locs t" if "k < n" for n
    using run_code_simulates [OF runtime(1,2) method_code_ok void run rep that]
    by (simp add: result_matches_def start_cfg_def)
  with at show ?thesis by (intro exI [of _ k]) blast
qed

text \<open>\<^verbatim>\<open>VirtualMachine::Run\<close>.\<close>

lemma Run_traps:
  assumes pm: "prim_method img (img_methods img method) is" and ok: "primitives_ok img" "allocator_ok img"
    and ready: "ready_to_run img method s"
    and run: "run_cfg (img_double img) (entry_depth (img_methods img method)) is k (entry_cfg (img_methods img method))
      = Some Trapped" and n: "k < n"
  shows "Run img n method s = Undefined"
  using InvokeMethodInternal_prim [OF pm ok started_rep [OF pm ok(1) ready refl] _ run n]
  unfolding Run_unfold [OF pm ok(1) ready] Let_def by (simp add: andThen_def)

lemma compiled_method_runs:
  assumes compiled: "img_methods img method = compiled_method sem slot ss m"
    and ok: "program_ok slot ss" "has_slots slot ss (unat (GetEvalStackLocalsCount m))"
    and decl: "declared_entry img m" "eval_capacity (compiled_method sem slot ss m) < 2 ^ 32"
    and runtime: "primitives_ok img" "allocator_ok img" "ready_to_run img method s"
    and source: "exec (img_double img) fuel (Many ss) (\<lambda>_. None) = Some y"
  shows "\<exists>k. \<forall>n>k. case y of
      Gives fs \<Rightarrow> \<exists>t. Run img n method s = Ret () t \<and> unchanged_but (entry_frame img method s) s t
                    \<and> IsNullInstance (vm_UnhandledException t)
    | Threw x \<Rightarrow> \<exists>t. Run img n method s = Throw x t \<and> vm_CallStack t = vm_CallStack s @ [entry_frame img method s]
    | Crashed \<Rightarrow> Run img n method s = Undefined"
proof -
  let ?is = "method_code slot ss" and ?d = "entry_depth (img_methods img method)"
  have depth: "block_depth ss \<le> ?d" using ok(1) compiled_entry(2) [of ss sem slot m] by (simp add: compiled program_ok_def)
  have pm: "prim_method img (img_methods img method) ?is" unfolding compiled by (rule compiled_prim_method [OF decl])
  from program_ends [OF ok depth source] obtain r k where r: "result_of slot ss y r"
    and run: "run_cfg (img_double img) ?d ?is k (entry_cfg (img_methods img method)) = Some r"
    unfolding compiled compiled_entry(1) by blast
  show ?thesis
  proof (cases y)
    case (Gives fs)
    with r run Run_halts [OF pm runtime(1-3)] show ?thesis by (auto simp: result_of_def intro!: exI [of _ k])
  next
    case (Threw x)
    with r run have "run_cfg (img_double img) ?d ?is k (entry_cfg (img_methods img method)) = Some (Failed x)"
      by (simp add: result_of_def)
    from Run_fails [OF pm runtime this] Threw show ?thesis by (intro exI [of _ k]) fastforce
  next
    case Crashed
    with r run have "run_cfg (img_double img) ?d ?is k (entry_cfg (img_methods img method)) = Some Trapped"
      by (simp add: result_of_def)
    from Run_traps [OF pm runtime this] Crashed show ?thesis by (intro exI [of _ k]) simp
  qed
qed

end
