(* ===== verification/CompilerProperties.thy ===== *)
theory CompilerProperties
  imports CompiledMethods ExamplePrograms
begin

text \<open>
  Properties of code generation, alone and together with the virtual machine that runs the code.
\<close>

section \<open>An example\<close>

text \<open>The sum of the numbers from two down to one, in a method with two integer variables.\<close>

definition sum_program :: "stm list" where
  "sum_program =
     [SDeclare 1 (EInt 2), SDeclare 2 (EInt 0),
      SWhile True (EBinary GreaterOperator (EVar 1) (EInt 0))
        [SAssign 2 (EBinary AddOperator (EVar 2) (EVar 1)),
         SAssign 1 (EBinary SubOperator (EVar 1) (EInt 1))]]"

definition sum_slot :: "ptr \<Rightarrow> u16" where
  "sum_slot x = (if x = 2 then 1 else 0)"

definition declared_method :: MethodSymbol where
  "declared_method = (entry_method [])\<lparr>me_MaxEvalDepth := 0, me_EvalSlotPayload := 0, me_IsComplete := False\<rparr>"

definition example_symbols :: bound_symbols where
  "example_symbols =
     \<lparr>sem_types = small_types, sem_fields = img_fields small_image, sem_IsEnumValue = (\<lambda>_. False),
      sem_properties = (\<lambda>_. \<lparr>prp_BackingField = 0, prp_Getter = 0, prp_Setter = 0\<rparr>),
      sem_members = (\<lambda>_. \<lparr>mem_Name = L ''Sum'', mem_IsPublic = True, mem_IsAsync = False,
                          mem_AsyncStateMachineClass = 0, mem_Parents = []\<rparr>),
      sem_AnonymousSymbol = (\<lambda>_. 0), sem_ParameterSlot = (\<lambda>_. 0), sem_VariableType = (\<lambda>_. 0),
      sem_Kind = (\<lambda>_. PartK StatementsBlock), sem_Void = pr_Void small_Primitives, sem_Any = 0,
      sem_Integer = pr_Integer small_Primitives, sem_Boolean = pr_Boolean small_Primitives,
      sem_Char = pr_Char small_Primitives, sem_Double = pr_Double small_Primitives, sem_IntegerArray = 0,
      sem_GetEnumerator = 0, sem_MoveNext = 0, sem_CurrentGet = 0\<rparr>"

definition fresh_emitter :: AbstractEmiter where
  "fresh_emitter =
     \<lparr>em_methods = (\<lambda>_. declared_method), em_SlotIndex = sum_slot, em_DataSection = [], em_EntryPoint = 0,
      em_Diagnostics = [], em_EvalTracker = EvalLayoutTracker_new, em_GeneratingFor = 0, em_EntryPointCandidates = [],
      em_PopExpressionStatement = True, em_Loops = [], em_Clauses = [], em_DeferScopes = []\<rparr>"

lemma sum_program_ok: "list_all (stm_ok False) sum_program" "list_all agrees sum_program"
  by (simp_all add: sum_program_def math_of_def)

lemma sum_vars: "block_vars sum_program = {1, 2}"
  by (auto simp: block_vars_def sum_program_def)

lemma sum_code: "method_code sum_slot sum_program = loop_program @ [Instruction (Co RETURN) []]"
  by (simp add: method_code_def sum_program_def sum_slot_def loop_program_def math_of_def load_local_def store_local_def
      close_loop_def exit_jump_def jump_instruction_def Let_def items_size_def item_size_def)

lemma sum_depth: "block_depth sum_program = 2"
  by (simp add: block_depth_def sum_program_def)

lemma sum_program_well: "program_ok sum_slot sum_program" "has_slots sum_slot sum_program 2"
  by (simp_all add: program_ok_def sum_program_ok sum_vars sum_depth has_slots_def sum_slot_def inj_on_def sum_code loop_size)

lemma fresh_emitter_rest: "at_rest fresh_emitter" "me_ExecutableByteCode (em_methods fresh_emitter 1) = []"
  by (simp_all add: at_rest_def fresh_emitter_def declared_method_def)

lemma small_boolean:
  "small_types (pr_Boolean small_Primitives) = struct_primitive 1" "pr_Boolean small_Primitives \<noteq> nullptr"
  by (simp_all add: small_types_def small_Primitives_def ResolvePrimitives_def)

lemma example_payload:
  "PrimitivePayload example_symbols sem_Integer = 8" "PrimitivePayload example_symbols sem_Boolean = 1"
  by (simp_all add: ResolveTypePayload_def example_symbols_def IsReferenceType_def GetInlineSize_def small_boolean)

lemma declared_payload: "SlotPayload (sem_types example_symbols) declared_method (sum_slot x) = 8"
  by (simp add: SlotPayload_def Let_def declared_method_def GetEvalStackArgumentsCount_def sum_slot_def integer_slot_def
      ResolveTypePayload_def example_symbols_def IsReferenceType_def GetInlineSize_def)

lemma sum_compiled:
  "compiled_method example_symbols sum_slot sum_program declared_method = entry_method (method_code sum_slot sum_program)"
proof -
  have "block_payload example_symbols (\<lambda>x. 8) sum_program = 8"
    by (simp add: block_payload_def sum_program_def example_payload operator_payload_def IsLogicalComparisonToken_def)
  then show ?thesis
    by (simp add: compiled_method_def sum_depth declared_payload) (simp add: declared_method_def entry_method_def small_method_def)
qed

lemma sum_declared: "declared_entry (entry_image is) declared_method"
proof -
  have "ResolveSlotType declared_method i [] = ResolveSlotType (entry_method []) i []" for i
    by (simp add: ResolveSlotType_def declared_method_def GetEvalStackArgumentsCount_def Let_def)
  moreover have "local_slots declared_method = local_slots (entry_method [])" "return_stride img declared_method = return_stride img (entry_method [])" for img
    by (simp_all add: local_slots_def return_stride_def declared_method_def GetEvalStackLocalsCount_def GetEvalStackArgumentsCount_def)
  moreover have "return_stride (entry_image is) (entry_method []) = 8"
    using entry_layout(2) [of "is"] by (simp add: return_stride_def)
  ultimately show ?thesis
    by (simp add: declared_entry_def prim_slot_type_def) (simp add: declared_method_def)
qed

lemma exec_numeral: "exec D (numeral k) code \<sigma> = exec_round D (exec D (pred_numeral k)) code \<sigma>"
  by (simp add: numeral_eq_Suc)

lemma sum_executes:
  "exec small_double 12 (Many sum_program) (\<lambda>_. None) = Some (Gives (Normal, [2 \<mapsto> VInt 3, 1 \<mapsto> VInt 0]))"
  by (simp add: sum_program_def exec_numeral in_sequence_def assign_def branch_def iteration_def test_def read_variable_def
      apply_binary_def boxless_operators_def machine_binary_def arith_def the_int_def word_sless_alt fun_upd_twist)

section \<open>Code generation\<close>

text \<open>
  The symbol \<open>method\<close> of the running image is the one the emitter has left after the declaration of a
  method with the body \<open>ss\<close>.
\<close>

definition emitted_method :: "bound_symbols \<Rightarrow> AbstractEmiter \<Rightarrow> ptr \<Rightarrow> stm list \<Rightarrow> image \<Rightarrow> bool" where
  "emitted_method sem e method ss img \<longleftrightarrow>
     method \<noteq> nullptr \<and> \<not> mem_IsAsync (sem_members sem method) \<and> at_rest e \<and>
     me_ExecutableByteCode (em_methods e method) = [] \<and>
     (\<exists>e'. VisitMethodDeclaration sem method (block_of ss) e = Emitted e' \<and> img_methods img method = em_methods e' method)"

text \<open>
  C3: the emitter's visit of a method declaration. For a body of declarations, assignments, conditional
  chains, loops with \<^verbatim>\<open>break\<close> and \<^verbatim>\<open>continue\<close>, and \<^verbatim>\<open>return\<close> over literals, variables, operators, steps by
  one and conditional expressions, every jump that was written with the target zero and patched later
  ends up with the address the code of the construct determines, the method's code is exactly the
  instructions \<open>method_code\<close> lists with a final \<^verbatim>\<open>RETURN\<close>, the published layout is complete and has the
  depth and the payload of the body, and no other method changes.
\<close>

theorem emitter_generates_code:
  assumes "list_all (stm_ok False) ss" "method \<noteq> nullptr" "\<not> mem_IsAsync (sem_members sem method)" "at_rest e"
    and "me_ExecutableByteCode (em_methods e method) = []"
  shows "\<exists>e'. VisitMethodDeclaration sem method (block_of ss) e = Emitted e' \<and>
    em_methods e' = (em_methods e)(method := (em_methods e method)\<lparr>
      me_ExecutableByteCode := program_bytes (method_code (em_SlotIndex e) ss),
      me_MaxEvalDepth := block_depth ss mod 2 ^ 32,
      me_EvalSlotPayload := (if 0 < block_depth ss
        then max (block_payload sem (\<lambda>x. SlotPayload (sem_types sem) (em_methods e method) (em_SlotIndex e x)) ss) 1 else 0),
      me_IsComplete := True\<rparr>)"
  using VisitMethodDeclaration_compiles [OF assms refl] by (auto simp: compiled_method_def)

theorem emitter_generates_code_witness:
  "\<exists>e'. VisitMethodDeclaration example_symbols 1 (block_of sum_program) fresh_emitter = Emitted e' \<and>
     me_ExecutableByteCode (em_methods e' 1) = program_bytes (loop_program @ [Instruction (Co RETURN) []]) \<and>
     me_MaxEvalDepth (em_methods e' 1) = 2 \<and> me_IsComplete (em_methods e' 1)"
  using emitter_generates_code [OF sum_program_ok(1), of 1 example_symbols fresh_emitter] fresh_emitter_rest
  by (auto simp: example_symbols_def sum_depth) (simp_all add: fresh_emitter_def sum_code)

section \<open>Compiled programs\<close>

lemma emitted_compiled:
  assumes "emitted_method sem e method ss img" "program_ok (em_SlotIndex e) ss"
  shows "img_methods img method = compiled_method sem (em_SlotIndex e) ss (em_methods e method)"
proof -
  from assms(2) have "list_all (stm_ok False) ss" by (simp add: program_ok_def)
  from VisitMethodDeclaration_compiles [OF this _ _ _ _ refl, of "method" sem e] assms(1)
  show ?thesis by (auto simp: emitted_method_def)
qed

text \<open>
  C2: what is compiled computes what the source means, for bodies without \<^verbatim>\<open>continue\<close> in a \<^verbatim>\<open>for\<close> loop and
  without steps by one inside an expression. When the source semantics ends normally with a
  store, then with enough fuel the interpreter's loop, on the frame that \<^verbatim>\<open>Run\<close> makes for the emitted
  method, reaches the end of the code with an empty stack and that store in the frame's locals. The
  depth the emitter has published is enough for the frame.
\<close>

theorem compiled_code_computes:
  assumes "emitted_method sem e method ss img" "program_ok (em_SlotIndex e) ss"
    and "has_slots (em_SlotIndex e) ss (unat (GetEvalStackLocalsCount (em_methods e method)))"
    and "declared_entry img (em_methods e method)" "eval_capacity (img_methods img method) < 2 ^ 32"
    and "primitives_ok img" "allocator_ok img" "ready_to_run img method s"
    and "exec (img_double img) fuel (Many ss) (\<lambda>_. None) = Some (Gives (flow, \<sigma>))"
    and "f = entry_frame img method s" "s0 = entered img method f (started s)"
  shows "\<exists>k. \<forall>n>k. \<exists>t locs. run_code img n (BodyLoop f (decoder_at (method_code (em_SlotIndex e) ss) 0)) s0
      = Ret (decoder_at (method_code (em_SlotIndex e) ss) (code_length (method_code (em_SlotIndex e) ss)))
          (set_frame f (ends_with EndOfInstructions) t)
    \<and> prim_rep img (entry_depth (img_methods img method)) s0 f [] locs t \<and> placed (em_SlotIndex e) (block_vars ss) \<sigma> locs"
  using compiled_body_runs [OF emitted_compiled [OF assms(1,2)] assms(2,3,4) _ assms(6-11)] assms(5)
    emitted_compiled [OF assms(1,2)] by simp

lemma example_select [simp]:
  "mem_IsAsync (sem_members example_symbols x) = False" "em_SlotIndex fresh_emitter = sum_slot"
  "em_methods fresh_emitter x = declared_method" "GetEvalStackLocalsCount declared_method = 2"
  "me_ExecutableByteCode declared_method = []"
  by (simp_all add: example_symbols_def fresh_emitter_def declared_method_def GetEvalStackLocalsCount_def
      GetEvalStackArgumentsCount_def entry_method_def small_method_def)

lemma sum_emitted: "emitted_method example_symbols fresh_emitter 1 sum_program (entry_image (method_code sum_slot sum_program))"
  using VisitMethodDeclaration_compiles [OF sum_program_ok(1), of 1 example_symbols fresh_emitter, OF _ _ fresh_emitter_rest refl]
  by (auto simp: emitted_method_def fresh_emitter_rest sum_compiled)

theorem compiled_code_computes_witness:
  "\<exists>k. \<forall>n>k. \<exists>t locs.
     run_code (entry_image (method_code sum_slot sum_program)) n (BodyLoop 4096 (decoder_at (method_code sum_slot sum_program) 0))
         (entered (entry_image (method_code sum_slot sum_program)) 1 4096 (started small_vm))
       = Ret (decoder_at (method_code sum_slot sum_program) 100) (set_frame 4096 (ends_with EndOfInstructions) t) \<and>
     prim_rep (entry_image (method_code sum_slot sum_program)) 8
       (entered (entry_image (method_code sum_slot sum_program)) 1 4096 (started small_vm)) 4096 [] locs t \<and>
     placed sum_slot {1, 2} [2 \<mapsto> VInt 3, 1 \<mapsto> VInt 0] locs"
proof -
  let ?img = "entry_image (method_code sum_slot sum_program)"
  have frame: "4096 = entry_frame ?img 1 small_vm"
    by (simp add: entry_frame_def entry_layout bump_alloc_def small_vm_def)
  have size: "code_length (method_code sum_slot sum_program) = 100" by (simp add: sum_code loop_size)
  have "exec (img_double ?img) 12 (Many sum_program) (\<lambda>_. None) = Some (Gives (Normal, [2 \<mapsto> VInt 3, 1 \<mapsto> VInt 0]))"
    by (simp add: sum_executes)
  from compiled_code_computes [OF sum_emitted _ _ _ _ _ _ _ this frame refl] show ?thesis
    by (simp add: sum_program_well sum_declared entry_image_ok entry_ready entry_layout sum_vars size entry_depth_at)
qed

text \<open>
  C1: a program that is compiled and run ends as its source says, if it has no \<^verbatim>\<open>continue\<close> in a \<^verbatim>\<open>for\<close> loop and
  no \<^verbatim>\<open>++\<close> or \<^verbatim>\<open>--\<close> inside an expression (for both the code does something else). When the source semantics ends at
  all, \<^verbatim>\<open>VirtualMachine::Run\<close> on the emitted method ends, for all large enough fuel: it returns and leaves
  the machine as it was, or throws the exception of the source, or is undefined where the source is.
\<close>

theorem compiled_program_runs:
  assumes "emitted_method sem e method ss img" "program_ok (em_SlotIndex e) ss"
    and "has_slots (em_SlotIndex e) ss (unat (GetEvalStackLocalsCount (em_methods e method)))"
    and "declared_entry img (em_methods e method)" "eval_capacity (img_methods img method) < 2 ^ 32"
    and "primitives_ok img" "allocator_ok img" "ready_to_run img method s"
    and "exec (img_double img) fuel (Many ss) (\<lambda>_. None) = Some y"
  shows "\<exists>k. \<forall>n>k. case y of
      Gives fs \<Rightarrow> \<exists>t. Run img n method s = Ret () t \<and> unchanged_but (entry_frame img method s) s t
                    \<and> IsNullInstance (vm_UnhandledException t)
    | Threw x \<Rightarrow> \<exists>t. Run img n method s = Throw x t \<and> vm_CallStack t = vm_CallStack s @ [entry_frame img method s]
    | Crashed \<Rightarrow> Run img n method s = Undefined"
  using compiled_method_runs [OF emitted_compiled [OF assms(1,2)] assms(2,3,4) _ assms(6-9)] assms(5)
    emitted_compiled [OF assms(1,2)] by simp

theorem compiled_program_runs_witness:
  "\<exists>k. \<forall>n>k. \<exists>t. Run (entry_image (method_code sum_slot sum_program)) n 1 small_vm = Ret () t \<and>
     unchanged_but (entry_frame (entry_image (method_code sum_slot sum_program)) 1 small_vm) small_vm t \<and>
     IsNullInstance (vm_UnhandledException t)"
proof -
  let ?img = "entry_image (method_code sum_slot sum_program)"
  have "exec (img_double ?img) 12 (Many sum_program) (\<lambda>_. None) = Some (Gives (Normal, [2 \<mapsto> VInt 3, 1 \<mapsto> VInt 0]))"
    by (simp add: sum_executes)
  from compiled_program_runs [OF sum_emitted _ _ _ _ _ _ _ this, of small_vm] show ?thesis
    by (simp add: sum_program_well sum_declared entry_image_ok entry_ready entry_layout)
qed

section \<open>Steps by one\<close>

lemma step_leads_to:
  assumes "code_at is a (compile_exp slot (EStep x increment right) a)" "placed slot X \<sigma> locs" "x \<in> X" "length stk + 3 \<le> depth"
    and "\<sigma> x = Some p" "apply_binary D (if increment then AddOperator else SubOperator) p (VInt 1) = Some (Gives q)"
  shows "\<exists>locs'. leads D depth is (cfg a stk locs) (cfg (a + 22) (stk @ [if right then q else p]) locs') \<and>
    placed slot X (\<sigma>(x \<mapsto> q)) locs'"
proof -
  have "runs D depth is (cfg a stk locs) (eval D (EStep x increment (\<not> right)) \<sigma>)
      (value_at slot X (a + code_length (step_code (slot x) increment right)) stk)"
    using assms(1-4) by (intro step_runs) simp_all
  moreover have "code_length (step_code (slot x) increment right) = 22" by (simp add: step_code_def Let_def)
  moreover have "eval D (EStep x increment (\<not> right)) \<sigma> = Some (Gives (if right then q else p, \<sigma>(x \<mapsto> q)))"
    using assms(5,6) by (simp add: read_variable_def)
  ultimately show ?thesis by (auto simp: runs_Gives_iff value_at_def)
qed

text \<open>
  C38: The two forms of a step by one are exchanged. \<open>right\<close> is the member \<^verbatim>\<open>IsRightDetermined\<close>, which the parser
  sets for a step written after the variable. In the source \<^verbatim>\<open>x++\<close> gives the old value of \<open>x\<close> and \<^verbatim>\<open>++x\<close> the new
  one, and likewise for \<^verbatim>\<open>--\<close>; the code the emitter generates, in any program and on any stack, leaves the new
  value for \<^verbatim>\<open>x++\<close> and the old one for \<^verbatim>\<open>++x\<close>. Both store the new value.
\<close>

theorem steps_exchanged:
  assumes "x \<noteq> nullptr" "generating slot e"
    and "code_at is a (compile_exp slot (EStep x increment right) (code_size e))"
    and "placed slot X \<sigma> locs" "x \<in> X" "length stk + 3 \<le> depth"
    and "\<sigma> x = Some p" "apply_binary D (if increment then AddOperator else SubOperator) p (VInt 1) = Some (Gives q)"
  shows "eval D (EStep x increment right) \<sigma> = Some (Gives (if right then p else q, \<sigma>(x \<mapsto> q))) \<and>
    (\<exists>payload. VisitExpression sem (expression_of (EStep x increment right)) e
       = Emitted (advance (map Fixed (compile_exp slot (EStep x increment right) (code_size e))) 1 (if right then 2 else 3) payload e)) \<and>
    (\<exists>locs'. leads D depth is (cfg a stk locs) (cfg (a + 22) (stk @ [if right then q else p]) locs') \<and>
       placed slot X (\<sigma>(x \<mapsto> q)) locs')"
proof (intro conjI)
  show "eval D (EStep x increment right) \<sigma> = Some (Gives (if right then p else q, \<sigma>(x \<mapsto> q)))"
    using assms(7,8) by (simp add: read_variable_def)
  show "\<exists>payload. VisitExpression sem (expression_of (EStep x increment right)) e
       = Emitted (advance (map Fixed (compile_exp slot (EStep x increment right) (code_size e))) 1 (if right then 2 else 3) payload e)"
    unfolding visits_step [OF assms(1,2)] compile_exp.simps by blast
  have "code_at is a (compile_exp slot (EStep x increment right) a)" using assms(3) by simp
  from step_leads_to [OF this assms(4-8)]
  show "\<exists>locs'. leads D depth is (cfg a stk locs) (cfg (a + 22) (stk @ [if right then q else p]) locs') \<and>
       placed slot X (\<sigma>(x \<mapsto> q)) locs'" .
qed

text \<open>\<^verbatim>\<open>x++\<close> on five: the source says five, the machine says six.\<close>

theorem steps_exchanged_witness:
  "eval small_double (EStep 1 True True) [1 \<mapsto> VInt 5] = Some (Gives (VInt 5, [1 \<mapsto> VInt 6])) \<and>
   (\<exists>locs'. leads small_double 3 (step_code 0 True True) (cfg 0 [] [Some (VInt 5)]) (cfg 22 [VInt 6] locs'))"
proof -
  let ?e = "fresh_emitter\<lparr>em_GeneratingFor := 1\<rparr>"
  have g: "generating sum_slot ?e" by (simp add: generating_def fresh_emitter_def)
  have at: "code_at (step_code 0 True True) 0 (compile_exp sum_slot (EStep 1 True True) (code_size ?e))"
    unfolding code_at_def by (rule exI [of _ "[]"], rule exI [of _ "[]"]) (simp add: sum_slot_def)
  have placed: "placed sum_slot {1} [1 \<mapsto> VInt 5] [Some (VInt 5)]" by (simp add: placed_def sum_slot_def)
  have sum: "apply_binary small_double (if True then AddOperator else SubOperator) (VInt 5) (VInt 1) = Some (Gives (VInt 6))"
    by (simp add: apply_binary_def boxless_operators_def machine_binary_def arith_def the_int_def)
  from steps_exchanged [OF _ g at placed, of "[]" 3 "VInt 5" small_double "VInt 6" example_symbols] sum
  show ?thesis by auto
qed

section \<open>Continue in a for loop\<close>

definition continue_program :: "stm list" where
  "continue_program =
     [SFor (SDeclare 1 (EInt 0)) (EBinary LessOperator (EVar 1) (EInt 1))
        (SAssign 1 (EBinary AddOperator (EVar 1) (EInt 1))) [SContinue]]"

definition continue_code :: "Instruction list" where
  "continue_code =
     [Instruction (Ko LOADCONST_INTEGER64) [U64 0], Instruction (Ko STORE_LOCAL) [U16 0],
      Instruction (Ko LOAD_LOCAL) [U16 0], Instruction (Ko LOADCONST_INTEGER64) [U64 1],
      Instruction (Mo COMPARE_LESS) [], Instruction (Co JUMP_FALSE) [U64 80],
      Instruction (Co JUMP) [U64 70],
      Instruction (Ko LOAD_LOCAL) [U16 0], Instruction (Ko LOADCONST_INTEGER64) [U64 1],
      Instruction (Mo MATH_ADDITION) [], Instruction (Ko STORE_LOCAL) [U16 0],
      Instruction (Co JUMP) [U64 14], Instruction (Co RETURN) []]"

lemma continue_code: "method_code sum_slot continue_program = continue_code"
  by (simp add: method_code_def continue_program_def continue_code_def sum_slot_def math_of_def load_local_def store_local_def
      close_loop_def exit_jump_def jump_instruction_def Let_def items_size_def item_size_def)

lemma run_cfg_mono: "run_cfg D depth is k c = Some r \<Longrightarrow> k \<le> j \<Longrightarrow> run_cfg D depth is j c = Some r"
proof (induction k arbitrary: c j)
  case (Suc k)
  then obtain j' where "j = Suc j'" "k \<le> j'" by (cases j) auto
  with Suc show ?case by (auto split: if_splits prim_step.splits)
qed simp

lemma cycle_never_ends:
  assumes "run_cfg D depth is (Suc k) c = None" "\<And>j. run_cfg D depth is (Suc k + j) c = run_cfg D depth is j c"
  shows "run_cfg D depth is j c = None"
proof (rule ccontr)
  assume "run_cfg D depth is j c \<noteq> None"
  then obtain r where r: "run_cfg D depth is j c = Some r" by auto
  have "run_cfg D depth is (m * Suc k) c = None" for m
  proof (induction m)
    case (Suc m)
    have "Suc m * Suc k = Suc k + m * Suc k" by simp
    with Suc assms(2) [of "m * Suc k"] show ?case by (simp only:)
  qed simp
  with run_cfg_mono [OF r, of "j * Suc k"] show False by simp
qed

lemma continue_fetch:
  "instruction_at continue_code 0 = Some (Instruction (Ko LOADCONST_INTEGER64) [U64 0])"
  "instruction_at continue_code 10 = Some (Instruction (Ko STORE_LOCAL) [U16 0])"
  "instruction_at continue_code 14 = Some (Instruction (Ko LOAD_LOCAL) [U16 0])"
  "instruction_at continue_code 18 = Some (Instruction (Ko LOADCONST_INTEGER64) [U64 1])"
  "instruction_at continue_code 28 = Some (Instruction (Mo COMPARE_LESS) [])"
  "instruction_at continue_code 30 = Some (Instruction (Co JUMP_FALSE) [U64 80])"
  "instruction_at continue_code 40 = Some (Instruction (Co JUMP) [U64 70])"
  "instruction_at continue_code 70 = Some (Instruction (Co JUMP) [U64 14])"
  "code_length continue_code = 82"
  by (simp_all add: continue_code_def)

lemma continue_steps:
  defines "run \<equiv> run_cfg small_double 8 continue_code" and "vs \<equiv> [Some (VInt 0), None]"
  shows "run (Suc j) \<lparr>cf_pc = 0, cf_stack = [], cf_locals = [None, None]\<rparr> = run j \<lparr>cf_pc = 10, cf_stack = [VInt 0], cf_locals = [None, None]\<rparr>"
    "run (Suc j) \<lparr>cf_pc = 10, cf_stack = [VInt 0], cf_locals = [None, None]\<rparr> = run j \<lparr>cf_pc = 14, cf_stack = [], cf_locals = vs\<rparr>"
    "run (Suc j) \<lparr>cf_pc = 14, cf_stack = [], cf_locals = vs\<rparr> = run j \<lparr>cf_pc = 18, cf_stack = [VInt 0], cf_locals = vs\<rparr>"
    "run (Suc j) \<lparr>cf_pc = 18, cf_stack = [VInt 0], cf_locals = vs\<rparr> = run j \<lparr>cf_pc = 28, cf_stack = [VInt 0, VInt 1], cf_locals = vs\<rparr>"
    "run (Suc j) \<lparr>cf_pc = 28, cf_stack = [VInt 0, VInt 1], cf_locals = vs\<rparr> = run j \<lparr>cf_pc = 30, cf_stack = [VBool True], cf_locals = vs\<rparr>"
    "run (Suc j) \<lparr>cf_pc = 30, cf_stack = [VBool True], cf_locals = vs\<rparr> = run j \<lparr>cf_pc = 40, cf_stack = [], cf_locals = vs\<rparr>"
    "run (Suc j) \<lparr>cf_pc = 40, cf_stack = [], cf_locals = vs\<rparr> = run j \<lparr>cf_pc = 70, cf_stack = [], cf_locals = vs\<rparr>"
    "run (Suc j) \<lparr>cf_pc = 70, cf_stack = [], cf_locals = vs\<rparr> = run j \<lparr>cf_pc = 14, cf_stack = [], cf_locals = vs\<rparr>"
  unfolding run_def vs_def run_cfg.simps(2)
  by (simp_all add: continue_fetch program_run_simps arith_def the_int_def word_sless_alt)

lemma continue_never_ends:
  "run_cfg small_double 8 continue_code k \<lparr>cf_pc = 0, cf_stack = [], cf_locals = [None, None]\<rparr> = None"
proof -
  let ?run = "run_cfg small_double 8 continue_code" and ?c = "\<lparr>cf_pc = 14, cf_stack = [], cf_locals = [Some (VInt 0), None]\<rparr>"
  have turn: "?run (Suc (Suc (Suc (Suc (Suc (Suc 0))))) + j) ?c = ?run j ?c" for j
    by (simp only: add_Suc add_0 continue_steps)
  have loop: "?run j ?c = None" for j
  proof (rule cycle_never_ends [of small_double 8 continue_code "Suc (Suc (Suc (Suc (Suc 0))))" ?c])
    show "?run (Suc (Suc (Suc (Suc (Suc (Suc 0)))))) ?c = None" using turn [of 0] by (simp only: add_0_right run_cfg.simps(1))
  qed (rule turn)
  consider "k = 0" | "k = 1" | j where "k = Suc (Suc j)" by (cases k; cases "k - 1") auto
  then show ?thesis by cases (simp_all add: One_nat_def continue_steps loop del: run_cfg.simps(2))
qed

text \<open>
  C37: \<^verbatim>\<open>continue\<close> inside a \<^verbatim>\<open>for\<close> loop skips the repeat statement. The loop
  \<^verbatim>\<open>for (i = 0; i < 1; i = i + 1) continue;\<close> ends after one round with \<open>i\<close> equal to one, but the code the
  emitter generates for it goes back to the test without the increment and never ends.
\<close>

theorem continue_skips_repeat:
  "exec small_double 9 (Many continue_program) (\<lambda>_. None) = Some (Gives (Normal, [1 \<mapsto> VInt 1])) \<and>
   (\<exists>e'. VisitMethodDeclaration example_symbols 1 (block_of continue_program) fresh_emitter = Emitted e' \<and>
      me_ExecutableByteCode (em_methods e' 1) = program_bytes continue_code) \<and>
   (\<forall>k. run_cfg small_double 8 continue_code k (entry_cfg declared_method) = None)"
proof (intro conjI allI)
  show "exec small_double 9 (Many continue_program) (\<lambda>_. None) = Some (Gives (Normal, [1 \<mapsto> VInt 1]))"
    by (simp add: continue_program_def exec_numeral in_sequence_def assign_def branch_def iteration_def test_def read_variable_def
        apply_binary_def boxless_operators_def machine_binary_def arith_def the_int_def word_sless_alt)
  have "list_all (stm_ok False) continue_program" by (simp add: continue_program_def math_of_def)
  from VisitMethodDeclaration_compiles [OF this, of 1 example_symbols fresh_emitter, OF _ _ fresh_emitter_rest refl]
  show "\<exists>e'. VisitMethodDeclaration example_symbols 1 (block_of continue_program) fresh_emitter = Emitted e' \<and>
      me_ExecutableByteCode (em_methods e' 1) = program_bytes continue_code"
    by (auto simp: continue_code)
  have "unat (GetEvalStackLocalsCount declared_method) = Suc (Suc 0)" by simp
  then have "entry_cfg declared_method = \<lparr>cf_pc = 0, cf_stack = [], cf_locals = [None, None]\<rparr>"
    unfolding entry_cfg_def by (simp del: example_select)
  then show "run_cfg small_double 8 continue_code k (entry_cfg declared_method) = None" for k
    by (simp only: continue_never_ends)
qed

end
