(* ===== verification/Spec2Isabelle.thy ===== *)
theory Spec2Isabelle
  imports LexerProperties ParserProperties SyntaxFacts Disassembler CodeSections SemanticVersions FlowProperties RuntimeProperties CompilerProperties
begin

text \<open>
  ShardScript is a small object-oriented language with an engine written in C++: a lexer, a recursive
  descent parser, semantic binding, a code generator for a bytecode of its own, and a virtual machine
  with a reference counting collector. This development models the engine (\<^verbatim>\<open>src/ShardScript\<close>) and
  proves that its parts do what the others rely on.

  \<^bold>\<open>The parts and how they interact.\<close> A \<^verbatim>\<open>SourceTextProvider\<close> hands characters to the
  \<^verbatim>\<open>LexicalAnalyzer\<close>, which hands tokens, through the interface \<^verbatim>\<open>SourceProvider\<close> and the
  replayable \<^verbatim>\<open>LexicalBuffer\<close>, to the \<^verbatim>\<open>SourceParser\<close>. The parser consults \<^verbatim>\<open>SyntaxFacts\<close>. Binding
  fills symbols and types into the syntax tree; \<^verbatim>\<open>FlowAnalyzer\<close> checks on the bound tree that methods
  return and collects the exceptions they may throw. \<^verbatim>\<open>AbstractEmiter\<close> visits the bound tree and appends
  instructions, through \<^verbatim>\<open>ByteCodeEncoder\<close>, to the method it generates; jumps are written with
  target zero and patched later, and a tracker follows the height of the evaluation stack and
  publishes the layout of the frame. \<^verbatim>\<open>VirtualMachine::Run\<close> makes a frame of that layout, reads the
  code with \<^verbatim>\<open>ByteCodeDecoder\<close> and executes it on memory that the \<^verbatim>\<open>GarbageCollector\<close> allocates.

  \<^bold>\<open>Theories and sources.\<close>
  \<^item> \<^verbatim>\<open>Prelude\<close>: wide characters, machine words, the named theorem collections.
  \<^item> \<^verbatim>\<open>Tokens\<close>, \<^verbatim>\<open>SourceText\<close>, \<^verbatim>\<open>Lexer\<close>: \<^verbatim>\<open>lexical/TokenType.hpp\<close>,
    \<^verbatim>\<open>StringStreamReader.cpp\<close>, \<^verbatim>\<open>LexicalAnalyzer.cpp\<close>. The lexer's members are the record
    \<open>lexer\<close>, every method a function on it. \<^verbatim>\<open>LexerPosition\<close> shows progress and positions,
    \<^verbatim>\<open>LexerWords\<close> that the word classes are one table, \<^verbatim>\<open>LexerRoundTrip\<close> that printing followed by
    lexing is the identity; \<^verbatim>\<open>LexicalBuffers\<close> has the token interface as a locale with the buffer
    and the lexer as its instances. \<^verbatim>\<open>LexerProperties\<close> states the properties.
  \<^item> \<^verbatim>\<open>SyntaxFacts\<close>: \<^verbatim>\<open>parsing/SyntaxFacts.cpp\<close>, precedences, token classes, operator names.
  \<^item> \<^verbatim>\<open>ParsedTrees\<close>, \<^verbatim>\<open>TokenReading\<close>, \<^verbatim>\<open>ExpressionParsing\<close>, \<^verbatim>\<open>StatementParsing\<close>,
    \<^verbatim>\<open>DeclarationParsing\<close>: \<^verbatim>\<open>parsing/SourceParser.cpp\<close>, every function, on the list of tokens pending at
    its reader; a result is the tree with the diagnostics, the depth counters and the tokens left.
    \<^verbatim>\<open>ExpressionGrammar\<close> has a grammar of expressions with precedences, \<^verbatim>\<open>ParserRoundTrip\<close> shows that
    the parser reads what the grammar derives, \<^verbatim>\<open>ParsingText\<close> goes from the text through the lexer,
    \<^verbatim>\<open>TypeParsing\<close> shows that reading a type returns; \<^verbatim>\<open>ParserProperties\<close> states the properties.
  \<^item> \<^verbatim>\<open>MethodEffects\<close>, \<^verbatim>\<open>FlowAnalysis\<close>, \<^verbatim>\<open>FlowTraversal\<close>: \<^verbatim>\<open>semantic/FlowAnalyzer.cpp\<close> on the bound
    tree, with the traversal of \<^verbatim>\<open>parsing/SyntaxVisitor.cpp\<close>. \<^verbatim>\<open>FlowSoundness\<close> relates flow states to the
    executions of \<^verbatim>\<open>SourceSemantics\<close>, \<^verbatim>\<open>EffectPropagation\<close> characterizes the propagated exception
    types; \<^verbatim>\<open>FlowProperties\<close> states the properties.
  \<^item> \<^verbatim>\<open>OpCodes\<close>, \<^verbatim>\<open>ByteCode\<close>, \<^verbatim>\<open>InstructionEncoding\<close>, \<^verbatim>\<open>CodeSections\<close>, \<^verbatim>\<open>Disassembler\<close>:
    \<^verbatim>\<open>OperationCode.hpp\<close>, \<^verbatim>\<open>ByteCodeEncoder.cpp\<close>, \<^verbatim>\<open>ByteCodeDecoder.cpp\<close>,
    \<^verbatim>\<open>ProgramDisassembler.cpp\<close>. Code is a list of bytes; the round trips say that what one
    side writes the other reads.
  \<^item> \<^verbatim>\<open>Symbols\<close>, \<^verbatim>\<open>Runtime\<close>, \<^verbatim>\<open>ObjectInstances\<close>, \<^verbatim>\<open>GarbageCollection\<close>,
    \<^verbatim>\<open>CallStackFrames\<close>, \<^verbatim>\<open>PrimitiveTypes\<close>, \<^verbatim>\<open>PrimitiveMath\<close>, \<^verbatim>\<open>VirtualMachines\<close>,
    \<^verbatim>\<open>Instructions\<close>: the runtime (\<^verbatim>\<open>src/runtime\<close>) on a byte-addressed memory. The machine is the
    record \<open>vm\<close>; an operation returns a value, throws a C++ exception, is undefined behaviour, or
    runs out of fuel.
  \<^item> \<^verbatim>\<open>EvalStacks\<close>, \<^verbatim>\<open>ValueStacks\<close>, \<^verbatim>\<open>Boxes\<close>, \<^verbatim>\<open>PrimitiveValues\<close>,
    \<^verbatim>\<open>PrimitiveFrames\<close>, \<^verbatim>\<open>FrameLayouts\<close>, \<^verbatim>\<open>PrimitivePrograms\<close>, \<^verbatim>\<open>PrimitiveRuns\<close>,
    \<^verbatim>\<open>TaskOwnership\<close>, \<^verbatim>\<open>ExceptionHandling\<close>: what the runtime does, as refinements. A frame's
    bytes represent a list of values and an array of locals, the interpreter refines a semantics
    over those, frames are never freed while someone holds them; an exception of the script goes to
    the innermost handler of its frame, a C++ exception of an instruction past all handlers.
    \<^verbatim>\<open>RuntimeProperties\<close> and \<^verbatim>\<open>ExamplePrograms\<close> state the properties and instances.
  \<^item> \<^verbatim>\<open>SyntaxTrees\<close>, \<^verbatim>\<open>CodeEmitter\<close>, \<^verbatim>\<open>CodeGeneration\<close>: the bound syntax tree and
    \<^verbatim>\<open>compilation/AbstractEmiter.cpp\<close>. \<^verbatim>\<open>EmittedItems\<close>, \<^verbatim>\<open>SourcePrograms\<close>,
    \<^verbatim>\<open>EmittedStatements\<close> show that the code with patched jumps is the code of a compiler with
    explicit addresses; \<^verbatim>\<open>SourceSemantics\<close> gives programs a meaning; \<^verbatim>\<open>CompiledPrograms\<close>,
    \<^verbatim>\<open>CompiledStatements\<close>, \<^verbatim>\<open>CompiledMethods\<close> and \<^verbatim>\<open>CompilerProperties\<close> show that the code, run by
    the machine, does what the program means.
  \<^item> \<^verbatim>\<open>SemanticVersions\<close>: \<^verbatim>\<open>utilities/SemanticVersion.cpp\<close>.

  \<^bold>\<open>Platform and parameters.\<close> The platform is the first one the project names: 64-bit little-endian,
  16-bit \<^verbatim>\<open>wchar_t\<close>. Signed arithmetic of the runtime wraps around; division overflow, shifts out of
  range and conversions of doubles out of range are undefined and end a run as such. Doubles are
  64-bit patterns with abstract operations. The allocator, native methods, the bytes of a
  frame object and the character classes of the C library are parameters with the documented laws as hypotheses, and the
  witnesses instantiate them. Symbols that other components compute are functions from pointers.

  \<^bold>\<open>Fuel.\<close> Loops of the lexer are total functions with termination proofs or partial functions whose
  termination is a theorem. The parser has fuel for the nesting of its calls and the rounds of its
  loops; its properties give a bound in the number of tokens or the depth of the tree, and \<open>None\<close> is
  besides missing fuel only the one null dereference of a collection. The interpreter has fuel for loop iterations and nesting; the
  properties of \<^verbatim>\<open>Run\<close> hold for all sufficiently large fuel, and say that it returns.

  \<^bold>\<open>Not modelled.\<close> Name lookup and overload resolution and the lowering of async methods (they work on
  the full symbol graph); registration of native callbacks; file input, console,
  package manager, language server and the framework's bindings (input and output, generated or
  vendored code). The correctness of generated code is shown for programs over primitive values;
  \<^verbatim>\<open>!=\<close>, \<^verbatim>\<open><=\<close> and \<^verbatim>\<open>>=\<close>, which leave a boxed value behind, \<^verbatim>\<open>continue\<close> in a \<^verbatim>\<open>for\<close> loop,
  which skips its repeat statement, and \<^verbatim>\<open>++\<close> and \<^verbatim>\<open>--\<close> inside an expression, whose two forms are
  exchanged, are outside; that the code of the last two does something else than the source means is
  proved of them.
\<close>

end
